(* ===== verification/ZasPrelude.thy ===== *)
theory ZasPrelude
  imports Main "HOL-Library.Sublist"
begin

text \<open>
  The prelude of the development: collections of rewrite rules shared by the component
  theories, the result type of code that may raise, and generic facts on lists, options and
  association lists.

  \<^item> \<open>zas_defs\<close>: definitions that a proof about a component usually unfolds;
  \<^item> \<open>zas_text\<close>: facts on the text operations of Python;
  \<^item> \<open>zas_rows\<close>: facts on tables of rows (filter, first, update-or-create).
\<close>

named_theorems zas_defs "definitions of the model that proofs unfold"
named_theorems zas_text "facts on text operations"
named_theorems zas_rows "facts on tables of rows"

section \<open>Results of code that may raise\<close>

text \<open>
  A call that may raise returns \<open>Inl\<close> of the exception or \<open>Inr\<close> of the value.
  \<open>bind_res\<close> sequences two such calls, as two statements of a Python body do;
  \<open>catch_res\<close> is \<^verbatim>\<open>try: ... except Exception\<close>.
\<close>

definition bind_res :: "'e + 'a \<Rightarrow> ('a \<Rightarrow> 'e + 'b) \<Rightarrow> 'e + 'b" where
  "bind_res r f = (case r of Inl e \<Rightarrow> Inl e | Inr x \<Rightarrow> f x)"

definition catch_res :: "'e + 'a \<Rightarrow> ('e \<Rightarrow> 'f + 'a) \<Rightarrow> 'f + 'a" where
  "catch_res r h = (case r of Inl e \<Rightarrow> h e | Inr x \<Rightarrow> Inr x)"

lemma bind_res_simps [simp]:
  "bind_res (Inl e) f = Inl e" "bind_res (Inr x) f = f x"
  by (simp_all add: bind_res_def)

lemma catch_res_simps [simp]:
  "catch_res (Inl e) h = h e" "catch_res (Inr x) h = Inr x"
  by (simp_all add: catch_res_def)

lemma bind_res_eq_Inr:
  "bind_res r f = Inr y \<longleftrightarrow> (\<exists>x. r = Inr x \<and> f x = Inr y)"
  by (cases r) auto

lemma bind_res_eq_Inl:
  "bind_res r f = Inl e \<longleftrightarrow> r = Inl e \<or> (\<exists>x. r = Inr x \<and> f x = Inl e)"
  by (cases r) auto

lemma bind_res_assoc: "bind_res (bind_res r f) g = bind_res r (\<lambda>x. bind_res (f x) g)"
  by (cases r) auto

text \<open>
  A call that may also never return: \<open>None\<close>. \<open>seq_end\<close> sequences two of them.
\<close>

definition seq_end :: "('e + 'a) option \<Rightarrow> ('a \<Rightarrow> ('e + 'b) option) \<Rightarrow> ('e + 'b) option" where
  "seq_end r f = (case r of None \<Rightarrow> None | Some (Inl e) \<Rightarrow> Some (Inl e) | Some (Inr x) \<Rightarrow> f x)"

lemma seq_end_Inr: "seq_end r f = Some (Inr y) \<longleftrightarrow> (\<exists>x. r = Some (Inr x) \<and> f x = Some (Inr y))"
  by (auto simp: seq_end_def split: option.splits sum.splits)

definition is_ok :: "'e + 'a \<Rightarrow> bool" where
  "is_ok r = (case r of Inl _ \<Rightarrow> False | Inr _ \<Rightarrow> True)"

lemma is_ok_simps [simp]: "\<not> is_ok (Inl e)" "is_ok (Inr x)"
  by (simp_all add: is_ok_def)

text \<open>A loop whose body may raise: it stops at the first exception.\<close>

fun fold_res :: "('s \<Rightarrow> 'x \<Rightarrow> 'e + 's) \<Rightarrow> 's \<Rightarrow> 'x list \<Rightarrow> 'e + 's" where
  "fold_res f s [] = Inr s"
| "fold_res f s (x # xs) = bind_res (f s x) (\<lambda>s'. fold_res f s' xs)"

lemma fold_res_append:
  "fold_res f s (xs @ ys) = bind_res (fold_res f s xs) (\<lambda>s'. fold_res f s' ys)"
  by (induction xs arbitrary: s) (auto simp: bind_res_assoc)

lemma fold_res_invariant:
  assumes "fold_res f s xs = Inr t" and "I s"
    and "\<And>u x v. x \<in> set xs \<Longrightarrow> I u \<Longrightarrow> f u x = Inr v \<Longrightarrow> I v"
  shows "I t"
  using assms
proof (induction xs arbitrary: s)
  case Nil
  then show ?case by simp
next
  case (Cons x xs)
  then obtain u where u: "f s x = Inr u" and rest: "fold_res f u xs = Inr t"
    by (auto simp: bind_res_eq_Inr)
  have "I u" by (rule Cons.prems(3) [OF _ Cons.prems(2) u]) simp
  with rest show ?case
    by (rule Cons.IH) (rule Cons.prems(3), auto)
qed

section \<open>First match and first success\<close>

text \<open>\<^verbatim>\<open>queryset.filter(...).first()\<close> over rows in primary-key order.\<close>

fun first_row :: "('r \<Rightarrow> bool) \<Rightarrow> 'r list \<Rightarrow> 'r option" where
  "first_row p [] = None"
| "first_row p (r # rs) = (if p r then Some r else first_row p rs)"

lemma first_row_Some: "first_row p rs = Some r \<Longrightarrow> r \<in> set rs \<and> p r"
  by (induction rs) (auto split: if_splits)

lemma first_row_None: "first_row p rs = None \<longleftrightarrow> (\<forall>r \<in> set rs. \<not> p r)"
  by (induction rs) auto

lemma first_row_filter: "first_row p (filter q rs) = first_row (\<lambda>r. q r \<and> p r) rs"
  by (induction rs) auto

lemma first_row_append:
  "first_row p (xs @ ys) = (case first_row p xs of Some r \<Rightarrow> Some r | None \<Rightarrow> first_row p ys)"
  by (induction xs) auto

text \<open>The first non-\<open>None\<close> value a function gives on a list.\<close>

fun first_some :: "('a \<Rightarrow> 'b option) \<Rightarrow> 'a list \<Rightarrow> 'b option" where
  "first_some f [] = None"
| "first_some f (x # xs) = (case f x of Some y \<Rightarrow> Some y | None \<Rightarrow> first_some f xs)"

lemma first_some_Some: "first_some f xs = Some y \<Longrightarrow> \<exists>x \<in> set xs. f x = Some y"
  by (induction xs) (auto split: option.splits)

lemma first_some_None: "first_some f xs = None \<longleftrightarrow> (\<forall>x \<in> set xs. f x = None)"
  by (induction xs) (auto split: option.splits)

section \<open>Insertion-ordered dictionaries\<close>

text \<open>
  A Python \<^verbatim>\<open>dict\<close> keeps its keys in the order of their first insertion.
  It is an association list without duplicate keys; \<open>dict_put\<close> is \<^verbatim>\<open>d[k] = v\<close>.
\<close>

fun dict_put :: "'k \<Rightarrow> 'v \<Rightarrow> ('k \<times> 'v) list \<Rightarrow> ('k \<times> 'v) list" where
  "dict_put k v [] = [(k, v)]"
| "dict_put k v ((k', v') # d) = (if k = k' then (k', v) # d else (k', v') # dict_put k v d)"

lemma dict_put_nonempty [simp]: "dict_put k v d \<noteq> []"
  by (cases d) (auto split: if_splits)

lemma map_of_dict_put [simp, zas_rows]: "map_of (dict_put k v d) = (map_of d)(k \<mapsto> v)"
  by (induction d) (auto simp: fun_eq_iff)

lemma keys_dict_put [zas_rows]: "set (map fst (dict_put k v d)) = insert k (set (map fst d))"
  by (induction k v d rule: dict_put.induct) auto

lemma distinct_dict_put [zas_rows]:
  "distinct (map fst d) \<Longrightarrow> distinct (map fst (dict_put k v d))"
proof (induction d)
  case (Cons kv d)
  then show ?case
    by (cases kv) (use keys_dict_put [of k v d] in auto)
qed simp

lemma dict_put_in: "(k', v') \<in> set (dict_put k v d) \<Longrightarrow> (k', v') = (k, v) \<or> (k', v') \<in> set d"
  by (induction d) (auto split: if_splits)

section \<open>Lists without repetition\<close>

lemma distinct_filter_map: "distinct (map f xs) \<Longrightarrow> distinct (map f (filter p xs))"
  by (simp add: distinct_map_filter)

lemma map_of_filter_key:
  "map_of (filter (\<lambda>(k, v). p k) d) k = (if p k then map_of d k else None)"
  by (induction d) auto

end
