(* ===== verification/PyText.thy ===== *)
theory PyText
  imports ZasPrelude
begin

text \<open>
  The operations of Python's \<^verbatim>\<open>str\<close> that the program calls, on ASCII text: a
  \<^verbatim>\<open>str\<close> is a list of characters with code below 128, for which case conversion,
  white space, digits and line ends are exactly those of the language reference. The
  functions are total on all 8-bit characters and leave codes from 128 on alone.
\<close>

section \<open>Characters\<close>

abbreviation code :: "char \<Rightarrow> nat" where
  "code c \<equiv> of_char c"

definition char_lower :: "char \<Rightarrow> char" where
  "char_lower c = (if 65 \<le> code c \<and> code c \<le> 90 then char_of (code c + 32) else c)"

definition char_upper :: "char \<Rightarrow> char" where
  "char_upper c = (if 97 \<le> code c \<and> code c \<le> 122 then char_of (code c - 32) else c)"

definition is_digit :: "char \<Rightarrow> bool" where
  "is_digit c \<longleftrightarrow> 48 \<le> code c \<and> code c \<le> 57"

definition is_alpha :: "char \<Rightarrow> bool" where
  "is_alpha c \<longleftrightarrow> (65 \<le> code c \<and> code c \<le> 90) \<or> (97 \<le> code c \<and> code c \<le> 122)"

definition is_alnum :: "char \<Rightarrow> bool" where
  "is_alnum c \<longleftrightarrow> is_alpha c \<or> is_digit c"

text \<open>\<^verbatim>\<open>str.isspace\<close>: TAB, LF, VT, FF, CR, FS, GS, RS, US and the blank.\<close>

definition is_space :: "char \<Rightarrow> bool" where
  "is_space c \<longleftrightarrow> (9 \<le> code c \<and> code c \<le> 13) \<or> (28 \<le> code c \<and> code c \<le> 32)"

text \<open>The line ends of \<^verbatim>\<open>str.splitlines\<close>: LF, VT, FF, CR, FS, GS, RS.\<close>

definition is_linebreak :: "char \<Rightarrow> bool" where
  "is_linebreak c \<longleftrightarrow> (10 \<le> code c \<and> code c \<le> 13) \<or> (28 \<le> code c \<and> code c \<le> 30)"

definition lower :: "string \<Rightarrow> string" where
  "lower s = map char_lower s"

definition upper :: "string \<Rightarrow> string" where
  "upper s = map char_upper s"

text \<open>The tests on the bits of a character, which is how they are evaluated.\<close>

lemma char_lower_bits [code]:
  "char_lower (Char b0 b1 b2 b3 b4 b5 b6 b7) =
     (if \<not> b7 \<and> b6 \<and> \<not> b5 \<and> (b0 \<or> b1 \<or> b2 \<or> b3 \<or> b4) \<and> \<not> (b4 \<and> b3 \<and> (b2 \<or> (b1 \<and> b0)))
      then Char b0 b1 b2 b3 b4 True b6 b7 else Char b0 b1 b2 b3 b4 b5 b6 b7)"
  by (cases b0; cases b1; cases b2; cases b3; cases b4; cases b5; cases b6; cases b7; simp add: char_lower_def char_of_def bit_0)

lemma char_upper_bits [code]:
  "char_upper (Char b0 b1 b2 b3 b4 b5 b6 b7) =
     (if \<not> b7 \<and> b6 \<and> b5 \<and> (b0 \<or> b1 \<or> b2 \<or> b3 \<or> b4) \<and> \<not> (b4 \<and> b3 \<and> (b2 \<or> (b1 \<and> b0)))
      then Char b0 b1 b2 b3 b4 False b6 b7 else Char b0 b1 b2 b3 b4 b5 b6 b7)"
  by (cases b0; cases b1; cases b2; cases b3; cases b4; cases b5; cases b6; cases b7; simp add: char_upper_def char_of_def bit_0)

lemma is_digit_bits [code]:
  "is_digit (Char b0 b1 b2 b3 b4 b5 b6 b7) \<longleftrightarrow> \<not> b7 \<and> \<not> b6 \<and> b5 \<and> b4 \<and> \<not> (b3 \<and> (b2 \<or> b1))"
  by (cases b0; cases b1; cases b2; cases b3; cases b4; cases b5; cases b6; cases b7; simp add: is_digit_def)

lemma is_space_bits [code]:
  "is_space (Char b0 b1 b2 b3 b4 b5 b6 b7) \<longleftrightarrow> \<not> b7 \<and> \<not> b6 \<and>
     ((\<not> b5 \<and> \<not> b4 \<and> b3 \<and> (if b2 then \<not> b1 else b1 \<or> b0)) \<or> (\<not> b5 \<and> b4 \<and> b3 \<and> b2) \<or>
      (b5 \<and> \<not> b4 \<and> \<not> b3 \<and> \<not> b2 \<and> \<not> b1 \<and> \<not> b0))"
  by (cases b0; cases b1; cases b2; cases b3; cases b4; cases b5; cases b6; cases b7; simp add: is_space_def)

lemma code_char_of: "n < 256 \<Longrightarrow> code (char_of n) = n"
  by simp

lemma code_char_lower:
  "code (char_lower c) = (if 65 \<le> code c \<and> code c \<le> 90 then code c + 32 else code c)"
  by (simp add: char_lower_def)

lemma code_char_upper:
  "code (char_upper c) = (if 97 \<le> code c \<and> code c \<le> 122 then code c - 32 else code c)"
proof (cases "97 \<le> code c \<and> code c \<le> 122")
  case True
  then have "(code c - 32 :: nat) < 256" by linarith
  with True show ?thesis by (simp add: char_upper_def)
qed (auto simp: char_upper_def)

lemma char_eq_code: "c = d \<longleftrightarrow> code c = (code d :: nat)"
  by simp

lemma char_lower_idem [simp, zas_text]: "char_lower (char_lower c) = char_lower c"
  unfolding char_eq_code by (simp only: code_char_lower) auto

lemma char_upper_idem [simp, zas_text]: "char_upper (char_upper c) = char_upper c"
  unfolding char_eq_code by (simp only: code_char_upper) auto

lemma char_upper_lower [simp, zas_text]: "char_upper (char_lower c) = char_upper c"
  unfolding char_eq_code by (simp only: code_char_upper code_char_lower) auto

lemma char_lower_upper [simp, zas_text]: "char_lower (char_upper c) = char_lower c"
  unfolding char_eq_code by (simp only: code_char_upper code_char_lower) auto

lemma is_space_lower [simp, zas_text]: "is_space (char_lower c) = is_space c"
  by (auto simp: is_space_def code_char_lower)

lemma lower_idem [simp, zas_text]: "lower (lower s) = lower s"
  by (simp add: lower_def comp_def)

lemma upper_idem [simp, zas_text]: "upper (upper s) = upper s"
  by (simp add: upper_def comp_def)

lemma lower_upper [simp, zas_text]: "lower (upper s) = lower s"
  by (simp add: lower_def upper_def comp_def)

lemma upper_lower [simp, zas_text]: "upper (lower s) = upper s"
  by (simp add: lower_def upper_def comp_def)

lemma lower_simps [simp]:
  "lower [] = []" "lower (c # s) = char_lower c # lower s" "lower (s @ t) = lower s @ lower t"
  by (simp_all add: lower_def)

lemma lower_eq_Nil [simp]: "lower s = [] \<longleftrightarrow> s = []"
  by (simp add: lower_def)

lemma upper_simps [simp]:
  "upper [] = []" "upper (c # s) = char_upper c # upper s" "upper (s @ t) = upper s @ upper t"
  by (simp_all add: upper_def)

lemma length_lower [simp]: "length (lower s) = length s"
  by (simp add: lower_def)

text \<open>Equality up to case, the \<^verbatim>\<open>__iexact\<close> lookups of the queries.\<close>

definition iexact :: "string \<Rightarrow> string \<Rightarrow> bool" where
  "iexact a b \<longleftrightarrow> upper a = upper b"

lemma iexact_lower: "iexact a b \<longleftrightarrow> lower a = lower b"
  unfolding iexact_def by (metis lower_upper upper_lower)

lemma iexact_refl [simp]: "iexact a a"
  by (simp add: iexact_def)

lemma iexact_sym: "iexact a b \<Longrightarrow> iexact b a"
  by (simp add: iexact_def)

lemma iexact_trans: "iexact a b \<Longrightarrow> iexact b c \<Longrightarrow> iexact a c"
  by (simp add: iexact_def)

section \<open>Substrings\<close>

definition startswith :: "string \<Rightarrow> string \<Rightarrow> bool" where
  "startswith s p \<longleftrightarrow> prefix p s"

definition endswith :: "string \<Rightarrow> string \<Rightarrow> bool" where
  "endswith s p \<longleftrightarrow> prefix (rev p) (rev s)"

lemma endswith_suffix: "endswith s p \<longleftrightarrow> suffix p s"
  by (simp add: endswith_def suffix_to_prefix)

text \<open>\<^verbatim>\<open>sub in s\<close>\<close>

fun contains :: "string \<Rightarrow> string \<Rightarrow> bool" where
  "contains s [] = True"
| "contains [] (_ # _) = False"
| "contains (c # s) (d # t) = (prefix (d # t) (c # s) \<or> contains s (d # t))"

lemma contains_iff: "contains s t \<longleftrightarrow> (\<exists>a b. s = a @ t @ b)"
proof (induction s t rule: contains.induct)
  case (1 s)
  have "s = [] @ [] @ s" by simp
  then show ?case by (metis contains.simps(1))
next
  case (2 d t)
  then show ?case by simp
next
  case (3 c s d t)
  show ?case
  proof
    assume "contains (c # s) (d # t)"
    then consider "prefix (d # t) (c # s)" | "contains s (d # t)" by auto
    then show "\<exists>a b. c # s = a @ (d # t) @ b"
    proof cases
      case 1
      then show ?thesis by (metis append_Nil prefix_def)
    next
      case 2
      then show ?thesis using "3.IH" by (metis append_Cons)
    qed
  next
    assume "\<exists>a b. c # s = a @ (d # t) @ b"
    then obtain a b where ab: "c # s = a @ (d # t) @ b" by blast
    show "contains (c # s) (d # t)"
    proof (cases a)
      case Nil
      with ab show ?thesis by (simp add: prefix_def)
    next
      case (Cons x a')
      with ab have "s = a' @ (d # t) @ b" by simp
      then have "contains s (d # t)" using "3.IH" by blast
      then show ?thesis by simp
    qed
  qed
qed

lemma contains_startswith: "startswith s t \<Longrightarrow> contains s t"
  by (auto simp: startswith_def prefix_def contains_iff)

lemma contains_trans: "contains s t \<Longrightarrow> contains t u \<Longrightarrow> contains s u"
  unfolding contains_iff by (metis append.assoc)

definition contains_any :: "string \<Rightarrow> string list \<Rightarrow> bool" where
  "contains_any s ts \<longleftrightarrow> (\<exists>t \<in> set ts. contains s t)"

section \<open>Stripping\<close>

definition lstrip :: "string \<Rightarrow> string" where
  "lstrip s = dropWhile is_space s"

definition rstrip :: "string \<Rightarrow> string" where
  "rstrip s = rev (dropWhile is_space (rev s))"

definition strip :: "string \<Rightarrow> string" where
  "strip s = rstrip (lstrip s)"

definition rstrip_char :: "char \<Rightarrow> string \<Rightarrow> string" where
  "rstrip_char c s = rev (dropWhile (\<lambda>d. d = c) (rev s))"

definition strip_char :: "char \<Rightarrow> string \<Rightarrow> string" where
  "strip_char c s = rstrip_char c (dropWhile (\<lambda>d. d = c) s)"

text \<open>A text with no white space at either end.\<close>

definition trimmed :: "string \<Rightarrow> bool" where
  "trimmed s \<longleftrightarrow> s = [] \<or> (\<not> is_space (hd s) \<and> \<not> is_space (last s))"

lemma dropWhile_head: "dropWhile p xs = y # ys \<Longrightarrow> \<not> p y"
  by (induction xs) (auto split: if_splits)

lemma dropWhile_id_iff: "dropWhile p xs = xs \<longleftrightarrow> xs = [] \<or> \<not> p (hd xs)"
proof (cases xs)
  case (Cons x ys)
  have "dropWhile p ys \<noteq> x # ys"
    using length_dropWhile_le [of p ys] by (auto dest: arg_cong [where f = length])
  with Cons show ?thesis by simp
qed simp

lemma rstrip_head: "lstrip s = c # t \<Longrightarrow> \<exists>t'. rstrip (c # t) = c # t'"
proof -
  assume "lstrip s = c # t"
  then have c: "\<not> is_space c" unfolding lstrip_def by (rule dropWhile_head)
  have "dropWhile is_space (rev t @ [c]) = dropWhile is_space (rev t) @ [c]"
    using c by (induction "rev t" arbitrary: t) (auto simp: dropWhile_append)
  then show ?thesis by (simp add: rstrip_def)
qed

lemma trimmed_strip [simp, zas_text]: "trimmed (strip s)"
proof (cases "lstrip s")
  case Nil
  then show ?thesis by (simp add: strip_def trimmed_def rstrip_def)
next
  case (Cons c t)
  then obtain t' where r: "rstrip (c # t) = c # t'" using rstrip_head by blast
  from Cons have "\<not> is_space c" unfolding lstrip_def by (rule dropWhile_head)
  moreover have "\<not> is_space (last (rstrip (c # t)))"
  proof -
    from r have "dropWhile is_space (rev (c # t)) \<noteq> []" by (auto simp: rstrip_def)
    then obtain y ys where y: "dropWhile is_space (rev (c # t)) = y # ys"
      by (cases "dropWhile is_space (rev (c # t))") auto
    then have "\<not> is_space y" by (rule dropWhile_head)
    with y show ?thesis by (simp add: rstrip_def)
  qed
  ultimately show ?thesis using Cons r by (simp add: strip_def trimmed_def)
qed

lemma strip_trimmed: "trimmed s \<Longrightarrow> strip s = s"
proof (cases s rule: rev_cases)
  case (snoc t c)
  assume "trimmed s"
  with snoc have "lstrip s = s" by (simp add: trimmed_def lstrip_def dropWhile_id_iff)
  moreover have "rstrip s = s" using snoc \<open>trimmed s\<close> by (auto simp: trimmed_def rstrip_def)
  ultimately show ?thesis by (simp add: strip_def)
qed (simp add: strip_def lstrip_def rstrip_def)

lemma strip_idem [simp, zas_text]: "strip (strip s) = strip s"
  by (rule strip_trimmed) simp

lemma strip_Nil [simp]: "strip [] = []"
  by (simp add: strip_def lstrip_def rstrip_def)

lemma lower_dropWhile_space: "lower (dropWhile is_space s) = dropWhile is_space (lower s)"
  by (induction s) auto

lemma lower_rev: "lower (rev s) = rev (lower s)"
  by (simp add: lower_def rev_map)

lemma lower_strip [zas_text]: "lower (strip s) = strip (lower s)"
  by (simp add: strip_def lstrip_def rstrip_def lower_rev [symmetric]
      lower_dropWhile_space [symmetric])

section \<open>Cutting and splitting\<close>

text \<open>
  \<open>cut sep s\<close> is \<open>Some\<close> of the texts before and after the first occurrence of a
  non-empty separator: \<^verbatim>\<open>s.partition(sep)\<close> and \<^verbatim>\<open>s.split(sep, 1)\<close>.
\<close>

fun cut :: "string \<Rightarrow> string \<Rightarrow> (string \<times> string) option" where
  "cut sep [] = None"
| "cut sep (c # s) =
     (if prefix sep (c # s) then Some ([], drop (length sep) (c # s))
      else map_option (\<lambda>(a, b). (c # a, b)) (cut sep s))"

lemma cut_Some: "cut sep s = Some (a, b) \<Longrightarrow> s = a @ sep @ b"
proof (induction s arbitrary: a)
  case (Cons c s)
  then show ?case
    by (auto split: if_splits simp: prefix_def)
qed simp

lemma cut_None: "sep \<noteq> [] \<Longrightarrow> cut sep s = None \<longleftrightarrow> \<not> contains s sep"
proof (induction s)
  case Nil
  then show ?case by (cases sep) auto
next
  case (Cons c s)
  then show ?case by (cases sep) auto
qed

lemma cut_length: "cut sep s = Some (a, b) \<Longrightarrow> sep \<noteq> [] \<Longrightarrow> length b < length s"
  by (drule cut_Some) simp

function split_on :: "string \<Rightarrow> string \<Rightarrow> string list" where
  "split_on sep s =
     (if sep = [] then [s]
      else case cut sep s of None \<Rightarrow> [s] | Some (a, b) \<Rightarrow> a # split_on sep b)"
  by pat_completeness auto
termination
  by (relation "measure (\<lambda>(sep, s). length s)") (auto dest: cut_length)

declare split_on.simps [simp del]

fun join :: "string \<Rightarrow> string list \<Rightarrow> string" where
  "join sep [] = []"
| "join sep [s] = s"
| "join sep (s # t # ts) = s @ sep @ join sep (t # ts)"

lemma split_on_nonempty [simp]: "split_on sep s \<noteq> []"
  by (subst split_on.simps) (auto split: option.splits)

lemma join_Cons: "ts \<noteq> [] \<Longrightarrow> join sep (s # ts) = s @ sep @ join sep ts"
  by (cases ts) auto

lemma join_split_on [zas_text]: "join sep (split_on sep s) = s"
proof (induction sep s rule: split_on.induct)
  case (1 sep s)
  show ?case
  proof (cases "sep = [] \<or> cut sep s = None")
    case True
    then show ?thesis by (subst split_on.simps) auto
  next
    case False
    then obtain a b where ab: "cut sep s = Some (a, b)" by auto
    with False "1.IH" have "join sep (split_on sep b) = b" by auto
    with False ab show ?thesis
      by (subst split_on.simps) (simp add: join_Cons cut_Some [OF ab])
  qed
qed

text \<open>\<^verbatim>\<open>s.split(sep, 1)[0]\<close> and \<^verbatim>\<open>s.split(sep, 1)[-1]\<close>\<close>

definition before_sep :: "string \<Rightarrow> string \<Rightarrow> string" where
  "before_sep sep s = (case cut sep s of None \<Rightarrow> s | Some (a, _) \<Rightarrow> a)"

definition after_sep :: "string \<Rightarrow> string \<Rightarrow> string" where
  "after_sep sep s = (case cut sep s of None \<Rightarrow> s | Some (_, b) \<Rightarrow> b)"

text \<open>\<^verbatim>\<open>s.split()\<close>: the maximal runs without white space.\<close>

function split_ws :: "string \<Rightarrow> string list" where
  "split_ws s =
     (let t = dropWhile is_space s
      in if t = [] then []
         else takeWhile (\<lambda>c. \<not> is_space c) t # split_ws (dropWhile (\<lambda>c. \<not> is_space c) t))"
  by pat_completeness auto
termination
proof (relation "measure length")
  show "wf (measure (length :: string \<Rightarrow> nat))" by simp
next
  fix s t :: string
  assume t: "t = dropWhile is_space s" and "t \<noteq> []"
  then obtain c u where cu: "t = c # u" by (meson list.exhaust)
  with t have "\<not> is_space c" by (metis dropWhile_head)
  with cu have "length (dropWhile (\<lambda>c. \<not> is_space c) t) < length t"
    by (simp add: length_dropWhile_le le_imp_less_Suc)
  also have "\<dots> \<le> length s" unfolding t by (rule length_dropWhile_le)
  finally show "(dropWhile (\<lambda>c. \<not> is_space c) t, s) \<in> measure length" by simp
qed

declare split_ws.simps [simp del]

text \<open>\<^verbatim>\<open>s.splitlines()\<close>: CR LF is one line end, and a final line end opens no line.\<close>

fun splitlines_acc :: "string \<Rightarrow> string \<Rightarrow> string list" where
  "splitlines_acc cur [] = (if cur = [] then [] else [rev cur])"
| "splitlines_acc cur (c # s) =
     (if is_linebreak c
      then rev cur # splitlines_acc [] (if code c = 13 \<and> s \<noteq> [] \<and> code (hd s) = 10 then tl s else s)
      else splitlines_acc (c # cur) s)"

definition splitlines :: "string \<Rightarrow> string list" where
  "splitlines s = splitlines_acc [] s"

text \<open>No line of the result holds a line end.\<close>

lemma splitlines_acc_no_break:
  "\<forall>c \<in> set cur. \<not> is_linebreak c \<Longrightarrow> l \<in> set (splitlines_acc cur s) \<Longrightarrow> c \<in> set l \<Longrightarrow>
   \<not> is_linebreak c"
  by (induction cur s rule: splitlines_acc.induct) (auto split: if_splits)

lemma splitlines_no_break: "l \<in> set (splitlines s) \<Longrightarrow> c \<in> set l \<Longrightarrow> \<not> is_linebreak c"
  unfolding splitlines_def by (rule splitlines_acc_no_break [where cur = "[]"]) auto

section \<open>Decimal numerals\<close>

definition digit_char :: "nat \<Rightarrow> char" where
  "digit_char d = char_of (48 + d)"

definition digit_value :: "char \<Rightarrow> nat" where
  "digit_value c = code c - 48"

fun nat_str :: "nat \<Rightarrow> string" where
  "nat_str n = (if n < 10 then [digit_char n] else nat_str (n div 10) @ [digit_char (n mod 10)])"

declare nat_str.simps [simp del]

definition int_str :: "int \<Rightarrow> string" where
  "int_str i = (if i < 0 then CHR ''-'' # nat_str (nat (- i)) else nat_str (nat i))"

definition digits_value :: "string \<Rightarrow> nat" where
  "digits_value s = foldl (\<lambda>n c. 10 * n + digit_value c) 0 s"

definition all_digits :: "string \<Rightarrow> bool" where
  "all_digits s \<longleftrightarrow> s \<noteq> [] \<and> list_all is_digit s"

lemma digit_char_digit [simp]: "d < 10 \<Longrightarrow> is_digit (digit_char d)"
  by (simp add: is_digit_def digit_char_def)

lemma digit_value_char [simp]: "d < 10 \<Longrightarrow> digit_value (digit_char d) = d"
  by (simp add: digit_value_def digit_char_def)

lemma all_digits_nat_str [simp, zas_text]: "all_digits (nat_str n)"
proof (induction n rule: nat_str.induct)
  case (1 n)
  then show ?case
    by (subst nat_str.simps) (auto simp: all_digits_def)
qed

lemma digits_value_append:
  "digits_value (s @ [c]) = 10 * digits_value s + digit_value c"
  by (simp add: digits_value_def)

lemma digits_value_nat_str [simp, zas_text]: "digits_value (nat_str n) = n"
proof (induction n rule: nat_str.induct)
  case (1 n)
  show ?case
  proof (cases "n < 10")
    case True
    then show ?thesis by (subst nat_str.simps) (simp add: digits_value_def)
  next
    case False
    with "1.IH" have "digits_value (nat_str (n div 10)) = n div 10" by simp
    with False show ?thesis
      by (subst nat_str.simps) (simp add: digits_value_append)
  qed
qed

text \<open>
  \<^verbatim>\<open>int(s)\<close> on text: optional white space around an optional sign and decimal digits
  that single underscores may separate; anything else is a \<^verbatim>\<open>ValueError\<close>, here
  \<open>None\<close>.
\<close>

fun strip_underscores :: "string \<Rightarrow> string option" where
  "strip_underscores [] = None"
| "strip_underscores [c] = (if is_digit c then Some [c] else None)"
| "strip_underscores (c # d # s) =
     (if \<not> is_digit c then None
      else if d = CHR ''_'' then map_option (\<lambda>t. c # t) (strip_underscores s)
      else map_option (\<lambda>t. c # t) (strip_underscores (d # s)))"

definition int_of_text :: "string \<Rightarrow> int option" where
  "int_of_text s =
     (case strip s of
        [] \<Rightarrow> None
      | c # t \<Rightarrow>
          if c = CHR ''-'' then map_option (\<lambda>d. - int (digits_value d)) (strip_underscores t)
          else if c = CHR ''+'' then map_option (\<lambda>d. int (digits_value d)) (strip_underscores t)
          else map_option (\<lambda>d. int (digits_value d)) (strip_underscores (c # t)))"

lemma strip_underscores_digits: "all_digits s \<Longrightarrow> strip_underscores s = Some s"
  by (induction s rule: strip_underscores.induct)
    (auto simp: all_digits_def is_digit_def)

lemma digit_not_space: "is_digit c \<Longrightarrow> \<not> is_space c"
  by (auto simp: is_digit_def is_space_def)

lemma trimmed_digits: "all_digits s \<Longrightarrow> trimmed s"
  by (cases s) (auto simp: all_digits_def trimmed_def list_all_iff digit_not_space)

lemma int_of_text_digits:
  assumes "all_digits s"
  shows "int_of_text s = Some (int (digits_value s))"
proof -
  obtain c t where s: "s = c # t" and c: "is_digit c"
    using assms by (cases s) (auto simp: all_digits_def)
  from c have "c \<noteq> CHR ''-''" "c \<noteq> CHR ''+''" by (auto simp: is_digit_def)
  moreover have "strip (c # t) = c # t"
    using strip_trimmed [OF trimmed_digits [OF assms]] s by simp
  ultimately show ?thesis
    using strip_underscores_digits [OF assms] s by (simp add: int_of_text_def)
qed

lemma int_of_text_nat_str [zas_text]: "int_of_text (nat_str n) = Some (int n)"
  by (simp add: int_of_text_digits)

end
