(* ===== verification/PyRegex.thy ===== *)
theory PyRegex
  imports PyText
begin

text \<open>
  The fragment of Python's \<^verbatim>\<open>re\<close> that the program uses, as a backtracking matcher
  in the list-of-successes style: \<open>run r st\<close> lists every way the pattern matches from a
  position, in the order in which Python tries them, so that the head of the list is the match
  Python reports. Repetition is over character classes only, which is all the program needs, so
  the matcher is structurally recursive.
\<close>

datatype rx =
    Eps
  | Cls "char \<Rightarrow> bool"
  | Seq rx rx
  | Alt rx rx
  | Opt rx
  | Many "char \<Rightarrow> bool"
  | Many1 "char \<Rightarrow> bool"
  | Lazy "char \<Rightarrow> bool"
  | Cap nat rx
  | Eos
  | WordB

text \<open>
  A position: the character before it (\<open>None\<close> at the start of the text), the text after it
  and the groups captured so far, latest first.
\<close>

type_synonym pos = "char option \<times> string \<times> (nat \<times> string) list"

fun many :: "(char \<Rightarrow> bool) \<Rightarrow> pos \<Rightarrow> pos list" where
  "many p (pr, [], caps) = [(pr, [], caps)]"
| "many p (pr, c # s, caps) =
     (if p c then many p (Some c, s, caps) @ [(pr, c # s, caps)] else [(pr, c # s, caps)])"

definition word_char :: "char \<Rightarrow> bool" where
  "word_char c \<longleftrightarrow> is_alnum c \<or> c = CHR ''_''"

definition word_opt :: "char option \<Rightarrow> bool" where
  "word_opt x = (case x of None \<Rightarrow> False | Some c \<Rightarrow> word_char c)"

fun run :: "rx \<Rightarrow> pos \<Rightarrow> pos list" where
  "run Eps st = [st]"
| "run (Cls p) (pr, s, caps) =
     (case s of [] \<Rightarrow> [] | c # t \<Rightarrow> if p c then [(Some c, t, caps)] else [])"
| "run (Seq a b) st = concat (map (run b) (run a st))"
| "run (Alt a b) st = run a st @ run b st"
| "run (Opt a) st = run a st @ [st]"
| "run (Many p) st = many p st"
| "run (Many1 p) (pr, s, caps) =
     (case s of [] \<Rightarrow> [] | c # t \<Rightarrow> if p c then many p (Some c, t, caps) else [])"
| "run (Lazy p) st = rev (many p st)"
| "run (Cap n a) (pr, s, caps) =
     map (\<lambda>(pr', s', caps'). (pr', s', (n, take (length s - length s') s) # caps'))
       (run a (pr, s, caps))"
| "run Eos (pr, s, caps) = (if s = [] \<or> s = [char_of (10 :: nat)] then [(pr, s, caps)] else [])"
| "run WordB (pr, s, caps) =
     (if word_opt pr \<noteq> word_opt (case s of [] \<Rightarrow> None | c # _ \<Rightarrow> Some c)
      then [(pr, s, caps)] else [])"

definition lit :: "string \<Rightarrow> rx" where
  "lit s = foldr (\<lambda>c r. Seq (Cls (\<lambda>d. d = c)) r) s Eps"

definition lit_ci :: "string \<Rightarrow> rx" where
  "lit_ci s = foldr (\<lambda>c r. Seq (Cls (\<lambda>d. char_lower d = char_lower c)) r) s Eps"

text \<open>The class of the dot: any character but the line feed.\<close>

definition any_char :: "char \<Rightarrow> bool" where
  "any_char c \<longleftrightarrow> code c \<noteq> 10"

definition one_of :: "string \<Rightarrow> char \<Rightarrow> bool" where
  "one_of cs c \<longleftrightarrow> c \<in> set cs"

fun seqs :: "rx list \<Rightarrow> rx" where
  "seqs [] = Eps"
| "seqs [r] = r"
| "seqs (r # s # rs) = Seq r (seqs (s # rs))"

text \<open>\<^verbatim>\<open>re.match\<close>: the captured groups of the first way to match at the start.\<close>

definition rx_match :: "rx \<Rightarrow> string \<Rightarrow> (nat \<times> string) list option" where
  "rx_match r s = (case run r (None, s, []) of [] \<Rightarrow> None | (_, _, caps) # _ \<Rightarrow> Some caps)"

text \<open>
  \<^verbatim>\<open>re.search\<close>: the leftmost match, as the text before it, its groups and the text
  after it.
\<close>

fun rx_search_from :: "rx \<Rightarrow> char option \<Rightarrow> string \<Rightarrow> (string \<times> (nat \<times> string) list \<times> string) option"
where
  "rx_search_from r pr [] =
     (case run r (pr, [], []) of [] \<Rightarrow> None | (_, t, caps) # _ \<Rightarrow> Some ([], caps, t))"
| "rx_search_from r pr (c # s) =
     (case run r (pr, c # s, []) of
        (_, t, caps) # _ \<Rightarrow> Some ([], caps, t)
      | [] \<Rightarrow> map_option (\<lambda>(b, caps, t). (c # b, caps, t)) (rx_search_from r (Some c) s))"

definition rx_search :: "rx \<Rightarrow> string \<Rightarrow> (nat \<times> string) list option" where
  "rx_search r s = map_option (\<lambda>(_, caps, _). caps) (rx_search_from r None s)"

definition group :: "(nat \<times> string) list \<Rightarrow> nat \<Rightarrow> string option" where
  "group caps n = map_of caps n"

text \<open>The text of a group that takes part in every match.\<close>

definition group_text :: "(nat \<times> string) list \<Rightarrow> nat \<Rightarrow> string" where
  "group_text caps n = (case map_of caps n of None \<Rightarrow> [] | Some t \<Rightarrow> t)"

text \<open>
  \<^verbatim>\<open>re.sub(r, "", s)\<close> for a pattern that can match at most once in a text.
\<close>

definition rx_delete :: "rx \<Rightarrow> string \<Rightarrow> string" where
  "rx_delete r s = (case rx_search_from r None s of None \<Rightarrow> s | Some (b, _, t) \<Rightarrow> b @ t)"

section \<open>What a match consumes\<close>

text \<open>Every match leaves a suffix of the text, and every capture is a part of the text.\<close>

lemma many_suffix: "(pr', s', caps') \<in> set (many p (pr, s, caps)) \<Longrightarrow> suffix s' s \<and> caps' = caps"
  by (induction s arbitrary: pr) (auto split: if_splits simp: suffix_Cons)

lemma run_suffix: "(pr', s', caps') \<in> set (run r (pr, s, caps)) \<Longrightarrow> suffix s' s"
proof (induction r arbitrary: pr s caps pr' s' caps')
  case (Seq a b)
  then obtain pr1 s1 c1 where "(pr1, s1, c1) \<in> set (run a (pr, s, caps))"
    and "(pr', s', caps') \<in> set (run b (pr1, s1, c1))"
    by auto
  then have "suffix s' s1" and "suffix s1 s" using Seq.IH by blast+
  then show ?case by (rule suffix_order.trans)
next
  case (Cap n r)
  then show ?case by auto
qed (auto dest!: many_suffix split: list.splits if_splits simp: suffix_Cons)

lemma run_match_length: "(pr', s', caps') \<in> set (run r (pr, s, caps)) \<Longrightarrow> length s' \<le> length s"
  by (drule run_suffix) (rule suffix_length_le)

text \<open>A class repetition takes the longest run first.\<close>

lemma many_hd:
  "many p (pr, s, caps) \<noteq> [] \<and>
   fst (snd (hd (many p (pr, s, caps)))) = dropWhile p s"
  by (induction s arbitrary: pr) auto

lemma rx_search_from_parts:
  "rx_search_from r pr s = Some (b, caps, t) \<Longrightarrow> \<exists>m. s = b @ m @ t"
proof (induction s arbitrary: pr b)
  case Nil
  then obtain pr' ms where "run r (pr, [], []) = (pr', t, caps) # ms" and b: "b = []"
    by (auto split: list.splits)
  then have "(pr', t, caps) \<in> set (run r (pr, [], []))" by simp
  then have "suffix t []" by (rule run_suffix)
  with b show ?case by simp
next
  case (Cons c s)
  show ?case
  proof (cases "run r (pr, c # s, [])")
    case Nil
    with Cons.prems obtain b' where "b = c # b'" and "rx_search_from r (Some c) s = Some (b', caps, t)"
      by auto
    with Cons.IH show ?thesis by (metis append_Cons)
  next
    case (Cons m ms)
    with Cons.prems obtain pr' where "b = []" and "m = (pr', t, caps)"
      by (cases m) auto
    with Cons have "(pr', t, caps) \<in> set (run r (pr, c # s, []))" by simp
    then have "suffix t (c # s)" by (rule run_suffix)
    with \<open>b = []\<close> show ?thesis by (auto simp: suffix_def)
  qed
qed

lemma rx_delete_length: "length (rx_delete r s) \<le> length s"
  by (auto simp: rx_delete_def dest!: rx_search_from_parts split: option.splits)

section \<open>Splitting at patterns\<close>

text \<open>
  \<^verbatim>\<open>re.split(r"\s{2,}", s)\<close>: cut at the maximal runs of two or more white-space
  characters. \<open>col\<close> is the field being read, in reverse.
\<close>

function split_columns_acc :: "string \<Rightarrow> string \<Rightarrow> string list" where
  "split_columns_acc col [] = [rev col]"
| "split_columns_acc col (c # s) =
     (if is_space c \<and> s \<noteq> [] \<and> is_space (hd s)
      then rev col # split_columns_acc [] (dropWhile is_space s)
      else split_columns_acc (c # col) s)"
  by pat_completeness auto
termination
  by (relation "measure (\<lambda>(col, s). length s)") (auto simp: le_imp_less_Suc length_dropWhile_le)

definition split_columns :: "string \<Rightarrow> string list" where
  "split_columns s = split_columns_acc [] s"

text \<open>
  \<^verbatim>\<open>re.split(r"(\d+)", s)\<close>: the text alternates between parts without digits (even
  places, possibly empty) and runs of digits (odd places).
\<close>

function split_digits :: "string \<Rightarrow> string list" where
  "split_digits s =
     (let a = takeWhile (\<lambda>c. \<not> is_digit c) s; r = dropWhile (\<lambda>c. \<not> is_digit c) s
      in if r = [] then [a]
         else a # takeWhile is_digit r # split_digits (dropWhile is_digit r))"
  by pat_completeness auto
termination
proof (relation "measure length")
  show "wf (measure (length :: string \<Rightarrow> nat))" by simp
next
  fix s a r :: string
  assume r: "r = dropWhile (\<lambda>c. \<not> is_digit c) s" and "r \<noteq> []"
  then obtain c u where cu: "r = c # u" by (meson list.exhaust)
  with r have "is_digit c" by (metis dropWhile_head)
  with cu have "length (dropWhile is_digit r) < length r"
    by (simp add: length_dropWhile_le le_imp_less_Suc)
  also have "\<dots> \<le> length s" unfolding r by (rule length_dropWhile_le)
  finally show "(dropWhile is_digit r, s) \<in> measure length" by simp
qed

declare split_digits.simps [simp del]

end
