(* ===== verification/PyVal.thy ===== *)
theory PyVal
  imports PyText
begin

text \<open>
  Values whose type the program only learns at run time: the rows that the TextFSM templates and
  the network libraries return are dictionaries from strings to strings, lists of strings or
  \<^verbatim>\<open>None\<close>. Operations on a value of the wrong type raise, as in Python.
\<close>

datatype pyval =
    PyNone
  | PyBool bool
  | PyInt int
  | PyStr string
  | PyList "pyval list"
  | PyDict "(string \<times> pyval) list"

text \<open>
  Exceptions, with the message where the program or the standard library words one; the two
  exceptions of the interpreter itself that the program can meet carry the operation at fault.
\<close>

datatype exn =
    ValueError string
  | RuntimeError string
  | DoesNotExist string
  | ConnectionError string
  | TypeError string
  | AttributeError string
  | KeyError string
  | IndexError
  | UnboundLocalError string
  | IntegrityError string
  | MultipleObjectsReturned string
  | FieldError string
  | ValidationError string
  | TimeoutError string
  | ProtectedError string
  | CommandError string
  | AssertionError string

definition exn_str :: "exn \<Rightarrow> string" where
  "exn_str e = (case e of
      ValueError m \<Rightarrow> m | RuntimeError m \<Rightarrow> m | DoesNotExist m \<Rightarrow> m | ConnectionError m \<Rightarrow> m
    | TypeError m \<Rightarrow> m | AttributeError m \<Rightarrow> m | KeyError m \<Rightarrow> m
    | IndexError \<Rightarrow> ''list index out of range''
    | UnboundLocalError m \<Rightarrow> m | IntegrityError m \<Rightarrow> m
    | MultipleObjectsReturned m \<Rightarrow> m | FieldError m \<Rightarrow> m | ValidationError m \<Rightarrow> m
    | TimeoutError m \<Rightarrow> m | ProtectedError m \<Rightarrow> m | CommandError m \<Rightarrow> m
    | AssertionError m \<Rightarrow> m)"

type_synonym entry = "(string \<times> pyval) list"

fun truthy :: "pyval \<Rightarrow> bool" where
  "truthy PyNone = False"
| "truthy (PyBool b) = b"
| "truthy (PyInt i) = (i \<noteq> 0)"
| "truthy (PyStr s) = (s \<noteq> [])"
| "truthy (PyList xs) = (xs \<noteq> [])"
| "truthy (PyDict d) = (d \<noteq> [])"

text \<open>\<^verbatim>\<open>a or b\<close> and \<^verbatim>\<open>d.get(k)\<close>\<close>

definition py_or :: "pyval \<Rightarrow> pyval \<Rightarrow> pyval" where
  "py_or a b = (if truthy a then a else b)"

definition get :: "entry \<Rightarrow> string \<Rightarrow> pyval" where
  "get d k = (case map_of d k of None \<Rightarrow> PyNone | Some v \<Rightarrow> v)"

text \<open>\<^verbatim>\<open>d.get(k1) or d.get(k2) or ...\<close>\<close>

fun get_or :: "entry \<Rightarrow> string list \<Rightarrow> pyval" where
  "get_or d [] = PyNone"
| "get_or d [k] = get d k"
| "get_or d (k # l # ks) = py_or (get d k) (get_or d (l # ks))"

text \<open>\<^verbatim>\<open>repr\<close> of text and \<^verbatim>\<open>str\<close> of a value.\<close>

definition hex_char :: "nat \<Rightarrow> char" where
  "hex_char d = char_of (if d < 10 then 48 + d else 87 + d)"

definition repr_char :: "char \<Rightarrow> char \<Rightarrow> string" where
  "repr_char q c =
     (if c = q \<or> code c = 92 then [char_of (92 :: nat), c]
      else if code c = 9 then [char_of (92 :: nat), CHR ''t'']
      else if code c = 10 then [char_of (92 :: nat), CHR ''n'']
      else if code c = 13 then [char_of (92 :: nat), CHR ''r'']
      else if code c < 32 \<or> code c = 127
      then [char_of (92 :: nat), CHR ''x'', hex_char (code c div 16), hex_char (code c mod 16)]
      else [c])"

definition py_repr_str :: "string \<Rightarrow> string" where
  "py_repr_str s =
     (let q = (if char_of (39 :: nat) \<in> set s \<and> char_of (34 :: nat) \<notin> set s
               then char_of (34 :: nat) else char_of (39 :: nat))
      in [q] @ concat (map (repr_char q) s) @ [q])"

fun py_repr :: "pyval \<Rightarrow> string" where
  "py_repr PyNone = ''None''"
| "py_repr (PyBool b) = (if b then ''True'' else ''False'')"
| "py_repr (PyInt i) = int_str i"
| "py_repr (PyStr s) = py_repr_str s"
| "py_repr (PyList xs) = ''['' @ join '', '' (map py_repr xs) @ '']''"
| "py_repr (PyDict d) =
     ''{'' @ join '', '' (map (\<lambda>(k, v). py_repr_str k @ '': '' @ py_repr v) d) @ ''}''"

definition py_str :: "pyval \<Rightarrow> string" where
  "py_str v = (case v of PyStr s \<Rightarrow> s | _ \<Rightarrow> py_repr v)"

text \<open>A method of \<^verbatim>\<open>str\<close> called on any value.\<close>

definition type_name :: "pyval \<Rightarrow> string" where
  "type_name v = (case v of PyNone \<Rightarrow> ''NoneType'' | PyBool _ \<Rightarrow> ''bool'' | PyInt _ \<Rightarrow> ''int''
     | PyStr _ \<Rightarrow> ''str'' | PyList _ \<Rightarrow> ''list'' | PyDict _ \<Rightarrow> ''dict'')"

definition str_method :: "string \<Rightarrow> (string \<Rightarrow> 'a) \<Rightarrow> pyval \<Rightarrow> exn + 'a" where
  "str_method m f v = (case v of PyStr s \<Rightarrow> Inr (f s)
     | _ \<Rightarrow> Inl (AttributeError (py_repr_str (type_name v) @ '' object has no attribute '' @ py_repr_str m)))"

lemma str_method_PyStr [simp]: "str_method m f (PyStr s) = Inr (f s)"
  by (simp add: str_method_def)

text \<open>\<^verbatim>\<open>int(v)\<close>: \<open>None\<close> for the \<^verbatim>\<open>TypeError\<close> or
  \<^verbatim>\<open>ValueError\<close> that every caller of the program catches.\<close>

definition py_int :: "pyval \<Rightarrow> int option" where
  "py_int v = (case v of PyInt i \<Rightarrow> Some i | PyBool b \<Rightarrow> Some (if b then 1 else 0)
     | PyStr s \<Rightarrow> int_of_text s | _ \<Rightarrow> None)"

text \<open>Text that may be absent: \<^verbatim>\<open>x or ""\<close>, and its truth.\<close>

definition or_empty :: "string option \<Rightarrow> string" where
  "or_empty x = (case x of None \<Rightarrow> [] | Some s \<Rightarrow> s)"

definition text_true :: "string option \<Rightarrow> bool" where
  "text_true x \<longleftrightarrow> or_empty x \<noteq> []"

lemma or_empty_simps [simp]: "or_empty None = []" "or_empty (Some s) = s"
  by (simp_all add: or_empty_def)

lemma text_true_simps [simp]: "\<not> text_true None" "text_true (Some s) \<longleftrightarrow> s \<noteq> []"
  by (simp_all add: text_true_def)

lemma py_or_simps [simp]:
  "truthy a \<Longrightarrow> py_or a b = a" "\<not> truthy a \<Longrightarrow> py_or a b = b"
  by (simp_all add: py_or_def)

end
