(* ===== verification/Blocks.thy ===== *)
theory Blocks
  imports Main
begin

text \<open>
  The interface between the address arithmetic and its clients: a family of blocks of
  addresses, with the two tests the clients call. The laws are what the address arithmetic
  promises; the lemmas are what the prefix hierarchy and the range scan rest on.
\<close>

locale block_family =
  fixes ok :: "'n \<Rightarrow> bool"
    and mem :: "'n \<Rightarrow> 'a set"
    and meets :: "'n \<Rightarrow> 'n \<Rightarrow> bool"
    and inside :: "'n \<Rightarrow> 'n \<Rightarrow> bool"
  assumes nonempty: "ok a \<Longrightarrow> mem a \<noteq> {}"
    and meets_iff: "meets a b \<longleftrightarrow> mem a \<inter> mem b \<noteq> {}"
    and inside_iff: "inside a b \<longleftrightarrow> mem a \<subseteq> mem b"
    and laminar: "ok a \<Longrightarrow> ok b \<Longrightarrow> mem a \<inter> mem b \<noteq> {} \<Longrightarrow> mem a \<subseteq> mem b \<or> mem b \<subseteq> mem a"
    and unique: "ok a \<Longrightarrow> ok b \<Longrightarrow> mem a = mem b \<Longrightarrow> a = b"
begin

lemma meets_sym: "meets a b \<longleftrightarrow> meets b a"
  by (auto simp: meets_iff)

lemma no_partial_overlap: "ok a \<Longrightarrow> ok b \<Longrightarrow> meets a b \<Longrightarrow> inside a b \<or> inside b a"
  using laminar by (simp add: meets_iff inside_iff)

lemma inside_meets: "ok a \<Longrightarrow> inside a b \<Longrightarrow> meets a b"
  using nonempty by (fastforce simp: meets_iff inside_iff)

lemma inside_refl: "inside a a"
  by (simp add: inside_iff)

lemma inside_trans: "inside a b \<Longrightarrow> inside b c \<Longrightarrow> inside a c"
  by (auto simp: inside_iff)

lemma inside_antisym: "ok a \<Longrightarrow> ok b \<Longrightarrow> inside a b \<Longrightarrow> inside b a \<Longrightarrow> a = b"
  using unique by (simp add: inside_iff subset_antisym)

text \<open>The blocks around a given block form a chain.\<close>

lemma containing_chain:
  "ok a \<Longrightarrow> ok b \<Longrightarrow> ok c \<Longrightarrow> inside c a \<Longrightarrow> inside c b \<Longrightarrow> inside a b \<or> inside b a"
proof -
  assume "ok a" "ok b" "ok c" "inside c a" "inside c b"
  then have "mem c \<subseteq> mem a \<inter> mem b" and "mem c \<noteq> {}" by (auto simp: inside_iff nonempty)
  then have "meets a b" by (auto simp: meets_iff)
  with \<open>ok a\<close> \<open>ok b\<close> show ?thesis by (rule no_partial_overlap)
qed

end

end
