(* ===== verification/Tables.thy ===== *)
theory Tables
  imports PyVal
begin

text \<open>
  Tables of rows with a unique key, the shape of every \<^verbatim>\<open>unique_together\<close>
  table of the program, and the contract of \<^verbatim>\<open>update_or_create\<close>. The locale
  \<open>keyed_table\<close> takes the key of a row, the row that a creation stores and the change that
  an update makes; the components interpret it on their own tables.
\<close>

section \<open>Update or create\<close>

text \<open>
  \<open>upsert p new upd rows\<close>: the first row that satisfies \<open>p\<close> is updated, and when
  there is none, the new row is appended.
\<close>

fun upsert :: "('r \<Rightarrow> bool) \<Rightarrow> 'r \<Rightarrow> ('r \<Rightarrow> 'r) \<Rightarrow> 'r list \<Rightarrow> 'r list" where
  "upsert p new upd [] = [new]"
| "upsert p new upd (r # rs) = (if p r then upd r # rs else r # upsert p new upd rs)"

lemma upsert_None: "\<forall>r \<in> set rs. \<not> p r \<Longrightarrow> upsert p new upd rs = rs @ [new]"
  by (induction rs) auto

lemma in_upsert: "x \<in> set (upsert p new upd rs) \<Longrightarrow> x = new \<or> x \<in> set rs \<or> (\<exists>r \<in> set rs. p r \<and> x = upd r)"
  by (induction rs) (auto split: if_splits)

text \<open>
  \<^verbatim>\<open>row.save()\<close>: the row with its identifier is replaced, a row with a new
  identifier is appended.
\<close>

definition save_row :: "('r \<Rightarrow> 'k) \<Rightarrow> 'r \<Rightarrow> 'r list \<Rightarrow> 'r list" where
  "save_row ident r rs = upsert (\<lambda>x. ident x = ident r) r (\<lambda>_. r) rs"

lemma save_row_simps [simp]:
  "save_row ident r [] = [r]"
  "save_row ident r (x # xs) = (if ident x = ident r then r # xs else x # save_row ident r xs)"
  by (simp_all add: save_row_def)

lemma in_save_row:
  "distinct (map ident rs) \<Longrightarrow> x \<in> set (save_row ident r rs) \<longleftrightarrow> x = r \<or> (x \<in> set rs \<and> ident x \<noteq> ident r)"
proof (induction rs)
  case (Cons y ys)
  then show ?case by (auto simp: rev_image_eqI)
qed auto

lemma idents_save_row: "ident ` set (save_row ident r rs) = insert (ident r) (ident ` set rs)"
  by (induction rs) auto

lemma distinct_save_row: "distinct (map ident rs) \<Longrightarrow> distinct (map ident (save_row ident r rs))"
  by (induction rs) (auto simp: idents_save_row)

lemma first_row_distinct:
  "distinct (map ident rs) \<Longrightarrow> r \<in> set rs \<Longrightarrow> first_row (\<lambda>x. ident x = ident r) rs = Some r"
  by (induction rs) (auto simp: rev_image_eqI)

lemma find_save_row:
  "first_row (\<lambda>x. ident x = k) (save_row ident r rs) =
     (if k = ident r then Some r else first_row (\<lambda>x. ident x = k) rs)"
  by (induction rs) auto

text \<open>\<^verbatim>\<open>queryset.filter(...).update(...)\<close>\<close>

definition update_where :: "('r \<Rightarrow> bool) \<Rightarrow> ('r \<Rightarrow> 'r) \<Rightarrow> 'r list \<Rightarrow> 'r list" where
  "update_where p f rs = map (\<lambda>r. if p r then f r else r) rs"

lemma update_where_other [zas_rows]: "\<forall>r \<in> set rs. \<not> p r \<Longrightarrow> update_where p f rs = rs"
  by (induction rs) (auto simp: update_where_def)

lemma in_update_where: "x \<in> set (update_where p f rs) \<longleftrightarrow> (\<exists>r \<in> set rs. x = (if p r then f r else r))"
  by (auto simp: update_where_def)

text \<open>The row of a key, and a run of writes.\<close>

definition row_at :: "('r \<Rightarrow> 'k) \<Rightarrow> 'r list \<Rightarrow> 'k \<Rightarrow> 'r option" where
  "row_at key rs k = first_row (\<lambda>r. key r = k) rs"

definition put_all :: "('k \<Rightarrow> 'd \<Rightarrow> 'r list \<Rightarrow> 'r list) \<Rightarrow> ('k \<times> 'd) list \<Rightarrow> 'r list \<Rightarrow> 'r list" where
  "put_all put ws rs = fold (\<lambda>w. put (fst w) (snd w)) ws rs"

lemma put_all_simps [simp]:
  "put_all put [] rs = rs" "put_all put (w # ws) rs = put_all put ws (put (fst w) (snd w) rs)"
  by (simp_all add: put_all_def)

lemma put_all_append: "put_all put (us @ ws) rs = put_all put ws (put_all put us rs)"
  by (simp add: put_all_def)

locale keyed_table =
  fixes key :: "'r \<Rightarrow> 'k"
    and make :: "'k \<Rightarrow> 'd \<Rightarrow> 'r"
    and change :: "'d \<Rightarrow> 'r \<Rightarrow> 'r"
    and put :: "'k \<Rightarrow> 'd \<Rightarrow> 'r list \<Rightarrow> 'r list"
  assumes key_make: "key (make k d) = k"
    and key_change: "key (change d r) = key r"
    and put_upsert: "put k d rs = upsert (\<lambda>r. key r = k) (make k d) (change d) rs"
begin

lemma put_simps [simp]:
  "put k d [] = [make k d]"
  "put k d (r # rs) = (if key r = k then change d r # rs else r # put k d rs)"
  by (simp_all add: put_upsert)

lemma row_at_simps [simp]:
  "row_at key [] k = None" "row_at key (r # rs) k = (if key r = k then Some r else row_at key rs k)"
  by (simp_all add: row_at_def)

lemma keys_put: "key ` set (put k d rs) = insert k (key ` set rs)"
  by (induction rs) (auto simp: key_make key_change)

lemma distinct_put: "distinct (map key rs) \<Longrightarrow> distinct (map key (put k d rs))"
proof (induction rs)
  case (Cons r rs)
  show ?case
  proof (cases "key r = k")
    case True
    with Cons show ?thesis by (simp add: key_change)
  next
    case False
    moreover have "key r \<notin> key ` set (put k d rs)" using False Cons.prems by (simp add: keys_put)
    ultimately show ?thesis using Cons by simp
  qed
qed simp

lemma row_put:
  "row_at key (put k d rs) j = (if j = k
     then Some (case row_at key rs k of None \<Rightarrow> make k d | Some r \<Rightarrow> change d r) else row_at key rs j)"
  by (induction rs) (auto simp: key_make key_change)

lemma row_distinct: "distinct (map key rs) \<Longrightarrow> r \<in> set rs \<Longrightarrow> row_at key rs (key r) = Some r"
  by (simp add: row_at_def first_row_distinct)

lemma distinct_put_all: "distinct (map key rs) \<Longrightarrow> distinct (map key (put_all put ws rs))"
  by (induction ws arbitrary: rs) (auto simp: distinct_put)

lemma keys_put_all: "key ` set (put_all put ws rs) = fst ` set ws \<union> key ` set rs"
  by (induction ws arbitrary: rs) (auto simp: keys_put)

lemma row_put_all_other: "k \<notin> fst ` set ws \<Longrightarrow> row_at key (put_all put ws rs) k = row_at key rs k"
  by (induction ws arbitrary: rs) (auto simp: row_put)

text \<open>When every key is written once, its row depends on that write alone.\<close>

lemma row_put_all:
  assumes "distinct (map fst ws)" and "(k, d) \<in> set ws"
  shows "row_at key (put_all put ws rs) k = Some (case row_at key rs k of None \<Rightarrow> make k d | Some r \<Rightarrow> change d r)"
  using assms
proof (induction ws arbitrary: rs)
  case (Cons w ws)
  show ?case
  proof (cases "w = (k, d)")
    case True
    with Cons.prems have "k \<notin> fst ` set ws" by auto
    then show ?thesis using True by (simp add: row_put_all_other row_put)
  next
    case False
    with Cons.prems have in_ws: "(k, d) \<in> set ws" by auto
    with Cons.prems(1) have "fst w \<noteq> k" by (auto simp: rev_image_eqI)
    with Cons in_ws show ?thesis by (simp add: row_put)
  qed
qed simp

text \<open>Writes to different keys commute, as far as the rows of the keys can tell.\<close>

lemma row_put_all_perm:
  assumes "distinct (map fst ws)" and "set ws = set vs" and "distinct (map fst vs)"
  shows "row_at key (put_all put ws rs) k = row_at key (put_all put vs rs) k"
proof (cases "k \<in> fst ` set ws")
  case True
  then obtain d where "(k, d) \<in> set ws" by auto
  with assms show ?thesis by (simp add: row_put_all)
next
  case False
  with assms(2) show ?thesis by (simp add: row_put_all_other)
qed

text \<open>The last write to a key decides its row when the writes overwrite each other.\<close>

lemma row_put_all_last:
  assumes "\<And>d e r. change d (change e r) = change d r" and "\<And>d e. change d (make k e) = make k d"
  shows "row_at key (put_all put (ws @ [(k, d)]) rs) k =
    Some (case row_at key rs k of None \<Rightarrow> make k d | Some r \<Rightarrow> change d r)"
proof (induction ws arbitrary: rs)
  case (Cons w ws)
  show ?case using Cons [of "put (fst w) (snd w) rs"] assms
    by (auto simp: row_put split: option.splits if_splits)
qed (simp add: row_put)

end

end
