(* ===== verification/Dcim.thy ===== *)
theory Dcim
  imports Tables
begin

text \<open>
  The rows of \<^verbatim>\<open>dcim/models/\<close>, \<^verbatim>\<open>asset/models/\<close> and the discovery
  candidate of \<^verbatim>\<open>network/models/\<close>, and the database that the components share. A
  table is a list of rows in primary-key order, a foreign key the identifier of a row, a
  many-to-many field the list of the identifiers. Choice fields keep their text, which is what
  the program compares. A decimal with one fractional digit (heights and positions in rack units)
  is its number of tenths; a moment is a number of seconds.
\<close>

type_synonym uid = nat
type_synonym moment = int

record site =
  site_id :: uid
  site_name :: string
  site_domain :: string

record area =
  area_id :: uid
  area_name :: string
  area_parent :: "uid option"
  area_site :: uid

record rack =
  rack_id :: uid
  rack_name :: string
  rack_area :: uid
  rack_height :: int
  rack_occupied :: "int list"

record vendor =
  vendor_id :: uid
  vendor_name :: string

record device_type =
  dt_id :: uid
  dt_model :: string
  dt_platform :: string
  dt_vendor :: uid
  dt_height :: int

record device_role =
  role_id :: uid
  role_name :: string
  role_description :: "string option"

record tag =
  tag_id :: uid
  tag_name :: string

record device =
  dev_id :: uid
  dev_name :: string
  dev_ip :: string
  dev_mac :: "string option"
  dev_serial :: "string option"
  dev_inventory :: "string option"
  dev_tags :: "uid list"
  dev_type :: "uid option"
  dev_role :: "uid option"
  dev_site :: uid
  dev_area :: uid
  dev_rack :: "uid option"
  dev_stacked :: bool
  dev_position :: "int option"
  dev_face :: "string option"
  dev_image :: "string option"
  dev_status :: string
  dev_source :: string
  dev_last_seen :: "moment option"
  dev_uptime :: "int option"
  dev_last_reboot :: "moment option"

record dev_module =
  mod_id :: uid
  mod_device :: uid
  mod_name :: string
  mod_inventory :: "string option"
  mod_description :: "string option"
  mod_vendor :: "uid option"
  mod_serial :: "string option"

record runtime =
  rt_device :: uid
  rt_ping :: bool
  rt_snmp :: bool
  rt_ssh :: bool
  rt_netconf :: bool
  rt_last_check :: "moment option"
  rt_uptime :: "int option"

record stack_member =
  sm_device :: uid
  sm_switch :: int
  sm_role :: string
  sm_mac :: string
  sm_priority :: "int option"
  sm_version :: "string option"
  sm_state :: string

record vlan =
  vlan_uid :: uid
  vlan_site :: uid
  vlan_number :: int
  vlan_name :: "string option"
  vlan_subnet :: "string option"
  vlan_gateway :: "string option"
  vlan_usage :: "string option"
  vlan_description :: "string option"

record interface =
  ifc_id :: uid
  ifc_name :: string
  ifc_device :: uid
  ifc_mac :: "string option"
  ifc_ip :: "string option"
  ifc_status :: string
  ifc_endpoint :: "string option"
  ifc_speed :: "int option"
  ifc_duplex :: "string option"
  ifc_speed_mode :: "string option"
  ifc_switchport :: bool
  ifc_switchport_mode :: "string option"
  ifc_access_vlan :: "uid option"
  ifc_native_vlan :: "uid option"
  ifc_vlan_raw :: string
  ifc_is_trunk :: bool
  ifc_trunk_vlans :: "uid list"
  ifc_is_virtual :: bool
  ifc_kind :: string
  ifc_mode :: "string option"
  ifc_lag :: "uid option"
  ifc_lag_mode :: "string option"
  ifc_description :: "string option"

record inv_item =
  inv_id :: uid
  inv_number :: "string option"
  inv_kind :: string
  inv_designation :: string
  inv_vendor :: "uid option"
  inv_model :: string
  inv_serial :: "string option"
  inv_site :: uid
  inv_area :: "uid option"
  inv_comment :: string
  inv_status :: string

record candidate =
  cand_id :: uid
  cand_site :: uid
  cand_ip :: string
  cand_hostname :: string
  cand_alive :: bool
  cand_ssh :: bool
  cand_ping :: bool
  cand_last_seen :: moment
  cand_classified :: bool
  cand_accepted :: "bool option"

record db =
  t_sites :: "site list"
  t_areas :: "area list"
  t_racks :: "rack list"
  t_vendors :: "vendor list"
  t_types :: "device_type list"
  t_roles :: "device_role list"
  t_tags :: "tag list"
  t_devices :: "device list"
  t_modules :: "dev_module list"
  t_runtimes :: "runtime list"
  t_stacks :: "stack_member list"
  t_interfaces :: "interface list"
  t_vlans :: "vlan list"
  t_inventory :: "inv_item list"
  t_candidates :: "candidate list"

definition find_site :: "db \<Rightarrow> uid \<Rightarrow> site option" where
  "find_site d i = first_row (\<lambda>r. site_id r = i) (t_sites d)"

definition find_area :: "db \<Rightarrow> uid \<Rightarrow> area option" where
  "find_area d i = first_row (\<lambda>r. area_id r = i) (t_areas d)"

definition find_rack :: "db \<Rightarrow> uid \<Rightarrow> rack option" where
  "find_rack d i = first_row (\<lambda>r. rack_id r = i) (t_racks d)"

definition find_type :: "db \<Rightarrow> uid \<Rightarrow> device_type option" where
  "find_type d i = first_row (\<lambda>r. dt_id r = i) (t_types d)"

definition find_device :: "db \<Rightarrow> uid \<Rightarrow> device option" where
  "find_device d i = first_row (\<lambda>r. dev_id r = i) (t_devices d)"

text \<open>The row a nullable foreign key leads to.\<close>

definition fk :: "(uid \<Rightarrow> 'r option) \<Rightarrow> uid option \<Rightarrow> 'r option" where
  "fk f k = (case k of None \<Rightarrow> None | Some i \<Rightarrow> f i)"

lemma fk_simps [simp]: "fk f None = None" "fk f (Some i) = f i"
  by (simp_all add: fk_def)

text \<open>
  \<^verbatim>\<open>Area.__str__\<close>: the path of the names from the root. The walk up the parents has
  no bound; \<open>None\<close> is a walk that never ends.
\<close>

partial_function (option) area_path :: "db \<Rightarrow> area \<Rightarrow> string list \<Rightarrow> string list option" where
  "area_path d a path =
     (case fk (find_area d) (area_parent a) of
        None \<Rightarrow> Some (area_name a # path)
      | Some p \<Rightarrow> area_path d p (area_name a # path))"

declare area_path.simps [code]

text \<open>The walk looks at the areas only.\<close>

lemma area_path_same:
  assumes "area_path d a p = Some y" and "t_areas d' = t_areas d"
  shows "area_path d' a p = Some y"
proof -
  have "t_areas d' = t_areas d \<longrightarrow> area_path d' a p = Some y"
  proof (rule area_path.raw_induct [OF _ assms(1), where P = "\<lambda>d a p y. t_areas d' = t_areas d \<longrightarrow> area_path d' a p = Some y"], rule impI)
    fix walk :: "db \<Rightarrow> area \<Rightarrow> string list \<Rightarrow> string list option" and d :: db and a :: area and p y
    assume IH: "\<And>d a p y. walk d a p = Some y \<Longrightarrow> t_areas d' = t_areas d \<longrightarrow> area_path d' a p = Some y"
      and step: "(case fk (find_area d) (area_parent a) of None \<Rightarrow> Some (area_name a # p) | Some q \<Rightarrow> walk d q (area_name a # p)) = Some y"
      and same: "t_areas d' = t_areas d"
    have "find_area d' = find_area d" using same by (simp add: fun_eq_iff find_area_def)
    with IH step same show "area_path d' a p = Some y"
      by (subst area_path.simps) (auto split: option.splits)
  qed
  with assms(2) show ?thesis by blast
qed

lemma area_path_cong:
  assumes "t_areas d' = t_areas d"
  shows "area_path d' a p = area_path d a p"
proof (cases "area_path d a p")
  case None
  then show ?thesis using area_path_same [of d' a p _ d] assms by (cases "area_path d' a p") auto
next
  case (Some y)
  then show ?thesis using area_path_same [OF Some assms] by simp
qed

text \<open>\<^verbatim>\<open>Area.clean\<close>\<close>

definition area_clean :: "db \<Rightarrow> area \<Rightarrow> (string \<times> string) list + unit" where
  "area_clean d a =
     (case fk (find_area d) (area_parent a) of
        Some p \<Rightarrow> if area_site p \<noteq> area_site a
          then Inl [(''parent'', ''Parent area must belong to the same site as this area.'')] else Inr ()
      | None \<Rightarrow> Inr ())"

section \<open>Rows with the defaults of their fields\<close>

definition new_device :: "uid \<Rightarrow> string \<Rightarrow> string \<Rightarrow> uid \<Rightarrow> uid \<Rightarrow> device" where
  "new_device i name ip site area = \<lparr>dev_id = i, dev_name = name, dev_ip = ip, dev_mac = None,
     dev_serial = None, dev_inventory = None, dev_tags = [], dev_type = None, dev_role = None,
     dev_site = site, dev_area = area, dev_rack = None, dev_stacked = False, dev_position = None,
     dev_face = None, dev_image = None, dev_status = ''unknown'', dev_source = ''manual'',
     dev_last_seen = None, dev_uptime = None, dev_last_reboot = None\<rparr>"

definition new_module :: "uid \<Rightarrow> uid \<Rightarrow> string \<Rightarrow> dev_module" where
  "new_module i dev name = \<lparr>mod_id = i, mod_device = dev, mod_name = name, mod_inventory = None,
     mod_description = None, mod_vendor = None, mod_serial = None\<rparr>"

definition new_runtime :: "uid \<Rightarrow> runtime" where
  "new_runtime dev = \<lparr>rt_device = dev, rt_ping = False, rt_snmp = False, rt_ssh = False,
     rt_netconf = False, rt_last_check = None, rt_uptime = None\<rparr>"

definition new_interface :: "uid \<Rightarrow> uid \<Rightarrow> string \<Rightarrow> interface" where
  "new_interface i dev name = \<lparr>ifc_id = i, ifc_name = name, ifc_device = dev, ifc_mac = None,
     ifc_ip = None, ifc_status = ''down'', ifc_endpoint = None, ifc_speed = None, ifc_duplex = None,
     ifc_speed_mode = None, ifc_switchport = False, ifc_switchport_mode = None,
     ifc_access_vlan = None, ifc_native_vlan = None, ifc_vlan_raw = [], ifc_is_trunk = False,
     ifc_trunk_vlans = [], ifc_is_virtual = False, ifc_kind = ''physical'', ifc_mode = None,
     ifc_lag = None, ifc_lag_mode = None, ifc_description = None\<rparr>"

definition new_item :: "uid \<Rightarrow> string \<Rightarrow> uid \<Rightarrow> inv_item" where
  "new_item i model site = \<lparr>inv_id = i, inv_number = None, inv_kind = ''device'',
     inv_designation = ''Switch'', inv_vendor = None, inv_model = model, inv_serial = None,
     inv_site = site, inv_area = None, inv_comment = [], inv_status = ''in_stock''\<rparr>"

definition empty_db :: db where
  "empty_db = \<lparr>t_sites = [], t_areas = [], t_racks = [], t_vendors = [], t_types = [], t_roles = [],
     t_tags = [], t_devices = [], t_modules = [], t_runtimes = [], t_stacks = [], t_interfaces = [],
     t_vlans = [], t_inventory = [], t_candidates = []\<rparr>"

end
