(* ===== verification/PyIp.thy ===== *)
theory PyIp
  imports PyVal Blocks
begin

text \<open>
  The part of Python's standard module \<^verbatim>\<open>ipaddress\<close> that the program calls: reading
  and printing IPv4 and IPv6 addresses and networks, membership, inclusion and overlap of
  networks, their hosts, and the summary of an address range. An address is its version and its
  integer value, a network its version, first address and prefix length, as in the module.
\<close>

section \<open>Addresses\<close>

datatype ip_version = IPv4 | IPv6

record ip_addr =
  ip_ver :: ip_version
  ip_int :: int

record ip_net =
  net_ver :: ip_version
  net_addr :: int
  net_plen :: nat

definition ver_bits :: "ip_version \<Rightarrow> nat" where
  "ver_bits v = (case v of IPv4 \<Rightarrow> 32 | IPv6 \<Rightarrow> 128)"

definition ver_num :: "ip_version \<Rightarrow> int" where
  "ver_num v = (case v of IPv4 \<Rightarrow> 4 | IPv6 \<Rightarrow> 6)"

subsection \<open>Reading\<close>

text \<open>\<^verbatim>\<open>_parse_octet\<close>: one to three digits, no leading zero, at most 255.\<close>

definition parse_octet :: "string \<Rightarrow> int option" where
  "parse_octet s =
     (if all_digits s \<and> length s \<le> 3 \<and> (s = ''0'' \<or> hd s \<noteq> CHR ''0'') \<and> digits_value s \<le> 255
      then Some (int (digits_value s)) else None)"

fun parse_octets :: "int \<Rightarrow> string list \<Rightarrow> int option" where
  "parse_octets acc [] = Some acc"
| "parse_octets acc (s # ss) =
     (case parse_octet s of None \<Rightarrow> None | Some o1 \<Rightarrow> parse_octets (256 * acc + o1) ss)"

definition parse_ipv4 :: "string \<Rightarrow> int option" where
  "parse_ipv4 s =
     (let parts = split_on ''.'' s in if length parts = 4 then parse_octets 0 parts else None)"

definition is_hex :: "char \<Rightarrow> bool" where
  "is_hex c \<longleftrightarrow> is_digit c \<or> (97 \<le> code (char_lower c) \<and> code (char_lower c) \<le> 102)"

definition hex_value :: "char \<Rightarrow> int" where
  "hex_value c = (if is_digit c then int (code c) - 48 else int (code (char_lower c)) - 87)"

text \<open>\<^verbatim>\<open>_parse_hextet\<close>: one to four hexadecimal digits.\<close>

definition parse_hextet :: "string \<Rightarrow> int option" where
  "parse_hextet s =
     (if s \<noteq> [] \<and> length s \<le> 4 \<and> list_all is_hex s
      then Some (foldl (\<lambda>n c. 16 * n + hex_value c) 0 s) else None)"

fun parse_hextets :: "int \<Rightarrow> string list \<Rightarrow> int option" where
  "parse_hextets acc [] = Some acc"
| "parse_hextets acc (s # ss) =
     (case parse_hextet s of None \<Rightarrow> None | Some h \<Rightarrow> parse_hextets (65536 * acc + h) ss)"

fun hex_str_nat :: "nat \<Rightarrow> string" where
  "hex_str_nat n = (if n < 16 then [hex_char n] else hex_str_nat (n div 16) @ [hex_char (n mod 16)])"

declare hex_str_nat.simps [simp del]

text \<open>
  \<^verbatim>\<open>_ip_int_from_string\<close> of IPv6: an IPv4 suffix is rewritten to two hextets, at most
  one empty inner part stands for a run of zero hextets, and an empty first or last part is only
  allowed next to it.
\<close>

definition expand_v4_suffix :: "string list \<Rightarrow> string list option" where
  "expand_v4_suffix parts =
     (if CHR ''.'' \<in> set (last parts) then
        (case parse_ipv4 (last parts) of
           None \<Rightarrow> None
         | Some v \<Rightarrow> Some (butlast parts @ [hex_str_nat (nat (v div 65536)), hex_str_nat (nat (v mod 65536))]))
      else Some parts)"

definition inner_empty :: "string list \<Rightarrow> nat list" where
  "inner_empty parts = filter (\<lambda>i. parts ! i = []) [1 ..< length parts - 1]"

definition fill_gap :: "string list \<Rightarrow> nat \<Rightarrow> nat \<Rightarrow> int option" where
  "fill_gap parts hi lo =
     (case parse_hextets 0 (take hi parts) of
        None \<Rightarrow> None
      | Some h \<Rightarrow> parse_hextets (h * 65536 ^ (8 - (hi + lo))) (drop (length parts - lo) parts))"

definition gap_hi :: "string list \<Rightarrow> nat \<Rightarrow> nat" where
  "gap_hi parts k = (if hd parts = [] then k - 1 else k)"

definition gap_lo :: "string list \<Rightarrow> nat \<Rightarrow> nat" where
  "gap_lo parts k = (if last parts = [] then length parts - k - 1 - 1 else length parts - k - 1)"

definition parse_ipv6_parts :: "string list \<Rightarrow> int option" where
  "parse_ipv6_parts parts =
     (if length parts > 9 then None
      else case inner_empty parts of
        [] \<Rightarrow> (if length parts = 8 then parse_hextets 0 parts else None)
      | [k] \<Rightarrow>
          (if (hd parts = [] \<and> gap_hi parts k \<noteq> 0) \<or> (last parts = [] \<and> gap_lo parts k \<noteq> 0)
              \<or> 8 < gap_hi parts k + gap_lo parts k + 1
           then None else fill_gap parts (gap_hi parts k) (gap_lo parts k))
      | _ # _ # _ \<Rightarrow> None)"

definition parse_ipv6 :: "string \<Rightarrow> int option" where
  "parse_ipv6 s =
     (let parts = split_on '':'' s
      in if length parts < 3 then None
         else case expand_v4_suffix parts of None \<Rightarrow> None | Some ps \<Rightarrow> parse_ipv6_parts ps)"

text \<open>
  \<^verbatim>\<open>ip_address(text)\<close>: IPv4 first, then IPv6. A text with a slash is refused; an IPv6
  scope after a percent sign is refused here (the program never scans scoped addresses).
\<close>

definition ip_address :: "string \<Rightarrow> exn + ip_addr" where
  "ip_address s =
     (case parse_ipv4 s of
        Some i \<Rightarrow> Inr \<lparr>ip_ver = IPv4, ip_int = i\<rparr>
      | None \<Rightarrow> (case parse_ipv6 s of
          Some i \<Rightarrow> Inr \<lparr>ip_ver = IPv6, ip_int = i\<rparr>
        | None \<Rightarrow> Inl (ValueError (py_repr_str s @ '' does not appear to be an IPv4 or IPv6 address''))))"

subsection \<open>Printing\<close>

definition ipv4_str :: "int \<Rightarrow> string" where
  "ipv4_str i = join ''.''
     [nat_str (nat (i div 16777216)), nat_str (nat (i div 65536 mod 256)),
      nat_str (nat (i div 256 mod 256)), nat_str (nat (i mod 256))]"

fun hextets :: "nat \<Rightarrow> int \<Rightarrow> int list" where
  "hextets 0 i = []"
| "hextets (Suc n) i = hextets n (i div 65536) @ [i mod 65536]"

text \<open>
  \<^verbatim>\<open>_compress_hextets\<close>: the first longest run of at least two zero hextets becomes
  \<^verbatim>\<open>::\<close>. \<open>best_zero_run\<close> is (start, length) of that run.
\<close>

fun best_zero_run :: "nat \<Rightarrow> int list \<Rightarrow> nat \<times> nat \<Rightarrow> nat \<times> nat" where
  "best_zero_run i [] best = best"
| "best_zero_run i (h # hs) best =
     (let run = length (takeWhile (\<lambda>x. x = 0) (h # hs))
      in best_zero_run (Suc i) hs (if snd best < run then (i, run) else best))"

definition ipv6_str :: "int \<Rightarrow> string" where
  "ipv6_str i =
     (let hs = hextets 8 i;
          txt = (\<lambda>xs. map (\<lambda>h. hex_str_nat (nat h)) xs);
          (st, len) = best_zero_run 0 hs (0, 0)
      in if len > 1
         then join '':'' (txt (take st hs)) @ ''::'' @ join '':'' (txt (drop (st + len) hs))
         else join '':'' (txt hs))"

definition ip_str :: "ip_addr \<Rightarrow> string" where
  "ip_str a = (case ip_ver a of IPv4 \<Rightarrow> ipv4_str (ip_int a) | IPv6 \<Rightarrow> ipv6_str (ip_int a))"

subsection \<open>IPv4 texts round trip\<close>

definition valid_ip :: "ip_addr \<Rightarrow> bool" where
  "valid_ip a \<longleftrightarrow> 0 \<le> ip_int a \<and> ip_int a < 2 ^ ver_bits (ip_ver a)"

lemma cut_append:
  "\<not> contains a sep \<Longrightarrow> length sep = 1 \<Longrightarrow> cut sep (a @ sep @ b) = Some (a, b)"
proof (induction a)
  case Nil
  then show ?case by (cases sep) auto
next
  case (Cons c a)
  then show ?case by (cases sep) auto
qed

lemma split_on_append:
  assumes "\<not> contains a sep" and "length sep = 1"
  shows "split_on sep (a @ sep @ b) = a # split_on sep b"
  using assms by (subst split_on.simps) (auto simp: cut_append)

lemma split_on_last: "\<not> contains a sep \<Longrightarrow> sep \<noteq> [] \<Longrightarrow> split_on sep a = [a]"
  by (subst split_on.simps) (simp add: cut_None [symmetric] del: cut.simps)

lemma contains_char: "contains s [c] \<longleftrightarrow> c \<in> set s"
  by (induction s) auto

lemma digits_no_char: "all_digits s \<Longrightarrow> \<not> is_digit c \<Longrightarrow> \<not> contains s [c]"
  by (auto simp: contains_char all_digits_def list_all_iff)

lemma split_on_join:
  "ss \<noteq> [] \<Longrightarrow> \<forall>s \<in> set ss. \<not> contains s [c] \<Longrightarrow> split_on [c] (join [c] ss) = ss"
proof (induction ss)
  case (Cons s ss)
  show ?case
  proof (cases ss)
    case Nil
    with Cons.prems show ?thesis by (simp add: split_on_last)
  next
    case (Cons t ts)
    with Cons.prems Cons.IH have "split_on [c] (join [c] ss) = ss" by simp
    then show ?thesis
      using Cons.prems split_on_append [of s "[c]" "join [c] ss"] Cons by simp
  qed
qed simp

lemma digit_char_0 [simp]: "digit_char 0 = CHR ''0''"
  by (simp add: digit_char_def char_eq_code)

lemma nat_str_hd: "n \<noteq> 0 \<Longrightarrow> hd (nat_str n) \<noteq> CHR ''0''"
proof (induction n rule: nat_str.induct)
  case (1 n)
  have nonempty: "nat_str m \<noteq> []" for m
    using all_digits_nat_str [of m] by (auto simp: all_digits_def)
  have digit0: "digit_char d = CHR ''0'' \<longleftrightarrow> d = 0" if "d < 10" for d
  proof
    assume "digit_char d = CHR ''0''"
    then have "digit_value (digit_char d) = 0" by (simp add: digit_value_def)
    with that show "d = 0" by simp
  qed (simp add: digit_char_0)
  show ?case
  proof (cases "n < 10")
    case True
    with "1.prems" show ?thesis by (subst nat_str.simps) (simp add: digit0)
  next
    case False
    with "1.IH" have "hd (nat_str (n div 10)) \<noteq> CHR ''0''" by auto
    with False show ?thesis by (subst nat_str.simps) (simp add: nonempty)
  qed
qed

lemma nat_str_length: "n < 1000 \<Longrightarrow> length (nat_str n) \<le> 3"
  by (subst nat_str.simps, subst nat_str.simps, subst nat_str.simps) auto

lemma parse_octet_nat_str: "n < 256 \<Longrightarrow> parse_octet (nat_str n) = Some (int n)"
proof -
  assume n: "n < 256"
  have "nat_str n = ''0'' \<or> hd (nat_str n) \<noteq> CHR ''0''"
  proof (cases "n = 0")
    case True
    then show ?thesis by (subst nat_str.simps) (simp add: digit_char_0)
  qed (simp add: nat_str_hd)
  with n show ?thesis using nat_str_length [of n] by (auto simp: parse_octet_def)
qed

lemma four_octets:
  fixes i :: int
  shows "256 * (256 * (256 * (i div 16777216) + i div 65536 mod 256) + i div 256 mod 256) + i mod 256 = i"
proof -
  have "i div 65536 div 256 = i div 16777216" and "i div 256 div 256 = i div 65536"
    by (simp_all add: div_mult2_eq [symmetric] zdiv_zmult2_eq [symmetric])
  then show ?thesis
    by (metis div_mult_mod_eq mult.commute)
qed

lemma parse_ipv4_octets:
  assumes "a < 256" "b < 256" "c < 256" "d < 256"
  shows "parse_ipv4 (join ''.'' [nat_str a, nat_str b, nat_str c, nat_str d])
    = Some (256 * (256 * (256 * int a + int b) + int c) + int d)"
proof -
  have "split_on ''.'' (join ''.'' [nat_str a, nat_str b, nat_str c, nat_str d])
      = [nat_str a, nat_str b, nat_str c, nat_str d]"
    by (rule split_on_join) (auto simp: digits_no_char is_digit_def)
  then show ?thesis
    using assms by (simp add: parse_ipv4_def parse_octet_nat_str del: join.simps)
qed

lemma parse_ipv4_str: "0 \<le> i \<Longrightarrow> i < 2 ^ 32 \<Longrightarrow> parse_ipv4 (ipv4_str i) = Some i"
proof -
  assume i: "0 \<le> i" "i < 2 ^ 32"
  have a: "0 \<le> i div 16777216" "i div 16777216 < 256" using i by simp_all
  have "nat (i div 16777216) < 256" "nat (i div 65536 mod 256) < 256"
    "nat (i div 256 mod 256) < 256" "nat (i mod 256) < 256"
    using a by (simp_all add: nat_less_iff)
  note p = parse_ipv4_octets [OF this]
  have "int (nat (i div 16777216)) = i div 16777216" "int (nat (i div 65536 mod 256)) = i div 65536 mod 256"
    "int (nat (i div 256 mod 256)) = i div 256 mod 256" "int (nat (i mod 256)) = i mod 256"
    using a by simp_all
  with p show ?thesis by (simp only: ipv4_str_def four_octets)
qed

lemma ip_address_ipv4_str:
  "valid_ip a \<Longrightarrow> ip_ver a = IPv4 \<Longrightarrow> ip_address (ip_str a) = Inr a"
  by (cases a) (auto simp: valid_ip_def ver_bits_def ip_address_def ip_str_def parse_ipv4_str)

section \<open>Networks\<close>

definition block_size :: "ip_net \<Rightarrow> int" where
  "block_size n = 2 ^ (ver_bits (net_ver n) - net_plen n)"

definition net_last :: "ip_net \<Rightarrow> int" where
  "net_last n = net_addr n + block_size n - 1"

text \<open>A network as the module builds it: no host bits set, prefix length in range.\<close>

definition valid_net :: "ip_net \<Rightarrow> bool" where
  "valid_net n \<longleftrightarrow> net_plen n \<le> ver_bits (net_ver n) \<and> 0 \<le> net_addr n
     \<and> net_addr n < 2 ^ ver_bits (net_ver n) \<and> block_size n dvd net_addr n"

text \<open>\<^verbatim>\<open>address in network\<close>\<close>

definition in_net :: "ip_addr \<Rightarrow> ip_net \<Rightarrow> bool" where
  "in_net a n \<longleftrightarrow> ip_ver a = net_ver n \<and> net_addr n \<le> ip_int a \<and> ip_int a \<le> net_last n"

definition members :: "ip_net \<Rightarrow> ip_addr set" where
  "members n = {a. in_net a n}"

definition first_addr :: "ip_net \<Rightarrow> ip_addr" where
  "first_addr n = \<lparr>ip_ver = net_ver n, ip_int = net_addr n\<rparr>"

definition last_addr :: "ip_net \<Rightarrow> ip_addr" where
  "last_addr n = \<lparr>ip_ver = net_ver n, ip_int = net_last n\<rparr>"

definition net_str :: "ip_net \<Rightarrow> string" where
  "net_str n = ip_str (first_addr n) @ ''/'' @ nat_str (net_plen n)"

text \<open>\<^verbatim>\<open>subnet_of\<close>: a \<^verbatim>\<open>TypeError\<close> for networks of different versions.\<close>

definition subnet_of :: "ip_net \<Rightarrow> ip_net \<Rightarrow> exn + bool" where
  "subnet_of a b =
     (if net_ver a \<noteq> net_ver b
      then Inl (TypeError (net_str a @ '' and '' @ net_str b @ '' are not of the same version''))
      else Inr (net_addr b \<le> net_addr a \<and> net_last a \<le> net_last b))"

text \<open>\<^verbatim>\<open>overlaps\<close>\<close>

definition overlaps :: "ip_net \<Rightarrow> ip_net \<Rightarrow> bool" where
  "overlaps a b \<longleftrightarrow> in_net (first_addr a) b \<or> in_net (last_addr a) b
     \<or> in_net (first_addr b) a \<or> in_net (last_addr b) a"

subsection \<open>Reading networks\<close>

text \<open>
  The prefix part of a network text: a number of bits, or for IPv4 a net mask or a host mask in
  dotted notation.
\<close>

definition prefix_of_number :: "ip_version \<Rightarrow> string \<Rightarrow> nat option" where
  "prefix_of_number v s =
     (if all_digits s \<and> digits_value s \<le> ver_bits v then Some (digits_value s) else None)"

definition mask_plens :: "int \<Rightarrow> nat list" where
  "mask_plens i = filter (\<lambda>p. i = 2 ^ 32 - 2 ^ (32 - p)) [0 ..< 33]
     @ filter (\<lambda>p. i = 2 ^ (32 - p) - 1) [0 ..< 33]"

definition parse_plen :: "ip_version \<Rightarrow> string \<Rightarrow> nat option" where
  "parse_plen v s =
     (case prefix_of_number v s of
        Some p \<Rightarrow> Some p
      | None \<Rightarrow> (case v of
          IPv6 \<Rightarrow> None
        | IPv4 \<Rightarrow> (case parse_ipv4 s of
            None \<Rightarrow> None
          | Some i \<Rightarrow> (case mask_plens i of [] \<Rightarrow> None | p # _ \<Rightarrow> Some p))))"

definition net_error :: "string \<Rightarrow> exn" where
  "net_error s = ValueError (py_repr_str s @ '' does not appear to be an IPv4 or IPv6 network'')"

definition host_bits_error :: "ip_addr \<Rightarrow> nat \<Rightarrow> exn" where
  "host_bits_error a p = ValueError (ip_str a @ ''/'' @ nat_str p @ '' has host bits set'')"

text \<open>
  \<^verbatim>\<open>ip_network(text, strict)\<close>. Without \<open>strict\<close> the host bits are cleared, with it
  they are an error.
\<close>

definition mk_network :: "bool \<Rightarrow> ip_version \<Rightarrow> int \<Rightarrow> nat \<Rightarrow> exn + ip_net" where
  "mk_network strict v i p =
     (let size = 2 ^ (ver_bits v - p)
      in if strict \<and> i mod size \<noteq> 0 then Inl (host_bits_error \<lparr>ip_ver = v, ip_int = i\<rparr> p)
         else Inr \<lparr>net_ver = v, net_addr = i - i mod size, net_plen = p\<rparr>)"

definition split_net_text :: "string \<Rightarrow> (string \<times> string option) option" where
  "split_net_text s =
     (case split_on ''/'' s of
        [a] \<Rightarrow> Some (a, None)
      | [a, p] \<Rightarrow> Some (a, Some p)
      | _ \<Rightarrow> None)"

definition ip_network :: "bool \<Rightarrow> string \<Rightarrow> exn + ip_net" where
  "ip_network strict s =
     (case split_net_text s of
        None \<Rightarrow> Inl (net_error s)
      | Some (a, p) \<Rightarrow>
         (let plen = (\<lambda>v. case p of None \<Rightarrow> Some (ver_bits v) | Some t \<Rightarrow> parse_plen v t)
          in case (parse_ipv4 a, plen IPv4) of
               (Some i, Some k) \<Rightarrow> mk_network strict IPv4 i k
             | _ \<Rightarrow> (case (parse_ipv6 a, plen IPv6) of
                 (Some i, Some k) \<Rightarrow> mk_network strict IPv6 i k
               | _ \<Rightarrow> Inl (net_error s))))"

text \<open>\<^verbatim>\<open>ip_interface(text).ip\<close>: the address before the slash, host bits kept.\<close>

definition ip_interface_ip :: "string \<Rightarrow> exn + ip_addr" where
  "ip_interface_ip s =
     (case ip_network False s of
        Inl e \<Rightarrow> Inl (ValueError (py_repr_str s @ '' does not appear to be an IPv4 or IPv6 interface''))
      | Inr n \<Rightarrow> (case split_net_text s of
          Some (a, _) \<Rightarrow> (case (net_ver n, parse_ipv4 a, parse_ipv6 a) of
              (IPv4, Some i, _) \<Rightarrow> Inr \<lparr>ip_ver = IPv4, ip_int = i\<rparr>
            | (IPv6, _, Some i) \<Rightarrow> Inr \<lparr>ip_ver = IPv6, ip_int = i\<rparr>
            | _ \<Rightarrow> Inl (net_error s))
        | None \<Rightarrow> Inl (net_error s)))"

lemma block_size_pos [simp]: "0 < block_size n"
  by (simp add: block_size_def)

lemma net_addr_le_last [simp]: "net_addr n \<le> net_last n"
  using block_size_pos [of n] by (simp add: net_last_def)

lemma members_nonempty: "members n \<noteq> {}"
proof -
  have "first_addr n \<in> members n" by (simp add: members_def in_net_def first_addr_def)
  then show ?thesis by blast
qed

lemma mk_network_valid:
  assumes "mk_network strict v i p = Inr n" and "0 \<le> i" and "i < 2 ^ ver_bits v" and "p \<le> ver_bits v"
  shows "valid_net n"
proof -
  let ?s = "2 ^ (ver_bits v - p) :: int"
  from assms(1) have n: "n = \<lparr>net_ver = v, net_addr = i - i mod ?s, net_plen = p\<rparr>"
    by (auto simp: mk_network_def Let_def split: if_splits)
  have "0 \<le> i - i mod ?s" using assms(2) by (simp add: zmod_le_nonneg_dividend)
  moreover have "i - i mod ?s < 2 ^ ver_bits v"
    using assms(3) pos_mod_sign [of ?s i] by (smt (verit) zero_less_power)
  ultimately show ?thesis
    using assms(4) n by (simp add: valid_net_def block_size_def dvd_minus_mod)
qed

text \<open>
  Aligned blocks are laminar: two that meet are nested, the shorter prefix outside.
\<close>

lemma aligned_blocks_nested:
  fixes a b :: int
  assumes "p \<le> q" and a: "2 ^ p dvd a" and b: "2 ^ q dvd b"
    and meet: "a < b + 2 ^ q" "b < a + 2 ^ p"
  shows "b \<le> a \<and> a + 2 ^ p \<le> b + 2 ^ q"
proof -
  have pq: "(2::int) ^ p dvd 2 ^ q" using \<open>p \<le> q\<close> by (rule le_imp_power_dvd)
  with b have pb: "2 ^ p dvd b" by (rule dvd_trans [rotated])
  have "b \<le> a"
  proof (rule ccontr)
    assume "\<not> b \<le> a"
    then have "0 < b - a" by simp
    moreover have "2 ^ p dvd b - a" using pb a by (rule dvd_diff)
    ultimately have "2 ^ p \<le> b - a" by (simp add: zdvd_imp_le)
    with meet show False by simp
  qed
  moreover have "2 ^ p dvd b + 2 ^ q - a" using pb pq a by (simp add: dvd_add dvd_diff)
  then have "2 ^ p \<le> b + 2 ^ q - a" using meet by (simp add: zdvd_imp_le)
  ultimately show ?thesis by simp
qed

lemma members_meet:
  "members a \<inter> members b \<noteq> {} \<longleftrightarrow>
   net_ver a = net_ver b \<and> net_addr a \<le> net_last b \<and> net_addr b \<le> net_last a"
proof
  assume "net_ver a = net_ver b \<and> net_addr a \<le> net_last b \<and> net_addr b \<le> net_last a"
  then have "\<lparr>ip_ver = net_ver a, ip_int = max (net_addr a) (net_addr b)\<rparr> \<in> members a \<inter> members b"
    by (auto simp: members_def in_net_def)
  then show "members a \<inter> members b \<noteq> {}" by blast
qed (auto simp: members_def in_net_def)

lemma overlaps_iff_meet: "overlaps a b \<longleftrightarrow> members a \<inter> members b \<noteq> {}"
  using net_addr_le_last [of a] net_addr_le_last [of b]
  unfolding members_meet overlaps_def in_net_def first_addr_def last_addr_def
  by (auto simp del: net_addr_le_last)

lemma subnet_iff_members: "subnet_of a b = Inr True \<longleftrightarrow> members a \<subseteq> members b"
proof
  assume "subnet_of a b = Inr True"
  then show "members a \<subseteq> members b"
    by (auto simp: subnet_of_def members_def in_net_def split: if_splits)
next
  assume sub: "members a \<subseteq> members b"
  have "first_addr a \<in> members a" and "last_addr a \<in> members a"
    by (simp_all add: members_def in_net_def first_addr_def last_addr_def)
  with sub have "first_addr a \<in> members b" and "last_addr a \<in> members b" by blast+
  then show "subnet_of a b = Inr True"
    by (simp add: subnet_of_def members_def in_net_def first_addr_def last_addr_def)
qed

lemma nets_laminar:
  assumes "valid_net a" and "valid_net b" and "members a \<inter> members b \<noteq> {}"
  shows "members a \<subseteq> members b \<or> members b \<subseteq> members a"
proof -
  let ?w = "\<lambda>n. ver_bits (net_ver n) - net_plen n"
  from assms(3) have ver: "net_ver a = net_ver b"
    and meet: "net_addr a < net_addr b + 2 ^ ?w b" "net_addr b < net_addr a + 2 ^ ?w a"
    by (auto simp: members_meet net_last_def block_size_def)
  have da: "2 ^ ?w a dvd net_addr a" and db: "2 ^ ?w b dvd net_addr b"
    using assms(1,2) by (simp_all add: valid_net_def block_size_def)
  have sub: "members x \<subseteq> members y"
    if "net_ver x = net_ver y" "net_addr y \<le> net_addr x \<and> net_addr x + 2 ^ ?w x \<le> net_addr y + 2 ^ ?w y" for x y
    using that by (auto simp: members_def in_net_def net_last_def block_size_def)
  show ?thesis
  proof (cases "?w a \<le> ?w b")
    case True
    from aligned_blocks_nested [OF this da db meet] show ?thesis using sub [OF ver] by blast
  next
    case False
    then have "?w b \<le> ?w a" by simp
    from aligned_blocks_nested [OF this db da meet(2,1)] show ?thesis using sub [OF ver [symmetric]] by blast
  qed
qed

lemma valid_net_eq:
  assumes "valid_net a" and "valid_net b" and "members a = members b"
  shows "a = b"
proof -
  from assms(3) have "subnet_of a b = Inr True" and "subnet_of b a = Inr True"
    by (simp_all add: subnet_iff_members)
  then have e: "net_ver a = net_ver b" "net_addr a = net_addr b" "net_last a = net_last b"
    by (auto simp: subnet_of_def split: if_splits)
  then have "(2::int) ^ (ver_bits (net_ver a) - net_plen a) = 2 ^ (ver_bits (net_ver a) - net_plen b)"
    by (simp add: net_last_def block_size_def)
  then have "ver_bits (net_ver a) - net_plen a = ver_bits (net_ver a) - net_plen b" by simp
  then have "net_plen a = net_plen b"
    using assms(1,2) e unfolding valid_net_def by (metis diff_diff_cancel)
  with e show ?thesis by simp
qed

interpretation nets: block_family valid_net members overlaps "\<lambda>a b. subnet_of a b = Inr True"
  by unfold_locales
    (auto simp: members_nonempty overlaps_iff_meet subnet_iff_members dest: nets_laminar valid_net_eq)

subsection \<open>Networks that are read are valid\<close>

lemma parse_octet_range: "parse_octet s = Some x \<Longrightarrow> 0 \<le> x \<and> x < 256"
  by (auto simp: parse_octet_def split: if_splits)

lemma parse_octets_range:
  "parse_octets acc ss = Some r \<Longrightarrow> 0 \<le> acc \<Longrightarrow> acc < 256 ^ k \<Longrightarrow> 0 \<le> r \<and> r < 256 ^ (k + length ss)"
proof (induction ss arbitrary: acc k)
  case (Cons s ss)
  then obtain x where x: "parse_octet s = Some x" and r: "parse_octets (256 * acc + x) ss = Some r"
    by (auto split: option.splits)
  from parse_octet_range [OF x] Cons.prems have "0 \<le> 256 * acc + x" "256 * acc + x < 256 ^ Suc k"
    by auto
  from Cons.IH [OF r this] show ?case by simp
qed simp

lemma parse_ipv4_range: "parse_ipv4 s = Some i \<Longrightarrow> 0 \<le> i \<and> i < 2 ^ 32"
  using parse_octets_range [of 0 "split_on ''.'' s" i 0]
  by (auto simp: parse_ipv4_def Let_def split: if_splits)

lemma hex_value_range: "is_hex c \<Longrightarrow> 0 \<le> hex_value c \<and> hex_value c < 16"
  by (auto simp: is_hex_def hex_value_def is_digit_def)

lemma hex_fold_range:
  "list_all is_hex s \<Longrightarrow> 0 \<le> acc \<Longrightarrow> acc < 16 ^ k \<Longrightarrow>
   0 \<le> foldl (\<lambda>n c. 16 * n + hex_value c) acc s \<and>
   foldl (\<lambda>n c. 16 * n + hex_value c) acc s < 16 ^ (k + length s)"
proof (induction s arbitrary: acc k)
  case (Cons c s)
  then have "0 \<le> 16 * acc + hex_value c" "16 * acc + hex_value c < 16 ^ Suc k"
    using hex_value_range [of c] by auto
  with Cons.IH [of "16 * acc + hex_value c" "Suc k"] Cons.prems show ?case by simp
qed simp

lemma parse_hextet_range: "parse_hextet s = Some x \<Longrightarrow> 0 \<le> x \<and> x < 65536"
proof -
  assume x: "parse_hextet s = Some x"
  then have len: "length s \<le> 4" and "list_all is_hex s"
    and "x = foldl (\<lambda>n c. 16 * n + hex_value c) 0 s"
    by (auto simp: parse_hextet_def split: if_splits)
  with hex_fold_range [of s 0 0] have "0 \<le> x" "x < 16 ^ length s" by auto
  moreover have "(16::int) ^ length s \<le> 16 ^ 4" using len by (rule power_increasing) simp
  ultimately show ?thesis by simp
qed

lemma parse_hextets_range:
  "parse_hextets acc ss = Some r \<Longrightarrow> 0 \<le> acc \<Longrightarrow> acc < 65536 ^ k \<Longrightarrow>
   0 \<le> r \<and> r < 65536 ^ (k + length ss)"
proof (induction ss arbitrary: acc k)
  case (Cons s ss)
  then obtain x where x: "parse_hextet s = Some x" and r: "parse_hextets (65536 * acc + x) ss = Some r"
    by (auto split: option.splits)
  from parse_hextet_range [OF x] Cons.prems have "0 \<le> 65536 * acc + x" "65536 * acc + x < 65536 ^ Suc k"
    by auto
  from Cons.IH [OF r this] show ?case by simp
qed simp

lemma fill_gap_range:
  assumes "fill_gap parts hi lo = Some i" and fit: "hi + lo + 1 \<le> 8"
  shows "0 \<le> i \<and> i < 2 ^ 128"
proof -
  from assms(1) obtain h where h: "parse_hextets 0 (take hi parts) = Some h"
    and i: "parse_hextets (h * 65536 ^ (8 - (hi + lo))) (drop (length parts - lo) parts) = Some i"
    by (auto simp: fill_gap_def split: option.splits)
  from parse_hextets_range [OF h, of 0] have "0 \<le> h" "h < 65536 ^ min hi (length parts)"
    by (auto simp: min.commute)
  moreover have "(65536::int) ^ min hi (length parts) \<le> 65536 ^ hi" by (rule power_increasing) auto
  ultimately have hb: "0 \<le> h" "h < 65536 ^ hi" by linarith+
  then have "h * 65536 ^ (8 - (hi + lo)) < 65536 ^ hi * 65536 ^ (8 - (hi + lo))" by simp
  also have "(65536::int) ^ hi * 65536 ^ (8 - (hi + lo)) = 65536 ^ (8 - lo)"
    using fit by (simp add: power_add [symmetric])
  finally have "0 \<le> i \<and> i < 65536 ^ (8 - lo + length (drop (length parts - lo) parts))"
    using hb by (intro parse_hextets_range [OF i]) auto
  moreover have "(65536::int) ^ (8 - lo + length (drop (length parts - lo) parts)) \<le> 65536 ^ 8"
    using fit by (intro power_increasing) auto
  ultimately show ?thesis by simp
qed

lemma parse_ipv6_parts_range:
  assumes "parse_ipv6_parts parts = Some i"
  shows "0 \<le> i \<and> i < 2 ^ 128"
proof (cases "inner_empty parts")
  case Nil
  with assms have "parse_hextets 0 parts = Some i" and "length parts = 8"
    by (auto simp: parse_ipv6_parts_def split: if_splits)
  with parse_hextets_range [of 0 parts i 0] show ?thesis by simp
next
  case (Cons k ks)
  with assms have "gap_hi parts k + gap_lo parts k + 1 \<le> 8"
    and "fill_gap parts (gap_hi parts k) (gap_lo parts k) = Some i"
    by (auto simp: parse_ipv6_parts_def split: if_splits list.splits)
  then show ?thesis by (intro fill_gap_range)
qed

lemma parse_ipv6_range: "parse_ipv6 s = Some i \<Longrightarrow> 0 \<le> i \<and> i < 2 ^ 128"
  by (auto simp: parse_ipv6_def Let_def split: if_splits option.splits dest: parse_ipv6_parts_range)

lemma ip_address_valid: "ip_address s = Inr a \<Longrightarrow> valid_ip a"
  by (auto simp: ip_address_def valid_ip_def ver_bits_def split: option.splits
      dest: parse_ipv4_range parse_ipv6_range)

lemma parse_plen_le: "parse_plen v s = Some p \<Longrightarrow> p \<le> ver_bits v"
proof -
  assume p: "parse_plen v s = Some p"
  have m: "q \<le> 32" if "mask_plens i = q # qs" for i q qs
  proof -
    have "\<forall>x \<in> set (mask_plens i). x \<le> 32" by (auto simp: mask_plens_def)
    with that show ?thesis by simp
  qed
  show "p \<le> ver_bits v"
  proof (cases "prefix_of_number v s")
    case None
    with p obtain i ps where "v = IPv4" "mask_plens i = p # ps"
      by (auto simp: parse_plen_def split: option.splits ip_version.splits list.splits)
    with m show ?thesis by (simp add: ver_bits_def)
  next
    case (Some q)
    with p show ?thesis by (auto simp: parse_plen_def prefix_of_number_def split: if_splits)
  qed
qed

lemma ip_network_valid:
  assumes "ip_network strict s = Inr n"
  shows "valid_net n"
proof -
  obtain a pt where parts: "split_net_text s = Some (a, pt)"
    using assms by (auto simp: ip_network_def split: option.splits)
  define plen where "plen = (\<lambda>v. case pt of None \<Rightarrow> Some (ver_bits v) | Some t \<Rightarrow> parse_plen v t)"
  have le: "p \<le> ver_bits v" if "plen v = Some p" for v p
    using that by (auto simp: plen_def split: option.splits dest: parse_plen_le)
  from assms parts have cases: "(case (parse_ipv4 a, plen IPv4) of
        (Some i, Some k) \<Rightarrow> mk_network strict IPv4 i k
      | _ \<Rightarrow> (case (parse_ipv6 a, plen IPv6) of
          (Some i, Some k) \<Rightarrow> mk_network strict IPv6 i k | _ \<Rightarrow> Inl (net_error s))) = Inr n"
    unfolding ip_network_def parts plen_def Let_def by simp
  then consider i k where "parse_ipv4 a = Some i" "plen IPv4 = Some k" "mk_network strict IPv4 i k = Inr n"
    | i k where "parse_ipv6 a = Some i" "plen IPv6 = Some k" "mk_network strict IPv6 i k = Inr n"
    by (auto split: option.splits)
  then show ?thesis
  proof cases
    case 1
    with parse_ipv4_range [OF 1(1)] le [OF 1(2)] show ?thesis
      by (intro mk_network_valid [OF 1(3)]) (auto simp: ver_bits_def)
  next
    case 2
    with parse_ipv6_range [OF 2(1)] le [OF 2(2)] show ?thesis
      by (intro mk_network_valid [OF 2(3)]) (auto simp: ver_bits_def)
  qed
qed

subsection \<open>The summary of an address range\<close>

text \<open>
  \<^verbatim>\<open>summarize_address_range(first, last)\<close>: repeatedly the largest aligned block that
  starts at the first address and fits. \<open>ctz b i\<close> counts the trailing zero bits of \<open>i\<close>,
  at most \<open>b\<close>; \<open>bit_len\<close> is \<^verbatim>\<open>int.bit_length\<close>.
\<close>

fun ctz :: "nat \<Rightarrow> int \<Rightarrow> nat" where
  "ctz 0 i = 0"
| "ctz (Suc b) i = (if i mod 2 = 0 then Suc (ctz b (i div 2)) else 0)"

function bit_len :: "int \<Rightarrow> nat" where
  "bit_len i = (if i \<le> 0 then 0 else Suc (bit_len (i div 2)))"
  by pat_completeness auto
termination
  by (relation "measure nat") auto

declare bit_len.simps [simp del]

definition summary_bits :: "ip_version \<Rightarrow> int \<Rightarrow> int \<Rightarrow> nat" where
  "summary_bits v lo hi = min (ctz (ver_bits v) lo) (bit_len (hi - lo + 1) - 1)"

function summarize :: "ip_version \<Rightarrow> int \<Rightarrow> int \<Rightarrow> ip_net list" where
  "summarize v lo hi =
     (if hi < lo then []
      else let k = summary_bits v lo hi
           in \<lparr>net_ver = v, net_addr = lo, net_plen = ver_bits v - k\<rparr>
              # summarize v (lo + 2 ^ k) hi)"
  by pat_completeness auto
termination
  by (relation "measure (\<lambda>(v, lo, hi). nat (hi - lo + 1))") auto

declare summarize.simps [simp del]

lemma ctz_dvd: "2 ^ ctz b i dvd i"
proof (induction b arbitrary: i)
  case (Suc b)
  show ?case
  proof (cases "i mod 2 = 0")
    case True
    then have "i = 2 * (i div 2)" by presburger
    moreover have "2 * 2 ^ ctz b (i div 2) dvd 2 * (i div 2)" using Suc by (rule mult_dvd_mono [OF dvd_refl])
    ultimately show ?thesis using True by simp
  qed simp
qed simp

lemma ctz_le: "ctz b i \<le> b"
  by (induction b arbitrary: i) auto

lemma bit_len_pow: "0 < i \<Longrightarrow> 2 ^ (bit_len i - 1) \<le> i"
proof (induction i rule: bit_len.induct)
  case (1 i)
  show ?case
  proof (cases "i = 1")
    case True
    then show ?thesis by (simp add: bit_len.simps)
  next
    case False
    with "1.prems" have h: "0 < i div 2" by presburger
    with "1.IH" "1.prems" have le: "2 ^ (bit_len (i div 2) - 1) \<le> i div 2" by auto
    obtain m where m: "bit_len (i div 2) = Suc m" using h by (subst (asm) bit_len.simps) auto
    have "bit_len i = Suc (Suc m)" using "1.prems" m by (subst bit_len.simps) simp
    with le m show ?thesis by simp
  qed
qed

lemma summary_bits_fit:
  assumes "lo \<le> hi"
  shows "lo + 2 ^ summary_bits v lo hi - 1 \<le> hi"
proof -
  have "(2::int) ^ summary_bits v lo hi \<le> 2 ^ (bit_len (hi - lo + 1) - 1)"
    by (simp add: summary_bits_def)
  also have "\<dots> \<le> hi - lo + 1" using assms by (intro bit_len_pow) simp
  finally show ?thesis by simp
qed

lemma summary_head:
  assumes "lo \<le> hi" and "0 \<le> lo" and "hi < 2 ^ ver_bits v"
    and n: "n = \<lparr>net_ver = v, net_addr = lo, net_plen = ver_bits v - summary_bits v lo hi\<rparr>"
  shows "valid_net n" and "net_last n = lo + 2 ^ summary_bits v lo hi - 1"
proof -
  have k: "summary_bits v lo hi \<le> ver_bits v"
    using ctz_le [of "ver_bits v" lo] by (simp add: summary_bits_def)
  have "2 ^ summary_bits v lo hi dvd lo"
    by (rule dvd_trans [OF le_imp_power_dvd ctz_dvd [of "ver_bits v" lo]]) (simp add: summary_bits_def)
  with assms k show "valid_net n" by (simp add: valid_net_def block_size_def)
  from k n show "net_last n = lo + 2 ^ summary_bits v lo hi - 1"
    by (simp add: net_last_def block_size_def)
qed

lemma summarize_members:
  assumes "0 \<le> lo" and "hi < 2 ^ ver_bits v"
  shows "(\<Union>n \<in> set (summarize v lo hi). members n)
    = {a. ip_ver a = v \<and> lo \<le> ip_int a \<and> ip_int a \<le> hi}"
  using assms
proof (induction v lo hi rule: summarize.induct)
  case (1 v lo hi)
  show ?case
  proof (cases "hi < lo")
    case True
    then show ?thesis by (subst summarize.simps) auto
  next
    case False
    let ?k = "summary_bits v lo hi"
    define n where "n = \<lparr>net_ver = v, net_addr = lo, net_plen = ver_bits v - ?k\<rparr>"
    from False have le: "lo \<le> hi" by simp
    note head = summary_head [OF le "1.prems" n_def] and fit = summary_bits_fit [OF le, of v]
    have rest: "(\<Union>n \<in> set (summarize v (lo + 2 ^ ?k) hi). members n)
        = {a. ip_ver a = v \<and> lo + 2 ^ ?k \<le> ip_int a \<and> ip_int a \<le> hi}"
      using "1.IH" [OF False refl] "1.prems" by simp
    have "members n = {a. ip_ver a = v \<and> lo \<le> ip_int a \<and> ip_int a < lo + 2 ^ ?k}"
      by (auto simp: members_def in_net_def head(2)) (simp_all add: n_def)
    moreover have "0 < (2::int) ^ ?k" by simp
    ultimately show ?thesis using rest False fit
      by (subst summarize.simps) (auto simp: Let_def n_def [symmetric] simp del: zero_less_power)
  qed
qed

lemma summarize_valid:
  assumes "0 \<le> lo" and "hi < 2 ^ ver_bits v" and "n \<in> set (summarize v lo hi)"
  shows "valid_net n \<and> lo \<le> net_addr n \<and> net_ver n = v"
  using assms
proof (induction v lo hi rule: summarize.induct)
  case (1 v lo hi)
  from "1.prems"(3) have nlt: "\<not> hi < lo" by (subst (asm) summarize.simps) (auto split: if_splits)
  let ?k = "summary_bits v lo hi"
  consider "n = \<lparr>net_ver = v, net_addr = lo, net_plen = ver_bits v - ?k\<rparr>"
    | "n \<in> set (summarize v (lo + 2 ^ ?k) hi)"
    using "1.prems"(3) nlt by (subst (asm) summarize.simps) (auto simp: Let_def)
  then show ?case
  proof cases
    case 1
    with nlt "1.prems" show ?thesis using summary_head(1) [OF _ _ _ 1] by simp
  next
    case 2
    have "0 \<le> lo + 2 ^ ?k" using "1.prems"(1) by simp
    from "1.IH" [OF nlt refl this "1.prems"(2) 2]
    have "valid_net n \<and> lo + 2 ^ ?k \<le> net_addr n \<and> net_ver n = v" .
    moreover have "lo \<le> lo + (2::int) ^ ?k" by simp
    ultimately show ?thesis by linarith
  qed
qed

lemma summarize_disjoint:
  assumes "0 \<le> lo" and "hi < 2 ^ ver_bits v"
  shows "pairwise (\<lambda>a b. members a \<inter> members b = {}) (set (summarize v lo hi))"
  using assms
proof (induction v lo hi rule: summarize.induct)
  case (1 v lo hi)
  show ?case
  proof (cases "hi < lo")
    case True
    then show ?thesis by (subst summarize.simps) simp
  next
    case False
    let ?k = "summary_bits v lo hi"
    define n where "n = \<lparr>net_ver = v, net_addr = lo, net_plen = ver_bits v - ?k\<rparr>"
    from False have le: "lo \<le> hi" by simp
    note head = summary_head [OF le "1.prems" n_def]
    have rest: "pairwise (\<lambda>a b. members a \<inter> members b = {}) (set (summarize v (lo + 2 ^ ?k) hi))"
      using "1.IH" [OF False refl] "1.prems" by simp
    have "members n \<inter> members m = {}" if "m \<in> set (summarize v (lo + 2 ^ ?k) hi)" for m
      using summarize_valid [OF _ _ that] "1.prems" head(2)
      by (auto simp: members_def in_net_def)
    with rest False show ?thesis
      by (subst summarize.simps) (auto simp: Let_def n_def [symmetric] pairwise_insert Int_commute)
  qed
qed

subsection \<open>Networks as text\<close>

lemma no_slash_digits: "\<not> contains (nat_str n) ''/''"
  by (rule digits_no_char [OF all_digits_nat_str]) (simp add: is_digit_def)

lemma no_slash_ipv4: "\<not> contains (ipv4_str i) ''/''"
proof -
  have "CHR ''/'' \<notin> set (nat_str n)" for n using no_slash_digits [of n] by (simp add: contains_char)
  then show ?thesis by (simp add: ipv4_str_def contains_char)
qed

lemma ip_network_str:
  assumes "valid_net n" and "net_ver n = IPv4"
  shows "ip_network strict (net_str n) = Inr n"
proof -
  let ?a = "ipv4_str (net_addr n)" and ?p = "nat_str (net_plen n)"
  have s: "net_str n = ?a @ ''/'' @ ?p" by (simp add: net_str_def ip_str_def first_addr_def assms(2))
  have "split_on ''/'' (net_str n) = [?a, ?p]"
    unfolding s by (subst split_on_append [OF no_slash_ipv4]) (simp_all add: split_on_last no_slash_digits)
  then have "split_net_text (net_str n) = Some (?a, Some ?p)" by (simp add: split_net_text_def)
  moreover have "parse_ipv4 ?a = Some (net_addr n)"
    using assms by (intro parse_ipv4_str) (auto simp: valid_net_def ver_bits_def)
  moreover have "parse_plen IPv4 ?p = Some (net_plen n)"
    using assms by (simp add: parse_plen_def prefix_of_number_def valid_net_def)
  moreover have "mk_network strict IPv4 (net_addr n) (net_plen n) = Inr n"
    using assms by (simp add: mk_network_def valid_net_def block_size_def dvd_eq_mod_eq_0)
  ultimately show ?thesis by (simp add: ip_network_def)
qed

subsection \<open>Hosts\<close>

lemma net_last_bound:
  assumes "valid_net n"
  shows "net_last n < 2 ^ ver_bits (net_ver n)"
proof -
  have "ver_bits (net_ver n) = (ver_bits (net_ver n) - net_plen n) + net_plen n"
    using assms by (simp add: valid_net_def)
  then have top: "2 ^ ver_bits (net_ver n) = block_size n * 2 ^ net_plen n"
    unfolding block_size_def by (metis power_add)
  obtain k where k: "net_addr n = block_size n * k" using assms by (auto simp: valid_net_def dvd_def)
  have "block_size n * k < block_size n * 2 ^ net_plen n" using assms by (simp add: valid_net_def k [symmetric] top [symmetric])
  then have "k + 1 \<le> 2 ^ net_plen n" by (simp add: mult_less_cancel_left_pos)
  then have "block_size n * (k + 1) \<le> block_size n * 2 ^ net_plen n" by (rule mult_left_mono) (simp add: less_imp_le)
  then show ?thesis by (simp add: net_last_def k top algebra_simps)
qed

lemma in_net_valid: "valid_net n \<Longrightarrow> in_net a n \<Longrightarrow> valid_ip a"
  using net_last_bound [of n] by (auto simp: valid_ip_def in_net_def valid_net_def)

text \<open>
  \<^verbatim>\<open>hosts()\<close>: for IPv4 all addresses between the network and the broadcast address, for
  IPv6 all but the first; both addresses of a block of two, the address of a block of one.
\<close>

definition host_range :: "ip_net \<Rightarrow> int \<times> int" where
  "host_range n =
     (if net_plen n + 1 \<ge> ver_bits (net_ver n) then (net_addr n, net_last n)
      else case net_ver n of
        IPv4 \<Rightarrow> (net_addr n + 1, net_last n - 1)
      | IPv6 \<Rightarrow> (net_addr n + 1, net_last n))"

definition is_host :: "ip_net \<Rightarrow> ip_addr \<Rightarrow> bool" where
  "is_host n a \<longleftrightarrow> ip_ver a = net_ver n \<and> fst (host_range n) \<le> ip_int a \<and> ip_int a \<le> snd (host_range n)"

definition hosts :: "ip_net \<Rightarrow> ip_addr list" where
  "hosts n = map (\<lambda>i. \<lparr>ip_ver = net_ver n, ip_int = i\<rparr>) [fst (host_range n) .. snd (host_range n)]"

lemma set_hosts: "set (hosts n) = {a. is_host n a}"
proof
  show "set (hosts n) \<subseteq> {a. is_host n a}" by (auto simp: hosts_def is_host_def)
  show "{a. is_host n a} \<subseteq> set (hosts n)"
  proof
    fix a assume "a \<in> {a. is_host n a}"
    then have "a = \<lparr>ip_ver = net_ver n, ip_int = ip_int a\<rparr>"
      and "ip_int a \<in> set [fst (host_range n) .. snd (host_range n)]"
      by (auto simp: is_host_def)
    then show "a \<in> set (hosts n)" unfolding hosts_def set_map by (rule image_eqI)
  qed
qed

end
