(* ===== verification/Ipam.thy ===== *)
theory Ipam
  imports PyIp
begin

text \<open>
  The address management of \<^verbatim>\<open>ipam/\<close>: VRFs, prefixes and IP addresses (models and
  choices), the validation of prefixes and of addresses, the allocation of the next free address
  and the form that assigns one. Tables are lists of rows in primary-key order; a foreign key is
  the identifier of a row. Every primary key of the program is a UUID that the constructor of the
  row sets (\<^verbatim>\<open>default=uuid.uuid4\<close>), so it is never absent.
\<close>

section \<open>Rows\<close>

type_synonym uid = nat

datatype prefix_status = PActive | PReserved | PDeprecated
datatype prefix_role = RUser | RMgmt | RLoopback | RTransit | RInfra | RCampus | RWan
datatype ip_status = IActive | IDhcp | IReserved | IDeprecated
datatype ip_role = Primary | Secondary | Vip | Loopback

record vrf =
  vrf_id :: uid
  vrf_name :: string
  vrf_site :: uid
  vrf_rd :: "string option"
  vrf_description :: "string option"

record prefix =
  px_id :: uid
  px_cidr :: string
  px_site :: "uid option"
  px_vrf :: "uid option"
  px_vlan :: "uid option"
  px_parent :: "uid option"
  px_status :: prefix_status
  px_role :: prefix_role
  px_description :: "string option"

record iface_ref =
  if_id :: uid
  if_label :: string
  if_device_site :: "uid option"

record ip_row =
  ip_id :: uid
  ip_text :: string
  ip_prefix :: "uid option"
  ip_iface :: "uid option"
  ip_status :: ip_status
  ip_role :: ip_role
  ip_is_primary :: bool
  ip_is_reserved :: bool
  ip_hostname :: "string option"
  ip_mac :: "string option"
  ip_description :: "string option"

record ipam_db =
  db_vrfs :: "vrf list"
  db_prefixes :: "prefix list"
  db_ifaces :: "iface_ref list"
  db_ips :: "ip_row list"

definition find_vrf :: "ipam_db \<Rightarrow> uid \<Rightarrow> vrf option" where
  "find_vrf db i = first_row (\<lambda>v. vrf_id v = i) (db_vrfs db)"

definition find_prefix :: "ipam_db \<Rightarrow> uid \<Rightarrow> prefix option" where
  "find_prefix db i = first_row (\<lambda>p. px_id p = i) (db_prefixes db)"

definition find_iface :: "ipam_db \<Rightarrow> uid \<Rightarrow> iface_ref option" where
  "find_iface db i = first_row (\<lambda>f. if_id f = i) (db_ifaces db)"

text \<open>The row a nullable foreign key leads to.\<close>

definition deref :: "(uid \<Rightarrow> 'r option) \<Rightarrow> uid option \<Rightarrow> 'r option" where
  "deref f k = (case k of None \<Rightarrow> None | Some i \<Rightarrow> f i)"

text \<open>\<^verbatim>\<open>IPAddress.family\<close>\<close>

definition family :: "ip_row \<Rightarrow> exn + int" where
  "family r = bind_res (ip_address (ip_text r)) (\<lambda>a. Inr (ver_num (ip_ver a)))"

text \<open>\<^verbatim>\<open>Prefix.__str__\<close> and \<^verbatim>\<open>VRF.__str__\<close>, the site given by name.\<close>

definition prefix_str :: "ipam_db \<Rightarrow> (uid \<Rightarrow> string) \<Rightarrow> prefix \<Rightarrow> string" where
  "prefix_str db site_name p =
     px_cidr p @ '' ('' @ (case px_site p of None \<Rightarrow> ''-'' | Some s \<Rightarrow> site_name s) @ '' / '' @
     (case deref (find_vrf db) (px_vrf p) of None \<Rightarrow> ''default'' | Some v \<Rightarrow> vrf_name v) @ '')''"

definition vrf_str :: "(uid \<Rightarrow> string) \<Rightarrow> vrf \<Rightarrow> string" where
  "vrf_str site_name v = vrf_name v @ '' ('' @ site_name (vrf_site v) @ '')''"

text \<open>
  The MAC address validator \<^verbatim>\<open>^([0-9A-Fa-f]{2}:){5}([0-9A-Fa-f]{2})$\<close>; like
  \<^verbatim>\<open>$\<close>, it allows one final line feed.
\<close>

fun mac_pairs :: "nat \<Rightarrow> string \<Rightarrow> bool" where
  "mac_pairs 0 s = (case s of a # b # t \<Rightarrow> is_hex a \<and> is_hex b \<and> (t = [] \<or> t = [char_of (10::nat)]) | _ \<Rightarrow> False)"
| "mac_pairs (Suc n) s =
     (case s of a # b # c # t \<Rightarrow> is_hex a \<and> is_hex b \<and> c = CHR '':'' \<and> mac_pairs n t | _ \<Rightarrow> False)"

definition mac_valid :: "string \<Rightarrow> bool" where
  "mac_valid s = mac_pairs 5 s"

section \<open>Validation outcomes\<close>

text \<open>
  A validation ends with an error dictionary (field to message, \<^verbatim>\<open>ValidationError\<close>),
  with another exception, or normally.
\<close>

type_synonym errs = "(string \<times> string) list"

datatype fault = Invalid errs | Raised exn

section \<open>Prefix validation\<close>

definition parse_net_field :: "errs \<Rightarrow> string \<Rightarrow> string \<Rightarrow> ip_net option \<times> errs" where
  "parse_net_field errs field v =
     (case ip_network True v of
        Inr n \<Rightarrow> (Some n, errs)
      | Inl e \<Rightarrow> (None, dict_put field (''Invalid network: '' @ exn_str e) errs))"

text \<open>\<^verbatim>\<open>_validate_parent_relationship\<close>\<close>

definition validate_parent :: "prefix \<Rightarrow> prefix \<Rightarrow> ip_net \<Rightarrow> errs \<Rightarrow> exn + errs" where
  "validate_parent p parent net errs =
     (if px_site parent \<noteq> px_site p
      then Inr (dict_put ''parent'' ''Parent prefix must belong to the same site.'' errs)
      else if px_vrf parent \<noteq> px_vrf p
      then Inr (dict_put ''parent'' ''Parent prefix must belong to the same VRF.'' errs)
      else case parse_net_field errs ''parent'' (px_cidr parent) of
        (None, errs') \<Rightarrow> Inr errs'
      | (Some pnet, errs') \<Rightarrow>
          if errs' \<noteq> [] then Inr errs'
          else bind_res (subnet_of net pnet) (\<lambda>sub.
            if \<not> sub then Inr (dict_put ''cidr'' ''Prefix must be contained within its parent.'' errs')
            else if net = pnet
            then Inr (dict_put ''cidr'' ''Prefix must be more specific than its parent.'' errs')
            else Inr errs'))"

text \<open>
  \<^verbatim>\<open>_has_ancestor\<close>: the walk up the parents has no bound in the code; \<open>None\<close> is a
  walk that never ends (a cycle of parents).
\<close>

partial_function (option) has_ancestor :: "ipam_db \<Rightarrow> uid list \<Rightarrow> uid option \<Rightarrow> bool option" where
  "has_ancestor db ids parent =
     (case deref (find_prefix db) parent of
        None \<Rightarrow> Some False
      | Some q \<Rightarrow> if px_id q \<in> set ids then Some True else has_ancestor db ids (px_parent q))"

text \<open>
  The loop of \<^verbatim>\<open>_validate_overlaps\<close> over the other prefixes of the scope:
  \<open>Inl\<close> of the errors at an early return, \<open>Inr\<close> of the containing prefixes found.
\<close>

datatype overlap_end = Stop errs | Crash exn | Containing "prefix list"

fun overlap_loop :: "prefix \<Rightarrow> ip_net \<Rightarrow> errs \<Rightarrow> prefix list \<Rightarrow> prefix list \<Rightarrow> overlap_end" where
  "overlap_loop p net errs found [] = Containing found"
| "overlap_loop p net errs found (q # qs) =
     (case ip_network True (px_cidr q) of
        Inl _ \<Rightarrow> overlap_loop p net errs found qs
      | Inr onet \<Rightarrow>
          if overlaps net onet then
            if net = onet
            then Stop (dict_put ''cidr'' (''Prefix '' @ px_cidr p @ '' already exists for this site/VRF.'') errs)
            else case subnet_of net onet of
              Inl e \<Rightarrow> Crash e
            | Inr True \<Rightarrow> overlap_loop p net errs (found @ [q]) qs
            | Inr False \<Rightarrow> (case subnet_of onet net of
                Inl e \<Rightarrow> Crash e
              | Inr True \<Rightarrow> overlap_loop p net errs found qs
              | Inr False \<Rightarrow> Stop (dict_put ''cidr''
                  (''Prefix '' @ px_cidr p @ '' overlaps with '' @ px_cidr q @ '' in the same site/VRF.'') errs))
          else overlap_loop p net errs found qs)"

definition same_scope :: "prefix \<Rightarrow> prefix \<Rightarrow> bool" where
  "same_scope p q \<longleftrightarrow> px_site p = px_site q \<and> px_vrf p = px_vrf q"

definition scope_others :: "ipam_db \<Rightarrow> prefix \<Rightarrow> prefix list" where
  "scope_others db p = filter (\<lambda>q. same_scope p q \<and> px_id q \<noteq> px_id p) (db_prefixes db)"

definition validate_overlaps :: "ipam_db \<Rightarrow> prefix \<Rightarrow> ip_net \<Rightarrow> errs \<Rightarrow> (exn + errs) option" where
  "validate_overlaps db p net errs =
     (case overlap_loop p net errs [] (scope_others db p) of
        Stop errs' \<Rightarrow> Some (Inr errs')
      | Crash e \<Rightarrow> Some (Inl e)
      | Containing [] \<Rightarrow> Some (Inr errs)
      | Containing (c # cs) \<Rightarrow>
          (case has_ancestor db (map px_id (c # cs)) (px_parent p) of
             None \<Rightarrow> None
           | Some True \<Rightarrow> Some (Inr errs)
           | Some False \<Rightarrow> Some (Inr (dict_put ''parent''
               (''Prefix '' @ px_cidr p @ '' is covered by existing prefixes ('' @
                join '', '' (map px_cidr (take 3 (c # cs))) @
                (if length (c # cs) > 3 then ''...'' else []) @
                ''). Assign the most specific containing prefix as parent.'') errs))))"

text \<open>\<^verbatim>\<open>PrefixValidationService.validate\<close>\<close>

definition validate_prefix :: "ipam_db \<Rightarrow> prefix \<Rightarrow> (fault + unit) option" where
  "validate_prefix db p =
     (let errs = (if px_site p = None then [(''site'', ''Prefix must be assigned to a site.'')] else []);
          (net, errs) = parse_net_field errs ''cidr'' (px_cidr p)
      in case net of
           None \<Rightarrow> Some (Inl (Invalid errs))
         | Some n \<Rightarrow>
             if errs \<noteq> [] then Some (Inl (Invalid errs))
             else
               let errs = (case deref (find_vrf db) (px_vrf p) of
                     None \<Rightarrow> errs
                   | Some v \<Rightarrow> if Some (vrf_site v) \<noteq> px_site p
                       then dict_put ''vrf'' ''VRF site must match the prefix site.'' errs else errs)
               in case (case deref (find_prefix db) (px_parent p) of
                      None \<Rightarrow> Inr errs | Some parent \<Rightarrow> validate_parent p parent n errs) of
                    Inl e \<Rightarrow> Some (Inl (Raised e))
                  | Inr errs \<Rightarrow>
                      if errs \<noteq> [] then Some (Inl (Invalid errs))
                      else case validate_overlaps db p n errs of
                        None \<Rightarrow> None
                      | Some (Inl e) \<Rightarrow> Some (Inl (Raised e))
                      | Some (Inr errs) \<Rightarrow>
                          if errs \<noteq> [] then Some (Inl (Invalid errs)) else Some (Inr ()))"

text \<open>Saving a new prefix that passed validation.\<close>

definition add_prefix :: "ipam_db \<Rightarrow> prefix \<Rightarrow> ipam_db" where
  "add_prefix db p = db\<lparr>db_prefixes := db_prefixes db @ [p]\<rparr>"

section \<open>Address validation\<close>

text \<open>
  \<^verbatim>\<open>IPAddressValidationService\<close>. Reading \<^verbatim>\<open>ip_address.prefix\<close> of a row
  whose foreign key is not set raises \<^verbatim>\<open>RelatedObjectDoesNotExist\<close>, because the
  field is not nullable.
\<close>

definition no_prefix_exn :: exn where
  "no_prefix_exn = DoesNotExist ''IPAddress has no prefix.''"

definition parse_ip_field :: "errs \<Rightarrow> string \<Rightarrow> ip_addr option \<times> errs" where
  "parse_ip_field errs v =
     (case ip_address v of
        Inr a \<Rightarrow> (Some a, errs)
      | Inl e \<Rightarrow> (None, dict_put ''address'' (''Invalid IP address: '' @ exn_str e) errs))"

definition parse_prefix_network :: "errs \<Rightarrow> prefix \<Rightarrow> ip_net option \<times> errs" where
  "parse_prefix_network errs px =
     (case ip_network True (px_cidr px) of
        Inr n \<Rightarrow> (Some n, errs)
      | Inl e \<Rightarrow> (None, dict_put ''prefix'' (''Invalid prefix on assignment: '' @ exn_str e) errs))"

definition validate_interface_site :: "iface_ref \<Rightarrow> prefix \<Rightarrow> errs \<Rightarrow> errs" where
  "validate_interface_site f px errs =
     (if if_device_site f \<noteq> px_site px
      then dict_put ''interface'' ''Interface device site must match prefix site.'' errs else errs)"

definition other_primaries :: "ipam_db \<Rightarrow> ip_row \<Rightarrow> ip_row list" where
  "other_primaries db r = filter (\<lambda>x. ip_iface x = ip_iface r \<and> ip_role x = Primary
     \<and> ip_id x \<noteq> ip_id r \<and> ip_status x \<noteq> IDeprecated) (db_ips db)"

fun primary_clash :: "ip_version \<Rightarrow> ip_row list \<Rightarrow> bool" where
  "primary_clash v [] = False"
| "primary_clash v (x # xs) =
     (case ip_address (ip_text x) of
        Inl _ \<Rightarrow> primary_clash v xs
      | Inr a \<Rightarrow> ip_ver a = v \<or> primary_clash v xs)"

definition validate_primary_role :: "ipam_db \<Rightarrow> ip_row \<Rightarrow> iface_ref \<Rightarrow> ip_addr \<Rightarrow> errs \<Rightarrow> errs" where
  "validate_primary_role db r f a errs =
     (if primary_clash (ip_ver a) (other_primaries db r)
      then dict_put ''role'' (''Interface '' @ if_label f @ '' already has a primary IPv'' @
             int_str (ver_num (ip_ver a)) @ '' address.'') errs
      else errs)"

definition validate_address :: "ipam_db \<Rightarrow> ip_row \<Rightarrow> fault + unit" where
  "validate_address db r =
     (case deref (find_prefix db) (ip_prefix r) of
        None \<Rightarrow> Inl (Raised no_prefix_exn)
      | Some px \<Rightarrow>
         (let (a, errs) = parse_ip_field [] (ip_text r);
              (n, errs) = parse_prefix_network errs px
          in case (a, n) of
               (Some ip, Some net) \<Rightarrow>
                 (let errs = (if \<not> in_net ip net
                        then dict_put ''address'' ''IP address must be inside the assigned prefix.'' errs
                        else errs);
                      errs = (case deref (find_iface db) (ip_iface r) of
                          None \<Rightarrow> errs
                        | Some f \<Rightarrow>
                            let errs = validate_interface_site f px errs
                            in if ip_role r = Primary then validate_primary_role db r f ip errs else errs)
                  in if errs \<noteq> [] then Inl (Invalid errs) else Inr ())
             | _ \<Rightarrow> Inl (Invalid errs)))"

section \<open>Allocation\<close>

text \<open>\<^verbatim>\<open>IPAllocationService.next_available_ip\<close>\<close>

definition prefix_ips :: "ipam_db \<Rightarrow> prefix \<Rightarrow> ip_row list" where
  "prefix_ips db p = filter (\<lambda>r. ip_prefix r = Some (px_id p)) (db_ips db)"

fun parse_used :: "ip_row list \<Rightarrow> exn + ip_addr list" where
  "parse_used [] = Inr []"
| "parse_used (r # rs) =
     bind_res (ip_address (ip_text r)) (\<lambda>a. bind_res (parse_used rs) (\<lambda>as. Inr (a # as)))"

definition next_available_ip :: "ipam_db \<Rightarrow> prefix \<Rightarrow> exn + string" where
  "next_available_ip db p =
     bind_res (ip_network True (px_cidr p)) (\<lambda>net.
     bind_res (parse_used (filter (\<lambda>r. ip_status r \<noteq> IDeprecated) (prefix_ips db p))) (\<lambda>used.
       case first_row (\<lambda>h. h \<notin> set used) (hosts net) of
         Some h \<Rightarrow> Inr (ip_str h)
       | None \<Rightarrow> Inl (RuntimeError (''No available IPs in '' @ px_cidr p))))"

section \<open>The assignment form\<close>

text \<open>
  \<^verbatim>\<open>IPAddressAssignForm.clean\<close>: the cleaned address and the errors added, from the
  cleaned prefix and address and the primary key of the instance.
\<close>

definition exists_in_vrf :: "ipam_db \<Rightarrow> string \<Rightarrow> uid option \<Rightarrow> uid \<Rightarrow> bool" where
  "exists_in_vrf db addr vrf self_id \<longleftrightarrow>
     (\<exists>r \<in> set (db_ips db). ip_text r = addr \<and> ip_id r \<noteq> self_id \<and>
        (case deref (find_prefix db) (ip_prefix r) of None \<Rightarrow> False | Some q \<Rightarrow> px_vrf q = vrf))"

definition assign_form_clean ::
  "ipam_db \<Rightarrow> prefix option \<Rightarrow> string option \<Rightarrow> uid \<Rightarrow> exn + (string option \<times> string list)"
where
  "assign_form_clean db px addr self_id =
     (case px of
        None \<Rightarrow> Inr (addr, [])
      | Some p \<Rightarrow>
         (case (if text_true addr then Inr (or_empty addr) else next_available_ip db p) of
            Inl (RuntimeError m) \<Rightarrow> Inr (addr, [m])
          | Inl e \<Rightarrow> Inl e
          | Inr a \<Rightarrow>
             (case ip_address a of
                Inl _ \<Rightarrow> Inr (Some a, [''Enter a valid IP address.''])
              | Inr ip \<Rightarrow>
                 bind_res (ip_network False (px_cidr p)) (\<lambda>net.
                   Inr (Some a,
                     (if \<not> in_net ip net then [''IP must belong to the selected prefix.''] else []) @
                     (if exists_in_vrf db a (px_vrf p) self_id
                      then [''IP address already exists in this VRF.''] else []))))))"

end
