(* ===== verification/IpamProps.thy ===== *)
theory IpamProps
  imports Ipam
begin

text \<open>
  What the address management guarantees: the prefixes of a scope form a forest that validation
  preserves, validation decides a declarative specification and always returns on such a forest,
  the allocator hands out the lowest free host, and validated addresses keep one active primary
  address per interface and version.
\<close>

section \<open>The forest of prefixes\<close>

definition net_of :: "prefix \<Rightarrow> ip_net option" where
  "net_of p = (case ip_network True (px_cidr p) of Inr n \<Rightarrow> Some n | Inl _ \<Rightarrow> None)"

definition strictly_inside :: "prefix \<Rightarrow> prefix \<Rightarrow> bool" where
  "strictly_inside p q \<longleftrightarrow> (case (net_of p, net_of q) of
     (Some n, Some m) \<Rightarrow> subnet_of n m = Inr True \<and> n \<noteq> m | _ \<Rightarrow> False)"

lemma strictly_inside_iff:
  "strictly_inside p q \<longleftrightarrow> (\<exists>n m. net_of p = Some n \<and> net_of q = Some m
     \<and> subnet_of n m = Inr True \<and> n \<noteq> m)"
  by (auto simp: strictly_inside_def split: option.splits)

definition parent_linked :: "ipam_db \<Rightarrow> prefix \<Rightarrow> bool" where
  "parent_linked db p \<longleftrightarrow> (case px_parent p of None \<Rightarrow> True | Some i \<Rightarrow>
     (case find_prefix db i of None \<Rightarrow> False | Some q \<Rightarrow> same_scope p q \<and> strictly_inside p q))"

lemma parent_linked_iff:
  "parent_linked db p \<longleftrightarrow> (\<forall>i. px_parent p = Some i \<longrightarrow>
     (\<exists>q. find_prefix db i = Some q \<and> same_scope p q \<and> strictly_inside p q))"
  by (auto simp: parent_linked_def split: option.splits)

definition forest :: "ipam_db \<Rightarrow> bool" where
  "forest db \<longleftrightarrow> distinct (map px_id (db_prefixes db))
     \<and> (\<forall>p \<in> set (db_prefixes db). px_site p \<noteq> None \<and> net_of p \<noteq> None \<and> parent_linked db p)
     \<and> (\<forall>p \<in> set (db_prefixes db). \<forall>q \<in> set (db_prefixes db).
          px_id p \<noteq> px_id q \<longrightarrow> same_scope p q \<longrightarrow> net_of p \<noteq> net_of q)"

lemma net_of_valid: "net_of p = Some n \<Longrightarrow> valid_net n"
  by (auto simp: net_of_def split: sum.splits dest: ip_network_valid)

lemma find_prefix_Some: "find_prefix db i = Some q \<Longrightarrow> q \<in> set (db_prefixes db) \<and> px_id q = i"
  unfolding find_prefix_def by (drule first_row_Some) simp

lemma inside_shorter:
  assumes "valid_net a" "valid_net b" "subnet_of a b = Inr True" "a \<noteq> b"
  shows "net_plen b < net_plen a"
proof -
  let ?w = "\<lambda>n. ver_bits (net_ver n) - net_plen n"
  from assms(3) have v: "net_ver a = net_ver b" and lo: "net_addr b \<le> net_addr a"
    and hi: "net_last a \<le> net_last b"
    by (auto simp: subnet_of_def split: if_splits)
  have le: "(2::int) ^ ?w a \<le> 2 ^ ?w b"
    using lo hi unfolding net_last_def block_size_def by linarith
  then have "?w a \<le> ?w b" by (rule power_le_imp_le_exp [rotated]) simp
  moreover have "?w a \<noteq> ?w b"
  proof
    assume eq: "?w a = ?w b"
    then have "block_size a = block_size b" by (simp add: block_size_def)
    with lo hi have "net_addr a = net_addr b" by (simp add: net_last_def)
    moreover have "net_plen a = net_plen b"
      using eq v assms(1,2) unfolding valid_net_def by (metis diff_diff_cancel)
    ultimately show False using v assms(4) by simp
  qed
  ultimately have "?w a < ?w b" by simp
  then show ?thesis using v by (simp split: nat_diff_split_asm)
qed

lemma parent_shorter:
  "strictly_inside p q \<Longrightarrow> net_of p = Some n \<Longrightarrow> net_of q = Some m \<Longrightarrow> net_plen m < net_plen n"
  by (auto simp: strictly_inside_iff intro: inside_shorter net_of_valid)

subsection \<open>Walking up the parents\<close>

inductive ancestor :: "ipam_db \<Rightarrow> uid option \<Rightarrow> prefix \<Rightarrow> bool" where
  here: "deref (find_prefix db) k = Some q \<Longrightarrow> ancestor db k q"
| up: "deref (find_prefix db) k = Some q \<Longrightarrow> ancestor db (px_parent q) r \<Longrightarrow> ancestor db k r"

inductive_cases ancestorE: "ancestor db k q"

lemma ancestor_None: "deref (find_prefix db) k = None \<Longrightarrow> \<not> ancestor db k q"
  by (auto elim: ancestorE)

lemma ancestor_unfold:
  "deref (find_prefix db) k = Some q \<Longrightarrow> ancestor db k r \<longleftrightarrow> r = q \<or> ancestor db (px_parent q) r"
  by (auto elim: ancestorE intro: ancestor.intros)

lemma has_ancestor_iff:
  assumes "has_ancestor db ids k = Some b"
  shows "b \<longleftrightarrow> (\<exists>q. ancestor db k q \<and> px_id q \<in> set ids)"
proof (rule has_ancestor.raw_induct [where P = "\<lambda>db ids k b. b \<longleftrightarrow> (\<exists>q. ancestor db k q \<and> px_id q \<in> set ids)",
      OF _ assms])
  fix f db ids k b
  assume IH: "\<And>db ids k b. f db ids k = Some b \<Longrightarrow> b \<longleftrightarrow> (\<exists>q. ancestor db k q \<and> px_id q \<in> set ids)"
    and eq: "(case deref (find_prefix db) k of None \<Rightarrow> Some False
      | Some q \<Rightarrow> if px_id q \<in> set ids then Some True else f db ids (px_parent q)) = Some b"
  show "b \<longleftrightarrow> (\<exists>q. ancestor db k q \<and> px_id q \<in> set ids)"
  proof (cases "deref (find_prefix db) k")
    case None
    with eq show ?thesis by (simp add: ancestor_None)
  next
    case (Some q)
    with eq IH [of db ids "px_parent q" b] show ?thesis
      by (auto simp: ancestor_unfold [OF Some] split: if_splits)
  qed
qed

lemma has_ancestor_returns_from:
  assumes "forest db" and "find_prefix db i = Some q" and "net_of q = Some n"
  shows "\<exists>b. has_ancestor db ids (Some i) = Some b"
  using assms(2,3)
proof (induction "net_plen n" arbitrary: i q n rule: less_induct)
  case less
  have unfold: "has_ancestor db ids (Some i) =
      (if px_id q \<in> set ids then Some True else has_ancestor db ids (px_parent q))"
    by (subst has_ancestor.simps) (simp add: deref_def less.prems)
  show ?case
  proof (cases "px_parent q")
    case None
    then have "has_ancestor db ids (px_parent q) = Some False"
      by (subst has_ancestor.simps) (simp add: deref_def)
    then show ?thesis unfolding unfold by (intro exI [of _ "px_id q \<in> set ids"]) simp
  next
    case (Some j)
    from less.prems have "q \<in> set (db_prefixes db)" using find_prefix_Some by blast
    with \<open>forest db\<close> have "parent_linked db q" unfolding forest_def by blast
    with Some obtain r where r: "find_prefix db j = Some r" "strictly_inside q r"
      unfolding parent_linked_iff by blast
    then obtain m where m: "net_of r = Some m" by (auto simp: strictly_inside_iff)
    from less.hyps [OF parent_shorter [OF r(2) less.prems(2) m] r(1) m]
    obtain b where "has_ancestor db ids (Some j) = Some b" by blast
    then show ?thesis unfolding unfold Some by (intro exI [of _ "px_id q \<in> set ids \<or> b"]) simp
  qed
qed

lemma has_ancestor_returns: "forest db \<Longrightarrow> \<exists>b. has_ancestor db ids k = Some b"
proof (cases "deref (find_prefix db) k")
  case None
  then have "has_ancestor db ids k = Some False" by (subst has_ancestor.simps) simp
  then show ?thesis by blast
next
  case (Some q)
  assume f: "forest db"
  from Some obtain i where i: "k = Some i" "find_prefix db i = Some q"
    by (auto simp: deref_def split: option.splits)
  with f obtain n where "net_of q = Some n"
    using find_prefix_Some unfolding forest_def by blast
  with has_ancestor_returns_from [OF f i(2)] i(1) show ?thesis by blast
qed

subsection \<open>The loop over the scope\<close>

definition covers :: "ip_net \<Rightarrow> prefix \<Rightarrow> bool" where
  "covers n q \<longleftrightarrow> (case net_of q of None \<Rightarrow> False | Some m \<Rightarrow> subnet_of n m = Inr True)"

definition dup_errs :: "prefix \<Rightarrow> errs \<Rightarrow> errs" where
  "dup_errs p errs = dict_put ''cidr'' (''Prefix '' @ px_cidr p @ '' already exists for this site/VRF.'') errs"

lemma overlap_step:
  assumes "valid_net net" and "net_of q = Some m"
  shows "overlap_loop p net errs found (q # qs) =
    (if net = m then Stop (dup_errs p errs)
     else overlap_loop p net errs (if covers net q then found @ [q] else found) qs)"
proof -
  from assms(2) have q: "ip_network True (px_cidr q) = Inr m"
    by (auto simp: net_of_def split: sum.splits)
  have m: "valid_net m" using assms(2) by (rule net_of_valid)
  have cov: "covers net q \<longleftrightarrow> subnet_of net m = Inr True" by (simp add: covers_def assms(2))
  show ?thesis
  proof (cases "overlaps net m")
    case False
    then have "\<not> subnet_of net m = Inr True" using nets.inside_meets [OF assms(1)] by blast
    moreover have "net \<noteq> m" using False nets.inside_meets [OF assms(1) nets.inside_refl] by blast
    ultimately show ?thesis using False q cov by simp
  next
    case True
    then have v: "net_ver net = net_ver m" by (simp add: overlaps_iff_meet members_meet)
    have "subnet_of net m = Inr True \<or> subnet_of m net = Inr True"
      using nets.no_partial_overlap [OF assms(1) m True] .
    moreover have "subnet_of net m = Inr True \<or> subnet_of net m = Inr False"
      using v by (auto simp: subnet_of_def)
    ultimately show ?thesis using True q cov by (auto simp: dup_errs_def)
  qed
qed

lemma overlap_loop_eq:
  assumes "valid_net net"
  shows "overlap_loop p net errs found qs =
    (if \<exists>q \<in> set qs. net_of q = Some net then Stop (dup_errs p errs)
     else Containing (found @ filter (covers net) qs))"
proof (induction qs arbitrary: found)
  case (Cons q qs)
  show ?case
  proof (cases "net_of q")
    case None
    then obtain e where "ip_network True (px_cidr q) = Inl e" by (auto simp: net_of_def split: sum.splits)
    moreover have "\<not> covers net q" by (simp add: covers_def None)
    ultimately show ?thesis using None Cons by simp
  next
    case (Some m)
    with Cons show ?thesis by (auto simp: overlap_step [OF assms Some] simp del: overlap_loop.simps)
  qed
qed simp

section \<open>The specification that validation decides\<close>

definition vrf_fits :: "ipam_db \<Rightarrow> prefix \<Rightarrow> bool" where
  "vrf_fits db p \<longleftrightarrow> (case deref (find_vrf db) (px_vrf p) of None \<Rightarrow> True | Some v \<Rightarrow> Some (vrf_site v) = px_site p)"

definition parent_fits :: "ipam_db \<Rightarrow> prefix \<Rightarrow> bool" where
  "parent_fits db p \<longleftrightarrow> (case deref (find_prefix db) (px_parent p) of None \<Rightarrow> True
     | Some q \<Rightarrow> same_scope p q \<and> strictly_inside p q)"

definition hierarchy_fits :: "ipam_db \<Rightarrow> prefix \<Rightarrow> ip_net \<Rightarrow> bool" where
  "hierarchy_fits db p n \<longleftrightarrow>
     (\<forall>q \<in> set (scope_others db p). net_of q \<noteq> Some n) \<and>
     (filter (covers n) (scope_others db p) \<noteq> [] \<longrightarrow>
       (\<exists>a. ancestor db (px_parent p) a \<and> px_id a \<in> px_id ` set (filter (covers n) (scope_others db p))))"

definition prefix_ok :: "ipam_db \<Rightarrow> prefix \<Rightarrow> bool" where
  "prefix_ok db p \<longleftrightarrow> px_site p \<noteq> None \<and> vrf_fits db p \<and> parent_fits db p
     \<and> (\<exists>n. net_of p = Some n \<and> hierarchy_fits db p n)"

lemma parse_net_field_eq:
  "parse_net_field errs f v = (case ip_network True v of
     Inr n \<Rightarrow> (Some n, errs) | Inl e \<Rightarrow> (None, dict_put f (''Invalid network: '' @ exn_str e) errs))"
  by (simp add: parse_net_field_def)

lemma validate_overlaps_ok:
  assumes "forest db" and "valid_net n"
  shows "\<exists>errs'. validate_overlaps db p n [] = Some (Inr errs') \<and> (errs' = [] \<longleftrightarrow> hierarchy_fits db p n)"
proof (cases "\<exists>q \<in> set (scope_others db p). net_of q = Some n")
  case True
  then show ?thesis
    by (auto simp: validate_overlaps_def overlap_loop_eq [OF assms(2)] hierarchy_fits_def dup_errs_def)
next
  case False
  let ?cs = "filter (covers n) (scope_others db p)"
  have loop: "overlap_loop p n [] [] (scope_others db p) = Containing ?cs"
    using False by (simp add: overlap_loop_eq [OF assms(2)])
  show ?thesis
  proof (cases ?cs)
    case Nil
    with loop False show ?thesis by (simp add: validate_overlaps_def hierarchy_fits_def)
  next
    case (Cons c cs)
    obtain b where b: "has_ancestor db (map px_id (c # cs)) (px_parent p) = Some b"
      using has_ancestor_returns [OF assms(1)] by blast
    have "b \<longleftrightarrow> (\<exists>a. ancestor db (px_parent p) a \<and> px_id a \<in> px_id ` set ?cs)"
      using has_ancestor_iff [OF b] unfolding Cons by simp
    then have "b \<longleftrightarrow> hierarchy_fits db p n" using False Cons unfolding hierarchy_fits_def by simp
    with loop b Cons show ?thesis by (cases b) (simp_all add: validate_overlaps_def)
  qed
qed

lemma validate_parent_ok:
  assumes "net_of p = Some n"
  shows "validate_parent p q n [] = Inr [] \<longleftrightarrow> same_scope p q \<and> strictly_inside p q"
  using assms
  by (auto simp: validate_parent_def same_scope_def strictly_inside_iff parse_net_field_eq net_of_def
      bind_res_eq_Inr split: sum.splits if_splits)

lemma validate_parent_keeps_errs: "errs \<noteq> [] \<Longrightarrow> validate_parent p q n errs = Inr errs' \<Longrightarrow> errs' \<noteq> []"
  by (auto simp: validate_parent_def parse_net_field_eq bind_res_eq_Inr split: sum.splits if_splits)

text \<open>The check of the parent inside \<open>validate_prefix\<close>.\<close>

definition parent_check :: "ipam_db \<Rightarrow> prefix \<Rightarrow> ip_net \<Rightarrow> errs \<Rightarrow> exn + errs" where
  "parent_check db p n errs = (case deref (find_prefix db) (px_parent p) of
     None \<Rightarrow> Inr errs | Some parent \<Rightarrow> validate_parent p parent n errs)"

definition vrf_errs :: "ipam_db \<Rightarrow> prefix \<Rightarrow> errs" where
  "vrf_errs db p = (if vrf_fits db p then [] else [(''vrf'', ''VRF site must match the prefix site.'')])"

lemma validate_prefix_net:
  assumes "px_site p \<noteq> None" and "net_of p = Some n"
  shows "validate_prefix db p =
    (case parent_check db p n (vrf_errs db p) of
       Inl e \<Rightarrow> Some (Inl (Raised e))
     | Inr errs \<Rightarrow> if errs \<noteq> [] then Some (Inl (Invalid errs))
         else case validate_overlaps db p n errs of
           None \<Rightarrow> None
         | Some (Inl e) \<Rightarrow> Some (Inl (Raised e))
         | Some (Inr errs) \<Rightarrow> if errs \<noteq> [] then Some (Inl (Invalid errs)) else Some (Inr ()))"
proof -
  from assms(2) have "ip_network True (px_cidr p) = Inr n" by (auto simp: net_of_def split: sum.splits)
  with assms(1) show ?thesis
    by (auto simp: validate_prefix_def parse_net_field_eq parent_check_def vrf_errs_def vrf_fits_def
        split: option.splits)
qed

lemma validate_prefix_bad:
  "px_site p = None \<or> net_of p = None \<Longrightarrow> \<exists>errs. validate_prefix db p = Some (Inl (Invalid errs))"
  by (auto simp: validate_prefix_def parse_net_field_eq net_of_def split: sum.splits)

lemma parent_check_ok:
  assumes "net_of p = Some n"
  shows "parent_check db p n (vrf_errs db p) = Inr [] \<longleftrightarrow> vrf_fits db p \<and> parent_fits db p"
proof (cases "vrf_fits db p")
  case True
  then show ?thesis
    by (auto simp: parent_check_def vrf_errs_def parent_fits_def validate_parent_ok [OF assms] split: option.splits)
next
  case False
  then show ?thesis
    using validate_parent_keeps_errs [of "vrf_errs db p"]
    by (fastforce simp: parent_check_def vrf_errs_def split: option.splits)
qed

section \<open>Properties of prefixes\<close>

text \<open>
  C1. Prefix validation decides its specification: on a forest of prefixes it accepts a prefix
  exactly when its site is set, its text is a network without host bits, its VRF is of the same
  site, its parent (if any) is of the same scope and strictly contains it, no other prefix of the
  scope is equal, and, where other prefixes of the scope contain it, one of them is an ancestor.
\<close>

theorem validate_prefix_decides:
  assumes "forest db"
  shows "validate_prefix db p = Some (Inr ()) \<longleftrightarrow> prefix_ok db p"
proof (cases "px_site p = None \<or> net_of p = None")
  case True
  with validate_prefix_bad [OF this, of db] show ?thesis by (auto simp: prefix_ok_def)
next
  case False
  then obtain n where site: "px_site p \<noteq> None" and n: "net_of p = Some n" by auto
  obtain errs' where o: "validate_overlaps db p n [] = Some (Inr errs')" "errs' = [] \<longleftrightarrow> hierarchy_fits db p n"
    using validate_overlaps_ok [OF assms net_of_valid [OF n]] by blast
  show ?thesis
  proof (cases "parent_check db p n (vrf_errs db p) = Inr []")
    case True
    then have "validate_prefix db p = Some (Inr ()) \<longleftrightarrow> errs' = []"
      by (simp add: validate_prefix_net [OF site n] o(1))
    moreover have "prefix_ok db p \<longleftrightarrow> hierarchy_fits db p n"
      using True parent_check_ok [OF n, of db] by (simp add: prefix_ok_def site n)
    ultimately show ?thesis using o(2) by simp
  next
    case False
    then have "validate_prefix db p \<noteq> Some (Inr ())"
      by (auto simp: validate_prefix_net [OF site n] split: sum.splits)
    moreover have "\<not> prefix_ok db p" using False parent_check_ok [OF n, of db] unfolding prefix_ok_def by blast
    ultimately show ?thesis by blast
  qed
qed

text \<open>
  C2. Prefix validation always returns on a forest of prefixes: the unbounded walk up the parents
  ends, whatever prefix is validated and whatever row it replaces.
\<close>

theorem validate_prefix_returns:
  assumes "forest db"
  shows "\<exists>r. validate_prefix db p = Some r"
proof (cases "px_site p = None \<or> net_of p = None")
  case True
  with validate_prefix_bad show ?thesis by blast
next
  case False
  then obtain n where site: "px_site p \<noteq> None" and n: "net_of p = Some n" by auto
  obtain errs' where "validate_overlaps db p n [] = Some (Inr errs')"
    using validate_overlaps_ok [OF assms net_of_valid [OF n]] by blast
  then show ?thesis
    by (auto simp: validate_prefix_net [OF site n] split: sum.splits)
qed

lemma find_prefix_add:
  "find_prefix db i = Some q \<Longrightarrow> find_prefix (add_prefix db p) i = Some q"
  by (simp add: find_prefix_def add_prefix_def first_row_append)

lemma add_prefix_forest:
  assumes inv: "forest db" and ok: "validate_prefix db p = Some (Inr ())"
    and fresh: "px_id p \<notin> px_id ` set (db_prefixes db)"
    and fk: "px_parent p \<noteq> None \<longrightarrow> deref (find_prefix db) (px_parent p) \<noteq> None"
  shows "forest (add_prefix db p)"
proof -
  from ok inv have "prefix_ok db p" using validate_prefix_decides by blast
  then obtain n where p: "px_site p \<noteq> None" "parent_fits db p" "net_of p = Some n" "hierarchy_fits db p n"
    by (auto simp: prefix_ok_def)
  have new: "parent_linked (add_prefix db p) p"
    using p(2) fk by (auto simp: parent_linked_iff parent_fits_def deref_def dest: find_prefix_add
        split: option.splits)
  have old: "parent_linked (add_prefix db p) q" if "parent_linked db q" for q
    using that by (auto simp: parent_linked_iff dest: find_prefix_add)
  have diff: "net_of q \<noteq> net_of p" if "q \<in> set (db_prefixes db)" "same_scope p q" for q
  proof -
    from that(1) fresh have "px_id q \<noteq> px_id p" by (metis imageI)
    with that have "q \<in> set (scope_others db p)" by (simp add: scope_others_def)
    with p(3,4) show ?thesis by (auto simp: hierarchy_fits_def)
  qed
  have sym: "same_scope q p \<longleftrightarrow> same_scope p q" for q by (auto simp: same_scope_def)
  show ?thesis
    unfolding forest_def
  proof (intro conjI)
    show "distinct (map px_id (db_prefixes (add_prefix db p)))"
      using inv fresh by (auto simp: forest_def add_prefix_def)
    show "\<forall>q \<in> set (db_prefixes (add_prefix db p)).
        px_site q \<noteq> None \<and> net_of q \<noteq> None \<and> parent_linked (add_prefix db p) q"
      using inv p(1,3) new old by (auto simp: forest_def add_prefix_def)
    have stored: "px_id q \<noteq> px_id r \<longrightarrow> same_scope q r \<longrightarrow> net_of q \<noteq> net_of r"
      if "q \<in> set (db_prefixes db)" "r \<in> set (db_prefixes db)" for q r
      using inv that unfolding forest_def by blast
    show "\<forall>q \<in> set (db_prefixes (add_prefix db p)). \<forall>r \<in> set (db_prefixes (add_prefix db p)).
        px_id q \<noteq> px_id r \<longrightarrow> same_scope q r \<longrightarrow> net_of q \<noteq> net_of r"
    proof (intro ballI impI)
      fix q r
      assume "q \<in> set (db_prefixes (add_prefix db p))" "r \<in> set (db_prefixes (add_prefix db p))"
        and *: "px_id q \<noteq> px_id r" "same_scope q r"
      then consider "q \<in> set (db_prefixes db)" "r \<in> set (db_prefixes db)"
        | "q = p" "r \<in> set (db_prefixes db)" | "q \<in> set (db_prefixes db)" "r = p"
        by (auto simp: add_prefix_def)
      then show "net_of q \<noteq> net_of r"
      proof cases
        case 1
        with stored * show ?thesis by blast
      next
        case 2
        with diff [of r] * show ?thesis by simp
      next
        case 3
        with diff [of q] * sym show ?thesis by simp
      qed
    qed
  qed
qed

text \<open>
  Adding a validated prefix keeps the forest: identifiers stay distinct, every stored prefix
  has a site and a readable network, every parent link leads to a strictly larger network of the
  same scope, and no two prefixes of a scope are equal.
\<close>

theorem add_validated_prefix_forest:
  assumes inv: "forest db" and ok: "validate_prefix db p = Some (Inr ())"
    and fresh: "px_id p \<notin> px_id ` set (db_prefixes db)"
    and fk: "px_parent p \<noteq> None \<longrightarrow> deref (find_prefix db) (px_parent p) \<noteq> None"
  shows "forest (add_prefix db p)"
  by (rule add_prefix_forest [OF assms])

text \<open>
  C3. A parent of the other IP version crashes the validation: inclusion of an IPv4 network in an
  IPv6 network (or the reverse) raises \<^verbatim>\<open>TypeError\<close>, which nothing turns into a
  validation error.
\<close>

theorem mixed_version_parent_raises:
  assumes "px_site p \<noteq> None" and "net_of p = Some n" and "vrf_fits db p"
    and "deref (find_prefix db) (px_parent p) = Some q" and "same_scope p q"
    and "net_of q = Some m" and "net_ver n \<noteq> net_ver m"
  shows "validate_prefix db p = Some (Inl (Raised (TypeError
    (net_str n @ '' and '' @ net_str m @ '' are not of the same version''))))"
proof -
  from assms(6) have "ip_network True (px_cidr q) = Inr m" by (auto simp: net_of_def split: sum.splits)
  with assms show ?thesis
    by (simp add: validate_prefix_net [OF assms(1,2)] parent_check_def vrf_errs_def validate_parent_def
        parse_net_field_eq subnet_of_def same_scope_def)
qed

text \<open>
  Validation never reports a partial overlap: on networks that were read, the loop over the
  scope either finds an equal network or collects exactly the networks that contain the new one.
  The branch of the code for overlapping networks of which neither contains the other is dead.
\<close>

theorem overlap_loop_no_partial:
  assumes "net_of p = Some net"
  shows "overlap_loop p net errs [] qs =
    (if \<exists>q \<in> set qs. net_of q = Some net
     then Stop (dict_put ''cidr'' (''Prefix '' @ px_cidr p @ '' already exists for this site/VRF.'') errs)
     else Containing (filter (covers net) qs))"
  using overlap_loop_eq [OF net_of_valid [OF assms], of p errs "[]" qs] by (simp add: dup_errs_def)

section \<open>Allocation of addresses\<close>

lemma first_row_split:
  "first_row p xs = Some x \<longleftrightarrow> (\<exists>ys zs. xs = ys @ x # zs \<and> p x \<and> (\<forall>y \<in> set ys. \<not> p y))"
proof (induction xs)
  case (Cons a xs)
  show ?case
  proof (cases "p a")
    case True
    then show ?thesis by (auto simp: Cons_eq_append_conv)
  next
    case False
    with Cons show ?thesis by (auto simp: Cons_eq_append_conv) (metis Cons_eq_appendI set_ConsD)
  qed
qed simp

text \<open>The hosts come in increasing order, so the first that fits is the lowest.\<close>

definition lowest_host :: "ip_net \<Rightarrow> (ip_addr \<Rightarrow> bool) \<Rightarrow> ip_addr \<Rightarrow> bool" where
  "lowest_host n p h \<longleftrightarrow> is_host n h \<and> p h \<and> (\<forall>h'. is_host n h' \<and> p h' \<longrightarrow> ip_int h \<le> ip_int h')"

lemma sorted_hosts: "sorted (map ip_int (hosts n))" "distinct (map ip_int (hosts n))"
  by (simp_all add: hosts_def o_def)

lemma first_host:
  assumes "first_row p (hosts n) = Some h"
  shows "lowest_host n p h"
proof -
  obtain ys zs where sp: "hosts n = ys @ h # zs" "p h" "\<forall>y \<in> set ys. \<not> p y"
    using assms unfolding first_row_split by blast
  have "ip_int h \<le> ip_int h'" if "is_host n h'" "p h'" for h'
  proof -
    have "h' \<in> set (ys @ h # zs)" using that(1) set_hosts [of n] sp(1) by simp
    moreover have "h' \<notin> set ys" using that(2) sp(3) by blast
    ultimately have "h' = h \<or> h' \<in> set zs" by simp
    then show ?thesis using sorted_hosts(1) [of n] unfolding sp(1) by (auto simp: sorted_append)
  qed
  moreover have "is_host n h" using set_hosts [of n] sp(1) by auto
  ultimately show ?thesis using sp(2) by (simp add: lowest_host_def)
qed

lemma lowest_host_unique:
  assumes "lowest_host n p h" and "lowest_host n p k"
  shows "h = k"
proof -
  have "ip_int h = ip_int k" "ip_ver h = ip_ver k"
    using assms by (auto simp: lowest_host_def is_host_def intro: order.antisym)
  then show ?thesis by simp
qed

lemma card_hosts: "card {a. is_host n a} = nat (snd (host_range n) - fst (host_range n) + 1)"
proof -
  have "card {a. is_host n a} = card (set (hosts n))" by (simp add: set_hosts)
  also have "\<dots> = length (hosts n)" using sorted_hosts(2) by (intro distinct_card) (simp add: distinct_map)
  finally show ?thesis by (simp add: hosts_def)
qed

text \<open>The rows that block an address of a prefix for the allocator.\<close>

definition holding :: "ipam_db \<Rightarrow> prefix \<Rightarrow> ip_row list" where
  "holding db p = filter (\<lambda>r. ip_status r \<noteq> IDeprecated) (prefix_ips db p)"

lemma next_available_ip_eq:
  "ip_network True (px_cidr p) = Inr net \<Longrightarrow> parse_used (holding db p) = Inr used \<Longrightarrow>
   next_available_ip db p = (case first_row (\<lambda>h. h \<notin> set used) (hosts net) of
      Some h \<Rightarrow> Inr (ip_str h) | None \<Rightarrow> Inl (RuntimeError (''No available IPs in '' @ px_cidr p)))"
  by (simp add: next_available_ip_def holding_def)

lemma parse_used_length: "parse_used rs = Inr used \<Longrightarrow> length used = length rs"
  by (induction rs arbitrary: used) (auto simp: bind_res_eq_Inr)

lemma parse_used_in:
  "parse_used rs = Inr used \<Longrightarrow> x \<in> set rs \<Longrightarrow> ip_address (ip_text x) = Inr h \<Longrightarrow> h \<in> set used"
  by (induction rs arbitrary: used) (auto simp: bind_res_eq_Inr)

text \<open>
  C4. The allocator hands out the lowest host address of the prefix that no row of the prefix
  holds, rows of status deprecated left aside; it raises \<^verbatim>\<open>RuntimeError\<close> exactly
  when every host address is held.
\<close>

theorem allocate_lowest_free:
  assumes "ip_network True (px_cidr p) = Inr net" and "parse_used (holding db p) = Inr used"
  shows "(next_available_ip db p = Inr s \<longleftrightarrow>
      (\<exists>h. lowest_host net (\<lambda>h. h \<notin> set used) h \<and> s = ip_str h)) \<and>
    (next_available_ip db p = Inl e \<longleftrightarrow>
      (\<forall>h. is_host net h \<longrightarrow> h \<in> set used) \<and> e = RuntimeError (''No available IPs in '' @ px_cidr p))"
proof -
  have *: "first_row (\<lambda>h. h \<notin> set used) (hosts net) = Some h \<longleftrightarrow> lowest_host net (\<lambda>h. h \<notin> set used) h" for h
  proof
    assume low: "lowest_host net (\<lambda>h. h \<notin> set used) h"
    then have "h \<in> set (hosts net)" "h \<notin> set used" by (auto simp: lowest_host_def set_hosts)
    then have "first_row (\<lambda>h. h \<notin> set used) (hosts net) \<noteq> None" by (auto simp: first_row_None)
    then obtain k where k: "first_row (\<lambda>h. h \<notin> set used) (hosts net) = Some k" by blast
    with lowest_host_unique [OF low first_host [OF k]] show "first_row (\<lambda>h. h \<notin> set used) (hosts net) = Some h"
      by simp
  qed (rule first_host)
  have none: "first_row (\<lambda>h. h \<notin> set used) (hosts net) = None \<longleftrightarrow> (\<forall>h. is_host net h \<longrightarrow> h \<in> set used)"
    using set_hosts [of net] by (auto simp: first_row_None)
  have "next_available_ip db p = Inr s \<longleftrightarrow> (\<exists>h. lowest_host net (\<lambda>h. h \<notin> set used) h \<and> s = ip_str h)"
    unfolding * [symmetric] next_available_ip_eq [OF assms] by (auto split: option.splits)
  moreover have "next_available_ip db p = Inl e \<longleftrightarrow>
      (\<forall>h. is_host net h \<longrightarrow> h \<in> set used) \<and> e = RuntimeError (''No available IPs in '' @ px_cidr p)"
    unfolding none [symmetric] next_available_ip_eq [OF assms] by (auto split: option.splits)
  ultimately show ?thesis by blast
qed

text \<open>
  C5. A prefix is never exhausted early: as long as it has fewer rows that are not deprecated than
  host addresses, the allocator finds an address.
\<close>

theorem allocate_until_full:
  assumes "ip_network True (px_cidr p) = Inr net" and "parse_used (holding db p) = Inr used"
    and room: "length (holding db p) < nat (snd (host_range net) - fst (host_range net) + 1)"
  shows "\<exists>s. next_available_ip db p = Inr s"
proof -
  have "card (set used) \<le> length (holding db p)"
    using card_length [of used] parse_used_length [OF assms(2)] by simp
  also have "\<dots> < card (set (hosts net))" using room by (simp add: set_hosts card_hosts)
  finally have "\<not> set (hosts net) \<subseteq> set used" using card_mono [of "set used" "set (hosts net)"] by auto
  then obtain h where "h \<in> set (hosts net)" "h \<notin> set used" by blast
  then have "first_row (\<lambda>h. h \<notin> set used) (hosts net) \<noteq> None" by (auto simp: first_row_None)
  then show ?thesis by (auto simp: next_available_ip_eq [OF assms(1,2)])
qed

section \<open>Validated addresses\<close>

definition addr_of :: "ip_row \<Rightarrow> ip_addr option" where
  "addr_of r = (case ip_address (ip_text r) of Inr a \<Rightarrow> Some a | Inl _ \<Rightarrow> None)"

definition active_primary :: "ip_row \<Rightarrow> bool" where
  "active_primary r \<longleftrightarrow> ip_role r = Primary \<and> ip_status r \<noteq> IDeprecated \<and> ip_iface r \<noteq> None"

definition rival :: "ip_row \<Rightarrow> ip_row \<Rightarrow> bool" where
  "rival r x \<longleftrightarrow> ip_id r \<noteq> ip_id x \<and> ip_iface r = ip_iface x
     \<and> (case (addr_of r, addr_of x) of (Some a, Some b) \<Rightarrow> ip_ver a = ip_ver b | _ \<Rightarrow> False)"

definition address_ok :: "ipam_db \<Rightarrow> ip_row \<Rightarrow> bool" where
  "address_ok db r \<longleftrightarrow> (\<exists>px n a. deref (find_prefix db) (ip_prefix r) = Some px \<and> net_of px = Some n
     \<and> addr_of r = Some a \<and> in_net a n
     \<and> (\<forall>f. deref (find_iface db) (ip_iface r) = Some f \<longrightarrow> if_device_site f = px_site px \<and>
          (ip_role r = Primary \<longrightarrow> \<not> (\<exists>x \<in> set (db_ips db). ip_role x = Primary
             \<and> ip_status x \<noteq> IDeprecated \<and> rival r x))))"

lemma primary_clash_iff:
  "primary_clash v xs \<longleftrightarrow> (\<exists>x \<in> set xs. \<exists>a. addr_of x = Some a \<and> ip_ver a = v)"
  by (induction xs) (auto simp: addr_of_def split: sum.splits)

lemma primary_clash_rival:
  "addr_of r = Some a \<Longrightarrow> primary_clash (ip_ver a) (other_primaries db r) \<longleftrightarrow>
     (\<exists>x \<in> set (db_ips db). ip_role x = Primary \<and> ip_status x \<noteq> IDeprecated \<and> rival r x)"
  by (fastforce simp: primary_clash_iff other_primaries_def rival_def split: option.splits)

lemma validate_address_parsed:
  assumes "deref (find_prefix db) (ip_prefix r) = Some px" "net_of px = Some n" "addr_of r = Some a"
  shows "validate_address db r = Inr () \<longleftrightarrow> in_net a n \<and>
    (\<forall>f. deref (find_iface db) (ip_iface r) = Some f \<longrightarrow> if_device_site f = px_site px \<and>
      (ip_role r = Primary \<longrightarrow> \<not> primary_clash (ip_ver a) (other_primaries db r)))"
proof -
  from assms(2,3) have "ip_network True (px_cidr px) = Inr n" "ip_address (ip_text r) = Inr a"
    by (auto simp: net_of_def addr_of_def split: sum.splits)
  with assms(1) show ?thesis
    by (cases "deref (find_iface db) (ip_iface r)")
      (simp_all add: validate_address_def parse_ip_field_def parse_prefix_network_def
        validate_interface_site_def validate_primary_role_def Let_def)
qed

lemma validate_address_unparsed:
  assumes "deref (find_prefix db) (ip_prefix r) = None \<or>
    (\<exists>px. deref (find_prefix db) (ip_prefix r) = Some px \<and> net_of px = None) \<or> addr_of r = None"
  shows "validate_address db r \<noteq> Inr ()"
proof (cases "deref (find_prefix db) (ip_prefix r)")
  case None
  then show ?thesis by (simp add: validate_address_def)
next
  case (Some px)
  with assms have "net_of px = None \<or> addr_of r = None" by auto
  with Some show ?thesis
    by (cases "ip_address (ip_text r)"; cases "ip_network True (px_cidr px)")
      (simp_all add: validate_address_def parse_ip_field_def parse_prefix_network_def net_of_def addr_of_def)
qed

text \<open>
  C6. Address validation decides its specification: the prefix exists and is a network, the
  address is inside it, and where the address sits on an interface, the interface's device is at
  the site of the prefix and, for a primary address, no other row that is not deprecated is a
  primary address of the same interface and IP version.
\<close>

theorem validate_address_decides: "validate_address db r = Inr () \<longleftrightarrow> address_ok db r"
proof (cases "\<exists>px n a. deref (find_prefix db) (ip_prefix r) = Some px \<and> net_of px = Some n \<and> addr_of r = Some a")
  case True
  then obtain px n a where *: "deref (find_prefix db) (ip_prefix r) = Some px" "net_of px = Some n" "addr_of r = Some a"
    by blast
  show ?thesis
    unfolding validate_address_parsed [OF *] primary_clash_rival [OF *(3)] address_ok_def using * by simp
next
  case False
  then have "\<not> address_ok db r" by (auto simp: address_ok_def)
  moreover have "validate_address db r \<noteq> Inr ()"
    by (rule validate_address_unparsed) (use False in \<open>cases "deref (find_prefix db) (ip_prefix r)"; auto\<close>)
  ultimately show ?thesis by blast
qed

text \<open>Writing a row: the row with its identifier is replaced, a new identifier is appended.\<close>

definition save_ip :: "ipam_db \<Rightarrow> ip_row \<Rightarrow> ipam_db" where
  "save_ip db r = db\<lparr>db_ips := (if ip_id r \<in> ip_id ` set (db_ips db)
     then map (\<lambda>x. if ip_id x = ip_id r then r else x) (db_ips db) else db_ips db @ [r])\<rparr>"

definition one_primary :: "ipam_db \<Rightarrow> bool" where
  "one_primary db \<longleftrightarrow> (\<forall>r \<in> set (db_ips db). \<forall>x \<in> set (db_ips db).
     active_primary r \<longrightarrow> active_primary x \<longrightarrow> \<not> rival r x)"

lemma set_save_ip: "x \<in> set (db_ips (save_ip db r)) \<Longrightarrow> x = r \<or> x \<in> set (db_ips db) \<and> ip_id x \<noteq> ip_id r"
  by (cases "ip_id x = ip_id r") (auto simp: save_ip_def rev_image_eqI split: if_splits)

lemma rival_sym: "rival r x \<longleftrightarrow> rival x r"
  by (auto simp: rival_def split: option.splits)

lemma saved_one_primary:
  assumes "one_primary db" and "validate_address db r = Inr ()"
    and "ip_iface r \<noteq> None \<longrightarrow> deref (find_iface db) (ip_iface r) \<noteq> None"
  shows "one_primary (save_ip db r)"
proof -
  have ok: "address_ok db r" using assms(2) validate_address_decides by blast
  have new: "\<not> rival r x" if "active_primary r" "x \<in> set (db_ips db)" "active_primary x" for x
    using ok assms(3) that by (auto simp: address_ok_def active_primary_def)
  show ?thesis
    unfolding one_primary_def
  proof (intro ballI impI)
    fix x y
    assume "x \<in> set (db_ips (save_ip db r))" "y \<in> set (db_ips (save_ip db r))"
      and act: "active_primary x" "active_primary y"
    then consider "x = r" "y = r" | "x = r" "y \<in> set (db_ips db)" | "x \<in> set (db_ips db)" "y = r"
      | "x \<in> set (db_ips db)" "y \<in> set (db_ips db)"
      using set_save_ip by blast
    then show "\<not> rival x y"
      using new act assms(1) rival_sym unfolding one_primary_def
      by cases (auto simp: rival_def)
  qed
qed

text \<open>
  Saving a validated address, new or changed, keeps at most one primary address that is not
  deprecated for each interface and IP version.
\<close>

theorem save_validated_one_primary:
  assumes "one_primary db" and "validate_address db r = Inr ()"
    and "ip_iface r \<noteq> None \<longrightarrow> deref (find_iface db) (ip_iface r) \<noteq> None"
  shows "one_primary (save_ip db r)"
  by (rule saved_one_primary [OF assms])

text \<open>
  An IPv4 address that the allocator hands out passes the address validation of a row without
  interface in that prefix, and it is the text of no row of the prefix that is not deprecated.
\<close>

theorem allocated_validates:
  assumes "next_available_ip db p = Inr s" and "find_prefix db (px_id p) = Some p"
    and "net_of p = Some net" and "net_ver net = IPv4"
    and "ip_text r = s" and "ip_prefix r = Some (px_id p)" and "ip_iface r = None"
  shows "validate_address db r = Inr () \<and> s \<notin> ip_text ` set (holding db p)"
proof -
  have net: "ip_network True (px_cidr p) = Inr net" using assms(3) by (auto simp: net_of_def split: sum.splits)
  obtain used where used: "parse_used (holding db p) = Inr used"
    using assms(1) by (auto simp: next_available_ip_def holding_def bind_res_eq_Inr)
  obtain h where h: "first_row (\<lambda>h. h \<notin> set used) (hosts net) = Some h" "s = ip_str h"
    using assms(1) next_available_ip_eq [OF net used] by (auto split: option.splits)
  then have host: "is_host net h" "h \<notin> set used" using first_host by (auto simp: lowest_host_def)
  have valid: "valid_net net" using assms(3) by (rule net_of_valid)
  have range: "in_net h net"
    using host(1) assms(4) by (auto simp: is_host_def host_range_def in_net_def split: if_splits)
  have "valid_ip h" using in_net_valid [OF valid range] .
  then have addr: "ip_address s = Inr h"
    using ip_address_ipv4_str [of h] range assms(4) h(2) by (simp add: in_net_def)
  have "s \<notin> ip_text ` set (holding db p)"
  proof
    assume "s \<in> ip_text ` set (holding db p)"
    then obtain x where "x \<in> set (holding db p)" "ip_address (ip_text x) = Inr h" using addr by auto
    with parse_used_in [OF used] have "h \<in> set used" by blast
    with host(2) show False ..
  qed
  moreover have "validate_address db r = Inr ()"
    using assms(2,3,5,6,7) addr range
    by (simp add: validate_address_decides address_ok_def deref_def addr_of_def)
  ultimately show ?thesis by simp
qed

section \<open>Witnesses\<close>

definition demo_prefix :: "uid \<Rightarrow> string \<Rightarrow> uid option \<Rightarrow> prefix" where
  "demo_prefix i c parent = \<lparr>px_id = i, px_cidr = c, px_site = Some 1, px_vrf = None, px_vlan = None,
     px_parent = parent, px_status = PActive, px_role = RUser, px_description = None\<rparr>"

definition demo_ip :: "uid \<Rightarrow> string \<Rightarrow> uid option \<Rightarrow> ip_status \<Rightarrow> ip_role \<Rightarrow> ip_row" where
  "demo_ip i a f st ro = \<lparr>ip_id = i, ip_text = a, ip_prefix = Some 2, ip_iface = f, ip_status = st,
     ip_role = ro, ip_is_primary = False, ip_is_reserved = False, ip_hostname = None, ip_mac = None,
     ip_description = None\<rparr>"

definition demo_db :: ipam_db where
  "demo_db = \<lparr>db_vrfs = [], db_prefixes = [demo_prefix 1 ''10.0.0.0/8'' None, demo_prefix 2 ''10.1.2.0/29'' (Some 1),
       demo_prefix 3 ''2001:db8::/32'' None],
     db_ifaces = [\<lparr>if_id = 1, if_label = ''sw1:Vlan1'', if_device_site = Some 1\<rparr>],
     db_ips = [demo_ip 1 ''10.1.2.1'' (Some 1) IActive Primary, demo_ip 2 ''10.1.2.2'' None IDeprecated Secondary,
       demo_ip 3 ''10.1.2.3'' None IReserved Secondary]\<rparr>"

declare has_ancestor.simps [code]

lemma demo_forest: "forest demo_db"
  unfolding forest_def by (intro conjI; code_simp)

lemma demo_accepts: "validate_prefix demo_db (demo_prefix 4 ''10.1.3.0/24'' (Some 1)) = Some (Inr ())"
  by code_simp

theorem validate_prefix_decides_witness:
  "prefix_ok demo_db (demo_prefix 4 ''10.1.3.0/24'' (Some 1))"
  using validate_prefix_decides [OF demo_forest] demo_accepts by blast

theorem validate_prefix_returns_witness:
  "\<exists>r. validate_prefix demo_db (demo_prefix 4 ''10.1.3.0/24'' (Some 2)) = Some r"
  by (rule validate_prefix_returns [OF demo_forest])

theorem add_validated_prefix_forest_witness:
  "forest (add_prefix demo_db (demo_prefix 4 ''10.1.3.0/24'' (Some 1)))"
  by (rule add_validated_prefix_forest [OF demo_forest demo_accepts]; code_simp)

theorem mixed_version_parent_raises_witness:
  "\<exists>m. validate_prefix demo_db (demo_prefix 4 ''10.1.3.0/24'' (Some 3)) = Some (Inl (Raised (TypeError m)))"
  by (rule exI, rule mixed_version_parent_raises
      [where n = "\<lparr>net_ver = IPv4, net_addr = 167838464, net_plen = 24\<rparr>"
        and q = "demo_prefix 3 ''2001:db8::/32'' None"
        and m = "\<lparr>net_ver = IPv6, net_addr = 42540766411282592856903984951653826560, net_plen = 32\<rparr>"];
      code_simp)

theorem overlap_loop_no_partial_witness:
  "overlap_loop (demo_prefix 4 ''10.1.2.4/30'' (Some 2))
     \<lparr>net_ver = IPv4, net_addr = 167838212, net_plen = 30\<rparr> [] []
     [demo_prefix 1 ''10.0.0.0/8'' None, demo_prefix 5 ''11.0.0.0/8'' None] =
   Containing [demo_prefix 1 ''10.0.0.0/8'' None]"
proof -
  let ?n = "\<lparr>net_ver = IPv4, net_addr = 167838212, net_plen = 30\<rparr>"
  let ?qs = "[demo_prefix 1 ''10.0.0.0/8'' None, demo_prefix 5 ''11.0.0.0/8'' None]"
  have n: "net_of (demo_prefix 4 ''10.1.2.4/30'' (Some 2)) = Some ?n"
    by code_simp
  have no: "\<not> (\<exists>q \<in> set ?qs. net_of q = Some ?n)"
    by code_simp
  have cov: "filter (covers ?n) ?qs = [demo_prefix 1 ''10.0.0.0/8'' None]"
    by code_simp
  show ?thesis
    using overlap_loop_no_partial [OF n, of "[]" ?qs] unfolding if_not_P [OF no] cov .
qed

lemma demo_used:
  "ip_network True (px_cidr (demo_prefix 2 ''10.1.2.0/29'' (Some 1))) =
     Inr \<lparr>net_ver = IPv4, net_addr = 167838208, net_plen = 29\<rparr>"
  "parse_used (holding demo_db (demo_prefix 2 ''10.1.2.0/29'' (Some 1))) =
     Inr [\<lparr>ip_ver = IPv4, ip_int = 167838209\<rparr>, \<lparr>ip_ver = IPv4, ip_int = 167838211\<rparr>]"
  by code_simp+

lemma demo_next: "next_available_ip demo_db (demo_prefix 2 ''10.1.2.0/29'' (Some 1)) = Inr ''10.1.2.2''"
  by code_simp

theorem allocate_lowest_free_witness:
  "\<exists>h. lowest_host \<lparr>net_ver = IPv4, net_addr = 167838208, net_plen = 29\<rparr>
     (\<lambda>h. h \<notin> set [\<lparr>ip_ver = IPv4, ip_int = 167838209\<rparr>, \<lparr>ip_ver = IPv4, ip_int = 167838211\<rparr>]) h
     \<and> ''10.1.2.2'' = ip_str h"
  using allocate_lowest_free [OF demo_used, of "''10.1.2.2''"] demo_next by blast

theorem allocate_until_full_witness:
  "\<exists>s. next_available_ip demo_db (demo_prefix 2 ''10.1.2.0/29'' (Some 1)) = Inr s"
  by (rule allocate_until_full [OF demo_used]) code_simp

theorem save_validated_one_primary_witness:
  "one_primary (save_ip demo_db (demo_ip 2 ''10.1.2.2'' (Some 1) IActive Secondary))"
  by (rule save_validated_one_primary) code_simp+

theorem allocated_validates_witness:
  "validate_address demo_db (demo_ip 9 ''10.1.2.2'' None IActive Primary) = Inr ()"
  using allocated_validates [OF demo_next, of "\<lparr>net_ver = IPv4, net_addr = 167838208, net_plen = 29\<rparr>"
      "demo_ip 9 ''10.1.2.2'' None IActive Primary"]
  by (simp add: demo_ip_def) code_simp

end
