(* ===== verification/Serials.thy ===== *)
theory Serials
  imports Dcim
begin

text \<open>
  Serial numbers (\<^verbatim>\<open>services/validation_service.py\<close>): which texts count as one, and
  the checks that keep a serial number unique among production modules and storage items, up to
  letter case. The checks are the ones of \<^verbatim>\<open>DeviceModule.clean\<close> and
  \<^verbatim>\<open>InventoryItem.clean\<close>.
\<close>

type_synonym field_errs = "(string \<times> string) list"

definition invalid_serials :: "string list" where
  "invalid_serials = [''N/A'', ''UNKNOWN'', ''N'']"

text \<open>
  \<^verbatim>\<open>normalize_serial_number\<close>, on a value that is a text or \<^verbatim>\<open>None\<close>.
\<close>

definition normalize_serial :: "string option \<Rightarrow> string option" where
  "normalize_serial v =
     (case v of None \<Rightarrow> None
      | Some s \<Rightarrow>
          let serial = strip s
          in if serial = [] then None
             else if upper serial \<in> set invalid_serials \<or> startswith (upper serial) ''UNKNOWN:'' then None
             else Some serial)"

definition find_serial_module :: "db \<Rightarrow> string \<Rightarrow> dev_module list" where
  "find_serial_module d s = filter (\<lambda>m. case mod_serial m of None \<Rightarrow> False | Some t \<Rightarrow> iexact t s) (t_modules d)"

definition find_serial_item :: "db \<Rightarrow> string \<Rightarrow> inv_item list" where
  "find_serial_item d s = filter (\<lambda>i. case inv_serial i of None \<Rightarrow> False | Some t \<Rightarrow> iexact t s) (t_inventory d)"

definition owner_name :: "db \<Rightarrow> dev_module \<Rightarrow> string" where
  "owner_name d m = (case find_device d (mod_device m) of None \<Rightarrow> [] | Some v \<Rightarrow> dev_name v)"

text \<open>\<^verbatim>\<open>validate_device_module_serial_uniqueness\<close>: the module with its serial normalised.\<close>

definition validate_module_serial :: "db \<Rightarrow> dev_module \<Rightarrow> field_errs + dev_module" where
  "validate_module_serial d m0 =
     (let serial = normalize_serial (mod_serial m0); m = m0\<lparr>mod_serial := serial\<rparr>
      in case serial of
           None \<Rightarrow> Inr m
         | Some s \<Rightarrow>
             (case filter (\<lambda>x. mod_id x \<noteq> mod_id m) (find_serial_module d s) of
                dup # _ \<Rightarrow> Inl [(''serial_number'',
                  ''Serial number already exists on production module '' @ char_of (39::nat) # mod_name dup @
                  char_of (39::nat) # '' of device '' @ char_of (39::nat) # owner_name d dup @
                  char_of (39::nat) # ''.'')]
              | [] \<Rightarrow>
                 (case find_serial_item d s of
                    dup # _ \<Rightarrow> Inl [(''serial_number'',
                      ''Serial number already exists in storage inventory ('' @ char_of (39::nat) #
                      inv_designation dup @ char_of (39::nat) # '').'')]
                  | [] \<Rightarrow> Inr m)))"

text \<open>\<^verbatim>\<open>validate_inventory_item_serial_uniqueness\<close>\<close>

definition validate_item_serial :: "db \<Rightarrow> inv_item \<Rightarrow> inv_item \<times> (field_errs + unit)" where
  "validate_item_serial d i0 =
     (let serial = normalize_serial (inv_serial i0); i = i0\<lparr>inv_serial := serial\<rparr>
      in (i, case serial of
           None \<Rightarrow> Inr ()
         | Some s \<Rightarrow>
             (case find_serial_module d s of
                dup # _ \<Rightarrow> Inl [(''serial_number'',
                  ''Serial number already exists in Production module '' @ char_of (39::nat) # mod_name dup @
                  char_of (39::nat) # '' of device '' @ char_of (39::nat) # owner_name d dup @
                  char_of (39::nat) # ''.'')]
              | [] \<Rightarrow>
                 if filter (\<lambda>x. inv_id x \<noteq> inv_id i) (find_serial_item d s) \<noteq> []
                 then Inl [(''serial_number'', ''Serial number already exists in Storage inventory.'')]
                 else Inr ())))"

text \<open>\<^verbatim>\<open>DeviceModule.clean\<close> and its display of the serial number\<close>

definition module_clean :: "db \<Rightarrow> dev_module \<Rightarrow> field_errs + dev_module" where
  "module_clean d m = validate_module_serial d (m\<lparr>mod_serial := normalize_serial (mod_serial m)\<rparr>)"

definition serial_display :: "dev_module \<Rightarrow> string option" where
  "serial_display m =
     (case mod_serial m of None \<Rightarrow> None
      | Some s \<Rightarrow>
          if s = [] then None
          else let serial = strip s
            in if serial = [] then None
               else if upper serial \<in> set invalid_serials \<or> startswith (upper serial) ''UNKNOWN:'' then None
               else Some serial)"

text \<open>\<^verbatim>\<open>InventoryItem.clean\<close>: the item with its serial normalised and the errors.\<close>

definition item_clean :: "db \<Rightarrow> inv_item \<Rightarrow> inv_item \<times> (field_errs + unit)" where
  "item_clean d i0 =
     (let errs = (case fk (find_area d) (inv_area i0) of
            Some a \<Rightarrow> if area_site a \<noteq> inv_site i0
              then [(''area'', ''Area must belong to the same site as the inventory item.'')] else []
          | None \<Rightarrow> []);
          errs = (if inv_status i0 = ''installed'' \<and> strip (inv_comment i0) = []
            then dict_put ''comment'' ''Comment is required when an inventory item is marked as installed.'' errs
            else errs);
          (i, r) = validate_item_serial d i0;
          errs = (case r of Inr _ \<Rightarrow> errs | Inl es \<Rightarrow> fold (\<lambda>(k, v). dict_put k v) es errs)
      in (i, if errs \<noteq> [] then Inl errs else Inr ()))"

section \<open>What the checks guarantee\<close>

lemma normalize_serial_Some:
  "normalize_serial v = Some s \<Longrightarrow> s \<noteq> [] \<and> trimmed s \<and> upper s \<notin> set invalid_serials
     \<and> \<not> startswith (upper s) ''UNKNOWN:''"
  by (auto simp: normalize_serial_def Let_def split: option.splits if_splits)

lemma normalize_serial_None [simp]: "normalize_serial None = None"
  by (simp add: normalize_serial_def)

lemma normalize_serial_idem [simp]: "normalize_serial (normalize_serial v) = normalize_serial v"
proof (cases "normalize_serial v")
  case None
  then show ?thesis by (simp add: normalize_serial_def)
next
  case (Some s)
  from normalize_serial_Some [OF this] have "strip s = s" and "s \<noteq> []"
    and "upper s \<notin> set invalid_serials" "\<not> startswith (upper s) ''UNKNOWN:''"
    by (auto simp: strip_trimmed)
  with Some show ?thesis by (simp add: normalize_serial_def [of "Some s"])
qed

text \<open>The serial numbers in use, up to case: those of the modules, then those of the items.\<close>

definition serials_of :: "string option list \<Rightarrow> string list" where
  "serials_of xs = map upper (concat (map (\<lambda>x. case x of None \<Rightarrow> [] | Some s \<Rightarrow> [s]) xs))"

definition used_serials :: "db \<Rightarrow> string list" where
  "used_serials d = serials_of (map mod_serial (t_modules d) @ map inv_serial (t_inventory d))"

lemma serials_of_simps [simp]:
  "serials_of [] = []" "serials_of (None # xs) = serials_of xs"
  "serials_of (Some s # xs) = upper s # serials_of xs"
  "serials_of (xs @ ys) = serials_of xs @ serials_of ys"
  by (simp_all add: serials_of_def)

lemma in_serials_of: "u \<in> set (serials_of xs) \<longleftrightarrow> (\<exists>s. Some s \<in> set xs \<and> upper s = u)"
proof (induction xs)
  case (Cons x xs)
  then show ?case by (cases x) auto
qed simp

lemma no_serial_module:
  "filter P (find_serial_module d s) = [] \<longleftrightarrow> (\<forall>m \<in> set (t_modules d). \<forall>t. mod_serial m = Some t \<longrightarrow> P m \<longrightarrow> upper t \<noteq> upper s)"
  by (auto simp: find_serial_module_def filter_empty_conv iexact_def split: option.splits)

lemma no_serial_item:
  "filter P (find_serial_item d s) = [] \<longleftrightarrow> (\<forall>i \<in> set (t_inventory d). \<forall>t. inv_serial i = Some t \<longrightarrow> P i \<longrightarrow> upper t \<noteq> upper s)"
  by (auto simp: find_serial_item_def filter_empty_conv iexact_def split: option.splits)

text \<open>
  A table whose rows may carry a serial number, next to the serial numbers used elsewhere:
  saving a row whose serial number is free keeps all serial numbers different.
\<close>

locale serial_rows =
  fixes ident :: "'r \<Rightarrow> uid"
    and serial :: "'r \<Rightarrow> string option"
begin

definition free :: "string option \<Rightarrow> uid \<Rightarrow> 'r list \<Rightarrow> string list \<Rightarrow> bool" where
  "free v i rows others \<longleftrightarrow> (\<forall>s. v = Some s \<longrightarrow> upper s \<notin> set others
     \<and> (\<forall>x \<in> set rows. \<forall>t. serial x = Some t \<longrightarrow> ident x \<noteq> i \<longrightarrow> upper t \<noteq> upper s))"

lemma serials_save:
  "set (serials_of (map serial (save_row ident r rows)))
     \<subseteq> set (serials_of [serial r]) \<union> set (serials_of (map serial rows))"
proof (induction rows)
  case (Cons x xs)
  then show ?case by (cases "serial x"; cases "serial r") auto
qed simp

lemma distinct_save:
  assumes "distinct (map ident rows)" and "distinct (serials_of (map serial rows) @ others)"
    and "free (serial r) (ident r) rows others"
  shows "distinct (serials_of (map serial (save_row ident r rows)) @ others)"
  using assms
proof (induction rows)
  case Nil
  then show ?case by (cases "serial r") (auto simp: free_def)
next
  case (Cons x xs)
  show ?case
  proof (cases "ident x = ident r")
    case True
    with Cons.prems have "\<forall>y \<in> set xs. ident y \<noteq> ident r" by (auto simp: rev_image_eqI)
    with Cons.prems True show ?thesis
      by (cases "serial r"; cases "serial x") (auto simp: free_def in_serials_of)
  next
    case False
    have rest: "distinct (serials_of (map serial (save_row ident r xs)) @ others)"
      using Cons.IH Cons.prems by (cases "serial x") (auto simp: free_def)
    show ?thesis
    proof (cases "serial x")
      case None
      with rest False show ?thesis by simp
    next
      case (Some s)
      with Cons.prems False have "upper s \<notin> set (serials_of [serial r])"
        by (cases "serial r") (auto simp: free_def)
      with Some Cons.prems(2) have "upper s \<notin> set (serials_of (map serial (save_row ident r xs)))"
        using serials_save [of r xs] by auto
      with Some rest False Cons.prems(2) show ?thesis by simp
    qed
  qed
qed

end

interpretation module_serials: serial_rows mod_id mod_serial .

interpretation item_serials: serial_rows inv_id inv_serial .

definition save_module :: "db \<Rightarrow> dev_module \<Rightarrow> db" where
  "save_module d m = d\<lparr>t_modules := save_row mod_id m (t_modules d)\<rparr>"

definition save_item :: "db \<Rightarrow> inv_item \<Rightarrow> db" where
  "save_item d i = d\<lparr>t_inventory := save_row inv_id i (t_inventory d)\<rparr>"

lemma module_clean_free:
  assumes "module_clean d m = Inr m'"
  shows "module_serials.free (mod_serial m') (mod_id m') (t_modules d) (serials_of (map inv_serial (t_inventory d)))"
proof (cases "normalize_serial (mod_serial m)")
  case None
  with assms show ?thesis
    by (auto simp: module_clean_def validate_module_serial_def module_serials.free_def Let_def)
next
  case (Some s)
  then have "normalize_serial (Some s) = Some s" using normalize_serial_idem [of "mod_serial m"] by simp
  with assms Some have "filter (\<lambda>x. mod_id x \<noteq> mod_id m) (find_serial_module d s) = []"
    and "filter (\<lambda>_. True) (find_serial_item d s) = []" and "m' = m\<lparr>mod_serial := Some s\<rparr>"
    by (auto simp: module_clean_def validate_module_serial_def Let_def split: list.splits)
  then show ?thesis
    unfolding no_serial_module no_serial_item
    by (fastforce simp: module_serials.free_def in_serials_of)
qed

lemma item_clean_free:
  assumes "item_clean d i = (i', Inr ())"
  shows "item_serials.free (inv_serial i') (inv_id i') (t_inventory d) (serials_of (map mod_serial (t_modules d)))"
proof (cases "normalize_serial (inv_serial i)")
  case None
  with assms show ?thesis
    by (auto simp: item_clean_def validate_item_serial_def item_serials.free_def Let_def split: if_splits)
next
  case (Some s)
  from assms Some have "filter (\<lambda>_. True) (find_serial_module d s) = []"
    and "filter (\<lambda>x. inv_id x \<noteq> inv_id i) (find_serial_item d s) = []" and "i' = i\<lparr>inv_serial := Some s\<rparr>"
    by (auto simp: item_clean_def validate_item_serial_def Let_def split: if_splits list.splits)
  then show ?thesis
    unfolding no_serial_module no_serial_item
    by (fastforce simp: item_serials.free_def in_serials_of)
qed

text \<open>
  C7. Saving a cleaned production module or a cleaned storage item keeps all serial numbers of
  modules and items different up to letter case.
\<close>

theorem cleaned_serials_unique:
  assumes "distinct (used_serials d)" and "distinct (map mod_id (t_modules d))" and "distinct (map inv_id (t_inventory d))"
  shows "(module_clean d m = Inr m' \<longrightarrow> distinct (used_serials (save_module d m'))) \<and>
    (item_clean d i = (i', Inr ()) \<longrightarrow> distinct (used_serials (save_item d i')))"
proof (intro conjI impI)
  assume "module_clean d m = Inr m'"
  from module_serials.distinct_save [OF assms(2) _ module_clean_free [OF this]] assms(1)
  show "distinct (used_serials (save_module d m'))" by (simp add: used_serials_def save_module_def)
next
  assume "item_clean d i = (i', Inr ())"
  from item_serials.distinct_save [OF assms(3) _ item_clean_free [OF this]] assms(1)
  show "distinct (used_serials (save_item d i'))" by (auto simp: used_serials_def save_item_def)
qed

definition demo_serials :: db where
  "demo_serials = empty_db\<lparr>
     t_modules := [(new_module 1 1 ''slot 1'')\<lparr>mod_serial := Some ''FOC1''\<rparr>, new_module 2 1 ''slot 2''],
     t_inventory := [(new_item 1 ''C9300'' 1)\<lparr>inv_serial := Some ''FOC2''\<rparr>]\<rparr>"

theorem cleaned_serials_unique_witness:
  "distinct (used_serials (save_module demo_serials ((new_module 2 1 ''slot 2'')\<lparr>mod_serial := Some ''foc3''\<rparr>)))"
  by (rule cleaned_serials_unique [where m = "(new_module 2 1 ''slot 2'')\<lparr>mod_serial := Some '' foc3''\<rparr>",
        THEN conjunct1, THEN mp]; code_simp)

end
