(* ===== verification/Devices.thy ===== *)
theory Devices
  imports Serials
begin

text \<open>
  Devices and racks (\<^verbatim>\<open>dcim/models/device.py\<close>, \<^verbatim>\<open>rack.py\<close>,
  \<^verbatim>\<open>area.py\<close>): the validation of a device, saving and deleting one with the rack
  occupancy that both recompute, and the invariant that every rack lists exactly the units its
  devices take.
\<close>

section \<open>Occupied units\<close>

text \<open>\<^verbatim>\<open>int()\<close> of a decimal given in tenths: truncation towards zero.\<close>

definition whole :: "int \<Rightarrow> int" where
  "whole t = (if 0 \<le> t then t div 10 else - ((- t) div 10))"

definition device_height :: "db \<Rightarrow> device \<Rightarrow> int" where
  "device_height d dev =
     (case fk (find_type d) (dev_type dev) of
        Some t \<Rightarrow> if dt_height t \<noteq> 0 then max 1 (whole (dt_height t)) else 1
      | None \<Rightarrow> 1)"

definition stack_count :: "db \<Rightarrow> uid \<Rightarrow> nat" where
  "stack_count d i = length (filter (\<lambda>s. sm_device s = i) (t_stacks d))"

definition device_units :: "db \<Rightarrow> device \<Rightarrow> int list" where
  "device_units d dev =
     (case dev_position dev of
        None \<Rightarrow> []
      | Some p \<Rightarrow>
          let start = whole p;
              factor = (if dev_stacked dev then int (stack_count d (dev_id dev)) else 1);
              total = max 1 (device_height d dev * max 1 factor)
          in map (\<lambda>off. start + int off) [0 ..< nat total])"

definition occupied_units :: "db \<Rightarrow> uid \<Rightarrow> int list" where
  "occupied_units d r = concat (map (device_units d) (filter (\<lambda>v. dev_rack v = Some r) (t_devices d)))"

text \<open>\<^verbatim>\<open>update_rack_occupied_units\<close>\<close>

definition refresh_rack :: "uid option \<Rightarrow> db \<Rightarrow> db" where
  "refresh_rack r d =
     (case r of
        None \<Rightarrow> d
      | Some i \<Rightarrow> d\<lparr>t_racks := update_where (\<lambda>k. rack_id k = i)
          (\<lambda>k. k\<lparr>rack_occupied := occupied_units d i\<rparr>) (t_racks d)\<rparr>)"

section \<open>Validation\<close>

text \<open>\<^verbatim>\<open>validate_device_rack_area\<close> on the rows that the two foreign keys lead to.\<close>

definition validate_rack_area :: "rack option \<Rightarrow> area option \<Rightarrow> field_errs + unit" where
  "validate_rack_area r a =
     (case r of
        None \<Rightarrow> Inr ()
      | Some rk \<Rightarrow>
         (case a of
            None \<Rightarrow> Inl [(''rack'', ''Select an area before choosing a rack.'')]
          | Some ar \<Rightarrow> if rack_area rk \<noteq> area_id ar
              then Inl [(''rack'', ''Selected rack does not belong to the chosen area.'')] else Inr ()))"

definition validate_device :: "db \<Rightarrow> device \<Rightarrow> field_errs + unit" where
  "validate_device d dev = validate_rack_area (fk (find_rack d) (dev_rack dev)) (find_area d (dev_area dev))"

text \<open>\<^verbatim>\<open>Device.clean\<close>: the device with its serial number normalised, or an error.\<close>

definition position_taken :: "db \<Rightarrow> device \<Rightarrow> bool" where
  "position_taken d dev \<longleftrightarrow> (\<exists>v \<in> set (t_devices d).
     dev_rack v = dev_rack dev \<and> dev_position v = dev_position dev \<and> dev_id v \<noteq> dev_id dev)"

definition device_clean :: "db \<Rightarrow> device \<Rightarrow> field_errs + device" where
  "device_clean d dev0 =
     (let dev = dev0\<lparr>dev_serial := normalize_serial (dev_serial dev0)\<rparr>
      in if (case find_area d (dev_area dev) of Some a \<Rightarrow> area_site a \<noteq> dev_site dev | None \<Rightarrow> False)
         then Inl [(''area'', ''Area must belong to the same site as the device.'')]
         else if (case fk (find_rack d) (dev_rack dev) of Some r \<Rightarrow> rack_area r \<noteq> dev_area dev | None \<Rightarrow> False)
         then Inl [(''rack'', ''Rack must belong to the same area as the device.'')]
         else if fk (find_rack d) (dev_rack dev) \<noteq> None \<and> dev_position dev \<noteq> None \<and> position_taken d dev
         then Inl [(''position'', ''This rack unit is already occupied in the selected rack.'')]
         else if (case fk (find_type d) (dev_type dev) of Some t \<Rightarrow> dt_platform t = [] | None \<Rightarrow> False)
         then Inl [(''device_type'', ''Device type must define a platform for automation.'')]
         else Inr (dev\<lparr>dev_serial := normalize_serial (dev_serial dev)\<rparr>))"

section \<open>Saving and deleting\<close>

text \<open>
  Writing the row: names and management addresses are unique in the table, a violation is an
  \<^verbatim>\<open>IntegrityError\<close>.
\<close>

definition write_device :: "db \<Rightarrow> device \<Rightarrow> exn + db" where
  "write_device d dev =
     (if \<exists>v \<in> set (t_devices d). dev_id v \<noteq> dev_id dev \<and> dev_name v = dev_name dev
      then Inl (IntegrityError ''dcim_device_name_key'')
      else if \<exists>v \<in> set (t_devices d). dev_id v \<noteq> dev_id dev \<and> dev_ip v = dev_ip dev
      then Inl (IntegrityError ''dcim_device_management_ip_key'')
      else Inr (d\<lparr>t_devices := save_row dev_id dev (t_devices d)\<rparr>))"

text \<open>\<^verbatim>\<open>Device.save\<close>: the row, then the occupancy of the rack it left and of the rack it is in.\<close>

definition save_device :: "db \<Rightarrow> device \<Rightarrow> exn + db" where
  "save_device d dev =
     (let previous = (case find_device d (dev_id dev) of None \<Rightarrow> None | Some v \<Rightarrow> dev_rack v)
      in bind_res (write_device d dev) (\<lambda>d'.
           Inr (if previous = dev_rack dev then refresh_rack previous d'
                else refresh_rack (dev_rack dev) (refresh_rack previous d'))))"

text \<open>
  What deleting the row cascades to: the rows that belong to the device, and the links of other
  interfaces to a port channel of the device.
\<close>

definition cascade_device :: "db \<Rightarrow> uid \<Rightarrow> db" where
  "cascade_device d i =
     (let ifs = map ifc_id (filter (\<lambda>f. ifc_device f = i) (t_interfaces d))
      in d\<lparr>t_devices := filter (\<lambda>v. dev_id v \<noteq> i) (t_devices d),
           t_modules := filter (\<lambda>m. mod_device m \<noteq> i) (t_modules d),
           t_runtimes := filter (\<lambda>r. rt_device r \<noteq> i) (t_runtimes d),
           t_stacks := filter (\<lambda>s. sm_device s \<noteq> i) (t_stacks d),
           t_interfaces := map (\<lambda>f. if (case ifc_lag f of Some l \<Rightarrow> l \<in> set ifs | None \<Rightarrow> False)
               then f\<lparr>ifc_lag := None\<rparr> else f)
             (filter (\<lambda>f. ifc_device f \<noteq> i) (t_interfaces d))\<rparr>)"

text \<open>
  \<^verbatim>\<open>Device.delete\<close>: the row and the rows that cascade from it, the occupancy of its
  rack, then the discovery candidates of its site with its address or its name.
\<close>

definition delete_device :: "db \<Rightarrow> device \<Rightarrow> db" where
  "delete_device d dev =
     (let d = refresh_rack (dev_rack dev) (cascade_device d (dev_id dev))
      in d\<lparr>t_candidates := filter (\<lambda>c. \<not> (cand_site c = dev_site dev \<and>
            ((dev_ip dev \<noteq> [] \<and> cand_ip c = dev_ip dev) \<or>
             (dev_name dev \<noteq> [] \<and> iexact (cand_hostname c) (dev_name dev))))) (t_candidates d)\<rparr>)"

section \<open>Rack occupancy stays exact\<close>

definition occupancy_exact :: "db \<Rightarrow> bool" where
  "occupancy_exact d \<longleftrightarrow> (\<forall>k \<in> set (t_racks d). rack_occupied k = occupied_units d (rack_id k))"

lemma refresh_tables [simp]:
  "t_devices (refresh_rack r d) = t_devices d" "t_types (refresh_rack r d) = t_types d"
  "t_stacks (refresh_rack r d) = t_stacks d" "t_candidates (refresh_rack r d) = t_candidates d"
  by (auto simp: refresh_rack_def split: option.splits)

lemma find_type_cong: "t_types d' = t_types d \<Longrightarrow> find_type d' = find_type d"
  by (simp add: fun_eq_iff find_type_def)

lemma device_units_cong:
  assumes "t_types d' = t_types d" and "stack_count d' (dev_id v) = stack_count d (dev_id v)"
  shows "device_units d' v = device_units d v"
  unfolding device_units_def device_height_def find_type_cong [OF assms(1)] assms(2) ..

lemma units_write: "t_types d' = t_types d \<Longrightarrow> t_stacks d' = t_stacks d \<Longrightarrow> device_units d' = device_units d"
  by (intro ext device_units_cong) (simp_all add: stack_count_def)

lemma refresh_units [simp]: "device_units (refresh_rack r d) = device_units d"
  by (rule units_write) simp_all

lemma refresh_occupied [simp]: "occupied_units (refresh_rack r d) = occupied_units d"
  by (simp add: fun_eq_iff occupied_units_def)

text \<open>A rack that is refreshed is exact, any other rack is as exact as it was.\<close>

definition exact_except :: "uid set \<Rightarrow> db \<Rightarrow> bool" where
  "exact_except s d \<longleftrightarrow> (\<forall>k \<in> set (t_racks d). rack_id k \<notin> s \<longrightarrow> rack_occupied k = occupied_units d (rack_id k))"

lemma refresh_racks:
  "t_racks (refresh_rack (Some i) d) =
     update_where (\<lambda>k. rack_id k = i) (\<lambda>k. k\<lparr>rack_occupied := occupied_units d i\<rparr>) (t_racks d)"
  by (simp add: refresh_rack_def)

lemma exact_refresh: "exact_except (insert r s) d \<Longrightarrow> exact_except s (refresh_rack (Some r) d)"
  by (auto simp: exact_except_def refresh_racks update_where_def)

lemma exact_refresh_opt:
  "exact_except (set_option r \<union> s) d \<Longrightarrow> exact_except s (refresh_rack r d)"
  by (cases r) (auto simp: exact_refresh, simp add: refresh_rack_def)

lemma filter_save_row:
  assumes "distinct (map dev_id vs)" and "\<not> P dev" and "\<forall>v \<in> set vs. dev_id v = dev_id dev \<longrightarrow> \<not> P v"
  shows "filter P (save_row dev_id dev vs) = filter P vs"
  using assms by (induction vs) auto

lemma write_exact_except:
  assumes "occupancy_exact d" and "distinct (map dev_id (t_devices d))" and "write_device d dev = Inr d'"
    and "previous = (case find_device d (dev_id dev) of None \<Rightarrow> None | Some v \<Rightarrow> dev_rack v)"
  shows "exact_except (set_option previous \<union> set_option (dev_rack dev)) d'"
proof -
  from assms(3) have d': "d' = d\<lparr>t_devices := save_row dev_id dev (t_devices d)\<rparr>"
    by (auto simp: write_device_def split: if_splits)
  have "occupied_units d' r = occupied_units d r" if "Some r \<noteq> previous" "dev_rack dev \<noteq> Some r" for r
  proof -
    have "filter (\<lambda>v. dev_rack v = Some r) (save_row dev_id dev (t_devices d)) =
        filter (\<lambda>v. dev_rack v = Some r) (t_devices d)"
    proof (rule filter_save_row [OF assms(2)])
      show "dev_rack dev \<noteq> Some r" by (rule that(2))
      show "\<forall>v \<in> set (t_devices d). dev_id v = dev_id dev \<longrightarrow> dev_rack v \<noteq> Some r"
      proof (intro ballI impI)
        fix v assume v: "v \<in> set (t_devices d)" "dev_id v = dev_id dev"
        have "first_row (\<lambda>x. dev_id x = dev_id v) (t_devices d) = Some v"
          using assms(2) v(1) by (rule first_row_distinct)
        with v(2) have "previous = dev_rack v" by (simp add: assms(4) find_device_def)
        with that(1) show "dev_rack v \<noteq> Some r" by auto
      qed
    qed
    then show ?thesis using units_write [of d' d] unfolding occupied_units_def d' by simp
  qed
  then show ?thesis using assms(1) by (auto simp: exact_except_def occupancy_exact_def d')
qed

lemma save_device_exact:
  assumes "occupancy_exact d" and "distinct (map dev_id (t_devices d))" and "save_device d dev = Inr d'"
  shows "occupancy_exact d'"
proof -
  let ?prev = "case find_device d (dev_id dev) of None \<Rightarrow> None | Some v \<Rightarrow> dev_rack v"
  obtain d1 where w: "write_device d dev = Inr d1"
    and d': "d' = (if ?prev = dev_rack dev then refresh_rack ?prev d1
      else refresh_rack (dev_rack dev) (refresh_rack ?prev d1))"
    using assms(3) by (auto simp: save_device_def bind_res_eq_Inr Let_def)
  have ex: "exact_except (set_option ?prev \<union> set_option (dev_rack dev)) d1"
    by (rule write_exact_except [OF assms(1,2) w]) simp
  have "exact_except {} d'"
  proof (cases "?prev = dev_rack dev")
    case True
    with ex show ?thesis unfolding d' by (simp add: exact_refresh_opt)
  next
    case False
    have "exact_except (set_option (dev_rack dev) \<union> {}) (refresh_rack ?prev d1)"
      using ex by (intro exact_refresh_opt) simp
    then show ?thesis unfolding d' using False by (auto intro: exact_refresh_opt)
  qed
  then show ?thesis by (simp add: exact_except_def occupancy_exact_def)
qed

text \<open>Saving a device writes the tables of devices and racks only.\<close>

lemma refresh_frame: "refresh_rack r d = d\<lparr>t_racks := t_racks (refresh_rack r d)\<rparr>"
  by (simp add: refresh_rack_def split: option.split)

lemma save_device_frame:
  assumes "save_device d v = Inr d'"
  shows "d' = d\<lparr>t_devices := save_row dev_id v (t_devices d), t_racks := t_racks d'\<rparr>"
proof -
  obtain d1 where "write_device d v = Inr d1" and "d' = d1 \<or> (\<exists>r. d' = refresh_rack r d1) \<or> (\<exists>r q. d' = refresh_rack r (refresh_rack q d1))"
    using assms by (fastforce simp: save_device_def bind_res_eq_Inr Let_def split: if_splits)
  moreover from this(1) have "d1 = d\<lparr>t_devices := save_row dev_id v (t_devices d)\<rparr>" by (auto simp: write_device_def split: if_splits)
  ultimately show ?thesis by (auto simp: refresh_rack_def split: option.splits)
qed

lemma save_device_table:
  assumes "save_device d v = Inr d'"
  shows "t_devices d' = save_row dev_id v (t_devices d)"
    and "\<forall>w \<in> set (t_devices d). dev_id w \<noteq> dev_id v \<longrightarrow> dev_name w \<noteq> dev_name v \<and> dev_ip w \<noteq> dev_ip v"
proof -
  obtain d1 where w: "write_device d v = Inr d1" and "t_devices d' = t_devices d1"
    using assms by (auto simp: save_device_def bind_res_eq_Inr Let_def split: if_splits)
  then show "t_devices d' = save_row dev_id v (t_devices d)"
    and "\<forall>w \<in> set (t_devices d). dev_id w \<noteq> dev_id v \<longrightarrow> dev_name w \<noteq> dev_name v \<and> dev_ip w \<noteq> dev_ip v"
    by (auto simp: write_device_def split: if_splits)
qed

lemma save_device_keeps:
  assumes "save_device d v = Inr d'"
  shows "t_types d' = t_types d" and "t_stacks d' = t_stacks d" and "t_areas d' = t_areas d" and "t_candidates d' = t_candidates d"
    and "t_modules d' = t_modules d" and "t_inventory d' = t_inventory d"
  by (subst save_device_frame [OF assms], simp)+

lemma save_new_device:
  assumes "save_device d v = Inr d'" and "dev_id v \<notin> dev_id ` set (t_devices d)"
  shows "t_devices d' = t_devices d @ [v]"
proof -
  have "\<forall>x \<in> set (t_devices d). dev_id x \<noteq> dev_id v" using assms(2) by (metis imageI)
  then show ?thesis using save_device_table(1) [OF assms(1)] by (simp add: save_row_def upsert_None)
qed

text \<open>
  Saving a device keeps the occupancy of every rack exact: each rack lists the units of its
  devices, with their heights and stack members, also when the device moves between racks.
\<close>

theorem save_device_occupancy:
  assumes "occupancy_exact d" and "distinct (map dev_id (t_devices d))" and "save_device d dev = Inr d'"
  shows "occupancy_exact d'"
  using assms by (rule save_device_exact)

lemma cascade_tables [simp]:
  "t_devices (cascade_device d i) = filter (\<lambda>v. dev_id v \<noteq> i) (t_devices d)"
  "t_modules (cascade_device d i) = filter (\<lambda>m. mod_device m \<noteq> i) (t_modules d)"
  "t_stacks (cascade_device d i) = filter (\<lambda>s. sm_device s \<noteq> i) (t_stacks d)"
  "t_types (cascade_device d i) = t_types d" "t_racks (cascade_device d i) = t_racks d"
  by (simp_all add: cascade_device_def Let_def)

lemma cascade_interfaces: "f \<in> set (t_interfaces (cascade_device d i)) \<Longrightarrow> ifc_device f \<noteq> i"
  by (auto simp: cascade_device_def Let_def split: if_splits)

lemma cascade_units: "dev_id v \<noteq> i \<Longrightarrow> device_units (cascade_device d i) v = device_units d v"
  by (rule device_units_cong)
    (auto simp: stack_count_def intro!: arg_cong [where f = length] filter_cong)

lemma cascade_occupied:
  assumes "\<forall>v \<in> set (t_devices d). dev_id v = i \<longrightarrow> dev_rack v \<noteq> Some r"
  shows "occupied_units (cascade_device d i) r = occupied_units d r"
proof -
  have "filter (\<lambda>v. dev_rack v = Some r) (filter (\<lambda>v. dev_id v \<noteq> i) (t_devices d))
      = filter (\<lambda>v. dev_rack v = Some r) (t_devices d)"
    using assms by (auto intro!: filter_cong)
  moreover have "map (device_units (cascade_device d i)) (filter (\<lambda>v. dev_rack v = Some r) (t_devices d))
      = map (device_units d) (filter (\<lambda>v. dev_rack v = Some r) (t_devices d))"
    using assms by (intro map_cong refl cascade_units) auto
  ultimately show ?thesis unfolding occupied_units_def cascade_tables by (simp only:)
qed

lemma delete_tables:
  "t_devices (delete_device d dev) = filter (\<lambda>v. dev_id v \<noteq> dev_id dev) (t_devices d)"
  "t_modules (delete_device d dev) = filter (\<lambda>m. mod_device m \<noteq> dev_id dev) (t_modules d)"
  "t_stacks (delete_device d dev) = filter (\<lambda>s. sm_device s \<noteq> dev_id dev) (t_stacks d)"
  "t_interfaces (delete_device d dev) = t_interfaces (cascade_device d (dev_id dev))"
  "t_racks (delete_device d dev) = t_racks (refresh_rack (dev_rack dev) (cascade_device d (dev_id dev)))"
  by (simp_all add: delete_device_def Let_def refresh_rack_def split: option.splits)

lemma delete_occupied:
  "occupied_units (delete_device d dev) = occupied_units (cascade_device d (dev_id dev))"
proof -
  have "device_units (delete_device d dev) = device_units (cascade_device d (dev_id dev))"
    by (rule units_write) (simp_all add: delete_device_def Let_def)
  then show ?thesis by (intro ext) (simp only: occupied_units_def delete_tables cascade_tables)
qed

lemma delete_device_exact:
  assumes "occupancy_exact d" and "find_device d (dev_id dev) = Some dev" and "distinct (map dev_id (t_devices d))"
  shows "occupancy_exact (delete_device d dev)"
proof -
  have dev: "v = dev" if "v \<in> set (t_devices d)" "dev_id v = dev_id dev" for v
    using first_row_distinct [OF assms(3) that(1)] assms(2) that(2) by (simp add: find_device_def)
  have "occupied_units (cascade_device d (dev_id dev)) r = occupied_units d r" if "dev_rack dev \<noteq> Some r" for r
    using dev that by (intro cascade_occupied) blast
  with assms(1) have "exact_except (set_option (dev_rack dev)) (cascade_device d (dev_id dev))"
    by (auto simp: exact_except_def occupancy_exact_def)
  then have "exact_except {} (refresh_rack (dev_rack dev) (cascade_device d (dev_id dev)))"
    by (intro exact_refresh_opt) simp
  then show ?thesis
    by (simp add: exact_except_def occupancy_exact_def delete_tables delete_occupied)
qed

text \<open>
  Deleting a device keeps the occupancy exact and leaves nothing of it behind: no module,
  runtime status, stack member or interface of the device, no LAG link to one of its interfaces,
  and no discovery candidate of its site with its address or, up to case, its name.
\<close>

theorem delete_device_clean:
  assumes "occupancy_exact d" and "find_device d (dev_id dev) = Some dev" and "distinct (map dev_id (t_devices d))"
    and "dev_ip dev \<noteq> []" and "dev_name dev \<noteq> []" and "d' = delete_device d dev"
  shows "occupancy_exact d' \<and> find_device d' (dev_id dev) = None
    \<and> (\<forall>m \<in> set (t_modules d'). mod_device m \<noteq> dev_id dev)
    \<and> (\<forall>s \<in> set (t_stacks d'). sm_device s \<noteq> dev_id dev)
    \<and> (\<forall>f \<in> set (t_interfaces d'). ifc_device f \<noteq> dev_id dev)
    \<and> (\<forall>c \<in> set (t_candidates d'). cand_site c = dev_site dev \<longrightarrow>
         cand_ip c \<noteq> dev_ip dev \<and> \<not> iexact (cand_hostname c) (dev_name dev))"
proof -
  have "occupancy_exact d'" unfolding assms(6) by (rule delete_device_exact [OF assms(1-3)])
  moreover have "find_device d' (dev_id dev) = None"
    by (simp add: assms(6) find_device_def first_row_None delete_tables)
  moreover have "\<forall>c \<in> set (t_candidates d'). cand_site c = dev_site dev \<longrightarrow>
      cand_ip c \<noteq> dev_ip dev \<and> \<not> iexact (cand_hostname c) (dev_name dev)"
    using assms(4,5) by (auto simp: assms(6) delete_device_def Let_def)
  ultimately show ?thesis
    using cascade_interfaces by (auto simp: assms(6) delete_tables)
qed

text \<open>
  The validation of a device compares positions, not units: once area, rack and device type
  are in order, it accepts every position that no other device of the rack has as its lowest
  unit, also one in the middle of a device of several units or of a stack.
\<close>

theorem clean_compares_positions_only:
  assumes "find_area d (dev_area dev) = Some a" and "area_site a = dev_site dev"
    and "dev_rack dev = Some i" and "find_rack d i = Some r" and "rack_area r = dev_area dev"
    and "\<forall>t. fk (find_type d) (dev_type dev) = Some t \<longrightarrow> dt_platform t \<noteq> []"
    and "\<forall>v \<in> set (t_devices d). dev_rack v = Some i \<and> dev_id v \<noteq> dev_id dev \<longrightarrow> dev_position v \<noteq> dev_position dev"
  shows "device_clean d dev = Inr (dev\<lparr>dev_serial := normalize_serial (dev_serial dev)\<rparr>)"
proof -
  have "\<not> position_taken d (dev\<lparr>dev_serial := s\<rparr>)" for s
    using assms(3,7) by (auto simp: position_taken_def)
  with assms show ?thesis by (auto simp: device_clean_def Let_def split: option.splits)
qed

section \<open>Witnesses\<close>

definition demo_switch :: "uid \<Rightarrow> string \<Rightarrow> string \<Rightarrow> int \<Rightarrow> device" where
  "demo_switch i name ip pos = (new_device i name ip 1 1)\<lparr>dev_rack := Some 1, dev_position := Some pos, dev_type := Some 1\<rparr>"

text \<open>A rack with a switch of two units at unit 10, and an empty rack.\<close>

definition demo_room :: db where
  "demo_room = empty_db\<lparr>t_sites := [\<lparr>site_id = 1, site_name = ''BN'', site_domain = ''example.de''\<rparr>],
     t_areas := [\<lparr>area_id = 1, area_name = ''K3'', area_parent = None, area_site = 1\<rparr>],
     t_racks := [\<lparr>rack_id = 1, rack_name = ''R1'', rack_area = 1, rack_height = 42, rack_occupied = [10, 11]\<rparr>,
       \<lparr>rack_id = 2, rack_name = ''R2'', rack_area = 1, rack_height = 42, rack_occupied = []\<rparr>],
     t_types := [\<lparr>dt_id = 1, dt_model = ''C9407'', dt_platform = ''iosxe'', dt_vendor = 1, dt_height = 20\<rparr>],
     t_devices := [demo_switch 1 ''sw1'' ''10.0.0.1'' 100],
     t_modules := [new_module 1 1 ''slot 1''],
     t_candidates := [\<lparr>cand_id = 1, cand_site = 1, cand_ip = ''10.0.0.1'', cand_hostname = ''SW1'',
       cand_alive = True, cand_ssh = True, cand_ping = False, cand_last_seen = 0, cand_classified = True,
       cand_accepted = Some True\<rparr>]\<rparr>"

lemma demo_room_exact: "occupancy_exact demo_room" "distinct (map dev_id (t_devices demo_room))"
  by code_simp+

theorem save_device_occupancy_witness:
  "\<exists>d'. save_device demo_room ((demo_switch 1 ''sw1'' ''10.0.0.1'' 200)\<lparr>dev_rack := Some 2\<rparr>) = Inr d' \<and> occupancy_exact d'"
proof -
  have "is_ok (save_device demo_room ((demo_switch 1 ''sw1'' ''10.0.0.1'' 200)\<lparr>dev_rack := Some 2\<rparr>))"
    by code_simp
  then obtain d' where "save_device demo_room ((demo_switch 1 ''sw1'' ''10.0.0.1'' 200)\<lparr>dev_rack := Some 2\<rparr>) = Inr d'"
    by (cases "save_device demo_room ((demo_switch 1 ''sw1'' ''10.0.0.1'' 200)\<lparr>dev_rack := Some 2\<rparr>)") auto
  with save_device_occupancy [OF demo_room_exact this] show ?thesis by blast
qed

theorem delete_device_clean_witness:
  "find_device (delete_device demo_room (demo_switch 1 ''sw1'' ''10.0.0.1'' 100)) 1 = None"
  using delete_device_clean [OF demo_room_exact(1) _ demo_room_exact(2), of "demo_switch 1 ''sw1'' ''10.0.0.1'' 100"]
  by (simp add: demo_switch_def new_device_def) code_simp

theorem clean_compares_positions_only_witness:
  "is_ok (device_clean demo_room (demo_switch 2 ''sw2'' ''10.0.0.2'' 110)) \<and>
   11 \<in> set (device_units demo_room (demo_switch 1 ''sw1'' ''10.0.0.1'' 100)) \<and>
   11 \<in> set (device_units demo_room (demo_switch 2 ''sw2'' ''10.0.0.2'' 110))"
proof (intro conjI)
  have "device_clean demo_room (demo_switch 2 ''sw2'' ''10.0.0.2'' 110) =
      Inr ((demo_switch 2 ''sw2'' ''10.0.0.2'' 110)\<lparr>dev_serial := normalize_serial (dev_serial (demo_switch 2 ''sw2'' ''10.0.0.2'' 110))\<rparr>)"
    by (rule clean_compares_positions_only
        [where a = "\<lparr>area_id = 1, area_name = ''K3'', area_parent = None, area_site = 1\<rparr>" and i = 1
          and r = "\<lparr>rack_id = 1, rack_name = ''R1'', rack_area = 1, rack_height = 42, rack_occupied = [10, 11]\<rparr>"])
      (simp_all add: demo_room_def demo_switch_def new_device_def find_area_def find_rack_def find_type_def)
  then show "is_ok (device_clean demo_room (demo_switch 2 ''sw2'' ''10.0.0.2'' 110))" by simp
qed code_simp+

end
