(* ===== verification/Hostnames.thy ===== *)
theory Hostnames
  imports PyIp
begin

text \<open>
  Host names of discovered devices: their normal form within a site
  (\<^verbatim>\<open>dcim/services/hostname_utils.py\<close>) and the filters that select them
  (\<^verbatim>\<open>network/services/discovery_filtering.py\<close>).
\<close>

section \<open>Normalisation\<close>

definition clean_name :: "string \<Rightarrow> string" where
  "clean_name s = rstrip_char (CHR ''.'') (lower (strip s))"

definition is_ip_text :: "string \<Rightarrow> bool" where
  "is_ip_text s = is_ok (ip_address s)"

text \<open>
  The part of \<^verbatim>\<open>normalize_hostname\<close> after the clean-up, for a site with a
  non-empty clean domain: a name in the domain stays, a name of the parent domain with one label
  moves into the site's domain, a name without a dot gets the domain appended.
\<close>

definition attach_domain :: "string \<Rightarrow> string \<Rightarrow> string" where
  "attach_domain domain v =
     (if endswith v domain then v
      else
        let base = (case cut ''.'' domain of None \<Rightarrow> [] | Some (_, b) \<Rightarrow> b)
        in if base \<noteq> [] \<and> length (split_on ''.'' v) = length (split_on ''.'' base) + 1 \<and> endswith v base
           then take (length v - (length base + 1)) v @ ''.'' @ domain
           else if \<not> contains v ''.'' then v @ ''.'' @ domain
           else v)"

text \<open>
  Addresses and texts with a colon, a slash or a blank stay as they are, anything else is placed
  in the domain of the site, if there is one.
\<close>

definition place_name :: "string option \<Rightarrow> string \<Rightarrow> string" where
  "place_name sd v =
     (if is_ip_text v then v
      else if contains_any v ['':'', ''/'', '' ''] then v
      else let domain = clean_name (or_empty sd)
        in if domain \<noteq> [] then attach_domain domain v else v)"

text \<open>
  \<^verbatim>\<open>normalize_hostname\<close>; \<open>sd\<close> is the domain field of the site,
  \<open>None\<close> without a site.
\<close>

definition normalize_hostname :: "string option \<Rightarrow> string option \<Rightarrow> string" where
  "normalize_hostname h sd =
     (let value = clean_name (or_empty h)
      in if value = [] then []
         else if contains value '',''
         then (case map clean_name (filter (\<lambda>p. strip p \<noteq> []) (split_on '','' value)) of
                 [] \<Rightarrow> []
               | p # _ \<Rightarrow> place_name sd p)
         else place_name sd value)"

section \<open>Filters\<close>

record host_filter =
  hf_id :: nat
  hf_site :: nat
  hf_contains :: string
  hf_not_contains :: string
  hf_enabled :: bool

definition split_terms :: "string \<Rightarrow> string list" where
  "split_terms v = map (\<lambda>t. lower (strip t)) (filter (\<lambda>t. strip t \<noteq> []) (split_on '','' v))"

definition matches_filter :: "string option \<Rightarrow> host_filter \<Rightarrow> bool" where
  "matches_filter h flt =
     (let host = lower (or_empty h)
      in if hf_not_contains flt \<noteq> [] \<and> (\<exists>t \<in> set (split_terms (hf_not_contains flt)). contains host t)
         then False
         else if hf_contains flt \<noteq> []
         then \<exists>t \<in> set (split_terms (hf_contains flt)). contains host t
         else True)"

definition passes_filters :: "string option \<Rightarrow> host_filter list \<Rightarrow> bool" where
  "passes_filters h fs =
     (if fs = [] then True
      else if strip (or_empty h) = [] then False
      else \<exists>f \<in> set fs. matches_filter h f)"

text \<open>\<^verbatim>\<open>DiscoveryFilter.__str__\<close>\<close>

definition filter_str :: "string \<Rightarrow> host_filter \<Rightarrow> string" where
  "filter_str site f =
     (let parts = (if hf_contains f \<noteq> [] then [''+['' @ hf_contains f @ '']''] else []) @
        (if hf_not_contains f \<noteq> [] then [''-['' @ hf_not_contains f @ '']''] else [])
      in site @ '': '' @ (if parts \<noteq> [] then join '' '' parts else ''no-op''))"

section \<open>Normal forms\<close>

lemma rstrip_char_id: "s = [] \<or> last s \<noteq> c \<Longrightarrow> rstrip_char c s = s"
proof (cases s rule: rev_cases)
  case (snoc t d)
  assume "s = [] \<or> last s \<noteq> c"
  with snoc show ?thesis by (simp add: rstrip_char_def)
qed (simp add: rstrip_char_def)

text \<open>A clean text: lower case, no white space around it and no dot at its end.\<close>

definition clean :: "string \<Rightarrow> bool" where
  "clean s \<longleftrightarrow> lower s = s \<and> trimmed s \<and> (s = [] \<or> last s \<noteq> CHR ''.'')"

lemma clean_name_clean: "clean s \<Longrightarrow> clean_name s = s"
  by (simp add: clean_def clean_name_def strip_trimmed rstrip_char_id)

text \<open>What normalisation needs of its result to leave it alone.\<close>

lemma normalize_stable:
  assumes "clean v" and "\<not> contains v '',''"
    and "is_ip_text v \<or> contains_any v ['':'', ''/'', '' ''] \<or> clean_name (or_empty sd) = []
      \<or> attach_domain (clean_name (or_empty sd)) v = v"
  shows "normalize_hostname (Some v) sd = v"
  using assms by (auto simp: normalize_hostname_def place_name_def clean_name_clean Let_def)

lemma attach_cases:
  "attach_domain d v = v \<or> (\<exists>h. attach_domain d v = h @ ''.'' @ d)"
  by (auto simp: attach_domain_def Let_def)

lemma attach_endswith: "endswith v d \<Longrightarrow> attach_domain d v = v"
  by (simp add: attach_domain_def)

lemma attach_idem: "attach_domain d (attach_domain d v) = attach_domain d v"
proof -
  consider "attach_domain d v = v" | h where "attach_domain d v = h @ ''.'' @ d"
    using attach_cases by blast
  then show ?thesis
  proof cases
    case 2
    have "endswith (h @ ''.'' @ d) d" by (simp add: endswith_suffix suffix_def)
    then show ?thesis by (simp only: 2 attach_endswith)
  qed simp
qed

lemma place_forms:
  "is_ip_text (place_name sd v) \<or> contains_any (place_name sd v) ['':'', ''/'', '' '']
     \<or> clean_name (or_empty sd) = [] \<or> (\<exists>u. place_name sd v = attach_domain (clean_name (or_empty sd)) u)"
  by (auto simp: place_name_def Let_def)

lemma normalize_forms:
  "normalize_hostname h sd = [] \<or> is_ip_text (normalize_hostname h sd)
     \<or> contains_any (normalize_hostname h sd) ['':'', ''/'', '' ''] \<or> clean_name (or_empty sd) = []
     \<or> (\<exists>u. normalize_hostname h sd = attach_domain (clean_name (or_empty sd)) u)"
proof -
  have "normalize_hostname h sd = [] \<or> (\<exists>v. normalize_hostname h sd = place_name sd v)"
    by (auto simp: normalize_hostname_def Let_def split: list.splits)
  with place_forms show ?thesis by metis
qed

text \<open>
  Normalising a host name is idempotent: once the result is a clean single name (no outer
  white space, no comma), normalising it again for the same site changes nothing.
\<close>

theorem normalize_hostname_idempotent:
  assumes "clean (normalize_hostname h sd)" and "\<not> contains (normalize_hostname h sd) '',''"
  shows "normalize_hostname (Some (normalize_hostname h sd)) sd = normalize_hostname h sd"
proof -
  let ?d = "clean_name (or_empty sd)" and ?r = "normalize_hostname h sd"
  consider "?r = []" | "is_ip_text ?r \<or> contains_any ?r ['':'', ''/'', '' ''] \<or> ?d = []"
    | v where "?r = attach_domain ?d v"
    using normalize_forms [of h sd] by blast
  then show ?thesis
  proof cases
    case 1
    then show ?thesis by (simp add: normalize_hostname_def clean_name_def rstrip_char_def)
  next
    case 2
    then show ?thesis by (intro normalize_stable [OF assms]) blast
  next
    case 3
    then have "attach_domain ?d ?r = ?r" by (simp add: attach_idem)
    then show ?thesis by (intro normalize_stable [OF assms]) blast
  qed
qed

theorem normalize_hostname_idempotent_witness:
  "normalize_hostname (Some ''sw1.corp.example.de'') (Some ''bn.example.de'') = ''sw1.corp.example.de''
   \<and> normalize_hostname (Some (normalize_hostname (Some '' SW1.example.de. '') (Some ''bn.example.de''))) (Some ''bn.example.de'')
     = normalize_hostname (Some '' SW1.example.de. '') (Some ''bn.example.de'')"
proof
  show "normalize_hostname (Some ''sw1.corp.example.de'') (Some ''bn.example.de'') = ''sw1.corp.example.de''"
    by code_simp
  have r: "normalize_hostname (Some '' SW1.example.de. '') (Some ''bn.example.de'') = ''sw1.bn.example.de''"
    by code_simp
  show "normalize_hostname (Some (normalize_hostname (Some '' SW1.example.de. '') (Some ''bn.example.de''))) (Some ''bn.example.de'')
     = normalize_hostname (Some '' SW1.example.de. '') (Some ''bn.example.de'')"
    by (rule normalize_hostname_idempotent; unfold r; code_simp)
qed

text \<open>
  A filter asks for one of its positive terms, not for all of them: once no forbidden term
  occurs, a host name that contains a single positive term passes, whatever the other terms are.
\<close>

theorem filter_accepts_any_term:
  assumes "t \<in> set (split_terms (hf_contains f))" and "contains (lower h) t"
    and "\<forall>u \<in> set (split_terms (hf_not_contains f)). \<not> contains (lower h) u"
    and "strip h \<noteq> []" and "f \<in> set fs"
  shows "passes_filters (Some h) fs"
proof -
  have "matches_filter (Some h) f" using assms(1-3) by (auto simp: matches_filter_def Let_def)
  with assms(4,5) show ?thesis by (auto simp: passes_filters_def)
qed

definition demo_filter :: host_filter where
  "demo_filter = \<lparr>hf_id = 1, hf_site = 1, hf_contains = ''core, leaf'', hf_not_contains = ''lab'', hf_enabled = True\<rparr>"

theorem filter_accepts_any_term_witness: "passes_filters (Some ''BN-LEAF-1'') [demo_filter]"
  by (rule filter_accepts_any_term [where t = "''leaf''" and f = demo_filter]; code_simp)

end
