(* ===== verification/JobLife.thy ===== *)
theory JobLife
  imports PyVal
begin

text \<open>
  The life of a background job: a worker saves the row of its job several times, and each save
  shows a status. The locale \<open>job_worker\<close> is the contract of such a worker: the statuses it
  saves follow the allowed transitions from the status it found, and the last one is final.
\<close>

definition final_status :: "string \<Rightarrow> bool" where
  "final_status s \<longleftrightarrow> s \<in> {''completed'', ''failed''}"

text \<open>A save may keep the status, start a job that has not ended, or end a job once.\<close>

definition status_step :: "string \<Rightarrow> string \<Rightarrow> bool" where
  "status_step s t \<longleftrightarrow> \<not> final_status s \<and> (t = ''running'' \<or> final_status t)"

fun status_path :: "string \<Rightarrow> string list \<Rightarrow> bool" where
  "status_path s [] = True"
| "status_path s (t # ts) = (status_step s t \<and> status_path t ts)"

lemma status_path_append:
  "status_path s (xs @ ys) \<longleftrightarrow> status_path s xs \<and> status_path (last (s # xs)) ys"
  by (induction xs arbitrary: s) auto

lemma status_path_running: "\<forall>t \<in> set ts. t = ''running'' \<Longrightarrow> status_path ''running'' ts"
  by (induction ts) (auto simp: status_step_def final_status_def)

text \<open>The statuses that the run of a worker saves; \<open>None\<close> is a run that never returns.\<close>

locale job_worker =
  fixes before :: "'i \<Rightarrow> string"
    and saves :: "'i \<Rightarrow> string list option"
  assumes path: "\<not> final_status (before i) \<Longrightarrow> saves i = Some ts \<Longrightarrow> status_path (before i) ts"
    and ended: "\<not> final_status (before i) \<Longrightarrow> saves i = Some ts \<Longrightarrow> ts \<noteq> [] \<and> final_status (last ts)"
begin

text \<open>A job whose run returns has ended exactly once, with its last save.\<close>

lemma ends_once:
  assumes "\<not> final_status (before i)" and "saves i = Some ts"
  shows "filter final_status ts = [last ts]"
proof -
  have "filter final_status ts = [last ts]" if "status_path s ts" "ts \<noteq> []" "final_status (last ts)" for s ts
    using that
  proof (induction ts arbitrary: s)
    case (Cons t ts)
    show ?case
    proof (cases ts)
      case Nil
      with Cons.prems show ?thesis by simp
    next
      case (Cons u us)
      with Cons.prems have "\<not> final_status t" by (simp add: status_step_def)
      with Cons.IH [of t] Cons.prems Cons show ?thesis by simp
    qed
  qed simp
  with path ended assms show ?thesis by blast
qed

end

end
