(* ===== verification/Discovery.thy ===== *)
theory Discovery
  imports Hostnames Devices JobLife "HOL-Library.Multiset"
begin

text \<open>
  Discovery: the scanner (\<^verbatim>\<open>network/services/discovery_scanner.py\<close>), the discovery
  service (\<^verbatim>\<open>discover_network.py\<close>) with its ranges, filters and candidates
  (\<^verbatim>\<open>network/models/discovery.py\<close>), and the scan job of
  \<^verbatim>\<open>network/tasks.py\<close>. The network is a parameter: how a probe of an address ends,
  the reverse lookup of an address and the order in which the threads of a scan finish.
\<close>

section \<open>The scanner\<close>

record scan_result =
  sr_ip :: string
  sr_alive :: bool
  sr_hostname :: "string option"
  sr_method :: string
  sr_port :: "int option"

text \<open>
  The end of a subprocess and of a connection attempt: any other exception kills the worker of
  the address, and the pool drops it, so that the address has no result.
\<close>

datatype ping_end = Exit int | TimeoutExpired | PingError
datatype tcp_end = Connected | OsError | TcpError

record net_env =
  ne_ping :: "string \<Rightarrow> ping_end"
  ne_tcp :: "string \<Rightarrow> int \<Rightarrow> tcp_end"
  ne_nameinfo :: "string \<Rightarrow> string option"
  ne_order :: "scan_result list \<Rightarrow> scan_result list"
  ne_uuid :: "uid \<Rightarrow> string \<Rightarrow> uid"
  ne_now :: moment

definition ping :: "net_env \<Rightarrow> string \<Rightarrow> bool option" where
  "ping env ip = (case ne_ping env ip of Exit c \<Rightarrow> Some (c = 0) | TimeoutExpired \<Rightarrow> Some False | PingError \<Rightarrow> None)"

definition tcp_check :: "net_env \<Rightarrow> string \<Rightarrow> int \<Rightarrow> bool option" where
  "tcp_check env ip port = (case ne_tcp env ip port of Connected \<Rightarrow> Some True | OsError \<Rightarrow> Some False | TcpError \<Rightarrow> None)"

definition resolve_dns :: "net_env \<Rightarrow> string \<Rightarrow> string option" where
  "resolve_dns env ip = map_option lower (ne_nameinfo env ip)"

definition icmp_worker :: "net_env \<Rightarrow> string \<Rightarrow> scan_result option" where
  "icmp_worker env ip = map_option (\<lambda>alive. \<lparr>sr_ip = ip, sr_alive = alive,
     sr_hostname = (if alive then resolve_dns env ip else None), sr_method = ''icmp'', sr_port = None\<rparr>) (ping env ip)"

definition tcp_worker :: "net_env \<Rightarrow> int \<Rightarrow> string \<Rightarrow> scan_result option" where
  "tcp_worker env port ip = map_option (\<lambda>alive. \<lparr>sr_ip = ip, sr_alive = alive,
     sr_hostname = (if alive then resolve_dns env ip else None), sr_method = ''tcp'', sr_port = Some port\<rparr>)
     (tcp_check env ip port)"

definition scan_icmp :: "net_env \<Rightarrow> string list \<Rightarrow> scan_result list" where
  "scan_icmp env ips = ne_order env (List.map_filter (icmp_worker env) ips)"

definition scan_tcp :: "net_env \<Rightarrow> string list \<Rightarrow> int \<Rightarrow> scan_result list" where
  "scan_tcp env ips port = ne_order env (List.map_filter (tcp_worker env port) ips)"

text \<open>The order in which threads finish is some order: nothing is lost and nothing doubled.\<close>

definition fair_env :: "net_env \<Rightarrow> bool" where
  "fair_env env \<longleftrightarrow> (\<forall>rs. mset (ne_order env rs) = mset rs)"

section \<open>Ranges and candidates\<close>

record disc_range =
  dr_id :: uid
  dr_site :: uid
  dr_cidr :: string
  dr_enabled :: bool
  dr_method :: string
  dr_port :: int

text \<open>What a scan needs of a range, stored or built for one run.\<close>

record scan_range =
  sc_cidr :: string
  sc_method :: string
  sc_port :: int

definition get_ranges :: "disc_range list \<Rightarrow> uid \<Rightarrow> string option \<Rightarrow> scan_range list" where
  "get_ranges rs site override =
     (if text_true override
      then [\<lparr>sc_cidr = or_empty override, sc_method = ''tcp'', sc_port = 22\<rparr>]
      else map (\<lambda>r. \<lparr>sc_cidr = dr_cidr r, sc_method = dr_method r, sc_port = dr_port r\<rparr>)
        (filter (\<lambda>r. dr_site r = site \<and> dr_enabled r) rs))"

text \<open>
  The write of one sighting: identifier of a new row, host name, ping, ssh and moment, by the
  unique key of site and address.
\<close>

type_synonym sighting = "uid \<times> string \<times> bool \<times> bool \<times> moment"

definition cand_key :: "candidate \<Rightarrow> uid \<times> string" where
  "cand_key c = (cand_site c, cand_ip c)"

fun make_candidate :: "uid \<times> string \<Rightarrow> sighting \<Rightarrow> candidate" where
  "make_candidate (s, ip) (i, host, pg, sh, now) =
     \<lparr>cand_id = i, cand_site = s, cand_ip = ip, cand_hostname = host, cand_alive = True,
      cand_ssh = sh, cand_ping = pg, cand_last_seen = now, cand_classified = False, cand_accepted = None\<rparr>"

fun change_candidate :: "sighting \<Rightarrow> candidate \<Rightarrow> candidate" where
  "change_candidate (i, host, pg, sh, now) c =
     c\<lparr>cand_hostname := host, cand_alive := True, cand_ping := pg, cand_ssh := sh, cand_last_seen := now\<rparr>"

definition put_candidate :: "uid \<times> string \<Rightarrow> sighting \<Rightarrow> candidate list \<Rightarrow> candidate list" where
  "put_candidate k s cs = upsert (\<lambda>c. cand_key c = k) (make_candidate k s) (change_candidate s) cs"

interpretation cands: keyed_table cand_key make_candidate change_candidate put_candidate
proof
  show "cand_key (make_candidate k s) = k" for k s by (cases k; cases s) (simp add: cand_key_def)
  show "cand_key (change_candidate s c) = cand_key c" for s c by (cases s) (simp add: cand_key_def)
  show "put_candidate k s cs = upsert (\<lambda>c. cand_key c = k) (make_candidate k s) (change_candidate s) cs" for k s cs
    by (simp add: put_candidate_def)
qed

text \<open>\<^verbatim>\<open>_scan_range\<close>: which results count, what each writes, and the count.\<close>

definition normal_name :: "site \<Rightarrow> scan_result \<Rightarrow> string" where
  "normal_name s r = normalize_hostname (Some (or_empty (sr_hostname r))) (Some (site_domain s))"

definition kept :: "site \<Rightarrow> host_filter list \<Rightarrow> scan_result \<Rightarrow> bool" where
  "kept s fs r \<longleftrightarrow> sr_alive r \<and>
     (passes_filters (Some (or_empty (sr_hostname r))) fs \<or> passes_filters (Some (normal_name s r)) fs)"

definition sighting_of :: "net_env \<Rightarrow> site \<Rightarrow> scan_result \<Rightarrow> (uid \<times> string) \<times> sighting" where
  "sighting_of env s r = ((site_id s, sr_ip r),
     (ne_uuid env (site_id s) (sr_ip r), normal_name s r, sr_method r = ''icmp'', sr_method r = ''tcp'', ne_now env))"

fun store_results :: "net_env \<Rightarrow> site \<Rightarrow> host_filter list \<Rightarrow> scan_result list \<Rightarrow> int \<times> candidate list \<Rightarrow> int \<times> candidate list"
where
  "store_results env s fs [] (n, cs) = (n, cs)"
| "store_results env s fs (r # rs) (n, cs) =
     (if kept s fs r
      then (let (k, v) = sighting_of env s r in store_results env s fs rs (n + 1, put_candidate k v cs))
      else store_results env s fs rs (n, cs))"

definition scan_one :: "net_env \<Rightarrow> site \<Rightarrow> host_filter list \<Rightarrow> scan_range \<Rightarrow> db \<Rightarrow> int \<times> db" where
  "scan_one env s fs dr d =
     (case ip_network False (sc_cidr dr) of
        Inl _ \<Rightarrow> (0, d)
      | Inr net \<Rightarrow>
          let ips = map ip_str (hosts net);
              results = (if sc_method dr = ''icmp'' then scan_icmp env ips else scan_tcp env ips (sc_port dr));
              (alive, cs) = store_results env s fs results (0, t_candidates d)
          in (alive, d\<lparr>t_candidates := cs\<rparr>))"

section \<open>Classification\<close>

definition device_by_ip :: "db \<Rightarrow> candidate \<Rightarrow> device option" where
  "device_by_ip d c = first_row (\<lambda>v. dev_site v = cand_site c \<and> dev_ip v = cand_ip c) (t_devices d)"

definition device_by_name :: "db \<Rightarrow> candidate \<Rightarrow> device option" where
  "device_by_name d c =
     first_row (\<lambda>v. dev_site v = cand_site c \<and> iexact (dev_name v) (lower (cand_hostname c))) (t_devices d)"

text \<open>\<^verbatim>\<open>get_or_create\<close> of the runtime status, and the change of its fields.\<close>

definition touch_runtime :: "uid \<Rightarrow> (runtime \<Rightarrow> runtime) \<Rightarrow> db \<Rightarrow> db" where
  "touch_runtime i f d = d\<lparr>t_runtimes := upsert (\<lambda>r. rt_device r = i) (f (new_runtime i)) f (t_runtimes d)\<rparr>"

definition saw_device :: "candidate \<Rightarrow> runtime \<Rightarrow> runtime" where
  "saw_device c r = r\<lparr>rt_ping := rt_ping r \<or> cand_ping c, rt_ssh := rt_ssh r \<or> cand_ssh c,
     rt_last_check := Some (cand_last_seen c)\<rparr>"

definition mark_candidate :: "uid \<Rightarrow> bool \<Rightarrow> bool option \<Rightarrow> db \<Rightarrow> db" where
  "mark_candidate i cl acc d = d\<lparr>t_candidates := update_where (\<lambda>c. cand_id c = i)
     (\<lambda>c. c\<lparr>cand_classified := cl, cand_accepted := acc\<rparr>) (t_candidates d)\<rparr>"

fun classify_loop :: "candidate list \<Rightarrow> (int \<times> int \<times> int) \<times> db \<Rightarrow> (int \<times> int \<times> int) \<times> db" where
  "classify_loop [] st = st"
| "classify_loop (c # cs) ((ex, mis, new), d) =
     (case (device_by_ip d c, device_by_name d c) of
        (None, None) \<Rightarrow> classify_loop cs ((ex, mis, new + 1), mark_candidate (cand_id c) False None d)
      | (Some a, Some b) \<Rightarrow>
          if dev_id a = dev_id b
          then classify_loop cs ((ex + 1, mis, new),
            mark_candidate (cand_id c) True (Some True) (touch_runtime (dev_id a) (saw_device c) d))
          else classify_loop cs ((ex, mis + 1, new), mark_candidate (cand_id c) True (Some False) d)
      | _ \<Rightarrow> classify_loop cs ((ex, mis + 1, new), mark_candidate (cand_id c) True (Some False) d))"

definition classify :: "candidate list \<Rightarrow> db \<Rightarrow> (int \<times> int \<times> int) \<times> db" where
  "classify cs d = classify_loop cs ((0, 0, 0), d)"

definition updated_candidates :: "db \<Rightarrow> uid \<Rightarrow> moment \<Rightarrow> candidate list" where
  "updated_candidates d s now =
     filter (\<lambda>c. cand_site c = s \<and> \<not> cand_classified c \<and> cand_last_seen c = now) (t_candidates d)"

definition open_candidates :: "db \<Rightarrow> uid \<Rightarrow> candidate list" where
  "open_candidates d s = filter (\<lambda>c. cand_site c = s \<and> \<not> cand_classified c) (t_candidates d)"

section \<open>A run of the service\<close>

record scan_counts =
  n_ranges :: int
  n_alive :: int
  n_exact :: int
  n_mismatch :: int
  n_new :: int

definition enabled_filters :: "host_filter list \<Rightarrow> uid \<Rightarrow> host_filter list" where
  "enabled_filters fs s = filter (\<lambda>f. hf_site f = s \<and> hf_enabled f) fs"

fun scan_all :: "net_env \<Rightarrow> site \<Rightarrow> host_filter list \<Rightarrow> scan_range list \<Rightarrow> int \<times> db \<Rightarrow> int \<times> db" where
  "scan_all env s fs [] st = st"
| "scan_all env s fs (r # rs) (n, d) =
     (let (k, d') = scan_one env s fs r d in scan_all env s fs rs (n + k, d'))"

definition run_for_ranges :: "net_env \<Rightarrow> site \<Rightarrow> host_filter list \<Rightarrow> scan_range list \<Rightarrow> db \<Rightarrow> scan_counts \<times> db" where
  "run_for_ranges env s flts ranges d =
     (let (alive, d) = scan_all env s (enabled_filters flts (site_id s)) ranges (0, d);
          ((ex, mis, new), d) = classify (updated_candidates d (site_id s) (ne_now env)) d
      in (\<lparr>n_ranges = int (length ranges), n_alive = alive, n_exact = ex, n_mismatch = mis, n_new = new\<rparr>, d))"

definition run_discovery ::
  "net_env \<Rightarrow> site \<Rightarrow> host_filter list \<Rightarrow> disc_range list \<Rightarrow> string option \<Rightarrow> db \<Rightarrow> scan_counts \<times> db"
where
  "run_discovery env s flts stored override d =
     run_for_ranges env s flts (get_ranges stored (site_id s) override) d"

section \<open>The scan job\<close>

record scan_job =
  sj_site :: "uid option"
  sj_kind :: string
  sj_method :: string
  sj_port :: int
  sj_params :: entry
  sj_total :: int
  sj_processed :: int
  sj_alive :: int
  sj_exact :: int
  sj_mismatch :: int
  sj_new :: int
  sj_status :: string
  sj_error :: string
  sj_started :: "moment option"
  sj_completed :: "moment option"

text \<open>\<^verbatim>\<open>(params.get(k) or "").strip()\<close>\<close>

definition param_text :: "entry \<Rightarrow> string \<Rightarrow> exn + string" where
  "param_text ps k = str_method ''strip'' strip (py_or (get ps k) (PyStr []))"

definition job_ranges :: "disc_range list \<Rightarrow> uid \<Rightarrow> scan_job \<Rightarrow> exn + scan_range list" where
  "job_ranges stored site j =
     (if sj_kind j = ''all'' then Inr (get_ranges stored site None)
      else
        let meth = (if sj_method j = [] then ''tcp'' else sj_method j);
            port = (if sj_port j = 0 then 22 else sj_port j);
            mk = (\<lambda>cidr. \<lparr>sc_cidr = cidr, sc_method = meth, sc_port = port\<rparr>)
        in if sj_kind j = ''single''
           then bind_res (param_text (sj_params j) ''single_ip'') (\<lambda>t. bind_res (ip_address t) (\<lambda>a.
             Inr [mk (ip_str a @ ''/'' @ (if ip_ver a = IPv4 then ''32'' else ''128''))]))
           else if sj_kind j = ''cidr''
           then bind_res (param_text (sj_params j) ''cidr'') (\<lambda>t. bind_res (ip_network False t) (\<lambda>n. Inr [mk (net_str n)]))
           else if sj_kind j = ''range''
           then bind_res (param_text (sj_params j) ''start_ip'') (\<lambda>t. bind_res (ip_address t) (\<lambda>a.
             bind_res (param_text (sj_params j) ''end_ip'') (\<lambda>u. bind_res (ip_address u) (\<lambda>b.
             if ip_ver a \<noteq> ip_ver b then Inl (ValueError ''Start and end IP versions must match.'')
             else if ip_int a > ip_int b then Inl (ValueError ''Start IP must be before end IP.'')
             else Inr (map (\<lambda>n. mk (net_str n)) (summarize (ip_ver a) (ip_int a) (ip_int b)))))))
           else Inl (ValueError ''Unsupported scan type.''))"

text \<open>The loop over the ranges: the job is saved after each of them.\<close>

fun job_scan ::
  "net_env \<Rightarrow> site \<Rightarrow> host_filter list \<Rightarrow> scan_range list \<Rightarrow> scan_job \<Rightarrow> db \<Rightarrow> scan_job list \<times> scan_job \<times> db"
where
  "job_scan env s fs [] j d = ([], j, d)"
| "job_scan env s fs (r # rs) j d =
     (let (k, d) = scan_one env s fs r d;
          j = j\<lparr>sj_processed := sj_processed j + 1, sj_alive := sj_alive j + k\<rparr>;
          (saves, j', d) = job_scan env s fs rs j d
      in (j # saves, j', d))"

text \<open>
  \<^verbatim>\<open>run_discovery_scan_job\<close>: every saved state of the job, and the database. The
  clock reads \<open>t0\<close> when the job starts and \<open>t1\<close> when it ends.
\<close>

definition run_scan_job ::
  "net_env \<Rightarrow> moment \<Rightarrow> moment \<Rightarrow> host_filter list \<Rightarrow> disc_range list \<Rightarrow> scan_job \<Rightarrow> db \<Rightarrow> scan_job list \<times> db"
where
  "run_scan_job env t0 t1 flts stored j d =
     (case fk (find_site d) (sj_site j) of
        None \<Rightarrow> ([j\<lparr>sj_status := ''failed'', sj_error := ''Job has no site assigned.'', sj_completed := Some t1\<rparr>], d)
      | Some s \<Rightarrow>
         (let j0 = j\<lparr>sj_status := ''running'', sj_started := Some t0\<rparr>
          in case job_ranges stored (site_id s) j0 of
               Inl e \<Rightarrow> ([j0, j0\<lparr>sj_status := ''failed'', sj_error := exn_str e, sj_completed := Some t1\<rparr>], d)
             | Inr ranges \<Rightarrow>
                 let j1 = j0\<lparr>sj_total := int (length ranges)\<rparr>;
                     (saves, j2, d) = job_scan env s (enabled_filters flts (site_id s)) ranges
                        (j1\<lparr>sj_processed := 0, sj_alive := 0\<rparr>) d;
                     j2 = (if ranges = [] then j1 else j2);
                     ((ex, mis, new), d) = classify (updated_candidates d (site_id s) (ne_now env)) d
                 in ([j0, j1] @ saves @ [j2\<lparr>sj_exact := ex, sj_mismatch := mis, sj_new := new,
                        sj_status := ''completed'', sj_completed := Some t1\<rparr>], d)))"

text \<open>\<^verbatim>\<open>run_scheduled_discovery_scan_job\<close>: one job for each site with an enabled range.\<close>

definition new_scan_job :: "uid \<Rightarrow> scan_job" where
  "new_scan_job s = \<lparr>sj_site = Some s, sj_kind = ''all'', sj_method = ''tcp'', sj_port = 22, sj_params = [],
     sj_total = 0, sj_processed = 0, sj_alive = 0, sj_exact = 0, sj_mismatch = 0, sj_new = 0,
     sj_status = ''pending'', sj_error = [], sj_started = None, sj_completed = None\<rparr>"

definition schedule_scans :: "disc_range list \<Rightarrow> scan_job list" where
  "schedule_scans stored = map new_scan_job (remdups (map dr_site (filter dr_enabled stored)))"

end
