(* ===== verification/DiscoveryProps.thy ===== *)
theory DiscoveryProps
  imports Discovery
begin

text \<open>
  What discovery guarantees: a scan writes exactly the sightings of the kept results, whatever the
  order in which the threads finish; classification gives every candidate the verdict of its
  specification and touches no device; a scan job always ends, once.
\<close>

section \<open>Storing the results of a scan\<close>

definition writes :: "net_env \<Rightarrow> site \<Rightarrow> host_filter list \<Rightarrow> scan_result list \<Rightarrow> ((uid \<times> string) \<times> sighting) list" where
  "writes env s fs rs = map (sighting_of env s) (filter (kept s fs) rs)"

lemma store_results_eq:
  "store_results env s fs rs (n, cs) =
     (n + int (length (writes env s fs rs)), put_all put_candidate (writes env s fs rs) cs)"
  by (induction rs arbitrary: n cs) (auto simp: writes_def split: prod.splits)

lemma fst_sighting [simp]: "fst (sighting_of env s r) = (site_id s, sr_ip r)"
  by (simp add: sighting_of_def)

lemma keys_writes: "map fst (writes env s fs rs) = map (\<lambda>r. (site_id s, sr_ip r)) (filter (kept s fs) rs)"
  by (simp add: writes_def comp_def)

lemma distinct_writes: "distinct (map sr_ip rs) \<Longrightarrow> distinct (map fst (writes env s fs rs))"
proof -
  assume "distinct (map sr_ip rs)"
  then have "distinct (map sr_ip (filter (kept s fs) rs))" by (rule distinct_filter_map)
  then have "distinct (map (\<lambda>ip. (site_id s, ip)) (map sr_ip (filter (kept s fs) rs)))"
    by (simp only: distinct_map) (auto intro: inj_onI)
  then show ?thesis by (simp add: keys_writes comp_def)
qed

text \<open>The results of a range, in the order of the addresses.\<close>

definition probe_results :: "net_env \<Rightarrow> scan_range \<Rightarrow> ip_net \<Rightarrow> scan_result list" where
  "probe_results env dr net = List.map_filter
     (if sc_method dr = ''icmp'' then icmp_worker env else tcp_worker env (sc_port dr)) (map ip_str (hosts net))"

lemma scan_one_eq:
  assumes "ip_network False (sc_cidr dr) = Inr net"
  shows "scan_one env s fs dr d =
    (int (length (writes env s fs (ne_order env (probe_results env dr net)))),
     d\<lparr>t_candidates := put_all put_candidate (writes env s fs (ne_order env (probe_results env dr net))) (t_candidates d)\<rparr>)"
  using assms
  by (simp add: scan_one_def probe_results_def scan_icmp_def scan_tcp_def store_results_eq Let_def)

lemma worker_ip:
  "icmp_worker env ip = Some r \<Longrightarrow> sr_ip r = ip" "tcp_worker env port ip = Some r \<Longrightarrow> sr_ip r = ip"
  by (auto simp: icmp_worker_def tcp_worker_def)

lemma map_filter_keys:
  assumes "\<And>x r. f x = Some r \<Longrightarrow> g r = x" and "distinct xs"
  shows "distinct (map g (List.map_filter f xs)) \<and> set (map g (List.map_filter f xs)) \<subseteq> set xs"
  using assms(2)
proof (induction xs)
  case (Cons x xs)
  then show ?case
    using assms(1) [of x] by (cases "f x") (auto simp: List.map_filter_simps)
qed (simp add: List.map_filter_simps)

lemma distinct_ipv4_texts:
  assumes "valid_net net" and "net_ver net = IPv4"
  shows "distinct (map ip_str (hosts net))"
proof -
  have "distinct (hosts net)" by (auto simp: hosts_def distinct_map intro: inj_onI)
  moreover have "inj_on ip_str (set (hosts net))"
  proof (rule inj_onI)
    fix a b assume ab: "a \<in> set (hosts net)" "b \<in> set (hosts net)" "ip_str a = ip_str b"
    have "valid_ip h \<and> ip_ver h = IPv4" if "h \<in> set (hosts net)" for h
    proof -
      have "is_host net h" using that set_hosts [of net] by simp
      with assms(2) have "in_net h net" by (auto simp: is_host_def host_range_def in_net_def split: if_splits)
      with assms show ?thesis using in_net_valid [OF assms(1)] by (simp add: in_net_def)
    qed
    with ab ip_address_ipv4_str show "a = b" by (metis sum.inject(2))
  qed
  ultimately show ?thesis by (simp add: distinct_map)
qed

lemma distinct_probes:
  assumes "valid_net net" and "net_ver net = IPv4"
  shows "distinct (map sr_ip (probe_results env dr net))"
  unfolding probe_results_def
  using map_filter_keys [OF _ distinct_ipv4_texts [OF assms], where f = "icmp_worker env" and g = sr_ip]
    map_filter_keys [OF _ distinct_ipv4_texts [OF assms], where f = "tcp_worker env (sc_port dr)" and g = sr_ip]
    worker_ip by auto

lemma perm_writes:
  assumes "mset rs = mset rs'"
  shows "mset (writes env s fs rs) = mset (writes env s fs rs')"
  using assms by (simp add: writes_def mset_filter)

text \<open>
  C8. A scan of an IPv4 range writes exactly what was seen: each kept result (alive, name past the
  filters) creates or updates the candidate of its site and address, every other candidate keeps
  its row, the count is the number of kept results, and addresses of a site stay unique. The order
  in which the threads finish does not matter.
\<close>

theorem scan_writes_sightings:
  assumes "fair_env env" and "ip_network False (sc_cidr dr) = Inr net" and "net_ver net = IPv4"
    and "scan_one env s fs dr d = (n, d')" and "distinct (map cand_key (t_candidates d))"
  shows "n = int (length (filter (kept s fs) (probe_results env dr net)))
    \<and> distinct (map cand_key (t_candidates d'))
    \<and> (\<forall>r \<in> set (probe_results env dr net). kept s fs r \<longrightarrow>
         row_at cand_key (t_candidates d') (site_id s, sr_ip r) =
         Some (case row_at cand_key (t_candidates d) (site_id s, sr_ip r) of
             None \<Rightarrow> make_candidate (site_id s, sr_ip r) (snd (sighting_of env s r))
           | Some c \<Rightarrow> change_candidate (snd (sighting_of env s r)) c))
    \<and> (\<forall>k. (\<forall>r \<in> set (probe_results env dr net). kept s fs r \<longrightarrow> k \<noteq> (site_id s, sr_ip r)) \<longrightarrow>
         row_at cand_key (t_candidates d') k = row_at cand_key (t_candidates d) k)"
proof -
  let ?rs = "probe_results env dr net" and ?os = "ne_order env (probe_results env dr net)"
  have perm: "mset ?os = mset ?rs" using assms(1) by (simp add: fair_env_def)
  then have set_eq: "set ?os = set ?rs" by (rule mset_eq_setD)
  have "mset (map sr_ip ?os) = mset (map sr_ip ?rs)" using perm by simp
  then have dist: "distinct (map sr_ip ?os)"
    using distinct_probes [OF ip_network_valid [OF assms(2)] assms(3)] mset_eq_imp_distinct_iff by blast
  have n: "n = int (length (writes env s fs ?os))"
    and d': "t_candidates d' = put_all put_candidate (writes env s fs ?os) (t_candidates d)"
    using assms(4) unfolding scan_one_eq [OF assms(2)] by auto
  have a: "length (writes env s fs ?os) = length (filter (kept s fs) ?rs)"
    using perm_writes [OF perm, of env s fs] by (metis mset_eq_length length_map writes_def)
  have b: "distinct (map cand_key (t_candidates d'))"
    unfolding d' using assms(5) by (rule cands.distinct_put_all)
  have c: "row_at cand_key (t_candidates d') (site_id s, sr_ip r) =
         Some (case row_at cand_key (t_candidates d) (site_id s, sr_ip r) of
             None \<Rightarrow> make_candidate (site_id s, sr_ip r) (snd (sighting_of env s r))
           | Some c \<Rightarrow> change_candidate (snd (sighting_of env s r)) c)"
    if "r \<in> set ?rs" "kept s fs r" for r
  proof -
    have "sighting_of env s r \<in> set (writes env s fs ?os)" using that set_eq by (simp add: writes_def)
    moreover have "sighting_of env s r = ((site_id s, sr_ip r), snd (sighting_of env s r))"
      by (simp add: sighting_of_def)
    ultimately have "((site_id s, sr_ip r), snd (sighting_of env s r)) \<in> set (writes env s fs ?os)" by simp
    from cands.row_put_all [OF distinct_writes [OF dist] this] show ?thesis unfolding d' .
  qed
  have e: "row_at cand_key (t_candidates d') k = row_at cand_key (t_candidates d) k"
    if "\<forall>r \<in> set ?rs. kept s fs r \<longrightarrow> k \<noteq> (site_id s, sr_ip r)" for k
  proof -
    have "k \<notin> fst ` set (writes env s fs ?os)" using that set_eq by (auto simp: writes_def)
    then show ?thesis unfolding d' by (rule cands.row_put_all_other)
  qed
  show ?thesis using n a b c e by (intro conjI ballI allI impI) simp_all
qed

section \<open>The verdict of classification\<close>

datatype verdict = Exact uid | Mismatch | Fresh

definition verdict :: "db \<Rightarrow> candidate \<Rightarrow> verdict" where
  "verdict d c = (case (device_by_ip d c, device_by_name d c) of
      (None, None) \<Rightarrow> Fresh
    | (Some a, Some b) \<Rightarrow> if dev_id a = dev_id b then Exact (dev_id a) else Mismatch
    | _ \<Rightarrow> Mismatch)"

definition is_exact :: "verdict \<Rightarrow> bool" where
  "is_exact v \<longleftrightarrow> (case v of Exact _ \<Rightarrow> True | _ \<Rightarrow> False)"

text \<open>What a verdict makes of the row of its candidate.\<close>

fun marked :: "verdict \<Rightarrow> candidate \<Rightarrow> candidate" where
  "marked (Exact _) c = c\<lparr>cand_classified := True, cand_accepted := Some True\<rparr>"
| "marked Mismatch c = c\<lparr>cand_classified := True, cand_accepted := Some False\<rparr>"
| "marked Fresh c = c\<lparr>cand_classified := False, cand_accepted := None\<rparr>"

fun mark :: "verdict \<Rightarrow> candidate \<Rightarrow> db \<Rightarrow> db" where
  "mark (Exact i) c d = mark_candidate (cand_id c) True (Some True) (touch_runtime i (saw_device c) d)"
| "mark Mismatch c d = mark_candidate (cand_id c) True (Some False) d"
| "mark Fresh c d = mark_candidate (cand_id c) False None d"

definition tally :: "verdict \<Rightarrow> int \<times> int \<times> int \<Rightarrow> int \<times> int \<times> int" where
  "tally v n = (case n of (e, m, f) \<Rightarrow> (case v of Exact _ \<Rightarrow> (e + 1, m, f) | Mismatch \<Rightarrow> (e, m + 1, f) | Fresh \<Rightarrow> (e, m, f + 1)))"

lemma classify_step: "classify_loop (c # cs) (n, d) = classify_loop cs (tally (verdict d c) n, mark (verdict d c) c d)"
  by (cases n) (auto simp: verdict_def tally_def split: option.splits)

lemma mark_devices [simp]: "t_devices (mark v c d) = t_devices d"
  by (cases v) (simp_all add: mark_candidate_def touch_runtime_def)

lemma mark_candidates:
  "t_candidates (mark v c d) = update_where (\<lambda>r. cand_id r = cand_id c) (marked v) (t_candidates d)"
proof -
  have "marked v = (\<lambda>r. marked v r)" by simp
  then show ?thesis by (cases v) (simp_all add: mark_candidate_def touch_runtime_def update_where_def)
qed

lemma verdict_mark [simp]: "verdict (mark v c d) = verdict d"
  by (simp add: fun_eq_iff verdict_def device_by_ip_def device_by_name_def)

lemma marked_id [simp]: "cand_id (marked v c) = cand_id c"
  by (cases v) auto

definition counts :: "db \<Rightarrow> candidate list \<Rightarrow> int \<times> int \<times> int" where
  "counts d cs = (int (length (filter (\<lambda>c. is_exact (verdict d c)) cs)),
     int (length (filter (\<lambda>c. verdict d c = Mismatch) cs)), int (length (filter (\<lambda>c. verdict d c = Fresh) cs)))"

fun add3 :: "int \<times> int \<times> int \<Rightarrow> int \<times> int \<times> int \<Rightarrow> int \<times> int \<times> int" where
  "add3 (a, b, c) (x, y, z) = (a + x, b + y, c + z)"

lemma counts_Cons: "add3 n (counts d (c # cs)) = add3 (tally (verdict d c) n) (counts d cs)"
  by (cases n; cases "verdict d c") (auto simp: counts_def tally_def is_exact_def)

lemma classify_loop_eq:
  assumes "distinct (map cand_id cs)"
  shows "classify_loop cs (n, d) = (n', d') \<Longrightarrow>
    n' = add3 n (counts d cs) \<and> t_devices d' = t_devices d \<and> verdict d' = verdict d \<and>
    t_candidates d' = map (\<lambda>r. case first_row (\<lambda>c. cand_id c = cand_id r) cs of
        None \<Rightarrow> r | Some c \<Rightarrow> marked (verdict d c) r) (t_candidates d)"
  using assms
proof (induction cs arbitrary: n d)
  case Nil
  then show ?case by (cases n) (auto simp: counts_def)
next
  case (Cons c cs)
  let ?v = "verdict d c"
  have run: "classify_loop cs (tally ?v n, mark ?v c d) = (n', d')" using Cons.prems(1) by (simp only: classify_step)
  from Cons.IH [OF run] Cons.prems(2)
  have n: "n' = add3 (tally ?v n) (counts (mark ?v c d) cs)" and dev: "t_devices d' = t_devices d" "verdict d' = verdict d"
    and tab: "t_candidates d' = map (\<lambda>r. case first_row (\<lambda>c. cand_id c = cand_id r) cs of
        None \<Rightarrow> r | Some c \<Rightarrow> marked (verdict d c) r) (t_candidates (mark ?v c d))"
    unfolding verdict_mark mark_devices by simp_all
  have "counts (mark ?v c d) cs = counts d cs" by (simp add: counts_def)
  with n have "n' = add3 n (counts d (c # cs))" by (simp only: counts_Cons)
  moreover have "first_row (\<lambda>x. cand_id x = cand_id c) cs = None"
    using Cons.prems(2) by (auto simp: first_row_None rev_image_eqI)
  ultimately show ?case
    using dev by (auto simp: tab mark_candidates update_where_def)
qed

text \<open>
  C9. Classification gives each open candidate the verdict of its specification: exact when the
  device with its address and the device with its name are one device of the site, a mismatch
  when they differ or only one exists, new when there is none. The three counts are the numbers of
  these verdicts, candidates outside the list keep their rows, and no device changes.
\<close>

theorem classify_verdicts:
  assumes "classify cs d = ((e, m, f), d')" and "distinct (map cand_id cs)"
  shows "(e, m, f) = counts d cs \<and> e + m + f = int (length cs) \<and> t_devices d' = t_devices d \<and>
    t_candidates d' = map (\<lambda>r. case first_row (\<lambda>c. cand_id c = cand_id r) cs of
        None \<Rightarrow> r | Some c \<Rightarrow> marked (verdict d c) r) (t_candidates d)"
proof -
  have "int (length cs) = fst (counts d cs) + fst (snd (counts d cs)) + snd (snd (counts d cs))"
  proof (induction cs)
    case (Cons c cs)
    then show ?case by (cases "verdict d c") (auto simp: counts_def is_exact_def)
  qed (simp add: counts_def)
  moreover have "add3 (0, 0, 0) n = n" for n by (cases n) auto
  ultimately show ?thesis
    using classify_loop_eq [OF assms(2) assms(1) [unfolded classify_def]] by (metis fst_conv snd_conv)
qed

section \<open>The scan job\<close>

lemma job_scan_status:
  "job_scan env s fs rs j d = (saves, j', d') \<Longrightarrow>
     (\<forall>k \<in> set saves. sj_status k = sj_status j) \<and> sj_status j' = sj_status j"
proof (induction rs arbitrary: j d saves j' d')
  case (Cons r rs)
  obtain k d1 where one: "scan_one env s fs r d = (k, d1)" by fastforce
  let ?j = "j\<lparr>sj_processed := sj_processed j + 1, sj_alive := sj_alive j + k\<rparr>"
  obtain saves1 j1 d2 where rest: "job_scan env s fs rs ?j d1 = (saves1, j1, d2)" by (cases "job_scan env s fs rs ?j d1") auto
  from Cons.IH [OF rest] Cons.prems one rest show ?case by auto
qed auto

definition scan_inputs_status :: "net_env \<times> moment \<times> moment \<times> host_filter list \<times> disc_range list \<times> scan_job \<times> db \<Rightarrow> string" where
  "scan_inputs_status i = (case i of (env, t0, t1, flts, stored, j, d) \<Rightarrow> sj_status j)"

definition scan_saves :: "net_env \<times> moment \<times> moment \<times> host_filter list \<times> disc_range list \<times> scan_job \<times> db \<Rightarrow> string list" where
  "scan_saves i = (case i of (env, t0, t1, flts, stored, j, d) \<Rightarrow>
     map sj_status (fst (run_scan_job env t0 t1 flts stored j d)))"

lemma scan_saves_form:
  "\<exists>mid last. scan_saves i = mid @ [last] \<and> final_status last \<and> (\<forall>t \<in> set mid. t = ''running'')"
proof -
  obtain env t0 t1 flts stored j d where i: "i = (env, t0, t1, flts, stored, j, d)" by (metis prod.exhaust)
  show ?thesis
  proof (cases "fk (find_site d) (sj_site j)")
    case None
    then show ?thesis by (simp add: i scan_saves_def run_scan_job_def final_status_def)
  next
    case (Some s)
    let ?j0 = "j\<lparr>sj_status := ''running'', sj_started := Some t0\<rparr>"
    show ?thesis
    proof (cases "job_ranges stored (site_id s) ?j0")
      case (Inl e)
      with Some have "scan_saves i = [''running''] @ [''failed'']"
        by (simp add: i scan_saves_def run_scan_job_def Let_def)
      then show ?thesis by (intro exI [of _ "[''running'']"] exI [of _ "''failed''"]) (simp add: final_status_def)
    next
      case (Inr ranges)
      let ?j1 = "?j0\<lparr>sj_total := int (length ranges)\<rparr>"
      obtain saves j2 d2 where scan: "job_scan env s (enabled_filters flts (site_id s)) ranges
          (?j1\<lparr>sj_processed := 0, sj_alive := 0\<rparr>) d = (saves, j2, d2)"
        by (metis prod.exhaust)
      have st: "\<forall>k \<in> set saves. sj_status k = ''running''" using job_scan_status [OF scan] by simp
      obtain e m f d3 where "classify (updated_candidates d2 (site_id s) (ne_now env)) d2 = ((e, m, f), d3)"
        by (metis prod.exhaust)
      with Some Inr scan have "scan_saves i = (''running'' # ''running'' # map sj_status saves) @ [''completed'']"
        by (simp add: i scan_saves_def run_scan_job_def Let_def)
      with st show ?thesis
        by (intro exI [of _ "''running'' # ''running'' # map sj_status saves"] exI [of _ "''completed''"])
          (auto simp: final_status_def)
    qed
  qed
qed

lemma status_path_run:
  assumes "\<not> final_status s" and "\<forall>t \<in> set mid. t = ''running''" and "final_status l"
  shows "status_path s (mid @ [l])"
  using assms
proof (induction mid arbitrary: s)
  case (Cons t mid)
  moreover have "\<not> final_status ''running''" by (simp add: final_status_def)
  ultimately show ?case by (simp add: status_step_def)
qed (simp add: status_step_def)

interpretation scan_worker: job_worker scan_inputs_status "\<lambda>i. Some (scan_saves i)"
proof
  fix i ts
  assume i: "\<not> final_status (scan_inputs_status i)" "Some (scan_saves i) = Some ts"
  obtain mid l where "scan_saves i = mid @ [l]" "final_status l" "\<forall>t \<in> set mid. t = ''running''"
    using scan_saves_form by blast
  with i show "status_path (scan_inputs_status i) ts" and "ts \<noteq> [] \<and> final_status (last ts)"
    by (auto simp: status_path_run)
qed

text \<open>
  C10. A scan job that has not ended always ends, completed or failed, exactly once and with its
  last save; before that every save shows it running. No input, however malformed, leaves it
  running.
\<close>

theorem scan_job_ends_once:
  assumes "\<not> final_status (sj_status j)"
  shows "let st = map sj_status (fst (run_scan_job env t0 t1 flts stored j d))
    in status_path (sj_status j) st \<and> filter final_status st = [last st]"
  using scan_worker.path [of "(env, t0, t1, flts, stored, j, d)"]
    scan_worker.ends_once [of "(env, t0, t1, flts, stored, j, d)"] assms
  by (simp add: scan_inputs_status_def scan_saves_def Let_def)

section \<open>What a range scan probes\<close>

definition probed :: "scan_range list \<Rightarrow> ip_addr set" where
  "probed rs = (\<Union>r \<in> set rs. case ip_network False (sc_cidr r) of Inr n \<Rightarrow> set (hosts n) | Inl _ \<Rightarrow> {})"

text \<open>The network and the broadcast address of the blocks of four addresses or more.\<close>

definition block_edges :: "ip_net list \<Rightarrow> ip_addr set" where
  "block_edges ns = (\<Union>n \<in> set ns. if net_plen n \<le> 30 then {first_addr n, last_addr n} else {})"

lemma hosts_ipv4:
  assumes "net_ver n = IPv4"
  shows "set (hosts n) = members n - (if net_plen n \<le> 30 then {first_addr n, last_addr n} else {})"
proof -
  have "is_host n a \<longleftrightarrow> in_net a n \<and> (net_plen n \<le> 30 \<longrightarrow> a \<noteq> first_addr n \<and> a \<noteq> last_addr n)" for a
    using assms net_addr_le_last [of n]
    by (cases a) (auto simp: is_host_def host_range_def in_net_def first_addr_def last_addr_def ver_bits_def)
  then show ?thesis by (auto simp: set_hosts members_def)
qed

lemma edge_member: "x \<in> block_edges [n] \<Longrightarrow> net_ver n = IPv4 \<Longrightarrow> x \<in> members n"
  by (auto simp: block_edges_def members_def in_net_def first_addr_def last_addr_def split: if_splits)

lemma probed_blocks:
  assumes "\<forall>n \<in> set ns. valid_net n \<and> net_ver n = IPv4"
    and "pairwise (\<lambda>a b. members a \<inter> members b = {}) (set ns)"
    and "\<And>n. sc_cidr (mk n) = net_str n"
  shows "probed (map mk ns) = (\<Union>n \<in> set ns. members n) - block_edges ns"
proof -
  have "probed (map mk ns) = (\<Union>n \<in> set ns. set (hosts n))"
    using assms(1) by (auto simp: probed_def assms(3) ip_network_str)
  also have "\<dots> = (\<Union>n \<in> set ns. members n - block_edges [n])"
    using assms(1) by (intro SUP_cong refl) (simp add: hosts_ipv4 block_edges_def)
  also have "\<dots> = (\<Union>n \<in> set ns. members n) - block_edges ns"
  proof -
    have "x \<notin> block_edges [m]" if "n \<in> set ns" "x \<in> members n" "x \<notin> block_edges [n]" "m \<in> set ns" for x n m
    proof
      assume "x \<in> block_edges [m]"
      with assms(1) that(4) have "x \<in> members m" by (auto intro: edge_member)
      with that assms(2) have "m = n" by (auto simp: pairwise_def)
      with that(3) \<open>x \<in> block_edges [m]\<close> show False by simp
    qed
    moreover have "block_edges ns = (\<Union>m \<in> set ns. block_edges [m])" by (auto simp: block_edges_def)
    ultimately show ?thesis by auto
  qed
  finally show ?thesis .
qed

text \<open>
  A range scan does not probe the whole range: it cuts the range into blocks and probes the
  hosts of each, so that the network and broadcast address of every block of four addresses or
  more are left out, although they lie inside the range (the two ends the user typed among them).
\<close>

theorem range_scan_skips_edges:
  assumes "sj_kind j = ''range''" and "param_text (sj_params j) ''start_ip'' = Inr t" and "param_text (sj_params j) ''end_ip'' = Inr u"
    and "ip_address t = Inr a" and "ip_address u = Inr b" and "ip_ver a = IPv4" and "ip_ver b = IPv4" and "ip_int a \<le> ip_int b"
  shows "\<exists>rs. job_ranges stored site j = Inr rs \<and> probed rs =
    {x. ip_ver x = IPv4 \<and> ip_int a \<le> ip_int x \<and> ip_int x \<le> ip_int b}
      - block_edges (summarize IPv4 (ip_int a) (ip_int b))"
proof -
  let ?mk = "\<lambda>n. \<lparr>sc_cidr = net_str n, sc_method = if sj_method j = [] then ''tcp'' else sj_method j,
      sc_port = if sj_port j = 0 then 22 else sj_port j\<rparr>"
  let ?ns = "summarize IPv4 (ip_int a) (ip_int b)"
  have lo: "0 \<le> ip_int a" and hi: "ip_int b < 2 ^ ver_bits IPv4"
    using ip_address_valid [OF assms(4)] ip_address_valid [OF assms(5)] assms(6,7) by (auto simp: valid_ip_def)
  have "job_ranges stored site j = Inr (map ?mk ?ns)"
    using assms by (simp add: job_ranges_def Let_def)
  moreover have "probed (map ?mk ?ns) = (\<Union>n \<in> set ?ns. members n) - block_edges ?ns"
    using summarize_valid [OF lo hi] by (intro probed_blocks summarize_disjoint [OF lo hi]) auto
  ultimately show ?thesis by (simp add: summarize_members [OF lo hi])
qed

section \<open>Witnesses\<close>

text \<open>A network in which one address answers and the threads finish in reverse order.\<close>

definition demo_env :: net_env where
  "demo_env = \<lparr>ne_ping = (\<lambda>_. Exit 1), ne_tcp = (\<lambda>ip p. if ip = ''10.0.0.2'' then Connected else OsError),
     ne_nameinfo = (\<lambda>ip. Some ''SW2.example.de''), ne_order = rev, ne_uuid = (\<lambda>s ip. length ip), ne_now = 7\<rparr>"

definition demo_range :: scan_range where
  "demo_range = \<lparr>sc_cidr = ''10.0.0.0/30'', sc_method = ''tcp'', sc_port = 22\<rparr>"

definition demo_site :: site where
  "demo_site = \<lparr>site_id = 1, site_name = ''BN'', site_domain = ''example.de''\<rparr>"

lemma demo_fair: "fair_env demo_env"
  by (simp add: fair_env_def demo_env_def)

theorem scan_writes_sightings_witness:
  "\<exists>c. row_at cand_key (t_candidates (snd (scan_one demo_env demo_site [] demo_range demo_room))) (1, ''10.0.0.2'') = Some c
     \<and> cand_hostname c = ''sw2.example.de''"
proof -
  let ?net = "\<lparr>net_ver = IPv4, net_addr = 167772160, net_plen = 30\<rparr>"
  let ?r = "\<lparr>sr_ip = ''10.0.0.2'', sr_alive = True, sr_hostname = Some ''sw2.example.de'', sr_method = ''tcp'', sr_port = Some 22\<rparr>"
  have net: "ip_network False (sc_cidr demo_range) = Inr ?net" by code_simp
  have r: "?r \<in> set (probe_results demo_env demo_range ?net)" by code_simp
  have k: "kept demo_site [] ?r" by code_simp
  have none: "row_at cand_key (t_candidates demo_room) (1, ''10.0.0.2'') = None" by code_simp
  have name: "fst (snd (snd (sighting_of demo_env demo_site ?r))) = ''sw2.example.de''" by code_simp
  have sid: "site_id demo_site = 1" by (simp add: demo_site_def)
  have dist: "distinct (map cand_key (t_candidates demo_room))" by code_simp
  obtain n d' where run: "scan_one demo_env demo_site [] demo_range demo_room = (n, d')" by fastforce
  from scan_writes_sightings [OF demo_fair net _ run dist]
  have "row_at cand_key (t_candidates d') (1, ''10.0.0.2'') =
      Some (make_candidate (1, ''10.0.0.2'') (snd (sighting_of demo_env demo_site ?r)))"
    using r k none sid by fastforce
  then show ?thesis using name run by (cases "snd (sighting_of demo_env demo_site ?r)") auto
qed

theorem classify_verdicts_witness:
  "fst (classify (t_candidates demo_room) demo_room) = (1, 0, 0)"
proof -
  let ?r = "classify (t_candidates demo_room) demo_room"
  have "?r = ((fst (fst ?r), fst (snd (fst ?r)), snd (snd (fst ?r))), snd ?r)" by simp
  then have "(fst (fst ?r), fst (snd (fst ?r)), snd (snd (fst ?r))) = counts demo_room (t_candidates demo_room)"
    by (rule classify_verdicts [THEN conjunct1]) code_simp
  moreover have "counts demo_room (t_candidates demo_room) = (1, 0, 0)" by code_simp
  ultimately show ?thesis by simp
qed

theorem scan_job_ends_once_witness:
  "let st = map sj_status (fst (run_scan_job demo_env 1 2 [] [] (new_scan_job 1) demo_room))
    in status_path ''pending'' st \<and> filter final_status st = [last st]"
  using scan_job_ends_once [of "new_scan_job 1" demo_env 1 2 "[]" "[]" demo_room]
  by (simp add: new_scan_job_def final_status_def)

theorem range_scan_skips_edges_witness:
  "\<exists>rs. job_ranges [] 1 ((new_scan_job 1)\<lparr>sj_kind := ''range'',
      sj_params := [(''start_ip'', PyStr ''10.0.0.0''), (''end_ip'', PyStr ''10.0.0.7'')]\<rparr>) = Inr rs
    \<and> \<lparr>ip_ver = IPv4, ip_int = 167772160\<rparr> \<notin> probed rs \<and> \<lparr>ip_ver = IPv4, ip_int = 167772167\<rparr> \<notin> probed rs"
proof -
  let ?j = "(new_scan_job 1)\<lparr>sj_kind := ''range'',
      sj_params := [(''start_ip'', PyStr ''10.0.0.0''), (''end_ip'', PyStr ''10.0.0.7'')]\<rparr>"
  have "\<exists>rs. job_ranges [] 1 ?j = Inr rs \<and> probed rs =
      {x. ip_ver x = IPv4 \<and> ip_int \<lparr>ip_ver = IPv4, ip_int = 167772160\<rparr> \<le> ip_int x \<and>
        ip_int x \<le> ip_int \<lparr>ip_ver = IPv4, ip_int = 167772167\<rparr>}
      - block_edges (summarize IPv4 (ip_int \<lparr>ip_ver = IPv4, ip_int = 167772160\<rparr>) (ip_int \<lparr>ip_ver = IPv4, ip_int = 167772167\<rparr>))"
    by (rule range_scan_skips_edges [where t = "''10.0.0.0''" and u = "''10.0.0.7''"]; code_simp)
  moreover have "\<lparr>ip_ver = IPv4, ip_int = 167772160\<rparr> \<in> block_edges (summarize IPv4 167772160 167772167)"
    and "\<lparr>ip_ver = IPv4, ip_int = 167772167\<rparr> \<in> block_edges (summarize IPv4 167772160 167772167)"
    by code_simp+
  ultimately show ?thesis by auto
qed

end
