(* ===== verification/Review.thy ===== *)
theory Review
  imports DiscoveryProps
begin

text \<open>
  The review of discovery candidates (\<^verbatim>\<open>network/views/discovery.py\<close>): the bulk
  actions, the resolution of a mismatch, the creation of a device from a candidate, and how a
  candidate is shown. A view that runs in \<^verbatim>\<open>transaction.atomic\<close> and raises leaves
  the database unchanged; the model returns the exception then.
\<close>

section \<open>Bulk actions\<close>

text \<open>What a request does: the message it leaves, and the new database.\<close>

definition actionable :: "uid list \<Rightarrow> candidate \<Rightarrow> bool" where
  "actionable ids c \<longleftrightarrow> cand_id c \<in> set ids \<and> cand_accepted c \<noteq> Some True"

definition bulk_action :: "string \<Rightarrow> uid list \<Rightarrow> db \<Rightarrow> string \<times> db" where
  "bulk_action action ids d =
     (let count = int_str (int (length (filter (actionable ids) (t_candidates d))))
      in if ids = [] then (''No candidates selected.'', d)
         else if action = ''ignore''
         then (''Marked '' @ count @ '' candidates as ignored.'',
           d\<lparr>t_candidates := update_where (actionable ids)
             (\<lambda>c. c\<lparr>cand_classified := True, cand_accepted := Some False\<rparr>) (t_candidates d)\<rparr>)
         else if action = ''resolve'' then (''Resolve mismatch placeholder invoked for '' @ count @ '' candidate(s).'', d)
         else if action = ''create_device'' then (''Create device placeholder invoked for '' @ count @ '' candidate(s).'', d)
         else (''Unknown action.'', d))"

text \<open>The candidates of an automatic assignment: those still open, narrowed by the form.\<close>

definition eligible :: "uid list \<Rightarrow> uid option \<Rightarrow> string \<Rightarrow> candidate \<Rightarrow> bool" where
  "eligible ids site host c \<longleftrightarrow> cand_accepted c = None \<and> \<not> cand_classified c
     \<and> (ids = [] \<or> cand_id c \<in> set ids)
     \<and> (case site of None \<Rightarrow> True | Some s \<Rightarrow> cand_site c = s)
     \<and> (host = [] \<or> contains (upper (cand_hostname c)) (upper host))"

definition auto_candidates :: "uid list \<Rightarrow> uid option \<Rightarrow> string \<Rightarrow> string \<Rightarrow> db \<Rightarrow> uid list" where
  "auto_candidates ids site host limit_raw d =
     (let cs = filter (eligible ids site (strip host)) (t_candidates d)
      in map cand_id (case int_of_text limit_raw of
           Some l \<Rightarrow> if l > 0 then take (nat l) cs else cs | None \<Rightarrow> cs))"

section \<open>How a candidate is shown\<close>

definition shown_class :: "candidate \<Rightarrow> string" where
  "shown_class c = (case cand_accepted c of
      Some True \<Rightarrow> ''exact'' | Some False \<Rightarrow> ''mismatch''
    | None \<Rightarrow> if cand_classified c then ''new'' else ''unclassified'')"

definition result_status :: "candidate \<Rightarrow> string" where
  "result_status c =
     (if cand_classified c \<and> cand_accepted c = Some True then ''exact''
      else if cand_classified c \<and> cand_accepted c = Some False then ''mismatch''
      else ''new/unclassified'')"

text \<open>The two lookups of the views; an empty host name finds no device here.\<close>

definition by_hostname :: "db \<Rightarrow> candidate \<Rightarrow> device option" where
  "by_hostname d c = (if cand_hostname c = [] then None else device_by_name d c)"

definition explanation :: "db \<Rightarrow> candidate \<Rightarrow> string" where
  "explanation d c =
     (case cand_accepted c of
        Some True \<Rightarrow> ''Exact match: IP and hostname already known.''
      | Some False \<Rightarrow>
         (case (device_by_ip d c, by_hostname d c) of
            (Some a, Some b) \<Rightarrow> if dev_id a \<noteq> dev_id b
              then ''Mismatch: IP belongs to '' @ dev_name a @ '', hostname belongs to '' @ dev_name b @ ''.''
              else ''Mismatch: IP belongs to '' @ dev_name a @ ''.''
          | (Some a, None) \<Rightarrow> ''Mismatch: IP belongs to '' @ dev_name a @ ''.''
          | (None, Some b) \<Rightarrow> ''Mismatch: Hostname belongs to '' @ dev_name b @ ''.''
          | (None, None) \<Rightarrow> ''Mismatch: Candidate conflicts with existing device records.'')
      | None \<Rightarrow> if cand_classified c then ''New: no matching device found.'' else ''Unclassified: pending review.'')"

section \<open>Resolving a mismatch\<close>

definition refresh_runtime :: "candidate \<Rightarrow> uid \<Rightarrow> db \<Rightarrow> db" where
  "refresh_runtime c i d = touch_runtime i (saw_device c) d"

text \<open>\<^verbatim>\<open>resolve_discovery_mismatch\<close>, action \<^verbatim>\<open>update\<close>\<close>

definition hostname_mismatch :: "candidate \<Rightarrow> device option \<Rightarrow> bool" where
  "hostname_mismatch c a = (case a of Some v \<Rightarrow> cand_hostname c \<noteq> [] \<and> lower (dev_name v) \<noteq> lower (cand_hostname c) | None \<Rightarrow> False)"

definition ip_mismatch :: "candidate \<Rightarrow> device option \<Rightarrow> bool" where
  "ip_mismatch c b = (case b of Some v \<Rightarrow> dev_ip v \<noteq> cand_ip c | None \<Rightarrow> False)"

definition take_hostname :: "candidate \<Rightarrow> device option \<Rightarrow> db \<Rightarrow> exn + db" where
  "take_hostname c a d =
     (case a of
        Some v \<Rightarrow> if hostname_mismatch c a
          then bind_res (save_device d (v\<lparr>dev_name := cand_hostname c\<rparr>)) (\<lambda>d. Inr (refresh_runtime c (dev_id v) d))
          else Inr d
      | None \<Rightarrow> Inr d)"

definition take_address :: "candidate \<Rightarrow> device option \<Rightarrow> db \<Rightarrow> exn + db" where
  "take_address c b d =
     (case b of
        Some v \<Rightarrow> if ip_mismatch c b
          then bind_res (save_device d (v\<lparr>dev_ip := cand_ip c\<rparr>)) (\<lambda>d. Inr (refresh_runtime c (dev_id v) d))
          else Inr d
      | None \<Rightarrow> Inr d)"

datatype resolve_end = Refused string | Done string

definition resolve_action :: "string \<Rightarrow> candidate \<Rightarrow> db \<Rightarrow> exn + (resolve_end \<times> db)" where
  "resolve_action action c d =
     (let a = device_by_ip d c; b = by_hostname d c
      in if cand_accepted c \<noteq> Some False then Inr (Refused ''This candidate is not marked as a mismatch.'', d)
         else if a = None \<and> b = None
         then Inr (Refused ''No conflicting device was found. Please refresh discovery results.'', d)
         else if action = ''cancel'' then Inr (Refused [], d)
         else if action = ''ignore''
         then Inr (Done ''Candidate marked as false positive. Inventory unchanged.'',
                mark_candidate (cand_id c) True (Some False) d)
         else if action = ''update''
         then bind_res (take_hostname c a d) (\<lambda>d1. bind_res (take_address c b d1) (\<lambda>d2.
                Inr (Done ''Device updated to match discovery. Candidate resolved.'',
                  mark_candidate (cand_id c) True (Some True) d2)))
         else Inr (Refused ''Unknown action.'', d))"

section \<open>Creating a device from a candidate\<close>

record device_input =
  in_name :: string
  in_area :: uid
  in_rack :: "uid option"
  in_position :: "int option"
  in_role :: "uid option"
  in_type :: "uid option"
  in_status :: string
  in_inventory :: "string option"
  in_tags :: "uid list"

text \<open>\<^verbatim>\<open>CandidateDeviceForm.clean\<close>\<close>

definition candidate_form_errors :: "db \<Rightarrow> candidate \<Rightarrow> device_input \<Rightarrow> field_errs" where
  "candidate_form_errors d c inp =
     (case find_area d (in_area inp) of
        Some a \<Rightarrow>
          (if area_site a \<noteq> cand_site c then [(''area'', ''Area must belong to the same site as the candidate.'')] else []) @
          (case fk (find_rack d) (in_rack inp) of
             Some r \<Rightarrow> if rack_area r \<noteq> area_id a then [(''rack'', ''Rack must belong to the selected area.'')] else []
           | None \<Rightarrow> [])
      | None \<Rightarrow> []) @
     (if (case in_position inp of Some p \<Rightarrow> p \<noteq> 0 | None \<Rightarrow> False) \<and> fk (find_rack d) (in_rack inp) = None
      then [(''position'', ''Set a rack before assigning a position.'')] else [])"

definition input_device :: "uid \<Rightarrow> candidate \<Rightarrow> device_input \<Rightarrow> device" where
  "input_device i c inp = (new_device i (in_name inp) (cand_ip c) (cand_site c) (in_area inp))
     \<lparr>dev_rack := in_rack inp, dev_position := in_position inp, dev_role := in_role inp, dev_type := in_type inp,
      dev_status := in_status inp, dev_inventory := in_inventory inp, dev_source := ''discovery'',
      dev_last_seen := Some (cand_last_seen c)\<rparr>"

text \<open>\<^verbatim>\<open>Tag.objects.get_or_create(name=...)\<close> with a fresh identifier, and adding a tag to a device.\<close>

definition get_tag :: "uid \<Rightarrow> string \<Rightarrow> db \<Rightarrow> uid \<times> db" where
  "get_tag new name d =
     (case first_row (\<lambda>t. tag_name t = name) (t_tags d) of
        Some t \<Rightarrow> (tag_id t, d)
      | None \<Rightarrow> (new, d\<lparr>t_tags := t_tags d @ [\<lparr>tag_id = new, tag_name = name\<rparr>]\<rparr>))"

definition add_tags :: "uid \<Rightarrow> uid list \<Rightarrow> db \<Rightarrow> db" where
  "add_tags i ts d = d\<lparr>t_devices := update_where (\<lambda>v. dev_id v = i)
     (\<lambda>v. v\<lparr>dev_tags := dev_tags v @ filter (\<lambda>t. t \<notin> set (dev_tags v)) (remdups ts)\<rparr>) (t_devices d)\<rparr>"

definition is_management_name :: "string \<Rightarrow> bool" where
  "is_management_name name \<longleftrightarrow> contains (lower name) ''mgmt'' \<or> contains (lower name) ''bmsw''"

text \<open>
  \<^verbatim>\<open>create_device_from_candidate\<close>, action \<^verbatim>\<open>create\<close>, from the cleaned
  form; \<open>i\<close>, \<open>t1\<close> and \<open>t2\<close> are the identifiers of a new device and of new tags.
\<close>

definition create_errors :: "db \<Rightarrow> uid \<Rightarrow> candidate \<Rightarrow> device_input \<Rightarrow> field_errs" where
  "create_errors d i c inp =
     (let form = candidate_form_errors d c inp @
            (case device_clean d (input_device i c inp) of Inl es \<Rightarrow> es | Inr _ \<Rightarrow> [])
      in if form \<noteq> [] then form
         else (if \<exists>v \<in> set (t_devices d). iexact (dev_name v) (in_name inp)
               then [(''name'', ''A device with this name already exists.'')] else []) @
              (if \<exists>v \<in> set (t_devices d). dev_ip v = cand_ip c
               then [([], ''A device with this management IP already exists.'')] else []))"

definition create_from_candidate ::
  "uid \<Rightarrow> uid \<Rightarrow> uid \<Rightarrow> candidate \<Rightarrow> device_input \<Rightarrow> db \<Rightarrow> exn + (field_errs \<times> db)"
where
  "create_from_candidate i t1 t2 c inp d =
     (if cand_accepted c \<noteq> None then Inr ([([], ''This candidate has already been reviewed.'')], d)
      else if create_errors d i c inp \<noteq> [] then Inr (create_errors d i c inp, d)
      else bind_res (save_device d ((input_device i c inp)\<lparr>dev_serial := normalize_serial None\<rparr>)) (\<lambda>d.
        let d = add_tags i (in_tags inp) d;
            (new_tag, d) = get_tag t1 ''discovered-new'' d;
            d = add_tags i [new_tag] d;
            d = (if is_management_name (in_name inp)
                 then (let (m, d) = get_tag t2 ''management'' d in add_tags i [m] d) else d);
            d = refresh_runtime c i d
        in Inr ([], mark_candidate (cand_id c) True (Some True) d)))"

end
