(* ===== verification/SyncParse.thy ===== *)
theory SyncParse
  imports PyRegex Serials
begin

text \<open>
  The readers of \<^verbatim>\<open>network/services/sync_service.py\<close> (and the same helpers of
  \<^verbatim>\<open>auto_assignment_service.py\<close>): they turn the text of a device, and the rows that
  the TextFSM templates make of it, into interface names, states, speeds, serial numbers, models,
  stack members and transceivers. Nothing here touches the database.
\<close>

section \<open>Rows of a template\<close>

text \<open>\<^verbatim>\<open>v.get\<close> on a value that is no dictionary, and iteration over a value.\<close>

definition as_dict :: "pyval \<Rightarrow> exn + entry" where
  "as_dict v = (case v of PyDict d \<Rightarrow> Inr d
     | _ \<Rightarrow> Inl (AttributeError (py_repr_str (type_name v) @ '' object has no attribute '' @ py_repr_str ''get'')))"

definition iterate :: "pyval \<Rightarrow> exn + pyval list" where
  "iterate v = (case v of
      PyList xs \<Rightarrow> Inr xs
    | PyDict d \<Rightarrow> Inr (map (\<lambda>(k, _). PyStr k) d)
    | PyStr s \<Rightarrow> Inr (map (\<lambda>c. PyStr [c]) s)
    | _ \<Rightarrow> Inl (TypeError (py_repr_str (type_name v) @ '' object is not iterable'')))"

text \<open>The dictionaries of a list, where the code skips everything else.\<close>

fun dicts_of :: "pyval list \<Rightarrow> entry list" where
  "dicts_of [] = []"
| "dicts_of (PyDict d # vs) = d # dicts_of vs"
| "dicts_of (_ # vs) = dicts_of vs"

text \<open>\<^verbatim>\<open>if isinstance(parsed, dict): parsed = [parsed]\<close>\<close>

definition listed :: "pyval \<Rightarrow> pyval list" where
  "listed v = (case v of PyDict d \<Rightarrow> [PyDict d] | PyList xs \<Rightarrow> xs | _ \<Rightarrow> [])"

definition text_or_empty :: "pyval \<Rightarrow> string" where
  "text_or_empty v = strip (py_str (py_or v (PyStr [])))"

section \<open>Interface names\<close>

definition iface_prefixes :: "(string \<times> string) list" where
  "iface_prefixes = [(''Port-channel'', ''Po''), (''GigabitEthernet'', ''Gi''), (''TenGigabitEthernet'', ''Te''),
     (''FortyGigabitEthernet'', ''Fo''), (''TwentyFiveGigE'', ''Tw''), (''HundredGigE'', ''Hu''), (''Ethernet'', ''Eth'')]"

text \<open>\<^verbatim>\<open>re.sub(r"^long", short, n, flags=re.IGNORECASE)\<close>\<close>

definition shorten :: "string \<times> string \<Rightarrow> string \<Rightarrow> string" where
  "shorten p n = (if prefix (lower (fst p)) (lower n) then snd p @ drop (length (fst p)) n else n)"

definition normalize_iface :: "string \<Rightarrow> string" where
  "normalize_iface name = (if name = [] then [] else fold shorten iface_prefixes (strip name))"

text \<open>The call on a value of a row: empty for a false value, an error for no text.\<close>

definition normalize_iface_val :: "pyval \<Rightarrow> exn + string" where
  "normalize_iface_val v = (if \<not> truthy v then Inr [] else str_method ''strip'' normalize_iface v)"

definition infer_kind :: "string \<Rightarrow> string" where
  "infer_kind name =
     (let n = lower name
      in if startswith n ''po'' then ''port-channel''
         else if startswith n ''vlan'' then ''svi''
         else if startswith n ''loopback'' then ''loopback''
         else if startswith n ''tunnel'' then ''tunnel''
         else ''physical'')"

definition looks_like_interface :: "string \<Rightarrow> bool" where
  "looks_like_interface v \<longleftrightarrow> v \<noteq> [] \<and>
     rx_match (seqs [Many1 is_alpha, Many1 (\<lambda>c. is_digit c \<or> one_of ''/.-'' c), Eos]) v \<noteq> None"

section \<open>States, speeds and times\<close>

definition speed_rx :: rx where
  "speed_rx = seqs [Cap 1 (Many1 is_digit), Many is_space, Opt (Cap 2 (Alt (lit ''g'') (lit ''m'')))]"

definition parse_speed :: "string \<Rightarrow> int option" where
  "parse_speed raw =
     (if raw = [] then None
      else let s = lower raw
        in if s \<in> set [''auto'', ''a-auto'', ''unknown'', ''n/a''] then None
           else case rx_search speed_rx s of
               None \<Rightarrow> None
             | Some g \<Rightarrow> Some (int (digits_value (group_text g 1)) * (if group g 2 = Some ''g'' then 1000 else 1)))"

definition map_status :: "string \<Rightarrow> string" where
  "map_status s =
     (if s = [] then ''down''
      else if contains s ''up'' then ''up''
      else if contains s ''notconnec'' then ''notconnected''
      else if contains s ''err'' then ''err-disabled''
      else if contains s ''disabled'' then ''disabled''
      else if contains s ''connected'' then ''connected''
      else if contains s ''xcvrabsen'' then ''xcvrAbsen''
      else if contains s ''inactive'' then ''inactive''
      else ''unknown'')"

definition map_status_ip_brief :: "string \<Rightarrow> string \<Rightarrow> string" where
  "map_status_ip_brief status_raw proto_raw =
     (let status = lower (strip status_raw); proto = lower (strip proto_raw)
      in if status = ''up'' \<and> proto = ''up'' then ''up''
         else if status \<in> set [''administratively down'', ''admin down'', ''down''] \<or> proto = ''down'' then ''down''
         else ''unknown'')"

definition serial_rx :: rx where
  "serial_rx = seqs [Cls (one_of ''Ss''), lit ''erial '', Cls (one_of ''Nn''), lit ''umber'', Many is_space,
     Opt (Cls (one_of '':#'')), Many is_space,
     Cap 1 (Many1 (\<lambda>c. (65 \<le> code c \<and> code c \<le> 90) \<or> is_digit c \<or> c = CHR ''-''))]"

definition parse_serial_from_text :: "string \<Rightarrow> string" where
  "parse_serial_from_text raw = (case rx_search serial_rx raw of None \<Rightarrow> [] | Some g \<Rightarrow> group_text g 1)"

definition image_rx :: rx where
  "image_rx = seqs [WordB, lit ''Version'', Many1 is_space, Cap 1 (Many1 (\<lambda>c. is_alnum c \<or> one_of ''().-'' c))]"

definition parse_image_from_text :: "string \<Rightarrow> string option" where
  "parse_image_from_text raw = map_option (\<lambda>g. group_text g 1) (rx_search image_rx raw)"

definition uptime_units :: "(string \<times> int) list" where
  "uptime_units = [(''year'', 365 * 24 * 3600), (''week'', 7 * 24 * 3600), (''day'', 24 * 3600),
     (''hour'', 3600), (''minute'', 60), (''second'', 1)]"

definition unit_rx :: "string \<Rightarrow> rx" where
  "unit_rx k = seqs [Cap 1 (Many1 is_digit), Many1 is_space, lit_ci k]"

definition unit_seconds :: "string \<Rightarrow> string \<times> int \<Rightarrow> int" where
  "unit_seconds s u = (case rx_search (unit_rx (fst u)) s of
     None \<Rightarrow> 0 | Some g \<Rightarrow> int (digits_value (group_text g 1)) * snd u)"

text \<open>\<^verbatim>\<open>total or None\<close>\<close>

definition or_none :: "int \<Rightarrow> int option" where
  "or_none n = (if n = 0 then None else Some n)"

definition parse_uptime_text :: "string \<Rightarrow> int option" where
  "parse_uptime_text s = (if s = [] then None else or_none (sum_list (map (unit_seconds s) uptime_units)))"

definition parse_uptime :: "pyval \<Rightarrow> exn + int option" where
  "parse_uptime v = (if \<not> truthy v then Inr None
     else case v of PyStr s \<Rightarrow> Inr (parse_uptime_text s)
       | _ \<Rightarrow> Inl (TypeError ''expected string or bytes-like object''))"

definition uptime_part :: "entry \<Rightarrow> string \<times> int \<Rightarrow> int" where
  "uptime_part e p = (let v = get e (''uptime_'' @ fst p @ ''s'')
     in if v = PyNone \<or> v = PyStr [] then 0 else case py_int v of None \<Rightarrow> 0 | Some n \<Rightarrow> n * snd p)"

definition uptime_from_parts :: "entry \<Rightarrow> int option" where
  "uptime_from_parts e = or_none (sum_list (map (uptime_part e) uptime_units))"

definition extract_uptime_line :: "string \<Rightarrow> string" where
  "extract_uptime_line raw = (case first_row (\<lambda>l. contains (lower l) ''uptime is'') (splitlines raw) of
     None \<Rightarrow> [] | Some l \<Rightarrow> l)"

section \<open>Models\<close>

definition model_of_value :: "pyval \<Rightarrow> string option" where
  "model_of_value v = (case v of
      PyList (x # _) \<Rightarrow> Some (py_str x)
    | PyStr s \<Rightarrow> if strip s \<noteq> [] then Some (strip s) else None
    | _ \<Rightarrow> None)"

definition extract_model_from_version :: "pyval \<Rightarrow> string option" where
  "extract_model_from_version parsed =
     (if \<not> truthy parsed then None
      else case listed parsed of
          PyDict e # _ \<Rightarrow> first_some (\<lambda>k. model_of_value (get e k)) [''hardware'', ''model'', ''platform'', ''chassis'']
        | _ \<Rightarrow> None)"

definition pid_of :: "entry \<Rightarrow> string" where
  "pid_of e = text_or_empty (py_or (get e ''pid'') (get e ''PID''))"

definition is_chassis_entry :: "entry \<Rightarrow> bool" where
  "is_chassis_entry e = (let name = lower (text_or_empty (get e ''name''))
     in contains name ''chassis'' \<or> startswith name ''switch'')"

definition skip_tokens :: "string list" where
  "skip_tokens = [''STACK'', ''SFP'', ''QSFP'', ''FAN'', ''PWR'', ''PSU'', ''NM-'', ''TRANSCEIVER'']"

definition non_empty :: "string \<Rightarrow> string option" where
  "non_empty s = (if s = [] then None else Some s)"

definition orelse :: "'a option \<Rightarrow> 'a option \<Rightarrow> 'a option" where
  "orelse a b = (case a of None \<Rightarrow> b | Some x \<Rightarrow> Some x)"

definition inventory_entries :: "pyval \<Rightarrow> entry list" where
  "inventory_entries parsed = (case parsed of PyList xs \<Rightarrow> dicts_of xs | _ \<Rightarrow> [])"

definition model_from_inventory :: "pyval \<Rightarrow> string option \<Rightarrow> string option" where
  "model_from_inventory parsed device_serial =
     (let es = inventory_entries parsed; serial = strip (or_empty device_serial)
      in orelse (if serial = [] then None
                 else first_some (\<lambda>e. let sn = text_or_empty (py_or (get e ''sn'') (get e ''serial''))
                   in if sn \<noteq> [] \<and> sn = serial then non_empty (pid_of e) else None) es)
         (orelse (first_some (\<lambda>e. if is_chassis_entry e then non_empty (pid_of e) else None) es)
         (orelse (first_some (\<lambda>e. if contains_any (upper (pid_of e)) skip_tokens then None else non_empty (pid_of e)) es)
           (first_some (\<lambda>e. non_empty (pid_of e)) es))))"

section \<open>Stack members\<close>

record member =
  mb_switch :: int
  mb_role :: string
  mb_mac :: pyval
  mb_priority :: "int option"
  mb_version :: pyval
  mb_state :: string

definition stack_role :: "string \<Rightarrow> string" where
  "stack_role role = (let v = lower (strip role)
     in if v \<in> set [''active'', ''standby'', ''master'', ''member''] then v else ''unknown'')"

definition stack_state :: "string \<Rightarrow> string" where
  "stack_state state = (let v = lower (strip state)
     in if v = ''ready'' then ''ready'' else if contains v ''provision'' then ''provisioned''
        else if contains v ''remove'' then ''removed'' else ''unknown'')"

definition on_text_or_empty :: "(string \<Rightarrow> 'a) \<Rightarrow> pyval \<Rightarrow> exn + 'a" where
  "on_text_or_empty f v = str_method ''strip'' f (py_or v (PyStr []))"

definition stack_rx :: rx where
  "stack_rx = seqs [Opt (lit ''*''), Many is_space, Cap 1 (Many1 is_digit), Many1 is_space,
     Cap 2 (Many1 is_alpha), Many1 is_space, Cap 3 (Many1 (\<lambda>c. is_digit c \<or> one_of ''abcdefABCDEF.'' c)), Many1 is_space,
     Cap 4 (Many1 is_digit), Many1 is_space, Cap 5 (Many1 (\<lambda>c. \<not> is_space c)), Many1 is_space, Cap 6 (Many1 is_alpha)]"

definition stack_line :: "string \<Rightarrow> member option" where
  "stack_line line =
     (if strip line = [] \<or> contains (lower line) ''switch#'' \<or> startswith line ''---'' then None
      else map_option (\<lambda>g. \<lparr>mb_switch = int (digits_value (group_text g 1)), mb_role = stack_role (group_text g 2),
          mb_mac = PyStr (group_text g 3), mb_priority = Some (int (digits_value (group_text g 4))),
          mb_version = PyStr (group_text g 5), mb_state = stack_state (group_text g 6)\<rparr>)
        (rx_match stack_rx (strip line)))"

definition parse_stack_raw :: "string \<Rightarrow> member list" where
  "parse_stack_raw raw = List.map_filter stack_line (splitlines raw)"

fun parse_stack_entries :: "entry list \<Rightarrow> exn + member list" where
  "parse_stack_entries [] = Inr []"
| "parse_stack_entries (e # es) =
     (case int_of_text (strip (py_str (py_or (get e ''switch'') (get e ''switch_number'')))) of
        None \<Rightarrow> parse_stack_entries es
      | Some n \<Rightarrow>
          bind_res (on_text_or_empty stack_role (get e ''role'')) (\<lambda>role.
          bind_res (on_text_or_empty stack_state (get e ''state'')) (\<lambda>state.
          bind_res (parse_stack_entries es) (\<lambda>ms.
            Inr (\<lparr>mb_switch = n, mb_role = role, mb_mac = py_or (py_or (get e ''mac'') (get e ''mac_address'')) (PyStr []),
              mb_priority = py_int (get e ''priority''), mb_version = get e ''version'', mb_state = state\<rparr> # ms)))))"

text \<open>\<^verbatim>\<open>_parse_stack_members\<close> on the parsed rows and the raw text of a command.\<close>

definition parse_stack_members :: "pyval \<Rightarrow> string \<Rightarrow> exn + member list" where
  "parse_stack_members parsed raw =
     (if truthy parsed
      then bind_res (parse_stack_entries (dicts_of (listed parsed)))
        (\<lambda>ms. Inr (if ms = [] then parse_stack_raw raw else ms))
      else Inr (parse_stack_raw raw))"

section \<open>Transceivers\<close>

record transceiver =
  tr_name :: string
  tr_description :: "string option"
  tr_serial :: string

text \<open>\<^verbatim>\<open>_has_valid_serial\<close>\<close>

definition has_valid_serial :: "string option \<Rightarrow> bool" where
  "has_valid_serial v =
     (let serial = strip (or_empty v)
      in if serial = [] then False
         else if upper serial \<in> set [''N/A'', ''UNKNOWN'', ''N''] then False
         else \<not> startswith (upper serial) ''UNKNOWN:'')"

definition transceiver_name :: "string option \<Rightarrow> string option \<Rightarrow> string option \<Rightarrow> string" where
  "transceiver_name ifc typ serial =
     (if text_true ifc then ''Transceiver '' @ or_empty ifc
      else if text_true typ then ''Transceiver '' @ or_empty typ
      else if text_true serial then ''Transceiver '' @ or_empty serial
      else ''Transceiver'')"

definition transceiver_description :: "string option \<Rightarrow> string option \<Rightarrow> string option \<Rightarrow> string option" where
  "transceiver_description typ vendor part =
     (let parts = (if text_true typ then [or_empty typ] else []);
          parts = (if text_true vendor \<and> or_empty vendor \<notin> set parts then parts @ [or_empty vendor] else parts);
          parts = (if text_true part then parts @ [''PN '' @ or_empty part] else parts)
      in if parts = [] then None else Some (join '' / '' parts))"

definition first_match :: "entry \<Rightarrow> string list \<Rightarrow> string option" where
  "first_match e ks = first_some (\<lambda>k. case get e k of PyStr s \<Rightarrow> non_empty (strip s) | _ \<Rightarrow> None) ks"

text \<open>What the fields of a row say of the presence of a transceiver; absent fields mean present.\<close>

definition presence :: "pyval \<Rightarrow> bool option" where
  "presence v = (case v of
      PyStr s \<Rightarrow> (let l = lower s
        in if contains l ''not present'' \<or> contains l ''absent'' \<or> l = ''no'' then Some False
           else if contains l ''present'' \<or> l \<in> set [''yes'', ''true''] then Some True else None)
    | PyBool b \<Rightarrow> Some b
    | _ \<Rightarrow> None)"

definition is_transceiver_present :: "entry \<Rightarrow> bool" where
  "is_transceiver_present e = (case first_some (\<lambda>k. presence (get e k)) [''present'', ''transceiver'', ''status'', ''state''] of
     None \<Rightarrow> True | Some b \<Rightarrow> b)"

definition entry_transceiver :: "entry \<Rightarrow> transceiver option" where
  "entry_transceiver e =
     (if \<not> is_transceiver_present e then None
      else
        let ifc0 = first_match e [''interface'', ''port'', ''intf'', ''interface_name''];
            vendor = (case get e ''name'' of PyStr s \<Rightarrow> s | _ \<Rightarrow> []);
            ifc = (if ifc0 \<noteq> None then ifc0 else if looks_like_interface vendor then Some vendor else None);
            typ = first_match e [''type'', ''module_type'', ''transceiver'', ''product_id'', ''pid''];
            serial = first_match e [''serial'', ''serial_number'', ''sn''];
            part = first_match e [''part_number'', ''part'', ''partnum'', ''pn'']
        in if \<not> has_valid_serial serial then None
           else Some \<lparr>tr_name = transceiver_name ifc typ serial,
             tr_description = transceiver_description typ (Some vendor) part, tr_serial = or_empty serial\<rparr>)"

definition transceivers_from_parsed :: "pyval \<Rightarrow> transceiver list" where
  "transceivers_from_parsed parsed = List.map_filter entry_transceiver (dicts_of (listed parsed))"

text \<open>The sections of the raw text, latest first: the head is the one being read.\<close>

record raw_port =
  rp_interface :: string
  rp_present :: "bool option"
  rp_type :: "string option"
  rp_serial :: "string option"
  rp_vendor :: "string option"
  rp_part :: "string option"

definition phrase_rx :: "string \<Rightarrow> rx" where
  "phrase_rx p = seqs [lit_ci p, Many is_space, Cap 1 (Many1 any_char), Eos]"

definition phrase_value :: "string \<Rightarrow> string \<Rightarrow> string option \<Rightarrow> string option" where
  "phrase_value p line old = (case rx_search (phrase_rx p) line of
     None \<Rightarrow> old | Some g \<Rightarrow> Some (strip (group_text g 1)))"

definition port_line :: "string \<Rightarrow> raw_port \<Rightarrow> raw_port" where
  "port_line line p =
     (let l = lower line;
          p = (if contains l ''transceiver is present'' then p\<lparr>rp_present := Some True\<rparr>
               else if contains l ''transceiver is not present'' then p\<lparr>rp_present := Some False\<rparr> else p)
      in if contains l ''type is'' then p\<lparr>rp_type := phrase_value ''type is'' line (rp_type p)\<rparr>
         else if contains l ''serial number is'' then p\<lparr>rp_serial := phrase_value ''serial number is'' line (rp_serial p)\<rparr>
         else if contains l ''name is'' then p\<lparr>rp_vendor := phrase_value ''name is'' line (rp_vendor p)\<rparr>
         else if contains l ''part number is'' then p\<lparr>rp_part := phrase_value ''part number is'' line (rp_part p)\<rparr>
         else p)"

definition new_port :: "string \<Rightarrow> raw_port" where
  "new_port i = \<lparr>rp_interface = i, rp_present = None, rp_type = None, rp_serial = None, rp_vendor = None, rp_part = None\<rparr>"

definition section_line :: "raw_port list \<Rightarrow> string \<Rightarrow> raw_port list" where
  "section_line ps line =
     (if strip line = [] then ps
      else if startswith line '' '' \<or> startswith line [char_of (9::nat)]
      then (case ps of [] \<Rightarrow> [] | p # rest \<Rightarrow> port_line (strip line) p # rest)
      else if looks_like_interface (strip line) then new_port (strip line) # ps
      else ps)"

definition nth_text :: "string list \<Rightarrow> nat \<Rightarrow> string" where
  "nth_text ps n = (case drop n ps of [] \<Rightarrow> [] | p # _ \<Rightarrow> p)"

text \<open>
  The tabular fallback. A line that is kept looks like one interface name, so it has one column.
\<close>

definition table_line :: "string \<Rightarrow> raw_port option" where
  "table_line line =
     (if strip line = [] \<or> startswith (lower line) ''interface'' \<or> \<not> looks_like_interface (strip line) then None
      else let parts = filter (\<lambda>p. p \<noteq> []) (split_columns (strip line))
        in if parts = [] \<or> (\<exists>p \<in> set parts. contains (lower p) ''not present'') then None
           else Some \<lparr>rp_interface = hd parts, rp_present = None, rp_type = Some (nth_text parts 1),
             rp_serial = Some (nth_text parts 4), rp_vendor = Some (nth_text parts 2), rp_part = Some (nth_text parts 3)\<rparr>)"

definition port_transceiver :: "raw_port \<Rightarrow> transceiver option" where
  "port_transceiver p =
     (if rp_present p = Some False \<or> \<not> has_valid_serial (rp_serial p) then None
      else Some \<lparr>tr_name = transceiver_name (Some (rp_interface p)) (rp_type p) (rp_serial p),
        tr_description = transceiver_description (rp_type p) (rp_vendor p) (rp_part p), tr_serial = or_empty (rp_serial p)\<rparr>)"

definition transceivers_from_raw :: "string \<Rightarrow> transceiver list" where
  "transceivers_from_raw raw =
     (let ports = rev (foldl section_line [] (splitlines raw));
          ports = (if ports = [] \<and> raw \<noteq> [] then List.map_filter table_line (splitlines raw) else ports)
      in List.map_filter port_transceiver ports)"

definition parse_transceivers :: "pyval \<Rightarrow> string \<Rightarrow> transceiver list" where
  "parse_transceivers parsed raw =
     (if truthy parsed \<and> transceivers_from_parsed parsed \<noteq> [] then transceivers_from_parsed parsed
      else transceivers_from_raw raw)"

section \<open>What the readers guarantee\<close>

lemma has_valid_serial_iff: "has_valid_serial v \<longleftrightarrow> normalize_serial v \<noteq> None"
  by (cases v) (auto simp: has_valid_serial_def normalize_serial_def invalid_serials_def Let_def)

lemma shorten_hit:
  "lower p = lower (fst u) \<Longrightarrow> shorten u (p @ r) = snd u @ r"
  by (auto simp: shorten_def dest: arg_cong [where f = length])

lemma shorten_miss: "\<not> prefix (lower (fst u)) (lower n) \<Longrightarrow> shorten u n = n"
  by (simp add: shorten_def)

text \<open>A rest that no long name can reach into: it starts with a digit.\<close>

definition port_rest :: "string \<Rightarrow> bool" where
  "port_rest r \<longleftrightarrow> r \<noteq> [] \<and> is_digit (hd r) \<and> \<not> is_space (last r)"

lemma digit_lower: "is_digit c \<Longrightarrow> char_lower c = c"
  by (auto simp: is_digit_def char_lower_def)

lemma short_names_stay:
  assumes "u \<in> set iface_prefixes" and "v \<in> set iface_prefixes" and "port_rest r"
  shows "shorten u (snd v @ r) = snd v @ r"
proof (rule shorten_miss)
  obtain c t where r: "r = c # t" and c: "is_digit c" using assms(3) by (cases r) (auto simp: port_rest_def)
  have "char_lower c = c" using c by (rule digit_lower)
  moreover have "c \<notin> set ''abcdefghijklmnopqrstuvwxyz-''" using c by (auto simp: is_digit_def)
  ultimately show "\<not> prefix (lower (fst u)) (lower (snd v @ r))"
    using assms(1,2) by (auto simp: iface_prefixes_def r char_lower_def)
qed

lemma long_names_apart:
  "\<forall>u \<in> set iface_prefixes. \<forall>v \<in> set iface_prefixes. u \<noteq> v \<longrightarrow> \<not> prefix (lower (fst u)) (lower (fst v))"
  by code_simp

lemma long_names_stay:
  assumes "u \<in> set iface_prefixes" and "v \<in> set iface_prefixes" and "u \<noteq> v"
    and "lower p = lower (fst v)"
  shows "shorten u (p @ r) = p @ r"
proof (rule shorten_miss, rule notI)
  assume "prefix (lower (fst u)) (lower (p @ r))"
  then have "prefix (lower (fst u)) (lower (fst v)) \<or> prefix (lower (fst v)) (lower (fst u))"
    using prefix_same_cases [of "lower (fst u)" "lower (p @ r)" "lower (fst v)"] by (simp add: assms(4))
  with long_names_apart assms(1,2,3) show False by metis
qed

lemma fold_shorten_short:
  "set us \<subseteq> set iface_prefixes \<Longrightarrow> v \<in> set iface_prefixes \<Longrightarrow> port_rest r \<Longrightarrow>
     fold shorten us (snd v @ r) = snd v @ r"
  by (induction us) (auto simp: short_names_stay)

lemma fold_shorten_long:
  assumes "set us \<subseteq> set iface_prefixes" and "v \<in> set us" and "lower p = lower (fst v)" and "port_rest r"
  shows "fold shorten us (p @ r) = snd v @ r"
  using assms(1,2)
proof (induction us)
  case (Cons u us)
  then have v: "v \<in> set iface_prefixes" by auto
  show ?case
  proof (cases "u = v")
    case True
    with Cons.prems show ?thesis by (simp add: shorten_hit [OF assms(3)] fold_shorten_short v assms(4))
  next
    case False
    with Cons v show ?thesis by (simp add: long_names_stay [OF _ v False assms(3)])
  qed
qed simp

lemma named_head:
  assumes "v \<in> set iface_prefixes" and "lower p = lower (fst v) \<or> p = snd v"
  shows "p \<noteq> [] \<and> \<not> is_space (hd p)"
proof -
  from assms have low: "lower p \<noteq> [] \<and> \<not> is_space (hd (lower p))"
    by (auto simp: iface_prefixes_def is_space_def char_lower_def)
  then have "p \<noteq> []" by auto
  then have "hd (lower p) = char_lower (hd p)" by (simp add: lower_def hd_map)
  with low \<open>p \<noteq> []\<close> show ?thesis by simp
qed

lemma named_trimmed:
  assumes "v \<in> set iface_prefixes" and "lower p = lower (fst v) \<or> p = snd v" and "port_rest r"
  shows "strip (p @ r) = p @ r" "p @ r \<noteq> []"
  using named_head [OF assms(1,2)] assms(3)
  by (auto simp: strip_trimmed trimmed_def port_rest_def)

text \<open>
  All spellings of an interface get one name: for each long name of the table, in any letter
  case, followed by a port that starts with a digit, and for its short name with that port, the
  normalised name is the short name with the port, so that the rows that different commands print
  for one interface meet under one key.
\<close>

theorem iface_spellings_agree:
  assumes "(long, short) \<in> set iface_prefixes" and "lower p = lower long" and "port_rest r"
  shows "normalize_iface (p @ r) = short @ r \<and> normalize_iface (short @ r) = short @ r"
proof (rule conjI)
  have "fold shorten iface_prefixes (p @ r) = snd (long, short) @ r"
    using assms by (intro fold_shorten_long) auto
  then show "normalize_iface (p @ r) = short @ r"
    using named_trimmed [OF assms(1) _ assms(3), of p] assms(2) by (simp del: append_is_Nil_conv add: normalize_iface_def)
  have "fold shorten iface_prefixes (snd (long, short) @ r) = snd (long, short) @ r"
    using assms by (intro fold_shorten_short) auto
  then show "normalize_iface (short @ r) = short @ r"
    using named_trimmed [OF assms(1) _ assms(3), of short] by (simp del: append_is_Nil_conv add: normalize_iface_def)
qed

theorem iface_spellings_agree_witness:
  "normalize_iface (''GIGABITethernet'' @ ''1/0/24'') = ''Gi'' @ ''1/0/24''"
  by (rule iface_spellings_agree [THEN conjunct1, of "''GigabitEthernet''"]; code_simp)

end
