(* ===== verification/SyncModules.thy ===== *)
theory SyncModules
  imports SyncParse Devices Discovery
begin

text \<open>
  The part of \<^verbatim>\<open>network/services/sync_service.py\<close> that writes what a device reports
  of itself: version and serial number, the inventory of its modules, its device type, its
  transceivers and its stack members. Serial numbers move between devices and the storage, so the
  inventory of one device deletes rows of others; the theorems say which.
\<close>

section \<open>What a synchronisation is given\<close>

text \<open>
  The clock, the identifiers that new rows get, the rows that the TextFSM engine reads from a text
  under a template (\<^verbatim>\<open>None\<close> when it raises or finds none) and the digest.
\<close>

record sync_env =
  se_now :: moment
  se_module_id :: "string \<Rightarrow> string option \<Rightarrow> uid"
  se_iface_id :: "string \<Rightarrow> uid"
  se_fsm :: "string \<Rightarrow> string \<Rightarrow> pyval"
  se_sha256 :: "string \<Rightarrow> string"

text \<open>The result of a command on the device.\<close>

record cmd_result =
  cr_raw :: string
  cr_parsed :: pyval
  cr_error :: "string option"

text \<open>\<^verbatim>\<open>for entry in parsed: entry.get(...)\<close> over rows of unknown type.\<close>

definition each_row :: "('s \<Rightarrow> entry \<Rightarrow> exn + 's) \<Rightarrow> 's \<Rightarrow> pyval \<Rightarrow> exn + 's" where
  "each_row f s v =
     (if \<not> truthy v then Inr s
      else bind_res (iterate v) (fold_res (\<lambda>s x. bind_res (as_dict x) (f s)) s))"

lemma each_row_invariant:
  assumes "each_row f s v = Inr t" and "I s" and "\<And>u e w. I u \<Longrightarrow> f u e = Inr w \<Longrightarrow> I w"
  shows "I t"
proof (cases "truthy v")
  case True
  with assms(1) obtain xs where "fold_res (\<lambda>s x. bind_res (as_dict x) (f s)) s xs = Inr t"
    by (auto simp: each_row_def bind_res_eq_Inr)
  then show ?thesis
    by (rule fold_res_invariant [where I = I]) (auto simp: assms bind_res_eq_Inr)
qed (use assms in \<open>simp add: each_row_def\<close>)

definition normalize_serial_val :: "pyval \<Rightarrow> string option" where
  "normalize_serial_val v = (if v = PyNone then None else normalize_serial (Some (py_str v)))"

definition is_aci_leaf_spine :: "device \<Rightarrow> bool" where
  "is_aci_leaf_spine dev \<longleftrightarrow> contains (lower (dev_name dev)) ''leaf'' \<or> contains (lower (dev_name dev)) ''spine''"

section \<open>Version\<close>

record version_info =
  vi_serial :: pyval
  vi_image :: pyval
  vi_uptime :: "int option"

definition first_serial :: "pyval \<Rightarrow> pyval" where
  "first_serial v = (case v of PyList (x # _) \<Rightarrow> x | PyList [] \<Rightarrow> PyStr [] | _ \<Rightarrow> v)"

definition version_entry :: "entry \<Rightarrow> exn + version_info" where
  "version_entry e =
     bind_res (parse_uptime (get e ''uptime'')) (\<lambda>up.
       Inr \<lparr>vi_serial = first_serial (get_or e [''serial'', ''serial_number'']),
         vi_image = get_or e [''version'', ''running_image'', ''os''],
         vi_uptime = (if up = None then uptime_from_parts e else up)\<rparr>)"

definition version_info_of :: "pyval \<Rightarrow> string \<Rightarrow> exn + version_info" where
  "version_info_of parsed raw =
     bind_res (case parsed of PyList (x # _) \<Rightarrow> bind_res (as_dict x) version_entry
               | _ \<Rightarrow> Inr \<lparr>vi_serial = PyNone, vi_image = PyNone, vi_uptime = None\<rparr>) (\<lambda>i.
       Inr \<lparr>vi_serial = (if truthy (vi_serial i) then vi_serial i else PyStr (parse_serial_from_text raw)),
         vi_image = (if truthy (vi_image i) then vi_image i
           else case parse_image_from_text raw of None \<Rightarrow> PyNone | Some s \<Rightarrow> PyStr s),
         vi_uptime = (if vi_uptime i = None then parse_uptime_text (extract_uptime_line raw) else vi_uptime i)\<rparr>)"

text \<open>
  \<^verbatim>\<open>_apply_version\<close>: the device as it is saved, and the database. The runtime status
  is saved with the fields that the caller set before.
\<close>

definition versioned :: "sync_env \<Rightarrow> version_info \<Rightarrow> device \<Rightarrow> device" where
  "versioned env i dev =
     (let dev = dev\<lparr>dev_last_seen := Some (se_now env)\<rparr>;
          dev = (case normalize_serial_val (vi_serial i) of None \<Rightarrow> dev | Some s \<Rightarrow> dev\<lparr>dev_serial := Some s\<rparr>);
          dev = (if truthy (vi_image i) then dev\<lparr>dev_image := Some (py_str (vi_image i))\<rparr> else dev)
      in case vi_uptime i of None \<Rightarrow> dev
         | Some n \<Rightarrow> dev\<lparr>dev_uptime := Some n, dev_last_reboot := Some (se_now env - n)\<rparr>)"

definition aci_template :: string where
  "aci_template = ''cisco_nxos_aci_show_version.textfsm''"

definition apply_version :: "sync_env \<Rightarrow> device \<Rightarrow> cmd_result \<Rightarrow> db \<Rightarrow> exn + (device \<times> db)" where
  "apply_version env dev r d =
     (let parsed = (if is_aci_leaf_spine dev \<and> cr_raw r \<noteq> [] then py_or (se_fsm env aci_template (cr_raw r)) (cr_parsed r)
          else cr_parsed r)
      in bind_res (version_info_of parsed (cr_raw r)) (\<lambda>i.
         let dev' = versioned env i dev;
             d = (case vi_uptime i of None \<Rightarrow> d
               | Some n \<Rightarrow> touch_runtime (dev_id dev) (\<lambda>t. t\<lparr>rt_uptime := Some n\<rparr>) d)
         in bind_res (save_device d dev') (\<lambda>d. Inr (dev', d))))"

section \<open>Inventory\<close>

text \<open>The priority of the name of an entry, compared as the tuple of the code.\<close>

datatype priority = Priority (prio_score: int) (prio_length: nat)

instantiation priority :: linorder
begin

definition less_eq_priority :: "priority \<Rightarrow> priority \<Rightarrow> bool" where
  "less_eq_priority p q \<longleftrightarrow> prio_score p < prio_score q \<or> (prio_score p = prio_score q \<and> prio_length p \<le> prio_length q)"

definition less_priority :: "priority \<Rightarrow> priority \<Rightarrow> bool" where
  "less_priority p q \<longleftrightarrow> prio_score p < prio_score q \<or> (prio_score p = prio_score q \<and> prio_length p < prio_length q)"

instance
  by standard (auto simp: less_eq_priority_def less_priority_def prod_eq_iff intro: priority.expand)

end

definition name_priority :: "string \<Rightarrow> string \<Rightarrow> priority" where
  "name_priority name descr =
     Priority ((if startswith (lower name) ''switch '' then 3 else 0)
         - (if contains (lower name) ''stack'' \<or> contains (lower descr) ''stack'' then 2 else 0))
       (length name)"

record inv_entry =
  ie_name :: string
  ie_descr :: string
  ie_serial :: string
  ie_priority :: priority

type_synonym serial_entries = "(string \<times> inv_entry) list"

definition keep_better :: "inv_entry \<Rightarrow> serial_entries \<Rightarrow> serial_entries" where
  "keep_better e ses =
     (case map_of ses (upper (ie_serial e)) of
        None \<Rightarrow> dict_put (upper (ie_serial e)) e ses
      | Some old \<Rightarrow> if ie_priority e > ie_priority old then dict_put (upper (ie_serial e)) e ses else ses)"

text \<open>One row of the inventory: an entry with a serial number, or a name without one.\<close>

definition inventory_row :: "serial_entries \<times> string list \<Rightarrow> entry \<Rightarrow> exn + (serial_entries \<times> string list)" where
  "inventory_row acc e =
     bind_res (str_method ''strip'' strip (py_or (get e ''name'') (py_or (get e ''descr'') (PyStr ''Module'')))) (\<lambda>name.
       case normalize_serial_val (py_or (get_or e [''sn'', ''serial'']) PyNone) of
         None \<Rightarrow> Inr (fst acc, name # snd acc)
       | Some serial \<Rightarrow>
           bind_res (str_method ''lower'' (\<lambda>s. s) (py_or (get e ''descr'') (PyStr []))) (\<lambda>descr.
             Inr (keep_better \<lparr>ie_name = name, ie_descr = descr, ie_serial = serial,
                 ie_priority = name_priority name descr\<rparr> (fst acc), snd acc)))"

definition inventory_rows :: "pyval \<Rightarrow> exn + (serial_entries \<times> string list)" where
  "inventory_rows v = each_row inventory_row ([], []) v"

definition remove_storage_duplicates :: "string \<Rightarrow> db \<Rightarrow> db" where
  "remove_storage_duplicates s d =
     d\<lparr>t_inventory := filter (\<lambda>i. case inv_serial i of None \<Rightarrow> True | Some t \<Rightarrow> \<not> iexact t s) (t_inventory d)\<rparr>"

definition reconcile_serial :: "uid \<Rightarrow> string \<Rightarrow> string \<Rightarrow> db \<Rightarrow> db" where
  "reconcile_serial dev name s d =
     (let d = remove_storage_duplicates s d
      in d\<lparr>t_modules := filter (\<lambda>m. (case mod_serial m of None \<Rightarrow> True | Some t \<Rightarrow> \<not> iexact t s) \<or>
            (mod_device m = dev \<and> mod_name m = name)) (t_modules d)\<rparr>)"

text \<open>\<^verbatim>\<open>update_or_create\<close> by a lookup that need not be unique.\<close>

definition update_or_create :: "string \<Rightarrow> ('r \<Rightarrow> bool) \<Rightarrow> 'r \<Rightarrow> ('r \<Rightarrow> 'r) \<Rightarrow> 'r list \<Rightarrow> exn + 'r list" where
  "update_or_create model p new upd rs =
     (if 2 \<le> length (filter p rs)
      then Inl (MultipleObjectsReturned (''get() returned more than one '' @ model))
      else Inr (upsert p new upd rs))"

definition put_module :: "sync_env \<Rightarrow> uid \<Rightarrow> inv_entry \<Rightarrow> db \<Rightarrow> exn + db" where
  "put_module env dev e d =
     bind_res (update_or_create ''DeviceModule'' (\<lambda>m. mod_device m = dev \<and> mod_name m = ie_name e \<and> mod_serial m = Some (ie_serial e))
         ((new_module (se_module_id env (ie_name e) (Some (ie_serial e))) dev (ie_name e))
           \<lparr>mod_serial := Some (ie_serial e), mod_description := Some (ie_descr e)\<rparr>)
         (\<lambda>m. m\<lparr>mod_description := Some (ie_descr e), mod_vendor := None\<rparr>) (t_modules d))
       (\<lambda>ms. Inr (d\<lparr>t_modules := ms\<rparr>))"

definition store_entry :: "sync_env \<Rightarrow> uid \<Rightarrow> db \<Rightarrow> string \<times> inv_entry \<Rightarrow> exn + db" where
  "store_entry env dev d ke =
     put_module env dev (snd ke) (reconcile_serial dev (ie_name (snd ke)) (ie_serial (snd ke)) d)"

definition blank :: "string option \<Rightarrow> bool" where
  "blank s \<longleftrightarrow> s = None \<or> s = Some []"

definition transceiver_named :: "dev_module \<Rightarrow> bool" where
  "transceiver_named m \<longleftrightarrow> startswith (mod_name m) ''Transceiver ''"

definition drop_unseen :: "uid \<Rightarrow> (string \<times> string) list \<Rightarrow> db \<Rightarrow> db" where
  "drop_unseen dev seen d =
     (if seen = [] then d
      else d\<lparr>t_modules := filter (\<lambda>m. \<not> (mod_device m = dev \<and> \<not> blank (mod_serial m) \<and> \<not> transceiver_named m
           \<and> (mod_name m, or_empty (mod_serial m)) \<notin> set seen)) (t_modules d)\<rparr>)"

definition drop_named_blank :: "uid \<Rightarrow> string list \<Rightarrow> db \<Rightarrow> db" where
  "drop_named_blank dev names d =
     d\<lparr>t_modules := filter (\<lambda>m. \<not> (mod_device m = dev \<and> mod_name m \<in> set names \<and> blank (mod_serial m))) (t_modules d)\<rparr>"

definition seen_keys :: "serial_entries \<Rightarrow> (string \<times> string) list" where
  "seen_keys ses = map (\<lambda>ke. (ie_name (snd ke), ie_serial (snd ke))) ses"

definition apply_inventory :: "sync_env \<Rightarrow> device \<Rightarrow> cmd_result \<Rightarrow> db \<Rightarrow> exn + db" where
  "apply_inventory env dev r d =
     (if \<not> truthy (cr_parsed r) then Inr d
      else bind_res (inventory_rows (cr_parsed r)) (\<lambda>(ses, nos).
        bind_res (fold_res (store_entry env (dev_id dev)) d ses) (\<lambda>d.
          Inr (drop_named_blank (dev_id dev) nos (drop_unseen (dev_id dev) (seen_keys ses) d)))))"

section \<open>Device type\<close>

definition matching_type :: "db \<Rightarrow> device \<Rightarrow> string \<Rightarrow> device_type option" where
  "matching_type d dev model =
     first_row (\<lambda>t. iexact (dt_model t) model \<and>
        (case fk (find_type d) (dev_type dev) of None \<Rightarrow> True | Some old \<Rightarrow> dt_vendor t = dt_vendor old)) (t_types d)"

definition update_device_type :: "device \<Rightarrow> pyval \<Rightarrow> pyval \<Rightarrow> db \<Rightarrow> exn + (device \<times> db)" where
  "update_device_type dev version inventory d =
     (let found = model_from_inventory inventory (dev_serial dev);
          model = (if found = None then extract_model_from_version version else found)
      in case (if text_true model then matching_type d dev (or_empty model) else None) of
           None \<Rightarrow> Inr (dev, d)
         | Some t \<Rightarrow>
             if dev_type dev = Some (dt_id t) then Inr (dev, d)
             else let dev = dev\<lparr>dev_type := Some (dt_id t)\<rparr> in bind_res (save_device d dev) (\<lambda>d. Inr (dev, d)))"

section \<open>Transceivers\<close>

definition put_transceiver :: "sync_env \<Rightarrow> uid \<Rightarrow> db \<Rightarrow> transceiver \<Rightarrow> exn + db" where
  "put_transceiver env dev d t =
     (let s = normalize_serial (Some (tr_serial t));
          d = (case s of None \<Rightarrow> d | Some v \<Rightarrow> reconcile_serial dev (tr_name t) v d)
      in bind_res (update_or_create ''DeviceModule'' (\<lambda>m. mod_device m = dev \<and> mod_name m = tr_name t)
             ((new_module (se_module_id env (tr_name t) s) dev (tr_name t))
               \<lparr>mod_serial := s, mod_description := tr_description t\<rparr>)
             (\<lambda>m. m\<lparr>mod_description := tr_description t, mod_serial := s, mod_vendor := None\<rparr>) (t_modules d))
           (\<lambda>ms. Inr (d\<lparr>t_modules := ms\<rparr>)))"

definition apply_transceivers :: "sync_env \<Rightarrow> device \<Rightarrow> cmd_result \<Rightarrow> db \<Rightarrow> exn + db" where
  "apply_transceivers env dev r d =
     (let ts = parse_transceivers (cr_parsed r) (cr_raw r)
      in bind_res (fold_res (put_transceiver env (dev_id dev)) d ts) (\<lambda>d.
           Inr (if ts = [] then d
             else d\<lparr>t_modules := filter (\<lambda>m. \<not> (mod_device m = dev_id dev \<and> transceiver_named m
                 \<and> mod_name m \<notin> tr_name ` set ts)) (t_modules d)\<rparr>)))"

section \<open>Stack members\<close>

definition opt_text :: "pyval \<Rightarrow> string option" where
  "opt_text v = (if v = PyNone then None else Some (py_str v))"

definition make_member :: "uid \<times> int \<Rightarrow> member \<Rightarrow> stack_member" where
  "make_member k m = \<lparr>sm_device = fst k, sm_switch = snd k, sm_role = mb_role m, sm_mac = py_str (mb_mac m),
     sm_priority = mb_priority m, sm_version = opt_text (mb_version m), sm_state = mb_state m\<rparr>"

definition change_member :: "member \<Rightarrow> stack_member \<Rightarrow> stack_member" where
  "change_member m r = r\<lparr>sm_role := mb_role m, sm_mac := py_str (mb_mac m),
     sm_priority := mb_priority m, sm_version := opt_text (mb_version m), sm_state := mb_state m\<rparr>"

definition member_key :: "stack_member \<Rightarrow> uid \<times> int" where
  "member_key r = (sm_device r, sm_switch r)"

definition put_member :: "uid \<times> int \<Rightarrow> member \<Rightarrow> stack_member list \<Rightarrow> stack_member list" where
  "put_member k m rs = upsert (\<lambda>r. member_key r = k) (make_member k m) (change_member m) rs"

definition apply_stack_members :: "device \<Rightarrow> cmd_result \<Rightarrow> db \<Rightarrow> exn + (device \<times> db)" where
  "apply_stack_members dev r d =
     bind_res (parse_stack_members (cr_parsed r) (cr_raw r)) (\<lambda>ms.
       let seen = map mb_switch ms;
           rows = put_all put_member (map (\<lambda>m. ((dev_id dev, mb_switch m), m)) ms) (t_stacks d);
           rows = (if seen = [] then rows
             else filter (\<lambda>x. \<not> (sm_device x = dev_id dev \<and> sm_switch x \<notin> set seen)) rows);
           d = d\<lparr>t_stacks := rows\<rparr>;
           stacked = (1 < length seen)
       in bind_res (if dev_stacked dev \<noteq> stacked
             then (let dev = dev\<lparr>dev_stacked := stacked\<rparr> in bind_res (save_device d dev) (\<lambda>d. Inr (dev, d)))
             else Inr (dev, d))
           (\<lambda>(dev, d). Inr (dev, refresh_rack (dev_rack dev) d)))"

interpretation stack_table: keyed_table member_key make_member change_member put_member
  by unfold_locales (auto simp: member_key_def make_member_def change_member_def put_member_def)

end
