(* ===== verification/SyncModulesProps.thy ===== *)
theory SyncModulesProps
  imports SyncModules
begin

text \<open>
  What the inventory, the stack and the transceivers of a device are after a synchronisation.
  A serial number is followed through the writes by the rows that hold it up to letter case.
\<close>

section \<open>The entries of an inventory\<close>

definition entries_ok :: "serial_entries \<Rightarrow> bool" where
  "entries_ok ses \<longleftrightarrow> distinct (map fst ses) \<and> (\<forall>(k, e) \<in> set ses. k = upper (ie_serial e) \<and> ie_serial e \<noteq> [])"

lemma entries_okD: "entries_ok ses \<Longrightarrow> (k, e) \<in> set ses \<Longrightarrow> k = upper (ie_serial e) \<and> ie_serial e \<noteq> []"
  by (auto simp: entries_ok_def)

lemma upper_Nil_iff [simp]: "upper s = [] \<longleftrightarrow> s = []" "[] = upper s \<longleftrightarrow> s = []"
  by (auto simp: upper_def)

lemma normalize_serial_val_Some: "normalize_serial_val v = Some s \<Longrightarrow> s \<noteq> []"
  by (auto simp: normalize_serial_val_def dest: normalize_serial_Some split: if_splits)

lemma keep_better_ok:
  assumes "entries_ok ses" and "ie_serial e \<noteq> []"
  shows "entries_ok (keep_better e ses)"
  using assms unfolding entries_ok_def keep_better_def
  by (auto simp: distinct_dict_put split: option.splits dest!: dict_put_in)

lemma inventory_row_cases:
  assumes "inventory_row acc e = Inr acc'"
  shows "\<exists>x. (fst acc' = fst acc \<and> snd acc' = x # snd acc) \<or>
    (\<exists>i. ie_serial i \<noteq> [] \<and> fst acc' = keep_better i (fst acc) \<and> snd acc' = snd acc)"
  using assms by (fastforce simp: inventory_row_def bind_res_eq_Inr dest: normalize_serial_val_Some split: option.splits)

lemma inventory_rows_ok: "inventory_rows v = Inr (ses, nos) \<Longrightarrow> entries_ok ses"
  unfolding inventory_rows_def
proof (drule each_row_invariant [where I = "\<lambda>acc. entries_ok (fst acc)"])
  show "entries_ok (fst ([] :: serial_entries, [] :: string list))" by (simp add: entries_ok_def)
next
  fix u e w assume "entries_ok (fst u)" and "inventory_row u e = Inr w"
  then show "entries_ok (fst w)" using inventory_row_cases [of u e w] by (auto simp: keep_better_ok)
qed simp

section \<open>Who holds a serial number\<close>

definition holds :: "string \<Rightarrow> dev_module \<Rightarrow> bool" where
  "holds s m \<longleftrightarrow> (case mod_serial m of None \<Rightarrow> False | Some t \<Rightarrow> iexact t s)"

definition entry_key :: "uid \<Rightarrow> inv_entry \<Rightarrow> dev_module \<Rightarrow> bool" where
  "entry_key dev e m \<longleftrightarrow> mod_device m = dev \<and> mod_name m = ie_name e \<and> mod_serial m = Some (ie_serial e)"

lemma entry_key_holds: "entry_key dev e m \<Longrightarrow> holds (ie_serial e) m"
  by (simp add: entry_key_def holds_def)

text \<open>The rows with a serial number all sit in one slot, and one of them spells it exactly.\<close>

definition settled :: "uid \<Rightarrow> inv_entry \<Rightarrow> db \<Rightarrow> bool" where
  "settled dev e d \<longleftrightarrow>
     (\<forall>m \<in> set (t_modules d). holds (ie_serial e) m \<longrightarrow> mod_device m = dev \<and> mod_name m = ie_name e) \<and>
     length (filter (entry_key dev e) (t_modules d)) = 1 \<and>
     find_serial_item d (ie_serial e) = []"

lemma reconcile_modules:
  "t_modules (reconcile_serial dev name s d) =
     filter (\<lambda>m. \<not> holds s m \<or> (mod_device m = dev \<and> mod_name m = name)) (t_modules d)"
  unfolding reconcile_serial_def Let_def remove_storage_duplicates_def holds_def
  by (auto intro!: filter_cong split: option.splits)

lemma reconcile_items:
  "t_inventory (reconcile_serial dev name s d) =
     filter (\<lambda>i. case inv_serial i of None \<Rightarrow> True | Some t \<Rightarrow> \<not> iexact t s) (t_inventory d)"
  by (simp add: reconcile_serial_def remove_storage_duplicates_def)

lemma length_filter_upsert:
  assumes "length (filter p rs) < 2" and "p new" and "\<And>r. r \<in> set rs \<Longrightarrow> p r \<Longrightarrow> p (upd r)"
  shows "length (filter p (upsert p new upd rs)) = 1"
  using assms by (induction rs) (auto simp: filter_empty_conv)

lemma filter_upsert_other:
  assumes "\<not> q new" and "\<And>r. p r \<Longrightarrow> \<not> q r" and "\<And>r. p r \<Longrightarrow> \<not> q (upd r)"
  shows "filter q (upsert p new upd rs) = filter q rs"
  using assms by (induction rs) auto

lemma put_module_modules:
  assumes "put_module env dev e d = Inr d'"
  shows "length (filter (entry_key dev e) (t_modules d)) < 2 \<and> t_inventory d' = t_inventory d \<and>
    t_modules d' = upsert (entry_key dev e)
      ((new_module (se_module_id env (ie_name e) (Some (ie_serial e))) dev (ie_name e))
         \<lparr>mod_serial := Some (ie_serial e), mod_description := Some (ie_descr e)\<rparr>)
      (\<lambda>m. m\<lparr>mod_description := Some (ie_descr e), mod_vendor := None\<rparr>) (t_modules d)"
proof -
  have "(\<lambda>m. mod_device m = dev \<and> mod_name m = ie_name e \<and> mod_serial m = Some (ie_serial e)) = entry_key dev e"
    by (simp add: fun_eq_iff entry_key_def)
  with assms show ?thesis
    by (auto simp: put_module_def update_or_create_def bind_res_eq_Inr split: if_splits)
qed

lemma store_entry_settles:
  assumes "store_entry env dev d (k, e) = Inr d'"
  shows "settled dev e d'"
proof -
  let ?d = "reconcile_serial dev (ie_name e) (ie_serial e) d"
  from assms have put: "put_module env dev e ?d = Inr d'" by (simp add: store_entry_def)
  note mods = put_module_modules [OF put]
  have "mod_device m = dev \<and> mod_name m = ie_name e" if "m \<in> set (t_modules d')" "holds (ie_serial e) m" for m
    using that mods in_upsert [of m]
    by (fastforce simp: reconcile_modules entry_key_def holds_def new_module_def)
  moreover have "length (filter (entry_key dev e) (t_modules d')) = 1"
    using mods by (simp del: One_nat_def, intro length_filter_upsert) (auto simp: entry_key_def new_module_def)
  moreover have "find_serial_item d' (ie_serial e) = []"
    using mods by (auto simp: find_serial_item_def filter_empty_conv reconcile_items split: option.splits)
  ultimately show ?thesis by (simp add: settled_def)
qed

text \<open>Storing an entry leaves the rows of the other serial numbers alone.\<close>

lemma store_entry_other:
  assumes "store_entry env dev d (k, e) = Inr d'" and "\<And>m. q m \<Longrightarrow> \<not> holds (ie_serial e) m"
  shows "filter q (t_modules d') = filter q (t_modules d)"
proof -
  let ?d = "reconcile_serial dev (ie_name e) (ie_serial e) d"
  from assms have put: "put_module env dev e ?d = Inr d'" by (simp add: store_entry_def)
  have no: "\<not> q m" if "mod_serial m = Some (ie_serial e)" for m
    using assms(2) [of m] that by (auto simp: holds_def)
  have "filter q (t_modules d') = filter q (t_modules ?d)"
    unfolding put_module_modules [OF put, THEN conjunct2, THEN conjunct2]
    by (rule filter_upsert_other) (auto intro!: no simp: entry_key_def)
  also have "\<dots> = filter q (t_modules d)"
    using assms(2) by (auto simp: reconcile_modules intro!: filter_cong)
  finally show ?thesis .
qed

lemma store_entry_items:
  assumes "store_entry env dev d (k, e) = Inr d'"
  shows "set (t_inventory d') \<subseteq> set (t_inventory d)"
  using put_module_modules [of env dev e "reconcile_serial dev (ie_name e) (ie_serial e) d" d'] assms
  by (auto simp: store_entry_def reconcile_items)

text \<open>After the loop every entry is settled, and other rows are as before.\<close>

lemma settled_other:
  assumes "settled dev e d" and "store_entry env dev d (k, x) = Inr d'" and "upper (ie_serial x) \<noteq> upper (ie_serial e)"
  shows "settled dev e d'"
proof -
  have not: "\<not> holds (ie_serial x) m" if "holds (ie_serial e) m" for m
    using that assms(3) by (auto simp: holds_def iexact_def split: option.splits)
  have "set (filter (holds (ie_serial e)) (t_modules d')) = set (filter (holds (ie_serial e)) (t_modules d))"
    by (subst store_entry_other [OF assms(2)]) (use not in blast)+
  then have "m \<in> set (t_modules d)" if "m \<in> set (t_modules d')" "holds (ie_serial e) m" for m
    using that by auto
  moreover have "filter (entry_key dev e) (t_modules d') = filter (entry_key dev e) (t_modules d)"
    by (rule store_entry_other [OF assms(2)]) (use not entry_key_holds in blast)
  moreover have "find_serial_item d' (ie_serial e) = []"
    using assms(1) store_entry_items [OF assms(2)]
    by (auto simp: settled_def find_serial_item_def filter_empty_conv)
  ultimately show ?thesis
    using assms(1) by (auto simp: settled_def)
qed

lemma loop_settles:
  assumes "fold_res (store_entry env dev) d ses = Inr d'" and "entries_ok ses"
  shows "(\<forall>(k, e) \<in> set ses. settled dev e d') \<and>
    (\<forall>q. (\<forall>m. q m \<longrightarrow> (\<forall>(k, e) \<in> set ses. \<not> holds (ie_serial e) m)) \<longrightarrow> filter q (t_modules d') = filter q (t_modules d))"
  using assms
proof (induction ses arbitrary: d)
  case (Cons ke ses)
  obtain k e where ke: "ke = (k, e)" by (cases ke)
  from Cons.prems(1) ke obtain d1 where step: "store_entry env dev d (k, e) = Inr d1"
    and rest: "fold_res (store_entry env dev) d1 ses = Inr d'" by (auto simp: bind_res_eq_Inr)
  have ok: "entries_ok ses" using Cons.prems(2) by (auto simp: entries_ok_def)
  note IH = Cons.IH [OF rest ok]
  have "settled dev e d'"
  proof (rule fold_res_invariant [where I = "settled dev e", OF rest store_entry_settles [OF step]])
    fix u x v assume x: "x \<in> set ses" and u: "settled dev e u" and v: "store_entry env dev u x = Inr v"
    obtain k' e' where x': "x = (k', e')" by (cases x)
    with x Cons.prems(2) ke have "upper (ie_serial e') \<noteq> upper (ie_serial e)"
      by (fastforce simp: entries_ok_def rev_image_eqI)
    with settled_other [OF u] v x' show "settled dev e v" by blast
  qed
  moreover have "filter q (t_modules d') = filter q (t_modules d)"
    if "\<forall>m. q m \<longrightarrow> (\<forall>(k, e) \<in> set (ke # ses). \<not> holds (ie_serial e) m)" for q
    using that IH store_entry_other [OF step, of q] ke by auto
  ultimately show ?case using IH ke by auto
qed simp

section \<open>The inventory after a synchronisation\<close>

definition listed_module :: "uid \<Rightarrow> dev_module \<Rightarrow> bool" where
  "listed_module dev m \<longleftrightarrow> mod_device m = dev \<and> \<not> blank (mod_serial m) \<and> \<not> transceiver_named m"

lemma find_item_nil_iff:
  "find_serial_item d s = [] \<longleftrightarrow> (\<forall>i \<in> set (t_inventory d). \<forall>t. inv_serial i = Some t \<longrightarrow> upper t \<noteq> upper s)"
  using no_serial_item [of "\<lambda>_. True"] by simp

lemma seen_iff:
  "\<not> blank (mod_serial m) \<Longrightarrow> mod_device m = dev \<Longrightarrow>
     (mod_name m, or_empty (mod_serial m)) \<in> set (seen_keys ses) \<longleftrightarrow> (\<exists>(k, e) \<in> set ses. entry_key dev e m)"
  by (cases "mod_serial m") (auto simp: seen_keys_def entry_key_def blank_def image_iff Bex_def)

lemma cleaned_modules:
  assumes "ses \<noteq> []"
  shows "t_modules (drop_named_blank dev nos (drop_unseen dev (seen_keys ses) d)) =
    filter (\<lambda>m. \<not> (mod_device m = dev \<and> mod_name m \<in> set nos \<and> blank (mod_serial m)) \<and>
      (listed_module dev m \<longrightarrow> (\<exists>(k, e) \<in> set ses. entry_key dev e m))) (t_modules d)"
proof -
  have "seen_keys ses \<noteq> []" using assms by (simp add: seen_keys_def)
  then show ?thesis unfolding drop_named_blank_def drop_unseen_def listed_module_def
    by (auto intro!: filter_cong simp: seen_iff)
qed

lemma same_serial_same_entry:
  assumes "entries_ok ses" and "(k, e) \<in> set ses" and "(k', e') \<in> set ses" and "iexact (ie_serial e) (ie_serial e')"
  shows "e = e'"
proof -
  from entries_okD [OF assms(1,2)] entries_okD [OF assms(1,3)] assms(4) have "k = k'" by (simp add: iexact_def)
  with assms show ?thesis by (auto simp: entries_ok_def dest: eq_key_imp_eq_value)
qed

lemma holders_after_cleaning:
  assumes ok: "entries_ok ses" and e: "(k, e) \<in> set ses" and named: "\<not> startswith (ie_name e) ''Transceiver ''"
    and settled: "settled dev e d"
  shows "filter (holds (ie_serial e)) (t_modules (drop_named_blank dev nos (drop_unseen dev (seen_keys ses) d))) =
    filter (entry_key dev e) (t_modules d)"
proof -
  from e have "ses \<noteq> []" by auto
  have full: "\<not> blank (mod_serial m)" if "holds (ie_serial e) m" for m
    using that entries_okD [OF ok e] by (auto simp: holds_def blank_def iexact_def split: option.splits)
  have "(holds (ie_serial e) m \<and> \<not> (mod_device m = dev \<and> mod_name m \<in> set nos \<and> blank (mod_serial m)) \<and>
      (listed_module dev m \<longrightarrow> (\<exists>(k, e) \<in> set ses. entry_key dev e m))) \<longleftrightarrow> entry_key dev e m"
    if m: "m \<in> set (t_modules d)" for m
  proof
    assume *: "holds (ie_serial e) m \<and> \<not> (mod_device m = dev \<and> mod_name m \<in> set nos \<and> blank (mod_serial m)) \<and>
      (listed_module dev m \<longrightarrow> (\<exists>(k, e) \<in> set ses. entry_key dev e m))"
    with settled m have "mod_device m = dev" "mod_name m = ie_name e" by (auto simp: settled_def)
    with * named full have "listed_module dev m" by (auto simp: listed_module_def transceiver_named_def)
    with * obtain k' e' where e': "(k', e') \<in> set ses" "entry_key dev e' m" by auto
    with * have "iexact (ie_serial e) (ie_serial e')" by (auto simp: holds_def entry_key_def iexact_def)
    with same_serial_same_entry [OF ok e e'(1)] e'(2) show "entry_key dev e m" by simp
  next
    assume "entry_key dev e m"
    with e full [of m] show "holds (ie_serial e) m \<and> \<not> (mod_device m = dev \<and> mod_name m \<in> set nos \<and> blank (mod_serial m)) \<and>
      (listed_module dev m \<longrightarrow> (\<exists>(k, e) \<in> set ses. entry_key dev e m))" by (auto simp: entry_key_holds)
  qed
  then show ?thesis unfolding cleaned_modules [OF \<open>ses \<noteq> []\<close>] filter_filter
    by (intro filter_cong) auto
qed

lemma find_serial_holds: "find_serial_module d s = filter (holds s) (t_modules d)"
  by (simp add: find_serial_module_def holds_def [abs_def])

lemma apply_inventory_loop:
  assumes "apply_inventory env dev r d = Inr d'" and "inventory_rows (cr_parsed r) = Inr (ses, nos)"
  shows "\<exists>d1. (ses = [] \<or> fold_res (store_entry env (dev_id dev)) d ses = Inr d1) \<and>
    (ses \<noteq> [] \<longrightarrow> d' = drop_named_blank (dev_id dev) nos (drop_unseen (dev_id dev) (seen_keys ses) d1))"
  using assms by (auto simp: apply_inventory_def bind_res_eq_Inr inventory_rows_def each_row_def split: if_splits)

text \<open>
  C11. A successful inventory synchronisation that reads at least one serial number makes the
  modules of the device exactly the entries it read: the modules with a serial number that are no
  transceivers are, by name and serial number, the entries; no other module of any device holds
  the serial number of such an entry, in any letter case, and no item of the storage holds the
  serial number of an entry.
\<close>

theorem inventory_matches_device:
  assumes "apply_inventory env dev r d = Inr d'" and "inventory_rows (cr_parsed r) = Inr (ses, nos)" and "ses \<noteq> []"
  shows "(\<lambda>m. (mod_name m, mod_serial m)) ` {m \<in> set (t_modules d'). listed_module (dev_id dev) m} =
      {(ie_name e, Some (ie_serial e)) | k e. (k, e) \<in> set ses \<and> \<not> startswith (ie_name e) ''Transceiver ''}
    \<and> (\<forall>(k, e) \<in> set ses. \<not> startswith (ie_name e) ''Transceiver '' \<longrightarrow>
        (\<exists>m. find_serial_module d' (ie_serial e) = [m] \<and> entry_key (dev_id dev) e m))
    \<and> (\<forall>(k, e) \<in> set ses. find_serial_item d' (ie_serial e) = [])"
proof -
  let ?dev = "dev_id dev"
  from apply_inventory_loop [OF assms(1,2)] assms(3) obtain d1
    where loop: "fold_res (store_entry env ?dev) d ses = Inr d1"
      and d': "d' = drop_named_blank ?dev nos (drop_unseen ?dev (seen_keys ses) d1)" by blast
  note ok = inventory_rows_ok [OF assms(2)]
  have settled: "settled ?dev e d1" if "(k, e) \<in> set ses" for k e
    using loop_settles [OF loop ok] that by blast
  have one: "\<exists>m. find_serial_module d' (ie_serial e) = [m] \<and> entry_key ?dev e m"
    if e: "(k, e) \<in> set ses" and n: "\<not> startswith (ie_name e) ''Transceiver ''" for k e
  proof -
    have "length (filter (entry_key ?dev e) (t_modules d1)) = 1" using settled [OF e] by (simp add: settled_def)
    then obtain m where m: "filter (entry_key ?dev e) (t_modules d1) = [m]" by (auto simp: length_Suc_conv)
    then have "m \<in> set (filter (entry_key ?dev e) (t_modules d1))" by simp
    then have "entry_key ?dev e m" by simp
    with m holders_after_cleaning [OF ok e n settled [OF e]] show ?thesis by (auto simp: find_serial_holds d')
  qed
  have "(\<lambda>m. (mod_name m, mod_serial m)) ` {m \<in> set (t_modules d'). listed_module ?dev m} =
      {(ie_name e, Some (ie_serial e)) | k e. (k, e) \<in> set ses \<and> \<not> startswith (ie_name e) ''Transceiver ''}"
    (is "?L = ?R")
  proof
    show "?L \<subseteq> ?R"
      unfolding d' cleaned_modules [OF assms(3)]
      by (fastforce simp: listed_module_def transceiver_named_def entry_key_def)
    show "?R \<subseteq> ?L"
    proof
      fix x assume "x \<in> ?R"
      then obtain k e where e: "(k, e) \<in> set ses" "\<not> startswith (ie_name e) ''Transceiver ''"
        and x: "x = (ie_name e, Some (ie_serial e))" by auto
      from one [OF e] obtain m where m: "find_serial_module d' (ie_serial e) = [m]" "entry_key ?dev e m" by auto
      then have "m \<in> set (find_serial_module d' (ie_serial e))" by simp
      then have "m \<in> set (t_modules d')" by (simp add: find_serial_holds)
      moreover have "ie_serial e \<noteq> []" using ok e(1) by (auto simp: entries_ok_def)
      ultimately show "x \<in> ?L"
        using m(2) e(2) x by (auto simp: listed_module_def entry_key_def transceiver_named_def blank_def intro!: image_eqI [of _ _ m])
    qed
  qed
  moreover have "find_serial_item d' (ie_serial e) = []" if "(k, e) \<in> set ses" for k e
    using settled [OF that] by (simp add: d' settled_def find_serial_item_def drop_named_blank_def drop_unseen_def)
  ultimately show ?thesis using one by auto
qed

definition demo_sync_env :: sync_env where
  "demo_sync_env = \<lparr>se_now = 1000, se_module_id = (\<lambda>n s. length n), se_iface_id = (\<lambda>n. length n),
     se_fsm = (\<lambda>t r. PyNone), se_sha256 = (\<lambda>s. s)\<rparr>"

definition demo_inventory :: cmd_result where
  "demo_inventory = \<lparr>cr_raw = ''...'', cr_parsed = PyList [
     PyDict [(''name'', PyStr ''c93xx Stack''), (''descr'', PyStr ''c93xx Stack''), (''sn'', PyStr ''foc1'')],
     PyDict [(''name'', PyStr ''Switch 1''), (''descr'', PyStr ''C9300-48P''), (''sn'', PyStr ''FOC1'')],
     PyDict [(''name'', PyStr ''Power Supply 1''), (''descr'', PyStr ''PSU''), (''sn'', PyStr ''LIT7'')]], cr_error = None\<rparr>"

definition demo_stock :: db where
  "demo_stock = empty_db\<lparr>
     t_devices := [new_device 1 ''sw1'' ''10.0.0.1'' 1 1, new_device 2 ''sw2'' ''10.0.0.2'' 1 1],
     t_modules := [(new_module 1 2 ''Power Supply 2'')\<lparr>mod_serial := Some ''lit7''\<rparr>,
       (new_module 2 1 ''Fan 9'')\<lparr>mod_serial := Some ''OLD1''\<rparr>, (new_module 3 1 ''Transceiver Gi1/0/1'')\<lparr>mod_serial := Some ''AVD3''\<rparr>],
     t_inventory := [(new_item 1 ''C9300-48P'' 1)\<lparr>inv_serial := Some ''FOC1''\<rparr>]\<rparr>"

definition demo_entries :: serial_entries where
  "demo_entries = [(''FOC1'', \<lparr>ie_name = ''Switch 1'', ie_descr = ''C9300-48P'', ie_serial = ''FOC1'', ie_priority = Priority 3 8\<rparr>),
     (''LIT7'', \<lparr>ie_name = ''Power Supply 1'', ie_descr = ''PSU'', ie_serial = ''LIT7'', ie_priority = Priority 0 14\<rparr>)]"

definition demo_synced :: db where
  "demo_synced = (case apply_inventory demo_sync_env (new_device 1 ''sw1'' ''10.0.0.1'' 1 1) demo_inventory demo_stock of
     Inr d \<Rightarrow> d | Inl _ \<Rightarrow> empty_db)"

theorem inventory_matches_device_witness:
  "find_serial_item demo_synced ''FOC1'' = [] \<and> (\<exists>m. find_serial_module demo_synced ''LIT7'' = [m] \<and> mod_device m = 1)"
proof -
  have "apply_inventory demo_sync_env (new_device 1 ''sw1'' ''10.0.0.1'' 1 1) demo_inventory demo_stock = Inr demo_synced"
    by code_simp
  moreover have "inventory_rows (cr_parsed demo_inventory) = Inr (demo_entries, [])"
    by code_simp
  moreover have "demo_entries \<noteq> []" by (simp add: demo_entries_def)
  ultimately show ?thesis
    by (drule_tac inventory_matches_device) (auto simp: demo_entries_def entry_key_def startswith_def new_device_def)
qed

section \<open>The stack after a synchronisation\<close>

lemma save_device_stacks: "save_device d dev = Inr d' \<Longrightarrow> t_stacks d' = t_stacks d"
  by (auto simp: save_device_def write_device_def Let_def bind_res_eq_Inr split: if_splits)

lemma row_at_filter: "row_at key (filter p rs) k = first_row (\<lambda>r. p r \<and> key r = k) rs"
  by (simp add: row_at_def first_row_filter)

lemma stack_rows:
  assumes "apply_stack_members dev r d = Inr (dev', d')" and "parse_stack_members (cr_parsed r) (cr_raw r) = Inr ms"
  shows "dev_stacked dev' = (1 < length ms) \<and>
    t_stacks d' = (let rows = put_all put_member (map (\<lambda>m. ((dev_id dev, mb_switch m), m)) ms) (t_stacks d)
      in if ms = [] then rows else filter (\<lambda>x. \<not> (sm_device x = dev_id dev \<and> sm_switch x \<notin> mb_switch ` set ms)) rows)"
  using assms by (auto simp: apply_stack_members_def Let_def bind_res_eq_Inr dest!: save_device_stacks split: if_splits)

text \<open>
  When the output of a stack lists members, each once, the stack rows of the device are
  exactly the members listed, with the role and state that were read, the rows of other devices
  stay as they are, and the device counts as a stack exactly when there are two members or more.
\<close>

theorem stack_matches_device:
  assumes "apply_stack_members dev r d = Inr (dev', d')" and "parse_stack_members (cr_parsed r) (cr_raw r) = Inr ms"
    and "ms \<noteq> []" and "distinct (map mb_switch ms)"
  shows "dev_stacked dev' = (1 < length ms)
    \<and> (\<forall>m \<in> set ms. \<exists>x. row_at member_key (t_stacks d') (dev_id dev, mb_switch m) = Some x
        \<and> sm_role x = mb_role m \<and> sm_state x = mb_state m \<and> sm_priority x = mb_priority m)
    \<and> (\<forall>n. n \<notin> mb_switch ` set ms \<longrightarrow> row_at member_key (t_stacks d') (dev_id dev, n) = None)
    \<and> (\<forall>i n. i \<noteq> dev_id dev \<longrightarrow> row_at member_key (t_stacks d') (i, n) = row_at member_key (t_stacks d) (i, n))"
proof -
  let ?ws = "map (\<lambda>m. ((dev_id dev, mb_switch m), m)) ms"
  let ?rows = "put_all put_member ?ws (t_stacks d)"
  have keys: "distinct (map fst ?ws)" using assms(4) by (simp add: distinct_map inj_on_def comp_def)
  have rows: "t_stacks d' = filter (\<lambda>x. \<not> (sm_device x = dev_id dev \<and> sm_switch x \<notin> mb_switch ` set ms)) ?rows"
    using stack_rows [OF assms(1,2)] assms(3) by (simp add: Let_def)
  have kept: "row_at member_key (t_stacks d') (i, n) =
      (if i = dev_id dev \<and> n \<notin> mb_switch ` set ms then None else row_at member_key ?rows (i, n))" for i n
  proof -
    have "row_at member_key (t_stacks d') (i, n) =
        first_row (\<lambda>x. \<not> (i = dev_id dev \<and> n \<notin> mb_switch ` set ms) \<and> member_key x = (i, n)) ?rows"
      unfolding rows row_at_filter by (rule arg_cong [where f = "\<lambda>p. first_row p _"]) (auto simp: fun_eq_iff member_key_def)
    then show ?thesis by (cases "i = dev_id dev \<and> n \<notin> mb_switch ` set ms") (auto simp: row_at_def first_row_None)
  qed
  have "\<exists>x. row_at member_key (t_stacks d') (dev_id dev, mb_switch m) = Some x
      \<and> sm_role x = mb_role m \<and> sm_state x = mb_state m \<and> sm_priority x = mb_priority m" if "m \<in> set ms" for m
    using stack_table.row_put_all [OF keys, of "(dev_id dev, mb_switch m)" m "t_stacks d"] that
    by (auto simp: kept make_member_def change_member_def split: option.splits)
  moreover have "row_at member_key (t_stacks d') (i, n) = row_at member_key (t_stacks d) (i, n)" if "i \<noteq> dev_id dev" for i n
  proof -
    from that have "(i, n) \<notin> fst ` set ?ws" by auto
    with that show ?thesis by (simp add: kept stack_table.row_put_all_other)
  qed
  moreover have "\<forall>n. n \<notin> mb_switch ` set ms \<longrightarrow> row_at member_key (t_stacks d') (dev_id dev, n) = None"
    by (simp add: kept)
  ultimately show ?thesis using stack_rows [OF assms(1,2), THEN conjunct1] by blast
qed

definition demo_stack_output :: cmd_result where
  "demo_stack_output = \<lparr>cr_raw = ''*1 Active 0011.2233.4455 15 V01 Ready'' @ [char_of (10::nat)] @
      '' 2 Standby 0011.2233.4466 1 V01 Ready'', cr_parsed = PyNone, cr_error = None\<rparr>"

definition demo_members :: "member list" where
  "demo_members = [\<lparr>mb_switch = 1, mb_role = ''active'', mb_mac = PyStr ''0011.2233.4455'', mb_priority = Some 15,
       mb_version = PyStr ''V01'', mb_state = ''ready''\<rparr>,
     \<lparr>mb_switch = 2, mb_role = ''standby'', mb_mac = PyStr ''0011.2233.4466'', mb_priority = Some 1,
       mb_version = PyStr ''V01'', mb_state = ''ready''\<rparr>]"

definition demo_stack_db :: db where
  "demo_stack_db = empty_db\<lparr>t_devices := [new_device 1 ''sw1'' ''10.0.0.1'' 1 1],
     t_stacks := [\<lparr>sm_device = 1, sm_switch = 3, sm_role = ''member'', sm_mac = [], sm_priority = None,
       sm_version = None, sm_state = ''removed''\<rparr>]\<rparr>"

definition demo_stacked :: "device \<times> db" where
  "demo_stacked = (case apply_stack_members (new_device 1 ''sw1'' ''10.0.0.1'' 1 1) demo_stack_output demo_stack_db of
     Inr x \<Rightarrow> x | Inl _ \<Rightarrow> (new_device 0 [] [] 0 0, empty_db))"

theorem stack_matches_device_witness:
  "dev_stacked (fst demo_stacked) \<and> row_at member_key (t_stacks (snd demo_stacked)) (1, 3) = None"
proof -
  have "apply_stack_members (new_device 1 ''sw1'' ''10.0.0.1'' 1 1) demo_stack_output demo_stack_db =
      Inr (fst demo_stacked, snd demo_stacked)" by code_simp
  moreover have "parse_stack_members (cr_parsed demo_stack_output) (cr_raw demo_stack_output) = Inr demo_members"
    by code_simp
  ultimately show ?thesis
    by (drule_tac stack_matches_device) (auto simp: demo_members_def new_device_def)
qed

text \<open>
  When the output of a stack lists no member, because the command failed or its format is not
  recognised, the device loses its stack flag but keeps the stack rows of earlier runs.
\<close>

theorem unread_stack_keeps_members:
  assumes "apply_stack_members dev r d = Inr (dev', d')" and "parse_stack_members (cr_parsed r) (cr_raw r) = Inr []"
  shows "\<not> dev_stacked dev' \<and> t_stacks d' = t_stacks d"
  using stack_rows [OF assms] by simp

definition demo_failed_output :: cmd_result where
  "demo_failed_output = \<lparr>cr_raw = [], cr_parsed = PyNone, cr_error = Some ''timed out''\<rparr>"

theorem unread_stack_keeps_members_witness:
  "\<exists>x. apply_stack_members ((new_device 1 ''sw1'' ''10.0.0.1'' 1 1)\<lparr>dev_stacked := True\<rparr>) demo_failed_output demo_stack_db = Inr x
     \<and> \<not> dev_stacked (fst x) \<and> length (t_stacks (snd x)) = 1"
proof -
  let ?run = "apply_stack_members ((new_device 1 ''sw1'' ''10.0.0.1'' 1 1)\<lparr>dev_stacked := True\<rparr>) demo_failed_output demo_stack_db"
  have "is_ok ?run" by code_simp
  then obtain dev' d' where run: "?run = Inr (dev', d')" by (cases ?run) auto
  have "parse_stack_members (cr_parsed demo_failed_output) (cr_raw demo_failed_output) = Inr []" by code_simp
  from unread_stack_keeps_members [OF run this] run show ?thesis
    by (simp add: demo_stack_db_def empty_db_def)
qed

end
