(* ===== verification/SyncInterfaces.thy ===== *)
theory SyncInterfaces
  imports SyncModules
begin

text \<open>
  \<^verbatim>\<open>SyncService._apply_interfaces\<close>: four outputs of a device are read into
  dictionaries by interface name, interfaces that no output names are deleted, the others are
  created where they are missing, and six passes over them set kind, mode, port channel, state,
  description and address.
\<close>

section \<open>Reading the outputs\<close>

record port_status =
  ps_status :: string
  ps_vlan :: string
  ps_vlan_raw :: "string option"
  ps_speed :: "int option"
  ps_speed_mode :: "string option"
  ps_duplex :: "string option"

record ip_brief =
  ib_ip :: string
  ib_status :: string
  ib_proto :: string

type_synonym 'v names = "(string \<times> 'v) list"

definition desc_row :: "string names \<Rightarrow> entry \<Rightarrow> exn + string names" where
  "desc_row m e =
     bind_res (normalize_iface_val (get_or e [''port'', ''interface''])) (\<lambda>name.
       if name = [] \<or> contains name ''Vl'' then Inr m
       else bind_res (on_text_or_empty strip (get e ''description'')) (\<lambda>s. Inr (dict_put name s m)))"

definition status_row :: "port_status names \<Rightarrow> entry \<Rightarrow> exn + port_status names" where
  "status_row m e =
     bind_res (normalize_iface_val (get_or e [''port'', ''interface''])) (\<lambda>name.
       if name = [] then Inr m
       else bind_res (str_method ''lower'' lower (py_or (get e ''status'') (PyStr []))) (\<lambda>st.
         let vlan_raw = text_or_empty (get_or e [''vlan'', ''vlan_id'', ''VLAN'']);
             speed_raw = text_or_empty (get e ''speed'');
             duplex_raw = text_or_empty (get e ''duplex'')
         in Inr (dict_put name \<lparr>ps_status = st, ps_vlan = lower vlan_raw, ps_vlan_raw = non_empty vlan_raw,
              ps_speed = parse_speed speed_raw, ps_speed_mode = non_empty speed_raw, ps_duplex = non_empty duplex_raw\<rparr> m)))"

record ip_maps =
  im_map :: "ip_brief names"
  im_seen :: "ip_brief names"
  im_names :: "string list"

text \<open>The address of a row, when its text is one.\<close>

definition brief_address :: "string \<Rightarrow> string option" where
  "brief_address s =
     (case (if CHR ''/'' \<in> set s then ip_interface_ip s else ip_address s) of Inl _ \<Rightarrow> None | Inr a \<Rightarrow> Some (ip_str a))"

definition has_address :: "string \<Rightarrow> bool" where
  "has_address s \<longleftrightarrow> s \<noteq> [] \<and> lower s \<notin> set [''unassigned'', ''unnumbered''] \<and> \<not> startswith s ''(''"

text \<open>
  \<^verbatim>\<open>ip_seen[name] = ip_map[name]\<close> is outside the guard of its address: it raises
  when the text is no address and no earlier row had one.
\<close>

definition ip_row :: "ip_maps \<Rightarrow> entry \<Rightarrow> exn + ip_maps" where
  "ip_row m e =
     bind_res (normalize_iface_val (get_or e [''intf'', ''interface''])) (\<lambda>name.
       if name = [] then Inr m
       else
         bind_res (str_method ''lower'' lower (py_or (get e ''status'') (PyStr []))) (\<lambda>st.
         bind_res (str_method ''lower'' lower (py_or (get e ''proto'') (PyStr []))) (\<lambda>pr.
         bind_res (on_text_or_empty strip (get_or e [''ipaddr'', ''ip_address''])) (\<lambda>ip.
           let m = m\<lparr>im_names := name # im_names m\<rparr>
           in if \<not> has_address ip then Inr m
              else
                let m = (case brief_address ip of None \<Rightarrow> m
                      | Some a \<Rightarrow> m\<lparr>im_map := dict_put name \<lparr>ib_ip = a, ib_status = st, ib_proto = pr\<rparr> (im_map m)\<rparr>)
                in case map_of (im_map m) name of
                     None \<Rightarrow> Inl (KeyError (py_repr_str name))
                   | Some b \<Rightarrow> Inr (m\<lparr>im_seen := dict_put name b (im_seen m)\<rparr>)))))"

definition member_names :: "entry \<Rightarrow> string list" where
  "member_names e =
     (case get e ''interfaces'' of PyStr s \<Rightarrow> split_ws s
      | _ \<Rightarrow> (case get e ''member_interface'' of
            PyList ms \<Rightarrow> map (\<lambda>m. case m of PyStr s \<Rightarrow> s | _ \<Rightarrow> []) ms
          | PyStr s \<Rightarrow> [s]
          | _ \<Rightarrow> []))"

definition lag_row :: "string names \<Rightarrow> entry \<Rightarrow> exn + string names" where
  "lag_row m e =
     (let po_raw = get_or e [''port_channel'', ''bundle_name'', ''bundle'', ''portchannel''];
          po_raw = (case po_raw of PyStr s \<Rightarrow> PyStr (before_sep ''('' s) | _ \<Rightarrow> po_raw)
      in bind_res (normalize_iface_val po_raw) (\<lambda>po.
           Inr (if po = [] then m
             else fold (\<lambda>s m. let member = normalize_iface (before_sep ''('' s)
                    in if member = [] then m else dict_put member po m) (member_names e) m)))"

record iface_maps =
  fm_desc :: "string names"
  fm_status :: "port_status names"
  fm_ips :: ip_maps
  fm_lags :: "string names"

definition read_interfaces :: "cmd_result \<Rightarrow> cmd_result \<Rightarrow> cmd_result \<Rightarrow> cmd_result \<Rightarrow> exn + iface_maps" where
  "read_interfaces status desc ip po =
     bind_res (each_row desc_row [] (cr_parsed desc)) (\<lambda>ds.
     bind_res (each_row status_row [] (cr_parsed status)) (\<lambda>ss.
     bind_res (each_row ip_row \<lparr>im_map = [], im_seen = [], im_names = []\<rparr> (cr_parsed ip)) (\<lambda>is.
     bind_res (each_row lag_row [] (cr_parsed po)) (\<lambda>ls.
       Inr \<lparr>fm_desc = ds, fm_status = ss, fm_ips = is, fm_lags = ls\<rparr>))))"

definition seen_names :: "iface_maps \<Rightarrow> string list" where
  "seen_names m = remdups (map fst (fm_status m) @ map fst (fm_desc m) @ im_names (fm_ips m) @ map fst (fm_lags m) @ map snd (fm_lags m))"

section \<open>Writing the interfaces\<close>

definition iface_of :: "uid \<Rightarrow> string \<Rightarrow> interface \<Rightarrow> bool" where
  "iface_of dev name i \<longleftrightarrow> ifc_device i = dev \<and> ifc_name i = name"

text \<open>Deleting interfaces clears the links of others to them.\<close>

definition delete_interfaces :: "(interface \<Rightarrow> bool) \<Rightarrow> interface list \<Rightarrow> interface list" where
  "delete_interfaces p is =
     (let gone = map ifc_id (filter p is)
      in map (\<lambda>i. if (case ifc_lag i of None \<Rightarrow> False | Some l \<Rightarrow> l \<in> set gone) then i\<lparr>ifc_lag := None\<rparr> else i)
           (filter (\<lambda>i. \<not> p i) is))"

definition drop_interfaces :: "uid \<Rightarrow> string list \<Rightarrow> interface list \<Rightarrow> interface list" where
  "drop_interfaces dev names is =
     (if names = [] then is else delete_interfaces (\<lambda>i. ifc_device i = dev \<and> ifc_name i \<notin> set names) is)"

definition get_interface :: "sync_env \<Rightarrow> uid \<Rightarrow> interface list \<Rightarrow> string \<Rightarrow> exn + interface list" where
  "get_interface env dev is name =
     (case filter (iface_of dev name) is of
        [] \<Rightarrow> Inr (is @ [new_interface (se_iface_id env name) dev name])
      | [_] \<Rightarrow> Inr is
      | _ \<Rightarrow> Inl (MultipleObjectsReturned ''get() returned more than one Interface''))"

definition set_kind :: "string \<Rightarrow> interface \<Rightarrow> interface" where
  "set_kind name i = i\<lparr>ifc_kind := infer_kind name\<rparr>"

definition set_mode :: "iface_maps \<Rightarrow> string \<Rightarrow> interface \<Rightarrow> interface" where
  "set_mode m name i =
     (let vlan = (case map_of (fm_status m) name of None \<Rightarrow> [] | Some s \<Rightarrow> ps_vlan s)
      in if ifc_kind i \<in> set [''svi'', ''loopback'', ''tunnel''] then i\<lparr>ifc_mode := Some ''L3''\<rparr>
         else if vlan \<noteq> [] then i\<lparr>ifc_mode := Some ''L2''\<rparr>
         else if map_of (im_map (fm_ips m)) name \<noteq> None then i\<lparr>ifc_mode := Some ''L3''\<rparr>
         else i)"

definition set_lag :: "uid \<Rightarrow> interface list \<Rightarrow> string \<Rightarrow> interface \<Rightarrow> interface" where
  "set_lag dev is po i =
     (case first_row (iface_of dev po) is of None \<Rightarrow> i
      | Some p \<Rightarrow> i\<lparr>ifc_lag := Some (ifc_id p), ifc_lag_mode := Some ''active''\<rparr>)"

text \<open>State and description; a missing VLAN text violates the constraint of its column.\<close>

definition set_status :: "iface_maps \<Rightarrow> string \<Rightarrow> interface \<Rightarrow> exn + interface" where
  "set_status m name i =
     (let i = (case map_of (fm_desc m) name of None \<Rightarrow> i | Some s \<Rightarrow> i\<lparr>ifc_description := Some s\<rparr>)
      in bind_res (case map_of (fm_status m) name of
            None \<Rightarrow> Inr (i, None)
          | Some s \<Rightarrow>
             (case ps_vlan_raw s of
                None \<Rightarrow> Inl (IntegrityError ''vlan_raw'')
              | Some v \<Rightarrow> Inr (i\<lparr>ifc_status := map_status (ps_status s), ifc_speed := ps_speed s,
                   ifc_speed_mode := ps_speed_mode s, ifc_duplex := ps_duplex s, ifc_vlan_raw := v,
                   ifc_is_trunk := contains (ps_vlan s) ''trunk''\<rparr>, Some (map_status (ps_status s)))))
          (\<lambda>(i, mapped). Inr (case map_of (im_seen (fm_ips m)) name of
             Some b \<Rightarrow> if mapped = None \<or> mapped = Some ''unknown''
               then i\<lparr>ifc_status := map_status_ip_brief (ib_status b) (ib_proto b)\<rparr> else i
           | None \<Rightarrow> i)))"

definition set_address :: "ip_brief \<Rightarrow> interface \<Rightarrow> interface" where
  "set_address b i = (if ib_ip b \<noteq> [] \<and> lower (ib_ip b) \<noteq> ''unassigned'' then i\<lparr>ifc_ip := Some (ib_ip b)\<rparr>
     else i\<lparr>ifc_ip := None\<rparr>)"

text \<open>One pass: a change of the row of every name in turn.\<close>

definition on_iface :: "uid \<Rightarrow> string \<Rightarrow> (interface \<Rightarrow> interface) \<Rightarrow> interface list \<Rightarrow> interface list" where
  "on_iface dev name f is = update_where (iface_of dev name) f is"

definition kind_pass :: "uid \<Rightarrow> string \<Rightarrow> interface list \<Rightarrow> interface list" where
  "kind_pass dev n is = on_iface dev n (set_kind n) is"

definition mode_pass :: "uid \<Rightarrow> iface_maps \<Rightarrow> string \<Rightarrow> interface list \<Rightarrow> interface list" where
  "mode_pass dev m n is = on_iface dev n (set_mode m n) is"

definition lag_pass :: "uid \<Rightarrow> string \<times> string \<Rightarrow> interface list \<Rightarrow> interface list" where
  "lag_pass dev w is = on_iface dev (fst w) (set_lag dev is (snd w)) is"

definition address_pass :: "uid \<Rightarrow> string \<times> ip_brief \<Rightarrow> interface list \<Rightarrow> interface list" where
  "address_pass dev w is = on_iface dev (fst w) (set_address (snd w)) is"

definition status_pass :: "uid \<Rightarrow> iface_maps \<Rightarrow> interface list \<Rightarrow> string \<Rightarrow> exn + interface list" where
  "status_pass dev m is name =
     (case first_row (iface_of dev name) is of
        None \<Rightarrow> Inr is
      | Some i \<Rightarrow> bind_res (set_status m name i) (\<lambda>i'. Inr (on_iface dev name (\<lambda>_. i') is)))"

definition write_interfaces :: "sync_env \<Rightarrow> uid \<Rightarrow> iface_maps \<Rightarrow> interface list \<Rightarrow> exn + interface list" where
  "write_interfaces env dev m is =
     (let names = seen_names m
      in bind_res (fold_res (get_interface env dev) (drop_interfaces dev names is) names) (\<lambda>is.
         bind_res (fold_res (status_pass dev m)
             (fold (lag_pass dev) (fm_lags m) (fold (mode_pass dev m) names (fold (kind_pass dev) names is))) names) (\<lambda>is.
           Inr (fold (address_pass dev) (im_seen (fm_ips m)) is))))"

definition apply_interfaces :: "sync_env \<Rightarrow> device \<Rightarrow> cmd_result \<Rightarrow> cmd_result \<Rightarrow> cmd_result \<Rightarrow> cmd_result \<Rightarrow> db \<Rightarrow> exn + db" where
  "apply_interfaces env dev status desc ip po d =
     bind_res (read_interfaces status desc ip po) (\<lambda>m.
     bind_res (write_interfaces env (dev_id dev) m (t_interfaces d)) (\<lambda>is.
       Inr (d\<lparr>t_interfaces := is\<rparr>)))"

end
