(* ===== verification/SyncInterfacesProps.thy ===== *)
theory SyncInterfacesProps
  imports SyncInterfaces
begin

text \<open>
  What the interfaces of a device are after their synchronisation: which rows exist, what each
  holds, what stays from earlier runs, and the texts that make the whole run fail.
\<close>

section \<open>Passes over the rows\<close>

definition row_of :: "uid \<Rightarrow> interface list \<Rightarrow> string \<Rightarrow> interface option" where
  "row_of dev is n = first_row (iface_of dev n) is"

text \<open>A change of a row keeps what identifies it.\<close>

definition keeps :: "(interface \<Rightarrow> interface) \<Rightarrow> bool" where
  "keeps f \<longleftrightarrow> (\<forall>i. ifc_device (f i) = ifc_device i \<and> ifc_name (f i) = ifc_name i \<and> ifc_id (f i) = ifc_id i)"

lemma keeps_passes [simp]:
  "keeps (set_kind n)" "keeps (set_mode m n)" "keeps (set_lag dev is po)" "keeps (set_address b)"
  by (auto simp: keeps_def set_kind_def set_mode_def set_lag_def set_address_def Let_def split: option.splits)

lemma set_status_keeps:
  "set_status m n i = Inr i' \<Longrightarrow> ifc_device i' = ifc_device i \<and> ifc_name i' = ifc_name i \<and> ifc_id i' = ifc_id i"
  by (auto simp: set_status_def Let_def bind_res_eq_Inr split: option.splits if_splits)

lemma row_of_Some: "row_of dev is n = Some i \<Longrightarrow> i \<in> set is \<and> ifc_device i = dev \<and> ifc_name i = n"
  by (auto simp: row_of_def iface_of_def dest!: first_row_Some)

lemma row_on_iface:
  "keeps f \<Longrightarrow> row_of dev (on_iface dev n f is) k = (if k = n then map_option f (row_of dev is n) else row_of dev is k)"
  by (induction "is") (auto simp: on_iface_def update_where_def row_of_def iface_of_def keeps_def)

lemma row_pass:
  "distinct ns \<Longrightarrow> (\<And>n. keeps (f n)) \<Longrightarrow> row_of dev (fold (\<lambda>n. on_iface dev n (f n)) ns is) k =
     (if k \<in> set ns then map_option (f k) (row_of dev is k) else row_of dev is k)"
  by (induction ns arbitrary: "is") (auto simp: row_on_iface)

lemma row_pass_assoc:
  "distinct (map fst ws) \<Longrightarrow> (\<And>b. keeps (f b)) \<Longrightarrow> row_of dev (fold (\<lambda>(n, b). on_iface dev n (f b)) ws is) k =
     (case map_of ws k of None \<Rightarrow> row_of dev is k | Some b \<Rightarrow> map_option (f b) (row_of dev is k))"
proof (induction ws arbitrary: "is")
  case (Cons w ws)
  obtain n b where w: "w = (n, b)" by (cases w)
  with Cons.prems have "map_of ws n = None" by (simp add: map_of_eq_None_iff)
  with Cons w show ?case by (auto simp: row_on_iface split: option.splits)
qed simp

definition row_id :: "uid \<Rightarrow> interface list \<Rightarrow> string \<Rightarrow> uid option" where
  "row_id dev is n = map_option ifc_id (row_of dev is n)"

lemma row_id_on_iface: "keeps f \<Longrightarrow> row_id dev (on_iface dev n f is) = row_id dev is"
  by (auto simp: fun_eq_iff row_id_def row_on_iface keeps_def option.map_comp comp_def)

text \<open>The binding to a port channel depends on the identifier of its row only.\<close>

definition bind_lag :: "uid option \<Rightarrow> interface \<Rightarrow> interface" where
  "bind_lag p i = (case p of None \<Rightarrow> i | Some l \<Rightarrow> i\<lparr>ifc_lag := Some l, ifc_lag_mode := Some ''active''\<rparr>)"

lemma set_lag_bind: "set_lag dev is po = bind_lag (row_id dev is po)"
  by (auto simp: fun_eq_iff set_lag_def bind_lag_def row_id_def row_of_def split: option.splits)

lemma row_pass_lag:
  "distinct (map fst ws) \<Longrightarrow> row_of dev (fold (\<lambda>(n, po) is. on_iface dev n (set_lag dev is po) is) ws is) k =
     (case map_of ws k of None \<Rightarrow> row_of dev is k | Some po \<Rightarrow> map_option (bind_lag (row_id dev is po)) (row_of dev is k))"
proof (induction ws arbitrary: "is")
  case (Cons w ws)
  obtain n b where w: "w = (n, b)" by (cases w)
  with Cons.prems have "map_of ws n = None" by (simp add: map_of_eq_None_iff)
  with Cons w show ?case
    by (auto simp: row_on_iface row_id_on_iface simp flip: set_lag_bind split: option.splits)
qed simp

lemma row_status_pass:
  assumes "status_pass dev m is n = Inr is'"
  shows "row_of dev is' k = (if k = n then (case row_of dev is n of None \<Rightarrow> None
      | Some i \<Rightarrow> (case set_status m n i of Inr i' \<Rightarrow> Some i' | Inl _ \<Rightarrow> None)) else row_of dev is k)"
proof (cases "row_of dev is n")
  case None
  with assms show ?thesis by (auto simp: status_pass_def row_of_def)
next
  case (Some i)
  with assms obtain i' where i': "set_status m n i = Inr i'" and is': "is' = on_iface dev n (\<lambda>_. i') is"
    by (auto simp: status_pass_def row_of_def bind_res_eq_Inr)
  from set_status_keeps [OF i'] row_of_Some [OF Some] have same: "ifc_device i' = dev" "ifc_name i' = n" by auto
  have "row_of dev (on_iface dev n (\<lambda>_. i') js) k = (if k = n then map_option (\<lambda>_. i') (row_of dev js n) else row_of dev js k)" for js
    by (induction js) (auto simp: on_iface_def update_where_def row_of_def iface_of_def same)
  with Some i' show ?thesis by (simp add: is')
qed

lemma row_status_passes:
  assumes "fold_res (status_pass dev m) is ns = Inr is'" and "distinct ns"
  shows "row_of dev is' k = (if k \<in> set ns then (case row_of dev is k of None \<Rightarrow> None
      | Some i \<Rightarrow> (case set_status m k i of Inr i' \<Rightarrow> Some i' | Inl _ \<Rightarrow> None)) else row_of dev is k)"
  using assms
proof (induction ns arbitrary: "is")
  case (Cons n ns)
  then obtain js where step: "status_pass dev m is n = Inr js" and rest: "fold_res (status_pass dev m) js ns = Inr is'"
    by (auto simp: bind_res_eq_Inr)
  from Cons.IH [OF rest] Cons.prems(2) show ?case by (auto simp: row_status_pass [OF step])
qed simp

section \<open>Which rows exist\<close>

text \<open>What the passes never change: the identifying fields of the rows, and the rows of other devices.\<close>

definition outline :: "interface list \<Rightarrow> (uid \<times> uid \<times> string) list" where
  "outline is = map (\<lambda>i. (ifc_id i, ifc_device i, ifc_name i)) is"

definition others :: "uid \<Rightarrow> interface list \<Rightarrow> interface list" where
  "others dev is = filter (\<lambda>i. ifc_device i \<noteq> dev) is"

definition same_rows :: "uid \<Rightarrow> interface list \<Rightarrow> interface list \<Rightarrow> bool" where
  "same_rows dev is js \<longleftrightarrow> outline js = outline is \<and> others dev js = others dev is"

lemma same_rows_refl [simp]: "same_rows dev is is"
  by (simp add: same_rows_def)

lemma same_rows_trans: "same_rows dev is js \<Longrightarrow> same_rows dev js ks \<Longrightarrow> same_rows dev is ks"
  by (simp add: same_rows_def)

lemma same_rows_on_iface:
  assumes "\<And>i. i \<in> set is \<Longrightarrow> iface_of dev n i \<Longrightarrow> ifc_id (f i) = ifc_id i \<and> ifc_device (f i) = dev \<and> ifc_name (f i) = n"
  shows "same_rows dev is (on_iface dev n f is)"
  using assms unfolding same_rows_def outline_def others_def on_iface_def update_where_def
  by (induction "is") (auto simp: iface_of_def)

lemma same_rows_keeps: "keeps f \<Longrightarrow> same_rows dev is (on_iface dev n f is)"
  by (rule same_rows_on_iface) (auto simp: keeps_def iface_of_def)

lemma same_rows_fold:
  "(\<And>is w. w \<in> set ws \<Longrightarrow> same_rows dev is (g w is)) \<Longrightarrow> same_rows dev is (fold g ws is)"
proof (induction ws arbitrary: "is")
  case (Cons w ws)
  from same_rows_trans [OF Cons.prems [of w "is"] Cons.IH [of "g w is"]] Cons.prems show ?case by simp
qed simp

lemma distinct_rows_first:
  assumes "length (filter (iface_of dev n) is) \<le> 1" and "j \<in> set is" and "iface_of dev n j"
  shows "first_row (iface_of dev n) is = Some j"
  using assms
proof (induction "is")
  case (Cons i "is")
  show ?case
  proof (cases "iface_of dev n i")
    case True
    with Cons.prems(1) have "filter (iface_of dev n) is = []" by simp
    with Cons.prems True show ?thesis by (auto simp: filter_empty_conv)
  qed (use Cons in auto)
qed simp

lemma count_outline: "length (filter (iface_of dev n) is) = length (filter (\<lambda>(i, d, m). d = dev \<and> m = n) (outline is))"
  by (induction "is") (auto simp: outline_def iface_of_def)

lemma same_rows_count: "same_rows dev is js \<Longrightarrow> length (filter (iface_of dev n) js) = length (filter (iface_of dev n) is)"
  by (simp add: count_outline same_rows_def)

lemma status_pass_same:
  assumes "status_pass dev m is n = Inr js" and "\<forall>n. length (filter (iface_of dev n) is) \<le> 1"
  shows "same_rows dev is js"
proof (cases "first_row (iface_of dev n) is")
  case None
  with assms show ?thesis by (simp add: status_pass_def)
next
  case (Some i)
  with assms(1) obtain i' where i': "set_status m n i = Inr i'" and js: "js = on_iface dev n (\<lambda>_. i') is"
    by (auto simp: status_pass_def bind_res_eq_Inr)
  have "i = j" if "j \<in> set is" "iface_of dev n j" for j
    using distinct_rows_first [OF _ that] assms(2) Some by simp
  then show ?thesis unfolding js
    by (intro same_rows_on_iface) (use set_status_keeps [OF i'] in \<open>auto simp: iface_of_def\<close>)
qed

text \<open>The creation of missing rows.\<close>

lemma get_interface_cases:
  assumes "get_interface env dev is n = Inr js"
  shows "length (filter (iface_of dev n) js) = 1 \<and> others dev js = others dev is
    \<and> (\<forall>k. k \<noteq> n \<longrightarrow> filter (iface_of dev k) js = filter (iface_of dev k) is)
    \<and> (js = is \<or> js = is @ [new_interface (se_iface_id env n) dev n])"
  using assms by (auto simp: get_interface_def others_def iface_of_def new_interface_def split: list.splits)

lemma get_interfaces:
  assumes "fold_res (get_interface env dev) is ns = Inr js" and "distinct ns"
  shows "(\<forall>n \<in> set ns. length (filter (iface_of dev n) js) = 1) \<and> others dev js = others dev is
    \<and> (\<forall>k. k \<notin> set ns \<longrightarrow> filter (iface_of dev k) js = filter (iface_of dev k) is)
    \<and> (\<exists>new. js = is @ new)"
  using assms
proof (induction ns arbitrary: "is")
  case (Cons n ns)
  then obtain is1 where step: "get_interface env dev is n = Inr is1"
    and rest: "fold_res (get_interface env dev) is1 ns = Inr js" by (auto simp: bind_res_eq_Inr)
  from Cons.IH [OF rest] Cons.prems(2) get_interface_cases [OF step] show ?case by auto
qed simp

lemma delete_counts:
  "filter (iface_of dev k) (delete_interfaces p is) =
     map (\<lambda>i. if (case ifc_lag i of None \<Rightarrow> False | Some l \<Rightarrow> l \<in> set (map ifc_id (filter p is))) then i\<lparr>ifc_lag := None\<rparr> else i)
       (filter (\<lambda>i. \<not> p i \<and> iface_of dev k i) is)"
  unfolding delete_interfaces_def Let_def
  by (simp add: filter_map comp_def iface_of_def if_distrib cong: if_cong)

lemma dropped_names:
  "n \<notin> set names \<Longrightarrow> names \<noteq> [] \<Longrightarrow> filter (iface_of dev n) (drop_interfaces dev names is) = []"
  by (auto simp: drop_interfaces_def delete_counts iface_of_def filter_empty_conv)

definition unbound :: "interface \<Rightarrow> interface" where
  "unbound i = i\<lparr>ifc_lag := None\<rparr>"

lemma unbound_lag [simp]: "unbound (i\<lparr>ifc_lag := x\<rparr>) = unbound i"
  by (simp add: unbound_def)

lemma map_filter_map:
  "(\<And>x. P (g x) = P x) \<Longrightarrow> (\<And>x. f (g x) = f x) \<Longrightarrow> map f (filter P (map g xs)) = map f (filter P xs)"
  by (induction xs) simp_all

lemma filter_weaker: "(\<And>x. P x \<Longrightarrow> Q x) \<Longrightarrow> filter P (filter Q xs) = filter P xs"
  by (induction xs) auto

lemma others_dropped: "map unbound (others dev (drop_interfaces dev names is)) = map unbound (others dev is)"
proof (cases "names = []")
  case False
  let ?p = "\<lambda>i. ifc_device i = dev \<and> ifc_name i \<notin> set names"
  let ?q = "\<lambda>i. case ifc_lag i of None \<Rightarrow> False | Some l \<Rightarrow> l \<in> set (map ifc_id (filter ?p is))"
  have "map unbound (others dev (drop_interfaces dev names is)) =
      map unbound (filter (\<lambda>i. ifc_device i \<noteq> dev) (map (\<lambda>i. if ?q i then i\<lparr>ifc_lag := None\<rparr> else i) (filter (\<lambda>i. \<not> ?p i) is)))"
    using False by (simp only: drop_interfaces_def delete_interfaces_def Let_def others_def if_False)
  also have "\<dots> = map unbound (filter (\<lambda>i. ifc_device i \<noteq> dev) (filter (\<lambda>i. \<not> ?p i) is))"
    by (rule map_filter_map) (simp_all split: if_split)
  also have "filter (\<lambda>i. ifc_device i \<noteq> dev) (filter (\<lambda>i. \<not> ?p i) is) = others dev is"
    unfolding others_def by (rule filter_weaker) blast
  finally show ?thesis .
qed (simp add: drop_interfaces_def)

section \<open>The dictionaries\<close>

definition printed :: "ip_brief names \<Rightarrow> bool" where
  "printed m \<longleftrightarrow> (\<forall>(n, b) \<in> set m. \<exists>a. ib_ip b = ip_str a)"

lemma printed_put: "printed m \<Longrightarrow> ib_ip b = ip_str a \<Longrightarrow> printed (dict_put n b m)"
  unfolding printed_def by (blast dest: dict_put_in)

definition ips_ok :: "ip_maps \<Rightarrow> bool" where
  "ips_ok m \<longleftrightarrow> distinct (map fst (im_seen m)) \<and> set (map fst (im_seen m)) \<subseteq> set (im_names m) \<and>
     printed (im_seen m) \<and> printed (im_map m)"

lemma ips_ok_seen:
  assumes "ips_ok u" and "n \<in> set (im_names u)" and "map_of (im_map u) n = Some b"
  shows "ips_ok (u\<lparr>im_seen := dict_put n b (im_seen u)\<rparr>)"
proof -
  obtain a where "ib_ip b = ip_str a" using assms(1) map_of_SomeD [OF assms(3)] by (auto simp: ips_ok_def printed_def)
  with assms show ?thesis by (simp add: ips_ok_def distinct_dict_put keys_dict_put printed_put del: set_map)
qed

lemma ip_row_ok:
  assumes "ips_ok m" and "ip_row m e = Inr m'"
  shows "ips_ok m'"
proof -
  have name: "ips_ok (m\<lparr>im_names := n # im_names m\<rparr>)" for n using assms(1) by (auto simp: ips_ok_def)
  have addr: "ips_ok (m\<lparr>im_names := n # im_names m, im_map := dict_put n \<lparr>ib_ip = x, ib_status = s, ib_proto = p\<rparr> (im_map m)\<rparr>)"
    if brief: "brief_address t = Some x" for n x s p t
  proof -
    obtain a where "x = ip_str a" using brief by (auto simp: brief_address_def split: sum.splits)
    then show ?thesis using name [of n] by (auto simp: ips_ok_def printed_put)
  qed
  have seen: "ips_ok (m\<lparr>im_names := n # im_names m, im_seen := dict_put n y (im_seen m)\<rparr>)"
    if "map_of (im_map m) n = Some y" for n y
    using ips_ok_seen [OF name [of n]] that by simp
  have both: "ips_ok (m\<lparr>im_names := n # im_names m, im_map := dict_put n \<lparr>ib_ip = x, ib_status = s, ib_proto = p\<rparr> (im_map m),
      im_seen := dict_put n \<lparr>ib_ip = x, ib_status = s, ib_proto = p\<rparr> (im_seen m)\<rparr>)"
    if "brief_address t = Some x" for n x s p t
    using ips_ok_seen [OF addr [OF that, of n s p]] by simp
  from assms(2) name seen both assms(1) show ?thesis
    by (auto simp: ip_row_def Let_def bind_res_eq_Inr split: if_splits option.splits)
qed

lemma lag_row_distinct:
  assumes "distinct (map fst m)" and "lag_row m e = Inr m'"
  shows "distinct (map fst m')"
proof -
  have "distinct (map fst (fold (\<lambda>s m. let member = normalize_iface (before_sep ''('' s)
      in if member = [] then m else dict_put member po m) ns m))" for po ns
    using assms(1) by (induction ns arbitrary: m) (auto simp: Let_def distinct_dict_put)
  with assms show ?thesis by (auto simp: lag_row_def Let_def bind_res_eq_Inr split: if_splits)
qed

lemma read_interfaces_ok:
  assumes "read_interfaces st ds ip po = Inr m"
  shows "ips_ok (fm_ips m)" "distinct (map fst (fm_lags m))"
proof -
  from assms obtain u ls where ip: "each_row ip_row \<lparr>im_map = [], im_seen = [], im_names = []\<rparr> (cr_parsed ip) = Inr u"
    and po: "each_row lag_row [] (cr_parsed po) = Inr ls" and m: "fm_ips m = u" "fm_lags m = ls"
    by (auto simp: read_interfaces_def bind_res_eq_Inr)
  show "ips_ok (fm_ips m)" unfolding m
    by (rule each_row_invariant [where I = ips_ok, OF ip]) (auto simp: ip_row_ok, simp add: ips_ok_def printed_def)
  show "distinct (map fst (fm_lags m))" unfolding m
    by (rule each_row_invariant [where I = "\<lambda>m. distinct (map fst m)", OF po]) (auto intro: lag_row_distinct)
qed

text \<open>A printed address is never the word that stands for none.\<close>

lemma join_sep: "2 \<le> length ss \<Longrightarrow> CHR '':'' \<in> set (join '':'' ss)"
  by (cases ss rule: remdups_adj.cases) auto

lemma length_hextets: "length (hextets n i) = n"
  by (induction n arbitrary: i) auto

lemma ip_str_assigned: "ip_str a \<noteq> [] \<and> lower (ip_str a) \<noteq> ''unassigned''"
proof -
  have "CHR ''.'' \<in> set (ip_str a) \<or> CHR '':'' \<in> set (ip_str a)"
  proof (cases "ip_ver a")
    case IPv4
    then show ?thesis by (simp add: ip_str_def ipv4_str_def)
  next
    case IPv6
    obtain st len where "best_zero_run 0 (hextets 8 (ip_int a)) (0, 0) = (st, len)" by (cases "best_zero_run 0 (hextets 8 (ip_int a)) (0, 0)")
    then have "CHR '':'' \<in> set (ipv6_str (ip_int a))"
      by (simp add: ipv6_str_def Let_def join_sep length_hextets)
    with IPv6 show ?thesis by (simp add: ip_str_def)
  qed
  then have "CHR ''.'' \<in> set (lower (ip_str a)) \<or> CHR '':'' \<in> set (lower (ip_str a))"
    by (force simp: lower_def char_lower_def intro: image_eqI [of _ char_lower])
  then show ?thesis by auto
qed

section \<open>The interfaces after a synchronisation\<close>

lemma apply_interfaces_write:
  assumes "apply_interfaces env dev st ds ip po d = Inr d'"
  shows "\<exists>m. read_interfaces st ds ip po = Inr m \<and> write_interfaces env (dev_id dev) m (t_interfaces d) = Inr (t_interfaces d')"
  using assms by (auto simp: apply_interfaces_def bind_res_eq_Inr)

lemma passes:
  "kind_pass dev = (\<lambda>n. on_iface dev n (set_kind n))" "mode_pass dev m = (\<lambda>n. on_iface dev n (set_mode m n))"
  "lag_pass dev = (\<lambda>(n, po) is. on_iface dev n (set_lag dev is po) is)"
  "address_pass dev = (\<lambda>(n, b). on_iface dev n (set_address b))"
  by (auto simp: fun_eq_iff kind_pass_def mode_pass_def lag_pass_def address_pass_def)

lemma write_steps:
  assumes "write_interfaces env dev m is = Inr js"
  obtains u v where "fold_res (get_interface env dev) (drop_interfaces dev (seen_names m) is) (seen_names m) = Inr u"
    and "fold_res (status_pass dev m) (fold (\<lambda>(n, po) is. on_iface dev n (set_lag dev is po) is) (fm_lags m)
        (fold (\<lambda>n. on_iface dev n (set_mode m n)) (seen_names m)
          (fold (\<lambda>n. on_iface dev n (set_kind n)) (seen_names m) u))) (seen_names m) = Inr v"
    and "js = fold (\<lambda>(n, b). on_iface dev n (set_address b)) (im_seen (fm_ips m)) v"
  using assms by (auto simp: write_interfaces_def passes Let_def bind_res_eq_Inr)

lemma status_passes_same:
  assumes "fold_res (status_pass dev m) is ns = Inr js" and "\<forall>n. length (filter (iface_of dev n) is) \<le> 1"
  shows "same_rows dev is js"
  using assms
proof (induction ns arbitrary: "is")
  case (Cons n ns)
  then obtain ks where step: "status_pass dev m is n = Inr ks" and rest: "fold_res (status_pass dev m) ks ns = Inr js"
    by (auto simp: bind_res_eq_Inr)
  note same = status_pass_same [OF step Cons.prems(2)]
  have "\<forall>n. length (filter (iface_of dev n) ks) \<le> 1" using Cons.prems(2) by (simp add: same_rows_count [OF same])
  from same_rows_trans [OF same Cons.IH [OF rest this]] show ?case .
qed simp

lemma counts_after_creation:
  assumes "fold_res (get_interface env dev) (drop_interfaces dev (seen_names m) is) (seen_names m) = Inr u"
    and "seen_names m \<noteq> []"
  shows "length (filter (iface_of dev n) u) = (if n \<in> set (seen_names m) then 1 else 0)"
  using get_interfaces [OF assms(1)] dropped_names [OF _ assms(2), of n dev "is"]
  by (auto simp: seen_names_def simp del: One_nat_def)

lemma write_same_rows:
  assumes "fold_res (status_pass dev m) (fold (\<lambda>(n, po) is. on_iface dev n (set_lag dev is po) is) (fm_lags m)
        (fold (\<lambda>n. on_iface dev n (set_mode m n)) ns (fold (\<lambda>n. on_iface dev n (set_kind n)) ns u))) ns = Inr v"
    and "\<forall>n. length (filter (iface_of dev n) u) \<le> 1"
  shows "same_rows dev u (fold (\<lambda>(n, b). on_iface dev n (set_address b)) bs v)"
proof -
  let ?k = "fold (\<lambda>n. on_iface dev n (set_kind n)) ns u"
  let ?l = "fold (\<lambda>n. on_iface dev n (set_mode m n)) ns ?k"
  let ?g = "fold (\<lambda>(n, po) is. on_iface dev n (set_lag dev is po) is) (fm_lags m) ?l"
  have "same_rows dev u ?k" "same_rows dev ?k ?l" by (rule same_rows_fold, simp add: same_rows_keeps)+
  moreover have "same_rows dev ?l ?g" by (rule same_rows_fold) (auto simp: same_rows_keeps)
  ultimately have ug: "same_rows dev u ?g" by (blast intro: same_rows_trans)
  then have "\<forall>n. length (filter (iface_of dev n) ?g) \<le> 1" using assms(2) by (simp add: same_rows_count)
  from same_rows_trans [OF ug status_passes_same [OF assms(1) this]] have "same_rows dev u v" .
  moreover have "same_rows dev v (fold (\<lambda>(n, b). on_iface dev n (set_address b)) bs v)"
    by (rule same_rows_fold) (auto simp: same_rows_keeps)
  ultimately show ?thesis by (rule same_rows_trans)
qed

lemma distinct_from_counts:
  "(\<forall>n. length (filter (\<lambda>x. p x \<and> f x = n) xs) \<le> 1) \<Longrightarrow> distinct (map f (filter p xs))"
proof (induction xs)
  case (Cons x xs)
  have "\<forall>n. length (filter (\<lambda>x. p x \<and> f x = n) xs) \<le> 1"
  proof
    fix n
    show "length (filter (\<lambda>x. p x \<and> f x = n) xs) \<le> 1"
      using Cons.prems by (rule allE [of _ n]) (auto split: if_splits)
  qed
  moreover have "f x \<notin> f ` {y \<in> set xs. p y}" if "p x"
    using Cons.prems [rule_format, of "f x"] that by (auto simp: filter_empty_conv)
  ultimately show ?case using Cons.IH by auto
qed simp

text \<open>
  C12. A successful synchronisation of the interfaces that reads at least one name makes the table
  list, for the device, exactly the names read, each in one row, and leaves the rows of all other
  devices as they were, but for links to interfaces that it deleted.
\<close>

theorem interfaces_match_device:
  assumes "apply_interfaces env dev st ds ip po d = Inr d'" and "read_interfaces st ds ip po = Inr m"
    and "seen_names m \<noteq> []"
  shows "set (map ifc_name (filter (\<lambda>i. ifc_device i = dev_id dev) (t_interfaces d'))) = set (seen_names m)
    \<and> distinct (map ifc_name (filter (\<lambda>i. ifc_device i = dev_id dev) (t_interfaces d')))
    \<and> map unbound (others (dev_id dev) (t_interfaces d')) = map unbound (others (dev_id dev) (t_interfaces d))"
proof -
  let ?dev = "dev_id dev"
  from apply_interfaces_write [OF assms(1)] assms(2)
  have "write_interfaces env ?dev m (t_interfaces d) = Inr (t_interfaces d')" by auto
  then obtain u v where u: "fold_res (get_interface env ?dev) (drop_interfaces ?dev (seen_names m) (t_interfaces d)) (seen_names m) = Inr u"
    and v: "fold_res (status_pass ?dev m) (fold (\<lambda>(n, po) is. on_iface ?dev n (set_lag ?dev is po) is) (fm_lags m)
        (fold (\<lambda>n. on_iface ?dev n (set_mode m n)) (seen_names m)
          (fold (\<lambda>n. on_iface ?dev n (set_kind n)) (seen_names m) u))) (seen_names m) = Inr v"
    and d': "t_interfaces d' = fold (\<lambda>(n, b). on_iface ?dev n (set_address b)) (im_seen (fm_ips m)) v"
    by (rule write_steps)
  note counts = counts_after_creation [OF u assms(3)]
  have same: "same_rows ?dev u (t_interfaces d')" unfolding d'
    by (rule write_same_rows [OF v]) (simp add: counts)
  have count: "length (filter (iface_of ?dev n) (t_interfaces d')) = (if n \<in> set (seen_names m) then 1 else 0)" for n
    using same_rows_count [OF same] counts by simp
  have "n \<in> ifc_name ` {i \<in> set (t_interfaces d'). ifc_device i = ?dev} \<longleftrightarrow> n \<in> set (seen_names m)" for n
  proof -
    have "n \<in> ifc_name ` {i \<in> set (t_interfaces d'). ifc_device i = ?dev} \<longleftrightarrow> filter (iface_of ?dev n) (t_interfaces d') \<noteq> []"
      by (auto simp: filter_empty_conv iface_of_def)
    also have "\<dots> \<longleftrightarrow> length (filter (iface_of ?dev n) (t_interfaces d')) \<noteq> 0" by simp
    finally show ?thesis by (simp add: count)
  qed
  moreover have "distinct (map ifc_name (filter (\<lambda>i. ifc_device i = ?dev) (t_interfaces d')))"
    by (rule distinct_from_counts) (use count in \<open>simp add: iface_of_def [abs_def]\<close>)
  moreover have "map unbound (others ?dev (t_interfaces d')) = map unbound (others ?dev (t_interfaces d))"
    using same get_interfaces [OF u] others_dropped [of ?dev "seen_names m" "t_interfaces d"]
    by (simp add: same_rows_def seen_names_def)
  ultimately show ?thesis by auto
qed

section \<open>What each row holds\<close>

lemma row_id_outline: "row_id dev is n = map_option fst (first_row (\<lambda>(i, d, k). d = dev \<and> k = n) (outline is))"
  by (induction "is") (auto simp: row_id_def row_of_def outline_def iface_of_def)

lemma row_id_same: "same_rows dev is js \<Longrightarrow> row_id dev js = row_id dev is"
  by (simp add: fun_eq_iff row_id_outline same_rows_def)

lemma row_of_count: "length (filter (iface_of dev n) is) = 1 \<Longrightarrow> \<exists>i. row_of dev is n = Some i"
  by (cases "first_row (iface_of dev n) is") (simp_all add: row_of_def first_row_None)

definition lagged :: "uid \<Rightarrow> iface_maps \<Rightarrow> interface list \<Rightarrow> string \<Rightarrow> interface \<Rightarrow> interface" where
  "lagged dev m is n i = (case map_of (fm_lags m) n of None \<Rightarrow> i | Some po \<Rightarrow> bind_lag (row_id dev is po) i)"

definition addressed :: "iface_maps \<Rightarrow> string \<Rightarrow> interface \<Rightarrow> interface" where
  "addressed m n i = (case map_of (im_seen (fm_ips m)) n of None \<Rightarrow> i | Some b \<Rightarrow> set_address b i)"

lemma created_step:
  assumes "get_interface env dev is n = Inr js"
  shows "row_of dev js k = (case row_of dev is k of Some x \<Rightarrow> Some x
    | None \<Rightarrow> if k = n then Some (new_interface (se_iface_id env n) dev n) else None)"
proof (cases "filter (iface_of dev n) is")
  case Nil
  then have "js = is @ [new_interface (se_iface_id env n) dev n]" using assms by (simp add: get_interface_def)
  then show ?thesis by (auto simp: row_of_def first_row_append iface_of_def new_interface_def split: option.split)
next
  case (Cons x xs)
  with assms have "js = is" by (auto simp: get_interface_def split: list.splits)
  moreover have "row_of dev is n \<noteq> None" using Cons
    by (metis filter.simps(1) filter_False first_row_None list.distinct(1) row_of_def)
  ultimately show ?thesis by (auto split: option.split)
qed

lemma created_row:
  assumes "fold_res (get_interface env dev) is ns = Inr js" and "distinct ns"
  shows "row_of dev js k = (case row_of dev is k of Some x \<Rightarrow> Some x
    | None \<Rightarrow> if k \<in> set ns then Some (new_interface (se_iface_id env k) dev k) else None)"
  using assms
proof (induction ns arbitrary: "is")
  case (Cons n ns)
  then obtain is1 where step: "get_interface env dev is n = Inr is1"
    and rest: "fold_res (get_interface env dev) is1 ns = Inr js" by (auto simp: bind_res_eq_Inr)
  from Cons.IH [OF rest] Cons.prems(2) show ?case by (auto simp: created_step [OF step] split: option.splits)
qed (simp split: option.split)

text \<open>The row of a name after the passes, from the row before them.\<close>

lemma final_row:
  assumes "write_interfaces env dev m is = Inr js" and "seen_names m \<noteq> []" and n: "n \<in> set (seen_names m)"
    and maps: "distinct (map fst (fm_lags m))" "distinct (map fst (im_seen (fm_ips m)))"
  obtains base i where "set_status m n (lagged dev m js n (set_mode m n (set_kind n base))) = Inr i"
    and "row_of dev js n = Some (addressed m n i)"
    and "base = (case row_of dev (drop_interfaces dev (seen_names m) is) n of
      None \<Rightarrow> new_interface (se_iface_id env n) dev n | Some x \<Rightarrow> x)"
proof -
  from assms(1) obtain u v where u: "fold_res (get_interface env dev) (drop_interfaces dev (seen_names m) is) (seen_names m) = Inr u"
    and v: "fold_res (status_pass dev m) (fold (\<lambda>(n, po) is. on_iface dev n (set_lag dev is po) is) (fm_lags m)
        (fold (\<lambda>n. on_iface dev n (set_mode m n)) (seen_names m)
          (fold (\<lambda>n. on_iface dev n (set_kind n)) (seen_names m) u))) (seen_names m) = Inr v"
    and js: "js = fold (\<lambda>(n, b). on_iface dev n (set_address b)) (im_seen (fm_ips m)) v"
    by (rule write_steps)
  let ?k = "fold (\<lambda>n. on_iface dev n (set_kind n)) (seen_names m) u"
  let ?l = "fold (\<lambda>n. on_iface dev n (set_mode m n)) (seen_names m) ?k"
  have names: "distinct (seen_names m)" by (simp add: seen_names_def)
  note counts = counts_after_creation [OF u assms(2)]
  have same: "same_rows dev u js" unfolding js by (rule write_same_rows [OF v]) (simp add: counts)
  have l: "same_rows dev u ?l"
    by (rule same_rows_trans; rule same_rows_fold, simp add: same_rows_keeps)
  from n counts obtain base where base: "row_of dev u n = Some base" using row_of_count [of dev n u] by auto
  from same_rows_count [OF same, of n] n counts obtain x where x: "row_of dev js n = Some x"
    using row_of_count [of dev n js] by auto
  have "row_of dev ?l n = Some (set_mode m n (set_kind n base))"
    using n base by (simp add: row_pass names)
  then have g: "row_of dev (fold (\<lambda>(n, po) is. on_iface dev n (set_lag dev is po) is) (fm_lags m) ?l) n =
      Some (lagged dev m js n (set_mode m n (set_kind n base)))"
    using row_id_same [OF l] row_id_same [OF same]
    by (simp add: row_pass_lag maps lagged_def split: option.split)
  have "row_of dev js n = (case map_of (im_seen (fm_ips m)) n of None \<Rightarrow> row_of dev v n
      | Some b \<Rightarrow> map_option (set_address b) (row_of dev v n))"
    unfolding js by (rule row_pass_assoc) (simp_all add: maps)
  moreover have "row_of dev v n = (case set_status m n (lagged dev m js n (set_mode m n (set_kind n base))) of
      Inr i' \<Rightarrow> Some i' | Inl _ \<Rightarrow> None)"
    using row_status_passes [OF v names, of n] n g by simp
  ultimately have js_row: "row_of dev js n = map_option (addressed m n)
      (case set_status m n (lagged dev m js n (set_mode m n (set_kind n base))) of Inr i' \<Rightarrow> Some i' | Inl _ \<Rightarrow> None)"
    by (cases "map_of (im_seen (fm_ips m)) n") (simp_all add: addressed_def [abs_def] option.map_ident)
  with x obtain i where "set_status m n (lagged dev m js n (set_mode m n (set_kind n base))) = Inr i"
    by (cases "set_status m n (lagged dev m js n (set_mode m n (set_kind n base)))") auto
  moreover from js_row this have "row_of dev js n = Some (addressed m n i)" by simp
  moreover have "base = (case row_of dev (drop_interfaces dev (seen_names m) is) n of
      None \<Rightarrow> new_interface (se_iface_id env n) dev n | Some x \<Rightarrow> x)"
    using created_row [OF u names, of n] base n by (simp split: option.splits)
  ultimately show thesis by (rule that)
qed

lemma set_status_fields:
  assumes "set_status m n i = Inr i'"
  shows "ifc_kind i' = ifc_kind i \<and> ifc_mode i' = ifc_mode i \<and> ifc_lag i' = ifc_lag i \<and> ifc_ip i' = ifc_ip i
    \<and> ifc_id i' = ifc_id i
    \<and> (\<forall>s. map_of (fm_desc m) n = Some s \<longrightarrow> ifc_description i' = Some s)
    \<and> (\<forall>s. map_of (fm_status m) n = Some s \<longrightarrow> ifc_speed i' = ps_speed s \<and> ifc_duplex i' = ps_duplex s
        \<and> ps_vlan_raw s = Some (ifc_vlan_raw i') \<and> ifc_is_trunk i' = contains (ps_vlan s) ''trunk'')"
proof (cases "map_of (fm_status m) n")
  case None
  then show ?thesis using assms
    by (cases "map_of (fm_desc m) n"; cases "map_of (im_seen (fm_ips m)) n") (auto simp: set_status_def Let_def)
next
  case (Some s)
  then obtain v where "ps_vlan_raw s = Some v" using assms
    by (cases "ps_vlan_raw s") (auto simp: set_status_def Let_def)
  with Some show ?thesis using assms
    by (cases "map_of (fm_desc m) n"; cases "map_of (im_seen (fm_ips m)) n";
        cases "map_status (ps_status s) = ''unknown''") (auto simp: set_status_def Let_def)
qed

lemma kind_mode_fields:
  "ifc_kind (set_mode m n (set_kind n i)) = infer_kind n" "ifc_lag (set_mode m n (set_kind n i)) = ifc_lag i"
  by (auto simp: set_mode_def set_kind_def Let_def)

lemma lagged_fields:
  "ifc_kind (lagged dev m js n i) = ifc_kind i" "ifc_mode (lagged dev m js n i) = ifc_mode i"
  "ifc_lag (lagged dev m js n i) = (case map_of (fm_lags m) n of None \<Rightarrow> ifc_lag i
     | Some po \<Rightarrow> (case row_id dev js po of None \<Rightarrow> ifc_lag i | Some l \<Rightarrow> Some l))"
  by (auto simp: lagged_def bind_lag_def split: option.splits)

lemma addressed_fields:
  "ifc_kind (addressed m n i) = ifc_kind i" "ifc_lag (addressed m n i) = ifc_lag i"
  "ifc_description (addressed m n i) = ifc_description i" "ifc_speed (addressed m n i) = ifc_speed i"
  "ifc_duplex (addressed m n i) = ifc_duplex i" "ifc_vlan_raw (addressed m n i) = ifc_vlan_raw i"
  "ifc_is_trunk (addressed m n i) = ifc_is_trunk i"
  by (auto simp: addressed_def set_address_def split: option.splits)

lemma addressed_ip:
  assumes "ips_ok (fm_ips m)" and "map_of (im_seen (fm_ips m)) n = Some b"
  shows "ifc_ip (addressed m n i) = Some (ib_ip b)"
proof -
  from assms obtain a where "ib_ip b = ip_str a" by (auto simp: ips_ok_def printed_def dest!: map_of_SomeD)
  with ip_str_assigned [of a] assms(2) show ?thesis by (simp add: addressed_def set_address_def)
qed

text \<open>
  After a successful synchronisation the row of every name read holds what was read for it:
  its kind, the description, speed, duplex, VLAN text and trunk flag of the outputs that list the
  name, the address of the last row that had one, and the port channel row it is a member of.
\<close>

theorem synced_interface_fields:
  assumes "apply_interfaces env dev st ds ip po d = Inr d'" and "read_interfaces st ds ip po = Inr m"
    and "n \<in> set (seen_names m)"
  shows "\<exists>i. row_of (dev_id dev) (t_interfaces d') n = Some i \<and> ifc_kind i = infer_kind n
    \<and> (\<forall>s. map_of (fm_desc m) n = Some s \<longrightarrow> ifc_description i = Some s)
    \<and> (\<forall>s. map_of (fm_status m) n = Some s \<longrightarrow> ifc_speed i = ps_speed s \<and> ifc_duplex i = ps_duplex s
        \<and> ps_vlan_raw s = Some (ifc_vlan_raw i) \<and> ifc_is_trunk i = contains (ps_vlan s) ''trunk'')
    \<and> (\<forall>b. map_of (im_seen (fm_ips m)) n = Some b \<longrightarrow> ifc_ip i = Some (ib_ip b))
    \<and> (\<forall>p. map_of (fm_lags m) n = Some p \<longrightarrow>
        (\<exists>q. row_of (dev_id dev) (t_interfaces d') p = Some q \<and> ifc_lag i = Some (ifc_id q)))"
proof -
  let ?dev = "dev_id dev" and ?js = "t_interfaces d'"
  from apply_interfaces_write [OF assms(1)] assms(2)
  have w: "write_interfaces env ?dev m (t_interfaces d) = Inr ?js" by auto
  note ok = read_interfaces_ok [OF assms(2)]
  from assms(3) have ne: "seen_names m \<noteq> []" by auto
  have seen: "distinct (map fst (im_seen (fm_ips m)))" using ok(1) by (simp add: ips_ok_def)
  from final_row [OF w ne assms(3) ok(2) seen] obtain base i
    where i: "set_status m n (lagged ?dev m ?js n (set_mode m n (set_kind n base))) = Inr i"
      and row: "row_of ?dev ?js n = Some (addressed m n i)" by metis
  have lag: "\<exists>q. row_of ?dev ?js p = Some q \<and> ifc_lag i = Some (ifc_id q)" if p: "map_of (fm_lags m) n = Some p" for p
  proof -
    have "p \<in> set (seen_names m)" using p by (force simp: seen_names_def dest: map_of_SomeD)
    from final_row [OF w ne this ok(2) seen] obtain q where "row_of ?dev ?js p = Some q" by metis
    with p set_status_fields [OF i] show ?thesis by (auto simp: lagged_fields row_id_def)
  qed
  from row set_status_fields [OF i] lag addressed_ip [OF ok(1)] show ?thesis
    by (auto simp: addressed_fields lagged_fields kind_mode_fields)
qed

definition demo_status :: cmd_result where
  "demo_status = \<lparr>cr_raw = ''...'', cr_parsed = PyList [
     PyDict [(''port'', PyStr ''Gi1''), (''status'', PyStr ''connected''), (''vlan'', PyStr ''trunk'')]], cr_error = None\<rparr>"

definition demo_channels :: cmd_result where
  "demo_channels = \<lparr>cr_raw = ''...'', cr_parsed = PyList [
     PyDict [(''bundle_name'', PyStr ''Po1(SU)''), (''member_interface'', PyList [PyStr ''Gi1(P)''])]], cr_error = None\<rparr>"

definition demo_silent :: cmd_result where
  "demo_silent = \<lparr>cr_raw = [], cr_parsed = PyNone, cr_error = None\<rparr>"

definition demo_ports :: db where
  "demo_ports = empty_db\<lparr>t_interfaces := [new_interface 7 1 ''Gi9'']\<rparr>"

definition demo_env_ids :: sync_env where
  "demo_env_ids = \<lparr>se_now = 1000, se_module_id = (\<lambda>n s. length n), se_iface_id = (\<lambda>n. length n),
     se_fsm = (\<lambda>t r. PyNone), se_sha256 = (\<lambda>s. s)\<rparr>"

definition demo_maps :: iface_maps where
  "demo_maps = \<lparr>fm_desc = [], fm_status = [(''Gi1'', \<lparr>ps_status = ''connected'', ps_vlan = ''trunk'', ps_vlan_raw = Some ''trunk'',
       ps_speed = None, ps_speed_mode = None, ps_duplex = None\<rparr>)],
     fm_ips = \<lparr>im_map = [], im_seen = [], im_names = []\<rparr>, fm_lags = [(''Gi1'', ''Po1'')]\<rparr>"

definition demo_written :: "exn + interface list" where
  "demo_written = write_interfaces demo_env_ids 1 demo_maps [new_interface 7 1 ''Gi9'']"

definition demo_ports_synced :: db where
  "demo_ports_synced = empty_db\<lparr>t_interfaces := (case demo_written of Inr x \<Rightarrow> x | Inl _ \<Rightarrow> [])\<rparr>"

lemma demo_reading: "read_interfaces demo_status demo_silent demo_silent demo_channels = Inr demo_maps"
  by code_simp

lemma demo_writing: "is_ok demo_written"
  by code_simp

lemma demo_names: "seen_names demo_maps = [''Gi1'', ''Po1'']"
  by code_simp

lemma demo_run:
  "apply_interfaces demo_env_ids (new_device 1 ''sw1'' ''10.0.0.1'' 1 1) demo_status demo_silent demo_silent demo_channels demo_ports
     = Inr demo_ports_synced"
proof -
  obtain x where "demo_written = Inr x" using demo_writing by (metis is_ok_simps(1) sum.exhaust)
  then show ?thesis
    by (simp add: apply_interfaces_def demo_reading demo_ports_synced_def demo_written_def demo_ports_def new_device_def empty_db_def)
qed

theorem interfaces_match_device_witness:
  "set (map ifc_name (filter (\<lambda>i. ifc_device i = 1) (t_interfaces demo_ports_synced))) = {''Gi1'', ''Po1''}"
proof -
  have "seen_names demo_maps \<noteq> []" by (simp add: demo_names)
  from interfaces_match_device [OF demo_run demo_reading this, THEN conjunct1] show ?thesis
    by (simp only: demo_names) (simp add: new_device_def)
qed

theorem synced_interface_fields_witness:
  "\<exists>i q. row_of 1 (t_interfaces demo_ports_synced) ''Gi1'' = Some i
     \<and> row_of 1 (t_interfaces demo_ports_synced) ''Po1'' = Some q \<and> ifc_lag i = Some (ifc_id q)"
  using synced_interface_fields [OF demo_run demo_reading, of "''Gi1''"] demo_names
  by (auto simp: new_device_def demo_maps_def)

section \<open>What stays, and what stops a run\<close>

lemma row_of_update_where:
  "(\<And>i. ifc_device (f i) = ifc_device i \<and> ifc_name (f i) = ifc_name i) \<Longrightarrow>
     row_of dev (map f (filter p is)) n = map_option f (first_row (\<lambda>i. p i \<and> iface_of dev n i) is)"
  by (induction "is") (auto simp: row_of_def iface_of_def)

text \<open>
  A link to a port channel outlives the membership: an interface that no output lists as a
  member any more keeps the port channel it had, as long as that row still exists.
\<close>

theorem stale_port_channel_stays:
  assumes "apply_interfaces env dev st ds ip po d = Inr d'" and "read_interfaces st ds ip po = Inr m"
    and "n \<in> set (seen_names m)" and "map_of (fm_lags m) n = None"
    and "row_of (dev_id dev) (t_interfaces d) n = Some i" and "ifc_lag i = Some l"
    and "\<forall>j \<in> set (t_interfaces d). ifc_id j = l \<longrightarrow> ifc_device j = dev_id dev \<longrightarrow> ifc_name j \<in> set (seen_names m)"
  shows "\<exists>i'. row_of (dev_id dev) (t_interfaces d') n = Some i' \<and> ifc_lag i' = Some l"
proof -
  let ?dev = "dev_id dev" and ?js = "t_interfaces d'"
  let ?p = "\<lambda>i. ifc_device i = ?dev \<and> ifc_name i \<notin> set (seen_names m)"
  from apply_interfaces_write [OF assms(1)] assms(2)
  have w: "write_interfaces env ?dev m (t_interfaces d) = Inr ?js" by auto
  note ok = read_interfaces_ok [OF assms(2)]
  from assms(3) have ne: "seen_names m \<noteq> []" by auto
  have seen: "distinct (map fst (im_seen (fm_ips m)))" using ok(1) by (simp add: ips_ok_def)
  let ?clear = "\<lambda>i. if (case ifc_lag i of None \<Rightarrow> False | Some l \<Rightarrow> l \<in> set (map ifc_id (filter ?p (t_interfaces d))))
      then i\<lparr>ifc_lag := None\<rparr> else i"
  have "row_of ?dev (drop_interfaces ?dev (seen_names m) (t_interfaces d)) n =
      map_option ?clear (first_row (\<lambda>i. \<not> ?p i \<and> iface_of ?dev n i) (t_interfaces d))"
    using ne unfolding drop_interfaces_def delete_interfaces_def Let_def
    by (simp only: if_False) (rule row_of_update_where, simp)
  also have "first_row (\<lambda>i. \<not> ?p i \<and> iface_of ?dev n i) (t_interfaces d) = row_of ?dev (t_interfaces d) n"
    unfolding row_of_def using assms(3) by (intro arg_cong [where f = "\<lambda>p. first_row p _"]) (auto simp: iface_of_def)
  finally have dropped: "row_of ?dev (drop_interfaces ?dev (seen_names m) (t_interfaces d)) n = map_option ?clear (row_of ?dev (t_interfaces d) n)" .
  have base: "row_of ?dev (drop_interfaces ?dev (seen_names m) (t_interfaces d)) n = Some i"
  proof -
    have "l \<notin> set (map ifc_id (filter ?p (t_interfaces d)))" using assms(7) by auto
    then have "?clear i = i" unfolding assms(6) by (simp only: option.case if_False)
    with assms(5) dropped show ?thesis by (simp only: option.map)
  qed
  from final_row [OF w ne assms(3) ok(2) seen] obtain x
    where x: "set_status m n (lagged ?dev m ?js n (set_mode m n (set_kind n i))) = Inr x"
      and row: "row_of ?dev ?js n = Some (addressed m n x)" using base by (metis option.case(2))
  from set_status_fields [OF x] assms(4,6) row show ?thesis
    by (auto simp: addressed_fields lagged_fields kind_mode_fields)
qed

definition demo_bound :: "interface list" where
  "demo_bound = [new_interface 5 1 ''Po1'', (new_interface 7 1 ''Gi1'')\<lparr>ifc_lag := Some 5\<rparr>]"

definition demo_unbound_maps :: iface_maps where
  "demo_unbound_maps = \<lparr>fm_desc = [(''Gi1'', ''uplink''), (''Po1'', [])], fm_status = [],
     fm_ips = \<lparr>im_map = [], im_seen = [], im_names = []\<rparr>, fm_lags = []\<rparr>"

definition demo_descriptions :: cmd_result where
  "demo_descriptions = \<lparr>cr_raw = ''...'', cr_parsed = PyList [
     PyDict [(''port'', PyStr ''Gi1''), (''description'', PyStr ''uplink'')], PyDict [(''port'', PyStr ''Po1'')]], cr_error = None\<rparr>"

theorem stale_port_channel_stays_witness:
  "\<exists>d' i. apply_interfaces demo_env_ids (new_device 1 ''sw1'' ''10.0.0.1'' 1 1) demo_silent demo_descriptions demo_silent demo_silent
       (empty_db\<lparr>t_interfaces := demo_bound\<rparr>) = Inr d' \<and> row_of 1 (t_interfaces d') ''Gi1'' = Some i \<and> ifc_lag i = Some 5"
proof -
  have read: "read_interfaces demo_silent demo_descriptions demo_silent demo_silent = Inr demo_unbound_maps" by code_simp
  have "is_ok (write_interfaces demo_env_ids 1 demo_unbound_maps demo_bound)" by code_simp
  then obtain x where "write_interfaces demo_env_ids 1 demo_unbound_maps demo_bound = Inr x"
    by (metis is_ok_simps(1) sum.exhaust)
  then have run: "apply_interfaces demo_env_ids (new_device 1 ''sw1'' ''10.0.0.1'' 1 1) demo_silent demo_descriptions demo_silent
      demo_silent (empty_db\<lparr>t_interfaces := demo_bound\<rparr>) = Inr (empty_db\<lparr>t_interfaces := x\<rparr>)"
    by (simp add: apply_interfaces_def read new_device_def empty_db_def)
  have names: "seen_names demo_unbound_maps = [''Gi1'', ''Po1'']" by code_simp
  show ?thesis
    using stale_port_channel_stays [OF run read, of "''Gi1''" "(new_interface 7 1 ''Gi1'')\<lparr>ifc_lag := Some 5\<rparr>" 5] run names
    by (simp add: demo_unbound_maps_def demo_bound_def row_of_def iface_of_def new_interface_def new_device_def)
qed

text \<open>
  One address that cannot be read aborts the synchronisation of all interfaces: when a row of
  the IP brief has a text that is neither an address nor one of the words for none, and no earlier
  row of the interface had an address, the run ends with a \<^verbatim>\<open>KeyError\<close>.
\<close>

theorem unreadable_address_aborts:
  assumes "each_row desc_row [] (cr_parsed ds) = Inr a" and "each_row status_row [] (cr_parsed st) = Inr b"
    and "cr_parsed ip = PyList (vs @ PyDict e # rest)"
    and "each_row ip_row \<lparr>im_map = [], im_seen = [], im_names = []\<rparr> (PyList vs) = Inr u"
    and "get_or e [''intf'', ''interface''] = PyStr nm" and "normalize_iface nm \<noteq> []"
    and "get e ''status'' = PyStr s" and "get e ''proto'' = PyStr p" and "get_or e [''ipaddr'', ''ip_address''] = PyStr t"
    and "has_address (strip t)" and "brief_address (strip t) = None" and "map_of (im_map u) (normalize_iface nm) = None"
  shows "apply_interfaces env dev st ds ip po d = Inl (KeyError (py_repr_str (normalize_iface nm)))"
proof -
  from assms(6) have "nm \<noteq> []" by (auto simp: normalize_iface_def)
  from assms(10) have "t \<noteq> []" by (auto simp: has_address_def)
  have low: "str_method ''lower'' lower (py_or (PyStr x) (PyStr [])) = Inr (lower x)" for x
    by (simp add: py_or_def)
  have "ip_row u e = Inl (KeyError (py_repr_str (normalize_iface nm)))"
    using assms(5-12) \<open>nm \<noteq> []\<close> \<open>t \<noteq> []\<close>
    by (simp add: ip_row_def normalize_iface_val_def low on_text_or_empty_def Let_def)
  moreover have "fold_res (\<lambda>s x. bind_res (as_dict x) (ip_row s)) \<lparr>im_map = [], im_seen = [], im_names = []\<rparr> vs = Inr u"
    using assms(4) by (cases "vs = []") (auto simp: each_row_def iterate_def)
  ultimately have "each_row ip_row \<lparr>im_map = [], im_seen = [], im_names = []\<rparr> (cr_parsed ip) =
      Inl (KeyError (py_repr_str (normalize_iface nm)))"
    by (simp add: each_row_def iterate_def assms(3) fold_res_append as_dict_def)
  then show ?thesis using assms(1,2) by (simp add: apply_interfaces_def read_interfaces_def)
qed

definition demo_dhcp :: cmd_result where
  "demo_dhcp = \<lparr>cr_raw = ''...'', cr_parsed = PyList ([] @ PyDict [(''intf'', PyStr ''Vlan1''), (''ipaddr'', PyStr ''dhcp''),
     (''status'', PyStr ''up''), (''proto'', PyStr ''up'')] # []), cr_error = None\<rparr>"

theorem unreadable_address_aborts_witness:
  "apply_interfaces demo_env_ids (new_device 1 ''sw1'' ''10.0.0.1'' 1 1) demo_silent demo_silent demo_dhcp demo_silent empty_db
     = Inl (KeyError (py_repr_str (normalize_iface ''Vlan1'')))"
  by (rule unreadable_address_aborts [where a = "[]" and b = "[]" and vs = "[]" and rest = "[]" and s = "''up''" and p = "''up''"
        and t = "''dhcp''" and u = "\<lparr>im_map = [], im_seen = [], im_names = []\<rparr>"
        and e = "[(''intf'', PyStr ''Vlan1''), (''ipaddr'', PyStr ''dhcp''), (''status'', PyStr ''up''), (''proto'', PyStr ''up'')]"];
      code_simp)

end
