(* ===== verification/TopoParse.thy ===== *)
theory TopoParse
  imports PyRegex PyVal SyncParse
begin

text \<open>
  \<^verbatim>\<open>network/adapters/topology/__init__.py\<close>: the readers of the CDP and LLDP outputs.
  A section of a detail output is an open record that lines fill in; it is closed, and kept when
  it has a name and a local interface, by the line that opens the next one.
\<close>

record neighbor =
  nb_local :: string
  nb_name :: string
  nb_port :: string
  nb_platform :: string
  nb_caps :: string
  nb_protocol :: string

definition paren_rx :: rx where
  "paren_rx = seqs [Many is_space, lit ''('', Many (\<lambda>c. c \<noteq> CHR '')''), lit '')'', Many is_space, Eos]"

definition neighbor_name :: "string \<Rightarrow> string" where
  "neighbor_name v = (let name = strip v in if name = [] then [] else strip (rx_delete paren_rx name))"

text \<open>The open section: a Python dictionary whose missing keys read as the empty text.\<close>

record details =
  sc_name :: "string option"
  sc_local :: "string option"
  sc_port :: "string option"
  sc_platform :: "string option"
  sc_caps :: "string option"

definition no_section :: details where
  "no_section = \<lparr>sc_name = None, sc_local = None, sc_port = None, sc_platform = None, sc_caps = None\<rparr>"

text \<open>
  \<^verbatim>\<open>_finalize_neighbor\<close>: an empty dictionary gives nothing, and neither does one
  without a name or a local interface.
\<close>

definition finalize :: "details \<Rightarrow> neighbor list \<Rightarrow> string \<Rightarrow> neighbor list" where
  "finalize cur ns protocol =
     (let name = neighbor_name (or_empty (sc_name cur)); loc = strip (or_empty (sc_local cur))
      in if cur = no_section \<or> name = [] \<or> loc = [] then ns
         else ns @ [\<lparr>nb_local = loc, nb_name = name, nb_port = strip (or_empty (sc_port cur)),
           nb_platform = strip (or_empty (sc_platform cur)), nb_caps = strip (or_empty (sc_caps cur)), nb_protocol = protocol\<rparr>])"

text \<open>\<^verbatim>\<open>line.split(sep, 1)[-1].strip()\<close>\<close>

definition after :: "string \<Rightarrow> string \<Rightarrow> string" where
  "after sep line = strip (after_sep sep line)"

section \<open>CDP\<close>

text \<open>The table of \<^verbatim>\<open>show cdp neighbors\<close>: a long name stands on a line of its own.\<close>

record table =
  tb_inside :: bool
  tb_pending :: string
  tb_rows :: "neighbor list"

definition cdp_row :: "string \<Rightarrow> string \<Rightarrow> string \<Rightarrow> string \<Rightarrow> string \<Rightarrow> neighbor" where
  "cdp_row dev loc caps platform port = \<lparr>nb_local = strip loc, nb_name = neighbor_name dev, nb_port = strip port,
     nb_platform = strip platform, nb_caps = strip caps, nb_protocol = ''cdp''\<rparr>"

definition cdp_columns :: "string list \<Rightarrow> table \<Rightarrow> table" where
  "cdp_columns cols t =
     (case cols of
        [c] \<Rightarrow> t\<lparr>tb_pending := strip c\<rparr>
      | dev # loc # hold # caps # platform # port # _ \<Rightarrow>
          t\<lparr>tb_pending := [], tb_rows := tb_rows t @ [cdp_row dev loc caps platform port]\<rparr>
      | [loc, hold, caps, platform, port] \<Rightarrow>
          if tb_pending t = [] then t
          else t\<lparr>tb_pending := [], tb_rows := tb_rows t @ [cdp_row (tb_pending t) loc caps platform port]\<rparr>
      | _ \<Rightarrow> t)"

definition cdp_table_line :: "table \<Rightarrow> string \<Rightarrow> table" where
  "cdp_table_line t line =
     (if contains line ''Device ID'' \<and> contains line ''Local Intrfce'' then t\<lparr>tb_inside := True\<rparr>
      else if \<not> tb_inside t \<or> strip line = [] \<or> startswith line ''Total cdp entries'' then t
      else cdp_columns (split_columns (strip line)) t)"

definition parse_cdp_summary :: "string \<Rightarrow> neighbor list" where
  "parse_cdp_summary raw =
     tb_rows (foldl cdp_table_line \<lparr>tb_inside = False, tb_pending = [], tb_rows = []\<rparr> (splitlines raw))"

definition port_rx :: rx where
  "port_rx = seqs [lit ''Interface:'', Many is_space, Cap 1 (Many1 (\<lambda>c. c \<noteq> CHR '','')), lit '','', Many is_space,
     lit ''Port ID'', Lazy any_char, lit '':'', Many is_space, Cap 2 (Many1 any_char), Eos]"

definition platform_line :: "string \<Rightarrow> details \<Rightarrow> details" where
  "platform_line line cur =
     (let part = after ''Platform:'' line
      in case cut ''Capabilities:'' part of
           Some (platform, caps) \<Rightarrow> cur\<lparr>sc_platform := Some (strip (rstrip_char (CHR '','') platform)), sc_caps := Some (strip caps)\<rparr>
         | None \<Rightarrow> cur\<lparr>sc_platform := Some (strip part)\<rparr>)"

text \<open>The lines of a section after the one that names the device.\<close>

definition cdp_field :: "string \<Rightarrow> details \<Rightarrow> details" where
  "cdp_field line cur =
     (case (if startswith line ''Interface:'' then rx_search port_rx line else None) of
        Some g \<Rightarrow> cur\<lparr>sc_local := Some (strip (group_text g 1)), sc_port := Some (strip (group_text g 2))\<rparr>
      | None \<Rightarrow>
          if startswith line ''Port ID'' then cur\<lparr>sc_port := Some (after '':'' line)\<rparr>
          else if startswith line ''Platform:'' then platform_line line cur
          else if startswith line ''Capabilities:'' then cur\<lparr>sc_caps := Some (after ''Capabilities:'' line)\<rparr>
          else if startswith line ''Local Interface:'' then cur\<lparr>sc_local := Some (after '':'' line)\<rparr>
          else cur)"

definition cdp_line :: "details \<times> neighbor list \<Rightarrow> string \<Rightarrow> details \<times> neighbor list" where
  "cdp_line st line0 =
     (let line = strip line0; (cur, ns) = st
      in if line = [] \<or> startswith line ''Capability Codes'' \<or> startswith line ''Total cdp entries'' then st
         else if startswith (lower line) ''device id''
         then (no_section\<lparr>sc_name := Some (after ''Device ID:'' line)\<rparr>, finalize cur ns ''cdp'')
         else (cdp_field line cur, ns))"

definition parse_cdp_detail :: "string \<Rightarrow> neighbor list" where
  "parse_cdp_detail raw = (let (cur, ns) = foldl cdp_line (no_section, []) (splitlines raw) in finalize cur ns ''cdp'')"

definition parse_cdp :: "string \<Rightarrow> neighbor list" where
  "parse_cdp raw =
     (let summary = (if contains raw ''Device ID'' \<and> contains raw ''Local Intrfce'' then parse_cdp_summary raw else [])
      in if summary \<noteq> [] then summary else parse_cdp_detail raw)"

section \<open>LLDP\<close>

definition lldp_table_line :: "string \<Rightarrow> neighbor option" where
  "lldp_table_line line =
     (if strip line = [] \<or> startswith line ''Total entries displayed'' \<or> startswith (strip line) ''Device ID''
         \<or> startswith (strip line) ''Capability codes'' then None
      else case split_columns (strip line) of
          dev # loc # hold # caps # port # _ \<Rightarrow> Some \<lparr>nb_local = strip loc, nb_name = neighbor_name dev,
            nb_port = strip port, nb_platform = [], nb_caps = strip caps, nb_protocol = ''lldp''\<rparr>
        | _ \<Rightarrow> None)"

definition model_rx :: rx where
  "model_rx = seqs [Alt (seqs [Cls (one_of ''Mm''), lit ''odel'']) (lit ''PID''), Many is_space, Cls (one_of '':=''),
     Many is_space, Cap 1 (Many1 (\<lambda>c. is_alnum c \<or> c = CHR ''-''))]"

definition is_local_line :: "string \<Rightarrow> bool" where
  "is_local_line line \<longleftrightarrow>
     startswith line ''Local Intf:'' \<or> startswith line ''Local Interface:'' \<or> startswith line ''Local Port id:''"

definition lldp_field :: "string \<Rightarrow> details \<Rightarrow> details" where
  "lldp_field line cur =
     (if startswith line ''Port id:'' \<or> startswith line ''Port ID:'' then cur\<lparr>sc_port := Some (after '':'' line)\<rparr>
      else if startswith line ''System Name:'' then cur\<lparr>sc_name := Some (after '':'' line)\<rparr>
      else if startswith line ''System Capabilities:'' then cur\<lparr>sc_caps := Some (after '':'' line)\<rparr>
      else if startswith line ''Model Number:''
      then (let m = after '':'' line
            in if m \<noteq> [] \<and> lower m \<noteq> ''not advertised'' then cur\<lparr>sc_platform := Some m\<rparr> else cur)
      else if startswith line ''System Description:''
      then (case rx_search model_rx (after '':'' line) of None \<Rightarrow> cur
          | Some g \<Rightarrow> cur\<lparr>sc_platform := Some (strip (group_text g 1))\<rparr>)
      else cur)"

text \<open>
  A chassis line closes the section when it has a local interface or a name already; the second
  chassis branch of the code can not be reached.
\<close>

definition lldp_line :: "details \<times> neighbor list \<Rightarrow> string \<Rightarrow> details \<times> neighbor list" where
  "lldp_line st line0 =
     (let line = strip line0; (cur, ns) = st
      in if line = [] \<or> startswith line ''Total entries displayed'' then st
         else if startswith line ''Chassis id:''
         then (let closes = text_true (sc_local cur) \<or> text_true (sc_name cur);
                   ns = (if closes then finalize cur ns ''lldp'' else ns);
                   cur = (if closes then no_section else cur)
               in (if text_true (sc_name cur) then cur else cur\<lparr>sc_name := Some (after '':'' line)\<rparr>, ns))
         else if is_local_line line
         then (no_section\<lparr>sc_local := Some (after '':'' line)\<rparr>, finalize cur ns ''lldp'')
         else (lldp_field line cur, ns))"

definition parse_lldp_detail :: "string list \<Rightarrow> neighbor list" where
  "parse_lldp_detail ls = (let (cur, ns) = foldl lldp_line (no_section, []) ls in finalize cur ns ''lldp'')"

definition parse_lldp :: "string \<Rightarrow> neighbor list" where
  "parse_lldp raw =
     (let rows = (if contains raw ''Device ID'' \<and> contains raw ''Local Intf'' then List.map_filter lldp_table_line (splitlines raw) else [])
      in if rows \<noteq> [] then rows else parse_lldp_detail (splitlines raw))"

section \<open>What the readers guarantee\<close>

text \<open>Every neighbour of a detail output has a name and a local interface.\<close>

definition complete :: "neighbor \<Rightarrow> bool" where
  "complete n \<longleftrightarrow> nb_name n \<noteq> [] \<and> nb_local n \<noteq> []"

lemma finalize_complete: "list_all complete ns \<Longrightarrow> list_all complete (finalize cur ns p)"
  by (simp add: finalize_def Let_def complete_def)

lemma foldl_invariant: "I st \<Longrightarrow> (\<And>u x. I u \<Longrightarrow> I (f u x)) \<Longrightarrow> I (foldl f st xs)"
  by (induction xs arbitrary: st) auto

lemma cdp_detail_complete: "list_all complete (parse_cdp_detail raw)"
proof -
  have "list_all complete (snd (foldl cdp_line (no_section, []) (splitlines raw)))"
    by (rule foldl_invariant [where I = "\<lambda>st. list_all complete (snd st)"])
      (auto simp: cdp_line_def Let_def finalize_complete split: prod.splits)
  then show ?thesis
    by (cases "foldl cdp_line (no_section, []) (splitlines raw)") (simp add: parse_cdp_detail_def finalize_complete)
qed

lemma lldp_line_complete: "list_all complete (snd st) \<Longrightarrow> list_all complete (snd (lldp_line st line))"
  by (cases st) (auto simp: lldp_line_def Let_def finalize_complete)

lemma lldp_detail_complete: "list_all complete (parse_lldp_detail ls)"
proof -
  have "list_all complete (snd (foldl lldp_line (no_section, []) ls))"
    by (rule foldl_invariant [where I = "\<lambda>st. list_all complete (snd st)"]) (simp_all add: lldp_line_complete)
  then show ?thesis
    by (cases "foldl lldp_line (no_section, []) ls") (simp add: parse_lldp_detail_def finalize_complete)
qed

text \<open>
  The order of a section in the detail output of IOS: the local interface, then at once the
  chassis. The chassis line closes the section that the local interface has just opened.
\<close>

fun local_then_chassis :: "string list \<Rightarrow> bool" where
  "local_then_chassis [] = True"
| "local_then_chassis [l] = (\<not> is_local_line (strip l))"
| "local_then_chassis (l # k # ls) =
     ((is_local_line (strip l) \<longrightarrow> startswith (strip k) ''Chassis id:'') \<and> local_then_chassis (k # ls))"

lemma finalize_no_local: "\<not> text_true (sc_local cur) \<Longrightarrow> finalize cur ns p = ns"
  by (simp add: finalize_def text_true_def Let_def)

lemma finalize_no_name: "\<not> text_true (sc_name cur) \<Longrightarrow> finalize cur ns p = ns"
  by (simp add: finalize_def text_true_def neighbor_name_def Let_def)

lemma lldp_other_line:
  assumes "\<not> is_local_line (strip l)" and "\<not> text_true (sc_local cur)"
  shows "\<exists>cur'. lldp_line (cur, ns) l = (cur', ns) \<and> \<not> text_true (sc_local cur')"
  using assms by (auto simp: lldp_line_def Let_def finalize_no_local lldp_field_def no_section_def split: option.split)

lemma lldp_local_line:
  assumes "is_local_line (strip l)" and "startswith (strip k) ''Chassis id:''" and "\<not> text_true (sc_local cur)"
  shows "\<exists>cur'. lldp_line (lldp_line (cur, ns) l) k = (cur', ns) \<and> \<not> text_true (sc_local cur')"
proof -
  from assms(1) have "strip l \<noteq> []" "\<not> startswith (strip l) ''Total entries displayed''" "\<not> startswith (strip l) ''Chassis id:''"
    by (auto simp: is_local_line_def startswith_def prefix_def)
  then have l: "lldp_line (cur, ns) l = (no_section\<lparr>sc_local := Some (after '':'' (strip l))\<rparr>, ns)"
    using assms by (simp add: lldp_line_def finalize_no_local)
  from assms(2) have "strip k \<noteq> []" "\<not> startswith (strip k) ''Total entries displayed''"
    by (auto simp: startswith_def prefix_def)
  with assms(2) show ?thesis
    unfolding l by (auto simp: lldp_line_def Let_def finalize_no_name no_section_def)
qed

lemma lldp_no_neighbor:
  "local_then_chassis ls \<Longrightarrow> \<not> text_true (sc_local cur) \<Longrightarrow>
     \<exists>cur'. foldl lldp_line (cur, ns) ls = (cur', ns) \<and> \<not> text_true (sc_local cur')"
proof (induction ls arbitrary: cur rule: length_induct)
  case (1 ls)
  show ?case
  proof (cases ls)
    case (Cons l ks)
    show ?thesis
    proof (cases "is_local_line (strip l)")
      case False
      from lldp_other_line [OF this 1(3)] obtain cur' where "lldp_line (cur, ns) l = (cur', ns)" "\<not> text_true (sc_local cur')" by blast
      moreover have "local_then_chassis ks" using 1(2) Cons by (cases ks) auto
      ultimately show ?thesis using 1(1) Cons by auto
    next
      case True
      with 1(2) Cons obtain k rest where ks: "ks = k # rest" and k: "startswith (strip k) ''Chassis id:''"
        by (cases ks) auto
      from lldp_local_line [OF True k 1(3)] obtain cur'
        where "lldp_line (lldp_line (cur, ns) l) k = (cur', ns)" "\<not> text_true (sc_local cur')" by blast
      moreover have "local_then_chassis rest" using 1(2) Cons ks by (cases rest) auto
      ultimately show ?thesis using 1(1) Cons ks by auto
    qed
  qed (use 1 in simp)
qed

text \<open>
  The LLDP detail output of IOS, in which each section starts with its local interface and
  then its chassis, is read as no neighbour at all, whatever it lists.
\<close>

theorem lldp_local_first_reads_nothing:
  assumes "local_then_chassis (splitlines raw)" and "\<not> contains raw ''Device ID''"
  shows "parse_lldp raw = []"
proof -
  from lldp_no_neighbor [OF assms(1), of no_section "[]"] obtain cur
    where "foldl lldp_line (no_section, []) (splitlines raw) = (cur, [])" "\<not> text_true (sc_local cur)"
    by (auto simp: no_section_def)
  with assms(2) show ?thesis by (simp add: parse_lldp_def parse_lldp_detail_def finalize_no_local)
qed

definition demo_lldp :: string where
  "demo_lldp = join [char_of (10::nat)] [''Local Intf: Gi1/0/48'', ''Chassis id: 3c51.0e11.2200'', ''Port id: Gi1/0/24'',
     ''System Name: sw2'']"

theorem lldp_local_first_reads_nothing_witness: "parse_lldp demo_lldp = []"
  by (rule lldp_local_first_reads_nothing; code_simp)

end
