(* ===== verification/Connections.thy ===== *)
theory Connections
  imports SyncModules
begin

text \<open>
  Opening a command-line session: the parameters that
  \<^verbatim>\<open>automation/application/connection_service.py\<close> makes of a device and the
  credentials of its site, and the adapter \<^verbatim>\<open>network/adapters/netmiko.py\<close>. The SSH
  library is a parameter: a number of attempts and the parameters give an exception or a session,
  a session gives an exception or a text for every command.
\<close>

record credential =
  cr_site :: uid
  cr_username :: string
  cr_password :: string
  cr_port :: int

record ssh_params =
  sp_driver :: string
  sp_host :: string
  sp_username :: string
  sp_password :: string
  sp_port :: int
  sp_timeout :: int

type_synonym session = "string \<Rightarrow> exn + string"

record network =
  nw_credentials :: "credential list"
  nw_connect :: "nat \<Rightarrow> ssh_params \<Rightarrow> exn + session"

definition platform_map :: "(string \<times> string) list" where
  "platform_map = [(''ios'', ''cisco_ios''), (''iosxe'', ''cisco_ios''), (''nxos'', ''cisco_nxos''), (''apic'', ''cisco_apic''),
     (''firewall'', ''cisco_asa''), (''eos'', ''arista_eos''), (''unknown'', ''autodetect'')]"

definition device_label :: "device \<Rightarrow> string" where
  "device_label dev = (if dev_name dev = [] then dev_ip dev else dev_name dev)"

definition resolve_platform :: "db \<Rightarrow> device \<Rightarrow> exn + string" where
  "resolve_platform d dev =
     (case fk (find_type d) (dev_type dev) of
        None \<Rightarrow> Inl (RuntimeError (''Device '' @ device_label dev @ '' has no device type''))
      | Some t \<Rightarrow> Inr (if dt_platform t = [] then ''unknown'' else dt_platform t))"

definition has_tag :: "db \<Rightarrow> device \<Rightarrow> string \<Rightarrow> bool" where
  "has_tag d dev name \<longleftrightarrow> (\<exists>t \<in> set (t_tags d). tag_id t \<in> set (dev_tags dev) \<and> iexact (tag_name t) name)"

definition fabric_prefix :: string where
  "fabric_prefix = ''apic#ISE'' @ [char_of (92 :: nat), char_of (92 :: nat)]"

definition fabric_user :: "string \<Rightarrow> string" where
  "fabric_user u = (if startswith u fabric_prefix then u else fabric_prefix @ u)"

definition site_label :: "db \<Rightarrow> uid \<Rightarrow> string" where
  "site_label d i = (case find_site d i of None \<Rightarrow> [] | Some s \<Rightarrow> site_name s)"

definition build_ssh_params :: "network \<Rightarrow> db \<Rightarrow> device \<Rightarrow> exn + ssh_params" where
  "build_ssh_params nw d dev =
     (case first_row (\<lambda>c. cr_site c = dev_site dev) (nw_credentials nw) of
        None \<Rightarrow> Inl (DoesNotExist (''No SSH credentials configured for site '' @ char_of (39::nat) #
          site_label d (dev_site dev) @ char_of (39::nat) # ''.''))
      | Some c \<Rightarrow> bind_res (resolve_platform d dev) (\<lambda>platform.
          Inr \<lparr>sp_driver = (case map_of platform_map platform of None \<Rightarrow> ''autodetect'' | Some x \<Rightarrow> x),
            sp_host = dev_ip dev,
            sp_username = (if has_tag d dev ''aci_fabric'' then fabric_user (cr_username c) else cr_username c),
            sp_password = cr_password c, sp_port = cr_port c, sp_timeout = 30\<rparr>))"

text \<open>\<^verbatim>\<open>NetmikoAdapter.__enter__\<close> without autodetection, and \<^verbatim>\<open>run_command_raw\<close>\<close>

definition open_adapter :: "network \<Rightarrow> nat \<Rightarrow> db \<Rightarrow> device \<Rightarrow> exn + session" where
  "open_adapter nw attempt d dev =
     bind_res (build_ssh_params nw d dev) (\<lambda>p.
       if sp_driver p = ''autodetect''
       then Inl (ValueError (''Device '' @ device_label dev @ '' has unknown platform; set device type to avoid autodetect.''))
       else nw_connect nw attempt p)"

definition run_command_raw :: "session \<Rightarrow> string \<Rightarrow> cmd_result" where
  "run_command_raw s c = (case s c of
     Inr out \<Rightarrow> \<lparr>cr_raw = out, cr_parsed = PyNone, cr_error = None\<rparr>
   | Inl e \<Rightarrow> \<lparr>cr_raw = [], cr_parsed = PyNone, cr_error = Some (exn_str e)\<rparr>)"

text \<open>A command that fails leaves no text, one that succeeds no error.\<close>

lemma run_command_raw_cases: "cr_raw (run_command_raw s c) = [] \<or> cr_error (run_command_raw s c) = None"
  by (simp add: run_command_raw_def split: sum.split)

lemma fabric_user_once: "fabric_user (fabric_user u) = fabric_user u" "startswith (fabric_user u) fabric_prefix"
  by (auto simp: fabric_user_def startswith_def)

end
