(* ===== verification/Topology.thy ===== *)
theory Topology
  imports TopoParse Connections Hostnames
begin

text \<open>
  The neighbours of a device: \<^verbatim>\<open>topology/models.py\<close>, the upsert of
  \<^verbatim>\<open>topology_service.py\<close> and the collection of
  \<^verbatim>\<open>automation/tasks/topology_collector.py\<close>, which reads the neighbours, stores
  them and deletes those that an available protocol no longer reports.
\<close>

record neighbor_row =
  nr_id :: uid
  nr_device :: uid
  nr_iface :: uid
  nr_name :: string
  nr_peer :: "uid option"
  nr_port :: string
  nr_protocol :: string
  nr_platform :: string
  nr_caps :: string
  nr_first_seen :: moment
  nr_last_seen :: moment

text \<open>The fields that \<^verbatim>\<open>update_or_create\<close> looks up, and those it writes.\<close>

type_synonym neighbor_key = "uid \<times> uid \<times> string \<times> string \<times> string"
type_synonym observation = "uid option \<times> string \<times> string \<times> moment"

record topo_env =
  te_now :: moment
  te_id :: "neighbor_key \<Rightarrow> uid"

definition neighbor_key :: "neighbor_row \<Rightarrow> neighbor_key" where
  "neighbor_key r = (nr_device r, nr_iface r, nr_protocol r, nr_name r, nr_port r)"

definition make_neighbor :: "topo_env \<Rightarrow> neighbor_key \<Rightarrow> observation \<Rightarrow> neighbor_row" where
  "make_neighbor env k ob =
     (let (dev, ifc, protocol, name, port) = k; (peer, platform, caps, now) = ob
      in \<lparr>nr_id = te_id env k, nr_device = dev, nr_iface = ifc, nr_name = name, nr_peer = peer, nr_port = port,
           nr_protocol = protocol, nr_platform = platform, nr_caps = caps, nr_first_seen = now, nr_last_seen = now\<rparr>)"

definition change_neighbor :: "observation \<Rightarrow> neighbor_row \<Rightarrow> neighbor_row" where
  "change_neighbor ob r =
     (let (peer, platform, caps, now) = ob
      in r\<lparr>nr_peer := peer, nr_platform := platform, nr_caps := caps, nr_last_seen := now\<rparr>)"

definition put_neighbor :: "topo_env \<Rightarrow> neighbor_key \<Rightarrow> observation \<Rightarrow> neighbor_row list \<Rightarrow> neighbor_row list" where
  "put_neighbor env k ob rs = upsert (\<lambda>r. neighbor_key r = k) (make_neighbor env k ob) (change_neighbor ob) rs"

definition device_domain :: "db \<Rightarrow> device \<Rightarrow> string option" where
  "device_domain d dev = map_option site_domain (find_site d (dev_site dev))"

text \<open>\<^verbatim>\<open>TopologyService.upsert_neighbor\<close>: the rows and the identifier of the neighbour.\<close>

definition neighbor_write :: "topo_env \<Rightarrow> db \<Rightarrow> device \<Rightarrow> uid \<Rightarrow> neighbor \<Rightarrow> exn + (neighbor_key \<times> observation)" where
  "neighbor_write env d dev ifc n =
     (let name = normalize_hostname (Some (nb_name n)) (device_domain d dev)
      in if name = [] then Inl (ValueError ''neighbor_name and local_interface are required'')
         else Inr ((dev_id dev, ifc, nb_protocol n, name, nb_port n),
           (map_option dev_id (first_row (\<lambda>v. iexact (dev_name v) name) (t_devices d)), nb_platform n, nb_caps n, te_now env)))"

definition upsert_neighbor :: "topo_env \<Rightarrow> db \<Rightarrow> device \<Rightarrow> uid \<Rightarrow> neighbor \<Rightarrow> neighbor_row list \<Rightarrow> exn + (uid \<times> neighbor_row list)" where
  "upsert_neighbor env d dev ifc n rs =
     bind_res (neighbor_write env d dev ifc n) (\<lambda>(k, ob).
       if 2 \<le> length (filter (\<lambda>r. neighbor_key r = k) rs)
       then Inl (MultipleObjectsReturned ''get() returned more than one TopologyNeighbor'')
       else Inr (case first_row (\<lambda>r. neighbor_key r = k) rs of None \<Rightarrow> te_id env k | Some r \<Rightarrow> nr_id r, put_neighbor env k ob rs))"

section \<open>Finding the local interface\<close>

definition topo_prefixes :: "(string \<times> string) list" where
  "topo_prefixes = [(''Port-channel'', ''Po''), (''GigabitEthernet'', ''Gi''), (''Gig'', ''Gi''), (''TenGigabitEthernet'', ''Te''),
     (''FortyGigabitEthernet'', ''Fo''), (''TwentyFiveGigE'', ''Tw''), (''HundredGigE'', ''Hu''), (''Ethernet'', ''Eth'')]"

text \<open>\<^verbatim>\<open>re.sub(r"^(Gi|Te|...)\s+", r"\1", value)\<close>\<close>

definition close_gap :: "string \<Rightarrow> string" where
  "close_gap v =
     (case first_row (\<lambda>p. prefix (lower p) (lower v) \<and> (case drop (length p) v of [] \<Rightarrow> False | c # _ \<Rightarrow> is_space c))
         [''Gi'', ''Te'', ''Fo'', ''Po'', ''Hu'', ''Tw'', ''Eth''] of
        None \<Rightarrow> v
      | Some p \<Rightarrow> take (length p) v @ dropWhile is_space (drop (length p) v))"

definition topo_iface :: "string \<Rightarrow> string" where
  "topo_iface name = (if name = [] then [] else close_gap (fold shorten topo_prefixes (strip name)))"

definition iface_candidates :: "string \<Rightarrow> string list" where
  "iface_candidates raw =
     (let compact = filter (\<lambda>c. \<not> is_space c) raw
      in filter (\<lambda>c. c \<noteq> []) [raw, topo_iface raw, compact, topo_iface compact])"

definition resolve_interface :: "db \<Rightarrow> device \<Rightarrow> string \<Rightarrow> interface option" where
  "resolve_interface d dev raw =
     first_some (\<lambda>c. first_row (\<lambda>i. ifc_device i = dev_id dev \<and> iexact (ifc_name i) c) (t_interfaces d)) (iface_candidates raw)"

section \<open>Collecting\<close>

definition invalid_output :: "string \<Rightarrow> bool" where
  "invalid_output raw \<longleftrightarrow> raw = [] \<or> contains (lower raw) ''% invalid'' \<or> contains (lower raw) ''invalid input''"

text \<open>
  The loop over the neighbours of one protocol. It writes as it goes: an exception ends it with
  the rows written so far.
\<close>

type_synonym collecting = "neighbor_row list \<times> uid list \<times> exn option"

fun store_neighbors :: "topo_env \<Rightarrow> db \<Rightarrow> device \<Rightarrow> neighbor list \<Rightarrow> neighbor_row list \<times> uid list \<Rightarrow> collecting" where
  "store_neighbors env d dev [] (rs, seen) = (rs, seen, None)"
| "store_neighbors env d dev (n # ns) (rs, seen) =
     (case resolve_interface d dev (nb_local n) of
        None \<Rightarrow> store_neighbors env d dev ns (rs, seen)
      | Some i \<Rightarrow>
         (case upsert_neighbor env d dev (ifc_id i) n rs of
            Inl e \<Rightarrow> (rs, seen, Some e)
          | Inr (k, rs) \<Rightarrow> store_neighbors env d dev ns (rs, k # seen)))"

definition show_with_fallback :: "session \<Rightarrow> string \<Rightarrow> string" where
  "show_with_fallback s protocol =
     (let raw = cr_raw (run_command_raw s (''show '' @ protocol @ '' neighbors detail''))
      in if invalid_output raw then cr_raw (run_command_raw s (''show '' @ protocol @ '' neighbors'')) else raw)"

definition cleanup_stale :: "uid \<Rightarrow> string list \<Rightarrow> uid list \<Rightarrow> neighbor_row list \<Rightarrow> neighbor_row list" where
  "cleanup_stale dev protocols seen rs =
     filter (\<lambda>r. \<not> (nr_device r = dev \<and> nr_protocol r \<in> set protocols \<and> nr_id r \<notin> set seen)) rs"

text \<open>\<^verbatim>\<open>collect_neighbors_for_device\<close> from its two outputs on.\<close>

definition read_neighbors :: "string \<Rightarrow> string \<Rightarrow> neighbor list" where
  "read_neighbors cdp lldp =
     (if invalid_output cdp then [] else parse_cdp cdp) @ (if invalid_output lldp then [] else parse_lldp lldp)"

definition available :: "string \<Rightarrow> string \<Rightarrow> string list" where
  "available cdp lldp = (if invalid_output cdp then [] else [''cdp'']) @ (if invalid_output lldp then [] else [''lldp''])"

definition store_outputs :: "topo_env \<Rightarrow> db \<Rightarrow> device \<Rightarrow> string \<Rightarrow> string \<Rightarrow> neighbor_row list \<Rightarrow> bool \<times> neighbor_row list" where
  "store_outputs env d dev cdp lldp rs =
     (case store_neighbors env d dev (read_neighbors cdp lldp) (rs, []) of
        (rs, _, Some e) \<Rightarrow> (False, rs)
      | (rs, seen, None) \<Rightarrow> (True, cleanup_stale (dev_id dev) (available cdp lldp) seen rs))"

definition collect_neighbors :: "topo_env \<Rightarrow> network \<Rightarrow> db \<Rightarrow> device \<Rightarrow> neighbor_row list \<Rightarrow> bool \<times> neighbor_row list" where
  "collect_neighbors env nw d dev rs =
     (case open_adapter nw 0 d dev of
        Inl e \<Rightarrow> (False, rs)
      | Inr s \<Rightarrow> store_outputs env d dev (show_with_fallback s ''cdp'') (show_with_fallback s ''lldp'') rs)"

definition eligible_devices :: "db \<Rightarrow> device list" where
  "eligible_devices d = filter (\<lambda>v. case fk (find_type d) (dev_type v) of None \<Rightarrow> False
     | Some t \<Rightarrow> dt_platform t \<in> set [''ios'', ''iosxe'', ''nxos'', ''router'']) (t_devices d)"

text \<open>\<^verbatim>\<open>collect_topology_neighbors\<close>: the numbers of successes and failures, and the rows.\<close>

definition collect_all :: "topo_env \<Rightarrow> network \<Rightarrow> db \<Rightarrow> uid option \<Rightarrow> neighbor_row list \<Rightarrow> (int \<times> int) \<times> neighbor_row list" where
  "collect_all env nw d only rs =
     foldl (\<lambda>((ok, failed), rs) dev. case collect_neighbors env nw d dev rs of
         (True, rs) \<Rightarrow> ((ok + 1, failed), rs) | (False, rs) \<Rightarrow> ((ok, failed + 1), rs))
       ((0, 0), rs) (filter (\<lambda>v. case only of None \<Rightarrow> True | Some i \<Rightarrow> dev_id v = i) (eligible_devices d))"

definition cleanup_topology :: "moment \<Rightarrow> int \<Rightarrow> neighbor_row list \<Rightarrow> int \<times> neighbor_row list" where
  "cleanup_topology now days rs =
     (int (length (filter (\<lambda>r. nr_last_seen r < now - days * 86400) rs)),
      filter (\<lambda>r. \<not> nr_last_seen r < now - days * 86400) rs)"

interpretation neighbors: keyed_table neighbor_key "make_neighbor env" change_neighbor "put_neighbor env" for env
  by unfold_locales
    (auto simp: neighbor_key_def make_neighbor_def change_neighbor_def put_neighbor_def split: prod.splits)

end
