(* ===== verification/TopologyProps.thy ===== *)
theory TopologyProps
  imports Topology
begin

text \<open>
  The neighbour table after a collection, seen as a map from what identifies a neighbour to its
  row: for the protocols that answered it is what they reported, for the others it is unchanged.
\<close>

section \<open>The readers keep the protocol\<close>

lemma finalize_protocol: "\<forall>n \<in> set ns. nb_protocol n = p \<Longrightarrow> n \<in> set (finalize cur ns p) \<Longrightarrow> nb_protocol n = p"
  by (auto simp: finalize_def Let_def split: if_splits)

lemma cdp_columns_protocol:
  "\<forall>n \<in> set (tb_rows t). nb_protocol n = ''cdp'' \<Longrightarrow> n \<in> set (tb_rows (cdp_columns cols t)) \<Longrightarrow> nb_protocol n = ''cdp''"
  by (auto simp: cdp_columns_def cdp_row_def split: list.splits if_splits)

lemma cdp_summary_protocol: "n \<in> set (parse_cdp_summary raw) \<Longrightarrow> nb_protocol n = ''cdp''"
proof -
  have "\<forall>n \<in> set (tb_rows (foldl cdp_table_line \<lparr>tb_inside = False, tb_pending = [], tb_rows = []\<rparr> (splitlines raw))).
      nb_protocol n = ''cdp''"
    by (rule foldl_invariant [where I = "\<lambda>t. \<forall>n \<in> set (tb_rows t). nb_protocol n = ''cdp''"])
      (auto simp: cdp_table_line_def dest: cdp_columns_protocol split: if_splits)
  then show "n \<in> set (parse_cdp_summary raw) \<Longrightarrow> nb_protocol n = ''cdp''" by (simp add: parse_cdp_summary_def)
qed

lemma parse_cdp_protocol: "n \<in> set (parse_cdp raw) \<Longrightarrow> nb_protocol n = ''cdp''"
proof -
  have "\<forall>n \<in> set (snd (foldl cdp_line (no_section, []) (splitlines raw))). nb_protocol n = ''cdp''"
    by (rule foldl_invariant [where I = "\<lambda>st. \<forall>n \<in> set (snd st). nb_protocol n = ''cdp''"])
      (auto simp: cdp_line_def Let_def dest: finalize_protocol [rotated] split: if_splits)
  then have "n \<in> set (parse_cdp_detail raw) \<Longrightarrow> nb_protocol n = ''cdp''"
    by (cases "foldl cdp_line (no_section, []) (splitlines raw)")
      (auto simp: parse_cdp_detail_def dest: finalize_protocol [rotated])
  then show "n \<in> set (parse_cdp raw) \<Longrightarrow> nb_protocol n = ''cdp''"
    by (auto simp: parse_cdp_def Let_def cdp_summary_protocol split: if_splits)
qed

lemma lldp_line_protocol:
  "\<forall>n \<in> set (snd st). nb_protocol n = ''lldp'' \<Longrightarrow> n \<in> set (snd (lldp_line st l)) \<Longrightarrow> nb_protocol n = ''lldp''"
  by (cases st) (auto simp: lldp_line_def Let_def dest: finalize_protocol [rotated] split: if_splits)

lemma parse_lldp_protocol: "n \<in> set (parse_lldp raw) \<Longrightarrow> nb_protocol n = ''lldp''"
proof -
  have "\<forall>n \<in> set (snd (foldl lldp_line (no_section, []) ls)). nb_protocol n = ''lldp''" for ls
    by (rule foldl_invariant [where I = "\<lambda>st. \<forall>n \<in> set (snd st). nb_protocol n = ''lldp''"])
      (auto dest: lldp_line_protocol [rotated])
  then have "n \<in> set (finalize cur ns ''lldp'') \<Longrightarrow> nb_protocol n = ''lldp''"
    if "foldl lldp_line (no_section, []) ls = (cur, ns)" for cur ns ls
    using that by (metis finalize_protocol snd_conv)
  then have "n \<in> set (parse_lldp_detail ls) \<Longrightarrow> nb_protocol n = ''lldp''" for ls
    by (cases "foldl lldp_line (no_section, []) ls") (simp add: parse_lldp_detail_def)
  moreover have "lldp_table_line l = Some n \<Longrightarrow> nb_protocol n = ''lldp''" for l
    by (auto simp: lldp_table_line_def split: if_splits list.splits)
  ultimately show "n \<in> set (parse_lldp raw) \<Longrightarrow> nb_protocol n = ''lldp''"
    by (auto simp: parse_lldp_def Let_def List.map_filter_def split: if_splits)
qed

lemma read_protocol: "n \<in> set (read_neighbors cdp lldp) \<Longrightarrow> nb_protocol n \<in> set (available cdp lldp)"
  by (auto simp: read_neighbors_def available_def parse_cdp_protocol parse_lldp_protocol split: if_splits)

section \<open>Rows with their identifiers\<close>

text \<open>
  Keys and identifiers are unique, and the identifiers that the collection gives to a set of keys
  are different and used by no other row.
\<close>

definition rows_ok :: "neighbor_row list \<Rightarrow> bool" where
  "rows_ok rs \<longleftrightarrow> distinct (map neighbor_key rs) \<and> distinct (map nr_id rs)"

definition fresh_ids :: "topo_env \<Rightarrow> neighbor_key set \<Rightarrow> neighbor_row list \<Rightarrow> bool" where
  "fresh_ids env ks rs \<longleftrightarrow> inj_on (te_id env) ks \<and>
     (\<forall>r \<in> set rs. \<forall>k \<in> ks. nr_id r = te_id env k \<longrightarrow> neighbor_key r = k)"

lemma change_id [simp]: "nr_id (change_neighbor ob r) = nr_id r" "neighbor_key (change_neighbor ob r) = neighbor_key r"
  by (auto simp: change_neighbor_def neighbor_key_def split: prod.split)

lemma make_id [simp]: "nr_id (make_neighbor env k ob) = te_id env k" "neighbor_key (make_neighbor env k ob) = k"
  by (auto simp: make_neighbor_def neighbor_key_def split: prod.split)

lemma put_id_set:
  "nr_id ` set (put_neighbor env k ob rs) \<subseteq> insert (te_id env k) (nr_id ` set rs)"
  by (induction rs) (auto simp: neighbors.put_simps)

lemma rows_ok_put:
  assumes "rows_ok rs" and "fresh_ids env ks rs" and "k \<in> ks"
  shows "rows_ok (put_neighbor env k ob rs)"
  using assms(1,2)
proof (induction rs)
  case Nil
  show ?case by (simp add: rows_ok_def neighbors.put_simps)
next
  case (Cons r rs)
  then have rs: "rows_ok rs" "fresh_ids env ks rs" by (simp_all add: rows_ok_def fresh_ids_def)
  show ?case
  proof (cases "neighbor_key r = k")
    case True
    with Cons.prems show ?thesis by (auto simp: rows_ok_def)
  next
    case False
    have "nr_id r \<noteq> te_id env k" using Cons.prems(2) False assms(3) unfolding fresh_ids_def by (metis list.set_intros(1))
    with Cons.prems have "nr_id r \<notin> nr_id ` set (put_neighbor env k ob rs)"
      using put_id_set [of env k ob rs] by (auto simp: rows_ok_def)
    moreover have "neighbor_key r \<notin> neighbor_key ` set (put_neighbor env k ob rs)"
      using False Cons.prems by (simp add: neighbors.keys_put rows_ok_def)
    ultimately show ?thesis using Cons.IH [OF rs] Cons.prems False by (auto simp: rows_ok_def)
  qed
qed

lemma in_put: "r \<in> set (put_neighbor env k ob rs) \<Longrightarrow>
    (nr_id r = te_id env k \<and> neighbor_key r = k) \<or> (\<exists>q \<in> set rs. nr_id r = nr_id q \<and> neighbor_key r = neighbor_key q)"
  by (auto simp: put_neighbor_def dest!: in_upsert)

lemma fresh_ids_put:
  assumes "fresh_ids env ks rs" and "k \<in> ks"
  shows "fresh_ids env ks (put_neighbor env k ob rs)"
  unfolding fresh_ids_def
proof (intro conjI ballI impI)
  show "inj_on (te_id env) ks" using assms(1) by (simp add: fresh_ids_def)
next
  fix r j assume "r \<in> set (put_neighbor env k ob rs)" and j: "j \<in> ks" and eq: "nr_id r = te_id env j"
  from in_put [OF this(1)] show "neighbor_key r = j"
  proof
    assume "nr_id r = te_id env k \<and> neighbor_key r = k"
    with assms j eq show ?thesis unfolding fresh_ids_def by (metis inj_onD)
  next
    assume "\<exists>q \<in> set rs. nr_id r = nr_id q \<and> neighbor_key r = neighbor_key q"
    with assms(1) j eq show ?thesis unfolding fresh_ids_def by metis
  qed
qed

lemma rows_ok_put_all:
  "fst ` set ws \<subseteq> ks \<Longrightarrow> rows_ok rs \<Longrightarrow> fresh_ids env ks rs \<Longrightarrow> rows_ok (put_all (put_neighbor env) ws rs)"
proof (induction ws arbitrary: rs)
  case (Cons w ws)
  then have "fst w \<in> ks" by simp
  with Cons show ?case by (simp add: rows_ok_put [of _ env ks] fresh_ids_put)
qed simp

text \<open>The identifier of a row survives later writes.\<close>

lemma put_keeps_id:
  "row_at neighbor_key rs k = Some r \<Longrightarrow>
     \<exists>r'. row_at neighbor_key (put_neighbor env j ob rs) k = Some r' \<and> nr_id r' = nr_id r"
  by (auto simp: neighbors.row_put)

lemma put_all_keeps_id:
  "row_at neighbor_key rs k = Some r \<Longrightarrow>
     \<exists>r'. row_at neighbor_key (put_all (put_neighbor env) ws rs) k = Some r' \<and> nr_id r' = nr_id r"
proof (induction ws arbitrary: rs r)
  case (Cons w ws)
  from put_keeps_id [OF Cons.prems] obtain r1
    where "row_at neighbor_key (put_neighbor env (fst w) (snd w) rs) k = Some r1" "nr_id r1 = nr_id r" by blast
  with Cons.IH show ?case by fastforce
qed simp

section \<open>What the loop writes\<close>

fun writes :: "topo_env \<Rightarrow> db \<Rightarrow> device \<Rightarrow> neighbor list \<Rightarrow> (neighbor_key \<times> observation) list" where
  "writes env d dev [] = []"
| "writes env d dev (n # ns) =
     (case resolve_interface d dev (nb_local n) of
        None \<Rightarrow> writes env d dev ns
      | Some i \<Rightarrow> (case neighbor_write env d dev (ifc_id i) n of Inl _ \<Rightarrow> [] | Inr w \<Rightarrow> w # writes env d dev ns))"

definition id_at :: "neighbor_row list \<Rightarrow> neighbor_key \<Rightarrow> uid option" where
  "id_at rs k = map_option nr_id (row_at neighbor_key rs k)"

lemma store_neighbors_writes:
  assumes "store_neighbors env d dev ns (rs, seen) = (rs', seen', None)"
  shows "rs' = put_all (put_neighbor env) (writes env d dev ns) rs \<and>
    (\<forall>x. x \<in> set seen' \<longleftrightarrow> x \<in> set seen \<or> (\<exists>k \<in> fst ` set (writes env d dev ns). id_at rs' k = Some x))"
  using assms
proof (induction ns arbitrary: rs seen)
  case (Cons n ns)
  show ?case
  proof (cases "resolve_interface d dev (nb_local n)")
    case None
    with Cons show ?thesis by simp
  next
    case (Some i)
    with Cons.prems obtain u rs1 where up: "upsert_neighbor env d dev (ifc_id i) n rs = Inr (u, rs1)"
      and rest: "store_neighbors env d dev ns (rs1, u # seen) = (rs', seen', None)"
      by (auto split: sum.splits)
    from up obtain k ob where w: "neighbor_write env d dev (ifc_id i) n = Inr (k, ob)"
      and rs1: "rs1 = put_neighbor env k ob rs"
      and u: "u = (case row_at neighbor_key rs k of None \<Rightarrow> te_id env k | Some r \<Rightarrow> nr_id r)"
      by (auto simp: upsert_neighbor_def bind_res_eq_Inr row_at_def split: if_splits)
    note IH = Cons.IH [OF rest]
    obtain r1 where r1: "row_at neighbor_key rs1 k = Some r1" "nr_id r1 = u"
      by (cases "row_at neighbor_key rs k") (auto simp: rs1 u neighbors.row_put)
    from put_all_keeps_id [OF r1(1)] IH have "id_at rs' k = Some u"
      using r1(2) by (metis id_at_def option.simps(9))
    moreover have "writes env d dev (n # ns) = (k, ob) # writes env d dev ns" using Some w by simp
    ultimately show ?thesis using IH by (simp add: rs1 eq_commute [of u] disj_assoc disj_left_commute)
  qed
qed simp

lemma neighbor_write_key:
  "neighbor_write env d dev i n = Inr (k, ob) \<Longrightarrow> fst k = dev_id dev \<and> fst (snd (snd k)) = nb_protocol n \<and> snd (snd (snd ob)) = te_now env"
  by (auto simp: neighbor_write_def Let_def split: if_splits)

lemma writes_keys:
  "(k, ob) \<in> set (writes env d dev ns) \<Longrightarrow>
     \<exists>n \<in> set ns. fst k = dev_id dev \<and> fst (snd (snd k)) = nb_protocol n \<and> snd (snd (snd ob)) = te_now env"
  by (induction ns) (auto dest: neighbor_write_key neighbor_write_key [OF sym] split: option.splits sum.splits)

definition seen_at :: "neighbor_row list \<Rightarrow> neighbor_key \<Rightarrow> moment option" where
  "seen_at rs k = map_option nr_last_seen (row_at neighbor_key rs k)"

lemma seen_at_put: "seen_at (put_neighbor env j ob rs) k = (if k = j then Some (snd (snd (snd ob))) else seen_at rs k)"
  by (cases ob) (auto simp: seen_at_def neighbors.row_put make_neighbor_def change_neighbor_def split: option.split prod.split)

lemma seen_at_put_all:
  "(\<And>w. w \<in> set ws \<Longrightarrow> snd (snd (snd (snd w))) = now) \<Longrightarrow> k \<in> fst ` set ws \<or> seen_at rs k = Some now \<Longrightarrow>
     seen_at (put_all (put_neighbor env) ws rs) k = Some now"
proof (induction ws arbitrary: rs)
  case (Cons w ws)
  have "snd (snd (snd (snd w))) = now" by (rule Cons.prems(1)) simp
  with Cons.prems(2) have "k \<in> fst ` set ws \<or> seen_at (put_neighbor env (fst w) (snd w) rs) k = Some now"
    by (auto simp: seen_at_put)
  with Cons.IH Cons.prems(1) show ?case by simp
qed simp

section \<open>The table after a collection\<close>

definition reported :: "topo_env \<Rightarrow> db \<Rightarrow> device \<Rightarrow> string \<Rightarrow> string \<Rightarrow> neighbor_key set" where
  "reported env d dev cdp lldp = fst ` set (writes env d dev (read_neighbors cdp lldp))"

definition covered :: "device \<Rightarrow> string \<Rightarrow> string \<Rightarrow> neighbor_key \<Rightarrow> bool" where
  "covered dev cdp lldp k \<longleftrightarrow> fst k = dev_id dev \<and> fst (snd (snd k)) \<in> set (available cdp lldp)"

lemma reported_covered: "k \<in> reported env d dev cdp lldp \<Longrightarrow> covered dev cdp lldp k"
  by (auto simp: reported_def covered_def dest!: writes_keys read_protocol)

lemma row_at_first: "row_at key (filter p rs) k = first_row (\<lambda>r. p r \<and> key r = k) rs"
  by (simp add: row_at_def first_row_filter)

lemma row_at_filter_distinct:
  assumes "distinct (map key rs)"
  shows "row_at key (filter p rs) k = (case row_at key rs k of None \<Rightarrow> None | Some r \<Rightarrow> if p r then Some r else None)"
  using assms by (induction rs) (auto simp: row_at_def first_row_None split: option.splits dest!: first_row_Some)

text \<open>
  C13. After a successful collection the table is, for the protocols of the device that answered,
  exactly what they reported on interfaces that are known, each row seen now; every other row, of
  other devices and of protocols that did not answer, is as it was.
\<close>

theorem topology_matches_outputs:
  assumes "rows_ok rs" and "fresh_ids env (reported env d dev cdp lldp) rs"
    and "store_outputs env d dev cdp lldp rs = (True, rs')"
  shows "rows_ok rs' \<and>
    (\<forall>k. covered dev cdp lldp k \<longrightarrow> (row_at neighbor_key rs' k \<noteq> None \<longleftrightarrow> k \<in> reported env d dev cdp lldp)) \<and>
    (\<forall>k r. covered dev cdp lldp k \<longrightarrow> row_at neighbor_key rs' k = Some r \<longrightarrow> nr_last_seen r = te_now env) \<and>
    (\<forall>k. \<not> covered dev cdp lldp k \<longrightarrow> row_at neighbor_key rs' k = row_at neighbor_key rs k)"
proof -
  let ?ns = "read_neighbors cdp lldp" and ?ps = "available cdp lldp"
  from assms(3) obtain rs1 seen where st: "store_neighbors env d dev ?ns (rs, []) = (rs1, seen, None)"
    and rs': "rs' = cleanup_stale (dev_id dev) ?ps seen rs1"
    by (auto simp: store_outputs_def split: prod.splits option.splits)
  note w = store_neighbors_writes [OF st]
  have rs1: "rs1 = put_all (put_neighbor env) (writes env d dev ?ns) rs" using w by simp
  have seen: "x \<in> set seen \<longleftrightarrow> (\<exists>k \<in> reported env d dev cdp lldp. id_at rs1 k = Some x)" for x
    using w by (simp add: reported_def)
  have ok: "rows_ok rs1" unfolding rs1 by (rule rows_ok_put_all [OF _ assms(1,2)]) (simp add: reported_def)
  have keys: "distinct (map neighbor_key rs1)" using ok by (simp add: rows_ok_def)
  have id_key: "nr_id r \<in> set seen \<longleftrightarrow> neighbor_key r \<in> reported env d dev cdp lldp" if r: "r \<in> set rs1" for r
  proof
    assume "nr_id r \<in> set seen"
    then obtain k where "k \<in> reported env d dev cdp lldp" "id_at rs1 k = Some (nr_id r)" unfolding seen by blast
    moreover from this(2) obtain q where "row_at neighbor_key rs1 k = Some q" "nr_id q = nr_id r"
      unfolding id_at_def by (cases "row_at neighbor_key rs1 k") simp_all
    moreover from this(1) have "q \<in> set rs1" "neighbor_key q = k" by (auto simp: row_at_def dest!: first_row_Some)
    moreover have "q = r" using ok calculation r by (auto simp: rows_ok_def distinct_map dest: inj_onD)
    ultimately show "neighbor_key r \<in> reported env d dev cdp lldp" by simp
  next
    assume "neighbor_key r \<in> reported env d dev cdp lldp"
    moreover have "id_at rs1 (neighbor_key r) = Some (nr_id r)" by (simp add: id_at_def neighbors.row_distinct [OF keys r])
    ultimately show "nr_id r \<in> set seen" unfolding seen by blast
  qed
  have row: "row_at neighbor_key rs' k = (if covered dev cdp lldp k \<and> k \<notin> reported env d dev cdp lldp then None
      else row_at neighbor_key rs1 k)" for k
  proof (cases "row_at neighbor_key rs1 k")
    case None
    then show ?thesis by (simp add: rs' cleanup_stale_def row_at_filter_distinct [OF keys])
  next
    case (Some r)
    then have "r \<in> set rs1" "neighbor_key r = k" by (auto simp: row_at_def dest!: first_row_Some)
    with id_key Some show ?thesis
      by (auto simp: rs' cleanup_stale_def row_at_filter_distinct [OF keys] covered_def neighbor_key_def)
  qed
  have now: "seen_at rs1 k = Some (te_now env)" if "k \<in> reported env d dev cdp lldp" for k
    unfolding rs1
  proof (rule seen_at_put_all)
    fix w assume "w \<in> set (writes env d dev ?ns)"
    then show "snd (snd (snd (snd w))) = te_now env" using writes_keys [of "fst w" "snd w" env d dev ?ns] by simp
  qed (use that in \<open>simp add: reported_def\<close>)
  have now_row: "\<exists>r. row_at neighbor_key rs1 k = Some r \<and> nr_last_seen r = te_now env" if "k \<in> reported env d dev cdp lldp" for k
    using now [OF that] by (cases "row_at neighbor_key rs1 k") (simp_all add: seen_at_def)
  have "rows_ok rs'" using ok unfolding rs' cleanup_stale_def rows_ok_def by (auto simp: distinct_filter_map)
  moreover have "row_at neighbor_key rs' k = row_at neighbor_key rs k" if "\<not> covered dev cdp lldp k" for k
  proof -
    from that reported_covered have "k \<notin> fst ` set (writes env d dev ?ns)" unfolding reported_def by blast
    with that show ?thesis by (simp add: row rs1 neighbors.row_put_all_other)
  qed
  moreover have "row_at neighbor_key rs' k \<noteq> None \<longleftrightarrow> k \<in> reported env d dev cdp lldp" if "covered dev cdp lldp k" for k
    using that row [of k] now_row [of k] by (metis option.distinct(1))
  moreover have "nr_last_seen r = te_now env" if "covered dev cdp lldp k" "row_at neighbor_key rs' k = Some r" for k r
    using that row [of k] now_row [of k] by (metis option.distinct(1) option.inject)
  ultimately show ?thesis by blast
qed

definition demo_cdp :: string where
  "demo_cdp = join [char_of (10::nat)] [''Device ID: sw2(FOC1)'', ''Interface: Gi1,  Port ID (outgoing port): Gi2'']"

definition demo_topo_env :: topo_env where
  "demo_topo_env = \<lparr>te_now = 50, te_id = (\<lambda>k. 3)\<rparr>"

definition demo_topo :: db where
  "demo_topo = empty_db\<lparr>t_devices := [new_device 2 ''sw2'' ''10.0.0.2'' 1 1],
     t_interfaces := [new_interface 4 1 ''Gi1'']\<rparr>"

definition demo_row :: "string \<Rightarrow> uid \<Rightarrow> string \<Rightarrow> neighbor_row" where
  "demo_row protocol i name = \<lparr>nr_id = i, nr_device = 1, nr_iface = 4, nr_name = name, nr_peer = None, nr_port = ''Gi9'',
     nr_protocol = protocol, nr_platform = [], nr_caps = [], nr_first_seen = 1, nr_last_seen = 1\<rparr>"

definition demo_rows :: "neighbor_row list" where
  "demo_rows = [demo_row ''cdp'' 1 ''old'', demo_row ''lldp'' 2 ''ap1'']"

definition demo_source :: device where
  "demo_source = new_device 1 ''sw1'' ''10.0.0.1'' 1 1"

lemma demo_source_id: "dev_id demo_source = 1"
  by (simp add: demo_source_def new_device_def)

definition demo_neighbor :: neighbor where
  "demo_neighbor = \<lparr>nb_local = ''Gi1'', nb_name = ''sw2'', nb_port = ''Gi2'', nb_platform = [], nb_caps = [], nb_protocol = ''cdp''\<rparr>"

lemma demo_read: "read_neighbors demo_cdp [] = [demo_neighbor]"
  by code_simp

lemma demo_resolve: "resolve_interface demo_topo demo_source ''Gi1'' = Some (new_interface 4 1 ''Gi1'')"
  by code_simp

lemma demo_write:
  "neighbor_write demo_topo_env demo_topo demo_source 4 demo_neighbor =
     Inr ((1, 4, ''cdp'', ''sw2'', ''Gi2''), (Some 2, [], [], 50))"
  by code_simp

lemma demo_available: "available demo_cdp [] = [''cdp'']"
  by code_simp

theorem topology_matches_outputs_witness:
  "\<exists>rs'. store_outputs demo_topo_env demo_topo demo_source demo_cdp [] demo_rows = (True, rs')
     \<and> row_at neighbor_key rs' (1, 4, ''cdp'', ''old'', ''Gi9'') = None
     \<and> row_at neighbor_key rs' (1, 4, ''lldp'', ''ap1'', ''Gi9'') \<noteq> None"
proof -
  let ?dev = demo_source
  have local: "nb_local demo_neighbor = ''Gi1''" and id4: "ifc_id (new_interface 4 1 ''Gi1'') = 4"
    by (simp_all add: demo_neighbor_def new_interface_def)
  have reported: "reported demo_topo_env demo_topo ?dev demo_cdp [] = {(1, 4, ''cdp'', ''sw2'', ''Gi2'')}"
  proof -
    have "writes demo_topo_env demo_topo ?dev [demo_neighbor] = [((1, 4, ''cdp'', ''sw2'', ''Gi2''), (Some 2, [], [], 50))]"
      by (simp only: writes.simps local demo_resolve option.case id4 demo_write sum.case)
    then show ?thesis by (simp add: reported_def demo_read)
  qed
  have "\<exists>rs' seen. store_neighbors demo_topo_env demo_topo ?dev [demo_neighbor] (demo_rows, []) = (rs', seen, None)"
    by (simp only: store_neighbors.simps local demo_resolve option.case id4 upsert_neighbor_def demo_write bind_res_simps prod.case)
      (simp add: demo_rows_def demo_row_def neighbor_key_def)
  then obtain rs' where run: "store_outputs demo_topo_env demo_topo ?dev demo_cdp [] demo_rows = (True, rs')"
    by (auto simp: store_outputs_def demo_read)
  have "rows_ok demo_rows" by (simp add: rows_ok_def demo_rows_def demo_row_def neighbor_key_def)
  moreover have "fresh_ids demo_topo_env (reported demo_topo_env demo_topo ?dev demo_cdp []) demo_rows"
    unfolding reported by (simp add: fresh_ids_def demo_rows_def demo_row_def demo_topo_env_def)
  moreover note run
  ultimately have *: "\<forall>k. covered ?dev demo_cdp [] k \<longrightarrow> (row_at neighbor_key rs' k \<noteq> None \<longleftrightarrow> k \<in> reported demo_topo_env demo_topo ?dev demo_cdp [])"
    "\<forall>k. \<not> covered ?dev demo_cdp [] k \<longrightarrow> row_at neighbor_key rs' k = row_at neighbor_key demo_rows k"
    by (blast dest: topology_matches_outputs)+
  have "row_at neighbor_key rs' (1, 4, ''cdp'', ''old'', ''Gi9'') = None"
    using *(1) [rule_format, of "(1, 4, ''cdp'', ''old'', ''Gi9'')"] reported
    by (simp add: covered_def demo_available demo_source_id)
  moreover have "row_at neighbor_key rs' (1, 4, ''lldp'', ''ap1'', ''Gi9'') = row_at neighbor_key demo_rows (1, 4, ''lldp'', ''ap1'', ''Gi9'')"
    by (rule *(2) [rule_format]) (simp add: covered_def demo_available demo_source_id)
  moreover have "row_at neighbor_key demo_rows (1, 4, ''lldp'', ''ap1'', ''Gi9'') \<noteq> None"
    by (simp add: demo_rows_def demo_row_def neighbor_key_def row_at_def)
  ultimately show ?thesis using run by metis
qed

end
