(* ===== verification/SyncDevice.thy ===== *)
theory SyncDevice
  imports SyncInterfaces Topology
begin

text \<open>
  \<^verbatim>\<open>SyncService.sync_device\<close>: one device is connected to, its commands are run with a
  second attempt when the first fails, and what they print is applied in one transaction; the
  history of its configurations (\<^verbatim>\<open>dcim/models/device_config.py\<close>) grows by one row.
  An exception of the application is the result \<open>Inl\<close>, and then nothing is stored.
\<close>

section \<open>Commands and templates\<close>

definition version_cmd :: string where "version_cmd = ''show version''"

definition inventory_cmd :: string where "inventory_cmd = ''show inventory''"

definition if_status_cmd :: string where "if_status_cmd = ''show interface status''"

definition if_desc_cmd :: string where "if_desc_cmd = ''show interface description''"

definition if_ip_cmd :: string where "if_ip_cmd = ''show ip interface brief''"

definition if_transceiver_cmd :: string where "if_transceiver_cmd = ''show interface transceiver''"

definition po_ios_cmd :: string where "po_ios_cmd = ''show etherchannel summary''"

definition po_nxos_cmd :: string where "po_nxos_cmd = ''show port-channel summary''"

definition config_cmd :: string where "config_cmd = ''show running-config''"

definition stack_cmd :: string where "stack_cmd = ''show switch''"

lemmas command_defs = version_cmd_def inventory_cmd_def if_status_cmd_def if_desc_cmd_def if_ip_cmd_def
  if_transceiver_cmd_def po_ios_cmd_def po_nxos_cmd_def config_cmd_def stack_cmd_def

definition device_platform :: "db \<Rightarrow> device \<Rightarrow> string option" where
  "device_platform d dev = map_option dt_platform (fk (find_type d) (dev_type dev))"

definition is_nxos :: "db \<Rightarrow> device \<Rightarrow> bool" where
  "is_nxos d dev \<longleftrightarrow> device_platform d dev = Some ''nxos''"

definition is_ios :: "db \<Rightarrow> device \<Rightarrow> bool" where
  "is_ios d dev \<longleftrightarrow> device_platform d dev \<in> {Some ''ios'', Some ''iosxe''}"

definition portchannel_cmd :: "db \<Rightarrow> device \<Rightarrow> string" where
  "portchannel_cmd d dev = (if is_nxos d dev then po_nxos_cmd else po_ios_cmd)"

definition ios_templates :: "(string \<times> string) list" where
  "ios_templates = [(version_cmd, ''cisco_ios_show_version.textfsm''), (inventory_cmd, ''cisco_ios_show_inventory.textfsm''),
     (if_status_cmd, ''cisco_ios_show_interface_status.textfsm''), (if_desc_cmd, ''cisco_ios_show_interface_description.textfsm''),
     (if_ip_cmd, ''cisco_ios_show_ip_interface_brief.textfsm''), (po_ios_cmd, ''cisco_ios_show_etherchannel_summary.textfsm'')]"

definition nxos_templates :: "bool \<Rightarrow> (string \<times> string) list" where
  "nxos_templates aci = [(version_cmd, ''cisco_nxos_show_version.textfsm''), (inventory_cmd, ''cisco_nxos_show_inventory.textfsm''),
     (if_status_cmd, if aci then ''cisco_aci_show_interface_status.textfsm'' else ''cisco_nxos_show_interface_status.textfsm''),
     (if_desc_cmd, ''cisco_nxos_show_interface_description.textfsm''),
     (if_ip_cmd, if aci then ''cisco_aci_show_ip_interface_brief.textfsm'' else ''cisco_nxos_show_ip_interface_brief.textfsm''),
     (po_nxos_cmd, ''cisco_nxos_show_port-channel_summary.textfsm''),
     (if_transceiver_cmd, ''cisco_nxos_show_interface_transceiver.textfsm'')]"

definition template_for :: "db \<Rightarrow> device \<Rightarrow> string \<Rightarrow> string option" where
  "template_for d dev c =
     (if is_ios d dev then map_of ios_templates c
      else if is_nxos d dev
      then (if is_aci_leaf_spine dev \<and> c = version_cmd then None else map_of (nxos_templates (is_aci_leaf_spine dev)) c)
      else None)"

section \<open>Collecting the outputs\<close>

type_synonym results = "(string \<times> cmd_result) list"

definition commands :: "db \<Rightarrow> device \<Rightarrow> bool \<Rightarrow> string list" where
  "commands d dev include_config =
     [version_cmd, inventory_cmd, if_status_cmd, if_desc_cmd, if_ip_cmd, portchannel_cmd d dev] @
     (if is_ios d dev then [stack_cmd] else []) @ (if is_nxos d dev then [if_transceiver_cmd] else []) @
     (if include_config then [config_cmd] else [])"

definition parse_result :: "sync_env \<Rightarrow> db \<Rightarrow> device \<Rightarrow> string \<Rightarrow> cmd_result \<Rightarrow> cmd_result" where
  "parse_result env d dev c r =
     (if cr_raw r = [] then r
      else case template_for d dev c of None \<Rightarrow> r
        | Some t \<Rightarrow> let v = se_fsm env t (cr_raw r) in if truthy v then r\<lparr>cr_parsed := v\<rparr> else r)"

definition collect_results :: "sync_env \<Rightarrow> network \<Rightarrow> db \<Rightarrow> device \<Rightarrow> bool \<Rightarrow> nat \<Rightarrow> exn + results" where
  "collect_results env nw d dev include_config attempt =
     bind_res (open_adapter nw attempt d dev) (\<lambda>s.
       Inr (map (\<lambda>c. (c, parse_result env d dev c (run_command_raw s c))) (commands d dev include_config)))"

text \<open>\<^verbatim>\<open>for attempt in range(2)\<close>: the first success, or the last exception.\<close>

fun with_retry :: "(nat \<Rightarrow> exn + 'a) \<Rightarrow> nat \<Rightarrow> nat \<Rightarrow> exn + 'a" where
  "with_retry f attempt 0 = f attempt"
| "with_retry f attempt (Suc left) = (case f attempt of Inr x \<Rightarrow> Inr x | Inl _ \<Rightarrow> with_retry f (Suc attempt) left)"

definition collect_with_retry :: "sync_env \<Rightarrow> network \<Rightarrow> db \<Rightarrow> device \<Rightarrow> bool \<Rightarrow> exn + results" where
  "collect_with_retry env nw d dev include_config = with_retry (collect_results env nw d dev include_config) 0 1"

definition result_of :: "results \<Rightarrow> string \<Rightarrow> exn + cmd_result" where
  "result_of rs c = (case map_of rs c of None \<Rightarrow> Inl (KeyError (py_repr_str c)) | Some r \<Rightarrow> Inr r)"

section \<open>Configurations\<close>

record config =
  cf_id :: uid
  cf_device :: uid
  cf_text :: string
  cf_collected :: moment
  cf_source :: string
  cf_hash :: string
  cf_previous :: "uid option"
  cf_success :: bool
  cf_error :: "string option"

record store =
  st_db :: db
  st_configs :: "config list"
  st_neighbors :: "neighbor_row list"

text \<open>What new configuration rows get: an identifier and the time of the call.\<close>

record device_env =
  de_sync :: sync_env
  de_topo :: topo_env
  de_config_id :: uid
  de_clock :: moment

text \<open>\<^verbatim>\<open>device.configs.order_by("-collected_at").first()\<close>; of equal times the later row.\<close>

definition latest_config :: "uid \<Rightarrow> config list \<Rightarrow> config option" where
  "latest_config dev cs =
     fold (\<lambda>c best. case best of None \<Rightarrow> Some c | Some b \<Rightarrow> if cf_collected b \<le> cf_collected c then Some c else Some b)
       (filter (\<lambda>c. cf_device c = dev) cs) None"

definition record_config :: "device_env \<Rightarrow> uid \<Rightarrow> bool \<Rightarrow> string option \<Rightarrow> string \<Rightarrow> config list \<Rightarrow> config list" where
  "record_config env dev success err txt cs =
     cs @ [\<lparr>cf_id = de_config_id env, cf_device = dev, cf_text = txt, cf_collected = de_clock env, cf_source = ''ssh'',
       cf_hash = se_sha256 (de_sync env) txt, cf_previous = map_option cf_id (latest_config dev cs),
       cf_success = success, cf_error = err\<rparr>]"

section \<open>The synchronisation of a device\<close>

record outcome =
  oc_success :: bool
  oc_skipped :: bool
  oc_error :: "string option"
  oc_results :: "results option"

definition sync_excluded :: "db \<Rightarrow> device \<Rightarrow> bool" where
  "sync_excluded d dev \<longleftrightarrow> has_tag d dev ''no_sync''"

text \<open>The failure to collect: the device is marked unreachable, and the failure recorded.\<close>

definition collect_failed :: "device_env \<Rightarrow> device \<Rightarrow> bool \<Rightarrow> string \<Rightarrow> store \<Rightarrow> store" where
  "collect_failed env dev include_config msg s =
     s\<lparr>st_db := touch_runtime (dev_id dev) (\<lambda>r. r\<lparr>rt_ssh := False, rt_last_check := Some (se_now (de_sync env))\<rparr>) (st_db s),
       st_configs := (if include_config then record_config env (dev_id dev) False (Some msg) [] (st_configs s) else st_configs s)\<rparr>"

definition keep_config :: "device_env \<Rightarrow> uid \<Rightarrow> results \<Rightarrow> config list \<Rightarrow> config list" where
  "keep_config env dev rs cs =
     (case map_of rs config_cmd of
        None \<Rightarrow> record_config env dev True None [] cs
      | Some r \<Rightarrow> record_config env dev (\<not> text_true (cr_error r)) (cr_error r) (if text_true (cr_error r) then [] else cr_raw r) cs)"

text \<open>A neighbour row goes with its local interface.\<close>

definition drop_orphans :: "db \<Rightarrow> neighbor_row list \<Rightarrow> neighbor_row list" where
  "drop_orphans d rs = filter (\<lambda>r. nr_iface r \<in> ifc_id ` set (t_interfaces d)) rs"

definition apply_results :: "device_env \<Rightarrow> network \<Rightarrow> device \<Rightarrow> bool \<Rightarrow> results \<Rightarrow> store \<Rightarrow> exn + store" where
  "apply_results env nw dev include_config rs s =
     (let e = de_sync env; d0 = st_db s; po = portchannel_cmd d0 dev; nx = is_nxos d0 dev; ios = is_ios d0 dev;
          d = touch_runtime (dev_id dev) (\<lambda>r. r\<lparr>rt_ssh := True, rt_last_check := Some (se_now e)\<rparr>) d0
      in bind_res (result_of rs version_cmd) (\<lambda>version.
         bind_res (apply_version e dev version d) (\<lambda>(dev, d).
         bind_res (result_of rs inventory_cmd) (\<lambda>inventory.
         bind_res (apply_inventory e dev inventory d) (\<lambda>d.
         bind_res (update_device_type dev (cr_parsed version) (cr_parsed inventory) d) (\<lambda>(dev, d).
         bind_res (case (if nx then map_of rs if_transceiver_cmd else None) of
             None \<Rightarrow> Inr d | Some r \<Rightarrow> apply_transceivers e dev r d) (\<lambda>d.
         bind_res (result_of rs if_status_cmd) (\<lambda>st.
         bind_res (result_of rs if_desc_cmd) (\<lambda>ds.
         bind_res (result_of rs if_ip_cmd) (\<lambda>ip.
         bind_res (result_of rs po) (\<lambda>pc.
         bind_res (apply_interfaces e dev st ds ip pc d) (\<lambda>d.
         let configs = (if include_config then keep_config env (dev_id dev) rs (st_configs s) else st_configs s)
         in bind_res (case (if ios then map_of rs stack_cmd else None) of
             None \<Rightarrow> Inr (dev, d) | Some r \<Rightarrow> apply_stack_members dev r d) (\<lambda>(dev, d).
         Inr \<lparr>st_db = d, st_configs = configs,
           st_neighbors = snd (collect_neighbors (de_topo env) nw d dev (drop_orphans d (st_neighbors s)))\<rparr>)))))))))))))"

definition sync_device :: "device_env \<Rightarrow> network \<Rightarrow> device \<Rightarrow> bool \<Rightarrow> bool \<Rightarrow> store \<Rightarrow> exn + (outcome \<times> store)" where
  "sync_device env nw dev include_config return_results s =
     (if sync_excluded (st_db s) dev
      then Inr (\<lparr>oc_success = False, oc_skipped = True, oc_error = Some (''Device has tag '' @ py_repr_str ''no_sync'' @ ''.''),
        oc_results = None\<rparr>, s)
      else case collect_with_retry (de_sync env) nw (st_db s) dev include_config of
          Inl e \<Rightarrow> Inr (\<lparr>oc_success = False, oc_skipped = False, oc_error = Some (exn_str e), oc_results = None\<rparr>,
            collect_failed env dev include_config (exn_str e) s)
        | Inr rs \<Rightarrow> bind_res (apply_results env nw dev include_config rs s) (\<lambda>s.
            Inr (\<lparr>oc_success = True, oc_skipped = False, oc_error = None,
              oc_results = (if return_results then Some rs else None)\<rparr>, s)))"

section \<open>The scheduled synchronisation\<close>

text \<open>
  \<^verbatim>\<open>run_scheduled_sync_job\<close>: the active devices without the tag, each in a
  transaction of its own; a crash of one counts as failed and does not stop the others.
\<close>

record sync_counts =
  sn_success :: int
  sn_failed :: int
  sn_skipped :: int

definition sync_candidates :: "db \<Rightarrow> device list" where
  "sync_candidates d = filter (\<lambda>v. dev_status v = ''active'' \<and>
     \<not> (\<exists>t \<in> set (t_tags d). tag_id t \<in> set (dev_tags v) \<and> tag_name t = ''no_sync'')) (t_devices d)"

definition sync_step :: "(uid \<Rightarrow> device_env) \<Rightarrow> network \<Rightarrow> bool \<Rightarrow> sync_counts \<times> store \<Rightarrow> device \<Rightarrow> sync_counts \<times> store" where
  "sync_step envs nw include_config cs dev =
     (let (n, s) = cs
      in case sync_device (envs (dev_id dev)) nw dev include_config False s of
           Inl _ \<Rightarrow> (n\<lparr>sn_failed := sn_failed n + 1\<rparr>, s)
         | Inr (oc, s') \<Rightarrow>
             (if oc_skipped oc then n\<lparr>sn_skipped := sn_skipped n + 1\<rparr>
              else if oc_success oc then n\<lparr>sn_success := sn_success n + 1\<rparr>
              else n\<lparr>sn_failed := sn_failed n + 1\<rparr>, s'))"

definition scheduled_sync :: "(uid \<Rightarrow> device_env) \<Rightarrow> network \<Rightarrow> bool \<Rightarrow> store \<Rightarrow> sync_counts \<times> store" where
  "scheduled_sync envs nw include_config s =
     foldl (sync_step envs nw include_config) (\<lparr>sn_success = 0, sn_failed = 0, sn_skipped = 0\<rparr>, s) (sync_candidates (st_db s))"

end
