(* ===== verification/SyncDeviceProps.thy ===== *)
theory SyncDeviceProps
  imports SyncDevice
begin

text \<open>
  What a synchronisation leaves behind when it fails, how the history of configurations grows,
  and the totals of the scheduled run.
\<close>

section \<open>Two attempts\<close>

lemma with_retry_one:
  "with_retry f a 1 = (case f a of Inr x \<Rightarrow> Inr x | Inl _ \<Rightarrow> f (Suc a))"
  by (simp split: sum.split)

lemma collect_fails:
  "collect_with_retry e nw d dev c = Inl x \<longleftrightarrow>
     (\<exists>y. collect_results e nw d dev c 0 = Inl y) \<and> collect_results e nw d dev c 1 = Inl x"
  unfolding collect_with_retry_def with_retry_one by (cases "collect_results e nw d dev c 0") auto

text \<open>Only a session that does not open makes an attempt fail: commands keep their errors to themselves.\<close>

lemma collect_results_fails: "collect_results e nw d dev c n = Inl x \<longleftrightarrow> open_adapter nw n d dev = Inl x"
  by (cases "open_adapter nw n d dev") (simp_all add: collect_results_def)

text \<open>
  C14. A device that is not excluded is reported as unreachable exactly when both attempts to open
  a session fail, with the message of the second; then the run has only cleared the flag and set
  the time of the check in the runtime status of the device, and recorded a failed configuration
  when it was asked for one. Every other table is as before.
\<close>

theorem sync_failure_contained:
  assumes "\<not> sync_excluded (st_db s) dev" and "open_adapter nw 0 (st_db s) dev = Inl x" and "open_adapter nw 1 (st_db s) dev = Inl y"
    and "sync_device env nw dev c ret s = Inr (oc, s')"
  shows "oc_error oc = Some (exn_str y) \<and> \<not> oc_success oc \<and> st_neighbors s' = st_neighbors s
    \<and> st_db s' = (st_db s)\<lparr>t_runtimes := t_runtimes (st_db s')\<rparr>
    \<and> (\<forall>r \<in> set (t_runtimes (st_db s)). rt_device r \<noteq> dev_id dev \<longrightarrow> r \<in> set (t_runtimes (st_db s')))
    \<and> (\<exists>r. first_row (\<lambda>r. rt_device r = dev_id dev) (t_runtimes (st_db s')) = Some r \<and> \<not> rt_ssh r)
    \<and> st_configs s' = (if c then record_config env (dev_id dev) False (Some (exn_str y)) [] (st_configs s) else st_configs s)"
proof -
  let ?f = "\<lambda>r. r\<lparr>rt_ssh := False, rt_last_check := Some (se_now (de_sync env))\<rparr>"
  let ?rows = "upsert (\<lambda>r. rt_device r = dev_id dev) (?f (new_runtime (dev_id dev))) ?f (t_runtimes (st_db s))"
  have "collect_with_retry (de_sync env) nw (st_db s) dev c = Inl y"
    unfolding collect_fails collect_results_fails using assms(2,3) by blast
  with assms(1,4) have oc: "oc_error oc = Some (exn_str y)" "\<not> oc_success oc"
    and s': "s' = collect_failed env dev c (exn_str y) s"
    by (auto simp: sync_device_def)
  have rows: "t_runtimes (st_db s') = ?rows" by (simp add: s' collect_failed_def touch_runtime_def)
  have other: "r \<in> set (upsert (\<lambda>r. rt_device r = dev_id dev) u ?f rs)" if "r \<in> set rs" "rt_device r \<noteq> dev_id dev" for r u rs
    using that by (induction rs) auto
  have "\<exists>r. first_row (\<lambda>r. rt_device r = dev_id dev) (upsert (\<lambda>r. rt_device r = dev_id dev) (?f (new_runtime (dev_id dev))) ?f rs) = Some r
      \<and> \<not> rt_ssh r" for rs
    by (induction rs) (auto simp: new_runtime_def)
  moreover have "\<forall>r \<in> set (t_runtimes (st_db s)). rt_device r \<noteq> dev_id dev \<longrightarrow> r \<in> set ?rows"
    using other by blast
  ultimately show ?thesis using oc
    unfolding rows by (simp add: s' collect_failed_def touch_runtime_def)
qed

definition demo_network :: network where
  "demo_network = \<lparr>nw_credentials = [], nw_connect = (\<lambda>n p. Inl (ConnectionError ''refused''))\<rparr>"

definition demo_device_env :: device_env where
  "demo_device_env = \<lparr>de_sync = \<lparr>se_now = 9, se_module_id = (\<lambda>n s. 1), se_iface_id = (\<lambda>n. 1), se_fsm = (\<lambda>t r. PyNone),
     se_sha256 = (\<lambda>s. s)\<rparr>, de_topo = \<lparr>te_now = 9, te_id = (\<lambda>k. 1)\<rparr>, de_config_id = 5, de_clock = 9\<rparr>"

definition demo_store :: store where
  "demo_store = \<lparr>st_db = empty_db\<lparr>t_devices := [new_device 1 ''sw1'' ''10.0.0.1'' 1 1],
     t_runtimes := [(new_runtime 1)\<lparr>rt_ssh := True\<rparr>]\<rparr>, st_configs = [], st_neighbors = []\<rparr>"

theorem sync_failure_contained_witness:
  "\<exists>oc s'. sync_device demo_device_env demo_network (new_device 1 ''sw1'' ''10.0.0.1'' 1 1) True False demo_store = Inr (oc, s')
     \<and> \<not> oc_success oc \<and> length (st_configs s') = 1"
proof -
  let ?dev = "new_device 1 ''sw1'' ''10.0.0.1'' 1 1" and ?s = demo_store
  have ex: "\<not> sync_excluded (st_db ?s) ?dev"
    by (simp add: sync_excluded_def has_tag_def demo_store_def empty_db_def)
  have o: "open_adapter demo_network n (st_db ?s) ?dev =
      Inl (DoesNotExist (''No SSH credentials configured for site '' @ char_of (39::nat) #
        site_label (st_db ?s) (dev_site ?dev) @ char_of (39::nat) # ''.''))" for n
    by (simp add: open_adapter_def build_ssh_params_def demo_network_def)
  have "\<exists>x. sync_device demo_device_env demo_network ?dev True False ?s = Inr x"
    using ex o by (simp add: sync_device_def collect_with_retry_def with_retry_one collect_results_def del: One_nat_def with_retry.simps)
  then obtain oc s' where run: "sync_device demo_device_env demo_network ?dev True False ?s = Inr (oc, s')" by auto
  from sync_failure_contained [OF ex o o run] run show ?thesis
    by (simp add: record_config_def demo_store_def)
qed

section \<open>The history of configurations\<close>

lemma keep_config_grows: "\<exists>c. keep_config env dev rs cs = cs @ [c] \<and> cf_device c = dev \<and> cf_previous c = map_option cf_id (latest_config dev cs)
    \<and> (cf_success c \<longleftrightarrow> cf_error c = None \<or> cf_error c = Some [])"
  by (auto simp: keep_config_def record_config_def text_true_def or_empty_def split: option.splits)

lemma save_device_dev_id: "apply_version e dev r d = Inr (dev', d') \<Longrightarrow> dev_id dev' = dev_id dev"
  by (auto simp: apply_version_def bind_res_eq_Inr Let_def versioned_def split: option.splits if_splits)

lemma update_type_dev_id: "update_device_type dev v i d = Inr (dev', d') \<Longrightarrow> dev_id dev' = dev_id dev"
  by (auto simp: update_device_type_def bind_res_eq_Inr Let_def split: option.splits if_splits)

lemma apply_results_configs:
  assumes "apply_results env nw dev c rs s = Inr s'"
  shows "st_configs s' = (if c then keep_config env (dev_id dev) rs (st_configs s) else st_configs s)"
  using assms by (auto simp: apply_results_def Let_def bind_res_eq_Inr dest!: save_device_dev_id update_type_dev_id)

text \<open>
  The history of configurations only grows: a synchronisation that was asked for the
  configuration appends exactly one row, of this device, linked to the latest row that the device
  had, and any other leaves the history as it is.
\<close>

theorem config_history_grows:
  assumes "sync_device env nw dev c ret s = Inr (oc, s')"
  shows "if c \<and> \<not> oc_skipped oc
    then \<exists>r. st_configs s' = st_configs s @ [r] \<and> cf_device r = dev_id dev
      \<and> cf_previous r = map_option cf_id (latest_config (dev_id dev) (st_configs s))
    else st_configs s' = st_configs s"
proof (cases "sync_excluded (st_db s) dev")
  case True
  with assms show ?thesis by (auto simp: sync_device_def)
next
  case ex: False
  show ?thesis
  proof (cases "collect_with_retry (de_sync env) nw (st_db s) dev c")
    case (Inl e)
    with assms ex show ?thesis by (auto simp: sync_device_def collect_failed_def record_config_def)
  next
    case (Inr rs)
    with assms ex have "apply_results env nw dev c rs s = Inr s'" and "\<not> oc_skipped oc"
      by (auto simp: sync_device_def bind_res_eq_Inr)
    with apply_results_configs [OF this(1)] keep_config_grows [of env "dev_id dev" rs "st_configs s"] show ?thesis by auto
  qed
qed

theorem config_history_grows_witness:
  "\<exists>oc s'. sync_device demo_device_env demo_network (new_device 1 ''sw1'' ''10.0.0.1'' 1 1) True False demo_store = Inr (oc, s')
     \<and> (\<exists>r. st_configs s' = [r] \<and> cf_previous r = None)"
proof -
  let ?run = "sync_device demo_device_env demo_network (new_device 1 ''sw1'' ''10.0.0.1'' 1 1) True False demo_store"
  have run: "is_ok ?run \<and> (case ?run of Inr (oc, _) \<Rightarrow> \<not> oc_skipped oc | Inl _ \<Rightarrow> False)" by code_simp
  then obtain oc s' where eq: "?run = Inr (oc, s')" by (cases ?run) auto
  from config_history_grows [OF eq] run eq show ?thesis
    by (auto simp: demo_store_def latest_config_def)
qed

section \<open>The scheduled run\<close>

definition total :: "sync_counts \<Rightarrow> int" where
  "total n = sn_success n + sn_failed n + sn_skipped n"

lemma sync_step_total: "total (fst (sync_step envs nw c (n, s) dev)) = total n + 1"
  by (simp add: sync_step_def total_def split: sum.split prod.split)

lemma sync_steps_total: "total (fst (foldl (sync_step envs nw c) (n, s) devs)) = total n + int (length devs)"
proof (induction devs arbitrary: n s)
  case (Cons v devs)
  obtain n1 s1 where st: "sync_step envs nw c (n, s) v = (n1, s1)" by (cases "sync_step envs nw c (n, s) v")
  with sync_step_total [of envs nw c n s v] Cons.IH [of n1 s1] show ?case by simp
qed simp

text \<open>
  The scheduled synchronisation always ends and counts every active device without the
  exclusion tag exactly once, as a success, a failure or skipped, crashes included.
\<close>

theorem scheduled_sync_counts_all:
  "total (fst (scheduled_sync envs nw c s)) = int (length (sync_candidates (st_db s)))"
  using sync_steps_total by (simp add: scheduled_sync_def total_def)

end
