(* ===== verification/RegexFirst.thy ===== *)
theory RegexFirst
  imports PyRegex
begin

text \<open>
  Reasoning forwards about the backtracking matcher: the first way a pattern matches, composed from
  the first ways of its parts. \<open>first_match r st q\<close>: the first way Python tries that matches \<open>r\<close> from \<open>st\<close> ends in \<open>q\<close>.
\<close>

definition first_match :: "rx \<Rightarrow> pos \<Rightarrow> pos \<Rightarrow> bool" where
  "first_match r st q \<longleftrightarrow> (\<exists>qs. run r st = q # qs)"

lemma first_Seq: "first_match a st p \<Longrightarrow> first_match b p q \<Longrightarrow> first_match (Seq a b) st q"
  by (auto simp: first_match_def)

lemma first_Opt: "first_match a st q \<Longrightarrow> first_match (Opt a) st q"
  by (auto simp: first_match_def)

lemma first_Opt_none: "run a st = [] \<Longrightarrow> first_match (Opt a) st st"
  by (simp add: first_match_def)

lemma first_Cls: "p c \<Longrightarrow> first_match (Cls p) (pr, c # s, caps) (Some c, s, caps)"
  by (simp add: first_match_def)

lemma first_Eos: "first_match Eos (pr, [], caps) (pr, [], caps)"
  by (simp add: first_match_def)

lemma first_Cap:
  "first_match a (pr, u @ v, caps) (pr', v, caps') \<Longrightarrow>
     first_match (Cap n a) (pr, u @ v, caps) (pr', v, (n, u) # caps')"
  by (auto simp: first_match_def)

definition stops :: "(char \<Rightarrow> bool) \<Rightarrow> string \<Rightarrow> bool" where
  "stops p v \<longleftrightarrow> v = [] \<or> \<not> p (hd v)"

lemma many_first:
  "list_all p u \<Longrightarrow> stops p v \<Longrightarrow> \<exists>qs. many p (pr, u @ v, caps) = (if u = [] then pr else Some (last u), v, caps) # qs"
proof (induction u arbitrary: pr)
  case Nil
  then show ?case by (cases v) (auto simp: stops_def)
next
  case (Cons c u)
  then obtain qs where "many p (Some c, u @ v, caps) = (if u = [] then Some c else Some (last u), v, caps) # qs"
    by fastforce
  with Cons.prems show ?case by (auto split: if_splits)
qed

lemma first_Many1:
  assumes "list_all p u" and "u \<noteq> []" and "stops p v"
  shows "first_match (Many1 p) (pr, u @ v, caps) (Some (last u), v, caps)"
proof (cases u)
  case (Cons c t)
  with assms obtain qs where "many p (Some c, t @ v, caps) = (if t = [] then Some c else Some (last t), v, caps) # qs"
    using many_first [of p t v "Some c" caps] by auto
  with Cons assms show ?thesis by (auto simp: first_match_def)
qed (use assms in simp)

lemma rx_match_first: "first_match r (None, s, []) (pr, t, caps) \<Longrightarrow> rx_match r s = Some caps"
  by (auto simp: first_match_def rx_match_def)

lemma first_Cls_seq: "p c \<Longrightarrow> first_match b (Some c, s, caps) q \<Longrightarrow> first_match (Seq (Cls p) b) (pr, c # s, caps) q"
  by (rule first_Seq [OF first_Cls])

end
