(* ===== verification/AutoAssign.thy ===== *)
theory AutoAssign
  imports SyncDevice Review JobLife
begin

text \<open>
  \<^verbatim>\<open>network/services/auto_assignment_service.py\<close>: a discovered candidate becomes a
  device without a person. A session tells the platform, the place, the model and the stack; a
  place is a text with an area, a rack and possibly a unit. The device is written in one
  transaction and then synchronised. The worker of \<^verbatim>\<open>network/tasks.py\<close> runs the
  service over a list of candidates.
\<close>

section \<open>Where a device stands\<close>

text \<open>
  A unit is a decimal: a coefficient and a number of decimal places. \<^verbatim>\<open>int()\<close> of it
  truncates, and a unit is never negative.
\<close>

type_synonym decimal = "int \<times> nat"

record place =
  pl_area :: string
  pl_rack :: string
  pl_unit :: "decimal option"

definition decimal_of :: "string \<Rightarrow> decimal" where
  "decimal_of t =
     (case cut ''.'' t of
        None \<Rightarrow> (int (digits_value t), 0)
      | Some (a, b) \<Rightarrow> (int (digits_value (a @ b)), length b))"

definition decimal_int :: "decimal \<Rightarrow> int" where
  "decimal_int u = fst u div 10 ^ snd u"

definition location_rx :: rx where
  "location_rx = seqs [Cap 1 (Many1 (\<lambda>c. \<not> is_space c)), Many1 is_space, Cap 2 (Many1 (\<lambda>c. \<not> is_space c)),
     Opt (seqs [Many1 is_space, lit_ci ''U'', Cap 3 (Seq (Many1 is_digit) (Opt (Seq (lit ''.'') (Many1 is_digit))))]), Eos]"

definition quoted :: "string \<Rightarrow> string" where
  "quoted s = char_of (39 :: nat) # s @ [char_of (39 :: nat)]"

definition location_value :: "string \<Rightarrow> string option" where
  "location_value line =
     (if contains (lower line) ''sys location'' \<or> contains (lower line) ''system location''
      then (case cut '':'' line of None \<Rightarrow> None | Some (_, v) \<Rightarrow> non_empty (strip v)) else None)"

definition location_target :: "string \<Rightarrow> string option" where
  "location_target raw =
     (case filter (\<lambda>l. l \<noteq> []) (map strip (splitlines raw)) of
        [] \<Rightarrow> None
      | l # ls \<Rightarrow> Some (case first_some location_value (l # ls) of None \<Rightarrow> l | Some v \<Rightarrow> v))"

definition aci_place :: "string \<Rightarrow> exn + place" where
  "aci_place hostname =
     (if hostname = [] then Inl (RuntimeError ''Hostname missing for ACI location fallback.'')
      else let base = (case cut ''.'' hostname of None \<Rightarrow> hostname | Some (a, _) \<Rightarrow> a)
        in case filter (\<lambda>p. p \<noteq> []) (split_on ''-'' base) of
             _ # area # rack # _ \<Rightarrow> Inr \<lparr>pl_area = area, pl_rack = ''Rack'' @ rack, pl_unit = None\<rparr>
           | _ \<Rightarrow> Inl (RuntimeError (''Hostname not in expected ACI format for area/rack: '' @ quoted base)))"

definition parse_place :: "bool \<Rightarrow> string \<Rightarrow> string \<Rightarrow> exn + place" where
  "parse_place aci hostname raw =
     (if aci then aci_place (lower hostname)
      else case location_target raw of
          None \<Rightarrow> Inl (RuntimeError ''SNMP location empty.'')
        | Some target \<Rightarrow>
           (case rx_match location_rx target of
              None \<Rightarrow> Inl (RuntimeError (''SNMP location not in expected format: '' @ quoted target))
            | Some g \<Rightarrow> Inr \<lparr>pl_area = (if contains (lower hostname) ''-vm-'' then ''VCenter'' else group_text g 1),
                pl_rack = group_text g 2, pl_unit = map_option decimal_of (group g 3)\<rparr>))"

section \<open>A free position\<close>

definition max_units :: "rack \<Rightarrow> int" where
  "max_units r = (if rack_height r = 0 then 42 else rack_height r)"

definition fits :: "int list \<Rightarrow> nat \<Rightarrow> int \<Rightarrow> bool" where
  "fits occupied n start \<longleftrightarrow> (\<forall>off \<in> set [0 ..< n]. start + int off \<notin> set occupied)"

definition free_starts :: "rack \<Rightarrow> nat \<Rightarrow> int list" where
  "free_starts r n = filter (fits (rack_occupied r) n) [1 .. max_units r - int n + 1]"

text \<open>
  \<^verbatim>\<open>str(rack)\<close> for the message: the walk to the root of the areas need not end.
  The arrow between the areas is written in ASCII.
\<close>

definition rack_label :: "db \<Rightarrow> rack \<Rightarrow> string option" where
  "rack_label d r =
     (case find_area d (rack_area r) of
        None \<Rightarrow> Some (rack_name r)
      | Some a \<Rightarrow> map_option (\<lambda>path. site_label d (area_site a) @ '' / '' @ join '' -> '' path @ '' / '' @ rack_name r)
          (area_path d a []))"

text \<open>
  \<^verbatim>\<open>_select_position\<close>: the requested unit when it is free, else a random one of the
  free starts (\<open>pick\<close> is \<^verbatim>\<open>random.choice\<close>); \<open>None\<close> is the label that never ends.
\<close>

definition random_position :: "(int list \<Rightarrow> int) \<Rightarrow> string option \<Rightarrow> rack \<Rightarrow> nat \<Rightarrow> (exn + decimal) option" where
  "random_position pick label r n =
     (case free_starts r n of
        [] \<Rightarrow> map_option (\<lambda>l. Inl (RuntimeError (''No free rack units available in rack '' @ quoted l @
            '' for required size '' @ int_str (int n) @ ''.''))) label
      | starts \<Rightarrow> Some (Inr (pick starts, 0)))"

definition select_position ::
  "(int list \<Rightarrow> int) \<Rightarrow> string option \<Rightarrow> rack \<Rightarrow> decimal option \<Rightarrow> nat \<Rightarrow> (exn + decimal) option"
where
  "select_position pick label r requested n =
     (case requested of
        Some u \<Rightarrow> if fst u \<noteq> 0 \<and> fits (rack_occupied r) n (decimal_int u) then Some (Inr u)
          else random_position pick label r n
      | None \<Rightarrow> random_position pick label r n)"

section \<open>What the device tells\<close>

text \<open>
  The parameters: the environment of the synchronisation, \<^verbatim>\<open>ConnectHandler\<close> (which
  connection of the run, and its parameters), the random choice, the decimal that the database
  keeps of a position (in tenths, or its error), the identifiers of new rows, the text of an
  identifier and the text of a site, whose organisation is a table of another application.
\<close>

record assign_env =
  ae_device :: device_env
  ae_connect :: "nat \<Rightarrow> ssh_params \<Rightarrow> exn + session"
  ae_choice :: "int list \<Rightarrow> int"
  ae_store :: "decimal \<Rightarrow> exn + int"
  ae_device_id :: uid
  ae_role_id :: uid
  ae_uuid_text :: "uid \<Rightarrow> string"
  ae_site_text :: "uid \<Rightarrow> string"

definition is_fabric :: "candidate \<Rightarrow> bool" where
  "is_fabric c \<longleftrightarrow> contains (lower (cand_hostname c)) ''leaf'' \<or> contains (lower (cand_hostname c)) ''spine''"

definition get_credential :: "assign_env \<Rightarrow> network \<Rightarrow> candidate \<Rightarrow> exn + credential" where
  "get_credential env nw c =
     (case first_row (\<lambda>r. cr_site r = cand_site c) (nw_credentials nw) of
        None \<Rightarrow> Inl (RuntimeError (''No SSH credentials configured for site '' @ quoted (ae_site_text env (cand_site c)) @ ''.''))
      | Some r \<Rightarrow> Inr r)"

definition resolve_username :: "candidate \<Rightarrow> credential \<Rightarrow> string" where
  "resolve_username c cr = (if is_fabric c then fabric_user (cr_username cr) else cr_username cr)"

definition detect_params :: "candidate \<Rightarrow> credential \<Rightarrow> string \<Rightarrow> ssh_params" where
  "detect_params c cr driver = \<lparr>sp_driver = driver, sp_host = cand_ip c, sp_username = resolve_username c cr,
     sp_password = cr_password cr, sp_port = cr_port cr, sp_timeout = 30\<rparr>"

definition detected_driver :: "string \<Rightarrow> string" where
  "detected_driver v = (if contains v ''NX-OS'' \<or> contains v ''NXOS'' then ''cisco_nxos'' else ''cisco_ios'')"

text \<open>
  One attempt of \<^verbatim>\<open>_detect_device_type_via_version\<close>: the session, its driver and
  the version text, after a second connection when the first driver was the wrong one.
\<close>

definition detect_with :: "assign_env \<Rightarrow> candidate \<Rightarrow> credential \<Rightarrow> nat \<Rightarrow> string \<Rightarrow> exn + (session \<times> string \<times> string)" where
  "detect_with env c cr n driver =
     bind_res (ae_connect env n (detect_params c cr driver)) (\<lambda>s.
     bind_res (s ''show version'') (\<lambda>v.
       if detected_driver v = driver then Inr (s, driver, v)
       else bind_res (ae_connect env (n + 1) (detect_params c cr (detected_driver v))) (\<lambda>s.
         bind_res (s ''show version'') (\<lambda>w. Inr (s, detected_driver v, w)))))"

definition detect :: "assign_env \<Rightarrow> candidate \<Rightarrow> credential \<Rightarrow> exn + (session \<times> string \<times> string)" where
  "detect env c cr =
     catch_res (detect_with env c cr 0 ''cisco_nxos'') (\<lambda>_.
     catch_res (detect_with env c cr 2 ''cisco_ios'') (\<lambda>_.
       Inl (RuntimeError (''Could not connect to device DiscoveryCandidate object ('' @ ae_uuid_text env (cand_id c) @
         '') for device type detection.''))))"

record facts =
  fa_driver :: string
  fa_aci :: bool
  fa_version :: string
  fa_location :: string
  fa_parsed_version :: pyval
  fa_inventory :: pyval
  fa_stack :: "string option"

definition parse_show :: "assign_env \<Rightarrow> string \<Rightarrow> string \<Rightarrow> pyval" where
  "parse_show env template raw = (if raw = [] then PyNone else se_fsm (de_sync (ae_device env)) template raw)"

definition version_template :: "bool \<Rightarrow> string \<Rightarrow> string" where
  "version_template aci driver =
     (if aci then ''cisco_nxos_aci_show_version.textfsm''
      else if driver = ''cisco_nxos'' then ''cisco_nxos_show_version.textfsm''
      else ''cisco_ios_show_version.textfsm'')"

definition inventory_template :: "string \<Rightarrow> string" where
  "inventory_template driver =
     (if driver = ''cisco_nxos'' then ''cisco_nxos_show_inventory.textfsm'' else ''cisco_ios_show_inventory.textfsm'')"

definition output_or :: "'a \<Rightarrow> (string \<Rightarrow> 'a) \<Rightarrow> exn + string \<Rightarrow> 'a" where
  "output_or failed f r = (case r of Inl _ \<Rightarrow> failed | Inr t \<Rightarrow> f t)"

definition gather_details :: "assign_env \<Rightarrow> bool \<Rightarrow> session \<Rightarrow> string \<Rightarrow> string \<Rightarrow> facts" where
  "gather_details env aci s driver version =
     \<lparr>fa_driver = driver, fa_aci = aci, fa_version = version,
      fa_location =
        (if driver = ''cisco_nxos'' \<and> \<not> aci then output_or [] (\<lambda>t. t) (s ''show snmp'')
         else if driver = ''cisco_ios'' then output_or [] (\<lambda>t. t) (s ''show snmp location'') else []),
      fa_parsed_version = parse_show env (version_template aci driver) version,
      fa_inventory = output_or PyNone (parse_show env (inventory_template driver)) (s ''show inventory''),
      fa_stack = (if driver = ''cisco_ios'' then output_or None Some (s ''show switch'') else None)\<rparr>"

definition gather :: "assign_env \<Rightarrow> network \<Rightarrow> candidate \<Rightarrow> exn + facts" where
  "gather env nw c =
     bind_res (get_credential env nw c) (\<lambda>cr.
     bind_res (detect env c cr) (\<lambda>(s, driver, version).
       Inr (gather_details env (is_fabric c \<or> contains (lower version) ''aci'') s driver version)))"

definition stack_members :: "facts \<Rightarrow> member list" where
  "stack_members fa = parse_stack_raw (or_empty (fa_stack fa))"

section \<open>Which rows it becomes\<close>

definition resolve_area :: "assign_env \<Rightarrow> db \<Rightarrow> uid \<Rightarrow> string \<Rightarrow> exn + area" where
  "resolve_area env d site name =
     (case filter (\<lambda>a. area_site a = site \<and> iexact (area_name a) name) (t_areas d) of
        [] \<Rightarrow> Inl (RuntimeError (''Area '' @ quoted name @ '' not found in site '' @ quoted (ae_site_text env site) @ ''.''))
      | [a] \<Rightarrow> Inr a
      | _ \<Rightarrow> Inl (MultipleObjectsReturned ''get() returned more than one Area''))"

definition resolve_rack :: "assign_env \<Rightarrow> db \<Rightarrow> uid \<Rightarrow> area \<Rightarrow> string \<Rightarrow> string \<Rightarrow> exn + rack" where
  "resolve_rack env d site area area_text name =
     (case filter (\<lambda>r. rack_area r = area_id area \<and> iexact (rack_name r) name) (t_racks d) of
        [] \<Rightarrow> Inl (RuntimeError (''Rack '' @ quoted name @ '' not found in area '' @ quoted area_text @
          '' for site '' @ quoted (ae_site_text env site) @ ''.''))
      | [r] \<Rightarrow> Inr r
      | _ \<Rightarrow> Inl (MultipleObjectsReturned ''get() returned more than one Rack''))"

definition resolve_area_and_rack :: "assign_env \<Rightarrow> db \<Rightarrow> uid \<Rightarrow> place \<Rightarrow> exn + (area \<times> rack)" where
  "resolve_area_and_rack env d site pl =
     bind_res (resolve_area env d site (pl_area pl)) (\<lambda>a.
     bind_res (resolve_rack env d site a (pl_area pl) (pl_rack pl)) (\<lambda>r. Inr (a, r)))"

text \<open>
  The models that an inventory suggests, in order of preference; the first of them that the
  vendor has is taken, and without a vendor (a dry run) the first.
\<close>

definition model_candidates :: "entry list \<Rightarrow> string list" where
  "model_candidates es =
     List.map_filter (\<lambda>e. if is_chassis_entry e then non_empty (pid_of e) else None) es @
     List.map_filter (\<lambda>e. if contains_any (upper (pid_of e)) skip_tokens then None else non_empty (pid_of e)) es @
     take 1 (List.map_filter (\<lambda>e. non_empty (pid_of e)) es)"

definition type_of :: "db \<Rightarrow> vendor \<Rightarrow> string \<Rightarrow> device_type option" where
  "type_of d v model = first_row (\<lambda>t. dt_vendor t = vendor_id v \<and> iexact (dt_model t) model) (t_types d)"

definition select_model :: "db \<Rightarrow> pyval \<Rightarrow> vendor option \<Rightarrow> string option" where
  "select_model d inventory v =
     first_row (\<lambda>pid. case v of None \<Rightarrow> True | Some vd \<Rightarrow> type_of d vd pid \<noteq> None)
       (model_candidates (inventory_entries inventory))"

definition model_name :: "db \<Rightarrow> facts \<Rightarrow> vendor option \<Rightarrow> string option" where
  "model_name d fa v =
     (let m = select_model d (fa_inventory fa) v
      in if text_true m then m else extract_model_from_version (fa_parsed_version fa))"

definition cisco :: "db \<Rightarrow> exn + vendor" where
  "cisco d = (case first_row (\<lambda>v. iexact (vendor_name v) ''Cisco'') (t_vendors d) of
     None \<Rightarrow> Inl (RuntimeError (''Vendor '' @ quoted ''Cisco'' @ '' not found; create it before auto-assignment.''))
   | Some v \<Rightarrow> Inr v)"

definition resolve_device_type :: "db \<Rightarrow> string option \<Rightarrow> vendor \<Rightarrow> exn + device_type" where
  "resolve_device_type d model v =
     (let m = (if text_true model then or_empty model else ''Unknown (auto)'')
      in case type_of d v m of
           None \<Rightarrow> Inl (RuntimeError (''DeviceType '' @ quoted m @ '' for vendor '' @ quoted (vendor_name v) @
             '' not found; create it before auto-assignment.''))
         | Some t \<Rightarrow> Inr t)"

definition role_of :: "candidate \<Rightarrow> string" where
  "role_of c =
     (let h = lower (cand_hostname c)
      in if contains h ''apic'' then ''Controller'' else if contains h ''core'' then ''Core''
         else if contains h ''leaf'' then ''Leaf'' else if contains h ''spine'' then ''Spine'' else ''Access Switch'')"

definition resolve_role :: "uid \<Rightarrow> candidate \<Rightarrow> db \<Rightarrow> uid \<times> db" where
  "resolve_role new c d =
     (case first_row (\<lambda>r. role_name r = role_of c) (t_roles d) of
        Some r \<Rightarrow> (role_id r, d)
      | None \<Rightarrow> (new, d\<lparr>t_roles := t_roles d @
          [\<lparr>role_id = new, role_name = role_of c, role_description = Some ''Auto-assigned role''\<rparr>]\<rparr>))"

text \<open>The names are a set in the code; the list here has an order that nothing depends on.\<close>

definition tag_names :: "candidate \<Rightarrow> string list" where
  "tag_names c =
     (let h = lower (cand_hostname c)
      in remdups ([''reachability_check_tag'', ''discovered-new''] @
        (if contains h ''bcsw'' then [''campus'', ''config_backup_tag''] else []) @
        (if contains h ''bmsw'' \<or> contains h ''mgmt'' then [''management'', ''config_backup_tag''] else []) @
        (if contains h ''bpp'' then [''post_pro'', ''config_backup_tag''] else []) @
        (if contains h ''leaf'' \<or> contains h ''spine'' then [''aci_fabric''] else [])))"

definition known_tags :: "db \<Rightarrow> string list \<Rightarrow> tag list" where
  "known_tags d names = List.map_filter (\<lambda>n. first_row (\<lambda>t. iexact (tag_name t) n) (t_tags d)) names"

definition extra_tag_names :: "string \<Rightarrow> string list" where
  "extra_tag_names name = (if is_management_name name then [''management'', ''config_backup_tag''] else [])"

section \<open>The assignment\<close>

definition assigned_device :: "assign_env \<Rightarrow> candidate \<Rightarrow> area \<Rightarrow> rack \<Rightarrow> int \<Rightarrow> device_type \<Rightarrow> uid \<Rightarrow> bool \<Rightarrow> device" where
  "assigned_device env c a r pos t role stacked =
     (new_device (ae_device_id env) (if cand_hostname c = [] then cand_ip c else cand_hostname c) (cand_ip c) (cand_site c) (area_id a))
       \<lparr>dev_rack := Some (rack_id r), dev_position := Some pos, dev_type := Some (dt_id t), dev_role := Some role,
        dev_status := ''active'', dev_source := ''discovery'', dev_stacked := stacked\<rparr>"

text \<open>Up to \<^verbatim>\<open>Device.objects.create\<close>: the device to create, its tags and the database.\<close>

definition prepare :: "assign_env \<Rightarrow> db \<Rightarrow> candidate \<Rightarrow> facts \<Rightarrow> (exn + (device \<times> uid list \<times> db)) option" where
  "prepare env d c fa =
     (let n = length (stack_members fa)
      in seq_end (Some (parse_place (fa_aci fa) (cand_hostname c) (fa_location fa))) (\<lambda>pl.
         seq_end (Some (resolve_area_and_rack env d (cand_site c) pl)) (\<lambda>(a, r).
         seq_end (select_position (ae_choice env) (rack_label d r) r (pl_unit pl) (max 1 n)) (\<lambda>u.
         Some (bind_res (cisco d) (\<lambda>v.
           bind_res (resolve_device_type d (model_name d fa (Some v)) v) (\<lambda>t.
           bind_res (ae_store env u) (\<lambda>pos.
             let (role, d') = resolve_role (ae_role_id env) c d
             in Inr (assigned_device env c a r pos t role (1 < n), map tag_id (known_tags d (tag_names c)), d')))))))))"

text \<open>The stack members of the new device: two of one number violate the key of the table.\<close>

definition store_members :: "device \<Rightarrow> member list \<Rightarrow> db \<Rightarrow> exn + db" where
  "store_members dev ms d =
     (if ms = [] then Inr d
      else if \<not> distinct (map mb_switch ms) then Inl (IntegrityError ''dcim_devicestackmember_device_id_switch_number_key'')
      else Inr (refresh_rack (dev_rack dev) (d\<lparr>t_stacks := filter (\<lambda>s. sm_device s \<noteq> dev_id dev) (t_stacks d) @
        map (\<lambda>m. make_member (dev_id dev, mb_switch m) m) ms\<rparr>)))"

definition finish_device :: "candidate \<Rightarrow> device \<Rightarrow> uid list \<Rightarrow> member list \<Rightarrow> db \<Rightarrow> exn + db" where
  "finish_device c dev tags ms d =
     (let d = add_tags (dev_id dev) tags d;
          d = add_tags (dev_id dev) (map tag_id (known_tags d (extra_tag_names (dev_name dev)))) d
      in bind_res (store_members dev ms d) (\<lambda>d. Inr (mark_candidate (cand_id c) True (Some True) d)))"

text \<open>
  The transaction. A failure names the device when it had been created before, although the
  failure then takes it back. The device of a success carries the tags it was given.
\<close>

definition stored_device :: "device \<Rightarrow> db \<Rightarrow> device" where
  "stored_device dev d = (case find_device d (dev_id dev) of None \<Rightarrow> dev | Some v \<Rightarrow> v)"

definition assign_rows :: "assign_env \<Rightarrow> db \<Rightarrow> candidate \<Rightarrow> facts \<Rightarrow> ((uid option \<times> exn) + (device \<times> db)) option" where
  "assign_rows env d c fa =
     (case prepare env d c fa of
        None \<Rightarrow> None
      | Some (Inl e) \<Rightarrow> Some (Inl (None, e))
      | Some (Inr (dev, tags, d)) \<Rightarrow> Some (case save_device d dev of
            Inl e \<Rightarrow> Inl (None, e)
          | Inr d \<Rightarrow> (case finish_device c dev tags (stack_members fa) d of
                Inl e \<Rightarrow> Inl (Some (dev_id dev), e)
              | Inr d \<Rightarrow> Inr (stored_device dev d, d))))"

record assignment =
  as_device :: "uid option"
  as_success :: bool
  as_error :: "string option"

definition failed_assignment :: "uid option \<Rightarrow> exn \<Rightarrow> assignment" where
  "failed_assignment dev e = \<lparr>as_device = dev, as_success = False, as_error = Some (exn_str e)\<rparr>"

text \<open>
  \<^verbatim>\<open>assign\<close>: the rows in one transaction, then a synchronisation, whose own failure
  to reach the device does not count.
\<close>

definition sync_assigned :: "assign_env \<Rightarrow> network \<Rightarrow> candidate \<Rightarrow> bool \<Rightarrow> device \<Rightarrow> store \<Rightarrow> assignment \<times> store" where
  "sync_assigned env nw c include_config dev s =
     (case sync_device (ae_device env) nw dev (include_config \<and> \<not> is_fabric c) False s of
        Inl e \<Rightarrow> (failed_assignment (Some (dev_id dev)) e, s)
      | Inr (_, s) \<Rightarrow> (\<lparr>as_device = Some (dev_id dev), as_success = True, as_error = None\<rparr>, s))"

definition assign :: "assign_env \<Rightarrow> network \<Rightarrow> candidate \<Rightarrow> bool \<Rightarrow> store \<Rightarrow> (assignment \<times> store) option" where
  "assign env nw c include_config s =
     (case gather env nw c of
        Inl e \<Rightarrow> Some (failed_assignment None e, s)
      | Inr fa \<Rightarrow> map_option (\<lambda>r. case r of
            Inl (dev, e) \<Rightarrow> (failed_assignment dev e, s)
          | Inr (dev, d) \<Rightarrow> sync_assigned env nw c include_config dev (s\<lparr>st_db := d\<rparr>))
          (assign_rows env (st_db s) c fa))"

section \<open>The dry run\<close>

record dry_details =
  dd_driver :: string
  dd_include_config :: bool
  dd_model :: "string option"
  dd_place :: place
  dd_members :: "member list"
  dd_stack_count :: nat
  dd_tags :: "string list"

definition collect_details :: "assign_env \<Rightarrow> network \<Rightarrow> db \<Rightarrow> candidate \<Rightarrow> bool \<Rightarrow> string + (facts \<times> dry_details)" where
  "collect_details env nw d c include_config =
     (case bind_res (gather env nw c) (\<lambda>fa.
         bind_res (parse_place (fa_aci fa) (cand_hostname c) (fa_location fa)) (\<lambda>pl. Inr (fa, pl))) of
        Inl e \<Rightarrow> Inl (exn_str e)
      | Inr (fa, pl) \<Rightarrow> Inr (fa, \<lparr>dd_driver = fa_driver fa, dd_include_config = (include_config \<and> \<not> is_fabric c),
          dd_model = model_name d fa None, dd_place = pl, dd_members = stack_members fa,
          dd_stack_count = length (stack_members fa), dd_tags = map tag_name (known_tags d (tag_names c))\<rparr>))"

section \<open>The job\<close>

record assign_job =
  aj_include_config :: bool
  aj_status :: string
  aj_success :: int
  aj_failure :: int
  aj_error :: string
  aj_started :: "moment option"
  aj_completed :: "moment option"

record job_item =
  ji_candidate :: "uid option"
  ji_site :: "uid option"
  ji_hostname :: string
  ji_ip :: "string option"
  ji_success :: bool
  ji_device :: "uid option"
  ji_error :: string

definition missing_item :: job_item where
  "missing_item = \<lparr>ji_candidate = None, ji_site = None, ji_hostname = [], ji_ip = None, ji_success = False,
     ji_device = None, ji_error = ''Candidate not found.''\<rparr>"

definition assigned_item :: "candidate \<Rightarrow> assignment \<Rightarrow> job_item" where
  "assigned_item c r = \<lparr>ji_candidate = Some (cand_id c), ji_site = Some (cand_site c), ji_hostname = cand_hostname c,
     ji_ip = Some (cand_ip c), ji_success = as_success r, ji_device = as_device r, ji_error = or_empty (as_error r)\<rparr>"

text \<open>
  Creating an item: a device that the failed transaction took back has no row, which violates
  the foreign key.
\<close>

definition store_item :: "db \<Rightarrow> job_item \<Rightarrow> job_item list \<Rightarrow> exn + job_item list" where
  "store_item d i is =
     (if (case ji_device i of None \<Rightarrow> False | Some dev \<Rightarrow> find_device d dev = None)
      then Inl (IntegrityError ''network_autoassignjobitem_device_id_fkey'') else Inr (is @ [i]))"

record progress =
  pg_success :: int
  pg_failed :: int
  pg_items :: "job_item list"
  pg_store :: store

definition count_result :: "bool \<Rightarrow> progress \<Rightarrow> progress" where
  "count_result ok p = (if ok then p\<lparr>pg_success := pg_success p + 1\<rparr> else p\<lparr>pg_failed := pg_failed p + 1\<rparr>)"

text \<open>
  The loop over the identifiers: the progress and the exception that ended it. The candidates
  are the rows at the start of the job.
\<close>

fun assign_loop ::
  "(uid \<Rightarrow> assign_env) \<Rightarrow> network \<Rightarrow> bool \<Rightarrow> (uid \<Rightarrow> candidate option) \<Rightarrow> uid list \<Rightarrow> progress \<Rightarrow> (progress \<times> exn option) option"
where
  "assign_loop envs nw inc found [] p = Some (p, None)"
| "assign_loop envs nw inc found (i # is) p =
     (case found i of
        None \<Rightarrow> assign_loop envs nw inc found is ((count_result False p)\<lparr>pg_items := pg_items p @ [missing_item]\<rparr>)
      | Some c \<Rightarrow>
         (case assign (envs i) nw c inc (pg_store p) of
            None \<Rightarrow> None
          | Some (r, s) \<Rightarrow>
             (let p = (count_result (as_success r) p)\<lparr>pg_store := s\<rparr>
              in case store_item (st_db s) (assigned_item c r) (pg_items p) of
                   Inl e \<Rightarrow> Some (p, Some e)
                 | Inr items \<Rightarrow> assign_loop envs nw inc found is (p\<lparr>pg_items := items\<rparr>))))"

definition ended_job :: "moment \<Rightarrow> assign_job \<Rightarrow> progress \<Rightarrow> exn option \<Rightarrow> assign_job" where
  "ended_job t1 j p e = j\<lparr>aj_status := (if e = None then ''completed'' else ''failed''),
     aj_error := (case e of None \<Rightarrow> aj_error j | Some x \<Rightarrow> exn_str x),
     aj_success := pg_success p, aj_failure := pg_failed p, aj_completed := Some t1\<rparr>"

text \<open>\<^verbatim>\<open>run_auto_assign_job\<close>: the saved states of the job, and what the loop left.\<close>

definition run_assign_job ::
  "(uid \<Rightarrow> assign_env) \<Rightarrow> network \<Rightarrow> moment \<Rightarrow> moment \<Rightarrow> uid list \<Rightarrow> assign_job \<Rightarrow> store \<Rightarrow> (assign_job list \<times> progress) option"
where
  "run_assign_job envs nw t0 t1 ids j s =
     (let j0 = j\<lparr>aj_status := ''running'', aj_started := Some t0\<rparr>;
          rows = filter (\<lambda>c. cand_id c \<in> set ids) (t_candidates (st_db s));
          found = (\<lambda>i. first_row (\<lambda>c. cand_id c = i) rows)
      in map_option (\<lambda>(p, e). ([j0, ended_job t1 j0 p e], p))
           (assign_loop envs nw (aj_include_config j) found ids
             \<lparr>pg_success = 0, pg_failed = 0, pg_items = [], pg_store = s\<rparr>))"

text \<open>\<^verbatim>\<open>run_scheduled_auto_assign_job\<close>: the job for the candidates nobody reviewed.\<close>

definition unreviewed :: "db \<Rightarrow> uid list" where
  "unreviewed d = map cand_id (filter (\<lambda>c. cand_accepted c = None \<and> \<not> cand_classified c) (t_candidates d))"

definition schedule_assign :: "bool \<Rightarrow> db \<Rightarrow> (assign_job \<times> uid list) option" where
  "schedule_assign include_config d =
     (if unreviewed d = [] then None
      else Some (\<lparr>aj_include_config = include_config, aj_status = ''pending'', aj_success = 0, aj_failure = 0,
        aj_error = [], aj_started = None, aj_completed = None\<rparr>, unreviewed d))"

end
