(* ===== verification/PlaceText.thy ===== *)
theory PlaceText
  imports AutoAssign RegexFirst
begin

text \<open>
  The place texts of \<^verbatim>\<open>auto_assignment_service.py\<close>: what is written as the location of a device
  is read back.
\<close>

section \<open>Reading a place\<close>

text \<open>A unit as people write it: digits, and possibly a point with more digits.\<close>

type_synonym unit_parts = "string \<times> string"

definition unit_ok :: "unit_parts \<Rightarrow> bool" where
  "unit_ok u \<longleftrightarrow> all_digits (fst u) \<and> (snd u = [] \<or> all_digits (snd u))"

definition unit_text :: "unit_parts \<Rightarrow> string" where
  "unit_text u = fst u @ (if snd u = [] then [] else ''.'' @ snd u)"

definition place_text :: "string \<Rightarrow> string \<Rightarrow> unit_parts option \<Rightarrow> string" where
  "place_text area rack u = area @ '' '' @ rack @ (case u of None \<Rightarrow> [] | Some v \<Rightarrow> '' U'' @ unit_text v)"

definition word :: "string \<Rightarrow> bool" where
  "word w \<longleftrightarrow> w \<noteq> [] \<and> list_all (\<lambda>c. \<not> is_space c \<and> c \<noteq> CHR '':'') w"

lemma decimal_of_unit:
  assumes "unit_ok u"
  shows "decimal_of (unit_text u) = (int (digits_value (fst u @ snd u)), length (snd u))"
proof -
  obtain a b where u: "u = (a, b)" by (cases u)
  with assms have free: "\<not> contains a ''.''" by (intro digits_no_char) (simp_all add: unit_ok_def is_digit_def)
  show ?thesis
  proof (cases "b = []")
    case True
    with free have "cut ''.'' a = None" by (simp add: cut_None)
    with True u show ?thesis by (simp add: decimal_of_def unit_text_def)
  next
    case False
    from free have "cut ''.'' (a @ ''.'' @ b) = Some (a, b)" by (rule cut_append) simp
    with False u show ?thesis by (simp add: decimal_of_def unit_text_def)
  qed
qed

lemma splitlines_one: "s \<noteq> [] \<Longrightarrow> list_all (\<lambda>c. \<not> is_linebreak c) s \<Longrightarrow> splitlines s = [s]"
proof -
  have "splitlines_acc cur s = (if cur = [] \<and> s = [] then [] else [rev cur @ s])" if "list_all (\<lambda>c. \<not> is_linebreak c) s" for cur s
    using that by (induction s arbitrary: cur) auto
  then show "s \<noteq> [] \<Longrightarrow> list_all (\<lambda>c. \<not> is_linebreak c) s \<Longrightarrow> splitlines s = [s]"
    by (simp add: splitlines_def)
qed

lemma word_list: "word w \<Longrightarrow> w \<noteq> [] \<and> list_all (\<lambda>c. \<not> is_space c) w"
  by (auto simp: word_def list_all_iff)

lemma first_word:
  assumes "word w" and "v = [] \<or> hd v = CHR '' ''"
  shows "first_match (Cap n (Many1 (\<lambda>c. \<not> is_space c))) (pr, w @ v, caps) (Some (last w), v, (n, w) # caps)"
  using assms word_list [OF assms(1)]
  by (intro first_Cap first_Many1) (auto simp: stops_def is_space_def)

lemma first_blank: "v \<noteq> [] \<Longrightarrow> \<not> is_space (hd v) \<Longrightarrow> first_match (Many1 is_space) (pr, CHR '' '' # v, caps) (Some CHR '' '', v, caps)"
  using first_Many1 [of is_space "'' ''" v pr caps] by (simp add: stops_def is_space_def)

lemma first_unit:
  assumes "unit_ok u"
  shows "\<exists>pr'. first_match (Cap n (Seq (Many1 is_digit) (Opt (Seq (lit ''.'') (Many1 is_digit))))) (pr, unit_text u, caps)
    (pr', [], (n, unit_text u) # caps)"
proof -
  obtain a b where u: "u = (a, b)" by (cases u)
  note digits = assms [unfolded u unit_ok_def all_digits_def, simplified]
  have "\<exists>pr'. first_match (Seq (Many1 is_digit) (Opt (Seq (lit ''.'') (Many1 is_digit)))) (pr, unit_text u @ [], caps) (pr', [], caps)"
  proof (cases "b = []")
    case True
    have "first_match (Many1 is_digit) (pr, a @ [], caps) (Some (last a), [], caps)"
      using digits by (intro first_Many1) (auto simp: stops_def)
    moreover have "first_match (Opt (Seq (lit ''.'') (Many1 is_digit))) (Some (last a), [], caps) (Some (last a), [], caps)"
      by (rule first_Opt_none) (simp add: lit_def)
    ultimately show ?thesis using True u by (auto simp: unit_text_def intro: first_Seq)
  next
    case False
    have "first_match (Many1 is_digit) (pr, a @ ''.'' @ b, caps) (Some (last a), ''.'' @ b, caps)"
      using digits by (intro first_Many1) (auto simp: stops_def is_digit_def)
    moreover have "first_match (Many1 is_digit) (Some CHR ''.'', b @ [], caps) (Some (last b), [], caps)"
      using digits False by (intro first_Many1) (auto simp: stops_def)
    then have "first_match (Seq (lit ''.'') (Many1 is_digit)) (Some (last a), ''.'' @ b, caps) (Some (last b), [], caps)"
      by (auto simp: lit_def first_match_def)
    ultimately show ?thesis using False u by (auto simp: unit_text_def intro!: first_Seq first_Opt)
  qed
  then show ?thesis using first_Cap [of _ pr "unit_text u" "[]" caps _ caps n] by auto
qed

abbreviation number_rx :: rx where
  "number_rx \<equiv> Cap 3 (Seq (Many1 is_digit) (Opt (Seq (lit ''.'') (Many1 is_digit))))"

abbreviation tail_rx :: rx where
  "tail_rx \<equiv> seqs [Opt (seqs [Many1 is_space, lit_ci ''U'', number_rx]), Eos]"

definition unit_group :: "unit_parts option \<Rightarrow> (nat \<times> string) list" where
  "unit_group u = (case u of None \<Rightarrow> [] | Some v \<Rightarrow> [(3, unit_text v)])"

definition unit_tail :: "unit_parts option \<Rightarrow> string" where
  "unit_tail u = (case u of None \<Rightarrow> [] | Some v \<Rightarrow> '' U'' @ unit_text v)"

lemma first_tail:
  assumes "case u of None \<Rightarrow> True | Some v \<Rightarrow> unit_ok v"
  shows "\<exists>pr'. first_match tail_rx (pr, unit_tail u, caps) (pr', [], unit_group u @ caps)"
proof (cases u)
  case None
  then show ?thesis by (auto simp: unit_tail_def unit_group_def first_match_def)
next
  case (Some v)
  then obtain pr' where "first_match number_rx (Some CHR ''U'', unit_text v, caps) (pr', [], (3, unit_text v) # caps)"
    using first_unit assms by fastforce
  then have u: "first_match (Seq (lit_ci ''U'') number_rx) (Some CHR '' '', CHR ''U'' # unit_text v, caps)
      (pr', [], (3, unit_text v) # caps)"
    by (auto simp: lit_ci_def first_match_def)
  have "first_match (Opt (seqs [Many1 is_space, lit_ci ''U'', number_rx])) (pr, CHR '' '' # CHR ''U'' # unit_text v, caps)
      (pr', [], (3, unit_text v) # caps)"
    unfolding seqs.simps by (rule first_Opt [OF first_Seq [OF first_blank u]]) (simp_all add: is_space_def)
  then have "first_match tail_rx (pr, CHR '' '' # CHR ''U'' # unit_text v, caps) (pr', [], (3, unit_text v) # caps)"
    unfolding seqs.simps by (rule first_Seq) (rule first_Eos)
  then show ?thesis using Some by (auto simp: unit_tail_def unit_group_def)
qed

lemma location_match:
  assumes "word area" and "word rack" and "case u of None \<Rightarrow> True | Some v \<Rightarrow> unit_ok v"
  shows "rx_match location_rx (place_text area rack u) = Some (unit_group u @ [(2, rack), (1, area)])"
proof -
  have tail: "unit_tail u = [] \<or> hd (unit_tail u) = CHR '' ''" by (auto simp: unit_tail_def split: option.split)
  obtain pr' where rest: "first_match tail_rx (Some (last rack), unit_tail u, [(2, rack), (1, area)])
      (pr', [], unit_group u @ [(2, rack), (1, area)])"
    using first_tail [OF assms(3)] by blast
  have blank: "rack @ unit_tail u \<noteq> []" "\<not> is_space (hd (rack @ unit_tail u))"
    using assms(2) by (cases rack; simp add: word_def)+
  have rx: "location_rx = Seq (Cap 1 (Many1 (\<lambda>c. \<not> is_space c))) (Seq (Many1 is_space) (Seq (Cap 2 (Many1 (\<lambda>c. \<not> is_space c))) tail_rx))"
    by (simp add: location_rx_def)
  have "first_match location_rx (None, area @ CHR '' '' # rack @ unit_tail u, [])
     (pr', [], unit_group u @ [(2, rack), (1, area)])"
    unfolding rx
    by (rule first_Seq [OF first_word [OF assms(1)] first_Seq [OF first_blank [OF blank] first_Seq [OF first_word [OF assms(2) tail] rest]]]) simp
  then have "rx_match location_rx (area @ CHR '' '' # rack @ unit_tail u) = Some (unit_group u @ [(2, rack), (1, area)])"
    by (rule rx_match_first)
  then show ?thesis by (simp add: place_text_def unit_tail_def)
qed

lemma place_text_plain:
  assumes "word area" and "word rack" and "case u of None \<Rightarrow> True | Some v \<Rightarrow> unit_ok v"
  shows "CHR '':'' \<notin> set (place_text area rack u)" and "list_all (\<lambda>c. \<not> is_linebreak c) (place_text area rack u)"
    and "strip (place_text area rack u) = place_text area rack u"
proof -
  have c: "\<not> is_space c \<Longrightarrow> \<not> is_linebreak c" for c by (auto simp: is_space_def is_linebreak_def)
  have d: "is_digit c \<Longrightarrow> c \<noteq> CHR '':'' \<and> \<not> is_space c" for c by (auto simp: is_digit_def is_space_def)
  have unit: "\<forall>c \<in> set (unit_text v). c \<noteq> CHR '':'' \<and> \<not> is_space c" and unit_ne: "unit_text v \<noteq> []" if "unit_ok v" for v
    using that d by (auto simp: unit_text_def unit_ok_def all_digits_def list_all_iff is_space_def)
  have w: "\<forall>c \<in> set area \<union> set rack. c \<noteq> CHR '':'' \<and> \<not> is_space c" "area \<noteq> []" "rack \<noteq> []"
    using assms(1,2) by (auto simp: word_def list_all_iff)
  from w assms(3) unit show "CHR '':'' \<notin> set (place_text area rack u)"
    by (fastforce simp: place_text_def split: option.splits)
  have sp: "\<not> is_linebreak CHR '' ''" "\<not> is_linebreak CHR ''U''" by (simp_all add: is_linebreak_def)
  from w assms(3) unit c sp show "list_all (\<lambda>c. \<not> is_linebreak c) (place_text area rack u)"
    by (auto simp: place_text_def list_all_iff split: option.splits)
  have "trimmed (place_text area rack u)"
    using w assms(3) unit unit_ne by (auto simp: place_text_def trimmed_def last_append split: option.splits)
  then show "strip (place_text area rack u) = place_text area rack u" by (rule strip_trimmed)
qed

text \<open>
  C18. Round trip of the place texts: an area, a rack and possibly a unit that are written as the
  location of a device are read back exactly, whatever the names and the number of digits, as long
  as the names have neither white space nor a colon and the host is no virtual machine.
\<close>

theorem place_text_reads_back:
  assumes "word area" and "word rack" and "case u of None \<Rightarrow> True | Some v \<Rightarrow> unit_ok v"
    and "\<not> contains (lower host) ''-vm-''"
  shows "parse_place False host (place_text area rack u) = Inr \<lparr>pl_area = area, pl_rack = rack,
    pl_unit = map_option (\<lambda>v. (int (digits_value (fst v @ snd v)), length (snd v))) u\<rparr>"
proof -
  note plain = place_text_plain [OF assms(1-3)]
  have ne: "place_text area rack u \<noteq> []" by (simp add: place_text_def)
  have "cut '':'' (place_text area rack u) = None" using plain(1) by (simp add: cut_None contains_char)
  then have "location_target (place_text area rack u) = Some (place_text area rack u)"
    using ne plain by (simp add: location_target_def splitlines_one location_value_def)
  then show ?thesis using assms
    by (auto simp: parse_place_def location_match unit_group_def group_text_def group_def decimal_of_unit split: option.split)
qed

theorem place_text_reads_back_witness:
  "parse_place False ''sw1.example'' ''DC1 Rack7 U12.5'' = Inr \<lparr>pl_area = ''DC1'', pl_rack = ''Rack7'', pl_unit = Some (125, 1)\<rparr>"
proof -
  have "digits_value ''125'' = 125" by code_simp
  then show ?thesis
    using place_text_reads_back [of "''DC1''" "''Rack7''" "Some (''12'', ''5'')" "''sw1.example''"]
    by (simp add: word_def is_space_def unit_ok_def all_digits_def is_digit_def place_text_def unit_text_def lower_def
        char_lower_def)
qed

end
