(* ===== verification/SyncFrame.thy ===== *)
theory SyncFrame
  imports SyncDeviceProps
begin

text \<open>
  What a synchronisation cannot touch. A statement about the database that survives the writes to
  the tables that belong to devices, and saving the one device, survives the synchronisation of
  that device.
\<close>

text \<open>
  The devices that the synchronisation saves are the one it was given with the fields changed that
  the device has told: \<open>ok\<close> is what those changes leave.
\<close>

locale sync_invariant =
  fixes inv :: "db \<Rightarrow> bool"
    and ok :: "device \<Rightarrow> bool"
  assumes modules: "inv d \<Longrightarrow> inv (d\<lparr>t_modules := ms\<rparr>)"
    and inventory: "inv d \<Longrightarrow> inv (d\<lparr>t_inventory := xs\<rparr>)"
    and runtimes: "inv d \<Longrightarrow> inv (d\<lparr>t_runtimes := rs\<rparr>)"
    and interfaces: "inv d \<Longrightarrow> inv (d\<lparr>t_interfaces := ifs\<rparr>)"
    and stacks: "inv d \<Longrightarrow> inv (d\<lparr>t_stacks := ss\<rparr>)"
    and rack: "inv d \<Longrightarrow> inv (refresh_rack r d)"
    and device: "inv d \<Longrightarrow> save_device d v = Inr d' \<Longrightarrow> ok v \<Longrightarrow> inv d'"
    and ok_version: "ok v \<Longrightarrow> ok (versioned env x v)"
    and ok_type: "ok v \<Longrightarrow> ok (v\<lparr>dev_type := k\<rparr>)"
    and ok_stacked: "ok v \<Longrightarrow> ok (v\<lparr>dev_stacked := b\<rparr>)"
begin

lemma touch: "inv d \<Longrightarrow> inv (touch_runtime k f d)"
  by (simp add: touch_runtime_def runtimes)

lemma reconcile: "inv d \<Longrightarrow> inv (reconcile_serial dev n s d)"
  by (simp add: reconcile_serial_def remove_storage_duplicates_def Let_def inventory modules)

lemma version:
  assumes "inv d" and "apply_version env dev r d = Inr (dev', d')" and "ok dev"
  shows "inv d'" and "ok dev'"
proof -
  let ?d = "\<lambda>x. case vi_uptime x of None \<Rightarrow> d | Some n \<Rightarrow> touch_runtime (dev_id dev) (\<lambda>t. t\<lparr>rt_uptime := Some n\<rparr>) d"
  obtain x y where "save_device (?d x) (versioned env x dev) = Inr y" and "Inr (versioned env x dev, y) = (Inr (dev', d') :: exn + device \<times> db)"
    using assms(2) unfolding apply_version_def bind_res_eq_Inr Let_def by blast
  then have save: "save_device (?d x) dev' = Inr d'" and dev': "dev' = versioned env x dev" by simp_all
  show "ok dev'" unfolding dev' by (rule ok_version [OF assms(3)])
  have "inv (?d x)" by (simp add: assms(1) touch split: option.split)
  then show "inv d'" by (rule device [OF _ save \<open>ok dev'\<close>])
qed

lemma module: "inv d \<Longrightarrow> put_module env dev e d = Inr d' \<Longrightarrow> inv d'"
  by (auto simp: put_module_def bind_res_eq_Inr modules)

lemma inventory_rows:
  assumes "inv d" and "apply_inventory env dev r d = Inr d'"
  shows "inv d'"
proof -
  have fold: "inv e" if "fold_res (store_entry env k) d ses = Inr e" for k ses e
    by (rule fold_res_invariant [OF that, where I = inv, OF assms(1)]) (auto simp: store_entry_def intro: module reconcile)
  show ?thesis
    using assms fold by (auto simp: apply_inventory_def bind_res_eq_Inr drop_named_blank_def drop_unseen_def modules split: if_splits)
qed

lemma device_type:
  assumes "inv d" and "update_device_type dev v x d = Inr (dev', d')" and "ok dev"
  shows "inv d'" and "ok dev'"
proof -
  have "dev' = dev \<and> d' = d \<or> (\<exists>k. dev' = dev\<lparr>dev_type := k\<rparr>) \<and> save_device d dev' = Inr d'"
    using assms(2) by (auto simp: update_device_type_def bind_res_eq_Inr Let_def split: option.splits if_splits)
  then show "inv d'" and "ok dev'" using assms(1,3) device ok_type by blast+
qed

lemma transceivers:
  assumes "inv d" and "apply_transceivers env dev r d = Inr d'"
  shows "inv d'"
proof -
  have put: "inv y" if "put_transceiver env k x t = Inr y" "inv x" for k x t y
    using that by (auto simp: put_transceiver_def bind_res_eq_Inr Let_def reconcile modules split: option.splits)
  have fold: "inv e" if "fold_res (put_transceiver env k) d ts = Inr e" for k ts e
    by (rule fold_res_invariant [OF that, where I = inv, OF assms(1)]) (auto intro: put)
  show ?thesis using assms fold by (auto simp: apply_transceivers_def bind_res_eq_Inr Let_def modules split: if_splits)
qed

lemma interface_rows: "inv d \<Longrightarrow> apply_interfaces env dev st ds ip pc d = Inr d' \<Longrightarrow> inv d'"
  by (auto simp: apply_interfaces_def bind_res_eq_Inr interfaces)

lemma member_rows:
  assumes "inv d" and "apply_stack_members dev r d = Inr (dev', d')" and "ok dev"
  shows "inv d'"
proof -
  obtain ms where ms: "parse_stack_members (cr_parsed r) (cr_raw r) = Inr ms"
    using assms(2) by (auto simp: apply_stack_members_def bind_res_eq_Inr)
  let ?v = "dev\<lparr>dev_stacked := 1 < length (map mb_switch ms)\<rparr>"
  let ?e = "\<lambda>rows. if dev_stacked dev \<noteq> (1 < length (map mb_switch ms))
    then bind_res (save_device (d\<lparr>t_stacks := rows\<rparr>) ?v) (\<lambda>y. Inr (?v, y)) else Inr (dev, d\<lparr>t_stacks := rows\<rparr>)"
  obtain rows where step: "bind_res (?e rows) (\<lambda>(dev, d). Inr (dev, refresh_rack (dev_rack dev) d)) = Inr (dev', d')"
    using assms(2) unfolding apply_stack_members_def Let_def ms bind_res_simps by blast
  have start: "inv (d\<lparr>t_stacks := rows\<rparr>)" by (rule stacks [OF assms(1)])
  obtain u y where e: "?e rows = Inr (u, y)" and y: "d' = refresh_rack (dev_rack u) y"
    using step by (cases "?e rows") auto
  have "y = d\<lparr>t_stacks := rows\<rparr> \<or> save_device (d\<lparr>t_stacks := rows\<rparr>) ?v = Inr y"
    using e by (cases "dev_stacked dev = (1 < length (map mb_switch ms))") (auto simp: bind_res_eq_Inr)
  then have "inv y" using start device [OF start, of ?v y] ok_stacked [OF assms(3)] by auto
  then show ?thesis unfolding y by (rule rack)
qed

lemma results:
  assumes "inv (st_db s)" and "apply_results env nw dev inc rs s = Inr s'" and dev: "ok dev"
  shows "inv (st_db s')"
proof -
  let ?e = "de_sync env"
  obtain v x dev1 dev2 dev3 d1 d2 d3 d4 d5 where v: "apply_version ?e dev v
        (touch_runtime (dev_id dev) (\<lambda>r. r\<lparr>rt_ssh := True, rt_last_check := Some (se_now ?e)\<rparr>) (st_db s)) = Inr (dev1, d1)"
    and x: "apply_inventory ?e dev1 x d1 = Inr d2"
    and type: "update_device_type dev1 (cr_parsed v) (cr_parsed x) d2 = Inr (dev2, d3)"
    and tr: "d4 = d3 \<or> (\<exists>r. apply_transceivers ?e dev2 r d3 = Inr d4)"
    and ifs: "\<exists>a b c p. apply_interfaces ?e dev2 a b c p d4 = Inr d5"
    and st: "st_db s' = d5 \<or> (\<exists>r. apply_stack_members dev2 r d5 = Inr (dev3, st_db s'))"
    using assms(2) unfolding apply_results_def Let_def
    by (auto simp: bind_res_eq_Inr split: option.splits if_splits; blast)
  note one = version [OF touch [OF assms(1)] v dev]
  have "inv d2" using inventory_rows one(1) x by blast
  note two = device_type [OF this type one(2)]
  have "inv d4" using tr transceivers two(1) by blast
  then have "inv d5" using ifs interface_rows by blast
  then show ?thesis using st member_rows [OF _ _ two(2)] by metis
qed

lemma sync:
  assumes "inv (st_db s)" and "sync_device env nw dev inc ret s = Inr (oc, s')" and "ok dev"
  shows "inv (st_db s')"
  using assms(1,2) results [OF assms(1) _ assms(3)]
  by (auto simp: sync_device_def bind_res_eq_Inr collect_failed_def touch split: if_splits sum.splits)

end

section \<open>What is kept\<close>

lemma versioned_keeps:
  "dev_id (versioned env x v) = dev_id v" "dev_name (versioned env x v) = dev_name v" "dev_ip (versioned env x v) = dev_ip v"
  "dev_site (versioned env x v) = dev_site v" "dev_area (versioned env x v) = dev_area v" "dev_rack (versioned env x v) = dev_rack v"
  "dev_position (versioned env x v) = dev_position v" "dev_status (versioned env x v) = dev_status v" "dev_tags (versioned env x v) = dev_tags v"
  by (simp_all add: versioned_def Let_def split: option.split)

text \<open>The areas and the candidates, all other devices, and that the device is in the table.\<close>

interpretation areas_kept: sync_invariant "\<lambda>d. t_areas d = as" "\<lambda>v. dev_id v = i" for as i
  by unfold_locales (simp_all add: save_device_keeps versioned_keeps refresh_rack_def split: option.split)

interpretation candidates_kept: sync_invariant "\<lambda>d. t_candidates d = cs" "\<lambda>v. dev_id v = i" for cs i
  by unfold_locales (simp_all add: save_device_keeps versioned_keeps)

lemma filter_save_same: "dev_id v = i \<Longrightarrow> filter (\<lambda>x. dev_id x \<noteq> i) (save_row dev_id v vs) = filter (\<lambda>x. dev_id x \<noteq> i) vs"
  by (induction vs) auto

interpretation others_kept: sync_invariant "\<lambda>d. filter (\<lambda>v. dev_id v \<noteq> i) (t_devices d) = vs" "\<lambda>v. dev_id v = i" for vs i
  by unfold_locales (simp_all add: save_device_table filter_save_same versioned_keeps)

interpretation device_kept: sync_invariant "\<lambda>d. i \<in> dev_id ` set (t_devices d)" "\<lambda>v. dev_id v = i" for i
  by unfold_locales (simp_all add: save_device_table idents_save_row versioned_keeps)

text \<open>The installed device: its row keeps the name, the address, the place, the status and the tags.\<close>

definition installation :: "device \<Rightarrow> (uid \<times> string \<times> string \<times> uid \<times> uid) \<times> uid option \<times> int option \<times> string \<times> uid list" where
  "installation v = ((dev_id v, dev_name v, dev_ip v, dev_site v, dev_area v), dev_rack v, dev_position v, dev_status v, dev_tags v)"

interpretation installed_kept: sync_invariant "\<lambda>d. \<exists>v \<in> set (t_devices d). installation v = k" "\<lambda>v. installation v = k" for k
proof unfold_locales
  fix d v d'
  assume "save_device d v = Inr d'" and "installation v = k"
  moreover have "v \<in> set (save_row dev_id v vs)" for vs by (induction vs) simp_all
  ultimately show "\<exists>v \<in> set (t_devices d'). installation v = k" by (auto simp: save_device_table)
qed (simp_all add: installation_def versioned_keeps)

lemmas sync_device_areas = areas_kept.sync [OF refl _ refl]

end
