(* ===== verification/AutoAssignProps.thy ===== *)
theory AutoAssignProps
  imports AutoAssign ReviewProps SyncFrame
begin

text \<open>
  What the automatic assignment guarantees: the position it
  selects, the rows it writes or does not write, and the end of its job.
\<close>

section \<open>The selected position\<close>

text \<open>
  C17. Bounds of the selected position: the units from it on are free in the rack; it is the
  requested one, or it lies in the rack with all its units; and the search fails only when no
  start in the rack is free (then for every request that is not free either).
\<close>

theorem selected_position_bounds:
  assumes "\<And>xs. xs \<noteq> [] \<Longrightarrow> pick xs \<in> set xs" and "select_position pick label r requested n = Some res"
  shows "case res of
      Inr u \<Rightarrow> fits (rack_occupied r) n (decimal_int u) \<and>
        (requested = Some u \<or> (1 \<le> decimal_int u \<and> decimal_int u + int n - 1 \<le> max_units r))
    | Inl _ \<Rightarrow> (\<forall>start. 1 \<le> start \<and> start + int n - 1 \<le> max_units r \<longrightarrow> \<not> fits (rack_occupied r) n start)"
proof -
  have free: "set (free_starts r n) = {x. 1 \<le> x \<and> x + int n - 1 \<le> max_units r \<and> fits (rack_occupied r) n x}"
    by (auto simp: free_starts_def)
  have rand: "case res of
      Inr u \<Rightarrow> fits (rack_occupied r) n (decimal_int u) \<and> 1 \<le> decimal_int u \<and> decimal_int u + int n - 1 \<le> max_units r
    | Inl _ \<Rightarrow> (\<forall>start. 1 \<le> start \<and> start + int n - 1 \<le> max_units r \<longrightarrow> \<not> fits (rack_occupied r) n start)"
    if "random_position pick label r n = Some res"
  proof (cases "free_starts r n = []")
    case True
    with that free show ?thesis by (auto simp: random_position_def)
  next
    case False
    with that have "res = Inr (pick (free_starts r n), 0)" by (auto simp: random_position_def split: list.splits)
    moreover have "pick (free_starts r n) \<in> set (free_starts r n)" using False by (rule assms(1))
    ultimately show ?thesis unfolding free by (auto simp: decimal_int_def)
  qed
  show ?thesis using assms(2) rand
    by (auto simp: select_position_def split: option.splits if_splits sum.splits)
qed

definition demo_rack :: rack where
  "demo_rack = \<lparr>rack_id = 1, rack_name = ''R'', rack_area = 1, rack_height = 3, rack_occupied = [2]\<rparr>"

theorem selected_position_bounds_witness:
  "fits (rack_occupied demo_rack) 1 (decimal_int (3, 0)) \<and> decimal_int (3, 0) + int 1 - 1 \<le> max_units demo_rack"
proof -
  have "free_starts demo_rack 1 = [1, 3]" by code_simp
  then have "select_position last None demo_rack (Some (2, 0)) 1 = Some (Inr (3, 0))"
    by (simp add: select_position_def random_position_def fits_def demo_rack_def decimal_int_def)
  with selected_position_bounds [of last None demo_rack "Some (2, 0)" 1 "Inr (3, 0)"] show ?thesis by simp
qed

section \<open>The rows of an assignment\<close>

lemma prepare_cases:
  assumes "prepare env d c fa = Some (Inr (dev, tags, d1))"
  obtains pl a r u pos t role where "parse_place (fa_aci fa) (cand_hostname c) (fa_location fa) = Inr pl"
    and "resolve_area_and_rack env d (cand_site c) pl = Inr (a, r)"
    and "select_position (ae_choice env) (rack_label d r) r (pl_unit pl) (max 1 (length (stack_members fa))) = Some (Inr u)"
    and "ae_store env u = Inr pos" and "d1 = snd (resolve_role (ae_role_id env) c d)"
    and "dev = assigned_device env c a r pos t role (1 < length (stack_members fa))"
  using assms that
  by (auto simp: prepare_def Let_def seq_end_Inr bind_res_eq_Inr case_prod_unfold)

lemma resolve_role_keeps:
  "t_devices (snd (resolve_role i c d)) = t_devices d" "t_types (snd (resolve_role i c d)) = t_types d"
  "t_racks (snd (resolve_role i c d)) = t_racks d" "t_stacks (snd (resolve_role i c d)) = t_stacks d"
  "t_areas (snd (resolve_role i c d)) = t_areas d" "t_candidates (snd (resolve_role i c d)) = t_candidates d"
  by (auto simp: resolve_role_def split: option.splits)

lemma resolved_rack: "resolve_area_and_rack env d site pl = Inr (a, r) \<Longrightarrow> r \<in> set (t_racks d)"
proof -
  have one: "filter P rs = [r] \<Longrightarrow> r \<in> set rs" for P and rs :: "rack list"
    by (metis filter_is_subset list.set_intros(1) subsetD)
  assume "resolve_area_and_rack env d site pl = Inr (a, r)"
  then show ?thesis
    by (auto simp: resolve_area_and_rack_def resolve_rack_def bind_res_eq_Inr dest!: one split: list.splits)
qed

lemma fresh_key: "k \<notin> f ` set vs \<Longrightarrow> \<forall>v \<in> set vs. f v \<noteq> k"
  by blast

lemma add_tags_keeps:
  "t_types (add_tags i ts d) = t_types d" "t_stacks (add_tags i ts d) = t_stacks d" "t_racks (add_tags i ts d) = t_racks d"
  "t_areas (add_tags i ts d) = t_areas d" "t_candidates (add_tags i ts d) = t_candidates d"
  by (simp_all add: add_tags_def)

lemma units_of_tagged [simp]: "device_units d (v\<lparr>dev_tags := ts\<rparr>) = device_units d v"
  by (cases "dev_position v") (simp_all add: device_units_def device_height_def)

lemma units_add_tags: "device_units (add_tags i ts d) = device_units d"
  by (rule units_write) (simp_all add: add_tags_keeps)

lemma occupied_add_tags: "occupied_units (add_tags i ts d) r = occupied_units d r"
proof -
  have "concat (map (device_units d) (filter (\<lambda>v. dev_rack v = Some r) (update_where P f vs))) =
      concat (map (device_units d) (filter (\<lambda>v. dev_rack v = Some r) vs))"
    if "\<And>v. dev_rack (f v) = dev_rack v" "\<And>v. device_units d (f v) = device_units d v" for P f vs
    using that by (induction vs) (simp_all add: update_where_def)
  then show ?thesis unfolding occupied_units_def units_add_tags by (simp add: add_tags_def)
qed

lemma exact_add_tags: "occupancy_exact d \<Longrightarrow> occupancy_exact (add_tags i ts d)"
  by (simp add: occupancy_exact_def occupied_add_tags add_tags_keeps)

lemma units_mark [simp]: "device_units (mark_candidate i x y d) = device_units d"
  by (rule units_write) (simp_all add: mark_candidate_def)

lemma occupied_mark [simp]: "occupied_units (mark_candidate i x y d) r = occupied_units d r"
  by (simp add: occupied_units_def)

lemma exact_mark: "occupancy_exact d \<Longrightarrow> occupancy_exact (mark_candidate i x y d)"
  by (simp add: occupancy_exact_def) (simp add: mark_candidate_def)

text \<open>The stack members of a new device change its own units alone.\<close>

lemma store_members_cases:
  assumes "store_members dev ms d = Inr d'" and "ms \<noteq> []"
  obtains e where "d' = refresh_rack (dev_rack dev) e"
    and "e = d\<lparr>t_stacks := filter (\<lambda>s. sm_device s \<noteq> dev_id dev) (t_stacks d) @ map (\<lambda>m. make_member (dev_id dev, mb_switch m) m) ms\<rparr>"
  using assms by (auto simp: store_members_def split: if_splits)

lemma store_members_units:
  assumes "store_members dev ms d = Inr d'"
  shows "dev_id v \<noteq> dev_id dev \<Longrightarrow> device_units d' v = device_units d v"
    and "ms \<noteq> [] \<Longrightarrow> stack_count d' (dev_id dev) = length ms"
    and "t_devices d' = t_devices d" and "t_types d' = t_types d" and "t_candidates d' = t_candidates d"
proof -
  have self: "sm_device (make_member (i, n) m) = i" for i n m by (simp add: make_member_def)
  have "(dev_id v \<noteq> dev_id dev \<longrightarrow> device_units d' v = device_units d v) \<and> (ms \<noteq> [] \<longrightarrow> stack_count d' (dev_id dev) = length ms)
    \<and> t_devices d' = t_devices d \<and> t_types d' = t_types d \<and> t_candidates d' = t_candidates d"
  proof (cases "ms = []")
    case False
    with assms obtain e where e: "d' = refresh_rack (dev_rack dev) e"
      "e = d\<lparr>t_stacks := filter (\<lambda>s. sm_device s \<noteq> dev_id dev) (t_stacks d) @ map (\<lambda>m. make_member (dev_id dev, mb_switch m) m) ms\<rparr>"
      by (rule store_members_cases)
    have "stack_count e (dev_id dev) = length ms" by (simp add: e(2) stack_count_def filter_map comp_def self)
    moreover have "device_units e v = device_units d v" if "dev_id v \<noteq> dev_id dev"
      using that by (intro device_units_cong)
        (auto simp: e(2) stack_count_def filter_map comp_def self intro!: arg_cong [where f = length] filter_cong)
    ultimately show ?thesis unfolding e(1) by (simp add: e(2) stack_count_def)
  qed (use assms in \<open>simp add: store_members_def\<close>)
  then show "dev_id v \<noteq> dev_id dev \<Longrightarrow> device_units d' v = device_units d v"
    and "ms \<noteq> [] \<Longrightarrow> stack_count d' (dev_id dev) = length ms"
    and "t_devices d' = t_devices d" and "t_types d' = t_types d" and "t_candidates d' = t_candidates d"
    by blast+
qed

lemma store_members_exact:
  assumes "store_members dev ms d = Inr d'" and "occupancy_exact d"
    and "\<And>v. v \<in> set (t_devices d) \<Longrightarrow> dev_id v = dev_id dev \<Longrightarrow> dev_rack v = dev_rack dev"
  shows "occupancy_exact d'"
proof (cases "ms = []")
  case False
  with assms(1) obtain e where e: "d' = refresh_rack (dev_rack dev) e"
    "e = d\<lparr>t_stacks := filter (\<lambda>s. sm_device s \<noteq> dev_id dev) (t_stacks d) @ map (\<lambda>m. make_member (dev_id dev, mb_switch m) m) ms\<rparr>"
    by (rule store_members_cases)
  have units: "device_units e v = device_units d v" if "dev_id v \<noteq> dev_id dev" for v
    using store_members_units(1) [OF assms(1) that] by (simp add: e(1))
  have "occupied_units e r = occupied_units d r" if "dev_rack dev \<noteq> Some r" for r
  proof -
    have "device_units e v = device_units d v" if "v \<in> set (t_devices d)" "dev_rack v = Some r" for v
      using that \<open>dev_rack dev \<noteq> Some r\<close> assms(3) units by metis
    moreover have "t_devices e = t_devices d" by (simp add: e(2))
    ultimately show ?thesis by (auto simp: occupied_units_def intro!: arg_cong [where f = concat] map_cong)
  qed
  with assms(2) have "exact_except (set_option (dev_rack dev) \<union> {}) e"
    by (auto simp: exact_except_def occupancy_exact_def e(2))
  then have "exact_except {} (refresh_rack (dev_rack dev) e)" by (rule exact_refresh_opt)
  then show ?thesis unfolding e(1) by (simp add: exact_except_def occupancy_exact_def)
qed (use assms in \<open>simp add: store_members_def\<close>)

lemma finish_device_cases:
  assumes "finish_device c dev tags ms d = Inr d'"
  obtains d1 d2 where "d1 = add_tags (dev_id dev) (map tag_id (known_tags (add_tags (dev_id dev) tags d) (extra_tag_names (dev_name dev))))
      (add_tags (dev_id dev) tags d)"
    and "store_members dev ms d1 = Inr d2" and "d' = mark_candidate (cand_id c) True (Some True) d2"
  using assms by (auto simp: finish_device_def bind_res_eq_Inr Let_def)

lemma tagged_device:
  "v \<in> set (t_devices (add_tags i ts d)) \<Longrightarrow> \<exists>w \<in> set (t_devices d). dev_id v = dev_id w \<and> dev_rack v = dev_rack w"
  by (auto simp: add_tags_def in_update_where split: if_splits)

lemma add_tags_last:
  assumes "t_devices d = vs @ [dev\<lparr>dev_tags := x\<rparr>]" and "dev_id dev \<notin> dev_id ` set vs"
  shows "\<exists>y. t_devices (add_tags (dev_id dev) ts d) = vs @ [dev\<lparr>dev_tags := y\<rparr>]"
proof -
  have "update_where (\<lambda>v. dev_id v = dev_id dev) f vs = vs" for f
    by (rule update_where_other) (use fresh_key [OF assms(2)] in simp)
  then have "t_devices (add_tags (dev_id dev) ts d) = vs @ [dev\<lparr>dev_tags := x @ filter (\<lambda>t. t \<notin> set x) (remdups ts)\<rparr>]"
    using assms(1) by (simp add: add_tags_def update_where_def)
  then show ?thesis by blast
qed

text \<open>The units of every rack after the device was finished: those before, and its own at the end.\<close>

lemma finish_device_rows:
  assumes "finish_device c dev tags ms d = Inr d'" and "t_devices d = vs @ [dev]" and "dev_id dev \<notin> dev_id ` set vs"
    and "occupancy_exact d"
  shows "occupancy_exact d'"
    and "occupied_units d' r = concat (map (device_units d) (filter (\<lambda>v. dev_rack v = Some r) vs)) @
      (if dev_rack dev = Some r then device_units d' dev else [])"
    and "ms \<noteq> [] \<Longrightarrow> stack_count d' (dev_id dev) = length ms" and "t_types d' = t_types d"
    and "\<exists>ts. t_devices d' = vs @ [dev\<lparr>dev_tags := ts\<rparr>]"
proof -
  obtain d1 d2 where d1: "d1 = add_tags (dev_id dev) (map tag_id (known_tags (add_tags (dev_id dev) tags d) (extra_tag_names (dev_name dev))))
      (add_tags (dev_id dev) tags d)"
    and d2: "store_members dev ms d1 = Inr d2" and d': "d' = mark_candidate (cand_id c) True (Some True) d2"
    using assms(1) by (rule finish_device_cases)
  have "occupancy_exact d1" unfolding d1 by (intro exact_add_tags assms(4))
  moreover have "dev_rack v = dev_rack dev" if "v \<in> set (t_devices d1)" "dev_id v = dev_id dev" for v
  proof -
    from that(1) obtain u where u: "u \<in> set (t_devices (add_tags (dev_id dev) tags d))" "dev_id v = dev_id u" "dev_rack v = dev_rack u"
      unfolding d1 by (blast dest: tagged_device)
    from u(1) obtain w where w: "w \<in> set (t_devices d)" "dev_id u = dev_id w" "dev_rack u = dev_rack w"
      by (blast dest: tagged_device)
    have "w \<notin> set vs" using assms(3) that(2) u(2) w(2) by (metis image_eqI)
    then have "w = dev" using w(1) assms(2) by simp
    then show ?thesis using u w by simp
  qed
  ultimately have "occupancy_exact d2" by (rule store_members_exact [OF d2])
  then show "occupancy_exact d'" unfolding d' by (rule exact_mark)
  show "ms \<noteq> [] \<Longrightarrow> stack_count d' (dev_id dev) = length ms"
    using store_members_units(2) [OF d2] by (simp add: d' stack_count_def mark_candidate_def)
  show "t_types d' = t_types d" using store_members_units(4) [OF d2] by (simp add: d' mark_candidate_def d1 add_tags_keeps)
  have "t_devices d = vs @ [dev\<lparr>dev_tags := dev_tags dev\<rparr>]" using assms(2) by simp
  then obtain ts where "t_devices d1 = vs @ [dev\<lparr>dev_tags := ts\<rparr>]"
    unfolding d1 using add_tags_last [OF _ assms(3)] by metis
  then have devs: "t_devices d' = vs @ [dev\<lparr>dev_tags := ts\<rparr>]"
    using store_members_units(3) [OF d2] by (simp add: d' mark_candidate_def)
  then show "\<exists>ts. t_devices d' = vs @ [dev\<lparr>dev_tags := ts\<rparr>]" by blast
  have "device_units d' v = device_units d v" if "v \<in> set vs" for v
  proof -
    from fresh_key [OF assms(3)] that have "dev_id v \<noteq> dev_id dev" by blast
    then have "device_units d2 v = device_units d1 v" by (rule store_members_units(1) [OF d2])
    then show ?thesis by (simp add: d' d1 units_add_tags)
  qed
  then show "occupied_units d' r = concat (map (device_units d) (filter (\<lambda>v. dev_rack v = Some r) vs)) @
      (if dev_rack dev = Some r then device_units d' dev else [])"
    by (auto simp: occupied_units_def devs intro!: arg_cong [where f = concat] map_cong)
qed

lemma refresh_keeps_areas [simp]: "t_areas (refresh_rack r d) = t_areas d"
  by (auto simp: refresh_rack_def split: option.splits)

text \<open>
  What a successful transaction did, in the order of the code: the device it created at a free
  position of a rack of the database, appended to the table, and finished.
\<close>

lemma assign_rows_cases:
  assumes "assign_rows env d c fa = Some (Inr (dev, d'))"
  obtains dev0 tags d1 d2 where "prepare env d c fa = Some (Inr (dev0, tags, d1))" and "save_device d1 dev0 = Inr d2"
    and "finish_device c dev0 tags (stack_members fa) d2 = Inr d'" and "dev = stored_device dev0 d'"
  using assms that by (auto simp: assign_rows_def split: option.splits sum.splits prod.splits)

lemma stored_device_fields:
  assumes "t_devices d = vs @ [dev\<lparr>dev_tags := ts\<rparr>]" and "dev_id dev \<notin> dev_id ` set vs"
  shows "stored_device dev d = dev\<lparr>dev_tags := ts\<rparr>"
proof -
  have "first_row (\<lambda>r. dev_id r = dev_id dev) vs = None"
    using fresh_key [OF assms(2)] by (simp add: first_row_None)
  then show ?thesis using assms(1) by (simp add: stored_device_def find_device_def first_row_append)
qed

lemma units_one_high:
  assumes "device_height d dev = 1" and "dev_position dev = Some p" and "dev_stacked dev \<longleftrightarrow> 1 < n"
    and "n \<noteq> 0 \<Longrightarrow> stack_count d (dev_id dev) = n"
  shows "device_units d dev = map (\<lambda>off. whole p + int off) [0 ..< max 1 n]"
  using assms by (simp add: device_units_def Let_def)

lemma place_unit_nonneg: "parse_place aci host raw = Inr pl \<Longrightarrow> pl_unit pl = Some v \<Longrightarrow> 0 \<le> fst v"
  by (auto simp: parse_place_def aci_place_def decimal_of_def Let_def split: if_splits option.splits list.splits)

lemma chosen_unit:
  assumes "\<And>xs. xs \<noteq> [] \<Longrightarrow> pick xs \<in> set xs" and "select_position pick l r req n = Some (Inr u)"
    and "\<And>v. req = Some v \<Longrightarrow> snd v \<le> 1 \<and> 0 \<le> fst v"
  shows "fits (rack_occupied r) n (decimal_int u)" and "snd u \<le> 1" and "0 \<le> fst u"
proof -
  have rand: "fits (rack_occupied r) n (decimal_int u) \<and> snd u = 0 \<and> 0 \<le> fst u" if "random_position pick l r n = Some (Inr u)"
  proof (cases "free_starts r n = []")
    case False
    with that have "u = (pick (free_starts r n), 0)" by (auto simp: random_position_def split: list.splits)
    moreover have "pick (free_starts r n) \<in> set (free_starts r n)" using False by (rule assms(1))
    ultimately show ?thesis by (auto simp: decimal_int_def free_starts_def)
  qed (use that in \<open>simp add: random_position_def\<close>)
  have "fits (rack_occupied r) n (decimal_int u) \<and> snd u \<le> 1 \<and> 0 \<le> fst u"
    using assms(2,3) rand by (fastforce simp: select_position_def split: option.splits if_splits)
  then show "fits (rack_occupied r) n (decimal_int u)" and "snd u \<le> 1" and "0 \<le> fst u" by blast+
qed

text \<open>The database when the device has been created, before it is finished.\<close>

lemma created_rows:
  assumes "d1 = snd (resolve_role i c d)" and "save_device d1 dev = Inr d2" and "dev_id dev \<notin> dev_id ` set (t_devices d)"
    and "occupancy_exact d" and "distinct (map dev_id (t_devices d))"
  shows "t_devices d2 = t_devices d @ [dev]" and "device_units d2 = device_units d" and "occupancy_exact d2"
    and "t_types d2 = t_types d"
proof -
  have same: "t_devices d1 = t_devices d" "t_types d1 = t_types d" "t_racks d1 = t_racks d" "t_stacks d1 = t_stacks d"
    unfolding assms(1) by (rule resolve_role_keeps)+
  have "device_units d1 = device_units d" using same by (intro units_write) simp_all
  then have "occupancy_exact d1" using assms(4) by (simp add: occupancy_exact_def occupied_units_def same)
  then show "occupancy_exact d2" using save_device_exact [OF _ _ assms(2)] assms(5) by (simp add: same)
  show "t_devices d2 = t_devices d @ [dev]" using save_new_device [OF assms(2)] assms(3) by (simp add: same)
  show "t_types d2 = t_types d" using save_device_keeps(1) [OF assms(2)] same by simp
  show "device_units d2 = device_units d" using save_device_keeps(1,2) [OF assms(2)] same by (intro units_write) simp_all
qed

text \<open>
  C15. Automatic assignment never puts two devices into one rack unit, as long as the type of the
  new device is one unit high: when the occupancy of the racks is exact and no unit is taken
  twice, both hold afterwards, stacks included. The database is taken to keep a unit of at most
  one decimal place, and the random choice to choose from its list.
\<close>

theorem assigned_units_free:
  assumes "assign_rows env d c fa = Some (Inr (dev, d'))"
    and "occupancy_exact d" and "\<And>r. distinct (occupied_units d r)"
    and "distinct (map dev_id (t_devices d))" and "ae_device_id env \<notin> dev_id ` set (t_devices d)"
    and "device_height d dev = 1"
    and "\<And>pl v. parse_place (fa_aci fa) (cand_hostname c) (fa_location fa) = Inr pl \<Longrightarrow> pl_unit pl = Some v \<Longrightarrow> snd v \<le> 1"
    and "\<And>u p. 0 \<le> fst u \<Longrightarrow> snd u \<le> 1 \<Longrightarrow> ae_store env u = Inr p \<Longrightarrow> whole p = decimal_int u"
    and "\<And>xs. xs \<noteq> [] \<Longrightarrow> ae_choice env xs \<in> set xs"
  shows "occupancy_exact d' \<and> distinct (occupied_units d' r)"
proof -
  let ?n = "length (stack_members fa)"
  obtain dev0 tags d1 d2 where prep: "prepare env d c fa = Some (Inr (dev0, tags, d1))" and save: "save_device d1 dev0 = Inr d2"
    and fin: "finish_device c dev0 tags (stack_members fa) d2 = Inr d'" and dev: "dev = stored_device dev0 d'"
    using assms(1) by (rule assign_rows_cases)
  obtain pl a k u pos t role where place: "parse_place (fa_aci fa) (cand_hostname c) (fa_location fa) = Inr pl"
    and rack: "resolve_area_and_rack env d (cand_site c) pl = Inr (a, k)"
    and sel: "select_position (ae_choice env) (rack_label d k) k (pl_unit pl) (max 1 ?n) = Some (Inr u)"
    and store: "ae_store env u = Inr pos" and d1: "d1 = snd (resolve_role (ae_role_id env) c d)"
    and dev0: "dev0 = assigned_device env c a k pos t role (1 < ?n)"
    using prep by (rule prepare_cases)
  have fields: "dev_id dev0 = ae_device_id env" "dev_rack dev0 = Some (rack_id k)" "dev_position dev0 = Some pos" "dev_stacked dev0 \<longleftrightarrow> 1 < ?n"
    by (simp_all add: dev0 assigned_device_def new_device_def)
  have fresh: "dev_id dev0 \<notin> dev_id ` set (t_devices d)" using assms(5) by (simp add: fields)
  note made = created_rows [OF d1 save fresh assms(2,4)]
  note rows = finish_device_rows [OF fin made(1) fresh made(3)]
  have types: "t_types d' = t_types d" using rows(4) made(4) by simp
  obtain ts where "t_devices d' = t_devices d @ [dev0\<lparr>dev_tags := ts\<rparr>]" using rows(5) by blast
  then have "dev = dev0\<lparr>dev_tags := ts\<rparr>" unfolding dev by (rule stored_device_fields) (rule fresh)
  then have "dev_type dev0 = dev_type dev" by simp
  then have "device_height d' dev0 = 1" using assms(6) unfolding device_height_def find_type_cong [OF types] by simp
  moreover have "?n \<noteq> 0 \<Longrightarrow> stack_count d' (dev_id dev0) = ?n" using rows(3) by simp
  ultimately have own: "device_units d' dev0 = map (\<lambda>off. whole pos + int off) [0 ..< max 1 ?n]"
    using fields(3,4) by (intro units_one_high) simp_all
  have "snd v \<le> 1 \<and> 0 \<le> fst v" if "pl_unit pl = Some v" for v
    using assms(7) [OF place that] place_unit_nonneg [OF place that] by blast
  note chosen = chosen_unit [OF assms(9) sel this]
  have "rack_occupied k = occupied_units d (rack_id k)" using assms(2) resolved_rack [OF rack] by (simp add: occupancy_exact_def)
  moreover have "whole pos = decimal_int u" using assms(8) [OF chosen(3,2) store] .
  ultimately have "set (device_units d' dev0) \<inter> set (occupied_units d (rack_id k)) = {}"
    using chosen(1) unfolding own fits_def by auto
  moreover have "distinct (device_units d' dev0)" unfolding own by (simp add: distinct_map inj_on_def)
  ultimately have "distinct (occupied_units d' r)"
    unfolding rows(2) made(2) using assms(3) [of r] fields(2) by (auto simp: occupied_units_def)
  with rows(1) show ?thesis by blast
qed

definition demo_hall :: "int \<Rightarrow> db" where
  "demo_hall height = empty_db\<lparr>t_areas := [\<lparr>area_id = 1, area_name = ''K3'', area_parent = None, area_site = 1\<rparr>],
     t_racks := [\<lparr>rack_id = 1, rack_name = ''R1'', rack_area = 1, rack_height = 3, rack_occupied = [2]\<rparr>],
     t_vendors := [\<lparr>vendor_id = 1, vendor_name = ''Cisco''\<rparr>],
     t_types := [\<lparr>dt_id = 1, dt_model = ''C9'', dt_platform = ''ios'', dt_vendor = 1, dt_height = height\<rparr>],
     t_devices := [(new_device 1 ''sw1'' ''10.0.0.1'' 1 1)\<lparr>dev_rack := Some 1, dev_position := Some 20\<rparr>]\<rparr>"

fun demo_position :: "decimal \<Rightarrow> exn + int" where
  "demo_position (c, k) = (if c < 0 then Inl (ValueError ''position'') else if k = 0 then Inr (10 * c)
     else if k = 1 then Inr c else Inl (ValueError ''position''))"

definition demo_assign_env :: assign_env where
  "demo_assign_env = \<lparr>ae_device = demo_device_env, ae_connect = (\<lambda>n p. Inl (ConnectionError ''refused'')), ae_choice = hd,
     ae_store = demo_position, ae_device_id = 2, ae_role_id = 1, ae_uuid_text = (\<lambda>i. ''uuid''), ae_site_text = (\<lambda>i. ''BN'')\<rparr>"

definition demo_candidate :: candidate where
  "demo_candidate = \<lparr>cand_id = 7, cand_site = 1, cand_ip = ''10.0.0.2'', cand_hostname = ''sw2'', cand_alive = True,
     cand_ssh = True, cand_ping = False, cand_last_seen = 5, cand_classified = False, cand_accepted = None\<rparr>"

definition demo_facts :: facts where
  "demo_facts = \<lparr>fa_driver = ''cisco_ios'', fa_aci = False, fa_version = [], fa_location = ''K3 R1 U2'',
     fa_parsed_version = PyNone, fa_inventory = PyList [PyDict [(''pid'', PyStr ''C9'')]], fa_stack = None\<rparr>"

lemma demo_rows:
  "\<exists>dev d. assign_rows demo_assign_env (demo_hall 10) demo_candidate demo_facts = Some (Inr (dev, d))
     \<and> device_height (demo_hall 10) dev = 1"
proof -
  have "(case assign_rows demo_assign_env (demo_hall 10) demo_candidate demo_facts of
      Some (Inr (dev, d)) \<Rightarrow> device_height (demo_hall 10) dev = 1 | _ \<Rightarrow> False)"
    by code_simp
  then show ?thesis by (auto split: option.splits sum.splits prod.splits)
qed

theorem assigned_units_free_witness:
  "\<exists>dev d. assign_rows demo_assign_env (demo_hall 10) demo_candidate demo_facts = Some (Inr (dev, d))
     \<and> distinct (occupied_units d 1)"
proof -
  obtain dev d where run: "assign_rows demo_assign_env (demo_hall 10) demo_candidate demo_facts = Some (Inr (dev, d))"
    and height: "device_height (demo_hall 10) dev = 1"
    using demo_rows by blast
  have exact: "occupancy_exact (demo_hall 10)" by code_simp
  have ids: "distinct (map dev_id (t_devices (demo_hall 10)))" "ae_device_id demo_assign_env \<notin> dev_id ` set (t_devices (demo_hall 10))"
    by code_simp+
  have units: "distinct (occupied_units (demo_hall 10) r)" for r
    by (simp add: occupied_units_def demo_hall_def empty_db_def device_units_def device_height_def new_device_def
        distinct_map inj_on_def)
  have "parse_place False ''sw2'' ''K3 R1 U2'' = Inr \<lparr>pl_area = ''K3'', pl_rack = ''R1'', pl_unit = Some (2, 0)\<rparr>" by code_simp
  then have place: "snd v \<le> 1" if "parse_place (fa_aci demo_facts) (cand_hostname demo_candidate) (fa_location demo_facts) = Inr pl"
    "pl_unit pl = Some v" for pl v
    using that by (auto simp: demo_facts_def demo_candidate_def)
  have store: "whole p = decimal_int u" if "0 \<le> fst u" "snd u \<le> 1" "ae_store demo_assign_env u = Inr p" for u p
    using that by (cases u) (auto simp: demo_assign_env_def decimal_int_def whole_def le_Suc_eq split: if_splits)
  have pick: "ae_choice demo_assign_env xs \<in> set xs" if "xs \<noteq> []" for xs
    using that by (simp add: demo_assign_env_def)
  have "occupancy_exact d \<and> distinct (occupied_units d 1)"
    by (rule assigned_units_free [OF run exact units ids height]; (rule place store pick)?)
  with run show ?thesis by blast
qed

text \<open>
  The height of the type does not count when the position is selected: a device of two units is
  put into the one free unit below another device.
\<close>

lemma tall_type_collides:
  "\<exists>dev d. assign_rows demo_assign_env (demo_hall 20) demo_candidate demo_facts = Some (Inr (dev, d))
     \<and> occupied_units (demo_hall 20) 1 = [2] \<and> occupied_units d 1 = [2, 1, 2]"
proof -
  have "(case assign_rows demo_assign_env (demo_hall 20) demo_candidate demo_facts of
      Some (Inr (dev, d)) \<Rightarrow> occupied_units (demo_hall 20) 1 = [2] \<and> occupied_units d 1 = [2, 1, 2] | _ \<Rightarrow> False)"
    by code_simp
  then show ?thesis by (auto split: option.splits sum.splits prod.splits)
qed

section \<open>All or nothing\<close>

text \<open>What the transaction of an assignment has done to devices, candidates and areas.\<close>

lemma assigned_rows:
  assumes "assign_rows env d0 c fa = Some (Inr (dev, d))" and "ae_device_id env \<notin> dev_id ` set (t_devices d0)"
    and "occupancy_exact d0" and "distinct (map dev_id (t_devices d0))"
  shows "t_devices d = t_devices d0 @ [dev]" and "t_candidates d = t_candidates (mark_candidate (cand_id c) True (Some True) d0)"
    and "t_areas d = t_areas d0"
    and "dev_id dev = ae_device_id env \<and> dev_ip dev = cand_ip c \<and> dev_site dev = cand_site c \<and> dev_status dev = ''active''
      \<and> dev_position dev \<noteq> None \<and> dev_rack dev \<in> (\<lambda>k. Some (rack_id k)) ` set (t_racks d0)"
proof -
  obtain dev0 tags d1 d2 where prep: "prepare env d0 c fa = Some (Inr (dev0, tags, d1))" and save: "save_device d1 dev0 = Inr d2"
    and fin: "finish_device c dev0 tags (stack_members fa) d2 = Inr d" and dev: "dev = stored_device dev0 d"
    using assms(1) by (rule assign_rows_cases)
  obtain pl a k u pos t role where rack: "resolve_area_and_rack env d0 (cand_site c) pl = Inr (a, k)"
    and d1: "d1 = snd (resolve_role (ae_role_id env) c d0)"
    and dev0: "dev0 = assigned_device env c a k pos t role (1 < length (stack_members fa))"
    using prep by (rule prepare_cases)
  have fresh: "dev_id dev0 \<notin> dev_id ` set (t_devices d0)" using assms(2) by (simp add: dev0 assigned_device_def new_device_def)
  note made = created_rows [OF d1 save fresh assms(3,4)]
  obtain ts where devs: "t_devices d = t_devices d0 @ [dev0\<lparr>dev_tags := ts\<rparr>]"
    using finish_device_rows(5) [OF fin made(1) fresh made(3)] by blast
  then have eq: "dev = dev0\<lparr>dev_tags := ts\<rparr>" unfolding dev by (rule stored_device_fields) (rule fresh)
  show "t_devices d = t_devices d0 @ [dev]" by (simp add: devs eq)
  show "t_candidates d = t_candidates (mark_candidate (cand_id c) True (Some True) d0)"
    using fin save_device_keeps(4) [OF save] resolve_role_keeps(6) [of "ae_role_id env" c d0]
    by (rule_tac finish_device_cases [OF fin])
      (auto simp: store_members_units(5) mark_candidate_def add_tags_keeps d1)
  show "t_areas d = t_areas d0"
    using save_device_keeps(3) [OF save] resolve_role_keeps(5) [of "ae_role_id env" c d0]
    by (rule_tac finish_device_cases [OF fin])
      (auto simp: store_members_def mark_candidate_def add_tags_keeps d1 split: if_splits)
  show "dev_id dev = ae_device_id env \<and> dev_ip dev = cand_ip c \<and> dev_site dev = cand_site c \<and> dev_status dev = ''active''
      \<and> dev_position dev \<noteq> None \<and> dev_rack dev \<in> (\<lambda>k. Some (rack_id k)) ` set (t_racks d0)"
    using resolved_rack [OF rack] by (simp add: eq dev0 assigned_device_def new_device_def)
qed

text \<open>
  What the synchronisation that follows leaves of it: the row of the device keeps its identity, its
  address and its place, and no other device, no candidate and no area changes.
\<close>

lemma synced_assignment:
  assumes "sync_assigned env nw c inc dev s = (r, s')" and "dev \<in> set (t_devices (st_db s))"
  shows "as_device r = Some (dev_id dev)" and "as_success r \<or> as_error r \<noteq> None"
    and "\<exists>v \<in> set (t_devices (st_db s')). installation v = installation dev"
    and "filter (\<lambda>v. dev_id v \<noteq> dev_id dev) (t_devices (st_db s')) = filter (\<lambda>v. dev_id v \<noteq> dev_id dev) (t_devices (st_db s))"
    and "t_candidates (st_db s') = t_candidates (st_db s)" and "t_areas (st_db s') = t_areas (st_db s)"
proof -
  let ?run = "sync_device (ae_device env) nw dev (inc \<and> \<not> is_fabric c) False s"
  have "as_device r = Some (dev_id dev) \<and> (as_success r \<or> as_error r \<noteq> None)
    \<and> (\<exists>v \<in> set (t_devices (st_db s')). installation v = installation dev)
    \<and> filter (\<lambda>v. dev_id v \<noteq> dev_id dev) (t_devices (st_db s')) = filter (\<lambda>v. dev_id v \<noteq> dev_id dev) (t_devices (st_db s))
    \<and> t_candidates (st_db s') = t_candidates (st_db s) \<and> t_areas (st_db s') = t_areas (st_db s)"
  proof (cases ?run)
    case (Inl e)
    with assms show ?thesis by (auto simp: sync_assigned_def failed_assignment_def)
  next
    case (Inr x)
    then obtain oc where run: "?run = Inr (oc, s')" and r: "r = \<lparr>as_device = Some (dev_id dev), as_success = True, as_error = None\<rparr>"
      using assms(1) by (cases x) (simp add: sync_assigned_def)
    have "\<exists>v \<in> set (t_devices (st_db s)). installation v = installation dev" using assms(2) by blast
    from installed_kept.sync [OF this run refl] others_kept.sync [OF refl run refl] candidates_kept.sync [OF refl run refl] sync_device_areas [OF run]
    show ?thesis by (simp add: r)
  qed
  then show "as_device r = Some (dev_id dev)" and "as_success r \<or> as_error r \<noteq> None"
    and "\<exists>v \<in> set (t_devices (st_db s')). installation v = installation dev"
    and "filter (\<lambda>v. dev_id v \<noteq> dev_id dev) (t_devices (st_db s')) = filter (\<lambda>v. dev_id v \<noteq> dev_id dev) (t_devices (st_db s))"
    and "t_candidates (st_db s') = t_candidates (st_db s)" and "t_areas (st_db s') = t_areas (st_db s)" by blast+
qed

lemma assign_outcomes:
  assumes "assign env nw c inc s = Some (r, s')"
  obtains (failed) e dev where "r = failed_assignment dev e" "s' = s"
    | (assigned) fa dev d where "assign_rows env (st_db s) c fa = Some (Inr (dev, d))" "sync_assigned env nw c inc dev (s\<lparr>st_db := d\<rparr>) = (r, s')"
proof (cases "gather env nw c")
  case (Inl e)
  with assms failed show thesis by (auto simp: assign_def)
next
  case (Inr fa)
  with assms obtain x where rows: "assign_rows env (st_db s) c fa = Some x"
    and x: "(case x of Inl (dev, e) \<Rightarrow> (failed_assignment dev e, s)
      | Inr (dev, d) \<Rightarrow> sync_assigned env nw c inc dev (s\<lparr>st_db := d\<rparr>)) = (r, s')"
    by (auto simp: assign_def)
  show thesis
  proof (cases x)
    case (Inl y)
    with x failed show thesis by (cases y) auto
  next
    case (Inr y)
    with x rows assigned show thesis by (cases y) simp
  qed
qed

text \<open>
  C16. An assignment is all or nothing, to its end: either it fails and the store is as before, or
  the device is in the final store, whatever the synchronisation that follows has read and however it
  ended. The device has the address and the site of the candidate, a rack of the database and a
  position in it, and is active; it is the one that is reported. The candidate is marked as handled,
  and no other device, no other candidate and no area has changed.
\<close>

theorem assign_all_or_nothing:
  assumes "assign env nw c include_config s = Some (r, s')" and "ae_device_id env \<notin> dev_id ` set (t_devices (st_db s))"
    and "occupancy_exact (st_db s)" and "distinct (map dev_id (t_devices (st_db s)))"
  shows "(\<not> as_success r \<and> s' = s) \<or>
    (\<exists>v \<in> set (t_devices (st_db s')). dev_id v = ae_device_id env \<and> dev_ip v = cand_ip c \<and> dev_site v = cand_site c
      \<and> dev_status v = ''active'' \<and> dev_position v \<noteq> None \<and> (\<exists>k \<in> set (t_racks (st_db s)). dev_rack v = Some (rack_id k))
      \<and> as_device r = Some (dev_id v) \<and> (as_success r \<or> as_error r \<noteq> None)
      \<and> filter (\<lambda>x. dev_id x \<noteq> dev_id v) (t_devices (st_db s')) = t_devices (st_db s)
      \<and> t_candidates (st_db s') = t_candidates (mark_candidate (cand_id c) True (Some True) (st_db s))
      \<and> t_areas (st_db s') = t_areas (st_db s))"
  using assms(1)
proof (cases rule: assign_outcomes)
  case (assigned fa dev d)
  note rows = assigned_rows [OF assigned(1) assms(2-4)]
  note sync = synced_assignment [OF assigned(2)]
  have dev: "dev \<in> set (t_devices (st_db (s\<lparr>st_db := d\<rparr>)))" by (simp add: rows(1))
  from sync(3) [OF dev] obtain v where v: "v \<in> set (t_devices (st_db s'))" "installation v = installation dev" by blast
  have "filter (\<lambda>x. dev_id x \<noteq> dev_id dev) (t_devices (st_db s)) = t_devices (st_db s)"
    using fresh_key [OF assms(2)] rows(4) by (intro filter_True) simp
  then have "filter (\<lambda>x. dev_id x \<noteq> dev_id v) (t_devices (st_db s')) = t_devices (st_db s)"
    using sync(4) [OF dev] v(2) by (simp add: rows(1) installation_def)
  then show ?thesis using v rows(2-4) sync(1,2,5,6) [OF dev]
    by (intro disjI2 bexI [of _ v]) (auto simp: installation_def)
qed (simp add: failed_assignment_def)

definition demo_session :: session where
  "demo_session q = (if q = ''show version'' then Inr ''IOS'' else if q = ''show snmp location'' then Inr ''K3 R1 U2''
     else if q = ''show inventory'' then Inr ''...'' else Inl (ConnectionError ''closed''))"

definition demo_reach_env :: assign_env where
  "demo_reach_env = demo_assign_env\<lparr>ae_connect := (\<lambda>n p. Inr demo_session),
     ae_device := demo_device_env\<lparr>de_sync := (de_sync demo_device_env)\<lparr>se_fsm := (\<lambda>t r. PyList [PyDict [(''pid'', PyStr ''C9'')]])\<rparr>\<rparr>\<rparr>"

definition demo_reach_store :: store where
  "demo_reach_store = demo_store\<lparr>st_db := (demo_hall 10)\<lparr>t_candidates := [demo_candidate]\<rparr>\<rparr>"

definition demo_keys :: network where
  "demo_keys = demo_network\<lparr>nw_credentials := [\<lparr>cr_site = 1, cr_username = ''ops'', cr_password = ''pw'', cr_port = 22\<rparr>]\<rparr>"

definition demo_reach_facts :: facts where
  "demo_reach_facts = demo_facts\<lparr>fa_version := ''IOS'', fa_parsed_version := PyList [PyDict [(''pid'', PyStr ''C9'')]]\<rparr>"

lemma demo_gathered: "gather demo_reach_env demo_keys demo_candidate = Inr demo_reach_facts"
  by code_simp

lemma demo_reach_rows:
  "\<exists>dev d. assign_rows demo_reach_env (st_db demo_reach_store) demo_candidate demo_reach_facts = Some (Inr (dev, d))"
proof -
  have "(case assign_rows demo_reach_env (st_db demo_reach_store) demo_candidate demo_reach_facts of
      Some (Inr (dev, d)) \<Rightarrow> True | _ \<Rightarrow> False)"
    by code_simp
  then show ?thesis by (auto split: option.splits sum.splits prod.splits)
qed

lemma demo_reached:
  "\<exists>r s'. assign demo_reach_env demo_keys demo_candidate True demo_reach_store = Some (r, s') \<and> as_success r"
proof -
  obtain dev d where rows: "assign_rows demo_reach_env (st_db demo_reach_store) demo_candidate demo_reach_facts = Some (Inr (dev, d))"
    using demo_reach_rows by blast
  have "\<exists>e. collect_results env demo_keys d' v c n = Inl e" for env d' v c n
    by (cases "collect_results env demo_keys d' v c n")
      (auto simp: collect_results_def open_adapter_def bind_res_eq_Inr demo_keys_def demo_network_def split: if_splits)
  then have fails: "\<exists>e. collect_with_retry env demo_keys d' v c = Inl e" for env d' v c
    unfolding collect_fails by blast
  have "\<exists>x. sync_device (ae_device demo_reach_env) demo_keys dev inc False s = Inr x" for inc s
    using fails [of "de_sync (ae_device demo_reach_env)" "st_db s" dev inc] by (auto simp: sync_device_def)
  then obtain x where "sync_device (ae_device demo_reach_env) demo_keys dev (True \<and> \<not> is_fabric demo_candidate) False
      (demo_reach_store\<lparr>st_db := d\<rparr>) = Inr x" by blast
  then show ?thesis by (cases x) (simp add: assign_def demo_gathered rows sync_assigned_def)
qed

theorem assign_all_or_nothing_witness:
  "\<exists>r s' v. assign demo_reach_env demo_keys demo_candidate True demo_reach_store = Some (r, s') \<and> as_success r
     \<and> v \<in> set (t_devices (st_db s')) \<and> dev_id v = 2 \<and> dev_ip v = ''10.0.0.2'' \<and> dev_rack v = Some 1
     \<and> map cand_accepted (t_candidates (st_db s')) = [Some True]"
proof -
  obtain r s' where run: "assign demo_reach_env demo_keys demo_candidate True demo_reach_store = Some (r, s')" and ok: "as_success r"
    using demo_reached by blast
  have ids: "occupancy_exact (st_db demo_reach_store)" "distinct (map dev_id (t_devices (st_db demo_reach_store)))"
    "ae_device_id demo_reach_env \<notin> dev_id ` set (t_devices (st_db demo_reach_store))"
    by code_simp+
  have racks: "map rack_id (t_racks (st_db demo_reach_store)) = [1]" "ae_device_id demo_reach_env = 2" "cand_ip demo_candidate = ''10.0.0.2''"
    and marked: "map cand_accepted (t_candidates (mark_candidate (cand_id demo_candidate) True (Some True) (st_db demo_reach_store))) = [Some True]"
    by code_simp+
  from assign_all_or_nothing [OF run ids(3,1,2)] ok
  obtain v k where v: "v \<in> set (t_devices (st_db s'))" "dev_id v = ae_device_id demo_reach_env" "dev_ip v = cand_ip demo_candidate"
    "k \<in> set (t_racks (st_db demo_reach_store))" "dev_rack v = Some (rack_id k)"
    "t_candidates (st_db s') = t_candidates (mark_candidate (cand_id demo_candidate) True (Some True) (st_db demo_reach_store))"
    by blast
  have "rack_id k = 1" using v(4) racks(1) by auto
  with run ok v racks marked show ?thesis by auto
qed

section \<open>The job returns\<close>

text \<open>A synchronisation leaves the areas as they are, so that a walk up the areas that ends keeps ending.\<close>

definition areas_end :: "db \<Rightarrow> bool" where
  "areas_end d \<longleftrightarrow> (\<forall>a \<in> set (t_areas d). area_path d a [] \<noteq> None)"

lemma areas_end_same: "areas_end d \<Longrightarrow> t_areas d' = t_areas d \<Longrightarrow> areas_end d'"
  by (auto simp: areas_end_def dest: area_path_same)

lemma rack_label_returns: "areas_end d \<Longrightarrow> rack_label d r \<noteq> None"
  by (auto simp: areas_end_def rack_label_def find_area_def dest!: first_row_Some split: option.splits)

lemma select_returns: "l \<noteq> None \<Longrightarrow> select_position pick l r req n \<noteq> None"
  by (auto simp: select_position_def random_position_def split: option.splits list.splits)

lemma prepare_returns:
  assumes "areas_end d"
  shows "prepare env d c fa \<noteq> None"
proof -
  have sel: "\<exists>x. select_position (ae_choice env) (rack_label d r) r u n = Some x" for r u n
    using select_returns [OF rack_label_returns [OF assms]] by auto
  show ?thesis
  proof (cases "parse_place (fa_aci fa) (cand_hostname c) (fa_location fa)")
    case (Inr pl)
    show ?thesis
    proof (cases "resolve_area_and_rack env d (cand_site c) pl")
      case ar: (Inr x)
      obtain a r where "x = (a, r)" by (cases x)
      moreover obtain z where "select_position (ae_choice env) (rack_label d r) r (pl_unit pl) (max 1 (length (stack_members fa))) = Some z"
        using sel by blast
      ultimately show ?thesis using Inr ar by (cases z) (simp_all add: prepare_def seq_end_def)
    qed (use Inr in \<open>simp add: prepare_def seq_end_def\<close>)
  qed (simp add: prepare_def seq_end_def)
qed

lemma assign_returns:
  assumes "areas_end (st_db s)"
  shows "\<exists>r s'. assign env nw c inc s = Some (r, s') \<and> areas_end (st_db s')"
proof (cases "gather env nw c")
  case (Inl e)
  with assms show ?thesis by (simp add: assign_def)
next
  case (Inr fa)
  obtain z where "prepare env (st_db s) c fa = Some z" using prepare_returns [OF assms] by blast
  then obtain x where x: "assign_rows env (st_db s) c fa = Some x"
    by (cases z) (auto simp: assign_rows_def case_prod_unfold)
  show ?thesis
  proof (cases x)
    case (Inl y)
    with x Inr assms show ?thesis by (cases y) (simp add: assign_def)
  next
    case y: (Inr y)
    then obtain dev d where rows: "assign_rows env (st_db s) c fa = Some (Inr (dev, d))" using x by (cases y) simp
    have "t_areas d = t_areas (st_db s)"
    proof -
      obtain dev0 tags d1 d2 where "prepare env (st_db s) c fa = Some (Inr (dev0, tags, d1))" and save: "save_device d1 dev0 = Inr d2"
        and fin: "finish_device c dev0 tags (stack_members fa) d2 = Inr d"
        using rows by (rule assign_rows_cases)
      then have "t_areas d1 = t_areas (st_db s)" using prepare_cases resolve_role_keeps(5) by metis
      moreover have "t_areas d = t_areas d2"
        using fin by (rule finish_device_cases) (auto simp: store_members_def mark_candidate_def add_tags_keeps split: if_splits)
      ultimately show ?thesis using save_device_keeps(3) [OF save] by simp
    qed
    then have d: "areas_end d" using assms areas_end_same by blast
    obtain r s' where run: "sync_assigned env nw c inc dev (s\<lparr>st_db := d\<rparr>) = (r, s')" by (metis surj_pair)
    then have "t_areas (st_db s') = t_areas d"
      by (auto simp: sync_assigned_def dest: sync_device_areas split: sum.splits prod.splits)
    with d have "areas_end (st_db s')" by (rule areas_end_same)
    with run Inr rows show ?thesis by (simp add: assign_def)
  qed
qed

definition tally :: "progress \<Rightarrow> int" where
  "tally p = pg_success p + pg_failed p"

lemma tally_count [simp]:
  "tally (count_result ok p) = tally p + 1" "pg_items (count_result ok p) = pg_items p" "pg_store (count_result ok p) = pg_store p"
  "tally (p\<lparr>pg_store := s\<rparr>) = tally p" "tally (p\<lparr>pg_items := is\<rparr>) = tally p"
  by (simp_all add: tally_def count_result_def)

text \<open>The loop returns, and counts every candidate that it came to.\<close>

lemma assign_loop_returns:
  "areas_end (st_db (pg_store p)) \<Longrightarrow> \<exists>q e. assign_loop envs nw inc found ids p = Some (q, e)
     \<and> (e = None \<longrightarrow> tally q = tally p + int (length ids) \<and> length (pg_items q) = length (pg_items p) + length ids)
     \<and> (e \<noteq> None \<longrightarrow> tally q - int (length (pg_items q)) = tally p - int (length (pg_items p)) + 1
         \<and> length (pg_items q) < length (pg_items p) + length ids)"
proof (induction ids arbitrary: p)
  case Nil
  then show ?case by simp
next
  case (Cons i ids)
  show ?case
  proof (cases "found i")
    case None
    with Cons.IH [of "(count_result False p)\<lparr>pg_items := pg_items p @ [missing_item]\<rparr>"] Cons.prems show ?thesis by auto
  next
    case (Some c)
    obtain r s' where run: "assign (envs i) nw c inc (pg_store p) = Some (r, s')" and s': "areas_end (st_db s')"
      using assign_returns [OF Cons.prems] by blast
    show ?thesis
    proof (cases "store_item (st_db s') (assigned_item c r) (pg_items p)")
      case (Inl e)
      with Some run show ?thesis by (simp add: Let_def)
    next
      case (Inr items)
      then have "length items = length (pg_items p) + 1" by (auto simp: store_item_def split: if_splits)
      with Inr Some run s' Cons.IH [of "(count_result (as_success r) p)\<lparr>pg_store := s', pg_items := items\<rparr>"] show ?thesis
        by (auto simp: Let_def)
    qed
  qed
qed

text \<open>The worker of the jobs, as one of the workers whose saves follow the life of a job.\<close>

type_synonym assign_input = "(uid \<Rightarrow> assign_env) \<times> network \<times> moment \<times> moment \<times> uid list \<times> assign_job \<times> store"

fun assign_status :: "assign_input \<Rightarrow> string" where
  "assign_status (envs, nw, t0, t1, ids, j, s) = aj_status j"

fun assign_saves :: "assign_input \<Rightarrow> string list option" where
  "assign_saves (envs, nw, t0, t1, ids, j, s) = map_option (\<lambda>(saves, p). map aj_status saves) (run_assign_job envs nw t0 t1 ids j s)"

interpretation assign_worker: job_worker assign_status assign_saves
proof
  fix i :: assign_input and ts
  obtain envs nw t0 t1 ids j s where i: "i = (envs, nw, t0, t1, ids, j, s)" by (cases i)
  assume "\<not> final_status (assign_status i)" and "assign_saves i = Some ts"
  then show "status_path (assign_status i) ts" and "ts \<noteq> [] \<and> final_status (last ts)"
    by (auto simp: i run_assign_job_def Let_def ended_job_def status_step_def final_status_def split: if_splits)
qed

text \<open>
  A job of automatic assignments always ends, when the walks up the areas end: its saves show
  it running and then completed or failed, once. A completed job has counted every candidate of
  its list and kept an item for each; a failed one stopped at the candidate whose item could not
  be stored, which it had counted.
\<close>

theorem assign_job_ends:
  assumes "\<not> final_status (aj_status j)" and "areas_end (st_db s)"
  shows "\<exists>saves p. run_assign_job envs nw t0 t1 ids j s = Some (saves, p)
    \<and> status_path (aj_status j) (map aj_status saves)
    \<and> filter final_status (map aj_status saves) = [aj_status (last saves)]
    \<and> aj_success (last saves) = pg_success p \<and> aj_failure (last saves) = pg_failed p
    \<and> (if aj_status (last saves) = ''completed'' then tally p = int (length ids) \<and> length (pg_items p) = length ids
       else tally p = int (length (pg_items p)) + 1 \<and> length (pg_items p) < length ids)"
proof -
  let ?j = "j\<lparr>aj_status := ''running'', aj_started := Some t0\<rparr>" and ?p = "\<lparr>pg_success = 0, pg_failed = 0, pg_items = [], pg_store = s\<rparr>"
  let ?found = "\<lambda>i. first_row (\<lambda>c. cand_id c = i) (filter (\<lambda>c. cand_id c \<in> set ids) (t_candidates (st_db s)))"
  obtain q e where loop: "assign_loop envs nw (aj_include_config j) ?found ids ?p = Some (q, e)"
    and counted: "e = None \<longrightarrow> tally q = int (length ids) \<and> length (pg_items q) = length ids"
      "e \<noteq> None \<longrightarrow> tally q - int (length (pg_items q)) = 1 \<and> length (pg_items q) < length ids"
    using assign_loop_returns [of ?p envs nw "aj_include_config j" ?found ids] assms(2) by (auto simp: tally_def)
  then have run: "run_assign_job envs nw t0 t1 ids j s = Some ([?j, ended_job t1 ?j q e], q)" by (simp add: run_assign_job_def Let_def)
  let ?i = "(envs, nw, t0, t1, ids, j, s)"
  have saves: "assign_saves ?i = Some [''running'', aj_status (ended_job t1 ?j q e)]" by (simp add: run)
  have "\<not> final_status (assign_status ?i)" using assms(1) by simp
  note life = assign_worker.path [OF this saves] assign_worker.ends_once [OF this saves]
  have "aj_status (ended_job t1 ?j q e) = ''completed'' \<longleftrightarrow> e = None" by (simp add: ended_job_def)
  with run counted life show ?thesis by (auto simp: ended_job_def)
qed

theorem assign_job_ends_witness:
  "\<exists>saves p. run_assign_job (\<lambda>i. demo_assign_env) demo_network 1 2 [7, 8]
      \<lparr>aj_include_config = True, aj_status = ''pending'', aj_success = 0, aj_failure = 0, aj_error = [], aj_started = None, aj_completed = None\<rparr>
      demo_store = Some (saves, p)
    \<and> filter final_status (map aj_status saves) = [aj_status (last saves)]"
proof -
  have "areas_end (st_db demo_store)" by (simp add: areas_end_def demo_store_def empty_db_def)
  then show ?thesis
    using assign_job_ends [of "\<lparr>aj_include_config = True, aj_status = ''pending'', aj_success = 0, aj_failure = 0, aj_error = [], aj_started = None, aj_completed = None\<rparr>"
      demo_store "\<lambda>i. demo_assign_env" demo_network 1 2 "[7, 8]"]
    by (auto simp: final_status_def)
qed

end
