(* ===== verification/Reachability.thy ===== *)
theory Reachability
  imports Connections
begin

text \<open>
  Reachability: \<^verbatim>\<open>automation/engine/reachability_engine.py\<close> measures the devices
  with up to four checks and writes nothing; the persistence service of
  \<^verbatim>\<open>automation/application\<close> writes a measurement into the runtime statuses. The
  network is a parameter.
\<close>

section \<open>Credentials and checks\<close>

record snmp_credential =
  sn_site :: uid
  sn_version :: string
  sn_port :: int
  sn_community :: "string option"
  sn_level :: "string option"
  sn_username :: "string option"
  sn_auth_protocol :: "string option"
  sn_auth_key :: "string option"
  sn_priv_protocol :: "string option"
  sn_priv_key :: "string option"

record snmp_config =
  sg_version :: string
  sg_port :: int
  sg_community :: string
  sg_level :: "string option"
  sg_username :: "string option"
  sg_auth_protocol :: "string option"
  sg_auth_key :: "string option"
  sg_priv_protocol :: "string option"
  sg_priv_key :: "string option"

text \<open>
  The outside: one echo request, a TCP connection, and the answer to an SNMP request (host,
  version 2 or not, community, port), which may raise before the engine catches.
\<close>

record probes =
  pb_ping :: "string \<Rightarrow> bool"
  pb_tcp :: "string \<Rightarrow> int \<Rightarrow> bool"
  pb_snmp :: "string \<Rightarrow> bool \<Rightarrow> string \<Rightarrow> int \<Rightarrow> exn + bool"

definition ping :: "probes \<Rightarrow> string \<Rightarrow> bool" where
  "ping pb host \<longleftrightarrow> host \<noteq> [] \<and> pb_ping pb host"

definition ssh_check :: "probes \<Rightarrow> string \<Rightarrow> int \<Rightarrow> bool" where
  "ssh_check pb host port \<longleftrightarrow> host \<noteq> [] \<and> pb_tcp pb host port"

definition netconf_check :: "probes \<Rightarrow> string \<Rightarrow> bool" where
  "netconf_check pb host \<longleftrightarrow> host \<noteq> [] \<and> pb_tcp pb host 830"

definition build_snmp_config :: "snmp_credential option \<Rightarrow> snmp_config option" where
  "build_snmp_config cr = map_option (\<lambda>c. \<lparr>
     sg_version = (if sn_version c = [] then ''v2c'' else sn_version c),
     sg_port = (if sn_port c = 0 then 161 else sn_port c),
     sg_community = (if text_true (sn_community c) then or_empty (sn_community c) else ''public''),
     sg_level = sn_level c, sg_username = sn_username c, sg_auth_protocol = sn_auth_protocol c,
     sg_auth_key = sn_auth_key c, sg_priv_protocol = sn_priv_protocol c, sg_priv_key = sn_priv_key c\<rparr>) cr"

definition snmp_check :: "probes \<Rightarrow> string \<Rightarrow> snmp_config \<Rightarrow> exn + bool" where
  "snmp_check pb host g =
     (if host = [] then Inr False
      else let version = lower (if sg_version g = [] then ''v2c'' else sg_version g);
               port = (if sg_port g = 0 then 161 else sg_port g)
        in pb_snmp pb host (version = ''v2c'') (sg_community g) port)"

section \<open>Measuring\<close>

record checks =
  ck_ping :: bool
  ck_snmp :: bool
  ck_ssh :: bool
  ck_netconf :: bool

record reach_result =
  rr_device :: uid
  rr_hostname :: string
  rr_ip :: "string option"
  rr_statuses :: "(string \<times> bool) list"

record measurement =
  ms_checked :: moment
  ms_total :: int
  ms_reachable :: int
  ms_unreachable :: int
  ms_results :: "reach_result list"

text \<open>
  The credentials of a site are looked up once: the caches map a site to the row found, or to
  none.
\<close>

type_synonym caches = "(uid \<times> snmp_credential option) list \<times> (uid \<times> credential option) list"

definition cached :: "(uid \<Rightarrow> 'c option) \<Rightarrow> uid \<Rightarrow> (uid \<times> 'c option) list \<Rightarrow> 'c option \<times> (uid \<times> 'c option) list" where
  "cached look site cache =
     (case map_of cache site of
        Some r \<Rightarrow> (r, cache)
      | None \<Rightarrow> (look site, dict_put site (look site) cache))"

definition snmp_of_site :: "snmp_credential list \<Rightarrow> uid \<Rightarrow> snmp_credential option" where
  "snmp_of_site cs site = first_row (\<lambda>c. sn_site c = site) cs"

definition ssh_of_site :: "credential list \<Rightarrow> uid \<Rightarrow> credential option" where
  "ssh_of_site cs site = first_row (\<lambda>c. cr_site c = site) cs"

definition snmp_status :: "probes \<Rightarrow> device \<Rightarrow> snmp_credential option \<Rightarrow> exn + bool" where
  "snmp_status pb dev cr = (case build_snmp_config cr of None \<Rightarrow> Inr False | Some g \<Rightarrow> snmp_check pb (dev_ip dev) g)"

definition ssh_status :: "probes \<Rightarrow> device \<Rightarrow> credential option \<Rightarrow> bool" where
  "ssh_status pb dev cr = ssh_check pb (dev_ip dev) (case cr of None \<Rightarrow> 22 | Some c \<Rightarrow> cr_port c)"

definition measure_device ::
  "probes \<Rightarrow> snmp_credential list \<Rightarrow> credential list \<Rightarrow> checks \<Rightarrow> device \<Rightarrow> caches \<Rightarrow> exn + (reach_result \<times> caches)"
where
  "measure_device pb snmps sshs ck dev ca =
     (let site = dev_site dev;
          (snmp, c1) = (if ck_snmp ck then cached (snmp_of_site snmps) site (fst ca) else (None, fst ca));
          (ssh, c2) = (if ck_ssh ck then cached (ssh_of_site sshs) site (snd ca) else (None, snd ca))
      in bind_res (if ck_snmp ck then bind_res (snmp_status pb dev snmp) (\<lambda>v. Inr [(''snmp'', v)]) else Inr []) (\<lambda>sn.
         Inr (\<lparr>rr_device = dev_id dev, rr_hostname = dev_name dev,
             rr_ip = (if dev_ip dev = [] then None else Some (dev_ip dev)),
             rr_statuses = (if ck_ping ck then [(''ping'', ping pb (dev_ip dev))] else []) @ sn @
               (if ck_ssh ck then [(''ssh'', ssh_status pb dev ssh)] else []) @
               (if ck_netconf ck then [(''netconf'', netconf_check pb (dev_ip dev))] else [])\<rparr>, (c1, c2))))"

fun measure_devices ::
  "probes \<Rightarrow> snmp_credential list \<Rightarrow> credential list \<Rightarrow> checks \<Rightarrow> device list \<Rightarrow> caches \<Rightarrow> exn + reach_result list"
where
  "measure_devices pb snmps sshs ck [] ca = Inr []"
| "measure_devices pb snmps sshs ck (v # vs) ca =
     bind_res (measure_device pb snmps sshs ck v ca) (\<lambda>(r, ca).
       bind_res (measure_devices pb snmps sshs ck vs ca) (\<lambda>rs. Inr (r # rs)))"

definition reachable :: "reach_result \<Rightarrow> bool" where
  "reachable r \<longleftrightarrow> rr_statuses r \<noteq> [] \<and> list_all snd (rr_statuses r)"

text \<open>
  \<^verbatim>\<open>measure\<close>: the summary is assigned inside the loop, so that it has no value when
  there is no device.
\<close>

definition measure :: "probes \<Rightarrow> moment \<Rightarrow> snmp_credential list \<Rightarrow> credential list \<Rightarrow> checks \<Rightarrow> device list \<Rightarrow> exn + measurement" where
  "measure pb now snmps sshs ck vs =
     bind_res (measure_devices pb snmps sshs ck vs ([], [])) (\<lambda>rs.
       if vs = [] then Inl (UnboundLocalError (''cannot access local variable '' @ py_repr_str ''summary'' @ '' where it is not associated with a value''))
       else Inr \<lparr>ms_checked = now, ms_total = int (length rs), ms_reachable = int (length (filter reachable rs)),
         ms_unreachable = int (length (filter (\<lambda>r. \<not> reachable r) rs)), ms_results = rs\<rparr>)"

section \<open>Keeping a measurement\<close>

definition set_statuses :: "moment \<Rightarrow> (string \<times> bool) list \<Rightarrow> runtime \<Rightarrow> runtime" where
  "set_statuses now sts r =
     (let pick = (\<lambda>k old. case map_of sts k of None \<Rightarrow> old | Some v \<Rightarrow> v)
      in r\<lparr>rt_ping := pick ''ping'' (rt_ping r), rt_snmp := pick ''snmp'' (rt_snmp r), rt_ssh := pick ''ssh'' (rt_ssh r),
         rt_netconf := pick ''netconf'' (rt_netconf r), rt_last_check := Some now\<rparr>)"

text \<open>
  \<^verbatim>\<open>persist\<close>: one row after the other, not in a transaction, so that an exception
  leaves the rows written before it.
\<close>

fun persist_results :: "moment \<Rightarrow> reach_result list \<Rightarrow> db \<Rightarrow> db \<times> exn option" where
  "persist_results now [] d = (d, None)"
| "persist_results now (r # rs) d =
     (case find_device d (rr_device r) of
        None \<Rightarrow> (d, Some (DoesNotExist ''Device matching query does not exist.''))
      | Some v \<Rightarrow> persist_results now rs (touch_runtime (dev_id v) (set_statuses now (rr_statuses r)) d))"

definition persist_measurement :: "measurement \<Rightarrow> db \<Rightarrow> db \<times> exn option" where
  "persist_measurement m d = persist_results (ms_checked m) (ms_results m) d"

section \<open>The caches do not show\<close>

definition cache_ok :: "(uid \<Rightarrow> 'c option) \<Rightarrow> (uid \<times> 'c option) list \<Rightarrow> bool" where
  "cache_ok look cache \<longleftrightarrow> (\<forall>site r. map_of cache site = Some r \<longrightarrow> r = look site)"

lemma cached_value: "cache_ok look cache \<Longrightarrow> fst (cached look site cache) = look site \<and> cache_ok look (snd (cached look site cache))"
  by (auto simp: cached_def cache_ok_def split: option.splits)

definition direct_result :: "probes \<Rightarrow> snmp_credential list \<Rightarrow> credential list \<Rightarrow> checks \<Rightarrow> device \<Rightarrow> exn + reach_result" where
  "direct_result pb snmps sshs ck dev =
     bind_res (measure_device pb snmps sshs ck dev ([], [])) (\<lambda>(r, _). Inr r)"

lemma measure_device_direct:
  assumes "cache_ok (snmp_of_site snmps) (fst ca)" and "cache_ok (ssh_of_site sshs) (snd ca)"
  shows "case measure_device pb snmps sshs ck dev ca of
      Inl e \<Rightarrow> direct_result pb snmps sshs ck dev = Inl e
    | Inr (r, ca') \<Rightarrow> direct_result pb snmps sshs ck dev = Inr r
        \<and> cache_ok (snmp_of_site snmps) (fst ca') \<and> cache_ok (ssh_of_site sshs) (snd ca')"
proof -
  have empty: "fst (cached look site []) = look site" for look :: "uid \<Rightarrow> 'c option" and site
    by (simp add: cached_def)
  note c = cached_value [OF assms(1), of "dev_site dev"] cached_value [OF assms(2), of "dev_site dev"]
  show ?thesis
    using c assms empty [of "snmp_of_site snmps" "dev_site dev"] empty [of "ssh_of_site sshs" "dev_site dev"]
    by (cases "ck_snmp ck"; cases "ck_ssh ck"; cases "snmp_status pb dev (snmp_of_site snmps (dev_site dev))")
      (auto simp: direct_result_def measure_device_def case_prod_unfold Let_def)
qed

fun all_res :: "('e + 'a) list \<Rightarrow> 'e + 'a list" where
  "all_res [] = Inr []"
| "all_res (r # rs) = bind_res r (\<lambda>x. bind_res (all_res rs) (\<lambda>xs. Inr (x # xs)))"

lemma measure_devices_direct:
  "cache_ok (snmp_of_site snmps) (fst ca) \<Longrightarrow> cache_ok (ssh_of_site sshs) (snd ca) \<Longrightarrow>
     measure_devices pb snmps sshs ck vs ca = all_res (map (direct_result pb snmps sshs ck) vs)"
proof (induction vs arbitrary: ca)
  case (Cons v vs)
  show ?case
    using measure_device_direct [OF Cons.prems, of pb ck v] Cons.IH
    by (cases "measure_device pb snmps sshs ck v ca") (auto simp: bind_res_def split: sum.splits)
qed simp

end
