(* ===== verification/ConfigStore.thy ===== *)
theory ConfigStore
  imports SyncDevice
begin

text \<open>
  Keeping configurations only when they changed:
  \<^verbatim>\<open>dcim/services/configuration_persistence_service.py\<close> and the backup worker
  \<^verbatim>\<open>automation/workers/backup_worker.py\<close> over it. The digest is the parameter of the
  synchronisation.
\<close>

section \<open>Normal form of a configuration\<close>

definition volatile :: "string \<Rightarrow> bool" where
  "volatile line \<longleftrightarrow> startswith line ''! Last configuration change'' \<or> startswith line ''!Time''"

definition normalize_config :: "string \<Rightarrow> string" where
  "normalize_config txt =
     strip (join [char_of (10 :: nat)] (map rstrip (filter (\<lambda>l. \<not> volatile l) (splitlines txt))))"

definition hash_config :: "device_env \<Rightarrow> string \<Rightarrow> string" where
  "hash_config env txt = se_sha256 (de_sync env) txt"

definition new_config :: "device_env \<Rightarrow> uid \<Rightarrow> string \<Rightarrow> config" where
  "new_config env dev source = \<lparr>cf_id = de_config_id env, cf_device = dev, cf_text = [], cf_collected = de_clock env,
     cf_source = source, cf_hash = [], cf_previous = None, cf_success = True, cf_error = None\<rparr>"

text \<open>
  \<^verbatim>\<open>persist\<close>: the row that was created, if one was, and the table. A failure is
  always a row; a success is one unless the latest row has the same digest.
\<close>

definition persist_failure :: "device_env \<Rightarrow> uid \<Rightarrow> string \<Rightarrow> string option \<Rightarrow> config list \<Rightarrow> config \<times> config list" where
  "persist_failure env dev source err cs =
     (let c = (new_config env dev source)\<lparr>cf_success := False, cf_error := err\<rparr> in (c, cs @ [c]))"

definition persist_config :: "device_env \<Rightarrow> uid \<Rightarrow> string \<Rightarrow> string \<Rightarrow> config list \<Rightarrow> config option \<times> config list" where
  "persist_config env dev source txt cs =
     (let body = normalize_config txt; h = hash_config env body; latest = latest_config dev cs
      in if (case latest of None \<Rightarrow> False | Some l \<Rightarrow> cf_hash l = h) then (None, cs)
         else let c = (new_config env dev source)\<lparr>cf_text := body, cf_hash := h, cf_previous := map_option cf_id latest\<rparr>
           in (Some c, cs @ [c]))"

section \<open>The backup worker\<close>

record artifact =
  bk_device :: uid
  bk_hostname :: string
  bk_success :: bool
  bk_stored :: bool
  bk_config :: "uid option"
  bk_error :: "string option"

text \<open>
  One device: a session of its own (no check of the driver), one command, and the row. Every
  exception is recorded as a failure.
\<close>

definition fetch_config :: "network \<Rightarrow> db \<Rightarrow> device \<Rightarrow> exn + string" where
  "fetch_config nw d dev =
     bind_res (build_ssh_params nw d dev) (\<lambda>p. bind_res (nw_connect nw 0 p) (\<lambda>s. s ''show running-config''))"

definition backup_device :: "device_env \<Rightarrow> network \<Rightarrow> string \<Rightarrow> db \<Rightarrow> device \<Rightarrow> config list \<Rightarrow> artifact \<times> config list" where
  "backup_device env nw source d dev cs =
     (case fetch_config nw d dev of
        Inr txt \<Rightarrow>
          (let (c, cs) = persist_config env (dev_id dev) source txt cs
           in (\<lparr>bk_device = dev_id dev, bk_hostname = dev_name dev, bk_success = True, bk_stored = (c \<noteq> None),
                bk_config = map_option cf_id c, bk_error = None\<rparr>, cs))
      | Inl e \<Rightarrow>
          (\<lparr>bk_device = dev_id dev, bk_hostname = dev_name dev, bk_success = False, bk_stored = False,
             bk_config = None, bk_error = Some (exn_str e)\<rparr>,
           snd (persist_failure env (dev_id dev) source (Some (exn_str e)) cs)))"

definition backup_source :: "uid option \<Rightarrow> string" where
  "backup_source creator = (if creator = None then ''scheduled'' else ''manual'')"

fun execute_backup ::
  "(uid \<Rightarrow> device_env) \<Rightarrow> network \<Rightarrow> string \<Rightarrow> db \<Rightarrow> device list \<Rightarrow> config list \<Rightarrow> artifact list \<times> config list"
where
  "execute_backup envs nw source d [] cs = ([], cs)"
| "execute_backup envs nw source d (v # vs) cs =
     (let (a, cs) = backup_device (envs (dev_id v)) nw source d v cs;
          (as, cs) = execute_backup envs nw source d vs cs
      in (a # as, cs))"

section \<open>What is kept\<close>

lemma latest_append:
  "latest_config dev (cs @ [c]) =
     (if cf_device c \<noteq> dev then latest_config dev cs
      else case latest_config dev cs of None \<Rightarrow> Some c | Some b \<Rightarrow> if cf_collected b \<le> cf_collected c then Some c else Some b)"
  by (auto simp: latest_config_def split: option.split)

lemma latest_device: "latest_config dev cs = Some c \<Longrightarrow> c \<in> set cs \<and> cf_device c = dev"
proof (induction cs arbitrary: c rule: rev_induct)
  case (snoc x cs)
  then show ?case by (auto simp: latest_append split: if_splits option.splits)
qed (simp add: latest_config_def)

text \<open>
  A configuration is kept once: when the same configuration is read again, up to the volatile
  lines and white space at the ends of its lines, the second call stores nothing, whether the first
  one stored a row or not. The clock is taken not to run backwards and the digest to stay the same
  function.
\<close>

theorem unchanged_config_skipped:
  assumes "normalize_config t1 = normalize_config t2" and "\<forall>c \<in> set cs. cf_collected c \<le> de_clock env1"
    and "hash_config env2 = hash_config env1"
  shows "let cs1 = snd (persist_config env1 dev s1 t1 cs) in persist_config env2 dev s2 t2 cs1 = (None, cs1)"
proof (cases "\<exists>l. latest_config dev cs = Some l \<and> cf_hash l = hash_config env1 (normalize_config t1)")
  case True
  with assms show ?thesis by (auto simp: persist_config_def Let_def)
next
  case False
  let ?c = "(new_config env1 dev s1)\<lparr>cf_text := normalize_config t1, cf_hash := hash_config env1 (normalize_config t1),
    cf_previous := map_option cf_id (latest_config dev cs)\<rparr>"
  have p: "persist_config env1 dev s1 t1 cs = (Some ?c, cs @ [?c])"
    using False by (auto simp: persist_config_def Let_def split: option.split)
  have "latest_config dev (cs @ [?c]) = Some ?c"
    using assms(2) latest_device [of dev cs] by (auto simp: latest_append new_config_def split: option.split)
  then show ?thesis using assms(1,3) unfolding p by (simp add: persist_config_def Let_def)
qed

definition demo_config_env :: device_env where
  "demo_config_env = \<lparr>de_sync = \<lparr>se_now = 9, se_module_id = (\<lambda>n s. 1), se_iface_id = (\<lambda>n. 1), se_fsm = (\<lambda>t r. PyNone),
     se_sha256 = (\<lambda>s. CHR ''#'' # s)\<rparr>, de_topo = \<lparr>te_now = 9, te_id = (\<lambda>k. 1)\<rparr>, de_config_id = 5, de_clock = 9\<rparr>"

theorem unchanged_config_skipped_witness:
  "let cs1 = snd (persist_config demo_config_env 1 ''ssh'' ''hostname a'' [])
   in persist_config demo_config_env 1 ''ssh'' ''hostname a  '' cs1 = (None, cs1) \<and> length cs1 = 1"
proof -
  have same: "normalize_config ''hostname a'' = normalize_config ''hostname a  ''" by code_simp
  have "length (snd (persist_config demo_config_env 1 ''ssh'' ''hostname a'' [])) = 1"
    by (simp add: persist_config_def latest_config_def Let_def)
  with unchanged_config_skipped [OF same, of "[]" demo_config_env demo_config_env 1 "''ssh''" "''ssh''"]
  show ?thesis by (simp add: Let_def)
qed

text \<open>
  After a failure the same configuration is stored again, since the row of the failure has the
  empty digest and is the latest row.
\<close>

lemma failure_forgets_config:
  assumes "\<forall>c \<in> set cs. cf_collected c \<le> de_clock env1" and "\<And>t. hash_config env2 t \<noteq> []"
  shows "fst (persist_config env2 dev s2 txt (snd (persist_failure env1 dev s1 err cs))) \<noteq> None"
proof -
  let ?f = "(new_config env1 dev s1)\<lparr>cf_success := False, cf_error := err\<rparr>"
  have "latest_config dev (cs @ [?f]) = Some ?f"
    using assms(1) latest_device [of dev cs] by (auto simp: latest_append new_config_def split: option.split)
  moreover have "[] \<noteq> hash_config env2 (normalize_config txt)" using assms(2) by metis
  ultimately show ?thesis by (auto simp: persist_failure_def persist_config_def Let_def new_config_def)
qed

end
