(* ===== verification/AutoJobs.thy ===== *)
theory AutoJobs
  imports Reachability ConfigStore
begin

text \<open>
  The jobs of \<^verbatim>\<open>automation/\<close>: creating a job with its run
  (\<^verbatim>\<open>application/job_service.py\<close>), dispatching it
  (\<^verbatim>\<open>job_dispatcher.py\<close>), the tasks that run it
  (\<^verbatim>\<open>tasks/__init__.py\<close>), its result (\<^verbatim>\<open>job_result_service.py\<close>)
  and the cleanup of old runs. The queue is the list of the identifiers of the runs delayed.
\<close>

section \<open>Jobs and runs\<close>

record auto_job =
  jb_id :: uid
  jb_type :: string
  jb_status :: string
  jb_creator :: "uid option"

datatype run_result = NoResult | Measured measurement | Backups "artifact list" | ErrorText string

record job_run =
  rn_id :: uid
  rn_job :: uid
  rn_devices :: "uid list"
  rn_status :: string
  rn_checks :: "checks option"
  rn_result :: run_result
  rn_started :: "moment option"
  rn_finished :: "moment option"
  rn_created :: moment

text \<open>The settings that the scheduled reachability job reads, and its last run.\<close>

record reach_settings =
  rs_checks :: checks
  rs_interval :: int
  rs_last_run :: "moment option"

record automation =
  au_jobs :: "auto_job list"
  au_runs :: "job_run list"
  au_queue :: "uid list"
  au_settings :: reach_settings
  au_store :: store

record auto_env =
  ax_now :: moment
  ax_end :: moment
  ax_job_id :: uid
  ax_run_id :: uid
  ax_probes :: probes
  ax_snmp :: "snmp_credential list"
  ax_network :: network
  ax_devices :: "uid \<Rightarrow> device_env"

definition find_run :: "automation \<Rightarrow> uid \<Rightarrow> job_run option" where
  "find_run a i = first_row (\<lambda>r. rn_id r = i) (au_runs a)"

definition find_job :: "automation \<Rightarrow> uid \<Rightarrow> auto_job option" where
  "find_job a i = first_row (\<lambda>j. jb_id j = i) (au_jobs a)"

definition set_run :: "uid \<Rightarrow> (job_run \<Rightarrow> job_run) \<Rightarrow> automation \<Rightarrow> automation" where
  "set_run i f a = a\<lparr>au_runs := update_where (\<lambda>r. rn_id r = i) f (au_runs a)\<rparr>"

definition set_job :: "uid \<Rightarrow> (auto_job \<Rightarrow> auto_job) \<Rightarrow> automation \<Rightarrow> automation" where
  "set_job i f a = a\<lparr>au_jobs := update_where (\<lambda>j. jb_id j = i) f (au_jobs a)\<rparr>"

section \<open>Creating and dispatching\<close>

definition create_job :: "auto_env \<Rightarrow> string \<Rightarrow> uid option \<Rightarrow> uid list \<Rightarrow> checks option \<Rightarrow> automation \<Rightarrow> automation" where
  "create_job env type creator devices cks a =
     a\<lparr>au_jobs := au_jobs a @ [\<lparr>jb_id = ax_job_id env, jb_type = type, jb_status = ''pending'', jb_creator = creator\<rparr>],
       au_runs := au_runs a @ [\<lparr>rn_id = ax_run_id env, rn_job = ax_job_id env, rn_devices = devices, rn_status = ''pending'',
         rn_checks = cks, rn_result = NoResult, rn_started = None, rn_finished = None, rn_created = ax_now env\<rparr>]\<rparr>"

definition create_backup_job :: "auto_env \<Rightarrow> uid option \<Rightarrow> uid list \<Rightarrow> automation \<Rightarrow> automation" where
  "create_backup_job env creator devices a = create_job env ''config_backup'' creator devices None a"

definition create_reachability_job :: "auto_env \<Rightarrow> uid option \<Rightarrow> uid list \<Rightarrow> checks option \<Rightarrow> automation \<Rightarrow> automation" where
  "create_reachability_job env creator devices cks a = create_job env ''reachability'' creator devices cks a"

definition dispatch :: "uid \<Rightarrow> automation \<Rightarrow> automation" where
  "dispatch i a = (set_run i (\<lambda>r. r\<lparr>rn_status := ''queued''\<rparr>) a)\<lparr>au_queue := au_queue a @ [i]\<rparr>"

section \<open>Results\<close>

definition finalize_success :: "uid \<Rightarrow> uid \<Rightarrow> run_result \<Rightarrow> automation \<Rightarrow> automation" where
  "finalize_success i job res a =
     set_job job (\<lambda>j. j\<lparr>jb_status := ''success''\<rparr>) (set_run i (\<lambda>r. r\<lparr>rn_status := ''success'', rn_result := res\<rparr>) a)"

definition finalize_failure :: "uid \<Rightarrow> uid \<Rightarrow> exn \<Rightarrow> automation \<Rightarrow> automation" where
  "finalize_failure i job e a =
     set_job job (\<lambda>j. j\<lparr>jb_status := ''failed''\<rparr>) (set_run i (\<lambda>r. r\<lparr>rn_status := ''failed'', rn_result := ErrorText (exn_str e)\<rparr>) a)"

section \<open>The tasks\<close>

definition start_run :: "auto_env \<Rightarrow> uid \<Rightarrow> automation \<Rightarrow> automation" where
  "start_run env i a = set_run i (\<lambda>r. r\<lparr>rn_status := ''running'', rn_started := Some (ax_now env)\<rparr>) a"

definition end_run :: "auto_env \<Rightarrow> uid \<Rightarrow> automation \<Rightarrow> automation" where
  "end_run env i a = set_run i (\<lambda>r. r\<lparr>rn_finished := Some (ax_end env)\<rparr>) a"

definition run_devices :: "automation \<Rightarrow> job_run \<Rightarrow> device list" where
  "run_devices a r = filter (\<lambda>v. dev_id v \<in> set (rn_devices r)) (t_devices (st_db (au_store a)))"

text \<open>The checks of a run without parameters: ping and SNMP.\<close>

definition run_checks :: "job_run \<Rightarrow> checks" where
  "run_checks r = (case rn_checks r of Some c \<Rightarrow> c
     | None \<Rightarrow> \<lparr>ck_ping = True, ck_snmp = True, ck_ssh = False, ck_netconf = False\<rparr>)"

definition set_db :: "db \<Rightarrow> automation \<Rightarrow> automation" where
  "set_db d a = a\<lparr>au_store := (au_store a)\<lparr>st_db := d\<rparr>\<rparr>"

definition set_configs :: "config list \<Rightarrow> automation \<Rightarrow> automation" where
  "set_configs cs a = a\<lparr>au_store := (au_store a)\<lparr>st_configs := cs\<rparr>\<rparr>"

text \<open>
  The body of a task: the result, or the exception together with what had been written. The
  exception is recorded and raised again, and the end of the run is always stored.
\<close>

definition reachability_body :: "auto_env \<Rightarrow> job_run \<Rightarrow> automation \<Rightarrow> (exn + run_result) \<times> automation" where
  "reachability_body env r a =
     (case measure (ax_probes env) (ax_now env) (ax_snmp env) (nw_credentials (ax_network env)) (run_checks r) (run_devices a r) of
        Inl e \<Rightarrow> (Inl e, a)
      | Inr m \<Rightarrow> (case persist_measurement m (st_db (au_store a)) of
            (d, Some e) \<Rightarrow> (Inl e, set_db d a)
          | (d, None) \<Rightarrow> (Inr (Measured m), set_db d a)))"

definition backup_body :: "auto_env \<Rightarrow> job_run \<Rightarrow> automation \<Rightarrow> (exn + run_result) \<times> automation" where
  "backup_body env r a =
     (let creator = (case find_job a (rn_job r) of None \<Rightarrow> None | Some j \<Rightarrow> jb_creator j);
          (arts, cs) = execute_backup (ax_devices env) (ax_network env) (backup_source creator) (st_db (au_store a)) (run_devices a r)
            (st_configs (au_store a))
      in (Inr (Backups arts), set_configs cs a))"

definition run_task ::
  "(auto_env \<Rightarrow> job_run \<Rightarrow> automation \<Rightarrow> (exn + run_result) \<times> automation) \<Rightarrow> auto_env \<Rightarrow> uid \<Rightarrow> automation \<Rightarrow> exn option \<times> automation"
where
  "run_task body env i a =
     (case find_run a i of
        None \<Rightarrow> (Some (DoesNotExist ''JobRun matching query does not exist.''), a)
      | Some r \<Rightarrow>
         (case body env r (start_run env i a) of
            (Inr res, a) \<Rightarrow> (None, end_run env i (finalize_success i (rn_job r) res a))
          | (Inl e, a) \<Rightarrow> (Some e, end_run env i (finalize_failure i (rn_job r) e a))))"

definition run_reachability_job :: "auto_env \<Rightarrow> uid \<Rightarrow> automation \<Rightarrow> exn option \<times> automation" where
  "run_reachability_job = run_task reachability_body"

definition run_backup_job :: "auto_env \<Rightarrow> uid \<Rightarrow> automation \<Rightarrow> exn option \<times> automation" where
  "run_backup_job = run_task backup_body"

section \<open>The schedules\<close>

definition tagged_active :: "db \<Rightarrow> string \<Rightarrow> device list" where
  "tagged_active d name = filter (\<lambda>v. dev_status v = ''active'' \<and>
     (\<exists>t \<in> set (t_tags d). tag_id t \<in> set (dev_tags v) \<and> tag_name t = name)) (t_devices d)"

definition start_reachability_job :: "auto_env \<Rightarrow> uid list \<Rightarrow> automation \<Rightarrow> automation" where
  "start_reachability_job env devices a =
     (let a = create_reachability_job env None devices (Some (rs_checks (au_settings a))) a;
          a = a\<lparr>au_settings := (au_settings a)\<lparr>rs_last_run := Some (ax_now env)\<rparr>\<rparr>
      in dispatch (ax_run_id env) a)"

definition run_scheduled_reachability :: "auto_env \<Rightarrow> automation \<Rightarrow> automation" where
  "run_scheduled_reachability env a =
     (let vs = tagged_active (st_db (au_store a)) ''reachability_check_tag''
      in if vs = [] then a else start_reachability_job env (map dev_id vs) a)"

definition run_scheduled_config_backup :: "auto_env \<Rightarrow> automation \<Rightarrow> automation" where
  "run_scheduled_config_backup env a =
     (let vs = tagged_active (st_db (au_store a)) ''config_backup_tag''
      in if vs = [] then a else dispatch (ax_run_id env) (create_backup_job env None (map dev_id vs) a))"

text \<open>
  \<^verbatim>\<open>cleanup_reachability_history\<close>: the identifiers of the jobs are a query over the
  runs that is evaluated when the jobs are deleted, after the runs have gone. Deleting a job takes
  its runs with it.
\<close>

definition old_run :: "moment \<Rightarrow> automation \<Rightarrow> job_run \<Rightarrow> bool" where
  "old_run cutoff a r \<longleftrightarrow> rn_created r < cutoff \<and>
     (case find_job a (rn_job r) of None \<Rightarrow> False | Some j \<Rightarrow> jb_type j = ''reachability'')"

definition delete_jobs :: "(auto_job \<Rightarrow> bool) \<Rightarrow> automation \<Rightarrow> automation" where
  "delete_jobs p a = a\<lparr>au_jobs := filter (\<lambda>j. \<not> p j) (au_jobs a),
     au_runs := filter (\<lambda>r. \<not> (\<exists>j \<in> set (au_jobs a). p j \<and> jb_id j = rn_job r)) (au_runs a)\<rparr>"

definition cleanup_reachability_history :: "auto_env \<Rightarrow> int \<Rightarrow> automation \<Rightarrow> automation" where
  "cleanup_reachability_history env days a =
     (let cutoff = ax_now env - days * 86400;
          a = a\<lparr>au_runs := filter (\<lambda>r. \<not> old_run cutoff a r) (au_runs a)\<rparr>;
          job_ids = map rn_job (filter (old_run cutoff a) (au_runs a))
      in delete_jobs (\<lambda>j. jb_id j \<in> set job_ids \<and> jb_type j = ''reachability'') a)"

section \<open>What the tasks guarantee\<close>

lemma set_run_simps [simp]:
  "au_jobs (set_run i f a) = au_jobs a" "au_store (set_run i f a) = au_store a"
  "au_runs (set_job i g a) = au_runs a" "au_store (set_job i g a) = au_store a"
  by (simp_all add: set_run_def set_job_def)

lemma find_run_set:
  assumes "\<And>r. rn_id (f r) = rn_id r"
  shows "find_run (set_run i f a) k = (if k = i then map_option f (find_run a k) else find_run a k)"
proof -
  have "first_row (\<lambda>r. rn_id r = k) (update_where (\<lambda>r. rn_id r = i) f rs) =
      (if k = i then map_option f (first_row (\<lambda>r. rn_id r = k) rs) else first_row (\<lambda>r. rn_id r = k) rs)" for rs
    using assms by (induction rs) (auto simp: update_where_def)
  then show ?thesis by (simp add: find_run_def set_run_def)
qed

lemma body_keeps_runs:
  "au_runs (snd (reachability_body env r a)) = au_runs a" "au_runs (snd (backup_body env r a)) = au_runs a"
  "au_jobs (snd (reachability_body env r a)) = au_jobs a" "au_jobs (snd (backup_body env r a)) = au_jobs a"
  by (auto simp: reachability_body_def backup_body_def set_db_def set_configs_def Let_def split: sum.splits prod.splits option.splits)

text \<open>
  A run that a task was given is over afterwards: it succeeded without an exception or failed with
  the exception that the task raises, and its start and its end are stored.
\<close>

lemma run_task_ends:
  assumes "find_run a i = Some r" and "run_task body env i a = (e, a')"
    and "\<And>r a. au_runs (snd (body env r a)) = au_runs a"
  shows "\<exists>q. find_run a' i = Some q \<and> rn_started q = Some (ax_now env) \<and> rn_finished q = Some (ax_end env)
    \<and> (case e of None \<Rightarrow> rn_status q = ''success'' | Some x \<Rightarrow> rn_status q = ''failed'' \<and> rn_result q = ErrorText (exn_str x))"
proof -
  obtain res b where body: "body env r (start_run env i a) = (res, b)" by (cases "body env r (start_run env i a)")
  then have runs: "au_runs b = au_runs (start_run env i a)" using assms(3) by (metis snd_conv)
  have "find_run b i = find_run (start_run env i a) i" by (simp add: find_run_def runs)
  also have "\<dots> = Some (r\<lparr>rn_status := ''running'', rn_started := Some (ax_now env)\<rparr>)"
    using assms(1) by (simp add: start_run_def find_run_set)
  finally have b: "find_run b i = Some (r\<lparr>rn_status := ''running'', rn_started := Some (ax_now env)\<rparr>)" .
  have job: "find_run (set_job j g c) k = find_run c k" for j g c k by (simp add: find_run_def)
  show ?thesis
    using assms(1,2) body b
    by (cases res) (auto simp: run_task_def end_run_def finalize_success_def finalize_failure_def find_run_set job)
qed

end
