(* ===== verification/AutoJobsProps.thy ===== *)
theory AutoJobsProps
  imports AutoJobs
begin

text \<open>
  What the jobs guarantee: a reachability run stores exactly what the probes answered, the
  runtime statuses being one more table by key; a run that was started is over afterwards; and
  the cleanup of old runs never deletes a job.
\<close>

section \<open>A reachability run\<close>

type_synonym status_write = "moment \<times> (string \<times> bool) list"

definition make_status :: "uid \<Rightarrow> status_write \<Rightarrow> runtime" where
  "make_status i w = set_statuses (fst w) (snd w) (new_runtime i)"

definition change_status :: "status_write \<Rightarrow> runtime \<Rightarrow> runtime" where
  "change_status w r = set_statuses (fst w) (snd w) r"

definition put_status :: "uid \<Rightarrow> status_write \<Rightarrow> runtime list \<Rightarrow> runtime list" where
  "put_status i w rs = upsert (\<lambda>r. rt_device r = i) (make_status i w) (change_status w) rs"

interpretation runtime_table: keyed_table rt_device make_status change_status put_status
  by unfold_locales (simp_all add: make_status_def change_status_def put_status_def set_statuses_def new_runtime_def Let_def)

lemma persist_results_puts:
  "persist_results now rs d = (d', None) \<Longrightarrow>
     t_runtimes d' = put_all put_status (map (\<lambda>r. (rr_device r, (now, rr_statuses r))) rs) (t_runtimes d)"
proof (induction rs arbitrary: d)
  case (Cons r rs)
  then obtain v where v: "find_device d (rr_device r) = Some v"
    and rest: "persist_results now rs (touch_runtime (dev_id v) (set_statuses now (rr_statuses r)) d) = (d', None)"
    by (auto split: option.splits)
  from v have "dev_id v = rr_device r" by (auto simp: find_device_def dest: first_row_Some)
  then have "t_runtimes (touch_runtime (dev_id v) (set_statuses now (rr_statuses r)) d) =
      put_status (rr_device r) (now, rr_statuses r) (t_runtimes d)"
    by (simp add: touch_runtime_def put_status_def make_status_def [abs_def] change_status_def [abs_def])
  with Cons.IH [OF rest] show ?case by simp
qed simp

lemma all_res_Inr: "all_res rs = Inr xs \<longleftrightarrow> rs = map Inr xs"
  by (induction rs arbitrary: xs) (auto simp: bind_res_eq_Inr)

lemma measure_direct:
  assumes "measure pb now snmps sshs ck vs = Inr m"
  shows "map (direct_result pb snmps sshs ck) vs = map Inr (ms_results m)" and "ms_checked m = now"
    and "ms_total m = int (length vs)" and "ms_reachable m + ms_unreachable m = ms_total m"
proof -
  obtain rs where "measure_devices pb snmps sshs ck vs ([], []) = Inr rs"
    and m: "m = \<lparr>ms_checked = now, ms_total = int (length rs), ms_reachable = int (length (filter reachable rs)),
      ms_unreachable = int (length (filter (\<lambda>r. \<not> reachable r) rs)), ms_results = rs\<rparr>"
    using assms by (auto simp: measure_def bind_res_eq_Inr split: if_splits)
  then have "all_res (map (direct_result pb snmps sshs ck) vs) = Inr rs"
    using measure_devices_direct [of snmps "([], [])" sshs pb ck vs] by (simp add: cache_ok_def)
  then have rs: "map (direct_result pb snmps sshs ck) vs = map Inr rs" by (simp add: all_res_Inr)
  then have "length rs = length vs" by (metis length_map)
  moreover have "length (filter reachable rs) + length (filter (\<lambda>r. \<not> reachable r) rs) = length rs"
    by (rule sum_length_filter_compl)
  ultimately show "map (direct_result pb snmps sshs ck) vs = map Inr (ms_results m)" "ms_checked m = now"
    "ms_total m = int (length vs)" "ms_reachable m + ms_unreachable m = ms_total m"
    using rs by (simp_all add: m)
qed

text \<open>The statuses of a device, one by one.\<close>

lemma direct_statuses:
  assumes "direct_result pb snmps sshs ck v = Inr r"
  shows "rr_device r = dev_id v"
    and "map_of (rr_statuses r) ''ping'' = (if ck_ping ck then Some (ping pb (dev_ip v)) else None)"
    and "map_of (rr_statuses r) ''ssh'' = (if ck_ssh ck then Some (ssh_status pb v (ssh_of_site sshs (dev_site v))) else None)"
    and "map_of (rr_statuses r) ''netconf'' = (if ck_netconf ck then Some (netconf_check pb (dev_ip v)) else None)"
    and "ck_snmp ck \<Longrightarrow> \<exists>b. snmp_status pb v (snmp_of_site snmps (dev_site v)) = Inr b \<and> map_of (rr_statuses r) ''snmp'' = Some b"
  using assms
  by (auto simp: direct_result_def measure_device_def bind_res_eq_Inr Let_def cached_def split: if_splits)

text \<open>
  C19. A reachability run that ends without an exception stores, for every device of the run, what
  the probes answered for it: each selected check in its field, the SSH port and the SNMP
  credentials taken from the site of the device (although they are looked up once per site and
  cached), and the time of the measurement.
\<close>

theorem reachability_run_stores:
  assumes "find_run a i = Some r" and "run_reachability_job env i a = (None, a')"
    and "distinct (map dev_id (t_devices (st_db (au_store a))))" and "v \<in> set (run_devices a r)"
  shows "\<exists>t. row_at rt_device (t_runtimes (st_db (au_store a'))) (dev_id v) = Some t \<and> rt_last_check t = Some (ax_now env)
    \<and> (ck_ping (run_checks r) \<longrightarrow> rt_ping t = ping (ax_probes env) (dev_ip v))
    \<and> (ck_snmp (run_checks r) \<longrightarrow> snmp_status (ax_probes env) v (snmp_of_site (ax_snmp env) (dev_site v)) = Inr (rt_snmp t))
    \<and> (ck_ssh (run_checks r) \<longrightarrow>
        rt_ssh t = ssh_status (ax_probes env) v (ssh_of_site (nw_credentials (ax_network env)) (dev_site v)))
    \<and> (ck_netconf (run_checks r) \<longrightarrow> rt_netconf t = netconf_check (ax_probes env) (dev_ip v))"
proof -
  let ?d = "st_db (au_store a)" and ?ck = "run_checks r" and ?vs = "run_devices a r"
  let ?direct = "direct_result (ax_probes env) (ax_snmp env) (nw_credentials (ax_network env)) ?ck"
  obtain m d where m: "measure (ax_probes env) (ax_now env) (ax_snmp env) (nw_credentials (ax_network env)) ?ck ?vs = Inr m"
    and per: "persist_measurement m ?d = (d, None)" and a': "st_db (au_store a') = d"
    using assms(1,2)
    by (auto simp: run_reachability_job_def run_task_def reachability_body_def start_run_def run_devices_def end_run_def
      finalize_success_def set_db_def split: sum.splits prod.splits option.splits)
  note md = measure_direct [OF m]
  let ?ws = "map (\<lambda>q. (rr_device q, (ax_now env, rr_statuses q))) (ms_results m)"
  have rows: "t_runtimes d = put_all put_status ?ws (t_runtimes ?d)"
    using per persist_results_puts by (simp add: persist_measurement_def md(2))
  from assms(4) have "?direct v \<in> set (map Inr (ms_results m))" unfolding md(1) [symmetric] by simp
  then obtain q where q: "q \<in> set (ms_results m)" "?direct v = Inr q" by auto
  have "map fst ?ws = map dev_id ?vs"
  proof -
    have "map (\<lambda>x. case x of Inr q \<Rightarrow> rr_device q | Inl _ \<Rightarrow> 0) (map ?direct ?vs) = map rr_device (ms_results m)"
      by (simp add: md(1) comp_def)
    moreover have "(case ?direct w of Inr q \<Rightarrow> rr_device q | Inl _ \<Rightarrow> 0) = dev_id w" if "w \<in> set ?vs" for w
    proof -
      from that have "?direct w \<in> set (map Inr (ms_results m))" unfolding md(1) [symmetric] by simp
      then show ?thesis using direct_statuses(1) by (auto split: sum.splits)
    qed
    ultimately show ?thesis by (simp add: comp_def cong: map_cong)
  qed
  moreover have "distinct (map dev_id ?vs)" using assms(3) by (simp add: run_devices_def distinct_filter_map)
  ultimately have "distinct (map fst ?ws)" by simp
  moreover have "(dev_id v, (ax_now env, rr_statuses q)) \<in> set ?ws" using q direct_statuses(1) [OF q(2)] by force
  ultimately obtain t where "row_at rt_device (t_runtimes d) (dev_id v) = Some t"
    and "\<exists>old. t = set_statuses (ax_now env) (rr_statuses q) old"
    unfolding rows using runtime_table.row_put_all
    by (fastforce simp: make_status_def change_status_def split: option.splits)
  then show ?thesis
    using direct_statuses [OF q(2)] by (auto simp: a' set_statuses_def Let_def)
qed

definition demo_probes :: probes where
  "demo_probes = \<lparr>pb_ping = (\<lambda>h. True), pb_tcp = (\<lambda>h p. p = 830), pb_snmp = (\<lambda>h v c p. Inr True)\<rparr>"

definition demo_auto_env :: auto_env where
  "demo_auto_env = \<lparr>ax_now = 9, ax_end = 11, ax_job_id = 1, ax_run_id = 3, ax_probes = demo_probes, ax_snmp = [],
     ax_network = \<lparr>nw_credentials = [], nw_connect = (\<lambda>n p. Inl (ConnectionError ''refused''))\<rparr>,
     ax_devices = (\<lambda>i. \<lparr>de_sync = \<lparr>se_now = 9, se_module_id = (\<lambda>n s. 1), se_iface_id = (\<lambda>n. 1), se_fsm = (\<lambda>t r. PyNone),
       se_sha256 = (\<lambda>s. s)\<rparr>, de_topo = \<lparr>te_now = 9, te_id = (\<lambda>k. 1)\<rparr>, de_config_id = 5, de_clock = 9\<rparr>)\<rparr>"

definition demo_run :: job_run where
  "demo_run = \<lparr>rn_id = 3, rn_job = 1, rn_devices = [2], rn_status = ''queued'', rn_checks = None, rn_result = NoResult,
     rn_started = None, rn_finished = None, rn_created = 0\<rparr>"

definition demo_automation :: automation where
  "demo_automation = \<lparr>au_jobs = [\<lparr>jb_id = 1, jb_type = ''reachability'', jb_status = ''pending'', jb_creator = None\<rparr>],
     au_runs = [demo_run], au_queue = [],
     au_settings = \<lparr>rs_checks = \<lparr>ck_ping = True, ck_snmp = True, ck_ssh = False, ck_netconf = False\<rparr>, rs_interval = 10, rs_last_run = None\<rparr>,
     au_store = \<lparr>st_db = empty_db\<lparr>t_devices := [new_device 2 ''sw'' ''10.0.0.2'' 1 1]\<rparr>, st_configs = [], st_neighbors = []\<rparr>\<rparr>"

lemma demo_find: "find_run demo_automation 3 = Some demo_run"
  by (simp add: find_run_def demo_automation_def demo_run_def)

theorem reachability_run_stores_witness:
  "\<exists>a' t. run_reachability_job demo_auto_env 3 demo_automation = (None, a')
     \<and> row_at rt_device (t_runtimes (st_db (au_store a'))) 2 = Some t \<and> rt_ping t \<and> \<not> rt_snmp t"
proof -
  have "fst (run_reachability_job demo_auto_env 3 demo_automation) = None" by code_simp
  then obtain a' where run: "run_reachability_job demo_auto_env 3 demo_automation = (None, a')" by (metis prod.collapse)
  have "distinct (map dev_id (t_devices (st_db (au_store demo_automation))))"
    by (simp add: demo_automation_def empty_db_def)
  moreover have "new_device 2 ''sw'' ''10.0.0.2'' 1 1 \<in> set (run_devices demo_automation demo_run)"
    by (simp add: run_devices_def demo_automation_def demo_run_def empty_db_def new_device_def)
  ultimately show ?thesis
    using reachability_run_stores [OF demo_find run] run
    by (fastforce simp: run_checks_def demo_run_def demo_auto_env_def demo_probes_def ping_def snmp_status_def snmp_of_site_def
      build_snmp_config_def new_device_def)
qed

section \<open>Every run ends\<close>

text \<open>
  A run that its task was given is over afterwards, for both kinds of task and whatever
  happens on the way: it succeeded and no exception left the task, or it failed with the text of
  the exception that the task raises again; its start and its end are stored.
\<close>

theorem automation_run_ends:
  assumes "find_run a i = Some r" and "body \<in> {reachability_body, backup_body}" and "run_task body env i a = (e, a')"
  shows "\<exists>q. find_run a' i = Some q \<and> rn_started q = Some (ax_now env) \<and> rn_finished q = Some (ax_end env)
    \<and> (case e of None \<Rightarrow> rn_status q = ''success'' | Some x \<Rightarrow> rn_status q = ''failed'' \<and> rn_result q = ErrorText (exn_str x))"
  using assms(2) body_keeps_runs(1,2) run_task_ends [OF assms(1,3)] by auto

theorem automation_run_ends_witness:
  "\<exists>q. find_run (snd (run_task reachability_body demo_auto_env 3 demo_automation)) 3 = Some q \<and> rn_finished q = Some 11"
proof -
  obtain e a' where run: "run_task reachability_body demo_auto_env 3 demo_automation = (e, a')" by (metis prod.collapse)
  have "ax_end demo_auto_env = 11" by (simp add: demo_auto_env_def)
  with automation_run_ends [OF demo_find _ run] show ?thesis by (auto simp: run)
qed

section \<open>The cleanup of old runs\<close>

text \<open>
  The cleanup of the reachability history deletes the old runs and no job: the identifiers of
  their jobs are read from the runs when the runs are gone, so the jobs of deleted runs stay,
  without runs, for good.
\<close>

theorem cleanup_deletes_no_job:
  "au_jobs (cleanup_reachability_history env days a) = au_jobs a
   \<and> au_runs (cleanup_reachability_history env days a) = filter (\<lambda>r. \<not> old_run (ax_now env - days * 86400) a r) (au_runs a)"
proof -
  let ?c = "ax_now env - days * 86400"
  let ?a = "a\<lparr>au_runs := filter (\<lambda>r. \<not> old_run ?c a r) (au_runs a)\<rparr>"
  have "old_run ?c ?a r = old_run ?c a r" for r by (simp add: old_run_def find_job_def)
  then have "filter (old_run ?c ?a) (au_runs ?a) = []" by (simp add: filter_empty_conv)
  then have "cleanup_reachability_history env days a = delete_jobs (\<lambda>j. jb_id j \<in> set [] \<and> jb_type j = ''reachability'') ?a"
    unfolding cleanup_reachability_history_def Let_def by simp
  then show ?thesis by (simp add: delete_jobs_def)
qed

end
