(* ===== verification/Scheduler.thy ===== *)
theory Scheduler
  imports Tables Dcim
begin

text \<open>
  \<^verbatim>\<open>automation/services/scheduler_sync.py\<close>: every schedule of the program
  (\<^verbatim>\<open>automation/models/schedule.py\<close>) has a periodic task in the tables of the
  task scheduler, which are those of a package; of them the model keeps the columns that the
  program writes and the unique name.
\<close>

section \<open>Tables\<close>

record schedule =
  sd_id :: uid
  sd_name :: string
  sd_task :: string
  sd_enabled :: bool
  sd_type :: string
  sd_interval :: "int option"
  sd_minute :: string
  sd_hour :: string
  sd_weekday :: string
  sd_monthday :: string
  sd_month :: string
  sd_periodic :: "uid option"

record interval =
  iv_id :: uid
  iv_every :: int
  iv_period :: string

type_synonym crontab = "string \<times> string \<times> string \<times> string \<times> string"

record crontab_row =
  ct_id :: uid
  ct_fields :: crontab

record periodic =
  pt_id :: uid
  pt_name :: string
  pt_task :: string
  pt_interval :: "uid option"
  pt_crontab :: "uid option"
  pt_enabled :: bool
  pt_clocked :: "uid option"
  pt_one_off :: bool
  pt_start :: "moment option"

record beat =
  bt_schedules :: "schedule list"
  bt_intervals :: "interval list"
  bt_crontabs :: "crontab_row list"
  bt_periodic :: "periodic list"

record beat_env =
  be_now :: moment
  be_schedule_id :: uid
  be_interval_id :: uid
  be_crontab_id :: uid
  be_periodic_id :: uid

text \<open>\<^verbatim>\<open>get_or_create\<close>: the row, whether it is new, and the table.\<close>

definition get_or_create :: "('r \<Rightarrow> bool) \<Rightarrow> 'r \<Rightarrow> 'r list \<Rightarrow> exn + ('r \<times> bool \<times> 'r list)" where
  "get_or_create p new rs =
     (case filter p rs of
        [] \<Rightarrow> Inr (new, True, rs @ [new])
      | [r] \<Rightarrow> Inr (r, False, rs)
      | _ \<Rightarrow> Inl (MultipleObjectsReturned ''get() returned more than one row''))"

text \<open>
  A write that was made stays when a later statement raises: nothing here runs in a transaction. \<open>bind_in b r f\<close> runs a
  statement in the tables \<open>b\<close> and goes on with what it returns; if the statement raises, the tables stay as they are.
\<close>

definition bind_in :: "'s \<Rightarrow> 'e + 'a \<Rightarrow> ('a \<Rightarrow> ('e + 'b) \<times> 's) \<Rightarrow> ('e + 'b) \<times> 's" where
  "bind_in b r f = (case r of Inl e \<Rightarrow> (Inl e, b) | Inr x \<Rightarrow> f x)"

lemma bind_in_simps [simp]: "bind_in b (Inl e) f = (Inl e, b)" "bind_in b (Inr x) f = f x"
  by (simp_all add: bind_in_def)

lemma bind_in_Inr: "bind_in b r f = (Inr y, b') \<longleftrightarrow> (\<exists>x. r = Inr x \<and> f x = (Inr y, b'))"
  by (cases r) auto

lemma bind_in_Inl: "bind_in b r f = (Inl e, b') \<longleftrightarrow> r = Inl e \<and> b' = b \<or> (\<exists>x. r = Inr x \<and> f x = (Inl e, b'))"
  by (cases r) auto

section \<open>Displays of a schedule\<close>

definition cron_expression :: "schedule \<Rightarrow> string" where
  "cron_expression s = (if sd_type s \<noteq> ''crontab'' then ''-''
     else join '' '' [sd_minute s, sd_hour s, sd_monthday s, sd_month s, sd_weekday s])"

definition schedule_summary :: "schedule \<Rightarrow> string" where
  "schedule_summary s =
     (if sd_type s = ''interval''
      then (case sd_interval s of
          Some n \<Rightarrow> if n \<noteq> 0 then ''every '' @ int_str n @ ''s'' else ''invalid interval''
        | None \<Rightarrow> ''invalid interval'')
      else cron_expression s)"

section \<open>Synchronising one schedule\<close>

definition ensure_interval :: "beat_env \<Rightarrow> int \<Rightarrow> beat \<Rightarrow> exn + (uid \<times> beat)" where
  "ensure_interval env seconds b =
     bind_res (get_or_create (\<lambda>i. iv_every i = seconds \<and> iv_period i = ''seconds'')
         \<lparr>iv_id = be_interval_id env, iv_every = seconds, iv_period = ''seconds''\<rparr> (bt_intervals b))
       (\<lambda>(i, _, is). Inr (iv_id i, b\<lparr>bt_intervals := is\<rparr>))"

definition crontab_of :: "schedule \<Rightarrow> crontab" where
  "crontab_of s = (sd_minute s, sd_hour s, sd_weekday s, sd_monthday s, sd_month s)"

definition ensure_crontab :: "beat_env \<Rightarrow> schedule \<Rightarrow> beat \<Rightarrow> exn + (uid \<times> beat)" where
  "ensure_crontab env s b =
     bind_res (get_or_create (\<lambda>c. ct_fields c = crontab_of s) \<lparr>ct_id = be_crontab_id env, ct_fields = crontab_of s\<rparr> (bt_crontabs b))
       (\<lambda>(c, _, cs). Inr (ct_id c, b\<lparr>bt_crontabs := cs\<rparr>))"

text \<open>The interval or the crontab of a schedule, exactly one of them.\<close>

definition ensure_timing :: "beat_env \<Rightarrow> schedule \<Rightarrow> beat \<Rightarrow> exn + ((uid option \<times> uid option) \<times> beat)" where
  "ensure_timing env s b =
     (if sd_type s = ''interval''
      then (case sd_interval s of
          Some n \<Rightarrow> if 0 < n then bind_res (ensure_interval env n b) (\<lambda>(i, b). Inr ((Some i, None), b))
            else Inl (ValueError ''interval_seconds must be > 0 for interval schedules.'')
        | None \<Rightarrow> Inl (ValueError ''interval_seconds must be > 0 for interval schedules.''))
      else bind_res (ensure_crontab env s b) (\<lambda>(c, b). Inr ((None, Some c), b)))"

definition save_periodic :: "periodic \<Rightarrow> beat \<Rightarrow> exn + beat" where
  "save_periodic p b =
     (if \<exists>q \<in> set (bt_periodic b). pt_id q \<noteq> pt_id p \<and> pt_name q = pt_name p
      then Inl (IntegrityError ''django_celery_beat_periodictask_name_key'')
      else Inr (b\<lparr>bt_periodic := save_row pt_id p (bt_periodic b)\<rparr>))"

definition synced :: "beat_env \<Rightarrow> schedule \<Rightarrow> uid option \<times> uid option \<Rightarrow> periodic \<Rightarrow> periodic" where
  "synced env s timing p = p\<lparr>pt_task := sd_task s, pt_interval := fst timing, pt_crontab := snd timing,
     pt_enabled := sd_enabled s, pt_clocked := None, pt_one_off := False,
     pt_start := (case pt_start p of None \<Rightarrow> Some (be_now env) | t \<Rightarrow> t)\<rparr>"

definition new_periodic :: "beat_env \<Rightarrow> schedule \<Rightarrow> uid option \<times> uid option \<Rightarrow> periodic" where
  "new_periodic env s timing = \<lparr>pt_id = be_periodic_id env, pt_name = sd_name s, pt_task = sd_task s, pt_interval = fst timing,
     pt_crontab = snd timing, pt_enabled = sd_enabled s, pt_clocked = None, pt_one_off = False, pt_start = None\<rparr>"

definition link_schedule :: "uid \<Rightarrow> uid option \<Rightarrow> beat \<Rightarrow> beat" where
  "link_schedule i p b = b\<lparr>bt_schedules := update_where (\<lambda>s. sd_id s = i) (\<lambda>s. s\<lparr>sd_periodic := p\<rparr>) (bt_schedules b)\<rparr>"

text \<open>A periodic task belongs to one schedule at most; the link is stored by itself.\<close>

definition save_link :: "uid \<Rightarrow> uid \<Rightarrow> beat \<Rightarrow> exn + beat" where
  "save_link i p b =
     (if \<exists>x \<in> set (bt_schedules b). sd_id x \<noteq> i \<and> sd_periodic x = Some p
      then Inl (IntegrityError ''automation_automationschedule_periodic_task_id_key'')
      else Inr (link_schedule i (Some p) b))"

text \<open>
  \<^verbatim>\<open>sync_schedule\<close>: the periodic task, the one the schedule is linked to, or one with its
  name, or a new one.
\<close>

definition sync_schedule :: "beat_env \<Rightarrow> schedule \<Rightarrow> beat \<Rightarrow> (exn + uid) \<times> beat" where
  "sync_schedule env s b =
     bind_in b (ensure_timing env s b) (\<lambda>(timing, b).
       case (case sd_periodic s of None \<Rightarrow> None | Some i \<Rightarrow> first_row (\<lambda>p. pt_id p = i) (bt_periodic b)) of
         None \<Rightarrow>
           bind_in b (get_or_create (\<lambda>p. pt_name p = sd_name s) (new_periodic env s timing) (bt_periodic b)) (\<lambda>(p, created, ps).
           let b = b\<lparr>bt_periodic := ps\<rparr>
           in bind_in b (if created then Inr b else save_periodic (synced env s timing p) b) (\<lambda>b.
              bind_in b (save_link (sd_id s) (pt_id p) b) (\<lambda>b. (Inr (pt_id p), b))))
       | Some p \<Rightarrow>
           bind_in b (save_periodic ((synced env s timing p)\<lparr>pt_name := sd_name s\<rparr>) b) (\<lambda>b. (Inr (pt_id p), b)))"

section \<open>The schedules of the program\<close>

definition reachability_task :: string where
  "reachability_task = ''automation.tasks.run_scheduled_reachability''"

definition new_schedule :: "beat_env \<Rightarrow> string \<Rightarrow> string \<Rightarrow> schedule" where
  "new_schedule env name task = \<lparr>sd_id = be_schedule_id env, sd_name = name, sd_task = task, sd_enabled = True, sd_type = ''interval'',
     sd_interval = None, sd_minute = ''*'', sd_hour = ''*'', sd_weekday = ''*'', sd_monthday = ''*'', sd_month = ''*'', sd_periodic = None\<rparr>"

definition save_schedule :: "schedule \<Rightarrow> beat \<Rightarrow> exn + beat" where
  "save_schedule s b =
     (if \<exists>q \<in> set (bt_schedules b). sd_id q \<noteq> sd_id s \<and> sd_name q = sd_name s \<and> sd_task q = sd_task s
      then Inl (IntegrityError ''automation_automationschedule_name_task_name_uniq'')
      else Inr (b\<lparr>bt_schedules := save_row sd_id s (bt_schedules b)\<rparr>))"

definition sync_reachability :: "beat_env \<Rightarrow> int \<Rightarrow> beat \<Rightarrow> (exn + uid) \<times> beat" where
  "sync_reachability env minutes b =
     bind_in b (get_or_create (\<lambda>s. sd_task s = reachability_task)
         ((new_schedule env ''Reachability Poller'' reachability_task)\<lparr>sd_interval := Some (minutes * 60)\<rparr>) (bt_schedules b)) (\<lambda>(s, _, ss).
       let b = b\<lparr>bt_schedules := ss\<rparr>;
           s' = s\<lparr>sd_interval := Some (minutes * 60), sd_enabled := True\<rparr>
       in bind_in b (if s' = s then Inr b else save_schedule s' b) (\<lambda>b. sync_schedule env s' b))"

definition nightly :: "string \<Rightarrow> string \<Rightarrow> string \<Rightarrow> schedule \<Rightarrow> schedule" where
  "nightly task minute hour s = s\<lparr>sd_task := task, sd_type := ''crontab'', sd_minute := minute, sd_hour := hour,
     sd_weekday := ''*'', sd_monthday := ''*'', sd_month := ''*'', sd_enabled := True\<rparr>"

definition backup_task :: string where
  "backup_task = ''automation.tasks.run_scheduled_config_backup''"

definition sync_config_backup :: "beat_env \<Rightarrow> beat \<Rightarrow> (exn + uid) \<times> beat" where
  "sync_config_backup env b =
     bind_in b (get_or_create (\<lambda>s. sd_name s = ''Nightly Configuration Backup'')
         (nightly backup_task ''0'' ''4'' (new_schedule env ''Nightly Configuration Backup'' backup_task)) (bt_schedules b)) (\<lambda>(s, _, ss).
       let s = nightly backup_task ''0'' ''4'' s
       in bind_in (b\<lparr>bt_schedules := ss\<rparr>) (save_schedule s (b\<lparr>bt_schedules := ss\<rparr>)) (\<lambda>b. sync_schedule env s b))"

definition cleanup_task :: string where
  "cleanup_task = ''automation.tasks.cleanup_reachability_history''"

definition sync_cleanup :: "beat_env \<Rightarrow> beat \<Rightarrow> (exn + uid) \<times> beat" where
  "sync_cleanup env b =
     bind_in b (get_or_create (\<lambda>s. sd_name s = ''Reachability History Cleanup'')
         (nightly cleanup_task ''30'' ''3'' (new_schedule env ''Reachability History Cleanup'' cleanup_task)) (bt_schedules b)) (\<lambda>(s, _, ss).
       bind_in (b\<lparr>bt_schedules := ss\<rparr>) (save_schedule s (b\<lparr>bt_schedules := ss\<rparr>)) (\<lambda>b. sync_schedule env s b))"

text \<open>
  \<^verbatim>\<open>remove_schedule\<close>: the link is taken away first, because deleting a periodic task
  deletes the schedules that are linked to it.
\<close>

definition delete_periodic :: "uid \<Rightarrow> beat \<Rightarrow> beat" where
  "delete_periodic i b = b\<lparr>bt_periodic := filter (\<lambda>p. pt_id p \<noteq> i) (bt_periodic b),
     bt_schedules := filter (\<lambda>s. sd_periodic s \<noteq> Some i) (bt_schedules b)\<rparr>"

definition remove_schedule :: "schedule \<Rightarrow> beat \<Rightarrow> beat" where
  "remove_schedule s b =
     (case sd_periodic s of None \<Rightarrow> b | Some i \<Rightarrow> delete_periodic i (link_schedule (sd_id s) None b))"

section \<open>A synchronised schedule\<close>

lemma get_or_create_cases:
  assumes "get_or_create p new rs = Inr (r, c, rs')" and "p new"
  shows "r \<in> set rs' \<and> p r \<and> (if c then r = new \<and> rs' = rs @ [new] else rs' = rs)"
proof (cases "filter p rs")
  case Nil
  with assms show ?thesis by (auto simp: get_or_create_def)
next
  case (Cons x xs)
  with assms(1) have "xs = []" by (auto simp: get_or_create_def split: list.splits)
  with Cons assms(1) have "r = x" "\<not> c" "rs' = rs" by (auto simp: get_or_create_def)
  moreover have "x \<in> set (filter p rs)" using Cons by simp
  ultimately show ?thesis by simp
qed

text \<open>The timing of a periodic task is the one of the schedule, by a row of the right table.\<close>

definition timing_ok :: "schedule \<Rightarrow> uid option \<times> uid option \<Rightarrow> beat \<Rightarrow> bool" where
  "timing_ok s t b \<longleftrightarrow>
     (if sd_type s = ''interval''
      then snd t = None \<and> (\<exists>i \<in> set (bt_intervals b). fst t = Some (iv_id i) \<and> sd_interval s = Some (iv_every i)
        \<and> 0 < iv_every i \<and> iv_period i = ''seconds'')
      else fst t = None \<and> (\<exists>c \<in> set (bt_crontabs b). snd t = Some (ct_id c) \<and> ct_fields c = crontab_of s))"

lemma ensure_timing_ok:
  assumes "ensure_timing env s b = Inr (t, b')"
  shows "timing_ok s t b' \<and> bt_periodic b' = bt_periodic b \<and> bt_schedules b' = bt_schedules b"
proof (cases "sd_type s = ''interval''")
  case True
  with assms obtain n i where n: "sd_interval s = Some n" "0 < n" and e: "ensure_interval env n b = Inr (i, b')" and t: "t = (Some i, None)"
    by (auto simp: ensure_timing_def bind_res_eq_Inr split: option.splits if_splits)
  from e obtain r c rs where g: "get_or_create (\<lambda>i. iv_every i = n \<and> iv_period i = ''seconds'')
      \<lparr>iv_id = be_interval_id env, iv_every = n, iv_period = ''seconds''\<rparr> (bt_intervals b) = Inr (r, c, rs)"
    and b': "b' = b\<lparr>bt_intervals := rs\<rparr>" "i = iv_id r"
    by (auto simp: ensure_interval_def bind_res_eq_Inr)
  from get_or_create_cases [OF g] b' t n True show ?thesis by (auto simp: timing_ok_def)
next
  case False
  with assms obtain i where e: "ensure_crontab env s b = Inr (i, b')" and t: "t = (None, Some i)"
    by (auto simp: ensure_timing_def bind_res_eq_Inr)
  from e obtain r c rs where g: "get_or_create (\<lambda>c. ct_fields c = crontab_of s) \<lparr>ct_id = be_crontab_id env, ct_fields = crontab_of s\<rparr>
      (bt_crontabs b) = Inr (r, c, rs)"
    and b': "b' = b\<lparr>bt_crontabs := rs\<rparr>" "i = ct_id r"
    by (auto simp: ensure_crontab_def bind_res_eq_Inr)
  from get_or_create_cases [OF g] b' t False show ?thesis by (auto simp: timing_ok_def)
qed

lemma save_periodic_rows:
  assumes "save_periodic p b = Inr b'" and "distinct (map pt_id (bt_periodic b))"
  shows "p \<in> set (bt_periodic b') \<and> {q \<in> set (bt_periodic b'). pt_id q \<noteq> pt_id p} = {q \<in> set (bt_periodic b). pt_id q \<noteq> pt_id p}
    \<and> bt_intervals b' = bt_intervals b \<and> bt_crontabs b' = bt_crontabs b \<and> bt_schedules b' = bt_schedules b"
  using assms by (auto simp: save_periodic_def in_save_row split: if_splits)

definition runs_schedule :: "schedule \<Rightarrow> beat \<Rightarrow> periodic \<Rightarrow> bool" where
  "runs_schedule s b p \<longleftrightarrow> pt_name p = sd_name s \<and> pt_task p = sd_task s \<and> pt_enabled p = sd_enabled s
     \<and> pt_clocked p = None \<and> \<not> pt_one_off p \<and> timing_ok s (pt_interval p, pt_crontab p) b"

lemma timing_ok_cong: "bt_intervals b' = bt_intervals b \<Longrightarrow> bt_crontabs b' = bt_crontabs b \<Longrightarrow> timing_ok s t b' = timing_ok s t b"
  by (simp add: timing_ok_def)

lemma link_simps [simp]:
  "bt_periodic (link_schedule i p b) = bt_periodic b" "bt_intervals (link_schedule i p b) = bt_intervals b"
  "bt_crontabs (link_schedule i p b) = bt_crontabs b"
  by (simp_all add: link_schedule_def)

lemma linked_schedule:
  assumes "x \<in> set (bt_schedules (link_schedule i p b))" and "sd_id x = i"
  shows "sd_periodic x = p"
proof -
  obtain y where "x = (if sd_id y = i then y\<lparr>sd_periodic := p\<rparr> else y)"
    using assms(1) by (auto simp: link_schedule_def in_update_where)
  then show ?thesis using assms(2) by (cases "sd_id y = i") simp_all
qed

text \<open>What one synchronisation does to the tasks and to the schedules.\<close>

definition linked_or_kept :: "schedule \<Rightarrow> uid \<Rightarrow> beat \<Rightarrow> beat \<Rightarrow> bool" where
  "linked_or_kept s i b b' \<longleftrightarrow>
     (bt_schedules b' = bt_schedules b \<and> sd_periodic s = Some i
      \<or> bt_schedules b' = bt_schedules (link_schedule (sd_id s) (Some i) b)
        \<and> (\<forall>x \<in> set (bt_schedules b). sd_id x \<noteq> sd_id s \<longrightarrow> sd_periodic x \<noteq> Some i))"

lemma save_link_Inr:
  "save_link i p b = Inr b' \<longleftrightarrow> (\<forall>x \<in> set (bt_schedules b). sd_id x \<noteq> i \<longrightarrow> sd_periodic x \<noteq> Some p) \<and> b' = link_schedule i (Some p) b"
  by (auto simp: save_link_def)

lemma found_task:
  assumes "get_or_create (\<lambda>p. pt_name p = sd_name s) (new_periodic env s t) (bt_periodic c) = Inr (p, new, ps)"
    and "(if new then Inr (c\<lparr>bt_periodic := ps\<rparr>) else save_periodic (synced env s t p) (c\<lparr>bt_periodic := ps\<rparr>)) = Inr d"
    and "timing_ok s t c" "distinct (map pt_id (bt_periodic c))" "be_periodic_id env \<notin> pt_id ` set (bt_periodic c)"
  shows "(\<exists>q \<in> set (bt_periodic d). pt_id q = pt_id p \<and> runs_schedule s d q)
    \<and> {q \<in> set (bt_periodic d). pt_id q \<noteq> pt_id p} = {q \<in> set (bt_periodic c). pt_id q \<noteq> pt_id p} \<and> bt_schedules d = bt_schedules c"
proof -
  have p: "p \<in> set ps" "pt_name p = sd_name s" "if new then p = new_periodic env s t \<and> ps = bt_periodic c @ [p] else ps = bt_periodic c"
    using get_or_create_cases [OF assms(1)] by (auto simp: new_periodic_def split: if_splits)
  show ?thesis
  proof (cases new)
    case True
    then have d: "d = c\<lparr>bt_periodic := ps\<rparr>" using assms(2) by simp
    have "runs_schedule s d p" using True p(3) assms(3) timing_ok_cong [of d c] by (simp add: runs_schedule_def new_periodic_def d)
    then show ?thesis using True p assms(5) by (auto simp: d new_periodic_def)
  next
    case False
    let ?q = "synced env s t p"
    have "distinct (map pt_id ps)" using assms(4) p False by simp
    with False assms(2) have rows: "?q \<in> set (bt_periodic d) \<and> {q \<in> set (bt_periodic d). pt_id q \<noteq> pt_id ?q} = {q \<in> set ps. pt_id q \<noteq> pt_id ?q}
        \<and> bt_intervals d = bt_intervals c \<and> bt_crontabs d = bt_crontabs c \<and> bt_schedules d = bt_schedules c"
      using save_periodic_rows [of ?q "c\<lparr>bt_periodic := ps\<rparr>" d] by auto
    have "runs_schedule s d ?q" using p assms(3) rows timing_ok_cong [of d c] by (simp add: runs_schedule_def synced_def)
    moreover have id: "pt_id ?q = pt_id p" by (simp add: synced_def)
    ultimately have "\<exists>q \<in> set (bt_periodic d). pt_id q = pt_id p \<and> runs_schedule s d q" using rows by blast
    then show ?thesis using rows p False unfolding id by simp
  qed
qed

lemma runs_schedule_cong:
  "bt_intervals b' = bt_intervals b \<Longrightarrow> bt_crontabs b' = bt_crontabs b \<Longrightarrow> runs_schedule s b' p = runs_schedule s b p"
  by (simp add: runs_schedule_def timing_ok_def)

lemma sync_schedule_task:
  assumes "sync_schedule env s b = (Inr i, b')" and "distinct (map pt_id (bt_periodic b))"
    and "be_periodic_id env \<notin> pt_id ` set (bt_periodic b)"
  shows "(\<exists>p \<in> set (bt_periodic b'). pt_id p = i \<and> runs_schedule s b' p)
    \<and> {q \<in> set (bt_periodic b'). pt_id q \<noteq> i} = {q \<in> set (bt_periodic b). pt_id q \<noteq> i} \<and> linked_or_kept s i b b'"
proof -
  obtain t c where timing: "ensure_timing env s b = Inr (t, c)"
    using assms(1) by (auto simp: sync_schedule_def bind_in_Inr)
  note ok = ensure_timing_ok [OF timing]
  show ?thesis
  proof (cases "case sd_periodic s of None \<Rightarrow> None | Some i \<Rightarrow> first_row (\<lambda>p. pt_id p = i) (bt_periodic c)")
    case (Some p)
    let ?q = "(synced env s t p)\<lparr>pt_name := sd_name s\<rparr>"
    from Some assms(1) timing have save: "save_periodic ?q c = Inr b'" and i: "i = pt_id p"
      by (auto simp: sync_schedule_def bind_in_Inr)
    have "distinct (map pt_id (bt_periodic c))" using assms(2) ok by simp
    note rows = save_periodic_rows [OF save this]
    have runs: "runs_schedule s b' ?q" using rows ok timing_ok_cong [of b' c] by (simp add: runs_schedule_def synced_def)
    have id: "pt_id ?q = i" by (simp add: synced_def i)
    have "\<exists>p \<in> set (bt_periodic b'). pt_id p = i \<and> runs_schedule s b' p" using rows runs id by blast
    moreover have "sd_periodic s = Some i" using Some by (auto simp: i dest: first_row_Some split: option.splits)
    then have "linked_or_kept s i b b'" using rows ok by (simp add: linked_or_kept_def)
    ultimately show ?thesis using rows ok unfolding id by simp
  next
    case None
    with assms(1) timing obtain p new ps d where g: "get_or_create (\<lambda>p. pt_name p = sd_name s) (new_periodic env s t) (bt_periodic c) = Inr (p, new, ps)"
      and d: "(if new then Inr (c\<lparr>bt_periodic := ps\<rparr>) else save_periodic (synced env s t p) (c\<lparr>bt_periodic := ps\<rparr>)) = Inr d"
      and alone: "\<forall>x \<in> set (bt_schedules d). sd_id x \<noteq> sd_id s \<longrightarrow> sd_periodic x \<noteq> Some i"
      and b': "i = pt_id p" "b' = link_schedule (sd_id s) (Some (pt_id p)) d"
      by (auto simp: sync_schedule_def bind_in_Inr Let_def save_link_Inr)
    have task: "(\<exists>q \<in> set (bt_periodic d). pt_id q = i \<and> runs_schedule s d q)
        \<and> {q \<in> set (bt_periodic d). pt_id q \<noteq> i} = {q \<in> set (bt_periodic b). pt_id q \<noteq> i} \<and> bt_schedules d = bt_schedules b"
      using found_task [OF g d] ok assms(2,3) by (simp add: b')
    then have "linked_or_kept s i b b'" using alone by (simp add: linked_or_kept_def b' link_schedule_def)
    moreover have "runs_schedule s b' q = runs_schedule s d q" for q by (rule runs_schedule_cong) (simp_all add: b')
    ultimately show ?thesis using task by (simp add: b')
  qed
qed

text \<open>
  A synchronisation that raises has changed no schedule. It may have written the task already: then the task belongs to
  another schedule.
\<close>

definition task_taken :: "schedule \<Rightarrow> beat \<Rightarrow> beat \<Rightarrow> bool" where
  "task_taken s b b' \<longleftrightarrow> (\<exists>p \<in> set (bt_periodic b'). runs_schedule s b' p
     \<and> {q \<in> set (bt_periodic b'). pt_id q \<noteq> pt_id p} = {q \<in> set (bt_periodic b). pt_id q \<noteq> pt_id p}
     \<and> (\<exists>x \<in> set (bt_schedules b'). sd_id x \<noteq> sd_id s \<and> sd_periodic x = Some (pt_id p)))"

lemma get_or_create_Inl: "get_or_create p new rs = Inl e \<Longrightarrow> \<exists>m. e = MultipleObjectsReturned m"
  by (auto simp: get_or_create_def split: list.splits)

lemma ensure_timing_Inl:
  "ensure_timing env s b = Inl e \<Longrightarrow> (\<exists>m. e = MultipleObjectsReturned m)
     \<or> (\<exists>m. e = ValueError m) \<and> sd_type s = ''interval'' \<and> (\<forall>n. sd_interval s = Some n \<longrightarrow> n \<le> 0)"
  by (auto simp: ensure_timing_def ensure_interval_def ensure_crontab_def bind_res_eq_Inl split: option.splits if_splits dest!: get_or_create_Inl)

lemma sync_schedule_raises:
  assumes "sync_schedule env s b = (Inl e, b')"
  shows "bt_schedules b' = bt_schedules b" (is ?kept)
    and "(\<exists>m. e = IntegrityError m) \<or> (\<exists>m. e = MultipleObjectsReturned m)
      \<or> (\<exists>m. e = ValueError m) \<and> sd_type s = ''interval'' \<and> (\<forall>n. sd_interval s = Some n \<longrightarrow> n \<le> 0)" (is ?raised)
    and "distinct (map pt_id (bt_periodic b)) \<Longrightarrow> be_periodic_id env \<notin> pt_id ` set (bt_periodic b) \<Longrightarrow>
      bt_periodic b' = bt_periodic b \<or> (\<exists>m. e = IntegrityError m) \<and> task_taken s b b'" (is "?fresh \<Longrightarrow> ?new \<Longrightarrow> ?tasks")
proof -
  have "?kept \<and> ?raised \<and> (?fresh \<longrightarrow> ?new \<longrightarrow> ?tasks)"
  proof (cases "ensure_timing env s b")
    case (Inl e')
    with assms ensure_timing_Inl [OF Inl] show ?thesis by (simp add: sync_schedule_def)
  next
    case timing: (Inr r)
    obtain t c where r: "r = (t, c)" by (cases r)
    note ok = ensure_timing_ok [OF timing [unfolded r]]
    show ?thesis
    proof (cases "case sd_periodic s of None \<Rightarrow> None | Some i \<Rightarrow> first_row (\<lambda>p. pt_id p = i) (bt_periodic c)")
      case (Some p)
      with assms timing r ok show ?thesis by (auto simp: sync_schedule_def bind_in_Inl save_periodic_def split: if_splits)
    next
      case None
      let ?get = "get_or_create (\<lambda>p. pt_name p = sd_name s) (new_periodic env s t) (bt_periodic c)"
      let ?save = "\<lambda>p new ps. if new then Inr (c\<lparr>bt_periodic := ps\<rparr>) else save_periodic (synced env s t p) (c\<lparr>bt_periodic := ps\<rparr>)"
      have "bind_in c ?get (\<lambda>(p, new, ps). bind_in (c\<lparr>bt_periodic := ps\<rparr>) (?save p new ps) (\<lambda>b.
          bind_in b (save_link (sd_id s) (pt_id p) b) (\<lambda>b. (Inr (pt_id p), b)))) = (Inl e, b')"
        using assms timing r None by (simp add: sync_schedule_def Let_def)
      then consider "?get = Inl e" "b' = c" | p new ps where "?get = Inr (p, new, ps)" "?save p new ps = Inl e" "b' = c\<lparr>bt_periodic := ps\<rparr>"
        | p new ps where "?get = Inr (p, new, ps)" "?save p new ps = Inr b'" "save_link (sd_id s) (pt_id p) b' = Inl e"
        unfolding bind_in_Inl by (elim disjE exE conjE) (simp_all add: bind_in_Inl split: prod.splits, blast?)
      then show ?thesis
      proof cases
        case 1
        with ok get_or_create_Inl [OF 1(1)] show ?thesis by auto
      next
        case 2
        from get_or_create_cases [OF 2(1)] 2 have "ps = bt_periodic c" "\<exists>m. e = IntegrityError m"
          by (auto simp: new_periodic_def save_periodic_def split: if_splits)
        with 2(3) ok show ?thesis by simp
      next
        case 3
        have link: "\<exists>m. e = IntegrityError m" "\<exists>x \<in> set (bt_schedules b'). sd_id x \<noteq> sd_id s \<and> sd_periodic x = Some (pt_id p)"
          using 3(3) by (auto simp: save_link_def split: if_splits)
        have kept: "bt_schedules b' = bt_schedules b" using 3(2) ok by (auto simp: save_periodic_def split: if_splits)
        have "task_taken s b b'" if "?fresh" "?new"
        proof -
          have "distinct (map pt_id (bt_periodic c))" "be_periodic_id env \<notin> pt_id ` set (bt_periodic c)" using ok that by simp_all
          note task = found_task [OF 3(1,2) _ this]
          then obtain q where "q \<in> set (bt_periodic b')" and id: "pt_id q = pt_id p" and "runs_schedule s b' q" using ok by blast
          moreover have "{q \<in> set (bt_periodic b'). pt_id q \<noteq> pt_id p} = {q \<in> set (bt_periodic b). pt_id q \<noteq> pt_id p}" using task ok by simp
          ultimately show ?thesis unfolding task_taken_def using link(2) by (intro bexI [of _ q]) (simp_all only: id)
        qed
        with link(1) kept show ?thesis by blast
      qed
    qed
  qed
  then show ?kept ?raised "?fresh \<Longrightarrow> ?new \<Longrightarrow> ?tasks" by blast+
qed

text \<open>
  C20. A schedule that was synchronised has a periodic task that runs it: with its name, its task
  and its switch, and with its interval or its crontab and never both, whether the task was linked
  before, was found by its name or is new. No other periodic task changes, and a schedule without
  a link is linked.
\<close>

theorem sync_schedule_runs:
  assumes "sync_schedule env s b = (Inr i, b')" and "distinct (map pt_id (bt_periodic b))"
    and "be_periodic_id env \<notin> pt_id ` set (bt_periodic b)"
  shows "(\<exists>p \<in> set (bt_periodic b'). pt_id p = i \<and> runs_schedule s b' p)
    \<and> {q \<in> set (bt_periodic b'). pt_id q \<noteq> i} = {q \<in> set (bt_periodic b). pt_id q \<noteq> i}
    \<and> (sd_periodic s = None \<longrightarrow> (\<forall>x \<in> set (bt_schedules b'). sd_id x = sd_id s \<longrightarrow> sd_periodic x = Some i))"
proof -
  note facts = sync_schedule_task [OF assms]
  have "sd_periodic s = None \<longrightarrow> (\<forall>x \<in> set (bt_schedules b'). sd_id x = sd_id s \<longrightarrow> sd_periodic x = Some i)"
    using facts linked_schedule by (metis linked_or_kept_def option.distinct(1))
  then show ?thesis using facts by blast
qed

definition demo_beat :: beat where
  "demo_beat = \<lparr>bt_schedules = [], bt_intervals = [], bt_crontabs = [],
     bt_periodic = [\<lparr>pt_id = 1, pt_name = ''Reachability Poller'', pt_task = ''old'', pt_interval = None, pt_crontab = Some 4,
       pt_enabled = False, pt_clocked = None, pt_one_off = True, pt_start = None\<rparr>]\<rparr>"

definition demo_beat_env :: beat_env where
  "demo_beat_env = \<lparr>be_now = 9, be_schedule_id = 1, be_interval_id = 2, be_crontab_id = 3, be_periodic_id = 5\<rparr>"

definition demo_schedule :: schedule where
  "demo_schedule = (new_schedule demo_beat_env ''Reachability Poller'' reachability_task)\<lparr>sd_interval := Some 60\<rparr>"

theorem sync_schedule_runs_witness:
  "\<exists>i b'. sync_schedule demo_beat_env demo_schedule demo_beat = (Inr i, b')
     \<and> (\<exists>p \<in> set (bt_periodic b'). pt_id p = i \<and> pt_task p = reachability_task \<and> pt_enabled p \<and> pt_crontab p = None)"
proof -
  have "is_ok (fst (sync_schedule demo_beat_env demo_schedule demo_beat))" by code_simp
  then obtain i b' where run: "sync_schedule demo_beat_env demo_schedule demo_beat = (Inr i, b')"
    by (cases "fst (sync_schedule demo_beat_env demo_schedule demo_beat)") (auto simp: prod_eq_iff)
  have "distinct (map pt_id (bt_periodic demo_beat))" "be_periodic_id demo_beat_env \<notin> pt_id ` set (bt_periodic demo_beat)"
    by (simp_all add: demo_beat_def demo_beat_env_def)
  from sync_schedule_runs [OF run this] run show ?thesis
    by (fastforce simp: runs_schedule_def timing_ok_def demo_schedule_def new_schedule_def)
qed

end
