(* ===== verification/NaturalSort.thy ===== *)
theory NaturalSort
  imports PyRegex "HOL-Library.List_Lexorder" "HOL-Library.Char_ord"
begin

text \<open>
  The natural order of names: \<^verbatim>\<open>_natural_sort_key\<close> of
  \<^verbatim>\<open>dcim/views/device_views.py\<close> and \<^verbatim>\<open>asset/views.py\<close> cuts a name
  into texts and numbers, and the lists of the views are sorted by these keys. A number and a text
  cannot be compared, so that sorting could raise; it never does.
\<close>

section \<open>Keys\<close>

datatype key_part = Number nat | Word string

definition natural_key :: "string \<Rightarrow> key_part list" where
  "natural_key s = map (\<lambda>p. if all_digits p then Number (digits_value p) else Word (lower p)) (split_digits s)"

text \<open>
  Python's comparison of two lists: the first place where they differ decides, and a number next
  to a text raises (\<open>None\<close>). Texts are compared by their characters.
\<close>

fun part_less :: "key_part \<Rightarrow> key_part \<Rightarrow> bool option" where
  "part_less (Number a) (Number b) = Some (a < b)"
| "part_less (Word a) (Word b) = Some (a < b)"
| "part_less _ _ = None"

fun key_less :: "key_part list \<Rightarrow> key_part list \<Rightarrow> bool option" where
  "key_less [] [] = Some False"
| "key_less [] (_ # _) = Some True"
| "key_less (_ # _) [] = Some False"
| "key_less (x # xs) (y # ys) = (if x = y then key_less xs ys else part_less x y)"

section \<open>Sorting\<close>

text \<open>
  \<^verbatim>\<open>list.sort(key=...)\<close>, which is stable: a row goes before the rows that follow it
  unless one of them is smaller. A comparison that raises makes the sort raise.
\<close>

fun insert_by :: "('r \<Rightarrow> key_part list) \<Rightarrow> 'r \<Rightarrow> 'r list \<Rightarrow> 'r list option" where
  "insert_by f r [] = Some [r]"
| "insert_by f r (x # xs) =
     (case key_less (f x) (f r) of
        None \<Rightarrow> None
      | Some True \<Rightarrow> map_option (\<lambda>ys. x # ys) (insert_by f r xs)
      | Some False \<Rightarrow> Some (r # x # xs))"

fun sort_rows :: "('r \<Rightarrow> key_part list) \<Rightarrow> 'r list \<Rightarrow> 'r list option" where
  "sort_rows f [] = Some []"
| "sort_rows f (r # rs) = (case sort_rows f rs of None \<Rightarrow> None | Some ys \<Rightarrow> insert_by f r ys)"

text \<open>\<^verbatim>\<open>reverse=True\<close> keeps the order of equal rows.\<close>

definition sort_rows_dir :: "bool \<Rightarrow> ('r \<Rightarrow> key_part list) \<Rightarrow> 'r list \<Rightarrow> 'r list option" where
  "sort_rows_dir reverse f rs =
     (if reverse then map_option rev (sort_rows f (rev rs)) else sort_rows f rs)"

section \<open>The keys alternate\<close>

fun alternates :: "bool \<Rightarrow> key_part list \<Rightarrow> bool" where
  "alternates num [] = True"
| "alternates num (p # ps) = ((case p of Number _ \<Rightarrow> num | Word _ \<Rightarrow> \<not> num) \<and> alternates (\<not> num) ps)"

lemma key_less_alternates: "alternates num xs \<Longrightarrow> alternates num ys \<Longrightarrow> key_less xs ys \<noteq> None"
proof (induction xs ys arbitrary: num rule: key_less.induct)
  case (4 x xs y ys)
  then show ?case by (cases x; cases y) auto
qed auto

lemma digits_run: "r \<noteq> [] \<Longrightarrow> is_digit (hd r) \<Longrightarrow> all_digits (takeWhile is_digit r)"
  by (cases r) (auto simp: all_digits_def list_all_iff dest: set_takeWhileD)

lemma no_digits_run: "\<not> all_digits (takeWhile (\<lambda>c. \<not> is_digit c) s)"
  by (cases s) (auto simp: all_digits_def)

lemma natural_key_alternates: "alternates False (natural_key s)"
proof (induction s rule: split_digits.induct)
  case (1 s)
  let ?r = "dropWhile (\<lambda>c. \<not> is_digit c) s"
  show ?case
  proof (cases "?r = []")
    case True
    then show ?thesis
      by (subst natural_key_def, subst split_digits.simps) (simp add: Let_def no_digits_run)
  next
    case False
    then have "is_digit (hd ?r)" using hd_dropWhile [of "\<lambda>c. \<not> is_digit c" s] by blast
    with False have run: "all_digits (takeWhile is_digit ?r)" by (rule digits_run)
    have "alternates False (natural_key (dropWhile is_digit ?r))" using "1.IH" [OF refl refl False] .
    with False run show ?thesis
      by (subst natural_key_def, subst split_digits.simps) (simp add: Let_def no_digits_run natural_key_def)
  qed
qed

section \<open>The order of the keys\<close>

instantiation key_part :: linorder
begin

definition less_key_part :: "key_part \<Rightarrow> key_part \<Rightarrow> bool" where
  "less_key_part x y \<longleftrightarrow>
     (case x of
        Number a \<Rightarrow> (case y of Number b \<Rightarrow> a < b | Word _ \<Rightarrow> True)
      | Word a \<Rightarrow> (case y of Number _ \<Rightarrow> False | Word b \<Rightarrow> a < b))"

definition less_eq_key_part :: "key_part \<Rightarrow> key_part \<Rightarrow> bool" where
  "less_eq_key_part x y \<longleftrightarrow> x < y \<or> x = y"

instance
  by standard (auto simp: less_key_part_def less_eq_key_part_def split: key_part.splits)

end

lemma key_less_order: "alternates num xs \<Longrightarrow> alternates num ys \<Longrightarrow> key_less xs ys = Some (xs < ys)"
proof (induction xs ys arbitrary: num rule: key_less.induct)
  case (4 x xs y ys)
  show ?case
  proof (cases "x = y")
    case True
    with 4 show ?thesis by auto
  next
    case False
    with 4 show ?thesis by (cases x; cases y) (auto simp: less_key_part_def)
  qed
qed auto

lemma insert_by_insort:
  assumes "\<And>x. alternates False (f x)"
  shows "insert_by f r xs = Some (insort_key f r xs)"
proof (induction xs)
  case (Cons x xs)
  have "key_less (f x) (f r) = Some (f x < f r)" using assms by (intro key_less_order)
  with Cons show ?case by (cases "f x < f r") auto
qed simp

lemma sort_rows_total:
  assumes "\<And>x. alternates False (f x)"
  shows "sort_rows f rs = Some (sort_key f rs)"
  by (induction rs) (auto simp: insert_by_insort [OF assms])

text \<open>
  C21. Sorting rows by the natural keys of any of their texts never raises: it is the stable sort by
  the order of the keys, in which numbers are compared by value, in both directions.
\<close>

theorem natural_sort_total:
  "sort_rows_dir reverse (\<lambda>r. natural_key (f r)) rs =
     Some (if reverse then rev (sort_key (\<lambda>r. natural_key (f r)) (rev rs)) else sort_key (\<lambda>r. natural_key (f r)) rs)"
  by (simp add: sort_rows_dir_def sort_rows_total natural_key_alternates)

text \<open>Numbers inside names are compared by value.\<close>

lemma natural_order_example: "natural_key ''Gi1/0/9'' < natural_key ''gi1/0/10''"
  by code_simp

end
