(* ===== verification/Storage.thy ===== *)
theory Storage
  imports Connections NaturalSort
begin

text \<open>
  The storage inventory: the validation of an item with all its fields
  (\<^verbatim>\<open>asset/models/inventory_item.py\<close>), and of \<^verbatim>\<open>asset/views.py\<close>
  the list of the items with its filters and orders, the sheet that is exported and the import of
  a sheet. Reading the file into cells is a library; the model starts at the cells.
\<close>

section \<open>Choices\<close>

definition designation_choices :: "(string \<times> string) list" where
  "designation_choices = map (\<lambda>s. (s, s)) [''Switch'', ''Access Point'', ''Uplink Module'', ''QSFP Transceiver'',
     ''QSFP to SFP10G Adapter'', ''SFP+ Transceiver'', ''SFP Transceiver'']"

definition item_type_choices :: "(string \<times> string) list" where
  "item_type_choices = [(''device'', ''Device''), (''module'', ''Module'')]"

definition item_status_choices :: "(string \<times> string) list" where
  "item_status_choices = [(''in_stock'', ''In stock''), (''reserved'', ''Reserved''), (''installed'', ''Installed''),
     (''rma'', ''RMA''), (''retired'', ''Retired'')]"

section \<open>The validation of an item\<close>

text \<open>
  \<^verbatim>\<open>full_clean\<close>: the fields by themselves, \<open>item_clean\<close>, and the unique
  fields that are in order so far; the errors of all three are collected by field. The messages
  of the first and the third are those of the framework: \<open>fw\<close> gives them for a field and
  a kind of error.
\<close>

type_synonym field_msgs = "(string \<times> string list) list"
type_synonym framework_text = "string \<Rightarrow> string \<Rightarrow> string"

definition add_msgs :: "string \<Rightarrow> string list \<Rightarrow> field_msgs \<Rightarrow> field_msgs" where
  "add_msgs f ms es = dict_put f (case map_of es f of None \<Rightarrow> ms | Some old \<Rightarrow> old @ ms) es"

definition choice_fault :: "string \<Rightarrow> (string \<times> string) list \<Rightarrow> string option" where
  "choice_fault v choices = (if v = [] then Some ''blank'' else if v \<in> fst ` set choices then None else Some ''invalid_choice'')"

definition length_fault :: "nat \<Rightarrow> string \<Rightarrow> string option" where
  "length_fault n v = (if length v > n then Some ''max_length'' else None)"

definition row_fault :: "('r \<Rightarrow> uid) \<Rightarrow> 'r list \<Rightarrow> uid option \<Rightarrow> string option" where
  "row_fault ident rows k = (case k of None \<Rightarrow> None | Some i \<Rightarrow> if i \<in> ident ` set rows then None else Some ''invalid'')"

definition field_faults :: "db \<Rightarrow> inv_item \<Rightarrow> (string \<times> string) list" where
  "field_faults d i = concat (map (\<lambda>(f, c). case c of None \<Rightarrow> [] | Some k \<Rightarrow> [(f, k)])
     [(''inventory_number'', length_fault 100 (or_empty (inv_number i))),
      (''item_type'', choice_fault (inv_kind i) item_type_choices),
      (''designation'', choice_fault (inv_designation i) designation_choices),
      (''vendor'', row_fault vendor_id (t_vendors d) (inv_vendor i)),
      (''model'', if inv_model i = [] then Some ''blank'' else length_fault 255 (inv_model i)),
      (''serial_number'', length_fault 100 (or_empty (inv_serial i))),
      (''site'', row_fault site_id (t_sites d) (Some (inv_site i))),
      (''area'', row_fault area_id (t_areas d) (inv_area i)),
      (''status'', choice_fault (inv_status i) item_status_choices)])"

definition taken :: "db \<Rightarrow> (inv_item \<Rightarrow> string option) \<Rightarrow> inv_item \<Rightarrow> bool" where
  "taken d field i \<longleftrightarrow> field i \<noteq> None \<and> (\<exists>x \<in> set (t_inventory d). inv_id x \<noteq> inv_id i \<and> field x = field i)"

definition unique_faults :: "db \<Rightarrow> inv_item \<Rightarrow> field_msgs \<Rightarrow> string list" where
  "unique_faults d i es =
     (if map_of es ''inventory_number'' = None \<and> taken d inv_number i then [''inventory_number''] else []) @
     (if map_of es ''serial_number'' = None \<and> taken d inv_serial i then [''serial_number''] else [])"

definition item_full_clean :: "framework_text \<Rightarrow> db \<Rightarrow> inv_item \<Rightarrow> inv_item \<times> (field_msgs + unit)" where
  "item_full_clean fw d i0 =
     (let es = fold (\<lambda>(f, k). add_msgs f [fw f k]) (field_faults d i0) [];
          (i, r) = item_clean d i0;
          es = (case r of Inr _ \<Rightarrow> es | Inl cs \<Rightarrow> fold (\<lambda>(f, m). add_msgs f [m]) cs es);
          es = fold (\<lambda>f. add_msgs f [fw f ''unique'']) (unique_faults d i es) es
      in (i, if es \<noteq> [] then Inl es else Inr ()))"

section \<open>Cells\<close>

text \<open>
  A cell is empty, a floating-point number without a fraction, or any other value, of which only
  its text is used.
\<close>

datatype cell = Empty | Whole int | Shown string

definition clean_cell :: "cell \<Rightarrow> string" where
  "clean_cell c = (case c of Empty \<Rightarrow> [] | Whole i \<Rightarrow> int_str i | Shown s \<Rightarrow> strip s)"

definition header_char :: "char \<Rightarrow> bool" where
  "header_char c \<longleftrightarrow> is_digit c \<or> (97 \<le> code c \<and> code c \<le> 122)"

definition normalize_header :: "string \<Rightarrow> string" where
  "normalize_header s = filter header_char (lower s)"

type_synonym header = "(string \<times> nat) list"

definition header_index_map :: "cell list \<Rightarrow> header" where
  "header_index_map cells =
     fold (\<lambda>(idx, c) m. let key = normalize_header (clean_cell c) in if key = [] then m else dict_put key idx m)
       (enumerate 0 cells) []"

definition header_index :: "header \<Rightarrow> string list \<Rightarrow> nat option" where
  "header_index m aliases = first_some (map_of m) aliases"

definition row_cell :: "cell list \<Rightarrow> nat option \<Rightarrow> string" where
  "row_cell row idx = (case idx of None \<Rightarrow> [] | Some i \<Rightarrow> if length row \<le> i then [] else clean_cell (row ! i))"

definition column_aliases :: "string \<Rightarrow> string list" where
  "column_aliases name =
     (if name = ''designation'' then [''designation'']
      else if name = ''inventory_number'' then [''inventorynumber'', ''inventorynr'', ''inventoryno'']
      else if name = ''serial_number'' then [''serialnumber'', ''serialno'']
      else if name = ''site'' then [''site'', ''sitename'']
      else if name = ''site_id'' then [''siteid'']
      else if name = ''area'' then [''area'', ''location'', ''areaname'']
      else if name = ''area_id'' then [''areaid'']
      else if name = ''vendor'' then [''vendor'']
      else if name = ''model'' then [''model'']
      else if name = ''item_type'' then [''itemtype'', ''type'']
      else if name = ''status'' then [''status'']
      else [''comment'', ''notes'', ''description''])"

definition column :: "header \<Rightarrow> string \<Rightarrow> nat option" where
  "column m name = header_index m (column_aliases name)"

definition field_text :: "header \<Rightarrow> cell list \<Rightarrow> string \<Rightarrow> string" where
  "field_text m row name = row_cell row (column m name)"

definition optional :: "string \<Rightarrow> string option" where
  "optional s = (if s = [] then None else Some s)"

section \<open>Looking up what a row names\<close>

text \<open>
  A row ends with a message that is reported, or with an exception that the import does not catch.
  An identifier that is not one makes the query raise the latter. The environment gives the
  identifier that a text denotes, the text of one, the arrow between the names of an area path
  (outside the characters of the model) and the identifier of the item a row creates.
\<close>

datatype row_end = Reported string | Escaped string

record import_env =
  ie_uuid :: "string \<Rightarrow> uid option"
  ie_str :: "uid \<Rightarrow> string"
  ie_arrow :: string
  ie_new :: "nat \<Rightarrow> uid"
  ie_text :: framework_text

definition quote_text :: "string \<Rightarrow> string" where
  "quote_text s = char_of (39 :: nat) # s @ [char_of (39 :: nat)]"

definition find_by_uuid :: "import_env \<Rightarrow> ('r \<Rightarrow> uid) \<Rightarrow> ('r \<Rightarrow> bool) \<Rightarrow> 'r list \<Rightarrow> string \<Rightarrow> row_end + 'r option" where
  "find_by_uuid env ident p rows txt =
     (case ie_uuid env txt of
        None \<Rightarrow> Inl (Escaped (txt @ '' is not a valid UUID.''))
      | Some i \<Rightarrow> Inr (first_row (\<lambda>r. ident r = i \<and> p r) rows))"

definition site_from_location :: "string \<Rightarrow> string \<Rightarrow> string" where
  "site_from_location name location =
     (if name = [] \<and> location \<noteq> []
      then (if contains location '' / '' then strip (before_sep '' / '' location) else strip location) else name)"

definition import_site :: "import_env \<Rightarrow> db \<Rightarrow> string \<Rightarrow> string \<Rightarrow> string \<Rightarrow> row_end + site" where
  "import_site env d name id_text location =
     (if id_text \<noteq> []
      then bind_res (find_by_uuid env site_id (\<lambda>_. True) (t_sites d) id_text) (\<lambda>s.
        case s of Some s \<Rightarrow> Inr s | None \<Rightarrow> Inl (Reported (''Site ID '' @ quote_text id_text @ '' does not exist.'')))
      else let name = site_from_location name location
        in if name = [] then Inl (Reported ''Site is required (provide Site or Site ID column).'')
           else case filter (\<lambda>s. iexact (site_name s) name) (t_sites d) of
               [] \<Rightarrow> Inl (Reported (''Site '' @ quote_text name @ '' does not exist.''))
             | [s] \<Rightarrow> Inr s
             | _ \<Rightarrow> Inl (Reported (''Site '' @ quote_text name @ '' is ambiguous. Please provide Site ID.'')))"

text \<open>\<^verbatim>\<open>str(area)\<close>; \<open>None\<close> is the walk to the root that never ends.\<close>

definition area_text :: "import_env \<Rightarrow> db \<Rightarrow> area \<Rightarrow> string option" where
  "area_text env d a =
     map_option (\<lambda>path. site_label d (area_site a) @ '' / '' @ join ('' '' @ ie_arrow env @ '' '') path) (area_path d a [])"

fun filter_opt :: "('r \<Rightarrow> bool option) \<Rightarrow> 'r list \<Rightarrow> 'r list option" where
  "filter_opt p [] = Some []"
| "filter_opt p (r # rs) =
     (case p r of None \<Rightarrow> None | Some b \<Rightarrow> map_option (\<lambda>xs. if b then r # xs else xs) (filter_opt p rs))"

definition area_named :: "import_env \<Rightarrow> db \<Rightarrow> string \<Rightarrow> area \<Rightarrow> bool option" where
  "area_named env d normalized a =
     (if lower (area_name a) = normalized then Some True
      else map_option (\<lambda>t. lower t = normalized) (area_text env d a))"

definition import_area :: "import_env \<Rightarrow> db \<Rightarrow> site \<Rightarrow> string \<Rightarrow> string \<Rightarrow> (row_end + area option) option" where
  "import_area env d s name id_text =
     (if id_text \<noteq> []
      then Some (bind_res (find_by_uuid env area_id (\<lambda>a. area_site a = site_id s) (t_areas d) id_text) (\<lambda>a.
        case a of Some a \<Rightarrow> Inr (Some a)
        | None \<Rightarrow> Inl (Reported (''Area ID '' @ quote_text id_text @ '' does not exist for site '' @ quote_text (site_name s) @ ''.''))))
      else if name = [] then Some (Inr None)
      else map_option (\<lambda>ms. case ms of
            [] \<Rightarrow> Inl (Reported (''Area '' @ quote_text name @ '' does not exist in site '' @ quote_text (site_name s) @ ''.''))
          | [a] \<Rightarrow> Inr (Some a)
          | _ \<Rightarrow> Inl (Reported (''Area '' @ quote_text name @ '' is ambiguous in site '' @ quote_text (site_name s)
               @ ''. Please use Area ID.'')))
        (filter_opt (area_named env d (lower name)) (filter (\<lambda>a. area_site a = site_id s) (t_areas d))))"

definition import_vendor :: "db \<Rightarrow> string \<Rightarrow> row_end + vendor option" where
  "import_vendor d name =
     (if name = [] then Inr None
      else case first_row (\<lambda>v. iexact (vendor_name v) name) (t_vendors d) of
          None \<Rightarrow> Inl (Reported (''Vendor '' @ quote_text name @ '' does not exist.''))
        | Some v \<Rightarrow> Inr (Some v))"

definition import_choice :: "string \<Rightarrow> (string \<times> string) list \<Rightarrow> string option \<Rightarrow> string \<Rightarrow> row_end + string option" where
  "import_choice v choices dflt label =
     (if v = [] then Inr dflt
      else let m = fold (\<lambda>(internal, display) m. dict_put (lower display) internal (dict_put (lower internal) internal m)) choices []
        in case map_of m (lower v) of
            None \<Rightarrow> Inl (Reported (''Invalid '' @ label @ '' '' @ quote_text v @ ''.''))
          | Some r \<Rightarrow> Inr (Some r))"

section \<open>Importing a sheet\<close>

text \<open>What a row says, as texts.\<close>

record sheet_row =
  sr_designation :: string
  sr_model :: string
  sr_number :: "string option"
  sr_serial :: "string option"
  sr_site :: string
  sr_site_id :: string
  sr_area :: string
  sr_area_id :: string
  sr_vendor :: string
  sr_type :: string
  sr_status :: string
  sr_comment :: string

definition read_row :: "header \<Rightarrow> cell list \<Rightarrow> sheet_row" where
  "read_row m row =
     (let t = field_text m row
      in \<lparr>sr_designation = t ''designation'', sr_model = t ''model'', sr_number = optional (t ''inventory_number''),
          sr_serial = optional (t ''serial_number''), sr_site = t ''site'', sr_site_id = t ''site_id'', sr_area = t ''area'',
          sr_area_id = t ''area_id'', sr_vendor = t ''vendor'', sr_type = t ''item_type'', sr_status = t ''status'',
          sr_comment = t ''comment''\<rparr>)"

text \<open>What the texts of a row lead to.\<close>

record resolved =
  rv_designation :: string
  rv_site :: site
  rv_area :: "area option"
  rv_vendor :: "vendor option"
  rv_type :: string
  rv_status :: string

definition resolve_row :: "import_env \<Rightarrow> db \<Rightarrow> sheet_row \<Rightarrow> (row_end + resolved) option" where
  "resolve_row env d r =
     seq_end (Some (import_choice (sr_designation r) designation_choices None ''designation'')) (\<lambda>des.
     case des of None \<Rightarrow> Some (Inl (Reported ''Designation is required.'')) | Some des \<Rightarrow>
     seq_end (Some (import_site env d (sr_site r) (sr_site_id r) (sr_area r))) (\<lambda>s.
     seq_end (import_area env d s (sr_area r) (sr_area_id r)) (\<lambda>a.
     seq_end (Some (import_vendor d (sr_vendor r))) (\<lambda>v.
     seq_end (Some (import_choice (sr_type r) item_type_choices (Some ''device'') ''item type'')) (\<lambda>ty.
     seq_end (Some (import_choice (sr_status r) item_status_choices (Some ''in_stock'') ''status'')) (\<lambda>st.
     Some (Inr \<lparr>rv_designation = des, rv_site = s, rv_area = a, rv_vendor = v, rv_type = or_empty ty, rv_status = or_empty st\<rparr>)))))))"

definition item_by :: "db \<Rightarrow> (inv_item \<Rightarrow> string option) \<Rightarrow> string option \<Rightarrow> inv_item option" where
  "item_by d field v = (if v = None then None else first_row (\<lambda>i. field i = v) (t_inventory d))"

text \<open>The item of a row, by its inventory number, by its serial number, or a new one.\<close>

definition target_item :: "import_env \<Rightarrow> db \<Rightarrow> nat \<Rightarrow> sheet_row \<Rightarrow> row_end + inv_item" where
  "target_item env d n r =
     (let by_number = item_by d inv_number (sr_number r); by_serial = item_by d inv_serial (sr_serial r)
      in case by_number of
           None \<Rightarrow> (case by_serial of None \<Rightarrow> Inr (new_item (ie_new env n) [] 0) | Some j \<Rightarrow> Inr j)
         | Some i \<Rightarrow>
            (case by_serial of
               None \<Rightarrow> Inr i
             | Some j \<Rightarrow> if inv_id i \<noteq> inv_id j
                 then Inl (Reported (''Inventory number '' @ quote_text (or_empty (sr_number r)) @ '' and serial number '' @
                   quote_text (or_empty (sr_serial r)) @ '' refer to different records.''))
                 else Inr i))"

text \<open>
  \<^verbatim>\<open>item.pk is None\<close>: the primary key has a default, so that a new item has one
  before it is saved.
\<close>

definition pk_missing :: "inv_item \<Rightarrow> bool" where
  "pk_missing i = False"

definition filled_item :: "sheet_row \<Rightarrow> resolved \<Rightarrow> inv_item \<Rightarrow> inv_item" where
  "filled_item r v i = i\<lparr>inv_designation := rv_designation v, inv_number := sr_number r, inv_serial := sr_serial r,
     inv_vendor := map_option vendor_id (rv_vendor v), inv_model := sr_model r, inv_site := site_id (rv_site v),
     inv_area := map_option area_id (rv_area v), inv_comment := sr_comment r, inv_kind := rv_type v, inv_status := rv_status v\<rparr>"

definition format_msgs :: "field_msgs \<Rightarrow> string" where
  "format_msgs es = join ''; '' (map (\<lambda>(f, ms). f @ '': '' @ join '', '' ms) es)"

definition put_item :: "import_env \<Rightarrow> db \<Rightarrow> nat \<Rightarrow> sheet_row \<Rightarrow> resolved \<Rightarrow> row_end + (bool \<times> db)" where
  "put_item env d n r v =
     bind_res (target_item env d n r) (\<lambda>i.
       case item_full_clean (ie_text env) d (filled_item r v i) of
         (_, Inl es) \<Rightarrow> Inl (Reported (format_msgs es))
       | (j, Inr _) \<Rightarrow> Inr (pk_missing i, save_item d j))"

record import_state =
  im_db :: db
  im_created :: int
  im_updated :: int
  im_errors :: "string list"
  im_numbers :: "(string \<times> nat) list"
  im_serials :: "(string \<times> nat) list"

definition row_error :: "nat \<Rightarrow> string \<Rightarrow> import_state \<Rightarrow> import_state" where
  "row_error n msg st = st\<lparr>im_errors := im_errors st @ [''Row '' @ nat_str n @ '': '' @ msg]\<rparr>"

text \<open>
  A value that an earlier row of the file has is an error; else the value is noted for the rows
  that follow, also when this row fails later.
\<close>

definition note_value :: "string \<Rightarrow> nat \<Rightarrow> string option \<Rightarrow> (string \<times> nat) list \<Rightarrow> string + (string \<times> nat) list" where
  "note_value label n v seen =
     (case v of None \<Rightarrow> Inr seen
      | Some x \<Rightarrow> (case map_of seen x of
            Some k \<Rightarrow> Inl (label @ '' '' @ quote_text x @ '' is duplicated in file (already used in row '' @ nat_str k @ '').'')
          | None \<Rightarrow> Inr (dict_put x n seen)))"

definition store_row :: "import_env \<Rightarrow> nat \<Rightarrow> sheet_row \<Rightarrow> import_state \<Rightarrow> (string + import_state) option" where
  "store_row env n r st =
     (case seq_end (resolve_row env (im_db st) r) (\<lambda>v. Some (put_item env (im_db st) n r v)) of
        None \<Rightarrow> None
      | Some (Inl (Escaped e)) \<Rightarrow> Some (Inl e)
      | Some (Inl (Reported m)) \<Rightarrow> Some (Inr (row_error n m st))
      | Some (Inr (created, d)) \<Rightarrow> Some (Inr (st\<lparr>im_db := d, im_created := im_created st + (if created then 1 else 0),
          im_updated := im_updated st + (if created then 0 else 1)\<rparr>)))"

definition import_row :: "import_env \<Rightarrow> header \<Rightarrow> nat \<times> cell list \<Rightarrow> import_state \<Rightarrow> (string + import_state) option" where
  "import_row env m nrow st =
     (let (n, row) = nrow; r = read_row m row
      in if list_all (\<lambda>c. clean_cell c = []) row then Some (Inr st)
         else if sr_designation r = [] then Some (Inr (row_error n ''Designation is required.'' st))
         else if sr_model r = [] then Some (Inr (row_error n ''Model is required.'' st))
         else case note_value ''Inventory number'' n (sr_number r) (im_numbers st) of
             Inl e \<Rightarrow> Some (Inr (row_error n e st))
           | Inr numbers \<Rightarrow>
              (let st = st\<lparr>im_numbers := numbers\<rparr>
               in case note_value ''Serial number'' n (sr_serial r) (im_serials st) of
                   Inl e \<Rightarrow> Some (Inr (row_error n e st))
                 | Inr serials \<Rightarrow> store_row env n r (st\<lparr>im_serials := serials\<rparr>)))"

fun import_rows :: "import_env \<Rightarrow> header \<Rightarrow> (nat \<times> cell list) list \<Rightarrow> import_state \<Rightarrow> (string + import_state) option" where
  "import_rows env m [] st = Some (Inr st)"
| "import_rows env m (r # rs) st = seq_end (import_row env m r st) (\<lambda>st. import_rows env m rs st)"

datatype import_end = Aborted string | Crashed string | Completed int int

definition missing_columns :: "header \<Rightarrow> string list" where
  "missing_columns m =
     (if column m ''designation'' = None then [''Designation''] else []) @ (if column m ''model'' = None then [''Model''] else []) @
     (if column m ''site'' = None \<and> column m ''site_id'' = None then [''Site or Site ID''] else [])"

definition abort_message :: "string list \<Rightarrow> string" where
  "abort_message errors =
     ''Import aborted. '' @ join '' | '' (take 12 errors) @
     (if 12 < length errors then '' | ... and '' @ nat_str (length errors - 12) @ '' more errors.'' else [])"

text \<open>
  \<^verbatim>\<open>storage_inventory_import\<close>: one transaction over all rows, that an error of any row
  undoes. \<open>None\<close> is an import that never returns.
\<close>

definition import_sheet :: "import_env \<Rightarrow> cell list list \<Rightarrow> db \<Rightarrow> (import_end \<times> db) option" where
  "import_sheet env sheet d =
     (case sheet of
        [] \<Rightarrow> Some (Aborted ''Import failed: Excel sheet is empty.'', d)
      | hdr # rows \<Rightarrow>
         (let m = header_index_map hdr
          in if hdr = [] then Some (Aborted ''Import failed: Excel sheet is empty.'', d)
             else if missing_columns m \<noteq> []
             then Some (Aborted (''Import failed: missing required columns: '' @ join '', '' (missing_columns m)), d)
             else case import_rows env m (enumerate 2 rows)
                 \<lparr>im_db = d, im_created = 0, im_updated = 0, im_errors = [], im_numbers = [], im_serials = []\<rparr> of
                 None \<Rightarrow> None
               | Some (Inl e) \<Rightarrow> Some (Crashed e, d)
               | Some (Inr st) \<Rightarrow> Some (if im_errors st \<noteq> [] then (Aborted (abort_message (im_errors st)), d)
                   else (Completed (im_created st) (im_updated st), im_db st))))"

section \<open>The list of the items\<close>

record storage_row =
  sv_item :: uid
  sv_designation :: string
  sv_number :: string
  sv_serial :: string
  sv_location :: string
  sv_vendor :: string
  sv_model :: string
  sv_type :: string
  sv_status :: string
  sv_comment :: string
  sv_site_id :: string
  sv_site :: string
  sv_area_id :: string
  sv_area :: string

definition display :: "(string \<times> string) list \<Rightarrow> string \<Rightarrow> string" where
  "display choices v = (case map_of choices v of None \<Rightarrow> v | Some t \<Rightarrow> t)"

definition vendor_text :: "db \<Rightarrow> uid option \<Rightarrow> string" where
  "vendor_text d v = (case fk (\<lambda>i. first_row (\<lambda>r. vendor_id r = i) (t_vendors d)) v of None \<Rightarrow> [] | Some r \<Rightarrow> vendor_name r)"

definition storage_row_of :: "import_env \<Rightarrow> db \<Rightarrow> inv_item \<Rightarrow> storage_row option" where
  "storage_row_of env d i =
     map_option (\<lambda>area. \<lparr>sv_item = inv_id i, sv_designation = inv_designation i, sv_number = or_empty (inv_number i),
        sv_serial = or_empty (inv_serial i), sv_location = (if inv_area i = None then site_label d (inv_site i) else area),
        sv_vendor = vendor_text d (inv_vendor i), sv_model = inv_model i, sv_type = display item_type_choices (inv_kind i),
        sv_status = display item_status_choices (inv_status i), sv_comment = inv_comment i, sv_site_id = ie_str env (inv_site i),
        sv_site = site_label d (inv_site i), sv_area_id = (case inv_area i of None \<Rightarrow> [] | Some a \<Rightarrow> ie_str env a), sv_area = area\<rparr>)
       (case fk (find_area d) (inv_area i) of None \<Rightarrow> Some [] | Some a \<Rightarrow> area_text env d a)"

definition haystack :: "storage_row \<Rightarrow> string" where
  "haystack r = lower (join '' '' (filter (\<lambda>s. s \<noteq> []) [sv_designation r, sv_number r, sv_serial r, sv_vendor r, sv_model r,
     sv_site r, sv_area r, sv_type r, sv_status r, sv_comment r]))"

fun traverse :: "('a \<Rightarrow> 'b option) \<Rightarrow> 'a list \<Rightarrow> 'b list option" where
  "traverse f [] = Some []"
| "traverse f (x # xs) = (case f x of None \<Rightarrow> None | Some y \<Rightarrow> map_option (\<lambda>ys. y # ys) (traverse f xs))"

text \<open>The newest item first; items are appended when they are created.\<close>

definition build_storage_rows :: "import_env \<Rightarrow> db \<Rightarrow> string \<Rightarrow> storage_row list option" where
  "build_storage_rows env d search =
     (let query = strip (lower search)
      in map_option (filter (\<lambda>r. query = [] \<or> contains (haystack r) query)) (traverse (storage_row_of env d) (rev (t_inventory d))))"

definition quick_contains :: "string \<Rightarrow> string \<Rightarrow> bool" where
  "quick_contains value query \<longleftrightarrow> contains (lower value) (lower query)"

definition quick_field :: "storage_row \<Rightarrow> string \<Rightarrow> string" where
  "quick_field r k =
     (if k = ''qf_designation'' then sv_designation r else if k = ''qf_inventory_number'' then sv_number r
      else if k = ''qf_serial_number'' then sv_serial r else if k = ''qf_location'' then sv_location r
      else if k = ''qf_vendor'' then sv_vendor r else if k = ''qf_model'' then sv_model r
      else if k = ''qf_item_type'' then sv_type r else if k = ''qf_status'' then sv_status r else sv_comment r)"

definition quick_params :: "string list" where
  "quick_params = [''qf_designation'', ''qf_inventory_number'', ''qf_serial_number'', ''qf_location'', ''qf_vendor'',
     ''qf_model'', ''qf_item_type'', ''qf_status'', ''qf_comment'']"

definition quick_filter :: "(string \<Rightarrow> string) \<Rightarrow> storage_row list \<Rightarrow> storage_row list" where
  "quick_filter q rows =
     fold (\<lambda>k rs. if q k = [] then rs else filter (\<lambda>r. quick_contains (quick_field r k) (q k)) rs) quick_params rows"

definition storage_sort_key :: "string \<Rightarrow> storage_row \<Rightarrow> key_part list" where
  "storage_sort_key field r =
     (if field = ''inventory_number'' then natural_key (sv_number r)
      else if field = ''serial_number'' then [Word (lower (sv_serial r))]
      else if field = ''location'' then natural_key (sv_location r)
      else if field = ''vendor_name'' then natural_key (sv_vendor r)
      else if field = ''model'' then natural_key (sv_model r)
      else if field = ''item_type'' then natural_key (sv_type r)
      else if field = ''status'' then natural_key (sv_status r)
      else if field = ''comment'' then [Word (lower (sv_comment r))]
      else natural_key (sv_designation r))"

definition sort_storage_rows :: "string \<Rightarrow> storage_row list \<Rightarrow> storage_row list option" where
  "sort_storage_rows order rows =
     (let field = (if order = [] then ''designation'' else order)
      in if startswith field ''-'' then sort_rows_dir True (storage_sort_key (drop 1 field)) rows
         else sort_rows_dir False (storage_sort_key field) rows)"

text \<open>
  \<^verbatim>\<open>_storage_view_data\<close>: the rows that a request lists and exports, from its search
  text, its site, its quick filters and its order.
\<close>

definition storage_view :: "import_env \<Rightarrow> db \<Rightarrow> string \<Rightarrow> string \<Rightarrow> (string \<Rightarrow> string) \<Rightarrow> string \<Rightarrow> storage_row list option" where
  "storage_view env d search site q order =
     (case build_storage_rows env d (strip search) of
        None \<Rightarrow> None
      | Some rows \<Rightarrow>
         (let site = (if site = ''all'' \<or> site \<in> set (map (\<lambda>s. ie_str env (site_id s)) (t_sites d)) then site else ''all'');
              rows = (if site = ''all'' then rows else filter (\<lambda>r. sv_site_id r = site) rows)
          in sort_storage_rows order (quick_filter (\<lambda>k. strip (q k)) rows)))"

text \<open>The sheet that is exported.\<close>

definition export_headers :: "string list" where
  "export_headers = [''Designation'', ''Inventory Number'', ''Serial Number'', ''Site'', ''Site ID'', ''Area'', ''Area ID'',
     ''Vendor'', ''Model'', ''Item Type'', ''Status'', ''Comment'']"

definition export_row :: "storage_row \<Rightarrow> string list" where
  "export_row r = [sv_designation r, sv_number r, sv_serial r, sv_site r, sv_site_id r, sv_area r, sv_area_id r, sv_vendor r,
     sv_model r, sv_type r, sv_status r, sv_comment r]"

definition export_sheet :: "storage_row list \<Rightarrow> string list list" where
  "export_sheet rows = export_headers # map export_row rows"

end
