(* ===== verification/StorageProps.thy ===== *)
theory StorageProps
  imports Storage
begin

text \<open>
  What the storage inventory guarantees: an import of a sheet is all or nothing, and when it
  commits, every row of the sheet is an item, all other items are as they were, and the serial
  and inventory numbers are still unique.
\<close>

section \<open>A validated item\<close>

lemma fold_add_msgs_nonempty: "fold (\<lambda>x. add_msgs (f x) (g x)) xs es = [] \<longleftrightarrow> xs = [] \<and> es = []"
proof (induction xs arbitrary: es)
  case (Cons x xs)
  have "add_msgs (f x) (g x) es \<noteq> []" by (simp add: add_msgs_def)
  with Cons show ?case by simp
qed simp

lemma fold_pair_msgs_nonempty: "fold (\<lambda>(f, m). add_msgs f [m]) cs es = [] \<longleftrightarrow> cs = [] \<and> es = []"
  using fold_add_msgs_nonempty [of fst "\<lambda>c. [snd c]"] by (simp add: case_prod_unfold)

lemma item_clean_serial: "fst (item_clean d i) = i\<lparr>inv_serial := normalize_serial (inv_serial i)\<rparr>"
  by (simp add: item_clean_def validate_item_serial_def Let_def case_prod_unfold)

lemma item_clean_errors: "snd (item_clean d i) = Inl cs \<Longrightarrow> cs \<noteq> []"
  by (auto simp: item_clean_def Let_def case_prod_unfold split: if_splits)

lemma full_clean_ok:
  assumes "item_full_clean fw d i = (j, Inr ())"
  shows "item_clean d i = (j, Inr ())" and "j = i\<lparr>inv_serial := normalize_serial (inv_serial i)\<rparr>"
    and "\<not> taken d inv_number j"
proof -
  obtain r where c: "item_clean d i = (j, r)" using assms
    by (cases "item_clean d i") (simp add: item_full_clean_def Let_def case_prod_unfold split: if_splits)
  let ?es = "fold (\<lambda>(f, k). add_msgs f [fw f k]) (field_faults d i) []"
  let ?es2 = "case r of Inr _ \<Rightarrow> ?es | Inl cs \<Rightarrow> fold (\<lambda>(f, m). add_msgs f [m]) cs ?es"
  have last: "fold (\<lambda>f. add_msgs f [fw f ''unique'']) (unique_faults d j ?es2) ?es2 = []"
    using assms c by (simp add: item_full_clean_def Let_def split: if_splits)
  note both = last [unfolded fold_add_msgs_nonempty]
  then have es2: "?es2 = []" by (rule conjunct2)
  from both have unique: "unique_faults d j [] = []" unfolding es2 by (rule conjunct1)
  have "r = Inr ()"
  proof (cases r)
    case (Inl cs)
    with c have "cs \<noteq> []" using item_clean_errors [of d i cs] by simp
    moreover from es2 Inl have "cs = []" by (simp add: fold_pair_msgs_nonempty)
    ultimately show ?thesis by simp
  qed simp
  with c show "item_clean d i = (j, Inr ())" by simp
  show "j = i\<lparr>inv_serial := normalize_serial (inv_serial i)\<rparr>" using item_clean_serial [of d i] c by simp
  show "\<not> taken d inv_number j" using unique by (simp add: unique_faults_def split: if_splits)
qed

section \<open>The inventory while a sheet is imported\<close>

definition numbers_unique :: "db \<Rightarrow> bool" where
  "numbers_unique d \<longleftrightarrow> (\<forall>x \<in> set (t_inventory d). \<forall>y \<in> set (t_inventory d).
     inv_number x \<noteq> None \<longrightarrow> inv_number x = inv_number y \<longrightarrow> inv_id x = inv_id y)"

definition inventory_ok :: "db \<Rightarrow> bool" where
  "inventory_ok d \<longleftrightarrow> distinct (map inv_id (t_inventory d)) \<and> distinct (used_serials d) \<and> numbers_unique d"

lemma in_save_item:
  "distinct (map inv_id (t_inventory d)) \<Longrightarrow>
     x \<in> set (t_inventory (save_item d i)) \<longleftrightarrow> x = i \<or> (x \<in> set (t_inventory d) \<and> inv_id x \<noteq> inv_id i)"
  by (simp add: save_item_def in_save_row)

lemma save_cleaned_item:
  assumes "inventory_ok d" and "item_full_clean fw d i = (j, Inr ())"
  shows "inventory_ok (save_item d j)"
proof -
  note j = full_clean_ok [OF assms(2)]
  have ids: "distinct (map inv_id (t_inventory d))" and serials: "distinct (used_serials d)" and nums: "numbers_unique d"
    using assms(1) by (simp_all add: inventory_ok_def)
  have "distinct (used_serials (save_item d j))"
    using item_serials.distinct_save [OF ids _ item_clean_free [OF j(1)]] serials
    by (auto simp: used_serials_def save_item_def)
  moreover have "distinct (map inv_id (t_inventory (save_item d j)))"
    using ids by (simp add: save_item_def distinct_save_row)
  moreover have "numbers_unique (save_item d j)"
    unfolding numbers_unique_def
  proof (intro ballI impI)
    fix x y assume "x \<in> set (t_inventory (save_item d j))" "y \<in> set (t_inventory (save_item d j))"
      and *: "inv_number x \<noteq> None" "inv_number x = inv_number y"
    then consider "x = j" "y = j" | "x = j" "y \<in> set (t_inventory d)" "inv_id y \<noteq> inv_id j"
      | "y = j" "x \<in> set (t_inventory d)" "inv_id x \<noteq> inv_id j" | "x \<in> set (t_inventory d)" "y \<in> set (t_inventory d)"
      using ids by (auto simp: in_save_item)
    then show "inv_id x = inv_id y"
    proof cases
      case 2
      with * j(3) show ?thesis by (auto simp: taken_def)
    next
      case 3
      with * j(3) show ?thesis by (auto simp: taken_def)
    next
      case 4
      with * nums show ?thesis unfolding numbers_unique_def by blast
    qed simp
  qed
  ultimately show ?thesis by (simp add: inventory_ok_def)
qed

text \<open>A row names an item by one of its numbers.\<close>

definition names_item :: "sheet_row \<Rightarrow> inv_item \<Rightarrow> bool" where
  "names_item r i \<longleftrightarrow> (sr_number r \<noteq> None \<and> sr_number r = inv_number i) \<or> (sr_serial r \<noteq> None \<and> sr_serial r = inv_serial i)"

definition row_item :: "import_env \<Rightarrow> db \<Rightarrow> sheet_row \<Rightarrow> inv_item \<Rightarrow> bool" where
  "row_item env d r i \<longleftrightarrow> (\<exists>v i0. resolve_row env d r = Some (Inr v)
     \<and> i = (filled_item r v i0)\<lparr>inv_serial := normalize_serial (sr_serial r)\<rparr>)"

lemma row_item_fields:
  "row_item env d r i \<Longrightarrow> inv_number i = sr_number r \<and> inv_serial i = normalize_serial (sr_serial r) \<and> inv_model i = sr_model r"
  by (auto simp: row_item_def filled_item_def)

lemma target_named:
  assumes "target_item env d n r = Inr i"
  shows "(i \<in> set (t_inventory d) \<and> names_item r i) \<or> (i = new_item (ie_new env n) [] 0 \<and> (\<forall>x \<in> set (t_inventory d). \<not> names_item r x))"
proof -
  have found: "item_by d field v = Some x \<Longrightarrow> x \<in> set (t_inventory d) \<and> v \<noteq> None \<and> field x = v" for field v x
    by (auto simp: item_by_def dest: first_row_Some split: if_splits)
  have none: "item_by d field v = None \<Longrightarrow> v = None \<or> (\<forall>x \<in> set (t_inventory d). field x \<noteq> v)" for field v
    by (auto simp: item_by_def first_row_None split: if_splits)
  from assms show ?thesis
    using found [of inv_number "sr_number r"] found [of inv_serial "sr_serial r"]
      none [of inv_number "sr_number r"] none [of inv_serial "sr_serial r"]
    by (auto simp: target_item_def names_item_def Let_def split: option.splits if_splits)
qed

text \<open>Resolving a row looks at no item.\<close>

lemma resolve_row_inventory: "resolve_row env (d\<lparr>t_inventory := xs\<rparr>) r = resolve_row env d r"
proof -
  have "find_area (d\<lparr>t_inventory := xs\<rparr>) = find_area d" by (simp add: fun_eq_iff find_area_def)
  moreover have "area_named env (d\<lparr>t_inventory := xs\<rparr>) = area_named env d"
    by (simp add: fun_eq_iff area_named_def area_text_def area_path_cong [of "d\<lparr>t_inventory := xs\<rparr>" d] site_label_def find_site_def)
  ultimately have "import_area env (d\<lparr>t_inventory := xs\<rparr>) = import_area env d"
    by (intro ext) (simp add: import_area_def cong: if_cong)
  moreover have "import_site env (d\<lparr>t_inventory := xs\<rparr>) = import_site env d"
    and "import_vendor (d\<lparr>t_inventory := xs\<rparr>) = import_vendor d"
    by (intro ext, simp add: import_site_def import_vendor_def Let_def cong: if_cong)+
  ultimately show ?thesis unfolding resolve_row_def by (simp only:)
qed

lemma put_item_step:
  assumes ok: "inventory_ok d" and res: "resolve_row env d r = Some (Inr v)" and put: "put_item env d n r v = Inr (created, d')"
    and fresh: "ie_new env n \<notin> inv_id ` set (t_inventory d)"
  shows "\<not> created \<and> inventory_ok d' \<and> d' = d\<lparr>t_inventory := t_inventory d'\<rparr>
    \<and> (\<exists>i \<in> set (t_inventory d'). row_item env d r i)
    \<and> (\<forall>x \<in> set (t_inventory d). \<not> names_item r x \<longrightarrow> x \<in> set (t_inventory d'))
    \<and> inv_id ` set (t_inventory d') \<subseteq> insert (ie_new env n) (inv_id ` set (t_inventory d))"
proof -
  obtain i where target: "target_item env d n r = Inr i"
    and out: "(case item_full_clean (ie_text env) d (filled_item r v i) of
        (_, Inl es) \<Rightarrow> Inl (Reported (format_msgs es)) | (j, Inr _) \<Rightarrow> Inr (pk_missing i, save_item d j)) = Inr (created, d')"
    using put unfolding put_item_def bind_res_eq_Inr by blast
  obtain j q where full: "item_full_clean (ie_text env) d (filled_item r v i) = (j, q)" by (cases "item_full_clean (ie_text env) d (filled_item r v i)")
  have "q = Inr () \<and> d' = save_item d j \<and> created = pk_missing i"
    using out full by (cases q) simp_all
  with full have clean: "item_full_clean (ie_text env) d (filled_item r v i) = (j, Inr ())"
    and d': "d' = save_item d j" and created: "created = pk_missing i"
    by simp_all
  have j: "j = (filled_item r v i)\<lparr>inv_serial := normalize_serial (sr_serial r)\<rparr>"
    using full_clean_ok(2) [OF clean] by (simp add: filled_item_def)
  then have id: "inv_id j = inv_id i" by (simp add: filled_item_def)
  have ids: "distinct (map inv_id (t_inventory d))" using ok by (simp add: inventory_ok_def)
  have "row_item env d r j" using res j by (auto simp: row_item_def)
  moreover have "x \<in> set (t_inventory d')" if x: "x \<in> set (t_inventory d)" "\<not> names_item r x" for x
  proof -
    have "inv_id x \<noteq> inv_id i"
    proof
      assume same: "inv_id x = inv_id i"
      have "inv_id x \<in> inv_id ` set (t_inventory d)" using x(1) by (rule imageI)
      with same fresh have "inv_id i \<noteq> ie_new env n" by metis
      then have "i \<noteq> new_item (ie_new env n) [] 0" by (auto simp: new_item_def)
      with target_named [OF target] have "i \<in> set (t_inventory d)" "names_item r i" by simp_all
      with same x ids show False by (metis first_row_distinct option.inject)
    qed
    with x ids show ?thesis by (simp add: d' in_save_item id)
  qed
  moreover have "inv_id ` set (t_inventory d') \<subseteq> insert (ie_new env n) (inv_id ` set (t_inventory d))"
    using target_named [OF target] ids by (auto simp: d' in_save_item id new_item_def)
  moreover have "j \<in> set (t_inventory d')" using ids by (simp add: d' in_save_item)
  ultimately show ?thesis
    using save_cleaned_item [OF ok clean] created by (auto simp: d' pk_missing_def save_item_def)
qed

section \<open>The loop over the rows\<close>

definition data_row :: "cell list \<Rightarrow> bool" where
  "data_row row \<longleftrightarrow> \<not> list_all (\<lambda>c. clean_cell c = []) row"

text \<open>What holds after the rows \<open>done\<close>, as long as no row failed.\<close>

definition import_inv :: "import_env \<Rightarrow> header \<Rightarrow> db \<Rightarrow> (nat \<times> cell list) list \<Rightarrow> import_state \<Rightarrow> bool" where
  "import_inv env m d rows st \<longleftrightarrow>
     (let rs = map (\<lambda>(n, row). read_row m row) (filter (\<lambda>(n, row). data_row row) rows); inv = t_inventory (im_db st)
      in im_db st = d\<lparr>t_inventory := inv\<rparr> \<and> inventory_ok (im_db st)
       \<and> inv_id ` set inv \<subseteq> inv_id ` set (t_inventory d) \<union> ie_new env ` fst ` set rows
       \<and> (\<forall>r \<in> set rs. \<exists>i \<in> set inv. row_item env d r i)
       \<and> (\<forall>x \<in> set (t_inventory d). (\<forall>r \<in> set rs. \<not> names_item r x) \<longrightarrow> x \<in> set inv)
       \<and> im_created st = 0 \<and> im_updated st = int (length rs)
       \<and> (\<forall>r \<in> set rs. \<forall>x. sr_number r = Some x \<longrightarrow> map_of (im_numbers st) x \<noteq> None)
       \<and> (\<forall>r \<in> set rs. \<forall>x. sr_serial r = Some x \<longrightarrow> map_of (im_serials st) x \<noteq> None))"

lemma digits_int_str: "int_str i = CHR ''-'' # nat_str (nat (- i)) \<or> int_str i = nat_str (nat i)"
  by (simp add: int_str_def)

lemma trimmed_int_str: "trimmed (int_str i)"
proof -
  have "trimmed (nat_str n)" for n by (simp add: trimmed_digits)
  moreover have "trimmed (CHR ''-'' # nat_str n)" for n
    using trimmed_digits [OF all_digits_nat_str, of n] all_digits_nat_str [of n]
    by (auto simp: trimmed_def is_space_def all_digits_def)
  ultimately show ?thesis using digits_int_str [of i] by metis
qed

lemma read_serial:
  "normalize_serial (sr_serial (read_row m row)) = None \<or> normalize_serial (sr_serial (read_row m row)) = sr_serial (read_row m row)"
proof -
  have cell: "trimmed (clean_cell c)" for c
    by (cases c) (simp_all add: clean_cell_def trimmed_int_str trimmed_def [of "[]"])
  have "trimmed (field_text m row name)" for name
    using cell by (simp add: field_text_def row_cell_def trimmed_def [of "[]"] split: option.split)
  then have "strip (field_text m row name) = field_text m row name" for name by (rule strip_trimmed)
  then show ?thesis by (simp add: read_row_def optional_def normalize_serial_def Let_def)
qed

lemma note_value_seen:
  assumes "note_value label n v seen = Inr seen'"
  shows "(\<forall>x. v = Some x \<longrightarrow> map_of seen x = None \<and> map_of seen' x \<noteq> None) \<and> (\<forall>x. map_of seen x \<noteq> None \<longrightarrow> map_of seen' x \<noteq> None)"
  using assms by (auto simp: note_value_def split: option.splits)

text \<open>A row that does not fail has been noted and stored.\<close>

lemma import_row_stored:
  assumes run: "import_row env m (n, row) st = Some (Inr st')" and clean: "im_errors st' = []" and data: "data_row row"
  obtains numbers serials v created d where "note_value ''Inventory number'' n (sr_number (read_row m row)) (im_numbers st) = Inr numbers"
    and "note_value ''Serial number'' n (sr_serial (read_row m row)) (im_serials st) = Inr serials"
    and "resolve_row env (im_db st) (read_row m row) = Some (Inr v)"
    and "put_item env (im_db st) n (read_row m row) v = Inr (created, d)"
    and "st' = st\<lparr>im_numbers := numbers, im_serials := serials, im_db := d, im_created := im_created st + (if created then 1 else 0),
          im_updated := im_updated st + (if created then 0 else 1)\<rparr>"
proof -
  have failed: "im_errors (row_error k msg s) \<noteq> []" for k msg s by (simp add: row_error_def)
  let ?r = "read_row m row"
  obtain numbers where numbers: "note_value ''Inventory number'' n (sr_number ?r) (im_numbers st) = Inr numbers"
    using run clean data failed
    by (cases "note_value ''Inventory number'' n (sr_number ?r) (im_numbers st)")
      (auto simp: import_row_def data_row_def Let_def split: if_splits)
  obtain serials where serials: "note_value ''Serial number'' n (sr_serial ?r) (im_serials st) = Inr serials"
    using run clean data failed numbers
    by (cases "note_value ''Serial number'' n (sr_serial ?r) (im_serials st)")
      (auto simp: import_row_def data_row_def Let_def split: if_splits)
  have store: "store_row env n ?r (st\<lparr>im_numbers := numbers, im_serials := serials\<rparr>) = Some (Inr st')"
    using run clean data failed numbers serials by (auto simp: import_row_def data_row_def Let_def split: if_splits)
  let ?out = "seq_end (resolve_row env (im_db st) ?r) (\<lambda>v. Some (put_item env (im_db st) n ?r v))"
  obtain created d where out: "?out = Some (Inr (created, d))"
    using store clean failed
    by (cases ?out) (auto simp: store_row_def split: sum.splits row_end.splits)
  then obtain v where "resolve_row env (im_db st) ?r = Some (Inr v)" "put_item env (im_db st) n ?r v = Inr (created, d)"
    by (auto simp: seq_end_Inr)
  moreover have "st' = st\<lparr>im_numbers := numbers, im_serials := serials, im_db := d, im_created := im_created st + (if created then 1 else 0),
        im_updated := im_updated st + (if created then 0 else 1)\<rparr>"
    using store out by (simp add: store_row_def)
  ultimately show ?thesis using that numbers serials by blast
qed

lemma import_row_errors: "import_row env m nrow st = Some (Inr st') \<Longrightarrow> im_errors st' = [] \<Longrightarrow> im_errors st = []"
  by (cases nrow) (auto simp: import_row_def store_row_def row_error_def Let_def split: if_splits sum.splits option.splits row_end.splits)

lemma import_rows_errors: "import_rows env m rows st = Some (Inr st') \<Longrightarrow> im_errors st' = [] \<Longrightarrow> im_errors st = []"
proof (induction rows arbitrary: st)
  case (Cons r rs)
  then show ?case using import_row_errors by (fastforce simp: seq_end_Inr)
qed simp

lemma row_item_inventory: "row_item env (d\<lparr>t_inventory := xs\<rparr>) r i = row_item env d r i"
  by (simp add: row_item_def resolve_row_inventory)

lemma import_row_inv:
  assumes inv: "import_inv env m d rows st" and run: "import_row env m (n, row) st = Some (Inr st')" and clean: "im_errors st' = []"
    and new: "n \<notin> fst ` set rows" "inj (ie_new env)" "\<forall>k. ie_new env k \<notin> inv_id ` set (t_inventory d)"
  shows "import_inv env m d (rows @ [(n, row)]) st'"
proof (cases "data_row row")
  case False
  with run have "st' = st" by (simp add: import_row_def data_row_def)
  with inv False show ?thesis by (auto simp: import_inv_def Let_def)
next
  case True
  let ?rs = "map (\<lambda>(n, row). read_row m row) (filter (\<lambda>(n, row). data_row row) rows)"
  let ?r = "read_row m row"
  obtain numbers serials v created e where numbers: "note_value ''Inventory number'' n (sr_number ?r) (im_numbers st) = Inr numbers"
    and serials: "note_value ''Serial number'' n (sr_serial ?r) (im_serials st) = Inr serials"
    and res: "resolve_row env (im_db st) ?r = Some (Inr v)" and put: "put_item env (im_db st) n ?r v = Inr (created, e)"
    and st': "st' = st\<lparr>im_numbers := numbers, im_serials := serials, im_db := e, im_created := im_created st + (if created then 1 else 0),
          im_updated := im_updated st + (if created then 0 else 1)\<rparr>"
    by (rule import_row_stored [OF run clean True])
  note before = inv [unfolded import_inv_def Let_def]
  have ok: "inventory_ok (im_db st)" and same: "im_db st = d\<lparr>t_inventory := t_inventory (im_db st)\<rparr>"
    and ids: "inv_id ` set (t_inventory (im_db st)) \<subseteq> inv_id ` set (t_inventory d) \<union> ie_new env ` fst ` set rows"
    using before by blast+
  have "ie_new env n \<notin> inv_id ` set (t_inventory (im_db st))"
  proof
    assume "ie_new env n \<in> inv_id ` set (t_inventory (im_db st))"
    with ids new(3) have "ie_new env n \<in> ie_new env ` fst ` set rows" by blast
    with new(1,2) show False by (metis imageE injD)
  qed
  note step = put_item_step [OF ok res put this]
  have row: "row_item env (im_db st) r i = row_item env d r i" for r i
    by (subst same) (rule row_item_inventory)
  note nseen = note_value_seen [OF numbers] and sseen = note_value_seen [OF serials]
  have kept: "\<not> names_item ?r i" if r: "r \<in> set ?rs" and i: "row_item env d r i" for r i
  proof -
    from r obtain row' where r': "r = read_row m row'" by auto
    have "\<forall>x. sr_number r = Some x \<longrightarrow> map_of (im_numbers st) x \<noteq> None" "\<forall>x. sr_serial r = Some x \<longrightarrow> map_of (im_serials st) x \<noteq> None"
      using before r by blast+
    then have "sr_number ?r \<noteq> None \<longrightarrow> sr_number ?r \<noteq> sr_number r" "sr_serial ?r \<noteq> None \<longrightarrow> sr_serial ?r \<noteq> sr_serial r"
      using nseen sseen by (metis not_None_eq)+
    then show ?thesis using row_item_fields [OF i] read_serial [of m row'] by (auto simp: names_item_def r')
  qed
  have stored: "\<exists>i \<in> set (t_inventory (im_db st)). row_item env d r i" if "r \<in> set ?rs" for r
    using before that by blast
  have untouched: "\<forall>x \<in> set (t_inventory (im_db st)). \<not> names_item ?r x \<longrightarrow> x \<in> set (t_inventory e)" using step by blast
  have "\<exists>i \<in> set (t_inventory e). row_item env d r i" if r: "r \<in> set ?rs" for r
  proof -
    obtain i where i: "i \<in> set (t_inventory (im_db st))" "row_item env d r i" using stored [OF r] by blast
    with untouched kept [OF r i(2)] show ?thesis by blast
  qed
  moreover have "\<exists>i \<in> set (t_inventory e). row_item env d ?r i" using step row by blast
  ultimately have all_stored: "\<forall>r \<in> set (?rs @ [?r]). \<exists>i \<in> set (t_inventory e). row_item env d r i" by auto
  have old: "\<forall>x \<in> set (t_inventory d). (\<forall>r \<in> set (?rs @ [?r]). \<not> names_item r x) \<longrightarrow> x \<in> set (t_inventory e)"
  proof (intro ballI impI)
    fix x assume x: "x \<in> set (t_inventory d)" "\<forall>r \<in> set (?rs @ [?r]). \<not> names_item r x"
    then have "x \<in> set (t_inventory (im_db st))" using before by auto
    with x(2) untouched show "x \<in> set (t_inventory e)" by simp
  qed
  have frame: "e = d\<lparr>t_inventory := t_inventory e\<rparr>"
  proof -
    have "e = (im_db st)\<lparr>t_inventory := t_inventory e\<rparr>" using step by blast
    then show ?thesis by (subst (asm) same) simp
  qed
  have "inv_id ` set (t_inventory e) \<subseteq> insert (ie_new env n) (inv_id ` set (t_inventory (im_db st)))" using step by blast
  also have "\<dots> \<subseteq> insert (ie_new env n) (inv_id ` set (t_inventory d) \<union> ie_new env ` fst ` set rows)" using ids by (rule insert_mono)
  finally have ids': "inv_id ` set (t_inventory e) \<subseteq> inv_id ` set (t_inventory d) \<union> ie_new env ` fst ` set (rows @ [(n, row)])"
    by simp
  have seen: "\<forall>r \<in> set (?rs @ [?r]). \<forall>x. sr_number r = Some x \<longrightarrow> map_of numbers x \<noteq> None"
    "\<forall>r \<in> set (?rs @ [?r]). \<forall>x. sr_serial r = Some x \<longrightarrow> map_of serials x \<noteq> None"
    using before nseen sseen unfolding set_append Un_iff by fastforce+
  have rs: "map (\<lambda>(n, row). read_row m row) (filter (\<lambda>(n, row). data_row row) (rows @ [(n, row)])) = ?rs @ [?r]"
    using True by simp
  have counts: "im_created st' = 0" "im_updated st' = int (length (?rs @ [?r]))" using before step by (simp_all add: st')
  have fields: "im_db st' = e" "im_numbers st' = numbers" "im_serials st' = serials" by (simp_all add: st')
  have "inventory_ok e" using step by blast
  then show ?thesis
    unfolding import_inv_def Let_def rs fields
    by (intro conjI frame ids' all_stored old counts seen)
qed

lemma import_rows_inv:
  assumes "import_inv env m d old st" and "import_rows env m rows st = Some (Inr st')" and "im_errors st' = []"
    and "distinct (map fst (old @ rows))" and "inj (ie_new env)" and "\<forall>k. ie_new env k \<notin> inv_id ` set (t_inventory d)"
  shows "import_inv env m d (old @ rows) st'"
  using assms(1-4)
proof (induction rows arbitrary: old st)
  case (Cons nrow rs)
  obtain n row where nrow: "nrow = (n, row)" by (cases nrow)
  from Cons.prems(2) obtain u where first: "import_row env m (n, row) st = Some (Inr u)" and rest: "import_rows env m rs u = Some (Inr st')"
    by (auto simp: seq_end_Inr nrow)
  have "im_errors u = []" by (rule import_rows_errors [OF rest Cons.prems(3)])
  then have "import_inv env m d (old @ [(n, row)]) u"
    using Cons.prems(4) by (intro import_row_inv [OF Cons.prems(1) first _ _ assms(5,6)]) (auto simp: nrow)
  from Cons.IH [OF this rest Cons.prems(3)] Cons.prems(4) show ?case by (simp add: nrow)
qed simp

text \<open>
  C22. An import either changes nothing and tells why, or it is complete: every row of the sheet
  that is not blank is an item with the texts and the rows it names, an item that no row names by
  its numbers is as it was, no other table changes, and serial numbers, up to case and together
  with those of the modules, inventory numbers and identifiers are unique. It always reports
  its rows as updated, never as created.
\<close>

theorem import_sheet_atomic:
  assumes "import_sheet env (hdr # rows) d = Some (res, d')" and "inventory_ok d"
    and "inj (ie_new env)" and "\<forall>k. ie_new env k \<notin> inv_id ` set (t_inventory d)"
    and "rs = map (read_row (header_index_map hdr)) (filter data_row rows)"
  shows "case res of
      Completed created updated \<Rightarrow> created = 0 \<and> updated = int (length rs)
        \<and> (\<forall>r \<in> set rs. \<exists>i \<in> set (t_inventory d'). row_item env d r i)
        \<and> (\<forall>x \<in> set (t_inventory d). (\<forall>r \<in> set rs. \<not> names_item r x) \<longrightarrow> x \<in> set (t_inventory d'))
        \<and> d' = d\<lparr>t_inventory := t_inventory d'\<rparr> \<and> inventory_ok d'
    | _ \<Rightarrow> d' = d"
proof (cases res)
  case (Completed created updated)
  let ?m = "header_index_map hdr"
  let ?start = "\<lparr>im_db = d, im_created = 0, im_updated = 0, im_errors = [], im_numbers = [], im_serials = []\<rparr>"
  obtain st where run: "import_rows env ?m (enumerate 2 rows) ?start = Some (Inr st)" and clean: "im_errors st = []"
    and st: "created = im_created st" "updated = im_updated st" "d' = im_db st"
    using assms(1) Completed by (auto simp: import_sheet_def Let_def split: if_splits option.splits sum.splits)
  have "import_inv env ?m d [] ?start" using assms(2) by (simp add: import_inv_def)
  from import_rows_inv [OF this run clean _ assms(3,4)] have inv: "import_inv env ?m d (enumerate 2 rows) st"
    by (simp add: distinct_enumerate)
  have "map (\<lambda>(n, row). read_row ?m row) (filter (\<lambda>(n, row). data_row row) (enumerate k rows)) = rs" for k
    unfolding assms(5) by (induction rows arbitrary: k) auto
  with inv show ?thesis by (simp add: import_inv_def Let_def Completed st)
next
  case (Aborted msg)
  with assms(1) show ?thesis by (auto simp: import_sheet_def Let_def split: if_splits option.splits sum.splits)
next
  case (Crashed msg)
  with assms(1) show ?thesis by (auto simp: import_sheet_def Let_def split: if_splits option.splits sum.splits)
qed

section \<open>Witness\<close>

definition demo_storage :: db where
  "demo_storage = empty_db\<lparr>t_sites := [\<lparr>site_id = 1, site_name = ''BN'', site_domain = []\<rparr>],
     t_inventory := [(new_item 1 ''M'' 1)\<lparr>inv_serial := Some ''7''\<rparr>]\<rparr>"

definition demo_import_env :: import_env where
  "demo_import_env = \<lparr>ie_uuid = (\<lambda>_. None), ie_str = nat_str, ie_arrow = ''>'', ie_new = (\<lambda>n. n + 100), ie_text = (\<lambda>f k. k)\<rparr>"

definition demo_header :: "cell list" where
  "demo_header = map Shown [''Designation'', ''Serial No'', ''Site'', ''Model'']"

text \<open>A row for the item that is there, a blank row and a row for a new one.\<close>

definition demo_rows :: "cell list list" where
  "demo_rows = [[Shown ''switch'', Whole 7, Shown ''bn'', Shown ''M2''], [Empty, Shown '' ''], [Shown ''Switch'', Shown ''A'', Shown ''BN'', Shown ''M'']]"

theorem import_sheet_atomic_witness:
  "\<exists>d'. import_sheet demo_import_env (demo_header # demo_rows) demo_storage = Some (Completed 0 2, d') \<and> inventory_ok d'"
proof -
  let ?out = "import_sheet demo_import_env (demo_header # demo_rows) demo_storage"
  have "(case ?out of Some (Completed _ _, _) \<Rightarrow> True | _ \<Rightarrow> False)" by code_simp
  then obtain c u d' where run: "?out = Some (Completed c u, d')"
    by (auto split: option.splits prod.splits import_end.splits)
  have ok: "inventory_ok demo_storage"
    by (simp add: inventory_ok_def numbers_unique_def demo_storage_def empty_db_def new_item_def used_serials_def)
  have "inj (ie_new demo_import_env)" "\<forall>k. ie_new demo_import_env k \<notin> inv_id ` set (t_inventory demo_storage)"
    by (auto simp: demo_import_env_def demo_storage_def new_item_def inj_def)
  from import_sheet_atomic [OF run ok this refl]
  have "c = 0" "u = int (length (map (read_row (header_index_map demo_header)) (filter data_row demo_rows)))" "inventory_ok d'"
    by simp_all
  moreover have "length (map (read_row (header_index_map demo_header)) (filter data_row demo_rows)) = 2"
    by (simp add: demo_rows_def data_row_def clean_cell_def strip_def lstrip_def rstrip_def is_space_def)
  ultimately show ?thesis using run by simp
qed

end
