(* ===== verification/Decommission.thy ===== *)
theory Decommission
  imports Storage ConfigStore
begin

text \<open>
  Taking a device out of service (\<^verbatim>\<open>dcim/views/device_views.py\<close> with the forms of
  \<^verbatim>\<open>dcim/forms/device_forms.py\<close>): deleting it, moving it with its modules to the storage
  inventory, or replacing it by another device that gets its configuration. The identifiers, their
  texts and the outside are parameters.
\<close>

section \<open>The items of a device\<close>

definition infer_designation :: "string \<Rightarrow> string \<Rightarrow> string \<Rightarrow> string" where
  "infer_designation kind name model =
     (let txt = lower (join '' '' (filter (\<lambda>s. s \<noteq> []) [name, model]))
      in if contains txt ''access point'' \<or> contains txt ''ap '' \<or> startswith txt ''ap-'' then ''Access Point''
         else if contains txt ''qsfp'' \<and> contains txt ''adapter'' \<and> contains txt ''sfp'' then ''QSFP to SFP10G Adapter''
         else if contains txt ''sfp+'' then ''SFP+ Transceiver''
         else if contains txt ''qsfp'' then ''QSFP Transceiver''
         else if contains txt ''sfp'' then ''SFP Transceiver''
         else if contains txt ''uplink'' then ''Uplink Module''
         else if kind = ''device'' then ''Switch'' else ''Uplink Module'')"

record source_item =
  so_key :: string
  so_kind :: string
  so_name :: string
  so_serial :: string
  so_model :: string
  so_designation :: string
  so_number :: string
  so_vendor :: "uid option"

definition device_model :: "db \<Rightarrow> device \<Rightarrow> string" where
  "device_model d dev =
     (case fk (find_type d) (dev_type dev) of
        Some t \<Rightarrow> if dt_model t \<noteq> [] then dt_model t else dev_name dev
      | None \<Rightarrow> dev_name dev)"

definition device_source :: "(uid \<Rightarrow> string) \<Rightarrow> db \<Rightarrow> device \<Rightarrow> source_item" where
  "device_source str d dev =
     \<lparr>so_key = ''device:'' @ str (dev_id dev), so_kind = ''device'', so_name = (if dev_name dev = [] then ''Device'' else dev_name dev),
      so_serial = strip (or_empty (dev_serial dev)), so_model = device_model d dev,
      so_designation = infer_designation ''device'' (dev_name dev) (device_model d dev),
      so_number = strip (or_empty (dev_inventory dev)), so_vendor = map_option dt_vendor (fk (find_type d) (dev_type dev))\<rparr>"

definition module_source :: "(uid \<Rightarrow> string) \<Rightarrow> dev_module \<Rightarrow> source_item" where
  "module_source str m =
     (let descr = strip (or_empty (mod_description m)); model = (if descr = [] then strip (mod_name m) else descr)
      in \<lparr>so_key = ''module:'' @ str (mod_id m), so_kind = ''module'', so_name = (if mod_name m = [] then ''Module'' else mod_name m),
          so_serial = strip (or_empty (serial_display m)), so_model = model,
          so_designation = infer_designation ''module'' (mod_name m) model,
          so_number = strip (or_empty (mod_inventory m)), so_vendor = mod_vendor m\<rparr>)"

definition source_items :: "(uid \<Rightarrow> string) \<Rightarrow> db \<Rightarrow> device \<Rightarrow> source_item list option" where
  "source_items str d dev =
     map_option (\<lambda>ms. device_source str d dev # map (module_source str) ms)
       (sort_rows_dir False (\<lambda>m. natural_key (mod_name m)) (filter (\<lambda>m. mod_device m = dev_id dev) (t_modules d)))"

definition source_lookup :: "source_item list \<Rightarrow> string \<Rightarrow> source_item option" where
  "source_lookup items = map_of (fold (\<lambda>s m. dict_put (so_key s) s m) items [])"

section \<open>The rows of the form\<close>

text \<open>
  What is submitted in a row, and the rows that are proposed. A choice field left empty is the
  empty text; a reference that cannot be read is no row of the table.
\<close>

record item_form =
  fm_source :: string
  fm_action :: string
  fm_kind :: string
  fm_designation :: string
  fm_number :: string
  fm_area :: "uid option"
  fm_vendor :: "uid option"
  fm_status :: string
  fm_comment :: string

definition initial_rows :: "device \<Rightarrow> source_item list \<Rightarrow> item_form list" where
  "initial_rows dev items = map (\<lambda>s. \<lparr>fm_source = so_key s, fm_action = ''store'', fm_kind = so_kind s,
     fm_designation = so_designation s, fm_number = so_number s, fm_area = Some (dev_area dev), fm_vendor = so_vendor s,
     fm_status = ''in_stock'', fm_comment = []\<rparr>) items"

type_synonym form_error = "string option \<times> string"

definition optional_choice_fault :: "string \<Rightarrow> (string \<times> string) list \<Rightarrow> string option" where
  "optional_choice_fault v choices = (if v = [] then None else choice_fault v choices)"

definition required_choice_fault :: "string \<Rightarrow> (string \<times> string) list \<Rightarrow> string option" where
  "required_choice_fault v choices = (if v = [] then Some ''required'' else choice_fault v choices)"

definition form_field_faults :: "db \<Rightarrow> uid \<Rightarrow> item_form \<Rightarrow> (string \<times> string) list" where
  "form_field_faults d site f = concat (map (\<lambda>(n, c). case c of None \<Rightarrow> [] | Some k \<Rightarrow> [(n, k)])
     [(''source_key'', if strip (fm_source f) = [] then Some ''required'' else None),
      (''action'', required_choice_fault (fm_action f) [(''store'', ''Move to storage''), (''discard'', ''Discard'')]),
      (''item_type'', optional_choice_fault (fm_kind f) item_type_choices),
      (''designation'', optional_choice_fault (fm_designation f) designation_choices),
      (''inventory_number'', length_fault 100 (strip (fm_number f))),
      (''area'', row_fault area_id (filter (\<lambda>a. area_site a = site) (t_areas d)) (fm_area f)),
      (''vendor'', row_fault vendor_id (t_vendors d) (fm_vendor f)),
      (''status'', required_choice_fault (fm_status f) item_status_choices)])"

text \<open>\<^verbatim>\<open>DeviceDecommissionItemForm.clean\<close>: a field with an error has no value any more.\<close>

definition form_clean :: "framework_text \<Rightarrow> db \<Rightarrow> uid \<Rightarrow> item_form \<Rightarrow> form_error list + item_form" where
  "form_clean fw d site f0 =
     (let faults = form_field_faults d site f0;
          bad = (\<lambda>n. n \<in> fst ` set faults);
          f = f0\<lparr>fm_source := strip (fm_source f0), fm_designation := (if bad ''designation'' then [] else strip (fm_designation f0)),
            fm_number := (if bad ''inventory_number'' then [] else strip (fm_number f0)), fm_comment := strip (fm_comment f0)\<rparr>;
          store = (\<not> bad ''action'' \<and> fm_action f = ''store'');
          es = map (\<lambda>(n, k). (Some n, fw n k)) faults @
            (if store \<and> (bad ''item_type'' \<or> fm_kind f = []) then [(Some ''item_type'', ''Type is required when moving to storage.'')] else []) @
            (if store \<and> fm_designation f = [] then [(Some ''designation'', ''Designation is required when moving to storage.'')] else []) @
            (if store \<and> \<not> bad ''status'' \<and> fm_status f = ''installed'' \<and> fm_comment f = []
             then [(Some ''comment'', ''Comment is required when status is set to installed.'')] else [])
      in if es \<noteq> [] then Inl es else Inr f)"

definition form_fields :: "string list" where
  "form_fields = [''source_key'', ''action'', ''item_type'', ''designation'', ''inventory_number'', ''area'', ''vendor'', ''status'', ''comment'']"

text \<open>\<^verbatim>\<open>_attach_form_errors\<close> with the errors of a validation by field\<close>

definition attach_errors :: "string list \<Rightarrow> field_msgs \<Rightarrow> form_error list" where
  "attach_errors names es =
     concat (map (\<lambda>(f, ms). map (\<lambda>m. if f \<in> set names then (Some f, m) else (None, f @ '': '' @ m)) ms) es)"

section \<open>Moving a device to the storage\<close>

record storage_plan =
  pl_errors :: "(nat \<times> form_error) list"
  pl_pending :: "(nat \<times> inv_item) list"
  pl_numbers :: "(string \<times> nat) list"
  pl_serials :: "(string \<times> nat) list"

definition plan_error :: "nat \<Rightarrow> string option \<Rightarrow> string \<Rightarrow> storage_plan \<Rightarrow> storage_plan" where
  "plan_error n f m p = p\<lparr>pl_errors := pl_errors p @ [(n, f, m)]\<rparr>"

definition stored_item :: "(nat \<Rightarrow> uid) \<Rightarrow> device \<Rightarrow> nat \<Rightarrow> item_form \<Rightarrow> source_item \<Rightarrow> inv_item" where
  "stored_item new dev n f s =
     (new_item (new n) (so_model s) (dev_site dev))\<lparr>inv_kind := fm_kind f, inv_designation := fm_designation f,
        inv_number := optional (strip (fm_number f)), inv_vendor := fm_vendor f, inv_serial := optional (so_serial s),
        inv_area := fm_area f, inv_comment := fm_comment f, inv_status := fm_status f\<rparr>"

definition seen_row :: "(string \<times> nat) list \<Rightarrow> string option \<Rightarrow> nat option" where
  "seen_row seen v = (case v of None \<Rightarrow> None | Some x \<Rightarrow> map_of seen x)"

definition note_row :: "string option \<Rightarrow> nat \<Rightarrow> (string \<times> nat) list \<Rightarrow> (string \<times> nat) list" where
  "note_row v n seen = (case v of None \<Rightarrow> seen | Some x \<Rightarrow> dict_put x n seen)"

definition plan_row :: "(nat \<Rightarrow> uid) \<Rightarrow> device \<Rightarrow> (string \<Rightarrow> source_item option) \<Rightarrow> nat \<times> item_form \<Rightarrow> storage_plan \<Rightarrow> storage_plan" where
  "plan_row new dev look nf p =
     (let (n, f) = nf
      in case look (fm_source f) of
           None \<Rightarrow> plan_error n None ''Invalid source row. Please reload the page.'' p
         | Some s \<Rightarrow>
            if fm_action f \<noteq> ''store'' then p
            else if so_model s = []
            then plan_error n None ''Model is empty for this source item. Use discard or fix source data.'' p
            else (let number = optional (strip (fm_number f)); serial = optional (so_serial s)
                  in case seen_row (pl_numbers p) number of
                       Some k \<Rightarrow> plan_error n (Some ''inventory_number'')
                         (''Duplicate inventory number in this request (row '' @ nat_str k @ '').'') p
                     | None \<Rightarrow>
                        (let p = p\<lparr>pl_numbers := note_row number n (pl_numbers p)\<rparr>
                         in case seen_row (pl_serials p) serial of
                              Some k \<Rightarrow> plan_error n None (''Duplicate serial number in this request (row '' @ nat_str k @ '').'') p
                            | None \<Rightarrow> p\<lparr>pl_serials := note_row serial n (pl_serials p),
                                pl_pending := pl_pending p @ [(n, stored_item new dev n f s)]\<rparr>)))"

definition storage_plan_of :: "(nat \<Rightarrow> uid) \<Rightarrow> device \<Rightarrow> (string \<Rightarrow> source_item option) \<Rightarrow> item_form list \<Rightarrow> storage_plan" where
  "storage_plan_of new dev look forms =
     fold (plan_row new dev look) (enumerate 1 forms) \<lparr>pl_errors = [], pl_pending = [], pl_numbers = [], pl_serials = []\<rparr>"

fun store_items :: "framework_text \<Rightarrow> (nat \<times> inv_item) list \<Rightarrow> db \<Rightarrow> (nat \<times> field_msgs) + db" where
  "store_items fw [] d = Inr d"
| "store_items fw ((n, i) # xs) d =
     (case item_full_clean fw d i of
        (_, Inl es) \<Rightarrow> Inl (n, es)
      | (j, Inr _) \<Rightarrow> store_items fw xs (save_item d j))"

text \<open>
  \<^verbatim>\<open>_process_decommission_storage\<close>: the device is deleted first, which frees its serial
  numbers, then every item is validated and saved; an error undoes the deletion too.
\<close>

definition process_storage ::
  "framework_text \<Rightarrow> (nat \<Rightarrow> uid) \<Rightarrow> device \<Rightarrow> (string \<Rightarrow> source_item option) \<Rightarrow> item_form list \<Rightarrow> db
     \<Rightarrow> ((nat \<times> form_error) list + nat) \<times> db"
where
  "process_storage fw new dev look forms d =
     (let p = storage_plan_of new dev look forms
      in if pl_errors p \<noteq> [] then (Inl (pl_errors p), d)
         else case store_items fw (pl_pending p) (delete_device d dev) of
             Inl (n, es) \<Rightarrow> (Inl (map (\<lambda>e. (n, e)) (attach_errors form_fields es)), d)
           | Inr d' \<Rightarrow> (Inr (length (pl_pending p)), d'))"

section \<open>Deleting a device with everything that belongs to it\<close>

definition cascade_store :: "uid \<Rightarrow> store \<Rightarrow> store" where
  "cascade_store i s =
     (let gone = map cf_id (filter (\<lambda>c. cf_device c = i) (st_configs s))
      in s\<lparr>st_configs := map (\<lambda>c. if (case cf_previous c of Some p \<Rightarrow> p \<in> set gone | None \<Rightarrow> False) then c\<lparr>cf_previous := None\<rparr> else c)
             (filter (\<lambda>c. cf_device c \<noteq> i) (st_configs s)),
           st_neighbors := map (\<lambda>r. if nr_peer r = Some i then r\<lparr>nr_peer := None\<rparr> else r)
             (drop_orphans (st_db s) (filter (\<lambda>r. nr_device r \<noteq> i) (st_neighbors s)))\<rparr>)"

definition delete_in_store :: "device \<Rightarrow> store \<Rightarrow> store" where
  "delete_in_store dev s = cascade_store (dev_id dev) (s\<lparr>st_db := delete_device (st_db s) dev\<rparr>)"

section \<open>The configuration that is pushed\<close>

definition push_line :: "string \<Rightarrow> bool" where
  "push_line line \<longleftrightarrow> line \<noteq> [] \<and> \<not> startswith line ''!'' \<and> \<not> startswith (lower line) ''building configuration''
     \<and> \<not> startswith (lower line) ''current configuration'' \<and> \<not> startswith (lower line) ''last configuration change''
     \<and> lower line \<notin> {''end'', ''exit'', ''write memory''} \<and> \<not> startswith (lower line) ''hostname ''
     \<and> \<not> startswith (lower line) ''version ''"

definition config_lines :: "string \<Rightarrow> string list" where
  "config_lines txt = filter push_line (map strip (splitlines txt))"

section \<open>Replacing a device\<close>

text \<open>
  The environment: the texts of identifiers and of the framework, the identifiers of new rows, the
  clock and the library calls of a synchronisation, and what sending the commands to the session
  of a device gives (an exception, or nothing).
\<close>

record decommission_env =
  dx_str :: "uid \<Rightarrow> string"
  dx_text :: framework_text
  dx_item :: "nat \<Rightarrow> uid"
  dx_device :: uid
  dx_sync :: device_env
  dx_send :: "string list \<Rightarrow> exn option"

record replacement =
  rf_name :: string
  rf_ip :: string
  rf_area :: uid
  rf_rack :: "uid option"

text \<open>\<^verbatim>\<open>DeviceReplacementForm\<close>: areas of the site, racks of the area that is submitted.\<close>

definition replacement_faults :: "framework_text \<Rightarrow> db \<Rightarrow> device \<Rightarrow> replacement \<Rightarrow> form_error list" where
  "replacement_faults fw d dev f =
     concat (map (\<lambda>(n, c). case c of None \<Rightarrow> [] | Some k \<Rightarrow> [(Some n, fw n k)])
       [(''name'', if strip (rf_name f) = [] then Some ''required'' else length_fault 100 (strip (rf_name f))),
        (''management_ip'', case parse_ipv4 (strip (rf_ip f)) of None \<Rightarrow> Some ''invalid'' | Some _ \<Rightarrow> None),
        (''area'', row_fault area_id (filter (\<lambda>a. area_site a = dev_site dev) (t_areas d)) (Some (rf_area f))),
        (''rack'', row_fault rack_id (filter (\<lambda>r. rack_area r = rf_area f) (t_racks d)) (rf_rack f))])"

definition device_statuses :: "string list" where
  "device_statuses = [''offline'', ''active'', ''planned'', ''staged'', ''failed'', ''inventory'', ''decommissioning'']"

definition replacement_device :: "uid \<Rightarrow> device \<Rightarrow> replacement \<Rightarrow> device" where
  "replacement_device i old f =
     (new_device i (rf_name f) (rf_ip f) (dev_site old) (rf_area f))\<lparr>dev_rack := rf_rack f, dev_type := dev_type old,
        dev_role := dev_role old, dev_status := (if dev_status old \<in> set device_statuses then dev_status old else ''active''),
        dev_source := ''manual''\<rparr>"

text \<open>\<^verbatim>\<open>full_clean\<close> of a device: its fields, \<open>device_clean\<close>, and the unique name and address.\<close>

definition device_field_faults :: "db \<Rightarrow> device \<Rightarrow> (string \<times> string) list" where
  "device_field_faults d v = concat (map (\<lambda>(f, c). case c of None \<Rightarrow> [] | Some k \<Rightarrow> [(f, k)])
     [(''name'', if dev_name v = [] then Some ''blank'' else length_fault 100 (dev_name v)),
      (''management_ip'', if dev_ip v = [] then Some ''blank'' else case parse_ipv4 (dev_ip v) of None \<Rightarrow> Some ''invalid'' | Some _ \<Rightarrow> None),
      (''serial_number'', length_fault 50 (or_empty (dev_serial v))),
      (''inventory_number'', length_fault 100 (or_empty (dev_inventory v))),
      (''device_type'', row_fault dt_id (t_types d) (dev_type v)),
      (''role'', row_fault role_id (t_roles d) (dev_role v)),
      (''site'', row_fault site_id (t_sites d) (Some (dev_site v))),
      (''area'', row_fault area_id (t_areas d) (Some (dev_area v))),
      (''rack'', row_fault rack_id (t_racks d) (dev_rack v)),
      (''image_version'', length_fault 100 (or_empty (dev_image v))),
      (''status'', if dev_status v = [] then Some ''blank'' else if dev_status v \<in> set device_statuses then None else Some ''invalid_choice''),
      (''source'', if dev_source v = [] then Some ''blank'' else if dev_source v \<in> {''manual'', ''discovery'', ''import''} then None else Some ''invalid_choice'')])"

definition device_unique_faults :: "db \<Rightarrow> device \<Rightarrow> field_msgs \<Rightarrow> string list" where
  "device_unique_faults d v es =
     (let other = (\<lambda>field. \<exists>x \<in> set (t_devices d). dev_id x \<noteq> dev_id v \<and> field x = field v)
      in (if map_of es ''name'' = None \<and> other dev_name then [''name''] else []) @
         (if map_of es ''management_ip'' = None \<and> other dev_ip then [''management_ip''] else []))"

definition device_full_clean :: "framework_text \<Rightarrow> db \<Rightarrow> device \<Rightarrow> field_msgs + device" where
  "device_full_clean fw d v =
     (let es = fold (\<lambda>(f, k). add_msgs f [fw f k]) (device_field_faults d v) [];
          r = device_clean d v;
          es = (case r of Inr _ \<Rightarrow> es | Inl cs \<Rightarrow> fold (\<lambda>(f, m). add_msgs f [m]) cs es);
          es = fold (\<lambda>f. add_msgs f [fw f ''unique'']) (device_unique_faults d v es) es
      in case r of Inl _ \<Rightarrow> Inl es | Inr v' \<Rightarrow> if es \<noteq> [] then Inl es else Inr v')"

definition latest_good_config :: "uid \<Rightarrow> config list \<Rightarrow> config option" where
  "latest_good_config i cs = latest_config i (filter cf_success cs)"

definition push_config :: "decommission_env \<Rightarrow> network \<Rightarrow> device \<Rightarrow> string \<Rightarrow> db \<Rightarrow> string option" where
  "push_config env nw dev txt d =
     (if config_lines txt = [] then Some ''No transferable configuration commands found on old device.''
      else case open_adapter nw 0 d dev of
          Inl e \<Rightarrow> Some (exn_str e)
        | Inr _ \<Rightarrow> map_option exn_str (dx_send env (config_lines txt)))"

text \<open>The new device with the tags of the old one.\<close>

definition place_replacement :: "device \<Rightarrow> device \<Rightarrow> store \<Rightarrow> exn + store" where
  "place_replacement old dev s =
     bind_res (save_device (st_db s) dev) (\<lambda>d.
       Inr (s\<lparr>st_db := d\<lparr>t_devices := update_where (\<lambda>v. dev_id v = dev_id dev) (\<lambda>v. v\<lparr>dev_tags := dev_tags old\<rparr>) (t_devices d)\<rparr>\<rparr>))"

datatype replace_end = Replaced uid | Invalid "form_error list" string | Refused string | Raised exn

definition replacement_fields :: "string list" where
  "replacement_fields = [''name'', ''management_ip'', ''area'', ''rack'']"

definition finish_replacement :: "decommission_env \<Rightarrow> network \<Rightarrow> device \<Rightarrow> device \<Rightarrow> store \<Rightarrow> replace_end \<times> store" where
  "finish_replacement env nw old dev s =
     (case sync_device (dx_sync env) nw dev False False s of
        Inl e \<Rightarrow> (Raised e, s)
      | Inr (oc, s') \<Rightarrow>
          if \<not> (oc_success oc \<or> oc_skipped oc)
          then (Refused (''Sync failed: '' @ (case oc_error oc of None \<Rightarrow> ''None'' | Some m \<Rightarrow> m)), delete_in_store dev s')
          else (Replaced (dev_id dev), delete_in_store old s'))"

text \<open>
  \<^verbatim>\<open>_process_device_replacement\<close>: nothing of it is in a transaction, so that every failure
  deletes the new device by hand.
\<close>

definition replace_device :: "decommission_env \<Rightarrow> network \<Rightarrow> device \<Rightarrow> replacement \<Rightarrow> store \<Rightarrow> replace_end \<times> store" where
  "replace_device env nw old f s =
     (case device_full_clean (dx_text env) (st_db s) (replacement_device (dx_device env) old f) of
        Inl es \<Rightarrow> (Invalid (attach_errors replacement_fields es) ''Replacement device validation failed.'', s)
      | Inr dev0 \<Rightarrow>
         (let dev = dev0\<lparr>dev_tags := dev_tags old\<rparr>
          in case place_replacement old dev0 s of
               Inl e \<Rightarrow> (Raised e, s)
             | Inr s1 \<Rightarrow>
                (let txt = (case latest_good_config (dev_id old) (st_configs s1) of None \<Rightarrow> [] | Some c \<Rightarrow> cf_text c)
                 in if txt = [] then finish_replacement env nw old dev s1
                    else case push_config env nw dev txt (st_db s1) of
                        Some m \<Rightarrow> (Refused (''Config push failed: '' @ m), delete_in_store dev s1)
                      | None \<Rightarrow> finish_replacement env nw old dev
                          (s1\<lparr>st_configs := snd (persist_config (dx_sync env) (dev_id dev) ''import'' txt (st_configs s1))\<rparr>))))"

section \<open>The page\<close>

record decommission_post =
  dp_stage :: string
  dp_decision :: string
  dp_forms :: "item_form list"
  dp_replacement :: replacement

datatype page_end =
    Redirected string string
  | Page string "(nat \<times> form_error) list" "string option"
  | Failed exn

definition form_errors_of :: "framework_text \<Rightarrow> db \<Rightarrow> uid \<Rightarrow> item_form list \<Rightarrow> (nat \<times> form_error) list" where
  "form_errors_of fw d site forms =
     concat (map (\<lambda>(n, f). case form_clean fw d site f of Inl es \<Rightarrow> map (\<lambda>e. (n, e)) es | Inr _ \<Rightarrow> []) (enumerate 1 forms))"

definition cleaned_forms :: "framework_text \<Rightarrow> db \<Rightarrow> uid \<Rightarrow> item_form list \<Rightarrow> item_form list" where
  "cleaned_forms fw d site forms = concat (map (\<lambda>f. case form_clean fw d site f of Inl _ \<Rightarrow> [] | Inr g \<Rightarrow> [g]) forms)"

definition storage_stage :: "decommission_env \<Rightarrow> device \<Rightarrow> source_item list \<Rightarrow> item_form list \<Rightarrow> store \<Rightarrow> page_end \<times> store" where
  "storage_stage env dev items forms s =
     (let d = st_db s; errs = form_errors_of (dx_text env) d (dev_site dev) forms
      in if length forms \<noteq> length items
         then (Page ''storage'' [] (Some ''The submitted rows do not match current modules. Please retry.''), s)
         else if errs \<noteq> [] then (Page ''storage'' errs None, s)
         else case process_storage (dx_text env) (dx_item env) dev (source_lookup items)
                 (cleaned_forms (dx_text env) d (dev_site dev) forms) d of
             (Inl es, _) \<Rightarrow> (Page ''storage'' es None, s)
           | (Inr n, d') \<Rightarrow> (Redirected ''device_list'' (''Device decommissioned. Moved '' @ nat_str n @ '' item(s) to storage.''),
               cascade_store (dev_id dev) (s\<lparr>st_db := d'\<rparr>)))"

definition replace_stage :: "decommission_env \<Rightarrow> network \<Rightarrow> device \<Rightarrow> replacement \<Rightarrow> store \<Rightarrow> page_end \<times> store" where
  "replace_stage env nw dev f s =
     (let errs = replacement_faults (dx_text env) (st_db s) dev f
      in if errs \<noteq> [] then (Page ''replace'' (map (\<lambda>e. (1, e)) errs) None, s)
         else case replace_device env nw dev (f\<lparr>rf_name := strip (rf_name f), rf_ip := strip (rf_ip f)\<rparr>) s of
             (Replaced i, s') \<Rightarrow> (Redirected ''device_detail'' (''Device replaced successfully. New device: '' @ strip (rf_name f) @ ''.''), s')
           | (Invalid es m, s') \<Rightarrow> (Page ''replace'' (map (\<lambda>e. (1, e)) es) (Some m), s')
           | (Refused m, s') \<Rightarrow> (Page ''replace'' [] (Some m), s')
           | (Raised e, s') \<Rightarrow> (Failed e, s'))"

definition device_decommission :: "decommission_env \<Rightarrow> network \<Rightarrow> device \<Rightarrow> decommission_post \<Rightarrow> store \<Rightarrow> page_end \<times> store" where
  "device_decommission env nw dev post s =
     (case source_items (dx_str env) (st_db s) dev of
        None \<Rightarrow> (Failed (TypeError ''not supported between instances of int and str''), s)
      | Some items \<Rightarrow>
          if dp_stage post = ''confirm''
          then (if dp_decision post = ''delete''
                then (Redirected ''device_list'' (''Device '' @ quote_text (dev_name dev) @ '' was deleted from production inventory.''),
                      delete_in_store dev s)
                else if dp_decision post = ''storage'' then (Page ''storage'' [] None, s)
                else if dp_decision post = ''replace'' then (Page ''replace'' [] None, s)
                else (Page ''confirm'' [] (Some ''Please choose delete, move to storage, or replace.''), s))
          else if dp_stage post = ''storage'' then storage_stage env dev items (dp_forms post) s
          else if dp_stage post = ''replace'' then replace_stage env nw dev (dp_replacement post) s
          else (Page ''confirm'' [] None, s))"

end
