(* ===== verification/DecommissionProps.thy ===== *)
theory DecommissionProps
  imports Decommission StorageProps SyncFrame
begin

text \<open>
  What taking a device out of service guarantees: the move to the storage is all or nothing and
  keeps every number unique, and a replacement ends with exactly one of the two devices.
\<close>

section \<open>Moving a device to the storage\<close>

text \<open>What the submitted rows ask for: an item for every row to be stored.\<close>

definition asked_item :: "(nat \<Rightarrow> uid) \<Rightarrow> device \<Rightarrow> (string \<Rightarrow> source_item option) \<Rightarrow> nat \<times> item_form \<Rightarrow> (nat \<times> inv_item) list" where
  "asked_item new dev look nf =
     (if fm_action (snd nf) \<noteq> ''store'' then []
      else case look (fm_source (snd nf)) of None \<Rightarrow> [] | Some s \<Rightarrow> [(fst nf, stored_item new dev (fst nf) (snd nf) s)])"

lemma plan_row_clean:
  assumes "pl_errors (plan_row new dev look nf p) = []"
  shows "pl_errors p = [] \<and> pl_pending (plan_row new dev look nf p) = pl_pending p @ asked_item new dev look nf"
proof (cases "look (fm_source (snd nf))")
  case None
  with assms show ?thesis by (simp add: plan_row_def plan_error_def case_prod_unfold)
next
  case (Some s)
  note row = plan_row_def plan_error_def asked_item_def Let_def case_prod_unfold Some
  show ?thesis
  proof (cases "fm_action (snd nf) = ''store'' \<and> so_model s \<noteq> []
      \<and> seen_row (pl_numbers p) (optional (strip (fm_number (snd nf)))) = None \<and> seen_row (pl_serials p) (optional (so_serial s)) = None")
    case True
    with assms show ?thesis by (simp add: row)
  next
    case False
    with assms show ?thesis
      by (cases "fm_action (snd nf) = ''store''"; cases "so_model s = []";
          cases "seen_row (pl_numbers p) (optional (strip (fm_number (snd nf))))") (auto simp: row)
  qed
qed

lemma plan_rows_clean:
  "pl_errors (fold (plan_row new dev look) rows p) = [] \<Longrightarrow>
     pl_errors p = [] \<and> pl_pending (fold (plan_row new dev look) rows p) = pl_pending p @ concat (map (asked_item new dev look) rows)"
proof (induction rows arbitrary: p)
  case (Cons r rs)
  have "pl_errors (fold (plan_row new dev look) rs (plan_row new dev look r p)) = []" using Cons.prems by simp
  note rest = Cons.IH [OF this]
  from plan_row_clean [OF conjunct1 [OF rest]] conjunct2 [OF rest] show ?case by simp
qed simp

lemma save_row_fresh: "ident r \<notin> ident ` set rs \<Longrightarrow> save_row ident r rs = rs @ [r]"
  by (induction rs) auto

definition cleaned_item :: "inv_item \<Rightarrow> inv_item" where
  "cleaned_item i = i\<lparr>inv_serial := normalize_serial (inv_serial i)\<rparr>"

lemma store_items_ok:
  assumes "store_items fw xs d = Inr d'" and "inventory_ok d"
    and "distinct (map (inv_id \<circ> snd) xs)" and "\<forall>x \<in> set xs. inv_id (snd x) \<notin> inv_id ` set (t_inventory d)"
  shows "d' = d\<lparr>t_inventory := t_inventory d @ map (cleaned_item \<circ> snd) xs\<rparr> \<and> inventory_ok d'"
  using assms
proof (induction xs arbitrary: d)
  case (Cons x xs)
  obtain n i where x: "x = (n, i)" by (cases x)
  obtain j r where full: "item_full_clean fw d i = (j, r)" by (cases "item_full_clean fw d i")
  with Cons.prems(1) x have clean: "item_full_clean fw d i = (j, Inr ())" and rest: "store_items fw xs (save_item d j) = Inr d'"
    by (auto split: sum.splits)
  have j: "j = cleaned_item i" using full_clean_ok(2) [OF clean] by (simp add: cleaned_item_def)
  then have id: "inv_id j = inv_id i" by (simp add: cleaned_item_def)
  with Cons.prems(4) x have saved: "save_item d j = d\<lparr>t_inventory := t_inventory d @ [j]\<rparr>"
    by (simp add: save_item_def save_row_fresh)
  have "inventory_ok (save_item d j)" by (rule save_cleaned_item [OF Cons.prems(2) clean])
  moreover have "\<forall>x \<in> set xs. inv_id (snd x) \<notin> inv_id ` set (t_inventory (save_item d j))"
  proof
    fix y assume y: "y \<in> set xs"
    then have "(inv_id \<circ> snd) y \<in> set (map (inv_id \<circ> snd) xs)" by simp
    moreover have "inv_id i \<notin> set (map (inv_id \<circ> snd) xs)" using Cons.prems(3) unfolding x by simp
    ultimately have "inv_id (snd y) \<noteq> inv_id i" by (metis comp_apply)
    with y Cons.prems(4) show "inv_id (snd y) \<notin> inv_id ` set (t_inventory (save_item d j))" by (simp add: saved id)
  qed
  ultimately have both: "d' = (save_item d j)\<lparr>t_inventory := t_inventory (save_item d j) @ map (cleaned_item \<circ> snd) xs\<rparr> \<and> inventory_ok d'"
    using Cons.prems(3) by (intro Cons.IH [OF rest]) simp_all
  have "(save_item d j)\<lparr>t_inventory := t_inventory (save_item d j) @ map (cleaned_item \<circ> snd) xs\<rparr>
    = d\<lparr>t_inventory := t_inventory d @ map (cleaned_item \<circ> snd) (x # xs)\<rparr>"
    unfolding saved unfolding x j by simp
  with conjunct1 [OF both] have "d' = d\<lparr>t_inventory := t_inventory d @ map (cleaned_item \<circ> snd) (x # xs)\<rparr>" by (rule trans)
  then show ?case using conjunct2 [OF both] by (rule conjI)
qed simp

text \<open>Deleting a device keeps the numbers unique and the items in place.\<close>

lemma used_serials_append: "used_serials d = serials_of (map mod_serial (t_modules d)) @ serials_of (map inv_serial (t_inventory d))"
  by (simp add: used_serials_def serials_of_def)

lemma serials_of_filter: "distinct (serials_of (map f ms) @ us) \<Longrightarrow> distinct (serials_of (map f (filter P ms)) @ us)"
proof -
  have sub: "set (serials_of (map f (filter P ms))) \<subseteq> set (serials_of (map f ms))" for ms
  proof
    fix s assume "s \<in> set (serials_of (map f (filter P ms)))"
    then show "s \<in> set (serials_of (map f ms))" unfolding in_serials_of by (force simp: image_iff)
  qed
  have "distinct (serials_of (map f ms)) \<Longrightarrow> distinct (serials_of (map f (filter P ms)))"
  proof (induction ms)
    case (Cons m ms)
    then show ?case using sub [of ms] by (cases "f m") auto
  qed simp
  then show "distinct (serials_of (map f ms) @ us) \<Longrightarrow> distinct (serials_of (map f (filter P ms)) @ us)"
    using sub [of ms] by auto
qed

lemma delete_inventory [simp]: "t_inventory (delete_device d dev) = t_inventory d"
  by (simp add: delete_device_def cascade_device_def Let_def refresh_rack_def split: option.split)

lemma delete_inventory_ok: "inventory_ok d \<Longrightarrow> inventory_ok (delete_device d dev)"
proof -
  assume ok: "inventory_ok d"
  have "distinct (used_serials (delete_device d dev))"
    using ok serials_of_filter [of mod_serial "t_modules d" "serials_of (map inv_serial (t_inventory d))"]
    by (simp add: inventory_ok_def used_serials_append delete_tables)
  then show ?thesis using ok unfolding inventory_ok_def numbers_unique_def delete_inventory by blast
qed

lemma exact_inventory [simp]: "occupancy_exact (d\<lparr>t_inventory := xs\<rparr>) = occupancy_exact d"
proof -
  have "device_units (d\<lparr>t_inventory := xs\<rparr>) = device_units d" by (rule units_write) simp_all
  then show ?thesis by (simp add: occupancy_exact_def occupied_units_def)
qed

lemma asked_ids: "(n, i) \<in> set (asked_item new dev look nf) \<Longrightarrow> n = fst nf \<and> inv_id i = new n"
  by (auto simp: asked_item_def stored_item_def new_item_def split: if_splits option.splits)

lemma asked_distinct:
  assumes "inj new" and "distinct (map fst rows)"
  shows "distinct (map (inv_id \<circ> snd) (concat (map (asked_item new dev look) rows)))"
  using assms(2)
proof (induction rows)
  case (Cons r rs)
  have here: "(inv_id \<circ> snd) ` set (asked_item new dev look r) \<subseteq> {new (fst r)}"
    using asked_ids [of _ _ new dev look r] by auto
  have later: "(inv_id \<circ> snd) ` set (concat (map (asked_item new dev look) rs)) \<subseteq> new ` fst ` set rs"
  proof
    fix u assume "u \<in> (inv_id \<circ> snd) ` set (concat (map (asked_item new dev look) rs))"
    then obtain y q where "q \<in> set rs" "(fst y, snd y) \<in> set (asked_item new dev look q)" "u = inv_id (snd y)" by auto
    with asked_ids [OF this(2)] show "u \<in> new ` fst ` set rs" by auto
  qed
  have "new (fst r) \<notin> new ` fst ` set rs" using Cons.prems assms(1) by (auto dest: injD)
  moreover have "A \<inter> B = {}" if "A \<subseteq> {a}" "B \<subseteq> C" "a \<notin> C" for A B C and a :: uid using that by blast
  note this [OF here later]
  ultimately have "(inv_id \<circ> snd) ` set (asked_item new dev look r) \<inter> (inv_id \<circ> snd) ` set (concat (map (asked_item new dev look) rs)) = {}"
    by (simp only: simp_thms)
  moreover have "distinct (map (inv_id \<circ> snd) (asked_item new dev look r))"
    by (simp add: asked_item_def split: option.split)
  moreover have "distinct (map (inv_id \<circ> snd) (concat (map (asked_item new dev look) rs)))" using Cons.prems by (intro Cons.IH) simp
  ultimately show ?case by (simp only: list.map concat.simps map_append distinct_append set_map simp_thms)
qed simp

text \<open>
  C23. Moving a device to the storage is all or nothing. Either nothing changes, or the device and
  its modules are gone and the storage has, after its old items, exactly one item for every row
  to be stored, with what the row and the source say and its serial number normalised; the racks
  are exact and the identifiers, the inventory numbers and, together with those of all modules,
  the serial numbers are unique.
\<close>

theorem decommission_moves_all:
  assumes "process_storage fw new dev look forms d = (res, d')"
    and "inventory_ok d" and "occupancy_exact d" and "find_device d (dev_id dev) = Some dev" and "distinct (map dev_id (t_devices d))"
    and "inj new" and "\<forall>k. new k \<notin> inv_id ` set (t_inventory d)"
    and "items = concat (map (asked_item new dev look) (enumerate 1 forms))"
  shows "case res of
      Inl _ \<Rightarrow> d' = d
    | Inr n \<Rightarrow> n = length items \<and> t_inventory d' = t_inventory d @ map (cleaned_item \<circ> snd) items
        \<and> d' = (delete_device d dev)\<lparr>t_inventory := t_inventory d'\<rparr> \<and> inventory_ok d' \<and> occupancy_exact d'"
proof (cases res)
  case (Inl es)
  with assms(1) show ?thesis by (auto simp: process_storage_def Let_def split: if_splits sum.splits prod.splits)
next
  case (Inr n)
  let ?p = "storage_plan_of new dev look forms"
  have clean: "pl_errors ?p = []" and store: "store_items fw (pl_pending ?p) (delete_device d dev) = Inr d'" and n: "n = length (pl_pending ?p)"
  proof -
    from assms(1) Inr show clean: "pl_errors ?p = []" by (cases "pl_errors ?p = []") (simp_all add: process_storage_def Let_def)
    from assms(1) Inr clean show "store_items fw (pl_pending ?p) (delete_device d dev) = Inr d'" and "n = length (pl_pending ?p)"
      by (cases "store_items fw (pl_pending ?p) (delete_device d dev)"; simp add: process_storage_def Let_def case_prod_unfold)+
  qed
  have pending: "pl_pending ?p = items"
    using plan_rows_clean [OF clean [unfolded storage_plan_of_def]] unfolding storage_plan_of_def assms(8) by simp
  have "\<forall>x \<in> set items. inv_id (snd x) \<notin> inv_id ` set (t_inventory (delete_device d dev))"
  proof
    fix x assume "x \<in> set items"
    then obtain nf where "(fst x, snd x) \<in> set (asked_item new dev look nf)" unfolding assms(8) by auto
    from asked_ids [OF this] have "inv_id (snd x) = new (fst x)" by simp
    with assms(7) show "inv_id (snd x) \<notin> inv_id ` set (t_inventory (delete_device d dev))" by simp
  qed
  moreover have "distinct (map (inv_id \<circ> snd) items)"
    unfolding assms(8) by (rule asked_distinct [OF assms(6)]) simp
  ultimately have "d' = (delete_device d dev)\<lparr>t_inventory := t_inventory (delete_device d dev) @ map (cleaned_item \<circ> snd) items\<rparr> \<and> inventory_ok d'"
    using store_items_ok [OF store delete_inventory_ok [OF assms(2)], unfolded pending] by blast
  then show ?thesis using delete_device_exact [OF assms(3-5)] n by (auto simp: Inr pending)
qed

section \<open>Replacing a device\<close>

lemma device_clean_id: "device_clean d v = Inr v' \<Longrightarrow> dev_id v' = dev_id v"
  by (auto simp: device_clean_def Let_def split: if_splits)

lemma full_clean_id: "device_full_clean fw d v = Inr v' \<Longrightarrow> dev_id v' = dev_id v"
  by (auto simp: device_full_clean_def Let_def split: sum.splits if_splits intro: device_clean_id)

lemma place_new:
  assumes "place_replacement old v s = Inr s1" and "dev_id v \<notin> dev_id ` set (t_devices (st_db s))"
  shows "t_devices (st_db s1) = t_devices (st_db s) @ [v\<lparr>dev_tags := dev_tags old\<rparr>]" and "st_configs s1 = st_configs s"
proof -
  obtain d where d: "save_device (st_db s) v = Inr d" and s1: "s1 = s\<lparr>st_db := d\<lparr>t_devices :=
      update_where (\<lambda>x. dev_id x = dev_id v) (\<lambda>x. x\<lparr>dev_tags := dev_tags old\<rparr>) (t_devices d)\<rparr>\<rparr>"
    using assms(1) unfolding place_replacement_def bind_res_eq_Inr by blast
  have "map (\<lambda>x. if dev_id x = dev_id v then x\<lparr>dev_tags := dev_tags old\<rparr> else x) (t_devices (st_db s)) = t_devices (st_db s)"
    using assms(2) by (intro map_idI) (metis imageI)
  then show "t_devices (st_db s1) = t_devices (st_db s) @ [v\<lparr>dev_tags := dev_tags old\<rparr>]"
    by (simp add: s1 save_new_device [OF d assms(2)] update_where_def)
  show "st_configs s1 = st_configs s" by (simp add: s1)
qed

lemma delete_store_devices: "t_devices (st_db (delete_in_store v s)) = filter (\<lambda>x. dev_id x \<noteq> dev_id v) (t_devices (st_db s))"
  by (simp add: delete_in_store_def cascade_store_def Let_def delete_tables)

lemma delete_store_configs: "c \<in> set (st_configs (delete_in_store v s)) \<Longrightarrow> cf_device c \<noteq> dev_id v"
  by (auto simp: delete_in_store_def cascade_store_def Let_def)

text \<open>The end of a replacement, as the state before says it.\<close>

definition exchanged :: "uid \<Rightarrow> uid \<Rightarrow> replace_end \<Rightarrow> store \<Rightarrow> store \<Rightarrow> bool" where
  "exchanged i k r s s' =
     (case r of
        Replaced j \<Rightarrow> j = i \<and> i \<in> dev_id ` set (t_devices (st_db s'))
          \<and> filter (\<lambda>v. dev_id v \<noteq> i) (t_devices (st_db s')) = filter (\<lambda>v. dev_id v \<noteq> k) (t_devices (st_db s))
          \<and> (\<forall>c \<in> set (st_configs s'). cf_device c \<noteq> k)
      | Invalid es m \<Rightarrow> s' = s
      | Refused m \<Rightarrow> t_devices (st_db s') = t_devices (st_db s) \<and> (\<forall>c \<in> set (st_configs s'). cf_device c \<noteq> i)
      | Raised e \<Rightarrow> filter (\<lambda>v. dev_id v \<noteq> i) (t_devices (st_db s')) = t_devices (st_db s))"

lemma filter_other: "i \<notin> dev_id ` set vs \<Longrightarrow> filter (\<lambda>v. dev_id v \<noteq> i) vs = vs"
  by (intro filter_True) auto

lemma finish_exchanged:
  assumes "finish_replacement env nw old v s1 = (r, s')" and "t_devices (st_db s1) = t_devices (st_db s) @ [v1]"
    and "dev_id v1 = dev_id v" and "dev_id v \<notin> dev_id ` set (t_devices (st_db s))" and "dev_id old \<noteq> dev_id v"
  shows "exchanged (dev_id v) (dev_id old) r s s'"
proof -
  have others: "filter (\<lambda>x. dev_id x \<noteq> dev_id v) (t_devices (st_db s1)) = t_devices (st_db s)"
    using assms(2-4) by (simp add: filter_other)
  show ?thesis
  proof (cases "sync_device (dx_sync env) nw v False False s1")
    case (Inl e)
    with assms(1) others show ?thesis by (auto simp: finish_replacement_def exchanged_def)
  next
    case (Inr p)
    obtain oc s2 where p: "p = (oc, s2)" by (cases p)
    have here: "dev_id v \<in> dev_id ` set (t_devices (st_db s2))"
      using device_kept.sync [OF _ Inr [unfolded p] refl] assms(2,3) by simp
    have kept: "filter (\<lambda>x. dev_id x \<noteq> dev_id v) (t_devices (st_db s2)) = t_devices (st_db s)"
      by (rule others_kept.sync [OF others Inr [unfolded p] refl])
    show ?thesis
    proof (cases "oc_success oc \<or> oc_skipped oc")
      case True
      then have "r = Replaced (dev_id v)" "s' = delete_in_store old s2"
        using assms(1) by (auto simp: finish_replacement_def Inr p)
      moreover have "filter (\<lambda>x. dev_id x \<noteq> dev_id v) (filter (\<lambda>x. dev_id x \<noteq> dev_id old) (t_devices (st_db s2)))
          = filter (\<lambda>x. dev_id x \<noteq> dev_id old) (t_devices (st_db s))"
        unfolding kept [symmetric] by (simp add: conj_commute)
      moreover have "dev_id v \<in> dev_id ` set (filter (\<lambda>x. dev_id x \<noteq> dev_id old) (t_devices (st_db s2)))"
        using here assms(5) by auto
      ultimately show ?thesis using delete_store_configs [of _ old s2] by (auto simp: exchanged_def delete_store_devices)
    next
      case False
      then obtain m where "r = Refused m" "s' = delete_in_store v s2"
        using assms(1) by (auto simp: finish_replacement_def Inr p)
      then show ?thesis using kept delete_store_configs [of _ v s2] by (auto simp: exchanged_def delete_store_devices)
    qed
  qed
qed

text \<open>
  C24. Replacing a device ends with exactly one of the two. When it succeeds the old device and its
  configurations are gone, the new one is there and all other devices are as they were; when the new
  device is not valid, nothing changes; when the push or the synchronisation fails, the devices are
  the ones before and the new device has left no configuration. Only an exception of the
  synchronisation leaves both, and then the old device is as it was.
\<close>

theorem replace_device_exchange:
  assumes "replace_device env nw old f s = (r, s')" and "dx_device env \<notin> dev_id ` set (t_devices (st_db s))"
    and "dev_id old \<noteq> dx_device env"
  shows "exchanged (dx_device env) (dev_id old) r s s'"
proof (cases "device_full_clean (dx_text env) (st_db s) (replacement_device (dx_device env) old f)")
  case (Inl es)
  with assms(1) show ?thesis by (auto simp: replace_device_def exchanged_def)
next
  case (Inr v)
  then have id: "dev_id v = dx_device env"
    using full_clean_id [OF Inr] by (simp add: replacement_device_def new_device_def)
  let ?v = "v\<lparr>dev_tags := dev_tags old\<rparr>"
  show ?thesis
  proof (cases "place_replacement old v s")
    case (Inl e)
    with assms Inr show ?thesis by (auto simp: replace_device_def exchanged_def filter_other)
  next
    case placed: (Inr s1)
    note new = place_new [OF placed, unfolded id, OF assms(2)]
    have vid: "dev_id ?v = dx_device env" by (simp add: id)
    note finish = finish_exchanged [of env nw old "?v", unfolded vid, OF _ _ _ assms(2) assms(3)]
    obtain cfg where cfg: "cfg = (case latest_good_config (dev_id old) (st_configs s1) of None \<Rightarrow> [] | Some c \<Rightarrow> cf_text c)" by simp
    have run: "replace_device env nw old f s =
        (if cfg = [] then finish_replacement env nw old ?v s1
         else case push_config env nw ?v cfg (st_db s1) of
             Some m \<Rightarrow> (Refused (''Config push failed: '' @ m), delete_in_store ?v s1)
           | None \<Rightarrow> finish_replacement env nw old ?v
               (s1\<lparr>st_configs := snd (persist_config (dx_sync env) (dev_id ?v) ''import'' cfg (st_configs s1))\<rparr>))"
      unfolding replace_device_def Inr Let_def sum.case placed cfg [symmetric] by (rule refl)
    show ?thesis
    proof (cases "cfg \<noteq> [] \<and> push_config env nw ?v cfg (st_db s1) \<noteq> None")
      case True
      then obtain m where "r = Refused m" "s' = delete_in_store ?v s1" using assms(1) run by auto
      then show ?thesis using new assms(2) delete_store_configs [of _ ?v s1]
        by (auto simp: exchanged_def delete_store_devices vid filter_other)
    next
      case False
      then obtain cs where "finish_replacement env nw old ?v (s1\<lparr>st_configs := cs\<rparr>) = (r, s')"
        using assms(1) run by (cases "cfg = []") (auto intro: that [of "st_configs s1"])
      then show ?thesis by (rule finish) (simp add: new, simp add: vid)
    qed
  qed
qed

text \<open>
  A replacement can keep neither the name nor the address of the device it replaces: while the
  old device is in the table, both are taken, the validation fails and nothing changes.
\<close>

theorem replacement_keeps_no_name:
  assumes "old \<in> set (t_devices (st_db s))" and "dev_id old \<noteq> dx_device env"
    and "rf_name f = dev_name old \<or> rf_ip f = dev_ip old"
  shows "\<exists>es. replace_device env nw old f s = (Invalid es ''Replacement device validation failed.'', s)"
proof -
  let ?v = "replacement_device (dx_device env) old f"
  have v: "dev_id ?v = dx_device env" "dev_name ?v = rf_name f" "dev_ip ?v = rf_ip f"
    by (simp_all add: replacement_device_def new_device_def)
  have "device_unique_faults (st_db s) ?v es \<noteq> [] \<or> es \<noteq> []" for es
    using assms v by (auto simp: device_unique_faults_def Let_def)
  moreover have "fold (\<lambda>f. add_msgs f [fw f c]) xs es \<noteq> []" if "xs \<noteq> [] \<or> es \<noteq> []" for fw :: framework_text and c xs es
    using that by (simp add: fold_add_msgs_nonempty)
  ultimately obtain es where "device_full_clean (dx_text env) (st_db s) ?v = Inl es"
    by (cases "device_full_clean (dx_text env) (st_db s) ?v")
      (fastforce simp: device_full_clean_def Let_def split: sum.splits if_splits)+
  then show ?thesis by (simp add: replace_device_def)
qed

section \<open>Witnesses\<close>

definition demo_retired :: device where
  "demo_retired = (demo_switch 1 ''sw1'' ''10.0.0.1'' 100)\<lparr>dev_serial := Some ''FD1'', dev_tags := [7]\<rparr>"

text \<open>The room with the switch, a module, and the tag that takes a device out of the synchronisation.\<close>

definition demo_site_room :: db where
  "demo_site_room = demo_room\<lparr>t_devices := [demo_retired], t_modules := [(new_module 1 1 ''slot 1'')\<lparr>mod_serial := Some ''AB1''\<rparr>],
     t_vendors := [\<lparr>vendor_id = 1, vendor_name = ''Cisco''\<rparr>], t_tags := [\<lparr>tag_id = 7, tag_name = ''no_sync''\<rparr>]\<rparr>"

definition demo_items :: "source_item list" where
  "demo_items = [device_source nat_str demo_site_room demo_retired, module_source nat_str (hd (t_modules demo_site_room))]"

definition demo_forms :: "item_form list" where
  "demo_forms = initial_rows demo_retired demo_items"

theorem decommission_moves_all_witness:
  "\<exists>d'. process_storage (\<lambda>f k. k) (\<lambda>n. n + 100) demo_retired (source_lookup demo_items) demo_forms demo_site_room = (Inr 2, d')
     \<and> map inv_serial (t_inventory d') = [Some ''FD1'', Some ''AB1''] \<and> inventory_ok d'"
proof -
  let ?out = "process_storage (\<lambda>f k. k) (\<lambda>n. n + 100) demo_retired (source_lookup demo_items) demo_forms demo_site_room"
  have res: "fst ?out = Inr 2" and serials: "map inv_serial (t_inventory (snd ?out)) = [Some ''FD1'', Some ''AB1'']"
    by code_simp+
  have run: "?out = (Inr 2, snd ?out)" by (rule prod_eqI) (simp_all add: res)
  have "inventory_ok demo_site_room" and no_items: "t_inventory demo_site_room = []"
    by (simp_all add: inventory_ok_def numbers_unique_def demo_site_room_def demo_room_def empty_db_def used_serials_def new_module_def
      serials_of_def)
  moreover have "occupancy_exact demo_site_room" and "find_device demo_site_room (dev_id demo_retired) = Some demo_retired"
    and "distinct (map dev_id (t_devices demo_site_room))"
    by code_simp+
  moreover have "inj (\<lambda>n::nat. n + 100 :: nat)" by (rule injI) simp
  ultimately have "inventory_ok (snd ?out)"
    using decommission_moves_all [OF run _ _ _ _ _ _ refl] by (simp add: no_items)
  with run serials show ?thesis by metis
qed

definition demo_decommission_env :: decommission_env where
  "demo_decommission_env = \<lparr>dx_str = nat_str, dx_text = (\<lambda>f k. k), dx_item = (\<lambda>n. n + 100), dx_device = 9, dx_sync = demo_device_env,
     dx_send = (\<lambda>cs. None)\<rparr>"

theorem replace_device_exchange_witness:
  "\<exists>s'. replace_device demo_decommission_env demo_network demo_retired \<lparr>rf_name = ''sw2'', rf_ip = ''10.0.0.2'', rf_area = 1, rf_rack = None\<rparr>
       \<lparr>st_db = demo_site_room, st_configs = [], st_neighbors = []\<rparr> = (Replaced 9, s')
     \<and> filter (\<lambda>v. dev_id v \<noteq> 9) (t_devices (st_db s')) = []"
proof -
  let ?s = "\<lparr>st_db = demo_site_room, st_configs = [], st_neighbors = []\<rparr> :: store"
  let ?out = "replace_device demo_decommission_env demo_network demo_retired \<lparr>rf_name = ''sw2'', rf_ip = ''10.0.0.2'', rf_area = 1, rf_rack = None\<rparr> ?s"
  have "fst ?out = Replaced 9" by code_simp
  then have run: "?out = (Replaced 9, snd ?out)" by (metis prod.collapse)
  have "dx_device demo_decommission_env \<notin> dev_id ` set (t_devices (st_db ?s))" "dev_id demo_retired \<noteq> dx_device demo_decommission_env"
    and "filter (\<lambda>v. dev_id v \<noteq> dev_id demo_retired) (t_devices (st_db ?s)) = []" and nine: "dx_device demo_decommission_env = 9"
    by code_simp+
  with replace_device_exchange [OF run] have "filter (\<lambda>v. dev_id v \<noteq> 9) (t_devices (st_db (snd ?out))) = []"
    by (simp add: exchanged_def)
  with run show ?thesis by metis
qed

theorem replacement_keeps_no_name_witness:
  "\<exists>es. replace_device demo_decommission_env demo_network demo_retired \<lparr>rf_name = ''sw1'', rf_ip = ''10.0.0.2'', rf_area = 1, rf_rack = None\<rparr>
     \<lparr>st_db = demo_site_room, st_configs = [], st_neighbors = []\<rparr>
       = (Invalid es ''Replacement device validation failed.'', \<lparr>st_db = demo_site_room, st_configs = [], st_neighbors = []\<rparr>)"
  by (rule replacement_keeps_no_name)
    (simp_all add: demo_retired_def demo_site_room_def demo_switch_def new_device_def demo_decommission_env_def)

end
