(* ===== verification/Listings.thy ===== *)
theory Listings
  imports Storage ConfigStore
begin

text \<open>
  The lists of \<^verbatim>\<open>dcim/views/device_views.py\<close>: the production inventory and its export, the
  devices, their modules and interfaces, the tags and the configurations of a device. A request is
  the function from its parameters to their texts; cutting a list into pages is a library. The
  order of a column is that of the database, a parameter.
\<close>

section \<open>Parameters of a request\<close>

type_synonym request = "string \<Rightarrow> string option"

definition request_text :: "request \<Rightarrow> string \<Rightarrow> string \<Rightarrow> string" where
  "request_text q k other = (case q k of None \<Rightarrow> other | Some v \<Rightarrow> v)"

definition stripped :: "request \<Rightarrow> string \<Rightarrow> string" where
  "stripped q k = strip (request_text q k [])"

definition per_page_options :: "int list" where
  "per_page_options = [10, 25, 50, 100, 200]"

definition get_paginate_by :: "int list \<Rightarrow> int \<Rightarrow> request \<Rightarrow> int" where
  "get_paginate_by options other q =
     (case q ''paginate_by'' of
        None \<Rightarrow> other
      | Some s \<Rightarrow> if s \<noteq> [] \<and> all_digits s \<and> int (digits_value s) \<in> set options then int (digits_value s) else other)"

text \<open>The site and the tag of a request, when there are such.\<close>

definition site_choice :: "import_env \<Rightarrow> db \<Rightarrow> request \<Rightarrow> string" where
  "site_choice env d q =
     (let s = request_text q ''site'' ''all''
      in if s = ''all'' \<or> s \<in> set (map (\<lambda>x. ie_str env (site_id x)) (t_sites d)) then s else ''all'')"

definition tag_choice :: "import_env \<Rightarrow> db \<Rightarrow> request \<Rightarrow> string" where
  "tag_choice env d q =
     (let t = stripped q ''tag''
      in if t \<noteq> [] \<and> t \<in> set (map (\<lambda>x. ie_str env (tag_id x)) (t_tags d)) then t else [])"

definition has_tag_text :: "import_env \<Rightarrow> db \<Rightarrow> string \<Rightarrow> device \<Rightarrow> bool" where
  "has_tag_text env d t v \<longleftrightarrow> list_ex (\<lambda>x. tag_id x \<in> set (dev_tags v) \<and> ie_str env (tag_id x) = t) (t_tags d)"

text \<open>
  \<^verbatim>\<open>order_by\<close>: one minus in front of the name of a column reverses the order; no column
  has a name that starts with a minus.
\<close>

definition order_rows :: "(string \<Rightarrow> bool \<Rightarrow> 'r list \<Rightarrow> 'r list) \<Rightarrow> string \<Rightarrow> 'r list \<Rightarrow> exn + 'r list" where
  "order_rows by name rows =
     (let down = startswith name ''-''; c = (if down then tl name else name)
      in if startswith c ''-'' then Inl (FieldError (''Cannot resolve keyword '' @ quote_text c @ '' into field.''))
         else Inr (by c down rows))"

definition bare_column :: "string \<Rightarrow> string" where
  "bare_column s = dropWhile (\<lambda>c. c = CHR ''-'') s"

section \<open>The production inventory\<close>

record inventory_row =
  iv_device :: device
  iv_module :: "dev_module option"
  iv_name :: string
  iv_number :: string
  iv_serial :: string
  iv_site_id :: string
  iv_site :: string
  iv_area :: string
  iv_rack :: string
  iv_location :: string
  iv_module_name :: string
  iv_module_serial :: string
  iv_description :: string

definition area_label :: "db \<Rightarrow> device \<Rightarrow> string" where
  "area_label d v = (case find_area d (dev_area v) of None \<Rightarrow> [] | Some a \<Rightarrow> area_name a)"

definition rack_name_of :: "db \<Rightarrow> device \<Rightarrow> string" where
  "rack_name_of d v = (case fk (find_rack d) (dev_rack v) of None \<Rightarrow> [] | Some r \<Rightarrow> rack_name r)"

definition words_of :: "string list \<Rightarrow> string" where
  "words_of ts = lower (join '' '' (filter (\<lambda>s. s \<noteq> []) ts))"

definition device_matches :: "db \<Rightarrow> string \<Rightarrow> device \<Rightarrow> bool" where
  "device_matches d query v \<longleftrightarrow> query = [] \<or> contains (words_of [dev_name v, or_empty (dev_serial v), or_empty (dev_inventory v),
     site_label d (dev_site v), area_label d v, rack_name_of d v]) query"

definition module_matches :: "string \<Rightarrow> dev_module \<Rightarrow> bool" where
  "module_matches query m \<longleftrightarrow> query = [] \<or> contains (words_of [mod_name m, or_empty (mod_inventory m), or_empty (mod_serial m),
     or_empty (mod_description m)]) query"

text \<open>The text of an area walks to the root of its parents, which can be without end (\<open>None\<close>).\<close>

definition device_location :: "import_env \<Rightarrow> db \<Rightarrow> device \<Rightarrow> string option" where
  "device_location env d v =
     (case fk (find_rack d) (dev_rack v) of
        Some r \<Rightarrow> (case find_area d (rack_area r) of
            None \<Rightarrow> Some ('' '' @ ie_arrow env @ '' '' @ rack_name r)
          | Some a \<Rightarrow> map_option (\<lambda>t. t @ '' '' @ ie_arrow env @ '' '' @ rack_name r) (area_text env d a))
      | None \<Rightarrow> (case find_area d (dev_area v) of Some a \<Rightarrow> area_text env d a | None \<Rightarrow> Some (site_label d (dev_site v))))"

definition inventory_row_of :: "import_env \<Rightarrow> db \<Rightarrow> device \<Rightarrow> string \<Rightarrow> dev_module option \<Rightarrow> inventory_row" where
  "inventory_row_of env d v location m =
     \<lparr>iv_device = v, iv_module = m, iv_name = dev_name v, iv_number = (case m of None \<Rightarrow> [] | Some m \<Rightarrow> or_empty (mod_inventory m)),
      iv_serial = or_empty (dev_serial v), iv_site_id = ie_str env (dev_site v), iv_site = site_label d (dev_site v),
      iv_area = area_label d v, iv_rack = rack_name_of d v, iv_location = location,
      iv_module_name = (case m of None \<Rightarrow> [] | Some m \<Rightarrow> mod_name m),
      iv_module_serial = (case m of None \<Rightarrow> [] | Some m \<Rightarrow> or_empty (mod_serial m)),
      iv_description = (case m of None \<Rightarrow> [] | Some m \<Rightarrow> or_empty (mod_description m))\<rparr>"

definition modules_of :: "db \<Rightarrow> device \<Rightarrow> dev_module list" where
  "modules_of d v = filter (\<lambda>m. mod_device m = dev_id v) (t_modules d)"

definition device_rows :: "import_env \<Rightarrow> db \<Rightarrow> string \<Rightarrow> device \<Rightarrow> inventory_row list option" where
  "device_rows env d query v =
     map_option (\<lambda>location.
       if modules_of d v = [] then (if device_matches d query v then [inventory_row_of env d v location None] else [])
       else map (\<lambda>m. inventory_row_of env d v location (Some m))
         (filter (\<lambda>m. device_matches d query v \<or> module_matches query m) (modules_of d v))) (device_location env d v)"

definition build_inventory_rows :: "import_env \<Rightarrow> db \<Rightarrow> string \<Rightarrow> inventory_row list option" where
  "build_inventory_rows env d search = map_option concat (traverse (device_rows env d (strip (lower search))) (t_devices d))"

definition inventory_sort_key :: "string \<Rightarrow> inventory_row \<Rightarrow> key_part list" where
  "inventory_sort_key field r =
     (if field \<in> {''module_inventory_number'', ''device_inventory_number''} then natural_key (iv_number r)
      else if field = ''device_serial'' then [Word (lower (iv_serial r))]
      else if field = ''device_site'' then natural_key (iv_site r)
      else if field = ''device_area'' then natural_key (iv_area r)
      else if field = ''device_rack'' then natural_key (iv_rack r)
      else if field = ''device_location'' then natural_key (iv_location r)
      else if field = ''module_name'' then natural_key (iv_module_name r)
      else if field = ''module_serial'' then [Word (lower (iv_module_serial r))]
      else if field = ''module_description'' then [Word (lower (iv_description r))]
      else natural_key (iv_name r))"

definition sort_inventory_rows :: "string \<Rightarrow> inventory_row list \<Rightarrow> inventory_row list option" where
  "sort_inventory_rows field rows =
     (let field = (if field = [] then ''device_name'' else field); down = startswith field ''-''
      in sort_rows_dir down (inventory_sort_key (if down then tl field else field)) rows)"

definition inventory_params :: "(string \<times> (inventory_row \<Rightarrow> string)) list" where
  "inventory_params = [(''qf_device'', iv_name), (''qf_inventory_number'', iv_number), (''qf_device_serial'', iv_serial),
     (''qf_location'', iv_location), (''qf_module'', iv_module_name), (''qf_module_serial'', iv_module_serial),
     (''qf_description'', iv_description)]"

definition quick_rows :: "(string \<times> ('r \<Rightarrow> string)) list \<Rightarrow> request \<Rightarrow> 'r list \<Rightarrow> 'r list" where
  "quick_rows params q = filter (\<lambda>r. list_all (\<lambda>(k, field). stripped q k = [] \<or> quick_contains (field r) (stripped q k)) params)"

definition inventory_list :: "import_env \<Rightarrow> db \<Rightarrow> request \<Rightarrow> inventory_row list option" where
  "inventory_list env d q =
     (case build_inventory_rows env d (stripped q ''search'') of
        None \<Rightarrow> None
      | Some rows \<Rightarrow>
         (let site = site_choice env d q; t = tag_choice env d q;
              rows = (if site \<noteq> ''all'' then filter (\<lambda>r. iv_site_id r = site) rows else rows);
              rows = (if t \<noteq> [] then filter (\<lambda>r. has_tag_text env d t (iv_device r)) rows else rows)
          in sort_inventory_rows (request_text q ''sort'' ''device_name'') (quick_rows inventory_params q rows)))"

text \<open>The export takes the site as it is; a tag that is no identifier is ignored.\<close>

definition export_tag :: "import_env \<Rightarrow> db \<Rightarrow> request \<Rightarrow> string" where
  "export_tag env d q =
     (case ie_uuid env (stripped q ''tag'') of
        None \<Rightarrow> []
      | Some i \<Rightarrow> if list_ex (\<lambda>x. tag_id x = i) (t_tags d) \<and> ie_str env i = stripped q ''tag'' then stripped q ''tag'' else [])"

definition inventory_export_rows :: "import_env \<Rightarrow> db \<Rightarrow> request \<Rightarrow> inventory_row list option" where
  "inventory_export_rows env d q =
     (case build_inventory_rows env d (stripped q ''search'') of
        None \<Rightarrow> None
      | Some rows \<Rightarrow>
         (let site = request_text q ''site'' ''all''; t = (if stripped q ''tag'' = [] then [] else export_tag env d q);
              rows = (if site \<noteq> ''all'' then filter (\<lambda>r. iv_site_id r = site) rows else rows);
              rows = (if t \<noteq> [] then filter (\<lambda>r. has_tag_text env d t (iv_device r)) rows else rows)
          in sort_inventory_rows (request_text q ''sort'' ''device_name'') (quick_rows inventory_params q rows)))"

definition inventory_headers :: "string list" where
  "inventory_headers = [''Device'', ''Module Inventory Number'', ''Device Serial'', ''Location'', ''Module'', ''Module Serial'', ''Description'']"

definition inventory_line :: "inventory_row \<Rightarrow> string list" where
  "inventory_line r = [iv_name r, iv_number r, iv_serial r, iv_location r, iv_module_name r,
     (case iv_module r of None \<Rightarrow> [] | Some m \<Rightarrow> or_empty (serial_display m)), iv_description r]"

definition inventory_export :: "import_env \<Rightarrow> db \<Rightarrow> request \<Rightarrow> string list list option" where
  "inventory_export env d q = map_option (\<lambda>rows. inventory_headers # map inventory_line rows) (inventory_export_rows env d q)"

definition inventory_hub :: "db \<Rightarrow> nat list" where
  "inventory_hub d = [length (t_devices d), length (t_modules d), length (t_inventory d),
     length (filter (\<lambda>i. inv_kind i = ''device'') (t_inventory d)), length (filter (\<lambda>i. inv_kind i = ''module'') (t_inventory d))]"

end
