(* ===== verification/DeviceLists.thy ===== *)
theory DeviceLists
  imports Listings
begin

text \<open>
  The lists of devices, modules and interfaces of \<^verbatim>\<open>dcim/views/device_views.py\<close>, the tags and
  the configurations on the page of a device, and the lists that the forms fetch.
\<close>

text \<open>
  The environment: the texts of identifiers, the name of the organization of a site (which nothing
  else reads), and the orders of the database by a column, downwards or not.
\<close>

record listing_env =
  li_base :: import_env
  li_org :: "uid \<Rightarrow> string"
  li_devices :: "string \<Rightarrow> bool \<Rightarrow> device list \<Rightarrow> device list"
  li_modules :: "string \<Rightarrow> bool \<Rightarrow> dev_module list \<Rightarrow> dev_module list"
  li_interfaces :: "string \<Rightarrow> bool \<Rightarrow> interface list \<Rightarrow> interface list"

section \<open>Devices\<close>

definition interface_statuses :: "string list" where
  "interface_statuses = [''up'', ''down'', ''disabled'', ''connected'', ''notconnected'', ''err-disabled'', ''xcvrAbsen'', ''inactive'', ''unknown'']"

definition type_texts :: "db \<Rightarrow> device \<Rightarrow> string list" where
  "type_texts d v = (case fk (find_type d) (dev_type v) of None \<Rightarrow> [] | Some t \<Rightarrow> [dt_model t, vendor_text d (Some (dt_vendor t))])"

definition device_texts :: "listing_env \<Rightarrow> db \<Rightarrow> device \<Rightarrow> string list" where
  "device_texts env d v = [dev_name v, dev_ip v, or_empty (dev_serial v), or_empty (dev_image v)] @ type_texts d v @
     [area_label d v, rack_name_of d v, site_label d (dev_site v), li_org env (dev_site v)]"

definition any_contains :: "string \<Rightarrow> string list \<Rightarrow> bool" where
  "any_contains query ts \<longleftrightarrow> list_ex (\<lambda>t. quick_contains t query) ts"

definition device_params :: "db \<Rightarrow> (string \<times> (device \<Rightarrow> string list)) list" where
  "device_params d = [(''qf_device'', \<lambda>v. [dev_name v]), (''qf_ip'', \<lambda>v. [dev_ip v]), (''qf_type'', type_texts d),
     (''qf_serial'', \<lambda>v. [or_empty (dev_serial v)]), (''qf_location'', \<lambda>v. [area_label d v]), (''qf_rack'', \<lambda>v. [rack_name_of d v]),
     (''qf_image'', \<lambda>v. [or_empty (dev_image v)])]"

definition device_wanted :: "listing_env \<Rightarrow> db \<Rightarrow> request \<Rightarrow> device \<Rightarrow> bool" where
  "device_wanted env d q v \<longleftrightarrow>
     (let site = site_choice (li_base env) d q; st = stripped q ''interface_status''; t = tag_choice (li_base env) d q;
          search = stripped q ''search''
      in (site = ''all'' \<or> ie_str (li_base env) (dev_site v) = site)
       \<and> (st \<notin> set interface_statuses \<or> list_ex (\<lambda>i. ifc_device i = dev_id v \<and> ifc_status i = st) (t_interfaces d))
       \<and> (t = [] \<or> has_tag_text (li_base env) d t v)
       \<and> (search = [] \<or> any_contains search (device_texts env d v))
       \<and> list_all (\<lambda>(k, texts). stripped q k = [] \<or> any_contains (stripped q k) (texts v)) (device_params d))"

definition reachable_score :: "db \<Rightarrow> device \<Rightarrow> nat" where
  "reachable_score d v =
     (case first_row (\<lambda>r. rt_device r = dev_id v) (t_runtimes d) of
        None \<Rightarrow> 0
      | Some r \<Rightarrow> if rt_ping r \<or> rt_ssh r \<or> rt_snmp r \<or> rt_netconf r then 1 else 0)"

definition sortable_columns :: "string list" where
  "sortable_columns = [''name'', ''management_ip'', ''status'', ''device_type__model'', ''serial_number'', ''area__name'', ''rack__name'',
     ''site__name'', ''image_version'', ''reachability'']"

definition device_list :: "listing_env \<Rightarrow> db \<Rightarrow> request \<Rightarrow> exn + device list" where
  "device_list env d q =
     (let rows = filter (device_wanted env d q) (t_devices d); order = strip (request_text q ''sort'' ''name''); c = bare_column order
      in if c \<notin> set sortable_columns then Inr (li_devices env ''name'' False rows)
         else if c = ''reachability''
         then Inr (sort_key (\<lambda>v. if startswith order ''-'' then 1 - reachable_score d v else reachable_score d v) (li_devices env ''name'' False rows))
         else order_rows (li_devices env) order rows)"

definition yes_no :: "bool \<Rightarrow> string" where
  "yes_no b = (if b then ''Yes'' else ''No'')"

definition type_label :: "db \<Rightarrow> device \<Rightarrow> string" where
  "type_label d v = (case fk (find_type d) (dev_type v) of None \<Rightarrow> [] | Some t \<Rightarrow> vendor_text d (Some (dt_vendor t)) @ '' '' @ dt_model t)"

definition device_headers :: "string list" where
  "device_headers = [''Device'', ''IP'', ''Ping'', ''SSH'', ''SNMP'', ''Netconf'', ''Status'', ''Type'', ''Serial'', ''Location'', ''Rack'', ''Site'', ''Image'']"

definition device_line :: "listing_env \<Rightarrow> db \<Rightarrow> device \<Rightarrow> string list option" where
  "device_line env d v =
     (let r = first_row (\<lambda>r. rt_device r = dev_id v) (t_runtimes d); flag = (\<lambda>f. yes_no (case r of None \<Rightarrow> False | Some r \<Rightarrow> f r))
      in map_option (\<lambda>area. [dev_name v, dev_ip v, flag rt_ping, flag rt_ssh, flag rt_snmp, flag rt_netconf, dev_status v, type_label d v,
           or_empty (dev_serial v), area, rack_name_of d v, site_label d (dev_site v), or_empty (dev_image v)])
         (case find_area d (dev_area v) of None \<Rightarrow> Some [] | Some a \<Rightarrow> area_text (li_base env) d a))"

definition device_export :: "listing_env \<Rightarrow> db \<Rightarrow> request \<Rightarrow> (exn + string list list) option" where
  "device_export env d q =
     (case device_list env d q of
        Inl e \<Rightarrow> Some (Inl e)
      | Inr vs \<Rightarrow> map_option (\<lambda>lines. Inr (device_headers # lines)) (traverse (device_line env d) vs))"

section \<open>Modules and interfaces\<close>

definition device_modules :: "listing_env \<Rightarrow> db \<Rightarrow> device \<Rightarrow> request \<Rightarrow> dev_module list option" where
  "device_modules env d v q =
     (let search = stripped q ''search''; field = request_text q ''sort'' ''name'';
          rows = filter (\<lambda>m. search = [] \<or> any_contains search [mod_name m, or_empty (mod_serial m), or_empty (mod_description m)]) (modules_of d v)
      in if field \<in> {''serial_number'', ''description''} then Some (li_modules env field False rows)
         else sort_rows_dir False (\<lambda>m. natural_key (mod_name m)) rows)"

definition interface_texts :: "interface \<Rightarrow> string list" where
  "interface_texts i = [ifc_name i, or_empty (ifc_description i), or_empty (ifc_ip i), ifc_vlan_raw i]"

definition in_ip_vlan :: "db \<Rightarrow> string \<Rightarrow> interface \<Rightarrow> bool" where
  "in_ip_vlan d query i \<longleftrightarrow> any_contains query [or_empty (ifc_ip i), ifc_vlan_raw i]
     \<or> (all_digits query \<and> (case fk (\<lambda>k. first_row (\<lambda>x. vlan_uid x = k) (t_vlans d)) (ifc_access_vlan i) of
          None \<Rightarrow> False | Some x \<Rightarrow> vlan_number x = int (digits_value query)))"

definition has_speed :: "string \<Rightarrow> interface \<Rightarrow> bool" where
  "has_speed query i \<longleftrightarrow> all_digits query \<and> ifc_speed i = Some (int (digits_value query))"

text \<open>A quick filter that is empty accepts every row.\<close>

definition quick :: "request \<Rightarrow> string \<Rightarrow> (string \<Rightarrow> bool) \<Rightarrow> bool" where
  "quick q k p \<longleftrightarrow> stripped q k = [] \<or> p (stripped q k)"

definition device_interfaces :: "listing_env \<Rightarrow> db \<Rightarrow> device \<Rightarrow> request \<Rightarrow> interface list option" where
  "device_interfaces env d v q =
     (let field = request_text q ''sort'' ''name'';
          rows = filter (\<lambda>i. ifc_device i = dev_id v
             \<and> quick q ''search'' (\<lambda>s. any_contains s (interface_texts i @ [ifc_status i, or_empty (ifc_duplex i), or_empty (ifc_speed_mode i)]))
             \<and> quick q ''qf_name'' (quick_contains (ifc_name i)) \<and> quick q ''qf_description'' (quick_contains (or_empty (ifc_description i)))
             \<and> quick q ''qf_ip_vlan'' (\<lambda>s. in_ip_vlan d s i) \<and> quick q ''qf_status'' (quick_contains (ifc_status i))
             \<and> quick q ''qf_duplex'' (quick_contains (or_empty (ifc_duplex i))) \<and> quick q ''qf_speed_mode'' (quick_contains (or_empty (ifc_speed_mode i)))
             \<and> quick q ''qf_speed'' (\<lambda>s. has_speed s i)) (t_interfaces d)
      in if field \<in> {''description'', ''status'', ''ip_address'', ''speed'', ''duplex'', ''speed_mode''} then Some (li_interfaces env field False rows)
         else sort_rows_dir False (\<lambda>i. natural_key (ifc_name i)) rows)"

definition owner :: "db \<Rightarrow> interface \<Rightarrow> (device \<Rightarrow> bool) \<Rightarrow> bool" where
  "owner d i p \<longleftrightarrow> (case find_device d (ifc_device i) of None \<Rightarrow> False | Some v \<Rightarrow> p v)"

definition interface_wanted :: "listing_env \<Rightarrow> db \<Rightarrow> request \<Rightarrow> string list \<Rightarrow> interface \<Rightarrow> bool" where
  "interface_wanted env d q extra i \<longleftrightarrow>
     (let site = site_choice (li_base env) d q; t = tag_choice (li_base env) d q
      in (site = ''all'' \<or> owner d i (\<lambda>v. ie_str (li_base env) (dev_site v) = site))
       \<and> (t = [] \<or> owner d i (has_tag_text (li_base env) d t))
       \<and> quick q ''search'' (\<lambda>s. any_contains s (interface_texts i @ extra)
            \<or> owner d i (\<lambda>v. any_contains s [dev_name v, dev_ip v, site_label d (dev_site v)])))"

definition interface_columns :: "string list" where
  "interface_columns = [''device__name'', ''device__management_ip'', ''name'', ''description'', ''ip_address'', ''speed'', ''status'', ''device__site__name'']"

definition interface_order :: "request \<Rightarrow> string" where
  "interface_order q =
     (let s = strip (request_text q ''sort'' ''device__name'') in if bare_column s \<in> set interface_columns then s else ''device__name'')"

definition err_disabled_interfaces :: "listing_env \<Rightarrow> db \<Rightarrow> request \<Rightarrow> exn + interface list" where
  "err_disabled_interfaces env d q =
     order_rows (li_interfaces env) (interface_order q)
       (filter (\<lambda>i. ifc_status i = ''err-disabled'' \<and> interface_wanted env d q [] i) (t_interfaces d))"

definition all_interfaces :: "listing_env \<Rightarrow> db \<Rightarrow> request \<Rightarrow> exn + interface list" where
  "all_interfaces env d q =
     order_rows (li_interfaces env) (interface_order q)
       (filter (\<lambda>i. interface_wanted env d q [ifc_status i] i
          \<and> quick q ''qf_device'' (\<lambda>s. owner d i (\<lambda>v. quick_contains (dev_name v) s))
          \<and> quick q ''qf_mgmt_ip'' (\<lambda>s. owner d i (\<lambda>v. quick_contains (dev_ip v) s))
          \<and> quick q ''qf_interface'' (quick_contains (ifc_name i)) \<and> quick q ''qf_description'' (quick_contains (or_empty (ifc_description i)))
          \<and> quick q ''qf_ip_vlan'' (\<lambda>s. in_ip_vlan d s i) \<and> quick q ''qf_speed'' (\<lambda>s. has_speed s i)
          \<and> quick q ''qf_status'' (quick_contains (ifc_status i))) (t_interfaces d))"

section \<open>The page of a device\<close>

datatype page_message = Succeeded string | Problem string

definition protected_tags :: "string list" where
  "protected_tags = [''reachability_check'', ''config_backup'']"

definition set_tags :: "uid \<Rightarrow> (uid list \<Rightarrow> uid list) \<Rightarrow> db \<Rightarrow> db" where
  "set_tags k f d = d\<lparr>t_devices := update_where (\<lambda>v. dev_id v = k) (\<lambda>v. v\<lparr>dev_tags := f (dev_tags v)\<rparr>) (t_devices d)\<rparr>"

text \<open>A tag that is no identifier raises; the page does not catch that.\<close>

definition tag_post :: "import_env \<Rightarrow> device \<Rightarrow> request \<Rightarrow> db \<Rightarrow> exn + (page_message option \<times> db)" where
  "tag_post env v q d =
     (let action = request_text q ''tag_action'' []; i = request_text q ''tag_id'' []
      in if action \<notin> {''add'', ''remove''} \<or> i = [] then Inr (None, d)
         else case ie_uuid env i of
             None \<Rightarrow> Inl (ValidationError (i @ '' is not a valid UUID.''))
           | Some k \<Rightarrow>
              (case first_row (\<lambda>x. tag_id x = k) (t_tags d) of
                 None \<Rightarrow> Inr (Some (Problem ''Tag not found.''), d)
               | Some t \<Rightarrow>
                  if action = ''add''
                  then Inr (Some (Succeeded (''Tag '' @ quote_text (tag_name t) @ '' added.'')),
                    set_tags (dev_id v) (\<lambda>ts. if k \<in> set ts then ts else ts @ [k]) d)
                  else if tag_name t \<in> set protected_tags then Inr (Some (Problem ''This tag can only be removed by an administrator.''), d)
                  else Inr (Some (Succeeded (''Tag '' @ quote_text (tag_name t) @ '' removed.'')), set_tags (dev_id v) (filter (\<lambda>x. x \<noteq> k)) d)))"

record device_page =
  dg_interfaces :: nat
  dg_interface_preview :: "interface list"
  dg_modules :: nat
  dg_module_preview :: "dev_module list"
  dg_config :: "config option"
  dg_config_preview :: string
  dg_stack :: "stack_member list"

definition device_page_of :: "store \<Rightarrow> device \<Rightarrow> device_page option" where
  "device_page_of s v =
     (let d = st_db s; latest = latest_config (dev_id v) (st_configs s)
      in case sort_rows_dir False (\<lambda>i. natural_key (ifc_name i)) (filter (\<lambda>i. ifc_device i = dev_id v) (t_interfaces d)) of
           None \<Rightarrow> None
         | Some ifs \<Rightarrow> map_option (\<lambda>ms. \<lparr>dg_interfaces = length ifs, dg_interface_preview = take 10 ifs, dg_modules = length ms,
              dg_module_preview = take 10 ms, dg_config = latest,
              dg_config_preview = (case latest of None \<Rightarrow> [] | Some c \<Rightarrow> join [char_of (10 :: nat)] (take 20 (splitlines (cf_text c)))),
              dg_stack = sort_key sm_switch (filter (\<lambda>m. sm_device m = dev_id v) (t_stacks d))\<rparr>)
             (sort_rows_dir False (\<lambda>m. natural_key (mod_name m)) (modules_of d v)))"

section \<open>The configurations of a device\<close>

text \<open>The newest first; of equal times the later row, as \<open>latest_config\<close> has it.\<close>

definition config_history :: "uid \<Rightarrow> config list \<Rightarrow> config list" where
  "config_history k cs = rev (sort_key cf_collected (filter (\<lambda>c. cf_device c = k) cs))"

definition config_rows :: "config list \<Rightarrow> (config \<times> config option) list" where
  "config_rows cs = zip cs (map Some (tl cs) @ [None])"

definition focused_config :: "import_env \<Rightarrow> uid \<Rightarrow> config list \<Rightarrow> request \<Rightarrow> config option" where
  "focused_config env k cs q =
     (let i = request_text q ''focus'' []
      in if i = [] then None else case ie_uuid env i of None \<Rightarrow> None | Some u \<Rightarrow> first_row (\<lambda>c. cf_id c = u) (config_history k cs))"

definition compare_post :: "string list \<Rightarrow> (string \<times> string) option" where
  "compare_post selected = (case selected of [a, b] \<Rightarrow> Some (a, b) | _ \<Rightarrow> None)"

section \<open>The lists that forms fetch\<close>

text \<open>\<^verbatim>\<open>racks_by_area\<close> gives the rows themselves to the encoder, which knows no rows.\<close>

definition devices_by_area :: "db \<Rightarrow> uid \<Rightarrow> device list" where
  "devices_by_area d k = filter (\<lambda>v. dev_area v = k) (t_devices d)"

definition racks_of :: "import_env \<Rightarrow> db \<Rightarrow> string \<Rightarrow> rack list" where
  "racks_of env d i = (case (if i = [] then None else ie_uuid env i) of None \<Rightarrow> [] | Some k \<Rightarrow> filter (\<lambda>r. rack_area r = k) (t_racks d))"

definition racks_by_area :: "import_env \<Rightarrow> db \<Rightarrow> request \<Rightarrow> exn + (string \<times> string) list" where
  "racks_by_area env d q =
     (if racks_of env d (request_text q ''area_id'' []) = [] then Inr [] else Inl (TypeError ''Object of type Rack is not JSON serializable''))"

definition racks_for_area :: "(rack list \<Rightarrow> rack list) \<Rightarrow> import_env \<Rightarrow> db \<Rightarrow> request \<Rightarrow> (uid \<times> string) list" where
  "racks_for_area by_name env d q = map (\<lambda>r. (rack_id r, rack_name r)) (by_name (racks_of env d (request_text q ''area'' [])))"

definition areas_for_site :: "(area list \<Rightarrow> area list) \<Rightarrow> import_env \<Rightarrow> db \<Rightarrow> request \<Rightarrow> (uid \<times> string \<times> string) list option" where
  "areas_for_site by_name env d q =
     (let i = request_text q ''site'' [];
          areas = (case (if i = [] then None else ie_uuid env i) of None \<Rightarrow> [] | Some k \<Rightarrow> by_name (filter (\<lambda>a. area_site a = k) (t_areas d)))
      in traverse (\<lambda>a. map_option (\<lambda>path. (area_id a, area_name a, join ('' '' @ ie_arrow env @ '' '') path)) (area_path d a [])) areas)"

end
