(* ===== verification/DeviceListsProps.thy ===== *)
theory DeviceListsProps
  imports DeviceLists
begin

text \<open>
  What the lists guarantee: the inventory has every module once, its export is the list that is
  shown, a list of devices has what the request asks for in some order or raises, and the history
  of configurations starts with the latest one.
\<close>

section \<open>The inventory is complete\<close>

lemma traverse_concat:
  assumes "traverse f xs = Some ys" and "\<And>x y. f x = Some y \<Longrightarrow> g y = h x"
  shows "concat (map g ys) = concat (map h xs)"
  using assms(1)
proof (induction xs arbitrary: ys)
  case (Cons x xs)
  then obtain y zs where "f x = Some y" "traverse f xs = Some zs" "ys = y # zs" by (auto split: option.splits)
  with Cons.IH assms(2) show ?case by simp
qed simp

lemma mset_parts:
  assumes "distinct (map f vs)"
  shows "mset (concat (map (\<lambda>v. filter (\<lambda>m. g m = f v) ms) vs)) = filter_mset (\<lambda>m. g m \<in> f ` set vs) (mset ms)"
  using assms
proof (induction vs)
  case (Cons v vs)
  have "filter_mset (\<lambda>m. g m \<in> f ` set (v # vs)) (mset ms)
      = filter_mset (\<lambda>m. g m = f v) (mset ms) + filter_mset (\<lambda>m. g m \<in> f ` set vs) (mset ms)"
  proof (rule multiset_eqI)
    fix m
    have "f v \<notin> f ` set vs" using Cons.prems by simp
    then show "count (filter_mset (\<lambda>m. g m \<in> f ` set (v # vs)) (mset ms)) m
        = count (filter_mset (\<lambda>m. g m = f v) (mset ms) + filter_mset (\<lambda>m. g m \<in> f ` set vs) (mset ms)) m"
      by (cases "g m = f v") simp_all
  qed
  with Cons show ?case by simp
qed simp

text \<open>The devices and the modules of the rows of one device, without a search text.\<close>

definition row_modules :: "inventory_row list \<Rightarrow> dev_module list" where
  "row_modules rows = concat (map (\<lambda>r. case iv_module r of None \<Rightarrow> [] | Some m \<Rightarrow> [m]) rows)"

definition bare_devices :: "inventory_row list \<Rightarrow> device list" where
  "bare_devices rows = concat (map (\<lambda>r. case iv_module r of None \<Rightarrow> [iv_device r] | Some _ \<Rightarrow> []) rows)"

lemma row_parts [simp]:
  "row_modules [] = []" "row_modules (xs @ ys) = row_modules xs @ row_modules ys"
  "bare_devices [] = []" "bare_devices (xs @ ys) = bare_devices xs @ bare_devices ys"
  by (simp_all add: row_modules_def bare_devices_def)

lemma device_rows_modules:
  assumes "device_rows env d [] v = Some rows"
  shows "row_modules rows = modules_of d v" and "bare_devices rows = (if modules_of d v = [] then [v] else [])"
  using assms
  by (auto simp: device_rows_def row_modules_def bare_devices_def device_matches_def inventory_row_of_def comp_def)

lemma concat_parts:
  "row_modules (concat rss) = concat (map row_modules rss)" "bare_devices (concat rss) = concat (map bare_devices rss)"
  by (induction rss) simp_all

lemma concat_singles: "concat (map (\<lambda>v. if P v then [v] else []) vs) = filter P vs"
  by (induction vs) simp_all

text \<open>
  Without a search text the production inventory is complete: every module of a device has
  exactly one row, and exactly the devices without modules have a row of their own.
\<close>

theorem inventory_complete:
  assumes "build_inventory_rows env d search = Some rows" and "strip (lower search) = []"
    and "distinct (map dev_id (t_devices d))" and "\<forall>m \<in> set (t_modules d). mod_device m \<in> dev_id ` set (t_devices d)"
  shows "mset (row_modules rows) = mset (t_modules d) \<and> bare_devices rows = filter (\<lambda>v. modules_of d v = []) (t_devices d)"
proof -
  obtain rss where rss: "traverse (device_rows env d []) (t_devices d) = Some rss" and rows: "rows = concat rss"
    using assms(1,2) by (auto simp: build_inventory_rows_def)
  have "row_modules rows = concat (map (modules_of d) (t_devices d))"
    unfolding rows concat_parts by (rule traverse_concat [OF rss device_rows_modules(1)])
  then have "mset (row_modules rows) = filter_mset (\<lambda>m. mod_device m \<in> dev_id ` set (t_devices d)) (mset (t_modules d))"
    using mset_parts [OF assms(3), of mod_device "t_modules d"] by (simp add: modules_of_def [abs_def])
  moreover have "filter_mset (\<lambda>m. mod_device m \<in> dev_id ` set (t_devices d)) (mset (t_modules d)) = mset (t_modules d)"
    using assms(4) by (simp add: filter_mset_eq_conv)
  moreover have "bare_devices rows = filter (\<lambda>v. modules_of d v = []) (t_devices d)"
    unfolding rows concat_parts concat_singles [symmetric] by (rule traverse_concat [OF rss device_rows_modules(2)])
  ultimately show ?thesis by simp
qed

section \<open>The export is the list\<close>

lemma export_tag_choice:
  assumes "\<And>i. ie_uuid env (ie_str env i) = Some i"
  shows "(if stripped q ''tag'' = [] then [] else export_tag env d q) = tag_choice env d q"
proof (cases "\<exists>x \<in> set (t_tags d). ie_str env (tag_id x) = stripped q ''tag''")
  case True
  then obtain x where x: "x \<in> set (t_tags d)" "stripped q ''tag'' = ie_str env (tag_id x)" by auto
  then show ?thesis by (auto simp: export_tag_def tag_choice_def assms list_ex_iff)
next
  case False
  then have "stripped q ''tag'' \<notin> (\<lambda>x. ie_str env (tag_id x)) ` set (t_tags d)" by auto
  moreover have "export_tag env d q = []"
    using False by (auto simp: export_tag_def list_ex_iff split: option.split)
  ultimately show ?thesis by (simp add: tag_choice_def Let_def)
qed

text \<open>
  The export of the production inventory has exactly the rows that the page lists, in the same
  order, for every request whose site is one of the sites or all; identifiers are read back from
  their texts.
\<close>

theorem export_is_list:
  assumes "\<And>i. ie_uuid env (ie_str env i) = Some i"
    and "request_text q ''site'' ''all'' = ''all'' \<or> (\<exists>x \<in> set (t_sites d). request_text q ''site'' ''all'' = ie_str env (site_id x))"
  shows "inventory_export env d q = map_option (\<lambda>rows. inventory_headers # map inventory_line rows) (inventory_list env d q)"
proof -
  have "site_choice env d q = request_text q ''site'' ''all''" using assms(2) by (auto simp: site_choice_def Let_def)
  moreover note export_tag_choice [OF assms(1), of q d]
  ultimately have "inventory_export_rows env d q = inventory_list env d q"
    unfolding inventory_export_rows_def inventory_list_def by (simp only:)
  then show ?thesis by (simp add: inventory_export_def)
qed

text \<open>For any other site the page lists all devices, and the export has no row.\<close>

lemma export_of_unknown_site:
  assumes "request_text q ''site'' ''all'' \<noteq> ''all''" and "\<forall>v \<in> set (t_devices d). ie_str env (dev_site v) \<noteq> request_text q ''site'' ''all''"
    and "build_inventory_rows env d (stripped q ''search'') = Some rows" and "t_devices d \<noteq> []"
  shows "inventory_export env d q = Some [inventory_headers]"
proof -
  obtain rss where rss: "traverse (device_rows env d (strip (lower (stripped q ''search'')))) (t_devices d) = Some rss" and rows: "rows = concat rss"
    using assms(3) by (auto simp: build_inventory_rows_def)
  have "concat (map (filter (\<lambda>r. iv_site_id r = request_text q ''site'' ''all'')) rss)
      = concat (map (\<lambda>v. if ie_str env (dev_site v) = request_text q ''site'' ''all'' then the (device_rows env d (strip (lower (stripped q ''search''))) v) else []) (t_devices d))"
    by (rule traverse_concat [OF rss]) (auto simp: device_rows_def inventory_row_of_def filter_map comp_def)
  then have "filter (\<lambda>r. iv_site_id r = request_text q ''site'' ''all'') rows = []"
    using assms(2) by (simp add: rows filter_concat)
  then show ?thesis using assms(1,3)
    by (simp add: inventory_export_def inventory_export_rows_def quick_rows_def sort_inventory_rows_def sort_rows_dir_def Let_def)
qed

section \<open>The list of devices\<close>

text \<open>
  When the orders of the database are permutations, the list of devices has exactly the devices
  that the request wants, once each; it raises exactly when the column to sort by is a known one of
  the database behind two minus signs or more.
\<close>

theorem device_list_wanted:
  assumes "\<And>c down vs. mset (li_devices env c down vs) = mset vs"
  shows "case device_list env d q of
      Inr vs \<Rightarrow> mset vs = filter_mset (device_wanted env d q) (mset (t_devices d))
    | Inl e \<Rightarrow> startswith (strip (request_text q ''sort'' ''name'')) ''--''
        \<and> bare_column (strip (request_text q ''sort'' ''name'')) \<in> set sortable_columns - {''reachability''}"
proof -
  obtain col where col: "col = strip (request_text q ''sort'' ''name'')" by simp
  have two: "startswith col ''-'' \<and> startswith (tl col) ''-'' \<longleftrightarrow> startswith col ''--''"
    by (cases col; cases "tl col") (auto simp: startswith_def)
  have one: "startswith col ''-'' \<or> \<not> startswith col ''-'' \<and> bare_column col = col"
    by (cases col) (auto simp: startswith_def bare_column_def)
  show ?thesis
    unfolding device_list_def Let_def col [symmetric] order_rows_def using two one
    by (auto simp: assms mset_filter)
qed

text \<open>The tags by which the jobs select devices are not the ones that are protected.\<close>

lemma job_tag_removed:
  assumes "request_text q ''tag_action'' [] = ''remove''" and "request_text q ''tag_id'' [] = ie_str env k" and "ie_str env k \<noteq> []"
    and "ie_uuid env (ie_str env k) = Some k" and "first_row (\<lambda>x. tag_id x = k) (t_tags d) = Some t"
    and "tag_name t \<in> {''reachability_check_tag'', ''config_backup_tag''}"
  shows "tag_post env v q d = Inr (Some (Succeeded (''Tag '' @ quote_text (tag_name t) @ '' removed.'')), set_tags (dev_id v) (filter (\<lambda>x. x \<noteq> k)) d)"
  using assms by (auto simp: tag_post_def Let_def protected_tags_def)

section \<open>The history of configurations\<close>

fun newest :: "('r \<Rightarrow> int) \<Rightarrow> 'r list \<Rightarrow> 'r option" where
  "newest f [] = None"
| "newest f (x # xs) = (case newest f xs of None \<Rightarrow> Some x | Some y \<Rightarrow> if f x \<le> f y then Some y else Some x)"

lemma fold_newest:
  "fold (\<lambda>c best. case best of None \<Rightarrow> Some c | Some b \<Rightarrow> if f b \<le> f c then Some c else Some b) xs b
     = (case b of None \<Rightarrow> newest f xs | Some x \<Rightarrow> newest f (x # xs))"
  by (induction xs arbitrary: b) (auto split: option.splits if_splits)

lemma last_insort: "sorted (map f ys) \<Longrightarrow> last (insort_key f x ys) = (if ys \<noteq> [] \<and> f x \<le> f (last ys) then last ys else x)"
proof (induction ys)
  case (Cons y ys)
  then show ?case by (cases ys) (auto simp: insort_not_Nil)
qed simp

lemma newest_sorted: "newest f xs = (if xs = [] then None else Some (last (sort_key f xs)))"
proof (induction xs)
  case (Cons x xs)
  have "sort_key f xs = [] \<longleftrightarrow> xs = []" by (metis length_0_conv length_sort)
  with Cons last_insort [of f "sort_key f xs" x] show ?case by simp
qed simp

text \<open>
  The history of the configurations of a device starts with the latest one, as the backup, the
  synchronisation and the replacement of a device determine it, and goes back in time.
\<close>

theorem history_starts_with_latest:
  "(case config_history k cs of [] \<Rightarrow> None | c # _ \<Rightarrow> Some c) = latest_config k cs
    \<and> sorted (rev (map cf_collected (config_history k cs))) \<and> mset (config_history k cs) = filter_mset (\<lambda>c. cf_device c = k) (mset cs)"
proof -
  let ?xs = "filter (\<lambda>c. cf_device c = k) cs"
  have "latest_config k cs = (if ?xs = [] then None else Some (last (sort_key cf_collected ?xs)))"
    by (simp add: latest_config_def fold_newest newest_sorted)
  moreover have "(case config_history k cs of [] \<Rightarrow> None | c # _ \<Rightarrow> Some c) = (if ?xs = [] then None else Some (last (sort_key cf_collected ?xs)))"
    by (cases "sort_key cf_collected ?xs" rule: rev_cases) (auto simp: config_history_def dest: arg_cong [where f = set])
  ultimately show ?thesis by (simp add: config_history_def rev_map)
qed

section \<open>Witnesses\<close>

definition demo_listing :: db where
  "demo_listing = demo_room\<lparr>t_devices := [demo_switch 1 ''sw1'' ''10.0.0.1'' 100, new_device 2 ''ap2'' ''10.0.0.2'' 1 1],
     t_tags := [\<lparr>tag_id = 7, tag_name = ''lab''\<rparr>]\<rparr>"

definition demo_texts :: import_env where
  "demo_texts = \<lparr>ie_uuid = (\<lambda>s. if all_digits s then Some (digits_value s) else None), ie_str = nat_str, ie_arrow = ''>'', ie_new = Suc,
     ie_text = (\<lambda>f k. k)\<rparr>"

definition demo_listing_env :: listing_env where
  "demo_listing_env = \<lparr>li_base = demo_texts, li_org = (\<lambda>_. ''Org''), li_devices = (\<lambda>c down vs. if down then rev vs else vs),
     li_modules = (\<lambda>c down ms. ms), li_interfaces = (\<lambda>c down is. is)\<rparr>"

theorem inventory_complete_witness:
  "\<exists>rows. build_inventory_rows demo_texts demo_listing [] = Some rows \<and> map dev_id (bare_devices rows) = [2]"
proof -
  have "build_inventory_rows demo_texts demo_listing [] \<noteq> None" by code_simp
  then obtain rows where rows: "build_inventory_rows demo_texts demo_listing [] = Some rows" by auto
  have "strip (lower []) = []" "distinct (map dev_id (t_devices demo_listing))"
    and "\<forall>m \<in> set (t_modules demo_listing). mod_device m \<in> dev_id ` set (t_devices demo_listing)"
    and "map dev_id (filter (\<lambda>v. modules_of demo_listing v = []) (t_devices demo_listing)) = [2]"
    by code_simp+
  with inventory_complete [OF rows] rows show ?thesis by simp
qed

theorem export_is_list_witness:
  "inventory_export demo_texts demo_listing (\<lambda>k. if k = ''sort'' then Some ''-device_name'' else None)
     = map_option (\<lambda>rows. inventory_headers # map inventory_line rows)
         (inventory_list demo_texts demo_listing (\<lambda>k. if k = ''sort'' then Some ''-device_name'' else None))"
  by (rule export_is_list) (simp_all add: demo_texts_def request_text_def digits_value_nat_str all_digits_nat_str)

theorem device_list_wanted_witness:
  "\<exists>vs. device_list demo_listing_env demo_listing (\<lambda>k. if k = ''search'' then Some ''AP'' else None) = Inr vs \<and> map dev_id vs = [2]"
proof -
  let ?q = "\<lambda>k. if k = ''search'' then Some ''AP'' else None"
  have "is_ok (device_list demo_listing_env demo_listing ?q)" by code_simp
  then obtain vs where vs: "device_list demo_listing_env demo_listing ?q = Inr vs"
    by (cases "device_list demo_listing_env demo_listing ?q") auto
  have "mset (li_devices demo_listing_env c down us) = mset us" for c down us
    by (simp add: demo_listing_env_def)
  from device_list_wanted [OF this, of ?q demo_listing]
  have "mset vs = mset (filter (device_wanted demo_listing_env demo_listing ?q) (t_devices demo_listing))"
    by (simp add: vs mset_filter)
  moreover have "image_mset dev_id (mset (filter (device_wanted demo_listing_env demo_listing ?q) (t_devices demo_listing))) = mset [2]"
    unfolding mset_map [symmetric] by (rule arg_cong [where f = mset]) code_simp
  ultimately have "mset (map dev_id vs) = mset [2]" unfolding mset_map by simp
  then have "map dev_id vs = [2]" by (simp only: mset.simps mset_single_iff)
  with vs show ?thesis by (intro exI conjI)
qed

end
