(* ===== verification/Difflib.thy ===== *)
theory Difflib
  imports ZasPrelude
begin

text \<open>
  What the program uses of Python's \<^verbatim>\<open>difflib\<close>: \<^verbatim>\<open>SequenceMatcher(None, a, b)\<close> with
  its blocks and edit operations. The texts are lists of lines; nothing is junk, and a line that is
  too popular in a long second text starts no block.
\<close>

section \<open>The longest block\<close>

type_synonym block = "nat \<times> nat \<times> nat"

definition positions :: "'l list \<Rightarrow> 'l \<Rightarrow> nat list" where
  "positions b x = filter (\<lambda>j. b ! j = x) [0..<length b]"

definition popular :: "'l list \<Rightarrow> 'l \<Rightarrow> bool" where
  "popular b x \<longleftrightarrow> 200 \<le> length b \<and> length b div 100 + 1 < length (positions b x)"

definition starts :: "'l list \<Rightarrow> 'l \<Rightarrow> nat list" where
  "starts b x = (if popular b x then [] else positions b x)"

text \<open>
  One line of the first text against its occurrences in the second: \<open>old\<close> has, by the last line
  in the second text, the lengths of the blocks that end at the line before.
\<close>

definition before :: "(nat \<Rightarrow> nat) \<Rightarrow> nat \<Rightarrow> nat" where
  "before old j = (case j of 0 \<Rightarrow> 0 | Suc k \<Rightarrow> old k)"

definition meet :: "(nat \<Rightarrow> nat) \<Rightarrow> nat \<Rightarrow> nat \<Rightarrow> (nat \<Rightarrow> nat) \<times> block \<Rightarrow> (nat \<Rightarrow> nat) \<times> block" where
  "meet old i j st =
     (let (new, bi, bj, bk) = st; k = before old j + 1
      in (new(j := k), if bk < k then (i + 1 - k, j + 1 - k, k) else (bi, bj, bk)))"

definition scan_line :: "'l list \<Rightarrow> 'l list \<Rightarrow> nat \<Rightarrow> nat \<Rightarrow> nat \<Rightarrow> (nat \<Rightarrow> nat) \<times> block \<Rightarrow> (nat \<Rightarrow> nat) \<times> block" where
  "scan_line a b blo bhi i st =
     fold (meet (fst st) i) (filter (\<lambda>j. blo \<le> j \<and> j < bhi) (starts b (a ! i))) (\<lambda>_. 0, snd st)"

definition scan_lines :: "'l list \<Rightarrow> 'l list \<Rightarrow> nat \<Rightarrow> nat \<Rightarrow> nat \<Rightarrow> nat \<Rightarrow> (nat \<Rightarrow> nat) \<times> block" where
  "scan_lines a b alo blo bhi i = fold (scan_line a b blo bhi) [alo..<i] (\<lambda>_. 0, alo, blo, 0)"

fun extend_back :: "'l list \<Rightarrow> 'l list \<Rightarrow> nat \<Rightarrow> nat \<Rightarrow> nat \<Rightarrow> nat \<Rightarrow> nat \<Rightarrow> block" where
  "extend_back a b alo blo i j k =
     (if alo < i \<and> blo < j \<and> a ! (i - 1) = b ! (j - 1) then extend_back a b alo blo (i - 1) (j - 1) (k + 1) else (i, j, k))"

function extend_on :: "'l list \<Rightarrow> 'l list \<Rightarrow> nat \<Rightarrow> nat \<Rightarrow> nat \<Rightarrow> nat \<Rightarrow> nat \<Rightarrow> nat" where
  "extend_on a b ahi bhi i j k =
     (if i + k < ahi \<and> j + k < bhi \<and> a ! (i + k) = b ! (j + k) then extend_on a b ahi bhi i j (k + 1) else k)"
  by pat_completeness auto
termination
  by (relation "measure (\<lambda>(a, b, ahi, bhi, i, j, k). ahi - (i + k))") auto

declare extend_back.simps [simp del] extend_on.simps [simp del]

definition find_longest :: "'l list \<Rightarrow> 'l list \<Rightarrow> nat \<Rightarrow> nat \<Rightarrow> nat \<Rightarrow> nat \<Rightarrow> block" where
  "find_longest a b alo ahi blo bhi =
     (let (i, j, k) = snd (scan_lines a b alo blo bhi ahi); (i, j, k) = extend_back a b alo blo i j k
      in (i, j, extend_on a b ahi bhi i j k))"

section \<open>What is found agrees\<close>

definition agree :: "'l list \<Rightarrow> 'l list \<Rightarrow> block \<Rightarrow> bool" where
  "agree a b m \<longleftrightarrow> (case m of (i, j, k) \<Rightarrow> \<forall>t < k. a ! (i + t) = b ! (j + t))"

definition within :: "nat \<Rightarrow> nat \<Rightarrow> nat \<Rightarrow> nat \<Rightarrow> block \<Rightarrow> bool" where
  "within alo ahi blo bhi m \<longleftrightarrow> (case m of (i, j, k) \<Rightarrow> alo \<le> i \<and> i + k \<le> ahi \<and> blo \<le> j \<and> j + k \<le> bhi)"

lemma agree_0 [simp]: "agree a b (i, j, 0)"
  by (simp add: agree_def)

lemma agree_snoc: "agree a b (i, j, Suc k) \<longleftrightarrow> agree a b (i, j, k) \<and> a ! (i + k) = b ! (j + k)"
  by (auto simp: agree_def less_Suc_eq)

lemma agree_front: "agree a b (i, j, Suc k) \<longleftrightarrow> a ! i = b ! j \<and> agree a b (Suc i, Suc j, k)"
  by (auto simp: agree_def less_Suc_eq_0_disj)

lemma in_starts: "j \<in> set (starts b x) \<Longrightarrow> j < length b \<and> b ! j = x"
  by (auto simp: starts_def positions_def split: if_splits)

text \<open>The lengths of \<open>old\<close> are those of blocks that end before line \<open>i\<close>.\<close>

definition run_ok :: "'l list \<Rightarrow> 'l list \<Rightarrow> nat \<Rightarrow> nat \<Rightarrow> nat \<Rightarrow> nat \<Rightarrow> (nat \<Rightarrow> nat) \<Rightarrow> bool" where
  "run_ok a b alo blo bhi i old \<longleftrightarrow> (\<forall>j. 0 < old j \<longrightarrow> j < bhi \<and> alo + old j \<le> i \<and> blo + old j \<le> j + 1
     \<and> agree a b (i - old j, j + 1 - old j, old j))"

definition best_ok :: "'l list \<Rightarrow> 'l list \<Rightarrow> nat \<Rightarrow> nat \<Rightarrow> nat \<Rightarrow> nat \<Rightarrow> block \<Rightarrow> bool" where
  "best_ok a b alo blo bhi i m \<longleftrightarrow> (m = (alo, blo, 0) \<or> within alo i blo bhi m) \<and> agree a b m"

lemma best_ok_mono: "best_ok a b alo blo bhi i m \<Longrightarrow> i \<le> i' \<Longrightarrow> best_ok a b alo blo bhi i' m"
  by (auto simp: best_ok_def within_def)

lemma meet_ok:
  assumes "run_ok a b alo blo bhi i old" and "a ! i = b ! j" and "alo \<le> i" and "blo \<le> j" and "j < bhi"
    and "run_ok a b alo blo bhi (Suc i) new" and "best_ok a b alo blo bhi (Suc i) m"
  shows "run_ok a b alo blo bhi (Suc i) (fst (meet old i j (new, m))) \<and> best_ok a b alo blo bhi (Suc i) (snd (meet old i j (new, m)))"
proof -
  obtain bi bj bk where m: "m = (bi, bj, bk)" by (cases m)
  let ?k = "before old j"
  have k: "alo + ?k \<le> i \<and> blo + ?k \<le> j \<and> agree a b (i - ?k, j - ?k, ?k)"
  proof (cases j)
    case (Suc l)
    then show ?thesis
      using assms(1,3,4) by (cases "old l = 0") (auto simp: before_def run_ok_def)
  qed (use assms in \<open>simp add: before_def\<close>)
  then have on: "agree a b (i - ?k, j - ?k, Suc ?k)" using assms(2) by (simp add: agree_snoc)
  have "run_ok a b alo blo bhi (Suc i) (new(j := Suc ?k))"
    using assms(5,6) k on by (auto simp: run_ok_def)
  moreover have "best_ok a b alo blo bhi (Suc i) (i - ?k, j - ?k, Suc ?k)"
  proof -
    have "alo \<le> i - ?k" "blo \<le> j - ?k" using k by linarith+
    then show ?thesis using assms(5) k on by (simp add: best_ok_def within_def)
  qed
  ultimately show ?thesis using assms(7) by (simp add: meet_def m)
qed

lemma scan_line_ok:
  assumes "run_ok a b alo blo bhi i (fst st)" and "best_ok a b alo blo bhi i (snd st)" and "alo \<le> i"
  shows "run_ok a b alo blo bhi (Suc i) (fst (scan_line a b blo bhi i st)) \<and> best_ok a b alo blo bhi (Suc i) (snd (scan_line a b blo bhi i st))"
proof -
  have "run_ok a b alo blo bhi (Suc i) (fst (fold (meet (fst st) i) js (new, m))) \<and> best_ok a b alo blo bhi (Suc i) (snd (fold (meet (fst st) i) js (new, m)))"
    if "\<forall>j \<in> set js. a ! i = b ! j \<and> blo \<le> j \<and> j < bhi" and "run_ok a b alo blo bhi (Suc i) new" and "best_ok a b alo blo bhi (Suc i) m" for js new m
    using that
  proof (induction js arbitrary: new m)
    case (Cons j js)
    obtain new' m' where step: "meet (fst st) i j (new, m) = (new', m')" by (cases "meet (fst st) i j (new, m)")
    have "run_ok a b alo blo bhi (Suc i) new' \<and> best_ok a b alo blo bhi (Suc i) m'"
      using meet_ok [OF assms(1) _ assms(3) _ _ Cons.prems(2,3), of j] Cons.prems(1) by (simp add: step)
    with Cons.IH [of new' m'] Cons.prems(1) show ?case by (simp add: step)
  qed simp
  moreover have "\<forall>j \<in> set (filter (\<lambda>j. blo \<le> j \<and> j < bhi) (starts b (a ! i))). a ! i = b ! j \<and> blo \<le> j \<and> j < bhi"
    using in_starts [of _ b "a ! i"] by auto
  moreover have "run_ok a b alo blo bhi (Suc i) (\<lambda>_. 0)" by (simp add: run_ok_def)
  moreover have "best_ok a b alo blo bhi (Suc i) (snd st)" using best_ok_mono [OF assms(2)] by simp
  ultimately show ?thesis unfolding scan_line_def by blast
qed

lemma scan_lines_ok:
  assumes "alo \<le> i"
  shows "run_ok a b alo blo bhi i (fst (scan_lines a b alo blo bhi i)) \<and> best_ok a b alo blo bhi i (snd (scan_lines a b alo blo bhi i))"
  using assms
proof (induction i rule: dec_induct)
  case base
  then show ?case by (simp add: scan_lines_def run_ok_def best_ok_def)
next
  case (step i)
  then have "scan_lines a b alo blo bhi (Suc i) = scan_line a b blo bhi i (scan_lines a b alo blo bhi i)"
    by (simp add: scan_lines_def)
  with scan_line_ok [of a b alo blo bhi i "scan_lines a b alo blo bhi i"] step show ?case by simp
qed

lemma extend_back_ok:
  assumes "extend_back a b alo blo i j k = (i', j', k')" and "agree a b (i, j, k)" and "alo \<le> i" and "blo \<le> j"
  shows "agree a b (i', j', k') \<and> alo \<le> i' \<and> blo \<le> j' \<and> i' + k' = i + k \<and> j' + k' = j + k"
  using assms
proof (induction a b alo blo i j k rule: extend_back.induct)
  case (1 a b alo blo i j k)
  show ?case
  proof (cases "alo < i \<and> blo < j \<and> a ! (i - 1) = b ! (j - 1)")
    case True
    then have "agree a b (i - 1, j - 1, k + 1)" using "1.prems"(2) by (simp add: agree_front)
    with True 1 show ?thesis by (auto simp: extend_back.simps [of a b alo blo i j k])
  next
    case False
    with 1 show ?thesis by (auto simp: extend_back.simps [of a b alo blo i j k])
  qed
qed

lemma extend_on_ok:
  assumes "agree a b (i, j, k)"
  shows "agree a b (i, j, extend_on a b ahi bhi i j k) \<and> k \<le> extend_on a b ahi bhi i j k
    \<and> (i + k \<le> ahi \<longrightarrow> i + extend_on a b ahi bhi i j k \<le> ahi) \<and> (j + k \<le> bhi \<longrightarrow> j + extend_on a b ahi bhi i j k \<le> bhi)"
  using assms
proof (induction a b ahi bhi i j k rule: extend_on.induct)
  case (1 a b ahi bhi i j k)
  show ?case
  proof (cases "i + k < ahi \<and> j + k < bhi \<and> a ! (i + k) = b ! (j + k)")
    case True
    then have "agree a b (i, j, k + 1)" using "1.prems" by (simp add: agree_snoc)
    with True 1 show ?thesis by (auto simp: extend_on.simps [of a b ahi bhi i j k])
  next
    case False
    with 1 show ?thesis by (auto simp: extend_on.simps [of a b ahi bhi i j k])
  qed
qed

lemma find_longest_ok:
  assumes "alo \<le> ahi" and "blo \<le> bhi"
  shows "agree a b (find_longest a b alo ahi blo bhi) \<and> within alo ahi blo bhi (find_longest a b alo ahi blo bhi)"
proof -
  obtain i j k where s: "snd (scan_lines a b alo blo bhi ahi) = (i, j, k)" by (cases "snd (scan_lines a b alo blo bhi ahi)")
  have ok: "agree a b (i, j, k)" "alo \<le> i" "blo \<le> j" "i + k \<le> ahi" "j + k \<le> bhi"
    using scan_lines_ok [OF assms(1), of a b blo bhi] assms by (auto simp: s best_ok_def within_def)
  obtain i' j' k' where e: "extend_back a b alo blo i j k = (i', j', k')" by (cases "extend_back a b alo blo i j k")
  have "agree a b (i', j', k')" "alo \<le> i'" "blo \<le> j'" "i' + k' \<le> ahi" "j' + k' \<le> bhi"
    using extend_back_ok [OF e ok(1-3)] ok(4,5) by auto
  with extend_on_ok [of a b i' j' k' ahi bhi] show ?thesis
    by (simp add: find_longest_def s e within_def)
qed

section \<open>All blocks\<close>

text \<open>
  The search goes on before and after a block; the code keeps the open parts on a stack and sorts
  the blocks at the end, which is the order here.
\<close>

function blocks :: "'l list \<Rightarrow> 'l list \<Rightarrow> nat \<Rightarrow> nat \<Rightarrow> nat \<Rightarrow> nat \<Rightarrow> block list" where
  "blocks a b alo ahi blo bhi =
     (if alo < ahi \<and> blo < bhi
      then (let (i, j, k) = find_longest a b alo ahi blo bhi
            in if k = 0 then [] else blocks a b alo i blo j @ (i, j, k) # blocks a b (i + k) ahi (j + k) bhi)
      else [])"
  by pat_completeness auto
termination
proof (relation "measure (\<lambda>(a, b, alo, ahi, blo, bhi). ahi - alo)")
  fix a b :: "'l list" and alo ahi blo bhi i j k :: nat and m jk
  assume "alo < ahi \<and> blo < bhi" and m: "m = find_longest a b alo ahi blo bhi" and "(i, jk) = m" "(j, k) = jk" and "k \<noteq> 0"
  then have "within alo ahi blo bhi (i, j, k)" using find_longest_ok [of alo ahi blo bhi a b] by (simp flip: m)
  then show "((a, b, alo, i, blo, j), (a, b, alo, ahi, blo, bhi)) \<in> measure (\<lambda>(a, b, alo, ahi, blo, bhi). ahi - alo)"
    and "((a, b, i + k, ahi, j + k, bhi), (a, b, alo, ahi, blo, bhi)) \<in> measure (\<lambda>(a, b, alo, ahi, blo, bhi). ahi - alo)"
    using \<open>k \<noteq> 0\<close> by (auto simp: within_def)
qed simp

declare blocks.simps [simp del]

fun merge_blocks :: "block \<Rightarrow> block list \<Rightarrow> block list" where
  "merge_blocks (i1, j1, k1) [] = (if k1 \<noteq> 0 then [(i1, j1, k1)] else [])"
| "merge_blocks (i1, j1, k1) ((i2, j2, k2) # bs) =
     (if i1 + k1 = i2 \<and> j1 + k1 = j2 then merge_blocks (i1, j1, k1 + k2) bs
      else (if k1 \<noteq> 0 then [(i1, j1, k1)] else []) @ merge_blocks (i2, j2, k2) bs)"

definition matching_blocks :: "'l list \<Rightarrow> 'l list \<Rightarrow> block list" where
  "matching_blocks a b = merge_blocks (0, 0, 0) (blocks a b 0 (length a) 0 (length b)) @ [(length a, length b, 0)]"

datatype edit = Equal | Replace | Delete | Insert

type_synonym opcode = "edit \<times> nat \<times> nat \<times> nat \<times> nat"

fun opcodes_from :: "nat \<Rightarrow> nat \<Rightarrow> block list \<Rightarrow> opcode list" where
  "opcodes_from i j [] = []"
| "opcodes_from i j ((ai, bj, n) # bs) =
     (if i < ai \<and> j < bj then [(Replace, i, ai, j, bj)] else if i < ai then [(Delete, i, ai, j, bj)]
      else if j < bj then [(Insert, i, ai, j, bj)] else []) @
     (if n \<noteq> 0 then [(Equal, ai, ai + n, bj, bj + n)] else []) @ opcodes_from (ai + n) (bj + n) bs"

definition get_opcodes :: "'l list \<Rightarrow> 'l list \<Rightarrow> opcode list" where
  "get_opcodes a b = opcodes_from 0 0 (matching_blocks a b)"

section \<open>The operations lead from one text to the other\<close>

fun chain :: "'l list \<Rightarrow> 'l list \<Rightarrow> nat \<Rightarrow> nat \<Rightarrow> nat \<Rightarrow> nat \<Rightarrow> block list \<Rightarrow> bool" where
  "chain a b alo ahi blo bhi [] \<longleftrightarrow> alo \<le> ahi \<and> blo \<le> bhi"
| "chain a b alo ahi blo bhi ((i, j, k) # bs) \<longleftrightarrow> alo \<le> i \<and> blo \<le> j \<and> agree a b (i, j, k) \<and> chain a b (i + k) ahi (j + k) bhi bs"

lemma chain_mono: "chain a b i ahi j bhi bs \<Longrightarrow> alo \<le> i \<Longrightarrow> blo \<le> j \<Longrightarrow> chain a b alo ahi blo bhi bs"
  by (cases bs) auto

lemma chain_append: "chain a b alo i blo j xs \<Longrightarrow> chain a b i ahi j bhi ys \<Longrightarrow> chain a b alo ahi blo bhi (xs @ ys)"
  by (induction a b alo i blo j xs rule: chain.induct) (auto intro: chain_mono)

lemma blocks_chain: "alo \<le> ahi \<Longrightarrow> blo \<le> bhi \<Longrightarrow> chain a b alo ahi blo bhi (blocks a b alo ahi blo bhi)"
proof (induction a b alo ahi blo bhi rule: blocks.induct)
  case (1 a b alo ahi blo bhi)
  obtain i j k where m: "find_longest a b alo ahi blo bhi = (i, j, k)" by (cases "find_longest a b alo ahi blo bhi")
  have ok: "agree a b (i, j, k)" "alo \<le> i" "i + k \<le> ahi" "blo \<le> j" "j + k \<le> bhi"
    using find_longest_ok [OF "1.prems", of a b] by (simp_all add: m within_def)
  show ?case
  proof (cases "alo < ahi \<and> blo < bhi \<and> k \<noteq> 0")
    case True
    then have "chain a b alo i blo j (blocks a b alo i blo j)" and "chain a b (i + k) ahi (j + k) bhi (blocks a b (i + k) ahi (j + k) bhi)"
      using "1.IH"(1) [OF _ m [symmetric] refl] "1.IH"(2) [OF _ m [symmetric] refl] ok by auto
    then have "chain a b alo ahi blo bhi (blocks a b alo i blo j @ (i, j, k) # blocks a b (i + k) ahi (j + k) bhi)"
      using ok by (intro chain_append [where i = i and j = j]) auto
    then show ?thesis using True by (subst blocks.simps) (simp add: m)
  next
    case False
    then show ?thesis using "1.prems" by (subst blocks.simps) (auto simp: m)
  qed
qed

lemma agree_join: "agree a b (i, j, k) \<Longrightarrow> agree a b (i + k, j + k, l) \<Longrightarrow> agree a b (i, j, k + l)"
  by (induction l) (auto simp: agree_snoc add.assoc)

lemma merge_chain:
  "agree a b (i, j, k) \<Longrightarrow> chain a b (i + k) ahi (j + k) bhi bs \<Longrightarrow> alo \<le> i \<Longrightarrow> blo \<le> j \<Longrightarrow> chain a b alo ahi blo bhi (merge_blocks (i, j, k) bs)"
proof (induction "(i, j, k)" bs arbitrary: i j k alo blo rule: merge_blocks.induct)
  case (2 i j k i2 j2 k2 bs)
  show ?case
  proof (cases "i + k = i2 \<and> j + k = j2")
    case True
    then have "agree a b (i, j, k + k2)" and "chain a b (i + (k + k2)) ahi (j + (k + k2)) bhi bs"
      using agree_join [of a b i j k k2] "2.prems"(1,2) by (auto simp: add.assoc)
    from "2.hyps"(1) [OF True this "2.prems"(3,4)] show ?thesis using True by simp
  next
    case False
    then have "chain a b (i + k) ahi (j + k) bhi (merge_blocks (i2, j2, k2) bs)" using 2 by simp
    then have "k \<noteq> 0 \<Longrightarrow> ?thesis" "k = 0 \<Longrightarrow> ?thesis" using False "2.prems" chain_mono by auto
    then show ?thesis by blast
  qed
qed (auto split: if_splits)

definition slice :: "nat \<Rightarrow> nat \<Rightarrow> 'l list \<Rightarrow> 'l list" where
  "slice i j xs = take (j - i) (drop i xs)"

definition edit_ok :: "edit \<Rightarrow> 'l list \<Rightarrow> 'l list \<Rightarrow> bool" where
  "edit_ok e xs ys \<longleftrightarrow> (case e of Equal \<Rightarrow> xs = ys \<and> xs \<noteq> [] | Replace \<Rightarrow> xs \<noteq> [] \<and> ys \<noteq> [] | Delete \<Rightarrow> xs \<noteq> [] \<and> ys = []
     | Insert \<Rightarrow> xs = [] \<and> ys \<noteq> [])"

fun covers :: "'l list \<Rightarrow> 'l list \<Rightarrow> nat \<Rightarrow> nat \<Rightarrow> opcode list \<Rightarrow> bool" where
  "covers a b i j [] \<longleftrightarrow> i = length a \<and> j = length b"
| "covers a b i j ((e, i1, i2, j1, j2) # cs) \<longleftrightarrow> i1 = i \<and> j1 = j \<and> i \<le> i2 \<and> i2 \<le> length a \<and> j \<le> j2 \<and> j2 \<le> length b
     \<and> edit_ok e (slice i i2 a) (slice j j2 b) \<and> covers a b i2 j2 cs"

lemma agree_slice:
  assumes "agree a b (i, j, k)" and "i + k \<le> length a" and "j + k \<le> length b"
  shows "slice i (i + k) a = slice j (j + k) b"
  using assms by (intro nth_equalityI) (auto simp: slice_def agree_def)

lemma slice_Nil: "i \<le> length xs \<Longrightarrow> slice i j xs = [] \<longleftrightarrow> j \<le> i \<or> i = length xs"
  by (auto simp: slice_def)

lemma chain_bounds: "chain a b alo ahi blo bhi bs \<Longrightarrow> alo \<le> ahi \<and> blo \<le> bhi"
  by (induction a b alo ahi blo bhi bs rule: chain.induct) auto

lemma opcodes_cover:
  "chain a b i (length a) j (length b) bs \<Longrightarrow> covers a b i j (opcodes_from i j (bs @ [(length a, length b, 0)]))"
proof (induction bs arbitrary: i j)
  case Nil
  then show ?case by (auto simp: edit_ok_def slice_Nil)
next
  case (Cons m bs)
  obtain ai bj k where m: "m = (ai, bj, k)" by (cases m)
  have rest: "chain a b (ai + k) (length a) (bj + k) (length b) bs" and here: "i \<le> ai" "j \<le> bj" "agree a b (ai, bj, k)"
    using Cons.prems by (simp_all add: m)
  have bounds: "ai + k \<le> length a" "bj + k \<le> length b" using chain_bounds [OF rest] by simp_all
  have eq: "slice ai (ai + k) a = slice bj (bj + k) b" by (rule agree_slice [OF here(3) bounds])
  have rec: "covers a b (ai + k) (bj + k) (opcodes_from (ai + k) (bj + k) (bs @ [(length a, length b, 0)]))"
    by (rule Cons.IH [OF rest])
  have "k \<noteq> 0 \<Longrightarrow> slice bj (bj + k) b \<noteq> []" using bounds by (simp add: slice_Nil)
  then have on: "covers a b ai bj ((if k \<noteq> 0 then [(Equal, ai, ai + k, bj, bj + k)] else []) @ opcodes_from (ai + k) (bj + k) (bs @ [(length a, length b, 0)]))"
    using rec bounds eq by (cases "k = 0") (simp_all add: edit_ok_def)
  show ?case unfolding m append_Cons opcodes_from.simps
    using on here bounds by (auto simp: edit_ok_def slice_Nil)
qed

lemma get_opcodes_cover: "covers a b 0 0 (get_opcodes a b)"
proof -
  have "chain a b 0 (length a) 0 (length b) (merge_blocks (0, 0, 0) (blocks a b 0 (length a) 0 (length b)))"
    using blocks_chain [of 0 "length a" 0 "length b" a b] by (intro merge_chain) simp_all
  then show ?thesis unfolding get_opcodes_def matching_blocks_def by (rule opcodes_cover)
qed

section \<open>Identical texts\<close>

text \<open>The lines that are not popular and end at a line, without a gap.\<close>

fun clean_run :: "'l list \<Rightarrow> nat \<Rightarrow> nat" where
  "clean_run a 0 = (if popular a (a ! 0) then 0 else 1)"
| "clean_run a (Suc i) = (if popular a (a ! Suc i) then 0 else clean_run a i + 1)"

lemma meet_best_stays:
  "\<forall>j \<in> set js. before old j + 1 \<le> bk \<Longrightarrow> snd (fold (meet old i) js (new, bi, bj, bk)) = (bi, bj, bk)"
  by (induction js arbitrary: new) (simp_all add: meet_def)

lemma meet_lengths: "fst (fold (meet old i) js (new, m)) = (\<lambda>j. if j \<in> set js then before old j + 1 else new j)"
proof (induction js arbitrary: new m)
  case (Cons j js)
  obtain m' where "meet old i j (new, m) = (new(j := before old j + 1), m')" by (cases m) (simp add: meet_def)
  with Cons show ?case by (auto simp: fun_eq_iff)
qed simp

text \<open>The best block of a text with itself is on the diagonal, and no run is longer.\<close>

definition diagonal :: "'l list \<Rightarrow> nat \<Rightarrow> (nat \<Rightarrow> nat) \<times> block \<Rightarrow> bool" where
  "diagonal a i st \<longleftrightarrow> (case st of (old, bi, bj, bk) \<Rightarrow> bi = bj \<and> (\<forall>l < i. clean_run a l \<le> bk) \<and> (\<forall>j. old j \<le> clean_run a j)
     \<and> (case i of 0 \<Rightarrow> \<forall>j. old j = 0 | Suc l \<Rightarrow> old l = clean_run a l \<and> (\<forall>j. old j \<le> clean_run a l)))"

lemma positions_split:
  assumes "i < length a"
  shows "\<exists>js1 js2. positions a (a ! i) = js1 @ i # js2 \<and> (\<forall>j \<in> set js1. j < i \<and> a ! j = a ! i) \<and> (\<forall>j \<in> set js2. a ! j = a ! i)"
proof -
  have "[0..<length a] = [0..<i] @ i # [Suc i..<length a]" 
    using assms upt_add_eq_append [of 0 i "length a - i"] upt_conv_Cons [OF assms] by simp
  then have "positions a (a ! i) = filter (\<lambda>j. a ! j = a ! i) [0..<i] @ i # filter (\<lambda>j. a ! j = a ! i) [Suc i..<length a]"
    by (simp add: positions_def)
  then show ?thesis by (intro exI conjI) auto
qed

lemma diagonal_step:
  assumes "diagonal a i st" and "i < length a"
  shows "diagonal a (Suc i) (scan_line a a 0 (length a) i st)"
proof -
  obtain old bi bk where st: "st = (old, bi, bi, bk)" and runs: "\<forall>l < i. clean_run a l \<le> bk" and old: "\<forall>j. old j \<le> clean_run a j"
    and last: "case i of 0 \<Rightarrow> \<forall>j. old j = 0 | Suc l \<Rightarrow> old l = clean_run a l \<and> (\<forall>j. old j \<le> clean_run a l)"
    using assms(1) by (cases st) (auto simp: diagonal_def)
  have js: "filter (\<lambda>j. 0 \<le> j \<and> j < length a) (starts a (a ! i)) = starts a (a ! i)"
    by (rule filter_True) (auto dest: in_starts)
  show ?thesis
  proof (cases "popular a (a ! i)")
    case True
    then have "clean_run a i = 0" by (cases i) simp_all
    then show ?thesis using True runs by (simp add: scan_line_def js starts_def st diagonal_def less_Suc_eq)
  next
    case False
    let ?k = "\<lambda>j. before old j + 1"
    obtain js1 js2 where split: "starts a (a ! i) = js1 @ i # js2" and js1: "\<forall>j \<in> set js1. j < i \<and> a ! j = a ! i" and js2: "\<forall>j \<in> set js2. a ! j = a ! i"
      using positions_split [OF assms(2)] False by (auto simp: starts_def)
    have here: "?k i = clean_run a i" using last False by (cases i) (simp_all add: before_def)
    have upto: "?k j \<le> clean_run a i" for j
      using last False by (cases i; cases j) (simp_all add: before_def)
    have own: "?k j \<le> clean_run a j" if "a ! j = a ! i" for j
      using old False that by (cases j) (simp_all add: before_def)
    have first: "snd (fold (meet old i) js1 (\<lambda>_. 0, bi, bi, bk)) = (bi, bi, bk)"
      using own js1 runs by (intro meet_best_stays ballI) (meson le_trans)
    obtain new1 where new1: "fold (meet old i) js1 (\<lambda>_. 0, bi, bi, bk) = (new1, bi, bi, bk)"
      using first by (metis prod.collapse)
    let ?b = "if bk < clean_run a i then i + 1 - clean_run a i else bi" and ?m = "max bk (clean_run a i)"
    have mid: "meet old i i (new1, bi, bi, bk) = (new1(i := ?k i), ?b, ?b, ?m)"
      unfolding meet_def here [symmetric] by (simp add: Let_def max_def)
    have rest: "snd (fold (meet old i) js2 (new1(i := ?k i), ?b, ?b, ?m)) = (?b, ?b, ?m)"
      using upto by (intro meet_best_stays ballI) (meson le_trans max.cobounded2)
    have best: "snd (scan_line a a 0 (length a) i st) = (?b, ?b, ?m)"
      unfolding scan_line_def js unfolding split st fold_append fold_simps comp_apply fst_conv snd_conv new1 mid by (rule rest)
    have new: "fst (scan_line a a 0 (length a) i st) = (\<lambda>j. if j \<in> set (starts a (a ! i)) then ?k j else 0)"
      unfolding scan_line_def js st fst_conv snd_conv by (rule meet_lengths)
    have member: "i \<in> set (starts a (a ! i))" by (simp add: split)
    let ?old = "fst (scan_line a a 0 (length a) i st)"
    have "clean_run a l \<le> ?m" if "l < Suc i" for l
      using runs that by (cases "l = i") (auto simp: le_max_iff_disj)
    moreover have "?old j \<le> clean_run a j" for j
      unfolding new using own [of j] in_starts [of j a "a ! i"] by (cases "j \<in> set (starts a (a ! i))") simp_all
    moreover have "?old i = clean_run a i" unfolding new using member here by simp
    moreover have "?old j \<le> clean_run a i" for j unfolding new using upto [of j] by simp
    ultimately have on: "diagonal a (Suc i) (?old, ?b, ?b, ?m)"
      unfolding diagonal_def prod.case nat.case by (intro conjI allI impI refl)
    have "scan_line a a 0 (length a) i st = (?old, ?b, ?b, ?m)" using best by (metis prod.collapse)
    then show ?thesis using on by (rule ssubst)
  qed
qed

lemma diagonal_all: "i \<le> length a \<Longrightarrow> diagonal a i (scan_lines a a 0 0 (length a) i)"
proof (induction i)
  case 0
  then show ?case by (simp add: scan_lines_def diagonal_def)
next
  case (Suc i)
  then have "scan_lines a a 0 0 (length a) (Suc i) = scan_line a a 0 (length a) i (scan_lines a a 0 0 (length a) i)"
    by (simp add: scan_lines_def)
  with diagonal_step [of a i] Suc show ?case by simp
qed

lemma extend_back_self: "extend_back a a 0 0 i i k = (0, 0, k + i)"
proof (induction i arbitrary: k)
  case 0
  then show ?case by (simp add: extend_back.simps [of a a 0 0 0 0 k])
next
  case (Suc i)
  then show ?case by (simp add: extend_back.simps [of a a 0 0 "Suc i" "Suc i" k])
qed

lemma extend_on_self: "k \<le> n \<Longrightarrow> extend_on a a n n 0 0 k = n"
proof (induction "n - k" arbitrary: k)
  case 0
  then have "k = n" by simp
  then show ?case by (subst extend_on.simps) simp
next
  case (Suc m)
  then have "k < n" and "m = n - (k + 1)" by simp_all
  with Suc.hyps(1) [of "k + 1"] show ?case by (subst extend_on.simps) simp
qed

lemma find_longest_self: "find_longest a a 0 (length a) 0 (length a) = (0, 0, length a)"
proof -
  obtain i j k where s: "snd (scan_lines a a 0 0 (length a) (length a)) = (i, j, k)" by (cases "snd (scan_lines a a 0 0 (length a) (length a))")
  have "i = j" using diagonal_all [of "length a" a] s by (cases "scan_lines a a 0 0 (length a) (length a)") (simp add: diagonal_def)
  moreover have "k + i \<le> length a"
    using scan_lines_ok [of 0 "length a" a a 0 "length a"] s by (auto simp: best_ok_def within_def)
  ultimately show ?thesis by (simp add: find_longest_def s extend_back_self extend_on_self)
qed

lemma get_opcodes_self: "get_opcodes a a = (if a = [] then [] else [(Equal, 0, length a, 0, length a)])"
proof (cases "a = []")
  case True
  then show ?thesis by (simp add: get_opcodes_def matching_blocks_def blocks.simps)
next
  case False
  have empty: "blocks a a i i j j = []" for i j by (simp add: blocks.simps)
  have "blocks a a 0 (length a) 0 (length a) = [(0, 0, length a)]"
    using False by (subst blocks.simps) (simp add: find_longest_self empty)
  with False show ?thesis by (simp add: get_opcodes_def matching_blocks_def)
qed

end
