(* ===== verification/DiffEngine.thy ===== *)
theory DiffEngine
  imports Difflib ConfigStore
begin

text \<open>
  The differences between two configurations (\<^verbatim>\<open>automation/engine/diff_engine.py\<close>): the
  unified diff as a text and the two sides of the visual one, with the pages of
  \<^verbatim>\<open>dcim/views/device_views.py\<close> that show them.
\<close>

section \<open>The unified diff\<close>

text \<open>\<^verbatim>\<open>s.splitlines(keepends=True)\<close>\<close>

fun keep_lines :: "string \<Rightarrow> string \<Rightarrow> string list" where
  "keep_lines cur [] = (if cur = [] then [] else [rev cur])"
| "keep_lines cur (c # s) =
     (if is_linebreak c
      then (if code c = 13 \<and> s \<noteq> [] \<and> code (hd s) = 10 then rev (hd s # c # cur) # keep_lines [] (tl s)
            else rev (c # cur) # keep_lines [] s)
      else keep_lines (c # cur) s)"

definition normalized_text :: "string option \<Rightarrow> string" where
  "normalized_text v = or_empty v"

definition normalized_lines :: "string \<Rightarrow> string list" where
  "normalized_lines s = (if s = [] then [] else keep_lines [] s)"

text \<open>\<^verbatim>\<open>get_grouped_opcodes\<close>: equal parts are cut to \<open>n\<close> lines around a change.\<close>

definition trim_first :: "nat \<Rightarrow> opcode list \<Rightarrow> opcode list" where
  "trim_first n codes = (case codes of
     (Equal, i1, i2, j1, j2) # cs \<Rightarrow> (Equal, max i1 (i2 - n), i2, max j1 (j2 - n), j2) # cs
   | _ \<Rightarrow> codes)"

definition trim_last :: "nat \<Rightarrow> opcode list \<Rightarrow> opcode list" where
  "trim_last n codes = (case last codes of
     (Equal, i1, i2, j1, j2) \<Rightarrow> butlast codes @ [(Equal, i1, min i2 (i1 + n), j1, min j2 (j1 + n))]
   | _ \<Rightarrow> codes)"

fun group_codes :: "nat \<Rightarrow> opcode list \<Rightarrow> opcode list \<Rightarrow> opcode list list" where
  "group_codes n grp [] = (if grp \<noteq> [] \<and> \<not> (length grp = 1 \<and> fst (hd grp) = Equal) then [grp] else [])"
| "group_codes n grp ((e, i1, i2, j1, j2) # cs) =
     (if e = Equal \<and> n + n < i2 - i1
      then (grp @ [(e, i1, min i2 (i1 + n), j1, min j2 (j1 + n))]) # group_codes n [(e, max i1 (i2 - n), i2, max j1 (j2 - n), j2)] cs
      else group_codes n (grp @ [(e, i1, i2, j1, j2)]) cs)"

definition grouped_opcodes :: "nat \<Rightarrow> 'l list \<Rightarrow> 'l list \<Rightarrow> opcode list list" where
  "grouped_opcodes n a b =
     (let codes = get_opcodes a b; codes = (if codes = [] then [(Equal, 0, 1, 0, 1)] else codes)
      in group_codes n [] (trim_last n (trim_first n codes)))"

definition format_range :: "nat \<Rightarrow> nat \<Rightarrow> string" where
  "format_range start stop =
     (if stop - start = 1 then nat_str (start + 1)
      else nat_str (if stop - start = 0 then start else start + 1) @ '','' @ nat_str (stop - start))"

definition code_lines :: "string list \<Rightarrow> string list \<Rightarrow> opcode \<Rightarrow> string list" where
  "code_lines a b c = (case c of (e, i1, i2, j1, j2) \<Rightarrow>
     if e = Equal then map (\<lambda>l. '' '' @ l) (slice i1 i2 a)
     else (if e = Replace \<or> e = Delete then map (\<lambda>l. ''-'' @ l) (slice i1 i2 a) else []) @
       (if e = Replace \<or> e = Insert then map (\<lambda>l. ''+'' @ l) (slice j1 j2 b) else []))"

definition group_lines :: "string list \<Rightarrow> string list \<Rightarrow> opcode list \<Rightarrow> string list" where
  "group_lines a b g =
     (let (_, i1, _, j1, _) = hd g; (_, _, i2, _, j2) = last g
      in (''@@ -'' @ format_range i1 i2 @ '' +'' @ format_range j1 j2 @ '' @@'') # concat (map (code_lines a b) g))"

definition unified_diff :: "string list \<Rightarrow> string list \<Rightarrow> string list" where
  "unified_diff a b =
     (let gs = grouped_opcodes 3 a b
      in if gs = [] then [] else [''--- previous'', ''+++ current''] @ concat (map (group_lines a b) gs))"

definition generate_diff :: "string option \<Rightarrow> string option \<Rightarrow> string" where
  "generate_diff old new =
     join [char_of (10 :: nat)] (unified_diff (normalized_lines (normalized_text old)) (normalized_lines (normalized_text new)))"

section \<open>The visual diff\<close>

record visual_diff =
  vd_left :: "string list"
  vd_right :: "string list"
  vd_left_classes :: "string list"
  vd_right_classes :: "string list"

type_synonym diff_pair = "string \<times> string \<times> string \<times> string"

definition replaced_pair :: "string list \<Rightarrow> string list \<Rightarrow> nat \<Rightarrow> diff_pair" where
  "replaced_pair old new k =
     (let left = (if k < length old then old ! k else []); right = (if k < length new then new ! k else [])
      in (left, right, if left \<noteq> [] then ''diff-changed'' else ''diff-context'', if right \<noteq> [] then ''diff-changed'' else ''diff-context''))"

definition code_pairs :: "string list \<Rightarrow> string list \<Rightarrow> opcode \<Rightarrow> diff_pair list" where
  "code_pairs old new c = (case c of (e, i1, i2, j1, j2) \<Rightarrow> (case e of
     Equal \<Rightarrow> map (\<lambda>k. (old ! (i1 + k), new ! (j1 + k), ''diff-context'', ''diff-context'')) [0..<i2 - i1]
   | Replace \<Rightarrow> map (replaced_pair (slice i1 i2 old) (slice j1 j2 new)) [0..<max (length (slice i1 i2 old)) (length (slice j1 j2 new))]
   | Delete \<Rightarrow> map (\<lambda>l. (l, [], ''diff-removed'', ''diff-context'')) (slice i1 i2 old)
   | Insert \<Rightarrow> map (\<lambda>l. ([], l, ''diff-context'', ''diff-added'')) (slice j1 j2 new)))"

definition visual_pairs :: "string list \<Rightarrow> string list \<Rightarrow> diff_pair list" where
  "visual_pairs old new = concat (map (code_pairs old new) (get_opcodes old new))"

definition generate_visual_diff :: "string option \<Rightarrow> string option \<Rightarrow> visual_diff" where
  "generate_visual_diff old new =
     (let ps = visual_pairs (splitlines (normalized_text old)) (splitlines (normalized_text new))
      in \<lparr>vd_left = map fst ps, vd_right = map (\<lambda>p. fst (snd p)) ps, vd_left_classes = map (\<lambda>p. fst (snd (snd p))) ps,
          vd_right_classes = map (\<lambda>p. snd (snd (snd p))) ps\<rparr>)"

section \<open>The differences of stored configurations\<close>

definition previous_config :: "config list \<Rightarrow> config option \<Rightarrow> config option" where
  "previous_config cs latest =
     (case latest of None \<Rightarrow> None | Some c \<Rightarrow> (case cf_previous c of None \<Rightarrow> None | Some p \<Rightarrow> first_row (\<lambda>x. cf_id x = p) cs))"

definition config_diff :: "config list \<Rightarrow> config option \<Rightarrow> string" where
  "config_diff cs latest =
     (case previous_config cs latest of None \<Rightarrow> [] | Some p \<Rightarrow> generate_diff (Some (cf_text p)) (map_option cf_text latest))"

definition config_visual_diff :: "config list \<Rightarrow> config option \<Rightarrow> visual_diff" where
  "config_visual_diff cs latest =
     (case previous_config cs latest of
        None \<Rightarrow> \<lparr>vd_left = [], vd_right = [], vd_left_classes = [], vd_right_classes = []\<rparr>
      | Some p \<Rightarrow> generate_visual_diff (Some (cf_text p)) (map_option cf_text latest))"

text \<open>The pages: both configurations belong to the device, or there is no page.\<close>

definition own_config :: "uid \<Rightarrow> config list \<Rightarrow> uid \<Rightarrow> config option" where
  "own_config dev cs i = first_row (\<lambda>c. cf_id c = i \<and> cf_device c = dev) cs"

definition configuration_diff :: "uid \<Rightarrow> config list \<Rightarrow> uid \<Rightarrow> uid \<Rightarrow> (string \<times> visual_diff) option" where
  "configuration_diff dev cs i j =
     (case (own_config dev cs i, own_config dev cs j) of
        (Some primary, Some secondary) \<Rightarrow> Some (generate_diff (Some (cf_text secondary)) (Some (cf_text primary)),
          generate_visual_diff (Some (cf_text secondary)) (Some (cf_text primary)))
      | _ \<Rightarrow> None)"

definition configuration_visual_diff :: "uid \<Rightarrow> config list \<Rightarrow> uid \<Rightarrow> uid \<Rightarrow> diff_pair list option" where
  "configuration_visual_diff dev cs i j =
     (case (own_config dev cs i, own_config dev cs j) of
        (Some primary, Some secondary) \<Rightarrow>
          (let v = generate_visual_diff (Some (cf_text secondary)) (Some (cf_text primary))
           in Some (zip (vd_left v) (zip (vd_left_classes v) (zip (vd_right v) (vd_right_classes v)))))
      | _ \<Rightarrow> None)"

end
