(* ===== verification/DiffEngineProps.thy ===== *)
theory DiffEngineProps
  imports DiffEngine
begin

text \<open>
  What the differences guarantee: the unified diff is empty exactly for equal texts, and the visual
  one shows both texts completely and marks every pair of lines that differ.
\<close>

section \<open>The unified diff is empty for equal texts only\<close>

lemma concat_keep_lines: "concat (keep_lines cur s) = rev cur @ s"
proof (induction cur s rule: keep_lines.induct)
  case (2 cur c s)
  then show ?case by (cases s) auto
qed simp

lemma normalized_lines_eq: "normalized_lines s = normalized_lines t \<longleftrightarrow> s = t"
proof -
  have "concat (normalized_lines s) = s" for s by (simp add: normalized_lines_def concat_keep_lines)
  then show ?thesis by metis
qed

lemma covers_equal:
  "covers a b i j cs \<Longrightarrow> \<forall>c \<in> set cs. fst c = Equal \<Longrightarrow> drop i a = drop j b"
proof (induction cs arbitrary: i j)
  case (Cons c cs)
  obtain e i1 i2 j1 j2 where c: "c = (e, i1, i2, j1, j2)" by (cases c)
  with Cons.prems have on: "i \<le> i2" "j \<le> j2" "slice i i2 a = slice j j2 b" "covers a b i2 j2 cs" by (auto simp: edit_ok_def)
  have "drop i a = slice i i2 a @ drop i2 a" "drop j b = slice j j2 b @ drop j2 b"
    using on(1,2) by (simp_all add: slice_def flip: drop_drop) (metis append_take_drop_id drop_drop le_add_diff_inverse2)+
  moreover have "drop i2 a = drop j2 b" using Cons.IH [OF on(4)] Cons.prems(2) by simp
  ultimately show ?case using on(3) by simp
qed simp

text \<open>A change is in a group.\<close>

lemma group_codes_change: "(\<exists>c \<in> set grp \<union> set cs. fst c \<noteq> Equal) \<Longrightarrow> group_codes n grp cs \<noteq> []"
proof (induction n grp cs rule: group_codes.induct)
  case (1 n grp)
  then show ?case by (cases grp) auto
next
  case (2 n grp e i1 i2 j1 j2 cs)
  then show ?case by auto
qed

lemma trim_kinds: "cs \<noteq> [] \<Longrightarrow> map fst (trim_last n (trim_first n cs)) = map fst cs"
proof -
  have first: "map fst (trim_first n cs) = map fst cs" for cs
    by (auto simp: trim_first_def split: list.split prod.split edit.split)
  have last: "map fst (trim_last n cs) = map fst cs" if "cs \<noteq> []" for cs
    using that by (cases cs rule: rev_cases) (auto simp: trim_last_def split: prod.split edit.split)
  assume "cs \<noteq> []"
  then have "trim_first n cs \<noteq> []" using first [of cs] by (metis map_is_Nil_conv)
  from last [OF this] first show ?thesis by simp
qed

lemma grouped_change:
  assumes "a \<noteq> b"
  shows "grouped_opcodes n a b \<noteq> []"
proof -
  obtain c where c: "c \<in> set (get_opcodes a b)" "fst c \<noteq> Equal"
    using covers_equal [OF get_opcodes_cover [of a b]] assms unfolding drop_0 by blast
  then have "get_opcodes a b \<noteq> []" by auto
  with trim_kinds [OF this, of n] c have "fst c \<in> fst ` set (trim_last n (trim_first n (get_opcodes a b)))"
    by (metis image_eqI list.set_map)
  then obtain d where "d \<in> set (trim_last n (trim_first n (get_opcodes a b)))" "fst d = fst c" by (metis imageE)
  then have "\<exists>c \<in> set [] \<union> set (trim_last n (trim_first n (get_opcodes a b))). fst c \<noteq> Equal" using c(2) by (metis UnI2)
  from group_codes_change [OF this] \<open>get_opcodes a b \<noteq> []\<close> show ?thesis by (simp add: grouped_opcodes_def)
qed

lemma grouped_same: "grouped_opcodes 3 a a = []"
  by (simp add: grouped_opcodes_def get_opcodes_self trim_first_def trim_last_def)

text \<open>
  C25. The unified diff of two configurations is empty exactly when they are the same text, where a
  missing text counts as an empty one: also for long texts, where lines that are frequent start
  no common block.
\<close>

theorem diff_empty_iff_equal: "generate_diff old new = [] \<longleftrightarrow> or_empty old = or_empty new"
proof -
  let ?a = "normalized_lines (normalized_text old)" and ?b = "normalized_lines (normalized_text new)"
  have "generate_diff old new = [] \<longleftrightarrow> ?a = ?b"
  proof
    assume "generate_diff old new = []"
    then show "?a = ?b" using grouped_change [of ?a ?b 3]
      by (cases "grouped_opcodes 3 ?a ?b = []") (auto simp: generate_diff_def unified_diff_def Let_def)
  next
    assume "?a = ?b"
    then show "generate_diff old new = []" by (simp add: generate_diff_def unified_diff_def grouped_same)
  qed
  then show ?thesis by (simp add: normalized_lines_eq normalized_text_def)
qed

text \<open>The lines keep their ends and are joined by line ends, so that every line of a diff is followed by a blank one.\<close>

lemma diff_doubles_line_ends:
  "generate_diff (Some ''a\<newline>'') (Some ''b\<newline>'') = join [char_of (10 :: nat)] [''--- previous'', ''+++ current'', ''@@ -1 +1 @@'', ''-a'', [], ''+b'', []]"
  by code_simp

section \<open>The visual diff shows both texts\<close>

definition shown :: "string list \<Rightarrow> string list" where
  "shown ls = filter (\<lambda>l. l \<noteq> []) ls"

lemma slice_pad: "map (\<lambda>k. if k < length xs then xs ! k else []) [0..<max (length xs) n] = xs @ replicate (max (length xs) n - length xs) []"
  by (rule nth_equalityI) (auto simp: nth_append)

lemma slice_nth: "i \<le> j \<Longrightarrow> j \<le> length xs \<Longrightarrow> map (\<lambda>k. xs ! (i + k)) [0..<j - i] = slice i j xs"
  by (rule nth_equalityI) (auto simp: slice_def)

lemma code_pairs_sides:
  assumes "edit_ok e (slice i1 i2 a) (slice j1 j2 b)" and "i1 \<le> i2" and "i2 \<le> length a" and "j1 \<le> j2" and "j2 \<le> length b"
  shows "shown (map fst (code_pairs a b (e, i1, i2, j1, j2))) = shown (slice i1 i2 a)"
    and "shown (map (\<lambda>p. fst (snd p)) (code_pairs a b (e, i1, i2, j1, j2))) = shown (slice j1 j2 b)"
proof -
  let ?x = "slice i1 i2 a" and ?y = "slice j1 j2 b"
  have pads: "map fst (map (replaced_pair ?x ?y) [0..<max (length ?x) (length ?y)]) = ?x @ replicate (max (length ?x) (length ?y) - length ?x) []"
    "map (\<lambda>p. fst (snd p)) (map (replaced_pair ?x ?y) [0..<max (length ?x) (length ?y)]) = ?y @ replicate (max (length ?x) (length ?y) - length ?y) []"
    using slice_pad [of ?x "length ?y"] slice_pad [of ?y "length ?x"] by (simp_all add: replaced_pair_def Let_def comp_def max.commute)
  have equal: "length ?x = i2 - i1" "length ?y = j2 - j1" using assms(2-5) by (simp_all add: slice_def)
  show "shown (map fst (code_pairs a b (e, i1, i2, j1, j2))) = shown ?x"
  proof (cases e)
    case Equal
    then show ?thesis using slice_nth [OF assms(2,3)] by (simp add: code_pairs_def comp_def)
  next
    case Replace
    then show ?thesis unfolding code_pairs_def by (simp only: prod.case edit.case pads) (simp add: shown_def)
  qed (use assms(1) in \<open>simp_all add: code_pairs_def shown_def comp_def edit_ok_def\<close>)
  show "shown (map (\<lambda>p. fst (snd p)) (code_pairs a b (e, i1, i2, j1, j2))) = shown ?y"
  proof (cases e)
    case Equal
    then have "?x = ?y" using assms(1) by (simp add: edit_ok_def)
    then show ?thesis using Equal slice_nth [OF assms(4,5)] equal by (simp add: code_pairs_def comp_def)
  next
    case Replace
    then show ?thesis unfolding code_pairs_def by (simp only: prod.case edit.case pads) (simp add: shown_def)
  qed (use assms(1) in \<open>simp_all add: code_pairs_def shown_def comp_def edit_ok_def\<close>)
qed

definition marked :: "diff_pair \<Rightarrow> bool" where
  "marked p \<longleftrightarrow> (case p of (left, right, cl, cr) \<Rightarrow> cl \<noteq> ''diff-context'' \<or> cr \<noteq> ''diff-context'')"

lemma marked_iff: "marked p \<longleftrightarrow> fst (snd (snd p)) \<noteq> ''diff-context'' \<or> snd (snd (snd p)) \<noteq> ''diff-context''"
  by (cases p) (simp add: marked_def)

lemma code_pairs_marked:
  assumes "edit_ok e (slice i1 i2 a) (slice j1 j2 b)" and "i1 \<le> i2" and "i2 \<le> length a" and "j1 \<le> j2" and "j2 \<le> length b"
    and "p \<in> set (code_pairs a b (e, i1, i2, j1, j2))" and "\<not> marked p"
  shows "fst p = fst (snd p)"
proof (cases e)
  case Equal
  with assms(1) have same: "slice i1 i2 a = slice j1 j2 b" by (simp add: edit_ok_def)
  obtain k where k: "k < i2 - i1" "p = (a ! (i1 + k), b ! (j1 + k), ''diff-context'', ''diff-context'')"
    using assms(6) Equal by (auto simp: code_pairs_def)
  have "length (slice i1 i2 a) = i2 - i1" "length (slice j1 j2 b) = j2 - j1" using assms(2-5) by (simp_all add: slice_def)
  with same k have "slice i1 i2 a ! k = slice j1 j2 b ! k" "k < j2 - j1" by simp_all
  then show ?thesis using k assms(2-5) by (simp add: slice_def)
next
  case Replace
  then obtain k where "p = replaced_pair (slice i1 i2 a) (slice j1 j2 b) k" using assms(6) by (auto simp: code_pairs_def)
  then show ?thesis using assms(7) by (auto simp: replaced_pair_def marked_def Let_def split: if_splits)
qed (use assms(6,7) in \<open>auto simp: code_pairs_def marked_def\<close>)

lemma shown_append [simp]: "shown (xs @ ys) = shown xs @ shown ys"
  by (simp add: shown_def)

lemma pairs_shown:
  "covers a b i j cs \<Longrightarrow>
     shown (map fst (concat (map (code_pairs a b) cs))) = shown (drop i a)
     \<and> shown (map (\<lambda>p. fst (snd p)) (concat (map (code_pairs a b) cs))) = shown (drop j b)
     \<and> (\<forall>p \<in> set (concat (map (code_pairs a b) cs)). \<not> marked p \<longrightarrow> fst p = fst (snd p))"
proof (induction cs arbitrary: i j)
  case Nil
  then show ?case by (simp add: shown_def)
next
  case (Cons c cs)
  obtain e i1 i2 j1 j2 where c: "c = (e, i1, i2, j1, j2)" by (cases c)
  have here: "edit_ok e (slice i i2 a) (slice j j2 b)" "i \<le> i2" "i2 \<le> length a" "j \<le> j2" "j2 \<le> length b" and ij: "i1 = i" "j1 = j"
    and rest: "covers a b i2 j2 cs"
    using Cons.prems by (auto simp: c)
  have split: "drop i a = slice i i2 a @ drop i2 a" "drop j b = slice j j2 b @ drop j2 b"
    using here(2,4) by (simp_all add: slice_def) (metis append_take_drop_id drop_drop le_add_diff_inverse2)+
  show ?case
    using Cons.IH [OF rest] code_pairs_sides [OF here] code_pairs_marked [OF here] unfolding c ij split by auto
qed

text \<open>
  The visual diff has two sides of the same length whose lines, without the empty ones that fill
  the shorter part of a change, are exactly the lines of the two texts in their order; a pair of
  lines that differ is always marked on one of the sides.
\<close>

theorem visual_diff_complete:
  assumes "v = generate_visual_diff old new"
  shows "length (vd_left v) = length (vd_right v) \<and> length (vd_left_classes v) = length (vd_left v) \<and> length (vd_right_classes v) = length (vd_left v)
    \<and> shown (vd_left v) = shown (splitlines (or_empty old)) \<and> shown (vd_right v) = shown (splitlines (or_empty new))
    \<and> (\<forall>k < length (vd_left v). vd_left v ! k \<noteq> vd_right v ! k \<longrightarrow>
         vd_left_classes v ! k \<noteq> ''diff-context'' \<or> vd_right_classes v ! k \<noteq> ''diff-context'')"
proof -
  let ?a = "splitlines (or_empty old)" and ?b = "splitlines (or_empty new)"
  let ?ps = "concat (map (code_pairs ?a ?b) (get_opcodes ?a ?b))"
  have v: "vd_left v = map fst ?ps" "vd_right v = map (\<lambda>p. fst (snd p)) ?ps" "vd_left_classes v = map (\<lambda>p. fst (snd (snd p))) ?ps"
    "vd_right_classes v = map (\<lambda>p. snd (snd (snd p))) ?ps"
    by (simp_all add: assms generate_visual_diff_def visual_pairs_def normalized_text_def Let_def)
  note sides = pairs_shown [OF get_opcodes_cover [of ?a ?b], unfolded drop_0]
  have "marked (?ps ! k)" if "k < length ?ps" "fst (?ps ! k) \<noteq> fst (snd (?ps ! k))" for k
    using sides that nth_mem by blast
  then have "fst (snd (snd (?ps ! k))) \<noteq> ''diff-context'' \<or> snd (snd (snd (?ps ! k))) \<noteq> ''diff-context''"
    if "k < length ?ps" "fst (?ps ! k) \<noteq> fst (snd (?ps ! k))" for k
    using that by (simp only: marked_iff simp_thms)
  then show ?thesis using sides unfolding v by simp
qed

theorem visual_diff_complete_witness:
  "vd_left (generate_visual_diff (Some ''a\<newline>b'') (Some ''a\<newline>c'')) = [''a'', ''b''] \<and>
   shown (vd_right (generate_visual_diff (Some ''a\<newline>b'') (Some ''a\<newline>c''))) = [''a'', ''c'']"
proof -
  have "splitlines (or_empty (Some ''a\<newline>c'')) = [''a'', ''c'']" "vd_left (generate_visual_diff (Some ''a\<newline>b'') (Some ''a\<newline>c'')) = [''a'', ''b'']"
    by code_simp+
  with visual_diff_complete [OF refl, of "Some ''a\<newline>b''" "Some ''a\<newline>c''"] show ?thesis by (simp add: shown_def)
qed

end
