(* ===== verification/Accounts.thy ===== *)
theory Accounts
  imports PyVal
begin

text \<open>
  Who may log in and for how long: the TACACS+ backend (\<^verbatim>\<open>accounts/auth_backends.py\<close>), the
  automatic logout (\<^verbatim>\<open>accounts/middleware.py\<close>) and the sections of the settings
  (\<^verbatim>\<open>accounts/forms/settings_form.py\<close>, \<^verbatim>\<open>accounts/models/system_settings.py\<close>).
\<close>

section \<open>Users and settings\<close>

text \<open>The stored password is what the hasher keeps; \<open>None\<close> is an unusable one.\<close>

record user =
  us_id :: nat
  us_name :: string
  us_active :: bool
  us_staff :: bool
  us_superuser :: bool
  us_password :: "string option"

record tacacs_settings =
  ts_enabled :: bool
  ts_host :: "string option"
  ts_port :: nat
  ts_key :: "string option"
  ts_service :: "string option"
  ts_retries :: nat
  ts_timeout :: nat
  ts_local_superusers :: bool

section \<open>The answer of the server\<close>

text \<open>
  What the client library returns: an object with a \<^verbatim>\<open>status\<close>, a tuple or list, or
  anything else.
\<close>

datatype tacacs_result = Reply pyval | Items "pyval list" | Plain pyval

definition pass_words :: "string list" where
  "pass_words = [''PASS'', ''OK'', ''ACCEPT'', ''ACCEPTED'', ''SUCCESS'']"

definition is_one :: "pyval \<Rightarrow> bool" where
  "is_one v = (case v of PyStr s \<Rightarrow> upper s \<in> set pass_words | PyInt i \<Rightarrow> i = 1 | PyBool b \<Rightarrow> b | _ \<Rightarrow> False)"

definition normalize_status :: "tacacs_result \<Rightarrow> bool" where
  "normalize_status r = (case r of
     Reply v \<Rightarrow> v \<noteq> PyNone \<and> is_one v
   | Items (v # _) \<Rightarrow> is_one v
   | Items [] \<Rightarrow> False
   | Plain v \<Rightarrow> v = PyBool True)"

text \<open>
  The roles in the answer to the authorization; \<open>Inl\<close> is an exception on values of other
  types. Bytes are their text.
\<close>

definition pair_groups :: "pyval \<Rightarrow> exn + string list" where
  "pair_groups p = (case p of
     PyList (a # v # _) \<Rightarrow>
       (if a \<in> {PyStr ''cisco-av-pair'', PyStr ''shell:roles''} \<and> truthy v
        then (case v of
            PyStr s \<Rightarrow> Inr (if contains s ''roles='' then filter (\<lambda>r. r \<noteq> []) (map strip (split_on '','' (after_sep ''roles='' s))) else [strip s])
          | _ \<Rightarrow> Inl (TypeError ''not a text''))
        else Inr [])
   | _ \<Rightarrow> Inr [])"

definition parse_groups :: "pyval \<Rightarrow> exn + string list" where
  "parse_groups answer = (case answer of
     PyList pairs \<Rightarrow> fold_res (\<lambda>gs p. bind_res (pair_groups p) (\<lambda>x. Inr (gs @ x))) [] pairs
   | _ \<Rightarrow> Inr [])"

section \<open>Asking the server\<close>

text \<open>
  The library, by the number of the attempt: creating the client, the first and the second call
  of \<^verbatim>\<open>authenticate\<close> (the second one follows a \<open>TypeError\<close> of the first), and
  \<^verbatim>\<open>authorize\<close>.
\<close>

record tacacs_client =
  tc_open :: "nat \<Rightarrow> exn + unit"
  tc_first :: "nat \<Rightarrow> exn + tacacs_result"
  tc_second :: "nat \<Rightarrow> exn + tacacs_result"
  tc_authorize :: "nat \<Rightarrow> exn + pyval"

definition fetch_groups :: "tacacs_client \<Rightarrow> nat \<Rightarrow> string list" where
  "fetch_groups c n = (case bind_res (tc_authorize c n) parse_groups of Inl _ \<Rightarrow> [] | Inr gs \<Rightarrow> gs)"

definition attempt :: "tacacs_client \<Rightarrow> nat \<Rightarrow> exn + (bool \<times> string list)" where
  "attempt c n =
     bind_res (tc_open c n) (\<lambda>_.
     bind_res (case tc_first c n of Inl (TypeError m) \<Rightarrow> tc_second c n | r \<Rightarrow> r) (\<lambda>r.
     Inr (if normalize_status r then (True, fetch_groups c n) else (False, []))))"

definition network_error :: "exn \<Rightarrow> exn" where
  "network_error e = (case e of TimeoutError m \<Rightarrow> TimeoutError m | _ \<Rightarrow> ConnectionError (exn_str e))"

fun attempts :: "tacacs_client \<Rightarrow> exn option \<Rightarrow> nat list \<Rightarrow> exn + (bool \<times> string list)" where
  "attempts c prev [] = Inl (case prev of None \<Rightarrow> ConnectionError ''Unknown TACACS+ error'' | Some e \<Rightarrow> e)"
| "attempts c prev (n # ns) = (case attempt c n of Inr r \<Rightarrow> Inr r | Inl e \<Rightarrow> attempts c (Some (network_error e)) ns)"

definition tacacs_auth :: "tacacs_client \<Rightarrow> tacacs_settings \<Rightarrow> exn + (bool \<times> string list)" where
  "tacacs_auth c cfg =
     (if or_empty (ts_host cfg) = [] \<or> or_empty (ts_key cfg) = []
      then Inl (ConnectionError ''TACACS+ host or key missing from System Settings'')
      else attempts c None [0..<max 1 (max 1 (if ts_retries cfg = 0 then 1 else ts_retries cfg))])"

section \<open>The backend\<close>

text \<open>
  The environment: the client for a name and a password, the check of a password against a stored
  one, the default backend of the framework, and the identifier of a new user.
\<close>

record auth_env =
  ae_client :: "string \<Rightarrow> string \<Rightarrow> tacacs_client"
  ae_check :: "string option \<Rightarrow> string \<Rightarrow> bool"
  ae_default :: "user list \<Rightarrow> string \<Rightarrow> string \<Rightarrow> user option"
  ae_new :: nat

definition new_user :: "nat \<Rightarrow> string \<Rightarrow> user" where
  "new_user i name = \<lparr>us_id = i, us_name = name, us_active = True, us_staff = False, us_superuser = False, us_password = Some []\<rparr>"

definition shadow :: "user \<Rightarrow> user" where
  "shadow u = u\<lparr>us_staff := True, us_active := True, us_password := None\<rparr>"

definition sync_shadow_user :: "nat \<Rightarrow> string \<Rightarrow> user list \<Rightarrow> user \<times> user list" where
  "sync_shadow_user i name us =
     (case first_row (\<lambda>u. us_name u = name) us of
        Some u \<Rightarrow> (shadow u, map (\<lambda>v. if us_id v = us_id u then shadow u else v) us)
      | None \<Rightarrow> (shadow (new_user i name), us @ [shadow (new_user i name)]))"

text \<open>
  The session of the request, if there is one, keeps the password for the terminal. The outcome is
  the user that is let in, the table of users and the session.
\<close>

type_synonym session_state = "string option option"

definition local_superuser :: "auth_env \<Rightarrow> user list \<Rightarrow> string \<Rightarrow> string \<Rightarrow> user option" where
  "local_superuser env us name pw =
     (case first_row (\<lambda>u. us_name u = name \<and> us_superuser u) us of
        None \<Rightarrow> None
      | Some u \<Rightarrow> if ae_check env (us_password u) pw then Some u else None)"

definition authenticate ::
  "auth_env \<Rightarrow> tacacs_settings \<Rightarrow> string \<Rightarrow> string \<Rightarrow> session_state \<Rightarrow> user list \<Rightarrow> user option \<times> user list \<times> session_state"
where
  "authenticate env cfg name pw sess us =
     (if name = [] \<or> pw = [] then (None, us, sess)
      else if \<not> ts_enabled cfg then (ae_default env us name pw, us, sess)
      else case tacacs_auth (ae_client env name pw) cfg of
          Inl e \<Rightarrow> (ae_default env us name pw, us, sess)
        | Inr (True, groups) \<Rightarrow>
            (let (u, us') = sync_shadow_user (ae_new env) name us in (Some u, us', map_option (\<lambda>_. Some pw) sess))
        | Inr (False, groups) \<Rightarrow> ((if ts_local_superusers cfg then local_superuser env us name pw else None), us, sess))"

text \<open>
  The backends of the settings, one after the other (\<^verbatim>\<open>AUTHENTICATION_BACKENDS\<close> of
  \<^verbatim>\<open>zas/settings/base.py\<close>): the framework takes the first user that it gets, so that the default
  backend is asked whenever the first one lets nobody in.
\<close>

definition log_in ::
  "auth_env \<Rightarrow> tacacs_settings \<Rightarrow> string \<Rightarrow> string \<Rightarrow> session_state \<Rightarrow> user list \<Rightarrow> user option \<times> user list \<times> session_state"
where
  "log_in env cfg name pw sess us =
     (case authenticate env cfg name pw sess us of
        (None, us', sess') \<Rightarrow> (ae_default env us' name pw, us', sess')
      | found \<Rightarrow> found)"

section \<open>The automatic logout\<close>

text \<open>A request of a session that has seen its last activity at some moment, or none yet.\<close>

definition auto_logout_seconds :: "nat \<Rightarrow> int" where
  "auto_logout_seconds minutes = int minutes * 60"

datatype gate = Served int | LoggedOut

definition auto_logout :: "nat \<Rightarrow> int \<Rightarrow> int option \<Rightarrow> gate" where
  "auto_logout minutes now prev =
     (case prev of
        Some t \<Rightarrow> if auto_logout_seconds minutes \<le> now - t then LoggedOut else Served now
      | None \<Rightarrow> Served now)"

text \<open>The requests of a session, one after the other.\<close>

fun session_requests :: "nat \<Rightarrow> int option \<Rightarrow> int list \<Rightarrow> gate list" where
  "session_requests minutes prev [] = []"
| "session_requests minutes prev (t # ts) =
     (case auto_logout minutes t prev of
        LoggedOut \<Rightarrow> [LoggedOut]
      | Served s \<Rightarrow> Served s # session_requests minutes (Some s) ts)"

section \<open>The sections of the settings\<close>

definition tacacs_fields :: "string list" where
  "tacacs_fields = [''tacacs_enabled'', ''tacacs_server_ip'', ''tacacs_port'', ''tacacs_key'', ''tacacs_authorization_service'',
     ''tacacs_retries'', ''tacacs_session_timeout'', ''tacacs_admin_group'', ''tacacs_superuser_group'']"

definition reachability_fields :: "string list" where
  "reachability_fields = [''reachability_ping_enabled'', ''reachability_snmp_enabled'', ''reachability_ssh_enabled'',
     ''reachability_netconf_enabled'', ''reachability_interval_minutes'']"

definition access_fields :: "string list" where
  "access_fields = [''allow_local_superusers'', ''auto_logout_idle_minutes'']"

definition section_fields :: "string \<Rightarrow> string list" where
  "section_fields s =
     (if s = ''tacacs'' then tacacs_fields else if s = ''reachability'' then reachability_fields
      else if s = ''superusers'' then access_fields else [])"

type_synonym settings_row = "string \<Rightarrow> pyval"

text \<open>
  \<^verbatim>\<open>save(update_fields=...)\<close>: the columns of the section and the time of the change. The
  form has set the values of the section on the instance; what the framework finds wrong with one
  is a parameter.
\<close>

definition save_section :: "string list \<Rightarrow> settings_row \<Rightarrow> pyval \<Rightarrow> settings_row \<Rightarrow> settings_row" where
  "save_section names form now stored = (\<lambda>k. if k = ''updated_at'' then now else if k \<in> set names then form k else stored k)"

definition clean_minutes :: "settings_row \<Rightarrow> (string \<times> string) list" where
  "clean_minutes form = (case form ''auto_logout_idle_minutes'' of
     PyInt n \<Rightarrow> if n < 5 \<or> n > 60 then [(''auto_logout_idle_minutes'', ''Auto logout must be between 5 and 60 minutes.'')] else []
   | _ \<Rightarrow> [])"

definition section_errors :: "(string list \<Rightarrow> settings_row \<Rightarrow> (string \<times> string) list) \<Rightarrow> string \<Rightarrow> settings_row \<Rightarrow> (string \<times> string) list" where
  "section_errors framework s form =
     framework (section_fields s) form @ (if s = ''superusers'' then clean_minutes form else [])"

datatype settings_end = Saved string | Raised exn | Unknown | Rejected "(string \<times> string) list" | Forbidden

text \<open>
  The page: only staff and superusers. Saving the reachability section synchronises the schedule
  after the settings are stored; what that raises is not caught.
\<close>

definition settings_post ::
  "(string list \<Rightarrow> settings_row \<Rightarrow> (string \<times> string) list) \<Rightarrow> (settings_row \<Rightarrow> 's \<Rightarrow> (exn + unit) \<times> 's) \<Rightarrow> user \<Rightarrow> string \<Rightarrow> settings_row \<Rightarrow> pyval
     \<Rightarrow> settings_row \<times> 's \<Rightarrow> settings_end \<times> settings_row \<times> 's"
where
  "settings_post framework sync u s form now st =
     (if \<not> (us_staff u \<or> us_superuser u) then (Forbidden, st)
      else if s \<notin> {''tacacs'', ''reachability'', ''superusers''} then (Unknown, st)
      else if section_errors framework s form \<noteq> [] then (Rejected (section_errors framework s form), st)
      else (let row = save_section (section_fields s) form now (fst st)
            in if s = ''reachability''
               then (case sync row (snd st) of (Inl e, x) \<Rightarrow> (Raised e, row, x) | (Inr _, x) \<Rightarrow> (Saved s, row, x))
               else (Saved s, row, snd st)))"

end
