(* ===== verification/AccountsProps.thy ===== *)
theory AccountsProps
  imports Accounts
begin

text \<open>
  What the accounts guarantee: who is let in and why, what a login changes in the table of users,
  when a session ends, and that a section of the settings writes its own columns only.
\<close>

section \<open>The first answer counts\<close>

lemma attempts_first:
  "(attempts c prev ns = Inr r \<longleftrightarrow> (\<exists>xs n ys. ns = xs @ n # ys \<and> (\<forall>m \<in> set xs. \<exists>e. attempt c m = Inl e) \<and> attempt c n = Inr r))
   \<and> ((\<exists>e. attempts c prev ns = Inl e) \<longleftrightarrow> (\<forall>m \<in> set ns. \<exists>e. attempt c m = Inl e))"
proof (induction ns arbitrary: prev)
  case (Cons n ns)
  show ?case
  proof (cases "attempt c n")
    case (Inl e)
    have "(\<exists>xs k ys. n # ns = xs @ k # ys \<and> (\<forall>m \<in> set xs. \<exists>e. attempt c m = Inl e) \<and> attempt c k = Inr r)
        \<longleftrightarrow> (\<exists>xs k ys. ns = xs @ k # ys \<and> (\<forall>m \<in> set xs. \<exists>e. attempt c m = Inl e) \<and> attempt c k = Inr r)" (is "?l \<longleftrightarrow> ?r")
    proof
      assume ?l
      then obtain xs k ys where "n # ns = xs @ k # ys" "\<forall>m \<in> set xs. \<exists>e. attempt c m = Inl e" "attempt c k = Inr r" by blast
      with Inl show ?r by (cases xs) auto
    next
      assume ?r
      then obtain xs k ys where "ns = xs @ k # ys" "\<forall>m \<in> set xs. \<exists>e. attempt c m = Inl e" "attempt c k = Inr r" by blast
      with Inl have "n # ns = (n # xs) @ k # ys \<and> (\<forall>m \<in> set (n # xs). \<exists>e. attempt c m = Inl e) \<and> attempt c k = Inr r" by simp
      then show ?l by blast
    qed
    with Cons.IH [of "Some (network_error e)"] Inl show ?thesis by simp
  next
    case (Inr q)
    have "(\<exists>xs k ys. n # ns = xs @ k # ys \<and> (\<forall>m \<in> set xs. \<exists>e. attempt c m = Inl e) \<and> attempt c k = Inr r) \<longleftrightarrow> q = r" (is "?l \<longleftrightarrow> _")
    proof
      assume ?l
      then obtain xs k ys where "n # ns = xs @ k # ys" "\<forall>m \<in> set xs. \<exists>e. attempt c m = Inl e" "attempt c k = Inr r" by blast
      with Inr show "q = r" by (cases xs) auto
    next
      assume "q = r"
      with Inr have "n # ns = [] @ n # ns \<and> (\<forall>m \<in> set []. \<exists>e. attempt c m = Inl e) \<and> attempt c n = Inr r" by simp
      then show ?l by blast
    qed
    with Inr show ?thesis by auto
  qed
qed auto

text \<open>
  The answer of the server, as the settings allow: that of the first attempt that gets one, of at
  most as many as there are retries.
\<close>

definition server_answer :: "tacacs_client \<Rightarrow> tacacs_settings \<Rightarrow> bool \<Rightarrow> bool" where
  "server_answer c cfg ok \<longleftrightarrow> or_empty (ts_host cfg) \<noteq> [] \<and> or_empty (ts_key cfg) \<noteq> []
     \<and> (\<exists>n < max 1 (ts_retries cfg). (\<forall>m < n. \<exists>e. attempt c m = Inl e) \<and> (\<exists>gs. attempt c n = Inr (ok, gs)))"

lemma tacacs_auth_answer: "(\<exists>gs. tacacs_auth c cfg = Inr (ok, gs)) \<longleftrightarrow> server_answer c cfg ok"
proof -
  let ?N = "max 1 (ts_retries cfg)"
  have N: "max 1 (max 1 (if ts_retries cfg = 0 then 1 else ts_retries cfg)) = ?N" by auto
  have cut: "(\<exists>xs ys. [0..<?N] = xs @ n # ys \<and> (\<forall>m \<in> set xs. P m)) \<longleftrightarrow> n < ?N \<and> (\<forall>m < n. P m)" for n P
  proof
    assume "\<exists>xs ys. [0..<?N] = xs @ n # ys \<and> (\<forall>m \<in> set xs. P m)"
    then obtain xs ys where split: "[0..<?N] = xs @ n # ys" and P: "\<forall>m \<in> set xs. P m" by blast
    have len: "length xs < ?N" using arg_cong [OF split, of length] by simp
    have "n = [0..<?N] ! length xs" unfolding split by simp
    with len have n: "n = length xs" by simp
    have "xs = take n [0..<?N]" unfolding split n by simp
    also have "\<dots> = [0..<n]" using len n by (simp add: take_upt)
    finally have "set xs = {0..<n}" by (metis set_upt)
    with P len n show "n < ?N \<and> (\<forall>m < n. P m)" by simp
  next
    assume "n < ?N \<and> (\<forall>m < n. P m)"
    then have "[0..<?N] = [0..<n] @ n # [Suc n..<?N] \<and> (\<forall>m \<in> set [0..<n]. P m)"
      using upt_add_eq_append [of 0 n "?N - n"] upt_conv_Cons [of n ?N] by simp
    then show "\<exists>xs ys. [0..<?N] = xs @ n # ys \<and> (\<forall>m \<in> set xs. P m)" by blast
  qed
  have "(\<exists>gs. attempts c None [0..<?N] = Inr (ok, gs)) \<longleftrightarrow>
      (\<exists>gs n. (\<exists>xs ys. [0..<?N] = xs @ n # ys \<and> (\<forall>m \<in> set xs. \<exists>e. attempt c m = Inl e)) \<and> attempt c n = Inr (ok, gs))"
    using attempts_first [of c None "[0..<?N]"] by blast
  also have "\<dots> \<longleftrightarrow> (\<exists>n < ?N. (\<forall>m < n. \<exists>e. attempt c m = Inl e) \<and> (\<exists>gs. attempt c n = Inr (ok, gs)))"
    unfolding cut by blast
  finally show ?thesis unfolding tacacs_auth_def server_answer_def N by auto
qed

section \<open>Who is let in\<close>

lemma local_superuser_Some:
  "local_superuser env us name pw = Some u \<Longrightarrow> u \<in> set us \<and> us_name u = name \<and> us_superuser u \<and> ae_check env (us_password u) pw"
  by (auto simp: local_superuser_def dest: first_row_Some split: option.splits if_splits)

text \<open>
  What the first backend does: with TACACS+ in use and an answer of the server, an accepted name gets the
  user of that name; a rejected one nobody, unless local superusers are allowed and the password is the
  one of the superuser of that name. Without an answer the default backend decides.
\<close>

lemma backend_needs_reason:
  assumes "authenticate env cfg name pw sess us = (res, us', sess')"
    and "distinct (map us_id us)" and "distinct (map us_name us)" and "ae_new env \<notin> us_id ` set us"
  shows "(case res of None \<Rightarrow> us' = us \<and> sess' = sess
    | Some u \<Rightarrow> name \<noteq> [] \<and> pw \<noteq> [] \<and>
       (if ts_enabled cfg \<and> server_answer (ae_client env name pw) cfg True
        then us_name u = name \<and> u \<in> set us' \<and> filter (\<lambda>v. us_name v \<noteq> name) us' = filter (\<lambda>v. us_name v \<noteq> name) us
          \<and> (us_superuser u \<longleftrightarrow> (\<exists>v \<in> set us. us_name v = name \<and> us_superuser v))
        else us' = us \<and> sess' = sess \<and>
          (if ts_enabled cfg \<and> server_answer (ae_client env name pw) cfg False
           then ts_local_superusers cfg \<and> u \<in> set us \<and> us_name u = name \<and> us_superuser u \<and> ae_check env (us_password u) pw
           else ae_default env us name pw = Some u)))"
proof (cases "name = [] \<or> pw = [] \<or> \<not> ts_enabled cfg")
  case True
  with assms(1) show ?thesis by (auto simp: authenticate_def split: if_splits option.splits)
next
  case False
  let ?c = "ae_client env name pw"
  have one: "server_answer ?c cfg True \<longleftrightarrow> (\<exists>gs. tacacs_auth ?c cfg = Inr (True, gs))"
    "server_answer ?c cfg False \<longleftrightarrow> (\<exists>gs. tacacs_auth ?c cfg = Inr (False, gs))" by (simp_all add: tacacs_auth_answer)
  show ?thesis
  proof (cases "tacacs_auth ?c cfg")
    case (Inl e)
    with assms(1) False show ?thesis by (auto simp: authenticate_def one split: option.splits)
  next
    case (Inr r)
    obtain ok gs where r: "r = (ok, gs)" by (cases r)
    show ?thesis
    proof (cases ok)
      case False
      with assms(1) Inr r \<open>\<not> (name = [] \<or> pw = [] \<or> \<not> ts_enabled cfg)\<close> show ?thesis
        by (auto simp: authenticate_def one dest: local_superuser_Some split: if_splits option.splits)
    next
      case True
      obtain u where u: "sync_shadow_user (ae_new env) name us = (u, us')" and res: "res = Some u"
        using assms(1) Inr r True False by (auto simp: authenticate_def split: prod.splits)
      have "us_name u = name \<and> u \<in> set us' \<and> filter (\<lambda>v. us_name v \<noteq> name) us' = filter (\<lambda>v. us_name v \<noteq> name) us
          \<and> (us_superuser u \<longleftrightarrow> (\<exists>v \<in> set us. us_name v = name \<and> us_superuser v))"
      proof (cases "first_row (\<lambda>u. us_name u = name) us")
        case None
        then have "\<forall>v \<in> set us. us_name v \<noteq> name" by (simp add: first_row_None)
        with u None show ?thesis by (auto simp: sync_shadow_user_def shadow_def new_user_def)
      next
        case (Some w)
        then have w: "w \<in> set us" "us_name w = name" by (auto dest: first_row_Some)
        then have only: "v = w" if "v \<in> set us" "us_name v = name" for v
          using assms(3) that by (metis distinct_map inj_onD)
        have ids: "us_id v = us_id w \<longleftrightarrow> v = w" if "v \<in> set us" for v
          using assms(2) w that by (metis distinct_map inj_onD)
        have us': "us' = map (\<lambda>v. if us_id v = us_id w then shadow w else v) us" and u': "u = shadow w"
          using u Some by (auto simp: sync_shadow_user_def)
        have "filter (\<lambda>v. us_name v \<noteq> name) us' = filter (\<lambda>v. us_name v \<noteq> name) (map (\<lambda>v. if v = w then shadow w else v) us)"
          unfolding us' by (rule arg_cong [where f = "filter _"]) (simp add: ids)
        also have "\<dots> = filter (\<lambda>v. us_name v \<noteq> name) us" using w(2) by (induction us) (auto simp: shadow_def)
        finally have "filter (\<lambda>v. us_name v \<noteq> name) us' = filter (\<lambda>v. us_name v \<noteq> name) us" .
        moreover have "us_name u = name" "u \<in> set us'" using w by (auto simp: us' u' shadow_def)
        moreover have "us_superuser u = us_superuser w" by (simp add: u' shadow_def)
        then have "us_superuser u \<longleftrightarrow> (\<exists>v \<in> set us. us_name v = name \<and> us_superuser v)" using w only by blast
        ultimately show ?thesis by blast
      qed
      with False True Inr r res show ?thesis by (auto simp: one)
    qed
  qed
qed

text \<open>
  The default backend of the framework lets in an active user of the name whose stored password is
  the one that was given, and nobody else.
\<close>

definition checks_passwords :: "auth_env \<Rightarrow> bool" where
  "checks_passwords env \<longleftrightarrow> (\<forall>us name pw u. ae_default env us name pw = Some u \<longrightarrow>
     u \<in> set us \<and> us_name u = name \<and> us_active u \<and> ae_check env (us_password u) pw)"


definition ex_client :: tacacs_client where
  "ex_client = \<lparr>tc_open = (\<lambda>n. if n = 0 then Inl (TimeoutError ''timed out'') else Inr ()),
     tc_first = (\<lambda>_. Inr (Reply (PyStr ''Pass''))), tc_second = (\<lambda>_. Inr (Plain PyNone)),
     tc_authorize = (\<lambda>_. Inr (PyList [PyList [PyStr ''shell:roles'', PyStr ''roles=ops'']]))\<rparr>"

definition ex_auth :: auth_env where
  "ex_auth = \<lparr>ae_client = (\<lambda>_ _. ex_client), ae_check = (\<lambda>h p. h = Some p),
     ae_default = (\<lambda>us n p. first_row (\<lambda>u. us_name u = n \<and> us_active u \<and> us_password u = Some p) us), ae_new = 9\<rparr>"

definition ex_tacacs :: tacacs_settings where
  "ex_tacacs = \<lparr>ts_enabled = True, ts_host = Some ''10.0.0.9'', ts_port = 49, ts_key = Some ''k'', ts_service = None,
     ts_retries = 2, ts_timeout = 60, ts_local_superusers = True\<rparr>"

definition ex_admin :: user where
  "ex_admin = (new_user 1 ''admin'')\<lparr>us_superuser := True, us_password := Some ''pw''\<rparr>"

lemma ex_attempts: "attempt ex_client 0 = Inl (TimeoutError ''timed out'')" "attempt ex_client (Suc 0) = Inr (True, [''ops''])"
  by (simp add: attempt_def ex_client_def, code_simp)

lemma ex_checks: "checks_passwords ex_auth"
  by (auto simp: checks_passwords_def ex_auth_def dest: first_row_Some)


text \<open>
  The server rejects the name, local superusers are not allowed, and still the user is let in: the second
  backend of the settings takes the local password.
\<close>

lemma rejected_let_in:
  "authenticate (ex_auth\<lparr>ae_client := (\<lambda>_ _. ex_client\<lparr>tc_first := (\<lambda>_. Inr (Reply (PyStr ''Fail'')))\<rparr>)\<rparr>) (ex_tacacs\<lparr>ts_local_superusers := False\<rparr>)
     ''ann'' ''pw'' None [(new_user 2 ''ann'')\<lparr>us_password := Some ''pw''\<rparr>] = (None, [(new_user 2 ''ann'')\<lparr>us_password := Some ''pw''\<rparr>], None)"
  "map_option us_name (fst (log_in (ex_auth\<lparr>ae_client := (\<lambda>_ _. ex_client\<lparr>tc_first := (\<lambda>_. Inr (Reply (PyStr ''Fail'')))\<rparr>)\<rparr>)
     (ex_tacacs\<lparr>ts_local_superusers := False\<rparr>) ''ann'' ''pw'' None [(new_user 2 ''ann'')\<lparr>us_password := Some ''pw''\<rparr>])) = Some ''ann''"
  by code_simp+

text \<open>
  A local superuser who has logged in through the server has no password any more: when the server
  is out of reach, or rejects the name and local superusers are allowed, he is not let in.
\<close>

lemma shadow_locks_superuser:
  assumes "sync_shadow_user i name us = (u, us')" and "distinct (map us_name us)"
    and "\<And>p. \<not> ae_check env None p"
  shows "local_superuser env us' name pw = None"
proof (cases "first_row (\<lambda>u. us_name u = name) us")
  case None
  then have "\<forall>v \<in> set us. us_name v \<noteq> name" by (simp add: first_row_None)
  then have "first_row (\<lambda>u. us_name u = name \<and> us_superuser u) us = None" by (simp add: first_row_None)
  with assms(1) None show ?thesis
    by (auto simp: local_superuser_def sync_shadow_user_def first_row_append shadow_def new_user_def)
next
  case (Some w)
  then have us': "us' = map (\<lambda>v. if us_id v = us_id w then shadow w else v) us" using assms(1) by (auto simp: sync_shadow_user_def)
  have w: "w \<in> set us" "us_name w = name" using first_row_Some [OF Some] by auto
  have "us_password x = None" if "x \<in> set us'" "us_name x = name" for x
  proof -
    obtain v where v: "v \<in> set us" "x = (if us_id v = us_id w then shadow w else v)" using \<open>x \<in> set us'\<close> us' by auto
    show ?thesis
    proof (cases "us_id v = us_id w")
      case False
      with v that(2) have "us_name v = us_name w" "v \<noteq> w" using w by auto
      then have False using v(1) w(1) assms(2) by (metis distinct_map inj_onD)
      then show ?thesis ..
    qed (simp add: v shadow_def)
  qed
  then show ?thesis using assms(3)
    by (auto simp: local_superuser_def dest!: first_row_Some split: option.split)
qed

section \<open>When a session ends\<close>

text \<open>
  A session serves its requests exactly as long as no two of them are apart by the idle time of
  the settings or more; the first request after a longer pause ends it.
\<close>

theorem session_ends_when_idle:
  "session_requests minutes (Some t) ts =
     (let ok = takeWhile (\<lambda>(a, b). b - a < int minutes * 60) (zip (t # ts) ts)
      in map (\<lambda>(a, b). Served b) ok @ (if length ok < length ts then [LoggedOut] else []))"
proof (induction ts arbitrary: t)
  case (Cons b ts)
  then show ?case by (cases "b - t < int minutes * 60") (auto simp: auto_logout_def auto_logout_seconds_def Let_def)
qed simp

section \<open>The sections of the settings\<close>

lemma sections_disjoint:
  "s \<noteq> s' \<Longrightarrow> k \<in> set (section_fields s) \<Longrightarrow> k \<notin> set (section_fields s')"
  by (auto simp: section_fields_def tacacs_fields_def reachability_fields_def access_fields_def split: if_splits)

text \<open>
  Saving a section of the settings changes no column of another section and nothing at all
  unless the user is staff or a superuser and the form has no error; the reachability section is stored even if the
  synchronisation of its schedule raises.
\<close>

theorem sections_apart:
  assumes "settings_post framework sync u s form now (row, sch) = (res, row', sch')"
  shows "(case res of
      Saved s' \<Rightarrow> s' = s \<and> (us_staff u \<or> us_superuser u) \<and> section_errors framework s form = []
        \<and> (\<forall>k \<in> set (section_fields s). row' k = form k) \<and> (\<forall>t k. t \<noteq> s \<longrightarrow> k \<in> set (section_fields t) \<longrightarrow> row' k = row k)
        \<and> (s \<noteq> ''reachability'' \<longrightarrow> sch' = sch)
    | Raised e \<Rightarrow> s = ''reachability'' \<and> (us_staff u \<or> us_superuser u) \<and> (\<forall>t k. t \<noteq> s \<longrightarrow> k \<in> set (section_fields t) \<longrightarrow> row' k = row k)
    | _ \<Rightarrow> row' = row \<and> sch' = sch)"
proof -
  have stamp: "k \<noteq> ''updated_at''" if "k \<in> set (section_fields t)" for k t
    using that by (auto simp: section_fields_def tacacs_fields_def reachability_fields_def access_fields_def split: if_splits)
  show ?thesis
    using assms sections_disjoint stamp by (auto simp: settings_post_def save_section_def Let_def split: if_splits prod.splits sum.splits)
qed

lemma sections_apart_witness:
  "settings_post (\<lambda>_ _. []) (\<lambda>_ s. (Inr (), s + 1)) ex_admin ''superusers'' (\<lambda>_. PyInt 20) (PyStr ''now'') (\<lambda>_. PyNone, 0 :: nat)
     = (Saved ''superusers'', save_section access_fields (\<lambda>_. PyInt 20) (PyStr ''now'') (\<lambda>_. PyNone), 0)
   \<and> save_section access_fields (\<lambda>_. PyInt 20) (PyStr ''now'') (\<lambda>_. PyNone) ''tacacs_key'' = PyNone"
proof -
  have save: "settings_post (\<lambda>_ _. []) (\<lambda>_ s. (Inr (), s + 1)) ex_admin ''superusers'' (\<lambda>_. PyInt 20) (PyStr ''now'') (\<lambda>_. PyNone, 0 :: nat)
     = (Saved ''superusers'', save_section access_fields (\<lambda>_. PyInt 20) (PyStr ''now'') (\<lambda>_. PyNone), 0)"
    by (simp add: settings_post_def ex_admin_def new_user_def section_errors_def clean_minutes_def section_fields_def)
  have "''tacacs_key'' \<in> set (section_fields ''tacacs'')" by (simp add: section_fields_def tacacs_fields_def)
  moreover have "\<forall>t k. t \<noteq> ''superusers'' \<longrightarrow> k \<in> set (section_fields t) \<longrightarrow> save_section access_fields (\<lambda>_. PyInt 20) (PyStr ''now'') (\<lambda>_. PyNone) k = PyNone"
    using sections_apart [OF save] unfolding settings_end.case by (elim conjE) assumption
  ultimately have "save_section access_fields (\<lambda>_. PyInt 20) (PyStr ''now'') (\<lambda>_. PyNone) ''tacacs_key'' = PyNone"
    by (elim allE [of _ "''tacacs''"] allE [of _ "''tacacs_key''"]) simp
  with save show ?thesis by (intro conjI)
qed

end
