(* ===== verification/AreaTree.thy ===== *)
theory AreaTree
  imports Dcim "HOL-Library.List_Lexorder" "HOL-Library.Char_ord"
begin

text \<open>
  The tree of the areas of a site, \<^verbatim>\<open>_build_area_tree\<close> of
  \<^verbatim>\<open>core/organization_views.py\<close>. The recursion of the code follows the children of an area
  without a bound. Here it has a fuel, and \<open>None\<close> is a recursion that is deeper than the fuel;
  \<open>area_tree_complete\<close> shows that the number of areas is always enough.
\<close>

section \<open>Building the tree\<close>

datatype area_tree = AreaNode (tree_area: area) (tree_children: "area_tree list") (tree_open: bool)

fun all_some :: "'a option list \<Rightarrow> 'a list option" where
  "all_some [] = Some []"
| "all_some (x # xs) = (case x of None \<Rightarrow> None | Some v \<Rightarrow> map_option ((#) v) (all_some xs))"

definition area_children :: "area list \<Rightarrow> uid option \<Rightarrow> area list" where
  "area_children areas p = filter (\<lambda>a. area_parent a = p) areas"

fun build_area :: "nat \<Rightarrow> area list \<Rightarrow> uid option \<Rightarrow> area \<Rightarrow> area_tree option" where
  "build_area 0 areas sel a = None"
| "build_area (Suc n) areas sel a =
     map_option (\<lambda>ts. AreaNode a ts (Some (area_id a) = sel \<or> (\<exists>t \<in> set ts. tree_open t)))
       (all_some (map (build_area n areas sel) (sort_key area_name (area_children areas (Some (area_id a))))))"

definition build_area_tree :: "nat \<Rightarrow> area list \<Rightarrow> uid option \<Rightarrow> area_tree list option" where
  "build_area_tree n areas sel = all_some (map (build_area n areas sel) (sort_key area_name (area_children areas None)))"

section \<open>The areas of a tree\<close>

fun tree_areas :: "area_tree \<Rightarrow> area list" where
  "tree_areas (AreaNode a ts op) = a # concat (map tree_areas ts)"

text \<open>
  What the page relies on: a branch is open exactly if it has the selected area, the children of a
  node are its children in the table, in the order of their names.
\<close>

fun tree_sound :: "uid option \<Rightarrow> area_tree \<Rightarrow> bool" where
  "tree_sound sel (AreaNode a ts op) \<longleftrightarrow>
     (op \<longleftrightarrow> sel \<in> Some ` area_id ` set (tree_areas (AreaNode a ts op)))
     \<and> sorted (map (\<lambda>t. area_name (tree_area t)) ts)
     \<and> (\<forall>t \<in> set ts. area_parent (tree_area t) = Some (area_id a) \<and> tree_sound sel t)"

text \<open>The depth of an area below the roots.\<close>

inductive at_depth :: "area list \<Rightarrow> nat \<Rightarrow> area \<Rightarrow> bool" for areas where
  root: "a \<in> set areas \<Longrightarrow> area_parent a = None \<Longrightarrow> at_depth areas 0 a"
| below: "at_depth areas k p \<Longrightarrow> a \<in> set areas \<Longrightarrow> area_parent a = Some (area_id p) \<Longrightarrow> at_depth areas (Suc k) a"

definition rooted :: "area list \<Rightarrow> area \<Rightarrow> bool" where
  "rooted areas a \<longleftrightarrow> (\<exists>k. at_depth areas k a)"

section \<open>Depths\<close>

lemma all_some_map: "all_some (map f xs) = Some ys \<longleftrightarrow> map f xs = map Some ys"
proof (induction xs arbitrary: ys)
  case (Cons x xs)
  then show ?case by (cases "f x"; cases ys) (auto simp: map_eq_Cons_conv)
qed auto

lemma all_some_total: "\<forall>x \<in> set xs. \<exists>y. f x = Some y \<Longrightarrow> \<exists>ys. all_some (map f xs) = Some ys"
  by (induction xs) auto

inductive_cases at_depth_cases: "at_depth areas k a"

lemma depth_in: "at_depth areas k a \<Longrightarrow> a \<in> set areas"
  by (auto elim: at_depth_cases)

lemma depth_unique:
  assumes "at_depth areas k a" and "at_depth areas j a" and "distinct (map area_id areas)"
  shows "k = j"
  using assms(1,2)
proof (induction arbitrary: j)
  case (root a)
  then show ?case by (auto elim: at_depth_cases)
next
  case (below k p a)
  from below.prems below.hyps obtain i q where "j = Suc i" "at_depth areas i q" "area_id q = area_id p"
    by (auto elim: at_depth_cases)
  moreover from this have "q = p" using assms(3) depth_in below.hyps(1) by (metis distinct_map inj_onD)
  ultimately show ?case using below.IH by blast
qed

lemma depth_chain: "at_depth areas k a \<Longrightarrow> j \<le> k \<Longrightarrow> \<exists>b. at_depth areas j b"
proof (induction rule: at_depth.induct)
  case (root a)
  then show ?case by (auto intro: at_depth.root)
next
  case (below k p a)
  then show ?case by (cases "j = Suc k") (auto intro: at_depth.below)
qed

lemma depth_bound:
  assumes "at_depth areas k a" and "distinct (map area_id areas)"
  shows "k < length areas"
proof -
  obtain f where f: "\<And>j. j \<le> k \<Longrightarrow> at_depth areas j (f j)" using depth_chain [OF assms(1)] by metis
  have "inj_on f {..k}"
  proof (rule inj_onI)
    fix i j assume ij: "i \<in> {..k}" "j \<in> {..k}" "f i = f j"
    then have "at_depth areas i (f i)" "at_depth areas j (f i)" using f [of i] f [of j] by simp_all
    then show "i = j" using assms(2) by (rule depth_unique)
  qed
  moreover have "f ` {..k} \<subseteq> set areas" using f depth_in by auto
  ultimately have "card {..k} \<le> card (set areas)" by (meson List.finite_set card_inj_on_le)
  with card_length [of areas] show ?thesis by simp
qed

lemma build_total:
  assumes "distinct (map area_id areas)"
  shows "at_depth areas k a \<Longrightarrow> length areas \<le> k + n \<Longrightarrow> \<exists>t. build_area n areas sel a = Some t"
proof (induction n arbitrary: k a)
  case 0
  with depth_bound [OF _ assms] show ?case by fastforce
next
  case (Suc n)
  have "\<exists>t. build_area n areas sel c = Some t" if "c \<in> set (area_children areas (Some (area_id a)))" for c
  proof (rule Suc.IH)
    show "at_depth areas (Suc k) c" using that by (intro at_depth.below [OF Suc.prems(1)]) (simp_all add: area_children_def)
  qed (use Suc.prems in simp)
  then have "\<forall>c \<in> set (sort_key area_name (area_children areas (Some (area_id a)))). \<exists>t. build_area n areas sel c = Some t" by simp
  from all_some_total [OF this] show ?case by auto
qed

section \<open>What a tree holds\<close>

definition child_edges :: "area list \<Rightarrow> (area \<times> area) set" where
  "child_edges areas = {(p, c). p \<in> set areas \<and> c \<in> set areas \<and> area_parent c = Some (area_id p)}"

lemma edges_from:
  assumes "a \<in> set areas"
  shows "(child_edges areas)\<^sup>* `` {a} = insert a (\<Union>c \<in> set (area_children areas (Some (area_id a))). (child_edges areas)\<^sup>* `` {c})"
proof -
  have "child_edges areas `` {a} = set (area_children areas (Some (area_id a)))"
    using assms by (auto simp: child_edges_def area_children_def)
  then show ?thesis by (auto elim: converse_rtranclE intro: converse_rtrancl_into_rtrancl)
qed

lemma edges_deeper: "(a, b) \<in> (child_edges areas)\<^sup>* \<Longrightarrow> at_depth areas k a \<Longrightarrow> \<exists>j \<ge> k. at_depth areas j b \<and> (j = k \<longrightarrow> b = a)"
proof (induction rule: rtrancl_induct)
  case (step b c)
  then obtain j where "j \<ge> k" "at_depth areas j b" by blast
  with step.hyps(2) have "at_depth areas (Suc j) c" by (auto simp: child_edges_def intro: at_depth.below)
  with \<open>j \<ge> k\<close> show ?case by (intro exI [of _ "Suc j"]) simp
qed blast

lemma same_depth_apart:
  assumes "at_depth areas k a" and "at_depth areas k b" and "(a, x) \<in> (child_edges areas)\<^sup>*" and "(b, x) \<in> (child_edges areas)\<^sup>*"
    and "distinct (map area_id areas)"
  shows "a = b"
proof -
  have "single_valued ((child_edges areas)\<inverse>)"
    using assms(5) by (intro single_valuedI) (auto simp: child_edges_def dest: distinct_map [THEN iffD1] inj_onD)
  moreover have "(x, a) \<in> ((child_edges areas)\<inverse>)\<^sup>*" "(x, b) \<in> ((child_edges areas)\<inverse>)\<^sup>*"
    using assms(3,4) by (simp_all add: rtrancl_converse)
  ultimately have "(a, b) \<in> ((child_edges areas)\<inverse>)\<^sup>* \<or> (b, a) \<in> ((child_edges areas)\<inverse>)\<^sup>*" by (rule single_valued_confluent)
  then have "(b, a) \<in> (child_edges areas)\<^sup>* \<or> (a, b) \<in> (child_edges areas)\<^sup>*" by (simp add: rtrancl_converse)
  then show ?thesis
  proof
    assume "(b, a) \<in> (child_edges areas)\<^sup>*"
    from edges_deeper [OF this assms(2)] depth_unique [OF assms(1) _ assms(5)] show ?thesis by blast
  next
    assume "(a, b) \<in> (child_edges areas)\<^sup>*"
    from edges_deeper [OF this assms(1)] depth_unique [OF assms(2) _ assms(5)] show ?thesis by blast
  qed
qed

lemma forest_areas:
  "map f cs = map Some ts \<Longrightarrow> \<forall>c \<in> set cs. \<forall>t. f c = Some t \<longrightarrow> set (tree_areas t) = g c
    \<Longrightarrow> (\<Union>t \<in> set ts. set (tree_areas t)) = (\<Union>c \<in> set cs. g c)"
proof (induction cs arbitrary: ts)
  case (Cons c cs)
  then obtain t us where "ts = t # us" "f c = Some t" "map f cs = map Some us" by (auto simp: map_eq_Cons_conv)
  with Cons show ?case by simp
qed simp

lemma build_areas:
  "build_area n areas sel a = Some t \<Longrightarrow> a \<in> set areas \<Longrightarrow> tree_area t = a \<and> set (tree_areas t) = (child_edges areas)\<^sup>* `` {a}"
proof (induction n arbitrary: a t)
  case (Suc n)
  let ?cs = "sort_key area_name (area_children areas (Some (area_id a)))"
  obtain ts op where ts: "map (build_area n areas sel) ?cs = map Some ts" and t: "t = AreaNode a ts op"
    using Suc.prems(1) by (auto simp: all_some_map)
  have "(\<Union>t \<in> set ts. set (tree_areas t)) = (\<Union>c \<in> set ?cs. (child_edges areas)\<^sup>* `` {c})"
    using ts by (rule forest_areas) (auto simp: area_children_def dest: Suc.IH)
  then show ?case using edges_from [OF Suc.prems(2)] by (simp add: t)
qed simp

lemma forest_distinct:
  assumes "map f cs = map Some ts" and "distinct cs" and "\<forall>c \<in> set cs. at_depth areas k c"
    and "\<forall>c \<in> set cs. \<forall>t. f c = Some t \<longrightarrow> distinct (tree_areas t) \<and> set (tree_areas t) = (child_edges areas)\<^sup>* `` {c}"
    and "distinct (map area_id areas)"
  shows "distinct (concat (map tree_areas ts))"
  using assms(1-4)
proof (induction cs arbitrary: ts)
  case (Cons c cs)
  then obtain t us where ts: "ts = t # us" "f c = Some t" "map f cs = map Some us" by (auto simp: map_eq_Cons_conv)
  have "(\<Union>t \<in> set us. set (tree_areas t)) = (\<Union>d \<in> set cs. (child_edges areas)\<^sup>* `` {d})"
    using ts(3) by (rule forest_areas) (use Cons.prems(4) in auto)
  moreover have "set (tree_areas t) \<inter> (\<Union>d \<in> set cs. (child_edges areas)\<^sup>* `` {d}) = {}"
  proof -
    have "c = d" if "(c, x) \<in> (child_edges areas)\<^sup>*" "d \<in> set cs" "(d, x) \<in> (child_edges areas)\<^sup>*" for d x
      using that Cons.prems(3) by (intro same_depth_apart [OF _ _ that(1,3) assms(5)]) auto
    moreover have "set (tree_areas t) = (child_edges areas)\<^sup>* `` {c}" using Cons.prems(4) ts(2) by simp
    ultimately show ?thesis using Cons.prems(2) by auto
  qed
  moreover have "distinct (concat (map tree_areas us))"
    by (rule Cons.IH [OF ts(3)]) (use Cons.prems in auto)
  moreover have "distinct (tree_areas t)" using Cons.prems(4) ts(2) by simp
  ultimately show ?case by (simp add: ts(1))
qed simp

lemma build_distinct:
  assumes "distinct (map area_id areas)"
  shows "build_area n areas sel a = Some t \<Longrightarrow> at_depth areas k a \<Longrightarrow> distinct (tree_areas t)"
proof (induction n arbitrary: k a t)
  case (Suc n)
  let ?cs = "sort_key area_name (area_children areas (Some (area_id a)))"
  obtain ts op where ts: "map (build_area n areas sel) ?cs = map Some ts" and t: "t = AreaNode a ts op"
    using Suc.prems(1) by (auto simp: all_some_map)
  have deep: "\<forall>c \<in> set ?cs. at_depth areas (Suc k) c"
    using at_depth.below [OF Suc.prems(2)] by (auto simp: area_children_def)
  have sets: "\<forall>c \<in> set ?cs. \<forall>u. build_area n areas sel c = Some u \<longrightarrow> set (tree_areas u) = (child_edges areas)\<^sup>* `` {c}"
    using build_areas by (auto simp: area_children_def)
  have "distinct ?cs" using assms by (simp add: area_children_def distinct_map)
  then have "distinct (concat (map tree_areas ts))"
    by (rule forest_distinct [OF ts _ deep _ assms]) (use Suc.IH deep sets in blast)
  moreover have "a \<notin> (\<Union>t \<in> set ts. set (tree_areas t))"
  proof -
    have "(\<Union>t \<in> set ts. set (tree_areas t)) = (\<Union>c \<in> set ?cs. (child_edges areas)\<^sup>* `` {c})"
      using ts sets by (rule forest_areas)
    moreover have "(c, a) \<notin> (child_edges areas)\<^sup>*" if "c \<in> set ?cs" for c
      using edges_deeper [of c a areas "Suc k"] deep that depth_unique [OF Suc.prems(2) _ assms] by fastforce
    ultimately show ?thesis by auto
  qed
  ultimately show ?case by (auto simp: t)
qed simp

lemma build_sound: "build_area n areas sel a = Some t \<Longrightarrow> a \<in> set areas \<Longrightarrow> tree_sound sel t \<and> (tree_open t \<longleftrightarrow> sel \<in> Some ` area_id ` set (tree_areas t))"
proof (induction n arbitrary: a t)
  case (Suc n)
  let ?cs = "sort_key area_name (area_children areas (Some (area_id a)))"
  obtain ts where ts: "map (build_area n areas sel) ?cs = map Some ts"
    and t: "t = AreaNode a ts (Some (area_id a) = sel \<or> (\<exists>t \<in> set ts. tree_open t))"
    using Suc.prems(1) by (auto simp: all_some_map)
  have each: "\<exists>c \<in> set ?cs. build_area n areas sel c = Some u" if "u \<in> set ts" for u
  proof -
    have "Some u \<in> set (map (build_area n areas sel) ?cs)" unfolding ts using that by simp
    then show ?thesis by (auto simp: image_iff)
  qed
  have kid: "area_parent (tree_area u) = Some (area_id a) \<and> tree_sound sel u \<and> (tree_open u \<longleftrightarrow> sel \<in> Some ` area_id ` set (tree_areas u))"
    if "u \<in> set ts" for u
  proof -
    obtain c where c: "c \<in> set ?cs" "build_area n areas sel c = Some u" using each [OF \<open>u \<in> set ts\<close>] by blast
    then have "c \<in> set areas" "area_parent c = Some (area_id a)" by (simp_all add: area_children_def)
    with build_areas [OF c(2)] Suc.IH [OF c(2)] show ?thesis by simp
  qed
  have "map tree_area ts = ?cs"
    using ts
  proof -
    have "list_all2 (\<lambda>c u. tree_area u = c) ?cs ts" unfolding list_all2_conv_all_nth
    proof (intro conjI allI impI)
      show len: "length ?cs = length ts" using arg_cong [OF ts, of length] by simp
      fix i assume i: "i < length ?cs"
      have "build_area n areas sel (?cs ! i) = Some (ts ! i)"
        using arg_cong [OF ts, of "\<lambda>l. l ! i"] i len by simp
      moreover have "?cs ! i \<in> set areas" using nth_mem [OF i] by (auto simp: area_children_def)
      ultimately show "tree_area (ts ! i) = ?cs ! i" using build_areas by blast
    qed
    then show ?thesis by (induction rule: list_all2_induct) auto
  qed
  from arg_cong [OF this, of "map area_name"] have "map (\<lambda>t. area_name (tree_area t)) ts = map area_name ?cs" by (simp add: comp_def)
  then have "sorted (map (\<lambda>t. area_name (tree_area t)) ts)" by simp
  with kid show ?case by (auto simp: t)
qed simp

section \<open>The tree is complete\<close>

lemma depth_zero: "at_depth areas 0 a \<longleftrightarrow> a \<in> set (area_children areas None)"
  by (auto simp: area_children_def elim: at_depth_cases intro: at_depth.root)

lemma rooted_edges: "rooted areas b \<longleftrightarrow> (\<exists>a. at_depth areas 0 a \<and> (a, b) \<in> (child_edges areas)\<^sup>*)"
proof
  assume "rooted areas b"
  then obtain k where "at_depth areas k b" by (auto simp: rooted_def)
  then show "\<exists>a. at_depth areas 0 a \<and> (a, b) \<in> (child_edges areas)\<^sup>*"
  proof (induction rule: at_depth.induct)
    case (below k p a)
    then have "(p, a) \<in> child_edges areas" using depth_in by (auto simp: child_edges_def)
    with below.IH show ?case by (blast intro: rtrancl_into_rtrancl)
  qed (auto intro: at_depth.root)
next
  assume "\<exists>a. at_depth areas 0 a \<and> (a, b) \<in> (child_edges areas)\<^sup>*"
  then show "rooted areas b" using edges_deeper unfolding rooted_def by blast
qed

text \<open>
  C27. The tree of the areas is always built: the recursion is at most as deep as there are areas,
  whatever the parents are. It shows each area whose parents lead to a root exactly once and no
  other one, below its parent, in the order of the names; a branch is open exactly if the selected
  area is in it. Areas on a cycle of parents, or below an area of another site, are not shown.
\<close>

theorem area_tree_complete:
  assumes "distinct (map area_id areas)"
  shows "\<exists>ts. build_area_tree (length areas) areas sel = Some ts \<and> distinct (concat (map tree_areas ts))
    \<and> set (concat (map tree_areas ts)) = {a. rooted areas a}
    \<and> (\<forall>t \<in> set ts. area_parent (tree_area t) = None \<and> tree_sound sel t)"
proof -
  let ?rs = "sort_key area_name (area_children areas None)" and ?f = "build_area (length areas) areas sel"
  have "\<forall>a \<in> set ?rs. \<exists>t. ?f a = Some t"
    using build_total [OF assms, of 0] depth_zero by fastforce
  then obtain ts where "all_some (map ?f ?rs) = Some ts" using all_some_total by blast
  then have ts: "map ?f ?rs = map Some ts" and tree: "build_area_tree (length areas) areas sel = Some ts"
    by (simp_all add: all_some_map build_area_tree_def)
  have sets: "\<forall>c \<in> set ?rs. \<forall>u. ?f c = Some u \<longrightarrow> set (tree_areas u) = (child_edges areas)\<^sup>* `` {c}"
    using build_areas by (auto simp: area_children_def)
  have depth: "\<forall>c \<in> set ?rs. at_depth areas 0 c" by (simp add: depth_zero)
  have "distinct ?rs" using assms by (simp add: area_children_def distinct_map)
  then have "distinct (concat (map tree_areas ts))"
    by (rule forest_distinct [OF ts _ depth _ assms]) (use build_distinct [OF assms] depth sets in blast)
  moreover have "(\<Union>t \<in> set ts. set (tree_areas t)) = {a. rooted areas a}"
    using forest_areas [OF ts sets] by (auto simp: rooted_edges depth_zero)
  moreover have "area_parent (tree_area t) = None \<and> tree_sound sel t" if "t \<in> set ts" for t
  proof -
    have "Some t \<in> set (map ?f ?rs)" unfolding ts using that by simp
    then obtain c where "c \<in> set (area_children areas None)" "?f c = Some t" by (auto simp: image_iff)
    then show ?thesis using build_areas [of "length areas" areas sel c t] build_sound [of "length areas" areas sel c t]
      by (auto simp: area_children_def)
  qed
  ultimately show ?thesis using tree by (intro exI [of _ ts] conjI) auto
qed

definition ex_areas :: "area list" where
  "ex_areas = [\<lparr>area_id = 1, area_name = ''Hall'', area_parent = None, area_site = 1\<rparr>,
     \<lparr>area_id = 2, area_name = ''Room'', area_parent = Some 1, area_site = 1\<rparr>,
     \<lparr>area_id = 3, area_name = ''Loop'', area_parent = Some 3, area_site = 1\<rparr>,
     \<lparr>area_id = 4, area_name = ''Cage'', area_parent = Some 1, area_site = 1\<rparr>]"

lemma area_tree_complete_witness:
  "build_area_tree (length ex_areas) ex_areas (Some 2) =
     Some [AreaNode (ex_areas ! 0) [AreaNode (ex_areas ! 3) [] False, AreaNode (ex_areas ! 1) [] True] True]
   \<and> \<not> rooted ex_areas (ex_areas ! 2)"
proof -
  have tree: "build_area_tree (length ex_areas) ex_areas (Some 2) =
     Some [AreaNode (ex_areas ! 0) [AreaNode (ex_areas ! 3) [] False, AreaNode (ex_areas ! 1) [] True] True]" by code_simp
  have "distinct (map area_id ex_areas)" by (simp add: ex_areas_def)
  from area_tree_complete [OF this, of "Some 2"] tree
  have "{a. rooted ex_areas a} = {ex_areas ! 0, ex_areas ! 3, ex_areas ! 1}" by auto
  then have "rooted ex_areas (ex_areas ! 2) \<longleftrightarrow> ex_areas ! 2 \<in> {ex_areas ! 0, ex_areas ! 3, ex_areas ! 1}" by blast
  then have "\<not> rooted ex_areas (ex_areas ! 2)" by (simp add: ex_areas_def)
  with tree show ?thesis by simp
qed

end
