(* ===== verification/RackLayout.thy ===== *)
theory RackLayout
  imports Devices
begin

text \<open>
  The drawing of a rack, \<^verbatim>\<open>RackDetailView\<close> of \<^verbatim>\<open>core/organization_views.py\<close>,
  and how it relates to the occupied units that the devices keep in their rack.
\<close>

section \<open>The drawing\<close>

record layout_block =
  bl_device :: device
  bl_start :: int
  bl_height :: int
  bl_head :: int
  bl_count :: int

record layout_row =
  lr_unit :: int
  lr_device :: "device option"
  lr_height :: "int option"
  lr_pixels :: "int option"
  lr_count :: "int option"
  lr_range :: "int list option"
  lr_occupied :: bool

definition stack_factor :: "db \<Rightarrow> device \<Rightarrow> int" where
  "stack_factor d v = max 1 (if dev_stacked v then int (stack_count d (dev_id v)) else 1)"

text \<open>The block of a device; one without a position or type, or below or above the rack has none.\<close>

definition device_block :: "db \<Rightarrow> rack \<Rightarrow> device \<Rightarrow> layout_block option" where
  "device_block d r v =
     (case (dev_position v, fk (find_type d) (dev_type v)) of
        (Some p, Some t) \<Rightarrow>
          (let start = whole p;
               height = (if dt_height t = 0 then 1 else whole (dt_height t)) * stack_factor d v
           in if start < 1 \<or> start > rack_height r then None
              else let head = min (rack_height r) (start + height - 1)
                   in Some \<lparr>bl_device = v, bl_start = start, bl_height = head - start + 1, bl_head = head, bl_count = stack_factor d v\<rparr>)
      | _ \<Rightarrow> None)"

definition covers :: "layout_block \<Rightarrow> int \<Rightarrow> bool" where
  "covers b u \<longleftrightarrow> bl_start b \<le> u \<and> u \<le> bl_head b"

text \<open>The dictionary of the units: a later device takes a unit from an earlier one.\<close>

definition occupancy :: "db \<Rightarrow> rack \<Rightarrow> device list \<Rightarrow> int \<Rightarrow> layout_block option" where
  "occupancy d r devs = fold (\<lambda>v m. case device_block d r v of None \<Rightarrow> m | Some b \<Rightarrow> (\<lambda>u. if covers b u then Some b else m u)) devs (\<lambda>_. None)"

definition layout_row_at :: "(int \<Rightarrow> layout_block option) \<Rightarrow> int \<Rightarrow> layout_row" where
  "layout_row_at occ u =
     (case occ u of
        Some b \<Rightarrow> if bl_head b = u
          then \<lparr>lr_unit = u, lr_device = Some (bl_device b), lr_height = Some (bl_height b), lr_pixels = Some (bl_height b * 36),
                lr_count = Some (bl_count b), lr_range = (if bl_count b \<noteq> 0 then Some [1..bl_count b] else None), lr_occupied = True\<rparr>
          else \<lparr>lr_unit = u, lr_device = None, lr_height = None, lr_pixels = None, lr_count = None, lr_range = None, lr_occupied = True\<rparr>
      | None \<Rightarrow> \<lparr>lr_unit = u, lr_device = None, lr_height = None, lr_pixels = None, lr_count = None, lr_range = None, lr_occupied = False\<rparr>)"

definition build_layout :: "db \<Rightarrow> rack \<Rightarrow> device list \<Rightarrow> layout_row list" where
  "build_layout d r devs =
     (if rack_height r = 0 \<or> devs = [] then []
      else map (layout_row_at (occupancy d r devs)) (rev [1..rack_height r]))"

text \<open>
  The power of the rack: of every device with a type, the watts of the type for each member of
  its stack.
\<close>

definition rack_power :: "(uid \<Rightarrow> int option) \<Rightarrow> db \<Rightarrow> device list \<Rightarrow> int" where
  "rack_power watts d devs =
     sum_list (map (\<lambda>v. case fk (find_type d) (dev_type v) of
         None \<Rightarrow> 0
       | Some t \<Rightarrow> (case watts (dt_id t) of None \<Rightarrow> 0 | Some w \<Rightarrow> w) * stack_factor d v) devs)"

text \<open>
  The page: the rack of the request or none (404), its devices in the order of the database,
  the drawing only for a user who may see devices.
\<close>

record rack_page =
  rp_rack :: rack
  rp_show :: bool
  rp_layout :: "layout_row list"
  rp_devices :: "device list"
  rp_positions :: bool
  rp_power :: int

definition rack_detail :: "(device list \<Rightarrow> device list) \<Rightarrow> (uid \<Rightarrow> int option) \<Rightarrow> bool \<Rightarrow> db \<Rightarrow> uid \<Rightarrow> rack_page option" where
  "rack_detail ordered watts may_see d i =
     map_option (\<lambda>r.
       let devs = ordered (filter (\<lambda>v. dev_rack v = Some i) (t_devices d));
           layout = (if may_see then build_layout d r devs else [])
       in \<lparr>rp_rack = r, rp_show = may_see, rp_layout = layout, rp_devices = devs, rp_positions = (layout \<noteq> []), rp_power = rack_power watts d devs\<rparr>)
     (find_rack d i)"

section \<open>The dictionary of the units\<close>

lemma filter_single: "distinct xs \<Longrightarrow> e \<in> set xs \<Longrightarrow> filter (\<lambda>x. x = e) xs = [e]"
  by (induction xs) (auto simp: filter_empty_conv)

lemma occupancy_snoc:
  "occupancy d r (devs @ [v]) u = (case device_block d r v of
     Some b \<Rightarrow> if covers b u then Some b else occupancy d r devs u | None \<Rightarrow> occupancy d r devs u)"
  by (simp add: occupancy_def split: option.split)

lemma occupancy_None: "occupancy d r devs u = None \<longleftrightarrow> (\<forall>v \<in> set devs. \<forall>b. device_block d r v = Some b \<longrightarrow> \<not> covers b u)"
proof (induction devs rule: rev_induct)
  case (snoc v devs)
  then show ?case by (auto simp: occupancy_snoc split: option.split)
qed (simp add: occupancy_def)

lemma occupancy_Some: "occupancy d r devs u = Some b \<Longrightarrow> \<exists>v \<in> set devs. device_block d r v = Some b \<and> covers b u"
proof (induction devs rule: rev_induct)
  case (snoc v devs)
  then show ?case by (auto simp: occupancy_snoc split: option.splits if_splits)
qed (simp add: occupancy_def)

lemma block_device: "device_block d r v = Some b \<Longrightarrow> bl_device b = v \<and> 1 \<le> bl_start b \<and> bl_start b \<le> rack_height r \<and> bl_head b \<le> rack_height r"
  by (auto simp: device_block_def Let_def split: option.splits if_splits)

lemma row_occupied: "lr_unit (layout_row_at occ u) = u" "lr_occupied (layout_row_at occ u) \<longleftrightarrow> occ u \<noteq> None"
  by (simp_all add: layout_row_at_def split: option.split)

lemma row_device: "lr_device (layout_row_at occ u) = Some v \<longleftrightarrow> (\<exists>b. occ u = Some b \<and> bl_head b = u \<and> bl_device b = v)"
  by (auto simp: layout_row_at_def split: option.split)

section \<open>The drawing and the occupied units\<close>

text \<open>
  A device that the drawing and the recorded occupancy treat alike: without a position, or with a
  type that is not between zero and one unit high and a position in the rack's numbering.
\<close>

definition drawn_whole :: "db \<Rightarrow> device \<Rightarrow> bool" where
  "drawn_whole d v \<longleftrightarrow> dev_position v = None \<or>
     (\<exists>p t. dev_position v = Some p \<and> 1 \<le> whole p \<and> fk (find_type d) (dev_type v) = Some t \<and> (dt_height t = 0 \<or> 10 \<le> dt_height t))"

lemma in_device_units:
  "u \<in> set (device_units d v) \<longleftrightarrow>
     (\<exists>p. dev_position v = Some p \<and> whole p \<le> u \<and> u < whole p + device_height d v * stack_factor d v)"
proof (cases "dev_position v")
  case (Some p)
  have one: "1 \<le> device_height d v" "1 \<le> stack_factor d v"
    by (auto simp: device_height_def stack_factor_def split: option.split)
  then have pos: "1 \<le> device_height d v * stack_factor d v" using mult_mono [of 1 "device_height d v" 1 "stack_factor d v"] by simp
  have factor: "max 1 (if dev_stacked v then int (stack_count d (dev_id v)) else 1) = stack_factor d v" by (simp add: stack_factor_def)
  have "set (device_units d v) = (\<lambda>k. whole p + int k) ` {0..<nat (device_height d v * stack_factor d v)}"
    using Some pos by (simp add: device_units_def factor Let_def max_absorb2)
  also have "\<dots> = {whole p ..< whole p + device_height d v * stack_factor d v}"
  proof (intro equalityI subsetI)
    fix x assume "x \<in> {whole p ..< whole p + device_height d v * stack_factor d v}"
    then have "x = whole p + int (nat (x - whole p))" "nat (x - whole p) \<in> {0..<nat (device_height d v * stack_factor d v)}" by auto
    then show "x \<in> (\<lambda>k. whole p + int k) ` {0..<nat (device_height d v * stack_factor d v)}" by blast
  qed auto
  finally show ?thesis using Some by auto
qed (simp add: device_units_def)

lemma block_units:
  assumes "device_block d r v = Some b" and "covers b u"
  shows "u \<in> set (device_units d v)"
proof -
  obtain p t where p: "dev_position v = Some p" "fk (find_type d) (dev_type v) = Some t"
    using assms(1) by (auto simp: device_block_def split: option.splits)
  have s: "1 \<le> stack_factor d v" by (simp add: stack_factor_def)
  let ?h = "if dt_height t = 0 then 1 else whole (dt_height t)"
  have h: "?h \<le> device_height d v" using p by (simp add: device_height_def)
  have "whole p \<le> u" "u \<le> whole p + ?h * stack_factor d v - 1"
    using assms p by (auto simp: device_block_def covers_def Let_def split: if_splits)
  moreover have "?h * stack_factor d v \<le> device_height d v * stack_factor d v"
    using h s by (intro mult_right_mono) simp_all
  ultimately show ?thesis using p by (auto simp: in_device_units)
qed

lemma units_block:
  assumes "drawn_whole d v" and "u \<in> set (device_units d v)" and "u \<le> rack_height r"
  shows "\<exists>b. device_block d r v = Some b \<and> covers b u \<and> 1 \<le> u"
proof -
  obtain p where p: "dev_position v = Some p" "whole p \<le> u" "u < whole p + device_height d v * stack_factor d v"
    using assms(2) by (auto simp: in_device_units)
  then obtain t where t: "1 \<le> whole p" "fk (find_type d) (dev_type v) = Some t" "dt_height t = 0 \<or> 10 \<le> dt_height t"
    using assms(1) by (auto simp: drawn_whole_def)
  then have "(if dt_height t = 0 then 1 else whole (dt_height t)) = device_height d v"
    by (auto simp: device_height_def whole_def)
  with p t assms(3) show ?thesis by (auto simp: device_block_def covers_def Let_def)
qed

text \<open>
  C28. The drawing of a rack has its units once each, from top to bottom; an empty rack draws no unit. Every unit that it draws as
  taken is one that the devices of the rack have recorded as occupied; when all their types are at
  least one unit high and their positions start at one, it draws exactly the recorded units within
  the height of the rack.
\<close>

theorem layout_matches_occupancy:
  assumes "1 \<le> rack_height r" and "set devs = {v \<in> set (t_devices d). dev_rack v = Some (rack_id r)}"
  shows "map lr_unit (build_layout d r devs) = (if devs = [] then [] else rev [1..rack_height r])
    \<and> lr_unit ` {x \<in> set (build_layout d r devs). lr_occupied x} \<subseteq> set (occupied_units d (rack_id r))
    \<and> ((\<forall>v \<in> set devs. drawn_whole d v) \<longrightarrow>
        lr_unit ` {x \<in> set (build_layout d r devs). lr_occupied x} = set (occupied_units d (rack_id r)) \<inter> {1..rack_height r})"
proof (cases "devs = []")
  case True
  with assms(2) show ?thesis by (auto simp: build_layout_def occupied_units_def)
next
  case False
  let ?occ = "occupancy d r devs"
  have layout: "build_layout d r devs = map (layout_row_at ?occ) (rev [1..rack_height r])"
    using False assms(1) by (simp add: build_layout_def)
  have units: "map lr_unit (build_layout d r devs) = rev [1..rack_height r]"
    unfolding layout map_map by (rule map_idI) (simp add: row_occupied)
  have drawn: "lr_unit ` {x \<in> set (build_layout d r devs). lr_occupied x} = {u \<in> {1..rack_height r}. ?occ u \<noteq> None}"
  proof (intro equalityI subsetI)
    fix u assume "u \<in> {u \<in> {1..rack_height r}. ?occ u \<noteq> None}"
    then have "layout_row_at ?occ u \<in> {x \<in> set (build_layout d r devs). lr_occupied x}" by (auto simp: layout row_occupied)
    then show "u \<in> lr_unit ` {x \<in> set (build_layout d r devs). lr_occupied x}" by (intro image_eqI [where f = lr_unit and x = "layout_row_at ?occ u"]) (simp_all add: row_occupied)
  qed (auto simp: layout row_occupied)
  have recorded: "u \<in> set (occupied_units d (rack_id r)) \<longleftrightarrow> (\<exists>v \<in> set devs. u \<in> set (device_units d v))" for u
    by (auto simp: occupied_units_def assms(2))
  have sound: "u \<in> set (occupied_units d (rack_id r))" if "?occ u \<noteq> None" for u
    using that occupancy_Some [of d r devs u] block_units by (force simp: recorded)
  have complete: "?occ u \<noteq> None \<and> 1 \<le> u" if "\<forall>v \<in> set devs. drawn_whole d v" "u \<in> set (occupied_units d (rack_id r))" "u \<le> rack_height r" for u
  proof -
    from that have "\<exists>v \<in> set devs. u \<in> set (device_units d v)" by (simp add: recorded)
    then obtain v where v: "v \<in> set devs" "u \<in> set (device_units d v)" by blast
    with units_block [of d v u r] that(1,3) obtain b where "device_block d r v = Some b" "covers b u" "1 \<le> u" by blast
    then show ?thesis using v(1) by (auto simp: occupancy_None)
  qed
  show ?thesis unfolding drawn using False units sound complete by auto
qed

text \<open>
  A device of a rack whose units no other device shares is drawn exactly once: on the row of its
  highest unit within the rack, with the number of its units as the height, and all these units are
  drawn as taken.
\<close>

theorem layout_shows_device:
  assumes "v \<in> set devs" and "device_block d r v = Some b" and "1 \<le> bl_height b"
    and "\<forall>w \<in> set devs. \<forall>c u. device_block d r w = Some c \<longrightarrow> covers b u \<longrightarrow> covers c u \<longrightarrow> w = v"
  shows "\<exists>x. filter (\<lambda>x. lr_device x = Some v) (build_layout d r devs) = [x] \<and> lr_unit x = bl_head b \<and> lr_height x = Some (bl_height b)
    \<and> bl_height b = bl_head b - bl_start b + 1
    \<and> (\<forall>u \<in> {bl_start b..bl_head b}. \<exists>y \<in> set (build_layout d r devs). lr_unit y = u \<and> lr_occupied y)"
proof -
  let ?occ = "occupancy d r devs"
  have b: "bl_device b = v" "1 \<le> bl_start b" "bl_start b \<le> rack_height r" "bl_head b \<le> rack_height r"
    using block_device [OF assms(2)] by simp_all
  have height: "bl_height b = bl_head b - bl_start b + 1"
    using assms(2) by (auto simp: device_block_def Let_def split: option.splits if_splits)
  then have head: "bl_start b \<le> bl_head b" using assms(3) by simp
  have layout: "build_layout d r devs = map (layout_row_at ?occ) (rev [1..rack_height r])"
    using b assms(1) by (auto simp: build_layout_def)
  have own: "?occ u = Some b" if "covers b u" for u
  proof (cases "?occ u")
    case None
    with assms(1,2) that show ?thesis by (auto simp: occupancy_None)
  next
    case (Some c)
    from occupancy_Some [OF this] obtain w where "w \<in> set devs" "device_block d r w = Some c" "covers c u" by blast
    with assms(2,4) that Some show ?thesis by (metis option.inject)
  qed
  have at: "lr_device (layout_row_at ?occ u) = Some v \<longleftrightarrow> u = bl_head b" for u
  proof
    assume "lr_device (layout_row_at ?occ u) = Some v"
    then obtain c where c: "?occ u = Some c" "bl_head c = u" "bl_device c = v" by (auto simp: row_device)
    from occupancy_Some [OF c(1)] obtain w where "device_block d r w = Some c" by blast
    then have "c = b" using block_device [of d r w c] c(3) assms(2) by simp
    with c(2) show "u = bl_head b" by simp
  next
    assume "u = bl_head b"
    then show "lr_device (layout_row_at ?occ u) = Some v" using own [of u] head b(1) by (simp add: row_device covers_def)
  qed
  have "filter (\<lambda>u. u = bl_head b) (rev [1..rack_height r]) = [bl_head b]"
    using b head by (intro filter_single) auto
  then have "filter (\<lambda>x. lr_device x = Some v) (build_layout d r devs) = [layout_row_at ?occ (bl_head b)]"
    unfolding layout filter_map comp_def at by simp
  moreover have "lr_unit (layout_row_at ?occ (bl_head b)) = bl_head b \<and> lr_height (layout_row_at ?occ (bl_head b)) = Some (bl_height b)"
    using own [of "bl_head b"] head by (simp add: covers_def layout_row_at_def)
  moreover have "\<exists>y \<in> set (build_layout d r devs). lr_unit y = u \<and> lr_occupied y" if "u \<in> {bl_start b..bl_head b}" for u
  proof (rule bexI [of _ "layout_row_at ?occ u"])
    show "lr_unit (layout_row_at ?occ u) = u \<and> lr_occupied (layout_row_at ?occ u)"
      using own [of u] that by (simp add: row_occupied covers_def)
    show "layout_row_at ?occ u \<in> set (build_layout d r devs)" unfolding layout using that b by auto
  qed
  ultimately show ?thesis using height by blast
qed

definition ex_rack :: rack where
  "ex_rack = \<lparr>rack_id = 1, rack_name = ''R1'', rack_area = 1, rack_height = 12, rack_occupied = [10, 11]\<rparr>"

definition ex_rack_device :: device where
  "ex_rack_device = (new_device 7 ''sw1'' ''10.0.0.7'' 1 1)\<lparr>dev_rack := Some 1, dev_type := Some 3, dev_position := Some 100\<rparr>"

definition ex_rack_db :: db where
  "ex_rack_db = empty_db\<lparr>t_types := [\<lparr>dt_id = 3, dt_model = ''C9300'', dt_platform = ''ios'', dt_vendor = 1, dt_height = 20\<rparr>],
     t_racks := [ex_rack], t_devices := [ex_rack_device]\<rparr>"

lemma layout_matches_occupancy_witness:
  "lr_unit ` {x \<in> set (build_layout ex_rack_db ex_rack [ex_rack_device]). lr_occupied x} = {10, 11}"
proof -
  have "set [ex_rack_device] = {v \<in> set (t_devices ex_rack_db). dev_rack v = Some (rack_id ex_rack)}"
    by (auto simp: ex_rack_device_def ex_rack_db_def ex_rack_def)
  moreover have "1 \<le> rack_height ex_rack" by (simp add: ex_rack_def)
  moreover have "\<forall>v \<in> set [ex_rack_device]. drawn_whole ex_rack_db v" by (simp add: drawn_whole_def ex_rack_device_def ex_rack_db_def find_type_def whole_def)
  ultimately have "lr_unit ` {x \<in> set (build_layout ex_rack_db ex_rack [ex_rack_device]). lr_occupied x}
      = set (occupied_units ex_rack_db (rack_id ex_rack)) \<inter> {1..rack_height ex_rack}"
    using layout_matches_occupancy [of ex_rack "[ex_rack_device]" ex_rack_db] by blast
  also have "occupied_units ex_rack_db (rack_id ex_rack) = [10, 11]" by code_simp
  also have "set [10, 11] \<inter> {1..rack_height ex_rack} = {10, 11}" by (auto simp: ex_rack_def)
  finally show ?thesis .
qed

lemma layout_shows_device_witness:
  "\<exists>x. filter (\<lambda>x. lr_device x = Some ex_rack_device) (build_layout ex_rack_db ex_rack [ex_rack_device]) = [x] \<and> lr_unit x = 11 \<and> lr_height x = Some 2"
proof -
  have "device_block ex_rack_db ex_rack ex_rack_device = Some \<lparr>bl_device = ex_rack_device, bl_start = 10, bl_height = 2, bl_head = 11, bl_count = 1\<rparr>"
    by code_simp
  from layout_shows_device [OF _ this, of "[ex_rack_device]"] show ?thesis by auto
qed

end
