(* ===== verification/Organization.thy ===== *)
theory Organization
  imports AreaTree Devices Ipam
begin

text \<open>
  The pages that edit the organization, its sites, areas and racks
  (\<^verbatim>\<open>core/organization_views.py\<close>, \<^verbatim>\<open>core/forms/organization_forms.py\<close>). The
  description columns are not part of the rows. Of the tables that refer to a site, those of the
  inventory, of the discovery candidates and of the address management are in the state.
\<close>

section \<open>The tables\<close>

record organization =
  og_id :: uid
  og_name :: string

text \<open>\<open>pl_owner\<close> is the column of the sites that leads to their organization.\<close>

record places =
  pl_db :: db
  pl_orgs :: "organization list"
  pl_owner :: "(uid \<times> uid) list"
  pl_ipam :: ipam_db

definition owner :: "places \<Rightarrow> uid \<Rightarrow> uid option" where
  "owner p i = map_of (pl_owner p) i"

section \<open>Writing a row\<close>

text \<open>
  The columns that are unique together are not in the forms, so that only the database checks
  them. A parent that is not set makes two areas differ for it.
\<close>

definition write_site :: "uid \<Rightarrow> site \<Rightarrow> places \<Rightarrow> exn + places" where
  "write_site og s p =
     (if \<exists>t \<in> set (t_sites (pl_db p)). site_id t \<noteq> site_id s \<and> owner p (site_id t) = Some og \<and> site_name t = site_name s
      then Inl (IntegrityError ''dcim_site'')
      else Inr (p\<lparr>pl_db := (pl_db p)\<lparr>t_sites := save_row site_id s (t_sites (pl_db p))\<rparr>,
                  pl_owner := (site_id s, og) # filter (\<lambda>w. fst w \<noteq> site_id s) (pl_owner p)\<rparr>))"

definition write_area :: "area \<Rightarrow> db \<Rightarrow> exn + db" where
  "write_area a d =
     (if area_parent a \<noteq> None \<and> (\<exists>b \<in> set (t_areas d). area_id b \<noteq> area_id a \<and> area_site b = area_site a
           \<and> area_name b = area_name a \<and> area_parent b = area_parent a)
      then Inl (IntegrityError ''dcim_area'')
      else Inr (d\<lparr>t_areas := save_row area_id a (t_areas d)\<rparr>))"

definition write_rack :: "rack \<Rightarrow> db \<Rightarrow> exn + db" where
  "write_rack r d =
     (if \<exists>q \<in> set (t_racks d). rack_id q \<noteq> rack_id r \<and> rack_area q = rack_area r \<and> rack_name q = rack_name r
      then Inl (IntegrityError ''dcim_rack'')
      else Inr (d\<lparr>t_racks := save_row rack_id r (t_racks d)\<rparr>))"

section \<open>Deleting rows\<close>

text \<open>
  A deletion collects the rows that cascade, refuses if a row that protects one of them refers to
  it, and clears the references that may be empty. The children of an area cascade to any depth.
\<close>

definition grow_areas :: "db \<Rightarrow> uid list \<Rightarrow> uid list" where
  "grow_areas d ids = ids @ map area_id (filter (\<lambda>a. area_id a \<notin> set ids \<and> (\<exists>i \<in> set ids. area_parent a = Some i)) (t_areas d))"

definition collect_areas :: "db \<Rightarrow> uid list \<Rightarrow> uid list" where
  "collect_areas d ids = (grow_areas d ^^ length (t_areas d)) ids"

definition racks_in :: "db \<Rightarrow> uid list \<Rightarrow> uid list" where
  "racks_in d areas = map rack_id (filter (\<lambda>r. rack_area r \<in> set areas) (t_racks d))"

definition protects :: "places \<Rightarrow> uid list \<Rightarrow> uid list \<Rightarrow> uid list \<Rightarrow> bool" where
  "protects p sites areas racks \<longleftrightarrow>
     (\<exists>v \<in> set (t_devices (pl_db p)). dev_site v \<in> set sites \<or> dev_area v \<in> set areas \<or> dev_rack v \<in> Some ` set racks)
   \<or> (\<exists>i \<in> set (t_inventory (pl_db p)). inv_site i \<in> set sites \<or> inv_area i \<in> Some ` set areas)
   \<or> (\<exists>v \<in> set (db_vrfs (pl_ipam p)). vrf_site v \<in> set sites)
   \<or> (\<exists>x \<in> set (db_prefixes (pl_ipam p)). px_site x \<in> Some ` set sites)"

definition clear_vlan :: "uid list \<Rightarrow> uid option \<Rightarrow> uid option" where
  "clear_vlan gone v = (if v \<in> Some ` set gone then None else v)"

definition remove_places :: "uid list \<Rightarrow> uid list \<Rightarrow> uid list \<Rightarrow> places \<Rightarrow> exn + places" where
  "remove_places sites areas racks p =
     (if protects p sites areas racks then Inl (ProtectedError ''protected foreign keys'')
      else let d = pl_db p; gone = map vlan_uid (filter (\<lambda>v. vlan_site v \<in> set sites) (t_vlans d))
           in Inr (p\<lparr>pl_db := d\<lparr>t_sites := filter (\<lambda>s. site_id s \<notin> set sites) (t_sites d),
                t_areas := filter (\<lambda>a. area_id a \<notin> set areas) (t_areas d),
                t_racks := filter (\<lambda>r. rack_id r \<notin> set racks) (t_racks d),
                t_vlans := filter (\<lambda>v. vlan_uid v \<notin> set gone) (t_vlans d),
                t_interfaces := map (\<lambda>f. f\<lparr>ifc_access_vlan := clear_vlan gone (ifc_access_vlan f), ifc_native_vlan := clear_vlan gone (ifc_native_vlan f),
                   ifc_trunk_vlans := filter (\<lambda>v. v \<notin> set gone) (ifc_trunk_vlans f)\<rparr>) (t_interfaces d),
                t_candidates := filter (\<lambda>c. cand_site c \<notin> set sites) (t_candidates d)\<rparr>,
              pl_owner := filter (\<lambda>w. fst w \<notin> set sites) (pl_owner p),
              pl_ipam := (pl_ipam p)\<lparr>db_prefixes := map (\<lambda>x. x\<lparr>px_vlan := clear_vlan gone (px_vlan x)\<rparr>) (db_prefixes (pl_ipam p))\<rparr>\<rparr>))"

definition delete_site :: "uid \<Rightarrow> places \<Rightarrow> exn + places" where
  "delete_site i p =
     (let areas = collect_areas (pl_db p) (map area_id (filter (\<lambda>a. area_site a = i) (t_areas (pl_db p))))
      in remove_places [i] areas (racks_in (pl_db p) areas) p)"

definition delete_area :: "uid \<Rightarrow> places \<Rightarrow> exn + places" where
  "delete_area i p =
     (let areas = collect_areas (pl_db p) [i] in remove_places [] areas (racks_in (pl_db p) areas) p)"

definition delete_rack :: "uid \<Rightarrow> places \<Rightarrow> exn + places" where
  "delete_rack i p = remove_places [] [] [i] p"

section \<open>The pages\<close>

text \<open>
  The order of names in the database, and the parameters of the address: the selected area and
  the rack to edit.
\<close>

record page_env =
  pe_orgs :: "organization list \<Rightarrow> organization list"
  pe_sites :: "site list \<Rightarrow> site list"
  pe_areas :: "area list \<Rightarrow> area list"
  pe_racks :: "rack list \<Rightarrow> rack list"
  pe_area :: "uid option"
  pe_rack :: "uid option"

record site_page =
  sp_site :: site
  sp_tree :: "area_tree list option"
  sp_selected :: "area option"
  sp_areas_exist :: bool
  sp_racks :: "rack list"
  sp_edit :: "rack option"
  sp_error :: "string option"

definition first_of :: "'a list \<Rightarrow> 'a option" where
  "first_of xs = (case xs of [] \<Rightarrow> None | x # _ \<Rightarrow> Some x)"

definition or_else :: "'a option \<Rightarrow> 'a option \<Rightarrow> 'a option" where
  "or_else x y = (case x of None \<Rightarrow> y | Some _ \<Rightarrow> x)"

definition site_page_of :: "page_env \<Rightarrow> db \<Rightarrow> site \<Rightarrow> uid option \<Rightarrow> string option \<Rightarrow> site_page" where
  "site_page_of env d s wanted err =
     (let areas = pe_areas env (filter (\<lambda>a. area_site a = site_id s) (t_areas d));
          sel = or_else (case wanted of None \<Rightarrow> None | Some i \<Rightarrow> first_row (\<lambda>a. area_id a = i) areas) (first_of areas)
      in \<lparr>sp_site = s, sp_tree = build_area_tree (length areas) areas (map_option area_id sel), sp_selected = sel,
          sp_areas_exist = (areas \<noteq> []),
          sp_racks = (case sel of None \<Rightarrow> [] | Some a \<Rightarrow> pe_racks env (filter (\<lambda>r. rack_area r = area_id a) (t_racks d))),
          sp_edit = (case pe_rack env of None \<Rightarrow> None
             | Some i \<Rightarrow> first_row (\<lambda>r. rack_id r = i \<and> map_option area_site (find_area d (rack_area r)) = Some (site_id s)) (t_racks d)),
          sp_error = err\<rparr>)"

definition render_site_detail :: "page_env \<Rightarrow> db \<Rightarrow> site \<Rightarrow> uid option \<Rightarrow> string option \<Rightarrow> site_page" where
  "render_site_detail env d s wanted err = site_page_of env d s (or_else wanted (pe_area env)) err"

definition site_detail_context :: "page_env \<Rightarrow> db \<Rightarrow> site \<Rightarrow> site_page" where
  "site_detail_context env d s = site_page_of env d s (pe_area env) None"

record home_page =
  hp_org :: "organization option"
  hp_sites :: "site list"
  hp_selected :: "site option"
  hp_detail :: "site_page option"

definition sites_of :: "page_env \<Rightarrow> places \<Rightarrow> organization \<Rightarrow> site list" where
  "sites_of env p og = pe_sites env (filter (\<lambda>s. owner p (site_id s) = Some (og_id og)) (t_sites (pl_db p)))"

definition organization_home :: "page_env \<Rightarrow> places \<Rightarrow> uid option \<Rightarrow> home_page" where
  "organization_home env p wanted =
     (let og = first_of (pe_orgs env (pl_orgs p));
          sites = (case og of None \<Rightarrow> [] | Some g \<Rightarrow> sites_of env p g);
          sel = or_else (case wanted of None \<Rightarrow> None | Some i \<Rightarrow> first_row (\<lambda>s. site_id s = i) sites) (first_of sites)
      in \<lparr>hp_org = og, hp_sites = sites, hp_selected = sel, hp_detail = map_option (site_detail_context env (pl_db p)) sel\<rparr>)"

section \<open>The requests\<close>

text \<open>
  A submitted form is what the framework has made of it: the faults of its fields, or the cleaned
  values. The outcome is the answer and the tables, or an exception that the page does not catch.
\<close>

datatype answer = NotFound | BadRequest string | Redirect "uid option" | FormErrors field_errs
  | SiteForm site | Detail site_page

definition with_db :: "(exn + db) \<Rightarrow> places \<Rightarrow> exn + places" where
  "with_db r p = bind_res r (\<lambda>d. Inr (p\<lparr>pl_db := d\<rparr>))"

definition organization_update :: "string \<Rightarrow> uid \<Rightarrow> field_errs + string \<Rightarrow> places \<Rightarrow> exn + (answer \<times> places)" where
  "organization_update taken i form p =
     (case first_row (\<lambda>g. og_id g = i) (pl_orgs p) of
        None \<Rightarrow> Inr (NotFound, p)
      | Some g \<Rightarrow> (case form of
          Inl es \<Rightarrow> Inr (FormErrors es, p)
        | Inr name \<Rightarrow>
            if \<exists>h \<in> set (pl_orgs p). og_id h \<noteq> i \<and> og_name h = name then Inr (FormErrors [(''name'', taken)], p)
            else Inr (Redirect None, p\<lparr>pl_orgs := save_row og_id (g\<lparr>og_name := name\<rparr>) (pl_orgs p)\<rparr>)))"

definition site_detail :: "page_env \<Rightarrow> uid \<Rightarrow> places \<Rightarrow> answer" where
  "site_detail env i p = (case find_site (pl_db p) i of None \<Rightarrow> NotFound | Some s \<Rightarrow> Detail (render_site_detail env (pl_db p) s (pe_area env) None))"

definition site_create :: "page_env \<Rightarrow> uid \<Rightarrow> field_errs + (string \<times> string) \<Rightarrow> places \<Rightarrow> exn + (answer \<times> places)" where
  "site_create env new form p =
     (case first_of (pe_orgs env (pl_orgs p)) of
        None \<Rightarrow> Inr (BadRequest ''Organization is required.'', p)
      | Some g \<Rightarrow> (case form of
          Inl es \<Rightarrow> Inr (FormErrors es, p)
        | Inr (name, domain) \<Rightarrow>
            bind_res (write_site (og_id g) \<lparr>site_id = new, site_name = name, site_domain = domain\<rparr> p) (\<lambda>p'. Inr (Redirect (Some new), p'))))"

definition site_edit_form :: "uid \<Rightarrow> places \<Rightarrow> answer" where
  "site_edit_form i p = (case find_site (pl_db p) i of None \<Rightarrow> NotFound | Some s \<Rightarrow> SiteForm s)"

definition site_update :: "uid \<Rightarrow> field_errs + (string \<times> string) \<Rightarrow> places \<Rightarrow> exn + (answer \<times> places)" where
  "site_update i form p =
     (case (find_site (pl_db p) i, owner p i) of
        (Some s, Some og) \<Rightarrow> (case form of
          Inl es \<Rightarrow> Inr (FormErrors es, p)
        | Inr (name, domain) \<Rightarrow>
            bind_res (write_site og (s\<lparr>site_name := name, site_domain := domain\<rparr>) p) (\<lambda>p'. Inr (Redirect (Some i), p')))
      | _ \<Rightarrow> Inr (NotFound, p))"

definition site_delete :: "uid \<Rightarrow> places \<Rightarrow> exn + (answer \<times> places)" where
  "site_delete i p =
     (case find_site (pl_db p) i of None \<Rightarrow> Inr (NotFound, p)
      | Some s \<Rightarrow> bind_res (delete_site i p) (\<lambda>p'. Inr (Redirect None, p')))"

text \<open>The answer of the pages of areas and racks: the site with an area selected.\<close>

definition detail :: "page_env \<Rightarrow> site \<Rightarrow> uid option \<Rightarrow> string option \<Rightarrow> places \<Rightarrow> answer \<times> places" where
  "detail env s sel err p = (Detail (render_site_detail env (pl_db p) s sel err), p)"

definition area_create :: "page_env \<Rightarrow> uid \<Rightarrow> uid \<Rightarrow> uid option \<Rightarrow> field_errs + string \<Rightarrow> places \<Rightarrow> exn + (answer \<times> places)" where
  "area_create env new i parent form p =
     (case find_site (pl_db p) i of None \<Rightarrow> Inr (NotFound, p)
      | Some s \<Rightarrow>
         if (case parent of None \<Rightarrow> False | Some k \<Rightarrow> first_row (\<lambda>a. area_id a = k \<and> area_site a = i) (t_areas (pl_db p)) = None)
         then Inr (NotFound, p)
         else (case form of
             Inl es \<Rightarrow> Inr (detail env s parent (Some ''Invalid area data.'') p)
           | Inr name \<Rightarrow>
               bind_res (with_db (write_area \<lparr>area_id = new, area_name = name, area_parent = parent, area_site = i\<rparr> (pl_db p)) p)
                 (\<lambda>p'. Inr (detail env s (Some new) None p'))))"

text \<open>
  The form validates the row too, and a fault of a column that is not one of its fields is an
  error of the framework.
\<close>

definition area_update :: "page_env \<Rightarrow> uid \<Rightarrow> field_errs + string \<Rightarrow> places \<Rightarrow> exn + (answer \<times> places)" where
  "area_update env i form p =
     (case find_area (pl_db p) i of None \<Rightarrow> Inr (NotFound, p)
      | Some a \<Rightarrow> (case find_site (pl_db p) (area_site a) of None \<Rightarrow> Inl (DoesNotExist ''Site'')
        | Some s \<Rightarrow> (case area_clean (pl_db p) a of
            Inl es \<Rightarrow> Inl (ValueError ''AreaForm has no field named parent'')
          | Inr _ \<Rightarrow> (case form of
              Inl es \<Rightarrow> Inr (detail env s (Some i) (Some ''Unable to update area.'') p)
            | Inr name \<Rightarrow>
                bind_res (with_db (write_area (a\<lparr>area_name := name\<rparr>) (pl_db p)) p) (\<lambda>p'. Inr (detail env s (Some i) None p'))))))"

definition area_delete :: "page_env \<Rightarrow> uid \<Rightarrow> places \<Rightarrow> exn + (answer \<times> places)" where
  "area_delete env i p =
     (case find_area (pl_db p) i of None \<Rightarrow> Inr (NotFound, p)
      | Some a \<Rightarrow> (case find_site (pl_db p) (area_site a) of None \<Rightarrow> Inl (DoesNotExist ''Site'')
        | Some s \<Rightarrow>
           if \<exists>b \<in> set (t_areas (pl_db p)). area_parent b = Some i
           then Inr (detail env s (Some i) (Some ''Cannot delete an area that has child areas.'') p)
           else bind_res (delete_area i p) (\<lambda>p'. Inr (detail env s None None p'))))"

text \<open>The height of a rack is validated by the model: one to a hundred units.\<close>

definition rack_form :: "field_errs + (string \<times> int) \<Rightarrow> (string \<times> int) option" where
  "rack_form form = (case form of Inl es \<Rightarrow> None | Inr (name, h) \<Rightarrow> if 1 \<le> h \<and> h \<le> 100 then Some (name, h) else None)"

definition rack_create :: "page_env \<Rightarrow> uid \<Rightarrow> uid \<Rightarrow> field_errs + (string \<times> int) \<Rightarrow> places \<Rightarrow> exn + (answer \<times> places)" where
  "rack_create env new i form p =
     (case find_area (pl_db p) i of None \<Rightarrow> Inr (NotFound, p)
      | Some a \<Rightarrow> (case find_site (pl_db p) (area_site a) of None \<Rightarrow> Inl (DoesNotExist ''Site'')
        | Some s \<Rightarrow> (case rack_form form of
            None \<Rightarrow> Inr (detail env s (Some i) (Some ''Unable to create rack.'') p)
          | Some (name, h) \<Rightarrow>
              bind_res (with_db (write_rack \<lparr>rack_id = new, rack_name = name, rack_area = i, rack_height = h, rack_occupied = []\<rparr> (pl_db p)) p)
                (\<lambda>p'. Inr (detail env s (Some i) None p')))))"

definition rack_site :: "db \<Rightarrow> rack \<Rightarrow> site option" where
  "rack_site d r = (case find_area d (rack_area r) of None \<Rightarrow> None | Some a \<Rightarrow> find_site d (area_site a))"

definition rack_update :: "page_env \<Rightarrow> uid \<Rightarrow> field_errs + (string \<times> int) \<Rightarrow> places \<Rightarrow> exn + (answer \<times> places)" where
  "rack_update env i form p =
     (case find_rack (pl_db p) i of None \<Rightarrow> Inr (NotFound, p)
      | Some r \<Rightarrow> (case rack_site (pl_db p) r of None \<Rightarrow> Inl (DoesNotExist ''Site'')
        | Some s \<Rightarrow> (case rack_form form of
            None \<Rightarrow> Inr (detail env s (Some (rack_area r)) (Some ''Unable to update rack.'') p)
          | Some (name, h) \<Rightarrow>
              bind_res (with_db (write_rack (r\<lparr>rack_name := name, rack_height := h\<rparr>) (pl_db p)) p)
                (\<lambda>p'. Inr (detail env s (Some (rack_area r)) None p')))))"

definition rack_delete :: "page_env \<Rightarrow> uid \<Rightarrow> places \<Rightarrow> exn + (answer \<times> places)" where
  "rack_delete env i p =
     (case find_rack (pl_db p) i of None \<Rightarrow> Inr (NotFound, p)
      | Some r \<Rightarrow> (case rack_site (pl_db p) r of None \<Rightarrow> Inl (DoesNotExist ''Site'')
        | Some s \<Rightarrow> bind_res (delete_rack i p) (\<lambda>p'. Inr (detail env s (Some (rack_area r)) None p'))))"

section \<open>The requests of a user\<close>

datatype request =
    UpdateOrg string uid "field_errs + string"
  | CreateSite uid "field_errs + (string \<times> string)"
  | UpdateSite uid "field_errs + (string \<times> string)"
  | DeleteSite uid
  | CreateArea uid uid "uid option" "field_errs + string"
  | UpdateArea uid "field_errs + string"
  | DeleteArea uid
  | CreateRack uid uid "field_errs + (string \<times> int)"
  | UpdateRack uid "field_errs + (string \<times> int)"
  | DeleteRack uid

definition serve :: "page_env \<Rightarrow> request \<Rightarrow> places \<Rightarrow> exn + (answer \<times> places)" where
  "serve env q p = (case q of
     UpdateOrg taken i f \<Rightarrow> organization_update taken i f p
   | CreateSite new f \<Rightarrow> site_create env new f p
   | UpdateSite i f \<Rightarrow> site_update i f p
   | DeleteSite i \<Rightarrow> site_delete i p
   | CreateArea new s k f \<Rightarrow> area_create env new s k f p
   | UpdateArea i f \<Rightarrow> area_update env i f p
   | DeleteArea i \<Rightarrow> area_delete env i p
   | CreateRack new a f \<Rightarrow> rack_create env new a f p
   | UpdateRack i f \<Rightarrow> rack_update env i f p
   | DeleteRack i \<Rightarrow> rack_delete env i p)"

text \<open>An exception leaves the tables as they were: every request writes once.\<close>

definition after :: "page_env \<Rightarrow> request \<Rightarrow> places \<Rightarrow> places" where
  "after env q p = (case serve env q p of Inl _ \<Rightarrow> p | Inr (_, p') \<Rightarrow> p')"

end
