(* ===== verification/OrganizationProps.thy ===== *)
theory OrganizationProps
  imports Organization
begin

text \<open>
  What the pages of the organization guarantee: no reference between the tables is ever left
  dangling, an area stays within the site of its parent, and a site is deleted only if nothing of
  the inventory or of the address management is in it.
\<close>

section \<open>Linked tables\<close>

definition site_ids :: "places \<Rightarrow> uid set" where "site_ids p = site_id ` set (t_sites (pl_db p))"
definition area_ids :: "places \<Rightarrow> uid set" where "area_ids p = area_id ` set (t_areas (pl_db p))"
definition rack_ids :: "places \<Rightarrow> uid set" where "rack_ids p = rack_id ` set (t_racks (pl_db p))"
definition vlan_ids :: "places \<Rightarrow> uid set" where "vlan_ids p = vlan_uid ` set (t_vlans (pl_db p))"

text \<open>The reference of an optional column.\<close>

definition refers :: "uid option \<Rightarrow> uid set \<Rightarrow> bool" where
  "refers k ids \<longleftrightarrow> (case k of None \<Rightarrow> True | Some i \<Rightarrow> i \<in> ids)"

lemma refers_simps [simp]: "refers None ids" "refers (Some i) ids \<longleftrightarrow> i \<in> ids"
  by (simp_all add: refers_def)

lemma refers_mono: "refers k ids \<Longrightarrow> ids \<subseteq> ids' \<Longrightarrow> refers k ids'"
  by (cases k) auto

definition area_linked :: "area list \<Rightarrow> area \<Rightarrow> bool" where
  "area_linked areas a \<longleftrightarrow> (\<forall>k. area_parent a = Some k \<longrightarrow> (\<exists>b \<in> set areas. area_id b = k \<and> area_site b = area_site a))"

definition places_linked :: "places \<Rightarrow> bool" where
  "places_linked p \<longleftrightarrow>
     distinct (map site_id (t_sites (pl_db p))) \<and> distinct (map area_id (t_areas (pl_db p))) \<and> distinct (map rack_id (t_racks (pl_db p)))
     \<and> (\<forall>a \<in> set (t_areas (pl_db p)). area_site a \<in> site_ids p \<and> area_linked (t_areas (pl_db p)) a)
     \<and> (\<forall>r \<in> set (t_racks (pl_db p)). rack_area r \<in> area_ids p)
     \<and> (\<forall>s \<in> set (t_sites (pl_db p)). \<exists>g \<in> set (pl_orgs p). owner p (site_id s) = Some (og_id g))"

definition rows_linked :: "places \<Rightarrow> bool" where
  "rows_linked p \<longleftrightarrow>
     (\<forall>v \<in> set (t_devices (pl_db p)). dev_site v \<in> site_ids p \<and> dev_area v \<in> area_ids p \<and> refers (dev_rack v) (rack_ids p))
     \<and> (\<forall>i \<in> set (t_inventory (pl_db p)). inv_site i \<in> site_ids p \<and> refers (inv_area i) (area_ids p))
     \<and> (\<forall>v \<in> set (db_vrfs (pl_ipam p)). vrf_site v \<in> site_ids p)
     \<and> (\<forall>x \<in> set (db_prefixes (pl_ipam p)). refers (px_site x) (site_ids p) \<and> refers (px_vlan x) (vlan_ids p))
     \<and> (\<forall>v \<in> set (t_vlans (pl_db p)). vlan_site v \<in> site_ids p)
     \<and> (\<forall>c \<in> set (t_candidates (pl_db p)). cand_site c \<in> site_ids p)
     \<and> (\<forall>f \<in> set (t_interfaces (pl_db p)). refers (ifc_access_vlan f) (vlan_ids p) \<and> refers (ifc_native_vlan f) (vlan_ids p)
           \<and> set (ifc_trunk_vlans f) \<subseteq> vlan_ids p)"

text \<open>A change that keeps the rows that refer, and loses no row that they refer to.\<close>

lemma rows_linked_mono:
  assumes "rows_linked p" and "site_ids p \<subseteq> site_ids p'" and "area_ids p \<subseteq> area_ids p'" and "rack_ids p \<subseteq> rack_ids p'"
    and "t_devices (pl_db p') = t_devices (pl_db p)" and "t_inventory (pl_db p') = t_inventory (pl_db p)" and "t_vlans (pl_db p') = t_vlans (pl_db p)"
    and "t_candidates (pl_db p') = t_candidates (pl_db p)" and "t_interfaces (pl_db p') = t_interfaces (pl_db p)" and "pl_ipam p' = pl_ipam p"
  shows "rows_linked p'"
proof -
  have "vlan_ids p' = vlan_ids p" by (simp add: vlan_ids_def assms)
  with assms show ?thesis unfolding rows_linked_def by (auto intro: refers_mono)
qed

section \<open>Writing\<close>

lemma write_area_linked:
  assumes "places_linked p" and "write_area a (pl_db p) = Inr d" and "area_site a \<in> site_ids p" and "area_linked (t_areas (pl_db p)) a"
    and "\<forall>b \<in> set (t_areas (pl_db p)). area_id b = area_id a \<longrightarrow> area_site b = area_site a"
  shows "places_linked (p\<lparr>pl_db := d\<rparr>)" "area_ids p \<subseteq> area_ids (p\<lparr>pl_db := d\<rparr>)" "d = (pl_db p)\<lparr>t_areas := t_areas d\<rparr>"
proof -
  let ?as = "t_areas (pl_db p)"
  have d: "d = (pl_db p)\<lparr>t_areas := save_row area_id a ?as\<rparr>" using assms(2) by (simp add: write_area_def split: if_splits)
  have dist: "distinct (map area_id ?as)" using assms(1) by (simp add: places_linked_def)
  have rows: "x \<in> set (save_row area_id a ?as) \<longleftrightarrow> x = a \<or> (x \<in> set ?as \<and> area_id x \<noteq> area_id a)" for x
    using in_save_row [OF dist] .
  have linked: "area_linked (save_row area_id a ?as) x" if "area_linked ?as x" for x
    unfolding area_linked_def
  proof (intro allI impI)
    fix k assume "area_parent x = Some k"
    with that obtain b where b: "b \<in> set ?as" "area_id b = k" "area_site b = area_site x" unfolding area_linked_def by blast
    show "\<exists>b \<in> set (save_row area_id a ?as). area_id b = k \<and> area_site b = area_site x"
    proof (cases "k = area_id a")
      case True
      then show ?thesis using b assms(5) rows by (intro bexI [of _ a]) auto
    next
      case False
      then show ?thesis using b rows by (intro bexI [of _ b]) auto
    qed
  qed
  show "area_ids p \<subseteq> area_ids (p\<lparr>pl_db := d\<rparr>)" by (auto simp: area_ids_def d idents_save_row)
  then have "\<forall>r \<in> set (t_racks (pl_db p)). rack_area r \<in> area_ids (p\<lparr>pl_db := d\<rparr>)" using assms(1) by (auto simp: places_linked_def)
  moreover have "\<forall>x \<in> set (save_row area_id a ?as). area_site x \<in> site_ids p \<and> area_linked (save_row area_id a ?as) x"
    using assms(1,3,4) linked rows by (auto simp: places_linked_def)
  ultimately show "places_linked (p\<lparr>pl_db := d\<rparr>)"
    using assms(1) distinct_save_row [OF dist, of a] by (simp add: places_linked_def d site_ids_def owner_def)
  show "d = (pl_db p)\<lparr>t_areas := t_areas d\<rparr>" by (simp add: d)
qed

lemma write_rack_linked:
  assumes "places_linked p" and "write_rack r (pl_db p) = Inr d" and "rack_area r \<in> area_ids p"
  shows "places_linked (p\<lparr>pl_db := d\<rparr>)" "rack_ids p \<subseteq> rack_ids (p\<lparr>pl_db := d\<rparr>)" "d = (pl_db p)\<lparr>t_racks := t_racks d\<rparr>"
proof -
  have d: "d = (pl_db p)\<lparr>t_racks := save_row rack_id r (t_racks (pl_db p))\<rparr>" using assms(2) by (simp add: write_rack_def split: if_splits)
  have dist: "distinct (map rack_id (t_racks (pl_db p)))" using assms(1) by (simp add: places_linked_def)
  show "rack_ids p \<subseteq> rack_ids (p\<lparr>pl_db := d\<rparr>)" by (auto simp: rack_ids_def d idents_save_row)
  have "\<forall>q \<in> set (save_row rack_id r (t_racks (pl_db p))). rack_area q \<in> area_ids p"
    using assms(1,3) in_save_row [OF dist] by (auto simp: places_linked_def)
  then show "places_linked (p\<lparr>pl_db := d\<rparr>)"
    using assms(1) distinct_save_row [OF dist, of r] by (simp add: places_linked_def d site_ids_def area_ids_def owner_def)
  show "d = (pl_db p)\<lparr>t_racks := t_racks d\<rparr>" by (simp add: d)
qed

lemma write_site_linked:
  assumes "places_linked p" and "write_site og s p = Inr p'" and "\<exists>g \<in> set (pl_orgs p). og_id g = og"
  shows "places_linked p'" "site_ids p \<subseteq> site_ids p'" "p' = p\<lparr>pl_db := (pl_db p)\<lparr>t_sites := t_sites (pl_db p')\<rparr>, pl_owner := pl_owner p'\<rparr>"
proof -
  have p': "p' = p\<lparr>pl_db := (pl_db p)\<lparr>t_sites := save_row site_id s (t_sites (pl_db p))\<rparr>,
      pl_owner := (site_id s, og) # filter (\<lambda>w. fst w \<noteq> site_id s) (pl_owner p)\<rparr>"
    using assms(2) by (simp add: write_site_def split: if_splits)
  have dist: "distinct (map site_id (t_sites (pl_db p)))" using assms(1) by (simp add: places_linked_def)
  show ids: "site_ids p \<subseteq> site_ids p'" by (auto simp: site_ids_def p' idents_save_row)
  have other: "map_of (filter (\<lambda>w. fst w \<noteq> site_id s) ws) k = map_of ws k" if "k \<noteq> site_id s" for k and ws :: "(uid \<times> uid) list"
    using that by (induction ws) auto
  have own: "\<exists>g \<in> set (pl_orgs p). owner p' (site_id t) = Some (og_id g)" if "t \<in> set (t_sites (pl_db p'))" for t
  proof (cases "site_id t = site_id s")
    case True
    with assms(3) show ?thesis by (auto simp: owner_def p')
  next
    case False
    with that have "t \<in> set (t_sites (pl_db p))" using in_save_row [OF dist, of t s] by (auto simp: p')
    then obtain g where "g \<in> set (pl_orgs p)" "owner p (site_id t) = Some (og_id g)" using assms(1) by (auto simp: places_linked_def)
    then show ?thesis using False by (intro bexI [of _ g]) (simp_all add: owner_def p' other)
  qed
  have "pl_orgs p' = pl_orgs p" "t_areas (pl_db p') = t_areas (pl_db p)" "t_racks (pl_db p') = t_racks (pl_db p)" "area_ids p' = area_ids p"
    by (simp_all add: p' area_ids_def)
  moreover have "distinct (map site_id (t_sites (pl_db p')))" using distinct_save_row [OF dist, of s] by (simp add: p')
  ultimately show "places_linked p'" using assms(1) own ids by (auto simp: places_linked_def)
  show "p' = p\<lparr>pl_db := (pl_db p)\<lparr>t_sites := t_sites (pl_db p')\<rparr>, pl_owner := pl_owner p'\<rparr>" by (simp add: p')
qed

section \<open>What a deletion collects\<close>

definition closed_areas :: "db \<Rightarrow> uid list \<Rightarrow> bool" where
  "closed_areas d ids \<longleftrightarrow> (\<forall>a \<in> set (t_areas d). \<forall>k. area_parent a = Some k \<longrightarrow> k \<in> set ids \<longrightarrow> area_id a \<in> set ids)"

lemma grow_closed: "closed_areas d ids \<Longrightarrow> grow_areas d ids = ids"
  by (auto simp: grow_areas_def closed_areas_def filter_empty_conv)

lemma grows_closed: "closed_areas d ids \<Longrightarrow> (grow_areas d ^^ n) ids = ids"
  by (induction n) (simp_all add: grow_closed)

lemma grows_mono: "set ids \<subseteq> set ((grow_areas d ^^ n) ids)"
  by (induction n) (auto simp: grow_areas_def)

abbreviation missing_areas :: "db \<Rightarrow> uid list \<Rightarrow> area list" where
  "missing_areas d ids \<equiv> filter (\<lambda>a. area_id a \<notin> set ids) (t_areas d)"

lemma grow_progress:
  assumes "\<not> closed_areas d ids"
  shows "length (missing_areas d (grow_areas d ids)) < length (missing_areas d ids)"
proof -
  obtain a where a: "a \<in> set (t_areas d)" "area_id a \<notin> set ids" "area_id a \<in> set (grow_areas d ids)"
    using assms by (force simp: closed_areas_def grow_areas_def)
  have "missing_areas d (grow_areas d ids) = filter (\<lambda>a. area_id a \<notin> set (grow_areas d ids)) (missing_areas d ids)"
    by (auto simp: grow_areas_def intro: filter_cong)
  moreover have "length (filter (\<lambda>a. area_id a \<notin> set (grow_areas d ids)) (missing_areas d ids)) < length (missing_areas d ids)"
    using a by (intro length_filter_less [of a]) simp_all
  ultimately show ?thesis by simp
qed

lemma collect_closed: "closed_areas d (collect_areas d ids)"
proof -
  have step: "closed_areas d ((grow_areas d ^^ n) ids) \<or> length (missing_areas d ((grow_areas d ^^ n) ids)) + n \<le> length (t_areas d)" for n
  proof (induction n)
    case (Suc n)
    show ?case
    proof (cases "closed_areas d ((grow_areas d ^^ n) ids)")
      case True
      then show ?thesis by (simp add: grow_closed)
    next
      case False
      with Suc grow_progress [OF False] show ?thesis by simp
    qed
  qed simp
  have "closed_areas d xs" if "length (missing_areas d xs) = 0" for xs
    using that by (auto simp: closed_areas_def filter_empty_conv)
  with step [of "length (t_areas d)"] show ?thesis unfolding collect_areas_def by auto
qed

lemma collect_mono: "set ids \<subseteq> set (collect_areas d ids)"
  by (simp add: collect_areas_def grows_mono)

lemma collect_of_closed: "closed_areas d ids \<Longrightarrow> collect_areas d ids = ids"
  by (simp add: collect_areas_def grows_closed)

section \<open>Deleting\<close>

lemma remove_Inr:
  assumes "remove_places sites areas racks p = Inr p'"
  shows "\<not> protects p sites areas racks"
    "site_ids p' = site_ids p - set sites" "area_ids p' = area_ids p - set areas" "rack_ids p' = rack_ids p - set racks"
    "vlan_ids p' = vlan_uid ` {v \<in> set (t_vlans (pl_db p)). vlan_uid v \<notin> vlan_uid ` {v \<in> set (t_vlans (pl_db p)). vlan_site v \<in> set sites}}"
  using assms by (auto simp: remove_places_def Let_def site_ids_def area_ids_def rack_ids_def vlan_ids_def split: if_splits)

lemma remove_places_linked:
  assumes p: "places_linked p" "rows_linked p" and r: "remove_places sites areas racks p = Inr p'"
    and sites: "\<forall>a \<in> set (t_areas (pl_db p)). area_site a \<in> set sites \<longrightarrow> area_id a \<in> set areas" and closed: "closed_areas (pl_db p) areas"
    and racks: "\<forall>k \<in> set (t_racks (pl_db p)). rack_area k \<in> set areas \<longrightarrow> rack_id k \<in> set racks"
  shows "places_linked p'" "rows_linked p'"
proof -
  let ?gone = "map vlan_uid (filter (\<lambda>v. vlan_site v \<in> set sites) (t_vlans (pl_db p)))"
  have free: "\<not> protects p sites areas racks" using remove_Inr(1) [OF r] .
  note ids = remove_Inr(2-5) [OF r]
  have vlans: "vlan_ids p' = vlan_ids p - set ?gone" unfolding ids by (auto simp: vlan_ids_def)
  have p': "t_sites (pl_db p') = filter (\<lambda>s. site_id s \<notin> set sites) (t_sites (pl_db p))"
    "t_areas (pl_db p') = filter (\<lambda>a. area_id a \<notin> set areas) (t_areas (pl_db p))"
    "t_racks (pl_db p') = filter (\<lambda>k. rack_id k \<notin> set racks) (t_racks (pl_db p))"
    "t_vlans (pl_db p') = filter (\<lambda>v. vlan_uid v \<notin> set ?gone) (t_vlans (pl_db p))"
    "t_interfaces (pl_db p') = map (\<lambda>f. f\<lparr>ifc_access_vlan := clear_vlan ?gone (ifc_access_vlan f), ifc_native_vlan := clear_vlan ?gone (ifc_native_vlan f),
                   ifc_trunk_vlans := filter (\<lambda>v. v \<notin> set ?gone) (ifc_trunk_vlans f)\<rparr>) (t_interfaces (pl_db p))"
    "t_candidates (pl_db p') = filter (\<lambda>c. cand_site c \<notin> set sites) (t_candidates (pl_db p))"
    "t_devices (pl_db p') = t_devices (pl_db p)" "t_inventory (pl_db p') = t_inventory (pl_db p)" "pl_orgs p' = pl_orgs p"
    "pl_owner p' = filter (\<lambda>w. fst w \<notin> set sites) (pl_owner p)" "db_vrfs (pl_ipam p') = db_vrfs (pl_ipam p)"
    "db_prefixes (pl_ipam p') = map (\<lambda>x. x\<lparr>px_vlan := clear_vlan ?gone (px_vlan x)\<rparr>) (db_prefixes (pl_ipam p))"
    using r free by (auto simp: remove_places_def Let_def split: if_splits)
  have clear: "refers (clear_vlan ?gone v) (vlan_ids p')" if "refers v (vlan_ids p)" for v
    using that by (cases v) (auto simp: clear_vlan_def vlans)
  have own: "owner p' i = owner p i" if "i \<notin> set sites" for i
  proof -
    have "map_of (filter (\<lambda>w. fst w \<notin> set sites) ws) i = map_of ws i" for ws :: "(uid \<times> uid) list" using that by (induction ws) auto
    then show ?thesis by (simp add: owner_def p')
  qed
  have areas: "area_site a \<in> site_ids p' \<and> area_linked (t_areas (pl_db p')) a" if "a \<in> set (t_areas (pl_db p'))" for a
  proof -
    have a: "a \<in> set (t_areas (pl_db p))" "area_id a \<notin> set areas" using that by (simp_all add: p')
    then have site: "area_site a \<in> site_ids p'" using p(1) sites by (auto simp: places_linked_def ids)
    have "area_linked (t_areas (pl_db p')) a" unfolding area_linked_def
    proof (intro allI impI)
      fix k assume k: "area_parent a = Some k"
      then have "k \<notin> set areas" using a closed unfolding closed_areas_def by blast
      moreover obtain b where "b \<in> set (t_areas (pl_db p))" "area_id b = k" "area_site b = area_site a"
        using p(1) a(1) k unfolding places_linked_def area_linked_def by blast
      ultimately show "\<exists>b \<in> set (t_areas (pl_db p')). area_id b = k \<and> area_site b = area_site a" by (intro bexI [of _ b]) (simp_all add: p')
    qed
    with site show ?thesis by blast
  qed
  have "\<forall>k \<in> set (t_racks (pl_db p')). rack_area k \<in> area_ids p'"
    using p(1) racks by (auto simp: p' ids places_linked_def)
  moreover have "\<exists>g \<in> set (pl_orgs p'). owner p' (site_id s) = Some (og_id g)" if "s \<in> set (t_sites (pl_db p'))" for s
    using that p(1) own [of "site_id s"] by (auto simp: p' places_linked_def)
  moreover have "distinct (map site_id (t_sites (pl_db p')))" "distinct (map area_id (t_areas (pl_db p')))" "distinct (map rack_id (t_racks (pl_db p')))"
    using p(1) unfolding p'(1-3) places_linked_def by (simp_all add: distinct_map_filter)
  ultimately show "places_linked p'" using areas unfolding places_linked_def by blast
  have "\<forall>v \<in> set (t_devices (pl_db p)). dev_site v \<in> site_ids p' \<and> dev_area v \<in> area_ids p' \<and> refers (dev_rack v) (rack_ids p')"
    using p(2) free by (force simp: rows_linked_def protects_def ids refers_def split: option.splits)
  moreover have "\<forall>i \<in> set (t_inventory (pl_db p)). inv_site i \<in> site_ids p' \<and> refers (inv_area i) (area_ids p')"
    using p(2) free by (force simp: rows_linked_def protects_def ids refers_def split: option.splits)
  moreover have "\<forall>v \<in> set (db_vrfs (pl_ipam p)). vrf_site v \<in> site_ids p'"
    using p(2) free by (auto simp: rows_linked_def protects_def ids)
  moreover have "\<forall>x \<in> set (db_prefixes (pl_ipam p)). refers (px_site x) (site_ids p')"
    using p(2) free by (force simp: rows_linked_def protects_def ids refers_def split: option.splits)
  moreover have "\<forall>v \<in> set (t_vlans (pl_db p')). vlan_site v \<in> site_ids p'"
    using p(2) by (auto simp: rows_linked_def p' ids)
  moreover have "\<forall>f \<in> set (t_interfaces (pl_db p')). refers (ifc_access_vlan f) (vlan_ids p') \<and> refers (ifc_native_vlan f) (vlan_ids p') \<and> set (ifc_trunk_vlans f) \<subseteq> vlan_ids p'"
    using p(2) clear vlans by (auto simp: rows_linked_def p'(5))
  moreover have "\<forall>c \<in> set (t_candidates (pl_db p')). cand_site c \<in> site_ids p'"
    using p(2) by (auto simp: rows_linked_def p' ids)
  moreover have "\<forall>x \<in> set (db_prefixes (pl_ipam p)). refers (clear_vlan ?gone (px_vlan x)) (vlan_ids p')"
    using p(2) clear by (auto simp: rows_linked_def)
  ultimately show "rows_linked p'" unfolding rows_linked_def by (auto simp: p'(7,8,11,12))
qed

section \<open>The requests keep the tables linked\<close>

definition linked :: "places \<Rightarrow> bool" where
  "linked p \<longleftrightarrow> places_linked p \<and> rows_linked p"

lemma linked_write_area:
  assumes "linked p" and "write_area a (pl_db p) = Inr d" and "area_site a \<in> site_ids p" and "area_linked (t_areas (pl_db p)) a"
    and "\<forall>b \<in> set (t_areas (pl_db p)). area_id b = area_id a \<longrightarrow> area_site b = area_site a"
  shows "linked (p\<lparr>pl_db := d\<rparr>)"
proof -
  note w = write_area_linked [OF _ assms(2-5)]
  from assms(1) have p: "places_linked p" "rows_linked p" by (simp_all add: linked_def)
  have d: "d = (pl_db p)\<lparr>t_areas := t_areas d\<rparr>" using w(3) p(1) .
  have "rows_linked (p\<lparr>pl_db := d\<rparr>)"
    by (rule rows_linked_mono [OF p(2) _ w(2) [OF p(1)]]) (subst d, simp add: site_ids_def rack_ids_def)+
  with w(1) [OF p(1)] show ?thesis by (simp add: linked_def)
qed

lemma linked_write_rack:
  assumes "linked p" and "write_rack r (pl_db p) = Inr d" and "rack_area r \<in> area_ids p"
  shows "linked (p\<lparr>pl_db := d\<rparr>)"
proof -
  note w = write_rack_linked [OF _ assms(2-3)]
  from assms(1) have p: "places_linked p" "rows_linked p" by (simp_all add: linked_def)
  have d: "d = (pl_db p)\<lparr>t_racks := t_racks d\<rparr>" using w(3) p(1) .
  have "rows_linked (p\<lparr>pl_db := d\<rparr>)"
    by (rule rows_linked_mono [OF p(2) _ _ w(2) [OF p(1)]]) (subst d, simp add: site_ids_def area_ids_def)+
  with w(1) [OF p(1)] show ?thesis by (simp add: linked_def)
qed

lemma linked_write_site:
  assumes "linked p" and "write_site og s p = Inr p'" and "\<exists>g \<in> set (pl_orgs p). og_id g = og"
  shows "linked p'"
proof -
  note w = write_site_linked [OF _ assms(2-3)]
  from assms(1) have p: "places_linked p" "rows_linked p" by (simp_all add: linked_def)
  have p': "p' = p\<lparr>pl_db := (pl_db p)\<lparr>t_sites := t_sites (pl_db p')\<rparr>, pl_owner := pl_owner p'\<rparr>" using w(3) p(1) .
  have "rows_linked p'"
    by (rule rows_linked_mono [OF p(2) w(2) [OF p(1)]]) (subst p', simp add: area_ids_def rack_ids_def)+
  with w(1) [OF p(1)] show ?thesis by (simp add: linked_def)
qed

lemma racks_in_closed: "rack_area k \<in> set areas \<Longrightarrow> k \<in> set (t_racks d) \<Longrightarrow> rack_id k \<in> set (racks_in d areas)"
  by (auto simp: racks_in_def)

lemma linked_remove:
  assumes "linked p" and "remove_places sites areas racks p = Inr p'"
    and "\<forall>a \<in> set (t_areas (pl_db p)). area_site a \<in> set sites \<longrightarrow> area_id a \<in> set areas" and "closed_areas (pl_db p) areas"
    and "\<forall>k \<in> set (t_racks (pl_db p)). rack_area k \<in> set areas \<longrightarrow> rack_id k \<in> set racks"
  shows "linked p'"
  using remove_places_linked [OF _ _ assms(2-5)] assms(1) by (simp add: linked_def)

lemma find_area_in: "find_area d i = Some a \<Longrightarrow> a \<in> set (t_areas d) \<and> area_id a = i"
  unfolding find_area_def by (drule first_row_Some)

lemma find_site_in: "find_site d i = Some s \<Longrightarrow> s \<in> set (t_sites d) \<and> site_id s = i"
  unfolding find_site_def by (drule first_row_Some)

lemma find_rack_in: "find_rack d i = Some r \<Longrightarrow> r \<in> set (t_racks d) \<and> rack_id r = i"
  unfolding find_rack_def by (drule first_row_Some)

definition fresh_request :: "request \<Rightarrow> places \<Rightarrow> bool" where
  "fresh_request q p = (case q of CreateSite new _ \<Rightarrow> new \<notin> site_ids p | CreateArea new _ _ _ \<Rightarrow> new \<notin> area_ids p
     | CreateRack new _ _ \<Rightarrow> new \<notin> rack_ids p | _ \<Rightarrow> True)"

lemma area_create_linked:
  assumes "linked p" and "new \<notin> area_ids p" and "area_create env new i parent form p = Inr (ans, p')"
  shows "linked p'"
proof -
  consider "p' = p" | s name d where "find_site (pl_db p) i = Some s" "p' = p\<lparr>pl_db := d\<rparr>"
      "write_area \<lparr>area_id = new, area_name = name, area_parent = parent, area_site = i\<rparr> (pl_db p) = Inr d"
      "case parent of None \<Rightarrow> True | Some k \<Rightarrow> first_row (\<lambda>a. area_id a = k \<and> area_site a = i) (t_areas (pl_db p)) \<noteq> None"
    using assms(3) by (auto simp: area_create_def detail_def with_db_def bind_res_def split: option.splits sum.splits if_splits)
  then show ?thesis
  proof cases
    case 2
    have "area_linked (t_areas (pl_db p)) \<lparr>area_id = new, area_name = name, area_parent = parent, area_site = i\<rparr>"
      unfolding area_linked_def
    proof (intro allI impI, simp)
      fix k assume "parent = Some k"
      with 2(4) obtain b where "first_row (\<lambda>a. area_id a = k \<and> area_site a = i) (t_areas (pl_db p)) = Some b" by auto
      from first_row_Some [OF this] show "\<exists>b \<in> set (t_areas (pl_db p)). area_id b = k \<and> area_site b = i" by blast
    qed
    moreover have "i \<in> site_ids p" using find_site_in [OF 2(1)] by (auto simp: site_ids_def)
    moreover have "\<forall>b \<in> set (t_areas (pl_db p)). area_id b \<noteq> new" using assms(2) by (auto simp: area_ids_def)
    ultimately show ?thesis unfolding 2(2) by (intro linked_write_area [OF assms(1) 2(3)]) simp_all
  qed (use assms(1) in simp)
qed

lemma area_update_linked:
  assumes "linked p" and "area_update env i form p = Inr (ans, p')"
  shows "linked p'"
proof -
  consider "p' = p" | a name d where "find_area (pl_db p) i = Some a" "p' = p\<lparr>pl_db := d\<rparr>" "write_area (a\<lparr>area_name := name\<rparr>) (pl_db p) = Inr d"
    using assms(2) by (auto simp: area_update_def detail_def with_db_def bind_res_def split: option.splits sum.splits)
  then show ?thesis
  proof cases
    case 2
    have a: "a \<in> set (t_areas (pl_db p))" using find_area_in [OF 2(1)] by simp
    have places: "places_linked p" using assms(1) by (simp add: linked_def)
    then have "area_site a \<in> site_ids p" "area_linked (t_areas (pl_db p)) (a\<lparr>area_name := name\<rparr>)"
      using a by (auto simp: places_linked_def area_linked_def)
    moreover have "b = a" if "b \<in> set (t_areas (pl_db p))" "area_id b = area_id a" for b
      using places that a unfolding places_linked_def by (metis distinct_map inj_onD)
    ultimately show ?thesis unfolding 2(2) by (intro linked_write_area [OF assms(1) 2(3)]) auto
  qed (use assms(1) in simp)
qed

lemma area_delete_linked:
  assumes "linked p" and "area_delete env i p = Inr (ans, p')"
  shows "linked p'"
proof -
  consider "p' = p" | "delete_area i p = Inr p'"
    using assms(2) by (auto simp: area_delete_def detail_def bind_res_def split: option.splits sum.splits if_splits)
  then show ?thesis
  proof cases
    case 2
    from assms(1) 2 [unfolded delete_area_def Let_def] show ?thesis
      by (rule linked_remove) (simp_all add: collect_closed racks_in_closed)
  qed (use assms(1) in simp)
qed

lemma site_delete_linked:
  assumes "linked p" and "site_delete i p = Inr (ans, p')"
  shows "linked p'"
proof -
  consider "p' = p" | "delete_site i p = Inr p'"
    using assms(2) by (auto simp: site_delete_def bind_res_def split: option.splits sum.splits)
  then show ?thesis
  proof cases
    case 2
    have "set (map area_id (filter (\<lambda>a. area_site a = i) (t_areas (pl_db p))))
        \<subseteq> set (collect_areas (pl_db p) (map area_id (filter (\<lambda>a. area_site a = i) (t_areas (pl_db p)))))" by (rule collect_mono)
    then have all: "\<forall>a \<in> set (t_areas (pl_db p)). area_site a \<in> set [i] \<longrightarrow>
        area_id a \<in> set (collect_areas (pl_db p) (map area_id (filter (\<lambda>a. area_site a = i) (t_areas (pl_db p)))))" by auto
    from assms(1) 2 [unfolded delete_site_def Let_def] all show ?thesis
      by (rule linked_remove) (simp_all add: collect_closed racks_in_closed)
  qed (use assms(1) in simp)
qed

lemma rack_requests_linked:
  assumes "linked p"
  shows "rack_create env new i form p = Inr (ans, p') \<Longrightarrow> linked p'"
    and "rack_update env i form p = Inr (ans, p') \<Longrightarrow> linked p'"
    and "rack_delete env i p = Inr (ans, p') \<Longrightarrow> linked p'"
proof -
  assume "rack_create env new i form p = Inr (ans, p')"
  then consider "p' = p" | a name h d where "find_area (pl_db p) i = Some a" "p' = p\<lparr>pl_db := d\<rparr>"
      "write_rack \<lparr>rack_id = new, rack_name = name, rack_area = i, rack_height = h, rack_occupied = []\<rparr> (pl_db p) = Inr d"
    by (auto simp: rack_create_def detail_def with_db_def bind_res_def split: option.splits sum.splits)
  then show "linked p'"
  proof cases
    case 2
    have "i \<in> area_ids p" using find_area_in [OF 2(1)] by (auto simp: area_ids_def)
    then show ?thesis unfolding 2(2) by (intro linked_write_rack [OF assms 2(3)]) simp
  qed (use assms in simp)
next
  assume "rack_update env i form p = Inr (ans, p')"
  then consider "p' = p" | r name h d where "find_rack (pl_db p) i = Some r" "p' = p\<lparr>pl_db := d\<rparr>"
      "write_rack (r\<lparr>rack_name := name, rack_height := h\<rparr>) (pl_db p) = Inr d"
    by (auto simp: rack_update_def detail_def with_db_def bind_res_def split: option.splits sum.splits)
  then show "linked p'"
  proof cases
    case 2
    have "rack_area r \<in> area_ids p" using find_rack_in [OF 2(1)] assms by (simp add: linked_def places_linked_def)
    then show ?thesis unfolding 2(2) by (intro linked_write_rack [OF assms 2(3)]) simp
  qed (use assms in simp)
next
  assume "rack_delete env i p = Inr (ans, p')"
  then consider "p' = p" | "delete_rack i p = Inr p'"
    by (auto simp: rack_delete_def detail_def bind_res_def split: option.splits sum.splits)
  then show "linked p'"
  proof cases
    case 2
    from assms 2 [unfolded delete_rack_def] show ?thesis by (rule linked_remove) (simp_all add: closed_areas_def)
  qed (use assms in simp)
qed

lemma site_writes_linked:
  assumes "linked p" and "\<And>xs. set (pe_orgs env xs) \<subseteq> set xs"
  shows "site_create env new form p = Inr (ans, p') \<Longrightarrow> linked p'"
    and "site_update i form p = Inr (ans, p') \<Longrightarrow> linked p'"
proof -
  assume "site_create env new form p = Inr (ans, p')"
  then consider "p' = p" | g name dom where "first_of (pe_orgs env (pl_orgs p)) = Some g"
      "write_site (og_id g) \<lparr>site_id = new, site_name = name, site_domain = dom\<rparr> p = Inr p'"
    by (auto simp: site_create_def bind_res_def split: option.splits sum.splits)
  then show "linked p'"
  proof cases
    case 2
    have "g \<in> set (pl_orgs p)" using 2(1) assms(2) [of "pl_orgs p"] by (auto simp: first_of_def split: list.splits)
    then show ?thesis by (intro linked_write_site [OF assms(1) 2(2)]) blast
  qed (use assms in simp)
next
  assume "site_update i form p = Inr (ans, p')"
  then consider "p' = p" | s og name dom where "find_site (pl_db p) i = Some s" "owner p i = Some og"
      "write_site og (s\<lparr>site_name := name, site_domain := dom\<rparr>) p = Inr p'"
    by (auto simp: site_update_def bind_res_def split: option.splits sum.splits)
  then show "linked p'"
  proof cases
    case 2
    have "\<exists>g \<in> set (pl_orgs p). owner p i = Some (og_id g)" using find_site_in [OF 2(1)] assms(1) by (auto simp: linked_def places_linked_def)
    then show ?thesis using 2(2) by (intro linked_write_site [OF assms(1) 2(3)]) auto
  qed (use assms in simp)
qed

lemma organization_update_linked:
  assumes "linked p" and "organization_update taken i form p = Inr (ans, p')"
  shows "linked p'"
proof -
  consider "p' = p" | g name where "first_row (\<lambda>g. og_id g = i) (pl_orgs p) = Some g"
      "p' = p\<lparr>pl_orgs := save_row og_id (g\<lparr>og_name := name\<rparr>) (pl_orgs p)\<rparr>"
    using assms(2) by (auto simp: organization_update_def split: option.splits sum.splits if_splits)
  then show ?thesis
  proof cases
    case 2
    have ids: "og_id ` set (pl_orgs p) \<subseteq> og_id ` set (pl_orgs p')" by (auto simp: 2(2) idents_save_row)
    have "\<exists>h \<in> set (pl_orgs p'). owner p' (site_id s) = Some (og_id h)" if "s \<in> set (t_sites (pl_db p))" for s
    proof -
      from that assms(1) obtain h where h: "h \<in> set (pl_orgs p)" "owner p (site_id s) = Some (og_id h)"
        by (auto simp: linked_def places_linked_def)
      then obtain k where "k \<in> set (pl_orgs p')" "og_id k = og_id h" using ids by (metis image_eqI imageE subsetD)
      with h(2) show ?thesis by (intro bexI [of _ k]) (simp_all add: owner_def 2(2))
    qed
    moreover have "pl_db p' = pl_db p" "pl_ipam p' = pl_ipam p" by (simp_all add: 2(2))
    ultimately show ?thesis using assms(1)
      by (simp add: linked_def places_linked_def rows_linked_def site_ids_def area_ids_def rack_ids_def vlan_ids_def)
  qed (use assms(1) in simp)
qed

text \<open>
  C29. Whatever the pages of the organization are asked to do, and whether or not they raise, the
  tables stay linked: identifiers are unique, the parent of an area is an area of the same site,
  every site has its organization, and no device, inventory item, VLAN, interface, discovery
  candidate, VRF or prefix refers to a site, area, rack or VLAN that is gone.
\<close>

theorem places_stay_linked:
  assumes "linked p" and "fresh_request q p" and "\<And>xs. set (pe_orgs env xs) \<subseteq> set xs"
  shows "linked (after env q p)"
proof (cases "serve env q p")
  case (Inl e)
  with assms(1) show ?thesis by (simp add: after_def)
next
  case (Inr r)
  obtain ans p' where r: "r = (ans, p')" by (cases r)
  have "linked p'"
  proof (cases q)
    case (UpdateOrg taken i f)
    with Inr r organization_update_linked [OF assms(1)] show ?thesis by (simp add: serve_def)
  next
    case (CreateSite new f)
    with Inr r site_writes_linked(1) [OF assms(1,3)] show ?thesis by (simp add: serve_def)
  next
    case (UpdateSite i f)
    with Inr r site_writes_linked(2) [OF assms(1,3)] show ?thesis by (simp add: serve_def)
  next
    case (DeleteSite i)
    with Inr r site_delete_linked [OF assms(1)] show ?thesis by (simp add: serve_def)
  next
    case (CreateArea new s k f)
    with Inr r area_create_linked [OF assms(1)] assms(2) show ?thesis by (simp add: serve_def fresh_request_def)
  next
    case (UpdateArea i f)
    with Inr r area_update_linked [OF assms(1)] show ?thesis by (simp add: serve_def)
  next
    case (DeleteArea i)
    with Inr r area_delete_linked [OF assms(1)] show ?thesis by (simp add: serve_def)
  next
    case (CreateRack new a f)
    with Inr r rack_requests_linked(1) [OF assms(1)] show ?thesis by (simp add: serve_def)
  next
    case (UpdateRack i f)
    with Inr r rack_requests_linked(2) [OF assms(1)] show ?thesis by (simp add: serve_def)
  next
    case (DeleteRack i)
    with Inr r rack_requests_linked(3) [OF assms(1)] show ?thesis by (simp add: serve_def)
  qed
  with Inr r show ?thesis by (simp add: after_def)
qed

section \<open>Deleting a site\<close>

text \<open>The areas of a site, and what is in it: devices and items count by their area and rack too.\<close>

definition areas_of :: "places \<Rightarrow> uid \<Rightarrow> uid set" where
  "areas_of p i = area_id ` {a \<in> set (t_areas (pl_db p)). area_site a = i}"

definition site_in_use :: "places \<Rightarrow> uid \<Rightarrow> bool" where
  "site_in_use p i \<longleftrightarrow>
     (\<exists>v \<in> set (t_devices (pl_db p)). dev_site v = i \<or> dev_area v \<in> areas_of p i
        \<or> (\<exists>k \<in> set (t_racks (pl_db p)). dev_rack v = Some (rack_id k) \<and> rack_area k \<in> areas_of p i))
   \<or> (\<exists>x \<in> set (t_inventory (pl_db p)). inv_site x = i \<or> inv_area x \<in> Some ` areas_of p i)
   \<or> (\<exists>v \<in> set (db_vrfs (pl_ipam p)). vrf_site v = i) \<or> (\<exists>x \<in> set (db_prefixes (pl_ipam p)). px_site x = Some i)"

lemma site_areas_closed:
  assumes "linked p"
  shows "closed_areas (pl_db p) (map area_id (filter (\<lambda>a. area_site a = i) (t_areas (pl_db p))))"
proof -
  let ?as = "t_areas (pl_db p)"
  have "area_site a = i" if "a \<in> set ?as" "area_parent a = Some (area_id c)" "c \<in> set ?as" "area_site c = i" for a c
  proof -
    have link: "distinct (map area_id ?as)" "area_linked ?as a" using assms that(1) by (simp_all add: linked_def places_linked_def)
    from link(2) that(2) obtain b where b: "b \<in> set ?as" "area_id b = area_id c" "area_site b = area_site a" unfolding area_linked_def by blast
    with that(3) link(1) have "b = c" by (metis distinct_map inj_onD)
    with b(3) that(4) show ?thesis by simp
  qed
  then show ?thesis by (auto simp: closed_areas_def)
qed

lemma delete_site_remove:
  assumes "linked p"
  shows "delete_site i p = remove_places [i] (map area_id (filter (\<lambda>a. area_site a = i) (t_areas (pl_db p))))
     (racks_in (pl_db p) (map area_id (filter (\<lambda>a. area_site a = i) (t_areas (pl_db p))))) p"
  by (simp add: delete_site_def Let_def collect_of_closed [OF site_areas_closed [OF assms]])

lemma protects_site:
  "protects p [i] (map area_id (filter (\<lambda>a. area_site a = i) (t_areas (pl_db p))))
     (racks_in (pl_db p) (map area_id (filter (\<lambda>a. area_site a = i) (t_areas (pl_db p))))) \<longleftrightarrow> site_in_use p i"
proof -
  have racks: "k \<in> Some ` set (racks_in (pl_db p) (map area_id (filter (\<lambda>a. area_site a = i) (t_areas (pl_db p)))))
      \<longleftrightarrow> (\<exists>r \<in> set (t_racks (pl_db p)). k = Some (rack_id r) \<and> rack_area r \<in> areas_of p i)" for k
    by (auto simp: racks_in_def areas_of_def image_iff)
  have areas: "set (map area_id (filter (\<lambda>a. area_site a = i) (t_areas (pl_db p)))) = areas_of p i" by (auto simp: areas_of_def)
  have one: "x \<in> set [i] \<longleftrightarrow> x = i" "k \<in> Some ` set [i] \<longleftrightarrow> k = Some i" for x k by auto
  show ?thesis unfolding protects_def site_in_use_def racks unfolding areas one ..
qed

text \<open>The VLANs of a site, and the references that are left when VLANs go.\<close>

definition vlans_of :: "places \<Rightarrow> uid \<Rightarrow> uid set" where
  "vlans_of p i = vlan_uid ` {v \<in> set (t_vlans (pl_db p)). vlan_site v = i}"

definition drop_vlan :: "uid set \<Rightarrow> uid option \<Rightarrow> uid option" where
  "drop_vlan gone v = (case v of None \<Rightarrow> None | Some k \<Rightarrow> if k \<in> gone then None else Some k)"

definition drop_vlans :: "uid set \<Rightarrow> interface \<Rightarrow> interface" where
  "drop_vlans gone f = f\<lparr>ifc_access_vlan := drop_vlan gone (ifc_access_vlan f), ifc_native_vlan := drop_vlan gone (ifc_native_vlan f),
     ifc_trunk_vlans := filter (\<lambda>v. v \<notin> gone) (ifc_trunk_vlans f)\<rparr>"

lemma clear_vlan_drop: "clear_vlan gone v = drop_vlan (set gone) v"
  by (cases v) (auto simp: clear_vlan_def drop_vlan_def)

text \<open>
  C30. A site is deleted exactly if nothing of the inventory or of the address management is in it;
  otherwise the deletion raises and nothing changes. Deleting takes along its areas, their racks, its VLANs
  and the candidates that the discovery found in it, and its link to the organization. The
  references of interfaces and prefixes to its VLANs are cleared. Every other row and every other
  column of the tables of this state stays as it is, devices, items, VRFs and addresses among them. (The
  tables of discovery ranges, filters, jobs and credentials refer to a site too; they are not in this state.)
\<close>

theorem site_delete_decides:
  assumes "linked p"
  shows "case site_delete i p of
      Inl e \<Rightarrow> i \<in> site_ids p \<and> site_in_use p i
    | Inr (ans, p') \<Rightarrow>
        if i \<notin> site_ids p then ans = NotFound \<and> p' = p
        else \<not> site_in_use p i \<and> ans = Redirect None
          \<and> set (t_sites (pl_db p')) = {s \<in> set (t_sites (pl_db p)). site_id s \<noteq> i}
          \<and> set (t_areas (pl_db p')) = {a \<in> set (t_areas (pl_db p)). area_site a \<noteq> i}
          \<and> set (t_racks (pl_db p')) = {k \<in> set (t_racks (pl_db p)). rack_area k \<notin> areas_of p i}
          \<and> t_devices (pl_db p') = t_devices (pl_db p) \<and> t_inventory (pl_db p') = t_inventory (pl_db p)
          \<and> db_vrfs (pl_ipam p') = db_vrfs (pl_ipam p) \<and> db_ips (pl_ipam p') = db_ips (pl_ipam p)
          \<and> map px_cidr (db_prefixes (pl_ipam p')) = map px_cidr (db_prefixes (pl_ipam p))
          \<and> t_vlans (pl_db p') = filter (\<lambda>v. vlan_uid v \<notin> vlans_of p i) (t_vlans (pl_db p))
          \<and> t_candidates (pl_db p') = filter (\<lambda>c. cand_site c \<noteq> i) (t_candidates (pl_db p))
          \<and> t_interfaces (pl_db p') = map (drop_vlans (vlans_of p i)) (t_interfaces (pl_db p))
          \<and> db_prefixes (pl_ipam p') = map (\<lambda>x. x\<lparr>px_vlan := drop_vlan (vlans_of p i) (px_vlan x)\<rparr>) (db_prefixes (pl_ipam p))
          \<and> pl_db p' = (pl_db p)\<lparr>t_sites := t_sites (pl_db p'), t_areas := t_areas (pl_db p'), t_racks := t_racks (pl_db p'),
              t_vlans := t_vlans (pl_db p'), t_candidates := t_candidates (pl_db p'), t_interfaces := t_interfaces (pl_db p')\<rparr>
          \<and> pl_ipam p' = (pl_ipam p)\<lparr>db_prefixes := db_prefixes (pl_ipam p')\<rparr>
          \<and> pl_orgs p' = pl_orgs p \<and> pl_owner p' = filter (\<lambda>w. fst w \<noteq> i) (pl_owner p)"
proof -
  let ?ids = "map area_id (filter (\<lambda>a. area_site a = i) (t_areas (pl_db p)))"
  have found: "find_site (pl_db p) i = None \<longleftrightarrow> i \<notin> site_ids p"
    by (auto simp: find_site_def first_row_None site_ids_def)
  have dist: "distinct (map area_id (t_areas (pl_db p)))" "distinct (map rack_id (t_racks (pl_db p)))"
    using assms by (simp_all add: linked_def places_linked_def)
  have areas: "area_id a \<in> set ?ids \<longleftrightarrow> area_site a = i" if "a \<in> set (t_areas (pl_db p))" for a
    using that dist(1) by (auto simp: distinct_map inj_on_def)
  have racks: "rack_id k \<in> set (racks_in (pl_db p) ?ids) \<longleftrightarrow> rack_area k \<in> areas_of p i" if "k \<in> set (t_racks (pl_db p))" for k
    using that dist(2) by (auto simp: racks_in_def areas_of_def distinct_map inj_on_def)
  show ?thesis
  proof (cases "i \<in> site_ids p")
    case False
    then show ?thesis using found by (simp add: site_delete_def)
  next
    case True
    then obtain s where s: "find_site (pl_db p) i = Some s" using found by (cases "find_site (pl_db p) i") auto
    show ?thesis
    proof (cases "site_in_use p i")
      case used: True
      then have "site_delete i p = Inl (ProtectedError ''protected foreign keys'')"
        using s by (simp add: site_delete_def delete_site_remove [OF assms] remove_places_def protects_site)
      with used True show ?thesis by simp
    next
      case False
      obtain p' where p': "site_delete i p = Inr (Redirect None, p')" "remove_places [i] ?ids (racks_in (pl_db p) ?ids) p = Inr p'"
        using s False by (simp add: site_delete_def delete_site_remove [OF assms] remove_places_def protects_site Let_def)
      have tables: "set (t_sites (pl_db p')) = {s \<in> set (t_sites (pl_db p)). site_id s \<noteq> i}"
        "set (t_areas (pl_db p')) = {a \<in> set (t_areas (pl_db p)). area_id a \<notin> set ?ids}"
        "set (t_racks (pl_db p')) = {k \<in> set (t_racks (pl_db p)). rack_id k \<notin> set (racks_in (pl_db p) ?ids)}"
        "t_devices (pl_db p') = t_devices (pl_db p)" "t_inventory (pl_db p') = t_inventory (pl_db p)"
        "db_vrfs (pl_ipam p') = db_vrfs (pl_ipam p)" "db_ips (pl_ipam p') = db_ips (pl_ipam p)"
        "map px_cidr (db_prefixes (pl_ipam p')) = map px_cidr (db_prefixes (pl_ipam p))"
        using p'(2) by (auto simp: remove_places_def Let_def split: if_splits)
      have gone: "set (map vlan_uid (filter (\<lambda>v. vlan_site v = i) (t_vlans (pl_db p)))) = vlans_of p i" by (auto simp: vlans_of_def)
      have "p' = p\<lparr>pl_db := pl_db p', pl_owner := pl_owner p', pl_ipam := pl_ipam p'\<rparr>"
        and others: "t_vlans (pl_db p') = filter (\<lambda>v. vlan_uid v \<notin> vlans_of p i) (t_vlans (pl_db p))"
        "t_candidates (pl_db p') = filter (\<lambda>c. cand_site c \<noteq> i) (t_candidates (pl_db p))"
        "t_interfaces (pl_db p') = map (drop_vlans (vlans_of p i)) (t_interfaces (pl_db p))"
        "db_prefixes (pl_ipam p') = map (\<lambda>x. x\<lparr>px_vlan := drop_vlan (vlans_of p i) (px_vlan x)\<rparr>) (db_prefixes (pl_ipam p))"
        "pl_db p' = (pl_db p)\<lparr>t_sites := t_sites (pl_db p'), t_areas := t_areas (pl_db p'), t_racks := t_racks (pl_db p'),
           t_vlans := t_vlans (pl_db p'), t_candidates := t_candidates (pl_db p'), t_interfaces := t_interfaces (pl_db p')\<rparr>"
        "pl_ipam p' = (pl_ipam p)\<lparr>db_prefixes := db_prefixes (pl_ipam p')\<rparr>"
        "pl_orgs p' = pl_orgs p" "pl_owner p' = filter (\<lambda>w. fst w \<noteq> i) (pl_owner p)"
        using p'(2) unfolding gone [symmetric]
        by (auto simp: remove_places_def Let_def clear_vlan_drop drop_vlans_def split: if_splits)
      have "set (t_areas (pl_db p')) = {a \<in> set (t_areas (pl_db p)). area_site a \<noteq> i}" unfolding tables(2) using areas by blast
      moreover have "set (t_racks (pl_db p')) = {k \<in> set (t_racks (pl_db p)). rack_area k \<notin> areas_of p i}" unfolding tables(3) using racks by blast
      ultimately show ?thesis using True False p'(1) tables(1,4-8) others by simp
    qed
  qed
qed

section \<open>An example\<close>

definition ex_places :: places where
  "ex_places = \<lparr>pl_db = empty_db\<lparr>t_sites := [\<lparr>site_id = 1, site_name = ''A'', site_domain = []\<rparr>, \<lparr>site_id = 2, site_name = ''B'', site_domain = []\<rparr>],
       t_areas := [\<lparr>area_id = 1, area_name = ''Hall'', area_parent = None, area_site = 1\<rparr>,
         \<lparr>area_id = 2, area_name = ''Cage'', area_parent = Some 1, area_site = 1\<rparr>, \<lparr>area_id = 3, area_name = ''Hall'', area_parent = None, area_site = 2\<rparr>],
       t_devices := [new_device 5 ''sw1'' ''10.0.0.5'' 2 3]\<rparr>,
     pl_orgs = [\<lparr>og_id = 9, og_name = ''Org''\<rparr>], pl_owner = [(1, 9), (2, 9)],
     pl_ipam = \<lparr>db_vrfs = [], db_prefixes = [], db_ifaces = [], db_ips = []\<rparr>\<rparr>"

definition ex_pages :: page_env where
  "ex_pages = \<lparr>pe_orgs = (\<lambda>x. x), pe_sites = (\<lambda>x. x), pe_areas = (\<lambda>x. x), pe_racks = (\<lambda>x. x), pe_area = None, pe_rack = None\<rparr>"

lemma ex_places_linked: "linked ex_places"
  by (simp add: linked_def places_linked_def rows_linked_def area_linked_def site_ids_def area_ids_def rack_ids_def owner_def ex_places_def empty_db_def new_device_def)

lemma places_stay_linked_witness:
  "linked (after ex_pages (CreateRack 4 2 (Inr (''R1'', 42))) ex_places)
   \<and> map rack_name (t_racks (pl_db (after ex_pages (CreateRack 4 2 (Inr (''R1'', 42))) ex_places))) = [''R1'']"
proof
  show "linked (after ex_pages (CreateRack 4 2 (Inr (''R1'', 42))) ex_places)"
    by (rule places_stay_linked [OF ex_places_linked]) (simp_all add: fresh_request_def rack_ids_def ex_places_def ex_pages_def empty_db_def)
  show "map rack_name (t_racks (pl_db (after ex_pages (CreateRack 4 2 (Inr (''R1'', 42))) ex_places))) = [''R1'']" by code_simp
qed

lemma site_delete_decides_witness:
  "linked ex_places \<and> site_in_use ex_places 2 \<and> \<not> site_in_use ex_places 1"
proof (intro conjI)
  have "isl (site_delete 2 ex_places)" "\<not> isl (site_delete 1 ex_places)" by code_simp+
  moreover have "1 \<in> site_ids ex_places" by (simp add: site_ids_def ex_places_def)
  ultimately show "site_in_use ex_places 2" "\<not> site_in_use ex_places 1"
    using site_delete_decides [OF ex_places_linked, of 2] site_delete_decides [OF ex_places_linked, of 1]
    by (auto split: sum.splits prod.splits if_splits simp: isl_def)
qed (rule ex_places_linked)

end
