(* ===== verification/Ipv6Text.thy ===== *)
theory Ipv6Text
  imports PyIp
begin

text \<open>
  The text of an IPv6 address (\<^verbatim>\<open>ipaddress\<close>, \<^verbatim>\<open>str\<close> of an address, as the
  program stores it) is read back as the address, compressed or not. With the IPv4 texts of
  \<open>PyIp\<close> every address that the program prints can be read.
\<close>

section \<open>Groups of hexadecimal digits\<close>

lemma code_hex_char: "d < 16 \<Longrightarrow> code (hex_char d) = (if d < 10 then 48 + d else 87 + d)"
  by (simp add: hex_char_def)

lemma hex_char_digit: "d < 16 \<Longrightarrow> is_hex (hex_char d) \<and> hex_value (hex_char d) = int d"
  by (auto simp: is_hex_def hex_value_def is_digit_def char_lower_def code_hex_char)

lemma hex_char_plain: "d < 16 \<Longrightarrow> hex_char d \<noteq> CHR '':'' \<and> hex_char d \<noteq> CHR ''.''"
  using code_hex_char [of d] by (auto simp: char_eq_code split: if_splits)

lemma hex_str_chars: "c \<in> set (hex_str_nat n) \<Longrightarrow> \<exists>d < 16. c = hex_char d"
proof (induction n rule: hex_str_nat.induct)
  case (1 n)
  from "1.prems" have "c \<in> set (if n < 16 then [hex_char n] else hex_str_nat (n div 16) @ [hex_char (n mod 16)])"
    by (subst (asm) hex_str_nat.simps)
  then consider "n < 16" "c = hex_char n" | "\<not> n < 16" "c \<in> set (hex_str_nat (n div 16))" | "c = hex_char (n mod 16)"
    by (auto split: if_splits)
  then show ?case
  proof cases
    case 3
    then show ?thesis by (intro exI [of _ "n mod 16"]) simp
  qed (use "1.IH" in blast)+
qed

lemma hex_str_nonempty [simp]: "hex_str_nat n \<noteq> []"
  by (subst hex_str_nat.simps) simp

lemma hex_str_length: "n < 65536 \<Longrightarrow> length (hex_str_nat n) \<le> 4"
  by (subst hex_str_nat.simps, subst hex_str_nat.simps, subst hex_str_nat.simps, subst hex_str_nat.simps) auto

lemma hex_str_value: "foldl (\<lambda>n c. 16 * n + hex_value c) 0 (hex_str_nat n) = int n"
proof (induction n rule: hex_str_nat.induct)
  case (1 n)
  have "16 * int (n div 16) + int (n mod 16) = int n" by (simp add: zdiv_int zmod_int)
  with 1 show ?case by (subst hex_str_nat.simps) (auto simp: hex_char_digit)
qed

lemma parse_hextet_str: "n < 65536 \<Longrightarrow> parse_hextet (hex_str_nat n) = Some (int n)"
proof -
  assume "n < 65536"
  moreover have "is_hex c" if "c \<in> set (hex_str_nat n)" for c using hex_str_chars [OF that] hex_char_digit by blast
  ultimately show ?thesis using hex_str_length by (simp add: parse_hextet_def hex_str_value list_all_iff)
qed

abbreviation hex_texts :: "int list \<Rightarrow> string list" where
  "hex_texts hs \<equiv> map (\<lambda>h. hex_str_nat (nat h)) hs"

definition hextet_list :: "int list \<Rightarrow> bool" where
  "hextet_list hs \<longleftrightarrow> (\<forall>h \<in> set hs. 0 \<le> h \<and> h < 65536)"

definition hextet_value :: "int \<Rightarrow> int list \<Rightarrow> int" where
  "hextet_value acc hs = foldl (\<lambda>a h. 65536 * a + h) acc hs"

lemma hextet_value_append: "hextet_value acc (xs @ ys) = hextet_value (hextet_value acc xs) ys"
  by (simp add: hextet_value_def)

lemma parse_hextets_texts: "hextet_list hs \<Longrightarrow> parse_hextets acc (hex_texts hs) = Some (hextet_value acc hs)"
  by (induction hs arbitrary: acc) (auto simp: hextet_list_def hextet_value_def parse_hextet_str nat_less_iff)

lemma hextets_list: "hextet_list (hextets n i)"
  by (induction n arbitrary: i) (auto simp: hextet_list_def)

lemma hextets_length [simp]: "length (hextets n i) = n"
  by (induction n arbitrary: i) auto

lemma hextets_value: "0 \<le> i \<Longrightarrow> i < 65536 ^ n \<Longrightarrow> hextet_value 0 (hextets n i) = i"
proof (induction n arbitrary: i)
  case (Suc n)
  have "i div 65536 < 65536 ^ n" using Suc.prems by (simp add: zdiv_zmult2_eq int_div_less_self minus_mod_eq_mult_div [symmetric])
  with Suc have "hextet_value 0 (hextets n (i div 65536)) = i div 65536" by simp
  then show ?case by (simp add: hextet_value_append) (simp add: hextet_value_def)
qed (simp add: hextet_value_def)

lemma zeros_value: "\<forall>h \<in> set zs. h = 0 \<Longrightarrow> hextet_value acc zs = acc * 65536 ^ length zs"
  by (induction zs arbitrary: acc) (auto simp: hextet_value_def)

section \<open>The compressed run\<close>

lemma best_zero_run_at:
  "best_zero_run i hs best = (st, len) \<Longrightarrow>
     (st, len) = best \<or> (\<exists>j < length hs. st = i + j \<and> len = length (takeWhile (\<lambda>x. x = 0) (drop j hs)))"
proof (induction hs arbitrary: i best)
  case (Cons h hs)
  let ?b = "if snd best < length (takeWhile (\<lambda>x. x = 0) (h # hs)) then (i, length (takeWhile (\<lambda>x. x = 0) (h # hs))) else best"
  from Cons.prems have "best_zero_run (Suc i) hs ?b = (st, len)" by (simp only: best_zero_run.simps Let_def)
  from Cons.IH [OF this] show ?case
  proof
    assume "(st, len) = ?b"
    then show ?thesis
      by (cases "snd best < length (takeWhile (\<lambda>x. x = 0) (h # hs))") (auto intro!: exI [of _ 0])
  next
    assume "\<exists>j < length hs. st = Suc i + j \<and> len = length (takeWhile (\<lambda>x. x = 0) (drop j hs))"
    then obtain j where "j < length hs" "st = Suc i + j" "len = length (takeWhile (\<lambda>x. x = 0) (drop j hs))" by blast
    then show ?thesis by (intro disjI2 exI [of _ "Suc j"]) simp
  qed
qed simp

lemma zero_run_split:
  assumes "best_zero_run 0 hs (0, 0) = (st, len)" and "1 < len"
  shows "hs = take st hs @ replicate len 0 @ drop (st + len) hs \<and> st + len \<le> length hs"
proof -
  have st: "st < length hs" "len = length (takeWhile (\<lambda>x. x = 0) (drop st hs))"
    using best_zero_run_at [OF assms(1)] assms(2) by auto
  let ?z = "takeWhile (\<lambda>x. x = 0) (drop st hs)"
  have zeros: "?z = replicate len 0" unfolding st(2) by (rule replicate_eqI) (auto dest: set_takeWhileD)
  have "drop st hs = ?z @ dropWhile (\<lambda>x. x = 0) (drop st hs)" by simp
  moreover have "dropWhile (\<lambda>x. x = 0) (drop st hs) = drop len (drop st hs)" by (simp only: dropWhile_eq_drop st(2))
  ultimately have "drop st hs = replicate len 0 @ drop (st + len) hs" using zeros by (simp add: add.commute)
  then have "hs = take st hs @ replicate len 0 @ drop (st + len) hs" by (metis append_take_drop_id)
  moreover have "length ?z \<le> length (drop st hs)" by (rule length_takeWhile_le)
  then have "st + len \<le> length hs" using st by simp
  ultimately show ?thesis by blast
qed

section \<open>Reading the text\<close>

lemma hex_text_plain: "s \<in> set (hex_texts hs) \<Longrightarrow> s \<noteq> [] \<and> CHR '':'' \<notin> set s \<and> CHR ''.'' \<notin> set s"
proof -
  assume "s \<in> set (hex_texts hs)"
  then obtain n where s: "s = hex_str_nat n" by auto
  have "c \<noteq> CHR '':'' \<and> c \<noteq> CHR ''.''" if "c \<in> set s" for c
    using hex_str_chars [of c n] that hex_char_plain by (auto simp: s)
  then show ?thesis by (auto simp: s)
qed

definition padded :: "string list \<Rightarrow> string list" where
  "padded ss = (if ss = [] then [[]] else ss)"

lemma split_join_padded: "\<forall>s \<in> set ss. CHR '':'' \<notin> set s \<Longrightarrow> split_on '':'' (join '':'' ss) = padded ss"
  by (cases "ss = []") (auto simp: padded_def contains_char split_on_last intro: split_on_join)

lemma split_append_char: "CHR '':'' \<notin> set s \<Longrightarrow> split_on '':'' (s @ CHR '':'' # t) = s # split_on '':'' t"
  using split_on_append [of s "'':''" t] by (simp add: contains_char)

lemma split_join_append:
  "\<forall>s \<in> set ss. CHR '':'' \<notin> set s \<Longrightarrow> split_on '':'' (join '':'' ss @ CHR '':'' # t) = padded ss @ split_on '':'' t"
proof (induction ss)
  case (Cons s ss)
  show ?case
  proof (cases ss)
    case Nil
    with Cons.prems show ?thesis by (simp add: padded_def split_append_char)
  next
    case (Cons u us)
    with Cons.prems Cons.IH show ?thesis by (simp add: padded_def split_append_char)
  qed
qed (use split_append_char [of "[]" t] in \<open>simp add: padded_def\<close>)

lemma gap_parts:
  assumes "\<forall>s \<in> set ls. s \<noteq> []" and "\<forall>s \<in> set rs. s \<noteq> []"
  shows "inner_empty (padded ls @ [] # padded rs) = [length (padded ls)]"
    and "gap_hi (padded ls @ [] # padded rs) (length (padded ls)) = length ls"
    and "gap_lo (padded ls @ [] # padded rs) (length (padded ls)) = length rs"
    and "take (length ls) (padded ls @ [] # padded rs) = ls"
    and "drop (length (padded ls @ [] # padded rs) - length rs) (padded ls @ [] # padded rs) = rs"
proof -
  let ?ps = "padded ls @ [] # padded rs" and ?k = "length (padded ls)"
  have k: "0 < ?k" by (simp add: padded_def)
  have r: "0 < length (padded rs)" by (simp add: padded_def)
  have left: "?ps ! i \<noteq> []" if "0 < i" "i < ?k" for i
    using that assms(1) by (auto simp: padded_def nth_append split: if_splits)
  have right: "?ps ! i \<noteq> []" if "?k < i" "i < length ?ps - 1" for i
  proof -
    from that have "padded rs = rs" "i - Suc ?k < length rs" by (auto simp: padded_def split: if_splits)
    with that assms(2) show ?thesis by (auto simp: nth_append nth_Cons split: nat.split)
  qed
  have mid: "?ps ! ?k = []" by (simp add: nth_append)
  have "[1..<length ?ps - 1] = [1..<?k] @ ?k # [Suc ?k..<length ?ps - 1]"
  proof -
    have "1 \<le> ?k" using k by (simp only: One_nat_def Suc_le_eq)
    from upt_add_eq_append [OF this, of "length ?ps - 1 - ?k"] r
    have "[1..<length ?ps - 1] = [1..<?k] @ [?k..<length ?ps - 1]" by simp
    moreover have "[?k..<length ?ps - 1] = ?k # [Suc ?k..<length ?ps - 1]" using r by (simp add: upt_conv_Cons)
    ultimately show ?thesis by simp
  qed
  moreover have "filter (\<lambda>i. ?ps ! i = []) [1..<?k] = []" using left by (auto simp: filter_empty_conv)
  moreover have "filter (\<lambda>i. ?ps ! i = []) [Suc ?k..<length ?ps - 1] = []" using right by (auto simp: filter_empty_conv)
  ultimately show "inner_empty ?ps = [?k]" unfolding inner_empty_def using mid by simp
  show "gap_hi ?ps ?k = length ls" using assms(1) by (cases ls) (auto simp: gap_hi_def padded_def)
  show "gap_lo ?ps ?k = length rs"
  proof (cases "rs = []")
    case False
    then have "last ?ps \<noteq> []" using assms(2) by (simp add: padded_def)
    with False show ?thesis by (simp add: gap_lo_def padded_def)
  qed (simp add: gap_lo_def padded_def)
  show "take (length ls) ?ps = ls" by (simp add: padded_def)
  show "drop (length ?ps - length rs) ?ps = rs" by (simp add: padded_def)
qed

lemma parse_compressed:
  assumes "hextet_list (ls @ rs)" and "length ls + length rs < 8"
  shows "parse_ipv6 (join '':'' (hex_texts ls) @ ''::'' @ join '':'' (hex_texts rs))
    = Some (hextet_value (hextet_value 0 ls * 65536 ^ (8 - (length ls + length rs))) rs)"
proof -
  let ?l = "hex_texts ls" and ?r = "hex_texts rs"
  let ?ps = "padded ?l @ [] # padded ?r"
  have plain: "\<forall>s \<in> set ?l. s \<noteq> []" "\<forall>s \<in> set ?r. s \<noteq> []" using hex_text_plain by blast+
  have colon: "\<forall>s \<in> set ?l. CHR '':'' \<notin> set s" "\<forall>s \<in> set ?r. CHR '':'' \<notin> set s" using hex_text_plain by blast+
  have "split_on '':'' (join '':'' ?l @ CHR '':'' # CHR '':'' # join '':'' ?r) = padded ?l @ split_on '':'' (CHR '':'' # join '':'' ?r)"
    using colon(1) by (rule split_join_append)
  also have "split_on '':'' (CHR '':'' # join '':'' ?r) = [] # padded ?r"
    using split_append_char [of "[]" "join '':'' ?r"] split_join_padded [OF colon(2)] by simp
  finally have split: "split_on '':'' (join '':'' ?l @ ''::'' @ join '':'' ?r) = ?ps" by simp
  have "last ?ps = last (padded ?r)" by (simp add: padded_def)
  moreover have "CHR ''.'' \<notin> set (last (padded ?r))"
  proof (cases "rs = []")
    case False
    then have "last ?r \<in> set ?r" by (intro last_in_set) simp
    from hex_text_plain [OF this] False show ?thesis by (simp add: padded_def)
  qed (simp add: padded_def)
  ultimately have suffix: "expand_v4_suffix ?ps = Some ?ps" by (simp add: expand_v4_suffix_def)
  have len: "3 \<le> length ?ps" "length ?ps \<le> 9"
    using assms(2) by (cases ls; cases rs; simp add: padded_def)+
  note gap = gap_parts [OF plain]
  have lists: "hextet_list ls" "hextet_list rs" using assms(1) by (auto simp: hextet_list_def)
  have "fill_gap ?ps (length ?l) (length ?r) = Some (hextet_value (hextet_value 0 ls * 65536 ^ (8 - (length ls + length rs))) rs)"
    unfolding fill_gap_def gap(4,5) using parse_hextets_texts [OF lists(1)] parse_hextets_texts [OF lists(2)] by simp
  moreover have "\<not> ((hd ?ps = [] \<and> length ?l \<noteq> 0) \<or> (last ?ps = [] \<and> length ?r \<noteq> 0) \<or> 8 < length ?l + length ?r + 1)"
  proof -
    have "hd ?ps \<noteq> []" if "ls \<noteq> []" using plain(1) that by (cases ls) (simp_all add: padded_def)
    moreover have "last ?ps \<noteq> []" if "rs \<noteq> []"
    proof -
      from that have "last ?r \<in> set ?r" by (intro last_in_set) simp
      with plain(2) that show ?thesis by (simp add: padded_def del: set_map)
    qed
    ultimately show ?thesis using assms(2) by (intro notI, elim disjE conjE) auto
  qed
  ultimately have "parse_ipv6_parts ?ps = Some (hextet_value (hextet_value 0 ls * 65536 ^ (8 - (length ls + length rs))) rs)"
    unfolding parse_ipv6_parts_def gap(1) using len(2) by (simp add: gap(2,3) del: length_append)
  with split suffix len(1) show ?thesis by (simp add: parse_ipv6_def del: append_Cons)
qed

lemma parse_plain:
  assumes "hextet_list hs" and "length hs = 8"
  shows "parse_ipv6 (join '':'' (hex_texts hs)) = Some (hextet_value 0 hs)"
proof -
  obtain t where t: "t = hex_texts hs" by simp
  have plain: "s \<noteq> [] \<and> CHR '':'' \<notin> set s \<and> CHR ''.'' \<notin> set s" if "s \<in> set t" for s
    using that unfolding t by (rule hex_text_plain)
  have len: "length t = 8" by (simp add: t assms(2))
  then have ne: "t \<noteq> []" by auto
  have split: "split_on '':'' (join '':'' t) = t" using split_join_padded [of t] plain ne by (auto simp: padded_def)
  have "CHR ''.'' \<notin> set (last t)" using plain [OF last_in_set [OF ne]] by blast
  then have suffix: "expand_v4_suffix t = Some t" by (simp add: expand_v4_suffix_def)
  have "t ! i \<noteq> []" if "i < 8" for i using plain [OF nth_mem] that len by simp
  then have "inner_empty t = []" using len unfolding inner_empty_def filter_empty_conv by simp
  then have "parse_ipv6_parts t = parse_hextets 0 t" using len by (simp add: parse_ipv6_parts_def)
  with split suffix len have "parse_ipv6 (join '':'' t) = parse_hextets 0 t" by (simp add: parse_ipv6_def)
  then show ?thesis unfolding t by (simp only: parse_hextets_texts [OF assms(1)])
qed

lemma parse_ipv6_str:
  assumes "0 \<le> i" and "i < 2 ^ 128"
  shows "parse_ipv6 (ipv6_str i) = Some i"
proof -
  let ?hs = "hextets 8 i"
  have val: "hextet_value 0 ?hs = i" using assms by (intro hextets_value) simp_all
  obtain st len where run: "best_zero_run 0 ?hs (0, 0) = (st, len)" by fastforce
  show ?thesis
  proof (cases "1 < len")
    case False
    with run parse_plain [OF hextets_list, of 8 i] val show ?thesis by (simp add: ipv6_str_def Let_def del: hextets.simps)
  next
    case True
    let ?l = "take st ?hs" and ?r = "drop (st + len) ?hs"
    from zero_run_split [OF run True] have split: "?hs = ?l @ replicate len 0 @ ?r" and le: "st + len \<le> 8" by simp_all
    have size: "length ?l + length ?r = 8 - len" "length ?l + length ?r < 8" using le True by simp_all
    have "hextet_list (?l @ ?r)" using hextets_list [of 8 i] by (auto simp: hextet_list_def dest: in_set_takeD in_set_dropD)
    from parse_compressed [OF this size(2)]
    have parse: "parse_ipv6 (ipv6_str i) = Some (hextet_value (hextet_value 0 ?l * 65536 ^ (8 - (length ?l + length ?r))) ?r)"
      using run True by (simp add: ipv6_str_def Let_def del: hextets.simps)
    have "i = hextet_value 0 (?l @ replicate len 0 @ ?r)" using val split by simp
    also have "\<dots> = hextet_value (hextet_value 0 ?l * 65536 ^ len) ?r" by (simp add: hextet_value_append zeros_value del: hextets.simps)
    finally show ?thesis using parse size(1) le by simp
  qed
qed

lemma parse_ipv4_no_dot: "CHR ''.'' \<notin> set s \<Longrightarrow> parse_ipv4 s = None"
  by (simp add: parse_ipv4_def split_on_last contains_char)

lemma join_chars: "set (join sep ss) \<subseteq> set sep \<union> (\<Union>s \<in> set ss. set s)"
  by (induction ss rule: join.induct) auto

lemma ipv6_str_no_dot: "CHR ''.'' \<notin> set (ipv6_str i)"
proof -
  have part: "CHR ''.'' \<notin> set (join '':'' (hex_texts hs))" for hs
  proof -
    have "CHR ''.'' \<notin> (\<Union>s \<in> set (hex_texts hs). set s)" using hex_text_plain by blast
    moreover have "CHR ''.'' \<notin> set '':''" by simp
    ultimately show ?thesis using join_chars by blast
  qed
  show ?thesis using part by (auto simp: ipv6_str_def Let_def split: prod.split)
qed

lemma ip_text_reads:
  assumes "valid_ip a"
  shows "ip_address (ip_str a) = Inr a"
proof (cases "ip_ver a")
  case IPv4
  with assms show ?thesis by (rule ip_address_ipv4_str)
next
  case IPv6
  with assms have "parse_ipv6 (ip_str a) = Some (ip_int a)"
    by (simp add: valid_ip_def ver_bits_def ip_str_def parse_ipv6_str)
  moreover have "parse_ipv4 (ip_str a) = None" using IPv6 by (simp add: ip_str_def parse_ipv4_no_dot ipv6_str_no_dot)
  ultimately show ?thesis using IPv6 by (cases a) (simp add: ip_address_def)
qed

text \<open>The text of an address that the program prints is read back as the address, whatever its version.\<close>

theorem ip_text_reads_back:
  assumes "valid_ip a"
  shows "ip_address (ip_str a) = Inr a"
  using assms by (rule ip_text_reads)

lemma ip_text_reads_back_witness:
  "valid_ip \<lparr>ip_ver = IPv6, ip_int = 65537\<rparr>
   \<and> ip_address (ip_str \<lparr>ip_ver = IPv6, ip_int = 65537\<rparr>) = Inr \<lparr>ip_ver = IPv6, ip_int = 65537\<rparr>"
  using ip_text_reads_back [of "\<lparr>ip_ver = IPv6, ip_int = 65537\<rparr>"] by (simp add: valid_ip_def ver_bits_def)

text \<open>No white space: the text of an address is its own stripped text.\<close>

lemma nat_str_no_space: "c \<in> set (nat_str n) \<Longrightarrow> \<not> is_space c"
  using all_digits_nat_str [of n] digit_not_space by (auto simp: all_digits_def list_all_iff)

lemma hex_char_no_space: "d < 16 \<Longrightarrow> \<not> is_space (hex_char d)"
  using code_hex_char [of d] by (auto simp: is_space_def split: if_splits)

lemma hex_str_no_space: "c \<in> set (hex_str_nat n) \<Longrightarrow> \<not> is_space c"
  using hex_str_chars [of c n] hex_char_no_space by blast

lemma join_no_space:
  assumes "\<forall>s \<in> set ss. \<forall>c \<in> set s. \<not> is_space c" and "\<forall>c \<in> set sep. \<not> is_space c"
  shows "c \<in> set (join sep ss) \<Longrightarrow> \<not> is_space c"
  using assms join_chars [of sep ss] by blast

lemma ip_str_no_space: "c \<in> set (ip_str a) \<Longrightarrow> \<not> is_space c"
proof -
  have sep: "\<forall>c \<in> set ''.''. \<not> is_space c" "\<forall>c \<in> set '':''. \<not> is_space c" by (simp_all add: is_space_def)
  have v4: "\<not> is_space c" if "c \<in> set (ipv4_str i)" for i c
    by (rule join_no_space [OF _ sep(1) that [unfolded ipv4_str_def]]) (auto dest: nat_str_no_space)
  have part: "\<not> is_space c" if "c \<in> set (join '':'' (hex_texts hs))" for hs c
    by (rule join_no_space [OF _ sep(2) that]) (auto dest: hex_str_no_space)
  have v6: "\<not> is_space c" if "c \<in> set (ipv6_str i)" for i c
    using that part sep(2) by (auto simp: ipv6_str_def Let_def split: prod.splits if_splits)
  show "\<not> is_space c" if "c \<in> set (ip_str a)" using that v4 v6 by (auto simp: ip_str_def split: ip_version.splits)
qed

lemma strip_ip_str [simp]: "strip (ip_str a) = ip_str a"
proof (rule strip_trimmed)
  show "trimmed (ip_str a)" using ip_str_no_space [of "hd (ip_str a)" a] ip_str_no_space [of "last (ip_str a)" a] by (cases "ip_str a = []") (simp_all add: trimmed_def)
qed

end
