(* ===== verification/ScanPages.thy ===== *)
theory ScanPages
  imports Review Ipv6Text
begin

text \<open>
  The page that manages the ranges and filters of a site and starts a scan, and the pages that
  follow a scan (\<^verbatim>\<open>network/views/discovery.py\<close>). The texts of identifiers and the orders of
  the database are parameters. A scan is started by creating its job and handing the identifier
  to a worker.
\<close>

section \<open>The rows\<close>

record range_row =
  rr_range :: disc_range
  rr_description :: string

record filter_row =
  fr_filter :: host_filter
  fr_description :: string

record scan_row =
  sw_id :: uid
  sw_by :: uid
  sw_job :: scan_job

record scan_pages =
  sp_db :: db
  sp_ranges :: "range_row list"
  sp_filters :: "filter_row list"
  sp_scans :: "scan_row list"
  sp_queue :: "uid list"

text \<open>
  The request: the values of its form, the identifier of a new row, and the user. The values of a
  form that are not sent are \<open>None\<close>.
\<close>

type_synonym form_post = "string \<Rightarrow> string option"

record scan_env =
  se_text :: "uid \<Rightarrow> string"
  se_uuid :: "string \<Rightarrow> uid option"
  se_sites :: "site list \<Rightarrow> site list"
  se_new :: uid
  se_user :: uid

definition posted :: "form_post \<Rightarrow> string \<Rightarrow> string" where
  "posted q k = strip (or_empty (q k))"

definition posted_or :: "form_post \<Rightarrow> string \<Rightarrow> string \<Rightarrow> string" where
  "posted_or q k other = (if or_empty (q k) = [] then other else or_empty (q k))"

text \<open>\<^verbatim>\<open>int(request.POST.get("scan_port") or 22)\<close>\<close>

definition posted_port :: "form_post \<Rightarrow> exn + int" where
  "posted_port q =
     (if or_empty (q ''scan_port'') = [] then Inr 22
      else case int_of_text (or_empty (q ''scan_port'')) of
          Some n \<Rightarrow> Inr n
        | None \<Rightarrow> Inl (ValueError (''invalid literal for int() with base 10: '' @ py_repr_str (or_empty (q ''scan_port'')))))"

text \<open>The row with the identifier of a form; a text that is no identifier raises.\<close>

definition posted_id :: "scan_env \<Rightarrow> form_post \<Rightarrow> string \<Rightarrow> exn + uid option" where
  "posted_id env q k =
     (case q k of
        None \<Rightarrow> Inr None
      | Some t \<Rightarrow> (case se_uuid env t of None \<Rightarrow> Inl (ValidationError (t @ '' is not a valid UUID.'')) | Some i \<Rightarrow> Inr (Some i)))"

datatype notice = Success string | Failure string

section \<open>Ranges\<close>

definition add_range :: "scan_env \<Rightarrow> site \<Rightarrow> form_post \<Rightarrow> scan_pages \<Rightarrow> exn + (notice \<times> scan_pages)" where
  "add_range env s q st =
     bind_res (posted_port q) (\<lambda>port.
       let cidr = posted q ''cidr''; m = posted_or q ''scan_method'' ''tcp''; on = (q ''enabled'' = Some ''on'');
           fill = (\<lambda>r. \<lparr>rr_range = (rr_range r)\<lparr>dr_method := m, dr_port := port, dr_enabled := on\<rparr>, rr_description = posted q ''description''\<rparr>);
           fresh = \<lparr>rr_range = \<lparr>dr_id = se_new env, dr_site = site_id s, dr_cidr = cidr, dr_enabled = True, dr_method = ''tcp'', dr_port = 22\<rparr>,
                     rr_description = []\<rparr>
       in if cidr = [] then Inr (Failure ''CIDR is required for a discovery range.'', st)
          else Inr (Success (''Discovery range '' @ cidr @ '' saved.''),
            st\<lparr>sp_ranges := upsert (\<lambda>r. dr_site (rr_range r) = site_id s \<and> dr_cidr (rr_range r) = cidr) (fill fresh) fill (sp_ranges st)\<rparr>))"

definition range_of_site :: "site \<Rightarrow> uid option \<Rightarrow> range_row \<Rightarrow> bool" where
  "range_of_site s i r \<longleftrightarrow> i = Some (dr_id (rr_range r)) \<and> dr_site (rr_range r) = site_id s"

definition write_range :: "range_row \<Rightarrow> scan_pages \<Rightarrow> exn + scan_pages" where
  "write_range r st =
     (if \<exists>x \<in> set (sp_ranges st). dr_id (rr_range x) \<noteq> dr_id (rr_range r) \<and> dr_site (rr_range x) = dr_site (rr_range r)
           \<and> dr_cidr (rr_range x) = dr_cidr (rr_range r)
      then Inl (IntegrityError ''network_discoveryrange'')
      else Inr (st\<lparr>sp_ranges := save_row (\<lambda>x. dr_id (rr_range x)) r (sp_ranges st)\<rparr>))"

definition update_range :: "scan_env \<Rightarrow> site \<Rightarrow> form_post \<Rightarrow> scan_pages \<Rightarrow> exn + (notice \<times> scan_pages)" where
  "update_range env s q st =
     bind_res (posted_id env q ''range_id'') (\<lambda>i.
       case first_row (range_of_site s i) (sp_ranges st) of
         None \<Rightarrow> Inr (Failure ''Discovery range not found.'', st)
       | Some r \<Rightarrow> bind_res (posted_port q) (\<lambda>port.
           bind_res (write_range \<lparr>rr_range = (rr_range r)\<lparr>dr_cidr := posted q ''cidr'', dr_method := posted_or q ''scan_method'' ''tcp'',
               dr_port := port, dr_enabled := (q ''enabled'' = Some ''on'')\<rparr>, rr_description = posted q ''description''\<rparr> st)
             (\<lambda>st'. Inr (Success ''Discovery range updated.'', st'))))"

definition delete_range :: "scan_env \<Rightarrow> site \<Rightarrow> form_post \<Rightarrow> scan_pages \<Rightarrow> exn + (notice \<times> scan_pages)" where
  "delete_range env s q st =
     bind_res (posted_id env q ''range_id'') (\<lambda>i.
       Inr (Success ''Discovery range removed.'', st\<lparr>sp_ranges := filter (\<lambda>r. \<not> range_of_site s i r) (sp_ranges st)\<rparr>))"

section \<open>Filters\<close>

definition add_filter :: "scan_env \<Rightarrow> site \<Rightarrow> form_post \<Rightarrow> scan_pages \<Rightarrow> exn + (notice \<times> scan_pages)" where
  "add_filter env s q st =
     Inr (Success ''Discovery filter added.'',
       st\<lparr>sp_filters := sp_filters st @ [\<lparr>fr_filter = \<lparr>hf_id = se_new env, hf_site = site_id s, hf_contains = posted q ''hostname_contains'',
           hf_not_contains = posted q ''hostname_not_contains'', hf_enabled = (q ''enabled'' = Some ''on'')\<rparr>, fr_description = posted q ''description''\<rparr>]\<rparr>)"

definition filter_of_site :: "site \<Rightarrow> uid option \<Rightarrow> filter_row \<Rightarrow> bool" where
  "filter_of_site s i r \<longleftrightarrow> i = Some (hf_id (fr_filter r)) \<and> hf_site (fr_filter r) = site_id s"

definition update_filter :: "scan_env \<Rightarrow> site \<Rightarrow> form_post \<Rightarrow> scan_pages \<Rightarrow> exn + (notice \<times> scan_pages)" where
  "update_filter env s q st =
     bind_res (posted_id env q ''filter_id'') (\<lambda>i.
       case first_row (filter_of_site s i) (sp_filters st) of
         None \<Rightarrow> Inr (Failure ''Discovery filter not found.'', st)
       | Some r \<Rightarrow> Inr (Success ''Discovery filter updated.'',
           st\<lparr>sp_filters := save_row (\<lambda>x. hf_id (fr_filter x))
             \<lparr>fr_filter = (fr_filter r)\<lparr>hf_contains := posted q ''hostname_contains'', hf_not_contains := posted q ''hostname_not_contains'',
                hf_enabled := (q ''enabled'' = Some ''on'')\<rparr>, fr_description = posted q ''description''\<rparr> (sp_filters st)\<rparr>))"

definition delete_filter :: "scan_env \<Rightarrow> site \<Rightarrow> form_post \<Rightarrow> scan_pages \<Rightarrow> exn + (notice \<times> scan_pages)" where
  "delete_filter env s q st =
     bind_res (posted_id env q ''filter_id'') (\<lambda>i.
       Inr (Success ''Discovery filter removed.'', st\<lparr>sp_filters := filter (\<lambda>r. \<not> filter_of_site s i r) (sp_filters st)\<rparr>))"

section \<open>Starting a scan\<close>

definition scan_params :: "form_post \<Rightarrow> string \<Rightarrow> exn + entry" where
  "scan_params q kind =
     (if kind = ''single''
      then bind_res (ip_address (posted q ''single_ip'')) (\<lambda>_. Inr [(''single_ip'', PyStr (posted q ''single_ip''))])
      else if kind = ''cidr''
      then bind_res (ip_network False (posted q ''cidr'')) (\<lambda>_. Inr [(''cidr'', PyStr (posted q ''cidr''))])
      else if kind = ''range''
      then bind_res (ip_address (posted q ''start_ip'')) (\<lambda>a. bind_res (ip_address (posted q ''end_ip'')) (\<lambda>b.
        if ip_ver a \<noteq> ip_ver b then Inl (ValueError ''Start and end IP versions must match.'')
        else if ip_int a > ip_int b then Inl (ValueError ''Start IP must be before end IP.'')
        else Inr [(''start_ip'', PyStr (ip_str a)), (''end_ip'', PyStr (ip_str b))]))
      else if kind \<noteq> ''all'' then Inl (ValueError ''Unsupported scan type.'')
      else Inr [])"

definition start_scan :: "scan_env \<Rightarrow> site \<Rightarrow> form_post \<Rightarrow> scan_pages \<Rightarrow> exn + (notice \<times> scan_pages)" where
  "start_scan env s q st =
     (let kind = posted_or q ''scan_kind'' ''all''
      in bind_res (posted_port q) (\<lambda>port.
           case scan_params q kind of
             Inl e \<Rightarrow> Inr (Failure (''Scan failed: '' @ exn_str e), st)
           | Inr ps \<Rightarrow> Inr (Success ''Discovery scan started. This can take a few minutes.'',
               st\<lparr>sp_scans := sp_scans st @ [\<lparr>sw_id = se_new env, sw_by = se_user env,
                    sw_job = (new_scan_job (site_id s))\<lparr>sj_kind := kind, sj_method := posted_or q ''scan_method'' ''tcp'', sj_port := port, sj_params := ps\<rparr>\<rparr>],
                  sp_queue := sp_queue st @ [se_new env]\<rparr>)))"

section \<open>The page\<close>

text \<open>The site of the request, the first site by name when there is no such one.\<close>

definition page_site :: "scan_env \<Rightarrow> db \<Rightarrow> string option \<Rightarrow> site option" where
  "page_site env d wanted =
     (let sites = se_sites env (t_sites d)
      in case first_row (\<lambda>s. Some (se_text env (site_id s)) = wanted) sites of
           Some s \<Rightarrow> Some s
         | None \<Rightarrow> (case sites of [] \<Rightarrow> None | s # _ \<Rightarrow> Some s))"

text \<open>\<open>Shown\<close> is the page without a change, for a request that is no known action.\<close>

datatype scan_answer = NoSites | Shown | Moved notice

definition wanted_site :: "string option \<Rightarrow> form_post option \<Rightarrow> string option" where
  "wanted_site query post = (if or_empty query \<noteq> [] then query else case post of None \<Rightarrow> None | Some q \<Rightarrow> q ''site_id'')"

definition scan_action :: "scan_env \<Rightarrow> site \<Rightarrow> form_post \<Rightarrow> scan_pages \<Rightarrow> exn + (scan_answer \<times> scan_pages)" where
  "scan_action env s q st =
     (let action = or_empty (q ''action''); moved = map_sum id (\<lambda>(n, st'). (Moved n, st'))
      in if action = ''add_range'' then moved (add_range env s q st)
         else if action = ''update_range'' then moved (update_range env s q st)
         else if action = ''delete_range'' then moved (delete_range env s q st)
         else if action = ''add_filter'' then moved (add_filter env s q st)
         else if action = ''update_filter'' then moved (update_filter env s q st)
         else if action = ''delete_filter'' then moved (delete_filter env s q st)
         else if action = ''scan'' then moved (start_scan env s q st)
         else Inr (Shown, st))"

definition discovery_scan :: "scan_env \<Rightarrow> string option \<Rightarrow> form_post option \<Rightarrow> scan_pages \<Rightarrow> exn + (scan_answer \<times> scan_pages)" where
  "discovery_scan env query post st =
     (case page_site env (sp_db st) (wanted_site query post) of
        None \<Rightarrow> Inr (NoSites, st)
      | Some s \<Rightarrow> (case post of None \<Rightarrow> Inr (Shown, st) | Some q \<Rightarrow> scan_action env s q st))"

text \<open>The status and the results of a scan.\<close>

definition find_scan :: "uid \<Rightarrow> scan_pages \<Rightarrow> scan_row option" where
  "find_scan i st = first_row (\<lambda>r. sw_id r = i) (sp_scans st)"

definition scan_status :: "uid \<Rightarrow> scan_pages \<Rightarrow> (string \<times> string \<times> int list \<times> string) option" where
  "scan_status i st = map_option (\<lambda>r. let j = sw_job r in
     (sj_status j, sj_kind j, [sj_total j, sj_processed j, sj_alive j, sj_exact j, sj_mismatch j, sj_new j], sj_error j)) (find_scan i st)"

definition seen_in_scan :: "scan_job \<Rightarrow> candidate \<Rightarrow> bool" where
  "seen_in_scan j c \<longleftrightarrow> sj_site j = Some (cand_site c)
     \<and> (case sj_started j of None \<Rightarrow> True | Some t \<Rightarrow> t \<le> cand_last_seen c)
     \<and> (case sj_completed j of None \<Rightarrow> True | Some t \<Rightarrow> cand_last_seen c \<le> t)"

definition scan_results ::
  "(candidate list \<Rightarrow> candidate list) \<Rightarrow> uid \<Rightarrow> scan_pages \<Rightarrow> (string \<times> nat \<times> (uid \<times> string \<times> string \<times> string) list) option"
where
  "scan_results ordered i st = map_option (\<lambda>r.
     let items = map (\<lambda>c. (cand_id c, cand_hostname c, cand_ip c, result_status c)) (ordered (filter (seen_in_scan (sw_job r)) (t_candidates (sp_db st))))
     in (sj_status (sw_job r), length items, items)) (find_scan i st)"

section \<open>A started scan can run\<close>

lemma params_run:
  assumes "scan_params q kind = Inr ps"
  shows "\<exists>rs. job_ranges stored site (j\<lparr>sj_kind := kind, sj_params := ps\<rparr>) = Inr rs"
proof -
  have strips: "strip (posted q k) = posted q k" for k by (simp add: posted_def)
  have py: "py_or (PyStr t) (PyStr []) = PyStr t" for t by (simp add: py_or_def)
  consider "kind = ''single''" | "kind = ''cidr''" | "kind = ''range''" | "kind = ''all''"
    using assms by (auto simp: scan_params_def split: if_splits)
  then show ?thesis
  proof cases
    case 1
    with assms obtain a where "ip_address (posted q ''single_ip'') = Inr a" "ps = [(''single_ip'', PyStr (posted q ''single_ip''))]"
      by (auto simp: scan_params_def bind_res_def split: sum.splits)
    then show ?thesis using 1 strips by (simp add: job_ranges_def param_text_def get_def py Let_def)
  next
    case 2
    with assms obtain n where "ip_network False (posted q ''cidr'') = Inr n" "ps = [(''cidr'', PyStr (posted q ''cidr''))]"
      by (auto simp: scan_params_def bind_res_def split: sum.splits)
    then show ?thesis using 2 strips by (simp add: job_ranges_def param_text_def get_def py Let_def)
  next
    case 3
    with assms obtain a b where ab: "ip_address (posted q ''start_ip'') = Inr a" "ip_address (posted q ''end_ip'') = Inr b"
        "ip_ver a = ip_ver b" "ip_int a \<le> ip_int b" "ps = [(''start_ip'', PyStr (ip_str a)), (''end_ip'', PyStr (ip_str b))]"
      by (auto simp: scan_params_def bind_res_def split: sum.splits if_splits)
    have "ip_address (ip_str a) = Inr a" "ip_address (ip_str b) = Inr b"
      using ip_text_reads ip_address_valid ab(1,2) by blast+
    then show ?thesis using 3 ab(3-5) by (simp add: job_ranges_def param_text_def get_def py Let_def)
  next
    case 4
    then show ?thesis by (simp add: job_ranges_def)
  qed
qed

lemma run_completes:
  assumes "find_site d i = Some s" and "sj_site j = Some i" and "\<And>j'. j' = j\<lparr>sj_status := ''running'', sj_started := Some t0\<rparr> \<Longrightarrow> \<exists>rs. job_ranges stored (site_id s) j' = Inr rs"
  shows "sj_status (last (fst (run_scan_job env t0 t1 flts stored j d))) = ''completed''"
proof -
  obtain rs where "job_ranges stored (site_id s) (j\<lparr>sj_status := ''running'', sj_started := Some t0\<rparr>) = Inr rs" using assms(3) by blast
  with assms(1,2) show ?thesis by (simp add: run_scan_job_def Let_def split: prod.split)
qed

text \<open>
  C31. A scan that the page has started can always be run: whatever kind was asked for, the worker
  reads the parameters of the job as the page has, and the job ends as completed. A request that the
  page refuses leaves no job and hands none to the worker.
\<close>

theorem started_scan_completes:
  assumes "start_scan env s q st = Inr (n, st')" and "find_site d (site_id s) = Some s"
  shows "case n of
      Failure m \<Rightarrow> st' = st
    | Success m \<Rightarrow> \<exists>row. sp_scans st' = sp_scans st @ [row] \<and> sp_queue st' = sp_queue st @ [sw_id row]
        \<and> sj_status (sw_job row) = ''pending'' \<and> sj_site (sw_job row) = Some (site_id s)
        \<and> sj_status (last (fst (run_scan_job ne t0 t1 flts stored (sw_job row) d))) = ''completed''"
proof -
  let ?kind = "posted_or q ''scan_kind'' ''all''"
  obtain port where port: "posted_port q = Inr port" using assms(1) by (auto simp: start_scan_def bind_res_def Let_def split: sum.splits)
  show ?thesis
  proof (cases "scan_params q ?kind")
    case (Inl e)
    with assms(1) port show ?thesis by (auto simp: start_scan_def Let_def)
  next
    case (Inr ps)
    let ?j = "(new_scan_job (site_id s))\<lparr>sj_kind := ?kind, sj_method := posted_or q ''scan_method'' ''tcp'', sj_port := port, sj_params := ps\<rparr>"
    have over: "sj_status (last (fst (run_scan_job ne t0 t1 flts stored ?j d))) = ''completed''"
    proof (rule run_completes [OF assms(2)])
      fix j' assume "j' = ?j\<lparr>sj_status := ''running'', sj_started := Some t0\<rparr>"
      moreover from params_run [OF Inr] have "\<exists>rs. job_ranges stored (site_id s) (j'\<lparr>sj_kind := ?kind, sj_params := ps\<rparr>) = Inr rs" .
      ultimately show "\<exists>rs. job_ranges stored (site_id s) j' = Inr rs" by (simp add: new_scan_job_def)
    qed (simp add: new_scan_job_def)
    have "n = Success ''Discovery scan started. This can take a few minutes.''"
      "st' = st\<lparr>sp_scans := sp_scans st @ [\<lparr>sw_id = se_new env, sw_by = se_user env, sw_job = ?j\<rparr>], sp_queue := sp_queue st @ [se_new env]\<rparr>"
      using assms(1) port Inr by (auto simp: start_scan_def Let_def)
    with over show ?thesis by (simp add: new_scan_job_def)
  qed
qed

section \<open>The page touches its site only\<close>

definition range_key :: "range_row \<Rightarrow> uid \<times> string" where
  "range_key r = (dr_site (rr_range r), dr_cidr (rr_range r))"

text \<open>The ranges and filters of the other sites, and the keys of the ranges.\<close>

definition elsewhere :: "site \<Rightarrow> scan_pages \<Rightarrow> range_row list \<times> filter_row list" where
  "elsewhere s st = (filter (\<lambda>r. dr_site (rr_range r) \<noteq> site_id s) (sp_ranges st), filter (\<lambda>r. hf_site (fr_filter r) \<noteq> site_id s) (sp_filters st))"

definition pages_ok :: "scan_pages \<Rightarrow> bool" where
  "pages_ok st \<longleftrightarrow> distinct (map range_key (sp_ranges st)) \<and> distinct (map (\<lambda>r. dr_id (rr_range r)) (sp_ranges st))
     \<and> distinct (map (\<lambda>r. hf_id (fr_filter r)) (sp_filters st))"

definition keeps :: "site \<Rightarrow> scan_pages \<Rightarrow> scan_pages \<Rightarrow> bool" where
  "keeps s st st' \<longleftrightarrow> pages_ok st' \<and> elsewhere s st' = elsewhere s st \<and> sp_db st' = sp_db st"

lemma filter_upsert:
  assumes "\<forall>r \<in> set rs. p r \<longrightarrow> \<not> q r \<and> \<not> q (upd r)" and "\<not> q new"
  shows "filter q (upsert p new upd rs) = filter q rs"
  using assms by (induction rs) auto

lemma filter_save_any:
  assumes "\<forall>x \<in> set rs. ident x = ident r \<longrightarrow> \<not> q x" and "\<not> q r"
  shows "filter q (save_row ident r rs) = filter q rs"
  using assms by (simp add: save_row_def filter_upsert)

lemma map_upsert:
  assumes "\<forall>r \<in> set rs. p r \<longrightarrow> f (upd r) = f r"
  shows "map f (upsert p new upd rs) = (if \<exists>r \<in> set rs. p r then map f rs else map f rs @ [f new])"
  using assms by (induction rs) auto

lemma map_save_row:
  assumes "\<forall>x \<in> set rs. ident x = ident r \<longrightarrow> f x = f r" and "\<exists>x \<in> set rs. ident x = ident r"
  shows "map f (save_row ident r rs) = map f rs"
  using assms by (simp add: save_row_def map_upsert)

lemma same_row:
  "distinct (map f xs) \<Longrightarrow> x \<in> set xs \<Longrightarrow> y \<in> set xs \<Longrightarrow> f x = f y \<Longrightarrow> x = y"
  by (metis distinct_map inj_onD)

lemma add_range_keeps:
  assumes "add_range env s q st = Inr (n, st')" and "pages_ok st" and "se_new env \<notin> (\<lambda>r. dr_id (rr_range r)) ` set (sp_ranges st)"
  shows "keeps s st st'"
proof (cases "posted q ''cidr'' = []")
  case True
  with assms(1,2) show ?thesis by (auto simp: add_range_def bind_res_def Let_def keeps_def split: sum.splits)
next
  case False
  let ?p = "\<lambda>r. dr_site (rr_range r) = site_id s \<and> dr_cidr (rr_range r) = posted q ''cidr''"
  obtain upd new where st': "st' = st\<lparr>sp_ranges := upsert ?p new upd (sp_ranges st)\<rparr>"
    and upd: "\<And>r. range_key (upd r) = range_key r \<and> dr_id (rr_range (upd r)) = dr_id (rr_range r)"
    and new: "range_key new = (site_id s, posted q ''cidr'')" "dr_id (rr_range new) = se_new env"
    using assms(1) False by (auto simp: add_range_def bind_res_def Let_def range_key_def split: sum.splits)
  have site: "dr_site (rr_range (upd r)) = dr_site (rr_range r)" for r using upd [of r] by (simp add: range_key_def)
  have "distinct (map range_key (sp_ranges st'))"
  proof (cases "\<exists>r \<in> set (sp_ranges st). ?p r")
    case True
    then show ?thesis using assms(2) by (simp add: st' map_upsert upd pages_ok_def)
  next
    case False
    then have "(site_id s, posted q ''cidr'') \<notin> range_key ` set (sp_ranges st)" by (auto simp: range_key_def)
    with False show ?thesis using assms(2) by (simp add: st' map_upsert upd new pages_ok_def del: bex_simps)
  qed
  moreover have "distinct (map (\<lambda>r. dr_id (rr_range r)) (sp_ranges st'))"
    using assms(2,3) by (simp add: st' map_upsert upd new pages_ok_def)
  moreover have "filter (\<lambda>r. dr_site (rr_range r) \<noteq> site_id s) (sp_ranges st') = filter (\<lambda>r. dr_site (rr_range r) \<noteq> site_id s) (sp_ranges st)"
    unfolding st' using new by (simp add: range_key_def) (rule filter_upsert, simp_all add: site)
  ultimately show ?thesis using assms(2) by (simp add: keeps_def pages_ok_def elsewhere_def st')
qed

lemma write_range_keeps:
  assumes "write_range r st = Inr st'" and "pages_ok st" and "x \<in> set (sp_ranges st)" and "dr_id (rr_range x) = dr_id (rr_range r)"
    and "dr_site (rr_range x) = site_id s" and "dr_site (rr_range r) = site_id s"
  shows "keeps s st st'"
proof -
  let ?id = "\<lambda>r. dr_id (rr_range r)"
  have st': "st' = st\<lparr>sp_ranges := save_row ?id r (sp_ranges st)\<rparr>"
    and free: "\<forall>y \<in> set (sp_ranges st). ?id y \<noteq> ?id r \<longrightarrow> range_key y \<noteq> range_key r"
    using assms(1) by (auto simp: write_range_def range_key_def split: if_splits)
  have dist: "distinct (map ?id (sp_ranges st))" "distinct (map range_key (sp_ranges st))" using assms(2) by (simp_all add: pages_ok_def)
  have only: "y = x" if "y \<in> set (sp_ranges st)" "?id y = ?id r" for y
    using same_row [OF dist(1) that(1) assms(3)] that(2) assms(4) by simp
  have rows: "z \<in> set (save_row ?id r (sp_ranges st)) \<longleftrightarrow> z = r \<or> (z \<in> set (sp_ranges st) \<and> ?id z \<noteq> ?id r)" for z
    using in_save_row [OF dist(1)] .
  have ids: "distinct (map ?id (save_row ?id r (sp_ranges st)))" using dist(1) by (rule distinct_save_row)
  have "inj_on range_key (set (save_row ?id r (sp_ranges st)))"
    using rows free same_row [OF dist(2)] by (intro inj_onI) metis
  moreover have "distinct (save_row ?id r (sp_ranges st))" using ids by (simp add: distinct_map)
  ultimately have "distinct (map range_key (sp_ranges st'))" by (simp add: st' distinct_map)
  moreover have "filter (\<lambda>r. dr_site (rr_range r) \<noteq> site_id s) (sp_ranges st') = filter (\<lambda>r. dr_site (rr_range r) \<noteq> site_id s) (sp_ranges st)"
    using only assms(5,6) by (auto simp: st' intro!: filter_save_any)
  ultimately show ?thesis using assms(2) ids by (simp add: keeps_def pages_ok_def elsewhere_def st')
qed

lemma filter_drops:
  assumes "\<forall>x \<in> set xs. p x \<longrightarrow> \<not> q x"
  shows "filter q (filter (\<lambda>x. \<not> p x) xs) = filter q xs"
  using assms by (induction xs) auto

lemma range_handlers_keep:
  assumes "pages_ok st"
  shows "update_range env s q st = Inr (n, st') \<Longrightarrow> keeps s st st'"
    and "delete_range env s q st = Inr (n, st') \<Longrightarrow> keeps s st st'"
proof -
  assume "update_range env s q st = Inr (n, st')"
  then consider "st' = st" | i r port where "first_row (range_of_site s i) (sp_ranges st) = Some r"
      "write_range \<lparr>rr_range = (rr_range r)\<lparr>dr_cidr := posted q ''cidr'', dr_method := posted_or q ''scan_method'' ''tcp'',
               dr_port := port, dr_enabled := (q ''enabled'' = Some ''on'')\<rparr>, rr_description = posted q ''description''\<rparr> st = Inr st'"
    by (auto simp: update_range_def bind_res_def split: sum.splits option.splits)
  then show "keeps s st st'"
  proof cases
    case 2
    have r: "r \<in> set (sp_ranges st)" "dr_site (rr_range r) = site_id s" using first_row_Some [OF 2(1)] by (auto simp: range_of_site_def)
    then show ?thesis by (intro write_range_keeps [OF 2(2) assms r(1)]) simp_all
  qed (use assms in \<open>simp add: keeps_def\<close>)
next
  assume "delete_range env s q st = Inr (n, st')"
  then obtain i where st': "st' = st\<lparr>sp_ranges := filter (\<lambda>r. \<not> range_of_site s i r) (sp_ranges st)\<rparr>"
    by (auto simp: delete_range_def bind_res_def split: sum.splits)
  have "filter (\<lambda>r. dr_site (rr_range r) \<noteq> site_id s) (sp_ranges st') = filter (\<lambda>r. dr_site (rr_range r) \<noteq> site_id s) (sp_ranges st)"
    unfolding st' by (simp del: filter_filter) (rule filter_drops, simp add: range_of_site_def)
  then show "keeps s st st'" using assms by (simp add: keeps_def pages_ok_def elsewhere_def st' distinct_map_filter)
qed

lemma filter_handlers_keep:
  assumes "pages_ok st"
  shows "add_filter env s q st = Inr (n, st') \<Longrightarrow> se_new env \<notin> (\<lambda>r. hf_id (fr_filter r)) ` set (sp_filters st) \<Longrightarrow> keeps s st st'"
    and "update_filter env s q st = Inr (n, st') \<Longrightarrow> keeps s st st'"
    and "delete_filter env s q st = Inr (n, st') \<Longrightarrow> keeps s st st'"
proof -
  assume "add_filter env s q st = Inr (n, st')" "se_new env \<notin> (\<lambda>r. hf_id (fr_filter r)) ` set (sp_filters st)"
  with assms show "keeps s st st'" by (auto simp: add_filter_def keeps_def pages_ok_def elsewhere_def)
next
  let ?id = "\<lambda>r. hf_id (fr_filter r)"
  have dist: "distinct (map ?id (sp_filters st))" using assms by (simp add: pages_ok_def)
  assume "update_filter env s q st = Inr (n, st')"
  then obtain i where upd: "(case first_row (filter_of_site s i) (sp_filters st) of
         None \<Rightarrow> Inr (Failure ''Discovery filter not found.'', st)
       | Some r \<Rightarrow> Inr (Success ''Discovery filter updated.'',
           st\<lparr>sp_filters := save_row ?id
             \<lparr>fr_filter = (fr_filter r)\<lparr>hf_contains := posted q ''hostname_contains'', hf_not_contains := posted q ''hostname_not_contains'',
                hf_enabled := (q ''enabled'' = Some ''on'')\<rparr>, fr_description = posted q ''description''\<rparr> (sp_filters st)\<rparr>)) = (Inr (n, st') :: exn + notice \<times> scan_pages)"
    by (auto simp: update_filter_def bind_res_def split: sum.splits)
  consider "st' = st" | r r' where "first_row (filter_of_site s i) (sp_filters st) = Some r" "?id r' = ?id r" "hf_site (fr_filter r') = hf_site (fr_filter r)"
      "st' = st\<lparr>sp_filters := save_row ?id r' (sp_filters st)\<rparr>"
  proof (cases "first_row (filter_of_site s i) (sp_filters st)")
    case None
    with upd that(1) show ?thesis by simp
  next
    case (Some r)
    let ?r = "\<lparr>fr_filter = (fr_filter r)\<lparr>hf_contains := posted q ''hostname_contains'', hf_not_contains := posted q ''hostname_not_contains'',
                hf_enabled := (q ''enabled'' = Some ''on'')\<rparr>, fr_description = posted q ''description''\<rparr>"
    from upd Some show ?thesis by (intro that(2) [OF Some, of ?r]) simp_all
  qed
  then show "keeps s st st'"
  proof cases
    case 2
    have r: "r \<in> set (sp_filters st)" "hf_site (fr_filter r) = site_id s" using first_row_Some [OF 2(1)] by (auto simp: filter_of_site_def)
    have "x = r" if "x \<in> set (sp_filters st)" "?id x = ?id r'" for x using same_row [OF dist that(1) r(1)] that(2) 2(2) by simp
    then have "filter (\<lambda>r. hf_site (fr_filter r) \<noteq> site_id s) (sp_filters st') = filter (\<lambda>r. hf_site (fr_filter r) \<noteq> site_id s) (sp_filters st)"
      using r(2) 2(3) by (auto simp: 2(4) intro!: filter_save_any)
    then show ?thesis using assms distinct_save_row [OF dist, of r'] by (simp add: keeps_def pages_ok_def elsewhere_def 2(4))
  qed (use assms in \<open>simp add: keeps_def\<close>)
next
  assume "delete_filter env s q st = Inr (n, st')"
  then obtain i where st': "st' = st\<lparr>sp_filters := filter (\<lambda>r. \<not> filter_of_site s i r) (sp_filters st)\<rparr>"
    by (auto simp: delete_filter_def bind_res_def split: sum.splits)
  have "filter (\<lambda>r. hf_site (fr_filter r) \<noteq> site_id s) (sp_filters st') = filter (\<lambda>r. hf_site (fr_filter r) \<noteq> site_id s) (sp_filters st)"
    unfolding st' by (simp del: filter_filter) (rule filter_drops, simp add: filter_of_site_def)
  then show "keeps s st st'" using assms by (simp add: keeps_def pages_ok_def elsewhere_def st' distinct_map_filter)
qed

lemma start_scan_keeps:
  assumes "start_scan env s q st = Inr (n, st')" and "pages_ok st"
  shows "keeps s st st'"
  using assms by (auto simp: start_scan_def bind_res_def Let_def keeps_def pages_ok_def elsewhere_def split: sum.splits)

lemma scan_action_keeps:
  assumes "scan_action env s q st = Inr (a, st')" and "pages_ok st"
    and "se_new env \<notin> (\<lambda>r. dr_id (rr_range r)) ` set (sp_ranges st)" and "se_new env \<notin> (\<lambda>r. hf_id (fr_filter r)) ` set (sp_filters st)"
  shows "keeps s st st'"
proof -
  have moved: "\<exists>n. r = Inr (n, st')" if "map_sum id (\<lambda>(n, st'). (Moved n, st')) r = Inr (a, st')" for r :: "exn + (notice \<times> scan_pages)"
    using that by (cases r) auto
  from assms(1) consider "st' = st" | "\<exists>n. add_range env s q st = Inr (n, st')" | "\<exists>n. update_range env s q st = Inr (n, st')"
    | "\<exists>n. delete_range env s q st = Inr (n, st')" | "\<exists>n. add_filter env s q st = Inr (n, st')" | "\<exists>n. update_filter env s q st = Inr (n, st')"
    | "\<exists>n. delete_filter env s q st = Inr (n, st')" | "\<exists>n. start_scan env s q st = Inr (n, st')"
    unfolding scan_action_def Let_def by (auto dest!: moved split: if_splits)
  then show ?thesis
  proof cases
    case 1
    with assms(2) show ?thesis by (simp add: keeps_def)
  next
    case 2
    then show ?thesis using add_range_keeps assms(2,3) by blast
  next
    case 3
    then show ?thesis using range_handlers_keep(1) [OF assms(2)] by blast
  next
    case 4
    then show ?thesis using range_handlers_keep(2) [OF assms(2)] by blast
  next
    case 5
    then show ?thesis using filter_handlers_keep(1) [OF assms(2)] assms(4) by blast
  next
    case 6
    then show ?thesis using filter_handlers_keep(2) [OF assms(2)] by blast
  next
    case 7
    then show ?thesis using filter_handlers_keep(3) [OF assms(2)] by blast
  next
    case 8
    then show ?thesis using start_scan_keeps assms(2) by blast
  qed
qed

text \<open>
  A request to the page changes the ranges and filters of its own site only, keeps every range
  unique within its site and every identifier unique, and never touches the inventory; without any
  site it changes nothing.
\<close>

theorem scan_page_confined:
  assumes "discovery_scan env query post st = Inr (a, st')" and "pages_ok st"
    and "se_new env \<notin> (\<lambda>r. dr_id (rr_range r)) ` set (sp_ranges st) \<union> (\<lambda>r. hf_id (fr_filter r)) ` set (sp_filters st)"
  shows "case page_site env (sp_db st) (wanted_site query post) of
      None \<Rightarrow> a = NoSites \<and> st' = st
    | Some s \<Rightarrow> pages_ok st' \<and> elsewhere s st' = elsewhere s st \<and> sp_db st' = sp_db st"
proof (cases "page_site env (sp_db st) (wanted_site query post)")
  case None
  with assms(1) show ?thesis by (simp add: discovery_scan_def)
next
  case (Some s)
  have "keeps s st st'"
  proof (cases post)
    case None
    with assms(1,2) Some show ?thesis by (simp add: discovery_scan_def keeps_def)
  next
    case post: (Some q)
    have "scan_action env s q st = Inr (a, st')" using assms(1) Some post by (simp add: discovery_scan_def)
    then show ?thesis using assms(2,3) by (intro scan_action_keeps) auto
  qed
  with Some show ?thesis by (simp add: keeps_def)
qed

section \<open>An example\<close>

definition ex_scan_env :: scan_env where
  "ex_scan_env = \<lparr>se_text = (\<lambda>i. nat_str i), se_uuid = (\<lambda>t. map_option nat (int_of_text t)), se_sites = (\<lambda>x. x), se_new = 9, se_user = 1\<rparr>"

definition ex_scan_pages :: scan_pages where
  "ex_scan_pages = \<lparr>sp_db = empty_db\<lparr>t_sites := [\<lparr>site_id = 1, site_name = ''A'', site_domain = []\<rparr>, \<lparr>site_id = 2, site_name = ''B'', site_domain = []\<rparr>]\<rparr>,
     sp_ranges = [\<lparr>rr_range = \<lparr>dr_id = 3, dr_site = 1, dr_cidr = ''10.0.0.0/30'', dr_enabled = True, dr_method = ''tcp'', dr_port = 22\<rparr>, rr_description = []\<rparr>],
     sp_filters = [], sp_scans = [], sp_queue = []\<rparr>"

definition ex_scan_post :: form_post where
  "ex_scan_post = map_of [(''action'', ''scan''), (''site_id'', ''2''), (''scan_kind'', ''single''), (''single_ip'', '' ::1 '')]"

lemma started_scan_completes_witness:
  "\<exists>row :: scan_row. map sw_id (sp_scans (snd (projr (start_scan ex_scan_env \<lparr>site_id = 2, site_name = ''B'', site_domain = []\<rparr> ex_scan_post ex_scan_pages)))) = [sw_id row]
     \<and> sj_status (last (fst (run_scan_job demo_env 1 2 [] [] (sw_job row) (sp_db ex_scan_pages)))) = ''completed''"
proof -
  let ?s = "\<lparr>site_id = 2, site_name = ''B'', site_domain = []\<rparr> :: site"
  obtain st' where start: "start_scan ex_scan_env ?s ex_scan_post ex_scan_pages = Inr (Success ''Discovery scan started. This can take a few minutes.'', st')"
  proof -
    have "\<not> isl (start_scan ex_scan_env ?s ex_scan_post ex_scan_pages)
        \<and> fst (projr (start_scan ex_scan_env ?s ex_scan_post ex_scan_pages)) = Success ''Discovery scan started. This can take a few minutes.''" by code_simp
    then show thesis by (cases "start_scan ex_scan_env ?s ex_scan_post ex_scan_pages") (auto intro: that)
  qed
  have "find_site (sp_db ex_scan_pages) (site_id ?s) = Some ?s" by (simp add: find_site_def ex_scan_pages_def)
  from started_scan_completes [OF start this, of demo_env 1 2 "[]" "[]"] obtain row where
    "sp_scans st' = sp_scans ex_scan_pages @ [row]" "sj_status (last (fst (run_scan_job demo_env 1 2 [] [] (sw_job row) (sp_db ex_scan_pages)))) = ''completed''"
    by auto
  moreover have "sp_scans ex_scan_pages = []" by (simp add: ex_scan_pages_def)
  ultimately show ?thesis by (intro exI [of _ row]) (simp add: start)
qed

lemma scan_page_confined_witness:
  "elsewhere \<lparr>site_id = 2, site_name = ''B'', site_domain = []\<rparr> (snd (projr (discovery_scan ex_scan_env None (Some ex_scan_post) ex_scan_pages)))
   = elsewhere \<lparr>site_id = 2, site_name = ''B'', site_domain = []\<rparr> ex_scan_pages"
proof -
  let ?s = "\<lparr>site_id = 2, site_name = ''B'', site_domain = []\<rparr> :: site" and ?r = "discovery_scan ex_scan_env None (Some ex_scan_post) ex_scan_pages"
  have "\<not> isl ?r" by code_simp
  then obtain a st' where r: "?r = Inr (a, st')" by (cases ?r) auto
  have ok: "pages_ok ex_scan_pages" by (simp add: pages_ok_def ex_scan_pages_def)
  have site: "page_site ex_scan_env (sp_db ex_scan_pages) (ex_scan_post ''site_id'') = Some ?s" by code_simp
  have fresh: "se_new ex_scan_env \<notin> (\<lambda>r. dr_id (rr_range r)) ` set (sp_ranges ex_scan_pages) \<union> (\<lambda>r. hf_id (fr_filter r)) ` set (sp_filters ex_scan_pages)"
    by (simp add: ex_scan_env_def ex_scan_pages_def)
  show ?thesis using scan_page_confined [OF r ok fresh] site r by (simp add: wanted_site_def or_empty_def)
qed

end
