(* ===== verification/CandidatePages.thy ===== *)
theory CandidatePages
  imports Review "HOL-Library.Multiset"
begin

text \<open>
  The overview of the discovery candidates, their list, the page of one candidate, the start of an
  automatic assignment, the list of its jobs, and the choices of the form that makes a candidate a
  device (\<^verbatim>\<open>network/views/discovery.py\<close>). Cutting a list into pages is a library; rows that
  an order leaves equal stay in the order of the table.
\<close>

section \<open>The overview\<close>

record dashboard =
  db_total :: nat
  db_exact :: nat
  db_mismatch :: nat
  db_new :: nat
  db_unclassified :: nat
  db_ssh :: nat
  db_ping :: nat
  db_latest :: "candidate option"
  db_breakdown :: "(uid \<times> string \<times> nat \<times> nat) list"

definition count_rows :: "('r \<Rightarrow> bool) \<Rightarrow> 'r list \<Rightarrow> nat" where
  "count_rows p rs = length (filter p rs)"

definition newest_first :: "candidate list \<Rightarrow> candidate list" where
  "newest_first cs = sort_key (\<lambda>c. - cand_last_seen c) cs"

definition site_breakdown :: "(site list \<Rightarrow> site list) \<Rightarrow> db \<Rightarrow> (uid \<times> string \<times> nat \<times> nat) list" where
  "site_breakdown by_name d =
     map (\<lambda>s. (site_id s, site_name s, count_rows (\<lambda>c. cand_site c = site_id s) (t_candidates d),
           count_rows (\<lambda>c. cand_site c = site_id s \<and> \<not> cand_classified c) (t_candidates d)))
       (by_name (filter (\<lambda>s. \<exists>c \<in> set (t_candidates d). cand_site c = site_id s) (t_sites d)))"

definition discovery_dashboard :: "(site list \<Rightarrow> site list) \<Rightarrow> db \<Rightarrow> dashboard" where
  "discovery_dashboard by_name d =
     (let cs = t_candidates d
      in \<lparr>db_total = length cs, db_exact = count_rows (\<lambda>c. cand_accepted c = Some True) cs,
          db_mismatch = count_rows (\<lambda>c. cand_accepted c = Some False) cs, db_new = count_rows (\<lambda>c. cand_accepted c = None) cs,
          db_unclassified = count_rows (\<lambda>c. \<not> cand_classified c) cs, db_ssh = count_rows cand_ssh cs, db_ping = count_rows cand_ping cs,
          db_latest = (case newest_first cs of [] \<Rightarrow> None | c # _ \<Rightarrow> Some c), db_breakdown = site_breakdown by_name d\<rparr>)"

section \<open>The list\<close>

text \<open>The parameters of the request, with the texts of identifiers as in the database.\<close>

record list_env =
  le_uuid :: "string \<Rightarrow> uid option"
  le_text :: "uid \<Rightarrow> string"
  le_sites :: "site list \<Rightarrow> site list"

definition query_text :: "(string \<Rightarrow> string option) \<Rightarrow> string \<Rightarrow> string \<Rightarrow> string" where
  "query_text q k other = (case q k of None \<Rightarrow> other | Some v \<Rightarrow> v)"

definition text_uid :: "list_env \<Rightarrow> string \<Rightarrow> exn + uid" where
  "text_uid env t = (case le_uuid env t of None \<Rightarrow> Inl (ValidationError (t @ '' is not a valid UUID.'')) | Some i \<Rightarrow> Inr i)"

definition status_order :: "candidate \<Rightarrow> nat" where
  "status_order c = (case cand_accepted c of Some False \<Rightarrow> 0 | None \<Rightarrow> 1 | Some True \<Rightarrow> 2)"

definition with_status :: "string \<Rightarrow> candidate \<Rightarrow> bool" where
  "with_status s c \<longleftrightarrow>
     (if s = ''exact'' then cand_accepted c = Some True else if s = ''mismatch'' then cand_accepted c = Some False
      else if s = ''new'' then cand_accepted c = None else True)"

definition icontains :: "string \<Rightarrow> string \<Rightarrow> bool" where
  "icontains s t \<longleftrightarrow> contains (upper s) (upper t)"

definition candidate_found :: "db \<Rightarrow> string \<Rightarrow> candidate \<Rightarrow> bool" where
  "candidate_found d t c \<longleftrightarrow> t = [] \<or> icontains (cand_ip c) t \<or> icontains (cand_hostname c) t
     \<or> (case find_site d (cand_site c) of None \<Rightarrow> False | Some s \<Rightarrow> icontains (site_name s) t)"

definition candidate_wanted :: "db \<Rightarrow> (string \<Rightarrow> string option) \<Rightarrow> uid option \<Rightarrow> candidate \<Rightarrow> bool" where
  "candidate_wanted d q site c \<longleftrightarrow> (case site of None \<Rightarrow> True | Some i \<Rightarrow> cand_site c = i)
     \<and> with_status (query_text q ''status'' ''all'') c \<and> (q ''ssh_only'' = Some ''1'' \<longrightarrow> cand_ssh c)
     \<and> candidate_found d (strip (query_text q ''search'' [])) c"

record candidate_page =
  cp_candidates :: "candidate list"
  cp_sites :: "(string \<times> string) list"
  cp_summary :: "nat \<times> nat \<times> nat \<times> nat \<times> nat"

definition discovery_candidates :: "list_env \<Rightarrow> db \<Rightarrow> (string \<Rightarrow> string option) \<Rightarrow> exn + candidate_page" where
  "discovery_candidates env d q =
     (let site = query_text q ''site'' ''all''; cs = t_candidates d
      in bind_res (if site = ''all'' then Inr None else map_sum id Some (text_uid env site)) (\<lambda>site.
         let rows = sort_key status_order (newest_first (filter (candidate_wanted d q site) cs))
         in Inr \<lparr>cp_candidates = rows,
              cp_sites = (''all'', ''All sites'') # map (\<lambda>s. (le_text env (site_id s), site_name s)) (le_sites env (t_sites d)),
              cp_summary = (length cs, count_rows (\<lambda>c. cand_accepted c = Some True) cs, count_rows (\<lambda>c. cand_accepted c = Some False) cs,
                 count_rows (\<lambda>c. cand_accepted c = None) cs, length rows)\<rparr>))"

section \<open>The page of a candidate\<close>

record candidate_detail =
  cd_candidate :: candidate
  cd_class :: string
  cd_explanation :: string
  cd_by_ip :: "device option"
  cd_by_name :: "device option"
  cd_match :: "device option"

definition discovery_candidate_detail :: "db \<Rightarrow> uid \<Rightarrow> candidate_detail option" where
  "discovery_candidate_detail d i =
     map_option (\<lambda>c. let a = device_by_ip d c; b = by_hostname d c
       in \<lparr>cd_candidate = c, cd_class = shown_class c, cd_explanation = explanation d c, cd_by_ip = a, cd_by_name = b,
           cd_match = (if cand_accepted c = None then None else case a of None \<Rightarrow> b | Some v \<Rightarrow> Some v)\<rparr>)
     (first_row (\<lambda>c. cand_id c = i) (t_candidates d))"

section \<open>Starting an automatic assignment\<close>

record assign_row =
  aw_id :: uid
  aw_by :: uid
  aw_site :: "uid option"
  aw_hostname :: string
  aw_limit :: "int option"
  aw_include :: bool
  aw_candidates :: "uid list"
  aw_total :: nat
  aw_status :: string
  aw_created :: moment

text \<open>The identifiers of the request are read one after the other; the first bad one raises.\<close>

fun text_uids :: "list_env \<Rightarrow> string list \<Rightarrow> exn + uid list" where
  "text_uids env [] = Inr []"
| "text_uids env (t # ts) = bind_res (text_uid env t) (\<lambda>i. bind_res (text_uids env ts) (\<lambda>is. Inr (i # is)))"

definition include_config :: "string list \<Rightarrow> string option \<Rightarrow> bool" where
  "include_config ids v = (if ids \<noteq> [] \<and> v = None then True else or_empty v \<noteq> [])"

definition site_of_form :: "list_env \<Rightarrow> string option \<Rightarrow> exn + uid option" where
  "site_of_form env v = (if or_empty v = [] \<or> v = Some ''all'' then Inr None else map_sum id Some (text_uid env (or_empty v)))"

text \<open>The message, the jobs and the tasks that are handed to a worker.\<close>

definition start_assign ::
  "list_env \<Rightarrow> uid \<Rightarrow> uid \<Rightarrow> moment \<Rightarrow> string list \<Rightarrow> (string \<Rightarrow> string option) \<Rightarrow> db \<Rightarrow> assign_row list \<times> (uid \<times> uid list) list
     \<Rightarrow> exn + (string \<times> assign_row list \<times> (uid \<times> uid list) list)"
where
  "start_assign env user new now ids q d st =
     bind_res (text_uids env ids) (\<lambda>is.
     bind_res (site_of_form env (q ''auto_site_id'')) (\<lambda>site.
     let host = strip (or_empty (q ''candidate_hostname'')); raw = or_empty (q ''limit''); cs = auto_candidates is site host raw d
     in if cs = [] then Inr (''No eligible candidates to auto-assign.'', st)
        else Inr (''Auto-assign started for '' @ nat_str (length cs) @ '' candidate(s). Job '' @ le_text env new @ ''.'',
          fst st @ [\<lparr>aw_id = new, aw_by = user, aw_site = site, aw_hostname = host, aw_limit = int_of_text raw,
             aw_include = include_config ids (q ''include_config''), aw_candidates = cs, aw_total = length cs, aw_status = ''pending'', aw_created = now\<rparr>],
          snd st @ [(new, cs)])))"

section \<open>The jobs of a user\<close>

definition job_filter :: "(string \<Rightarrow> string option) \<Rightarrow> string" where
  "job_filter q =
     (let s = lower (strip (if or_empty (q ''status'') = [] then ''running'' else or_empty (q ''status'')))
      in if s \<in> {''running'', ''pending'', ''completed'', ''failed'', ''all''} then s else ''running'')"

definition user_jobs :: "uid \<Rightarrow> (string \<Rightarrow> string option) \<Rightarrow> assign_row list \<Rightarrow> assign_row list" where
  "user_jobs user q js =
     sort_key (\<lambda>j. - aw_created j) (filter (\<lambda>j. aw_by j = user \<and> (job_filter q = ''all'' \<or> aw_status j = job_filter q)) js)"

text \<open>The jobs, and the job whose items the page shows.\<close>

definition auto_assign_jobs :: "list_env \<Rightarrow> uid \<Rightarrow> (string \<Rightarrow> string option) \<Rightarrow> assign_row list \<Rightarrow> exn + (assign_row list \<times> assign_row option)" where
  "auto_assign_jobs env user q js =
     (let rows = user_jobs user q js; report = strip (or_empty (q ''job''))
      in if report = [] then Inr (rows, None)
         else bind_res (text_uid env report) (\<lambda>i. Inr (rows, first_row (\<lambda>j. aw_id j = i) rows)))"

section \<open>The form of a new device\<close>

text \<open>
  What the form offers: a name, the areas of the site of the candidate, and the racks of the area that
  was sent or that it starts with. A value that is not offered is refused by the framework before
  the checks of the form.
\<close>

definition proposed_name :: "candidate \<Rightarrow> string" where
  "proposed_name c = (if cand_hostname c = [] then map (\<lambda>x. if x = CHR ''.'' then CHR ''-'' else x) (cand_ip c) else cand_hostname c)"

definition offered_areas :: "db \<Rightarrow> candidate \<Rightarrow> area list" where
  "offered_areas d c = filter (\<lambda>a. area_site a = cand_site c) (t_areas d)"

definition offered_racks :: "db \<Rightarrow> uid option \<Rightarrow> rack list" where
  "offered_racks d a = (case a of None \<Rightarrow> [] | Some i \<Rightarrow> filter (\<lambda>r. rack_area r = i) (t_racks d))"

section \<open>The overview adds up\<close>

lemma count_split: "count_rows p xs = count_rows (\<lambda>x. p x \<and> q x) xs + count_rows (\<lambda>x. p x \<and> \<not> q x) xs"
  unfolding count_rows_def by (induction xs) auto

lemma count_false [simp]: "count_rows (\<lambda>_. False) xs = 0"
  by (simp add: count_rows_def)

lemma count_keys:
  assumes "distinct ks"
  shows "(\<Sum>k \<leftarrow> ks. count_rows (\<lambda>x. f x = k \<and> p x) xs) = count_rows (\<lambda>x. f x \<in> set ks \<and> p x) xs"
  using assms
proof (induction ks)
  case (Cons k ks)
  have "count_rows (\<lambda>x. f x \<in> set (k # ks) \<and> p x) xs
      = count_rows (\<lambda>x. (f x \<in> set (k # ks) \<and> p x) \<and> f x = k) xs + count_rows (\<lambda>x. (f x \<in> set (k # ks) \<and> p x) \<and> f x \<noteq> k) xs"
    by (rule count_split)
  also have "(\<lambda>x. (f x \<in> set (k # ks) \<and> p x) \<and> f x = k) = (\<lambda>x. f x = k \<and> p x)" by auto
  also have "(\<lambda>x. (f x \<in> set (k # ks) \<and> p x) \<and> f x \<noteq> k) = (\<lambda>x. f x \<in> set ks \<and> p x)" using Cons.prems by auto
  finally show ?case using Cons by simp
qed simp

lemma three_counts:
  "length xs = count_rows (\<lambda>x. f x = Some True) xs + count_rows (\<lambda>x. f x = Some False) xs + count_rows (\<lambda>x. f x = None) xs"
proof (induction xs)
  case (Cons x xs)
  consider "f x = None" | "f x = Some True" | "f x = Some False" by (cases "f x") auto
  then show ?case using Cons.IH by cases (simp_all add: count_rows_def)
qed (simp add: count_rows_def)

lemma newest_first_head:
  assumes "newest_first cs = c # rest"
  shows "c \<in> set cs \<and> (\<forall>x \<in> set cs. cand_last_seen x \<le> cand_last_seen c)"
proof -
  have "set (c # rest) = set cs" unfolding assms [symmetric] newest_first_def by simp
  moreover have "sorted (map (\<lambda>c. - cand_last_seen c) (c # rest))" unfolding assms [symmetric] newest_first_def by simp
  ultimately show ?thesis by auto
qed

text \<open>
  The numbers of the overview add up: the exact matches, the mismatches and the rest are all
  candidates, and so are the candidates of the sites together, the unclassified ones likewise; the
  candidate that it names as the latest is one that was seen last.
\<close>

theorem dashboard_adds_up:
  assumes "\<forall>c \<in> set (t_candidates d). cand_site c \<in> site_id ` set (t_sites d)" and "distinct (map site_id (t_sites d))"
    and "\<And>xs. mset (by_name xs) = mset xs"
  shows "let b = discovery_dashboard by_name d in
      db_total b = db_exact b + db_mismatch b + db_new b
    \<and> db_total b = (\<Sum>(i, n, k, u) \<leftarrow> db_breakdown b. k) \<and> db_unclassified b = (\<Sum>(i, n, k, u) \<leftarrow> db_breakdown b. u)
    \<and> (case db_latest b of None \<Rightarrow> t_candidates d = []
        | Some c \<Rightarrow> c \<in> set (t_candidates d) \<and> (\<forall>x \<in> set (t_candidates d). cand_last_seen x \<le> cand_last_seen c))"
proof -
  let ?cs = "t_candidates d" and ?b = "discovery_dashboard by_name d"
  let ?sites = "filter (\<lambda>s. \<exists>c \<in> set ?cs. cand_site c = site_id s) (t_sites d)"
  let ?ids = "map site_id (by_name ?sites)"
  have same: "mset ?ids = mset (map site_id ?sites)" using assms(3) [of ?sites] by (simp only: mset_map)
  have "distinct (map site_id ?sites)" using assms(2) by (rule distinct_map_filter)
  then have ids: "distinct ?ids" "set ?ids = site_id ` set ?sites"
    using mset_eq_imp_distinct_iff [OF same] mset_eq_setD [OF same] by simp_all
  have all: "\<forall>c \<in> set ?cs. cand_site c \<in> set ?ids"
  proof
    fix c assume c: "c \<in> set ?cs"
    then obtain s where "s \<in> set (t_sites d)" "cand_site c = site_id s" using assms(1) by blast
    then have "s \<in> set ?sites" using c by auto
    with \<open>cand_site c = site_id s\<close> show "cand_site c \<in> set ?ids" unfolding ids(2) by blast
  qed
  have total: "(\<Sum>k \<leftarrow> ?ids. count_rows (\<lambda>c. cand_site c = k \<and> p c) ?cs) = count_rows p ?cs" for p
  proof -
    have "filter (\<lambda>c. cand_site c \<in> set ?ids \<and> p c) ?cs = filter p ?cs" using all by (intro filter_cong) simp_all
    then show ?thesis using count_keys [OF ids(1), of cand_site p ?cs] by (simp only: count_rows_def)
  qed
  have "length ?cs = (\<Sum>(i, n, k, u) \<leftarrow> db_breakdown ?b. k)"
    using total [of "\<lambda>_. True"] by (simp add: discovery_dashboard_def site_breakdown_def Let_def comp_def count_rows_def)
  moreover have "db_unclassified ?b = (\<Sum>(i, n, k, u) \<leftarrow> db_breakdown ?b. u)"
    using total [of "\<lambda>c. \<not> cand_classified c"] by (simp add: discovery_dashboard_def site_breakdown_def Let_def comp_def)
  moreover have "length ?cs = count_rows (\<lambda>c. cand_accepted c = Some True) ?cs + count_rows (\<lambda>c. cand_accepted c = Some False) ?cs
      + count_rows (\<lambda>c. cand_accepted c = None) ?cs"
    by (rule three_counts)
  moreover have "case db_latest ?b of None \<Rightarrow> ?cs = [] | Some c \<Rightarrow> c \<in> set ?cs \<and> (\<forall>x \<in> set ?cs. cand_last_seen x \<le> cand_last_seen c)"
  proof (cases "newest_first ?cs")
    case Nil
    then have "?cs = []" unfolding newest_first_def by (metis length_0_conv length_sort)
    with Nil show ?thesis by (simp add: discovery_dashboard_def Let_def)
  next
    case (Cons c rest)
    with newest_first_head [OF Cons] show ?thesis by (simp add: discovery_dashboard_def Let_def)
  qed
  ultimately show ?thesis by (simp add: discovery_dashboard_def Let_def)
qed

section \<open>The list is what was asked for\<close>

text \<open>
  The list of candidates has exactly those the request wants, the mismatches before the open ones
  before the exact matches and within each of these groups the newest first; the request fails exactly
  for a site that is no identifier.
\<close>

theorem candidate_list_wanted:
  "case discovery_candidates env d q of
      Inl e \<Rightarrow> query_text q ''site'' ''all'' \<noteq> ''all'' \<and> le_uuid env (query_text q ''site'' ''all'') = None
    | Inr p \<Rightarrow> \<exists>site. (query_text q ''site'' ''all'' = ''all'' \<and> site = None \<or> query_text q ''site'' ''all'' \<noteq> ''all'' \<and> site \<noteq> None
          \<and> site = le_uuid env (query_text q ''site'' ''all''))
        \<and> mset (cp_candidates p) = mset (filter (candidate_wanted d q site) (t_candidates d))
        \<and> sorted (map status_order (cp_candidates p))
        \<and> (\<forall>k. sorted (map (\<lambda>c. - cand_last_seen c) (filter (\<lambda>c. status_order c = k) (cp_candidates p))))"
proof (cases "query_text q ''site'' ''all'' \<noteq> ''all'' \<and> le_uuid env (query_text q ''site'' ''all'') = None")
  case True
  then show ?thesis by (simp add: discovery_candidates_def text_uid_def Let_def)
next
  case False
  let ?t = "query_text q ''site'' ''all''"
  obtain site where site: "?t = ''all'' \<and> site = None \<or> ?t \<noteq> ''all'' \<and> site \<noteq> None \<and> site = le_uuid env ?t"
    using False by auto
  have key: "(if ?t = ''all'' then Inr None else map_sum id Some (text_uid env ?t)) = Inr site"
    using site by (auto simp: text_uid_def)
  let ?rows = "sort_key status_order (newest_first (filter (candidate_wanted d q site) (t_candidates d)))"
  have "mset ?rows = mset (filter (candidate_wanted d q site) (t_candidates d))" by (simp add: newest_first_def)
  moreover have "sorted (map (\<lambda>c. - cand_last_seen c) (filter (\<lambda>c. status_order c = k) ?rows))" for k
    unfolding sort_key_stable newest_first_def by (rule sorted_filter) simp
  ultimately show ?thesis using site unfolding discovery_candidates_def Let_def key by auto
qed

section \<open>An assignment takes open candidates\<close>

text \<open>
  The start of an automatic assignment creates at most one job, pending and of the user, for open
  candidates of the table that the request names or narrows, at most as many as its limit, and hands
  exactly these to a worker; without such candidates it creates none.
\<close>

theorem assign_takes_open:
  assumes "start_assign env user new now ids q d st = Inr (m, st')"
  shows "(st' = st \<or> (\<exists>job. st' = (fst st @ [job], snd st @ [(aw_id job, aw_candidates job)])
      \<and> aw_by job = user \<and> aw_status job = ''pending'' \<and> aw_candidates job \<noteq> [] \<and> aw_total job = length (aw_candidates job)
      \<and> (\<forall>i \<in> set (aw_candidates job). \<exists>c \<in> set (t_candidates d). cand_id c = i \<and> cand_accepted c = None \<and> \<not> cand_classified c
            \<and> (case aw_site job of None \<Rightarrow> True | Some s \<Rightarrow> cand_site c = s) \<and> (ids = [] \<or> i \<in> set (List.map_filter (le_uuid env) ids)))
      \<and> (case aw_limit job of None \<Rightarrow> True | Some l \<Rightarrow> l > 0 \<longrightarrow> int (length (aw_candidates job)) \<le> l)))"
proof -
  have read: "text_uids env ts = Inr us \<Longrightarrow> set us = set (List.map_filter (le_uuid env) ts) \<and> (us = [] \<longleftrightarrow> ts = [])" for ts us
  proof (induction ts arbitrary: us)
    case (Cons t ts)
    then obtain i vs where "le_uuid env t = Some i" "text_uids env ts = Inr vs" "us = i # vs"
      by (auto simp: bind_res_def text_uid_def split: sum.splits option.splits)
    with Cons.IH [of vs] show ?case by (simp add: List.map_filter_simps)
  qed (simp add: List.map_filter_simps)
  obtain ks site where ks: "text_uids env ids = Inr ks" and site: "site_of_form env (q ''auto_site_id'') = Inr site"
    using assms by (auto simp: start_assign_def bind_res_def split: sum.splits)
  let ?host = "strip (or_empty (q ''candidate_hostname''))" and ?raw = "or_empty (q ''limit'')"
  let ?cs = "auto_candidates ks site ?host ?raw d"
  show ?thesis
  proof (cases "?cs = []")
    case True
    with assms ks site show ?thesis by (simp add: start_assign_def Let_def)
  next
    case False
    let ?job = "\<lparr>aw_id = new, aw_by = user, aw_site = site, aw_hostname = ?host, aw_limit = int_of_text ?raw,
             aw_include = include_config ids (q ''include_config''), aw_candidates = ?cs, aw_total = length ?cs, aw_status = ''pending'', aw_created = now\<rparr>"
    have st': "st' = (fst st @ [?job], snd st @ [(new, ?cs)])" using assms ks site False by (simp add: start_assign_def Let_def)
    have "\<exists>c \<in> set (t_candidates d). cand_id c = i \<and> eligible ks site (strip ?host) c" if "i \<in> set ?cs" for i
      using that by (auto simp: auto_candidates_def Let_def split: option.splits if_splits dest!: in_set_takeD)
    moreover have "set ks = set (List.map_filter (le_uuid env) ids)" "ks = [] \<longleftrightarrow> ids = []" using read [OF ks] by blast+
    ultimately have opened: "\<exists>c \<in> set (t_candidates d). cand_id c = i \<and> cand_accepted c = None \<and> \<not> cand_classified c
            \<and> (case site of None \<Rightarrow> True | Some s \<Rightarrow> cand_site c = s) \<and> (ids = [] \<or> i \<in> set (List.map_filter (le_uuid env) ids))" if "i \<in> set ?cs" for i
      using that unfolding eligible_def by metis
    have limit: "case int_of_text ?raw of None \<Rightarrow> True | Some l \<Rightarrow> l > 0 \<longrightarrow> int (length ?cs) \<le> l"
      by (auto simp: auto_candidates_def Let_def split: option.split)
    show ?thesis
    proof (intro disjI2 exI [of _ ?job] conjI)
      show "st' = (fst st @ [?job], snd st @ [(aw_id ?job, aw_candidates ?job)])" by (simp add: st')
      show "case aw_limit ?job of None \<Rightarrow> True | Some l \<Rightarrow> l > 0 \<longrightarrow> int (length (aw_candidates ?job)) \<le> l" using limit by (cases "int_of_text ?raw") simp_all
    qed (use opened False in simp_all)
  qed
qed

section \<open>What the form offers is accepted by its checks\<close>

lemma offered_accepted:
  assumes "a \<in> set (offered_areas d c)" and "find_area d (in_area inp) = Some a"
    and "\<forall>r. fk (find_rack d) (in_rack inp) = Some r \<longrightarrow> r \<in> set (offered_racks d (Some (area_id a)))"
  shows "set (candidate_form_errors d c inp) \<subseteq> {(''position'', ''Set a rack before assigning a position.'')}"
  using assms by (cases "fk (find_rack d) (in_rack inp)") (auto simp: candidate_form_errors_def offered_areas_def offered_racks_def)

section \<open>An example\<close>

definition ex_list_env :: list_env where
  "ex_list_env = \<lparr>le_uuid = (\<lambda>t. map_option nat (int_of_text t)), le_text = (\<lambda>i. nat_str i), le_sites = (\<lambda>x. x)\<rparr>"

definition ex_cand_db :: db where
  "ex_cand_db = empty_db\<lparr>t_sites := [\<lparr>site_id = 1, site_name = ''A'', site_domain = []\<rparr>],
     t_candidates := [\<lparr>cand_id = 4, cand_site = 1, cand_ip = ''10.0.0.4'', cand_hostname = ''sw4'', cand_alive = True, cand_ssh = True, cand_ping = False,
        cand_last_seen = 5, cand_classified = False, cand_accepted = None\<rparr>,
      \<lparr>cand_id = 5, cand_site = 1, cand_ip = ''10.0.0.5'', cand_hostname = [], cand_alive = True, cand_ssh = False, cand_ping = True,
        cand_last_seen = 7, cand_classified = True, cand_accepted = Some False\<rparr>]\<rparr>"

lemma dashboard_adds_up_witness:
  "let b = discovery_dashboard (\<lambda>x. x) ex_cand_db in db_total b = 2 \<and> db_breakdown b = [(1, ''A'', 2, 1)] \<and> db_unclassified b = 1"
proof -
  have "\<forall>c \<in> set (t_candidates ex_cand_db). cand_site c \<in> site_id ` set (t_sites ex_cand_db)" by (simp add: ex_cand_db_def)
  moreover have "distinct (map site_id (t_sites ex_cand_db))" by (simp add: ex_cand_db_def)
  ultimately have sums: "let b = discovery_dashboard (\<lambda>x. x) ex_cand_db in db_total b = (\<Sum>(i, n, k, u) \<leftarrow> db_breakdown b. k)
      \<and> db_unclassified b = (\<Sum>(i, n, k, u) \<leftarrow> db_breakdown b. u)"
    using dashboard_adds_up [of ex_cand_db "\<lambda>x. x"] by (simp add: Let_def)
  have "db_breakdown (discovery_dashboard (\<lambda>x. x) ex_cand_db) = [(1, ''A'', 2, 1)]" by code_simp
  with sums show ?thesis by (simp add: Let_def)
qed

lemma assign_takes_open_witness:
  "\<exists>m job. start_assign ex_list_env 1 9 0 [''4'', ''5''] (map_of [(''limit'', ''3'')]) ex_cand_db ([], []) = Inr (m, [job], [(9, [4])])
     \<and> aw_candidates job = [4] \<and> aw_status job = ''pending''"
proof -
  let ?r = "start_assign ex_list_env 1 9 0 [''4'', ''5''] (map_of [(''limit'', ''3'')]) ex_cand_db ([], [])"
  have "\<not> isl ?r \<and> map aw_candidates (fst (snd (projr ?r))) = [[4]] \<and> snd (snd (projr ?r)) = [(9, [4])]" by code_simp
  then obtain m st' where r: "?r = Inr (m, st')" "map aw_candidates (fst st') = [[4]]" "snd st' = [(9, [4])]" by (cases ?r) auto
  then obtain job where job: "fst st' = [job]" "aw_candidates job = [4]" by (cases "fst st'") auto
  have "aw_status job = ''pending''" using assign_takes_open [OF r(1)] r(3) job by auto
  with r job show ?thesis by (intro exI [of _ m] exI [of _ job]) (cases st', simp)
qed

end
