(* ===== verification/SyncCommands.thy ===== *)
theory SyncCommands
  imports SyncFrame Organization CandidatePages AutoAssignProps NaturalSort
begin

text \<open>
  The management commands that synchronise devices (\<^verbatim>\<open>sync_runner\<close>,
  \<^verbatim>\<open>sync_verify\<close>), scan a site (\<^verbatim>\<open>discover_runner\<close>) and collect neighbours
  (\<^verbatim>\<open>topology_collect\<close>). The options are records with the values that
  the parser of the command line leaves. The threads of a pool are modelled as their tasks one after the
  other in any order; the styles of the printed lines and the times in them are left out.
\<close>

section \<open>The site of a command\<close>

text \<open>
  The organizations with the column of the sites that leads to them, the reading of identifiers, the
  order of the devices by name, the order in which a pool takes its tasks, and the order of a set.
\<close>

record command_env =
  ce_uuid :: "string \<Rightarrow> uid option"
  ce_text :: "uid \<Rightarrow> string"
  ce_orgs :: "organization list"
  ce_owner :: "(uid \<times> uid) list"
  ce_by_name :: "device list \<Rightarrow> device list"
  ce_pool :: "device list \<Rightarrow> device list"

definition site_by_id :: "command_env \<Rightarrow> db \<Rightarrow> string \<Rightarrow> exn + site" where
  "site_by_id env d t =
     (case ce_uuid env t of
        None \<Rightarrow> Inl (ValidationError (t @ '' is not a valid UUID.''))
      | Some i \<Rightarrow> (case find_site d i of
           None \<Rightarrow> Inl (CommandError (''Site with id '' @ t @ '' does not exist''))
         | Some s \<Rightarrow> Inr s))"

definition org_by_name :: "command_env \<Rightarrow> string \<Rightarrow> exn + organization" where
  "org_by_name env name =
     (case filter (\<lambda>g. iexact (og_name g) name) (ce_orgs env) of
        [] \<Rightarrow> Inl (CommandError (''Organization '' @ quoted name @ '' does not exist''))
      | [g] \<Rightarrow> Inr g
      | gs \<Rightarrow> Inl (MultipleObjectsReturned (''get() returned more than one Organization -- it returned '' @ nat_str (length gs) @ ''!'')))"

definition site_by_name :: "command_env \<Rightarrow> db \<Rightarrow> string \<Rightarrow> string option \<Rightarrow> exn + site" where
  "site_by_name env d name org =
     bind_res (if text_true org then map_sum id Some (org_by_name env (or_empty org)) else Inr None) (\<lambda>g.
       case filter (\<lambda>s. iexact (site_name s) name \<and> (case g of None \<Rightarrow> True | Some g \<Rightarrow> map_of (ce_owner env) (site_id s) = Some (og_id g))) (t_sites d) of
         [] \<Rightarrow> Inl (CommandError (''No site found with name '' @ quoted name))
       | [s] \<Rightarrow> Inr s
       | _ \<Rightarrow> Inl (CommandError (''Multiple sites named '' @ quoted name @ ''. Please specify --org or use --site-id.'')))"

text \<open>The commands share these steps; they differ in what they say when no site is given.\<close>

definition resolve_site :: "command_env \<Rightarrow> db \<Rightarrow> string \<Rightarrow> string option \<Rightarrow> string option \<Rightarrow> string option \<Rightarrow> exn + site" where
  "resolve_site env d missing i name org =
     (if text_true i then site_by_id env d (or_empty i)
      else if text_true name then site_by_name env d (or_empty name) org
      else Inl (CommandError missing))"

section \<open>Pools\<close>

definition worker_count :: "int \<Rightarrow> int" where
  "worker_count threads = (if threads < 1 then 1 else threads)"

definition one_by_one :: "int \<Rightarrow> 'a list \<Rightarrow> bool" where
  "one_by_one threads xs \<longleftrightarrow> worker_count threads = 1 \<or> length xs \<le> 1"

section \<open>Synchronising devices\<close>

record sync_options =
  so_site_id :: "string option"
  so_site :: "string option"
  so_org :: "string option"
  so_device :: "string option"
  so_tag :: "string option"
  so_limit :: "int option"
  so_with_config :: bool
  so_threads :: int

text \<open>What the parser of the command line leaves when no option is given.\<close>

definition sync_defaults :: sync_options where
  "sync_defaults = \<lparr>so_site_id = None, so_site = None, so_org = None, so_device = None, so_tag = None, so_limit = None,
     so_with_config = False, so_threads = 10\<rparr>"

datatype report = SaidOk string | SaidSkip string "string option" | SaidFail string "string option"

text \<open>The counters, the lines on the devices, and the state.\<close>

record sync_run =
  ru_counts :: sync_counts
  ru_said :: "report list"
  ru_store :: store

definition report_of :: "device \<Rightarrow> outcome \<Rightarrow> report" where
  "report_of v oc = (if oc_skipped oc then SaidSkip (dev_name v) (oc_error oc) else if oc_success oc then SaidOk (dev_name v)
     else SaidFail (dev_name v) (oc_error oc))"

definition tally_outcome :: "outcome \<Rightarrow> sync_counts \<Rightarrow> sync_counts" where
  "tally_outcome oc n = (if oc_skipped oc then n\<lparr>sn_skipped := sn_skipped n + 1\<rparr> else if oc_success oc then n\<lparr>sn_success := sn_success n + 1\<rparr>
     else n\<lparr>sn_failed := sn_failed n + 1\<rparr>)"

definition told :: "device \<Rightarrow> outcome \<Rightarrow> store \<Rightarrow> sync_run \<Rightarrow> sync_run" where
  "told v oc s r = \<lparr>ru_counts = tally_outcome oc (ru_counts r), ru_said = ru_said r @ [report_of v oc], ru_store = s\<rparr>"

text \<open>
  One after the other: an exception of a synchronisation ends the command. In a pool it is one
  more failure. The environment of a synchronisation is that of its number in the run.
\<close>

fun sync_each :: "(nat \<Rightarrow> device_env) \<Rightarrow> network \<Rightarrow> bool \<Rightarrow> device list \<Rightarrow> sync_run \<Rightarrow> exn option \<times> sync_run" where
  "sync_each envs nw inc [] r = (None, r)"
| "sync_each envs nw inc (v # vs) r =
     (case sync_device (envs (length (ru_said r))) nw v inc False (ru_store r) of
        Inl e \<Rightarrow> (Some e, r)
      | Inr (oc, s) \<Rightarrow> sync_each envs nw inc vs (told v oc s r))"

definition sync_worker :: "(nat \<Rightarrow> device_env) \<Rightarrow> network \<Rightarrow> bool \<Rightarrow> sync_run \<Rightarrow> device \<Rightarrow> sync_run" where
  "sync_worker envs nw inc r v =
     (case sync_device (envs (length (ru_said r))) nw v inc False (ru_store r) of
        Inl e \<Rightarrow> r\<lparr>ru_counts := (ru_counts r)\<lparr>sn_failed := sn_failed (ru_counts r) + 1\<rparr>, ru_said := ru_said r @ [SaidFail (dev_name v) (Some (exn_str e))]\<rparr>
      | Inr (oc, s) \<Rightarrow> told v oc s r)"

definition fresh_run :: "store \<Rightarrow> sync_run" where
  "fresh_run s = \<lparr>ru_counts = \<lparr>sn_success = 0, sn_failed = 0, sn_skipped = 0\<rparr>, ru_said = [], ru_store = s\<rparr>"

definition limited :: "int option \<Rightarrow> 'a list \<Rightarrow> 'a list" where
  "limited l xs = (case l of None \<Rightarrow> xs | Some n \<Rightarrow> if n > 0 then take (nat n) xs else xs)"

text \<open>The join with the tags has a device once for each of its tags that has the name.\<close>

definition devices_with_tag :: "db \<Rightarrow> string \<Rightarrow> device list \<Rightarrow> device list" where
  "devices_with_tag d name vs =
     concat (map (\<lambda>v. map (\<lambda>_. v) (filter (\<lambda>t. tag_id t \<in> set (dev_tags v) \<and> iexact (tag_name t) name) (t_tags d))) vs)"

definition runner_site :: "command_env \<Rightarrow> sync_options \<Rightarrow> db \<Rightarrow> exn + site" where
  "runner_site env q d =
     resolve_site env d ''You must provide either --device <name> or --site <name> (optionally with --org)'' (so_site_id q) (so_site q) (so_org q)"

definition site_devices :: "command_env \<Rightarrow> sync_options \<Rightarrow> db \<Rightarrow> exn + device list" where
  "site_devices env q d =
     bind_res (runner_site env q d) (\<lambda>s.
       let vs = ce_by_name env (filter (\<lambda>v. dev_site v = site_id s) (t_devices d));
           vs = (if text_true (so_tag q) then devices_with_tag d (or_empty (so_tag q)) vs else vs)
       in Inr (limited (so_limit q) vs))"

definition named_device :: "string \<Rightarrow> db \<Rightarrow> exn + device" where
  "named_device name d =
     (case filter (\<lambda>v. iexact (dev_name v) name) (t_devices d) of
        [] \<Rightarrow> Inl (CommandError (''No device found with name '' @ quoted name @ ''.''))
      | [v] \<Rightarrow> Inr v
      | _ \<Rightarrow> Inl (CommandError (''Multiple devices named '' @ quoted name @ ''. Please narrow the query.'')))"

text \<open>The devices of a run: the one with a name, or those of a site. The one is never in a pool.\<close>

definition sync_selection :: "command_env \<Rightarrow> sync_options \<Rightarrow> db \<Rightarrow> exn + device list" where
  "sync_selection env q d =
     (if text_true (so_device q) then map_sum id (\<lambda>v. [v]) (named_device (or_empty (so_device q)) d) else site_devices env q d)"

definition sync_runner :: "command_env \<Rightarrow> (nat \<Rightarrow> device_env) \<Rightarrow> network \<Rightarrow> sync_options \<Rightarrow> store \<Rightarrow> exn option \<times> sync_run" where
  "sync_runner env envs nw q s =
     (case sync_selection env q (st_db s) of
        Inl e \<Rightarrow> (Some e, fresh_run s)
      | Inr vs \<Rightarrow>
          if one_by_one (so_threads q) vs then sync_each envs nw (so_with_config q) vs (fresh_run s)
          else (None, foldl (sync_worker envs nw (so_with_config q)) (fresh_run s) (ce_pool env vs)))"

section \<open>Scanning a site\<close>

definition discover_site :: "command_env \<Rightarrow> db \<Rightarrow> string option \<Rightarrow> string option \<Rightarrow> string option \<Rightarrow> exn + site" where
  "discover_site env d i name org = resolve_site env d ''You must provide --site <name> (optionally with --org)'' i name org"

definition discover_runner ::
  "command_env \<Rightarrow> net_env \<Rightarrow> string option \<Rightarrow> string option \<Rightarrow> string option \<Rightarrow> string option \<Rightarrow> host_filter list \<Rightarrow> disc_range list \<Rightarrow> db \<Rightarrow> exn + (scan_counts \<times> db)"
where
  "discover_runner env ne i name org cidr flts stored d =
     bind_res (discover_site env d i name org) (\<lambda>s.
       Inr (run_discovery ne s flts stored cidr d))"

section \<open>Collecting neighbours\<close>

record collect_options =
  co_device_id :: "string option"
  co_device_name :: "string option"
  co_site :: "string option"
  co_tag :: "string option"
  co_async :: bool
  co_threads :: int

definition collect_defaults :: collect_options where
  "collect_defaults = \<lparr>co_device_id = None, co_device_name = None, co_site = None, co_tag = None, co_async = False, co_threads = 10\<rparr>"

text \<open>What the command does: it complains, hands the work to a worker, or has done it.\<close>

datatype collected =
    Complained string
  | Queued "string option"
  | Collected "(string \<times> bool) list" nat nat "neighbor_row list"

definition collect_selection :: "command_env \<Rightarrow> collect_options \<Rightarrow> string option \<Rightarrow> db \<Rightarrow> device list" where
  "collect_selection env q i d =
     filter (\<lambda>v. (text_true (co_site q) \<longrightarrow> (case find_site d (dev_site v) of None \<Rightarrow> False | Some s \<Rightarrow> lower (site_name s) = lower (or_empty (co_site q))))
         \<and> (text_true (co_tag q) \<longrightarrow> has_tag d v (or_empty (co_tag q))) \<and> (text_true i \<longrightarrow> ce_text env (dev_id v) = or_empty i)) (eligible_devices d)"

definition collect_step ::
  "topo_env \<Rightarrow> network \<Rightarrow> db \<Rightarrow> (string \<times> bool) list \<times> neighbor_row list \<Rightarrow> device \<Rightarrow> (string \<times> bool) list \<times> neighbor_row list"
where
  "collect_step te nw d st v = (let (ok, rs) = collect_neighbors te nw d v (snd st) in (fst st @ [(dev_name v, ok)], rs))"

definition topology_collect :: "command_env \<Rightarrow> topo_env \<Rightarrow> network \<Rightarrow> collect_options \<Rightarrow> db \<Rightarrow> neighbor_row list \<Rightarrow> collected" where
  "topology_collect env te nw q d rs =
     (if text_true (co_device_id q) \<and> text_true (co_device_name q) then Complained ''Use only one of --device-id or --device-name.''
      else
        let named = first_row (\<lambda>v. iexact (dev_name v) (or_empty (co_device_name q))) (t_devices d);
            i = (if text_true (co_device_name q) then map_option (\<lambda>v. ce_text env (dev_id v)) named else co_device_id q)
        in if text_true (co_device_name q) \<and> named = None then Complained (''No device found with name '' @ quoted (or_empty (co_device_name q)) @ ''.'')
           else if co_async q
           then (if text_true (co_site q) \<or> text_true (co_tag q) then Complained ''--site and --tag are only supported for inline runs.'' else Queued i)
           else
             let vs = collect_selection env q i d;
                 (said, rs) = foldl (collect_step te nw d) ([], rs) (if one_by_one (co_threads q) vs then vs else ce_pool env vs)
             in Collected said (length (filter snd said)) (length (filter (\<lambda>x. \<not> snd x) said)) rs)"

section \<open>What a run leaves alone\<close>

interpretation unselected_kept: sync_invariant "\<lambda>d. i \<in> ids \<longrightarrow> filter (\<lambda>v. dev_id v \<notin> ids) (t_devices d) = vs" "\<lambda>v. dev_id v = i" for ids vs i
proof unfold_locales
  fix d v d'
  assume inv: "i \<in> ids \<longrightarrow> filter (\<lambda>v. dev_id v \<notin> ids) (t_devices d) = vs" and save: "save_device d v = Inr d'" and v: "dev_id v = i"
  have "filter (\<lambda>x. dev_id x \<notin> ids) (save_row dev_id v xs) = filter (\<lambda>x. dev_id x \<notin> ids) xs" if "i \<in> ids" for xs
    using that v by (induction xs) auto
  then show "i \<in> ids \<longrightarrow> filter (\<lambda>v. dev_id v \<notin> ids) (t_devices d') = vs"
    using inv by (simp add: save_device_table [OF save])
qed (simp_all add: versioned_keeps)

definition spared :: "uid set \<Rightarrow> db \<Rightarrow> device list \<times> area list \<times> candidate list" where
  "spared ids d = (filter (\<lambda>v. dev_id v \<notin> ids) (t_devices d), t_areas d, t_candidates d)"

lemma sync_spares:
  assumes "sync_device env nw v inc ret s = Inr (oc, s')" and "dev_id v \<in> ids"
  shows "spared ids (st_db s') = spared ids (st_db s)"
proof -
  have "dev_id v \<in> ids \<longrightarrow> filter (\<lambda>x. dev_id x \<notin> ids) (t_devices (st_db s')) = filter (\<lambda>x. dev_id x \<notin> ids) (t_devices (st_db s))"
    by (rule unselected_kept.sync [OF _ assms(1) refl]) simp
  then show ?thesis
    using sync_device_areas [OF assms(1)] candidates_kept.sync [OF refl assms(1) refl] assms(2) by (simp add: spared_def)
qed

fun said_name :: "report \<Rightarrow> string" where
  "said_name (SaidOk n) = n"
| "said_name (SaidSkip n _) = n"
| "said_name (SaidFail n _) = n"

lemma told_simps [simp]:
  "map said_name (ru_said (told v oc s r)) = map said_name (ru_said r) @ [dev_name v]"
  "total (ru_counts (told v oc s r)) = total (ru_counts r) + 1"
  "ru_store (told v oc s r) = s"
  by (simp_all add: told_def report_of_def tally_outcome_def total_def)

lemma fresh_run_simps [simp]: "ru_said (fresh_run s) = []" "total (ru_counts (fresh_run s)) = 0" "ru_store (fresh_run s) = s"
  by (simp_all add: fresh_run_def total_def)

lemma sync_worker_step:
  assumes "dev_id v \<in> ids"
  shows "map said_name (ru_said (sync_worker envs nw inc r v)) = map said_name (ru_said r) @ [dev_name v]
     \<and> total (ru_counts (sync_worker envs nw inc r v)) = total (ru_counts r) + 1
     \<and> spared ids (st_db (ru_store (sync_worker envs nw inc r v))) = spared ids (st_db (ru_store r))"
proof (cases "sync_device (envs (length (ru_said r))) nw v inc False (ru_store r)")
  case (Inl e)
  then show ?thesis by (simp add: sync_worker_def total_def)
next
  case (Inr y)
  then show ?thesis using sync_spares [OF _ assms] by (cases y) (simp add: sync_worker_def)
qed

lemma sync_workers:
  assumes "dev_id ` set vs \<subseteq> ids"
  shows "map said_name (ru_said (foldl (sync_worker envs nw inc) r vs)) = map said_name (ru_said r) @ map dev_name vs
     \<and> total (ru_counts (foldl (sync_worker envs nw inc) r vs)) = total (ru_counts r) + int (length vs)
     \<and> spared ids (st_db (ru_store (foldl (sync_worker envs nw inc) r vs))) = spared ids (st_db (ru_store r))"
  using assms
proof (induction vs arbitrary: r)
  case (Cons v vs)
  with sync_worker_step [of v ids envs nw inc r] Cons.IH [of "sync_worker envs nw inc r v"] show ?case by simp
qed simp

lemma sync_each_run:
  assumes "sync_each envs nw inc vs r = (e, r')" and "dev_id ` set vs \<subseteq> ids"
  shows "spared ids (st_db (ru_store r')) = spared ids (st_db (ru_store r))
     \<and> (\<exists>n. map said_name (ru_said r') = map said_name (ru_said r) @ map dev_name (take n vs)
          \<and> total (ru_counts r') = total (ru_counts r) + int n \<and> (if e = None then n = length vs else n < length vs))"
  using assms
proof (induction vs arbitrary: r)
  case (Cons v vs)
  show ?case
  proof (cases "sync_device (envs (length (ru_said r))) nw v inc False (ru_store r)")
    case (Inl x)
    with Cons.prems show ?thesis by (auto intro!: exI [of _ 0])
  next
    case (Inr y)
    obtain oc s where y: "y = (oc, s)" by (cases y)
    have run: "sync_each envs nw inc vs (told v oc s r) = (e, r')" using Cons.prems(1) Inr y by simp
    obtain n where n: "map said_name (ru_said r') = map said_name (ru_said (told v oc s r)) @ map dev_name (take n vs)"
        "total (ru_counts r') = total (ru_counts (told v oc s r)) + int n" "if e = None then n = length vs else n < length vs"
      and sp: "spared ids (st_db (ru_store r')) = spared ids (st_db s)"
      using Cons.IH [OF run] Cons.prems(2) by auto
    have "spared ids (st_db s) = spared ids (st_db (ru_store r))" using sync_spares Inr y Cons.prems(2) by simp
    moreover have "map said_name (ru_said r') = map said_name (ru_said r) @ map dev_name (take (Suc n) (v # vs))"
      "total (ru_counts r') = total (ru_counts r) + int (Suc n)" "if e = None then Suc n = length (v # vs) else Suc n < length (v # vs)"
      using n by simp_all
    ultimately show ?thesis using sp by (metis)
  qed
qed simp

text \<open>
  C32. A run of the synchronisation command changes no device that it has not selected, and no area and
  no candidate. When it ends well, it has told of every selected device once and its three numbers
  add up to them; an exception ends it only when it works without a pool, and then it has told of the
  devices before the one that failed.
\<close>

theorem sync_command_confined:
  assumes pool: "\<forall>vs. mset (ce_pool env vs) = mset vs"
    and sel: "sync_selection env q (st_db s) = Inr vs"
    and run: "sync_runner env envs nw q s = (e, r)"
  shows "spared (dev_id ` set vs) (st_db (ru_store r)) = spared (dev_id ` set vs) (st_db s)
    \<and> (if e = None then mset (map said_name (ru_said r)) = mset (map dev_name vs) \<and> total (ru_counts r) = int (length vs)
       else one_by_one (so_threads q) vs \<and> (\<exists>n < length vs. map said_name (ru_said r) = map dev_name (take n vs)))"
proof (cases "one_by_one (so_threads q) vs")
  case True
  then have "sync_each envs nw (so_with_config q) vs (fresh_run s) = (e, r)" using run sel by (simp add: sync_runner_def)
  from sync_each_run [OF this subset_refl] True show ?thesis by (cases "e = None") auto
next
  case False
  have "mset (ce_pool env vs) = mset vs" using pool by simp
  then have same: "set (ce_pool env vs) = set vs" "length (ce_pool env vs) = length vs" by (metis set_mset_mset, metis size_mset)
  have r: "e = None" "r = foldl (sync_worker envs nw (so_with_config q)) (fresh_run s) (ce_pool env vs)"
    using run sel False by (simp_all add: sync_runner_def)
  have "mset (map dev_name (ce_pool env vs)) = mset (map dev_name vs)" using pool by (simp only: mset_map)
  then show ?thesis using sync_workers [of "ce_pool env vs" "dev_id ` set vs" envs nw "so_with_config q" "fresh_run s"] r same by simp
qed

definition ex_command_env :: command_env where
  "ex_command_env = \<lparr>ce_uuid = (\<lambda>t. None), ce_text = (\<lambda>i. ''id''), ce_orgs = [], ce_owner = [], ce_by_name = (\<lambda>vs. vs), ce_pool = rev\<rparr>"

definition ex_hall :: store where
  "ex_hall = demo_store\<lparr>st_db := (st_db demo_store)\<lparr>t_sites := [\<lparr>site_id = 1, site_name = ''Bonn'', site_domain = []\<rparr>],
     t_devices := [new_device 1 ''sw1'' ''10.0.0.1'' 1 1, new_device 2 ''sw2'' ''10.0.0.2'' 1 1, new_device 3 ''sw3'' ''10.0.0.3'' 2 2]\<rparr>\<rparr>"

definition ex_sync_options :: sync_options where
  "ex_sync_options = sync_defaults\<lparr>so_site := Some ''bonn''\<rparr>"

lemma sync_command_confined_witness:
  "\<exists>r. sync_runner ex_command_env (\<lambda>n. demo_device_env) demo_network ex_sync_options ex_hall = (None, r)
     \<and> map dev_name (fst (spared {1, 2} (st_db (ru_store r)))) = [''sw3''] \<and> total (ru_counts r) = 2"
proof -
  let ?vs = "[new_device 1 ''sw1'' ''10.0.0.1'' 1 1, new_device 2 ''sw2'' ''10.0.0.2'' 1 1]"
  obtain e r where run: "sync_runner ex_command_env (\<lambda>n. demo_device_env) demo_network ex_sync_options ex_hall = (e, r)" by fastforce
  have pool: "\<forall>vs. mset (ce_pool ex_command_env vs) = mset vs" by (simp add: ex_command_env_def)
  have sel: "sync_selection ex_command_env ex_sync_options (st_db ex_hall) = Inr ?vs" by code_simp
  have many: "\<not> one_by_one (so_threads ex_sync_options) ?vs" by code_simp
  have ids: "dev_id ` set ?vs = {1, 2}" by (simp add: new_device_def)
  have here: "map dev_name (fst (spared {1, 2} (st_db ex_hall))) = [''sw3'']"
    by (simp add: spared_def ex_hall_def new_device_def)
  have "spared {1, 2} (st_db (ru_store r)) = spared {1, 2} (st_db ex_hall) \<and> e = None \<and> total (ru_counts r) = 2"
    using sync_command_confined [OF pool sel run] many unfolding ids by (cases e) auto
  then show ?thesis using run here by auto
qed

end
