(* ===== verification/SyncVerify.thy ===== *)
theory SyncVerify
  imports SyncCommands
begin

text \<open>
  The command that synchronises devices and prints what changed
  (\<^verbatim>\<open>network/management/commands/sync_verify.py\<close>). A set is the list of its members
  without repetition; in which order Python walks a set is a parameter, and so are the texts of the
  printed values.
\<close>

section \<open>What is captured\<close>

record iface_snapshot =
  is_status :: string
  is_speed :: "int option"
  is_speed_mode :: "string option"
  is_duplex :: "string option"
  is_ip :: "string option"
  is_vlan_raw :: "string option"
  is_description :: "string option"
  is_trunk :: bool
  is_access :: "int option"
  is_native :: "int option"
  is_lag :: "string option"

record snapshot =
  ss_fields :: "(string \<times> pyval) list"
  ss_ifaces :: "(string \<times> iface_snapshot) list"
  ss_modules :: "(string \<times> string option) list"
  ss_stack :: "int list"

definition text_or_none :: "string option \<Rightarrow> string option" where
  "text_or_none t = (if text_true t then t else None)"

definition vlan_number_of :: "db \<Rightarrow> uid option \<Rightarrow> int option" where
  "vlan_number_of d k = map_option vlan_number (fk (\<lambda>i. first_row (\<lambda>r. vlan_uid r = i) (t_vlans d)) k)"

definition iface_of_row :: "db \<Rightarrow> interface \<Rightarrow> iface_snapshot" where
  "iface_of_row d r =
     \<lparr>is_status = ifc_status r, is_speed = ifc_speed r, is_speed_mode = ifc_speed_mode r, is_duplex = ifc_duplex r,
      is_ip = text_or_none (ifc_ip r), is_vlan_raw = (if ifc_vlan_raw r = [] then None else Some (ifc_vlan_raw r)),
      is_description = text_or_none (ifc_description r), is_trunk = ifc_is_trunk r,
      is_access = vlan_number_of d (ifc_access_vlan r), is_native = vlan_number_of d (ifc_native_vlan r),
      is_lag = map_option ifc_name (fk (\<lambda>i. first_row (\<lambda>x. ifc_id x = i) (t_interfaces d)) (ifc_lag r))\<rparr>"

definition interface_snapshot :: "db \<Rightarrow> uid \<Rightarrow> (string \<times> iface_snapshot) list" where
  "interface_snapshot d i = fold (\<lambda>r. dict_put (ifc_name r) (iface_of_row d r)) (filter (\<lambda>r. ifc_device r = i) (t_interfaces d)) []"

definition module_snapshot :: "db \<Rightarrow> uid \<Rightarrow> (string \<times> string option) list" where
  "module_snapshot d i = remdups (map (\<lambda>m. (mod_name m, mod_serial m)) (filter (\<lambda>m. mod_device m = i) (t_modules d)))"

definition stack_snapshot :: "db \<Rightarrow> uid \<Rightarrow> int list" where
  "stack_snapshot d i = remdups (map sm_switch (filter (\<lambda>m. sm_device m = i) (t_stacks d)))"

definition device_fields :: "(moment \<Rightarrow> string) \<Rightarrow> db \<Rightarrow> device \<Rightarrow> (string \<times> pyval) list" where
  "device_fields stamp d v =
     (let t = fk (find_type d) (dev_type v)
      in [(''serial_number'', PyStr (or_empty (dev_serial v))), (''image_version'', PyStr (or_empty (dev_image v))),
          (''uptime_seconds'', case dev_uptime v of None \<Rightarrow> PyNone | Some n \<Rightarrow> if n = 0 then PyNone else PyInt n),
          (''last_reboot'', PyStr (case dev_last_reboot v of None \<Rightarrow> [] | Some m \<Rightarrow> stamp m)),
          (''is_stacked'', PyBool (dev_stacked v)),
          (''device_type'', PyStr (case t of None \<Rightarrow> [] | Some t \<Rightarrow> dt_model t)),
          (''device_platform'', PyStr (case t of None \<Rightarrow> [] | Some t \<Rightarrow> dt_platform t))])"

text \<open>\<^verbatim>\<open>refresh_from_db\<close> reads the row again; a device that is gone raises.\<close>

definition capture_state :: "(moment \<Rightarrow> string) \<Rightarrow> db \<Rightarrow> uid \<Rightarrow> exn + snapshot" where
  "capture_state stamp d i =
     (case find_device d i of
        None \<Rightarrow> Inl (DoesNotExist ''Device matching query does not exist.'')
      | Some v \<Rightarrow> Inr \<lparr>ss_fields = device_fields stamp d v, ss_ifaces = interface_snapshot d i, ss_modules = module_snapshot d i,
           ss_stack = stack_snapshot d i\<rparr>)"

section \<open>Sorting the members of a set\<close>

text \<open>
  Pairs are compared by their first difference, and a missing serial number and a text cannot be
  compared (\<open>None\<close>).
\<close>

fun pair_less :: "string \<times> string option \<Rightarrow> string \<times> string option \<Rightarrow> bool option" where
  "pair_less (a, s) (b, t) =
     (if a \<noteq> b then Some (a < b) else if s = t then Some False
      else case (s, t) of (Some x, Some y) \<Rightarrow> Some (x < y) | _ \<Rightarrow> None)"

fun insert_pair :: "string \<times> string option \<Rightarrow> (string \<times> string option) list \<Rightarrow> (string \<times> string option) list option" where
  "insert_pair p [] = Some [p]"
| "insert_pair p (q # qs) =
     (case pair_less q p of
        None \<Rightarrow> None
      | Some True \<Rightarrow> map_option (\<lambda>rs. q # rs) (insert_pair p qs)
      | Some False \<Rightarrow> Some (p # q # qs))"

fun sort_pairs :: "(string \<times> string option) list \<Rightarrow> (string \<times> string option) list option" where
  "sort_pairs [] = Some []"
| "sort_pairs (p # ps) = (case sort_pairs ps of None \<Rightarrow> None | Some qs \<Rightarrow> insert_pair p qs)"

definition sorted_pairs :: "(string \<times> string option) list \<Rightarrow> exn + (string \<times> string option) list" where
  "sorted_pairs ps =
     (case sort_pairs ps of
        None \<Rightarrow> Inl (TypeError (quoted ''<'' @ '' not supported between instances of '' @ quoted ''str'' @ '' and '' @ quoted ''NoneType''))
      | Some qs \<Rightarrow> Inr qs)"

section \<open>Differences\<close>

definition get_value :: "string \<Rightarrow> (string \<times> pyval) list \<Rightarrow> pyval" where
  "get_value k m = (case map_of m k of None \<Rightarrow> PyNone | Some v \<Rightarrow> v)"

definition diff_dict :: "(string list \<Rightarrow> string list) \<Rightarrow> (string \<times> pyval) list \<Rightarrow> (string \<times> pyval) list \<Rightarrow> (string \<times> pyval \<times> pyval) list" where
  "diff_dict walk b a =
     map (\<lambda>k. (k, get_value k b, get_value k a))
       (filter (\<lambda>k. get_value k b \<noteq> get_value k a) (walk (remdups (map fst b @ map fst a))))"

definition minus_set :: "'a list \<Rightarrow> 'a list \<Rightarrow> 'a list" where
  "minus_set xs ys = filter (\<lambda>x. x \<notin> set ys) xs"

text \<open>The members that are new, and those that are gone.\<close>

definition diff_modules ::
  "(string \<times> string option) list \<Rightarrow> (string \<times> string option) list \<Rightarrow> exn + ((string \<times> string option) list \<times> (string \<times> string option) list)"
where
  "diff_modules b a = bind_res (sorted_pairs (minus_set a b)) (\<lambda>new. bind_res (sorted_pairs (minus_set b a)) (\<lambda>gone. Inr (new, gone)))"

definition diff_numbers :: "int list \<Rightarrow> int list \<Rightarrow> int list \<times> int list" where
  "diff_numbers b a = (sort (minus_set a b), sort (minus_set b a))"

record iface_diff =
  xd_added :: "string list"
  xd_removed :: "string list"
  xd_changed :: "(string \<times> iface_snapshot \<times> iface_snapshot) list"

definition diff_maps :: "(string \<times> iface_snapshot) list \<Rightarrow> (string \<times> iface_snapshot) list \<Rightarrow> iface_diff" where
  "diff_maps b a =
     \<lparr>xd_added = sort (minus_set (map fst a) (map fst b)), xd_removed = sort (minus_set (map fst b) (map fst a)),
      xd_changed = List.map_filter (\<lambda>k. case (map_of b k, map_of a k) of (Some x, Some y) \<Rightarrow> if x \<noteq> y then Some (k, x, y) else None | _ \<Rightarrow> None)
        (sort (filter (\<lambda>k. k \<in> set (map fst a)) (map fst b)))\<rparr>"

record state_diff =
  sd_fields :: "(string \<times> pyval \<times> pyval) list"
  sd_ifaces :: iface_diff
  sd_modules :: "(string \<times> string option) list \<times> (string \<times> string option) list"
  sd_stack :: "int list \<times> int list"

definition diff_states :: "(string list \<Rightarrow> string list) \<Rightarrow> snapshot \<Rightarrow> snapshot \<Rightarrow> exn + state_diff" where
  "diff_states walk b a =
     bind_res (diff_modules (ss_modules b) (ss_modules a)) (\<lambda>ms.
       Inr \<lparr>sd_fields = diff_dict walk (ss_fields b) (ss_fields a), sd_ifaces = diff_maps (ss_ifaces b) (ss_ifaces a),
            sd_modules = ms, sd_stack = diff_numbers (ss_stack b) (ss_stack a)\<rparr>)"

section \<open>Printing\<close>

record show_env =
  sh_value :: "pyval \<Rightarrow> string"
  sh_iface :: "iface_snapshot \<Rightarrow> string"
  sh_pairs :: "(string \<times> string option) list \<Rightarrow> string"
  sh_numbers :: "int list \<Rightarrow> string"
  sh_iso :: "moment \<Rightarrow> string"
  sh_fields :: "(string \<times> pyval) list \<Rightarrow> string"
  sh_ifaces :: "(string \<times> iface_snapshot) list \<Rightarrow> string"
  sh_walk :: "string list \<Rightarrow> string list"

definition unless_empty :: "'a list \<Rightarrow> string \<Rightarrow> string list" where
  "unless_empty xs line = (if xs = [] then [] else [line])"

definition print_diff :: "show_env \<Rightarrow> string \<Rightarrow> state_diff \<Rightarrow> string list" where
  "print_diff sh name df =
     [''[OK] '' @ name] @
     (if sd_fields df = [] then []
      else ''  Device fields:'' # map (\<lambda>(k, b, a). ''    - '' @ k @ '': '' @ sh_value sh b @ '' -> '' @ sh_value sh a) (sd_fields df)) @
     (let x = sd_ifaces df in if xd_added x = [] \<and> xd_removed x = [] \<and> xd_changed x = [] then []
      else [''  Interfaces:''] @ unless_empty (xd_added x) (''    + '' @ join '', '' (xd_added x)) @
        unless_empty (xd_removed x) (''    - '' @ join '', '' (xd_removed x)) @
        map (\<lambda>(k, b, a). ''    * '' @ k @ '': '' @ sh_iface sh b @ '' -> '' @ sh_iface sh a) (xd_changed x)) @
     (let (new, gone) = sd_modules df in if new = [] \<and> gone = [] then []
      else [''  Modules:''] @ unless_empty new (''    + '' @ sh_pairs sh new) @ unless_empty gone (''    - '' @ sh_pairs sh gone)) @
     (let (new, gone) = sd_stack df in if new = [] \<and> gone = [] then []
      else [''  Stack members:''] @ unless_empty new (''    + '' @ sh_numbers sh new) @ unless_empty gone (''    - '' @ sh_numbers sh gone))"

text \<open>Lines, and the exception that stopped the printing.\<close>

type_synonym printing = "string list \<times> exn option"

definition then_print :: "printing \<Rightarrow> printing \<Rightarrow> printing" where
  "then_print x y = (case snd x of None \<Rightarrow> (fst x @ fst y, snd y) | Some e \<Rightarrow> x)"

definition print_snapshot :: "show_env \<Rightarrow> string \<Rightarrow> string \<Rightarrow> snapshot \<Rightarrow> printing" where
  "print_snapshot sh name label s =
     then_print
       ([''  Snapshot ('' @ label @ ''): '' @ name, ''    device_fields: '' @ sh_fields sh (ss_fields s),
         ''    interfaces: '' @ sh_ifaces sh (ss_ifaces s)], None)
       (case sorted_pairs (ss_modules s) of
          Inl e \<Rightarrow> ([], Some e)
        | Inr ms \<Rightarrow> ([''    modules: '' @ sh_pairs sh ms, ''    stack_members: '' @ sh_numbers sh (sort (ss_stack s))], None))"

definition print_results :: "show_env \<Rightarrow> string \<Rightarrow> results \<Rightarrow> bool \<Rightarrow> bool \<Rightarrow> string list" where
  "print_results sh name rs raw parsed =
     (if rs = [] then []
      else (''  Device output ('' @ name @ ''):'') # concat (map (\<lambda>(c, r).
        (''    '' @ c @ '':'') # (if raw then ''      raw:'' # map (\<lambda>l. ''        '' @ l) (splitlines (cr_raw r)) else []) @
        (if parsed then [''      parsed: '' @ sh_value sh (cr_parsed r)] else [])) rs))"

section \<open>The command\<close>

record verify_options =
  vo_site_id :: "string option"
  vo_site :: "string option"
  vo_org :: "string option"
  vo_devices :: "string list"
  vo_limit :: "int option"
  vo_with_config :: bool
  vo_raw :: bool
  vo_parsed :: bool
  vo_verbose :: bool

definition verify_defaults :: verify_options where
  "verify_defaults = \<lparr>vo_site_id = None, vo_site = None, vo_org = None, vo_devices = [], vo_limit = None, vo_with_config = False,
     vo_raw = False, vo_parsed = False, vo_verbose = False\<rparr>"

definition verify_site :: "command_env \<Rightarrow> verify_options \<Rightarrow> db \<Rightarrow> exn + site" where
  "verify_site env q d = resolve_site env d ''Provide --device or --site/--site-id to select devices.'' (vo_site_id q) (vo_site q) (vo_org q)"

definition verify_devices :: "command_env \<Rightarrow> verify_options \<Rightarrow> db \<Rightarrow> exn + device list" where
  "verify_devices env q d =
     (if vo_devices q \<noteq> [] then Inr (limited (vo_limit q) (filter (\<lambda>v. dev_name v \<in> set (vo_devices q)) (t_devices d)))
      else bind_res (verify_site env q d) (\<lambda>s.
        Inr (limited (vo_limit q) (ce_by_name env (filter (\<lambda>v. dev_site v = site_id s) (t_devices d))))))"

record verify_run =
  vr_counts :: sync_counts
  vr_lines :: "string list"
  vr_store :: store

definition shown_error :: "outcome \<Rightarrow> string" where
  "shown_error oc = (case oc_error oc of None \<Rightarrow> ''None'' | Some e \<Rightarrow> e)"

definition verified_lines :: "show_env \<Rightarrow> verify_options \<Rightarrow> string \<Rightarrow> snapshot \<Rightarrow> snapshot \<Rightarrow> state_diff \<Rightarrow> outcome \<Rightarrow> printing" where
  "verified_lines sh q name b a df oc =
     then_print
       (print_diff sh name df @
         (if vo_raw q \<or> vo_parsed q then print_results sh name (case oc_results oc of None \<Rightarrow> [] | Some rs \<Rightarrow> rs) (vo_raw q) (vo_parsed q) else []), None)
       (if vo_verbose q then then_print (print_snapshot sh name ''before'' b) (print_snapshot sh name ''after'' a) else ([], None))"

text \<open>One device: the exception that ended the command, if one did, and the run.\<close>

definition verify_device ::
  "show_env \<Rightarrow> device_env \<Rightarrow> network \<Rightarrow> verify_options \<Rightarrow> device \<Rightarrow> verify_run \<Rightarrow> exn option \<times> verify_run"
where
  "verify_device sh env nw q v r =
     (case capture_state (sh_iso sh) (st_db (vr_store r)) (dev_id v) of
        Inl e \<Rightarrow> (Some e, r)
      | Inr b \<Rightarrow>
         (let row = (case find_device (st_db (vr_store r)) (dev_id v) of None \<Rightarrow> v | Some x \<Rightarrow> x)
          in case sync_device env nw row (vo_with_config q) (vo_raw q \<or> vo_parsed q) (vr_store r) of
               Inl e \<Rightarrow> (Some e, r)
             | Inr (oc, s) \<Rightarrow>
                 let r = r\<lparr>vr_store := s\<rparr>; name = dev_name row
                 in if oc_skipped oc
                    then (None, r\<lparr>vr_counts := (vr_counts r)\<lparr>sn_skipped := sn_skipped (vr_counts r) + 1\<rparr>,
                      vr_lines := vr_lines r @ [''[SKIP] '' @ name @ '': '' @ shown_error oc]\<rparr>)
                    else if \<not> oc_success oc
                    then (None, r\<lparr>vr_counts := (vr_counts r)\<lparr>sn_failed := sn_failed (vr_counts r) + 1\<rparr>,
                      vr_lines := vr_lines r @ [''[FAIL] '' @ name @ '': '' @ shown_error oc]\<rparr>)
                    else (case capture_state (sh_iso sh) (st_db s) (dev_id v) of
                        Inl e \<Rightarrow> (Some e, r)
                      | Inr a \<Rightarrow> (case diff_states (sh_walk sh) b a of
                            Inl e \<Rightarrow> (Some e, r)
                          | Inr df \<Rightarrow>
                              let r = r\<lparr>vr_counts := (vr_counts r)\<lparr>sn_success := sn_success (vr_counts r) + 1\<rparr>\<rparr>;
                                  (xs, e) = verified_lines sh q name b a df oc
                              in (e, r\<lparr>vr_lines := vr_lines r @ xs\<rparr>)))))"

fun verify_each :: "show_env \<Rightarrow> (nat \<Rightarrow> device_env) \<Rightarrow> network \<Rightarrow> verify_options \<Rightarrow> nat \<Rightarrow> device list \<Rightarrow> verify_run \<Rightarrow> exn option \<times> verify_run" where
  "verify_each sh envs nw q n [] r = (None, r)"
| "verify_each sh envs nw q n (v # vs) r =
     (case verify_device sh (envs n) nw q v r of
        (Some e, r) \<Rightarrow> (Some e, r)
      | (None, r) \<Rightarrow> verify_each sh envs nw q (Suc n) vs r)"

definition sync_verify ::
  "command_env \<Rightarrow> show_env \<Rightarrow> (nat \<Rightarrow> device_env) \<Rightarrow> network \<Rightarrow> verify_options \<Rightarrow> store \<Rightarrow> exn option \<times> verify_run"
where
  "sync_verify env sh envs nw q s =
     (let start = \<lparr>vr_counts = \<lparr>sn_success = 0, sn_failed = 0, sn_skipped = 0\<rparr>, vr_lines = [], vr_store = s\<rparr>
      in case verify_devices env q (st_db s) of
           Inl e \<Rightarrow> (Some e, start)
         | Inr vs \<Rightarrow> if vs = [] then (Some (CommandError ''No devices matched the selection.''), start) else verify_each sh envs nw q 0 vs start)"

section \<open>When the modules cannot be sorted\<close>

definition clashes :: "(string \<times> string option) list \<Rightarrow> bool" where
  "clashes ps \<longleftrightarrow> (\<exists>n t. (n, None) \<in> set ps \<and> (n, Some t) \<in> set ps)"

lemma pair_less_none: "pair_less (a, s) (b, t) = None \<longleftrightarrow> a = b \<and> s \<noteq> t \<and> (s = None \<or> t = None)"
  by (auto split: option.splits)

lemma pair_less_true: "pair_less p q = Some True \<Longrightarrow> fst p \<le> fst q"
  by (cases p; cases q) (auto split: if_splits option.splits)

lemma pair_less_false: "pair_less p q = Some False \<Longrightarrow> fst q \<le> fst p"
  by (cases p; cases q) (auto split: if_splits option.splits)

lemma insert_pair_sorted:
  assumes "insert_pair p qs = Some rs" and "sorted (map fst qs)"
  shows "sorted (map fst rs) \<and> mset rs = add_mset p (mset qs)"
  using assms
proof (induction qs arbitrary: rs)
  case (Cons q qs)
  show ?case
  proof (cases "pair_less q p")
    case None
    with Cons.prems show ?thesis by simp
  next
    case (Some b)
    show ?thesis
    proof (cases b)
      case True
      then obtain ts where ts: "insert_pair p qs = Some ts" "rs = q # ts" using Cons.prems Some by auto
      have "sorted (map fst ts) \<and> mset ts = add_mset p (mset qs)" using Cons.IH ts(1) Cons.prems(2) by simp
      moreover from this have "set ts = insert p (set qs)" by (metis set_mset_add_mset_insert set_mset_mset)
      moreover have "fst q \<le> fst p" using pair_less_true [of q p] Some True by simp
      ultimately show ?thesis using Cons.prems(2) ts(2) by auto
    next
      case False
      have "fst p \<le> fst q" using pair_less_false [of q p] Some False by simp
      then have "\<forall>x \<in> fst ` set (q # qs). fst p \<le> x" using Cons.prems(2) by (auto intro: order_trans)
      moreover have "rs = p # q # qs" using Cons.prems(1) Some False by simp
      ultimately show ?thesis using Cons.prems(2) by auto
    qed
  qed
qed simp

lemma sort_pairs_sorted: "sort_pairs ps = Some qs \<Longrightarrow> sorted (map fst qs) \<and> mset qs = mset ps"
proof (induction ps arbitrary: qs)
  case (Cons p ps)
  then obtain ts where "sort_pairs ps = Some ts" "insert_pair p ts = Some qs" by (auto split: option.splits)
  with Cons.IH insert_pair_sorted show ?case by auto
qed simp

lemma insert_pair_fails:
  "insert_pair p qs = None \<Longrightarrow> \<exists>q \<in> set qs. fst q = fst p \<and> snd q \<noteq> snd p \<and> (snd q = None \<or> snd p = None)"
proof (induction qs)
  case (Cons q qs)
  show ?case
  proof (cases "pair_less q p")
    case None
    then show ?thesis using pair_less_none [of "fst q" "snd q" "fst p" "snd p"] by auto
  next
    case (Some b)
    with Cons show ?thesis by (cases b) auto
  qed
qed simp

text \<open>Before the first member of the same name all names are smaller, so that the two are compared.\<close>

lemma insert_pair_stuck:
  assumes "sorted (map fst qs)" and "q \<in> set qs" and "fst q = fst p"
    and "\<forall>q \<in> set qs. fst q = fst p \<longrightarrow> snd q \<noteq> snd p \<and> (snd q = None \<or> snd p = None)"
  shows "insert_pair p qs = None"
  using assms
proof (induction qs)
  case (Cons r qs)
  show ?case
  proof (cases "fst r = fst p")
    case True
    then have "pair_less r p = None"
      using Cons.prems(4) pair_less_none [of "fst r" "snd r" "fst p" "snd p"] by (cases r; cases p) simp
    then show ?thesis by simp
  next
    case False
    then have q: "q \<in> set qs" using Cons.prems(2,3) by auto
    then have "fst r \<le> fst p" using Cons.prems(1,3) by force
    then have "pair_less r p = Some True" using False by (cases r; cases p) auto
    moreover have "insert_pair p qs = None" using Cons.IH q Cons.prems by simp
    ultimately show ?thesis by simp
  qed
qed simp

lemma sort_pairs_fails: "distinct ps \<Longrightarrow> sort_pairs ps = None \<longleftrightarrow> clashes ps"
proof (induction ps)
  case (Cons p ps)
  obtain n s where p: "p = (n, s)" by (cases p)
  have split: "clashes (p # ps) \<longleftrightarrow> clashes ps \<or> (\<exists>q \<in> set ps. fst q = n \<and> snd q \<noteq> s \<and> (snd q = None \<or> s = None))"
    using Cons.prems unfolding clashes_def p by (cases s) (auto; force)+
  show ?case
  proof (cases "sort_pairs ps")
    case None
    with Cons split show ?thesis by simp
  next
    case (Some qs)
    have qs: "sorted (map fst qs)" "set qs = set ps" using sort_pairs_sorted [OF Some] by (auto dest: mset_eq_setD)
    have clean: "\<not> clashes ps" using Cons Some by simp
    have "insert_pair p qs = None" if q: "q \<in> set ps" "fst q = n" "snd q \<noteq> s" "snd q = None \<or> s = None" for q
    proof (rule insert_pair_stuck [OF qs(1)])
      show "q \<in> set qs" "fst q = fst p" using q qs(2) p by simp_all
      have "snd x \<noteq> s \<and> (snd x = None \<or> s = None)" if x: "x \<in> set ps" "fst x = n" for x
      proof -
        have "x \<noteq> p" using x(1) Cons.prems by auto
        then have ne: "snd x \<noteq> s" using x(2) p by (cases x) simp
        show ?thesis
        proof (cases s)
          case None
          with ne show ?thesis by simp
        next
          case (Some t)
          then have "(n, None) \<in> set ps" using q by (cases q) simp
          then have "snd x = None" using clean x unfolding clashes_def by (cases x; cases "snd x") auto
          with ne show ?thesis by simp
        qed
      qed
      then show "\<forall>x \<in> set qs. fst x = fst p \<longrightarrow> snd x \<noteq> snd p \<and> (snd x = None \<or> snd p = None)" using qs(2) p by simp
    qed
    moreover have "\<exists>q \<in> set ps. fst q = n \<and> snd q \<noteq> s \<and> (snd q = None \<or> s = None)" if "insert_pair p qs = None"
      using insert_pair_fails [OF that] qs(2) p by simp
    ultimately show ?thesis using Some clean split by auto
  qed
qed (simp add: clashes_def)

section \<open>The differences are exact\<close>

lemma set_minus_set [simp]: "set (minus_set xs ys) = set xs - set ys"
  by (auto simp: minus_set_def)

lemma distinct_minus_set [simp]: "distinct xs \<Longrightarrow> distinct (minus_set xs ys)"
  by (simp add: minus_set_def)

lemma minus_set_nil [simp]: "minus_set xs ys = [] \<longleftrightarrow> set xs \<subseteq> set ys"
  by (auto simp: minus_set_def filter_empty_conv)

lemma sorted_pairs_ok: "sorted_pairs ps = Inr qs \<Longrightarrow> mset qs = mset ps"
  using sort_pairs_sorted by (auto simp: sorted_pairs_def split: option.splits)

lemma sorted_pairs_raises: "distinct ps \<Longrightarrow> (\<exists>e. sorted_pairs ps = Inl e) \<longleftrightarrow> clashes ps"
  using sort_pairs_fails [of ps] by (auto simp: sorted_pairs_def split: option.splits)

lemma fold_dict_put_keys: "distinct (map fst m) \<Longrightarrow> distinct (map fst (fold (\<lambda>r. dict_put (f r) (g r)) rs m))"
  by (induction rs arbitrary: m) (simp_all add: distinct_dict_put)

text \<open>The state after as the state before with the printed changes.\<close>

definition patch_ifaces :: "iface_diff \<Rightarrow> (string \<rightharpoonup> iface_snapshot) \<Rightarrow> (string \<rightharpoonup> iface_snapshot) \<Rightarrow> string \<rightharpoonup> iface_snapshot" where
  "patch_ifaces x b a k =
     (if k \<in> set (xd_removed x) then None else if k \<in> set (xd_added x) then a k
      else case map_of (xd_changed x) k of None \<Rightarrow> b k | Some (_, y) \<Rightarrow> Some y)"

definition same_state :: "snapshot \<Rightarrow> snapshot \<Rightarrow> bool" where
  "same_state b a \<longleftrightarrow> (\<forall>k. get_value k (ss_fields b) = get_value k (ss_fields a)) \<and> map_of (ss_ifaces b) = map_of (ss_ifaces a)
     \<and> set (ss_modules b) = set (ss_modules a) \<and> set (ss_stack b) = set (ss_stack a)"

lemma sort_nil: "sort xs = [] \<longleftrightarrow> xs = []"
  by (metis length_0_conv length_sort)

lemma captured:
  assumes "capture_state stamp d i = Inr s"
  shows "distinct (map fst (ss_ifaces s)) \<and> distinct (ss_modules s) \<and> distinct (ss_stack s)"
  using assms by (auto simp: capture_state_def interface_snapshot_def module_snapshot_def stack_snapshot_def
      intro!: fold_dict_put_keys split: option.splits)

lemma map_of_picked:
  assumes "\<And>k. g k = map_option (Pair k) (h k)"
  shows "map_of (List.map_filter g ks) k = (if k \<in> set ks then h k else None)"
  by (induction ks) (auto simp: List.map_filter_simps assms split: option.split)

lemma map_of_diff_dict:
  assumes "\<forall>ks. set (walk ks) = set ks"
  shows "map_of (diff_dict walk b a) k = (if get_value k b = get_value k a then None else Some (get_value k b, get_value k a))"
proof -
  have "get_value k b = get_value k a" if "k \<notin> fst ` set b" "k \<notin> fst ` set a"
    using that by (simp add: get_value_def map_of_eq_None_iff [THEN iffD2])
  then show ?thesis
    using assms by (auto simp: diff_dict_def map_of_map_restrict restrict_map_def)
qed

lemma diff_dict_nil:
  assumes "\<forall>ks. set (walk ks) = set ks"
  shows "diff_dict walk b a = [] \<longleftrightarrow> (\<forall>k. get_value k b = get_value k a)"
proof
  assume nil: "diff_dict walk b a = []"
  show "\<forall>k. get_value k b = get_value k a"
    using map_of_diff_dict [OF assms, of b a] nil by (metis map_of.simps(1) option.distinct(1))
qed (simp add: diff_dict_def filter_empty_conv)

lemma changed_iface:
  "map_of (xd_changed (diff_maps b a)) k =
     (case (map_of b k, map_of a k) of (Some x, Some y) \<Rightarrow> if x \<noteq> y then Some (x, y) else None | _ \<Rightarrow> None)"
proof -
  have "k \<in> fst ` set b" "k \<in> fst ` set a" if "map_of b k = Some x" "map_of a k = Some y" for x y
    using that by (metis domI dom_map_of_conv_image_fst)+
  then show ?thesis
    unfolding diff_maps_def iface_diff.simps
    by (subst map_of_picked [where h = "\<lambda>k. case (map_of b k, map_of a k) of (Some x, Some y) \<Rightarrow> if x \<noteq> y then Some (x, y) else None | _ \<Rightarrow> None"])
      (auto split: option.splits)
qed

lemma patch_is_after: "patch_ifaces (diff_maps b a) (map_of b) (map_of a) = map_of a"
proof
  fix k
  have keys: "map_of m k = None \<longleftrightarrow> k \<notin> fst ` set m" for m :: "(string \<times> iface_snapshot) list"
    by (simp add: map_of_eq_None_iff)
  show "patch_ifaces (diff_maps b a) (map_of b) (map_of a) k = map_of a k"
    using keys [of a] keys [of b]
    by (auto simp: patch_ifaces_def changed_iface diff_maps_def [of b a, THEN arg_cong, of xd_added]
        diff_maps_def [of b a, THEN arg_cong, of xd_removed] split: option.splits)
qed

lemma diff_maps_nil:
  "xd_added (diff_maps b a) = [] \<and> xd_removed (diff_maps b a) = [] \<and> xd_changed (diff_maps b a) = [] \<longleftrightarrow> map_of b = map_of a"
proof
  let ?x = "diff_maps b a"
  assume nil: "xd_added ?x = [] \<and> xd_removed ?x = [] \<and> xd_changed ?x = []"
  then have "patch_ifaces ?x (map_of b) (map_of a) = map_of b" by (auto simp: patch_ifaces_def)
  then show "map_of b = map_of a" by (simp add: patch_is_after)
next
  assume eq: "map_of b = map_of a"
  then have keys: "fst ` set b = fst ` set a" by (metis dom_map_of_conv_image_fst)
  have "map_of (xd_changed (diff_maps b a)) k = None" for k using eq by (auto simp: changed_iface split: option.splits)
  then have "map_of (xd_changed (diff_maps b a)) = Map.empty" by (rule ext)
  then have "xd_changed (diff_maps b a) = []" by (simp only: map_of_eq_empty_iff)
  with keys show "xd_added (diff_maps b a) = [] \<and> xd_removed (diff_maps b a) = [] \<and> xd_changed (diff_maps b a) = []"
    by (simp add: diff_maps_def sort_nil)
qed

lemma diff_modules_cases:
  assumes "distinct a" and "distinct b"
  shows "case diff_modules b a of
     Inl _ \<Rightarrow> clashes (minus_set a b) \<or> clashes (minus_set b a)
   | Inr (new, gone) \<Rightarrow> \<not> clashes (minus_set a b) \<and> \<not> clashes (minus_set b a) \<and> set new = set a - set b \<and> set gone = set b - set a"
proof -
  have mset: "set qs = set ps" if "sorted_pairs ps = Inr qs" for ps qs
    using sorted_pairs_ok [OF that] by (rule mset_eq_setD)
  note no = sorted_pairs_raises [OF distinct_minus_set [OF assms(1)], of b] sorted_pairs_raises [OF distinct_minus_set [OF assms(2)], of a]
  show ?thesis
  proof (cases "sorted_pairs (minus_set a b)")
    case (Inl e)
    then show ?thesis using no(1) by (simp add: diff_modules_def)
  next
    case (Inr new)
    note new = this
    show ?thesis
    proof (cases "sorted_pairs (minus_set b a)")
      case (Inl e)
      then show ?thesis using no(2) new by (simp add: diff_modules_def)
    next
      case (Inr gone)
      then have "\<not> clashes (minus_set a b)" "\<not> clashes (minus_set b a)" using no new by simp_all
      then show ?thesis using new Inr mset [OF new] mset [OF Inr] by (simp add: diff_modules_def)
    qed
  qed
qed

lemma print_diff_short:
  "print_diff sh name df = [''[OK] '' @ name] \<longleftrightarrow> sd_fields df = [] \<and> (let x = sd_ifaces df in xd_added x = [] \<and> xd_removed x = [] \<and> xd_changed x = [])
     \<and> sd_modules df = ([], []) \<and> sd_stack df = ([], [])"
  by (auto simp: print_diff_def Let_def split: prod.splits if_splits)

text \<open>
  C33. What the command prints of a device is exact: only its first line is printed if and only if
  nothing that was captured has changed, and the state before with the printed changes is the state after. It raises
  exactly if two modules that are new, or two that are gone, share a name and one of them has no serial number.
\<close>

theorem verify_diff_exact:
  assumes before: "capture_state stamp d i = Inr b" and after: "capture_state stamp d' i = Inr a"
    and walk: "\<forall>ks. set (sh_walk sh ks) = set ks"
  shows "case diff_states (sh_walk sh) b a of
     Inl _ \<Rightarrow> clashes (minus_set (ss_modules a) (ss_modules b)) \<or> clashes (minus_set (ss_modules b) (ss_modules a))
   | Inr df \<Rightarrow> \<not> clashes (minus_set (ss_modules a) (ss_modules b)) \<and> \<not> clashes (minus_set (ss_modules b) (ss_modules a))
       \<and> (print_diff sh name df = [''[OK] '' @ name] \<longleftrightarrow> same_state b a)
       \<and> (\<forall>k. get_value k (ss_fields a) = (case map_of (sd_fields df) k of None \<Rightarrow> get_value k (ss_fields b) | Some (_, y) \<Rightarrow> y))
       \<and> patch_ifaces (sd_ifaces df) (map_of (ss_ifaces b)) (map_of (ss_ifaces a)) = map_of (ss_ifaces a)
       \<and> set (ss_modules a) = set (ss_modules b) - set (snd (sd_modules df)) \<union> set (fst (sd_modules df))
       \<and> set (ss_stack a) = set (ss_stack b) - set (snd (sd_stack df)) \<union> set (fst (sd_stack df))"
proof -
  note ms = diff_modules_cases [of "ss_modules a" "ss_modules b"]
  have dist: "distinct (ss_modules a)" "distinct (ss_modules b)" using captured [OF before] captured [OF after] by blast+
  show ?thesis
  proof (cases "diff_modules (ss_modules b) (ss_modules a)")
    case (Inl e)
    then show ?thesis using ms [OF dist] by (simp add: diff_states_def)
  next
    case (Inr x)
    obtain new gone where x: "x = (new, gone)" by (cases x)
    have sets: "set new = set (ss_modules a) - set (ss_modules b)" "set gone = set (ss_modules b) - set (ss_modules a)"
      and no: "\<not> clashes (minus_set (ss_modules a) (ss_modules b))" "\<not> clashes (minus_set (ss_modules b) (ss_modules a))"
      using ms [OF dist] Inr x by simp_all
    have modules: "(new, gone) = ([], []) \<longleftrightarrow> set (ss_modules b) = set (ss_modules a)"
      using sets by (metis Diff_eq_empty_iff Pair_inject set_empty subset_antisym subset_refl)
    have stack: "diff_numbers (ss_stack b) (ss_stack a) = ([], []) \<longleftrightarrow> set (ss_stack b) = set (ss_stack a)"
      by (auto simp: diff_numbers_def sort_nil)
    let ?df = "\<lparr>sd_fields = diff_dict (sh_walk sh) (ss_fields b) (ss_fields a), sd_ifaces = diff_maps (ss_ifaces b) (ss_ifaces a),
      sd_modules = (new, gone), sd_stack = diff_numbers (ss_stack b) (ss_stack a)\<rparr>"
    have df: "diff_states (sh_walk sh) b a = Inr ?df" using Inr x by (simp add: diff_states_def)
    have "print_diff sh name ?df = [''[OK] '' @ name] \<longleftrightarrow> same_state b a"
      unfolding print_diff_short state_diff.simps Let_def diff_dict_nil [OF walk] diff_maps_nil modules stack same_state_def ..
    moreover have "get_value k (ss_fields a) = (case map_of (sd_fields ?df) k of None \<Rightarrow> get_value k (ss_fields b) | Some (_, y) \<Rightarrow> y)" for k
      by (simp add: map_of_diff_dict [OF walk])
    moreover have "set (ss_modules a) = set (ss_modules b) - set (snd (sd_modules ?df)) \<union> set (fst (sd_modules ?df))"
      unfolding state_diff.simps fst_conv snd_conv sets by blast
    moreover have "set (ss_stack a) = set (ss_stack b) - set (snd (sd_stack ?df)) \<union> set (fst (sd_stack ?df))"
      by (auto simp: diff_numbers_def)
    ultimately show ?thesis unfolding df using no by (simp add: patch_is_after)
  qed
qed

text \<open>
  Two new modules with one name, one of them without a serial number, make the command raise, after the
  synchronisation has been stored.
\<close>

definition ex_bare :: db where
  "ex_bare = empty_db\<lparr>t_devices := [new_device 1 ''sw1'' ''10.0.0.1'' 1 1]\<rparr>"

definition ex_twins :: db where
  "ex_twins = ex_bare\<lparr>t_modules := [\<lparr>mod_id = 1, mod_device = 1, mod_name = ''PSU'', mod_inventory = None, mod_description = None, mod_vendor = None, mod_serial = None\<rparr>,
     \<lparr>mod_id = 2, mod_device = 1, mod_name = ''PSU'', mod_inventory = None, mod_description = None, mod_vendor = None, mod_serial = Some ''S1''\<rparr>]\<rparr>"

definition ex_show :: show_env where
  "ex_show = \<lparr>sh_value = py_str, sh_iface = (\<lambda>_. []), sh_pairs = (\<lambda>_. []), sh_numbers = (\<lambda>_. []), sh_iso = (\<lambda>_. []), sh_fields = (\<lambda>_. []),
     sh_ifaces = (\<lambda>_. []), sh_walk = rev\<rparr>"

lemma verify_diff_exact_witness:
  "\<exists>b a e. capture_state (sh_iso ex_show) ex_bare 1 = Inr b \<and> capture_state (sh_iso ex_show) ex_twins 1 = Inr a
     \<and> diff_states (sh_walk ex_show) b a = Inl e"
proof -
  have dev: "find_device ex_bare 1 = Some (new_device 1 ''sw1'' ''10.0.0.1'' 1 1)" "find_device ex_twins 1 = Some (new_device 1 ''sw1'' ''10.0.0.1'' 1 1)"
    by (simp_all add: find_device_def ex_twins_def ex_bare_def new_device_def)
  obtain b where b: "capture_state (sh_iso ex_show) ex_bare 1 = Inr b" and mb: "ss_modules b = module_snapshot ex_bare 1"
    using dev by (simp add: capture_state_def)
  obtain a where a: "capture_state (sh_iso ex_show) ex_twins 1 = Inr a" and ma: "ss_modules a = module_snapshot ex_twins 1"
    using dev by (simp add: capture_state_def)
  have "clashes (minus_set (ss_modules a) (ss_modules b))"
    unfolding clashes_def ma mb by (simp add: module_snapshot_def minus_set_def ex_twins_def ex_bare_def empty_db_def)
  moreover have "\<forall>ks. set (sh_walk ex_show ks) = set ks" by (simp add: ex_show_def)
  ultimately have "\<exists>e. diff_states (sh_walk ex_show) b a = Inl e"
    using verify_diff_exact [OF b a, of ex_show "[]"] by (cases "diff_states (sh_walk ex_show) b a") simp_all
  with a b show ?thesis by blast
qed

end
