(* ===== verification/AssignCommands.thy ===== *)
theory AssignCommands
  imports SyncCommands
begin

text \<open>
  The management commands that assign candidates (\<^verbatim>\<open>auto_assign\<close>,
  \<^verbatim>\<open>auto_assign_verify\<close>): the choice of the candidates, the pool, the counters and
  the list of failures, and the dry run. The details that the second one prints are left out.
\<close>

section \<open>The candidates\<close>

record assign_options =
  ao_site_id :: "string option"
  ao_candidate :: "string option"
  ao_hostname :: "string option"
  ao_limit :: "int option"
  ao_no_config :: bool
  ao_threads :: int
  ao_dry :: bool

definition assign_defaults :: assign_options where
  "assign_defaults = \<lparr>ao_site_id = None, ao_candidate = None, ao_hostname = None, ao_limit = None, ao_no_config = False, ao_threads = 10, ao_dry = False\<rparr>"

text \<open>A filter with the identifier of an option, when it is given; a text that is no identifier raises.\<close>

definition filter_by_id :: "command_env \<Rightarrow> string option \<Rightarrow> ('r \<Rightarrow> uid) \<Rightarrow> 'r list \<Rightarrow> exn + 'r list" where
  "filter_by_id env t f rs =
     (if \<not> text_true t then Inr rs
      else case ce_uuid env (or_empty t) of
          None \<Rightarrow> Inl (ValidationError (or_empty t @ '' is not a valid UUID.''))
        | Some i \<Rightarrow> Inr (filter (\<lambda>r. f r = i) rs))"

definition some_left :: "bool \<Rightarrow> string \<Rightarrow> 'r list \<Rightarrow> exn + 'r list" where
  "some_left asked msg rs = (if asked \<and> rs = [] then Inl (CommandError msg) else Inr rs)"

definition pending_candidates :: "command_env \<Rightarrow> assign_options \<Rightarrow> db \<Rightarrow> exn + candidate list" where
  "pending_candidates env q d =
     bind_res (filter_by_id env (ao_site_id q) cand_site (filter (\<lambda>c. cand_accepted c = None \<and> \<not> cand_classified c) (t_candidates d))) (\<lambda>cs.
     bind_res (filter_by_id env (ao_candidate q) cand_id cs) (\<lambda>cs.
     bind_res (some_left (text_true (ao_candidate q)) (''No candidate found with id '' @ quoted (or_empty (ao_candidate q))) cs) (\<lambda>cs.
     let cs = (if text_true (ao_hostname q) then filter (\<lambda>c. icontains (cand_hostname c) (or_empty (ao_hostname q))) cs else cs)
     in bind_res (some_left (text_true (ao_hostname q)) (''No candidate found with hostname containing '' @ quoted (or_empty (ao_hostname q))) cs) (\<lambda>cs.
        Inr (limited (ao_limit q) cs)))))"

text \<open>The verifying command has a copy of these steps.\<close>

definition resolve_candidates :: "command_env \<Rightarrow> assign_options \<Rightarrow> db \<Rightarrow> exn + candidate list" where
  "resolve_candidates env q d = pending_candidates env q d"

section \<open>The assignments\<close>

record assign_tally =
  at_success :: int
  at_failed :: int
  at_failures :: "(uid \<times> string) list"
  at_store :: store

definition nothing_assigned :: "store \<Rightarrow> assign_tally" where
  "nothing_assigned s = \<lparr>at_success = 0, at_failed = 0, at_failures = [], at_store = s\<rparr>"

definition error_or_unknown :: "string option \<Rightarrow> string" where
  "error_or_unknown e = (if text_true e then or_empty e else ''Unknown error'')"

definition count_assigned :: "candidate \<Rightarrow> bool \<Rightarrow> string option \<Rightarrow> assign_tally \<Rightarrow> assign_tally" where
  "count_assigned c ok e r =
     (if ok then r\<lparr>at_success := at_success r + 1\<rparr>
      else r\<lparr>at_failed := at_failed r + 1, at_failures := at_failures r @ [(cand_id c, error_or_unknown e)]\<rparr>)"

text \<open>
  The candidates one after the other, as a single thread or in the order of a pool. An assignment
  reports its exceptions; that it may never return is \<open>None\<close>.
\<close>

fun assign_each :: "(uid \<Rightarrow> assign_env) \<Rightarrow> network \<Rightarrow> bool \<Rightarrow> candidate list \<Rightarrow> assign_tally \<Rightarrow> assign_tally option" where
  "assign_each envs nw inc [] r = Some r"
| "assign_each envs nw inc (c # cs) r =
     (case assign (envs (cand_id c)) nw c inc (at_store r) of
        None \<Rightarrow> None
      | Some (a, s) \<Rightarrow> assign_each envs nw inc cs ((count_assigned c (as_success a) (as_error a) r)\<lparr>at_store := s\<rparr>))"

definition auto_assign ::
  "command_env \<Rightarrow> (candidate list \<Rightarrow> candidate list) \<Rightarrow> (uid \<Rightarrow> assign_env) \<Rightarrow> network \<Rightarrow> assign_options \<Rightarrow> store \<Rightarrow> (exn + assign_tally) option"
where
  "auto_assign env pool envs nw q s =
     (case pending_candidates env q (st_db s) of
        Inl e \<Rightarrow> Some (Inl e)
      | Inr cs \<Rightarrow> map_option Inr (assign_each envs nw (\<not> ao_no_config q) (if one_by_one (ao_threads q) cs then cs else pool cs) (nothing_assigned s)))"

definition dry_step :: "(uid \<Rightarrow> assign_env) \<Rightarrow> network \<Rightarrow> bool \<Rightarrow> assign_tally \<Rightarrow> candidate \<Rightarrow> assign_tally" where
  "dry_step envs nw inc r c =
     (case collect_details (envs (cand_id c)) nw (st_db (at_store r)) c inc of
        Inl e \<Rightarrow> count_assigned c False (Some e) r
      | Inr _ \<Rightarrow> count_assigned c True None r)"

definition auto_assign_verify :: "command_env \<Rightarrow> (uid \<Rightarrow> assign_env) \<Rightarrow> network \<Rightarrow> assign_options \<Rightarrow> store \<Rightarrow> (exn + assign_tally) option" where
  "auto_assign_verify env envs nw q s =
     (case resolve_candidates env q (st_db s) of
        Inl e \<Rightarrow> Some (Inl e)
      | Inr cs \<Rightarrow>
          if ao_dry q then Some (Inr (foldl (dry_step envs nw (\<not> ao_no_config q)) (nothing_assigned s) cs))
          else map_option Inr (assign_each envs nw (\<not> ao_no_config q) cs (nothing_assigned s)))"

section \<open>What an assignment does to the candidates\<close>

definition handled :: "candidate \<Rightarrow> bool" where
  "handled c \<longleftrightarrow> cand_classified c \<and> cand_accepted c = Some True"

definition handle_in :: "uid \<Rightarrow> candidate list \<Rightarrow> candidate list" where
  "handle_in i cs = update_where (\<lambda>c. cand_id c = i) (\<lambda>c. c\<lparr>cand_classified := True, cand_accepted := Some True\<rparr>) cs"

lemma assign_candidates:
  assumes "assign env nw c inc s = Some (a, s')"
  shows "t_candidates (st_db s') = t_candidates (st_db s) \<and> \<not> as_success a
    \<or> t_candidates (st_db s') = handle_in (cand_id c) (t_candidates (st_db s))"
proof (cases "gather env nw c")
  case (Inl e)
  with assms show ?thesis by (auto simp: assign_def failed_assignment_def)
next
  case (Inr fa)
  with assms obtain x where rows: "assign_rows env (st_db s) c fa = Some x"
    and x: "(case x of Inl (dev, e) \<Rightarrow> (failed_assignment dev e, s)
      | Inr (dev, d) \<Rightarrow> sync_assigned env nw c inc dev (s\<lparr>st_db := d\<rparr>)) = (a, s')"
    by (auto simp: assign_def)
  show ?thesis
  proof (cases x)
    case (Inl y)
    with x show ?thesis by (cases y) (auto simp: failed_assignment_def)
  next
    case y: (Inr y)
    obtain dev d where yd: "y = (dev, d)" by (cases y)
    obtain dev0 tags d1 d2 where prep: "prepare env (st_db s) c fa = Some (Inr (dev0, tags, d1))" and save: "save_device d1 dev0 = Inr d2"
      and fin: "finish_device c dev0 tags (stack_members fa) d2 = Inr d"
      using rows unfolding y yd by (rule assign_rows_cases)
    have "t_candidates d1 = t_candidates (st_db s)" using prep prepare_cases resolve_role_keeps(6) by metis
    then have d2: "t_candidates d2 = t_candidates (st_db s)" using save_device_keeps [OF save] by simp
    have "t_candidates d = handle_in (cand_id c) (t_candidates d2)"
      using fin by (rule finish_device_cases) (auto simp: store_members_def mark_candidate_def handle_in_def add_tags_keeps split: if_splits)
    moreover have "t_candidates (st_db s') = t_candidates d"
      using x unfolding y yd
      by (auto simp: sync_assigned_def split: sum.splits prod.splits dest: candidates_kept.sync [OF refl _ refl])
    ultimately show ?thesis using d2 by simp
  qed
qed

text \<open>What is said of the selected candidates and what has become of them, while the run goes on.\<close>

definition failed_ids :: "assign_tally \<Rightarrow> uid set" where
  "failed_ids r = fst ` set (at_failures r)"

definition untold :: "uid set \<Rightarrow> assign_tally \<Rightarrow> candidate list" where
  "untold ids r = filter (\<lambda>x. cand_id x \<notin> ids) (t_candidates (st_db (at_store r)))"

definition done_but_failed :: "uid set \<Rightarrow> assign_tally \<Rightarrow> bool" where
  "done_but_failed ids r \<longleftrightarrow> (\<forall>x \<in> set (t_candidates (st_db (at_store r))). cand_id x \<in> ids \<and> cand_id x \<notin> failed_ids r \<longrightarrow> handled x)"

lemma count_assigned_simps [simp]:
  "at_success (count_assigned c ok e r) + at_failed (count_assigned c ok e r) = at_success r + at_failed r + 1"
  "failed_ids (count_assigned c ok e r) = (if ok then failed_ids r else insert (cand_id c) (failed_ids r))"
  "int (length (at_failures (count_assigned c ok e r))) - at_failed (count_assigned c ok e r) = int (length (at_failures r)) - at_failed r"
  "at_store (count_assigned c ok e r) = at_store r"
  by (simp_all add: count_assigned_def failed_ids_def)

lemma failed_ids_store [simp]: "failed_ids (r\<lparr>at_store := s\<rparr>) = failed_ids r"
  by (simp add: failed_ids_def)

lemma handle_in_others: "i \<in> ids \<Longrightarrow> filter (\<lambda>x. cand_id x \<notin> ids) (handle_in i cs) = filter (\<lambda>x. cand_id x \<notin> ids) cs"
  by (induction cs) (auto simp: handle_in_def update_where_def)

lemma in_handle_in:
  assumes "x \<in> set (handle_in i cs)"
  shows "(cand_id x = i \<and> handled x) \<or> (cand_id x \<noteq> i \<and> x \<in> set cs)"
  using assms by (auto simp: handle_in_def update_where_def handled_def)

lemma assign_each_runs:
  assumes "areas_end (st_db (at_store r))" and "set (map cand_id cs) \<subseteq> ids" and "done_but_failed old r"
  shows "\<exists>r'. assign_each envs nw inc cs r = Some r' \<and> areas_end (st_db (at_store r'))
    \<and> at_success r' + at_failed r' = at_success r + at_failed r + int (length cs)
    \<and> int (length (at_failures r')) - at_failed r' = int (length (at_failures r)) - at_failed r
    \<and> failed_ids r \<subseteq> failed_ids r' \<and> failed_ids r' \<subseteq> failed_ids r \<union> set (map cand_id cs)
    \<and> untold ids r' = untold ids r \<and> done_but_failed (old \<union> set (map cand_id cs)) r'"
  using assms
proof (induction cs arbitrary: r old)
  case (Cons c cs)
  obtain a s where run: "assign (envs (cand_id c)) nw c inc (at_store r) = Some (a, s)" and s: "areas_end (st_db s)"
    using assign_returns [OF Cons.prems(1)] by blast
  let ?r = "(count_assigned c (as_success a) (as_error a) r)\<lparr>at_store := s\<rparr>"
  note cands = assign_candidates [OF run]
  have "cand_id c \<in> ids" using Cons.prems(2) by simp
  then have rest: "untold ids ?r = untold ids r" using cands handle_in_others by (auto simp: untold_def)
  have settled: "done_but_failed (insert (cand_id c) old) ?r"
    unfolding done_but_failed_def
  proof (intro ballI impI, elim conjE)
    fix x assume x: "x \<in> set (t_candidates (st_db (at_store ?r)))" and old: "cand_id x \<in> insert (cand_id c) old" and ok: "cand_id x \<notin> failed_ids ?r"
    have ok': "cand_id x \<notin> failed_ids r" "cand_id x = cand_id c \<Longrightarrow> as_success a" using ok by (auto split: if_splits)
    from cands show "handled x"
    proof
      assume "t_candidates (st_db s) = t_candidates (st_db (at_store r)) \<and> \<not> as_success a"
      then show ?thesis using x old ok' Cons.prems(3) by (auto simp: done_but_failed_def)
    next
      assume "t_candidates (st_db s) = handle_in (cand_id c) (t_candidates (st_db (at_store r)))"
      then have "(cand_id x = cand_id c \<and> handled x) \<or> (cand_id x \<noteq> cand_id c \<and> x \<in> set (t_candidates (st_db (at_store r))))"
        using x in_handle_in by simp
      then show ?thesis using old ok' Cons.prems(3) by (auto simp: done_but_failed_def)
    qed
  qed
  have prems: "areas_end (st_db (at_store ?r))" "set (map cand_id cs) \<subseteq> ids" using s Cons.prems(2) by simp_all
  obtain r' where r': "assign_each envs nw inc cs ?r = Some r'" "areas_end (st_db (at_store r'))"
      "at_success r' + at_failed r' = at_success ?r + at_failed ?r + int (length cs)"
      "int (length (at_failures r')) - at_failed r' = int (length (at_failures ?r)) - at_failed ?r"
      "failed_ids ?r \<subseteq> failed_ids r'" "failed_ids r' \<subseteq> failed_ids ?r \<union> set (map cand_id cs)"
      "untold ids r' = untold ids ?r" "done_but_failed (insert (cand_id c) old \<union> set (map cand_id cs)) r'"
    using Cons.IH [OF prems settled] by blast
  have counted: "at_success ?r + at_failed ?r = at_success r + at_failed r + 1"
    "int (length (at_failures ?r)) - at_failed ?r = int (length (at_failures r)) - at_failed r"
    using count_assigned_simps(1,3) [of c "as_success a" "as_error a" r] by simp_all
  show ?case
  proof (intro exI conjI)
    show "assign_each envs nw inc (c # cs) r = Some r'" using run r'(1) by simp
    show "at_success r' + at_failed r' = at_success r + at_failed r + int (length (c # cs))" using r'(3) counted(1) by simp
    show "int (length (at_failures r')) - at_failed r' = int (length (at_failures r)) - at_failed r" using r'(4) counted(2) by simp
    show "failed_ids r \<subseteq> failed_ids r'" "failed_ids r' \<subseteq> failed_ids r \<union> set (map cand_id (c # cs))"
      using r'(5,6) by (auto split: if_splits)
    show "done_but_failed (old \<union> set (map cand_id (c # cs))) r'" using r'(8) by (simp add: insert_commute Un_commute)
  qed (use r'(2,7) rest in simp_all)
qed simp

lemma dry_steps_store: "at_store (foldl (dry_step envs nw inc) r cs) = at_store r"
  by (induction cs arbitrary: r) (auto simp: dry_step_def split: sum.split)

lemma dry_steps_count: "at_success (foldl (dry_step envs nw inc) r cs) + at_failed (foldl (dry_step envs nw inc) r cs) = at_success r + at_failed r + int (length cs)"
proof (induction cs arbitrary: r)
  case (Cons c cs)
  then show ?case by (simp add: dry_step_def split: sum.split)
qed simp

text \<open>
  C34. A run of the assignment command over the pending candidates always returns when the parents of
  the areas end. It counts every selected candidate once and lists the failures, touches no other
  candidate, and has handled each selected candidate that it does not list as failed. The dry run of the
  verifying command counts the same candidates and changes nothing.
\<close>

theorem assign_command_settles:
  assumes sel: "pending_candidates env q (st_db s) = Inr cs" and areas: "areas_end (st_db s)"
    and pool: "\<forall>cs. mset (pool cs) = mset cs"
  shows "(\<exists>r. auto_assign env pool envs nw q s = Some (Inr r)
      \<and> at_success r + at_failed r = int (length cs) \<and> at_failed r = int (length (at_failures r))
      \<and> failed_ids r \<subseteq> cand_id ` set cs
      \<and> filter (\<lambda>x. cand_id x \<notin> cand_id ` set cs) (t_candidates (st_db (at_store r)))
        = filter (\<lambda>x. cand_id x \<notin> cand_id ` set cs) (t_candidates (st_db s))
      \<and> (\<forall>x \<in> set (t_candidates (st_db (at_store r))). cand_id x \<in> cand_id ` set cs - failed_ids r \<longrightarrow> handled x))
    \<and> (ao_dry q \<longrightarrow> (\<exists>r. auto_assign_verify env envs nw q s = Some (Inr r)
      \<and> at_success r + at_failed r = int (length cs) \<and> at_store r = s))"
proof -
  let ?cs = "if one_by_one (ao_threads q) cs then cs else pool cs"
  have same: "set ?cs = set cs" "length ?cs = length cs"
    using pool by (metis set_mset_mset) (metis pool size_mset)
  have start: "done_but_failed {} (nothing_assigned s)" by (simp add: done_but_failed_def)
  have ids: "set (map cand_id ?cs) = cand_id ` set cs" using same(1) by simp
  obtain r where r: "assign_each envs nw (\<not> ao_no_config q) ?cs (nothing_assigned s) = Some r"
      "at_success r + at_failed r = at_success (nothing_assigned s) + at_failed (nothing_assigned s) + int (length ?cs)"
      "int (length (at_failures r)) - at_failed r = int (length (at_failures (nothing_assigned s))) - at_failed (nothing_assigned s)"
      "failed_ids r \<subseteq> failed_ids (nothing_assigned s) \<union> cand_id ` set cs"
      "untold (cand_id ` set cs) r = untold (cand_id ` set cs) (nothing_assigned s)"
      "done_but_failed ({} \<union> cand_id ` set cs) r"
    using assign_each_runs [of "nothing_assigned s" ?cs "cand_id ` set cs" "{}" envs nw "\<not> ao_no_config q"] areas start
    unfolding ids by (auto simp: nothing_assigned_def)
  have "auto_assign env pool envs nw q s = Some (Inr r)" using sel r(1) by (simp add: auto_assign_def)
  moreover have "at_success r + at_failed r = int (length cs)" "at_failed r = int (length (at_failures r))" "failed_ids r \<subseteq> cand_id ` set cs"
    using r(2,3,4) same(2) by (simp_all add: nothing_assigned_def failed_ids_def)
  moreover have "filter (\<lambda>x. cand_id x \<notin> cand_id ` set cs) (t_candidates (st_db (at_store r)))
      = filter (\<lambda>x. cand_id x \<notin> cand_id ` set cs) (t_candidates (st_db s))"
    using r(5) by (simp add: untold_def nothing_assigned_def)
  moreover have "\<forall>x \<in> set (t_candidates (st_db (at_store r))). cand_id x \<in> cand_id ` set cs - failed_ids r \<longrightarrow> handled x"
    using r(6) by (simp add: done_but_failed_def)
  moreover have "ao_dry q \<longrightarrow> (\<exists>r. auto_assign_verify env envs nw q s = Some (Inr r) \<and> at_success r + at_failed r = int (length cs) \<and> at_store r = s)"
    using sel dry_steps_store [of envs nw "\<not> ao_no_config q" "nothing_assigned s" cs]
      dry_steps_count [of envs nw "\<not> ao_no_config q" "nothing_assigned s" cs]
    by (simp add: auto_assign_verify_def resolve_candidates_def nothing_assigned_def)
  ultimately show ?thesis by blast
qed

definition ex_pending :: store where
  "ex_pending = demo_store\<lparr>st_db := (st_db demo_store)\<lparr>t_candidates := [demo_candidate]\<rparr>\<rparr>"

definition ex_assign_options :: assign_options where
  "ex_assign_options = assign_defaults\<lparr>ao_dry := True\<rparr>"

lemma assign_command_settles_witness:
  "\<exists>r. auto_assign ex_command_env rev (\<lambda>i. demo_assign_env) demo_network ex_assign_options ex_pending = Some (Inr r)
     \<and> at_success r + at_failed r = 1
     \<and> (\<exists>r'. auto_assign_verify ex_command_env (\<lambda>i. demo_assign_env) demo_network ex_assign_options ex_pending = Some (Inr r') \<and> at_store r' = ex_pending)"
proof -
  have sel: "pending_candidates ex_command_env ex_assign_options (st_db ex_pending) = Inr [demo_candidate]" by code_simp
  have areas: "areas_end (st_db ex_pending)" by (simp add: areas_end_def ex_pending_def demo_store_def empty_db_def)
  have pool: "\<forall>cs. mset (rev cs) = mset (cs :: candidate list)" by simp
  have dry: "ao_dry ex_assign_options" by (simp add: ex_assign_options_def)
  note run = assign_command_settles [OF sel areas pool, of "\<lambda>i. demo_assign_env" demo_network]
  obtain r where "auto_assign ex_command_env rev (\<lambda>i. demo_assign_env) demo_network ex_assign_options ex_pending = Some (Inr r)"
    "at_success r + at_failed r = int (length [demo_candidate])"
    using conjunct1 [OF run] by blast
  moreover obtain r' where "auto_assign_verify ex_command_env (\<lambda>i. demo_assign_env) demo_network ex_assign_options ex_pending = Some (Inr r')"
    "at_store r' = ex_pending"
    using mp [OF conjunct2 [OF run] dry] by blast
  ultimately show ?thesis by simp
qed

end
