(* ===== verification/DataCommands.thy ===== *)
theory DataCommands
  imports Topology StorageProps
begin

text \<open>
  The management commands of \<^verbatim>\<open>dcim/management/commands\<close> that rewrite rows: the
  host names of candidates and neighbours by the domains of the sites, the inventory numbers of modules
  from a sheet, and the VLANs of two sites from sheets. Identifiers are in the order of their texts. Reading a file into
  cells is a library.
\<close>

section \<open>Rewriting rows\<close>

text \<open>
  A pass over rows that have been read before: \<open>fix_of\<close> is what the pass writes to a row, if
  anything; the pass counts the rows that it changes and all rows, and a dry run writes nothing.
\<close>

definition rewrite_step ::
  "('r \<Rightarrow> uid) \<Rightarrow> ('r \<Rightarrow> ('r \<Rightarrow> 'r) option) \<Rightarrow> bool \<Rightarrow> (int \<times> int) \<times> 'r list \<Rightarrow> 'r \<Rightarrow> (int \<times> int) \<times> 'r list"
where
  "rewrite_step ident fix_of dry st r =
     (let ((updated, scanned), rows) = st
      in case fix_of r of
           None \<Rightarrow> ((updated, scanned + 1), rows)
         | Some f \<Rightarrow> ((updated + 1, scanned + 1), if dry then rows else update_where (\<lambda>x. ident x = ident r) f rows))"

definition rewrite_rows ::
  "('r \<Rightarrow> uid) \<Rightarrow> ('r \<Rightarrow> ('r \<Rightarrow> 'r) option) \<Rightarrow> bool \<Rightarrow> 'r list \<Rightarrow> 'r list \<Rightarrow> (int \<times> int) \<times> 'r list"
where
  "rewrite_rows ident fix_of dry todo rows = foldl (rewrite_step ident fix_of dry) ((0, 0), rows) todo"

definition fixed :: "('r \<Rightarrow> ('r \<Rightarrow> 'r) option) \<Rightarrow> 'r \<Rightarrow> 'r" where
  "fixed fix_of r = (case fix_of r of None \<Rightarrow> r | Some f \<Rightarrow> f r)"

text \<open>A limit of zero is none, a negative one cannot be sliced.\<close>

definition sliced :: "int option \<Rightarrow> 'r list \<Rightarrow> exn + 'r list" where
  "sliced l rs =
     (case l of
        None \<Rightarrow> Inr rs
      | Some n \<Rightarrow> if n = 0 then Inr rs else if n < 0 then Inl (ValueError ''Negative indexing is not supported.'') else Inr (take (nat n) rs))"

locale row_fix =
  fixes ident :: "'r \<Rightarrow> uid" and fix_of :: "'r \<Rightarrow> ('r \<Rightarrow> 'r) option"
  assumes keeps: "fix_of r = Some f \<Longrightarrow> ident (f x) = ident x"
begin

lemma fixed_ident [simp]: "ident (fixed fix_of r) = ident r"
  by (simp add: fixed_def keeps split: option.split)

lemma step_counts:
  "fst (rewrite_step ident fix_of dry ((u, n), rows) r) = (u + (if fix_of r = None then 0 else 1), n + 1)"
  by (simp add: rewrite_step_def split: option.split)

lemma steps_counts:
  "fst (foldl (rewrite_step ident fix_of dry) ((u, n), rows) todo) = (u + int (length (filter (\<lambda>r. fix_of r \<noteq> None) todo)), n + int (length todo))"
proof (induction todo arbitrary: u n rows)
  case (Cons r todo)
  show ?case
  proof (cases "rewrite_step ident fix_of dry ((u, n), rows) r")
    case (Pair a b)
    then have "a = (u + (if fix_of r = None then 0 else 1), n + 1)" using step_counts [of dry u n rows r] by simp
    with Pair Cons.IH [of "fst a" "snd a" b] show ?thesis by simp
  qed
qed simp

lemma counts: "fst (rewrite_rows ident fix_of dry todo rows) = (int (length (filter (\<lambda>r. fix_of r \<noteq> None) todo)), int (length todo))"
  using steps_counts [of dry 0 0 rows todo] by (simp add: rewrite_rows_def)

lemma dry_step: "snd (rewrite_step ident fix_of True st r) = snd st"
  by (simp add: rewrite_step_def split: option.split prod.split)

lemma dry_rows: "snd (rewrite_rows ident fix_of True todo rows) = rows"
proof -
  have "snd (foldl (rewrite_step ident fix_of True) st todo) = snd st" for st
    by (induction todo arbitrary: st) (simp_all add: dry_step)
  then show ?thesis by (simp add: rewrite_rows_def)
qed

lemma same_ident: "distinct (map ident rows) \<Longrightarrow> r \<in> set rows \<Longrightarrow> x \<in> set rows \<Longrightarrow> ident x = ident r \<Longrightarrow> x = r"
  by (metis distinct_map inj_onD)

lemma steps_rows:
  assumes "distinct (map ident rows)" and "set todo \<subseteq> set rows" and "distinct todo" and "set todo \<inter> old = {}"
  shows "snd (foldl (rewrite_step ident fix_of False) (c, map (\<lambda>x. if x \<in> old then fixed fix_of x else x) rows) todo)
    = map (\<lambda>x. if x \<in> old \<union> set todo then fixed fix_of x else x) rows"
  using assms(2-4)
proof (induction todo arbitrary: c old)
  case (Cons r todo)
  let ?m = "\<lambda>old. map (\<lambda>x. if x \<in> old then fixed fix_of x else x) rows"
  have r: "r \<in> set rows" "r \<notin> old" using Cons.prems by auto
  have "snd (rewrite_step ident fix_of False (c, ?m old) r) = ?m (insert r old)"
  proof (cases "fix_of r")
    case None
    have "?m old = ?m (insert r old)" by (rule map_cong) (use None in \<open>auto simp: fixed_def\<close>)
    with None show ?thesis by (cases c) (simp add: rewrite_step_def)
  next
    case (Some f)
    have "map ((\<lambda>x. if ident x = ident r then f x else x) \<circ> (\<lambda>x. if x \<in> old then fixed fix_of x else x)) rows = ?m (insert r old)"
    proof (rule map_cong)
      fix x assume x: "x \<in> set rows"
      show "((\<lambda>x. if ident x = ident r then f x else x) \<circ> (\<lambda>x. if x \<in> old then fixed fix_of x else x)) x
          = (if x \<in> insert r old then fixed fix_of x else x)"
      proof (cases "x = r")
        case True
        then show ?thesis using r(2) Some by (simp add: fixed_def)
      next
        case False
        then have "ident x \<noteq> ident r" using same_ident [OF assms(1) r(1) x] by blast
        then show ?thesis using False by simp
      qed
    qed simp
    then show ?thesis using Some by (cases c) (simp add: rewrite_step_def update_where_def)
  qed
  then obtain c' where step: "rewrite_step ident fix_of False (c, ?m old) r = (c', ?m (insert r old))"
    by (cases "rewrite_step ident fix_of False (c, ?m old) r") auto
  have "set todo \<inter> insert r old = {}" using Cons.prems by auto
  with Cons.IH [of "insert r old" c'] Cons.prems show ?case by (simp add: step)
qed simp

lemma rows:
  assumes "distinct (map ident rows)" and "set todo \<subseteq> set rows" and "distinct todo"
  shows "snd (rewrite_rows ident fix_of False todo rows) = map (\<lambda>x. if x \<in> set todo then fixed fix_of x else x) rows"
  using steps_rows [OF assms, of "{}" "(0, 0)"] by (simp add: rewrite_rows_def)

text \<open>A second pass over the rewritten rows finds nothing to do when nothing that was written would be rewritten.\<close>

lemma settled:
  assumes "\<forall>r \<in> set todo. fix_of (fixed fix_of r) = None"
  shows "fst (rewrite_rows ident fix_of dry (map (fixed fix_of) todo) rows) = (0, int (length todo))"
proof -
  have "filter (\<lambda>r. fix_of r \<noteq> None) (map (fixed fix_of) todo) = []" using assms by (simp add: filter_empty_conv)
  then show ?thesis by (simp add: counts)
qed

end

section \<open>The names of candidates and neighbours\<close>

record backfill_options =
  bo_site :: "string option"
  bo_model :: string
  bo_dry :: bool
  bo_limit :: "int option"

definition backfill_defaults :: backfill_options where
  "backfill_defaults = \<lparr>bo_site = None, bo_model = ''all'', bo_dry = False, bo_limit = None\<rparr>"

definition backfill_site :: "(string \<Rightarrow> uid option) \<Rightarrow> string \<Rightarrow> db \<Rightarrow> exn + site" where
  "backfill_site uuid_of t d =
     (case (case uuid_of t of Some i \<Rightarrow> find_site d i | None \<Rightarrow> first_row (\<lambda>s. iexact (site_name s) t) (t_sites d)) of
        None \<Rightarrow> Inl (CommandError (''Site not found: '' @ t))
      | Some s \<Rightarrow> Inr s)"

text \<open>Rows of a site without a domain are left out, and rows of other sites when one is given.\<close>

definition site_chosen :: "db \<Rightarrow> site option \<Rightarrow> uid \<Rightarrow> bool" where
  "site_chosen d only i \<longleftrightarrow> (case find_site d i of None \<Rightarrow> True | Some s \<Rightarrow> site_domain s \<noteq> []) \<and> (case only of None \<Rightarrow> True | Some s \<Rightarrow> i = site_id s)"

definition candidate_queryset :: "db \<Rightarrow> site option \<Rightarrow> candidate list" where
  "candidate_queryset d only = sort_key cand_id (filter (\<lambda>c. site_chosen d only (cand_site c)) (t_candidates d))"

definition neighbor_site :: "db \<Rightarrow> neighbor_row \<Rightarrow> uid option" where
  "neighbor_site d r = map_option dev_site (find_device d (nr_device r))"

definition neighbor_queryset :: "db \<Rightarrow> site option \<Rightarrow> neighbor_row list \<Rightarrow> neighbor_row list" where
  "neighbor_queryset d only rs =
     sort_key nr_id (filter (\<lambda>r. case neighbor_site d r of None \<Rightarrow> only = None | Some i \<Rightarrow> site_chosen d only i) rs)"

definition candidate_fix :: "db \<Rightarrow> candidate \<Rightarrow> (candidate \<Rightarrow> candidate) option" where
  "candidate_fix d c =
     (let v = normalize_hostname (Some (cand_hostname c)) (map_option site_domain (find_site d (cand_site c)))
      in if v = [] \<or> v = cand_hostname c then None else Some (\<lambda>x. x\<lparr>cand_hostname := v\<rparr>))"

definition neighbor_fix :: "db \<Rightarrow> neighbor_row \<Rightarrow> (neighbor_row \<Rightarrow> neighbor_row) option" where
  "neighbor_fix d r =
     (let v = normalize_hostname (Some (nr_name r)) (fk (\<lambda>i. map_option site_domain (find_site d i)) (neighbor_site d r));
          peer = map_option dev_id (first_row (\<lambda>x. iexact (dev_name x) v) (t_devices d))
      in if v = [] then None
         else if \<not> (v \<noteq> nr_name r \<or> peer \<noteq> nr_peer r) then None
         else Some (\<lambda>x. x\<lparr>nr_name := v, nr_peer := peer\<rparr>))"

definition backfill_candidates :: "site option \<Rightarrow> bool \<Rightarrow> int option \<Rightarrow> db \<Rightarrow> exn + ((int \<times> int) \<times> db)" where
  "backfill_candidates only dry l d =
     bind_res (sliced l (candidate_queryset d only)) (\<lambda>todo.
       let (counts, rows) = rewrite_rows cand_id (candidate_fix d) dry todo (t_candidates d) in Inr (counts, d\<lparr>t_candidates := rows\<rparr>))"

definition backfill_neighbors :: "site option \<Rightarrow> bool \<Rightarrow> int option \<Rightarrow> db \<Rightarrow> neighbor_row list \<Rightarrow> exn + ((int \<times> int) \<times> neighbor_row list)" where
  "backfill_neighbors only dry l d rs =
     bind_res (sliced l (neighbor_queryset d only rs)) (\<lambda>todo. Inr (rewrite_rows nr_id (neighbor_fix d) dry todo rs))"

text \<open>The command: the numbers of updated and scanned rows of each table that was asked for.\<close>

definition backfill ::
  "(string \<Rightarrow> uid option) \<Rightarrow> backfill_options \<Rightarrow> db \<times> neighbor_row list \<Rightarrow> exn + ((int \<times> int) option \<times> (int \<times> int) option \<times> db \<times> neighbor_row list)"
where
  "backfill uuid_of q st =
     (let (d, rs) = st
      in bind_res (if text_true (bo_site q) then map_sum id Some (backfill_site uuid_of (or_empty (bo_site q)) d) else Inr None) (\<lambda>only.
         bind_res (if bo_model q = ''candidates'' \<or> bo_model q = ''all''
             then map_sum id (\<lambda>(n, d). (Some n, d)) (backfill_candidates only (bo_dry q) (bo_limit q) d) else Inr (None, d)) (\<lambda>(a, d).
         bind_res (if bo_model q = ''neighbors'' \<or> bo_model q = ''all''
             then map_sum id (\<lambda>(n, rs). (Some n, rs)) (backfill_neighbors only (bo_dry q) (bo_limit q) d rs) else Inr (None, rs)) (\<lambda>(b, rs).
         Inr (a, b, d, rs)))))"

interpretation candidate_pass: row_fix cand_id "candidate_fix d" for d
  by unfold_locales (auto simp: candidate_fix_def Let_def split: if_splits)

interpretation neighbor_pass: row_fix nr_id "neighbor_fix d" for d
  by unfold_locales (auto simp: neighbor_fix_def Let_def split: if_splits)

section \<open>A second run\<close>

lemma update_where_ids: "(\<And>x. f (g x) = f x) \<Longrightarrow> map f (update_where p g rs) = map f rs"
  by (induction rs) (auto simp: update_where_def)

lemma sort_key_map_same:
  assumes "\<And>x. k (f x) = k x"
  shows "sort_key k (map f xs) = map f (sort_key k xs)"
proof -
  have ins: "insort_key k (f x) (map f ys) = map f (insort_key k x ys)" for x ys
    by (induction ys) (simp_all add: assms)
  show ?thesis by (induction xs) (simp_all add: ins)
qed

text \<open>A name that the pass has written is left alone by it, if it is a clean single name.\<close>

definition plain_name :: "string \<Rightarrow> bool" where
  "plain_name v \<longleftrightarrow> clean v \<and> \<not> contains v '',''"

lemma candidate_fix_settled:
  assumes "plain_name (normalize_hostname (Some (cand_hostname c)) (map_option site_domain (find_site d (cand_site c))))"
  shows "candidate_fix d (fixed (candidate_fix d) c) = None"
  using normalize_hostname_idempotent [of "Some (cand_hostname c)" "map_option site_domain (find_site d (cand_site c))"] assms
  by (auto simp: fixed_def candidate_fix_def Let_def plain_name_def split: option.splits if_splits)

lemma neighbor_fix_settled:
  assumes "plain_name (normalize_hostname (Some (nr_name r)) (fk (\<lambda>i. map_option site_domain (find_site d i)) (neighbor_site d r)))"
  shows "neighbor_fix d (fixed (neighbor_fix d) r) = None"
  using normalize_hostname_idempotent [of "Some (nr_name r)" "fk (\<lambda>i. map_option site_domain (find_site d i)) (neighbor_site d r)"] assms
  by (auto simp: fixed_def neighbor_fix_def neighbor_site_def Let_def plain_name_def split: option.splits if_splits)

lemma candidate_fix_cong: "t_sites d' = t_sites d \<Longrightarrow> candidate_fix d' = candidate_fix d"
  by (rule ext) (simp add: candidate_fix_def find_site_def)

lemma candidate_fixed_site [simp]: "cand_site (fixed (candidate_fix d) c) = cand_site c"
  by (auto simp: fixed_def candidate_fix_def Let_def split: option.splits if_splits)

lemma neighbor_fixed_device [simp]: "nr_device (fixed (neighbor_fix d) r) = nr_device r"
  by (auto simp: fixed_def neighbor_fix_def Let_def split: option.splits if_splits)

lemma candidate_queryset_set: "set (candidate_queryset d only) = {c \<in> set (t_candidates d). site_chosen d only (cand_site c)}"
  by (auto simp: candidate_queryset_def)

lemma distinct_queryset: "distinct (map f rs) \<Longrightarrow> distinct (sort_key k (filter p rs))"
  by (simp add: distinct_map)

text \<open>
  A run over the candidates is settled after one pass: it reports the candidates whose name it has normalised,
  writes these names and nothing else, and a second run finds all of them in order and changes nothing; a dry run
  reports the same numbers and changes nothing. The normalised names are taken to be clean single names.
\<close>

theorem backfill_candidates_settles:
  assumes ids: "distinct (map cand_id (t_candidates d))"
    and plain: "\<forall>c \<in> set (t_candidates d). plain_name (normalize_hostname (Some (cand_hostname c)) (map_option site_domain (find_site d (cand_site c))))"
    and run: "backfill_candidates only False None d = Inr ((u, n), d')"
  shows "t_candidates d' = map (\<lambda>c. if site_chosen d only (cand_site c) then fixed (candidate_fix d) c else c) (t_candidates d)
    \<and> backfill_candidates only False None d' = Inr ((0, n), d')
    \<and> backfill_candidates only True None d = Inr ((u, n), d)"
proof -
  let ?q = "candidate_queryset d only" and ?f = "candidate_fix d"
  have dist: "distinct ?q" unfolding candidate_queryset_def by (rule distinct_queryset [OF ids])
  have sub: "set ?q \<subseteq> set (t_candidates d)" by (simp add: candidate_queryset_set)
  have u: "(u, n) = fst (rewrite_rows cand_id ?f False ?q (t_candidates d))" and d': "d' = d\<lparr>t_candidates := snd (rewrite_rows cand_id ?f False ?q (t_candidates d))\<rparr>"
    using run by (auto simp: backfill_candidates_def sliced_def split: prod.splits)
  have n: "n = int (length ?q)" "u = int (length (filter (\<lambda>r. ?f r \<noteq> None) ?q))" using u by (simp_all add: candidate_pass.counts)
  have rows: "t_candidates d' = map (\<lambda>c. if site_chosen d only (cand_site c) then fixed ?f c else c) (t_candidates d)"
    unfolding d' candidate_pass.rows [OF ids sub dist] by (simp add: candidate_queryset_set)
  have same: "?f = candidate_fix d'" "site_chosen d' only = site_chosen d only"
    by (simp_all add: d' candidate_fix_def [abs_def] site_chosen_def [abs_def] find_site_def)
  have q': "candidate_queryset d' only = map (fixed ?f) ?q"
  proof -
    have "filter (\<lambda>c. site_chosen d only (cand_site c)) (t_candidates d') = map (fixed ?f) (filter (\<lambda>c. site_chosen d only (cand_site c)) (t_candidates d))"
      unfolding rows by (induction "t_candidates d") (simp_all add: filter_map comp_def)
    then show ?thesis by (simp add: candidate_queryset_def same sort_key_map_same)
  qed
  have settled: "\<forall>r \<in> set ?q. ?f (fixed ?f r) = None"
    using plain sub by (auto intro: candidate_fix_settled)
  have again: "rewrite_rows cand_id ?f False (map (fixed ?f) ?q) (t_candidates d') = ((0, n), t_candidates d')"
  proof (rule prod_eqI)
    show "fst (rewrite_rows cand_id ?f False (map (fixed ?f) ?q) (t_candidates d')) = fst ((0, n), t_candidates d')"
      using candidate_pass.settled [OF settled] n by simp
    have "foldl (rewrite_step cand_id ?f False) (c, rs) (map (fixed ?f) xs) = (fst (foldl (rewrite_step cand_id ?f False) (c, rs) (map (fixed ?f) xs)), rs)"
      if "set xs \<subseteq> set ?q" for xs c and rs :: "candidate list"
      using that
    proof (induction xs arbitrary: c)
      case (Cons x xs)
      then have "?f (fixed ?f x) = None" using settled by simp
      then have "rewrite_step cand_id ?f False (c, rs) (fixed ?f x) = ((fst c, snd c + 1), rs)" by (cases c) (simp add: rewrite_step_def)
      with Cons show ?case by simp
    qed simp
    from this [of ?q "(0, 0)" "t_candidates d'"]
    show "snd (rewrite_rows cand_id ?f False (map (fixed ?f) ?q) (t_candidates d')) = snd ((0, n), t_candidates d')"
      by (simp add: rewrite_rows_def prod_eq_iff)
  qed
  have "d'\<lparr>t_candidates := t_candidates d'\<rparr> = d'" by simp
  then have "backfill_candidates only False None d' = Inr ((0, n), d')"
    using again by (simp add: backfill_candidates_def sliced_def q' flip: same)
  moreover have "rewrite_rows cand_id ?f True ?q (t_candidates d) = ((u, n), t_candidates d)"
    using candidate_pass.counts [of d True ?q "t_candidates d"] candidate_pass.dry_rows [of d ?q "t_candidates d"] n by (simp add: prod_eq_iff)
  then have "backfill_candidates only True None d = Inr ((u, n), d)" by (simp add: backfill_candidates_def sliced_def)
  ultimately show ?thesis using rows by blast
qed

section \<open>Neighbours that become the same\<close>

lemma neighbor_fixed_name:
  assumes "normalize_hostname (Some (nr_name r)) (fk (\<lambda>i. map_option site_domain (find_site d i)) (neighbor_site d r)) = v" and "v \<noteq> []"
  shows "neighbor_key (fixed (neighbor_fix d) r) = (nr_device r, nr_iface r, nr_protocol r, v, nr_port r)"
  using assms by (auto simp: fixed_def neighbor_fix_def neighbor_key_def Let_def)

text \<open>
  The pass over the neighbours can make two rows the same neighbour: when the names of two rows of one
  interface, protocol and remote port normalise to one name, every later report of that neighbour raises, which
  ends the collection of the device.
\<close>

theorem backfilled_neighbors_clash:
  assumes ids: "distinct (map nr_id rs)" and rows: "r \<in> set rs" "r' \<in> set rs" "nr_id r \<noteq> nr_id r'"
    and chosen: "r \<in> set (neighbor_queryset d only rs)" "r' \<in> set (neighbor_queryset d only rs)"
    and same: "nr_device r' = nr_device r" "nr_iface r' = nr_iface r" "nr_protocol r' = nr_protocol r" "nr_port r' = nr_port r"
    and v: "normalize_hostname (Some (nr_name r)) (fk (\<lambda>i. map_option site_domain (find_site d i)) (neighbor_site d r)) = v"
      "normalize_hostname (Some (nr_name r')) (fk (\<lambda>i. map_option site_domain (find_site d i)) (neighbor_site d r')) = v" "v \<noteq> []"
    and run: "backfill_neighbors only False None d rs = Inr (c, rs')"
    and report: "neighbor_write env d dev ifc n = Inr ((nr_device r, nr_iface r, nr_protocol r, v, nr_port r), ob)"
  shows "\<exists>m. upsert_neighbor env d dev ifc n rs' = Inl (MultipleObjectsReturned m)"
proof -
  let ?q = "neighbor_queryset d only rs" and ?f = "fixed (neighbor_fix d)" and ?k = "(nr_device r, nr_iface r, nr_protocol r, v, nr_port r)"
  have q: "distinct ?q" "set ?q \<subseteq> set rs"
    unfolding neighbor_queryset_def by (rule distinct_queryset [OF ids]) auto
  have rs': "rs' = map (\<lambda>x. if x \<in> set ?q then ?f x else x) rs"
    using run neighbor_pass.rows [OF ids q(2,1), of d] by (auto simp: backfill_neighbors_def sliced_def)
  have keys: "neighbor_key (?f r) = ?k" "neighbor_key (?f r') = ?k"
    using neighbor_fixed_name [OF v(1,3)] neighbor_fixed_name [OF v(2,3)] by (simp_all add: same)
  have "?f r \<in> set rs'" "?f r' \<in> set rs'" unfolding rs' using rows(1,2) chosen by force+
  moreover have "?f r \<noteq> ?f r'" using rows(3) neighbor_pass.fixed_ident by metis
  ultimately have "{?f r, ?f r'} \<subseteq> set (filter (\<lambda>x. neighbor_key x = ?k) rs')" using keys by simp
  then have "card {?f r, ?f r'} \<le> length (filter (\<lambda>x. neighbor_key x = ?k) rs')"
    by (meson card_length card_mono finite_set order_trans)
  then have "2 \<le> length (filter (\<lambda>x. neighbor_key x = ?k) rs')" using \<open>?f r \<noteq> ?f r'\<close> by simp
  then show ?thesis by (simp add: upsert_neighbor_def report)
qed

section \<open>Inventory numbers from a sheet\<close>

record work_sheet =
  ws_max :: int
  ws_cell :: "int \<Rightarrow> int \<Rightarrow> cell"

record work_book =
  wb_sheets :: "(string \<times> work_sheet) list"
  wb_active :: work_sheet

text \<open>The files, the suffix of a name, the number of a column, and the text of a floating-point number.\<close>

record file_env =
  fe_book :: "string \<Rightarrow> work_book option"
  fe_suffix :: "string \<Rightarrow> string"
  fe_column :: "string \<Rightarrow> string + int"
  fe_float :: "int \<Rightarrow> string"

record number_options =
  no_file :: string
  no_sheet :: "string option"
  no_start :: int
  no_inventory :: string
  no_serial :: string
  no_dry :: bool

definition number_defaults :: "string \<Rightarrow> number_options" where
  "number_defaults file = \<lparr>no_file = file, no_sheet = None, no_start = 2, no_inventory = ''C'', no_serial = ''H'', no_dry = False\<rparr>"

record number_counts =
  nc_scanned :: int
  nc_updated :: int
  nc_unchanged :: int
  nc_not_found :: int
  nc_skipped :: int

text \<open>The value of a serial number is printed before it is normalised, a number of the sheet with its fraction.\<close>

definition serial_text :: "file_env \<Rightarrow> cell \<Rightarrow> string option" where
  "serial_text fe c = (case c of Empty \<Rightarrow> None | Whole i \<Rightarrow> Some (fe_float fe i) | Shown t \<Rightarrow> Some t)"

definition module_with_serial :: "string \<Rightarrow> dev_module list \<Rightarrow> dev_module option" where
  "module_with_serial t ms = first_row (\<lambda>m. case mod_serial m of None \<Rightarrow> False | Some u \<Rightarrow> iexact u t) ms"

definition number_row :: "file_env \<Rightarrow> bool \<Rightarrow> number_counts \<times> dev_module list \<Rightarrow> cell \<times> cell \<Rightarrow> number_counts \<times> dev_module list" where
  "number_row fe dry st row =
     (let (n, ms) = st; n = n\<lparr>nc_scanned := nc_scanned n + 1\<rparr>; number = clean_cell (snd row)
      in case normalize_serial (serial_text fe (fst row)) of
           None \<Rightarrow> (n\<lparr>nc_skipped := nc_skipped n + 1\<rparr>, ms)
         | Some t \<Rightarrow>
             if number = [] then (n\<lparr>nc_skipped := nc_skipped n + 1\<rparr>, ms)
             else (case module_with_serial t ms of
                 None \<Rightarrow> (n\<lparr>nc_not_found := nc_not_found n + 1\<rparr>, ms)
               | Some m \<Rightarrow>
                   if strip (or_empty (mod_inventory m)) = number then (n\<lparr>nc_unchanged := nc_unchanged n + 1\<rparr>, ms)
                   else (n\<lparr>nc_updated := nc_updated n + 1\<rparr>,
                     if dry then ms else update_where (\<lambda>x. mod_id x = mod_id m) (\<lambda>x. x\<lparr>mod_inventory := Some number\<rparr>) ms)))"

definition no_counts :: number_counts where
  "no_counts = \<lparr>nc_scanned = 0, nc_updated = 0, nc_unchanged = 0, nc_not_found = 0, nc_skipped = 0\<rparr>"

definition sheet_pairs :: "work_sheet \<Rightarrow> int \<Rightarrow> int \<Rightarrow> int \<Rightarrow> (cell \<times> cell) list" where
  "sheet_pairs ws start serial inventory = map (\<lambda>r. (ws_cell ws r serial, ws_cell ws r inventory)) [start .. ws_max ws]"

definition chosen_sheet :: "work_book \<Rightarrow> string option \<Rightarrow> exn + work_sheet" where
  "chosen_sheet b name =
     (if \<not> text_true name then Inr (wb_active b)
      else case map_of (wb_sheets b) (or_empty name) of
          None \<Rightarrow> Inl (CommandError (''Sheet '' @ quote_text (or_empty name) @ '' not found. Available: '' @ join '', '' (map fst (wb_sheets b))))
        | Some w \<Rightarrow> Inr w)"

definition column_number :: "file_env \<Rightarrow> string \<Rightarrow> exn + int" where
  "column_number fe t = (case fe_column fe (upper (strip t)) of Inl e \<Rightarrow> Inl (CommandError (''Invalid column letter: '' @ e)) | Inr i \<Rightarrow> Inr i)"

definition import_numbers :: "file_env \<Rightarrow> number_options \<Rightarrow> dev_module list \<Rightarrow> exn + (number_counts \<times> dev_module list)" where
  "import_numbers fe q ms =
     (case fe_book fe (no_file q) of
        None \<Rightarrow> Inl (CommandError (''File not found: '' @ no_file q))
      | Some b \<Rightarrow>
          if lower (fe_suffix fe (no_file q)) \<notin> {''.xlsx'', ''.xlsm'', ''.xltx'', ''.xltm''}
          then Inl (CommandError ''Only Excel OpenXML files are supported (.xlsx/.xlsm/.xltx/.xltm).'')
          else if no_start q < 1 then Inl (CommandError ''--start-row must be 1 or greater.'')
          else bind_res (column_number fe (no_inventory q)) (\<lambda>inventory. bind_res (column_number fe (no_serial q)) (\<lambda>serial.
            bind_res (chosen_sheet b (no_sheet q)) (\<lambda>ws.
              Inr (foldl (number_row fe (no_dry q)) (no_counts, ms) (sheet_pairs ws (no_start q) serial inventory))))))"

text \<open>The module that a row of the sheet names, and the numbers that the rows give to a module.\<close>

definition row_hit :: "file_env \<Rightarrow> dev_module list \<Rightarrow> cell \<times> cell \<Rightarrow> (uid \<times> string) option" where
  "row_hit fe ms row =
     (case normalize_serial (serial_text fe (fst row)) of
        None \<Rightarrow> None
      | Some t \<Rightarrow> if clean_cell (snd row) = [] then None else map_option (\<lambda>m. (mod_id m, clean_cell (snd row))) (module_with_serial t ms))"

definition numbers_given :: "file_env \<Rightarrow> dev_module list \<Rightarrow> (cell \<times> cell) list \<Rightarrow> uid \<Rightarrow> string list" where
  "numbers_given fe ms rows i = map snd (filter (\<lambda>h. fst h = i) (List.map_filter (row_hit fe ms) rows))"

definition numbered :: "string list \<Rightarrow> dev_module \<Rightarrow> dev_module \<Rightarrow> bool" where
  "numbered ns m m' \<longleftrightarrow> (if ns = [] then m' = m else m' = m\<lparr>mod_inventory := mod_inventory m'\<rparr> \<and> strip (or_empty (mod_inventory m')) = last ns)"

definition counts_total :: "number_counts \<Rightarrow> bool" where
  "counts_total n \<longleftrightarrow> nc_scanned n = nc_updated n + nc_unchanged n + nc_not_found n + nc_skipped n"

lemma module_with_serial_map:
  assumes "list_all2 (\<lambda>m m'. mod_id m' = mod_id m \<and> mod_serial m' = mod_serial m) ms ms'"
  shows "map_option mod_id (module_with_serial t ms') = map_option mod_id (module_with_serial t ms)"
  using assms unfolding module_with_serial_def
  by (induction ms ms' rule: list_all2_induct) simp_all

lemma row_hit_same:
  assumes "list_all2 (\<lambda>m m'. mod_id m' = mod_id m \<and> mod_serial m' = mod_serial m) ms ms'"
  shows "row_hit fe ms' row = row_hit fe ms row"
proof -
  have same: "map_option (\<lambda>m. (mod_id m, w)) (module_with_serial t ms') = map_option (\<lambda>m. (mod_id m, w)) (module_with_serial t ms)" for t w
    using arg_cong [OF module_with_serial_map [OF assms, of t], of "map_option (\<lambda>i. (i, w))"] by (simp add: option.map_comp comp_def)
  show ?thesis unfolding row_hit_def by (subst same) (rule refl)
qed

lemma numbered_same: "numbered ns m m' \<Longrightarrow> mod_id m' = mod_id m \<and> mod_serial m' = mod_serial m"
  by (cases m; cases m') (auto simp: numbered_def split: if_splits)

lemma numbered_snoc:
  assumes "numbered ns m m'" and "strip w = w"
  shows "numbered (ns @ [w]) m (m'\<lparr>mod_inventory := Some w\<rparr>)"
    and "strip (or_empty (mod_inventory m')) = w \<Longrightarrow> numbered (ns @ [w]) m m'"
proof -
  have m': "m'\<lparr>mod_inventory := Some w\<rparr> = m\<lparr>mod_inventory := Some w\<rparr>"
    using assms(1) by (cases m; cases m') (auto simp: numbered_def split: if_splits)
  then show "numbered (ns @ [w]) m (m'\<lparr>mod_inventory := Some w\<rparr>)" using assms(2) by (simp add: numbered_def)
  show "numbered (ns @ [w]) m m'" if "strip (or_empty (mod_inventory m')) = w"
    using that assms(1) by (cases m; cases m') (auto simp: numbered_def split: if_splits)
qed

lemma clean_cell_strip: "strip (clean_cell c) = clean_cell c"
  by (cases c) (simp_all add: clean_cell_def strip_trimmed trimmed_int_str trimmed_def [of "[]"])

lemma numbers_given_snoc:
  "numbers_given fe ms (rows @ [row]) i =
     numbers_given fe ms rows i @ (case row_hit fe ms row of None \<Rightarrow> [] | Some (j, w) \<Rightarrow> if j = i then [w] else [])"
  by (auto simp: numbers_given_def List.map_filter_def split: option.split prod.split)

text \<open>One row: the module it names gets its number, if it does not have it already.\<close>

lemma number_row_step:
  assumes ids: "distinct (map mod_id ms)" and ms: "list_all2 (\<lambda>m m'. numbered (ns (mod_id m)) m m') ms ms'" and n: "counts_total n"
    and row: "number_row fe False (n, ms') row = (n2, ms2)"
  shows "counts_total n2 \<and> nc_scanned n2 = nc_scanned n + 1
    \<and> list_all2 (\<lambda>m m'. numbered (ns (mod_id m) @ (case row_hit fe ms row of None \<Rightarrow> [] | Some (j, w) \<Rightarrow> if j = mod_id m then [w] else [])) m m') ms ms2"
proof -
  have shape: "list_all2 (\<lambda>m m'. mod_id m' = mod_id m \<and> mod_serial m' = mod_serial m) ms ms'"
    using ms by (rule list_all2_mono) (rule numbered_same)
  have hit: "row_hit fe ms row = row_hit fe ms' row" using row_hit_same [OF shape] by simp
  show ?thesis
  proof (cases "row_hit fe ms' row")
    case None
    then have "ms2 = ms' \<and> counts_total n2 \<and> nc_scanned n2 = nc_scanned n + 1"
      using row n by (auto simp: number_row_def row_hit_def Let_def counts_total_def split: option.splits if_splits)
    with None hit ms show ?thesis by simp
  next
    case (Some h)
    let ?w = "clean_cell (snd row)"
    obtain t m where t: "normalize_serial (serial_text fe (fst row)) = Some t" and w: "?w \<noteq> []" and m: "module_with_serial t ms' = Some m"
      and h: "h = (mod_id m, ?w)"
      using Some by (auto simp: row_hit_def split: option.splits if_splits)
    have in_ms: "m \<in> set ms'" using m by (auto simp: module_with_serial_def dest: first_row_Some)
    have ids': "distinct (map mod_id ms')"
    proof -
      have "map mod_id ms' = map mod_id ms" using shape by (induction ms ms' rule: list_all2_induct) simp_all
      then show ?thesis using ids by simp
    qed
    show ?thesis
    proof (cases "strip (or_empty (mod_inventory m)) = ?w")
      case True
      then have n2: "ms2 = ms' \<and> counts_total n2 \<and> nc_scanned n2 = nc_scanned n + 1"
        using row n t w m by (auto simp: number_row_def Let_def counts_total_def)
      have "list_all2 (\<lambda>x x'. numbered (ns (mod_id x) @ (if mod_id m = mod_id x then [?w] else [])) x x') ms ms'"
      proof (rule list_all2_all_nthI)
        show "length ms = length ms'" using ms by (rule list_all2_lengthD)
        fix k assume k: "k < length ms"
        then have k': "k < length ms'" using ms list_all2_lengthD by metis
        have num: "numbered (ns (mod_id (ms ! k))) (ms ! k) (ms' ! k)" using ms k by (rule list_all2_nthD)
        have same: "mod_id (ms' ! k) = mod_id (ms ! k)" using numbered_same [OF num] by simp
        have "ms' ! k = m" if "mod_id m = mod_id (ms ! k)"
          using ids' in_ms k' that same by (metis distinct_map inj_onD nth_mem)
        then show "numbered (ns (mod_id (ms ! k)) @ (if mod_id m = mod_id (ms ! k) then [?w] else [])) (ms ! k) (ms' ! k)"
          using num numbered_snoc(2) [OF num clean_cell_strip] True by auto
      qed
      then show ?thesis using n2 hit Some h by simp
    next
      case False
      then have n2: "ms2 = update_where (\<lambda>x. mod_id x = mod_id m) (\<lambda>x. x\<lparr>mod_inventory := Some ?w\<rparr>) ms' \<and> counts_total n2 \<and> nc_scanned n2 = nc_scanned n + 1"
        using row n t w m by (auto simp: number_row_def Let_def counts_total_def)
      have "list_all2 (\<lambda>x x'. numbered (ns (mod_id x) @ (if mod_id m = mod_id x then [?w] else [])) x x') ms ms2"
        unfolding conjunct1 [OF n2] update_where_def list_all2_map2
        using ms by (rule list_all2_mono) (use numbered_same numbered_snoc(1) [OF _ clean_cell_strip] in auto)
      then show ?thesis using n2 hit Some h by simp
    qed
  qed
qed

lemma number_rows_run:
  assumes ids: "distinct (map mod_id ms)" and run: "foldl (number_row fe False) (no_counts, ms) rows = (n, ms')"
  shows "counts_total n \<and> nc_scanned n = int (length rows) \<and> list_all2 (\<lambda>m m'. numbered (numbers_given fe ms rows (mod_id m)) m m') ms ms'"
  using run
proof (induction rows arbitrary: n ms' rule: rev_induct)
  case Nil
  then show ?case by (auto simp: no_counts_def counts_total_def numbers_given_def numbered_def List.map_filter_simps intro: list_all2_refl)
next
  case (snoc row rows)
  obtain n1 ms1 where run1: "foldl (number_row fe False) (no_counts, ms) rows = (n1, ms1)" by fastforce
  with snoc.IH have one: "counts_total n1" "nc_scanned n1 = int (length rows)"
    "list_all2 (\<lambda>m m'. numbered (numbers_given fe ms rows (mod_id m)) m m') ms ms1" by blast+
  have "number_row fe False (n1, ms1) row = (n, ms')" using snoc.prems run1 by simp
  from number_row_step [OF ids one(3,1) this] one(2) show ?case by (simp add: numbers_given_snoc)
qed

lemma number_rows_dry: "snd (foldl (number_row fe True) (n, ms) rows) = ms"
proof (induction rows arbitrary: n)
  case (Cons row rows)
  have "snd (number_row fe True (n, ms) row) = ms" by (auto simp: number_row_def Let_def split: option.split)
  then show ?case using Cons.IH by (cases "number_row fe True (n, ms) row") simp
qed simp

text \<open>
  An import of inventory numbers counts every row of the sheet once. It gives every module that the sheet
  names, by the first module with the serial number, the last number that the sheet has for it, and changes nothing else; a dry run changes nothing at all.
\<close>

theorem import_numbers_last:
  assumes ids: "distinct (map mod_id ms)" and run: "import_numbers fe q ms = Inr (n, ms')"
  shows "\<exists>rows. (if no_dry q then ms' = ms
      else counts_total n \<and> nc_scanned n = int (length rows) \<and> list_all2 (\<lambda>m m'. numbered (numbers_given fe ms rows (mod_id m)) m m') ms ms')
    \<and> (\<exists>b ws i j. fe_book fe (no_file q) = Some b \<and> chosen_sheet b (no_sheet q) = Inr ws \<and> column_number fe (no_serial q) = Inr i
        \<and> column_number fe (no_inventory q) = Inr j \<and> rows = sheet_pairs ws (no_start q) i j)"
proof -
  obtain b ws i j where b: "fe_book fe (no_file q) = Some b" "chosen_sheet b (no_sheet q) = Inr ws" "column_number fe (no_serial q) = Inr i"
      "column_number fe (no_inventory q) = Inr j"
    and fold: "foldl (number_row fe (no_dry q)) (no_counts, ms) (sheet_pairs ws (no_start q) i j) = (n, ms')"
    using run by (auto simp: import_numbers_def bind_res_eq_Inr split: option.splits if_splits)
  have "if no_dry q then ms' = ms
      else counts_total n \<and> nc_scanned n = int (length (sheet_pairs ws (no_start q) i j))
        \<and> list_all2 (\<lambda>m m'. numbered (numbers_given fe ms (sheet_pairs ws (no_start q) i j) (mod_id m)) m m') ms ms'"
    using fold number_rows_dry [of fe no_counts ms "sheet_pairs ws (no_start q) i j"] number_rows_run [OF ids, of fe "sheet_pairs ws (no_start q) i j" n ms']
    by (cases "no_dry q") simp_all
  then show ?thesis using b by blast
qed

section \<open>VLANs from sheets\<close>

text \<open>
  A value of a row of a sheet: of a column that is missing, an empty cell, or anything else, with its text.
\<close>

datatype sheet_value = Missing | NotANumber | Given string

fun is_na :: "sheet_value \<Rightarrow> bool" where
  "is_na (Given _) = False"
| "is_na _ = True"

fun value_text :: "sheet_value \<Rightarrow> string" where
  "value_text Missing = ''None''"
| "value_text NotANumber = ''nan''"
| "value_text (Given t) = t"

record vlan_row =
  vr_id :: sheet_value
  vr_name :: sheet_value
  vr_subnet :: sheet_value
  vr_gateway :: sheet_value
  vr_usage :: sheet_value
  vr_description :: sheet_value

record vlan_env =
  ve_int :: "string \<Rightarrow> exn + int"
  ve_id :: "uid \<times> int \<Rightarrow> uid"
  ve_sheet :: "string \<Rightarrow> vlan_row list option"
  ve_sites :: "site list \<Rightarrow> site list"

definition usage_choices :: "string list" where
  "usage_choices = [''ACI'', ''Campus'', ''Management'', ''PostPro'', ''Autark'', ''BTSU'', ''IP-Telefine'', ''Frei'', ''Sonstiges'']"

definition optional_value :: "sheet_value \<Rightarrow> string option" where
  "optional_value v = (if is_na v then None else Some (strip (value_text v)))"

definition usage_value :: "sheet_value \<Rightarrow> string" where
  "usage_value v = (case v of Given t \<Rightarrow> if t \<in> set usage_choices then t else ''Sonstiges'' | _ \<Rightarrow> ''Sonstiges'')"

definition vlan_key :: "vlan \<Rightarrow> uid \<times> int" where
  "vlan_key v = (vlan_site v, vlan_number v)"

definition change_vlan :: "vlan_row \<Rightarrow> vlan \<Rightarrow> vlan" where
  "change_vlan r v = v\<lparr>vlan_name := optional_value (vr_name r), vlan_subnet := Some (strip (value_text (vr_subnet r))),
     vlan_gateway := optional_value (vr_gateway r), vlan_usage := Some (usage_value (vr_usage r)), vlan_description := optional_value (vr_description r)\<rparr>"

definition make_vlan :: "vlan_env \<Rightarrow> uid \<times> int \<Rightarrow> vlan_row \<Rightarrow> vlan" where
  "make_vlan env k r = change_vlan r \<lparr>vlan_uid = ve_id env k, vlan_site = fst k, vlan_number = snd k, vlan_name = Some [], vlan_subnet = None,
     vlan_gateway = None, vlan_usage = Some ''Sonstiges'', vlan_description = None\<rparr>"

definition put_vlan :: "vlan_env \<Rightarrow> uid \<times> int \<Rightarrow> vlan_row \<Rightarrow> vlan list \<Rightarrow> vlan list" where
  "put_vlan env k r vs = upsert (\<lambda>v. vlan_key v = k) (make_vlan env k r) (change_vlan r) vs"

text \<open>
  The rows of a sheet one after the other: the numbers of created and updated VLANs, and the exception of a
  number that cannot be read, which leaves the rows before it stored.
\<close>

fun vlan_rows :: "vlan_env \<Rightarrow> uid \<Rightarrow> vlan_row list \<Rightarrow> (int \<times> int) \<times> vlan list \<Rightarrow> exn option \<times> (int \<times> int) \<times> vlan list" where
  "vlan_rows env s [] st = (None, st)"
| "vlan_rows env s (r # rs) ((created, updated), vs) =
     (if is_na (vr_id r) then vlan_rows env s rs ((created, updated), vs)
      else case ve_int env (value_text (vr_id r)) of
          Inl e \<Rightarrow> (Some e, (created, updated), vs)
        | Inr i \<Rightarrow> vlan_rows env s rs
            (if \<exists>v \<in> set vs. vlan_key v = (s, i) then (created, updated + 1) else (created + 1, updated), put_vlan env (s, i) r vs))"

fun import_vlan_files ::
  "vlan_env \<Rightarrow> (string \<times> string) list \<Rightarrow> db \<Rightarrow> (int \<times> int) \<times> vlan list \<Rightarrow> exn option \<times> (int \<times> int) \<times> vlan list"
where
  "import_vlan_files env [] d st = (None, st)"
| "import_vlan_files env ((name, path) # fs) d st =
     (case ve_sheet env path of
        None \<Rightarrow> (Some (CommandError (''File not found: '' @ path)), st)
      | Some rows \<Rightarrow>
          (case ve_sites env (filter (\<lambda>s. site_name s = name) (t_sites d)) of
             [] \<Rightarrow> (Some (CommandError (''Unable to locate site '' @ quote_text name @ '' to attach VLANs.'')), st)
           | s # _ \<Rightarrow> (case vlan_rows env (site_id s) rows st of
                (Some e, st) \<Rightarrow> (Some e, st)
              | (None, st) \<Rightarrow> import_vlan_files env fs d st)))"

definition import_vlans :: "vlan_env \<Rightarrow> string \<Rightarrow> string \<Rightarrow> db \<Rightarrow> exn option \<times> (int \<times> int) \<times> db" where
  "import_vlans env berlin bonn d =
     (let (e, n, vs) = import_vlan_files env [(''Berlin'', berlin), (''Bonn'', bonn)] d ((0, 0), t_vlans d) in (e, n, d\<lparr>t_vlans := vs\<rparr>))"

interpretation vlans: keyed_table vlan_key "make_vlan env" change_vlan "put_vlan env" for env
  by unfold_locales (simp_all add: vlan_key_def make_vlan_def change_vlan_def put_vlan_def)

text \<open>The writes of a sheet, when all of its numbers can be read.\<close>

definition vlan_writes :: "vlan_env \<Rightarrow> uid \<Rightarrow> vlan_row list \<Rightarrow> ((uid \<times> int) \<times> vlan_row) list" where
  "vlan_writes env s rs = List.map_filter (\<lambda>r. if is_na (vr_id r) then None
     else case ve_int env (value_text (vr_id r)) of Inl _ \<Rightarrow> None | Inr i \<Rightarrow> Some ((s, i), r)) rs"

lemma vlan_rows_put: "vlan_rows env s rs (n, vs) = (None, n', vs') \<Longrightarrow> vs' = put_all (put_vlan env) (vlan_writes env s rs) vs
  \<and> fst n' + snd n' = fst n + snd n + int (length (vlan_writes env s rs))"
proof (induction rs arbitrary: n vs)
  case Nil
  then show ?case by (simp add: vlan_writes_def List.map_filter_simps)
next
  case (Cons r rs)
  show ?case
  proof (cases "is_na (vr_id r)")
    case True
    with Cons.prems have "vlan_rows env s rs (n, vs) = (None, n', vs')" by (cases n) simp
    from Cons.IH [OF this] True show ?thesis by (simp add: vlan_writes_def List.map_filter_simps)
  next
    case False
    then obtain i where i: "ve_int env (value_text (vr_id r)) = Inr i" using Cons.prems by (cases n) (auto split: sum.splits)
    let ?n = "if \<exists>v \<in> set vs. vlan_key v = (s, i) then (fst n, snd n + 1) else (fst n + 1, snd n)"
    have "vlan_rows env s rs (?n, put_vlan env (s, i) r vs) = (None, n', vs')"
      using Cons.prems False i by (cases n) (simp split del: if_split cong del: if_weak_cong)
    from Cons.IH [OF this] False i show ?thesis by (simp add: vlan_writes_def List.map_filter_simps)
  qed
qed

lemma vlan_rows_keys:
  "vlan_rows env s rs st = (e, n', vs') \<Longrightarrow> distinct (map vlan_key (snd st)) \<Longrightarrow>
     distinct (map vlan_key vs') \<and> filter (\<lambda>v. vlan_site v \<noteq> s) vs' = filter (\<lambda>v. vlan_site v \<noteq> s) (snd st)"
proof (induction rs arbitrary: st)
  case (Cons r rs)
  obtain c u vs where st: "st = ((c, u), vs)" by (metis surj_pair)
  have other: "filter (\<lambda>v. vlan_site v \<noteq> s) (put_vlan env (s, i) r vs) = filter (\<lambda>v. vlan_site v \<noteq> s) vs" for i
    by (induction vs) (auto simp: make_vlan_def change_vlan_def vlan_key_def)
  show ?case
  proof (cases "is_na (vr_id r)")
    case True
    with Cons show ?thesis by (simp add: st)
  next
    case False
    show ?thesis
    proof (cases "ve_int env (value_text (vr_id r))")
      case (Inl x)
      with Cons.prems False show ?thesis by (simp add: st)
    next
      case (Inr i)
      have "distinct (map vlan_key (put_vlan env (s, i) r vs))" using Cons.prems(2) by (intro vlans.distinct_put) (simp add: st)
      moreover have "vlan_rows env s rs (if \<exists>v \<in> set vs. vlan_key v = (s, i) then (c, u + 1) else (c + 1, u), put_vlan env (s, i) r vs) = (e, n', vs')"
        using Cons.prems(1) False Inr by (simp add: st)
      ultimately show ?thesis using Cons.IH other by (simp add: st)
    qed
  qed
qed simp

text \<open>
  A sheet of VLANs changes the VLANs of its site only and keeps the numbers of a site apart, even when it ends
  early. Without an error every VLAN that the sheet names holds the values of its last row, and the numbers of created and updated
  VLANs add up to the rows with a number.
\<close>

theorem vlan_sheet_stored:
  assumes "distinct (map vlan_key vs)" and run: "vlan_rows env s rs ((0, 0), vs) = (e, (c, u), vs')"
  shows "distinct (map vlan_key vs') \<and> filter (\<lambda>v. vlan_site v \<noteq> s) vs' = filter (\<lambda>v. vlan_site v \<noteq> s) vs
    \<and> (e = None \<longrightarrow> c + u = int (length (vlan_writes env s rs))
        \<and> (\<forall>ws k r ws'. vlan_writes env s rs = ws @ (k, r) # ws' \<and> k \<notin> fst ` set ws' \<longrightarrow>
             row_at vlan_key vs' k = Some (case row_at vlan_key vs k of None \<Rightarrow> make_vlan env k r | Some v \<Rightarrow> change_vlan r v)))"
proof -
  have "row_at vlan_key (put_all (put_vlan env) (ws @ (k, r) # ws') vs) k
      = Some (case row_at vlan_key vs k of None \<Rightarrow> make_vlan env k r | Some v \<Rightarrow> change_vlan r v)" if "k \<notin> fst ` set ws'" for ws k r ws'
  proof -
    have "put_all (put_vlan env) (ws @ (k, r) # ws') vs = put_all (put_vlan env) ws' (put_all (put_vlan env) (ws @ [(k, r)]) vs)"
      by (simp add: put_all_def)
    then have "row_at vlan_key (put_all (put_vlan env) (ws @ (k, r) # ws') vs) k = row_at vlan_key (put_all (put_vlan env) (ws @ [(k, r)]) vs) k"
      using vlans.row_put_all_other [OF that] by simp
    also have "\<dots> = Some (case row_at vlan_key vs k of None \<Rightarrow> make_vlan env k r | Some v \<Rightarrow> change_vlan r v)"
      by (rule vlans.row_put_all_last) (simp_all add: make_vlan_def change_vlan_def)
    finally show ?thesis .
  qed
  moreover have "e = None \<Longrightarrow> vs' = put_all (put_vlan env) (vlan_writes env s rs) vs \<and> c + u = int (length (vlan_writes env s rs))"
    using vlan_rows_put [of env s rs "(0, 0)" vs "(c, u)" vs'] run by simp
  ultimately show ?thesis using vlan_rows_keys [OF run] assms(1) by auto
qed

section \<open>Examples\<close>

definition ex_domain_site :: site where
  "ex_domain_site = \<lparr>site_id = 1, site_name = ''Bonn'', site_domain = ''bn.example.de''\<rparr>"

definition ex_named :: db where
  "ex_named = empty_db\<lparr>t_sites := [ex_domain_site], t_devices := [new_device 1 ''sw1'' ''10.0.0.1'' 1 1], t_candidates :=
     [\<lparr>cand_id = 1, cand_site = 1, cand_ip = ''10.0.0.2'', cand_hostname = ''SW2'', cand_alive = True, cand_ssh = True, cand_ping = True,
       cand_last_seen = 0, cand_classified = False, cand_accepted = None\<rparr>]\<rparr>"

lemma backfill_candidates_settles_witness:
  "\<exists>d'. backfill_candidates None False None ex_named = Inr ((1, 1), d') \<and> backfill_candidates None False None d' = Inr ((0, 1), d')"
proof -
  have "backfill_candidates None False None ex_named = Inr ((1, 1), snd (case backfill_candidates None False None ex_named of Inr x \<Rightarrow> x))"
    by code_simp
  then obtain d' where run: "backfill_candidates None False None ex_named = Inr ((1, 1), d')" by blast
  have "distinct (map cand_id (t_candidates ex_named))" by code_simp
  moreover have "\<forall>c \<in> set (t_candidates ex_named). plain_name (normalize_hostname (Some (cand_hostname c)) (map_option site_domain (find_site ex_named (cand_site c))))"
    unfolding plain_name_def clean_def trimmed_def by code_simp
  ultimately show ?thesis using backfill_candidates_settles [OF _ _ run] run by blast
qed

definition ex_neighbor :: "uid \<Rightarrow> string \<Rightarrow> neighbor_row" where
  "ex_neighbor i name = \<lparr>nr_id = i, nr_device = 1, nr_iface = 4, nr_name = name, nr_peer = None, nr_port = ''Gi0/1'', nr_protocol = ''cdp'',
     nr_platform = [], nr_caps = [], nr_first_seen = 0, nr_last_seen = 0\<rparr>"

definition ex_report :: neighbor where
  "ex_report = \<lparr>nb_local = ''Gi0/2'', nb_name = ''core'', nb_port = ''Gi0/1'', nb_platform = [], nb_caps = [], nb_protocol = ''cdp''\<rparr>"

definition ex_topo_env :: topo_env where
  "ex_topo_env = \<lparr>te_now = 0, te_id = (\<lambda>_. 9)\<rparr>"

lemma backfilled_neighbors_clash_witness:
  "\<exists>c rs' m. backfill_neighbors None False None ex_named [ex_neighbor 1 ''core'', ex_neighbor 2 ''core.bn.example.de''] = Inr (c, rs')
     \<and> upsert_neighbor ex_topo_env ex_named (new_device 1 ''sw1'' ''10.0.0.1'' 1 1) 4 ex_report rs' = Inl (MultipleObjectsReturned m)"
proof -
  let ?r = "ex_neighbor 1 ''core''" and ?r' = "ex_neighbor 2 ''core.bn.example.de''"
  let ?site = "\<lambda>r. fk (\<lambda>i. map_option site_domain (find_site ex_named i)) (neighbor_site ex_named r)"
  obtain c rs' where run: "backfill_neighbors None False None ex_named [?r, ?r'] = Inr (c, rs')"
    by (cases "rewrite_rows nr_id (neighbor_fix ex_named) False (neighbor_queryset ex_named None [?r, ?r']) [?r, ?r']")
      (simp add: backfill_neighbors_def sliced_def)
  have ids: "distinct (map nr_id [?r, ?r'])" and rows: "?r \<in> set [?r, ?r']" "?r' \<in> set [?r, ?r']" "nr_id ?r \<noteq> nr_id ?r'"
    by (simp_all add: ex_neighbor_def)
  have chosen: "?r \<in> set (neighbor_queryset ex_named None [?r, ?r'])" "?r' \<in> set (neighbor_queryset ex_named None [?r, ?r'])"
    by (simp_all add: neighbor_queryset_def neighbor_site_def site_chosen_def ex_neighbor_def ex_named_def ex_domain_site_def find_device_def
        find_site_def new_device_def)
  have same: "nr_device ?r' = nr_device ?r" "nr_iface ?r' = nr_iface ?r" "nr_protocol ?r' = nr_protocol ?r" "nr_port ?r' = nr_port ?r"
    by (simp_all add: ex_neighbor_def)
  have v: "normalize_hostname (Some (nr_name ?r)) (?site ?r) = ''core.bn.example.de''"
    "normalize_hostname (Some (nr_name ?r')) (?site ?r') = ''core.bn.example.de''" "''core.bn.example.de'' \<noteq> []"
    by code_simp+
  have "\<exists>ob. neighbor_write ex_topo_env ex_named (new_device 1 ''sw1'' ''10.0.0.1'' 1 1) 4 ex_report
      = Inr ((nr_device ?r, nr_iface ?r, nr_protocol ?r, ''core.bn.example.de'', nr_port ?r), ob)"
  proof -
    have "(case neighbor_write ex_topo_env ex_named (new_device 1 ''sw1'' ''10.0.0.1'' 1 1) 4 ex_report of
        Inl _ \<Rightarrow> False | Inr (k, _) \<Rightarrow> k = (nr_device ?r, nr_iface ?r, nr_protocol ?r, ''core.bn.example.de'', nr_port ?r))"
      by code_simp
    then show ?thesis by (auto split: sum.splits)
  qed
  then show ?thesis using backfilled_neighbors_clash [OF ids rows chosen same v run] run by blast
qed

definition ex_book :: file_env where
  "ex_book = \<lparr>fe_book = (\<lambda>f. Some \<lparr>wb_sheets = [], wb_active = \<lparr>ws_max = 3, ws_cell = (\<lambda>r c. if c = 8 then Shown ''fox1'' else Whole (r + 10))\<rparr>\<rparr>),
     fe_suffix = (\<lambda>f. ''.XLSX''), fe_column = (\<lambda>t. Inr (if t = ''C'' then 3 else 8)), fe_float = (\<lambda>i. int_str i @ ''.0'')\<rparr>"

definition ex_number_options :: number_options where
  "ex_number_options = (number_defaults ''x'')\<lparr>no_inventory := ''c''\<rparr>"

definition ex_fan :: dev_module where
  "ex_fan = (new_module 1 1 ''Fan'')\<lparr>mod_serial := Some ''FOX1''\<rparr>"

lemma import_numbers_last_witness:
  "\<exists>n ms'. import_numbers ex_book ex_number_options [ex_fan] = Inr (n, ms') \<and> counts_total n
     \<and> list_all2 (numbered [''12'', ''13'']) [ex_fan] ms'"
proof -
  have ids: "distinct (map mod_id [ex_fan])" by simp
  obtain n ms' where run: "import_numbers ex_book ex_number_options [ex_fan] = Inr (n, ms')"
  proof -
    have "case import_numbers ex_book ex_number_options [ex_fan] of Inl _ \<Rightarrow> False | Inr _ \<Rightarrow> True" by code_simp
    then show ?thesis using that by (auto split: sum.splits)
  qed
  obtain rows where r: "if no_dry ex_number_options then ms' = [ex_fan]
      else counts_total n \<and> nc_scanned n = int (length rows) \<and> list_all2 (\<lambda>m m'. numbered (numbers_given ex_book [ex_fan] rows (mod_id m)) m m') [ex_fan] ms'"
    and "\<exists>b ws i j. fe_book ex_book (no_file ex_number_options) = Some b \<and> chosen_sheet b (no_sheet ex_number_options) = Inr ws
      \<and> column_number ex_book (no_serial ex_number_options) = Inr i \<and> column_number ex_book (no_inventory ex_number_options) = Inr j
      \<and> rows = sheet_pairs ws (no_start ex_number_options) i j"
    using import_numbers_last [OF ids run] by blast
  moreover have "column_number ex_book (no_serial ex_number_options) = Inr 8" "column_number ex_book (no_inventory ex_number_options) = Inr 3"
    by code_simp+
  ultimately have rows: "rows = [(Shown ''fox1'', Whole 12), (Shown ''fox1'', Whole 13)]"
    by (auto simp: ex_book_def ex_number_options_def number_defaults_def chosen_sheet_def sheet_pairs_def upto.simps)
  have given: "numbers_given ex_book [ex_fan] rows 1 = [''12'', ''13'']" unfolding rows by code_simp
  have "mod_id ex_fan = 1" "\<not> no_dry ex_number_options" by code_simp+
  then show ?thesis using r given run by (auto simp: list_all2_Cons1)
qed

definition ex_vlan_env :: vlan_env where
  "ex_vlan_env = \<lparr>ve_int = (\<lambda>t. case int_of_text t of None \<Rightarrow> Inl (ValueError t) | Some i \<Rightarrow> Inr i), ve_id = (\<lambda>k. 7), ve_sheet = (\<lambda>p. None), ve_sites = (\<lambda>ss. ss)\<rparr>"

definition ex_vlan_row :: vlan_row where
  "ex_vlan_row = \<lparr>vr_id = Given ''10'', vr_name = Given '' lab '', vr_subnet = NotANumber, vr_gateway = NotANumber, vr_usage = Given ''Lab'', vr_description = Missing\<rparr>"

text \<open>An empty cell of the column of subnets is stored as a text.\<close>

lemma vlan_sheet_stored_witness:
  "\<exists>e c u vs'. vlan_rows ex_vlan_env 1 [ex_vlan_row] ((0, 0), []) = (e, (c, u), vs') \<and> c + u = 1
     \<and> map_option vlan_subnet (row_at vlan_key vs' (1, 10)) = Some (Some ''nan'')"
proof -
  obtain e c u vs' where run: "vlan_rows ex_vlan_env 1 [ex_vlan_row] ((0, 0), []) = (e, (c, u), vs')" by (metis surj_pair)
  have "fst (vlan_rows ex_vlan_env 1 [ex_vlan_row] ((0, 0), [])) = None" by code_simp
  then have e: "e = None" using run by simp
  have w: "vlan_writes ex_vlan_env 1 [ex_vlan_row] = [] @ ((1, 10), ex_vlan_row) # []" by code_simp
  have "distinct (map vlan_key [])" by simp
  from vlan_sheet_stored [OF this run] e
  have sums: "c + u = int (length (vlan_writes ex_vlan_env 1 [ex_vlan_row]))"
    and last: "\<forall>ws k r ws'. vlan_writes ex_vlan_env 1 [ex_vlan_row] = ws @ (k, r) # ws' \<and> k \<notin> fst ` set ws' \<longrightarrow>
      row_at vlan_key vs' k = Some (case row_at vlan_key [] k of None \<Rightarrow> make_vlan ex_vlan_env k r | Some v \<Rightarrow> change_vlan r v)"
    by blast+
  have "row_at vlan_key vs' (1, 10) = Some (case row_at vlan_key [] (1, 10) of None \<Rightarrow> make_vlan ex_vlan_env (1, 10) ex_vlan_row | Some v \<Rightarrow> change_vlan ex_vlan_row v)"
    using last w by (metis empty_iff image_empty list.set(1))
  moreover have "vlan_subnet (make_vlan ex_vlan_env (1, 10) ex_vlan_row) = Some ''nan''" by code_simp
  ultimately show ?thesis using run sums w by (simp add: row_at_def)
qed

end
