(* ===== verification/ChoiceSets.thy ===== *)
theory ChoiceSets
  imports PyRegex PyVal
begin

text \<open>
  The sets of choices of \<^verbatim>\<open>utilities/choices.py\<close>: how a class of choices is made from its
  list, which the configuration may replace or extend, and what the class offers. The labels are
  those before their translation.
\<close>

section \<open>Choices\<close>

text \<open>A value, its label and its colour.\<close>

type_synonym plain = "pyval \<times> string \<times> string option"

datatype choice = Single plain | Optgroup string "plain list"

text \<open>What the body of a class has: its key, whether the choices are a list, its constants and its choices.\<close>

record choice_set =
  cs_key :: "string option"
  cs_is_list :: bool
  cs_constants :: "(string \<times> pyval) list"
  cs_choices :: "choice list"

text \<open>What the metaclass makes: pairs of values and labels, in groups as they were, and the colours.\<close>

datatype pair_choice = Pair pyval string | Pairs string "(pyval \<times> string) list"

record choice_class =
  cc_choices :: "pair_choice list"
  cc_colors :: "(pyval \<times> string) list"

section \<open>The metaclass\<close>

definition configured :: "(string \<Rightarrow> choice list option) \<Rightarrow> string \<Rightarrow> string \<Rightarrow> choice_set \<Rightarrow> exn + choice list" where
  "configured field_choices app name cs =
     (case cs_key cs of
        None \<Rightarrow> Inr (cs_choices cs)
      | Some key \<Rightarrow>
          if key = [] then Inr (cs_choices cs)
          else if \<not> cs_is_list cs then Inl (AssertionError (name @ '' has a key defined but CHOICES is not a list''))
          else (case field_choices (app @ ''.'' @ key) of
              Some xs \<Rightarrow> Inr xs
            | None \<Rightarrow> (case field_choices (app @ ''.'' @ key @ ''+'') of
                Some xs \<Rightarrow> Inr (cs_choices cs @ xs)
              | None \<Rightarrow> Inr (cs_choices cs))))"

definition put_color :: "plain \<Rightarrow> (pyval \<times> string) list \<Rightarrow> (pyval \<times> string) list" where
  "put_color p cs = (case p of (v, _, None) \<Rightarrow> cs | (v, _, Some c) \<Rightarrow> dict_put v c cs)"

fun add_choice :: "choice \<Rightarrow> choice_class \<Rightarrow> choice_class" where
  "add_choice (Single p) k = k\<lparr>cc_choices := cc_choices k @ [Pair (fst p) (fst (snd p))], cc_colors := put_color p (cc_colors k)\<rparr>"
| "add_choice (Optgroup g ps) k =
     k\<lparr>cc_choices := cc_choices k @ [Pairs g (map (\<lambda>p. (fst p, fst (snd p))) ps)], cc_colors := fold put_color ps (cc_colors k)\<rparr>"

definition make_class :: "(string \<Rightarrow> choice list option) \<Rightarrow> string \<Rightarrow> string \<Rightarrow> choice_set \<Rightarrow> exn + choice_class" where
  "make_class field_choices app name cs =
     bind_res (configured field_choices app name cs) (\<lambda>xs. Inr (fold add_choice xs \<lparr>cc_choices = [], cc_colors = []\<rparr>))"

section \<open>What a class offers\<close>

fun unpack_grouped_choices :: "pair_choice list \<Rightarrow> (pyval \<times> string) list" where
  "unpack_grouped_choices [] = []"
| "unpack_grouped_choices (Pair v l # cs) = (v, l) # unpack_grouped_choices cs"
| "unpack_grouped_choices (Pairs g ps # cs) = ps @ unpack_grouped_choices cs"

definition choice_values :: "choice_class \<Rightarrow> pyval list" where
  "choice_values k = map fst (unpack_grouped_choices (cc_choices k))"

definition enum_char :: "char \<Rightarrow> bool" where
  "enum_char c \<longleftrightarrow> c = CHR ''_'' \<or> (65 \<le> code c \<and> code c \<le> 90) \<or> is_digit c"

definition enum_key :: "pyval \<Rightarrow> string" where
  "enum_key v = map (\<lambda>c. if enum_char c then c else CHR ''_'') (upper (py_str v))"

definition enum_prefix :: "string \<Rightarrow> string" where
  "enum_prefix p = (if p = [] then [] else p @ ''_'')"

text \<open>The members of the enumeration; of two values with the same name the later one stays.\<close>

definition enum_members :: "string \<Rightarrow> choice_class \<Rightarrow> (string \<times> pyval) list" where
  "enum_members p k = fold (\<lambda>v. dict_put (upper (enum_prefix p @ enum_key v)) v) (choice_values k) []"

definition enum_name :: "string \<Rightarrow> string option \<Rightarrow> string" where
  "enum_name cls name =
     (if text_true name then or_empty name
      else (case cut ''Choices'' cls of None \<Rightarrow> cls | Some (a, _) \<Rightarrow> a) @ ''Enum'')"

section \<open>Texts (\<^verbatim>\<open>utilities/string.py\<close>)\<close>

definition remove_linebreaks :: "string \<Rightarrow> string" where
  "remove_linebreaks s = filter (\<lambda>c. c \<noteq> CHR 0x0D) (filter (\<lambda>c. c \<noteq> CHR 0x0A) s)"

definition title :: "string \<Rightarrow> string" where
  "title s = join '' '' (map (\<lambda>w. char_upper (hd w) # tl w) (split_ws s))"

definition trailing_slash :: "string \<Rightarrow> string" where
  "trailing_slash s = (if s \<noteq> [] then strip_char (CHR ''/'') s @ ''/'' else [])"

section \<open>The values of a class\<close>

fun flat_choices :: "choice list \<Rightarrow> plain list" where
  "flat_choices [] = []"
| "flat_choices (Single p # cs) = p # flat_choices cs"
| "flat_choices (Optgroup g ps # cs) = ps @ flat_choices cs"

lemma unpack_append: "unpack_grouped_choices (xs @ ys) = unpack_grouped_choices xs @ unpack_grouped_choices ys"
  by (induction xs rule: unpack_grouped_choices.induct) simp_all

lemma flat_append: "flat_choices (xs @ ys) = flat_choices xs @ flat_choices ys"
  by (induction xs rule: flat_choices.induct) simp_all

lemma put_color_keys: "fst ` set (put_color p cs) = fst ` set cs \<union> (if snd (snd p) = None then {} else {fst p})"
  using keys_dict_put [of "fst p" _ cs] by (cases p) (auto simp: put_color_def split: option.split)

lemma put_colors_keys: "fst ` set (fold put_color ps cs) = fst ` set cs \<union> fst ` {p \<in> set ps. snd (snd p) \<noteq> None}"
  by (induction ps arbitrary: cs) (auto simp: put_color_keys)

lemma add_choices_values:
  "unpack_grouped_choices (cc_choices (fold add_choice xs k)) = unpack_grouped_choices (cc_choices k) @ map (\<lambda>p. (fst p, fst (snd p))) (flat_choices xs)"
  by (induction xs arbitrary: k rule: flat_choices.induct) (simp_all add: unpack_append)

lemma add_choices_colors:
  "fst ` set (cc_colors (fold add_choice xs k)) = fst ` set (cc_colors k) \<union> fst ` {p \<in> set (flat_choices xs). snd (snd p) \<noteq> None}"
  by (induction xs arbitrary: k rule: flat_choices.induct) (auto simp: put_color_keys put_colors_keys)

lemma class_values: "make_class f app name cs = Inr k \<Longrightarrow> \<exists>xs. configured f app name cs = Inr xs \<and> choice_values k = map fst (flat_choices xs)"
  by (auto simp: make_class_def bind_res_eq_Inr choice_values_def add_choices_values comp_def)

text \<open>
  A class of choices offers the values of its list in order, in groups or not; the configuration adds
  values behind them or replaces them, only for a class with a key; every coloured value is one of the
  values; and making the class fails exactly if it has a key and its choices are no list.
\<close>

theorem choice_class_values:
  "case make_class f app name cs of
     Inl e \<Rightarrow> (\<exists>key. cs_key cs = Some key \<and> key \<noteq> []) \<and> \<not> cs_is_list cs
   | Inr k \<Rightarrow> fst ` set (cc_colors k) \<subseteq> set (choice_values k)
      \<and> choice_values k =
         (let stock = map fst (flat_choices (cs_choices cs))
          in case cs_key cs of
               None \<Rightarrow> stock
             | Some key \<Rightarrow> if key = [] then stock
                 else (case f (app @ ''.'' @ key) of
                     Some xs \<Rightarrow> map fst (flat_choices xs)
                   | None \<Rightarrow> stock @ (case f (app @ ''.'' @ key @ ''+'') of None \<Rightarrow> [] | Some xs \<Rightarrow> map fst (flat_choices xs))))"
proof (cases "make_class f app name cs")
  case (Inl e)
  then show ?thesis by (auto simp: make_class_def bind_res_eq_Inl configured_def split: option.splits if_splits)
next
  case (Inr k)
  then obtain xs where xs: "configured f app name cs = Inr xs" and k: "k = fold add_choice xs \<lparr>cc_choices = [], cc_colors = []\<rparr>"
    by (auto simp: make_class_def bind_res_eq_Inr)
  have vals: "choice_values k = map fst (flat_choices xs)" by (simp add: k choice_values_def add_choices_values comp_def)
  have "fst ` set (cc_colors k) \<subseteq> set (choice_values k)" unfolding vals unfolding k add_choices_colors by auto
  moreover have "choice_values k =
         (let stock = map fst (flat_choices (cs_choices cs))
          in case cs_key cs of
               None \<Rightarrow> stock
             | Some key \<Rightarrow> if key = [] then stock
                 else (case f (app @ ''.'' @ key) of
                     Some xs \<Rightarrow> map fst (flat_choices xs)
                   | None \<Rightarrow> stock @ (case f (app @ ''.'' @ key @ ''+'') of None \<Rightarrow> [] | Some xs \<Rightarrow> map fst (flat_choices xs))))"
    unfolding vals using xs by (auto simp: configured_def flat_append split: option.splits if_splits)
  ultimately show ?thesis using Inr by simp
qed

end
