(* ===== verification/DcimChoices.thy ===== *)
theory DcimChoices
  imports ChoiceSets
begin

text \<open>
  The sets of choices of \<^verbatim>\<open>dcim/choices.py\<close>, value by value; the long ones in parts. The two plain
  classes of interfaces are listed in the same form.
\<close>

section \<open>The sets\<close>

definition rack_form_factor_choices :: choice_set where
  "rack_form_factor_choices = \<lparr>cs_key = None, cs_is_list = False,
     cs_constants = [(''TYPE_2POST'', PyStr ''2-post-frame''), (''TYPE_4POST'', PyStr ''4-post-frame''), (''TYPE_CABINET'', PyStr ''4-post-cabinet''),
     (''TYPE_WALLFRAME'', PyStr ''wall-frame''), (''TYPE_WALLFRAME_VERTICAL'', PyStr ''wall-frame-vertical''),
     (''TYPE_WALLCABINET'', PyStr ''wall-cabinet''), (''TYPE_WALLCABINET_VERTICAL'', PyStr ''wall-cabinet-vertical'')],
     cs_choices = [Single (PyStr ''2-post-frame'', ''2-post frame'', None), Single (PyStr ''4-post-frame'', ''4-post frame'', None),
     Single (PyStr ''4-post-cabinet'', ''4-post cabinet'', None), Single (PyStr ''wall-frame'', ''Wall-mounted frame'', None),
     Single (PyStr ''wall-frame-vertical'', ''Wall-mounted frame (vertical)'', None),
     Single (PyStr ''wall-cabinet'', ''Wall-mounted cabinet'', None),
     Single (PyStr ''wall-cabinet-vertical'', ''Wall-mounted cabinet (vertical)'', None)]\<rparr>"

definition rack_width_choices :: choice_set where
  "rack_width_choices = \<lparr>cs_key = None, cs_is_list = False,
     cs_constants = [(''WIDTH_10IN'', PyInt 10), (''WIDTH_19IN'', PyInt 19), (''WIDTH_21IN'', PyInt 21), (''WIDTH_23IN'', PyInt 23)],
     cs_choices = [Single (PyInt 10, ''10 inches'', None), Single (PyInt 19, ''19 inches'', None), Single (PyInt 21, ''21 inches'', None),
     Single (PyInt 23, ''23 inches'', None)]\<rparr>"

definition rack_status_choices :: choice_set where
  "rack_status_choices = \<lparr>cs_key = Some ''Rack.status'', cs_is_list = True,
     cs_constants = [(''STATUS_RESERVED'', PyStr ''reserved''), (''STATUS_AVAILABLE'', PyStr ''available''), (''STATUS_PLANNED'', PyStr ''planned''),
     (''STATUS_ACTIVE'', PyStr ''active''), (''STATUS_DEPRECATED'', PyStr ''deprecated'')],
     cs_choices = [Single (PyStr ''reserved'', ''Reserved'', Some ''yellow''), Single (PyStr ''available'', ''Available'', Some ''green''),
     Single (PyStr ''planned'', ''Planned'', Some ''cyan''), Single (PyStr ''active'', ''Active'', Some ''blue''),
     Single (PyStr ''deprecated'', ''Deprecated'', Some ''red'')]\<rparr>"

definition rack_dimension_unit_choices :: choice_set where
  "rack_dimension_unit_choices = \<lparr>cs_key = None, cs_is_list = False,
     cs_constants = [(''UNIT_MILLIMETER'', PyStr ''mm''), (''UNIT_INCH'', PyStr ''in'')],
     cs_choices = [Single (PyStr ''mm'', ''Millimeters'', None), Single (PyStr ''in'', ''Inches'', None)]\<rparr>"

definition rack_weight_unit_choices :: choice_set where
  "rack_weight_unit_choices = \<lparr>cs_key = None, cs_is_list = False,
     cs_constants = [(''UNIT_KILOGRAM'', PyStr ''kg''), (''UNIT_POUND'', PyStr ''lb'')],
     cs_choices = [Single (PyStr ''kg'', ''Kilograms'', None), Single (PyStr ''lb'', ''Pounds'', None)]\<rparr>"

definition rack_elevation_detail_render_choices :: choice_set where
  "rack_elevation_detail_render_choices = \<lparr>cs_key = None, cs_is_list = False,
     cs_constants = [(''RENDER_JSON'', PyStr ''json''), (''RENDER_SVG'', PyStr ''svg'')],
     cs_choices = [Single (PyStr ''json'', ''json'', None), Single (PyStr ''svg'', ''svg'', None)]\<rparr>"

definition rack_airflow_choices :: choice_set where
  "rack_airflow_choices = \<lparr>cs_key = Some ''Rack.airflow'', cs_is_list = True,
     cs_constants = [(''FRONT_TO_REAR'', PyStr ''front-to-rear''), (''REAR_TO_FRONT'', PyStr ''rear-to-front'')],
     cs_choices = [Single (PyStr ''front-to-rear'', ''Front to rear'', None), Single (PyStr ''rear-to-front'', ''Rear to front'', None)]\<rparr>"

definition rack_reservation_status_choices :: choice_set where
  "rack_reservation_status_choices = \<lparr>cs_key = Some ''RackReservation.status'', cs_is_list = True,
     cs_constants = [(''STATUS_PENDING'', PyStr ''pending''), (''STATUS_ACTIVE'', PyStr ''active''), (''STATUS_STALE'', PyStr ''stale'')],
     cs_choices = [Single (PyStr ''pending'', ''Pending'', Some ''cyan''), Single (PyStr ''active'', ''Active'', Some ''green''),
     Single (PyStr ''stale'', ''Stale'', Some ''orange'')]\<rparr>"

definition subdevice_role_choices :: choice_set where
  "subdevice_role_choices = \<lparr>cs_key = None, cs_is_list = False,
     cs_constants = [(''ROLE_PARENT'', PyStr ''parent''), (''ROLE_CHILD'', PyStr ''child'')],
     cs_choices = [Single (PyStr ''parent'', ''Parent'', None), Single (PyStr ''child'', ''Child'', None)]\<rparr>"

definition device_platform_choices :: choice_set where
  "device_platform_choices = \<lparr>cs_key = Some ''Device.device_type.platform'', cs_is_list = True,
     cs_constants = [(''IOS'', PyStr ''ios''), (''IOS_XE'', PyStr ''iosxe''), (''NX_OS'', PyStr ''nxos''), (''APIC'', PyStr ''apic''),
     (''FIREWALL'', PyStr ''firewall''), (''ROUTER'', PyStr ''router''), (''EOS'', PyStr ''eos''), (''AP'', PyStr ''ap''),
     (''SERVER'', PyStr ''server''), (''UNKNOWN'', PyStr ''unknown'')],
     cs_choices = [Single (PyStr ''ios'', ''Cisco IOS Switch'', None), Single (PyStr ''iosxe'', ''Cisco IOS-XE Switch'', None),
     Single (PyStr ''nxos'', ''Cisco NX-OS Switch'', None), Single (PyStr ''apic'', ''Cisco APIC Controller'', None),
     Single (PyStr ''firewall'', ''Firewall'', None), Single (PyStr ''router'', ''Router'', None),
     Single (PyStr ''eos'', ''Arista EOS Switche'', None), Single (PyStr ''ap'', ''Access Point'', None),
     Single (PyStr ''server'', ''Server'', None), Single (PyStr ''unknown'', ''Unknown Platform'', None)]\<rparr>"

definition device_status_choices :: choice_set where
  "device_status_choices = \<lparr>cs_key = Some ''Device.status'', cs_is_list = True,
     cs_constants = [(''STATUS_OFFLINE'', PyStr ''offline''), (''STATUS_ACTIVE'', PyStr ''active''), (''STATUS_PLANNED'', PyStr ''planned''),
     (''STATUS_STAGED'', PyStr ''staged''), (''STATUS_FAILED'', PyStr ''failed''), (''STATUS_INVENTORY'', PyStr ''inventory''),
     (''STATUS_DECOMMISSIONING'', PyStr ''decommissioning'')],
     cs_choices = [Single (PyStr ''offline'', ''Offline'', Some ''gray''), Single (PyStr ''active'', ''Active'', Some ''green''),
     Single (PyStr ''planned'', ''Planned'', Some ''cyan''), Single (PyStr ''staged'', ''Staged'', Some ''blue''),
     Single (PyStr ''failed'', ''Failed'', Some ''red''), Single (PyStr ''inventory'', ''Inventory'', Some ''purple''),
     Single (PyStr ''decommissioning'', ''Decommissioning'', Some ''yellow'')]\<rparr>"

definition device_face_choices :: choice_set where
  "device_face_choices = \<lparr>cs_key = None, cs_is_list = False,
     cs_constants = [(''FACE_FRONT'', PyStr ''front''), (''FACE_REAR'', PyStr ''rear'')],
     cs_choices = [Single (PyStr ''front'', ''Front'', None), Single (PyStr ''rear'', ''Rear'', None)]\<rparr>"

definition device_airflow_choices :: choice_set where
  "device_airflow_choices = \<lparr>cs_key = Some ''Device.airflow'', cs_is_list = True,
     cs_constants = [(''AIRFLOW_FRONT_TO_REAR'', PyStr ''front-to-rear''), (''AIRFLOW_REAR_TO_FRONT'', PyStr ''rear-to-front''),
     (''AIRFLOW_LEFT_TO_RIGHT'', PyStr ''left-to-right''), (''AIRFLOW_RIGHT_TO_LEFT'', PyStr ''right-to-left''),
     (''AIRFLOW_SIDE_TO_REAR'', PyStr ''side-to-rear''), (''AIRFLOW_REAR_TO_SIDE'', PyStr ''rear-to-side''),
     (''AIRFLOW_BOTTOM_TO_TOP'', PyStr ''bottom-to-top''), (''AIRFLOW_TOP_TO_BOTTOM'', PyStr ''top-to-bottom''),
     (''AIRFLOW_PASSIVE'', PyStr ''passive''), (''AIRFLOW_MIXED'', PyStr ''mixed'')],
     cs_choices = [Single (PyStr ''front-to-rear'', ''Front to rear'', None), Single (PyStr ''rear-to-front'', ''Rear to front'', None),
     Single (PyStr ''left-to-right'', ''Left to right'', None), Single (PyStr ''right-to-left'', ''Right to left'', None),
     Single (PyStr ''side-to-rear'', ''Side to rear'', None), Single (PyStr ''rear-to-side'', ''Rear to side'', None),
     Single (PyStr ''bottom-to-top'', ''Bottom to top'', None), Single (PyStr ''top-to-bottom'', ''Top to bottom'', None),
     Single (PyStr ''passive'', ''Passive'', None), Single (PyStr ''mixed'', ''Mixed'', None)]\<rparr>"

definition device_stack_role_choices :: choice_set where
  "device_stack_role_choices = \<lparr>cs_key = None, cs_is_list = False,
     cs_constants = [(''ACTIVE'', PyStr ''active''), (''STANDBY'', PyStr ''standby''), (''MASTER'', PyStr ''master''), (''MEMBER'', PyStr ''member''),
     (''UNKNOWN'', PyStr ''unknown'')],
     cs_choices = [Single (PyStr ''active'', ''Active'', None), Single (PyStr ''standby'', ''Standby'', None),
     Single (PyStr ''master'', ''Master'', None), Single (PyStr ''member'', ''Member'', None),
     Single (PyStr ''unknown'', ''Unknown'', None)]\<rparr>"

definition device_stack_state_choices :: choice_set where
  "device_stack_state_choices = \<lparr>cs_key = None, cs_is_list = False,
     cs_constants = [(''READY'', PyStr ''ready''), (''PROVISIONED'', PyStr ''provisioned''), (''REMOVED'', PyStr ''removed''),
     (''UNKNOWN'', PyStr ''unknown'')],
     cs_choices = [Single (PyStr ''ready'', ''Ready'', None), Single (PyStr ''provisioned'', ''Provisioned'', None),
     Single (PyStr ''removed'', ''Removed'', None), Single (PyStr ''unknown'', ''Unknown'', None)]\<rparr>"

definition module_status_choices :: choice_set where
  "module_status_choices = \<lparr>cs_key = Some ''Module.status'', cs_is_list = True,
     cs_constants = [(''STATUS_OFFLINE'', PyStr ''offline''), (''STATUS_ACTIVE'', PyStr ''active''), (''STATUS_PLANNED'', PyStr ''planned''),
     (''STATUS_STAGED'', PyStr ''staged''), (''STATUS_FAILED'', PyStr ''failed''),
     (''STATUS_DECOMMISSIONING'', PyStr ''decommissioning'')],
     cs_choices = [Single (PyStr ''offline'', ''Offline'', Some ''gray''), Single (PyStr ''active'', ''Active'', Some ''green''),
     Single (PyStr ''planned'', ''Planned'', Some ''cyan''), Single (PyStr ''staged'', ''Staged'', Some ''blue''),
     Single (PyStr ''failed'', ''Failed'', Some ''red''), Single (PyStr ''decommissioning'', ''Decommissioning'', Some ''yellow'')]\<rparr>"

definition module_airflow_choices :: choice_set where
  "module_airflow_choices = \<lparr>cs_key = Some ''Module.airflow'', cs_is_list = True,
     cs_constants = [(''FRONT_TO_REAR'', PyStr ''front-to-rear''), (''REAR_TO_FRONT'', PyStr ''rear-to-front''),
     (''LEFT_TO_RIGHT'', PyStr ''left-to-right''), (''RIGHT_TO_LEFT'', PyStr ''right-to-left''),
     (''SIDE_TO_REAR'', PyStr ''side-to-rear''), (''PASSIVE'', PyStr ''passive'')],
     cs_choices = [Single (PyStr ''front-to-rear'', ''Front to rear'', None), Single (PyStr ''rear-to-front'', ''Rear to front'', None),
     Single (PyStr ''left-to-right'', ''Left to right'', None), Single (PyStr ''right-to-left'', ''Right to left'', None),
     Single (PyStr ''side-to-rear'', ''Side to rear'', None), Single (PyStr ''passive'', ''Passive'', None)]\<rparr>"

definition console_port_type_choices :: choice_set where
  "console_port_type_choices = \<lparr>cs_key = None, cs_is_list = False,
     cs_constants = [(''TYPE_DE9'', PyStr ''de-9''), (''TYPE_DB25'', PyStr ''db-25''), (''TYPE_RJ11'', PyStr ''rj-11''), (''TYPE_RJ12'', PyStr ''rj-12''),
     (''TYPE_RJ45'', PyStr ''rj-45''), (''TYPE_MINI_DIN_8'', PyStr ''mini-din-8''), (''TYPE_USB_A'', PyStr ''usb-a''),
     (''TYPE_USB_B'', PyStr ''usb-b''), (''TYPE_USB_C'', PyStr ''usb-c''), (''TYPE_USB_MINI_A'', PyStr ''usb-mini-a''),
     (''TYPE_USB_MINI_B'', PyStr ''usb-mini-b''), (''TYPE_USB_MICRO_A'', PyStr ''usb-micro-a''),
     (''TYPE_USB_MICRO_B'', PyStr ''usb-micro-b''), (''TYPE_USB_MICRO_AB'', PyStr ''usb-micro-ab''), (''TYPE_OTHER'', PyStr ''other'')],
     cs_choices = [Optgroup ''Serial'' [
       (PyStr ''de-9'', ''DE-9'', None), (PyStr ''db-25'', ''DB-25'', None), (PyStr ''rj-11'', ''RJ-11'', None),
       (PyStr ''rj-12'', ''RJ-12'', None), (PyStr ''rj-45'', ''RJ-45'', None), (PyStr ''mini-din-8'', ''Mini-DIN 8'', None)],
     Optgroup ''USB'' [
       (PyStr ''usb-a'', ''USB Type A'', None), (PyStr ''usb-b'', ''USB Type B'', None), (PyStr ''usb-c'', ''USB Type C'', None),
       (PyStr ''usb-mini-a'', ''USB Mini A'', None), (PyStr ''usb-mini-b'', ''USB Mini B'', None),
       (PyStr ''usb-micro-a'', ''USB Micro A'', None), (PyStr ''usb-micro-b'', ''USB Micro B'', None),
       (PyStr ''usb-micro-ab'', ''USB Micro AB'', None)],
     Optgroup ''Other'' [
       (PyStr ''other'', ''Other'', None)]]\<rparr>"

definition console_port_speed_choices :: choice_set where
  "console_port_speed_choices = \<lparr>cs_key = None, cs_is_list = False,
     cs_constants = [(''SPEED_1200'', PyInt 1200), (''SPEED_2400'', PyInt 2400), (''SPEED_4800'', PyInt 4800), (''SPEED_9600'', PyInt 9600),
     (''SPEED_19200'', PyInt 19200), (''SPEED_38400'', PyInt 38400), (''SPEED_57600'', PyInt 57600), (''SPEED_115200'', PyInt 115200)],
     cs_choices = [Single (PyInt 1200, ''1200 bps'', None), Single (PyInt 2400, ''2400 bps'', None), Single (PyInt 4800, ''4800 bps'', None),
     Single (PyInt 9600, ''9600 bps'', None), Single (PyInt 19200, ''19.2 kbps'', None), Single (PyInt 38400, ''38.4 kbps'', None),
     Single (PyInt 57600, ''57.6 kbps'', None), Single (PyInt 115200, ''115.2 kbps'', None)]\<rparr>"

definition power_port_type_choices_constants_1 :: "(string \<times> pyval) list" where
  "power_port_type_choices_constants_1 =
    [(''TYPE_IEC_C6'', PyStr ''iec-60320-c6''), (''TYPE_IEC_C8'', PyStr ''iec-60320-c8''), (''TYPE_IEC_C14'', PyStr ''iec-60320-c14''),
     (''TYPE_IEC_C16'', PyStr ''iec-60320-c16''), (''TYPE_IEC_C18'', PyStr ''iec-60320-c18''),
     (''TYPE_IEC_C20'', PyStr ''iec-60320-c20''), (''TYPE_IEC_C22'', PyStr ''iec-60320-c22''),
     (''TYPE_IEC_PNE4H'', PyStr ''iec-60309-p-n-e-4h''), (''TYPE_IEC_PNE6H'', PyStr ''iec-60309-p-n-e-6h''),
     (''TYPE_IEC_PNE9H'', PyStr ''iec-60309-p-n-e-9h''), (''TYPE_IEC_2PE4H'', PyStr ''iec-60309-2p-e-4h''),
     (''TYPE_IEC_2PE6H'', PyStr ''iec-60309-2p-e-6h''), (''TYPE_IEC_2PE9H'', PyStr ''iec-60309-2p-e-9h''),
     (''TYPE_IEC_3PE4H'', PyStr ''iec-60309-3p-e-4h''), (''TYPE_IEC_3PE6H'', PyStr ''iec-60309-3p-e-6h''),
     (''TYPE_IEC_3PE9H'', PyStr ''iec-60309-3p-e-9h''), (''TYPE_IEC_3PNE4H'', PyStr ''iec-60309-3p-n-e-4h''),
     (''TYPE_IEC_3PNE6H'', PyStr ''iec-60309-3p-n-e-6h''), (''TYPE_IEC_3PNE9H'', PyStr ''iec-60309-3p-n-e-9h''),
     (''TYPE_IEC_60906_1'', PyStr ''iec-60906-1''), (''TYPE_NBR_14136_10A'', PyStr ''nbr-14136-10a''),
     (''TYPE_NBR_14136_20A'', PyStr ''nbr-14136-20a''), (''TYPE_NEMA_115P'', PyStr ''nema-1-15p''),
     (''TYPE_NEMA_515P'', PyStr ''nema-5-15p''), (''TYPE_NEMA_520P'', PyStr ''nema-5-20p''), (''TYPE_NEMA_530P'', PyStr ''nema-5-30p''),
     (''TYPE_NEMA_550P'', PyStr ''nema-5-50p''), (''TYPE_NEMA_615P'', PyStr ''nema-6-15p''), (''TYPE_NEMA_620P'', PyStr ''nema-6-20p''),
     (''TYPE_NEMA_630P'', PyStr ''nema-6-30p''), (''TYPE_NEMA_650P'', PyStr ''nema-6-50p''), (''TYPE_NEMA_1030P'', PyStr ''nema-10-30p''),
     (''TYPE_NEMA_1050P'', PyStr ''nema-10-50p''), (''TYPE_NEMA_1420P'', PyStr ''nema-14-20p''),
     (''TYPE_NEMA_1430P'', PyStr ''nema-14-30p''), (''TYPE_NEMA_1450P'', PyStr ''nema-14-50p''),
     (''TYPE_NEMA_1460P'', PyStr ''nema-14-60p''), (''TYPE_NEMA_1515P'', PyStr ''nema-15-15p''),
     (''TYPE_NEMA_1520P'', PyStr ''nema-15-20p''), (''TYPE_NEMA_1530P'', PyStr ''nema-15-30p''),
     (''TYPE_NEMA_1550P'', PyStr ''nema-15-50p''), (''TYPE_NEMA_1560P'', PyStr ''nema-15-60p''),
     (''TYPE_NEMA_L115P'', PyStr ''nema-l1-15p''), (''TYPE_NEMA_L515P'', PyStr ''nema-l5-15p''),
     (''TYPE_NEMA_L520P'', PyStr ''nema-l5-20p''), (''TYPE_NEMA_L530P'', PyStr ''nema-l5-30p''),
     (''TYPE_NEMA_L550P'', PyStr ''nema-l5-50p''), (''TYPE_NEMA_L615P'', PyStr ''nema-l6-15p''),
     (''TYPE_NEMA_L620P'', PyStr ''nema-l6-20p''), (''TYPE_NEMA_L630P'', PyStr ''nema-l6-30p''),
     (''TYPE_NEMA_L650P'', PyStr ''nema-l6-50p''), (''TYPE_NEMA_L1030P'', PyStr ''nema-l10-30p''),
     (''TYPE_NEMA_L1420P'', PyStr ''nema-l14-20p''), (''TYPE_NEMA_L1430P'', PyStr ''nema-l14-30p''),
     (''TYPE_NEMA_L1450P'', PyStr ''nema-l14-50p''), (''TYPE_NEMA_L1460P'', PyStr ''nema-l14-60p''),
     (''TYPE_NEMA_L1520P'', PyStr ''nema-l15-20p''), (''TYPE_NEMA_L1530P'', PyStr ''nema-l15-30p''),
     (''TYPE_NEMA_L1550P'', PyStr ''nema-l15-50p''), (''TYPE_NEMA_L1560P'', PyStr ''nema-l15-60p''),
     (''TYPE_NEMA_L2120P'', PyStr ''nema-l21-20p''), (''TYPE_NEMA_L2130P'', PyStr ''nema-l21-30p''),
     (''TYPE_NEMA_L2220P'', PyStr ''nema-l22-20p''), (''TYPE_NEMA_L2230P'', PyStr ''nema-l22-30p''),
     (''TYPE_CS6361C'', PyStr ''cs6361c''), (''TYPE_CS6365C'', PyStr ''cs6365c''), (''TYPE_CS8165C'', PyStr ''cs8165c''),
     (''TYPE_CS8265C'', PyStr ''cs8265c''), (''TYPE_CS8365C'', PyStr ''cs8365c''), (''TYPE_CS8465C'', PyStr ''cs8465c''),
     (''TYPE_ITA_C'', PyStr ''ita-c''), (''TYPE_ITA_E'', PyStr ''ita-e''), (''TYPE_ITA_F'', PyStr ''ita-f''),
     (''TYPE_ITA_EF'', PyStr ''ita-ef''), (''TYPE_ITA_G'', PyStr ''ita-g''), (''TYPE_ITA_H'', PyStr ''ita-h''),
     (''TYPE_ITA_I'', PyStr ''ita-i''), (''TYPE_ITA_J'', PyStr ''ita-j''), (''TYPE_ITA_K'', PyStr ''ita-k''),
     (''TYPE_ITA_L'', PyStr ''ita-l''), (''TYPE_ITA_M'', PyStr ''ita-m''), (''TYPE_ITA_N'', PyStr ''ita-n''),
     (''TYPE_ITA_O'', PyStr ''ita-o''), (''TYPE_USB_A'', PyStr ''usb-a''), (''TYPE_USB_B'', PyStr ''usb-b''),
     (''TYPE_USB_C'', PyStr ''usb-c''), (''TYPE_USB_MINI_A'', PyStr ''usb-mini-a''), (''TYPE_USB_MINI_B'', PyStr ''usb-mini-b''),
     (''TYPE_USB_MICRO_A'', PyStr ''usb-micro-a''), (''TYPE_USB_MICRO_B'', PyStr ''usb-micro-b''),
     (''TYPE_USB_MICRO_AB'', PyStr ''usb-micro-ab''), (''TYPE_USB_3_B'', PyStr ''usb-3-b''),
     (''TYPE_USB_3_MICROB'', PyStr ''usb-3-micro-b''), (''TYPE_MOLEX_MICRO_FIT_1X2'', PyStr ''molex-micro-fit-1x2''),
     (''TYPE_MOLEX_MICRO_FIT_2X2'', PyStr ''molex-micro-fit-2x2''), (''TYPE_MOLEX_MICRO_FIT_2X3'', PyStr ''molex-micro-fit-2x3''),
     (''TYPE_MOLEX_MICRO_FIT_2X4'', PyStr ''molex-micro-fit-2x4''), (''TYPE_DC'', PyStr ''dc-terminal''),
     (''TYPE_SAF_D_GRID'', PyStr ''saf-d-grid''), (''TYPE_NEUTRIK_POWERCON_20A'', PyStr ''neutrik-powercon-20''),
     (''TYPE_NEUTRIK_POWERCON_32A'', PyStr ''neutrik-powercon-32''), (''TYPE_NEUTRIK_POWERCON_TRUE1'', PyStr ''neutrik-powercon-true1''),
     (''TYPE_NEUTRIK_POWERCON_TRUE1_TOP'', PyStr ''neutrik-powercon-true1-top''),
     (''TYPE_UBIQUITI_SMARTPOWER'', PyStr ''ubiquiti-smartpower''), (''TYPE_HARDWIRED'', PyStr ''hardwired''),
     (''TYPE_OTHER'', PyStr ''other'')]"

definition power_port_type_choices_entries_1 :: "choice list" where
  "power_port_type_choices_entries_1 =
    [Optgroup ''IEC 60320'' [
       (PyStr ''iec-60320-c6'', ''C6'', None), (PyStr ''iec-60320-c8'', ''C8'', None), (PyStr ''iec-60320-c14'', ''C14'', None),
       (PyStr ''iec-60320-c16'', ''C16'', None), (PyStr ''iec-60320-c18'', ''C18'', None), (PyStr ''iec-60320-c20'', ''C20'', None),
       (PyStr ''iec-60320-c22'', ''C22'', None)],
     Optgroup ''IEC 60309'' [
       (PyStr ''iec-60309-p-n-e-4h'', ''P+N+E 4H'', None), (PyStr ''iec-60309-p-n-e-6h'', ''P+N+E 6H'', None),
       (PyStr ''iec-60309-p-n-e-9h'', ''P+N+E 9H'', None), (PyStr ''iec-60309-2p-e-4h'', ''2P+E 4H'', None),
       (PyStr ''iec-60309-2p-e-6h'', ''2P+E 6H'', None), (PyStr ''iec-60309-2p-e-9h'', ''2P+E 9H'', None),
       (PyStr ''iec-60309-3p-e-4h'', ''3P+E 4H'', None), (PyStr ''iec-60309-3p-e-6h'', ''3P+E 6H'', None),
       (PyStr ''iec-60309-3p-e-9h'', ''3P+E 9H'', None), (PyStr ''iec-60309-3p-n-e-4h'', ''3P+N+E 4H'', None),
       (PyStr ''iec-60309-3p-n-e-6h'', ''3P+N+E 6H'', None), (PyStr ''iec-60309-3p-n-e-9h'', ''3P+N+E 9H'', None)],
     Optgroup ''IEC 60906-1'' [
       (PyStr ''iec-60906-1'', ''IEC 60906-1'', None), (PyStr ''nbr-14136-10a'', ''2P+T 10A (NBR 14136)'', None),
       (PyStr ''nbr-14136-20a'', ''2P+T 20A (NBR 14136)'', None)],
     Optgroup ''NEMA (Non-locking)'' [
       (PyStr ''nema-1-15p'', ''NEMA 1-15P'', None), (PyStr ''nema-5-15p'', ''NEMA 5-15P'', None),
       (PyStr ''nema-5-20p'', ''NEMA 5-20P'', None), (PyStr ''nema-5-30p'', ''NEMA 5-30P'', None),
       (PyStr ''nema-5-50p'', ''NEMA 5-50P'', None), (PyStr ''nema-6-15p'', ''NEMA 6-15P'', None),
       (PyStr ''nema-6-20p'', ''NEMA 6-20P'', None), (PyStr ''nema-6-30p'', ''NEMA 6-30P'', None),
       (PyStr ''nema-6-50p'', ''NEMA 6-50P'', None), (PyStr ''nema-10-30p'', ''NEMA 10-30P'', None),
       (PyStr ''nema-10-50p'', ''NEMA 10-50P'', None), (PyStr ''nema-14-20p'', ''NEMA 14-20P'', None),
       (PyStr ''nema-14-30p'', ''NEMA 14-30P'', None), (PyStr ''nema-14-50p'', ''NEMA 14-50P'', None),
       (PyStr ''nema-14-60p'', ''NEMA 14-60P'', None), (PyStr ''nema-15-15p'', ''NEMA 15-15P'', None),
       (PyStr ''nema-15-20p'', ''NEMA 15-20P'', None), (PyStr ''nema-15-30p'', ''NEMA 15-30P'', None),
       (PyStr ''nema-15-50p'', ''NEMA 15-50P'', None), (PyStr ''nema-15-60p'', ''NEMA 15-60P'', None)],
     Optgroup ''NEMA (Locking)'' [
       (PyStr ''nema-l1-15p'', ''NEMA L1-15P'', None), (PyStr ''nema-l5-15p'', ''NEMA L5-15P'', None),
       (PyStr ''nema-l5-20p'', ''NEMA L5-20P'', None), (PyStr ''nema-l5-30p'', ''NEMA L5-30P'', None),
       (PyStr ''nema-l5-50p'', ''NEMA L5-50P'', None), (PyStr ''nema-l6-15p'', ''NEMA L6-15P'', None),
       (PyStr ''nema-l6-20p'', ''NEMA L6-20P'', None), (PyStr ''nema-l6-30p'', ''NEMA L6-30P'', None),
       (PyStr ''nema-l6-50p'', ''NEMA L6-50P'', None), (PyStr ''nema-l10-30p'', ''NEMA L10-30P'', None),
       (PyStr ''nema-l14-20p'', ''NEMA L14-20P'', None), (PyStr ''nema-l14-30p'', ''NEMA L14-30P'', None),
       (PyStr ''nema-l14-50p'', ''NEMA L14-50P'', None), (PyStr ''nema-l14-60p'', ''NEMA L14-60P'', None),
       (PyStr ''nema-l15-20p'', ''NEMA L15-20P'', None), (PyStr ''nema-l15-30p'', ''NEMA L15-30P'', None),
       (PyStr ''nema-l15-50p'', ''NEMA L15-50P'', None), (PyStr ''nema-l15-60p'', ''NEMA L15-60P'', None),
       (PyStr ''nema-l21-20p'', ''NEMA L21-20P'', None), (PyStr ''nema-l21-30p'', ''NEMA L21-30P'', None),
       (PyStr ''nema-l22-20p'', ''NEMA L22-20P'', None), (PyStr ''nema-l22-30p'', ''NEMA L22-30P'', None)],
     Optgroup ''California Style'' [
       (PyStr ''cs6361c'', ''CS6361C'', None), (PyStr ''cs6365c'', ''CS6365C'', None), (PyStr ''cs8165c'', ''CS8165C'', None),
       (PyStr ''cs8265c'', ''CS8265C'', None), (PyStr ''cs8365c'', ''CS8365C'', None), (PyStr ''cs8465c'', ''CS8465C'', None)],
     Optgroup ''International/ITA'' [
       (PyStr ''ita-c'', ''ITA Type C (CEE 7/16)'', None), (PyStr ''ita-e'', ''ITA Type E (CEE 7/6)'', None),
       (PyStr ''ita-f'', ''ITA Type F (CEE 7/4)'', None), (PyStr ''ita-ef'', ''ITA Type E/F (CEE 7/7)'', None),
       (PyStr ''ita-g'', ''ITA Type G (BS 1363)'', None), (PyStr ''ita-h'', ''ITA Type H'', None), (PyStr ''ita-i'', ''ITA Type I'', None),
       (PyStr ''ita-j'', ''ITA Type J'', None), (PyStr ''ita-k'', ''ITA Type K'', None),
       (PyStr ''ita-l'', ''ITA Type L (CEI 23-50)'', None), (PyStr ''ita-m'', ''ITA Type M (BS 546)'', None),
       (PyStr ''ita-n'', ''ITA Type N'', None), (PyStr ''ita-o'', ''ITA Type O'', None)],
     Optgroup ''USB'' [
       (PyStr ''usb-a'', ''USB Type A'', None), (PyStr ''usb-b'', ''USB Type B'', None), (PyStr ''usb-c'', ''USB Type C'', None),
       (PyStr ''usb-mini-a'', ''USB Mini A'', None), (PyStr ''usb-mini-b'', ''USB Mini B'', None),
       (PyStr ''usb-micro-a'', ''USB Micro A'', None), (PyStr ''usb-micro-b'', ''USB Micro B'', None),
       (PyStr ''usb-micro-ab'', ''USB Micro AB'', None), (PyStr ''usb-3-b'', ''USB 3.0 Type B'', None),
       (PyStr ''usb-3-micro-b'', ''USB 3.0 Micro B'', None)],
     Optgroup ''Molex'' [
       (PyStr ''molex-micro-fit-1x2'', ''Molex Micro-Fit 1x2'', None), (PyStr ''molex-micro-fit-2x2'', ''Molex Micro-Fit 2x2'', None),
       (PyStr ''molex-micro-fit-2x3'', ''Molex Micro-Fit 2x3'', None), (PyStr ''molex-micro-fit-2x4'', ''Molex Micro-Fit 2x4'', None)],
     Optgroup ''DC'' [
       (PyStr ''dc-terminal'', ''DC Terminal'', None)],
     Optgroup ''Proprietary'' [
       (PyStr ''saf-d-grid'', ''Saf-D-Grid'', None), (PyStr ''neutrik-powercon-20'', ''Neutrik powerCON (20A)'', None),
       (PyStr ''neutrik-powercon-32'', ''Neutrik powerCON (32A)'', None),
       (PyStr ''neutrik-powercon-true1'', ''Neutrik powerCON TRUE1'', None),
       (PyStr ''neutrik-powercon-true1-top'', ''Neutrik powerCON TRUE1 TOP'', None),
       (PyStr ''ubiquiti-smartpower'', ''Ubiquiti SmartPower'', None)],
     Optgroup ''Other'' [
       (PyStr ''hardwired'', ''Hardwired'', None), (PyStr ''other'', ''Other'', None)]]"

definition power_port_type_choices :: choice_set where
  "power_port_type_choices = \<lparr>cs_key = None, cs_is_list = False, cs_constants = power_port_type_choices_constants_1,
     cs_choices = power_port_type_choices_entries_1\<rparr>"

definition power_outlet_type_choices_constants_1 :: "(string \<times> pyval) list" where
  "power_outlet_type_choices_constants_1 =
    [(''TYPE_IEC_C5'', PyStr ''iec-60320-c5''), (''TYPE_IEC_C7'', PyStr ''iec-60320-c7''), (''TYPE_IEC_C13'', PyStr ''iec-60320-c13''),
     (''TYPE_IEC_C15'', PyStr ''iec-60320-c15''), (''TYPE_IEC_C17'', PyStr ''iec-60320-c17''),
     (''TYPE_IEC_C19'', PyStr ''iec-60320-c19''), (''TYPE_IEC_C21'', PyStr ''iec-60320-c21''),
     (''TYPE_IEC_PNE4H'', PyStr ''iec-60309-p-n-e-4h''), (''TYPE_IEC_PNE6H'', PyStr ''iec-60309-p-n-e-6h''),
     (''TYPE_IEC_PNE9H'', PyStr ''iec-60309-p-n-e-9h''), (''TYPE_IEC_2PE4H'', PyStr ''iec-60309-2p-e-4h''),
     (''TYPE_IEC_2PE6H'', PyStr ''iec-60309-2p-e-6h''), (''TYPE_IEC_2PE9H'', PyStr ''iec-60309-2p-e-9h''),
     (''TYPE_IEC_3PE4H'', PyStr ''iec-60309-3p-e-4h''), (''TYPE_IEC_3PE6H'', PyStr ''iec-60309-3p-e-6h''),
     (''TYPE_IEC_3PE9H'', PyStr ''iec-60309-3p-e-9h''), (''TYPE_IEC_3PNE4H'', PyStr ''iec-60309-3p-n-e-4h''),
     (''TYPE_IEC_3PNE6H'', PyStr ''iec-60309-3p-n-e-6h''), (''TYPE_IEC_3PNE9H'', PyStr ''iec-60309-3p-n-e-9h''),
     (''TYPE_IEC_60906_1'', PyStr ''iec-60906-1''), (''TYPE_NBR_14136_10A'', PyStr ''nbr-14136-10a''),
     (''TYPE_NBR_14136_20A'', PyStr ''nbr-14136-20a''), (''TYPE_NEMA_115R'', PyStr ''nema-1-15r''),
     (''TYPE_NEMA_515R'', PyStr ''nema-5-15r''), (''TYPE_NEMA_520R'', PyStr ''nema-5-20r''), (''TYPE_NEMA_530R'', PyStr ''nema-5-30r''),
     (''TYPE_NEMA_550R'', PyStr ''nema-5-50r''), (''TYPE_NEMA_615R'', PyStr ''nema-6-15r''), (''TYPE_NEMA_620R'', PyStr ''nema-6-20r''),
     (''TYPE_NEMA_630R'', PyStr ''nema-6-30r''), (''TYPE_NEMA_650R'', PyStr ''nema-6-50r''), (''TYPE_NEMA_1030R'', PyStr ''nema-10-30r''),
     (''TYPE_NEMA_1050R'', PyStr ''nema-10-50r''), (''TYPE_NEMA_1420R'', PyStr ''nema-14-20r''),
     (''TYPE_NEMA_1430R'', PyStr ''nema-14-30r''), (''TYPE_NEMA_1450R'', PyStr ''nema-14-50r''),
     (''TYPE_NEMA_1460R'', PyStr ''nema-14-60r''), (''TYPE_NEMA_1515R'', PyStr ''nema-15-15r''),
     (''TYPE_NEMA_1520R'', PyStr ''nema-15-20r''), (''TYPE_NEMA_1530R'', PyStr ''nema-15-30r''),
     (''TYPE_NEMA_1550R'', PyStr ''nema-15-50r''), (''TYPE_NEMA_1560R'', PyStr ''nema-15-60r''),
     (''TYPE_NEMA_L115R'', PyStr ''nema-l1-15r''), (''TYPE_NEMA_L515R'', PyStr ''nema-l5-15r''),
     (''TYPE_NEMA_L520R'', PyStr ''nema-l5-20r''), (''TYPE_NEMA_L530R'', PyStr ''nema-l5-30r''),
     (''TYPE_NEMA_L550R'', PyStr ''nema-l5-50r''), (''TYPE_NEMA_L615R'', PyStr ''nema-l6-15r''),
     (''TYPE_NEMA_L620R'', PyStr ''nema-l6-20r''), (''TYPE_NEMA_L630R'', PyStr ''nema-l6-30r''),
     (''TYPE_NEMA_L650R'', PyStr ''nema-l6-50r''), (''TYPE_NEMA_L1030R'', PyStr ''nema-l10-30r''),
     (''TYPE_NEMA_L1420R'', PyStr ''nema-l14-20r''), (''TYPE_NEMA_L1430R'', PyStr ''nema-l14-30r''),
     (''TYPE_NEMA_L1450R'', PyStr ''nema-l14-50r''), (''TYPE_NEMA_L1460R'', PyStr ''nema-l14-60r''),
     (''TYPE_NEMA_L1520R'', PyStr ''nema-l15-20r''), (''TYPE_NEMA_L1530R'', PyStr ''nema-l15-30r''),
     (''TYPE_NEMA_L1550R'', PyStr ''nema-l15-50r''), (''TYPE_NEMA_L1560R'', PyStr ''nema-l15-60r''),
     (''TYPE_NEMA_L2120R'', PyStr ''nema-l21-20r''), (''TYPE_NEMA_L2130R'', PyStr ''nema-l21-30r''),
     (''TYPE_NEMA_L2220R'', PyStr ''nema-l22-20r''), (''TYPE_NEMA_L2230R'', PyStr ''nema-l22-30r''),
     (''TYPE_CS6360C'', PyStr ''CS6360C''), (''TYPE_CS6364C'', PyStr ''CS6364C''), (''TYPE_CS8164C'', PyStr ''CS8164C''),
     (''TYPE_CS8264C'', PyStr ''CS8264C''), (''TYPE_CS8364C'', PyStr ''CS8364C''), (''TYPE_CS8464C'', PyStr ''CS8464C''),
     (''TYPE_ITA_E'', PyStr ''ita-e''), (''TYPE_ITA_F'', PyStr ''ita-f''), (''TYPE_ITA_G'', PyStr ''ita-g''),
     (''TYPE_ITA_H'', PyStr ''ita-h''), (''TYPE_ITA_I'', PyStr ''ita-i''), (''TYPE_ITA_J'', PyStr ''ita-j''),
     (''TYPE_ITA_K'', PyStr ''ita-k''), (''TYPE_ITA_L'', PyStr ''ita-l''), (''TYPE_ITA_M'', PyStr ''ita-m''),
     (''TYPE_ITA_N'', PyStr ''ita-n''), (''TYPE_ITA_O'', PyStr ''ita-o''), (''TYPE_ITA_MULTISTANDARD'', PyStr ''ita-multistandard''),
     (''TYPE_USB_A'', PyStr ''usb-a''), (''TYPE_USB_MICROB'', PyStr ''usb-micro-b''), (''TYPE_USB_C'', PyStr ''usb-c''),
     (''TYPE_MOLEX_MICRO_FIT_1X2'', PyStr ''molex-micro-fit-1x2''), (''TYPE_MOLEX_MICRO_FIT_2X2'', PyStr ''molex-micro-fit-2x2''),
     (''TYPE_MOLEX_MICRO_FIT_2X3'', PyStr ''molex-micro-fit-2x3''), (''TYPE_MOLEX_MICRO_FIT_2X4'', PyStr ''molex-micro-fit-2x4''),
     (''TYPE_DC'', PyStr ''dc-terminal''), (''TYPE_EATON_C39'', PyStr ''eaton-c39''), (''TYPE_HDOT_CX'', PyStr ''hdot-cx''),
     (''TYPE_SAF_D_GRID'', PyStr ''saf-d-grid''), (''TYPE_NEUTRIK_POWERCON_20A'', PyStr ''neutrik-powercon-20a''),
     (''TYPE_NEUTRIK_POWERCON_32A'', PyStr ''neutrik-powercon-32a''), (''TYPE_NEUTRIK_POWERCON_TRUE1'', PyStr ''neutrik-powercon-true1''),
     (''TYPE_NEUTRIK_POWERCON_TRUE1_TOP'', PyStr ''neutrik-powercon-true1-top''),
     (''TYPE_UBIQUITI_SMARTPOWER'', PyStr ''ubiquiti-smartpower''), (''TYPE_HARDWIRED'', PyStr ''hardwired''),
     (''TYPE_OTHER'', PyStr ''other'')]"

definition power_outlet_type_choices_entries_1 :: "choice list" where
  "power_outlet_type_choices_entries_1 =
    [Optgroup ''IEC 60320'' [
       (PyStr ''iec-60320-c5'', ''C5'', None), (PyStr ''iec-60320-c7'', ''C7'', None), (PyStr ''iec-60320-c13'', ''C13'', None),
       (PyStr ''iec-60320-c15'', ''C15'', None), (PyStr ''iec-60320-c17'', ''C17'', None), (PyStr ''iec-60320-c19'', ''C19'', None),
       (PyStr ''iec-60320-c21'', ''C21'', None)],
     Optgroup ''IEC 60309'' [
       (PyStr ''iec-60309-p-n-e-4h'', ''P+N+E 4H'', None), (PyStr ''iec-60309-p-n-e-6h'', ''P+N+E 6H'', None),
       (PyStr ''iec-60309-p-n-e-9h'', ''P+N+E 9H'', None), (PyStr ''iec-60309-2p-e-4h'', ''2P+E 4H'', None),
       (PyStr ''iec-60309-2p-e-6h'', ''2P+E 6H'', None), (PyStr ''iec-60309-2p-e-9h'', ''2P+E 9H'', None),
       (PyStr ''iec-60309-3p-e-4h'', ''3P+E 4H'', None), (PyStr ''iec-60309-3p-e-6h'', ''3P+E 6H'', None),
       (PyStr ''iec-60309-3p-e-9h'', ''3P+E 9H'', None), (PyStr ''iec-60309-3p-n-e-4h'', ''3P+N+E 4H'', None),
       (PyStr ''iec-60309-3p-n-e-6h'', ''3P+N+E 6H'', None), (PyStr ''iec-60309-3p-n-e-9h'', ''3P+N+E 9H'', None)],
     Optgroup ''IEC 60906-1'' [
       (PyStr ''iec-60906-1'', ''IEC 60906-1'', None), (PyStr ''nbr-14136-10a'', ''2P+T 10A (NBR 14136)'', None),
       (PyStr ''nbr-14136-20a'', ''2P+T 20A (NBR 14136)'', None)],
     Optgroup ''NEMA (Non-locking)'' [
       (PyStr ''nema-1-15r'', ''NEMA 1-15R'', None), (PyStr ''nema-5-15r'', ''NEMA 5-15R'', None),
       (PyStr ''nema-5-20r'', ''NEMA 5-20R'', None), (PyStr ''nema-5-30r'', ''NEMA 5-30R'', None),
       (PyStr ''nema-5-50r'', ''NEMA 5-50R'', None), (PyStr ''nema-6-15r'', ''NEMA 6-15R'', None),
       (PyStr ''nema-6-20r'', ''NEMA 6-20R'', None), (PyStr ''nema-6-30r'', ''NEMA 6-30R'', None),
       (PyStr ''nema-6-50r'', ''NEMA 6-50R'', None), (PyStr ''nema-10-30r'', ''NEMA 10-30R'', None),
       (PyStr ''nema-10-50r'', ''NEMA 10-50R'', None), (PyStr ''nema-14-20r'', ''NEMA 14-20R'', None),
       (PyStr ''nema-14-30r'', ''NEMA 14-30R'', None), (PyStr ''nema-14-50r'', ''NEMA 14-50R'', None),
       (PyStr ''nema-14-60r'', ''NEMA 14-60R'', None), (PyStr ''nema-15-15r'', ''NEMA 15-15R'', None),
       (PyStr ''nema-15-20r'', ''NEMA 15-20R'', None), (PyStr ''nema-15-30r'', ''NEMA 15-30R'', None),
       (PyStr ''nema-15-50r'', ''NEMA 15-50R'', None), (PyStr ''nema-15-60r'', ''NEMA 15-60R'', None)],
     Optgroup ''NEMA (Locking)'' [
       (PyStr ''nema-l1-15r'', ''NEMA L1-15R'', None), (PyStr ''nema-l5-15r'', ''NEMA L5-15R'', None),
       (PyStr ''nema-l5-20r'', ''NEMA L5-20R'', None), (PyStr ''nema-l5-30r'', ''NEMA L5-30R'', None),
       (PyStr ''nema-l5-50r'', ''NEMA L5-50R'', None), (PyStr ''nema-l6-15r'', ''NEMA L6-15R'', None),
       (PyStr ''nema-l6-20r'', ''NEMA L6-20R'', None), (PyStr ''nema-l6-30r'', ''NEMA L6-30R'', None),
       (PyStr ''nema-l6-50r'', ''NEMA L6-50R'', None), (PyStr ''nema-l10-30r'', ''NEMA L10-30R'', None),
       (PyStr ''nema-l14-20r'', ''NEMA L14-20R'', None), (PyStr ''nema-l14-30r'', ''NEMA L14-30R'', None),
       (PyStr ''nema-l14-50r'', ''NEMA L14-50R'', None), (PyStr ''nema-l14-60r'', ''NEMA L14-60R'', None),
       (PyStr ''nema-l15-20r'', ''NEMA L15-20R'', None), (PyStr ''nema-l15-30r'', ''NEMA L15-30R'', None),
       (PyStr ''nema-l15-50r'', ''NEMA L15-50R'', None), (PyStr ''nema-l15-60r'', ''NEMA L15-60R'', None),
       (PyStr ''nema-l21-20r'', ''NEMA L21-20R'', None), (PyStr ''nema-l21-30r'', ''NEMA L21-30R'', None),
       (PyStr ''nema-l22-20r'', ''NEMA L22-20R'', None), (PyStr ''nema-l22-30r'', ''NEMA L22-30R'', None)],
     Optgroup ''California Style'' [
       (PyStr ''CS6360C'', ''CS6360C'', None), (PyStr ''CS6364C'', ''CS6364C'', None), (PyStr ''CS8164C'', ''CS8164C'', None),
       (PyStr ''CS8264C'', ''CS8264C'', None), (PyStr ''CS8364C'', ''CS8364C'', None), (PyStr ''CS8464C'', ''CS8464C'', None)],
     Optgroup ''ITA/International'' [
       (PyStr ''ita-e'', ''ITA Type E (CEE 7/5)'', None), (PyStr ''ita-f'', ''ITA Type F (CEE 7/3)'', None),
       (PyStr ''ita-g'', ''ITA Type G (BS 1363)'', None), (PyStr ''ita-h'', ''ITA Type H'', None), (PyStr ''ita-i'', ''ITA Type I'', None),
       (PyStr ''ita-j'', ''ITA Type J'', None), (PyStr ''ita-k'', ''ITA Type K'', None),
       (PyStr ''ita-l'', ''ITA Type L (CEI 23-50)'', None), (PyStr ''ita-m'', ''ITA Type M (BS 546)'', None),
       (PyStr ''ita-n'', ''ITA Type N'', None), (PyStr ''ita-o'', ''ITA Type O'', None),
       (PyStr ''ita-multistandard'', ''ITA Multistandard'', None)],
     Optgroup ''USB'' [
       (PyStr ''usb-a'', ''USB Type A'', None), (PyStr ''usb-micro-b'', ''USB Micro B'', None), (PyStr ''usb-c'', ''USB Type C'', None)],
     Optgroup ''Molex'' [
       (PyStr ''molex-micro-fit-1x2'', ''Molex Micro-Fit 1x2'', None), (PyStr ''molex-micro-fit-2x2'', ''Molex Micro-Fit 2x2'', None),
       (PyStr ''molex-micro-fit-2x3'', ''Molex Micro-Fit 2x3'', None), (PyStr ''molex-micro-fit-2x4'', ''Molex Micro-Fit 2x4'', None)],
     Optgroup ''DC'' [
       (PyStr ''dc-terminal'', ''DC Terminal'', None)],
     Optgroup ''Proprietary'' [
       (PyStr ''eaton-c39'', ''Eaton C39'', None), (PyStr ''hdot-cx'', ''HDOT Cx'', None), (PyStr ''saf-d-grid'', ''Saf-D-Grid'', None),
       (PyStr ''neutrik-powercon-20a'', ''Neutrik powerCON (20A)'', None),
       (PyStr ''neutrik-powercon-32a'', ''Neutrik powerCON (32A)'', None),
       (PyStr ''neutrik-powercon-true1'', ''Neutrik powerCON TRUE1'', None),
       (PyStr ''neutrik-powercon-true1-top'', ''Neutrik powerCON TRUE1 TOP'', None),
       (PyStr ''ubiquiti-smartpower'', ''Ubiquiti SmartPower'', None)],
     Optgroup ''Other'' [
       (PyStr ''hardwired'', ''Hardwired'', None), (PyStr ''other'', ''Other'', None)]]"

definition power_outlet_type_choices :: choice_set where
  "power_outlet_type_choices = \<lparr>cs_key = None, cs_is_list = False, cs_constants = power_outlet_type_choices_constants_1,
     cs_choices = power_outlet_type_choices_entries_1\<rparr>"

definition power_outlet_feed_leg_choices :: choice_set where
  "power_outlet_feed_leg_choices = \<lparr>cs_key = None, cs_is_list = False,
     cs_constants = [(''FEED_LEG_A'', PyStr ''A''), (''FEED_LEG_B'', PyStr ''B''), (''FEED_LEG_C'', PyStr ''C'')],
     cs_choices = [Single (PyStr ''A'', ''A'', None), Single (PyStr ''B'', ''B'', None), Single (PyStr ''C'', ''C'', None)]\<rparr>"

definition interface_status_choices :: choice_set where
  "interface_status_choices = \<lparr>cs_key = None, cs_is_list = False,
     cs_constants = [(''UP'', PyStr ''up''), (''DOWN'', PyStr ''down''), (''DISABLED'', PyStr ''disabled''), (''CONNECTED'', PyStr ''connected''),
     (''NOTCONNECTED'', PyStr ''notconnected''), (''ERR_DISABLED'', PyStr ''err-disabled''), (''XCVR_ABSENCE'', PyStr ''xcvrAbsen''),
     (''INACTIVE'', PyStr ''inactive''), (''UNKNOWN'', PyStr ''unknown'')],
     cs_choices = [Single (PyStr ''up'', ''Up'', None), Single (PyStr ''down'', ''Down'', None), Single (PyStr ''disabled'', ''Disabled'', None),
     Single (PyStr ''connected'', ''Connected'', None), Single (PyStr ''notconnected'', ''Not Connected'', None),
     Single (PyStr ''err-disabled'', ''Err-Disabled'', None), Single (PyStr ''xcvrAbsen'', ''Xcvr Absence'', None),
     Single (PyStr ''inactive'', ''Inactive'', None), Single (PyStr ''unknown'', ''Unknown'', None)]\<rparr>"

definition switchport_mode_choices :: choice_set where
  "switchport_mode_choices = \<lparr>cs_key = None, cs_is_list = False,
     cs_constants = [(''ACCESS'', PyStr ''access''), (''TRUNK'', PyStr ''trunk''), (''DYNAMIC'', PyStr ''dynamic''),
     (''DOT1Q_TUNNEL'', PyStr ''dot1q-tunnel''), (''PRIVATE_VLAN'', PyStr ''private-vlan'')],
     cs_choices = [Single (PyStr ''access'', ''Access'', None), Single (PyStr ''trunk'', ''Trunk'', None),
     Single (PyStr ''dynamic'', ''Dynamic'', None), Single (PyStr ''dot1q-tunnel'', ''Dot1Q Tunnel'', None),
     Single (PyStr ''private-vlan'', ''Private VLAN'', None)]\<rparr>"

definition interface_kind_choices :: choice_set where
  "interface_kind_choices = \<lparr>cs_key = None, cs_is_list = False,
     cs_constants = [(''PHYSICAL'', PyStr ''physical''), (''PORT_CHANNEL'', PyStr ''port-channel''), (''SVI'', PyStr ''svi''),
     (''LOOPBACK'', PyStr ''loopback''), (''TUNNEL'', PyStr ''tunnel'')],
     cs_choices = [Single (PyStr ''physical'', ''Physical'', None), Single (PyStr ''port-channel'', ''Port-Channel'', None),
     Single (PyStr ''svi'', ''SVI'', None), Single (PyStr ''loopback'', ''Loopback'', None), Single (PyStr ''tunnel'', ''Tunnel'', None)]\<rparr>"

definition interface_mode_choices :: choice_set where
  "interface_mode_choices = \<lparr>cs_key = None, cs_is_list = False,
     cs_constants = [(''L2'', PyStr ''L2''), (''L3'', PyStr ''L3'')],
     cs_choices = [Single (PyStr ''L2'', ''Layer 2'', None), Single (PyStr ''L3'', ''Layer 3'', None)]\<rparr>"

definition interface_type_choices_constants_1 :: "(string \<times> pyval) list" where
  "interface_type_choices_constants_1 =
    [(''TYPE_VIRTUAL'', PyStr ''virtual''), (''TYPE_BRIDGE'', PyStr ''bridge''), (''TYPE_LAG'', PyStr ''lag''),
     (''TYPE_100ME_FX'', PyStr ''100base-fx''), (''TYPE_100ME_LFX'', PyStr ''100base-lfx''), (''TYPE_100ME_FIXED'', PyStr ''100base-tx''),
     (''TYPE_100ME_T1'', PyStr ''100base-t1''), (''TYPE_1GE_BX10_D'', PyStr ''1000base-bx10-d''),
     (''TYPE_1GE_BX10_U'', PyStr ''1000base-bx10-u''), (''TYPE_1GE_CWDM'', PyStr ''1000base-cwdm''),
     (''TYPE_1GE_CX'', PyStr ''1000base-cx''), (''TYPE_1GE_DWDM'', PyStr ''1000base-dwdm''), (''TYPE_1GE_EX'', PyStr ''1000base-ex''),
     (''TYPE_1GE_SX_FIXED'', PyStr ''1000base-sx''), (''TYPE_1GE_LSX'', PyStr ''1000base-lsx''),
     (''TYPE_1GE_LX_FIXED'', PyStr ''1000base-lx''), (''TYPE_1GE_LX10'', PyStr ''1000base-lx10''),
     (''TYPE_1GE_FIXED'', PyStr ''1000base-t''), (''TYPE_1GE_TX_FIXED'', PyStr ''1000base-tx''), (''TYPE_1GE_ZX'', PyStr ''1000base-zx''),
     (''TYPE_2GE_FIXED'', PyStr ''2.5gbase-t''), (''TYPE_5GE_FIXED'', PyStr ''5gbase-t''), (''TYPE_10GE_BR_D'', PyStr ''10gbase-br-d''),
     (''TYPE_10GE_BR_U'', PyStr ''10gbase-br-u''), (''TYPE_10GE_CX4'', PyStr ''10gbase-cx4''), (''TYPE_10GE_ER'', PyStr ''10gbase-er''),
     (''TYPE_10GE_LR'', PyStr ''10gbase-lr''), (''TYPE_10GE_LRM'', PyStr ''10gbase-lrm''), (''TYPE_10GE_LX4'', PyStr ''10gbase-lx4''),
     (''TYPE_10GE_SR'', PyStr ''10gbase-sr''), (''TYPE_10GE_FIXED'', PyStr ''10gbase-t''), (''TYPE_10GE_ZR'', PyStr ''10gbase-zr''),
     (''TYPE_25GE_CR'', PyStr ''25gbase-cr''), (''TYPE_25GE_ER'', PyStr ''25gbase-er''), (''TYPE_25GE_LR'', PyStr ''25gbase-lr''),
     (''TYPE_25GE_SR'', PyStr ''25gbase-sr''), (''TYPE_25GE_T'', PyStr ''25gbase-t''), (''TYPE_40GE_CR4'', PyStr ''40gbase-cr4''),
     (''TYPE_40GE_ER4'', PyStr ''40gbase-er4''), (''TYPE_40GE_FR4'', PyStr ''40gbase-fr4''), (''TYPE_40GE_LR4'', PyStr ''40gbase-lr4''),
     (''TYPE_40GE_SR4'', PyStr ''40gbase-sr4''), (''TYPE_50GE_CR'', PyStr ''50gbase-cr''), (''TYPE_50GE_ER'', PyStr ''50gbase-er''),
     (''TYPE_50GE_FR'', PyStr ''50gbase-fr''), (''TYPE_50GE_LR'', PyStr ''50gbase-lr''), (''TYPE_50GE_SR'', PyStr ''50gbase-sr''),
     (''TYPE_100GE_CR1'', PyStr ''100gbase-cr1''), (''TYPE_100GE_CR2'', PyStr ''100gbase-cr2''),
     (''TYPE_100GE_CR4'', PyStr ''100gbase-cr4''), (''TYPE_100GE_CR10'', PyStr ''100gbase-cr10''),
     (''TYPE_100GE_CWDM4'', PyStr ''100gbase-cwdm4''), (''TYPE_100GE_DR'', PyStr ''100gbase-dr''),
     (''TYPE_100GE_FR1'', PyStr ''100gbase-fr1''), (''TYPE_100GE_ER4'', PyStr ''100gbase-er4''),
     (''TYPE_100GE_LR1'', PyStr ''100gbase-lr1''), (''TYPE_100GE_LR4'', PyStr ''100gbase-lr4''),
     (''TYPE_100GE_SR1'', PyStr ''100gbase-sr1''), (''TYPE_100GE_SR1_2'', PyStr ''100gbase-sr1.2''),
     (''TYPE_100GE_SR2'', PyStr ''100gbase-sr2''), (''TYPE_100GE_SR4'', PyStr ''100gbase-sr4''),
     (''TYPE_100GE_SR10'', PyStr ''100gbase-sr10''), (''TYPE_100GE_ZR'', PyStr ''100gbase-zr''),
     (''TYPE_200GE_CR2'', PyStr ''200gbase-cr2''), (''TYPE_200GE_CR4'', PyStr ''200gbase-cr4''),
     (''TYPE_200GE_SR2'', PyStr ''200gbase-sr2''), (''TYPE_200GE_SR4'', PyStr ''200gbase-sr4''),
     (''TYPE_200GE_DR4'', PyStr ''200gbase-dr4''), (''TYPE_200GE_FR4'', PyStr ''200gbase-fr4''),
     (''TYPE_200GE_LR4'', PyStr ''200gbase-lr4''), (''TYPE_200GE_ER4'', PyStr ''200gbase-er4''),
     (''TYPE_200GE_VR2'', PyStr ''200gbase-vr2''), (''TYPE_400GE_CR4'', PyStr ''400gbase-cr4''),
     (''TYPE_400GE_DR4'', PyStr ''400gbase-dr4''), (''TYPE_400GE_ER8'', PyStr ''400gbase-er8''),
     (''TYPE_400GE_FR4'', PyStr ''400gbase-fr4''), (''TYPE_400GE_FR8'', PyStr ''400gbase-fr8''),
     (''TYPE_400GE_LR4'', PyStr ''400gbase-lr4''), (''TYPE_400GE_LR8'', PyStr ''400gbase-lr8''),
     (''TYPE_400GE_SR4'', PyStr ''400gbase-sr4''), (''TYPE_400GE_SR4_2'', PyStr ''400gbase-sr4_2''),
     (''TYPE_400GE_SR8'', PyStr ''400gbase-sr8''), (''TYPE_400GE_SR16'', PyStr ''400gbase-sr16''),
     (''TYPE_400GE_VR4'', PyStr ''400gbase-vr4''), (''TYPE_400GE_ZR'', PyStr ''400gbase-zr''),
     (''TYPE_800GE_CR8'', PyStr ''800gbase-cr8''), (''TYPE_800GE_DR8'', PyStr ''800gbase-dr8''),
     (''TYPE_800GE_SR8'', PyStr ''800gbase-sr8''), (''TYPE_800GE_VR8'', PyStr ''800gbase-vr8''),
     (''TYPE_100ME_SFP'', PyStr ''100base-x-sfp''), (''TYPE_1GE_GBIC'', PyStr ''1000base-x-gbic''),
     (''TYPE_1GE_SFP'', PyStr ''1000base-x-sfp''), (''TYPE_10GE_SFP_PLUS'', PyStr ''10gbase-x-sfpp''),
     (''TYPE_10GE_XFP'', PyStr ''10gbase-x-xfp''), (''TYPE_10GE_XENPAK'', PyStr ''10gbase-x-xenpak''),
     (''TYPE_10GE_X2'', PyStr ''10gbase-x-x2''), (''TYPE_25GE_SFP28'', PyStr ''25gbase-x-sfp28''),
     (''TYPE_50GE_SFP56'', PyStr ''50gbase-x-sfp56''), (''TYPE_40GE_QSFP_PLUS'', PyStr ''40gbase-x-qsfpp''),
     (''TYPE_50GE_QSFP28'', PyStr ''50gbase-x-sfp28''), (''TYPE_100GE_CFP'', PyStr ''100gbase-x-cfp''),
     (''TYPE_100GE_CFP2'', PyStr ''100gbase-x-cfp2''), (''TYPE_100GE_CFP4'', PyStr ''100gbase-x-cfp4''),
     (''TYPE_100GE_CXP'', PyStr ''100gbase-x-cxp''), (''TYPE_100GE_CPAK'', PyStr ''100gbase-x-cpak''),
     (''TYPE_100GE_DSFP'', PyStr ''100gbase-x-dsfp''), (''TYPE_100GE_SFP_DD'', PyStr ''100gbase-x-sfpdd''),
     (''TYPE_100GE_QSFP28'', PyStr ''100gbase-x-qsfp28''), (''TYPE_100GE_QSFP_DD'', PyStr ''100gbase-x-qsfpdd''),
     (''TYPE_200GE_CFP2'', PyStr ''200gbase-x-cfp2''), (''TYPE_200GE_QSFP56'', PyStr ''200gbase-x-qsfp56''),
     (''TYPE_200GE_QSFP_DD'', PyStr ''200gbase-x-qsfpdd''), (''TYPE_400GE_CFP2'', PyStr ''400gbase-x-cfp2''),
     (''TYPE_400GE_QSFP112'', PyStr ''400gbase-x-qsfp112''), (''TYPE_400GE_QSFP_DD'', PyStr ''400gbase-x-qsfpdd''),
     (''TYPE_400GE_OSFP'', PyStr ''400gbase-x-osfp''), (''TYPE_400GE_OSFP_RHS'', PyStr ''400gbase-x-osfp-rhs''),
     (''TYPE_400GE_CDFP'', PyStr ''400gbase-x-cdfp''), (''TYPE_400GE_CFP8'', PyStr ''400gbase-x-cfp8''),
     (''TYPE_800GE_QSFP_DD'', PyStr ''800gbase-x-qsfpdd''), (''TYPE_800GE_OSFP'', PyStr ''800gbase-x-osfp''),
     (''TYPE_1GE_KX'', PyStr ''1000base-kx'')]"

definition interface_type_choices_constants_2 :: "(string \<times> pyval) list" where
  "interface_type_choices_constants_2 =
    [(''TYPE_2GE_KX'', PyStr ''2.5gbase-kx''), (''TYPE_5GE_KR'', PyStr ''5gbase-kr''), (''TYPE_10GE_KR'', PyStr ''10gbase-kr''),
     (''TYPE_10GE_KX4'', PyStr ''10gbase-kx4''), (''TYPE_25GE_KR'', PyStr ''25gbase-kr''), (''TYPE_40GE_KR4'', PyStr ''40gbase-kr4''),
     (''TYPE_50GE_KR'', PyStr ''50gbase-kr''), (''TYPE_100GE_KP4'', PyStr ''100gbase-kp4''), (''TYPE_100GE_KR2'', PyStr ''100gbase-kr2''),
     (''TYPE_100GE_KR4'', PyStr ''100gbase-kr4''), (''TYPE_80211A'', PyStr ''ieee802.11a''), (''TYPE_80211G'', PyStr ''ieee802.11g''),
     (''TYPE_80211N'', PyStr ''ieee802.11n''), (''TYPE_80211AC'', PyStr ''ieee802.11ac''), (''TYPE_80211AD'', PyStr ''ieee802.11ad''),
     (''TYPE_80211AX'', PyStr ''ieee802.11ax''), (''TYPE_80211AY'', PyStr ''ieee802.11ay''), (''TYPE_80211BE'', PyStr ''ieee802.11be''),
     (''TYPE_802151'', PyStr ''ieee802.15.1''), (''TYPE_802154'', PyStr ''ieee802.15.4''),
     (''TYPE_OTHER_WIRELESS'', PyStr ''other-wireless''), (''TYPE_GSM'', PyStr ''gsm''), (''TYPE_CDMA'', PyStr ''cdma''),
     (''TYPE_LTE'', PyStr ''lte''), (''TYPE_4G'', PyStr ''4g''), (''TYPE_5G'', PyStr ''5g''), (''TYPE_SONET_OC3'', PyStr ''sonet-oc3''),
     (''TYPE_SONET_OC12'', PyStr ''sonet-oc12''), (''TYPE_SONET_OC48'', PyStr ''sonet-oc48''),
     (''TYPE_SONET_OC192'', PyStr ''sonet-oc192''), (''TYPE_SONET_OC768'', PyStr ''sonet-oc768''),
     (''TYPE_SONET_OC1920'', PyStr ''sonet-oc1920''), (''TYPE_SONET_OC3840'', PyStr ''sonet-oc3840''),
     (''TYPE_1GFC_SFP'', PyStr ''1gfc-sfp''), (''TYPE_2GFC_SFP'', PyStr ''2gfc-sfp''), (''TYPE_4GFC_SFP'', PyStr ''4gfc-sfp''),
     (''TYPE_8GFC_SFP_PLUS'', PyStr ''8gfc-sfpp''), (''TYPE_16GFC_SFP_PLUS'', PyStr ''16gfc-sfpp''),
     (''TYPE_32GFC_SFP28'', PyStr ''32gfc-sfp28''), (''TYPE_32GFC_SFP_PLUS'', PyStr ''32gfc-sfpp''),
     (''TYPE_64GFC_QSFP_PLUS'', PyStr ''64gfc-qsfpp''), (''TYPE_64GFC_SFP_DD'', PyStr ''64gfc-sfpdd''),
     (''TYPE_64GFC_SFP_PLUS'', PyStr ''64gfc-sfpp''), (''TYPE_128GFC_QSFP28'', PyStr ''128gfc-qsfp28''),
     (''TYPE_INFINIBAND_SDR'', PyStr ''infiniband-sdr''), (''TYPE_INFINIBAND_DDR'', PyStr ''infiniband-ddr''),
     (''TYPE_INFINIBAND_QDR'', PyStr ''infiniband-qdr''), (''TYPE_INFINIBAND_FDR10'', PyStr ''infiniband-fdr10''),
     (''TYPE_INFINIBAND_FDR'', PyStr ''infiniband-fdr''), (''TYPE_INFINIBAND_EDR'', PyStr ''infiniband-edr''),
     (''TYPE_INFINIBAND_HDR'', PyStr ''infiniband-hdr''), (''TYPE_INFINIBAND_NDR'', PyStr ''infiniband-ndr''),
     (''TYPE_INFINIBAND_XDR'', PyStr ''infiniband-xdr''), (''TYPE_T1'', PyStr ''t1''), (''TYPE_E1'', PyStr ''e1''),
     (''TYPE_T3'', PyStr ''t3''), (''TYPE_E3'', PyStr ''e3''), (''TYPE_XDSL'', PyStr ''xdsl''), (''TYPE_DOCSIS'', PyStr ''docsis''),
     (''TYPE_MOCA'', PyStr ''moca''), (''TYPE_BPON'', PyStr ''bpon''), (''TYPE_EPON'', PyStr ''epon''),
     (''TYPE_10G_EPON'', PyStr ''10g-epon''), (''TYPE_GPON'', PyStr ''gpon''), (''TYPE_XG_PON'', PyStr ''xg-pon''),
     (''TYPE_XGS_PON'', PyStr ''xgs-pon''), (''TYPE_NG_PON2'', PyStr ''ng-pon2''), (''TYPE_25G_PON'', PyStr ''25g-pon''),
     (''TYPE_50G_PON'', PyStr ''50g-pon''), (''TYPE_STACKWISE'', PyStr ''cisco-stackwise''),
     (''TYPE_STACKWISE_PLUS'', PyStr ''cisco-stackwise-plus''), (''TYPE_FLEXSTACK'', PyStr ''cisco-flexstack''),
     (''TYPE_FLEXSTACK_PLUS'', PyStr ''cisco-flexstack-plus''), (''TYPE_STACKWISE80'', PyStr ''cisco-stackwise-80''),
     (''TYPE_STACKWISE160'', PyStr ''cisco-stackwise-160''), (''TYPE_STACKWISE320'', PyStr ''cisco-stackwise-320''),
     (''TYPE_STACKWISE480'', PyStr ''cisco-stackwise-480''), (''TYPE_STACKWISE1T'', PyStr ''cisco-stackwise-1t''),
     (''TYPE_JUNIPER_VCP'', PyStr ''juniper-vcp''), (''TYPE_SUMMITSTACK'', PyStr ''extreme-summitstack''),
     (''TYPE_SUMMITSTACK128'', PyStr ''extreme-summitstack-128''), (''TYPE_SUMMITSTACK256'', PyStr ''extreme-summitstack-256''),
     (''TYPE_SUMMITSTACK512'', PyStr ''extreme-summitstack-512''), (''TYPE_OTHER'', PyStr ''other'')]"

definition interface_type_choices_entries_1 :: "choice list" where
  "interface_type_choices_entries_1 =
    [Optgroup ''Virtual interfaces'' [
       (PyStr ''virtual'', ''Virtual'', None), (PyStr ''bridge'', ''Bridge'', None),
       (PyStr ''lag'', ''Link Aggregation Group (LAG)'', None)],
     Optgroup ''FastEthernet (100 Mbps)'' [
       (PyStr ''100base-fx'', ''100BASE-FX (10/100ME)'', None), (PyStr ''100base-lfx'', ''100BASE-LFX (10/100ME)'', None),
       (PyStr ''100base-tx'', ''100BASE-TX (10/100ME)'', None), (PyStr ''100base-t1'', ''100BASE-T1 (10/100ME)'', None)],
     Optgroup ''GigabitEthernet (1 Gbps)'' [
       (PyStr ''1000base-bx10-d'', ''1000BASE-BX10-D (1GE BiDi Down)'', None),
       (PyStr ''1000base-bx10-u'', ''1000BASE-BX10-U (1GE BiDi Up)'', None), (PyStr ''1000base-cwdm'', ''1000BASE-CWDM (1GE)'', None),
       (PyStr ''1000base-cx'', ''1000BASE-CX (1GE DAC)'', None), (PyStr ''1000base-dwdm'', ''1000BASE-DWDM (1GE)'', None),
       (PyStr ''1000base-ex'', ''1000BASE-EX (1GE)'', None), (PyStr ''1000base-lsx'', ''1000BASE-LSX (1GE)'', None),
       (PyStr ''1000base-lx'', ''1000BASE-LX (1GE)'', None), (PyStr ''1000base-lx10'', ''1000BASE-LX10/LH (1GE)'', None),
       (PyStr ''1000base-sx'', ''1000BASE-SX (1GE)'', None), (PyStr ''1000base-t'', ''1000BASE-T (1GE)'', None),
       (PyStr ''1000base-tx'', ''1000BASE-TX (1GE)'', None), (PyStr ''1000base-zx'', ''1000BASE-ZX (1GE)'', None)],
     Optgroup ''2.5/5 Gbps Ethernet'' [
       (PyStr ''2.5gbase-t'', ''2.5GBASE-T (2.5GE)'', None), (PyStr ''5gbase-t'', ''5GBASE-T (5GE)'', None)],
     Optgroup ''10 Gbps Ethernet'' [
       (PyStr ''10gbase-br-d'', ''10GBASE-BR-D (10GE BiDi Down)'', None), (PyStr ''10gbase-br-u'', ''10GBASE-BR-U (10GE BiDi Up)'', None),
       (PyStr ''10gbase-cx4'', ''10GBASE-CX4 (10GE DAC)'', None), (PyStr ''10gbase-er'', ''10GBASE-ER (10GE)'', None),
       (PyStr ''10gbase-lr'', ''10GBASE-LR (10GE)'', None), (PyStr ''10gbase-lrm'', ''10GBASE-LRM (10GE)'', None),
       (PyStr ''10gbase-lx4'', ''10GBASE-LX4 (10GE)'', None), (PyStr ''10gbase-sr'', ''10GBASE-SR (10GE)'', None),
       (PyStr ''10gbase-t'', ''10GBASE-T (10GE)'', None), (PyStr ''10gbase-zr'', ''10GBASE-ZR (10GE)'', None)],
     Optgroup ''25 Gbps Ethernet'' [
       (PyStr ''25gbase-cr'', ''25GBASE-CR (25GE DAC)'', None), (PyStr ''25gbase-er'', ''25GBASE-ER (25GE)'', None),
       (PyStr ''25gbase-lr'', ''25GBASE-LR (25GE)'', None), (PyStr ''25gbase-sr'', ''25GBASE-SR (25GE)'', None),
       (PyStr ''25gbase-t'', ''25GBASE-T (25GE)'', None)],
     Optgroup ''40 Gbps Ethernet'' [
       (PyStr ''40gbase-cr4'', ''40GBASE-CR4 (40GE DAC)'', None), (PyStr ''40gbase-er4'', ''40GBASE-ER4 (40GE)'', None),
       (PyStr ''40gbase-fr4'', ''40GBASE-FR4 (40GE)'', None), (PyStr ''40gbase-lr4'', ''40GBASE-LR4 (40GE)'', None),
       (PyStr ''40gbase-sr4'', ''40GBASE-SR4 (40GE)'', None)],
     Optgroup ''50 Gbps Ethernet'' [
       (PyStr ''50gbase-cr'', ''50GBASE-CR (50GE DAC)'', None), (PyStr ''50gbase-er'', ''50GBASE-ER (50GE)'', None),
       (PyStr ''50gbase-fr'', ''50GBASE-FR (50GE)'', None), (PyStr ''50gbase-lr'', ''50GBASE-LR (50GE)'', None),
       (PyStr ''50gbase-sr'', ''50GBASE-SR (50GE)'', None)],
     Optgroup ''100 Gbps Ethernet'' [
       (PyStr ''100gbase-cr1'', ''100GBASE-CR1 (100GE DAC)'', None), (PyStr ''100gbase-cr2'', ''100GBASE-CR2 (100GE DAC)'', None),
       (PyStr ''100gbase-cr4'', ''100GBASE-CR4 (100GE DAC)'', None), (PyStr ''100gbase-cr10'', ''100GBASE-CR10 (100GE DAC)'', None),
       (PyStr ''100gbase-cwdm4'', ''100GBASE-CWDM4 (100GE)'', None), (PyStr ''100gbase-dr'', ''100GBASE-DR (100GE)'', None),
       (PyStr ''100gbase-er4'', ''100GBASE-ER4 (100GE)'', None), (PyStr ''100gbase-fr1'', ''100GBASE-FR1 (100GE)'', None),
       (PyStr ''100gbase-lr1'', ''100GBASE-LR1 (100GE)'', None), (PyStr ''100gbase-lr4'', ''100GBASE-LR4 (100GE)'', None),
       (PyStr ''100gbase-sr1'', ''100GBASE-SR1 (100GE)'', None), (PyStr ''100gbase-sr1.2'', ''100GBASE-SR1.2 (100GE BiDi)'', None),
       (PyStr ''100gbase-sr2'', ''100GBASE-SR2 (100GE)'', None), (PyStr ''100gbase-sr4'', ''100GBASE-SR4 (100GE)'', None),
       (PyStr ''100gbase-sr10'', ''100GBASE-SR10 (100GE)'', None), (PyStr ''100gbase-zr'', ''100GBASE-ZR (100GE)'', None)],
     Optgroup ''200 Gbps Ethernet'' [
       (PyStr ''200gbase-cr2'', ''200GBASE-CR2 (200GE)'', None), (PyStr ''200gbase-cr4'', ''200GBASE-CR4 (200GE)'', None),
       (PyStr ''200gbase-dr4'', ''200GBASE-DR4 (200GE)'', None), (PyStr ''200gbase-er4'', ''200GBASE-ER4 (200GE)'', None),
       (PyStr ''200gbase-fr4'', ''200GBASE-FR4 (200GE)'', None), (PyStr ''200gbase-lr4'', ''200GBASE-LR4 (200GE)'', None),
       (PyStr ''200gbase-sr2'', ''200GBASE-SR2 (200GE)'', None), (PyStr ''200gbase-sr4'', ''200GBASE-SR4 (200GE)'', None),
       (PyStr ''200gbase-vr2'', ''200GBASE-VR2 (200GE)'', None)],
     Optgroup ''400 Gbps Ethernet'' [
       (PyStr ''400gbase-cr4'', ''400GBASE-CR4 (400GE)'', None), (PyStr ''400gbase-dr4'', ''400GBASE-DR4 (400GE)'', None),
       (PyStr ''400gbase-er8'', ''400GBASE-ER8 (400GE)'', None), (PyStr ''400gbase-fr4'', ''400GBASE-FR4 (400GE)'', None),
       (PyStr ''400gbase-fr8'', ''400GBASE-FR8 (400GE)'', None), (PyStr ''400gbase-lr4'', ''400GBASE-LR4 (400GE)'', None),
       (PyStr ''400gbase-lr8'', ''400GBASE-LR8 (400GE)'', None), (PyStr ''400gbase-sr4'', ''400GBASE-SR4 (400GE)'', None),
       (PyStr ''400gbase-sr4_2'', ''400GBASE-SR4.2 (400GE BiDi)'', None), (PyStr ''400gbase-sr8'', ''400GBASE-SR8 (400GE)'', None),
       (PyStr ''400gbase-sr16'', ''400GBASE-SR16 (400GE)'', None), (PyStr ''400gbase-vr4'', ''400GBASE-VR4 (400GE)'', None),
       (PyStr ''400gbase-zr'', ''400GBASE-ZR (400GE)'', None)],
     Optgroup ''800 Gbps Ethernet'' [
       (PyStr ''800gbase-cr8'', ''800GBASE-CR8 (800GE)'', None), (PyStr ''800gbase-dr8'', ''800GBASE-DR8 (800GE)'', None),
       (PyStr ''800gbase-sr8'', ''800GBASE-SR8 (800GE)'', None), (PyStr ''800gbase-vr8'', ''800GBASE-VR8 (800GE)'', None)]]"

definition interface_type_choices_entries_2 :: "choice list" where
  "interface_type_choices_entries_2 =
    [Optgroup ''Pluggable transceivers'' [
       (PyStr ''100base-x-sfp'', ''SFP (100ME)'', None), (PyStr ''1000base-x-gbic'', ''GBIC (1GE)'', None),
       (PyStr ''1000base-x-sfp'', ''SFP (1GE)'', None), (PyStr ''10gbase-x-sfpp'', ''SFP+ (10GE)'', None),
       (PyStr ''10gbase-x-xenpak'', ''XENPAK (10GE)'', None), (PyStr ''10gbase-x-xfp'', ''XFP (10GE)'', None),
       (PyStr ''10gbase-x-x2'', ''X2 (10GE)'', None), (PyStr ''25gbase-x-sfp28'', ''SFP28 (25GE)'', None),
       (PyStr ''40gbase-x-qsfpp'', ''QSFP+ (40GE)'', None), (PyStr ''50gbase-x-sfp28'', ''QSFP28 (50GE)'', None),
       (PyStr ''50gbase-x-sfp56'', ''SFP56 (50GE)'', None), (PyStr ''100gbase-x-cfp'', ''CFP (100GE)'', None),
       (PyStr ''100gbase-x-cfp2'', ''CFP2 (100GE)'', None), (PyStr ''100gbase-x-cfp4'', ''CFP4 (100GE)'', None),
       (PyStr ''100gbase-x-cxp'', ''CXP (100GE)'', None), (PyStr ''100gbase-x-cpak'', ''Cisco CPAK (100GE)'', None),
       (PyStr ''100gbase-x-dsfp'', ''DSFP (100GE)'', None), (PyStr ''100gbase-x-qsfp28'', ''QSFP28 (100GE)'', None),
       (PyStr ''100gbase-x-qsfpdd'', ''QSFP-DD (100GE)'', None), (PyStr ''100gbase-x-sfpdd'', ''SFP-DD (100GE)'', None),
       (PyStr ''200gbase-x-cfp2'', ''CFP2 (200GE)'', None), (PyStr ''200gbase-x-qsfp56'', ''QSFP56 (200GE)'', None),
       (PyStr ''200gbase-x-qsfpdd'', ''QSFP-DD (200GE)'', None), (PyStr ''400gbase-x-qsfp112'', ''QSFP112 (400GE)'', None),
       (PyStr ''400gbase-x-qsfpdd'', ''QSFP-DD (400GE)'', None), (PyStr ''400gbase-x-cdfp'', ''CDFP (400GE)'', None),
       (PyStr ''400gbase-x-cfp2'', ''CFP2 (400GE)'', None), (PyStr ''400gbase-x-cfp8'', ''CPF8 (400GE)'', None),
       (PyStr ''400gbase-x-osfp'', ''OSFP (400GE)'', None), (PyStr ''400gbase-x-osfp-rhs'', ''OSFP-RHS (400GE)'', None),
       (PyStr ''800gbase-x-osfp'', ''OSFP (800GE)'', None), (PyStr ''800gbase-x-qsfpdd'', ''QSFP-DD (800GE)'', None)],
     Optgroup ''Backplane Ethernet'' [
       (PyStr ''1000base-kx'', ''1000BASE-KX (1GE)'', None), (PyStr ''2.5gbase-kx'', ''2.5GBASE-KX (2.5GE)'', None),
       (PyStr ''5gbase-kr'', ''5GBASE-KR (5GE)'', None), (PyStr ''10gbase-kr'', ''10GBASE-KR (10GE)'', None),
       (PyStr ''10gbase-kx4'', ''10GBASE-KX4 (10GE)'', None), (PyStr ''25gbase-kr'', ''25GBASE-KR (25GE)'', None),
       (PyStr ''40gbase-kr4'', ''40GBASE-KR4 (40GE)'', None), (PyStr ''50gbase-kr'', ''50GBASE-KR (50GE)'', None),
       (PyStr ''100gbase-kp4'', ''100GBASE-KP4 (100GE)'', None), (PyStr ''100gbase-kr2'', ''100GBASE-KR2 (100GE)'', None),
       (PyStr ''100gbase-kr4'', ''100GBASE-KR4 (100GE)'', None)],
     Optgroup ''Wireless'' [
       (PyStr ''ieee802.11a'', ''IEEE 802.11a'', None), (PyStr ''ieee802.11g'', ''IEEE 802.11b/g'', None),
       (PyStr ''ieee802.11n'', ''IEEE 802.11n (Wi-Fi 4)'', None), (PyStr ''ieee802.11ac'', ''IEEE 802.11ac (Wi-Fi 5)'', None),
       (PyStr ''ieee802.11ad'', ''IEEE 802.11ad (WiGig)'', None), (PyStr ''ieee802.11ax'', ''IEEE 802.11ax (Wi-Fi 6)'', None),
       (PyStr ''ieee802.11ay'', ''IEEE 802.11ay (WiGig)'', None), (PyStr ''ieee802.11be'', ''IEEE 802.11be (Wi-Fi 7)'', None),
       (PyStr ''ieee802.15.1'', ''IEEE 802.15.1 (Bluetooth)'', None), (PyStr ''ieee802.15.4'', ''IEEE 802.15.4 (LR-WPAN)'', None),
       (PyStr ''other-wireless'', ''Other (Wireless)'', None)],
     Optgroup ''Cellular'' [
       (PyStr ''gsm'', ''GSM'', None), (PyStr ''cdma'', ''CDMA'', None), (PyStr ''lte'', ''LTE'', None), (PyStr ''4g'', ''4G'', None),
       (PyStr ''5g'', ''5G'', None)],
     Optgroup ''SONET'' [
       (PyStr ''sonet-oc3'', ''OC-3/STM-1'', None), (PyStr ''sonet-oc12'', ''OC-12/STM-4'', None),
       (PyStr ''sonet-oc48'', ''OC-48/STM-16'', None), (PyStr ''sonet-oc192'', ''OC-192/STM-64'', None),
       (PyStr ''sonet-oc768'', ''OC-768/STM-256'', None), (PyStr ''sonet-oc1920'', ''OC-1920/STM-640'', None),
       (PyStr ''sonet-oc3840'', ''OC-3840/STM-1234'', None)],
     Optgroup ''FibreChannel'' [
       (PyStr ''1gfc-sfp'', ''SFP (1GFC)'', None), (PyStr ''2gfc-sfp'', ''SFP (2GFC)'', None), (PyStr ''4gfc-sfp'', ''SFP (4GFC)'', None),
       (PyStr ''8gfc-sfpp'', ''SFP+ (8GFC)'', None), (PyStr ''16gfc-sfpp'', ''SFP+ (16GFC)'', None),
       (PyStr ''32gfc-sfp28'', ''SFP28 (32GFC)'', None), (PyStr ''32gfc-sfpp'', ''SFP+ (32GFC)'', None),
       (PyStr ''64gfc-qsfpp'', ''QSFP+ (64GFC)'', None), (PyStr ''64gfc-sfpdd'', ''SFP-DD (64GFC)'', None),
       (PyStr ''64gfc-sfpp'', ''SFP+ (64GFC)'', None), (PyStr ''128gfc-qsfp28'', ''QSFP28 (128GFC)'', None)],
     Optgroup ''InfiniBand'' [
       (PyStr ''infiniband-sdr'', ''SDR (2 Gbps)'', None), (PyStr ''infiniband-ddr'', ''DDR (4 Gbps)'', None),
       (PyStr ''infiniband-qdr'', ''QDR (8 Gbps)'', None), (PyStr ''infiniband-fdr10'', ''FDR10 (10 Gbps)'', None),
       (PyStr ''infiniband-fdr'', ''FDR (13.5 Gbps)'', None), (PyStr ''infiniband-edr'', ''EDR (25 Gbps)'', None),
       (PyStr ''infiniband-hdr'', ''HDR (50 Gbps)'', None), (PyStr ''infiniband-ndr'', ''NDR (100 Gbps)'', None),
       (PyStr ''infiniband-xdr'', ''XDR (250 Gbps)'', None)],
     Optgroup ''Serial'' [
       (PyStr ''t1'', ''T1 (1.544 Mbps)'', None), (PyStr ''e1'', ''E1 (2.048 Mbps)'', None), (PyStr ''t3'', ''T3 (45 Mbps)'', None),
       (PyStr ''e3'', ''E3 (34 Mbps)'', None)],
     Optgroup ''ATM'' [
       (PyStr ''xdsl'', ''xDSL'', None)],
     Optgroup ''Coaxial'' [
       (PyStr ''docsis'', ''DOCSIS'', None), (PyStr ''moca'', ''MoCA'', None)]]"

definition interface_type_choices_entries_3 :: "choice list" where
  "interface_type_choices_entries_3 =
    [Optgroup ''PON'' [
       (PyStr ''bpon'', ''BPON (622 Mbps / 155 Mbps)'', None), (PyStr ''epon'', ''EPON (1 Gbps)'', None),
       (PyStr ''10g-epon'', ''10G-EPON (10 Gbps)'', None), (PyStr ''gpon'', ''GPON (2.5 Gbps / 1.25 Gbps)'', None),
       (PyStr ''xg-pon'', ''XG-PON (10 Gbps / 2.5 Gbps)'', None), (PyStr ''xgs-pon'', ''XGS-PON (10 Gbps)'', None),
       (PyStr ''ng-pon2'', ''NG-PON2 (TWDM-PON) (4x10 Gbps)'', None), (PyStr ''25g-pon'', ''25G-PON (25 Gbps)'', None),
       (PyStr ''50g-pon'', ''50G-PON (50 Gbps)'', None)],
     Optgroup ''Stacking'' [
       (PyStr ''cisco-stackwise'', ''Cisco StackWise'', None), (PyStr ''cisco-stackwise-plus'', ''Cisco StackWise Plus'', None),
       (PyStr ''cisco-flexstack'', ''Cisco FlexStack'', None), (PyStr ''cisco-flexstack-plus'', ''Cisco FlexStack Plus'', None),
       (PyStr ''cisco-stackwise-80'', ''Cisco StackWise-80'', None), (PyStr ''cisco-stackwise-160'', ''Cisco StackWise-160'', None),
       (PyStr ''cisco-stackwise-320'', ''Cisco StackWise-320'', None), (PyStr ''cisco-stackwise-480'', ''Cisco StackWise-480'', None),
       (PyStr ''cisco-stackwise-1t'', ''Cisco StackWise-1T'', None), (PyStr ''juniper-vcp'', ''Juniper VCP'', None),
       (PyStr ''extreme-summitstack'', ''Extreme SummitStack'', None),
       (PyStr ''extreme-summitstack-128'', ''Extreme SummitStack-128'', None),
       (PyStr ''extreme-summitstack-256'', ''Extreme SummitStack-256'', None),
       (PyStr ''extreme-summitstack-512'', ''Extreme SummitStack-512'', None)],
     Optgroup ''Other'' [
       (PyStr ''other'', ''Other'', None)]]"

definition interface_type_choices :: choice_set where
  "interface_type_choices = \<lparr>cs_key = None, cs_is_list = False, cs_constants = interface_type_choices_constants_1 @ interface_type_choices_constants_2,
     cs_choices = interface_type_choices_entries_1 @ interface_type_choices_entries_2 @ interface_type_choices_entries_3\<rparr>"

definition interface_speed_choices :: choice_set where
  "interface_speed_choices = \<lparr>cs_key = Some ''Interface.speed'', cs_is_list = True,
     cs_constants = [],
     cs_choices = [Single (PyInt 10000, ''10 Mbps'', None), Single (PyInt 100000, ''100 Mbps'', None), Single (PyInt 1000000, ''1 Gbps'', None),
     Single (PyInt 2500000, ''2.5 Gbps'', None), Single (PyInt 5000000, ''5 Gbps'', None), Single (PyInt 10000000, ''10 Gbps'', None),
     Single (PyInt 25000000, ''25 Gbps'', None), Single (PyInt 40000000, ''40 Gbps'', None), Single (PyInt 100000000, ''100 Gbps'', None),
     Single (PyInt 200000000, ''200 Gbps'', None), Single (PyInt 400000000, ''400 Gbps'', None)]\<rparr>"

definition interface_duplex_choices :: choice_set where
  "interface_duplex_choices = \<lparr>cs_key = None, cs_is_list = False,
     cs_constants = [(''DUPLEX_HALF'', PyStr ''half''), (''DUPLEX_FULL'', PyStr ''full''), (''DUPLEX_AUTO'', PyStr ''auto'')],
     cs_choices = [Single (PyStr ''half'', ''Half'', None), Single (PyStr ''full'', ''Full'', None), Single (PyStr ''auto'', ''Auto'', None)]\<rparr>"

definition interface_poe_mode_choices :: choice_set where
  "interface_poe_mode_choices = \<lparr>cs_key = None, cs_is_list = False,
     cs_constants = [(''MODE_PD'', PyStr ''pd''), (''MODE_PSE'', PyStr ''pse'')],
     cs_choices = [Single (PyStr ''pd'', ''PD'', None), Single (PyStr ''pse'', ''PSE'', None)]\<rparr>"

definition interface_poe_type_choices :: choice_set where
  "interface_poe_type_choices = \<lparr>cs_key = None, cs_is_list = False,
     cs_constants = [(''TYPE_1_8023AF'', PyStr ''type1-ieee802.3af''), (''TYPE_2_8023AT'', PyStr ''type2-ieee802.3at''),
     (''TYPE_3_8023BT'', PyStr ''type3-ieee802.3bt''), (''TYPE_4_8023BT'', PyStr ''type4-ieee802.3bt''),
     (''PASSIVE_24V_2PAIR'', PyStr ''passive-24v-2pair''), (''PASSIVE_24V_4PAIR'', PyStr ''passive-24v-4pair''),
     (''PASSIVE_48V_2PAIR'', PyStr ''passive-48v-2pair''), (''PASSIVE_48V_4PAIR'', PyStr ''passive-48v-4pair'')],
     cs_choices = [Optgroup ''IEEE Standard'' [
       (PyStr ''type1-ieee802.3af'', ''802.3af (Type 1)'', None), (PyStr ''type2-ieee802.3at'', ''802.3at (Type 2)'', None),
       (PyStr ''type3-ieee802.3bt'', ''802.3bt (Type 3)'', None), (PyStr ''type4-ieee802.3bt'', ''802.3bt (Type 4)'', None)],
     Optgroup ''Passive'' [
       (PyStr ''passive-24v-2pair'', ''Passive 24V (2-pair)'', None), (PyStr ''passive-24v-4pair'', ''Passive 24V (4-pair)'', None),
       (PyStr ''passive-48v-2pair'', ''Passive 48V (2-pair)'', None), (PyStr ''passive-48v-4pair'', ''Passive 48V (4-pair)'', None)]]\<rparr>"

section \<open>They are sound\<close>

text \<open>
  Every constant of a class is offered, no value is offered twice, the values make an enumeration with a member for each,
  and fit into the columns of fifty characters. The two lists of speeds and the three long lists of types are left out here.
\<close>

definition sound_set :: "choice_set \<Rightarrow> bool" where
  "sound_set cs \<longleftrightarrow>
     (let vs = map fst (flat_choices (cs_choices cs))
      in list_all (\<lambda>c. snd c \<in> set vs) (cs_constants cs) \<and> distinct (map enum_key vs) \<and> list_all (\<lambda>v. length (py_str v) \<le> 50) vs
         \<and> (cs_key cs \<noteq> None \<longrightarrow> cs_is_list cs))"

definition small_sets :: "choice_set list" where
  "small_sets =
    [rack_form_factor_choices, rack_width_choices, rack_status_choices, rack_dimension_unit_choices,
     rack_weight_unit_choices, rack_elevation_detail_render_choices, rack_airflow_choices, rack_reservation_status_choices,
     subdevice_role_choices, device_platform_choices, device_status_choices, device_face_choices,
     device_airflow_choices, device_stack_role_choices, device_stack_state_choices, module_status_choices,
     module_airflow_choices, console_port_type_choices, power_outlet_feed_leg_choices,
     interface_status_choices, switchport_mode_choices, interface_kind_choices, interface_mode_choices, interface_duplex_choices, interface_poe_mode_choices, interface_poe_type_choices]"

lemma small_sets_sound: "list_all sound_set small_sets"
  by code_simp

lemma long_lists_in_order:
  "map snd (cs_constants power_port_type_choices) = map fst (flat_choices (cs_choices power_port_type_choices))"
  "map snd (cs_constants power_outlet_type_choices) = map fst (flat_choices (cs_choices power_outlet_type_choices))"
  by code_simp+

lemma speeds_distinct:
  "distinct (map fst (flat_choices (cs_choices console_port_speed_choices)))"
  "distinct (map fst (flat_choices (cs_choices interface_speed_choices)))"
  by (simp_all add: console_port_speed_choices_def interface_speed_choices_def)

text \<open>Names of the enumeration that are different make a member each.\<close>

lemma dict_put_length: "length (dict_put k v m) = (if k \<in> fst ` set m then length m else Suc (length m))"
  by (induction k v m rule: dict_put.induct) auto

lemma dict_puts_length:
  assumes "distinct (map f vs)" and "f ` set vs \<inter> fst ` set m = {}"
  shows "length (fold (\<lambda>v. dict_put (f v) v) vs m) = length m + length vs"
  using assms
proof (induction vs arbitrary: m)
  case (Cons v vs)
  have "f ` set vs \<inter> fst ` set (dict_put (f v) v m) = {}" using Cons.prems keys_dict_put [of "f v" v m] by auto
  with Cons show ?case by (simp add: dict_put_length)
qed simp

end
