(* ===== verification/ChoiceUse.thy ===== *)
theory ChoiceUse
  imports DcimChoices SyncInterfacesProps SyncModulesProps
begin

text \<open>
  What the sets of choices promise, and that what the synchronisation writes into the columns of interfaces
  and stack members with choices (\<^verbatim>\<open>dcim/models/interface.py\<close>, \<^verbatim>\<open>dcim/models/device.py\<close>) is offered.
\<close>

section \<open>Enumerations\<close>

lemma char_upper_enum: "enum_char c \<Longrightarrow> char_upper c = c"
  by (auto simp: enum_char_def char_upper_def is_digit_def)

lemma upper_enum_key: "upper (enum_key v) = enum_key v"
proof -
  have "enum_char (if enum_char c then c else CHR ''_'')" for c by (simp add: enum_char_def)
  then show ?thesis by (simp add: upper_def enum_key_def char_upper_enum)
qed

lemma enum_names_distinct:
  assumes "distinct (map enum_key vs)"
  shows "distinct (map (\<lambda>v. upper (enum_prefix p @ enum_key v)) vs)"
proof -
  have "upper (enum_prefix p @ enum_key v) = upper (enum_prefix p) @ enum_key v" for v
    using upper_enum_key [of v] by (simp add: upper_def)
  then show ?thesis using assms by (simp add: distinct_map inj_on_def)
qed

text \<open>
  Every set of choices of the inventory, but for the two lists of speeds and the three long lists of types, offers each of its constants, and no
  value twice, makes an enumeration with a member for each value, whatever the prefix, and has values that fit into the
  columns. This holds for the stock choices, when the configuration does not replace or extend them.
\<close>

lemma choices_sound:
  assumes cs: "cs \<in> set small_sets" and stock: "\<forall>x. f x = None"
  shows "\<exists>k. make_class f app name cs = Inr k \<and> snd ` set (cs_constants cs) \<subseteq> set (choice_values k) \<and> distinct (choice_values k)
    \<and> length (enum_members p k) = length (choice_values k) \<and> (\<forall>v \<in> set (choice_values k). length (py_str v) \<le> 50)"
proof -
  let ?vs = "map fst (flat_choices (cs_choices cs))"
  have sound: "list_all (\<lambda>c. snd c \<in> set ?vs) (cs_constants cs)" "distinct (map enum_key ?vs)" "list_all (\<lambda>v. length (py_str v) \<le> 50) ?vs"
    "cs_key cs \<noteq> None \<longrightarrow> cs_is_list cs"
    using cs small_sets_sound unfolding list_all_iff sound_set_def Let_def by blast+
  obtain k where k: "make_class f app name cs = Inr k" "choice_values k = ?vs"
    using sound(4) stock class_values [of f app name cs] by (cases "make_class f app name cs")
      (auto simp: make_class_def bind_res_eq_Inl configured_def split: option.splits if_splits)
  have "length (enum_members p k) = length ?vs"
    using dict_puts_length [OF enum_names_distinct [OF sound(2), of p], where m = "[]"] by (simp add: enum_members_def k(2))
  moreover have "distinct ?vs" using distinct_map [of enum_key ?vs] sound(2) by blast
  moreover have "snd ` set (cs_constants cs) \<subseteq> set ?vs" using sound(1) by (auto simp: list_all_iff)
  moreover have "\<forall>v \<in> set ?vs. length (py_str v) \<le> 50" using sound(3) by (simp add: list_all_iff)
  ultimately show ?thesis using k by metis
qed

section \<open>What is written is offered\<close>

definition offered :: "choice_set \<Rightarrow> string \<Rightarrow> bool" where
  "offered cs s \<longleftrightarrow> PyStr s \<in> set (map fst (flat_choices (cs_choices cs)))"

lemma offered_values:
  "offered interface_status_choices s \<longleftrightarrow> s \<in> {''up'', ''down'', ''disabled'', ''connected'', ''notconnected'', ''err-disabled'', ''xcvrAbsen'', ''inactive'', ''unknown''}"
  "offered interface_kind_choices s \<longleftrightarrow> s \<in> {''physical'', ''port-channel'', ''svi'', ''loopback'', ''tunnel''}"
  "offered interface_mode_choices s \<longleftrightarrow> s \<in> {''L2'', ''L3''}"
  "offered device_stack_role_choices s \<longleftrightarrow> s \<in> {''active'', ''standby'', ''master'', ''member'', ''unknown''}"
  "offered device_stack_state_choices s \<longleftrightarrow> s \<in> {''ready'', ''provisioned'', ''removed'', ''unknown''}"
  by (simp_all add: offered_def interface_status_choices_def interface_kind_choices_def interface_mode_choices_def
      device_stack_role_choices_def device_stack_state_choices_def)

definition iface_offered :: "interface \<Rightarrow> bool" where
  "iface_offered i \<longleftrightarrow> offered interface_status_choices (ifc_status i) \<and> offered interface_kind_choices (ifc_kind i)
     \<and> (case ifc_mode i of None \<Rightarrow> True | Some m \<Rightarrow> offered interface_mode_choices m)"

definition member_offered :: "stack_member \<Rightarrow> bool" where
  "member_offered m \<longleftrightarrow> offered device_stack_role_choices (sm_role m) \<and> offered device_stack_state_choices (sm_state m)"

lemma map_status_offered: "offered interface_status_choices (map_status s)"
  by (simp add: offered_values map_status_def)

lemma brief_offered: "offered interface_status_choices (map_status_ip_brief s p)"
  by (simp add: offered_values map_status_ip_brief_def Let_def)

lemma kind_offered: "offered interface_kind_choices (infer_kind n)"
  by (simp add: offered_values infer_kind_def Let_def)

lemma new_iface_offered: "iface_offered (new_interface i dev n)"
  by (simp add: iface_offered_def new_interface_def offered_values)

lemma set_kind_offered: "iface_offered i \<Longrightarrow> iface_offered (set_kind n i)"
  by (simp add: iface_offered_def set_kind_def kind_offered)

lemma set_mode_offered: "iface_offered i \<Longrightarrow> iface_offered (set_mode m n i)"
  by (auto simp: iface_offered_def set_mode_def Let_def offered_values(3) split: option.splits)

lemma set_lag_offered: "iface_offered i \<Longrightarrow> iface_offered (set_lag dev js p i)"
  by (auto simp: iface_offered_def set_lag_def split: option.split)

lemma set_address_offered: "iface_offered i \<Longrightarrow> iface_offered (set_address b i)"
  by (simp add: iface_offered_def set_address_def)

lemma set_status_offered: "set_status m n i = Inr j \<Longrightarrow> iface_offered i \<Longrightarrow> iface_offered j"
  by (auto simp: set_status_def iface_offered_def bind_res_eq_Inr Let_def map_status_offered brief_offered split: option.splits if_splits)

lemma on_iface_offered:
  assumes "\<forall>i \<in> set js. iface_offered i" and "\<And>i. iface_offered i \<Longrightarrow> iface_offered (f i)"
  shows "\<forall>i \<in> set (on_iface dev n f js). iface_offered i"
  using assms by (auto simp: on_iface_def update_where_def)

lemma passes_offered:
  assumes "\<forall>i \<in> set js. iface_offered i"
  shows "\<forall>i \<in> set (kind_pass dev n js). iface_offered i" "\<forall>i \<in> set (mode_pass dev m n js). iface_offered i"
    "\<forall>i \<in> set (lag_pass dev w js). iface_offered i" "\<forall>i \<in> set (address_pass dev v js). iface_offered i"
  unfolding kind_pass_def mode_pass_def lag_pass_def address_pass_def
  by (rule on_iface_offered [OF assms]; rule set_kind_offered set_mode_offered set_lag_offered set_address_offered; assumption)+

lemma fold_offered:
  assumes "\<And>x js. \<forall>i \<in> set js. iface_offered i \<Longrightarrow> \<forall>i \<in> set (f x js). iface_offered i" and "\<forall>i \<in> set js. iface_offered i"
  shows "\<forall>i \<in> set (fold f xs js). iface_offered i"
  using assms(2)
proof (induction xs arbitrary: js)
  case (Cons x xs)
  have "\<forall>i \<in> set (f x js). iface_offered i" by (rule assms(1) [OF Cons.prems])
  from Cons.IH [OF this] show ?case by simp
qed simp

lemma write_interfaces_offered:
  assumes "write_interfaces env dev m js = Inr js'" and js: "\<forall>i \<in> set js. iface_offered i"
  shows "\<forall>i \<in> set js'. iface_offered i"
proof -
  let ?ok = "\<lambda>js. \<forall>i \<in> set js. iface_offered i" and ?names = "seen_names m"
  obtain j1 j2 where got: "fold_res (get_interface env dev) (drop_interfaces dev ?names js) ?names = Inr j1"
    and st: "fold_res (status_pass dev m) (fold (lag_pass dev) (fm_lags m) (fold (mode_pass dev m) ?names (fold (kind_pass dev) ?names j1))) ?names = Inr j2"
    and js': "js' = fold (address_pass dev) (im_seen (fm_ips m)) j2"
    using assms(1) by (auto simp: write_interfaces_def Let_def bind_res_eq_Inr)
  have "?ok (drop_interfaces dev ?names js)"
    using js by (auto simp: drop_interfaces_def delete_interfaces_def Let_def iface_offered_def)
  then have "?ok j1"
    by (rule fold_res_invariant [OF got, where I = ?ok]) (auto simp: get_interface_def new_iface_offered split: list.splits)
  then have "?ok (fold (kind_pass dev) ?names j1)"
    by (rule fold_offered [rotated]) (rule passes_offered(1))
  then have "?ok (fold (mode_pass dev m) ?names (fold (kind_pass dev) ?names j1))"
    by (rule fold_offered [rotated]) (rule passes_offered(2))
  then have "?ok (fold (lag_pass dev) (fm_lags m) (fold (mode_pass dev m) ?names (fold (kind_pass dev) ?names j1)))"
    by (rule fold_offered [rotated]) (rule passes_offered(3))
  then have "?ok j2"
  proof (rule fold_res_invariant [OF st, where I = ?ok])
    fix n us vs assume us: "?ok us" and vs: "status_pass dev m us n = Inr vs"
    show "?ok vs"
    proof (cases "first_row (iface_of dev n) us")
      case None
      with us vs show ?thesis by (simp add: status_pass_def)
    next
      case (Some i)
      then obtain i' where i': "set_status m n i = Inr i'" and vs: "vs = on_iface dev n (\<lambda>_. i') us"
        using vs by (auto simp: status_pass_def bind_res_eq_Inr)
      have "iface_offered i'" using set_status_offered [OF i'] us first_row_Some [OF Some] by blast
      then show ?thesis unfolding vs by (intro on_iface_offered [OF us])
    qed
  qed
  then show ?thesis unfolding js'
    by (rule fold_offered [rotated]) (rule passes_offered(4))
qed

lemma stack_role_offered: "offered device_stack_role_choices (stack_role r)"
  by (auto simp: offered_values stack_role_def Let_def)

lemma stack_state_offered: "offered device_stack_state_choices (stack_state r)"
  by (simp add: offered_values stack_state_def Let_def)

definition read_offered :: "member \<Rightarrow> bool" where
  "read_offered m \<longleftrightarrow> offered device_stack_role_choices (mb_role m) \<and> offered device_stack_state_choices (mb_state m)"

lemma on_text_value: "on_text_or_empty f v = Inr x \<Longrightarrow> \<exists>s. x = f s"
  by (auto simp: on_text_or_empty_def str_method_def split: pyval.splits)

lemma entries_offered: "parse_stack_entries es = Inr ms \<Longrightarrow> \<forall>m \<in> set ms. read_offered m"
proof (induction es arbitrary: ms)
  case (Cons e es)
  show ?case
  proof (cases "int_of_text (strip (py_str (py_or (get e ''switch'') (get e ''switch_number''))))")
    case None
    with Cons show ?thesis by simp
  next
    case (Some n)
    then obtain role state ns where "on_text_or_empty stack_role (get e ''role'') = Inr role" "on_text_or_empty stack_state (get e ''state'') = Inr state"
      and ns: "parse_stack_entries es = Inr ns" and ms: "\<exists>m. ms = m # ns \<and> mb_role m = role \<and> mb_state m = state"
      using Cons.prems by (auto simp: bind_res_eq_Inr)
    then have "offered device_stack_role_choices role" "offered device_stack_state_choices state"
      using on_text_value stack_role_offered stack_state_offered by metis+
    then show ?thesis using Cons.IH [OF ns] ms by (auto simp: read_offered_def)
  qed
qed simp

lemma raw_offered: "m \<in> set (parse_stack_raw raw) \<Longrightarrow> read_offered m"
  by (auto simp: parse_stack_raw_def List.map_filter_def stack_line_def read_offered_def stack_role_offered stack_state_offered
      split: option.splits if_splits)

lemma members_offered: "parse_stack_members v raw = Inr ms \<Longrightarrow> \<forall>m \<in> set ms. read_offered m"
  using entries_offered raw_offered by (auto simp: parse_stack_members_def bind_res_eq_Inr split: if_splits)

lemma put_members_offered:
  assumes "\<forall>m \<in> set rs. member_offered m" and "\<forall>w \<in> set ws. read_offered (snd w)"
  shows "\<forall>m \<in> set (put_all put_member ws rs). member_offered m"
  using assms
proof (induction ws arbitrary: rs)
  case (Cons w ws)
  have "\<forall>m \<in> set (put_member (fst w) (snd w) rs). member_offered m"
    using Cons.prems by (auto simp: put_member_def member_offered_def read_offered_def make_member_def change_member_def dest!: in_upsert)
  from Cons.IH [OF this] Cons.prems(2) show ?case by simp
qed simp

lemma stack_tables:
  assumes "apply_stack_members dev r d = Inr (dev2, d2)" and "\<forall>m \<in> set (t_stacks d). member_offered m"
  shows "t_interfaces d2 = t_interfaces d \<and> (\<forall>m \<in> set (t_stacks d2). member_offered m)"
proof -
  obtain ms where ms: "parse_stack_members (cr_parsed r) (cr_raw r) = Inr ms"
    using assms(1) by (auto simp: apply_stack_members_def bind_res_eq_Inr)
  let ?put = "put_all put_member (map (\<lambda>m. ((dev_id dev, mb_switch m), m)) ms) (t_stacks d)"
  let ?rows = "if map mb_switch ms = [] then ?put else filter (\<lambda>x. \<not> (sm_device x = dev_id dev \<and> sm_switch x \<notin> set (map mb_switch ms))) ?put"
  have rows: "set ?rows \<subseteq> set ?put" by auto
  obtain d1 where d1: "d1 = d\<lparr>t_stacks := ?rows\<rparr> \<or> (\<exists>v. save_device (d\<lparr>t_stacks := ?rows\<rparr>) v = Inr d1)"
    and d2: "d2 = refresh_rack (dev_rack dev2) d1"
    using assms(1) unfolding apply_stack_members_def ms bind_res_simps Let_def
    by (cases "dev_stacked dev = (1 < length (map mb_switch ms))") (auto simp only: bind_res_simps if_True if_False bind_res_eq_Inr prod.case sum.inject prod.inject refl not_False_eq_True simp_thms)
  have "t_interfaces d1 = t_interfaces d \<and> t_stacks d1 = ?rows"
    using d1
  proof
    assume "\<exists>v. save_device (d\<lparr>t_stacks := ?rows\<rparr>) v = Inr d1"
    then obtain v where "save_device (d\<lparr>t_stacks := ?rows\<rparr>) v = Inr d1" ..
    note frame = save_device_frame [OF this]
    show ?thesis using arg_cong [OF frame, of t_interfaces] arg_cong [OF frame, of t_stacks] by simp
  qed simp
  moreover have "\<forall>m \<in> set ?put. member_offered m"
    using members_offered [OF ms] by (intro put_members_offered [OF assms(2)]) auto
  then have "\<forall>m \<in> set ?rows. member_offered m" using rows by blast
  ultimately show ?thesis unfolding d2 by (simp add: refresh_rack_def split: option.split)
qed


text \<open>
  C35. The synchronisation writes choices only: when the states, kinds and modes of all interfaces and the roles and states of
  all stack members are offered by their sets of choices, they are so after the interfaces and the stack of a
  device have been written, whatever the device printed.
\<close>

theorem synced_values_offered:
  assumes "\<forall>i \<in> set (t_interfaces d). iface_offered i" and "\<forall>m \<in> set (t_stacks d). member_offered m"
    and "apply_interfaces env dev st ds ip po d = Inr d1" and "apply_stack_members dev r d1 = Inr (dev2, d2)"
  shows "(\<forall>i \<in> set (t_interfaces d2). iface_offered i) \<and> (\<forall>m \<in> set (t_stacks d2). member_offered m)"
proof -
  obtain m js where "write_interfaces env (dev_id dev) m (t_interfaces d) = Inr js" and d1: "d1 = d\<lparr>t_interfaces := js\<rparr>"
    using assms(3) by (auto simp: apply_interfaces_def bind_res_eq_Inr)
  then have "\<forall>i \<in> set js. iface_offered i" using write_interfaces_offered assms(1) by blast
  with stack_tables [OF assms(4)] assms(2) show ?thesis by (simp add: d1)
qed

section \<open>Examples\<close>

lemma choices_sound_witness:
  "\<exists>k. make_class (\<lambda>_. None) ''dcim'' ''InterfaceModeChoices'' interface_mode_choices = Inr k \<and> distinct (choice_values k)"
proof -
  have "interface_mode_choices \<in> set small_sets" by (simp add: small_sets_def)
  from choices_sound [OF this, of "\<lambda>_. None" "''dcim''" "''InterfaceModeChoices''"] show ?thesis by blast
qed

lemma demo_ports_stacked: "is_ok (apply_stack_members (new_device 1 ''sw1'' ''10.0.0.1'' 1 1) demo_stack_output demo_ports_synced)"
  by code_simp

theorem synced_values_offered_witness:
  "\<exists>dev d. apply_stack_members (new_device 1 ''sw1'' ''10.0.0.1'' 1 1) demo_stack_output demo_ports_synced = Inr (dev, d)
     \<and> (\<forall>i \<in> set (t_interfaces d). iface_offered i) \<and> (\<forall>m \<in> set (t_stacks d). member_offered m)"
proof -
  obtain dev d where run: "apply_stack_members (new_device 1 ''sw1'' ''10.0.0.1'' 1 1) demo_stack_output demo_ports_synced = Inr (dev, d)"
    using demo_ports_stacked by (metis is_ok_simps(1) sum.exhaust prod.exhaust)
  have "\<forall>i \<in> set (t_interfaces demo_ports). iface_offered i" "\<forall>m \<in> set (t_stacks demo_ports). member_offered m"
    by (simp_all add: demo_ports_def empty_db_def new_iface_offered)
  from synced_values_offered [OF this demo_run run] run show ?thesis by blast
qed

end
