(* ===== verification/SchedulePages.thy ===== *)
theory SchedulePages
  imports Scheduler
begin

text \<open>
  The definitions of the tasks (\<^verbatim>\<open>automation/models/task_definition.py\<close> and the migrations that fill
  its table), the pages of the tasks and their schedules (\<^verbatim>\<open>automation/views.py\<close>, \<^verbatim>\<open>automation/forms.py\<close>), the
  interface for programs (\<^verbatim>\<open>api/v1/automation\<close>) and the command that creates the schedules.
  A form is the values that its fields have read; the names of the fields with errors stand for the messages.
\<close>

section \<open>Definitions of tasks\<close>

record task_def =
  td_id :: uid
  td_name :: string
  td_task :: string
  td_category :: string
  td_description :: string
  td_managed :: string
  td_schedulable :: bool

definition put_task :: "(string \<Rightarrow> uid) \<Rightarrow> string \<times> string \<times> string \<times> string \<times> string \<times> bool \<Rightarrow> task_def list \<Rightarrow> task_def list" where
  "put_task ids t ts =
     (case t of (name, task, category, description, managed, schedulable) \<Rightarrow>
        upsert (\<lambda>x. td_task x = task)
          \<lparr>td_id = ids task, td_name = name, td_task = task, td_category = category, td_description = description,
            td_managed = managed, td_schedulable = schedulable\<rparr>
          (\<lambda>x. x\<lparr>td_name := name, td_category := category, td_description := description,
            td_managed := managed, td_schedulable := schedulable\<rparr>) ts)"

definition seeded_tasks :: "(string \<times> string \<times> string \<times> string \<times> string \<times> bool) list" where
  "seeded_tasks =
    [(''Reachability Poller'', ''automation.tasks.run_scheduled_reachability'', ''automation'',
       ''Periodic reachability checks for tagged devices.'', ''system'', True),
     (''Nightly Configuration Backup'', ''automation.tasks.run_scheduled_config_backup'', ''automation'',
       ''Nightly configuration backups for tagged devices.'', ''system'', True),
     (''Reachability History Cleanup'', ''automation.tasks.cleanup_reachability_history'', ''automation'',
       ''Cleanup old reachability job runs.'', ''ui'', True),
     (''Topology Neighbor Collection'', ''automation.tasks.topology_collector.collect_topology_neighbors'', ''automation'',
       ''Collect CDP/LLDP neighbors from eligible devices.'', ''ui'', True),
     (''Topology Neighbor Cleanup'', ''automation.tasks.topology_collector.cleanup_topology_neighbors'', ''automation'',
       ''Cleanup stale topology neighbor records.'', ''ui'', True),
     (''On-demand Reachability Job'', ''automation.tasks.run_reachability_job'', ''automation'',
       ''Runs a reachability job for a specific run id.'', ''workflow'', False),
     (''On-demand Configuration Backup'', ''automation.tasks.run_backup_job'', ''automation'',
       ''Runs a configuration backup for a specific run id.'', ''workflow'', False),
     (''Network Discovery Scan'', ''network.tasks.run_discovery_scan_job'', ''network'',
       ''Discovery scan job triggered from the discovery workflow.'', ''workflow'', False),
     (''Discovery Auto-Assign'', ''network.tasks.run_auto_assign_job'', ''network'',
       ''Auto-assign candidates triggered from the discovery workflow.'', ''workflow'', False),
     (''Celery Debug Task'', ''zas.celery.debug_task'', ''system'',
       ''Celery debug task used for diagnostics.'', ''system'', False)]"

definition seed_task_definitions :: "(string \<Rightarrow> uid) \<Rightarrow> task_def list \<Rightarrow> task_def list" where
  "seed_task_definitions ids ts = fold (put_task ids) seeded_tasks ts"

definition seed_scheduled_sync_task :: "(string \<Rightarrow> uid) \<Rightarrow> task_def list \<Rightarrow> task_def list" where
  "seed_scheduled_sync_task ids =
     put_task ids (''Scheduled Device Sync'', ''network.tasks.run_scheduled_sync_job'', ''network'',
       ''Automated device sync for active devices excluding tag '' @ [CHR 0x27] @ ''no_sync'' @ [CHR 0x27] @ ''.'', ''ui'', True)"

text \<open>The old definitions go, unless they are the ones just written.\<close>

definition drop_task :: "string \<Rightarrow> task_def option \<Rightarrow> task_def list \<Rightarrow> task_def list" where
  "drop_task task kept = filter (\<lambda>x. \<not> (td_task x = task \<and> Some (td_id x) \<noteq> map_option td_id kept))"

definition update_discovery_task_definitions :: "(string \<Rightarrow> uid) \<Rightarrow> task_def list \<Rightarrow> task_def list" where
  "update_discovery_task_definitions ids ts =
     (let scan = ''network.tasks.run_scheduled_discovery_scan_job''; assign = ''network.tasks.run_scheduled_auto_assign_job'';
          ts = put_task ids (''Network Discovery Scan'', scan, ''network'',
            ''Scheduled discovery scan using enabled discovery ranges per site.'', ''ui'', True) ts;
          ts = put_task ids (''Discovery Auto-Assign'', assign, ''network'',
            ''Scheduled auto-assign for unclassified discovery candidates.'', ''ui'', True) ts;
          ts = drop_task ''network.tasks.run_discovery_scan_job'' (first_row (\<lambda>x. td_task x = scan) ts) ts
      in drop_task ''network.tasks.run_auto_assign_job'' (first_row (\<lambda>x. td_task x = assign) ts) ts)"

definition migrated_tasks :: "(string \<Rightarrow> uid) \<Rightarrow> task_def list" where
  "migrated_tasks ids = update_discovery_task_definitions ids (seed_scheduled_sync_task ids (seed_task_definitions ids []))"

section \<open>The list of tasks\<close>

definition override_tasks :: "string list" where
  "override_tasks = [backup_task, reachability_task]"

record task_row =
  tw_task :: task_def
  tw_schedule :: "schedule option"
  tw_registered :: bool

record task_page =
  tp_rows :: "task_row list"
  tp_scheduled :: nat
  tp_enabled :: nat
  tp_manual :: nat
  tp_missing :: nat

definition list_task :: "(string \<Rightarrow> schedule option) \<Rightarrow> (string \<Rightarrow> bool) \<Rightarrow> task_def \<Rightarrow> task_page \<Rightarrow> task_page" where
  "list_task schedules registered t p =
     (let s = schedules (td_task t);
          p = (case s of
            None \<Rightarrow> p
          | Some s \<Rightarrow> (let p = p\<lparr>tp_scheduled := Suc (tp_scheduled p)\<rparr>
              in if sd_enabled s then p\<lparr>tp_enabled := Suc (tp_enabled p)\<rparr> else p));
          p = (if td_schedulable t then p else p\<lparr>tp_manual := Suc (tp_manual p)\<rparr>);
          p = (if registered (td_task t) then p else p\<lparr>tp_missing := Suc (tp_missing p)\<rparr>)
      in p\<lparr>tp_rows := tp_rows p @ [\<lparr>tw_task = t, tw_schedule = s, tw_registered = registered (td_task t)\<rparr>]\<rparr>)"

text \<open>
  The tasks come in the order of their categories and names, the schedules in the order of their names; of the
  schedules of one task the list shows the last one.
\<close>

definition schedule_map :: "schedule list \<Rightarrow> task_def list \<Rightarrow> string \<Rightarrow> schedule option" where
  "schedule_map ss ts = map_of (fold (\<lambda>s. dict_put (sd_task s) s) (filter (\<lambda>s. sd_task s \<in> td_task ` set ts) ss) [])"

definition task_list :: "(schedule list \<Rightarrow> schedule list) \<Rightarrow> (string \<Rightarrow> bool) \<Rightarrow> task_def list \<Rightarrow> beat \<Rightarrow> task_page" where
  "task_list by_name registered ts b =
     fold (list_task (schedule_map (by_name (bt_schedules b)) ts) registered) ts
       \<lparr>tp_rows = [], tp_scheduled = 0, tp_enabled = 0, tp_manual = 0, tp_missing = 0\<rparr>"

section \<open>The form of a schedule\<close>

record schedule_form =
  sf_enabled :: bool
  sf_type :: string
  sf_interval :: "int option"
  sf_minute :: string
  sf_hour :: string
  sf_weekday :: string
  sf_monthday :: string
  sf_month :: string

definition cron_fields :: "(string \<times> (schedule_form \<Rightarrow> string)) list" where
  "cron_fields = [(''minute'', sf_minute), (''hour'', sf_hour), (''day_of_week'', sf_weekday), (''day_of_month'', sf_monthday), (''month_of_year'', sf_month)]"

text \<open>The fields that the model itself refuses: a choice, a small positive number, texts of at most 64 characters.\<close>

definition field_errors :: "schedule_form \<Rightarrow> string list" where
  "field_errors f =
     (if sf_type f \<in> {''interval'', ''crontab''} then [] else [''schedule_type''])
     @ (case sf_interval f of None \<Rightarrow> [] | Some n \<Rightarrow> if 0 \<le> n \<and> n \<le> 2147483647 then [] else [''interval_seconds''])
     @ map fst (filter (\<lambda>(_, g). strip (g f) = [] \<or> 64 < length (strip (g f))) cron_fields)"

definition form_errors :: "schedule_form \<Rightarrow> string list" where
  "form_errors f =
     (let es = field_errors f;
          kind = (if ''schedule_type'' \<in> set es then None else Some (sf_type f));
          seconds = (if ''interval_seconds'' \<in> set es then None else sf_interval f)
      in es @ (if kind = Some ''interval'' \<and> (case seconds of None \<Rightarrow> True | Some n \<Rightarrow> n \<le> 0) then [''interval_seconds''] else []))"

definition fill_schedule :: "schedule_form \<Rightarrow> schedule \<Rightarrow> schedule" where
  "fill_schedule f s = s\<lparr>sd_enabled := sf_enabled f, sd_type := sf_type f, sd_interval := sf_interval f,
     sd_minute := strip (sf_minute f), sd_hour := strip (sf_hour f), sd_weekday := strip (sf_weekday f),
     sd_monthday := strip (sf_monthday f), sd_month := strip (sf_month f)\<rparr>"

definition form_of :: "schedule \<Rightarrow> schedule_form" where
  "form_of s = \<lparr>sf_enabled = sd_enabled s, sf_type = sd_type s, sf_interval = sd_interval s, sf_minute = sd_minute s,
     sf_hour = sd_hour s, sf_weekday = sd_weekday s, sf_monthday = sd_monthday s, sf_month = sd_month s\<rparr>"

section \<open>The page of a schedule\<close>

datatype page_answer = Not_found | To_list string | Shown schedule_form "string list" "string option"

definition get_schedule :: "(schedule list \<Rightarrow> schedule list) \<Rightarrow> task_def \<Rightarrow> beat \<Rightarrow> schedule option" where
  "get_schedule by_name t b =
     (case first_row (\<lambda>s. sd_task s = td_task t \<and> sd_name s = td_name t) (by_name (bt_schedules b)) of
        None \<Rightarrow> first_row (\<lambda>s. sd_task s = td_task t) (by_name (bt_schedules b))
      | found \<Rightarrow> found)"

definition schedule_refused :: "task_def \<Rightarrow> string option" where
  "schedule_refused t =
     (if \<not> td_schedulable t then Some ''This task is triggered by workflows and cannot be scheduled here.''
      else if td_managed t \<noteq> ''ui'' \<and> td_task t \<notin> set override_tasks then Some ''This task schedule is managed elsewhere.''
      else None)"

definition initial_form :: "schedule option \<Rightarrow> schedule_form" where
  "initial_form s =
     (case s of
        Some s \<Rightarrow> form_of s
      | None \<Rightarrow> \<lparr>sf_enabled = True, sf_type = ''interval'', sf_interval = Some 3600, sf_minute = ''*'', sf_hour = ''*'',
          sf_weekday = ''*'', sf_monthday = ''*'', sf_month = ''*''\<rparr>)"

definition schedule_get :: "(schedule list \<Rightarrow> schedule list) \<Rightarrow> task_def list \<Rightarrow> uid \<Rightarrow> beat \<Rightarrow> page_answer" where
  "schedule_get by_name ts i b =
     (case first_row (\<lambda>t. td_id t = i) ts of
        None \<Rightarrow> Not_found
      | Some t \<Rightarrow> (case schedule_refused t of
            Some m \<Rightarrow> To_list m
          | None \<Rightarrow> Shown (initial_form (get_schedule by_name t b)) [] None))"

text \<open>The schedule is stored before it is synchronised, so that it stays stored when the synchronisation raises.\<close>

definition schedule_post ::
    "(schedule list \<Rightarrow> schedule list) \<Rightarrow> beat_env \<Rightarrow> task_def list \<Rightarrow> uid \<Rightarrow> schedule_form \<Rightarrow> beat \<Rightarrow> (exn + page_answer) \<times> beat" where
  "schedule_post by_name env ts i f b =
     (case first_row (\<lambda>t. td_id t = i) ts of
        None \<Rightarrow> (Inr Not_found, b)
      | Some t \<Rightarrow> (case schedule_refused t of
            Some m \<Rightarrow> (Inr (To_list m), b)
          | None \<Rightarrow>
              let s = (case get_schedule by_name t b of None \<Rightarrow> new_schedule env [] [] | Some s \<Rightarrow> s)
              in if form_errors f = []
                 then (let s = (fill_schedule f s)\<lparr>sd_name := td_name t, sd_task := td_task t\<rparr>
                   in bind_in b (save_schedule s b) (\<lambda>b.
                        case sync_schedule env s b of
                          (Inl (ValueError e), b) \<Rightarrow> (Inr (Shown f [] (Some e)), b)
                        | (Inl e, b) \<Rightarrow> (Inl e, b)
                        | (Inr _, b) \<Rightarrow> (Inr (To_list ''Schedule updated.''), b)))
                 else (Inr (Shown f (form_errors f) None), b)))"

end
