(* ===== verification/ScheduleApi.thy ===== *)
theory ScheduleApi
  imports SchedulePages
begin

text \<open>
  The interface for programs to the schedules and to the health of the workers
  (\<^verbatim>\<open>api/v1/automation/serializers.py\<close>, \<^verbatim>\<open>api/v1/automation/views.py\<close>), and the command that creates the
  schedules of the program (\<^verbatim>\<open>bootstrap_schedules\<close>). A request is the values that the framework has read from
  its fields, \<open>None\<close> where it leaves a field out.
\<close>

section \<open>Requests\<close>

record schedule_attrs =
  at_name :: "string option"
  at_task :: "string option"
  at_enabled :: "bool option"
  at_type :: "string option"
  at_interval :: "int option option"
  at_minute :: "string option"
  at_hour :: "string option"
  at_weekday :: "string option"
  at_monthday :: "string option"
  at_month :: "string option"

definition given :: "'a option \<Rightarrow> 'a \<Rightarrow> 'a" where
  "given a other = (case a of None \<Rightarrow> other | Some v \<Rightarrow> v)"

definition validate_task_name :: "string list \<Rightarrow> string \<Rightarrow> exn + string" where
  "validate_task_name tasks v =
     (if v \<in> set tasks then Inr v
      else Inl (ValidationError (''Task '' @ [CHR 0x27] @ v @ [CHR 0x27] @ '' is not registered in Celery. Available example: '' @ py_repr_str (hd tasks))))"

text \<open>
  The check of the framework that a name and a task are unique together; a row that is changed stands for what the
  request leaves out.
\<close>

definition names_taken :: "schedule option \<Rightarrow> schedule_attrs \<Rightarrow> schedule list \<Rightarrow> bool" where
  "names_taken inst a ss \<longleftrightarrow>
     (let name = (case inst of None \<Rightarrow> at_name a | Some s \<Rightarrow> Some (given (at_name a) (sd_name s)));
          task = (case inst of None \<Rightarrow> at_task a | Some s \<Rightarrow> Some (given (at_task a) (sd_task s)))
      in list_ex (\<lambda>x. Some (sd_id x) \<noteq> map_option sd_id inst \<and> Some (sd_name x) = name \<and> Some (sd_task x) = task) ss)"

definition validate_schedule :: "schedule option \<Rightarrow> schedule_attrs \<Rightarrow> exn + schedule_attrs" where
  "validate_schedule inst a =
     (let kind = given (at_type a) (case inst of None \<Rightarrow> ''interval'' | Some s \<Rightarrow> sd_type s);
          seconds = given (at_interval a) (case inst of None \<Rightarrow> None | Some s \<Rightarrow> sd_interval s)
      in if kind = ''interval'' \<and> (case seconds of None \<Rightarrow> True | Some n \<Rightarrow> n \<le> 0)
         then Inl (ValidationError ''interval_seconds: Must be a positive integer for interval schedules.'') else Inr a)"

definition checked_attrs :: "string list \<Rightarrow> schedule option \<Rightarrow> schedule_attrs \<Rightarrow> schedule list \<Rightarrow> exn + schedule_attrs" where
  "checked_attrs tasks inst a ss =
     bind_res (case at_task a of None \<Rightarrow> Inr [] | Some v \<Rightarrow> validate_task_name tasks v) (\<lambda>_.
       if names_taken inst a ss then Inl (ValidationError ''The fields name, task_name must make a unique set.'')
       else validate_schedule inst a)"

definition apply_attrs :: "schedule_attrs \<Rightarrow> schedule \<Rightarrow> schedule" where
  "apply_attrs a s = s\<lparr>sd_name := given (at_name a) (sd_name s), sd_task := given (at_task a) (sd_task s),
     sd_enabled := given (at_enabled a) (sd_enabled s), sd_type := given (at_type a) (sd_type s),
     sd_interval := given (at_interval a) (sd_interval s), sd_minute := given (at_minute a) (sd_minute s),
     sd_hour := given (at_hour a) (sd_hour s), sd_weekday := given (at_weekday a) (sd_weekday s),
     sd_monthday := given (at_monthday a) (sd_monthday s), sd_month := given (at_month a) (sd_month s)\<rparr>"

section \<open>Schedules\<close>

text \<open>The status of the answer and the tables. An error of a check is an answer of its own.\<close>

definition refused :: "exn + beat \<Rightarrow> nat \<Rightarrow> beat \<Rightarrow> exn + (nat \<times> beat)" where
  "refused r status b =
     (case r of Inr b' \<Rightarrow> Inr (status, b') | Inl (ValidationError _) \<Rightarrow> Inr (400, b) | Inl e \<Rightarrow> Inl e)"

definition api_create :: "string list \<Rightarrow> beat_env \<Rightarrow> schedule_attrs \<Rightarrow> beat \<Rightarrow> exn + (nat \<times> beat)" where
  "api_create tasks env a b =
     (if at_name a = None \<or> at_task a = None then Inr (400, b)
      else refused (bind_res (checked_attrs tasks None a (bt_schedules b)) (\<lambda>a.
        save_schedule (apply_attrs a (new_schedule env [] [])) b)) 201 b)"

definition api_update :: "string list \<Rightarrow> bool \<Rightarrow> uid \<Rightarrow> schedule_attrs \<Rightarrow> beat \<Rightarrow> exn + (nat \<times> beat)" where
  "api_update tasks partial i a b =
     (case first_row (\<lambda>s. sd_id s = i) (bt_schedules b) of
        None \<Rightarrow> Inr (404, b)
      | Some s \<Rightarrow>
          if \<not> partial \<and> (at_name a = None \<or> at_task a = None) then Inr (400, b)
          else refused (bind_res (checked_attrs tasks (Some s) a (bt_schedules b)) (\<lambda>a. save_schedule (apply_attrs a s) b)) 200 b)"

definition api_delete :: "uid \<Rightarrow> beat \<Rightarrow> nat \<times> beat" where
  "api_delete i b =
     (case first_row (\<lambda>s. sd_id s = i) (bt_schedules b) of
        None \<Rightarrow> (404, b)
      | Some _ \<Rightarrow> (204, b\<lparr>bt_schedules := filter (\<lambda>s. sd_id s \<noteq> i) (bt_schedules b)\<rparr>))"

datatype run_answer = Run_not_found | Run_error string | Run_sent string string

definition run_now :: "(string \<Rightarrow> string + string) \<Rightarrow> uid \<Rightarrow> beat \<Rightarrow> nat \<times> run_answer" where
  "run_now send_task i b =
     (case first_row (\<lambda>s. sd_id s = i) (bt_schedules b) of
        None \<Rightarrow> (404, Run_not_found)
      | Some s \<Rightarrow> (case send_task (sd_task s) of
            Inl e \<Rightarrow> (500, Run_error e)
          | Inr job \<Rightarrow> (202, Run_sent (sd_task s) job)))"

section \<open>Health of the workers\<close>

record health =
  hl_broker :: bool
  hl_workers :: "string list"
  hl_tasks :: "string list"
  hl_periodic :: "(string \<times> string \<times> bool) list"
  hl_error :: "string option"

definition celery_health :: "(string list \<Rightarrow> string list) \<Rightarrow> (periodic list \<Rightarrow> periodic list) \<Rightarrow> string list
    \<Rightarrow> string + string list \<Rightarrow> beat \<Rightarrow> nat \<times> health" where
  "celery_health by_text by_name tasks ping b =
     (let info = \<lparr>hl_broker = False, hl_workers = [], hl_tasks = by_text (filter (\<lambda>t. startswith t ''automation.'') tasks),
            hl_periodic = map (\<lambda>p. (pt_name p, pt_task p, pt_enabled p)) (by_name (bt_periodic b)), hl_error = None\<rparr>;
          info = (case ping of
            Inl e \<Rightarrow> info\<lparr>hl_error := Some e\<rparr>
          | Inr ws \<Rightarrow> info\<lparr>hl_workers := ws, hl_broker := ws \<noteq> []\<rparr>)
      in (if hl_broker info then 200 else 503, info))"

section \<open>The schedules of the program\<close>

definition bootstrap_schedules :: "beat_env \<Rightarrow> beat_env \<Rightarrow> beat_env \<Rightarrow> int \<Rightarrow> beat \<Rightarrow> string list \<times> (exn + unit) \<times> beat" where
  "bootstrap_schedules env1 env2 env3 minutes b =
     (case sync_reachability env1 minutes b of
        (Inl e, b) \<Rightarrow> ([''Bootstrapping automation schedules...''], Inl e, b)
      | (Inr _, b) \<Rightarrow> (case sync_config_backup env2 b of
          (Inl e, b) \<Rightarrow> ([''Bootstrapping automation schedules...'', ''Reachability schedule synchronized''], Inl e, b)
        | (Inr _, b) \<Rightarrow> (case sync_cleanup env3 b of
            (Inl e, b) \<Rightarrow> ([''Bootstrapping automation schedules...'', ''Reachability schedule synchronized'',
              ''Configuration backup schedule synchronized''], Inl e, b)
          | (Inr _, b) \<Rightarrow> ([''Bootstrapping automation schedules...'', ''Reachability schedule synchronized'',
              ''Configuration backup schedule synchronized'', ''Reachability cleanup schedule synchronized'',
              ''All automation schedules are up to date.''], Inr (), b))))"

end
