(* ===== verification/ScheduleProps.thy ===== *)
theory ScheduleProps
  imports ScheduleApi
begin

text \<open>
  What the pages and the interface of the schedules keep: an interval schedule always has a positive interval, an accepted form is run
  by a periodic task, and the interface for programs never touches the tasks.
\<close>

section \<open>Sound timings\<close>

definition timed :: "schedule \<Rightarrow> bool" where
  "timed s \<longleftrightarrow> (sd_type s = ''interval'' \<longrightarrow> (\<exists>n. sd_interval s = Some n \<and> 0 < n))"

lemma timed_sync: "timed s \<Longrightarrow> sync_schedule env s b \<noteq> (Inl (ValueError e), b')"
  by (auto simp: timed_def dest: sync_schedule_raises(2))

lemma form_timed: "form_errors f = [] \<Longrightarrow> timed (fill_schedule f s)"
  by (auto simp: form_errors_def Let_def timed_def fill_schedule_def split: if_splits option.splits)

lemma save_schedule_Inr:
  "save_schedule s b = Inr b' \<longleftrightarrow> (\<forall>q \<in> set (bt_schedules b). sd_id q \<noteq> sd_id s \<longrightarrow> \<not> (sd_name q = sd_name s \<and> sd_task q = sd_task s))
     \<and> b' = b\<lparr>bt_schedules := save_row sd_id s (bt_schedules b)\<rparr>"
  by (auto simp: save_schedule_def)

lemma synced_rows:
  assumes "linked_or_kept s i b b'" and "x \<in> set (bt_schedules b')"
  shows "\<exists>y \<in> set (bt_schedules b). x = y \<or> x = y\<lparr>sd_periodic := Some i\<rparr> \<and> sd_id y = sd_id s"
  using assms unfolding linked_or_kept_def link_schedule_def by (force simp: in_update_where split: if_splits)

lemma synced_row:
  assumes "linked_or_kept s i b b'" and "s \<in> set (bt_schedules b)"
  shows "s\<lparr>sd_periodic := Some i\<rparr> \<in> set (bt_schedules b')"
  using assms
proof (unfold linked_or_kept_def, elim disjE conjE)
  assume "bt_schedules b' = bt_schedules b" "sd_periodic s = Some i"
  then have "s\<lparr>sd_periodic := Some i\<rparr> = s" by (cases s) simp
  with assms(2) \<open>bt_schedules b' = bt_schedules b\<close> show ?thesis by simp
next
  assume "bt_schedules b' = bt_schedules (link_schedule (sd_id s) (Some i) b)"
  with assms(2) show ?thesis by (force simp: link_schedule_def in_update_where)
qed

lemma synced_others:
  assumes "linked_or_kept s i b b'"
  shows "{x \<in> set (bt_schedules b'). sd_id x \<noteq> sd_id s} = {x \<in> set (bt_schedules b). sd_id x \<noteq> sd_id s}"
  using assms by (auto simp: linked_or_kept_def link_schedule_def in_update_where)

text \<open>A synchronisation, whatever comes of it, changes no column of a schedule but the link.\<close>

lemma sync_schedule_links:
  assumes "sync_schedule env s b = (r, b')" and "x \<in> set (bt_schedules b')"
  shows "\<exists>y p. y \<in> set (bt_schedules b) \<and> x = y\<lparr>sd_periodic := p\<rparr>"
proof (cases r)
  case (Inl e)
  then have "x \<in> set (bt_schedules b)" using sync_schedule_raises(1) assms by metis
  then show ?thesis by (intro exI [of _ x] exI [of _ "sd_periodic x"]) simp
next
  case (Inr i)
  with assms(1) obtain t c where timing: "ensure_timing env s b = Inr (t, c)"
    by (auto simp: sync_schedule_def bind_in_Inr)
  note ok = ensure_timing_ok [OF timing]
  from assms Inr timing ok have "x \<in> set (bt_schedules b) \<or> (\<exists>y \<in> set (bt_schedules b). x = y\<lparr>sd_periodic := Some i\<rparr>)"
    by (auto simp: sync_schedule_def bind_in_Inr Let_def save_link_Inr save_periodic_def link_schedule_def in_update_where
        split: option.splits if_splits)
  then show ?thesis
  proof
    assume "x \<in> set (bt_schedules b)"
    then show ?thesis by (intro exI [of _ x] exI [of _ "sd_periodic x"]) simp
  qed blast
qed

text \<open>So every property of the rows that the link does not touch is kept.\<close>

lemma sync_keeps:
  assumes "sync_schedule env s b = (r, b')" and "\<forall>x \<in> set (bt_schedules b). P x" and "\<And>y p. P y \<Longrightarrow> P (y\<lparr>sd_periodic := p\<rparr>)"
  shows "\<forall>x \<in> set (bt_schedules b'). P x"
  using sync_schedule_links [OF assms(1)] assms(2,3) by metis

lemma save_row_among: "x \<in> set (save_row ident r rs) \<Longrightarrow> x = r \<or> x \<in> set rs"
  by (induction rs) (auto split: if_splits)

lemma save_keeps:
  "save_schedule s b = Inr b' \<Longrightarrow> P s \<Longrightarrow> \<forall>x \<in> set (bt_schedules b). P x \<Longrightarrow> \<forall>x \<in> set (bt_schedules b'). P x"
  by (auto simp: save_schedule_Inr dest: save_row_among)

lemma checked_timed:
  assumes "checked_attrs tasks inst a ss = Inr a'" and "case inst of None \<Rightarrow> s = new_schedule env [] [] | Some s' \<Rightarrow> s = s'"
  shows "timed (apply_attrs a' s)"
proof -
  have v: "validate_schedule inst a = Inr a'" using assms(1) by (auto simp: checked_attrs_def bind_res_eq_Inr split: if_splits)
  then have a: "a' = a" by (auto simp: validate_schedule_def Let_def split: if_splits)
  show ?thesis using v assms(2) unfolding a
    by (auto simp: validate_schedule_def Let_def timed_def apply_attrs_def new_schedule_def split: if_splits option.splits)
qed

lemma get_or_create_among: "get_or_create p new rs = Inr (r, c, rs') \<Longrightarrow> (r = new \<or> r \<in> set rs \<and> p r) \<and> (rs' = rs \<or> rs' = rs @ [new])"
  by (auto simp: get_or_create_def split: list.splits dest!: arg_cong [where f = set])

text \<open>
  The requests of the pages and of programs, and the synchronisations of the settings and of the command, with the
  minutes \<open>M\<close> that the settings hold one after the other: the form of the settings accepts every number but a
  negative one. A step ends as it does in the code, with an exception or without.
\<close>

inductive schedule_step :: "int set \<Rightarrow> beat \<Rightarrow> beat \<Rightarrow> bool" for M :: "int set" where
  page: "schedule_post by_name env ts i f b = (r, b') \<Longrightarrow> set (by_name (bt_schedules b)) = set (bt_schedules b) \<Longrightarrow> schedule_step M b b'"
| create: "api_create tasks env a b = Inr (status, b') \<Longrightarrow> schedule_step M b b'"
| update: "api_update tasks partial i a b = Inr (status, b') \<Longrightarrow> schedule_step M b b'"
| delete: "schedule_step M b (snd (api_delete i b))"
| settings: "minutes \<in> M \<Longrightarrow> 0 \<le> minutes \<Longrightarrow> sync_reachability env minutes b = (r, b') \<Longrightarrow> schedule_step M b b'"
| backup: "sync_config_backup env b = (r, b') \<Longrightarrow> schedule_step M b b'"
| cleanup: "sync_cleanup env b = (r, b') \<Longrightarrow> schedule_step M b b'"
| remove: "schedule_step M b (remove_schedule s b)"

text \<open>The only schedule without a positive interval: the one of the settings, after they have held zero minutes.\<close>

definition zero_poller :: "schedule \<Rightarrow> bool" where
  "zero_poller s \<longleftrightarrow> sd_task s = reachability_task \<and> sd_type s = ''interval'' \<and> sd_interval s = Some 0"

definition timed_in :: "int set \<Rightarrow> schedule \<Rightarrow> bool" where
  "timed_in M s \<longleftrightarrow> timed s \<or> 0 \<in> M \<and> zero_poller s"

lemma timed_in_timed [intro]: "timed s \<Longrightarrow> timed_in M s"
  by (simp add: timed_in_def)

lemma timed_in_link: "timed_in M (s\<lparr>sd_periodic := p\<rparr>) = timed_in M s"
  by (simp add: timed_in_def timed_def zero_poller_def)

lemma refused_Inr: "refused r status b = Inr (x, b') \<Longrightarrow> b' = b \<or> r = Inr b'"
  by (auto simp: refused_def split: sum.splits exn.splits)

lemma attrs_timed:
  assumes "bind_res (checked_attrs tasks inst a ss) (\<lambda>a. save_schedule (apply_attrs a s) b) = Inr b'"
    and "case inst of None \<Rightarrow> s = new_schedule env [] [] | Some s' \<Rightarrow> s = s'" and "\<forall>x \<in> set (bt_schedules b). timed_in M x"
  shows "\<forall>x \<in> set (bt_schedules b'). timed_in M x"
proof -
  obtain a' where "checked_attrs tasks inst a ss = Inr a'" "save_schedule (apply_attrs a' s) b = Inr b'"
    using assms(1) by (auto simp: bind_res_eq_Inr)
  then show ?thesis using save_keeps [where P = "timed_in M"] checked_timed assms(2,3) by blast
qed

text \<open>A row that is found or made, saved after a change and synchronised.\<close>

lemma stored_timed:
  assumes "bind_in b (get_or_create p new (bt_schedules b)) (\<lambda>(s, _, ss). bind_in (b\<lparr>bt_schedules := ss\<rparr>) (save s (b\<lparr>bt_schedules := ss\<rparr>))
        (\<lambda>b. sync_schedule env (change s) b)) = (r, b')"
    and "\<And>s c c'. save s c = Inr c' \<Longrightarrow> c' = c \<or> save_schedule (change s) c = Inr c'"
    and "timed_in M new" and "\<And>s. timed_in M s \<Longrightarrow> (s = new \<or> p s) \<Longrightarrow> timed_in M (change s)" and "\<forall>x \<in> set (bt_schedules b). timed_in M x"
  shows "\<forall>x \<in> set (bt_schedules b'). timed_in M x"
proof (cases "get_or_create p new (bt_schedules b)")
  case (Inl e)
  with assms(1,5) show ?thesis by simp
next
  case (Inr t)
  obtain s c ss where "t = (s, c, ss)" by (cases t)
  with Inr have g: "get_or_create p new (bt_schedules b) = Inr (s, c, ss)" by simp
  let ?b = "b\<lparr>bt_schedules := ss\<rparr>"
  have rows: "\<forall>x \<in> set (bt_schedules ?b). timed_in M x" "timed_in M s" "s = new \<or> p s"
    using get_or_create_among [OF g] assms(3,5) by auto
  have step: "bind_in ?b (save s ?b) (\<lambda>b. sync_schedule env (change s) b) = (r, b')" using assms(1) g by simp
  show ?thesis
  proof (cases "save s ?b")
    case (Inl e)
    with step rows(1) show ?thesis by auto
  next
    case (Inr b1)
    have changed: "timed_in M (change s)" using assms(4) rows by blast
    from assms(2) [OF Inr] have "\<forall>x \<in> set (bt_schedules b1). timed_in M x"
    proof
      assume "save_schedule (change s) ?b = Inr b1"
      from save_keeps [OF this, of "timed_in M"] changed rows(1) show ?thesis by blast
    qed (use rows(1) in blast)
    from sync_keeps [OF _ this] step Inr timed_in_link show ?thesis by simp
  qed
qed

text \<open>The page of a schedule: it changes nothing, or stores the schedule and synchronises it.\<close>

lemma schedule_post_cases:
  assumes "schedule_post by_name env ts i f b = (r, b')"
  obtains (kept) ans where "r = Inr ans" "b' = b" "ans = Not_found \<or> (\<exists>t m. schedule_refused t = Some m \<and> ans = To_list m) \<or> (ans = Shown f (form_errors f) None \<and> form_errors f \<noteq> [])"
    | (doubled) e where "r = Inl (IntegrityError e)" "b' = b"
    | (stored) t s b1 q where "first_row (\<lambda>t. td_id t = i) ts = Some t" "schedule_refused t = None" "form_errors f = []"
        "s = (fill_schedule f (case get_schedule by_name t b of None \<Rightarrow> new_schedule env [] [] | Some s \<Rightarrow> s))\<lparr>sd_name := td_name t, sd_task := td_task t\<rparr>"
        "save_schedule s b = Inr b1" "sync_schedule env s b1 = (q, b')"
        "r = (case q of Inl e \<Rightarrow> Inl e | Inr _ \<Rightarrow> Inr (To_list ''Schedule updated.''))"
proof (cases "first_row (\<lambda>t. td_id t = i) ts")
  case None
  with assms show thesis by (intro kept [of Not_found]) (auto simp: schedule_post_def)
next
  case t: (Some t)
  show thesis
  proof (cases "schedule_refused t")
    case (Some m)
    with assms t show thesis by (intro kept [of "To_list m"]) (auto simp: schedule_post_def)
  next
    case None
    let ?s = "(fill_schedule f (case get_schedule by_name t b of None \<Rightarrow> new_schedule env [] [] | Some s \<Rightarrow> s))\<lparr>sd_name := td_name t, sd_task := td_task t\<rparr>"
    show thesis
    proof (cases "form_errors f = []")
      case False
      with assms t None show thesis by (intro kept [of "Shown f (form_errors f) None"]) (auto simp: schedule_post_def)
    next
      case True
      have timed: "timed ?s" using form_timed [OF True] by (simp add: timed_def)
      show thesis
      proof (cases "save_schedule ?s b")
        case (Inl e)
        then obtain m where "e = IntegrityError m" by (auto simp: save_schedule_def split: if_splits)
        with Inl assms t None True show thesis by (intro doubled [of m]) (auto simp: schedule_post_def Let_def)
      next
        case (Inr b1)
        obtain q b2 where q: "sync_schedule env ?s b1 = (q, b2)" by fastforce
        have "r = (case q of Inl e \<Rightarrow> Inl e | Inr _ \<Rightarrow> Inr (To_list ''Schedule updated.'')) \<and> b' = b2"
          using assms t None True Inr q timed_sync [OF timed] by (auto simp: schedule_post_def Let_def split: sum.splits exn.splits)
        with stored [OF t None True refl Inr] q show thesis by blast
      qed
    qed
  qed
qed

lemma step_timed:
  assumes "schedule_step M b b'" and "\<forall>x \<in> set (bt_schedules b). timed_in M x"
  shows "\<forall>x \<in> set (bt_schedules b'). timed_in M x"
  using assms(1)
proof cases
  case (page by_name env ts i f r)
  from page(1) show ?thesis
  proof (cases rule: schedule_post_cases)
    case (stored t s b1 q)
    have "timed s" using form_timed [OF stored(3)] by (simp add: stored(4) timed_def)
    with save_keeps [OF stored(5), of "timed_in M"] assms(2) have "\<forall>x \<in> set (bt_schedules b1). timed_in M x" by blast
    from sync_keeps [OF stored(6) this] timed_in_link show ?thesis by simp
  qed (use assms(2) in simp_all)
next
  case (create tasks env a status)
  then have "b' = b \<or> bind_res (checked_attrs tasks None a (bt_schedules b)) (\<lambda>a. save_schedule (apply_attrs a (new_schedule env [] [])) b) = Inr b'"
    by (auto simp: api_create_def dest: refused_Inr split: if_splits)
  then show ?thesis using attrs_timed [where inst = None] assms(2) by (elim disjE) auto
next
  case (update tasks partial i a status)
  then have "b' = b \<or> (\<exists>s. bind_res (checked_attrs tasks (Some s) a (bt_schedules b)) (\<lambda>a. save_schedule (apply_attrs a s) b) = Inr b')"
    by (auto simp: api_update_def dest: refused_Inr split: if_splits option.splits)
  then show ?thesis using attrs_timed [where inst = "Some s" for s] assms(2) by (elim disjE exE) auto
next
  case (delete i)
  with assms(2) show ?thesis by (auto simp: api_delete_def split: option.splits)
next
  case (settings minutes env r)
  have new: "timed_in M ((new_schedule env ''Reachability Poller'' reachability_task)\<lparr>sd_interval := Some (minutes * 60)\<rparr>)"
    using settings(1,2) by (cases "minutes = 0") (auto simp: timed_in_def timed_def zero_poller_def new_schedule_def)
  have changed: "timed_in M (s\<lparr>sd_interval := Some (minutes * 60), sd_enabled := True\<rparr>)" if "sd_task s = reachability_task" for s
    using settings(1,2) that by (cases "minutes = 0") (auto simp: timed_in_def timed_def zero_poller_def)
  show ?thesis
    by (rule stored_timed [OF settings(3) [unfolded sync_reachability_def Let_def]])
      (use new changed assms(2) in \<open>auto simp: new_schedule_def split: if_splits\<close>)
next
  case (backup env r)
  have n: "timed_in M (nightly backup_task ''0'' ''4'' s)" for s by (simp add: timed_in_def timed_def nightly_def)
  show ?thesis by (rule stored_timed [OF backup [unfolded sync_config_backup_def Let_def]]) (use n assms(2) in auto)
next
  case (cleanup env r)
  have "timed_in M (nightly cleanup_task ''30'' ''3'' s)" for s by (simp add: timed_in_def timed_def nightly_def)
  then show ?thesis by (intro stored_timed [OF cleanup [unfolded sync_cleanup_def]]) (use assms(2) in auto)
next
  case (remove s)
  with assms(2) show ?thesis
    by (auto simp: remove_schedule_def delete_periodic_def link_schedule_def in_update_where timed_in_link split: option.splits if_splits)
qed

text \<open>
  C37. Whatever the pages, the interface for programs, the settings and the command that creates the schedules do, in any order,
  ending with an exception or not: if every interval schedule has had a positive interval, every stored one has a positive
  interval afterwards, and synchronising it never fails for a missing interval, with one exception. If the settings have held zero
  minutes, which their form accepts, the schedule of the reachability check may be stored with the interval zero.
\<close>

theorem schedules_stay_timed:
  assumes "(schedule_step M)\<^sup>*\<^sup>* b b'" and "\<forall>x \<in> set (bt_schedules b). timed x" and "x \<in> set (bt_schedules b')"
  shows "timed x \<and> (\<forall>env c c' e. sync_schedule env x c \<noteq> (Inl (ValueError e), c'))
    \<or> 0 \<in> M \<and> sd_task x = reachability_task \<and> sd_type x = ''interval'' \<and> sd_interval x = Some 0"
proof -
  have "\<forall>x \<in> set (bt_schedules b'). timed_in M x"
    using assms(1,2) by (induction rule: rtranclp_induct) (blast, use step_timed in blast)
  then show ?thesis using timed_sync assms(3) by (auto simp: timed_in_def zero_poller_def)
qed

text \<open>The command is such a sequence of synchronisations, as far as it comes.\<close>

lemma bootstrap_steps:
  assumes "minutes \<in> M" "0 \<le> minutes"
  shows "(schedule_step M)\<^sup>*\<^sup>* b (snd (snd (bootstrap_schedules env1 env2 env3 minutes b)))"
proof -
  obtain r1 b1 where 1: "sync_reachability env1 minutes b = (r1, b1)" by fastforce
  obtain r2 b2 where 2: "sync_config_backup env2 b1 = (r2, b2)" by fastforce
  obtain r3 b3 where 3: "sync_cleanup env3 b2 = (r3, b3)" by fastforce
  have "(schedule_step M)\<^sup>*\<^sup>* b b1" using schedule_step.settings [OF assms 1] by blast
  moreover from this have "(schedule_step M)\<^sup>*\<^sup>* b b2" using schedule_step.backup [OF 2] by (rule rtranclp.rtrancl_into_rtrancl)
  moreover from this have "(schedule_step M)\<^sup>*\<^sup>* b b3" using schedule_step.cleanup [OF 3] by (rule rtranclp.rtrancl_into_rtrancl)
  ultimately show ?thesis by (simp add: bootstrap_schedules_def 1 2 3 split: sum.split)
qed

section \<open>An accepted form\<close>

lemma fill_schedule_again: "fill_schedule f (fill_schedule f s) = fill_schedule f s"
  by (simp add: fill_schedule_def)

lemma filled_link: "fill_schedule f s = s \<Longrightarrow> fill_schedule f (s\<lparr>sd_periodic := p\<rparr>) = s\<lparr>sd_periodic := p\<rparr>"
  by (cases s) (simp add: fill_schedule_def)

lemma runs_link: "runs_schedule (s\<lparr>sd_periodic := p\<rparr>) b t = runs_schedule s b t"
  by (simp add: runs_schedule_def timing_ok_def crontab_of_def)

lemma filled_named: "fill_schedule f s = s \<Longrightarrow> fill_schedule f (s\<lparr>sd_name := n, sd_task := t\<rparr>) = s\<lparr>sd_name := n, sd_task := t\<rparr>"
  by (cases s) (simp add: fill_schedule_def)

text \<open>A schedule of the task, with its name, holds the values of the form, and the other schedules are as before.\<close>

definition page_stored :: "task_def \<Rightarrow> schedule_form \<Rightarrow> schedule \<Rightarrow> beat \<Rightarrow> beat \<Rightarrow> bool" where
  "page_stored t f s b b' \<longleftrightarrow> s \<in> set (bt_schedules b') \<and> sd_name s = td_name t \<and> sd_task s = td_task t \<and> fill_schedule f s = s
     \<and> {x \<in> set (bt_schedules b'). sd_id x \<noteq> sd_id s} = {x \<in> set (bt_schedules b). sd_id x \<noteq> sd_id s}"

text \<open>
  C36. What the page of a schedule leaves behind, for every way it ends. When it reports that the schedule was updated, a
  schedule of the task, with its name, holds the values of the form, it is linked to a periodic task that runs it, and all other
  schedules are as before. Any other answer changes nothing: it is an unknown task, a task that the page refuses, or the form
  with at least one error; the failure that the code catches never happens. An exception is one of the database, a violated
  constraint or an ambiguous row. Either it changes nothing, or the schedule is stored with the values of the form all the
  same; then the periodic tasks are as before, or one of them has been written to run the schedule although another
  schedule is linked to it.
\<close>

theorem schedule_page_runs:
  assumes "schedule_post by_name env ts i f b = (r, b')" and "set (by_name (bt_schedules b)) = set (bt_schedules b)"
    and "distinct (map pt_id (bt_periodic b))" "be_periodic_id env \<notin> pt_id ` set (bt_periodic b)"
    and "distinct (map sd_id (bt_schedules b))"
  shows "case r of
      Inr ans \<Rightarrow>
        if ans = To_list ''Schedule updated.''
        then \<exists>t \<in> set ts. \<exists>s. \<exists>p \<in> set (bt_periodic b'). td_id t = i \<and> schedule_refused t = None \<and> page_stored t f s b b'
          \<and> sd_periodic s = Some (pt_id p) \<and> runs_schedule s b' p
        else b' = b \<and> (ans = Not_found \<or> (\<exists>t m. schedule_refused t = Some m \<and> ans = To_list m) \<or> (\<exists>es. es \<noteq> [] \<and> ans = Shown f es None))
    | Inl e \<Rightarrow> ((\<exists>m. e = IntegrityError m) \<or> (\<exists>m. e = MultipleObjectsReturned m))
        \<and> (b' = b \<or> (\<exists>t \<in> set ts. \<exists>s. td_id t = i \<and> schedule_refused t = None \<and> page_stored t f s b b'
            \<and> (bt_periodic b' = bt_periodic b \<or> (\<exists>m. e = IntegrityError m) \<and> task_taken s b b')))"
  using assms(1)
proof (cases rule: schedule_post_cases)
  case (kept ans)
  have "schedule_refused t \<noteq> Some ''Schedule updated.''" for t by (simp add: schedule_refused_def)
  with kept show ?thesis by auto
next
  case (doubled e)
  then show ?thesis by simp
next
  case (stored t s b1 q)
  have b1: "bt_periodic b1 = bt_periodic b" "bt_schedules b1 = save_row sd_id s (bt_schedules b)"
    using stored(5) by (auto simp: save_schedule_Inr)
  have s: "s \<in> set (bt_schedules b1)" and others: "{x \<in> set (bt_schedules b1). sd_id x \<noteq> sd_id s} = {x \<in> set (bt_schedules b). sd_id x \<noteq> sd_id s}"
    using assms(5) by (auto simp: b1 in_save_row)
  have fresh: "distinct (map pt_id (bt_periodic b1))" "be_periodic_id env \<notin> pt_id ` set (bt_periodic b1)" using assms(3,4) by (simp_all add: b1)
  have filled: "fill_schedule f s = s" unfolding stored(4) by (intro filled_named fill_schedule_again)
  have named: "sd_name s = td_name t" "sd_task s = td_task t" by (simp_all add: stored(4))
  have timed: "timed s" using form_timed [OF stored(3)] by (simp add: stored(4) timed_def)
  have t: "t \<in> set ts" "td_id t = i" using first_row_Some [OF stored(1)] by auto
  show ?thesis
  proof (cases q)
    case (Inl e)
    note run = stored(6) [unfolded Inl]
    note raises = sync_schedule_raises [OF run]
    have e: "(\<exists>m. e = IntegrityError m) \<or> (\<exists>m. e = MultipleObjectsReturned m)" using raises(2) timed_sync [OF timed] run by blast
    have "page_stored t f s b b'" using s others filled named raises(1) by (simp add: page_stored_def)
    moreover have "bt_periodic b' = bt_periodic b \<or> (\<exists>m. e = IntegrityError m) \<and> task_taken s b b'"
      using raises(3) [OF fresh] by (simp add: task_taken_def b1)
    moreover have "r = Inl e" using stored(7) Inl by simp
    ultimately show ?thesis using e t stored(2) by auto
  next
    case (Inr p)
    note facts = sync_schedule_task [OF stored(6) [unfolded Inr] fresh]
    then obtain x where x: "x \<in> set (bt_periodic b')" "pt_id x = p" "runs_schedule s b' x" and link: "linked_or_kept s p b1 b'" by blast
    let ?s = "s\<lparr>sd_periodic := Some p\<rparr>"
    have "page_stored t f ?s b b'"
      using synced_others [OF link] others filled_link [OF filled] named synced_row [OF link s] by (simp add: page_stored_def)
    moreover have "sd_periodic ?s = Some (pt_id x)" "runs_schedule ?s b' x" using x by (simp_all add: runs_link)
    moreover have "r = Inr (To_list ''Schedule updated.'')" using stored(7) Inr by simp
    ultimately show ?thesis using t stored(2) x(1) by simp (intro bexI [of _ t] conjI exI [of _ ?s] bexI [of _ x]; simp)
  qed
qed

section \<open>The interface for programs\<close>

text \<open>
  The interface for programs never changes a periodic task: a schedule that is made by it runs only after the page has stored it, and a schedule that is deleted by it
  goes on running, although no schedule is linked to its task any more.
\<close>

lemma save_keeps_tasks: "save_schedule s b = Inr b' \<Longrightarrow> bt_periodic b' = bt_periodic b"
  by (auto simp: save_schedule_Inr)

lemma api_keeps_tasks:
  "api_create tasks env a b = Inr (st, b') \<Longrightarrow> bt_periodic b' = bt_periodic b"
  "api_update tasks partial i a b = Inr (st, b') \<Longrightarrow> bt_periodic b' = bt_periodic b"
  "bt_periodic (snd (api_delete i b)) = bt_periodic b"
  by (auto simp: api_create_def api_update_def api_delete_def bind_res_eq_Inr dest!: refused_Inr dest: save_keeps_tasks
      split: if_splits option.splits)

lemma api_delete_keeps_running:
  assumes "s \<in> set (bt_schedules b)" and "distinct (map sd_id (bt_schedules b))" and "sd_periodic s = Some (pt_id p)"
    and "\<forall>x \<in> set (bt_schedules b). sd_id x \<noteq> sd_id s \<longrightarrow> sd_periodic x \<noteq> sd_periodic s" and "p \<in> set (bt_periodic b)"
  shows "fst (api_delete (sd_id s) b) = 204 \<and> p \<in> set (bt_periodic (snd (api_delete (sd_id s) b)))
    \<and> (\<forall>x \<in> set (bt_schedules (snd (api_delete (sd_id s) b))). sd_periodic x \<noteq> Some (pt_id p))"
proof -
  have "first_row (\<lambda>x. sd_id x = sd_id s) (bt_schedules b) = Some s"
    using first_row_distinct [OF assms(2,1)] by simp
  with assms(3-5) show ?thesis by (auto simp: api_delete_def)
qed

section \<open>The list and the page\<close>

text \<open>
  The list shows the schedule that the page changes, if a task has one schedule at most. With several of them
  the list shows the last one and the page the one with the name of the task, or else the first.
\<close>

lemma dict_puts_last: "map_of (fold (\<lambda>s. dict_put (k s) s) ss m) x = (case first_row (\<lambda>s. k s = x) (rev ss) of None \<Rightarrow> map_of m x | r \<Rightarrow> r)"
proof (induction ss arbitrary: m)
  case (Cons s ss)
  show ?case by (simp add: Cons.IH map_of_dict_put first_row_append split: option.split)
qed simp

lemma list_shows_page:
  assumes "t \<in> set ts" and "set (by_name (bt_schedules b)) = set (bt_schedules b)"
    and "\<forall>x \<in> set (bt_schedules b). \<forall>y \<in> set (bt_schedules b). sd_task x = td_task t \<longrightarrow> sd_task y = td_task t \<longrightarrow> x = y"
  shows "schedule_map (by_name (bt_schedules b)) ts (td_task t) = get_schedule by_name t b"
proof -
  have "first_row (\<lambda>s. sd_task s = td_task t) (rev (filter (\<lambda>s. sd_task s \<in> td_task ` set ts) (by_name (bt_schedules b))))
      = first_row (\<lambda>s. sd_task s = td_task t) (by_name (bt_schedules b))" (is "?l = ?r")
  proof (cases ?l)
    case None
    then have "?r = None" using assms(1) by (auto simp: first_row_None)
    with None show ?thesis by simp
  next
    case (Some x)
    then have x: "x \<in> set (bt_schedules b)" "sd_task x = td_task t" using first_row_Some [OF Some] assms(2) by auto
    then obtain y where y: "?r = Some y" using first_row_None [of "\<lambda>s. sd_task s = td_task t" "by_name (bt_schedules b)"] assms(2) by (cases ?r) auto
    then have "y \<in> set (bt_schedules b)" "sd_task y = td_task t" using first_row_Some [OF y] assms(2) by auto
    with x assms(3) have "x = y" by blast
    with Some y show ?thesis by simp
  qed
  moreover have "get_schedule by_name t b = ?r"
  proof (cases "first_row (\<lambda>s. sd_task s = td_task t \<and> sd_name s = td_name t) (by_name (bt_schedules b))")
    case None
    then show ?thesis by (simp add: get_schedule_def)
  next
    case (Some x)
    note x = first_row_Some [OF Some]
    then obtain y where y: "?r = Some y" using first_row_None [of "\<lambda>s. sd_task s = td_task t" "by_name (bt_schedules b)"] by (cases ?r) auto
    with x first_row_Some [OF y] assms(2,3) have "x = y" by blast
    with Some y show ?thesis by (simp add: get_schedule_def)
  qed
  ultimately show ?thesis by (simp add: schedule_map_def dict_puts_last split: option.split)
qed

section \<open>The definitions of tasks\<close>

text \<open>After the migrations every task has one definition, and the pages accept the schedules of the program and these tasks.\<close>

lemma migrated_tasks_distinct: "distinct (map td_task (migrated_tasks length))"
  by code_simp

lemma schedulable_tasks:
  "map td_name (filter (\<lambda>t. schedule_refused t = None) (migrated_tasks length)) =
     [''Reachability Poller'', ''Nightly Configuration Backup'', ''Reachability History Cleanup'', ''Topology Neighbor Collection'',
      ''Topology Neighbor Cleanup'', ''Scheduled Device Sync'', ''Network Discovery Scan'', ''Discovery Auto-Assign'']"
  by code_simp

section \<open>Examples\<close>

definition ex_tasks :: "task_def list" where
  "ex_tasks = [\<lparr>td_id = 7, td_name = ''Reachability Poller'', td_task = reachability_task, td_category = ''automation'',
     td_description = [], td_managed = ''system'', td_schedulable = True\<rparr>]"

definition ex_form :: schedule_form where
  "ex_form = \<lparr>sf_enabled = True, sf_type = ''crontab'', sf_interval = None, sf_minute = '' 15'', sf_hour = ''*'', sf_weekday = ''*'',
     sf_monthday = ''*'', sf_month = ''*''\<rparr>"

definition ex_posted :: "(exn + page_answer) \<times> beat" where
  "ex_posted = schedule_post (\<lambda>ss. ss) demo_beat_env ex_tasks 7 ex_form demo_beat"

lemma ex_post: "\<exists>b. ex_posted = (Inr (To_list ''Schedule updated.''), b)"
proof -
  have "case fst ex_posted of Inl _ \<Rightarrow> False | Inr a \<Rightarrow> a = To_list ''Schedule updated.''" by code_simp
  then have "fst ex_posted = Inr (To_list ''Schedule updated.'')" by (simp split: sum.splits)
  then show ?thesis by (metis prod.collapse)
qed

theorem schedules_stay_timed_witness:
  "\<exists>b. ex_posted = (Inr (To_list ''Schedule updated.''), b) \<and> (\<forall>x \<in> set (bt_schedules b). timed x)"
proof -
  obtain b where b: "ex_posted = (Inr (To_list ''Schedule updated.''), b)" using ex_post ..
  then have "schedule_step {} demo_beat b" unfolding ex_posted_def by (rule schedule_step.page) simp
  then have "(schedule_step {})\<^sup>*\<^sup>* demo_beat b" by blast
  from schedules_stay_timed [OF this] b show ?thesis by (auto simp: demo_beat_def)
qed

theorem schedule_page_runs_witness:
  "\<exists>b s p. ex_posted = (Inr (To_list ''Schedule updated.''), b) \<and> s \<in> set (bt_schedules b) \<and> p \<in> set (bt_periodic b)
     \<and> sd_minute s = ''15'' \<and> sd_periodic s = Some (pt_id p) \<and> runs_schedule s b p"
proof -
  obtain b where b: "ex_posted = (Inr (To_list ''Schedule updated.''), b)" using ex_post ..
  have "distinct (map pt_id (bt_periodic demo_beat))" "be_periodic_id demo_beat_env \<notin> pt_id ` set (bt_periodic demo_beat)"
    "distinct (map sd_id (bt_schedules demo_beat))" by (simp_all add: demo_beat_def demo_beat_env_def)
  from schedule_page_runs [OF b [unfolded ex_posted_def] refl this] obtain s p
    where "s \<in> set (bt_schedules b)" "p \<in> set (bt_periodic b)" "fill_schedule ex_form s = s" "sd_periodic s = Some (pt_id p)" "runs_schedule s b p"
    by (auto simp: page_stored_def)
  moreover have "strip (sf_minute ex_form) = ''15''" by code_simp
  then have "sd_minute (fill_schedule ex_form s) = ''15''" by (simp add: fill_schedule_def)
  ultimately show ?thesis using b by metis
qed

text \<open>Zero minutes in the settings: the interval zero is stored, and the exception leaves the page of the settings.\<close>

lemma zero_minutes_stored:
  "case sync_reachability demo_beat_env 0 (demo_beat\<lparr>bt_periodic := []\<rparr>) of
     (r, b) \<Rightarrow> (case r of Inl (ValueError _) \<Rightarrow> True | _ \<Rightarrow> False) \<and> map sd_interval (bt_schedules b) = [Some 0]"
  by code_simp

text \<open>
  Two schedules of one task, the second linked to the periodic task with the name of the task: the page changes the first, renames
  it and rewrites the periodic task of the second before the link fails.
\<close>

definition ex_double :: beat where
  "ex_double = demo_beat\<lparr>bt_schedules :=
     [(new_schedule demo_beat_env ''a'' reachability_task)\<lparr>sd_interval := Some 60\<rparr>,
      (new_schedule demo_beat_env ''b'' reachability_task)\<lparr>sd_id := 9, sd_interval := Some 60, sd_periodic := Some 1\<rparr>]\<rparr>"

lemma failed_page_writes:
  "case schedule_post (\<lambda>ss. ss) demo_beat_env ex_tasks 7 ex_form ex_double of
     (r, b) \<Rightarrow> (case r of Inl (IntegrityError _) \<Rightarrow> True | _ \<Rightarrow> False)
       \<and> map (\<lambda>s. (sd_name s, sd_type s, sd_periodic s)) (bt_schedules b)
           = [(''Reachability Poller'', ''crontab'', None), (''b'', ''interval'', Some 1)]
       \<and> map (\<lambda>p. (pt_id p, pt_task p, pt_crontab p)) (bt_periodic b) = [(1, reachability_task, Some 3)]"
  by code_simp

end
