(* ===== verification/IpamPages.thy ===== *)
theory IpamPages
  imports IpamProps Ipv6Text Listings CandidatePages
begin

text \<open>
  The pages of the address management (\<^verbatim>\<open>ipam/views\<close>, \<^verbatim>\<open>ipam/forms\<close>): lists, details, and the requests
  that create, change and delete VRFs, prefixes and addresses. A form is the values submitted; a row chosen in it
  is its identifier, an error the name of its field or its message.
\<close>

section \<open>Texts of the choices\<close>

fun prefix_status_text :: "prefix_status \<Rightarrow> string" where
  "prefix_status_text PActive = ''active''"
| "prefix_status_text PReserved = ''reserved''"
| "prefix_status_text PDeprecated = ''deprecated''"

fun prefix_role_text :: "prefix_role \<Rightarrow> string" where
  "prefix_role_text RUser = ''user''"
| "prefix_role_text RMgmt = ''mgmt''"
| "prefix_role_text RLoopback = ''loopback''"
| "prefix_role_text RTransit = ''transit''"
| "prefix_role_text RInfra = ''infra''"
| "prefix_role_text RCampus = ''campus''"
| "prefix_role_text RWan = ''wan''"

fun ip_status_text :: "ip_status \<Rightarrow> string" where
  "ip_status_text IActive = ''active''"
| "ip_status_text IDhcp = ''dhcp''"
| "ip_status_text IReserved = ''reserved''"
| "ip_status_text IDeprecated = ''deprecated''"

fun ip_role_text :: "ip_role \<Rightarrow> string" where
  "ip_role_text Primary = ''primary''"
| "ip_role_text Secondary = ''secondary''"
| "ip_role_text Vip = ''vip''"
| "ip_role_text Loopback = ''loopback''"

definition choice_of :: "('c \<Rightarrow> string) \<Rightarrow> 'c list \<Rightarrow> string \<Rightarrow> 'c option" where
  "choice_of txt cs s = first_row (\<lambda>c. txt c = s) cs"

definition ip_statuses :: "ip_status list" where
  "ip_statuses = [IActive, IDhcp, IReserved, IDeprecated]"

definition ip_roles :: "ip_role list" where
  "ip_roles = [Primary, Secondary, Vip, Loopback]"

definition prefix_statuses :: "prefix_status list" where
  "prefix_statuses = [PActive, PReserved, PDeprecated]"

definition prefix_roles :: "prefix_role list" where
  "prefix_roles = [RUser, RMgmt, RLoopback, RTransit, RInfra, RCampus, RWan]"

section \<open>Lists\<close>

text \<open>
  What the pages take from the framework: identifiers in texts, the reading of an address field, the device of an interface, and
  the rows of the other tables.
\<close>

record ipam_env =
  ne_uuid :: "string \<Rightarrow> uid option"
  ne_clean_ip :: "string \<Rightarrow> string option"
  ne_device :: "uid \<Rightarrow> uid option"
  ne_sites :: "uid list"
  ne_vlans :: "uid list"

definition by_ref :: "ipam_env \<Rightarrow> request \<Rightarrow> string \<Rightarrow> ('r \<Rightarrow> uid option) \<Rightarrow> 'r list \<Rightarrow> exn + 'r list" where
  "by_ref env q k ref rows =
     (if text_true (q k)
      then (case ne_uuid env (or_empty (q k)) of
          None \<Rightarrow> Inl (ValidationError (quote_text (or_empty (q k)) @ '' is not a valid UUID.''))
        | Some i \<Rightarrow> Inr (filter (\<lambda>r. ref r = Some i) rows))
      else Inr rows)"

definition address_device :: "ipam_env \<Rightarrow> ip_row \<Rightarrow> uid option" where
  "address_device env r = (case ip_iface r of None \<Rightarrow> None | Some i \<Rightarrow> ne_device env i)"

definition address_vrf :: "ipam_db \<Rightarrow> ip_row \<Rightarrow> uid option" where
  "address_vrf db r = (case deref (find_prefix db) (ip_prefix r) of None \<Rightarrow> None | Some p \<Rightarrow> px_vrf p)"

definition address_found :: "string \<Rightarrow> ip_row \<Rightarrow> bool" where
  "address_found s r \<longleftrightarrow> s = [] \<or> icontains (ip_text r) s \<or> (case ip_hostname r of None \<Rightarrow> False | Some h \<Rightarrow> icontains h s)"

definition address_list :: "ipam_env \<Rightarrow> (ip_row list \<Rightarrow> ip_row list) \<Rightarrow> ipam_db \<Rightarrow> request \<Rightarrow> exn + ip_row list" where
  "address_list env by_address db q =
     bind_res (by_ref env q ''device'' (address_device env) (by_address (db_ips db))) (\<lambda>rows.
     bind_res (by_ref env q ''interface'' ip_iface rows) (\<lambda>rows.
     bind_res (by_ref env q ''prefix'' ip_prefix rows) (\<lambda>rows.
     bind_res (by_ref env q ''vrf'' (address_vrf db) rows) (\<lambda>rows.
       let rows = (if text_true (q ''status'') then filter (\<lambda>r. Some (ip_status_text (ip_status r)) = q ''status'') rows else rows)
       in Inr (filter (address_found (stripped q ''search'')) rows)))))"

definition plen_matches :: "string \<Rightarrow> prefix \<Rightarrow> bool" where
  "plen_matches l p \<longleftrightarrow> endswith (px_cidr p) (''/'' @ l)"

definition prefix_list :: "ipam_env \<Rightarrow> (prefix list \<Rightarrow> prefix list) \<Rightarrow> ipam_db \<Rightarrow> request \<Rightarrow> exn + (prefix \<times> nat) list" where
  "prefix_list env by_cidr db q =
     bind_res (by_ref env q ''vrf'' px_vrf (db_prefixes db)) (\<lambda>rows.
     bind_res (by_ref env q ''site'' px_site rows) (\<lambda>rows.
       let l = or_empty (q ''length'');
           rows = (if l \<noteq> [] \<and> all_digits l then filter (plen_matches l) rows else rows)
       in Inr (map (\<lambda>p. (p, length (prefix_ips db p))) (by_cidr rows))))"

definition prefix_detail :: "(prefix list \<Rightarrow> prefix list) \<Rightarrow> (ip_row list \<Rightarrow> ip_row list) \<Rightarrow> ipam_db \<Rightarrow> uid
    \<Rightarrow> (prefix \<times> prefix list \<times> ip_row list) option" where
  "prefix_detail by_cidr by_address db i =
     map_option (\<lambda>p. (p, by_cidr (filter (\<lambda>c. px_parent c = Some i) (db_prefixes db)), by_address (prefix_ips db p))) (find_prefix db i)"

definition vrf_detail :: "(prefix list \<Rightarrow> prefix list) \<Rightarrow> ipam_db \<Rightarrow> uid \<Rightarrow> (vrf \<times> prefix list) option" where
  "vrf_detail by_cidr db i = map_option (\<lambda>v. (v, by_cidr (filter (\<lambda>p. px_vrf p = Some i) (db_prefixes db)))) (find_vrf db i)"

section \<open>Addresses\<close>

datatype form_answer = Missing | Form_again "string list" | Done

record address_form =
  af_interface :: "uid option"
  af_prefix :: "uid option"
  af_address :: string
  af_status :: string
  af_role :: string
  af_hostname :: string

definition bad_ref :: "(uid \<Rightarrow> 'r option) \<Rightarrow> uid option \<Rightarrow> bool" where
  "bad_ref find_it i \<longleftrightarrow> (case i of None \<Rightarrow> False | Some i \<Rightarrow> find_it i = None)"

definition typed_address :: "ipam_env \<Rightarrow> address_form \<Rightarrow> string option" where
  "typed_address env f = (if strip (af_address f) = [] then None else ne_clean_ip env (strip (af_address f)))"

definition address_field_errors :: "ipam_env \<Rightarrow> ipam_db \<Rightarrow> address_form \<Rightarrow> string list" where
  "address_field_errors env db f =
     (if bad_ref (find_iface db) (af_interface f) then [''interface''] else [])
     @ (if af_prefix f = None \<or> bad_ref (find_prefix db) (af_prefix f) then [''prefix''] else [])
     @ (if strip (af_address f) \<noteq> [] \<and> typed_address env f = None then [''address''] else [])
     @ (if choice_of ip_status_text ip_statuses (af_status f) = None then [''status''] else [])
     @ (if choice_of ip_role_text ip_roles (af_role f) = None then [''role''] else [])
     @ (if 255 < length (strip (af_hostname f)) then [''hostname''] else [])"

text \<open>The row with the values that were read; a field with an error keeps the value of the row.\<close>

definition fill_address :: "ipam_env \<Rightarrow> ipam_db \<Rightarrow> address_form \<Rightarrow> string option \<Rightarrow> string list \<Rightarrow> ip_row \<Rightarrow> ip_row" where
  "fill_address env db f address errs r =
     (let es = address_field_errors env db f
      in r\<lparr>ip_text := (if errs \<noteq> [] \<or> (''address'' \<in> set es \<and> address = None) then ip_text r else or_empty address),
           ip_prefix := (if ''prefix'' \<in> set es then ip_prefix r else af_prefix f),
           ip_iface := (if ''interface'' \<in> set es then ip_iface r else af_interface f),
           ip_status := (case choice_of ip_status_text ip_statuses (af_status f) of None \<Rightarrow> ip_status r | Some s \<Rightarrow> s),
           ip_role := (case choice_of ip_role_text ip_roles (af_role f) of None \<Rightarrow> ip_role r | Some s \<Rightarrow> s),
           ip_hostname := (if ''hostname'' \<in> set es then ip_hostname r
             else if strip (af_hostname f) = [] then None else Some (strip (af_hostname f)))\<rparr>)"

definition address_taken :: "ipam_db \<Rightarrow> ip_row \<Rightarrow> bool" where
  "address_taken db r \<longleftrightarrow> list_ex (\<lambda>x. ip_id x \<noteq> ip_id r \<and> ip_text x = ip_text r \<and> ip_prefix x = ip_prefix r) (db_ips db)"

definition address_save :: "ipam_env \<Rightarrow> ipam_db \<Rightarrow> ip_row \<Rightarrow> address_form \<Rightarrow> exn + (form_answer \<times> ipam_db)" where
  "address_save env db base f =
     (let es = address_field_errors env db f;
          px = (if ''prefix'' \<in> set es then None else deref (find_prefix db) (af_prefix f))
      in bind_res (assign_form_clean db px (typed_address env f) (ip_id base)) (\<lambda>(address, errs).
           let r = fill_address env db f address errs base
           in case validate_address db r of
                Inl (Raised e) \<Rightarrow> Inl e
              | Inl (Invalid vs) \<Rightarrow> Inr (Form_again (es @ errs @ map snd vs), db)
              | Inr _ \<Rightarrow>
                  if es @ errs \<noteq> [] then Inr (Form_again (es @ errs), db)
                  else if address_taken db r then Inr (Form_again [''uniq_ip_per_prefix''], db)
                  else Inr (Done, save_ip db r)))"

definition new_address :: "uid \<Rightarrow> ip_row" where
  "new_address i = \<lparr>ip_id = i, ip_text = [], ip_prefix = None, ip_iface = None, ip_status = IActive, ip_role = Secondary,
     ip_is_primary = False, ip_is_reserved = False, ip_hostname = None, ip_mac = None, ip_description = None\<rparr>"

definition address_create :: "ipam_env \<Rightarrow> ipam_db \<Rightarrow> uid \<Rightarrow> address_form \<Rightarrow> exn + (form_answer \<times> ipam_db)" where
  "address_create env db i f = address_save env db (new_address i) f"

definition address_update :: "ipam_env \<Rightarrow> ipam_db \<Rightarrow> uid \<Rightarrow> address_form \<Rightarrow> exn + (form_answer \<times> ipam_db)" where
  "address_update env db i f =
     (case first_row (\<lambda>r. ip_id r = i) (db_ips db) of None \<Rightarrow> Inr (Missing, db) | Some r \<Rightarrow> address_save env db r f)"

definition address_delete :: "ipam_db \<Rightarrow> uid \<Rightarrow> form_answer \<times> ipam_db" where
  "address_delete db i =
     (case first_row (\<lambda>r. ip_id r = i) (db_ips db) of
        None \<Rightarrow> (Missing, db)
      | Some _ \<Rightarrow> (Done, db\<lparr>db_ips := filter (\<lambda>r. ip_id r \<noteq> i) (db_ips db)\<rparr>))"

section \<open>Prefixes\<close>

record prefix_form =
  pf_cidr :: string
  pf_site :: "uid option"
  pf_vrf :: "uid option"
  pf_vlan :: "uid option"
  pf_parent :: "uid option"
  pf_status :: string
  pf_role :: string
  pf_description :: string

definition listed :: "uid list \<Rightarrow> uid \<Rightarrow> uid option" where
  "listed is i = (if i \<in> set is then Some i else None)"

definition prefix_field_errors :: "ipam_env \<Rightarrow> ipam_db \<Rightarrow> prefix_form \<Rightarrow> string list" where
  "prefix_field_errors env db f =
     (if strip (pf_cidr f) = [] \<or> 50 < length (strip (pf_cidr f)) then [''cidr''] else [])
     @ (if pf_site f = None \<or> bad_ref (listed (ne_sites env)) (pf_site f) then [''site''] else [])
     @ (if bad_ref (find_vrf db) (pf_vrf f) then [''vrf''] else [])
     @ (if bad_ref (listed (ne_vlans env)) (pf_vlan f) then [''vlan''] else [])
     @ (if bad_ref (find_prefix db) (pf_parent f) then [''parent''] else [])
     @ (if choice_of prefix_status_text prefix_statuses (pf_status f) = None then [''status''] else [])
     @ (if choice_of prefix_role_text prefix_roles (pf_role f) = None then [''role''] else [])"

definition fill_prefix :: "ipam_env \<Rightarrow> ipam_db \<Rightarrow> prefix_form \<Rightarrow> prefix \<Rightarrow> prefix" where
  "fill_prefix env db f p =
     (let es = prefix_field_errors env db f
      in p\<lparr>px_cidr := (if ''cidr'' \<in> set es then px_cidr p else strip (pf_cidr f)),
           px_site := (if ''site'' \<in> set es then px_site p else pf_site f),
           px_vrf := (if ''vrf'' \<in> set es then px_vrf p else pf_vrf f),
           px_vlan := (if ''vlan'' \<in> set es then px_vlan p else pf_vlan f),
           px_parent := (if ''parent'' \<in> set es then px_parent p else pf_parent f),
           px_status := (case choice_of prefix_status_text prefix_statuses (pf_status f) of None \<Rightarrow> px_status p | Some s \<Rightarrow> s),
           px_role := (case choice_of prefix_role_text prefix_roles (pf_role f) of None \<Rightarrow> px_role p | Some s \<Rightarrow> s),
           px_description := Some (strip (pf_description f))\<rparr>)"

text \<open>The two unique constraints: of the prefixes of a VRF, and of those of a site without a VRF.\<close>

definition prefix_taken :: "ipam_db \<Rightarrow> prefix \<Rightarrow> bool" where
  "prefix_taken db p \<longleftrightarrow>
     list_ex (\<lambda>q. px_id q \<noteq> px_id p \<and> px_cidr q = px_cidr p \<and> px_site q = px_site p \<and> px_vrf q = px_vrf p) (db_prefixes db)"

definition save_prefix :: "ipam_db \<Rightarrow> prefix \<Rightarrow> ipam_db" where
  "save_prefix db p = db\<lparr>db_prefixes := save_row px_id p (db_prefixes db)\<rparr>"

definition prefix_save :: "ipam_env \<Rightarrow> ipam_db \<Rightarrow> prefix \<Rightarrow> prefix_form \<Rightarrow> (exn + (form_answer \<times> ipam_db)) option" where
  "prefix_save env db base f =
     (let es = prefix_field_errors env db f; p = fill_prefix env db f base
      in case validate_prefix db p of
           None \<Rightarrow> None
         | Some (Inl (Raised e)) \<Rightarrow> Some (Inl e)
         | Some (Inl (Invalid vs)) \<Rightarrow> Some (Inr (Form_again (es @ map snd vs), db))
         | Some (Inr _) \<Rightarrow>
             Some (Inr (if es \<noteq> [] then (Form_again es, db)
               else if prefix_taken db p then (Form_again [''unique_prefix_cidr_site_vrf''], db)
               else (Done, save_prefix db p))))"

definition new_prefix :: "uid \<Rightarrow> prefix" where
  "new_prefix i = \<lparr>px_id = i, px_cidr = [], px_site = None, px_vrf = None, px_vlan = None, px_parent = None,
     px_status = PActive, px_role = RUser, px_description = None\<rparr>"

definition prefix_create :: "ipam_env \<Rightarrow> ipam_db \<Rightarrow> uid \<Rightarrow> prefix_form \<Rightarrow> (exn + (form_answer \<times> ipam_db)) option" where
  "prefix_create env db i f = prefix_save env db (new_prefix i) f"

definition prefix_update :: "ipam_env \<Rightarrow> ipam_db \<Rightarrow> uid \<Rightarrow> prefix_form \<Rightarrow> (exn + (form_answer \<times> ipam_db)) option" where
  "prefix_update env db i f =
     (case find_prefix db i of None \<Rightarrow> Some (Inr (Missing, db)) | Some p \<Rightarrow> prefix_save env db p f)"

text \<open>Addresses protect their prefix; the children of a prefix that is deleted lose their parent.\<close>

definition prefix_delete :: "ipam_db \<Rightarrow> uid \<Rightarrow> exn + (form_answer \<times> ipam_db)" where
  "prefix_delete db i =
     (if find_prefix db i = None then Inr (Missing, db)
      else if list_ex (\<lambda>r. ip_prefix r = Some i) (db_ips db) then Inl (ProtectedError ''IPAddress.prefix'')
      else Inr (Done, db\<lparr>db_prefixes := map (\<lambda>p. if px_parent p = Some i then p\<lparr>px_parent := None\<rparr> else p)
             (filter (\<lambda>p. px_id p \<noteq> i) (db_prefixes db))\<rparr>))"

section \<open>VRFs\<close>

record vrf_form =
  vf_name :: string
  vf_site :: "uid option"
  vf_rd :: string
  vf_description :: string

definition vrf_field_errors :: "ipam_env \<Rightarrow> vrf_form \<Rightarrow> string list" where
  "vrf_field_errors env f =
     (if strip (vf_name f) = [] \<or> 100 < length (strip (vf_name f)) then [''name''] else [])
     @ (if vf_site f = None \<or> bad_ref (listed (ne_sites env)) (vf_site f) then [''site''] else [])
     @ (if 100 < length (strip (vf_rd f)) then [''rd''] else [])"

definition vrf_save :: "ipam_env \<Rightarrow> ipam_db \<Rightarrow> uid \<Rightarrow> vrf_form \<Rightarrow> form_answer \<times> ipam_db" where
  "vrf_save env db i f =
     (case vf_site f of
        None \<Rightarrow> (Form_again (vrf_field_errors env f), db)
      | Some s \<Rightarrow>
          if vrf_field_errors env f \<noteq> [] then (Form_again (vrf_field_errors env f), db)
          else if list_ex (\<lambda>v. vrf_id v \<noteq> i \<and> vrf_site v = s \<and> vrf_name v = strip (vf_name f)) (db_vrfs db)
            then (Form_again [''site, name''], db)
          else (Done, db\<lparr>db_vrfs := save_row vrf_id \<lparr>vrf_id = i, vrf_name = strip (vf_name f), vrf_site = s,
              vrf_rd = (if strip (vf_rd f) = [] then None else Some (strip (vf_rd f))), vrf_description = Some (strip (vf_description f))\<rparr> (db_vrfs db)\<rparr>))"

definition vrf_update :: "ipam_env \<Rightarrow> ipam_db \<Rightarrow> uid \<Rightarrow> vrf_form \<Rightarrow> form_answer \<times> ipam_db" where
  "vrf_update env db i f = (if find_vrf db i = None then (Missing, db) else vrf_save env db i f)"

definition vrf_delete :: "ipam_db \<Rightarrow> uid \<Rightarrow> exn + (form_answer \<times> ipam_db)" where
  "vrf_delete db i =
     (if find_vrf db i = None then Inr (Missing, db)
      else if list_ex (\<lambda>p. px_vrf p = Some i) (db_prefixes db) then Inl (ProtectedError ''Prefix.vrf'')
      else Inr (Done, db\<lparr>db_vrfs := filter (\<lambda>v. vrf_id v \<noteq> i) (db_vrfs db)\<rparr>))"

end
