(* ===== verification/IpamPagesProps.thy ===== *)
theory IpamPagesProps
  imports IpamPages
begin

text \<open>
  What the pages of the address management keep: the forest of prefixes, and addresses that are unique in
  their VRF, lie in their prefix and are the only primary ones of their interface. Only the change of a prefix can break it, by what
  is below the prefix.
\<close>

section \<open>Addresses\<close>

definition canonical :: "ip_row \<Rightarrow> bool" where
  "canonical r \<longleftrightarrow> (\<exists>a. addr_of r = Some a \<and> ip_text r = ip_str a)"

definition placed :: "ipam_db \<Rightarrow> ip_row \<Rightarrow> bool" where
  "placed db r \<longleftrightarrow> (\<exists>p n a. deref (find_prefix db) (ip_prefix r) = Some p \<and> net_of p = Some n \<and> addr_of r = Some a \<and> in_net a n)"

definition addresses_ok :: "ipam_db \<Rightarrow> bool" where
  "addresses_ok db \<longleftrightarrow> distinct (map ip_id (db_ips db)) \<and> (\<forall>r \<in> set (db_ips db). canonical r \<and> placed db r)
     \<and> (\<forall>r \<in> set (db_ips db). \<forall>x \<in> set (db_ips db). ip_id r \<noteq> ip_id x \<longrightarrow> address_vrf db r = address_vrf db x \<longrightarrow> addr_of r \<noteq> addr_of x)
     \<and> one_primary db"

definition reads_canonical :: "ipam_env \<Rightarrow> bool" where
  "reads_canonical env \<longleftrightarrow> (\<forall>s t. ne_clean_ip env s = Some t \<longrightarrow> (\<exists>a. ip_address t = Inr a \<and> t = ip_str a))"

lemma canonical_text: "canonical r \<Longrightarrow> canonical x \<Longrightarrow> addr_of r = addr_of x \<Longrightarrow> ip_text r = ip_text x"
  by (auto simp: canonical_def)

lemma ok_canonical: "addresses_ok db \<Longrightarrow> r \<in> set (db_ips db) \<Longrightarrow> canonical r"
  by (simp add: addresses_ok_def)

lemma host_in_net: "is_host n a \<Longrightarrow> in_net a n"
  by (cases "net_ver n") (auto simp: is_host_def host_range_def in_net_def split: if_splits)

lemma allocated_canonical:
  assumes "next_available_ip db p = Inr s"
  shows "\<exists>a. ip_address s = Inr a \<and> s = ip_str a"
proof -
  obtain net used where net: "ip_network True (px_cidr p) = Inr net" and h: "\<exists>h. first_row (\<lambda>h. h \<notin> set used) (hosts net) = Some h \<and> s = ip_str h"
    using assms by (auto simp: next_available_ip_def bind_res_eq_Inr split: option.splits)
  then obtain h where h: "h \<in> set (hosts net)" "s = ip_str h" using first_row_Some by fastforce
  have valid: "valid_net net" using ip_network_valid [OF net] .
  have "is_host net h" using h(1) set_hosts [of net] by auto
  then have "valid_ip h" using in_net_valid [OF valid] host_in_net by blast
  from ip_text_reads [OF this] h(2) show ?thesis by blast
qed

lemma map_save_ip: "distinct (map ip_id (db_ips db)) \<Longrightarrow> distinct (map ip_id (db_ips (save_ip db r)))"
proof -
  assume d: "distinct (map ip_id (db_ips db))"
  have "map ip_id (map (\<lambda>x. if ip_id x = ip_id r then r else x) (db_ips db)) = map ip_id (db_ips db)" by simp
  with d show ?thesis by (auto simp: save_ip_def simp del: map_map)
qed

lemma save_ip_prefixes [simp]: "find_prefix (save_ip db r) = find_prefix db" "db_prefixes (save_ip db r) = db_prefixes db"
  by (simp_all add: fun_eq_iff find_prefix_def save_ip_def)

lemma saved_address_ok:
  assumes ok: "addresses_ok db" and valid: "validate_address db r = Inr ()" and can: "canonical r"
    and free: "\<not> exists_in_vrf db (ip_text r) (address_vrf db r) (ip_id r)"
    and fk: "ip_iface r \<noteq> None \<longrightarrow> deref (find_iface db) (ip_iface r) \<noteq> None"
  shows "addresses_ok (save_ip db r)"
proof -
  have aok: "address_ok db r" using valid validate_address_decides by blast
  then have here: "placed db r" by (auto simp: address_ok_def placed_def)
  have vrf: "address_vrf (save_ip db r) = address_vrf db" by (simp add: fun_eq_iff address_vrf_def)
  have pl: "placed (save_ip db r) = placed db" by (simp add: fun_eq_iff placed_def)
  have alone: "addr_of r \<noteq> addr_of x" if x: "x \<in> set (db_ips db)" "ip_id x \<noteq> ip_id r" "address_vrf db x = address_vrf db r" for x
  proof
    assume "addr_of r = addr_of x"
    then have "ip_text x = ip_text r" using canonical_text [OF can ok_canonical [OF ok x(1)]] by simp
    moreover obtain q where "deref (find_prefix db) (ip_prefix x) = Some q" using ok x(1) by (auto simp: addresses_ok_def placed_def)
    ultimately show False using free x by (auto simp: exists_in_vrf_def address_vrf_def)
  qed
  have primary: "one_primary (save_ip db r)" using ok valid fk by (intro saved_one_primary) (auto simp: addresses_ok_def)
  have rows: "x = r \<or> x \<in> set (db_ips db) \<and> ip_id x \<noteq> ip_id r" if "x \<in> set (db_ips (save_ip db r))" for x
    using set_save_ip that by blast
  have old: "ip_id y \<noteq> ip_id x \<longrightarrow> address_vrf db y = address_vrf db x \<longrightarrow> addr_of y \<noteq> addr_of x"
    if "y \<in> set (db_ips db)" "x \<in> set (db_ips db)" for x y
    using ok that unfolding addresses_ok_def by blast
  show ?thesis
    unfolding addresses_ok_def vrf pl
  proof (intro conjI ballI impI primary)
    show "distinct (map ip_id (db_ips (save_ip db r)))" using ok by (intro map_save_ip) (simp add: addresses_ok_def)
    show "canonical x" "placed db x" if "x \<in> set (db_ips (save_ip db r))" for x
      using rows [OF that] can here ok by (auto simp: addresses_ok_def)
    fix x y
    assume "x \<in> set (db_ips (save_ip db r))" "y \<in> set (db_ips (save_ip db r))" "ip_id x \<noteq> ip_id y" "address_vrf db x = address_vrf db y"
    with rows [of x] rows [of y] alone [of x] alone [of y] old [of x y] show "addr_of x \<noteq> addr_of y" by (metis (no_types))
  qed
qed

lemma assigned_text:
  assumes "assign_form_clean db (Some p) typed i = Inr (address, [])"
    and typed: "\<And>t. typed = Some t \<Longrightarrow> \<exists>a. ip_address t = Inr a \<and> t = ip_str a"
  shows "\<exists>t a. address = Some t \<and> ip_address t = Inr a \<and> t = ip_str a \<and> \<not> exists_in_vrf db t (px_vrf p) i"
proof -
  let ?get = "if text_true typed then Inr (or_empty typed) else next_available_ip db p"
  obtain t where t: "?get = Inr t" using assms(1) by (cases ?get) (auto simp: assign_form_clean_def split: exn.splits)
  then obtain a where a: "ip_address t = Inr a" "t = ip_str a"
    using typed allocated_canonical [of db p t] by (cases typed) (auto simp: text_true_def split: if_splits)
  show ?thesis using assms(1) t a by (auto simp: assign_form_clean_def bind_res_eq_Inr split: if_splits)
qed

lemma checked_save:
  assumes "(case v of Inl (Raised e) \<Rightarrow> Inl e | Inl (Invalid vs) \<Rightarrow> Inr (Form_again (es @ errs @ map snd vs), db)
      | Inr _ \<Rightarrow> if es @ errs \<noteq> [] then Inr (Form_again (es @ errs), db) else if clash then Inr (Form_again ts, db) else Inr (Done, db1))
    = Inr (ans, db')"
  shows "db' = db \<and> ans \<noteq> Done \<or> v = Inr () \<and> es = [] \<and> errs = [] \<and> \<not> clash \<and> ans = Done \<and> db' = db1"
proof (cases v)
  case (Inl e)
  with assms show ?thesis by (cases e) auto
next
  case (Inr u)
  show ?thesis
  proof (cases "es @ errs = []")
    case True
    then have nil: "es = []" "errs = []" by simp_all
    show ?thesis
    proof (cases clash)
      assume clash
      with Inr assms nil have "ans = Form_again ts" "db' = db" by simp_all
      then show ?thesis by simp
    next
      assume free: "\<not> clash"
      with Inr assms nil have "ans = Done" "db' = db1" by simp_all
      with free Inr nil show ?thesis by simp
    qed
  next
    case False
    with Inr assms show ?thesis by auto
  qed
qed

text \<open>A request that changes an address either keeps the tables or stores a row that passed every check.\<close>

lemma address_save_cases:
  assumes "address_save env db base f = Inr (ans, db')"
  obtains "db' = db" "ans \<noteq> Done"
    | r p address where "ans = Done" "db' = save_ip db r" "ip_id r = ip_id base" "validate_address db r = Inr ()"
      "deref (find_prefix db) (ip_prefix r) = Some p" "assign_form_clean db (Some p) (typed_address env f) (ip_id base) = Inr (address, [])"
      "ip_text r = or_empty address" "\<not> bad_ref (find_iface db) (ip_iface r)"
proof -
  let ?es = "address_field_errors env db f"
  let ?px = "if ''prefix'' \<in> set ?es then None else deref (find_prefix db) (af_prefix f)"
  obtain address errs where c: "assign_form_clean db ?px (typed_address env f) (ip_id base) = Inr (address, errs)"
    and rest: "(case validate_address db (fill_address env db f address errs base) of
        Inl (Raised e) \<Rightarrow> Inl e
      | Inl (Invalid vs) \<Rightarrow> Inr (Form_again (?es @ errs @ map snd vs), db)
      | Inr _ \<Rightarrow> if ?es @ errs \<noteq> [] then Inr (Form_again (?es @ errs), db)
          else if address_taken db (fill_address env db f address errs base) then Inr (Form_again [''uniq_ip_per_prefix''], db)
          else Inr (Done, save_ip db (fill_address env db f address errs base))) = Inr (ans, db')"
    using assms by (auto simp: address_save_def Let_def bind_res_eq_Inr)
  let ?r = "fill_address env db f address errs base"
  from checked_save [OF rest] show thesis
  proof (elim disjE conjE)
    assume "db' = db" "ans \<noteq> Done"
    then show thesis by (rule that(1))
  next
    assume v: "validate_address db ?r = Inr ()" and es: "?es = []" "errs = []" and stored: "ans = Done" "db' = save_ip db ?r"
    have "af_prefix f \<noteq> None \<and> \<not> bad_ref (find_prefix db) (af_prefix f)" "\<not> bad_ref (find_iface db) (af_interface f)"
      using es(1) by (auto simp: address_field_errors_def split: if_splits)
    then obtain p where p: "deref (find_prefix db) (af_prefix f) = Some p" by (auto simp: bad_ref_def deref_def split: option.splits)
    have r: "ip_prefix ?r = af_prefix f" "ip_iface ?r = af_interface f" "ip_text ?r = or_empty address" "ip_id ?r = ip_id base"
      by (simp_all add: fill_address_def es)
    show thesis
      using that(2) [OF stored r(4) v] p c es r \<open>\<not> bad_ref (find_iface db) (af_interface f)\<close> by simp
  qed
qed

lemma address_save_ok:
  assumes "address_save env db base f = Inr (ans, db')" and ok: "addresses_ok db" and env: "reads_canonical env"
  shows "addresses_ok db' \<and> db_prefixes db' = db_prefixes db"
  using assms(1)
proof (cases rule: address_save_cases)
  case 1
  with ok show ?thesis by simp
next
  case (2 r p address)
  have "\<exists>a. ip_address t = Inr a \<and> t = ip_str a" if "typed_address env f = Some t" for t
    using env that by (auto simp: typed_address_def reads_canonical_def split: if_splits)
  from assigned_text [OF 2(6) this] obtain t a where t: "address = Some t" "ip_address t = Inr a" "t = ip_str a"
      "\<not> exists_in_vrf db t (px_vrf p) (ip_id base)" by blast
  have "canonical r" using t 2(7) by (auto simp: canonical_def addr_of_def)
  moreover have "\<not> exists_in_vrf db (ip_text r) (address_vrf db r) (ip_id r)" using t 2(3,5,7) by (simp add: address_vrf_def)
  moreover have "ip_iface r \<noteq> None \<longrightarrow> deref (find_iface db) (ip_iface r) \<noteq> None"
    using 2(8) by (auto simp: bad_ref_def deref_def split: option.splits)
  ultimately show ?thesis using saved_address_ok [OF ok 2(4)] 2(2) by simp
qed

section \<open>Prefixes\<close>

lemma prefix_save_cases:
  assumes "prefix_save env db base f = Some (Inr (ans, db'))"
  shows "db' = db \<and> ans \<noteq> Done \<or> (\<exists>p. ans = Done \<and> db' = save_prefix db p \<and> px_id p = px_id base \<and> validate_prefix db p = Some (Inr ())
    \<and> \<not> bad_ref (find_prefix db) (px_parent p))"
proof -
  let ?p = "fill_prefix env db f base"
  obtain v where v: "validate_prefix db ?p = Some v" using assms by (auto simp: prefix_save_def Let_def split: option.splits)
  show ?thesis
  proof (cases v)
    case (Inl e)
    with assms v show ?thesis by (cases e) (auto simp: prefix_save_def Let_def)
  next
    case (Inr u)
    show ?thesis
    proof (cases "prefix_field_errors env db f = [] \<and> \<not> prefix_taken db ?p")
      case False
      then have "db' = db" "ans \<noteq> Done"
        using assms v Inr by (cases "prefix_field_errors env db f = []"; simp add: prefix_save_def Let_def; fastforce)+
      then show ?thesis by simp
    next
      case True
      have "\<not> bad_ref (find_prefix db) (pf_parent f)" using True by (auto simp: prefix_field_errors_def split: if_splits)
      moreover have "px_parent ?p = pf_parent f" "px_id ?p = px_id base" using True by (simp_all add: fill_prefix_def)
      moreover have "ans = Done" "db' = save_prefix db ?p" using True assms v Inr by (auto simp: prefix_save_def Let_def)
      ultimately show ?thesis using v Inr by auto
    qed
  qed
qed

lemma save_row_fresh_append: "ident r \<notin> ident ` set rs \<Longrightarrow> save_row ident r rs = rs @ [r]"
  by (induction rs) auto

lemma save_fresh_prefix: "px_id p \<notin> px_id ` set (db_prefixes db) \<Longrightarrow> save_prefix db p = add_prefix db p"
  by (simp add: save_prefix_def add_prefix_def save_row_fresh_append)

text \<open>Addresses stay as they are when the prefixes they lie in keep their networks and VRFs.\<close>

lemma addresses_frame:
  assumes ok: "addresses_ok db" and ips: "db_ips db' = db_ips db"
    and same: "\<And>i p. find_prefix db i = Some p \<Longrightarrow> (\<exists>r \<in> set (db_ips db). ip_prefix r = Some i) \<Longrightarrow>
      \<exists>p'. find_prefix db' i = Some p' \<and> px_cidr p' = px_cidr p \<and> px_vrf p' = px_vrf p"
  shows "addresses_ok db'"
proof -
  have there: "\<exists>p p'. deref (find_prefix db) (ip_prefix r) = Some p \<and> deref (find_prefix db') (ip_prefix r) = Some p'
      \<and> net_of p' = net_of p \<and> px_vrf p' = px_vrf p" if "r \<in> set (db_ips db)" for r
  proof -
    have "placed db r" using ok that unfolding addresses_ok_def by blast
    then obtain p where p: "deref (find_prefix db) (ip_prefix r) = Some p" by (auto simp: placed_def)
    then obtain i where i: "ip_prefix r = Some i" "find_prefix db i = Some p" by (auto simp: deref_def split: option.splits)
    from same [OF i(2)] i(1) that obtain p' where "find_prefix db' i = Some p'" "px_cidr p' = px_cidr p" "px_vrf p' = px_vrf p" by blast
    with p i show ?thesis by (auto simp: deref_def net_of_def)
  qed
  have vrf: "address_vrf db' r = address_vrf db r" if "r \<in> set (db_ips db)" for r
    using there [OF that] by (auto simp: address_vrf_def)
  have placed: "placed db' r" if "r \<in> set (db_ips db)" "placed db r" for r
    using there [OF that(1)] that(2) by (auto simp: placed_def)
  have primary: "one_primary db'" using ok by (simp add: addresses_ok_def one_primary_def ips)
  have unique: "\<forall>r \<in> set (db_ips db). \<forall>x \<in> set (db_ips db). ip_id r \<noteq> ip_id x \<longrightarrow> address_vrf db r = address_vrf db x \<longrightarrow> addr_of r \<noteq> addr_of x"
    using ok unfolding addresses_ok_def by blast
  show ?thesis
    unfolding addresses_ok_def ips
  proof (intro conjI ballI impI primary)
    show "distinct (map ip_id (db_ips db))" using ok unfolding addresses_ok_def by blast
    show "canonical r" "placed db' r" if "r \<in> set (db_ips db)" for r
      using ok placed [OF that] that unfolding addresses_ok_def by blast+
    show "addr_of r \<noteq> addr_of x" if "r \<in> set (db_ips db)" "x \<in> set (db_ips db)" "ip_id r \<noteq> ip_id x" "address_vrf db' r = address_vrf db' x" for r x
      using unique [rule_format, OF that(1-3)] that(4) vrf [OF that(1)] vrf [OF that(2)] by simp
  qed
qed

lemma add_prefix_addresses: "addresses_ok db \<Longrightarrow> addresses_ok (add_prefix db p)"
  by (rule addresses_frame) (auto simp: add_prefix_def dest: find_prefix_add [unfolded add_prefix_def])

lemma deleted_find:
  assumes "find_prefix db j = Some q" and "j \<noteq> i" and "prefix_delete db i = Inr (Done, db')"
  shows "find_prefix db' j = Some (if px_parent q = Some i then q\<lparr>px_parent := None\<rparr> else q)"
proof -
  have db': "db_prefixes db' = map (\<lambda>p. if px_parent p = Some i then p\<lparr>px_parent := None\<rparr> else p) (filter (\<lambda>p. px_id p \<noteq> i) (db_prefixes db))"
    using assms(3) by (auto simp: prefix_delete_def split: if_splits)
  have "first_row (\<lambda>p. px_id p = j) ps = Some q \<Longrightarrow>
      first_row (\<lambda>p. px_id p = j) (map (\<lambda>p. if px_parent p = Some i then p\<lparr>px_parent := None\<rparr> else p) (filter (\<lambda>p. px_id p \<noteq> i) ps))
        = Some (if px_parent q = Some i then q\<lparr>px_parent := None\<rparr> else q)" for ps
    using assms(2) by (induction ps) auto
  then show ?thesis using assms(1) by (simp add: find_prefix_def db')
qed

lemma prefix_delete_ok:
  assumes del: "prefix_delete db i = Inr (ans, db')" and inv: "forest db" and ok: "addresses_ok db"
  shows "forest db' \<and> addresses_ok db'"
proof (cases "ans = Done")
  case False
  then have "db' = db" using del by (auto simp: prefix_delete_def split: if_splits)
  with inv ok show ?thesis by simp
next
  case True
  note del = del [unfolded True]
  let ?g = "\<lambda>p. if px_parent p = Some i then p\<lparr>px_parent := None\<rparr> else p"
  have db': "db_prefixes db' = map ?g (filter (\<lambda>p. px_id p \<noteq> i) (db_prefixes db))" "db_ips db' = db_ips db"
    and none: "\<not> (\<exists>r \<in> set (db_ips db). ip_prefix r = Some i)"
    using del by (auto simp: prefix_delete_def list_ex_iff split: if_splits)
  have g: "net_of (?g p) = net_of p" "px_site (?g p) = px_site p" "px_id (?g p) = px_id p" "same_scope (?g p) = same_scope p" "same_scope q (?g p) = same_scope q p" for p q
    by (simp_all add: net_of_def fun_eq_iff same_scope_def)
  have linked: "parent_linked db' (?g p)" if p: "p \<in> set (db_prefixes db)" for p
  proof (cases "px_parent p = Some i \<or> px_parent p = None")
    case True
    then show ?thesis by (auto simp: parent_linked_iff)
  next
    case False
    then obtain j where j: "px_parent p = Some j" "j \<noteq> i" by auto
    then obtain q where q: "find_prefix db j = Some q" "same_scope p q" "strictly_inside p q"
      using inv p unfolding forest_def parent_linked_iff by blast
    from deleted_find [OF q(1) j(2) del] q(2,3) j g show ?thesis by (auto simp: parent_linked_iff strictly_inside_iff)
  qed
  have "distinct (map px_id (db_prefixes db'))" using inv g(3) by (simp add: forest_def db' distinct_map_filter comp_def)
  moreover have "px_site p \<noteq> None \<and> net_of p \<noteq> None \<and> parent_linked db' p" if p: "p \<in> set (db_prefixes db')" for p
  proof -
    obtain q where q: "q \<in> set (db_prefixes db)" "p = ?g q" using p by (auto simp: db')
    have "px_site q \<noteq> None" "net_of q \<noteq> None" using inv q(1) by (simp_all add: forest_def)
    then show ?thesis using linked [OF q(1)] unfolding q(2) g by simp
  qed
  moreover have "net_of p \<noteq> net_of q" if pq: "p \<in> set (db_prefixes db')" "q \<in> set (db_prefixes db')" "px_id p \<noteq> px_id q" "same_scope p q" for p q
  proof -
    obtain p' q' where *: "p' \<in> set (db_prefixes db)" "p = ?g p'" "q' \<in> set (db_prefixes db)" "q = ?g q'" using pq(1,2) by (auto simp: db')
    have "px_id p' \<noteq> px_id q'" "same_scope p' q'" using pq(3,4) unfolding * g by simp_all
    then have "net_of p' \<noteq> net_of q'" using inv *(1,3) unfolding forest_def by blast
    then show ?thesis unfolding * g .
  qed
  ultimately have "forest db'" unfolding forest_def by blast
  moreover have "addresses_ok db'"
  proof (rule addresses_frame [OF ok db'(2)])
    fix j p assume p: "find_prefix db j = Some p" and "\<exists>r \<in> set (db_ips db). ip_prefix r = Some j"
    then have "j \<noteq> i" using none by auto
    from deleted_find [OF p this del] show "\<exists>p'. find_prefix db' j = Some p' \<and> px_cidr p' = px_cidr p \<and> px_vrf p' = px_vrf p" by auto
  qed
  ultimately show ?thesis ..
qed

section \<open>Changes of prefixes\<close>

text \<open>
  The change of a prefix is validated against its parent and its scope. What it may leave behind is below the prefix: a prefix with
  it as parent that is of another scope or not inside its network, or one of its addresses that is outside of it or is now twice in the VRF.
\<close>

definition misfit :: "ipam_db \<Rightarrow> uid \<Rightarrow> bool" where
  "misfit db i \<longleftrightarrow> (\<exists>p. find_prefix db i = Some p \<and>
     ((\<exists>q \<in> set (db_prefixes db). px_parent q = Some i \<and> \<not> (same_scope q p \<and> strictly_inside q p))
    \<or> (\<exists>r \<in> set (db_ips db). ip_prefix r = Some i \<and> (\<not> placed db r
        \<or> (\<exists>x \<in> set (db_ips db). ip_id x \<noteq> ip_id r \<and> address_vrf db x = address_vrf db r \<and> addr_of x = addr_of r)))))"

lemma misfit_wrong:
  assumes "misfit db i" and "forest db"
  shows "\<not> addresses_ok db"
proof
  assume ok: "addresses_ok db"
  obtain p where p: "find_prefix db i = Some p" and below:
      "(\<exists>q \<in> set (db_prefixes db). px_parent q = Some i \<and> \<not> (same_scope q p \<and> strictly_inside q p))
     \<or> (\<exists>r \<in> set (db_ips db). ip_prefix r = Some i \<and> (\<not> placed db r
        \<or> (\<exists>x \<in> set (db_ips db). ip_id x \<noteq> ip_id r \<and> address_vrf db x = address_vrf db r \<and> addr_of x = addr_of r)))"
    using assms(1) unfolding misfit_def by blast
  from below show False
  proof (elim disjE bexE conjE)
    fix q assume "q \<in> set (db_prefixes db)" "px_parent q = Some i" and no: "\<not> (same_scope q p \<and> strictly_inside q p)"
    then have "parent_linked db q" using assms(2) by (simp add: forest_def)
    with p no \<open>px_parent q = Some i\<close> show False by (simp add: parent_linked_iff)
  qed (use ok in \<open>auto simp: addresses_ok_def\<close>)
qed

lemma find_saved_prefix: "find_prefix (save_prefix db p) j = (if j = px_id p then Some p else find_prefix db j)"
  by (simp add: find_prefix_def save_prefix_def find_save_row)

lemma changed_prefix_forest:
  assumes inv: "forest db" and valid: "validate_prefix db p = Some (Inr ())" and fk: "\<not> bad_ref (find_prefix db) (px_parent p)"
    and fits: "\<And>q. q \<in> set (db_prefixes (save_prefix db p)) \<Longrightarrow> px_parent q = Some (px_id p) \<Longrightarrow> same_scope q p \<and> strictly_inside q p"
  shows "forest (save_prefix db p)"
proof -
  let ?db = "save_prefix db p"
  from valid inv have "prefix_ok db p" using validate_prefix_decides by blast
  then obtain n where p: "px_site p \<noteq> None" "parent_fits db p" "net_of p = Some n" "hierarchy_fits db p n"
    by (auto simp: prefix_ok_def)
  have dist: "distinct (map px_id (db_prefixes db))" using inv by (simp add: forest_def)
  have rows: "q = p \<or> q \<in> set (db_prefixes db) \<and> px_id q \<noteq> px_id p" if "q \<in> set (db_prefixes ?db)" for q
    using that dist by (auto simp: save_prefix_def in_save_row)
  have linked: "parent_linked ?db q" if q: "q \<in> set (db_prefixes ?db)" for q
    unfolding parent_linked_iff
  proof (intro allI impI)
    fix k assume k: "px_parent q = Some k"
    show "\<exists>r. find_prefix ?db k = Some r \<and> same_scope q r \<and> strictly_inside q r"
    proof (cases "k = px_id p")
      case True
      with fits [OF q] k show ?thesis by (simp add: find_saved_prefix)
    next
      case False
      have "\<exists>r. find_prefix db k = Some r \<and> same_scope q r \<and> strictly_inside q r"
        using rows [OF q]
      proof
        assume "q = p"
        with p(2) fk k show ?thesis by (auto simp: parent_fits_def bad_ref_def deref_def split: option.splits)
      next
        assume "q \<in> set (db_prefixes db) \<and> px_id q \<noteq> px_id p"
        with inv k show ?thesis unfolding forest_def parent_linked_iff by blast
      qed
      with False show ?thesis by (simp add: find_saved_prefix)
    qed
  qed
  have diff: "net_of q \<noteq> net_of p" if "q \<in> set (db_prefixes db)" "px_id q \<noteq> px_id p" "same_scope p q" for q
    using that p(3,4) by (auto simp: hierarchy_fits_def scope_others_def)
  have sym: "same_scope q p \<longleftrightarrow> same_scope p q" for q by (auto simp: same_scope_def)
  have old: "net_of q \<noteq> net_of r" if "q \<in> set (db_prefixes db)" "r \<in> set (db_prefixes db)" "px_id q \<noteq> px_id r" "same_scope q r" for q r
    using inv that unfolding forest_def by blast
  show ?thesis
    unfolding forest_def
  proof (intro conjI ballI impI)
    show "distinct (map px_id (db_prefixes ?db))" using dist by (simp add: save_prefix_def distinct_save_row)
    show "px_site q \<noteq> None" "net_of q \<noteq> None" "parent_linked ?db q" if "q \<in> set (db_prefixes ?db)" for q
      using rows [OF that] linked [OF that] p(1,3) inv by (auto simp: forest_def)
    show "net_of q \<noteq> net_of r" if "q \<in> set (db_prefixes ?db)" "r \<in> set (db_prefixes ?db)" "px_id q \<noteq> px_id r" "same_scope q r" for q r
      using rows [OF that(1)] rows [OF that(2)] that(3,4) diff [of q] diff [of r] old [of q r] sym by metis
  qed
qed

lemma changed_prefix_addresses:
  assumes ok: "addresses_ok db"
    and fits: "\<And>r. r \<in> set (db_ips db) \<Longrightarrow> ip_prefix r = Some (px_id p) \<Longrightarrow> placed (save_prefix db p) r
      \<and> (\<forall>x \<in> set (db_ips db). ip_id x \<noteq> ip_id r \<longrightarrow> address_vrf (save_prefix db p) x = address_vrf (save_prefix db p) r \<longrightarrow> addr_of x \<noteq> addr_of r)"
  shows "addresses_ok (save_prefix db p)"
proof -
  let ?db = "save_prefix db p"
  have ips: "db_ips ?db = db_ips db" by (simp add: save_prefix_def)
  have same: "deref (find_prefix ?db) (ip_prefix r) = deref (find_prefix db) (ip_prefix r)" if "ip_prefix r \<noteq> Some (px_id p)" for r
    using that by (auto simp: deref_def find_saved_prefix split: option.splits)
  have old: "placed db r" "canonical r" if "r \<in> set (db_ips db)" for r using ok that by (simp_all add: addresses_ok_def)
  have unique: "addr_of r \<noteq> addr_of x" if "r \<in> set (db_ips db)" "x \<in> set (db_ips db)" "ip_id r \<noteq> ip_id x" "address_vrf db r = address_vrf db x" for r x
    using ok that unfolding addresses_ok_def by blast
  show ?thesis
    unfolding addresses_ok_def ips
  proof (intro conjI ballI impI)
    show "distinct (map ip_id (db_ips db))" using ok by (simp add: addresses_ok_def)
    show "one_primary ?db" using ok by (simp add: addresses_ok_def one_primary_def ips)
    show "canonical r" if "r \<in> set (db_ips db)" for r using old [OF that] by simp
    show "placed ?db r" if "r \<in> set (db_ips db)" for r
      using old [OF that] fits [OF that] same [of r] by (cases "ip_prefix r = Some (px_id p)") (simp_all add: placed_def)
    show "addr_of r \<noteq> addr_of x" if "r \<in> set (db_ips db)" "x \<in> set (db_ips db)" "ip_id r \<noteq> ip_id x" "address_vrf ?db r = address_vrf ?db x" for r x
    proof (cases "ip_prefix r = Some (px_id p) \<or> ip_prefix x = Some (px_id p)")
      case True
      then show ?thesis using fits [of r] fits [of x] that by metis
    next
      case False
      then show ?thesis using unique [OF that(1-3)] that(4) same [of r] same [of x] by (simp add: address_vrf_def)
    qed
  qed
qed

lemma prefix_update_ok:
  assumes upd: "prefix_update env db i f = Some (Inr (ans, db'))" and inv: "forest db" and ok: "addresses_ok db"
  shows "forest db' \<and> addresses_ok db' \<or> ans = Done \<and> misfit db' i"
proof -
  from upd consider "db' = db" | p where "ans = Done" "db' = save_prefix db p" "px_id p = i" "validate_prefix db p = Some (Inr ())" "\<not> bad_ref (find_prefix db) (px_parent p)"
    by (auto simp: prefix_update_def dest!: prefix_save_cases find_prefix_Some split: option.splits)
  then show ?thesis
  proof cases
    case 2
    have ips: "db_ips (save_prefix db p) = db_ips db" by (simp add: save_prefix_def)
    have "forest db' \<and> addresses_ok db'" if "\<not> misfit db' i"
    proof
      have fits: "find_prefix db' i = Some q \<Longrightarrow>
          (\<forall>r \<in> set (db_prefixes db'). px_parent r = Some i \<longrightarrow> same_scope r q \<and> strictly_inside r q)
          \<and> (\<forall>r \<in> set (db_ips db'). ip_prefix r = Some i \<longrightarrow> placed db' r
             \<and> (\<forall>x \<in> set (db_ips db'). ip_id x \<noteq> ip_id r \<longrightarrow> address_vrf db' x = address_vrf db' r \<longrightarrow> addr_of x \<noteq> addr_of r))" for q
        using that unfolding misfit_def by blast
      have "find_prefix db' i = Some p" by (simp add: 2(2,3) find_saved_prefix)
      note fits = fits [OF this, unfolded 2(2) ips]
      show "forest db'" unfolding 2(2) using fits by (intro changed_prefix_forest [OF inv 2(4,5)]) (simp add: 2(3))
      show "addresses_ok db'" unfolding 2(2) using fits by (intro changed_prefix_addresses [OF ok]) (simp add: 2(3))
    qed
    with 2(1) show ?thesis by blast
  qed (use inv ok in simp)
qed

lemma prefix_update_ips: "prefix_update env db i f = Some (Inr (ans, db')) \<Longrightarrow> db_ips db' = db_ips db"
  by (auto simp: prefix_update_def save_prefix_def dest!: prefix_save_cases split: option.splits)

section \<open>All requests\<close>

text \<open>Every request that the pages answer; one that ends with an exception or never returns writes nothing.\<close>

inductive ipam_step :: "ipam_env \<Rightarrow> ipam_db \<Rightarrow> ipam_db \<Rightarrow> bool" for env where
  address_create: "address_create env db i f = Inr (ans, db') \<Longrightarrow> ipam_step env db db'"
| address_update: "address_update env db i f = Inr (ans, db') \<Longrightarrow> ipam_step env db db'"
| address_delete: "ipam_step env db (snd (address_delete db i))"
| prefix_create: "prefix_create env db i f = Some (Inr (ans, db')) \<Longrightarrow> i \<notin> px_id ` set (db_prefixes db) \<Longrightarrow> ipam_step env db db'"
| prefix_update: "prefix_update env db i f = Some (Inr (ans, db')) \<Longrightarrow> ipam_step env db db'"
| prefix_delete: "prefix_delete db i = Inr (ans, db') \<Longrightarrow> ipam_step env db db'"
| vrf_save: "ipam_step env db (snd (vrf_save env db i g))"
| vrf_delete: "vrf_delete db i = Inr (ans, db') \<Longrightarrow> ipam_step env db db'"

lemma vrf_tables:
  "db_prefixes (snd (vrf_save env db i g)) = db_prefixes db \<and> db_ips (snd (vrf_save env db i g)) = db_ips db"
  "vrf_delete db i = Inr (ans, db') \<Longrightarrow> db_prefixes db' = db_prefixes db \<and> db_ips db' = db_ips db"
  by (auto simp: vrf_save_def vrf_delete_def split: option.splits if_splits)

lemma same_prefixes_forest: "db_prefixes db' = db_prefixes db \<Longrightarrow> forest db' = forest db"
proof -
  assume p: "db_prefixes db' = db_prefixes db"
  then have f: "find_prefix db' = find_prefix db" by (simp add: fun_eq_iff find_prefix_def)
  have "parent_linked db' = parent_linked db" unfolding fun_eq_iff parent_linked_def f by simp
  with p show ?thesis by (simp add: forest_def)
qed

lemma same_tables_addresses: "db_prefixes db' = db_prefixes db \<Longrightarrow> db_ips db' = db_ips db \<Longrightarrow> addresses_ok db \<Longrightarrow> addresses_ok db'"
  by (erule addresses_frame) (auto simp: find_prefix_def)

lemma address_delete_ok:
  assumes "addresses_ok db"
  shows "addresses_ok (snd (address_delete db i)) \<and> db_prefixes (snd (address_delete db i)) = db_prefixes db"
proof -
  let ?db' = "snd (address_delete db i)"
  have p: "db_prefixes ?db' = db_prefixes db" and sub: "set (db_ips ?db') \<subseteq> set (db_ips db)" and d: "distinct (map ip_id (db_ips ?db'))"
    using assms by (auto simp: address_delete_def addresses_ok_def distinct_map_filter split: option.splits)
  have f: "find_prefix ?db' = find_prefix db" using p by (simp add: fun_eq_iff find_prefix_def)
  have "placed ?db' = placed db" "address_vrf ?db' = address_vrf db" unfolding fun_eq_iff placed_def address_vrf_def f by simp_all
  moreover have "one_primary ?db'" using assms sub unfolding addresses_ok_def one_primary_def by blast
  ultimately show ?thesis using assms sub d p unfolding addresses_ok_def by (simp add: subset_iff)
qed

lemma ipam_step_ok:
  assumes "ipam_step env db db'" and inv: "forest db" and ok: "addresses_ok db" and env: "reads_canonical env"
  shows "forest db' \<and> addresses_ok db' \<or> (\<exists>i f. prefix_update env db i f = Some (Inr (Done, db')) \<and> misfit db' i)"
  using assms(1)
proof cases
  case (address_create i f ans)
  with address_save_ok [OF _ ok env] inv same_prefixes_forest show ?thesis unfolding address_create_def by blast
next
  case (address_update i f ans)
  then have "db' = db \<or> (\<exists>r. address_save env db r f = Inr (ans, db'))" by (auto simp: address_update_def split: option.splits)
  then show ?thesis using address_save_ok [OF _ ok env] inv ok same_prefixes_forest by blast
next
  case (address_delete i)
  with address_delete_ok [OF ok] inv same_prefixes_forest show ?thesis by blast
next
  case (prefix_create i f ans)
  then have "db' = db \<or> (\<exists>p. db' = save_prefix db p \<and> px_id p = i \<and> validate_prefix db p = Some (Inr ()) \<and> \<not> bad_ref (find_prefix db) (px_parent p))"
    using prefix_save_cases [of env db "new_prefix i" f ans db'] by (auto simp: prefix_create_def new_prefix_def)
  then show ?thesis
  proof (elim disjE exE conjE)
    fix p assume p: "db' = save_prefix db p" "px_id p = i" "validate_prefix db p = Some (Inr ())" "\<not> bad_ref (find_prefix db) (px_parent p)"
    then have "px_parent p \<noteq> None \<longrightarrow> deref (find_prefix db) (px_parent p) \<noteq> None" by (auto simp: bad_ref_def deref_def split: option.splits)
    with add_prefix_forest [OF inv p(3)] prefix_create(2) p(2) have "forest (add_prefix db p)" by simp
    then show ?thesis using add_prefix_addresses [OF ok] save_fresh_prefix prefix_create(2) p(1,2) by simp
  qed (use inv ok in simp)
next
  case (prefix_update i f ans)
  with prefix_update_ok [OF _ inv ok] show ?thesis by blast
next
  case (prefix_delete i ans)
  then show ?thesis using prefix_delete_ok inv ok by blast
next
  case (vrf_save i g)
  with vrf_tables(1) [of env db i g] same_prefixes_forest same_tables_addresses inv ok show ?thesis by metis
next
  case (vrf_delete i ans)
  from vrf_tables(2) [OF this] same_prefixes_forest same_tables_addresses inv ok show ?thesis by metis
qed


section \<open>Examples\<close>

definition ex_ipam_env :: ipam_env where
  "ex_ipam_env = \<lparr>ne_uuid = (\<lambda>_. None), ne_clean_ip = (\<lambda>s. case ip_address s of Inl _ \<Rightarrow> None | Inr a \<Rightarrow> Some (ip_str a)),
     ne_device = (\<lambda>_. None), ne_sites = [1], ne_vlans = []\<rparr>"

definition ex_prefix_form :: "string \<Rightarrow> prefix_form" where
  "ex_prefix_form c = \<lparr>pf_cidr = c, pf_site = Some 1, pf_vrf = None, pf_vlan = None, pf_parent = None, pf_status = ''active'',
     pf_role = ''user'', pf_description = []\<rparr>"

definition ex_address_form :: address_form where
  "ex_address_form = \<lparr>af_interface = Some 1, af_prefix = Some 2, af_address = [], af_status = ''active'', af_role = ''primary'', af_hostname = '' h ''\<rparr>"

definition ex_stock :: ipam_db where
  "ex_stock = demo_db\<lparr>db_ips := []\<rparr>"

lemma ex_reads_canonical: "reads_canonical ex_ipam_env"
  using ip_address_valid ip_text_reads by (auto simp: reads_canonical_def ex_ipam_env_def split: sum.splits)


end
