(* ===== verification/IpamApi.thy ===== *)
theory IpamApi
  imports IpamPagesProps ScheduleApi
begin

text \<open>
  The interface for programs to the address management (\<^verbatim>\<open>api/v1/ipam\<close>): the checks of its serializers and what they
  leave out. A request is the values that the framework has read, \<open>None\<close> where a field is left out.
\<close>

section \<open>Prefixes\<close>

definition validate_cidr :: "string \<Rightarrow> exn + string" where
  "validate_cidr v =
     (case ip_network False v of
        Inr n \<Rightarrow> Inr (net_str n)
      | Inl (ValueError m) \<Rightarrow> Inl (ValidationError m)
      | Inl e \<Rightarrow> Inl e)"

record prefix_attrs =
  pa_cidr :: "string option"
  pa_site :: "uid option"
  pa_vrf :: "uid option option"
  pa_vlan :: "uid option option"
  pa_parent :: "uid option option"
  pa_status :: "prefix_status option"
  pa_role :: "prefix_role option"
  pa_description :: "string option option"

definition apply_prefix_attrs :: "prefix_attrs \<Rightarrow> prefix \<Rightarrow> prefix" where
  "apply_prefix_attrs a p = p\<lparr>px_cidr := given (pa_cidr a) (px_cidr p),
     px_site := (case pa_site a of None \<Rightarrow> px_site p | s \<Rightarrow> s),
     px_vrf := given (pa_vrf a) (px_vrf p), px_vlan := given (pa_vlan a) (px_vlan p), px_parent := given (pa_parent a) (px_parent p),
     px_status := given (pa_status a) (px_status p), px_role := given (pa_role a) (px_role p),
     px_description := given (pa_description a) (px_description p)\<rparr>"

definition api_prefix_save :: "ipam_db \<Rightarrow> prefix \<Rightarrow> prefix_attrs \<Rightarrow> exn + ipam_db" where
  "api_prefix_save db base a =
     bind_res (case pa_cidr a of None \<Rightarrow> Inr None | Some v \<Rightarrow> map_sum id Some (validate_cidr v)) (\<lambda>cidr.
       let p = apply_prefix_attrs (a\<lparr>pa_cidr := cidr\<rparr>) base
       in if prefix_taken db p then Inl (ValidationError ''The fields cidr, site, vrf must make a unique set.'')
          else Inr (save_prefix db p))"

definition api_prefix_create :: "ipam_db \<Rightarrow> uid \<Rightarrow> prefix_attrs \<Rightarrow> exn + ipam_db" where
  "api_prefix_create db i a =
     (if pa_cidr a = None \<or> pa_site a = None then Inl (ValidationError ''This field is required.'')
      else api_prefix_save db (new_prefix i) a)"

definition api_prefixes :: "request \<Rightarrow> prefix list \<Rightarrow> prefix list" where
  "api_prefixes q rows =
     (let l = or_empty (q ''length'') in if l \<noteq> [] \<and> all_digits l then filter (plen_matches l) rows else rows)"

section \<open>Addresses\<close>

record ip_attrs =
  ia_address :: "string option"
  ia_prefix :: "uid option"
  ia_interface :: "uid option option"
  ia_status :: "ip_status option"
  ia_role :: "ip_role option"
  ia_hostname :: "string option option"

definition api_address_check :: "ipam_db \<Rightarrow> ip_row option \<Rightarrow> ip_attrs \<Rightarrow> exn + unit" where
  "api_address_check db inst a =
     (let px = (case ia_prefix a of
            Some i \<Rightarrow> find_prefix db i
          | None \<Rightarrow> (case inst of None \<Rightarrow> None | Some r \<Rightarrow> deref (find_prefix db) (ip_prefix r)));
          address = (if text_true (ia_address a) then or_empty (ia_address a) else (case inst of None \<Rightarrow> [] | Some r \<Rightarrow> ip_text r))
      in case px of
           None \<Rightarrow> Inr ()
         | Some p \<Rightarrow>
             if address = [] then Inr ()
             else (case ip_address address of
                 Inl _ \<Rightarrow> Inl (ValidationError ''address: Enter a valid IP address.'')
               | Inr ip \<Rightarrow> bind_res (ip_network False (px_cidr p)) (\<lambda>net.
                   if \<not> in_net ip net then Inl (ValidationError ''address: IP must belong to the selected prefix.'')
                   else if list_ex (\<lambda>x. ip_text x = address \<and> Some (ip_id x) \<noteq> map_option ip_id inst
                       \<and> (case deref (find_prefix db) (ip_prefix x) of None \<Rightarrow> False | Some q \<Rightarrow> px_vrf q = px_vrf p)) (db_ips db)
                     then Inl (ValidationError ''address: IP address already exists in this VRF.'')
                   else Inr ())))"

definition apply_ip_attrs :: "ip_attrs \<Rightarrow> ip_row \<Rightarrow> ip_row" where
  "apply_ip_attrs a r = r\<lparr>ip_text := given (ia_address a) (ip_text r),
     ip_prefix := (case ia_prefix a of None \<Rightarrow> ip_prefix r | i \<Rightarrow> i),
     ip_iface := given (ia_interface a) (ip_iface r), ip_status := given (ia_status a) (ip_status r),
     ip_role := given (ia_role a) (ip_role r), ip_hostname := given (ia_hostname a) (ip_hostname r)\<rparr>"

definition api_address_create :: "ipam_db \<Rightarrow> uid \<Rightarrow> ip_attrs \<Rightarrow> exn + ipam_db" where
  "api_address_create db i a =
     (if ia_address a = None \<or> ia_prefix a = None then Inl (ValidationError ''This field is required.'')
      else bind_res (api_address_check db None a) (\<lambda>_. Inr (save_ip db (apply_ip_attrs a (new_address i)))))"

definition api_address_update :: "ipam_db \<Rightarrow> ip_row \<Rightarrow> ip_attrs \<Rightarrow> exn + ipam_db" where
  "api_address_update db r a = bind_res (api_address_check db (Some r) a) (\<lambda>_. Inr (save_ip db (apply_ip_attrs a r)))"

section \<open>The texts of networks\<close>

lemma no_slash_ipv6: "\<not> contains (ipv6_str i) ''/''"
proof -
  have slash: "code (CHR ''/'') = 47" by code_simp
  have hex: "CHR ''/'' \<notin> set (hex_str_nat n)" for n
  proof
    assume "CHR ''/'' \<in> set (hex_str_nat n)"
    then obtain d where "d < 16" "CHR ''/'' = hex_char d" using hex_str_chars by blast
    with code_hex_char [of d] slash show False by (auto split: if_splits)
  qed
  have part: "CHR ''/'' \<notin> set (join '':'' (hex_texts hs))" for hs
    using join_chars [of "'':''" "hex_texts hs"] hex by auto
  then show ?thesis by (auto simp: ipv6_str_def contains_char Let_def split: option.splits prod.splits)
qed

lemma network_text_reads:
  assumes "valid_net n"
  shows "ip_network strict (net_str n) = Inr n"
proof (cases "net_ver n")
  case IPv4
  with assms show ?thesis by (rule ip_network_str)
next
  case IPv6
  let ?a = "ipv6_str (net_addr n)" and ?p = "nat_str (net_plen n)"
  have s: "net_str n = ?a @ ''/'' @ ?p" by (simp add: net_str_def ip_str_def first_addr_def IPv6)
  have "split_on ''/'' (net_str n) = [?a, ?p]"
    unfolding s by (subst split_on_append [OF no_slash_ipv6]) (simp_all add: split_on_last no_slash_digits)
  then have "split_net_text (net_str n) = Some (?a, Some ?p)" by (simp add: split_net_text_def)
  moreover have "parse_ipv4 ?a = None" by (rule parse_ipv4_no_dot [OF ipv6_str_no_dot])
  moreover have "parse_ipv6 ?a = Some (net_addr n)"
    using assms IPv6 by (intro parse_ipv6_str) (auto simp: valid_net_def ver_bits_def)
  moreover have "parse_plen IPv6 ?p = Some (net_plen n)"
    using assms IPv6 by (simp add: parse_plen_def prefix_of_number_def valid_net_def)
  moreover have "mk_network strict IPv6 (net_addr n) (net_plen n) = Inr n"
    using assms IPv6 by (simp add: mk_network_def valid_net_def block_size_def dvd_eq_mod_eq_0)
  ultimately show ?thesis by (simp add: ip_network_def)
qed

text \<open>
  C39. What the interface stores as the network of a prefix is the canonical text of the network that was asked for, with the bits of
  the host cut off: reading it, strictly or not, gives that network again, and checking it once more changes nothing. So
  the pages can read every network that the interface stores.
\<close>

theorem api_cidr_reads_back:
  assumes "validate_cidr v = Inr t"
  shows "\<exists>n. ip_network False v = Inr n \<and> (\<forall>strict. ip_network strict t = Inr n) \<and> validate_cidr t = Inr t"
proof -
  obtain n where n: "ip_network False v = Inr n" "t = net_str n"
    using assms by (auto simp: validate_cidr_def split: sum.splits exn.splits)
  have "ip_network strict t = Inr n" for strict
    unfolding n(2) by (rule network_text_reads [OF ip_network_valid [OF n(1)]])
  then show ?thesis using n by (auto simp: validate_cidr_def)
qed

theorem api_cidr_reads_back_witness:
  "ip_network True ''10.1.2.0/24'' = ip_network False ''10.1.2.7/24''"
proof -
  have "validate_cidr ''10.1.2.7/24'' = Inr ''10.1.2.0/24''" by code_simp
  from api_cidr_reads_back [OF this] show ?thesis by auto
qed

text \<open>The filter by the length of a canonical network keeps the prefixes of that length.\<close>

lemma plen_matches_length:
  assumes "px_cidr p = net_str n"
  shows "plen_matches (nat_str k) p \<longleftrightarrow> net_plen n = k"
proof
  assume "net_plen n = k"
  then show "plen_matches (nat_str k) p" using assms by (simp add: plen_matches_def net_str_def endswith_def)
next
  assume m: "plen_matches (nat_str k) p"
  have digits: "CHR ''/'' \<notin> set (nat_str j)" for j using no_slash_digits [of j] by (simp add: contains_char)
  obtain u where u: "net_str n = u @ ''/'' @ nat_str k" using m assms by (auto simp: plen_matches_def endswith_suffix suffix_def)
  have "rev (nat_str (net_plen n)) @ CHR ''/'' # rev (ip_str (first_addr n)) = rev (nat_str k) @ CHR ''/'' # rev u"
    using arg_cong [OF u, of rev] by (simp add: net_str_def)
  then have "takeWhile (\<lambda>c. c \<noteq> CHR ''/'') (rev (nat_str (net_plen n)) @ CHR ''/'' # rev (ip_str (first_addr n)))
      = takeWhile (\<lambda>c. c \<noteq> CHR ''/'') (rev (nat_str k) @ CHR ''/'' # rev u)" by simp
  moreover have "takeWhile (\<lambda>c. c \<noteq> CHR ''/'') (rev (nat_str j) @ CHR ''/'' # xs) = rev (nat_str j)" for j xs
    using digits [of j] by (subst takeWhile_append2) auto
  ultimately have "nat_str (net_plen n) = nat_str k" by simp
  then show "net_plen n = k" by (metis digits_value_nat_str)
qed

section \<open>What the interface leaves out\<close>

text \<open>
  The interface never calls the validation of the rows. So it stores a prefix that is equal to none but covered by others without
  naming a parent, a second primary address of an interface, and an address on an interface at another site.
\<close>

definition no_prefix_attrs :: prefix_attrs where
  "no_prefix_attrs = \<lparr>pa_cidr = None, pa_site = None, pa_vrf = None, pa_vlan = None, pa_parent = None, pa_status = None,
     pa_role = None, pa_description = None\<rparr>"

definition no_ip_attrs :: ip_attrs where
  "no_ip_attrs = \<lparr>ia_address = None, ia_prefix = None, ia_interface = None, ia_status = None, ia_role = None, ia_hostname = None\<rparr>"

lemma api_breaks_forest:
  "case api_prefix_create demo_db 9 (no_prefix_attrs\<lparr>pa_cidr := Some ''11.0.0.0/8'', pa_site := Some 1, pa_parent := Some (Some 2)\<rparr>) of
     Inl _ \<Rightarrow> False | Inr db \<Rightarrow> \<not> forest db"
  unfolding forest_def by code_simp

lemma api_second_primary:
  "case api_address_create demo_db 9 (no_ip_attrs\<lparr>ia_address := Some ''10.1.2.5'', ia_prefix := Some 2, ia_interface := Some (Some 1),
       ia_role := Some Primary\<rparr>) of
     Inl _ \<Rightarrow> False | Inr db \<Rightarrow> \<not> one_primary db"
  unfolding one_primary_def by code_simp

section \<open>Changes of prefixes\<close>

text \<open>A change of a prefix is checked against its parent and its scope, but neither against its children nor against its addresses.\<close>

lemma prefix_update_breaks_forest:
  "case prefix_update ex_ipam_env demo_db 1 (ex_prefix_form ''12.0.0.0/8'') of
     Some (Inr (a, db)) \<Rightarrow> a = Done \<and> \<not> forest db | _ \<Rightarrow> False"
  unfolding forest_def by code_simp

text \<open>The form offers a prefix as its own parent, and the validation accepts that if the new network lies in the old one.\<close>

lemma prefix_own_parent:
  "case prefix_update ex_ipam_env demo_db 1 ((ex_prefix_form ''10.0.0.0/9'')\<lparr>pf_parent := Some 1\<rparr>) of
     Some (Inr (a, db)) \<Rightarrow> a = Done \<and> map_option px_parent (find_prefix db 1) = Some (Some 1) | _ \<Rightarrow> False"
  by code_simp

end
