(* ===== verification/DcimApi.thy ===== *)
theory DcimApi
  imports OrganizationProps ScheduleApi DiffEngine DeviceLists
begin

text \<open>
  The interface for programs to the inventory (\<^verbatim>\<open>api/v1/dcim\<close>): the values that its serializers accept, the checks
  of their \<^verbatim>\<open>validate\<close> methods and what the view sets then store. Columns whose serializer is the list of its
  fields are given as the values that the framework has read, \<open>None\<close> where the request leaves them out.
\<close>

section \<open>References in a request\<close>

text \<open>
  A reference as it is submitted: left out, empty, a value that is not an identifier, a list or an object, an identifier.
\<close>

datatype sent = Absent | Null | Junk | Compound | Ref uid

datatype fault = Required | NotNull | Unknown | BadType | Taken

definition read_ref :: "bool \<Rightarrow> bool \<Rightarrow> uid list \<Rightarrow> sent \<Rightarrow> fault + uid option option" where
  "read_ref required nullable offered v =
     (case v of
        Absent \<Rightarrow> if required then Inl Required else Inr None
      | Null \<Rightarrow> if nullable then Inr (Some None) else Inl NotNull
      | Ref i \<Rightarrow> if i \<in> set offered then Inr (Some (Some i)) else Inl Unknown
      | _ \<Rightarrow> Inl BadType)"

text \<open>What a condition of the code makes of a value: false, true but no identifier, an identifier.\<close>

definition truthy :: "sent \<Rightarrow> uid option option" where
  "truthy v = (case v of Absent \<Rightarrow> None | Null \<Rightarrow> None | Ref i \<Rightarrow> Some (Some i) | _ \<Rightarrow> Some None)"

definition resolve_value :: "sent \<Rightarrow> sent \<Rightarrow> uid option \<Rightarrow> uid option option" where
  "resolve_value body query inst =
     (case (if body = Compound then None else truthy body) of
        Some v \<Rightarrow> Some v
      | None \<Rightarrow> (case truthy query of
          Some v \<Rightarrow> Some v
        | None \<Rightarrow> (case truthy body of Some v \<Rightarrow> Some v | None \<Rightarrow> map_option Some inst)))"

section \<open>Devices\<close>

record device_attrs =
  va_name :: "string option"
  va_ip :: "string option"
  va_mac :: "string option option"
  va_serial :: "string option option"
  va_inventory :: "string option option"
  va_site :: sent
  va_area :: sent
  va_rack :: sent
  va_query_site :: sent
  va_query_area :: sent
  va_type :: "uid option option"
  va_role :: "uid option option"
  va_image :: "string option option"
  va_status :: "string option"

text \<open>The areas and racks that the fields offer.\<close>

definition area_choices :: "db \<Rightarrow> device option \<Rightarrow> device_attrs \<Rightarrow> uid list" where
  "area_choices d inst a =
     (case resolve_value (va_site a) (va_query_site a) (map_option dev_site inst) of
        Some (Some i) \<Rightarrow> map area_id (filter (\<lambda>r. area_site r = i) (t_areas d))
      | _ \<Rightarrow> [])"

definition rack_choices :: "db \<Rightarrow> device option \<Rightarrow> device_attrs \<Rightarrow> uid list" where
  "rack_choices d inst a =
     (case resolve_value (va_area a) (va_query_area a) (map_option dev_area inst) of
        Some (Some i) \<Rightarrow> map rack_id (filter (\<lambda>r. rack_area r = i) (t_racks d))
      | _ \<Rightarrow> [])"

definition read_site :: "db \<Rightarrow> bool \<Rightarrow> device_attrs \<Rightarrow> fault + uid option option" where
  "read_site d partial a = read_ref (\<not> partial) False (map site_id (t_sites d)) (va_site a)"

definition read_area :: "db \<Rightarrow> device option \<Rightarrow> bool \<Rightarrow> device_attrs \<Rightarrow> fault + uid option option" where
  "read_area d inst partial a = read_ref (\<not> partial) False (area_choices d inst a) (va_area a)"

definition read_rack :: "db \<Rightarrow> device option \<Rightarrow> device_attrs \<Rightarrow> fault + uid option option" where
  "read_rack d inst a = read_ref False True (rack_choices d inst a) (va_rack a)"

definition unique_fault :: "bool \<Rightarrow> (device \<Rightarrow> string) \<Rightarrow> db \<Rightarrow> device option \<Rightarrow> string option \<Rightarrow> fault option" where
  "unique_fault partial col d inst v =
     (case v of
        None \<Rightarrow> if partial then None else Some Required
      | Some t \<Rightarrow> if \<exists>w \<in> set (t_devices d). col w = t \<and> Some (dev_id w) \<noteq> map_option dev_id inst then Some Taken else None)"

definition fault_of :: "fault + 'a \<Rightarrow> fault option" where
  "fault_of r = (case r of Inl f \<Rightarrow> Some f | Inr _ \<Rightarrow> None)"

definition named_faults :: "(string \<times> fault option) list \<Rightarrow> (string \<times> fault) list" where
  "named_faults fs = concat (map (\<lambda>(k, f). case f of None \<Rightarrow> [] | Some x \<Rightarrow> [(k, x)]) fs)"

definition device_faults :: "db \<Rightarrow> device option \<Rightarrow> bool \<Rightarrow> device_attrs \<Rightarrow> (string \<times> fault) list" where
  "device_faults d inst partial a = named_faults
     [(''name'', unique_fault partial dev_name d inst (va_name a)), (''management_ip'', unique_fault partial dev_ip d inst (va_ip a)),
      (''site'', fault_of (read_site d partial a)), (''area'', fault_of (read_area d inst partial a)), (''rack'', fault_of (read_rack d inst a))]"

text \<open>
  \<^verbatim>\<open>validate\<close> of the device serializer, on the references that were read: a value that is left out or empty gives
  way to the one of the stored device.
\<close>

definition merged :: "uid option option \<Rightarrow> uid option \<Rightarrow> uid option" where
  "merged v stored = (case v of Some (Some i) \<Rightarrow> Some i | _ \<Rightarrow> stored)"

definition quoted :: "string \<Rightarrow> string" where
  "quoted s = char_of (39 :: nat) # s @ [char_of (39 :: nat)]"

definition device_check :: "db \<Rightarrow> device option \<Rightarrow> uid option option \<Rightarrow> uid option option \<Rightarrow> uid option option \<Rightarrow> (string \<times> string) option" where
  "device_check d inst vs va vr =
     (let site = fk (find_site d) (merged vs (map_option dev_site inst));
          area = fk (find_area d) (merged va (map_option dev_area inst));
          rack = fk (find_rack d) (merged vr (case inst of None \<Rightarrow> None | Some v \<Rightarrow> dev_rack v))
      in case site of
           None \<Rightarrow> Some (''site'', ''A site must be specified for each device.'')
         | Some s \<Rightarrow>
            (case area of
               Some ar \<Rightarrow>
                 if area_site ar \<noteq> site_id s
                 then Some (''area'', ''Area '' @ quoted (area_name ar) @ '' does not belong to site '' @ quoted (site_name s) @ ''.'')
                 else (case rack of
                     Some r \<Rightarrow> if rack_area r \<noteq> area_id ar
                       then Some (''rack'', ''Rack '' @ quoted (rack_name r) @ '' does not belong to area '' @ quoted (area_name ar) @ ''.'')
                       else None
                   | None \<Rightarrow> None)
             | None \<Rightarrow>
                (case rack of
                   Some r \<Rightarrow> if map_option area_site (find_area d (rack_area r)) \<noteq> Some (site_id s)
                     then Some (''rack'', ''Rack '' @ quoted (rack_name r) @ '' does not belong to site '' @ quoted (site_name s) @ ''.'')
                     else None
                 | None \<Rightarrow> None)))"

text \<open>
  The check normalises the serial number of the device and not the one of the request, which is stored as it came.
\<close>

definition fill_device :: "device_attrs \<Rightarrow> uid option option \<Rightarrow> uid option option \<Rightarrow> uid option option \<Rightarrow> device \<Rightarrow> device" where
  "fill_device a vs va vr v = v\<lparr>dev_name := given (va_name a) (dev_name v), dev_ip := given (va_ip a) (dev_ip v),
     dev_mac := given (va_mac a) (dev_mac v), dev_serial := given (va_serial a) (normalize_serial (dev_serial v)),
     dev_inventory := given (va_inventory a) (dev_inventory v),
     dev_site := (case vs of Some (Some i) \<Rightarrow> i | _ \<Rightarrow> dev_site v), dev_area := (case va of Some (Some i) \<Rightarrow> i | _ \<Rightarrow> dev_area v),
     dev_rack := given vr (dev_rack v), dev_type := given (va_type a) (dev_type v), dev_role := given (va_role a) (dev_role v),
     dev_image := given (va_image a) (dev_image v), dev_status := given (va_status a) (dev_status v)\<rparr>"

datatype api_reply = Missing | Faulty "(string \<times> fault) list" | Refused "(string \<times> string) list" | Done

definition api_device_save :: "db \<Rightarrow> device option \<Rightarrow> bool \<Rightarrow> device \<Rightarrow> device_attrs \<Rightarrow> exn + (api_reply \<times> db)" where
  "api_device_save d inst partial base a =
     (case device_faults d inst partial a of
        f # fs \<Rightarrow> Inr (Faulty (f # fs), d)
      | [] \<Rightarrow> (case (read_site d partial a, read_area d inst partial a, read_rack d inst a) of
          (Inr vs, Inr va, Inr vr) \<Rightarrow>
            (case device_check d inst vs va vr of
               Some e \<Rightarrow> Inr (Refused [e], d)
             | None \<Rightarrow> bind_res (save_device d (fill_device a vs va vr base)) (\<lambda>d'. Inr (Done, d')))
        | _ \<Rightarrow> Inr (Faulty [], d)))"

datatype device_request = CreateDevice uid device_attrs | UpdateDevice uid bool device_attrs | DestroyDevice uid

definition api_devices :: "db \<Rightarrow> device_request \<Rightarrow> exn + (api_reply \<times> db)" where
  "api_devices d q =
     (case q of
        CreateDevice i a \<Rightarrow> api_device_save d None False (new_device i [] [] 0 0) a
      | UpdateDevice i partial a \<Rightarrow>
          (case find_device d i of None \<Rightarrow> Inr (Missing, d) | Some v \<Rightarrow> api_device_save d (Some v) partial v a)
      | DestroyDevice i \<Rightarrow>
          (case find_device d i of None \<Rightarrow> Inr (Missing, d) | Some v \<Rightarrow> Inr (Done, delete_device d v)))"

definition after_device :: "device_request \<Rightarrow> db \<Rightarrow> db" where
  "after_device q d = (case api_devices d q of Inl _ \<Rightarrow> d | Inr (_, d') \<Rightarrow> d')"

section \<open>Modules\<close>

record module_attrs =
  ma_name :: "string option"
  ma_device :: "uid option"
  ma_inventory :: "string option option"
  ma_description :: "string option option"
  ma_vendor :: "uid option option"
  ma_serial :: "string option option"

text \<open>
  The serial number is checked on the stored row, or on a new one with its identifier, which the check changes: the device
  and the normalised serial number stay with it. The columns of the request are written over them.
\<close>

definition api_module_check :: "db \<Rightarrow> dev_module \<Rightarrow> module_attrs \<Rightarrow> field_errs + dev_module" where
  "api_module_check d base a =
     validate_module_serial d (base\<lparr>mod_device := given (ma_device a) (mod_device base), mod_serial := given (ma_serial a) (mod_serial base)\<rparr>)"

definition fill_module :: "module_attrs \<Rightarrow> dev_module \<Rightarrow> dev_module" where
  "fill_module a m = m\<lparr>mod_name := given (ma_name a) (mod_name m), mod_device := given (ma_device a) (mod_device m),
     mod_inventory := given (ma_inventory a) (mod_inventory m), mod_description := given (ma_description a) (mod_description m),
     mod_vendor := given (ma_vendor a) (mod_vendor m), mod_serial := given (ma_serial a) (mod_serial m)\<rparr>"

definition api_module_create :: "db \<Rightarrow> uid \<Rightarrow> module_attrs \<Rightarrow> api_reply \<times> db" where
  "api_module_create d i a =
     (case named_faults [(''name'', if ma_name a = None then Some Required else None), (''device'', if ma_device a = None then Some Required else None)] of
        f # fs \<Rightarrow> (Faulty (f # fs), d)
      | [] \<Rightarrow> (case api_module_check d (new_module i 0 []) a of
          Inl es \<Rightarrow> (Refused es, d)
        | Inr _ \<Rightarrow> (Done, save_module d (fill_module a (new_module i 0 [])))))"

definition api_module_update :: "db \<Rightarrow> uid \<Rightarrow> module_attrs \<Rightarrow> api_reply \<times> db" where
  "api_module_update d i a =
     (case first_row (\<lambda>m. mod_id m = i) (t_modules d) of
        None \<Rightarrow> (Missing, d)
      | Some m \<Rightarrow> (case api_module_check d m a of
          Inl es \<Rightarrow> (Refused es, d)
        | Inr checked \<Rightarrow> (Done, save_module d (fill_module a checked))))"

section \<open>Areas, racks and sites\<close>

record area_attrs =
  aa_name :: "string option"
  aa_parent :: "uid option option"
  aa_site :: "uid option"

definition fill_area :: "area_attrs \<Rightarrow> area \<Rightarrow> area" where
  "fill_area a r = r\<lparr>area_name := given (aa_name a) (area_name r), area_parent := given (aa_parent a) (area_parent r),
     area_site := given (aa_site a) (area_site r)\<rparr>"

definition area_check :: "db \<Rightarrow> area option \<Rightarrow> area_attrs \<Rightarrow> (string \<times> string) option" where
  "area_check d inst a =
     (let site = (case aa_site a of None \<Rightarrow> map_option area_site inst | s \<Rightarrow> s);
          parent = fk (find_area d) (merged (aa_parent a) (case inst of None \<Rightarrow> None | Some r \<Rightarrow> area_parent r))
      in case (parent, site) of
           (Some p, Some s) \<Rightarrow> if area_site p \<noteq> s then Some (''parent'', ''Parent area must belong to the same site as this area.'') else None
         | _ \<Rightarrow> None)"

text \<open>The framework checks the columns that are unique together before; a request that it refuses writes nothing.\<close>

definition api_area_save :: "places \<Rightarrow> area option \<Rightarrow> area \<Rightarrow> area_attrs \<Rightarrow> api_reply \<times> places" where
  "api_area_save p inst base a =
     (case write_area (fill_area a base) (pl_db p) of
        Inl _ \<Rightarrow> (Refused [(''non_field_errors'', ''The fields site, name, parent must make a unique set.'')], p)
      | Inr d \<Rightarrow> (case area_check (pl_db p) inst a of
          Some e \<Rightarrow> (Refused [e], p)
        | None \<Rightarrow> (Done, p\<lparr>pl_db := d\<rparr>)))"

definition api_area_create :: "places \<Rightarrow> uid \<Rightarrow> area_attrs \<Rightarrow> api_reply \<times> places" where
  "api_area_create p i a =
     (case (aa_name a, aa_site a) of
        (Some n, Some s) \<Rightarrow> api_area_save p None \<lparr>area_id = i, area_name = n, area_parent = None, area_site = s\<rparr> a
      | _ \<Rightarrow> (Faulty (named_faults [(''name'', if aa_name a = None then Some Required else None),
                (''site'', if aa_site a = None then Some Required else None)]), p))"

definition api_area_update :: "places \<Rightarrow> uid \<Rightarrow> area_attrs \<Rightarrow> api_reply \<times> places" where
  "api_area_update p i a = (case find_area (pl_db p) i of None \<Rightarrow> (Missing, p) | Some r \<Rightarrow> api_area_save p (Some r) r a)"

definition api_destroy :: "(db \<Rightarrow> uid \<Rightarrow> 'r option) \<Rightarrow> (uid \<Rightarrow> places \<Rightarrow> exn + places) \<Rightarrow> uid \<Rightarrow> places \<Rightarrow> exn + (api_reply \<times> places)" where
  "api_destroy found delete i p =
     (case found (pl_db p) i of None \<Rightarrow> Inr (Missing, p) | Some _ \<Rightarrow> bind_res (delete i p) (\<lambda>p'. Inr (Done, p')))"

definition api_area_destroy :: "uid \<Rightarrow> places \<Rightarrow> exn + (api_reply \<times> places)" where
  "api_area_destroy = api_destroy find_area delete_area"

definition api_rack_destroy :: "uid \<Rightarrow> places \<Rightarrow> exn + (api_reply \<times> places)" where
  "api_rack_destroy = api_destroy find_rack delete_rack"

definition api_site_destroy :: "uid \<Rightarrow> places \<Rightarrow> exn + (api_reply \<times> places)" where
  "api_site_destroy = api_destroy find_site delete_site"

definition api_rack_save :: "places \<Rightarrow> rack \<Rightarrow> string option \<Rightarrow> uid option \<Rightarrow> api_reply \<times> places" where
  "api_rack_save p base name area =
     (case write_rack (base\<lparr>rack_name := given name (rack_name base), rack_area := given area (rack_area base)\<rparr>) (pl_db p) of
        Inl _ \<Rightarrow> (Refused [(''non_field_errors'', ''The fields name, area must make a unique set.'')], p)
      | Inr d \<Rightarrow> (Done, p\<lparr>pl_db := d\<rparr>))"

definition api_rack_update :: "places \<Rightarrow> uid \<Rightarrow> string option \<Rightarrow> uid option \<Rightarrow> api_reply \<times> places" where
  "api_rack_update p i name area =
     (case find_rack (pl_db p) i of None \<Rightarrow> (Missing, p) | Some r \<Rightarrow> api_rack_save p r name area)"

definition api_racks :: "db \<Rightarrow> uid option \<Rightarrow> rack list" where
  "api_racks d area = (case area of None \<Rightarrow> t_racks d | Some i \<Rightarrow> filter (\<lambda>r. rack_area r = i) (t_racks d))"

section \<open>Configurations\<close>

definition api_configs :: "uid option \<Rightarrow> config list \<Rightarrow> config list" where
  "api_configs k cs = (case k of None \<Rightarrow> rev (sort_key cf_collected cs) | Some i \<Rightarrow> config_history i cs)"

datatype config_reply = ConfigList "config list" | OneConfig config | NotThere | NeedsDevice | ConfigDiff uid uid string

definition api_config_list :: "uid option \<Rightarrow> config list \<Rightarrow> config_reply" where
  "api_config_list k cs = (if k = None then NeedsDevice else ConfigList (api_configs k cs))"

definition api_config_latest :: "uid option \<Rightarrow> config list \<Rightarrow> config_reply" where
  "api_config_latest k cs = (case api_configs k cs of [] \<Rightarrow> NotThere | c # _ \<Rightarrow> OneConfig c)"

definition api_config_diff :: "uid option \<Rightarrow> config list \<Rightarrow> uid \<Rightarrow> uid \<Rightarrow> config_reply" where
  "api_config_diff k cs i j =
     (case (first_row (\<lambda>c. cf_id c = i) (api_configs k cs), first_row (\<lambda>c. cf_id c = j) (api_configs k cs)) of
        (Some c, Some old) \<Rightarrow> ConfigDiff (cf_id old) (cf_id c) (generate_diff (Some (cf_text old)) (Some (cf_text c)))
      | _ \<Rightarrow> NotThere)"

definition config_size :: "config \<Rightarrow> nat" where
  "config_size c = length (cf_text c)"

section \<open>Reachability in the answers\<close>

definition runtime_flag :: "(runtime \<Rightarrow> bool) \<Rightarrow> db \<Rightarrow> device \<Rightarrow> bool" where
  "runtime_flag f d v = (case first_row (\<lambda>r. rt_device r = dev_id v) (t_runtimes d) of None \<Rightarrow> False | Some r \<Rightarrow> f r)"

definition shown_uptime :: "db \<Rightarrow> device \<Rightarrow> int option" where
  "shown_uptime d v = (case first_row (\<lambda>r. rt_device r = dev_id v) (t_runtimes d) of None \<Rightarrow> None | Some r \<Rightarrow> rt_uptime r)"

end
