(* ===== verification/DcimApiProps.thy ===== *)
theory DcimApiProps
  imports DcimApi DeviceListsProps
begin

text \<open>
  What the interface to the inventory guarantees and what it does not: devices stay inside their site and area, and the
  occupancy of the racks stays exact.
\<close>

section \<open>Devices in their places\<close>

definition device_placed :: "db \<Rightarrow> device \<Rightarrow> bool" where
  "device_placed d v \<longleftrightarrow> map_option area_site (find_area d (dev_area v)) = Some (dev_site v)
     \<and> (case dev_rack v of None \<Rightarrow> True | Some r \<Rightarrow> map_option rack_area (find_rack d r) = Some (dev_area v))"

definition devices_ok :: "db \<Rightarrow> bool" where
  "devices_ok d \<longleftrightarrow> occupancy_exact d \<and> distinct (map dev_id (t_devices d)) \<and> (\<forall>v \<in> set (t_devices d). device_placed d v)"

lemma racks_refresh: "map_option rack_area (find_rack (refresh_rack p d) r) = map_option rack_area (find_rack d r)"
proof (cases p)
  case (Some i)
  have "map_option rack_area (first_row (\<lambda>k. rack_id k = r) (update_where (\<lambda>k. rack_id k = i) (\<lambda>k. k\<lparr>rack_occupied := n\<rparr>) ks))
      = map_option rack_area (first_row (\<lambda>k. rack_id k = r) ks)" for n ks
    by (induction ks) (auto simp: update_where_def)
  with Some show ?thesis by (simp add: find_rack_def refresh_racks)
qed (simp add: refresh_rack_def)

lemma placed_same:
  assumes "t_areas d' = t_areas d" and "\<And>r. map_option rack_area (find_rack d' r) = map_option rack_area (find_rack d r)"
  shows "device_placed d' v = device_placed d v"
  using assms by (simp add: device_placed_def find_area_def split: option.split)

lemma save_keeps_placed:
  assumes "save_device d v = Inr d'"
  shows "device_placed d' w = device_placed d w"
proof -
  obtain d1 where "write_device d v = Inr d1" and d': "d' = d1 \<or> (\<exists>r. d' = refresh_rack r d1) \<or> (\<exists>r q. d' = refresh_rack r (refresh_rack q d1))"
    using assms by (fastforce simp: save_device_def bind_res_eq_Inr Let_def split: if_splits)
  from this(1) have "t_areas d1 = t_areas d" "t_racks d1 = t_racks d" by (auto simp: write_device_def split: if_splits)
  then have "map_option rack_area (find_rack d1 r) = map_option rack_area (find_rack d r)" for r by (simp add: find_rack_def)
  with d' have "map_option rack_area (find_rack d' r) = map_option rack_area (find_rack d r)" for r by (auto simp: racks_refresh)
  then show ?thesis by (rule placed_same [OF save_device_keeps(3) [OF assms]])
qed

lemma saved_devices_ok:
  assumes "devices_ok d" and "save_device d v = Inr d'" and "device_placed d v"
  shows "devices_ok d'"
proof -
  from assms(1) have d: "occupancy_exact d" "distinct (map dev_id (t_devices d))" "\<forall>w \<in> set (t_devices d). device_placed d w"
    by (simp_all add: devices_ok_def)
  note rows = save_device_table(1) [OF assms(2)]
  have "\<forall>w \<in> set (t_devices d'). device_placed d' w"
    using d(2,3) assms(3) by (auto simp: rows in_save_row save_keeps_placed [OF assms(2)])
  with d(2) save_device_exact [OF d(1,2) assms(2)] show ?thesis by (simp add: devices_ok_def rows distinct_save_row)
qed

lemma delete_keeps_placed: "device_placed (delete_device d v) w = device_placed d w"
proof (rule placed_same)
  show "t_areas (delete_device d v) = t_areas d"
    by (simp add: delete_device_def Let_def cascade_device_def refresh_rack_def split: option.split)
  have "find_rack (cascade_device d i) = find_rack d" for i by (simp add: fun_eq_iff find_rack_def cascade_device_def)
  moreover have "find_rack (delete_device d v) = find_rack (refresh_rack (dev_rack v) (cascade_device d (dev_id v)))"
    by (simp add: fun_eq_iff find_rack_def delete_tables)
  ultimately show "map_option rack_area (find_rack (delete_device d v) r) = map_option rack_area (find_rack d r)" for r
    by (simp add: racks_refresh)
qed

lemma deleted_devices_ok:
  assumes "devices_ok d" and "find_device d i = Some v"
  shows "devices_ok (delete_device d v)"
proof -
  have v: "dev_id v = i" using first_row_Some [OF assms(2) [unfolded find_device_def]] by simp
  from assms v have "occupancy_exact (delete_device d v)" by (intro delete_device_exact) (simp_all add: devices_ok_def)
  with assms(1) show ?thesis
    by (auto simp: devices_ok_def delete_tables(1) delete_keeps_placed distinct_map_filter)
qed

section \<open>The checks of the device serializer\<close>

lemma named_faults_Nil: "named_faults fs = [] \<longleftrightarrow> (\<forall>p \<in> set fs. snd p = None)"
  by (auto simp: named_faults_def split: prod.splits option.splits)

lemma read_ref_given:
  "read_ref q n offered v = Inr (Some (Some i)) \<Longrightarrow> i \<in> set offered"
  "read_ref q False offered v \<noteq> Inr (Some None)"
  "read_ref True n offered v \<noteq> Inr None"
  by (auto simp: read_ref_def split: sent.splits if_splits)

lemma offered_area: "i \<in> set (area_choices d inst a) \<Longrightarrow> find_area d i \<noteq> None"
  by (auto simp: area_choices_def find_area_def first_row_None split: option.splits)

lemma offered_rack: "i \<in> set (rack_choices d inst a) \<Longrightarrow> find_rack d i \<noteq> None"
  by (auto simp: rack_choices_def find_rack_def first_row_None split: option.splits)

lemma checked_placed:
  assumes "device_check d inst vs va vr = None"
    and "merged vs (map_option dev_site inst) = Some (dev_site v)" and "merged va (map_option dev_area inst) = Some (dev_area v)"
    and "find_area d (dev_area v) \<noteq> None"
    and "\<And>k. dev_rack v = Some k \<Longrightarrow> merged vr (case inst of None \<Rightarrow> None | Some w \<Rightarrow> dev_rack w) = Some k \<and> find_rack d k \<noteq> None"
  shows "device_placed d v"
proof -
  from assms(4) obtain ar where ar: "find_area d (dev_area v) = Some ar" by blast
  then have id: "area_id ar = dev_area v" using find_area_in by blast
  obtain s where s: "find_site d (dev_site v) = Some s"
    using assms(1,2) by (cases "find_site d (dev_site v)") (simp_all add: device_check_def)
  then have sid: "site_id s = dev_site v" using find_site_in by blast
  have site: "area_site ar = dev_site v"
    using assms(1) by (simp add: device_check_def assms(2,3) ar s sid split: if_splits)
  have "map_option rack_area (find_rack d k) = Some (dev_area v)" if "dev_rack v = Some k" for k
  proof -
    from assms(5) [OF that] obtain r where "merged vr (case inst of None \<Rightarrow> None | Some w \<Rightarrow> dev_rack w) = Some k" "find_rack d k = Some r"
      by blast
    with assms(1) show ?thesis by (simp add: device_check_def assms(2,3) ar s sid site id split: if_splits)
  qed
  with site ar show ?thesis by (simp add: device_placed_def split: option.split)
qed

lemma api_device_save_cases:
  assumes "api_device_save d inst partial base a = Inr (r, d')"
  obtains "d' = d" | vs va vr where "read_site d partial a = Inr vs" "read_area d inst partial a = Inr va" "read_rack d inst a = Inr vr"
    "device_check d inst vs va vr = None" "save_device d (fill_device a vs va vr base) = Inr d'"
  using assms by (auto simp: api_device_save_def bind_res_def split: list.splits sum.splits option.splits)

lemma api_device_save_ok:
  assumes d: "devices_ok d" and r: "api_device_save d inst partial base a = Inr (r, d')"
    and base: "inst = None \<and> dev_rack base = None \<and> \<not> partial \<or> inst = Some base \<and> base \<in> set (t_devices d)"
  shows "devices_ok d'"
  using r
proof (rule api_device_save_cases)
  fix vs va vr
  assume s: "read_site d partial a = Inr vs" and ar: "read_area d inst partial a = Inr va" and k: "read_rack d inst a = Inr vr"
    and c: "device_check d inst vs va vr = None" and w: "save_device d (fill_device a vs va vr base) = Inr d'"
  let ?v = "fill_device a vs va vr base"
  note reads = s [unfolded read_site_def] ar [unfolded read_area_def] k [unfolded read_rack_def]
  have nn: "vs \<noteq> Some None" "va \<noteq> Some None" using reads read_ref_given(2) by metis+
  have req: "inst = None \<Longrightarrow> vs \<noteq> None \<and> va \<noteq> None" using base reads read_ref_given(3) by (metis option.distinct(1))
  have placed: "inst = Some base \<Longrightarrow> device_placed d base" using base d by (auto simp: devices_ok_def)
  have "device_placed d ?v"
  proof (rule checked_placed [OF c])
    show "merged vs (map_option dev_site inst) = Some (dev_site ?v)" "merged va (map_option dev_area inst) = Some (dev_area ?v)"
      using nn req base by (auto simp: merged_def fill_device_def split: option.splits)
    show "find_area d (dev_area ?v) \<noteq> None"
    proof (cases va)
      case None
      then show ?thesis using req placed base by (auto simp: fill_device_def device_placed_def)
    next
      case (Some j)
      with nn obtain i where "va = Some (Some i)" by auto
      with reads(2) have "i \<in> set (area_choices d inst a)" by (intro read_ref_given(1)) simp
      from offered_area [OF this] show ?thesis by (simp add: fill_device_def \<open>va = Some (Some i)\<close>)
    qed
    show "merged vr (case inst of None \<Rightarrow> None | Some w \<Rightarrow> dev_rack w) = Some i \<and> find_rack d i \<noteq> None" if "dev_rack ?v = Some i" for i
    proof (cases vr)
      case None
      with that have "dev_rack base = Some i" by (simp add: fill_device_def given_def)
      with None base placed show ?thesis by (auto simp: merged_def device_placed_def)
    next
      case (Some j)
      with that have "vr = Some (Some i)" by (simp add: fill_device_def given_def)
      with reads(3) have "i \<in> set (rack_choices d inst a)" by (intro read_ref_given(1)) simp
      from offered_rack [OF this] show ?thesis by (simp add: merged_def \<open>vr = Some (Some i)\<close>)
    qed
  qed
  from saved_devices_ok [OF d w this] show ?thesis .
qed (use d in simp)

text \<open>
  C40. No sequence of requests for devices takes a device out of its place or the occupancy out of step: every device stays
  in an area of its site and its rack in that area, and every rack lists exactly the units of its devices. Nothing is
  asked of what the requests contain.
\<close>

theorem api_devices_keep:
  assumes "devices_ok d"
  shows "devices_ok (fold after_device qs d)"
  using assms
proof (induction qs arbitrary: d)
  case (Cons q qs)
  have "devices_ok (after_device q d)"
  proof (cases "api_devices d q")
    case (Inr x)
    then obtain r d' where x: "api_devices d q = Inr (r, d')" by (cases x) auto
    have found: "find_device d i = Some v \<Longrightarrow> v \<in> set (t_devices d)" for i v
      unfolding find_device_def by (drule first_row_Some) simp
    have "devices_ok d'"
      using x Cons.prems api_device_save_ok [OF Cons.prems] found deleted_devices_ok [OF Cons.prems]
      by (cases q) (fastforce simp: api_devices_def new_device_def split: option.splits)+
    with x show ?thesis by (simp add: after_device_def)
  qed (simp add: after_device_def Cons.prems)
  from Cons.IH [OF this] show ?case by simp
qed simp

definition ex_attrs :: device_attrs where
  "ex_attrs = \<lparr>va_name = None, va_ip = None, va_mac = None, va_serial = None, va_inventory = None, va_site = Absent, va_area = Absent,
     va_rack = Absent, va_query_site = Absent, va_query_area = Absent, va_type = None, va_role = None, va_image = None, va_status = None\<rparr>"

definition ex_room :: db where
  "ex_room = demo_room\<lparr>t_areas := [\<lparr>area_id = 1, area_name = ''K3'', area_parent = None, area_site = 1\<rparr>,
       \<lparr>area_id = 2, area_name = ''K4'', area_parent = None, area_site = 1\<rparr>],
     t_devices := [demo_switch 1 ''sw1'' ''10.0.0.1'' 100, (demo_switch 2 ''sw2'' ''10.0.0.2'' 100)\<lparr>dev_rack := Some 2\<rparr>],
     t_racks := [\<lparr>rack_id = 1, rack_name = ''R1'', rack_area = 1, rack_height = 42, rack_occupied = [10, 11]\<rparr>,
       \<lparr>rack_id = 2, rack_name = ''R2'', rack_area = 1, rack_height = 42, rack_occupied = [10, 11]\<rparr>]\<rparr>"

theorem api_devices_keep_witness:
  "devices_ok (fold after_device [UpdateDevice 2 True (ex_attrs\<lparr>va_rack := Null\<rparr>), UpdateDevice 2 True (ex_attrs\<lparr>va_area := Ref 2\<rparr>),
      DestroyDevice 1] ex_room)"
  by (rule api_devices_keep) code_simp

text \<open>
  A request that takes a device out of its rack and into another area is refused, since the rack that is to be cleared
  is still compared with the new area. It takes two requests.
\<close>

theorem api_clearing_rack_refused:
  "map_sum id fst (api_devices ex_room (UpdateDevice 2 True (ex_attrs\<lparr>va_area := Ref 2, va_rack := Null\<rparr>)))
     = Inr (Refused [(''rack'', ''Rack '' @ quoted ''R2'' @ '' does not belong to area '' @ quoted ''K4'' @ ''.'')])"
  by code_simp

text \<open>The position of a device is not compared with those of its new rack, so that two devices come to lie in the same units.\<close>

theorem api_position_shared:
  "map_option rack_occupied (find_rack (after_device (UpdateDevice 2 True (ex_attrs\<lparr>va_rack := Ref 1\<rparr>)) ex_room) 1) = Some [10, 11, 10, 11]"
  by code_simp

section \<open>Serial numbers of modules\<close>

lemma module_clean_validates: "module_clean d m = validate_module_serial d m"
  by (simp add: module_clean_def validate_module_serial_def Let_def)

definition settled_serial :: "module_attrs \<Rightarrow> bool" where
  "settled_serial a \<longleftrightarrow> (\<forall>s. ma_serial a = Some s \<longrightarrow> normalize_serial s = s)"

lemma saved_module_serials:
  assumes "distinct (used_serials d)" and "distinct (map mod_id (t_modules d))" and "validate_module_serial d m = Inr m'"
    and "mod_serial x = mod_serial m'" and "mod_id x = mod_id m'"
  shows "distinct (used_serials (save_module d x))"
proof -
  have "module_serials.free (mod_serial x) (mod_id x) (t_modules d) (serials_of (map inv_serial (t_inventory d)))"
    using module_clean_free [of d m m'] assms(3-5) by (simp add: module_clean_validates)
  from module_serials.distinct_save [OF assms(2) _ this] assms(1) show ?thesis
    by (simp add: used_serials_def save_module_def)
qed

lemma checked_serial:
  assumes "validate_module_serial d m = Inr m'"
  shows "m' = m\<lparr>mod_serial := normalize_serial (mod_serial m)\<rparr>"
  using assms by (auto simp: validate_module_serial_def Let_def split: option.splits list.splits)

text \<open>
  The serial numbers of modules and items stay different up to letter case as long as the requests give them in their
  settled form; the check alone, of which the request takes no note, does not see to it.
\<close>

theorem api_modules_serials:
  assumes "distinct (used_serials d)" and "distinct (map mod_id (t_modules d))" and "settled_serial a"
  shows "distinct (used_serials (snd (api_module_create d i a)))" "distinct (used_serials (snd (api_module_update d i a)))"
proof -
  have "distinct (used_serials (save_module d (fill_module a (new_module i 0 []))))" if "api_module_check d (new_module i 0 []) a = Inr m" for m
    using checked_serial [OF that [unfolded api_module_check_def]] assms(3)
    by (intro saved_module_serials [OF assms(1,2) that [unfolded api_module_check_def]])
      (auto simp: fill_module_def new_module_def settled_serial_def given_def split: option.splits)
  then show "distinct (used_serials (snd (api_module_create d i a)))"
    using assms(1) by (auto simp: api_module_create_def split: list.splits sum.splits)
  have "distinct (used_serials (save_module d (fill_module a m)))" if "api_module_check d b a = Inr m" for m b
    using checked_serial [OF that [unfolded api_module_check_def]] assms(3)
    by (intro saved_module_serials [OF assms(1,2) that [unfolded api_module_check_def]])
      (auto simp: fill_module_def settled_serial_def given_def split: option.splits)
  then show "distinct (used_serials (snd (api_module_update d i a)))"
    using assms(1) by (auto simp: api_module_update_def split: option.splits sum.splits)
qed

definition ex_module_attrs :: module_attrs where
  "ex_module_attrs = \<lparr>ma_name = Some ''slot 3'', ma_device = Some 1, ma_inventory = None, ma_description = None,
     ma_vendor = None, ma_serial = Some (Some ''N/A'')\<rparr>"

theorem api_module_double_serial:
  "\<not> distinct (used_serials (snd (api_module_create (snd (api_module_create demo_serials 8 ex_module_attrs)) 9 ex_module_attrs)))"
  by code_simp

section \<open>Areas and racks\<close>

lemma api_area_create_linked:
  assumes "linked p" and "i \<notin> area_ids p" and "\<forall>s. aa_site a = Some s \<longrightarrow> s \<in> site_ids p"
    and "\<forall>k. aa_parent a = Some (Some k) \<longrightarrow> k \<in> area_ids p"
  shows "linked (snd (api_area_create p i a))"
proof -
  have "linked (p\<lparr>pl_db := d\<rparr>)"
    if n: "aa_name a = Some n" and s: "aa_site a = Some s" and c: "area_check (pl_db p) None a = None"
      and w: "write_area (fill_area a \<lparr>area_id = i, area_name = n, area_parent = None, area_site = s\<rparr>) (pl_db p) = Inr d" for n s d
  proof (rule linked_write_area [OF assms(1) w])
    let ?r = "fill_area a \<lparr>area_id = i, area_name = n, area_parent = None, area_site = s\<rparr>"
    show "area_site ?r \<in> site_ids p" using assms(3) s by (simp add: fill_area_def given_def)
    show "\<forall>b \<in> set (t_areas (pl_db p)). area_id b = area_id ?r \<longrightarrow> area_site b = area_site ?r"
      using assms(2) by (auto simp: area_ids_def fill_area_def)
    show "area_linked (t_areas (pl_db p)) ?r" unfolding area_linked_def
    proof (intro allI impI)
      fix k assume "area_parent ?r = Some k"
      then have k: "aa_parent a = Some (Some k)" by (simp add: fill_area_def given_def split: option.splits)
      with assms(4) obtain b where b: "find_area (pl_db p) k = Some b"
        by (cases "find_area (pl_db p) k") (auto simp: area_ids_def find_area_def first_row_None)
      with c k s have "area_site b = s" by (simp add: area_check_def merged_def split: if_splits)
      with find_area_in [OF b] s show "\<exists>b \<in> set (t_areas (pl_db p)). area_id b = k \<and> area_site b = area_site ?r"
        by (intro bexI [of _ b]) (simp_all add: fill_area_def given_def)
    qed
  qed
  then show ?thesis using assms(1)
    by (auto simp: api_area_create_def api_area_save_def split: option.splits sum.splits)
qed

lemma api_destroy_linked:
  assumes "linked p"
  shows "api_area_destroy i p = Inr (r, p') \<Longrightarrow> linked p'" "api_site_destroy i p = Inr (r, p') \<Longrightarrow> linked p'"
proof -
  assume "api_area_destroy i p = Inr (r, p')"
  then consider "p' = p" | "delete_area i p = Inr p'"
    by (auto simp: api_area_destroy_def api_destroy_def bind_res_def split: option.splits sum.splits)
  then show "linked p'"
  proof cases
    case 2
    from assms 2 [unfolded delete_area_def Let_def] show ?thesis
      by (rule linked_remove) (simp_all add: collect_closed racks_in_closed)
  qed (use assms in simp)
next
  assume "api_site_destroy i p = Inr (r, p')"
  then consider "p' = p" | r' where "site_delete i p = Inr (r', p')"
    by (fastforce simp: api_site_destroy_def api_destroy_def site_delete_def bind_res_def split: option.splits sum.splits)
  then show "linked p'" by cases (use assms site_delete_linked in auto)
qed

text \<open>An area whose parent is itself: the walk to the root, and with it the text of the area, never ends.\<close>

lemma own_parent_endless:
  assumes "find_area d (area_id a) = Some a" and "area_parent a = Some (area_id a)"
  shows "area_path d a p = None"
proof (cases "area_path d a p")
  case (Some y)
  have "\<not> (d' = d \<and> a' = a)" if "area_path d' a' p' = Some y'" for d' :: db and a' :: area and p' y'
  proof (rule area_path.raw_induct [OF _ that, where P = "\<lambda>d' a' p' y'. \<not> (d' = d \<and> a' = a)"])
    fix walk :: "db \<Rightarrow> area \<Rightarrow> string list \<Rightarrow> string list option" and d' :: db and a' :: area and p' y'
    assume IH: "\<And>d' a' p y. walk d' a' p = Some y \<Longrightarrow> \<not> (d' = d \<and> a' = a)"
      and step: "(case fk (find_area d') (area_parent a') of None \<Rightarrow> Some (area_name a' # p') | Some q \<Rightarrow> walk d' q (area_name a' # p')) = Some y'"
    show "\<not> (d' = d \<and> a' = a)"
    proof
      assume "d' = d \<and> a' = a"
      with step assms have "walk d a (area_name a # p') = Some y'" by simp
      from IH [OF this] show False by blast
    qed
  qed
  with Some show ?thesis by blast
qed

definition ex_area_attrs :: area_attrs where
  "ex_area_attrs = \<lparr>aa_name = None, aa_parent = Some (Some 1), aa_site = None\<rparr>"

definition ex_api_room :: places where
  "ex_api_room = \<lparr>pl_db = ex_room, pl_orgs = [], pl_owner = [], pl_ipam = \<lparr>db_vrfs = [], db_prefixes = [], db_ifaces = [], db_ips = []\<rparr>\<rparr>"

theorem api_area_own_parent:
  "fst (api_area_update ex_api_room 1 ex_area_attrs) = Done
    \<and> (\<exists>a. find_area (pl_db (snd (api_area_update ex_api_room 1 ex_area_attrs))) 1 = Some a
         \<and> area_path (pl_db (snd (api_area_update ex_api_room 1 ex_area_attrs))) a [] = None)"
proof -
  let ?d = "pl_db (snd (api_area_update ex_api_room 1 ex_area_attrs))" and ?a = "\<lparr>area_id = 1, area_name = ''K3'', area_parent = Some 1, area_site = 1\<rparr>"
  have "fst (api_area_update ex_api_room 1 ex_area_attrs) = Done" "find_area ?d (area_id ?a) = Some ?a" by code_simp+
  with own_parent_endless [of ?d ?a "[]"] show ?thesis by auto
qed

theorem api_rack_leaves_devices:
  "devices_ok (pl_db ex_api_room) \<and> fst (api_rack_update ex_api_room 1 None (Some 2)) = Done
    \<and> \<not> devices_ok (pl_db (snd (api_rack_update ex_api_room 1 None (Some 2))))"
  by code_simp

section \<open>Configurations\<close>

lemma api_latest: "api_config_latest (Some k) cs = (case latest_config k cs of None \<Rightarrow> NotThere | Some c \<Rightarrow> OneConfig c)"
  using history_starts_with_latest [of k cs, THEN conjunct1, symmetric]
  by (simp add: api_config_latest_def api_configs_def split: list.split)

lemma api_diff_same:
  assumes "api_config_diff (Some k) cs i j = ConfigDiff u v t"
  shows "u = j \<and> v = i \<and> (\<exists>c \<in> set cs. cf_id c = i \<and> cf_device c = k) \<and> (\<exists>c \<in> set cs. cf_id c = j \<and> cf_device c = k)"
  using assms by (auto simp: api_config_diff_def api_configs_def config_history_def split: option.splits dest!: first_row_Some)

end
