(* ===== verification/Spec2Isabelle.thy ===== *)
theory Spec2Isabelle
  imports ZasPrelude PyText PyRegex PyVal Blocks Tables Dcim PyIp Ipam IpamProps Serials Devices Hostnames
    JobLife Discovery DiscoveryProps Review ReviewProps SyncParse SyncModules SyncModulesProps SyncInterfaces SyncInterfacesProps
    TopoParse Connections Topology TopologyProps SyncDevice SyncDeviceProps
    RegexFirst AutoAssign PlaceText AutoAssignProps Reachability ConfigStore AutoJobs AutoJobsProps Scheduler NaturalSort Storage StorageProps
    SyncFrame Decommission DecommissionProps Listings DeviceLists DeviceListsProps Difflib DiffEngine DiffEngineProps Accounts AccountsProps AreaTree RackLayout Organization OrganizationProps
    Ipv6Text ScanPages CandidatePages SyncCommands SyncVerify AssignCommands DataCommands ChoiceSets DcimChoices ChoiceUse
    SchedulePages ScheduleApi ScheduleProps IpamPages IpamPagesProps IpamApi DcimApi DcimApiProps
begin

text \<open>
  A model of ZAS, a Django server that keeps an inventory of network devices and automates their
  discovery, synchronisation and backup. The source is under \<^verbatim>\<open>src/\<close>; file names below are
  relative to it.

  \<^bold>\<open>How the program is put together.\<close> The tables of \<^verbatim>\<open>dcim/models\<close>, \<^verbatim>\<open>asset/models\<close>,
  \<^verbatim>\<open>ipam/models\<close>, \<^verbatim>\<open>network/models\<close> and \<^verbatim>\<open>topology/models.py\<close> are the shared state. The
  discovery (\<^verbatim>\<open>network/services\<close>) scans address ranges into candidates and classifies them
  against the devices; the review (\<^verbatim>\<open>network/views/discovery.py\<close>) and the automatic assignment turn
  candidates into devices; the synchronisation logs into a device, reads the output of its
  commands and rewrites its modules, stack members, interfaces, neighbours and configurations;
  the jobs of \<^verbatim>\<open>automation\<close> measure reachability and store configurations, driven by schedules; the
  views of \<^verbatim>\<open>dcim\<close> and \<^verbatim>\<open>asset\<close> list the inventory, import sheets and take devices out of service.

  \<^bold>\<open>The library.\<close>
  \<^item> \<open>ZasPrelude\<close>: results that may raise (\<open>bind_res\<close>) or never return (\<open>seq_end\<close>), first matches,
    insertion-ordered dictionaries, the collections \<open>zas_defs\<close>, \<open>zas_text\<close>, \<open>zas_rows\<close>.
  \<^item> \<open>PyText\<close>, \<open>PyRegex\<close>, \<open>RegexFirst\<close>, \<open>PyVal\<close>, \<open>PyIp\<close>: what the program uses of Python's \<^verbatim>\<open>str\<close>, \<^verbatim>\<open>re\<close>,
    dynamically typed rows and \<^verbatim>\<open>ipaddress\<close>, on ASCII text. \<open>Blocks\<close> is the locale of nested address
    blocks, interpreted on the networks of \<open>PyIp\<close>.
  \<^item> \<open>Tables\<close>: \<^verbatim>\<open>save\<close>, \<^verbatim>\<open>update_or_create\<close> and \<^verbatim>\<open>update\<close> on a table, and the locale
    \<open>keyed_table\<close> of tables with a unique key, interpreted on sightings, neighbours and runtime statuses.
  \<^item> \<open>Dcim\<close>: the rows of the shared tables and the database record \<open>db\<close>; a table is the list of its rows in
    the order of their creation, a foreign key an identifier.

  \<^bold>\<open>The components\<close>, each with its definitions and what its lemmas show:
  \<^item> \<open>Ipam\<close>, \<open>IpamProps\<close> (\<^verbatim>\<open>ipam/\<close>): validation of prefixes and addresses decides a declarative specification
    and keeps a forest of prefixes and one primary address; the allocator takes the lowest free host.
  \<^item> \<open>Serials\<close>, \<open>Devices\<close> (\<^verbatim>\<open>services/validation_service.py\<close>, \<^verbatim>\<open>dcim/models/device.py\<close>): serial numbers stay
    unique over two tables (locale \<open>serial_rows\<close>); saving and deleting devices keeps the rack occupancy exact.
  \<^item> \<open>Hostnames\<close>, \<open>JobLife\<close>, \<open>Discovery\<close>, \<open>DiscoveryProps\<close> (\<^verbatim>\<open>network/services/discovery_*.py\<close>,
    \<^verbatim>\<open>network/tasks.py\<close>): scanning writes the kept results whatever the order of the threads,
    classification gives every candidate the verdict of its specification, jobs end once
    (locale \<open>job_worker\<close>).
  \<^item> \<open>Review\<close>, \<open>ReviewProps\<close> (\<^verbatim>\<open>network/views/discovery.py\<close>): bulk actions, resolution of mismatches,
    creation of devices.
  \<^item> \<open>SyncParse\<close>, \<open>SyncModules\<close>, \<open>SyncInterfaces\<close>, \<open>TopoParse\<close>, \<open>Topology\<close>, \<open>Connections\<close>, \<open>SyncDevice\<close> with
    their \<open>Props\<close> (\<^verbatim>\<open>network/services/sync_service.py\<close>, \<^verbatim>\<open>network/adapters\<close>, \<^verbatim>\<open>topology/\<close>): the readers
    of the outputs and the writes; the theorems state each table of a device after a synchronisation
    as a function of what was read, and that failures are contained.
  \<^item> \<open>AutoAssign\<close>, \<open>PlaceText\<close>, \<open>AutoAssignProps\<close> (\<^verbatim>\<open>network/services/auto_assignment_service.py\<close>): rack units
    are never assigned twice, an assignment is all or nothing in the store it ends with, location texts are read back.
  \<^item> \<open>Reachability\<close>, \<open>ConfigStore\<close>, \<open>AutoJobs\<close>, \<open>AutoJobsProps\<close>, \<open>Scheduler\<close> (\<^verbatim>\<open>automation/\<close>,
    \<^verbatim>\<open>dcim/services\<close>): measurements are stored as measured, runs end, configurations are kept when they
    changed, schedules have the periodic task that runs them.
  \<^item> \<open>NaturalSort\<close>, \<open>Storage\<close>, \<open>StorageProps\<close> (\<^verbatim>\<open>asset/views.py\<close>, \<^verbatim>\<open>asset/models/inventory_item.py\<close>): the
    order of names never raises, the import of a sheet is all or nothing.
  \<^item> \<open>SyncFrame\<close>, \<open>Decommission\<close>, \<open>DecommissionProps\<close> (\<^verbatim>\<open>dcim/views/device_views.py\<close>,
    \<^verbatim>\<open>dcim/forms/device_forms.py\<close>): what a synchronisation cannot touch (locale \<open>sync_invariant\<close>); moving a device
    to the storage is all or nothing, a replacement ends with exactly one of the two devices.
  \<^item> \<open>Listings\<close>, \<open>DeviceLists\<close>, \<open>DeviceListsProps\<close> (\<^verbatim>\<open>dcim/views/device_views.py\<close>): the inventory has
    every module once, the export is the list, a list of devices has what the request wants.
  \<^item> \<open>Difflib\<close>, \<open>DiffEngine\<close>, \<open>DiffEngineProps\<close> (\<^verbatim>\<open>automation/engine/diff_engine.py\<close>, \<^verbatim>\<open>difflib\<close>): the search
    for common blocks ends and its operations lead from one text to the other; a diff is empty for
    equal texts only, and the two sides of a visual diff are the two texts.
  \<^item> \<open>Accounts\<close>, \<open>AccountsProps\<close> (\<^verbatim>\<open>accounts/auth_backends.py\<close>, \<^verbatim>\<open>accounts/middleware.py\<close>,
    \<^verbatim>\<open>accounts/forms/settings_form.py\<close>): who is let in and why by all the login backends together, when a session ends, what a section
    of the settings writes.
  \<^item> \<open>AreaTree\<close>, \<open>RackLayout\<close>, \<open>Organization\<close>, \<open>OrganizationProps\<close>
    (\<^verbatim>\<open>core/organization_views.py\<close>): the tree of the areas is always built and complete (the
    recursion has the number of areas as its fuel, and no chain of parents is longer), the drawing of a
    rack agrees with its recorded units, no request leaves a dangling reference, and what a deleted site takes along.
  \<^item> \<open>Ipv6Text\<close>, \<open>ScanPages\<close>, \<open>CandidatePages\<close> (\<^verbatim>\<open>network/views/discovery.py\<close>): printed addresses are read
    back; a scan that the page has started always completes, the page changes its own site only; the
    list of candidates is what the request wants, an automatic assignment takes open candidates.
  \<^item> \<open>SyncCommands\<close>, \<open>SyncVerify\<close>, \<open>AssignCommands\<close>, \<open>DataCommands\<close> (the directories
    \<^verbatim>\<open>management/commands\<close>): which devices and candidates a command takes, that it tells of each once and
    touches no other, that printed differences are exact; the rewriting of names settles after one run, an import
    stores the last rows of the sheet (locale \<open>row_fix\<close>).
  \<^item> \<open>ChoiceSets\<close>, \<open>DcimChoices\<close>, \<open>ChoiceUse\<close> (\<^verbatim>\<open>utilities/choices.py\<close>, \<^verbatim>\<open>dcim/choices.py\<close>): the sets of choices
    as their class makes them, that they are sound, and that the synchronisation writes values that are offered.
  \<^item> \<open>SchedulePages\<close>, \<open>ScheduleApi\<close>, \<open>ScheduleProps\<close> (\<^verbatim>\<open>automation/views.py\<close>, \<^verbatim>\<open>api/v1/automation\<close>): the definitions of
    tasks, the pages and the interface of the schedules: what the page leaves behind however it ends, and that no sequence of
    requests stores an interval schedule without a positive interval but through zero minutes in the settings.
  \<^item> \<open>IpamPages\<close>, \<open>IpamPagesProps\<close>, \<open>IpamApi\<close> (\<^verbatim>\<open>ipam/views\<close>, \<^verbatim>\<open>ipam/forms\<close>, \<^verbatim>\<open>api/v1/ipam\<close>): the pages keep the forest
    of prefixes and sound addresses through any sequence of requests, unless a change of a prefix leaves something below it that
    does not fit; the networks that the interface stores read back, and what it does not check.
  \<^item> \<open>DcimApi\<close>, \<open>DcimApiProps\<close> (\<^verbatim>\<open>api/v1/dcim\<close>): requests for devices keep them in their area and rack and
    the occupancy exact; what the checks of the interface miss of modules, areas and racks is shown on examples.

  \<^bold>\<open>Conventions.\<close> An exception is \<open>Inl\<close> of a value, a call that never returns \<open>None\<close>: the walks to
  the root of a parent chain (\<open>has_ancestor\<close>, \<open>area_path\<close>) are unbounded loops of the code and
  are \<open>partial_function (option)\<close>, with theorems that they return where the chains end; the only
  bounded retry is that of the synchronisation, two attempts as in the code. Identifiers, clocks
  and random choices come from environment records. The schedules are written several times outside of a transaction:
  there the writes made before an exception stay, and an operation returns its outcome beside the tables (\<open>bind_in\<close>). A request handler is the function from the
  submitted values and the state to the outcome and the new state. Database failures other than
  unique keys, and interleavings of two requests, are not modelled.

  \<^bold>\<open>Parameters.\<close> The SSH and SNMP libraries, the TextFSM engine, sockets and \<^verbatim>\<open>ping\<close>, the digest, the
  random choice, the text of the framework's own messages and the reading of spreadsheet files
  are arguments of the definitions that use them.

  \<^bold>\<open>Not modelled:\<close> templates and rendering, URL tables, admin sites, settings and the other
  migrations; the serializers that are lists of fields (of \<^verbatim>\<open>api/v1/dcim\<close> those of vendors, roles, types and
  interfaces, \<^verbatim>\<open>api/v1/accounts\<close>, \<^verbatim>\<open>api/v1/topology\<close>);
  the pages of the VLANs and the home page; the legacy scripts and the drawings of device types; unused code
  (\<^verbatim>\<open>automation/scheduler.py\<close>, \<^verbatim>\<open>automation/workers/job_runner.py\<close>, the NETCONF and vendor adapters without a caller);
  the web terminal (\<^verbatim>\<open>automation/ssh_consumer.py\<close>), which relays bytes between a socket and a library.
\<close>

end
